(* ===== verification/VLM_Prelude.thy ===== *)
theory VLM_Prelude
  imports Main "HOL-Library.Word"
begin

text \<open>
  Shared vocabulary of the development: the C integer types as words, C buffers as byte
  lists with \<^verbatim>\<open>memcpy\<close>, C strings, fixed-size C arrays as functions from the index, and the
  generic lemmas (list updates, words read as naturals) that the component theories use.
\<close>

unbundle bit_operations_syntax

section \<open>C types\<close>

type_synonym byte = "8 word"
type_synonym u16 = "16 word"
type_synonym u32 = "32 word"
type_synonym u64 = "64 word"

text \<open>
  A C array of constant size is a function from the index. Every index the code computes
  is masked or compared with the size before the access; the components prove the bounds.
\<close>

type_synonym 'a carray = "nat \<Rightarrow> 'a"

section \<open>Buffers and strings\<close>

text \<open>\<^verbatim>\<open>memcpy (dst + off, src, n)\<close> with \<open>src\<close> the \<open>n\<close> bytes copied.\<close>

definition memcpy_at :: "'a list \<Rightarrow> nat \<Rightarrow> 'a list \<Rightarrow> 'a list" where
  "memcpy_at dst off src = take off dst @ src @ drop (off + length src) dst"

text \<open>The bytes of a string literal, without the terminating NUL.\<close>

definition c_bytes :: "string \<Rightarrow> byte list" where
  "c_bytes s = map of_char s"

text \<open>The C string that starts a buffer: the bytes before the first NUL.\<close>

definition c_string :: "byte list \<Rightarrow> byte list" where
  "c_string bs = takeWhile (\<lambda>b. b \<noteq> 0) bs"

text \<open>\<^verbatim>\<open>tolower\<close> in the C locale, and the equality test of \<^verbatim>\<open>strcasecmp\<close> on two C strings.\<close>

definition c_tolower :: "byte \<Rightarrow> byte" where
  "c_tolower b = (if 65 \<le> b \<and> b \<le> 90 then b + 32 else b)"

definition strcaseeq :: "byte list \<Rightarrow> byte list \<Rightarrow> bool" where
  "strcaseeq a b \<longleftrightarrow> map c_tolower (c_string a) = map c_tolower (c_string b)"

text \<open>Octal digits of a number, as \<^verbatim>\<open>printf\<close>'s \<^verbatim>\<open>%o\<close> prints them.\<close>

fun octal_digits :: "nat \<Rightarrow> byte list" where
  "octal_digits n =
     (if n < 8 then [of_nat (48 + n)] else octal_digits (n div 8) @ [of_nat (48 + n mod 8)])"

declare octal_digits.simps [simp del]

text \<open>Decimal digits, as \<^verbatim>\<open>%u\<close> and \<^verbatim>\<open>%zu\<close> print them.\<close>

fun decimal_digits :: "nat \<Rightarrow> byte list" where
  "decimal_digits n =
     (if n < 10 then [of_nat (48 + n)] else decimal_digits (n div 10) @ [of_nat (48 + n mod 10)])"

declare decimal_digits.simps [simp del]

section \<open>Shared lemmas\<close>

named_theorems frame_simps \<open>what an operation leaves unchanged\<close>
named_theorems word_nat \<open>words read as naturals\<close>

lemma memcpy_at_0 [simp]: "memcpy_at dst 0 src = src @ drop (length src) dst"
  by (simp add: memcpy_at_def)

lemma length_memcpy_at:
  "off + length src \<le> length dst \<Longrightarrow> length (memcpy_at dst off src) = length dst"
  by (simp add: memcpy_at_def)

lemma take_memcpy_at_0: "n \<le> length src \<Longrightarrow> take n (memcpy_at dst 0 src) = take n src"
  by simp

lemma c_string_append_0 [simp]: "0 \<notin> set bs \<Longrightarrow> c_string (bs @ 0 # rest) = bs"
  unfolding c_string_def by (subst takeWhile_append2) auto

lemma c_string_id: "0 \<notin> set bs \<Longrightarrow> c_string bs = bs"
  unfolding c_string_def by (induction bs) auto

lemma zero_notin_c_string [simp]: "0 \<notin> set (c_string bs)"
  unfolding c_string_def by (auto dest: set_takeWhileD)

lemma length_c_string: "length (c_string bs) \<le> length bs"
  unfolding c_string_def by (rule length_takeWhile_le)

lemma length_c_bytes [simp]: "length (c_bytes s) = length s"
  by (simp add: c_bytes_def)

lemma strcaseeq_refl [simp]: "strcaseeq a a"
  by (simp add: strcaseeq_def)

lemma strcaseeq_sym: "strcaseeq a b \<Longrightarrow> strcaseeq b a"
  by (simp add: strcaseeq_def)

lemma bit_iff_unat_ge:
  fixes w :: "'a::len word"
  assumes "LENGTH('a) = Suc n"
  shows "bit w n \<longleftrightarrow> 2 ^ n \<le> unat w"
proof -
  have lt: "unat w < 2 * 2 ^ n"
    using unsigned_less [of w, where 'a = nat] assms by simp
  have "bit w n \<longleftrightarrow> odd (unat w div 2 ^ n)"
    using bit_unsigned_iff [of w n, where 'a = nat] by (simp add: bit_iff_odd assms)
  moreover have "unat w div 2 ^ n = (if 2 ^ n \<le> unat w then 1 else 0)"
    using lt by (simp add: div_nat_eqI)
  ultimately show ?thesis by simp
qed

lemma unat_Suc_diff:
  fixes a b :: "'a::len word"
  assumes "a \<noteq> b"
  shows "Suc (unat (b - (a + 1))) = unat (b - a)"
proof -
  have "b - a \<noteq> 0" using assms by simp
  then have "unat (b - a - 1) = unat (b - a) - 1" by (rule unat_minus_one)
  moreover have "0 < unat (b - a)" using \<open>b - a \<noteq> 0\<close> by (simp add: unat_gt_0)
  moreover have "b - (a + 1) = b - a - 1" by simp
  ultimately show ?thesis by (metis Suc_pred' diff_Suc_1' One_nat_def)
qed

lemma unat_and_mask_less: "unat (w AND mask n :: 'a::len word) < 2 ^ n"
proof -
  have "unat (w AND mask n) = take_bit n (unat w)"
    by (simp add: take_bit_eq_mask [symmetric] unsigned_take_bit_eq)
  then show ?thesis by simp
qed

end
