(* ===== verification/Chaos_Seq.thy ===== *)
theory Chaos_Seq
  imports VLM_Prelude
begin

text \<open>
  Utilities of \<^verbatim>\<open>chaosd/chaos-core.c\<close>: little-endian 16-bit fields, packet numbers compared
  modulo \<open>2\<^sup>1\<^sup>6\<close>, and the loops over a range of packet numbers, which the retransmission and
  the acknowledgement code share.
\<close>

section \<open>Definitions\<close>

definition chaos_get16 :: "byte list \<Rightarrow> nat \<Rightarrow> u16" where
  "chaos_get16 p i = ucast (p ! i) OR push_bit 8 (ucast (p ! (i + 1)))"

definition chaos_put16 :: "u16 \<Rightarrow> byte list" where
  "chaos_put16 v = [ucast (v AND 0xFF), ucast (drop_bit 8 v)]"

definition chaos_seq_lt :: "u16 \<Rightarrow> u16 \<Rightarrow> bool" where
  "chaos_seq_lt a b \<longleftrightarrow> (a - b) AND 0x8000 \<noteq> 0"

definition seq_diff :: "u16 \<Rightarrow> u16 \<Rightarrow> u16" where
  "seq_diff a b = a - b"

definition seq_inc :: "u16 \<Rightarrow> u16" where
  "seq_inc a = a + 1"

text \<open>The slot of a packet number in a ring: \<^verbatim>\<open>n & (CHAOS_RING - 1)\<close>.\<close>

abbreviation CHAOS_RING :: nat where
  "CHAOS_RING \<equiv> 64"

definition ring_slot :: "u16 \<Rightarrow> nat" where
  "ring_slot n = unat (n AND 63)"

text \<open>
  The packet numbers visited by \<^verbatim>\<open>for (n = first; !chaos_seq_lt (last, n); n = seq_inc (n))\<close>,
  in order. Neither loop of the code changes its bounds in the body.
\<close>

lemma chaos_seq_lt_iff: "chaos_seq_lt a b \<longleftrightarrow> 2 ^ 15 \<le> unat (a - b)"
proof -
  have "(0x8000 :: u16) = push_bit 15 1" by (simp add: push_bit_eq_mult)
  then have "(a - b) AND 0x8000 \<noteq> 0 \<longleftrightarrow> bit (a - b) 15"
    by (simp only: bit_iff_and_push_bit_not_eq_0)
  also have "\<dots> \<longleftrightarrow> 2 ^ 15 \<le> unat (a - b)"
    by (rule bit_iff_unat_ge) simp
  finally show ?thesis by (simp add: chaos_seq_lt_def)
qed

function seq_loop :: "u16 \<Rightarrow> u16 \<Rightarrow> u16 list" where
  "seq_loop lo hi =
     (if chaos_seq_lt hi lo then [] else lo # seq_loop (seq_inc lo) hi)"
  by pat_completeness auto
termination
proof (relation "measure (\<lambda>(lo, hi). if chaos_seq_lt hi lo then 0 else Suc (unat (hi - lo)))")
  fix lo hi :: u16
  assume a: "\<not> chaos_seq_lt hi lo"
  show "((seq_inc lo, hi), lo, hi)
    \<in> measure (\<lambda>(lo, hi). if chaos_seq_lt hi lo then 0 else Suc (unat (hi - lo)))"
  proof (cases "lo = hi")
    case True
    have "chaos_seq_lt hi (seq_inc hi)"
      by (simp add: chaos_seq_lt_iff seq_inc_def unsigned_minus_1_eq_mask mask_eq_exp_minus_1)
    with True a show ?thesis by simp
  next
    case False
    then have "Suc (unat (hi - seq_inc lo)) = unat (hi - lo)"
      unfolding seq_inc_def by (rule unat_Suc_diff)
    with a show ?thesis by simp
  qed
qed simp

declare seq_loop.simps [simp del]

section \<open>Little-endian fields\<close>

lemma get16_put16: "chaos_get16 (pre @ chaos_put16 v @ post) (length pre) = v"
proof -
  have "(pre @ chaos_put16 v @ post) ! length pre = ucast (v AND 0xFF)"
    and "(pre @ chaos_put16 v @ post) ! (length pre + 1) = ucast (drop_bit 8 v)"
    by (simp_all add: nth_append chaos_put16_def)
  moreover have "ucast (ucast (v AND 0xFF) :: byte) OR push_bit 8 (ucast (ucast (drop_bit 8 v) :: byte)) = v"
  proof -
    have "v AND 0xFF = take_bit 8 v" by (simp add: take_bit_eq_mask mask_eq_exp_minus_1)
    then show ?thesis
      by (intro bit_word_eqI)
         (auto simp: bit_or_iff bit_push_bit_iff bit_ucast_iff bit_take_bit_iff bit_drop_bit_eq)
  qed
  ultimately show ?thesis by (simp only: chaos_get16_def)
qed

lemma length_put16 [simp]: "length (chaos_put16 v) = 2"
  by (simp add: chaos_put16_def)

section \<open>Distances and ring slots\<close>

text \<open>Packet numbers are compared by their distance from a base, such as the acknowledged number.\<close>

lemma dist_shift:
  fixes a n r :: u16
  assumes "unat (r - a) \<le> unat (n - a)"
  shows "unat (n - r) = unat (n - a) - unat (r - a)"
proof -
  have "n - r = (n - a) - (r - a)" by simp
  moreover have "r - a \<le> n - a" using assms by (simp add: word_le_nat_alt)
  ultimately show ?thesis by (metis unat_sub)
qed

lemma dist_add:
  fixes a n r :: u16
  assumes "unat (r - a) + unat (n - r) < 2 ^ 16"
  shows "unat (n - a) = unat (r - a) + unat (n - r)"
proof -
  have "n - a = (r - a) + (n - r)" by simp
  then show ?thesis using assms by (simp only: unat_word_ariths) simp
qed

lemma dist_le_trans:
  fixes a n r :: u16
  assumes "unat (n - r) \<le> unat (n - a)"
  shows "unat (r - a) = unat (n - a) - unat (n - r)"
proof -
  have "r - a = (n - a) - (n - r)" by simp
  moreover have "n - r \<le> n - a" using assms by (simp add: word_le_nat_alt)
  ultimately show ?thesis by (metis unat_sub)
qed

lemma dist_inc: "unat (n - a) < 2 ^ 16 - 1 \<Longrightarrow> unat (seq_inc n - a) = Suc (unat (n - a))"
  for n a :: u16
proof -
  assume "unat (n - a) < 2 ^ 16 - 1"
  then have "unat ((n - a) + 1) = Suc (unat (n - a))"
    by (simp add: unat_word_ariths)
  moreover have "seq_inc n - a = (n - a) + 1" by (simp add: seq_inc_def)
  ultimately show ?thesis by metis
qed

lemma ring_slot_mod: "ring_slot n = unat n mod 64"
proof -
  have "(63 :: u16) = mask 6" by (simp add: mask_eq_exp_minus_1)
  then have "unat (n AND 63) = take_bit 6 (unat n)"
    by (metis take_bit_eq_mask unsigned_take_bit_eq)
  then show ?thesis by (simp add: ring_slot_def take_bit_eq_mod)
qed

lemma ring_slot_less [simp]: "ring_slot n < CHAOS_RING"
  by (simp add: ring_slot_mod)

lemma ring_slot_eq_iff: "ring_slot a = ring_slot b \<longleftrightarrow> unat (a - b) mod 64 = 0"
proof -
  have "unat a = (unat b + unat (a - b)) mod 2 ^ 16"
    using unat_word_ariths(1) [of b "a - b"] by simp
  then have "unat a mod 64 = (unat b + unat (a - b)) mod 64"
    by (simp add: mod_mod_cancel)
  then show ?thesis
    unfolding ring_slot_mod by (simp add: mod_eq_dvd_iff_nat) presburger
qed

text \<open>Numbers of a span shorter than the ring never share a slot.\<close>

lemma ring_slot_inj:
  fixes a m n :: u16
  assumes "0 < unat (m - a)" "unat (m - a) \<le> 64" "0 < unat (n - a)" "unat (n - a) \<le> 64"
    and "ring_slot m = ring_slot n"
  shows "m = n"
proof -
  { fix m n :: u16
    assume le: "unat (n - a) \<le> unat (m - a)" and b: "0 < unat (n - a)" "unat (m - a) \<le> 64"
      and s: "ring_slot m = ring_slot n"
    have "unat (m - n) = unat (m - a) - unat (n - a)" using le by (rule dist_shift)
    then have "unat (m - n) < 64" using b by simp
    moreover have "unat (m - n) mod 64 = 0" using s by (simp add: ring_slot_eq_iff)
    ultimately have "unat (m - n) = 0" by simp
    then have "m = n" by (simp add: unat_eq_0) }
  note * = this
  show ?thesis
    using *[of n m] *[of m n] assms by (metis nle_le)
qed

section \<open>Loops over packet numbers\<close>

lemma seq_loop_stop: "chaos_seq_lt hi lo \<Longrightarrow> seq_loop lo hi = []"
  by (simp add: seq_loop.simps [of lo hi])

lemma seq_loop_step: "\<not> chaos_seq_lt hi lo \<Longrightarrow> seq_loop lo hi = lo # seq_loop (seq_inc lo) hi"
  by (simp add: seq_loop.simps [of lo hi])

text \<open>
  The loop from \<open>seq_inc r\<close> to \<open>s\<close> visits exactly the numbers after \<open>r\<close> up to \<open>s\<close>, in order,
  when \<open>s\<close> is at most half the number space ahead of \<open>r\<close>.
\<close>

lemma seq_loop_eq:
  "unat (s - r) \<le> 2 ^ 15 \<Longrightarrow>
    seq_loop (seq_inc r) s = map (\<lambda>i. r + of_nat i) [1..<Suc (unat (s - r))]"
proof (induction "unat (s - r)" arbitrary: r)
  case 0
  then have "s = r" by (simp add: unat_eq_0)
  then have "chaos_seq_lt s (seq_inc r)"
    by (simp add: chaos_seq_lt_iff seq_inc_def unsigned_minus_1_eq_mask mask_eq_exp_minus_1)
  then show ?case using 0 by (simp add: seq_loop_stop)
next
  case (Suc d)
  have "s \<noteq> r" using Suc.hyps(2) by auto
  then have d: "unat (s - seq_inc r) = d"
    using unat_Suc_diff [of r s] Suc.hyps(2) by (simp add: seq_inc_def)
  then have "\<not> chaos_seq_lt s (seq_inc r)"
    using Suc by (simp add: chaos_seq_lt_iff)
  then have "seq_loop (seq_inc r) s = seq_inc r # seq_loop (seq_inc (seq_inc r)) s"
    by (rule seq_loop_step)
  also have "seq_loop (seq_inc (seq_inc r)) s = map (\<lambda>i. seq_inc r + of_nat i) [1..<Suc d]"
    using Suc.hyps(1)[of "seq_inc r"] d Suc.prems Suc.hyps(2) by simp
  also have "\<dots> = map (\<lambda>i. r + of_nat i) [2..<Suc (Suc d)]"
    by (simp add: map_Suc_upt [symmetric] numeral_2_eq_2 seq_inc_def algebra_simps del: upt_Suc)
  also have "seq_inc r # \<dots> = map (\<lambda>i. r + of_nat i) [1..<Suc (Suc d)]"
    using upt_conv_Cons [of 1 "Suc (Suc d)"]
    by (simp add: seq_inc_def numeral_2_eq_2 del: upt_Suc)
  finally show ?case using Suc.hyps(2) by simp
qed

lemma set_seq_loop:
  assumes "unat (s - r) \<le> 2 ^ 15"
  shows "n \<in> set (seq_loop (seq_inc r) s) \<longleftrightarrow> 0 < unat (n - r) \<and> unat (n - r) \<le> unat (s - r)"
proof
  assume "n \<in> set (seq_loop (seq_inc r) s)"
  then obtain i where i: "1 \<le> i" "i \<le> unat (s - r)" "n = r + of_nat i"
    using assms by (auto simp: seq_loop_eq)
  then have "unat (n - r) = i"
    using assms by (simp add: unat_of_nat)
  with i show "0 < unat (n - r) \<and> unat (n - r) \<le> unat (s - r)" by simp
next
  assume "0 < unat (n - r) \<and> unat (n - r) \<le> unat (s - r)"
  then have "unat (n - r) \<in> {1..<Suc (unat (s - r))}" by simp
  moreover have "n = r + of_nat (unat (n - r))" by simp
  ultimately show "n \<in> set (seq_loop (seq_inc r) s)"
    unfolding seq_loop_eq [OF assms] set_map set_upt by (rule rev_image_eqI)
qed

lemma distinct_seq_loop:
  assumes "unat (s - r) \<le> 2 ^ 15"
  shows "distinct (seq_loop (seq_inc r) s)"
proof -
  have "inj_on (\<lambda>i. r + of_nat i :: u16) {1..<Suc (unat (s - r))}"
    using assms by (auto intro!: inj_onI simp: word_of_nat_eq_iff take_bit_eq_mod)
  then show ?thesis by (simp add: seq_loop_eq [OF assms] distinct_map del: upt_Suc)
qed

lemma length_seq_loop: "unat (s - r) \<le> 2 ^ 15 \<Longrightarrow> length (seq_loop (seq_inc r) s) = unat (s - r)"
  by (simp add: seq_loop_eq)

section \<open>Spans of packet numbers\<close>

text \<open>\<open>in_span r s n\<close>: the number \<open>n\<close> comes after \<open>r\<close> and not after \<open>s\<close>.\<close>

definition in_span :: "u16 \<Rightarrow> u16 \<Rightarrow> u16 \<Rightarrow> bool" where
  "in_span r s n \<longleftrightarrow> 0 < unat (n - r) \<and> unat (n - r) \<le> unat (s - r)"

lemma in_span_empty [simp]: "\<not> in_span r r n"
  by (auto simp: in_span_def)

lemma unat_sub_wrap: "unat x < unat y \<Longrightarrow> unat (x - y) = unat x + 2 ^ 16 - unat y" for x y :: u16
  by (simp add: unat_sub_if')

lemma in_span_last: "r \<noteq> s \<Longrightarrow> in_span r s s"
  by (auto simp: in_span_def unat_gt_0)

lemma in_span_Suc:
  assumes "unat (s - r) < 2 ^ 16 - 1"
  shows "in_span r (seq_inc s) n \<longleftrightarrow> in_span r s n \<or> n = seq_inc s"
proof -
  have d: "unat (seq_inc s - r) = Suc (unat (s - r))" using assms by (rule dist_inc)
  have "unat (n - r) = Suc (unat (s - r)) \<longleftrightarrow> n = seq_inc s"
    by (metis d diff_add_cancel unsigned_word_eqI)
  then show ?thesis unfolding in_span_def d by (auto simp: d le_Suc_eq)
qed

lemma in_span_rebase:
  assumes "unat (r' - r) \<le> unat (s - r)"
  shows "in_span r' s n \<longleftrightarrow> in_span r s n \<and> \<not> in_span r r' n"
proof (cases "unat (r' - r) \<le> unat (n - r)")
  case True
  then have n: "unat (n - r') = unat (n - r) - unat (r' - r)" by (rule dist_shift)
  have s: "unat (s - r') = unat (s - r) - unat (r' - r)" using assms by (rule dist_shift)
  show ?thesis using True assms unfolding in_span_def n s by auto
next
  case False
  then have "unat ((n - r) - (r' - r)) = unat (n - r) + 2 ^ 16 - unat (r' - r)"
    by (intro unat_sub_wrap) simp
  then have "unat (n - r') = unat (n - r) + 2 ^ 16 - unat (r' - r)" by simp
  moreover have "unat (s - r') = unat (s - r) - unat (r' - r)" using assms by (rule dist_shift)
  moreover have "unat (s - r) < 2 ^ 16" using unsigned_less [of "s - r", where 'a = nat] by simp
  ultimately show ?thesis using False assms unfolding in_span_def by auto
qed

lemma ring_slot_inj_span:
  assumes "in_span r s m" "in_span r s n" "unat (s - r) \<le> 64" "ring_slot m = ring_slot n"
  shows "m = n"
  using assms unfolding in_span_def by (intro ring_slot_inj [of m r n]) auto

lemma set_seq_loop_span:
  "unat (s - r) \<le> 2 ^ 15 \<Longrightarrow> n \<in> set (seq_loop (seq_inc r) s) \<longleftrightarrow> in_span r s n"
  by (simp add: set_seq_loop in_span_def)

text \<open>Below a common upper mark \<open>s\<close>, the comparison of two numbers is that of their distances to \<open>s\<close>.\<close>

lemma seq_lt_below:
  assumes "unat (s - a) < 2 ^ 15" "unat (s - x) < 2 ^ 15"
  shows "chaos_seq_lt a x \<longleftrightarrow> unat (s - x) < unat (s - a)"
proof -
  have eq: "a - x = (s - x) - (s - a)" by simp
  show ?thesis
  proof (cases "unat (s - a) \<le> unat (s - x)")
    case True
    then have "unat (a - x) = unat (s - x) - unat (s - a)"
      unfolding eq by (intro unat_sub) (simp add: word_le_nat_alt)
    with True assms show ?thesis by (simp add: chaos_seq_lt_iff)
  next
    case False
    then have "unat (a - x) = unat (s - x) + 2 ^ 16 - unat (s - a)"
      unfolding eq by (intro unat_sub_wrap) simp
    with False assms show ?thesis by (simp add: chaos_seq_lt_iff)
  qed
qed

text \<open>The same above a common lower mark.\<close>

lemma seq_lt_above:
  assumes "unat (a - b) < 2 ^ 15" "unat (x - b) < 2 ^ 15"
  shows "chaos_seq_lt a x \<longleftrightarrow> unat (a - b) < unat (x - b)"
proof -
  have eq: "a - x = (a - b) - (x - b)" by simp
  show ?thesis
  proof (cases "unat (x - b) \<le> unat (a - b)")
    case True
    then have "unat (a - x) = unat (a - b) - unat (x - b)"
      unfolding eq by (intro unat_sub) (simp add: word_le_nat_alt)
    with True assms show ?thesis by (simp add: chaos_seq_lt_iff)
  next
    case False
    then have "unat (a - x) = unat (a - b) + 2 ^ 16 - unat (x - b)"
      unfolding eq by (intro unat_sub_wrap) simp
    with False assms show ?thesis by (simp add: chaos_seq_lt_iff)
  qed
qed

end
