(* ===== verification/Chaos_Types.thy ===== *)
theory Chaos_Types
  imports Chaos_Seq
begin

text \<open>
  The data of chaosd's protocol core (\<^verbatim>\<open>chaosd/chaos-core.h\<close>): opcodes, policy constants, the
  packet, connection, ARP-entry and core structures. The emit callback is modelled by the
  list \<open>c_emitted\<close> of the frames passed to it, oldest first; the trace output that \<^verbatim>\<open>debug\<close>
  enables is not modelled.
\<close>

section \<open>Constants\<close>

abbreviation CHAOS_ETHERTYPE :: u16 where "CHAOS_ETHERTYPE \<equiv> 0x0804"
abbreviation ARP_ETHERTYPE :: u16 where "ARP_ETHERTYPE \<equiv> 0x0806"
abbreviation CHAOS_ETH_HEADER :: nat where "CHAOS_ETH_HEADER \<equiv> 14"
abbreviation CHAOS_HEADER :: nat where "CHAOS_HEADER \<equiv> 16"
abbreviation CHAOS_MAX_DATA :: nat where "CHAOS_MAX_DATA \<equiv> 488"
abbreviation CHAOS_ARP_FRAME :: nat where "CHAOS_ARP_FRAME \<equiv> 38"

abbreviation CHOP_RFC :: byte where "CHOP_RFC \<equiv> 1"
abbreviation CHOP_OPN :: byte where "CHOP_OPN \<equiv> 2"
abbreviation CHOP_CLS :: byte where "CHOP_CLS \<equiv> 3"
abbreviation CHOP_FWD :: byte where "CHOP_FWD \<equiv> 4"
abbreviation CHOP_ANS :: byte where "CHOP_ANS \<equiv> 5"
abbreviation CHOP_SNS :: byte where "CHOP_SNS \<equiv> 6"
abbreviation CHOP_STS :: byte where "CHOP_STS \<equiv> 7"
abbreviation CHOP_RUT :: byte where "CHOP_RUT \<equiv> 8"
abbreviation CHOP_LOS :: byte where "CHOP_LOS \<equiv> 9"
abbreviation CHOP_LSN :: byte where "CHOP_LSN \<equiv> 10"
abbreviation CHOP_MNT :: byte where "CHOP_MNT \<equiv> 11"
abbreviation CHOP_EOF :: byte where "CHOP_EOF \<equiv> 12"
abbreviation CHOP_UNC :: byte where "CHOP_UNC \<equiv> 13"
abbreviation CHOP_BRD :: byte where "CHOP_BRD \<equiv> 14"
abbreviation CHOP_DAT :: byte where "CHOP_DAT \<equiv> 128"

abbreviation CHAOS_MAX_CONNS :: nat where "CHAOS_MAX_CONNS \<equiv> 32"
abbreviation CHAOS_MAX_WINDOW :: u16 where "CHAOS_MAX_WINDOW \<equiv> 50"
abbreviation CHAOS_DEFAULT_WINDOW :: u16 where "CHAOS_DEFAULT_WINDOW \<equiv> 13"
abbreviation CHAOS_ARP_ENTRIES :: nat where "CHAOS_ARP_ENTRIES \<equiv> 64"

abbreviation CHAOS_RETRANSMIT_MS :: u64 where "CHAOS_RETRANSMIT_MS \<equiv> 500"
abbreviation CHAOS_STS_RETRANSMIT_MS :: u64 where "CHAOS_STS_RETRANSMIT_MS \<equiv> 100"
abbreviation CHAOS_ACK_DELAY_MS :: u64 where "CHAOS_ACK_DELAY_MS \<equiv> 30"
abbreviation CHAOS_PROBE_MS :: u64 where "CHAOS_PROBE_MS \<equiv> 5000"
abbreviation CHAOS_LONELY_MS :: u64 where "CHAOS_LONELY_MS \<equiv> 60000"
abbreviation CHAOS_HOST_DOWN_MS :: u64 where "CHAOS_HOST_DOWN_MS \<equiv> 90000"
abbreviation CHAOS_RFC_TIMEOUT_MS :: u64 where "CHAOS_RFC_TIMEOUT_MS \<equiv> 20000"
abbreviation CHAOS_FINISH_TIMEOUT_MS :: u64 where "CHAOS_FINISH_TIMEOUT_MS \<equiv> 10000"
abbreviation CHAOS_ARP_RETRY_MS :: u64 where "CHAOS_ARP_RETRY_MS \<equiv> 500"
abbreviation CHAOS_ARP_REFRESH_MS :: u64 where "CHAOS_ARP_REFRESH_MS \<equiv> 300000"

section \<open>Structures\<close>

datatype ChaosConnState = CONN_FREE | CONN_RFC_SENT | CONN_OPEN | CONN_CLOSED

datatype ChaosCloseKind =
  CLOSE_NONE | CLOSE_CLS | CLOSE_LOS | CLOSE_ANS | CLOSE_TIMEOUT | CLOSE_DONE

record ChaosPkt =
  pkt_present :: bool
  pkt_opcode :: byte
  pkt_num :: u16
  pkt_nBytes :: u16
  pkt_offset :: u16
  pkt_sentAtMs :: u64
  pkt_data :: "byte list"

record ChaosConn =
  k_state :: ChaosConnState
  k_closeKind :: ChaosCloseKind
  k_localIndex :: u16
  k_remoteAddr :: u16
  k_remoteIndex :: u16
  k_reason :: "byte list"
  k_reasonBytes :: nat
  k_sentNum :: u16
  k_ackedNum :: u16
  k_receiptNum :: u16
  k_remoteWindow :: u16
  k_sendq :: "ChaosPkt carray"
  k_eofWanted :: bool
  k_eofSent :: bool
  k_eofNum :: u16
  k_finishStartMs :: u64
  k_readNum :: u16
  k_receivedNum :: u16
  k_lastAckSent :: u16
  k_localWindow :: u16
  k_rcvq :: "ChaosPkt carray"
  k_eofReceived :: bool
  k_ackDueMs :: u64
  k_openedMs :: u64
  k_lastHeardMs :: u64
  k_lastProbeMs :: u64

record ChaosArpEntry =
  arp_valid :: bool
  arp_addr :: u16
  arp_mac :: "byte list"
  arp_learnedMs :: u64
  arp_requestedMs :: u64
  arp_requested :: bool

record ChaosCore =
  c_myAddr :: u16
  c_myMac :: "byte list"
  c_hostName :: "byte list"
  c_localWindow :: u16
  c_initialPktNum :: u16
  c_emitted :: "byte list list"
  c_conns :: "ChaosConn carray"
  c_uniquizer :: u16
  c_arp :: "ChaosArpEntry carray"
  c_nFramesIn :: u64
  c_nFramesOut :: u64
  c_nRetransmits :: u64
  c_nDuplicates :: u64
  c_nOverWindow :: u64
  c_nStatusAnswered :: u64
  c_nRfcRefused :: u64
  c_nLosSent :: u64

text \<open>Zeroed structures, as \<^verbatim>\<open>memset (p, 0, sizeof *p)\<close> leaves them.\<close>

definition zero_pkt :: ChaosPkt where
  "zero_pkt = \<lparr>pkt_present = False, pkt_opcode = 0, pkt_num = 0, pkt_nBytes = 0,
    pkt_offset = 0, pkt_sentAtMs = 0, pkt_data = replicate CHAOS_MAX_DATA 0\<rparr>"

definition zero_conn :: ChaosConn where
  "zero_conn = \<lparr>k_state = CONN_FREE, k_closeKind = CLOSE_NONE, k_localIndex = 0,
    k_remoteAddr = 0, k_remoteIndex = 0, k_reason = replicate (CHAOS_MAX_DATA + 1) 0,
    k_reasonBytes = 0, k_sentNum = 0, k_ackedNum = 0, k_receiptNum = 0, k_remoteWindow = 0,
    k_sendq = (\<lambda>_. zero_pkt), k_eofWanted = False, k_eofSent = False, k_eofNum = 0,
    k_finishStartMs = 0, k_readNum = 0, k_receivedNum = 0, k_lastAckSent = 0,
    k_localWindow = 0, k_rcvq = (\<lambda>_. zero_pkt), k_eofReceived = False, k_ackDueMs = 0,
    k_openedMs = 0, k_lastHeardMs = 0, k_lastProbeMs = 0\<rparr>"

definition zero_arp :: ChaosArpEntry where
  "zero_arp = \<lparr>arp_valid = False, arp_addr = 0, arp_mac = replicate 6 0, arp_learnedMs = 0,
    arp_requestedMs = 0, arp_requested = False\<rparr>"

text \<open>Store through the pointer \<^verbatim>\<open>&c->conns[h]\<close>.\<close>

definition set_conn :: "ChaosCore \<Rightarrow> nat \<Rightarrow> ChaosConn \<Rightarrow> ChaosCore" where
  "set_conn c h k = c\<lparr>c_conns := (c_conns c)(h := k)\<rparr>"

definition chaos_opcode_name :: "byte \<Rightarrow> string" where
  "chaos_opcode_name opc =
     (let names = [''?00'', ''RFC'', ''OPN'', ''CLS'', ''FWD'', ''ANS'', ''SNS'', ''STS'',
                   ''RUT'', ''LOS'', ''LSN'', ''MNT'', ''EOF'', ''UNC'', ''BRD'']
      in if CHOP_DAT \<le> opc then (if 192 \<le> opc then ''DWD'' else ''DAT'')
         else if unat opc < length names then names ! unat opc
         else ''???'')"

lemma set_conn_sel [simp]:
  "c_myAddr (set_conn c h k) = c_myAddr c"
  "c_myMac (set_conn c h k) = c_myMac c"
  "c_hostName (set_conn c h k) = c_hostName c"
  "c_localWindow (set_conn c h k) = c_localWindow c"
  "c_initialPktNum (set_conn c h k) = c_initialPktNum c"
  "c_emitted (set_conn c h k) = c_emitted c"
  "c_conns (set_conn c h k) = (c_conns c)(h := k)"
  "c_uniquizer (set_conn c h k) = c_uniquizer c"
  "c_arp (set_conn c h k) = c_arp c"
  by (simp_all add: set_conn_def)

end
