(* ===== verification/Chaos_Transmit.thy ===== *)
theory Chaos_Transmit
  imports Chaos_Types
begin

text \<open>
  The ARP table and the packet transmission half of \<^verbatim>\<open>chaosd/chaos-core.c\<close>. A pointer into the
  connection table is the slot \<open>h\<close>, a pointer into the ARP table the slot \<open>i\<close>; a function that
  writes through such a pointer takes the core and returns it updated.
\<close>

section \<open>ARP table\<close>

definition emit_frame :: "ChaosCore \<Rightarrow> byte list \<Rightarrow> ChaosCore" where
  "emit_frame c frame = c\<lparr>c_nFramesOut := c_nFramesOut c + 1, c_emitted := c_emitted c @ [frame]\<rparr>"

text \<open>The second loop of \<^verbatim>\<open>arp_find\<close>: the first free slot, else the least recently learned one.\<close>

fun arp_victim :: "ChaosArpEntry carray \<Rightarrow> nat list \<Rightarrow> nat \<Rightarrow> u64 \<Rightarrow> nat" where
  "arp_victim arp [] victim oldest = victim"
| "arp_victim arp (i # is) victim oldest =
     (if \<not> arp_valid (arp i) \<and> \<not> arp_requested (arp i) then i
      else if arp_learnedMs (arp i) < oldest then arp_victim arp is i (arp_learnedMs (arp i))
      else arp_victim arp is victim oldest)"

definition arp_match :: "ChaosArpEntry \<Rightarrow> u16 \<Rightarrow> bool" where
  "arp_match e addr \<longleftrightarrow> (arp_valid e \<or> arp_requested e) \<and> arp_addr e = addr"

definition arp_find :: "ChaosCore \<Rightarrow> u16 \<Rightarrow> bool \<Rightarrow> ChaosCore \<times> nat option" where
  "arp_find c addr create =
     (case find (\<lambda>i. arp_match (c_arp c i) addr) [0..<CHAOS_ARP_ENTRIES] of
        Some i \<Rightarrow> (c, Some i)
      | None \<Rightarrow>
          if \<not> create then (c, None)
          else let victim = arp_victim (c_arp c) [0..<CHAOS_ARP_ENTRIES] 0 (- 1)
               in (c\<lparr>c_arp := (c_arp c)(victim := zero_arp\<lparr>arp_addr := addr\<rparr>)\<rparr>, Some victim))"

definition arp_send_request :: "ChaosCore \<Rightarrow> nat \<Rightarrow> u64 \<Rightarrow> ChaosCore" where
  "arp_send_request c i nowMs =
     (let e = c_arp c i;
          f = replicate 6 0xFF @ c_myMac c @ [0x08, 0x06] @
              [0, 1] @ [0x08, 0x04] @ [6, 2] @ [0, 1] @
              c_myMac c @ chaos_put16 (c_myAddr c) @ replicate 6 0 @ chaos_put16 (arp_addr e);
          e' = e\<lparr>arp_requested := True, arp_requestedMs := nowMs\<rparr>
      in emit_frame (c\<lparr>c_arp := (c_arp c)(i := e')\<rparr>) f)"

definition chaos_arp_lookup :: "ChaosCore \<Rightarrow> u16 \<Rightarrow> byte list option" where
  "chaos_arp_lookup c addr =
     (case snd (arp_find c addr False) of
        None \<Rightarrow> None
      | Some i \<Rightarrow> if arp_valid (c_arp c i) then Some (arp_mac (c_arp c i)) else None)"

text \<open>Resolution for transmission: the MAC, or \<open>None\<close> with a rate-limited request sent.\<close>

definition arp_resolve :: "ChaosCore \<Rightarrow> u16 \<Rightarrow> u64 \<Rightarrow> ChaosCore \<times> byte list option" where
  "arp_resolve c addr nowMs =
     (case arp_find c addr True of
        (c, None) \<Rightarrow> (c, None)
      | (c, Some i) \<Rightarrow>
          let e = c_arp c i in
          if arp_valid e then
            (if nowMs - arp_learnedMs e > CHAOS_ARP_REFRESH_MS \<and>
                (\<not> arp_requested e \<or> nowMs - arp_requestedMs e \<ge> CHAOS_ARP_RETRY_MS * 20)
             then arp_send_request c i nowMs else c,
             Some (arp_mac e))
          else
            (if \<not> arp_requested e \<or> nowMs - arp_requestedMs e \<ge> CHAOS_ARP_RETRY_MS
             then arp_send_request c i nowMs else c,
             None))"

section \<open>Packet transmission\<close>

text \<open>The frame that \<^verbatim>\<open>send_raw\<close> builds, field by field from offset 0.\<close>

definition chaos_frame ::
  "byte list \<Rightarrow> byte list \<Rightarrow> byte \<Rightarrow> u16 \<Rightarrow> u16 \<Rightarrow> u16 \<Rightarrow> u16 \<Rightarrow> u16 \<Rightarrow> u16 \<Rightarrow> byte list \<Rightarrow> byte list"
where
  "chaos_frame mac myMac opc destAddr destIndex myAddr srcIndex n ack payload =
     mac @ myMac @ [0x08, 0x04] @
     [0, opc] @ chaos_put16 (of_nat (length payload) AND 0xFFF) @
     chaos_put16 destAddr @ chaos_put16 destIndex @ chaos_put16 myAddr @ chaos_put16 srcIndex @
     chaos_put16 n @ chaos_put16 ack @ payload"

definition send_raw ::
  "ChaosCore \<Rightarrow> byte \<Rightarrow> u16 \<Rightarrow> u16 \<Rightarrow> u16 \<Rightarrow> u16 \<Rightarrow> u16 \<Rightarrow> byte list \<Rightarrow> u64 \<Rightarrow> ChaosCore \<times> bool"
where
  "send_raw c opc destAddr destIndex srcIndex n ack payload nowMs =
     (let payload = (if length payload > CHAOS_MAX_DATA then take CHAOS_MAX_DATA payload else payload)
      in case arp_resolve c destAddr nowMs of
           (c, None) \<Rightarrow> (c, False)
         | (c, Some mac) \<Rightarrow>
             (emit_frame c (chaos_frame mac (c_myMac c) opc destAddr destIndex (c_myAddr c) srcIndex
                n ack payload), True))"

definition conn_send_unc :: "ChaosCore \<Rightarrow> nat \<Rightarrow> byte \<Rightarrow> u16 \<Rightarrow> byte list \<Rightarrow> u64 \<Rightarrow> ChaosCore" where
  "conn_send_unc c h opc n payload nowMs =
     (let k = c_conns c h;
          k = k\<lparr>k_lastAckSent := k_readNum k, k_ackDueMs := 0\<rparr>
      in fst (send_raw (set_conn c h k) opc (k_remoteAddr k) (k_remoteIndex k) (k_localIndex k)
                n (k_readNum k) payload nowMs))"

definition conn_send_sts :: "ChaosCore \<Rightarrow> nat \<Rightarrow> u64 \<Rightarrow> ChaosCore" where
  "conn_send_sts c h nowMs =
     (let k = c_conns c h;
          d = chaos_put16 (k_receivedNum k) @ chaos_put16 (k_localWindow k)
      in conn_send_unc c h CHOP_STS 0 d nowMs)"

text \<open>Transmit the packet in slot \<open>s\<close> of the send queue.\<close>

definition conn_transmit :: "ChaosCore \<Rightarrow> nat \<Rightarrow> nat \<Rightarrow> u64 \<Rightarrow> ChaosCore" where
  "conn_transmit c h s nowMs =
     (let k = c_conns c h;
          p = (k_sendq k s)\<lparr>pkt_sentAtMs := nowMs\<rparr>;
          k = k\<lparr>k_sendq := (k_sendq k)(s := p), k_lastAckSent := k_readNum k, k_ackDueMs := 0\<rparr>
      in fst (send_raw (set_conn c h k) (pkt_opcode p) (k_remoteAddr k)
                (if pkt_opcode p = CHOP_RFC then 0 else k_remoteIndex k) (k_localIndex k) (pkt_num p)
                (if pkt_opcode p = CHOP_RFC then 0 else k_readNum k)
                (take (unat (pkt_nBytes p)) (pkt_data p)) nowMs))"

text \<open>Number a controlled packet, queue it and transmit it.\<close>

definition conn_enqueue :: "ChaosConn \<Rightarrow> byte \<Rightarrow> byte list \<Rightarrow> ChaosConn" where
  "conn_enqueue k opc payload =
     (let n = seq_inc (k_sentNum k);
          p = (k_sendq k (ring_slot n))
                \<lparr>pkt_present := True, pkt_opcode := opc, pkt_num := n,
                 pkt_nBytes := of_nat (length payload), pkt_offset := 0\<rparr>;
          p = p\<lparr>pkt_data := memcpy_at (pkt_data p) 0 payload\<rparr>
      in k\<lparr>k_sentNum := n, k_sendq := (k_sendq k)(ring_slot n := p)\<rparr>)"

definition conn_send_controlled :: "ChaosCore \<Rightarrow> nat \<Rightarrow> byte \<Rightarrow> byte list \<Rightarrow> u64 \<Rightarrow> ChaosCore" where
  "conn_send_controlled c h opc payload nowMs =
     (let k = conn_enqueue (c_conns c h) opc payload
      in conn_transmit (set_conn c h k) h (ring_slot (k_sentNum k)) nowMs)"

text \<open>One iteration of the loop of \<^verbatim>\<open>conn_retransmit\<close>, for packet number \<open>n\<close>.\<close>

definition retransmit_one :: "nat \<Rightarrow> u64 \<Rightarrow> u64 \<Rightarrow> u16 \<Rightarrow> ChaosCore \<Rightarrow> ChaosCore" where
  "retransmit_one h nowMs minAgeMs n c =
     (let p = k_sendq (c_conns c h) (ring_slot n)
      in if \<not> pkt_present p \<or> pkt_num p \<noteq> n then c
         else if nowMs - pkt_sentAtMs p < minAgeMs then c
         else conn_transmit (c\<lparr>c_nRetransmits := c_nRetransmits c + 1\<rparr>) h (ring_slot n) nowMs)"

definition conn_retransmit :: "ChaosCore \<Rightarrow> nat \<Rightarrow> u64 \<Rightarrow> u64 \<Rightarrow> ChaosCore" where
  "conn_retransmit c h nowMs minAgeMs =
     fold (retransmit_one h nowMs minAgeMs)
       (seq_loop (seq_inc (k_receiptNum (c_conns c h))) (k_sentNum (c_conns c h))) c"

definition conn_set_closed :: "ChaosConn \<Rightarrow> ChaosCloseKind \<Rightarrow> byte list \<Rightarrow> ChaosConn" where
  "conn_set_closed k kind txt =
     (let n = (if length txt > CHAOS_MAX_DATA then CHAOS_MAX_DATA else length txt);
          r = memcpy_at (memcpy_at (k_reason k) 0 (take n txt)) n [0]
      in k\<lparr>k_state := CONN_CLOSED, k_closeKind := kind, k_reason := r, k_reasonBytes := n,
           k_sendq := (\<lambda>i. if i < CHAOS_RING then (k_sendq k i)\<lparr>pkt_present := False\<rparr> else k_sendq k i),
           k_ackedNum := k_sentNum k, k_receiptNum := k_sentNum k, k_ackDueMs := 0\<rparr>)"

definition conn_close_cls :: "ChaosCore \<Rightarrow> nat \<Rightarrow> byte list \<Rightarrow> ChaosCloseKind \<Rightarrow> u64 \<Rightarrow> ChaosCore" where
  "conn_close_cls c h reason kind nowMs =
     (let c = conn_send_unc c h CHOP_CLS 0 reason nowMs
      in set_conn c h (conn_set_closed (c_conns c h) kind reason))"

definition conn_window_available :: "ChaosConn \<Rightarrow> int" where
  "conn_window_available k =
     int (unat (k_remoteWindow k)) - int (unat (seq_diff (k_sentNum k) (k_ackedNum k)))"

definition conn_maybe_send_eof :: "ChaosCore \<Rightarrow> nat \<Rightarrow> u64 \<Rightarrow> ChaosCore" where
  "conn_maybe_send_eof c h nowMs =
     (let k = c_conns c h in
      if k_state k = CONN_OPEN \<and> k_eofWanted k \<and> \<not> k_eofSent k \<and> conn_window_available k > 0 then
        let c = conn_send_controlled c h CHOP_EOF [] nowMs;
            k = c_conns c h
        in set_conn c h (k\<lparr>k_eofSent := True, k_eofNum := k_sentNum k\<rparr>)
      else c)"

text \<open>The part of \<^verbatim>\<open>conn_process_ack\<close> that moves the connection's marks.\<close>

definition conn_apply_ack :: "ChaosConn \<Rightarrow> u16 \<Rightarrow> u16 \<Rightarrow> ChaosConn" where
  "conn_apply_ack k ack receipt =
     (let receipt = (if chaos_seq_lt receipt ack then ack else receipt);
          k = (if chaos_seq_lt (k_receiptNum k) receipt
               then k\<lparr>k_sendq := fold (\<lambda>n q. q(ring_slot n := (q (ring_slot n))\<lparr>pkt_present := False\<rparr>))
                                   (seq_loop (seq_inc (k_receiptNum k)) receipt) (k_sendq k),
                      k_receiptNum := receipt\<rparr>
               else k)
      in if chaos_seq_lt (k_ackedNum k) ack then k\<lparr>k_ackedNum := ack\<rparr> else k)"

definition conn_process_ack :: "ChaosCore \<Rightarrow> nat \<Rightarrow> u16 \<Rightarrow> u16 \<Rightarrow> u64 \<Rightarrow> ChaosCore" where
  "conn_process_ack c h ack receipt nowMs =
     (let k = c_conns c h in
      if chaos_seq_lt (k_sentNum k) ack \<or> chaos_seq_lt (k_sentNum k) receipt then c
      else
        let k = conn_apply_ack k ack receipt;
            c = set_conn c h k
        in if k_eofSent k \<and> \<not> chaos_seq_lt (k_ackedNum k) (k_eofNum k) \<and> k_state k = CONN_OPEN
           then conn_close_cls c h (c_bytes ''Finished'') CLOSE_DONE nowMs
           else conn_maybe_send_eof c h nowMs)"

section \<open>Learning addresses\<close>

definition arp_learn :: "ChaosCore \<Rightarrow> u16 \<Rightarrow> byte list \<Rightarrow> u64 \<Rightarrow> ChaosCore" where
  "arp_learn c addr mac nowMs =
     (if addr = 0 \<or> addr = c_myAddr c then c
      else case arp_find c addr True of
        (c, None) \<Rightarrow> c
      | (c, Some i) \<Rightarrow>
          let e = c_arp c i;
              wasValid = (arp_valid e \<and> arp_mac e = mac);
              c = c\<lparr>c_arp := (c_arp c)(i := e\<lparr>arp_mac := mac, arp_valid := True,
                      arp_requested := False, arp_learnedMs := nowMs\<rparr>)\<rparr>
          in if wasValid then c
             else fold (\<lambda>h c.
                    let k = c_conns c h
                    in if (k_state k = CONN_RFC_SENT \<or> k_state k = CONN_OPEN) \<and> k_remoteAddr k = addr
                       then conn_retransmit c h nowMs 0 else c)
                  [0..<CHAOS_MAX_CONNS] c)"

text \<open>The bytes \<open>lo .. lo + n - 1\<close> of a buffer.\<close>

definition slice :: "'a list \<Rightarrow> nat \<Rightarrow> nat \<Rightarrow> 'a list" where
  "slice bs lo n = take n (drop lo bs)"

definition handle_arp :: "ChaosCore \<Rightarrow> byte list \<Rightarrow> u64 \<Rightarrow> ChaosCore" where
  "handle_arp c frame nowMs =
     (let a = drop CHAOS_ETH_HEADER frame in
      if length frame < CHAOS_ARP_FRAME then c
      else if a ! 0 \<noteq> 0 \<or> a ! 1 \<noteq> 1 \<or> a ! 2 \<noteq> 0x08 \<or> a ! 3 \<noteq> 0x04 \<or> a ! 4 \<noteq> 6 \<or> a ! 5 \<noteq> 2 then c
      else
        let spa = chaos_get16 a 14;
            tpa = chaos_get16 a 22;
            c = arp_learn c spa (slice a 8 6) nowMs
        in if a ! 6 \<noteq> 0 \<or> a ! 7 \<noteq> 1 \<or> tpa \<noteq> c_myAddr c then c
           else emit_frame c (slice a 8 6 @ c_myMac c @ [0x08, 0x06] @ take 6 a @ [0, 2] @
                  c_myMac c @ chaos_put16 (c_myAddr c) @ slice a 8 6 @ chaos_put16 spa))"

end
