(* ===== verification/Chaos_Core.thy ===== *)
theory Chaos_Core
  imports Chaos_Transmit
begin

text \<open>
  The connection table, the user operations, the input handlers and the timers of
  \<^verbatim>\<open>chaosd/chaos-core.c\<close>. Connection handles are the \<open>int\<close>s of the source; a frame is the
  list of its bytes, so that \<^verbatim>\<open>nBytes\<close> is its length.
\<close>

section \<open>Connection table and user operations\<close>

definition conn_for_handle :: "ChaosCore \<Rightarrow> int \<Rightarrow> nat option" where
  "conn_for_handle c h =
     (if h < 0 \<or> h \<ge> int CHAOS_MAX_CONNS \<or> k_state (c_conns c (nat h)) = CONN_FREE then None
      else Some (nat h))"

definition chaos_conn :: "ChaosCore \<Rightarrow> int \<Rightarrow> ChaosConn option" where
  "chaos_conn c h = map_option (c_conns c) (conn_for_handle c h)"

definition chaos_state :: "ChaosCore \<Rightarrow> int \<Rightarrow> ChaosConnState" where
  "chaos_state c h =
     (case conn_for_handle c h of None \<Rightarrow> CONN_FREE | Some i \<Rightarrow> k_state (c_conns c i))"

definition chaos_core_init :: "u16 \<Rightarrow> byte list \<Rightarrow> byte list \<Rightarrow> ChaosCore" where
  "chaos_core_init myAddr myMac hostName =
     \<lparr>c_myAddr = myAddr, c_myMac = myMac, c_hostName = take 32 (c_string hostName),
      c_localWindow = CHAOS_DEFAULT_WINDOW, c_initialPktNum = 0x0100, c_emitted = [],
      c_conns = (\<lambda>_. zero_conn), c_uniquizer = 1, c_arp = (\<lambda>_. zero_arp),
      c_nFramesIn = 0, c_nFramesOut = 0, c_nRetransmits = 0, c_nDuplicates = 0,
      c_nOverWindow = 0, c_nStatusAnswered = 0, c_nRfcRefused = 0, c_nLosSent = 0\<rparr>"

text \<open>The fresh connection record that \<^verbatim>\<open>chaos_open\<close> fills in before it sends the RFC.\<close>

definition open_conn :: "ChaosCore \<Rightarrow> nat \<Rightarrow> u16 \<Rightarrow> u64 \<Rightarrow> ChaosConn" where
  "open_conn c h addr nowMs =
     zero_conn
       \<lparr>k_localIndex := push_bit 5 (c_uniquizer c) OR of_nat h,
        k_state := CONN_RFC_SENT, k_remoteAddr := addr, k_remoteIndex := 0,
        k_localWindow := c_localWindow c, k_remoteWindow := 1,
        k_sentNum := c_initialPktNum c - 1, k_ackedNum := c_initialPktNum c - 1,
        k_receiptNum := c_initialPktNum c - 1,
        k_openedMs := nowMs, k_lastHeardMs := nowMs, k_lastProbeMs := nowMs\<rparr>"

definition chaos_open :: "ChaosCore \<Rightarrow> u16 \<Rightarrow> byte list \<Rightarrow> u64 \<Rightarrow> ChaosCore \<times> int" where
  "chaos_open c addr contact nowMs =
     (if length contact = 0 \<or> length contact > CHAOS_MAX_DATA then (c, -1)
      else case find (\<lambda>h. k_state (c_conns c h) = CONN_FREE) [0..<CHAOS_MAX_CONNS] of
        None \<Rightarrow> (c, -1)
      | Some h \<Rightarrow>
          let k = open_conn c h addr nowMs;
              u = (c_uniquizer c + 1) AND 0x7FF;
              c = c\<lparr>c_uniquizer := (if u = 0 then 1 else u),
                    c_initialPktNum := c_initialPktNum c + 0x0100\<rparr>
          in (conn_send_controlled (set_conn c h k) h CHOP_RFC contact nowMs, int h))"

definition chaos_send_room :: "ChaosCore \<Rightarrow> int \<Rightarrow> nat" where
  "chaos_send_room c h =
     (case conn_for_handle c h of
        None \<Rightarrow> 0
      | Some i \<Rightarrow>
          let k = c_conns c i; avail = conn_window_available k in
          if k_state k \<noteq> CONN_OPEN \<or> k_eofWanted k then 0
          else if avail > 0 then nat avail * CHAOS_MAX_DATA else 0)"

text \<open>The loop of \<^verbatim>\<open>chaos_send\<close>: \<open>rest\<close> is \<^verbatim>\<open>data + sent\<close>.\<close>

function chaos_send_loop :: "ChaosCore \<Rightarrow> nat \<Rightarrow> byte list \<Rightarrow> nat \<Rightarrow> u64 \<Rightarrow> ChaosCore \<times> nat" where
  "chaos_send_loop c i rest sent nowMs =
     (if rest \<noteq> [] \<and> conn_window_available (c_conns c i) > 0 then
        let n = (if length rest > CHAOS_MAX_DATA then CHAOS_MAX_DATA else length rest);
            c = conn_send_controlled c i CHOP_DAT (take n rest) nowMs
        in chaos_send_loop c i (drop n rest) (sent + n) nowMs
      else (c, sent))"
  by pat_completeness auto
termination
  by (relation "measure (\<lambda>(c, i, rest, sent, nowMs). length rest)") auto

declare chaos_send_loop.simps [simp del]

definition chaos_send :: "ChaosCore \<Rightarrow> int \<Rightarrow> byte list \<Rightarrow> u64 \<Rightarrow> ChaosCore \<times> nat" where
  "chaos_send c h payload nowMs =
     (case conn_for_handle c h of
        None \<Rightarrow> (c, 0)
      | Some i \<Rightarrow>
          if k_state (c_conns c i) \<noteq> CONN_OPEN \<or> k_eofWanted (c_conns c i) then (c, 0)
          else chaos_send_loop c i payload 0 nowMs)"

definition chaos_finish :: "ChaosCore \<Rightarrow> int \<Rightarrow> u64 \<Rightarrow> ChaosCore" where
  "chaos_finish c h nowMs =
     (case conn_for_handle c h of
        None \<Rightarrow> c
      | Some i \<Rightarrow>
          let k = c_conns c i in
          if k_state k \<noteq> CONN_OPEN \<or> k_eofWanted k then c
          else conn_maybe_send_eof (set_conn c i (k\<lparr>k_eofWanted := True, k_finishStartMs := nowMs\<rparr>))
                 i nowMs)"

definition chaos_recv_ready :: "ChaosCore \<Rightarrow> int \<Rightarrow> bool" where
  "chaos_recv_ready c h =
     (case conn_for_handle c h of
        None \<Rightarrow> False
      | Some i \<Rightarrow> let k = c_conns c i in k_readNum k \<noteq> k_receivedNum k \<and> \<not> k_eofReceived k)"

definition chaos_recv_eof :: "ChaosCore \<Rightarrow> int \<Rightarrow> bool" where
  "chaos_recv_eof c h =
     (case conn_for_handle c h of None \<Rightarrow> False | Some i \<Rightarrow> k_eofReceived (c_conns c i))"

text \<open>
  The loop of \<^verbatim>\<open>chaos_recv\<close>. \<open>got\<close> is the part of the user's buffer filled so far and \<open>room\<close>
  is \<^verbatim>\<open>max\<close>. The difference of the two \<open>unsigned short\<close>s is an \<open>int\<close> converted to \<^verbatim>\<open>size_t\<close>.
\<close>

function recv_loop :: "ChaosConn \<Rightarrow> nat \<Rightarrow> byte list \<Rightarrow> bool \<Rightarrow> ChaosConn \<times> byte list \<times> bool" where
  "recv_loop k room got advanced =
     (if length got < room \<and> k_readNum k \<noteq> k_receivedNum k \<and> \<not> k_eofReceived k then
        let n = seq_inc (k_readNum k);
            p = k_rcvq k (ring_slot n)
        in if pkt_opcode p = CHOP_EOF then
             recv_loop
               (k\<lparr>k_eofReceived := True,
                  k_rcvq := (k_rcvq k)(ring_slot n := p\<lparr>pkt_present := False\<rparr>), k_readNum := n\<rparr>)
               room got True
           else
             let tk = nat ((int (unat (pkt_nBytes p)) - int (unat (pkt_offset p))) mod 2 ^ 64);
                 tk = (if tk > room - length got then room - length got else tk);
                 got = got @ take tk (drop (unat (pkt_offset p)) (pkt_data p));
                 p = p\<lparr>pkt_offset := pkt_offset p + of_nat tk\<rparr>
             in if pkt_offset p < pkt_nBytes p then
                  (k\<lparr>k_rcvq := (k_rcvq k)(ring_slot n := p)\<rparr>, got, advanced)
                else
                  recv_loop
                    (k\<lparr>k_rcvq := (k_rcvq k)(ring_slot n := p\<lparr>pkt_present := False\<rparr>), k_readNum := n\<rparr>)
                    room got True
      else (k, got, advanced))"
  by pat_completeness auto
termination
proof (relation "measure (\<lambda>(k, room, got, advanced). unat (k_receivedNum k - k_readNum k))", goal_cases)
  case (2 k room got advanced n p)
  then show ?case using unat_Suc_diff [of "k_readNum k" "k_receivedNum k"]
    by (simp add: seq_inc_def del: diff_add_eq_diff_diff_swap)
next
  case (3 k room got advanced n p tk tk' got' p')
  then show ?case using unat_Suc_diff [of "k_readNum k" "k_receivedNum k"]
    by (simp add: seq_inc_def del: diff_add_eq_diff_diff_swap)
qed simp

declare recv_loop.simps [simp del]

definition chaos_recv :: "ChaosCore \<Rightarrow> int \<Rightarrow> nat \<Rightarrow> u64 \<Rightarrow> ChaosCore \<times> byte list" where
  "chaos_recv c h room nowMs =
     (case conn_for_handle c h of
        None \<Rightarrow> (c, [])
      | Some i \<Rightarrow>
          (case recv_loop (c_conns c i) room [] False of
             (k, got, advanced) \<Rightarrow>
               let c = set_conn c i k in
               (if advanced \<and> k_state k = CONN_OPEN then
                  if unat (seq_diff (k_readNum k) (k_lastAckSent k)) \<ge> (unat (k_localWindow k) + 1) div 2
                     \<or> k_eofReceived k
                  then conn_send_sts c i nowMs
                  else if k_ackDueMs k = 0
                  then set_conn c i (k\<lparr>k_ackDueMs := nowMs + CHAOS_ACK_DELAY_MS\<rparr>)
                  else c
                else c,
                got)))"

definition chaos_release :: "ChaosCore \<Rightarrow> int \<Rightarrow> byte list \<Rightarrow> u64 \<Rightarrow> ChaosCore" where
  "chaos_release c h reason nowMs =
     (case conn_for_handle c h of
        None \<Rightarrow> c
      | Some i \<Rightarrow>
          let c = (if k_state (c_conns c i) = CONN_OPEN
                   then conn_send_unc c i CHOP_CLS 0 reason nowMs else c)
          in set_conn c i (zero_conn\<lparr>k_state := CONN_FREE\<rparr>))"

section \<open>Input\<close>

text \<open>The packet numbered \<open>n\<close> is in its slot of the ring.\<close>

definition ring_has :: "ChaosPkt carray \<Rightarrow> u16 \<Rightarrow> bool" where
  "ring_has q n \<longleftrightarrow> pkt_present (q (ring_slot n)) \<and> pkt_num (q (ring_slot n)) = n"

text \<open>
  The \<^verbatim>\<open>for (;;)\<close> loop of \<^verbatim>\<open>conn_queue_input\<close> that advances the in-order mark. It ends because a
  slot of the ring holds one packet: 65 consecutive numbers can not all be present.
\<close>

definition ring_run :: "ChaosPkt carray \<Rightarrow> u16 \<Rightarrow> nat set" where
  "ring_run q r = {m. m \<le> 64 \<and> (\<forall>j\<le>m. ring_has q (r + 1 + of_nat j))}"

lemma ring_run_shrinks:
  assumes "ring_has q (r + 1)"
  shows "card (ring_run q (r + 1)) < card (ring_run q r)"
proof -
  have fin: "finite (ring_run q r)" by (simp add: ring_run_def)
  have no64: "\<not> ring_has q (r + 65)"
  proof
    assume "ring_has q (r + 65)"
    moreover have "ring_slot (r + 65) = ring_slot (r + 1)"
      by (simp add: ring_slot_eq_iff)
    ultimately have "r + 65 = r + 1" using assms by (simp add: ring_has_def)
    then show False by simp
  qed
  have "Suc ` ring_run q (r + 1) \<subseteq> ring_run q r - {0}"
  proof
    fix x assume "x \<in> Suc ` ring_run q (r + 1)"
    then obtain m where m: "x = Suc m" "m \<le> 64" "\<forall>j\<le>m. ring_has q (r + 1 + 1 + of_nat j)"
      by (auto simp: ring_run_def)
    have "m < 63"
    proof (rule ccontr)
      assume "\<not> m < 63"
      then have "63 \<le> m" by simp
      then have "ring_has q (r + 1 + 1 + of_nat 63)" using m(3) by blast
      then show False using no64 by (simp add: algebra_simps)
    qed
    moreover have "ring_has q (r + 1 + of_nat j)" if "j \<le> Suc m" for j
    proof (cases j)
      case 0
      then show ?thesis using assms by simp
    next
      case (Suc i)
      then show ?thesis using m(3) that by (simp add: algebra_simps)
    qed
    ultimately show "x \<in> ring_run q r - {0}" using m(1) by (auto simp: ring_run_def)
  qed
  then have "card (Suc ` ring_run q (r + 1)) \<le> card (ring_run q r - {0})"
    using fin by (intro card_mono) auto
  moreover have "card (Suc ` ring_run q (r + 1)) = card (ring_run q (r + 1))"
    by (simp add: card_image)
  moreover have "0 \<in> ring_run q r" using assms by (simp add: ring_run_def)
  ultimately show ?thesis using fin by (metis card_Diff1_less order.strict_trans1)
qed

function advance_received :: "ChaosPkt carray \<Rightarrow> u16 \<Rightarrow> u16" where
  "advance_received rcvq received =
     (let nxt = seq_inc received;
          q = rcvq (ring_slot nxt)
      in if \<not> pkt_present q \<or> pkt_num q \<noteq> nxt then received
         else if pkt_opcode q = CHOP_EOF then nxt
         else advance_received rcvq nxt)"
  by pat_completeness auto
termination
  by (relation "measure (\<lambda>(rcvq, received). card (ring_run rcvq received))")
     (auto simp: seq_inc_def ring_has_def intro!: ring_run_shrinks)

declare advance_received.simps [simp del]

definition conn_store_input :: "ChaosConn \<Rightarrow> byte \<Rightarrow> u16 \<Rightarrow> byte list \<Rightarrow> ChaosConn" where
  "conn_store_input k opc n payload =
     (let p = (k_rcvq k (ring_slot n))
                \<lparr>pkt_present := True, pkt_num := n, pkt_opcode := opc,
                 pkt_nBytes := of_nat (length payload), pkt_offset := 0\<rparr>;
          p = p\<lparr>pkt_data := memcpy_at (pkt_data p) 0 payload\<rparr>;
          q = (k_rcvq k)(ring_slot n := p)
      in k\<lparr>k_rcvq := q, k_receivedNum := advance_received q (k_receivedNum k)\<rparr>)"

text \<open>\<open>ch\<close> is the chaos header and what follows it in the frame.\<close>

definition conn_queue_input :: "ChaosCore \<Rightarrow> nat \<Rightarrow> byte list \<Rightarrow> nat \<Rightarrow> u64 \<Rightarrow> ChaosCore" where
  "conn_queue_input c h ch dataBytes nowMs =
     (let n = chaos_get16 ch 12;
          k = c_conns c h;
          p = k_rcvq k (ring_slot n)
      in if \<not> chaos_seq_lt (k_receivedNum k) n then
           conn_send_sts (c\<lparr>c_nDuplicates := c_nDuplicates c + 1\<rparr>) h nowMs
         else if seq_diff n (k_readNum k) > k_localWindow k then
           conn_send_sts (c\<lparr>c_nOverWindow := c_nOverWindow c + 1\<rparr>) h nowMs
         else if pkt_present p \<and> pkt_num p = n then
           conn_send_sts (c\<lparr>c_nDuplicates := c_nDuplicates c + 1\<rparr>) h nowMs
         else
           let k = conn_store_input k (ch ! 1) n (slice ch CHAOS_HEADER dataBytes);
               c = set_conn c h k
           in if n \<noteq> k_receivedNum k \<and> chaos_seq_lt (k_receivedNum k) n
              then conn_send_sts c h nowMs else c)"

definition handle_rfc :: "ChaosCore \<Rightarrow> byte list \<Rightarrow> nat \<Rightarrow> u64 \<Rightarrow> ChaosCore" where
  "handle_rfc c ch dataBytes nowMs =
     (let srcAddr = chaos_get16 ch 8;
          srcIndex = chaos_get16 ch 10;
          n = chaos_get16 ch 12;
          contact = takeWhile (\<lambda>b. b \<noteq> 32) (slice ch CHAOS_HEADER dataBytes)
      in if strcaseeq contact (c_bytes ''STATUS'') then
           let ans = take 32 (c_hostName c) @ replicate (32 - length (take 32 (c_hostName c))) 0;
               c = c\<lparr>c_nStatusAnswered := c_nStatusAnswered c + 1\<rparr>
           in fst (send_raw c CHOP_ANS srcAddr srcIndex 0 0 n ans nowMs)
         else
           let reason = c_bytes ''No server for contact name '' @ c_string contact;
               c = c\<lparr>c_nRfcRefused := c_nRfcRefused c + 1\<rparr>
           in fst (send_raw c CHOP_CLS srcAddr srcIndex 0 0 n reason nowMs))"

definition send_los_reply :: "ChaosCore \<Rightarrow> byte list \<Rightarrow> byte list \<Rightarrow> u64 \<Rightarrow> ChaosCore" where
  "send_los_reply c ch reason nowMs =
     fst (send_raw (c\<lparr>c_nLosSent := c_nLosSent c + 1\<rparr>) CHOP_LOS (chaos_get16 ch 8) (chaos_get16 ch 10)
            (chaos_get16 ch 6) 0 0 reason nowMs)"

text \<open>A packet for a connection that waits for its RFC to be answered.\<close>

definition handle_rfc_sent :: "ChaosCore \<Rightarrow> nat \<Rightarrow> byte list \<Rightarrow> nat \<Rightarrow> u64 \<Rightarrow> ChaosCore" where
  "handle_rfc_sent c h ch dataBytes nowMs =
     (let opc = ch ! 1;
          n = chaos_get16 ch 12;
          ack = chaos_get16 ch 14;
          k = c_conns c h;
          body = slice ch CHAOS_HEADER dataBytes
      in if opc = CHOP_OPN then
           if dataBytes < 4 then c
           else
             let w = chaos_get16 ch (CHAOS_HEADER + 2);
                 k = k\<lparr>k_remoteIndex := chaos_get16 ch 10, k_readNum := n, k_receivedNum := n,
                       k_lastAckSent := n,
                       k_remoteWindow := (if w > CHAOS_MAX_WINDOW then CHAOS_MAX_WINDOW else w),
                       k_state := CONN_OPEN\<rparr>;
                 c = conn_process_ack (set_conn c h k) h ack (chaos_get16 ch CHAOS_HEADER) nowMs
             in conn_send_sts c h nowMs
         else if opc = CHOP_CLS then set_conn c h (conn_set_closed k CLOSE_CLS body)
         else if opc = CHOP_LOS then set_conn c h (conn_set_closed k CLOSE_LOS body)
         else if opc = CHOP_ANS then set_conn c h (conn_set_closed k CLOSE_ANS body)
         else if opc = CHOP_FWD then
           set_conn c h (conn_set_closed k CLOSE_LOS
             (c_bytes ''Forwarded to host '' @ octal_digits (unat ack) @
              c_bytes '' (forwarding is not supported)''))
         else c)"

text \<open>A packet for an open connection.\<close>

definition handle_open :: "ChaosCore \<Rightarrow> nat \<Rightarrow> byte list \<Rightarrow> nat \<Rightarrow> u64 \<Rightarrow> ChaosCore" where
  "handle_open c h ch dataBytes nowMs =
     (let opc = ch ! 1;
          ack = chaos_get16 ch 14;
          body = slice ch CHAOS_HEADER dataBytes
      in if opc \<ge> CHOP_DAT \<or> opc = CHOP_EOF then
           let c = conn_process_ack c h ack ack nowMs
           in if k_state (c_conns c h) = CONN_OPEN then conn_queue_input c h ch dataBytes nowMs else c
         else if opc = CHOP_STS then
           if dataBytes < 4 then c
           else
             let w = chaos_get16 ch (CHAOS_HEADER + 2);
                 w = (if w > CHAOS_MAX_WINDOW then CHAOS_MAX_WINDOW else w);
                 c = set_conn c h ((c_conns c h)\<lparr>k_remoteWindow := w\<rparr>);
                 c = conn_process_ack c h ack (chaos_get16 ch CHAOS_HEADER) nowMs
             in if k_state (c_conns c h) = CONN_OPEN
                then conn_retransmit c h nowMs CHAOS_STS_RETRANSMIT_MS else c
         else if opc = CHOP_SNS then
           let c = conn_process_ack c h ack ack nowMs
           in if k_state (c_conns c h) = CONN_OPEN then conn_send_sts c h nowMs else c
         else if opc = CHOP_OPN then conn_send_sts c h nowMs
         else if opc = CHOP_CLS then set_conn c h (conn_set_closed (c_conns c h) CLOSE_CLS body)
         else if opc = CHOP_LOS then set_conn c h (conn_set_closed (c_conns c h) CLOSE_LOS body)
         else c)"

text \<open>The connection a packet is for: its slot, or \<open>None\<close>.\<close>

definition conn_for_packet :: "ChaosCore \<Rightarrow> byte list \<Rightarrow> nat option" where
  "conn_for_packet c ch =
     (let destIndex = chaos_get16 ch 6;
          h = unat (destIndex AND 31);
          k = c_conns c h
      in if k_state k = CONN_FREE \<or> k_localIndex k \<noteq> destIndex \<or> k_remoteAddr k \<noteq> chaos_get16 ch 8 \<or>
            (k_state k \<noteq> CONN_RFC_SENT \<and> k_remoteIndex k \<noteq> chaos_get16 ch 10)
         then None else Some h)"

definition handle_chaos :: "ChaosCore \<Rightarrow> byte list \<Rightarrow> u64 \<Rightarrow> ChaosCore" where
  "handle_chaos c frame nowMs =
     (let ch = drop CHAOS_ETH_HEADER frame in
      if length frame < CHAOS_ETH_HEADER + CHAOS_HEADER then c
      else
        let opc = ch ! 1;
            dataBytes = unat (chaos_get16 ch 2 AND 0xFFF);
            destAddr = chaos_get16 ch 4;
            srcAddr = chaos_get16 ch 8
        in if dataBytes > CHAOS_MAX_DATA \<or> dataBytes > length frame - CHAOS_ETH_HEADER - CHAOS_HEADER
           then c
           else
             let c = (if drop_bit 8 srcAddr = drop_bit 8 (c_myAddr c) \<and> frame ! 6 AND 1 = 0
                      then arp_learn c srcAddr (slice frame 6 6) nowMs else c)
             in if destAddr \<noteq> c_myAddr c then c
                else if opc = CHOP_RFC then handle_rfc c ch dataBytes nowMs
                else if opc = CHOP_BRD \<or> opc = CHOP_RUT \<or> opc = CHOP_MNT \<or> opc = CHOP_LSN then c
                else case conn_for_packet c ch of
                  None \<Rightarrow>
                    if opc = CHOP_ANS \<or> opc = CHOP_CLS \<or> opc = CHOP_FWD \<or> opc = CHOP_LOS then c
                    else send_los_reply c ch (c_bytes ''No such connection'') nowMs
                | Some h \<Rightarrow>
                    let c = set_conn c h ((c_conns c h)\<lparr>k_lastHeardMs := nowMs\<rparr>) in
                    (case k_state (c_conns c h) of
                       CONN_RFC_SENT \<Rightarrow> handle_rfc_sent c h ch dataBytes nowMs
                     | CONN_CLOSED \<Rightarrow>
                         if opc = CHOP_ANS \<or> opc = CHOP_CLS \<or> opc = CHOP_FWD \<or> opc = CHOP_LOS \<or>
                            opc = CHOP_STS then c
                         else send_los_reply c ch (c_bytes ''Connection in invalid state'') nowMs
                     | _ \<Rightarrow> handle_open c h ch dataBytes nowMs))"

definition chaos_core_input :: "ChaosCore \<Rightarrow> byte list \<Rightarrow> u64 \<Rightarrow> ChaosCore" where
  "chaos_core_input c frame nowMs =
     (if length frame < CHAOS_ETH_HEADER then c
      else
        let etherType = push_bit 8 (ucast (frame ! 12)) OR ucast (frame ! 13) :: u16
        in if etherType \<noteq> CHAOS_ETHERTYPE \<and> etherType \<noteq> ARP_ETHERTYPE then c
           else if slice frame 6 6 = c_myMac c then c
           else
             let c = c\<lparr>c_nFramesIn := c_nFramesIn c + 1\<rparr>
             in if etherType = ARP_ETHERTYPE then handle_arp c frame nowMs
                else handle_chaos c frame nowMs)"

section \<open>Timers\<close>

text \<open>One iteration of the loop of \<^verbatim>\<open>chaos_core_tick\<close>.\<close>

definition tick_conn :: "u64 \<Rightarrow> nat \<Rightarrow> ChaosCore \<Rightarrow> ChaosCore" where
  "tick_conn nowMs h c =
     (let k = c_conns c h in
      if k_state k = CONN_RFC_SENT then
        if nowMs - k_openedMs k \<ge> CHAOS_RFC_TIMEOUT_MS
        then set_conn c h (conn_set_closed k CLOSE_TIMEOUT (c_bytes ''Host not responding''))
        else conn_retransmit c h nowMs CHAOS_RETRANSMIT_MS
      else if k_state k \<noteq> CONN_OPEN then c
      else
        let heard = nowMs - k_lastHeardMs k in
        if heard \<ge> CHAOS_HOST_DOWN_MS
        then set_conn c h (conn_set_closed k CLOSE_TIMEOUT (c_bytes ''Host stopped responding''))
        else if k_eofWanted k \<and> nowMs - k_finishStartMs k \<ge> CHAOS_FINISH_TIMEOUT_MS
        then conn_close_cls c h (c_bytes ''Finished (EOF not acknowledged)'') CLOSE_DONE nowMs
        else
          let c = conn_retransmit c h nowMs CHAOS_RETRANSMIT_MS;
              k = c_conns c h;
              c = (if k_ackDueMs k \<noteq> 0 \<and> nowMs \<ge> k_ackDueMs k then conn_send_sts c h nowMs else c);
              k = c_conns c h
          in if nowMs - k_lastProbeMs k \<ge> CHAOS_PROBE_MS then
               let c = set_conn c h (k\<lparr>k_lastProbeMs := nowMs\<rparr>)
               in if k_ackedNum k \<noteq> k_sentNum k \<or> k_remoteWindow k = 0 \<or> heard \<ge> CHAOS_LONELY_MS
                  then conn_send_unc c h CHOP_SNS 0 [] nowMs else c
             else c)"

definition chaos_core_tick :: "ChaosCore \<Rightarrow> u64 \<Rightarrow> ChaosCore" where
  "chaos_core_tick c nowMs = fold (tick_conn nowMs) [0..<CHAOS_MAX_CONNS] c"

text \<open>The cast of the remaining time to \<open>int\<close> keeps the low 32 bits.\<close>

definition next_timeout_conn :: "ChaosCore \<Rightarrow> u64 \<Rightarrow> nat \<Rightarrow> int \<Rightarrow> int" where
  "next_timeout_conn c nowMs h best =
     (let k = c_conns c h in
      if k_state k = CONN_OPEN \<and> k_ackDueMs k \<noteq> 0 then
        let t = (if k_ackDueMs k > nowMs then sint (ucast (k_ackDueMs k - nowMs) :: u32) else 0)
        in if t < best then t else best
      else best)"

definition chaos_core_next_timeout :: "ChaosCore \<Rightarrow> u64 \<Rightarrow> int \<Rightarrow> int" where
  "chaos_core_next_timeout c nowMs maxMs = fold (next_timeout_conn c nowMs) [0..<CHAOS_MAX_CONNS] maxMs"

end
