(* ===== verification/Chaos_Frame.thy ===== *)
theory Chaos_Frame
  imports Chaos_Core
begin

text \<open>
  What each operation of the protocol core writes. Sending a packet touches the ARP table,
  the output and, on its connection, only the transmission stamps (\<^verbatim>\<open>sentAtMs\<close> of the queued
  packets, \<^verbatim>\<open>lastAckSent\<close>, \<^verbatim>\<open>ackDueMs\<close>); the invariants of the next theories do not read them.
\<close>

section \<open>Configuration and stamps\<close>

definition same_config :: "ChaosCore \<Rightarrow> ChaosCore \<Rightarrow> bool" where
  "same_config c c' \<longleftrightarrow>
     c_myAddr c' = c_myAddr c \<and> c_myMac c' = c_myMac c \<and> c_hostName c' = c_hostName c \<and>
     c_localWindow c' = c_localWindow c \<and> c_uniquizer c' = c_uniquizer c \<and>
     c_initialPktNum c' = c_initialPktNum c"

lemma same_config_refl [simp]: "same_config c c"
  by (simp add: same_config_def)

lemma same_config_trans [trans]: "same_config a b \<Longrightarrow> same_config b c \<Longrightarrow> same_config a c"
  by (simp add: same_config_def)

lemma same_config_set_conn [simp]: "same_config c (set_conn c h k)"
  by (simp add: same_config_def)

text \<open>Two states of a connection that differ in the transmission stamps only.\<close>

definition stamped :: "ChaosConn \<Rightarrow> ChaosConn \<Rightarrow> bool" where
  "stamped k k' \<longleftrightarrow>
     (\<exists>f a d. k' = k\<lparr>k_lastAckSent := a, k_ackDueMs := d,
                    k_sendq := (\<lambda>i. (k_sendq k i)\<lparr>pkt_sentAtMs := f i\<rparr>)\<rparr>)"

lemma stampedI:
  "k' = k\<lparr>k_lastAckSent := a, k_ackDueMs := d, k_sendq := (\<lambda>i. (k_sendq k i)\<lparr>pkt_sentAtMs := f i\<rparr>)\<rparr>
    \<Longrightarrow> stamped k k'"
  unfolding stamped_def by blast

lemma stamped_refl [simp]: "stamped k k"
  by (rule stampedI [where a = "k_lastAckSent k" and d = "k_ackDueMs k"
        and f = "\<lambda>i. pkt_sentAtMs (k_sendq k i)"]) simp

lemma stamped_trans [trans]:
  assumes "stamped a b" "stamped b c"
  shows "stamped a c"
proof -
  from assms obtain f g x y u v where
    "b = a\<lparr>k_lastAckSent := x, k_ackDueMs := y, k_sendq := (\<lambda>i. (k_sendq a i)\<lparr>pkt_sentAtMs := f i\<rparr>)\<rparr>"
    "c = b\<lparr>k_lastAckSent := u, k_ackDueMs := v, k_sendq := (\<lambda>i. (k_sendq b i)\<lparr>pkt_sentAtMs := g i\<rparr>)\<rparr>"
    unfolding stamped_def by blast
  then show ?thesis
    by (intro stampedI [where a = u and d = v and f = g]) simp
qed

lemma stamped_sel:
  assumes "stamped k k'"
  shows "k_state k' = k_state k" "k_closeKind k' = k_closeKind k" "k_localIndex k' = k_localIndex k"
    "k_remoteAddr k' = k_remoteAddr k" "k_remoteIndex k' = k_remoteIndex k"
    "k_reason k' = k_reason k" "k_reasonBytes k' = k_reasonBytes k"
    "k_sentNum k' = k_sentNum k" "k_ackedNum k' = k_ackedNum k" "k_receiptNum k' = k_receiptNum k"
    "k_remoteWindow k' = k_remoteWindow k" "k_eofWanted k' = k_eofWanted k"
    "k_eofSent k' = k_eofSent k" "k_eofNum k' = k_eofNum k" "k_readNum k' = k_readNum k"
    "k_finishStartMs k' = k_finishStartMs k"
    "k_receivedNum k' = k_receivedNum k" "k_localWindow k' = k_localWindow k"
    "k_rcvq k' = k_rcvq k" "k_eofReceived k' = k_eofReceived k"
    "k_openedMs k' = k_openedMs k" "k_lastHeardMs k' = k_lastHeardMs k"
    "k_lastProbeMs k' = k_lastProbeMs k"
    "pkt_present (k_sendq k' i) = pkt_present (k_sendq k i)"
    "pkt_num (k_sendq k' i) = pkt_num (k_sendq k i)"
    "pkt_opcode (k_sendq k' i) = pkt_opcode (k_sendq k i)"
    "pkt_nBytes (k_sendq k' i) = pkt_nBytes (k_sendq k i)"
    "pkt_offset (k_sendq k' i) = pkt_offset (k_sendq k i)"
    "pkt_data (k_sendq k' i) = pkt_data (k_sendq k i)"
  using assms by (auto simp: stamped_def)

lemma stamped_ack:
  "stamped k (k\<lparr>k_lastAckSent := a, k_ackDueMs := d\<rparr>)"
  by (rule stampedI [where a = a and d = d and f = "\<lambda>i. pkt_sentAtMs (k_sendq k i)"]) simp

lemma stamped_transmit:
  "stamped k (k\<lparr>k_sendq := (k_sendq k)(s := (k_sendq k s)\<lparr>pkt_sentAtMs := t\<rparr>),
                k_lastAckSent := a, k_ackDueMs := d\<rparr>)"
  by (rule stampedI [where a = a and d = d
        and f = "\<lambda>i. if i = s then t else pkt_sentAtMs (k_sendq k i)"]) (auto simp: fun_eq_iff)

section \<open>Sending\<close>

lemma emit_frame_sel [simp]:
  "c_conns (emit_frame c f) = c_conns c" "c_arp (emit_frame c f) = c_arp c"
  "c_emitted (emit_frame c f) = c_emitted c @ [f]"
  "c_myAddr (emit_frame c f) = c_myAddr c" "c_myMac (emit_frame c f) = c_myMac c"
  "same_config c (emit_frame c f)"
  by (simp_all add: emit_frame_def same_config_def)

lemma arp_find_sel [simp]:
  "c_conns (fst (arp_find c a cr)) = c_conns c" "c_emitted (fst (arp_find c a cr)) = c_emitted c"
  "c_myAddr (fst (arp_find c a cr)) = c_myAddr c" "c_myMac (fst (arp_find c a cr)) = c_myMac c"
  "same_config c (fst (arp_find c a cr))"
  by (auto simp: arp_find_def same_config_def Let_def split: option.splits)

lemma arp_send_request_sel [simp]:
  "c_conns (arp_send_request c i t) = c_conns c"
  "c_myAddr (arp_send_request c i t) = c_myAddr c" "c_myMac (arp_send_request c i t) = c_myMac c"
  "same_config c (arp_send_request c i t)"
  by (simp_all add: arp_send_request_def Let_def emit_frame_def same_config_def)

lemma arp_find_create: "snd (arp_find c a True) \<noteq> None"
  by (auto simp: arp_find_def Let_def split: option.splits)

lemma arp_resolve_sel [simp]:
  "c_conns (fst (arp_resolve c a t)) = c_conns c" "same_config c (fst (arp_resolve c a t))"
proof -
  obtain c1 o1 where e: "arp_find c a True = (c1, o1)" by fastforce
  have c1: "c_conns c1 = c_conns c" "same_config c c1"
    using arp_find_sel(1,5) [of c a True] e by auto
  then show "c_conns (fst (arp_resolve c a t)) = c_conns c"
    by (auto simp: arp_resolve_def e Let_def split: option.splits)
  show "same_config c (fst (arp_resolve c a t))"
    using c1(2) by (auto simp: arp_resolve_def e Let_def split: option.splits
        intro: same_config_trans arp_send_request_sel(4))
qed

lemma send_raw_sel [simp]:
  "c_conns (fst (send_raw c opc da di si n ack pl t)) = c_conns c"
  "same_config c (fst (send_raw c opc da di si n ack pl t))"
proof -
  obtain c1 o1 where e: "arp_resolve c da t = (c1, o1)" by fastforce
  have c1: "c_conns c1 = c_conns c" "same_config c c1"
    using arp_resolve_sel [of c da t] e by auto
  then show "c_conns (fst (send_raw c opc da di si n ack pl t)) = c_conns c"
    by (auto simp: send_raw_def e Let_def split: option.splits)
  show "same_config c (fst (send_raw c opc da di si n ack pl t))"
    using c1(2) by (auto simp: send_raw_def e Let_def split: option.splits
        intro: same_config_trans emit_frame_sel(6))
qed

text \<open>A step that leaves every connection alone but for its stamps.\<close>

definition quiet :: "ChaosCore \<Rightarrow> ChaosCore \<Rightarrow> bool" where
  "quiet c c' \<longleftrightarrow> same_config c c' \<and> (\<forall>h. stamped (c_conns c h) (c_conns c' h))"

lemma quiet_refl [simp]: "quiet c c"
  by (simp add: quiet_def)

lemma quiet_trans [trans]: "quiet a b \<Longrightarrow> quiet b c \<Longrightarrow> quiet a c"
  by (meson quiet_def same_config_trans stamped_trans)

lemma quiet_same_conns: "same_config c c' \<Longrightarrow> c_conns c' = c_conns c \<Longrightarrow> quiet c c'"
  by (simp add: quiet_def)

lemma quiet_set_conn: "stamped (c_conns c h) k \<Longrightarrow> quiet c (set_conn c h k)"
  by (simp add: quiet_def)

lemma quiet_send_raw: "quiet c (fst (send_raw c opc da di si n ack pl t))"
  by (rule quiet_same_conns) simp_all

lemma quiet_conn_send_unc: "quiet c (conn_send_unc c h opc n pl t)"
  unfolding conn_send_unc_def Let_def
  by (rule quiet_trans [OF quiet_set_conn [OF stamped_ack] quiet_send_raw])

lemma quiet_conn_send_sts: "quiet c (conn_send_sts c h t)"
  unfolding conn_send_sts_def Let_def by (rule quiet_conn_send_unc)

lemma quiet_conn_transmit: "quiet c (conn_transmit c h s t)"
  unfolding conn_transmit_def Let_def
  by (rule quiet_trans [OF quiet_set_conn [OF stamped_transmit] quiet_send_raw])

lemma quiet_meter [simp]:
  "quiet c (c\<lparr>c_nRetransmits := x\<rparr>)" "quiet c (c\<lparr>c_nDuplicates := x\<rparr>)"
  "quiet c (c\<lparr>c_nOverWindow := x\<rparr>)" "quiet c (c\<lparr>c_nLosSent := x\<rparr>)"
  "quiet c (c\<lparr>c_nStatusAnswered := x\<rparr>)" "quiet c (c\<lparr>c_nRfcRefused := x\<rparr>)"
  "quiet c (c\<lparr>c_nFramesIn := x\<rparr>)" "quiet c (c\<lparr>c_arp := y\<rparr>)"
  by (simp_all add: quiet_def same_config_def)

lemma quiet_retransmit_one: "quiet c (retransmit_one h t m n c)"
  unfolding retransmit_one_def Let_def
  by (auto intro: quiet_trans [OF quiet_meter(1) quiet_conn_transmit])

lemma quiet_fold: "(\<And>x c. quiet c (f x c)) \<Longrightarrow> quiet c (fold f xs c)"
  by (induction xs arbitrary: c) (auto intro: quiet_trans)

lemma quiet_then_fold: "quiet c0 c \<Longrightarrow> (\<And>x c. quiet c (f x c)) \<Longrightarrow> quiet c0 (fold f xs c)"
  by (rule quiet_trans [OF _ quiet_fold])

lemma quiet_conn_retransmit: "quiet c (conn_retransmit c h t m)"
  unfolding conn_retransmit_def by (rule quiet_fold) (rule quiet_retransmit_one)

lemma quiet_arp_learn: "quiet c (arp_learn c a mac t)"
proof -
  obtain c1 o1 where e: "arp_find c a True = (c1, o1)" by fastforce
  have c1: "quiet c c1"
    using arp_find_sel(1,5) [of c a True] e by (auto intro: quiet_same_conns)
  show ?thesis
    using c1 by (auto simp: arp_learn_def e Let_def split: option.splits
        intro!: quiet_then_fold quiet_conn_retransmit intro: quiet_trans quiet_meter(8))
qed

lemma quiet_emit_frame: "quiet c (emit_frame c f)"
  by (rule quiet_same_conns) simp_all

lemma quiet_handle_arp: "quiet c (handle_arp c frame t)"
  unfolding handle_arp_def Let_def
  by (auto intro: quiet_trans [OF quiet_arp_learn quiet_emit_frame] quiet_arp_learn)

lemma quiet_handle_rfc: "quiet c (handle_rfc c ch d t)"
  unfolding handle_rfc_def Let_def
  by (auto intro: quiet_trans [OF quiet_meter(5) quiet_send_raw] quiet_trans [OF quiet_meter(6) quiet_send_raw])

lemma quiet_send_los_reply: "quiet c (send_los_reply c ch r t)"
  unfolding send_los_reply_def by (rule quiet_trans [OF quiet_meter(4) quiet_send_raw])

lemmas quiet_intros = quiet_send_raw quiet_conn_send_unc quiet_conn_send_sts quiet_conn_transmit
  quiet_conn_retransmit quiet_arp_learn quiet_handle_arp quiet_handle_rfc quiet_send_los_reply

end
