(* ===== verification/Chaos_Inv.thy ===== *)
theory Chaos_Inv
  imports Chaos_Frame
begin

text \<open>
  The invariant of a connection and that every operation on the connection record keeps it:
  the send ring holds exactly the packets sent and not yet receipted, the receive ring holds
  packets of the receive window only and everything up to the in-order mark, at most
  \<^verbatim>\<open>CHAOS_MAX_WINDOW\<close> packets are outstanding, and no buffer is written past its end.
\<close>

section \<open>Rings\<close>

definition ring_holds :: "ChaosPkt carray \<Rightarrow> u16 \<Rightarrow> u16 \<Rightarrow> bool" where
  "ring_holds q r s \<longleftrightarrow> (\<forall>n. in_span r s n \<longrightarrow> ring_has q n)"

definition ring_only :: "ChaosPkt carray \<Rightarrow> u16 \<Rightarrow> u16 \<Rightarrow> bool" where
  "ring_only q r s \<longleftrightarrow>
     (\<forall>i<CHAOS_RING. pkt_present (q i) \<longrightarrow> ring_slot (pkt_num (q i)) = i \<and> in_span r s (pkt_num (q i)))"

definition ring_empty :: "ChaosPkt carray \<Rightarrow> bool" where
  "ring_empty q \<longleftrightarrow> (\<forall>i<CHAOS_RING. \<not> pkt_present (q i))"

lemma ring_holds_empty [simp]: "ring_holds q r r"
  by (simp add: ring_holds_def)

lemma ring_only_empty: "ring_empty q \<Longrightarrow> ring_only q r s"
  by (simp add: ring_only_def ring_empty_def)

lemma ring_only_has: "ring_only q r s \<Longrightarrow> ring_has q n \<Longrightarrow> in_span r s n"
  unfolding ring_only_def ring_has_def by (drule spec [of _ "ring_slot n"]) simp

lemma ring_has_upd:
  assumes "ring_has q n" "ring_slot m \<noteq> ring_slot n"
  shows "ring_has (q(ring_slot m := p)) n"
  using assms by (simp add: ring_has_def)

text \<open>A new packet after the last one of a span shorter than the ring keeps the others.\<close>

lemma ring_holds_insert:
  assumes "ring_holds q r s" "unat (s - r) < 64" "pkt_present p" "pkt_num p = seq_inc s"
  shows "ring_holds (q(ring_slot (seq_inc s) := p)) r (seq_inc s)"
  unfolding ring_holds_def
proof (intro allI impI)
  fix n assume n: "in_span r (seq_inc s) n"
  have le: "unat (seq_inc s - r) \<le> 64"
    using assms(2) dist_inc [of s r] by simp
  show "ring_has (q(ring_slot (seq_inc s) := p)) n"
  proof (cases "n = seq_inc s")
    case True
    then show ?thesis using assms by (simp add: ring_has_def)
  next
    case False
    then have "ring_has q n"
      using n assms(1,2) by (simp add: in_span_Suc ring_holds_def)
    moreover have "ring_slot (seq_inc s) \<noteq> ring_slot n"
    proof
      assume "ring_slot (seq_inc s) = ring_slot n"
      moreover have "in_span r (seq_inc s) (seq_inc s)"
        using assms(2) by (simp add: in_span_Suc)
      ultimately have "seq_inc s = n" using n le by (intro ring_slot_inj_span) auto
      with False show False by simp
    qed
    ultimately show ?thesis by (rule ring_has_upd)
  qed
qed

lemma ring_only_insert:
  assumes "ring_only q r s" "in_span r s' n" "\<And>m. in_span r s m \<Longrightarrow> in_span r s' m"
    "pkt_num p = n"
  shows "ring_only (q(ring_slot n := p)) r s'"
  using assms unfolding ring_only_def by simp

text \<open>Clearing the slots of a range of numbers, as the receipt loop does.\<close>

lemma fold_clear:
  "fold (\<lambda>n q. q(ring_slot n := (q (ring_slot n))\<lparr>pkt_present := False\<rparr>)) ns q i =
     (if i \<in> ring_slot ` set ns then (q i)\<lparr>pkt_present := False\<rparr> else q i)"
  by (induction ns arbitrary: q) auto

lemma ring_clear_prefix:
  assumes q: "ring_holds q r s" "ring_only q r s" and le: "unat (s - r) \<le> 64"
    and r': "unat (r' - r) \<le> unat (s - r)"
    and q': "\<And>i. q' i = (if i \<in> ring_slot ` {n. in_span r r' n} then (q i)\<lparr>pkt_present := False\<rparr> else q i)"
  shows "ring_holds q' r' s \<and> ring_only q' r' s"
proof
  have sub: "in_span r s m" if "in_span r r' m" for m
    using that r' by (auto simp: in_span_def)
  show "ring_holds q' r' s"
    unfolding ring_holds_def
  proof (intro allI impI)
    fix n assume "in_span r' s n"
    then have n: "in_span r s n" "\<not> in_span r r' n" using in_span_rebase [OF r'] by auto
    have "ring_slot n \<notin> ring_slot ` {n. in_span r r' n}"
      using n sub le by (metis (mono_tags, lifting) imageE mem_Collect_eq ring_slot_inj_span)
    then show "ring_has q' n" using n(1) q(1) by (simp add: ring_has_def ring_holds_def q')
  qed
  show "ring_only q' r' s"
    unfolding ring_only_def
  proof (intro allI impI)
    fix i assume i: "i < CHAOS_RING" "pkt_present (q' i)"
    then have nin: "i \<notin> ring_slot ` {n. in_span r r' n}" and eq: "q' i = q i"
      by (auto simp: q' split: if_splits)
    then have "ring_slot (pkt_num (q i)) = i" "in_span r s (pkt_num (q i))"
      using i q(2) by (auto simp: ring_only_def)
    moreover from this nin have "\<not> in_span r r' (pkt_num (q i))"
      by (metis (mono_tags) imageI mem_Collect_eq)
    ultimately show "ring_slot (pkt_num (q' i)) = i \<and> in_span r' s (pkt_num (q' i))"
      using eq in_span_rebase [OF r'] by auto
  qed
qed

section \<open>The connection invariant\<close>

definition pkt_wf :: "ChaosPkt \<Rightarrow> bool" where
  "pkt_wf p \<longleftrightarrow> length (pkt_data p) = CHAOS_MAX_DATA \<and> unat (pkt_nBytes p) \<le> CHAOS_MAX_DATA \<and>
     pkt_offset p \<le> pkt_nBytes p"

definition send_inv :: "ChaosConn \<Rightarrow> bool" where
  "send_inv k \<longleftrightarrow>
     unat (k_sentNum k - k_ackedNum k) \<le> 50 \<and>
     unat (k_sentNum k - k_receiptNum k) \<le> unat (k_sentNum k - k_ackedNum k) \<and>
     unat (k_remoteWindow k) \<le> 50 \<and>
     ring_holds (k_sendq k) (k_receiptNum k) (k_sentNum k) \<and>
     ring_only (k_sendq k) (k_receiptNum k) (k_sentNum k) \<and>
     (\<forall>i<CHAOS_RING. pkt_wf (k_sendq k i))"

definition recv_inv :: "ChaosConn \<Rightarrow> bool" where
  "recv_inv k \<longleftrightarrow>
     unat (k_localWindow k) \<le> 64 \<and>
     unat (k_receivedNum k - k_readNum k) \<le> unat (k_localWindow k) \<and>
     ring_holds (k_rcvq k) (k_readNum k) (k_receivedNum k) \<and>
     ring_only (k_rcvq k) (k_readNum k) (k_readNum k + k_localWindow k) \<and>
     (\<forall>i<CHAOS_RING. pkt_wf (k_rcvq k i))"

definition phase_inv :: "ChaosConn \<Rightarrow> bool" where
  "phase_inv k \<longleftrightarrow>
     (k_state k = CONN_RFC_SENT \<longrightarrow> ring_empty (k_rcvq k) \<and> \<not> k_eofWanted k) \<and>
     (k_eofSent k \<longrightarrow> k_eofWanted k \<and> k_eofNum k = k_sentNum k) \<and>
     length (k_reason k) = CHAOS_MAX_DATA + 1 \<and> k_reasonBytes k \<le> CHAOS_MAX_DATA"

definition conn_inv :: "ChaosConn \<Rightarrow> bool" where
  "conn_inv k \<longleftrightarrow> send_inv k \<and> recv_inv k \<and> phase_inv k"

lemma pkt_wf_zero [simp]: "pkt_wf zero_pkt"
  by (simp add: pkt_wf_def zero_pkt_def)

lemma conn_inv_zero [simp]: "conn_inv zero_conn"
  by (auto simp: conn_inv_def send_inv_def recv_inv_def phase_inv_def zero_conn_def ring_empty_def
      zero_pkt_def pkt_wf_def ring_only_def)

lemma ring_has_stamped: "stamped k k' \<Longrightarrow> ring_has (k_sendq k') n = ring_has (k_sendq k) n"
  by (simp add: ring_has_def stamped_sel)

lemma conn_inv_stamped:
  assumes "stamped k k'" "conn_inv k"
  shows "conn_inv k'"
  using assms(2)
  unfolding conn_inv_def send_inv_def recv_inv_def phase_inv_def ring_holds_def ring_only_def pkt_wf_def
  by (simp add: stamped_sel [OF assms(1)] ring_has_stamped [OF assms(1)])

section \<open>Operations on the connection record\<close>

lemma conn_window_available_pos:
  "conn_window_available k > 0 \<longleftrightarrow> unat (k_sentNum k - k_ackedNum k) < unat (k_remoteWindow k)"
  unfolding conn_window_available_def seq_diff_def by linarith

lemma send_inv_enqueue:
  assumes inv: "send_inv k" and room: "conn_window_available k > 0"
    and len: "length pl \<le> CHAOS_MAX_DATA"
  shows "send_inv (conn_enqueue k opc pl)"
proof -
  let ?s = "k_sentNum k" and ?a = "k_ackedNum k" and ?r = "k_receiptNum k"
  let ?n = "seq_inc ?s"
  define p where "p = (k_sendq k (ring_slot ?n))
    \<lparr>pkt_present := True, pkt_opcode := opc, pkt_num := ?n, pkt_nBytes := of_nat (length pl),
     pkt_offset := 0, pkt_data := memcpy_at (pkt_data (k_sendq k (ring_slot ?n))) 0 pl\<rparr>"
  have k': "conn_enqueue k opc pl = k\<lparr>k_sentNum := ?n, k_sendq := (k_sendq k)(ring_slot ?n := p)\<rparr>"
    by (simp add: conn_enqueue_def p_def Let_def)
  have b: "unat (?s - ?a) < 50"
    using room inv by (simp add: conn_window_available_pos send_inv_def)
  have r: "unat (?s - ?r) \<le> unat (?s - ?a)" using inv by (simp add: send_inv_def)
  have d: "unat (?n - ?a) = Suc (unat (?s - ?a))" "unat (?n - ?r) = Suc (unat (?s - ?r))"
    using b r by (auto intro!: dist_inc)
  have "ring_holds ((k_sendq k)(ring_slot ?n := p)) ?r ?n"
    using inv b r by (intro ring_holds_insert) (auto simp: send_inv_def p_def)
  moreover have "ring_only ((k_sendq k)(ring_slot ?n := p)) ?r ?n"
    using inv b r by (intro ring_only_insert) (auto simp: send_inv_def p_def in_span_Suc)
  moreover have "pkt_wf p"
    using inv len unfolding send_inv_def pkt_wf_def p_def
    by (simp add: unat_of_nat min_def)
  ultimately show ?thesis
    using inv b r d unfolding k' send_inv_def by auto
qed

lemma conn_inv_enqueue:
  assumes "conn_inv k" "conn_window_available k > 0" "length pl \<le> CHAOS_MAX_DATA"
    "\<not> k_eofSent k"
  shows "conn_inv (conn_enqueue k opc pl)"
  using assms send_inv_enqueue [of k pl opc]
  by (auto simp: conn_inv_def recv_inv_def phase_inv_def conn_enqueue_def Let_def)

lemma conn_enqueue_sel [simp]:
  "k_state (conn_enqueue k opc pl) = k_state k" "k_eofWanted (conn_enqueue k opc pl) = k_eofWanted k"
  "k_eofSent (conn_enqueue k opc pl) = k_eofSent k" "k_sentNum (conn_enqueue k opc pl) = seq_inc (k_sentNum k)"
  "k_ackedNum (conn_enqueue k opc pl) = k_ackedNum k" "k_receiptNum (conn_enqueue k opc pl) = k_receiptNum k"
  "k_remoteWindow (conn_enqueue k opc pl) = k_remoteWindow k"
  "k_localIndex (conn_enqueue k opc pl) = k_localIndex k"
  "k_rcvq (conn_enqueue k opc pl) = k_rcvq k" "k_readNum (conn_enqueue k opc pl) = k_readNum k"
  "k_receivedNum (conn_enqueue k opc pl) = k_receivedNum k"
  by (simp_all add: conn_enqueue_def Let_def)

text \<open>Acknowledgements: below the mark \<open>sentNum\<close>, each mark moves to the later of the two numbers.\<close>

lemma conn_apply_ack_marks:
  assumes inv: "send_inv k"
    and ok: "\<not> chaos_seq_lt (k_sentNum k) ack" "\<not> chaos_seq_lt (k_sentNum k) receipt"
  defines "s \<equiv> k_sentNum k"
  shows "unat (s - k_ackedNum (conn_apply_ack k ack receipt)) = min (unat (s - k_ackedNum k)) (unat (s - ack))"
    and "unat (s - k_receiptNum (conn_apply_ack k ack receipt)) =
           min (unat (s - k_receiptNum k)) (min (unat (s - receipt)) (unat (s - ack)))"
    and "k_sentNum (conn_apply_ack k ack receipt) = s"
proof -
  have b: "unat (s - ack) < 2 ^ 15" "unat (s - receipt) < 2 ^ 15"
    "unat (s - k_ackedNum k) < 2 ^ 15" "unat (s - k_receiptNum k) < 2 ^ 15"
    using ok inv by (auto simp: chaos_seq_lt_iff s_def send_inv_def)
  note lt = seq_lt_below [of s]
  show "unat (s - k_ackedNum (conn_apply_ack k ack receipt)) = min (unat (s - k_ackedNum k)) (unat (s - ack))"
    using b by (auto simp: conn_apply_ack_def Let_def lt)
  show "unat (s - k_receiptNum (conn_apply_ack k ack receipt)) =
           min (unat (s - k_receiptNum k)) (min (unat (s - receipt)) (unat (s - ack)))"
    using b by (auto simp: conn_apply_ack_def Let_def lt)
  show "k_sentNum (conn_apply_ack k ack receipt) = s"
    by (simp add: conn_apply_ack_def Let_def s_def)
qed

lemma conn_apply_ack_sel [simp]:
  "k_state (conn_apply_ack k ack rc) = k_state k" "k_eofWanted (conn_apply_ack k ack rc) = k_eofWanted k"
  "k_eofSent (conn_apply_ack k ack rc) = k_eofSent k" "k_eofNum (conn_apply_ack k ack rc) = k_eofNum k"
  "k_sentNum (conn_apply_ack k ack rc) = k_sentNum k"
  "k_remoteWindow (conn_apply_ack k ack rc) = k_remoteWindow k"
  "k_localIndex (conn_apply_ack k ack rc) = k_localIndex k"
  "k_remoteAddr (conn_apply_ack k ack rc) = k_remoteAddr k"
  "k_remoteIndex (conn_apply_ack k ack rc) = k_remoteIndex k"
  "k_readNum (conn_apply_ack k ack rc) = k_readNum k"
  "k_receivedNum (conn_apply_ack k ack rc) = k_receivedNum k"
  "k_localWindow (conn_apply_ack k ack rc) = k_localWindow k" "k_rcvq (conn_apply_ack k ack rc) = k_rcvq k"
  "k_reason (conn_apply_ack k ack rc) = k_reason k" "k_reasonBytes (conn_apply_ack k ack rc) = k_reasonBytes k"
  "k_eofReceived (conn_apply_ack k ack rc) = k_eofReceived k"
  by (simp_all add: conn_apply_ack_def Let_def)

lemma conn_apply_ack_sendq:
  assumes inv: "send_inv k"
    and ok: "\<not> chaos_seq_lt (k_sentNum k) ack" "\<not> chaos_seq_lt (k_sentNum k) receipt"
  defines "r' \<equiv> k_receiptNum (conn_apply_ack k ack receipt)"
  shows "k_sendq (conn_apply_ack k ack receipt) i =
    (if i \<in> ring_slot ` {n. in_span (k_receiptNum k) r' n}
     then (k_sendq k i)\<lparr>pkt_present := False\<rparr> else k_sendq k i)"
proof -
  let ?x = "if chaos_seq_lt receipt ack then ack else receipt"
  have r': "r' = (if chaos_seq_lt (k_receiptNum k) ?x then ?x else k_receiptNum k)"
    by (simp add: r'_def conn_apply_ack_def Let_def)
  have le: "unat (k_sentNum k - r') \<le> unat (k_sentNum k - k_receiptNum k)"
    unfolding r'_def using conn_apply_ack_marks(2) [OF inv ok] by simp
  have "unat (r' - k_receiptNum k) = unat (k_sentNum k - k_receiptNum k) - unat (k_sentNum k - r')"
    using le by (rule dist_le_trans)
  then have le15: "unat (r' - k_receiptNum k) \<le> 2 ^ 15"
    using inv by (auto simp: send_inv_def)
  show ?thesis
  proof (cases "chaos_seq_lt (k_receiptNum k) ?x")
    case True
    then have "r' = ?x" using r' by simp
    then have "k_sendq (conn_apply_ack k ack receipt) =
      fold (\<lambda>n q. q(ring_slot n := (q (ring_slot n))\<lparr>pkt_present := False\<rparr>))
        (seq_loop (seq_inc (k_receiptNum k)) r') (k_sendq k)"
      using True by (simp add: conn_apply_ack_def Let_def)
    moreover have "set (seq_loop (seq_inc (k_receiptNum k)) r') = {n. in_span (k_receiptNum k) r' n}"
      using le15 set_seq_loop_span by blast
    ultimately show ?thesis by (simp add: fold_clear)
  next
    case False
    then have "k_sendq (conn_apply_ack k ack receipt) = k_sendq k" "r' = k_receiptNum k"
      using r' by (auto simp: conn_apply_ack_def Let_def)
    then show ?thesis by simp
  qed
qed

lemma send_inv_apply_ack:
  assumes inv: "send_inv k"
    and ok: "\<not> chaos_seq_lt (k_sentNum k) ack" "\<not> chaos_seq_lt (k_sentNum k) receipt"
  shows "send_inv (conn_apply_ack k ack receipt)"
proof -
  let ?k = "conn_apply_ack k ack receipt"
  note m = conn_apply_ack_marks [OF inv ok] and q = conn_apply_ack_sendq [OF inv ok]
  have le: "unat (k_sentNum k - k_receiptNum ?k) \<le> unat (k_sentNum k - k_receiptNum k)"
    using m(2) by simp
  have "unat (k_receiptNum ?k - k_receiptNum k) \<le> unat (k_sentNum k - k_receiptNum k)"
    using dist_le_trans [OF le] by simp
  then have "ring_holds (k_sendq ?k) (k_receiptNum ?k) (k_sentNum k) \<and>
        ring_only (k_sendq ?k) (k_receiptNum ?k) (k_sentNum k)"
    using inv by (intro ring_clear_prefix [OF _ _ _ _ q]) (auto simp: send_inv_def)
  moreover have "\<forall>i<CHAOS_RING. pkt_wf (k_sendq ?k i)"
    using inv by (auto simp: q send_inv_def pkt_wf_def)
  ultimately show ?thesis
    using inv m unfolding send_inv_def by auto
qed

lemma conn_inv_apply_ack:
  assumes "conn_inv k"
    and "\<not> chaos_seq_lt (k_sentNum k) ack" "\<not> chaos_seq_lt (k_sentNum k) receipt"
  shows "conn_inv (conn_apply_ack k ack receipt)"
  using assms send_inv_apply_ack [of k ack receipt]
  by (simp add: conn_inv_def recv_inv_def phase_inv_def)

lemma conn_set_closed_sel [simp]:
  "k_state (conn_set_closed k kind txt) = CONN_CLOSED"
  "k_closeKind (conn_set_closed k kind txt) = kind"
  "k_localIndex (conn_set_closed k kind txt) = k_localIndex k"
  "k_remoteAddr (conn_set_closed k kind txt) = k_remoteAddr k"
  "k_remoteIndex (conn_set_closed k kind txt) = k_remoteIndex k"
  "k_rcvq (conn_set_closed k kind txt) = k_rcvq k"
  "k_readNum (conn_set_closed k kind txt) = k_readNum k"
  "k_receivedNum (conn_set_closed k kind txt) = k_receivedNum k"
  "k_localWindow (conn_set_closed k kind txt) = k_localWindow k"
  "k_eofReceived (conn_set_closed k kind txt) = k_eofReceived k"
  by (simp_all add: conn_set_closed_def Let_def)

lemma conn_inv_set_closed:
  assumes "conn_inv k"
  shows "conn_inv (conn_set_closed k kind txt)"
proof -
  have "send_inv (conn_set_closed k kind txt)"
    using assms by (auto simp: conn_inv_def send_inv_def conn_set_closed_def Let_def ring_only_def pkt_wf_def)
  moreover have "recv_inv (conn_set_closed k kind txt)"
    using assms by (simp add: conn_inv_def recv_inv_def)
  moreover have "phase_inv (conn_set_closed k kind txt)"
    using assms by (auto simp: conn_inv_def phase_inv_def conn_set_closed_def Let_def memcpy_at_def)
  ultimately show ?thesis by (simp add: conn_inv_def)
qed

text \<open>The advance of the in-order mark stays inside the receive window and skips no packet.\<close>

lemma advance_received_inv:
  assumes "ring_only q b e" "unat (e - b) \<le> 64" "ring_holds q b r" "unat (r - b) \<le> unat (e - b)"
  shows "unat (advance_received q r - b) \<le> unat (e - b) \<and> unat (r - b) \<le> unat (advance_received q r - b) \<and>
    ring_holds q b (advance_received q r)"
  using assms
proof (induction q r rule: advance_received.induct)
  case (1 q r)
  let ?n = "seq_inc r"
  show ?case
  proof (cases "ring_has q ?n")
    case False
    then have "advance_received q r = r"
      by (subst advance_received.simps) (auto simp: ring_has_def Let_def)
    with "1.prems" show ?thesis by simp
  next
    case True
    have "in_span b e ?n" using "1.prems"(1) True by (rule ring_only_has)
    moreover have d: "unat (?n - b) = Suc (unat (r - b))"
      using "1.prems" by (intro dist_inc) simp
    ultimately have le: "unat (?n - b) \<le> unat (e - b)" by (simp add: in_span_def)
    have h: "ring_holds q b ?n"
      using "1.prems" True by (auto simp: ring_holds_def in_span_Suc)
    show ?thesis
    proof (cases "pkt_opcode (q (ring_slot ?n)) = CHOP_EOF")
      case eof: True
      then have "advance_received q r = ?n"
        using True by (subst advance_received.simps) (simp add: ring_has_def Let_def)
      with le h d show ?thesis by simp
    next
      case False
      then have "advance_received q r = advance_received q ?n"
        using True by (subst advance_received.simps) (simp add: ring_has_def Let_def)
      moreover have "unat (advance_received q ?n - b) \<le> unat (e - b) \<and>
          unat (?n - b) \<le> unat (advance_received q ?n - b) \<and> ring_holds q b (advance_received q ?n)"
        using True False "1.prems" h le by (intro "1.IH") (auto simp: ring_has_def)
      ultimately show ?thesis using d by simp
    qed
  qed
qed

lemma recv_inv_store_input:
  assumes rinv: "recv_inv k" and new: "chaos_seq_lt (k_receivedNum k) n"
    and win: "seq_diff n (k_readNum k) \<le> k_localWindow k"
    and len: "length pl \<le> CHAOS_MAX_DATA"
  shows "recv_inv (conn_store_input k opc n pl)"
    and "unat (k_receivedNum k - k_readNum k) \<le> unat (k_receivedNum (conn_store_input k opc n pl) - k_readNum k)"
    and "unat (k_receivedNum k - k_readNum k) < unat (n - k_readNum k)"
proof -
  let ?b = "k_readNum k" and ?w = "k_localWindow k" and ?r = "k_receivedNum k"
  let ?p0 = "k_rcvq k (ring_slot n)"
  define p where "p = ?p0\<lparr>pkt_present := True, pkt_num := n, pkt_opcode := opc,
    pkt_nBytes := of_nat (length pl), pkt_offset := 0, pkt_data := memcpy_at (pkt_data ?p0) 0 pl\<rparr>"
  define q where "q = (k_rcvq k)(ring_slot n := p)"
  have k': "conn_store_input k opc n pl = k\<lparr>k_rcvq := q, k_receivedNum := advance_received q ?r\<rparr>"
    by (simp add: conn_store_input_def p_def q_def Let_def)
  have w: "unat ?w \<le> 64" "unat (?r - ?b) \<le> unat ?w" using rinv by (auto simp: recv_inv_def)
  have nb: "unat (n - ?b) \<le> unat ?w" using win by (simp add: seq_diff_def word_le_nat_alt)
  show gt: "unat (?r - ?b) < unat (n - ?b)"
    using new w nb seq_lt_above [of ?r ?b n] by simp
  have span: "in_span ?b (?b + ?w) n" using gt nb by (simp add: in_span_def)
  have only: "ring_only q ?b (?b + ?w)"
    unfolding q_def using rinv span by (intro ring_only_insert) (auto simp: recv_inv_def p_def)
  have holds: "ring_holds q ?b ?r"
    unfolding ring_holds_def
  proof (intro allI impI)
    fix m assume m: "in_span ?b ?r m"
    then have "in_span ?b (?b + ?w) m" "m \<noteq> n" using w gt by (auto simp: in_span_def)
    then have "ring_slot n \<noteq> ring_slot m"
      using ring_slot_inj_span [OF span] w(1) by force
    moreover have "ring_has (k_rcvq k) m" using m rinv by (simp add: recv_inv_def ring_holds_def)
    ultimately show "ring_has q m" unfolding q_def by (intro ring_has_upd)
  qed
  note adv = advance_received_inv [OF only _ holds]
  have "pkt_wf p" using rinv len by (simp add: recv_inv_def pkt_wf_def p_def unat_of_nat)
  then have "\<forall>i<CHAOS_RING. pkt_wf (q i)" using rinv by (simp add: q_def recv_inv_def)
  then show "recv_inv (conn_store_input k opc n pl)"
    using w adv only unfolding k' recv_inv_def by simp
  show "unat (?r - ?b) \<le> unat (k_receivedNum (conn_store_input k opc n pl) - ?b)"
    using w adv unfolding k' by simp
qed

lemma conn_inv_store_input:
  assumes "conn_inv k" "k_state k \<noteq> CONN_RFC_SENT" "chaos_seq_lt (k_receivedNum k) n"
    "seq_diff n (k_readNum k) \<le> k_localWindow k" "length pl \<le> CHAOS_MAX_DATA"
  shows "conn_inv (conn_store_input k opc n pl)"
  using assms recv_inv_store_input(1) [of k n pl opc]
  by (simp add: conn_inv_def) (simp add: send_inv_def phase_inv_def conn_store_input_def Let_def)

lemma conn_store_input_sel [simp]:
  "k_state (conn_store_input k opc n pl) = k_state k"
  "k_localIndex (conn_store_input k opc n pl) = k_localIndex k"
  by (simp_all add: conn_store_input_def Let_def)

end
