(* ===== verification/Chaos_Recv.thy ===== *)
theory Chaos_Recv
  imports Chaos_Inv
begin

text \<open>
  The receive side as a byte stream. \<open>pending k\<close> is what the user can read now: the payloads of
  the packets after \<^verbatim>\<open>readNum\<close> up to \<^verbatim>\<open>receivedNum\<close>, in the order of their numbers, up to the
  peer's EOF. Reading takes bytes from its front, storing a packet adds bytes to its end.
\<close>

section \<open>The pending stream\<close>

definition payload :: "ChaosPkt \<Rightarrow> byte list" where
  "payload p = drop (unat (pkt_offset p)) (take (unat (pkt_nBytes p)) (pkt_data p))"

fun stream_of :: "ChaosPkt carray \<Rightarrow> u16 list \<Rightarrow> byte list" where
  "stream_of q [] = []"
| "stream_of q (n # ns) =
     (if pkt_opcode (q (ring_slot n)) = CHOP_EOF then [] else payload (q (ring_slot n)) @ stream_of q ns)"

definition pending :: "ChaosConn \<Rightarrow> byte list" where
  "pending k =
     (if k_eofReceived k then []
      else stream_of (k_rcvq k) (seq_loop (seq_inc (k_readNum k)) (k_receivedNum k)))"

lemma stream_of_cong:
  "(\<And>n. n \<in> set ns \<Longrightarrow> q' (ring_slot n) = q (ring_slot n)) \<Longrightarrow> stream_of q' ns = stream_of q ns"
  by (induction ns) auto

lemma seq_loop_Cons:
  assumes "r \<noteq> s" "unat (s - r) \<le> 64"
  shows "seq_loop (seq_inc r) s = seq_inc r # seq_loop (seq_inc (seq_inc r)) s"
    and "unat (s - seq_inc r) = unat (s - r) - 1"
proof -
  have d: "Suc (unat (s - seq_inc r)) = unat (s - r)"
    using unat_Suc_diff [OF assms(1)] by (simp add: seq_inc_def)
  then show "unat (s - seq_inc r) = unat (s - r) - 1" by simp
  have "\<not> chaos_seq_lt s (seq_inc r)" using d assms(2) by (simp add: chaos_seq_lt_iff)
  then show "seq_loop (seq_inc r) s = seq_inc r # seq_loop (seq_inc (seq_inc r)) s"
    by (rule seq_loop_step)
qed

lemma dist_one: "unat (seq_inc r - r) = 1"
  by (simp add: seq_inc_def)

lemma in_span_one: "in_span r (seq_inc r) m \<longleftrightarrow> m = seq_inc r"
  using in_span_Suc [of r r m] by simp

section \<open>Consuming a packet\<close>

lemma recv_inv_next:
  assumes "recv_inv k" "k_readNum k \<noteq> k_receivedNum k"
  shows "in_span (k_readNum k) (k_receivedNum k) (seq_inc (k_readNum k))"
    and "ring_has (k_rcvq k) (seq_inc (k_readNum k))"
    and "pkt_wf (k_rcvq k (ring_slot (seq_inc (k_readNum k))))"
proof -
  have "0 < unat (k_receivedNum k - k_readNum k)"
    using assms(2) by (simp add: unat_gt_0)
  then show "in_span (k_readNum k) (k_receivedNum k) (seq_inc (k_readNum k))"
    by (simp add: in_span_def dist_one)
  then show "ring_has (k_rcvq k) (seq_inc (k_readNum k))"
    using assms(1) by (simp add: recv_inv_def ring_holds_def)
  show "pkt_wf (k_rcvq k (ring_slot (seq_inc (k_readNum k))))"
    using assms(1) by (simp add: recv_inv_def)
qed

definition consume :: "ChaosConn \<Rightarrow> ChaosPkt \<Rightarrow> ChaosConn" where
  "consume k p = k\<lparr>k_rcvq := (k_rcvq k)(ring_slot (seq_inc (k_readNum k)) := p\<lparr>pkt_present := False\<rparr>),
                   k_readNum := seq_inc (k_readNum k)\<rparr>"

lemma recv_inv_consume:
  assumes inv: "recv_inv k" and ne: "k_readNum k \<noteq> k_receivedNum k" and wf: "pkt_wf p"
  shows "recv_inv (consume k p)"
proof -
  let ?b = "k_readNum k" and ?r = "k_receivedNum k" and ?w = "k_localWindow k"
  let ?n = "seq_inc ?b" and ?q = "k_rcvq (consume k p)"
  have w: "unat ?w \<le> 64" "unat (?r - ?b) \<le> unat ?w" using inv by (auto simp: recv_inv_def)
  have d: "unat (?r - ?n) = unat (?r - ?b) - 1" using seq_loop_Cons(2) [OF ne] w by simp
  have le: "unat (?n - ?b) \<le> unat (?r - ?b)"
    using recv_inv_next(1) [OF inv ne] by (simp add: in_span_def)
  have sub: "in_span ?b (?b + ?w) m" if "in_span ?b ?r m" for m
    using that w by (auto simp: in_span_def)
  have span_n: "in_span ?b (?b + ?w) ?n" using recv_inv_next(1) [OF inv ne] by (rule sub)
  have "ring_holds ?q ?n ?r"
    unfolding ring_holds_def
  proof (intro allI impI)
    fix m assume "in_span ?n ?r m"
    then have m: "in_span ?b ?r m" "m \<noteq> ?n" using in_span_rebase [OF le] in_span_one by auto
    then have "ring_slot ?n \<noteq> ring_slot m"
      using ring_slot_inj_span [OF span_n] sub w(1) by force
    moreover have "ring_has (k_rcvq k) m" using m inv by (simp add: recv_inv_def ring_holds_def)
    ultimately show "ring_has ?q m" by (simp add: consume_def ring_has_upd)
  qed
  moreover have "ring_only ?q ?n (?n + ?w)"
    unfolding ring_only_def
  proof (intro allI impI)
    fix i assume i: "i < CHAOS_RING" "pkt_present (?q i)"
    then have ne_i: "i \<noteq> ring_slot ?n" and eq: "?q i = k_rcvq k i"
      by (auto simp: consume_def split: if_splits)
    let ?m = "pkt_num (k_rcvq k i)"
    have m: "ring_slot ?m = i" "in_span ?b (?b + ?w) ?m"
      using inv i eq by (auto simp: recv_inv_def ring_only_def)
    have "?m \<noteq> ?n" using m(1) ne_i by auto
    then have "\<not> in_span ?b ?n ?m" by (simp add: in_span_one)
    moreover have "unat (?n - ?b) \<le> unat (?b + ?w - ?b)" using span_n by (simp add: in_span_def)
    ultimately have "in_span ?n (?b + ?w) ?m" using m(2) in_span_rebase by blast
    moreover have "unat (?b + ?w - ?n) \<le> unat (?n + ?w - ?n)"
      using dist_shift [of ?n ?b "?b + ?w"] span_n by (simp add: in_span_def)
    ultimately have "in_span ?n (?n + ?w) ?m" by (auto simp: in_span_def)
    then show "ring_slot (pkt_num (?q i)) = i \<and> in_span ?n (?n + ?w) (pkt_num (?q i))"
      using m(1) eq by simp
  qed
  moreover have "\<forall>i<CHAOS_RING. pkt_wf (?q i)"
    using inv wf by (simp add: recv_inv_def consume_def pkt_wf_def)
  ultimately show ?thesis
    using w d by (simp add: recv_inv_def consume_def)
qed

lemma pending_consume:
  assumes inv: "recv_inv k" and ne: "k_readNum k \<noteq> k_receivedNum k" and eof: "\<not> k_eofReceived k"
    and op: "pkt_opcode (k_rcvq k (ring_slot (seq_inc (k_readNum k)))) \<noteq> CHOP_EOF"
  shows "pending k = payload (k_rcvq k (ring_slot (seq_inc (k_readNum k)))) @ pending (consume k p)"
proof -
  let ?b = "k_readNum k" and ?r = "k_receivedNum k"
  let ?n = "seq_inc ?b"
  have w: "unat (?r - ?b) \<le> 64" using inv by (auto simp: recv_inv_def)
  have d: "unat (?r - ?n) = unat (?r - ?b) - 1" using seq_loop_Cons(2) [OF ne w] .
  have le: "unat (?n - ?b) \<le> unat (?r - ?b)"
    using recv_inv_next(1) [OF inv ne] by (simp add: in_span_def)
  have "stream_of (k_rcvq (consume k p)) (seq_loop (seq_inc ?n) ?r) = stream_of (k_rcvq k) (seq_loop (seq_inc ?n) ?r)"
  proof (rule stream_of_cong)
    fix m assume "m \<in> set (seq_loop (seq_inc ?n) ?r)"
    then have "in_span ?n ?r m" using w d by (simp add: set_seq_loop_span)
    then have "in_span ?b ?r m" "m \<noteq> ?n" using in_span_rebase [OF le] in_span_one by auto
    then have "ring_slot m \<noteq> ring_slot ?n"
      using ring_slot_inj_span [OF recv_inv_next(1) [OF inv ne]] w by force
    then show "k_rcvq (consume k p) (ring_slot m) = k_rcvq k (ring_slot m)"
      by (simp add: consume_def)
  qed
  then show ?thesis
    using eof op by (simp add: pending_def seq_loop_Cons(1) [OF ne w] consume_def)
qed

section \<open>The receive loop\<close>

text \<open>The fields the loop leaves alone.\<close>

definition recv_frame :: "ChaosConn \<Rightarrow> ChaosConn \<Rightarrow> bool" where
  "recv_frame k k' \<longleftrightarrow> (\<exists>q r e. k' = k\<lparr>k_rcvq := q, k_readNum := r, k_eofReceived := e\<rparr>)"

lemma recv_frameI: "k' = k\<lparr>k_rcvq := q, k_readNum := r, k_eofReceived := e\<rparr> \<Longrightarrow> recv_frame k k'"
  unfolding recv_frame_def by blast

lemma recv_frame_trans: "recv_frame a b \<Longrightarrow> recv_frame b c \<Longrightarrow> recv_frame a c"
  unfolding recv_frame_def by (elim exE) (rule exI, rule exI, rule exI, simp)

lemma recv_frame_sel:
  assumes "recv_frame k k'"
  shows "k_state k' = k_state k" "k_localIndex k' = k_localIndex k" "k_sentNum k' = k_sentNum k"
    "k_ackedNum k' = k_ackedNum k" "k_receiptNum k' = k_receiptNum k" "k_sendq k' = k_sendq k"
    "k_remoteWindow k' = k_remoteWindow k" "k_eofWanted k' = k_eofWanted k" "k_eofSent k' = k_eofSent k"
    "k_eofNum k' = k_eofNum k" "k_reason k' = k_reason k" "k_reasonBytes k' = k_reasonBytes k"
    "k_receivedNum k' = k_receivedNum k" "k_localWindow k' = k_localWindow k"
    "k_remoteAddr k' = k_remoteAddr k" "k_remoteIndex k' = k_remoteIndex k"
  using assms by (auto simp: recv_frame_def)

text \<open>How many bytes one iteration copies, without the wrap-around of the C types.\<close>

lemma payload_take:
  assumes "pkt_wf p" "t \<le> unat (pkt_nBytes p) - unat (pkt_offset p)"
  shows "take t (drop (unat (pkt_offset p)) (pkt_data p)) = take t (payload p)"
    and "length (payload p) = unat (pkt_nBytes p) - unat (pkt_offset p)"
  using assms by (auto simp: payload_def pkt_wf_def drop_take take_take min_def)

lemma size_t_diff:
  assumes "pkt_wf p"
  shows "nat ((int (unat (pkt_nBytes p)) - int (unat (pkt_offset p))) mod 2 ^ 64) =
    unat (pkt_nBytes p) - unat (pkt_offset p)"
proof -
  have small: "nat ((int a - int b) mod 2 ^ 64) = a - b" if "b \<le> a" "a \<le> 488" for a b :: nat
    using that by (simp add: mod_pos_pos_trivial nat_diff_distrib)
  show ?thesis
    using assms by (intro small) (simp_all add: pkt_wf_def word_le_nat_alt)
qed

text \<open>One packet read in part: the user's buffer is full.\<close>

lemma recv_partial:
  assumes inv: "recv_inv k" and ne: "k_readNum k \<noteq> k_receivedNum k" and eof: "\<not> k_eofReceived k"
    and p: "p = k_rcvq k (ring_slot (seq_inc (k_readNum k)))" and op: "pkt_opcode p \<noteq> CHOP_EOF"
    and t: "t < length (payload p)"
  defines "k' \<equiv> k\<lparr>k_rcvq := (k_rcvq k)(ring_slot (seq_inc (k_readNum k)) := p\<lparr>pkt_offset := pkt_offset p + of_nat t\<rparr>)\<rparr>"
  shows "recv_inv k'" "pending k' = drop t (pending k)"
proof -
  let ?n = "seq_inc (k_readNum k)"
  let ?p = "p\<lparr>pkt_offset := pkt_offset p + of_nat t\<rparr>"
  have wf: "pkt_wf p" using recv_inv_next(3) [OF inv ne] p by simp
  have b: "unat (pkt_offset p) + t < unat (pkt_nBytes p)" "unat (pkt_nBytes p) \<le> 488"
    using t wf payload_take(2) [OF wf, of 0] by (auto simp: pkt_wf_def)
  then have o: "unat (pkt_offset p + of_nat t) = unat (pkt_offset p) + t"
    by (simp add: unat_word_ariths unat_of_nat)
  have wf': "pkt_wf ?p" using wf b o by (simp add: pkt_wf_def word_le_nat_alt)
  have "ring_has (k_rcvq k) ?n" using inv ne by (rule recv_inv_next)
  then have sel: "pkt_present (k_rcvq k' i) = pkt_present (k_rcvq k i)" "pkt_num (k_rcvq k' i) = pkt_num (k_rcvq k i)" for i
    by (auto simp: k'_def p)
  show "recv_inv k'"
    using inv wf' unfolding recv_inv_def ring_holds_def ring_only_def ring_has_def sel
    by (simp add: k'_def)
  have "consume k' ?p = consume k ?p" "recv_inv k'"
    using \<open>recv_inv k'\<close> by (simp_all add: consume_def k'_def)
  moreover have "pending k = payload p @ pending (consume k ?p)"
    using pending_consume [OF inv ne eof, of ?p] op p by simp
  moreover have "pending k' = payload ?p @ pending (consume k' ?p)"
    using pending_consume [of k' ?p] \<open>recv_inv k'\<close> ne eof op by (simp add: k'_def)
  moreover have "payload ?p = drop t (payload p)" by (simp add: payload_def o add.commute)
  ultimately show "pending k' = drop t (pending k)" using t by simp
qed

text \<open>One iteration of the loop, without the wrap-around of the C types.\<close>

lemma recv_loop_data:
  assumes inv: "recv_inv k" and ne: "k_readNum k \<noteq> k_receivedNum k" and eof: "\<not> k_eofReceived k"
    and room: "length got < room"
    and p: "p = k_rcvq k (ring_slot (seq_inc (k_readNum k)))" and op: "pkt_opcode p \<noteq> CHOP_EOF"
  defines "t \<equiv> min (length (payload p)) (room - length got)"
  shows "recv_loop k room got adv =
    (if t < length (payload p)
     then (k\<lparr>k_rcvq := (k_rcvq k)(ring_slot (seq_inc (k_readNum k)) := p\<lparr>pkt_offset := pkt_offset p + of_nat t\<rparr>)\<rparr>,
           got @ take t (payload p), adv)
     else recv_loop (consume k (p\<lparr>pkt_offset := pkt_offset p + of_nat t\<rparr>)) room (got @ payload p) True)"
    and "pkt_wf (p\<lparr>pkt_offset := pkt_offset p + of_nat t\<rparr>)"
proof -
  define avail where "avail = unat (pkt_nBytes p) - unat (pkt_offset p)"
  have wf: "pkt_wf p" using recv_inv_next(3) [OF inv ne] p by simp
  have len: "length (payload p) = avail" using payload_take(2) [OF wf, of 0] by (simp add: avail_def)
  have t: "t = (if avail > room - length got then room - length got else avail)" "t \<le> avail"
    by (auto simp: t_def len)
  have bytes: "take t (drop (unat (pkt_offset p)) (pkt_data p)) = take t (payload p)"
    using payload_take(1) [OF wf] t(2) by (simp add: avail_def)
  have small: "unat (pkt_offset p) + t \<le> unat (pkt_nBytes p)" "unat (pkt_nBytes p) \<le> 488"
    using t(2) wf by (auto simp: avail_def pkt_wf_def word_le_nat_alt)
  have off: "unat (pkt_offset p + of_nat t) = unat (pkt_offset p) + t"
    using small by (simp add: unat_word_ariths unat_of_nat)
  show "pkt_wf (p\<lparr>pkt_offset := pkt_offset p + of_nat t\<rparr>)"
    using wf off small by (simp add: pkt_wf_def word_le_nat_alt)
  have stop: "pkt_offset p + of_nat t < pkt_nBytes p \<longleftrightarrow> t < avail"
    using off small wf by (auto simp: word_less_nat_alt avail_def pkt_wf_def word_le_nat_alt)
  have "recv_loop k room got adv =
    (if pkt_offset p + of_nat t < pkt_nBytes p
     then (k\<lparr>k_rcvq := (k_rcvq k)(ring_slot (seq_inc (k_readNum k)) := p\<lparr>pkt_offset := pkt_offset p + of_nat t\<rparr>)\<rparr>,
           got @ take t (payload p), adv)
     else recv_loop (consume k (p\<lparr>pkt_offset := pkt_offset p + of_nat t\<rparr>)) room (got @ take t (payload p)) True)"
    using ne eof room op
    by (subst recv_loop.simps, simp only: Let_def p [symmetric] size_t_diff [OF wf] avail_def [symmetric]
          t(1) [symmetric] bytes consume_def) simp
  then show "recv_loop k room got adv =
    (if t < length (payload p)
     then (k\<lparr>k_rcvq := (k_rcvq k)(ring_slot (seq_inc (k_readNum k)) := p\<lparr>pkt_offset := pkt_offset p + of_nat t\<rparr>)\<rparr>,
           got @ take t (payload p), adv)
     else recv_loop (consume k (p\<lparr>pkt_offset := pkt_offset p + of_nat t\<rparr>)) room (got @ payload p) True)"
    using t(2) len unfolding stop by simp
qed

lemma recv_loop_eof:
  assumes "k_readNum k \<noteq> k_receivedNum k" "\<not> k_eofReceived k" "length got < room"
    and "p = k_rcvq k (ring_slot (seq_inc (k_readNum k)))" "pkt_opcode p = CHOP_EOF"
  shows "recv_loop k room got adv = ((consume k p)\<lparr>k_eofReceived := True\<rparr>, got, True)"
proof -
  define k1 where "k1 = (consume k p)\<lparr>k_eofReceived := True\<rparr>"
  have k1: "k1 = k\<lparr>k_eofReceived := True,
      k_rcvq := (k_rcvq k)(ring_slot (seq_inc (k_readNum k)) := p\<lparr>pkt_present := False\<rparr>),
      k_readNum := seq_inc (k_readNum k)\<rparr>"
    by (simp add: k1_def consume_def)
  have "recv_loop k room got adv = recv_loop k1 room got True"
    using assms by (subst recv_loop.simps) (simp add: k1 Let_def)
  moreover have "recv_loop k1 room got True = (k1, got, True)"
    by (subst recv_loop.simps) (simp add: k1)
  ultimately show ?thesis by (simp add: k1_def)
qed

text \<open>The four ways an iteration ends, and the induction over the loop that they give.\<close>

lemma recv_loop_induct [consumes 2, case_names stop eof part full]:
  assumes "recv_inv k" "length got \<le> room"
    and stop: "\<And>k got adv. pending k = [] \<or> length got = room \<Longrightarrow> P k got adv (k, got, adv)"
    and eof: "\<And>k got adv p. recv_inv k \<Longrightarrow> k_readNum k \<noteq> k_receivedNum k \<Longrightarrow> \<not> k_eofReceived k \<Longrightarrow>
      p = k_rcvq k (ring_slot (seq_inc (k_readNum k))) \<Longrightarrow> pkt_opcode p = CHOP_EOF \<Longrightarrow>
      P k got adv ((consume k p)\<lparr>k_eofReceived := True\<rparr>, got, True)"
    and part: "\<And>k got adv p t. recv_inv k \<Longrightarrow> k_readNum k \<noteq> k_receivedNum k \<Longrightarrow> \<not> k_eofReceived k \<Longrightarrow>
      p = k_rcvq k (ring_slot (seq_inc (k_readNum k))) \<Longrightarrow> pkt_opcode p \<noteq> CHOP_EOF \<Longrightarrow>
      t < length (payload p) \<Longrightarrow> t = room - length got \<Longrightarrow> pkt_wf (p\<lparr>pkt_offset := pkt_offset p + of_nat t\<rparr>) \<Longrightarrow>
      P k got adv (k\<lparr>k_rcvq := (k_rcvq k)(ring_slot (seq_inc (k_readNum k)) := p\<lparr>pkt_offset := pkt_offset p + of_nat t\<rparr>)\<rparr>,
           got @ take t (payload p), adv)"
    and full: "\<And>k got adv p p' r. recv_inv k \<Longrightarrow> k_readNum k \<noteq> k_receivedNum k \<Longrightarrow> \<not> k_eofReceived k \<Longrightarrow>
      p = k_rcvq k (ring_slot (seq_inc (k_readNum k))) \<Longrightarrow> pkt_opcode p \<noteq> CHOP_EOF \<Longrightarrow>
      length (got @ payload p) \<le> room \<Longrightarrow> pkt_wf p' \<Longrightarrow>
      P (consume k p') (got @ payload p) True r \<Longrightarrow> P k got adv r"
  shows "P k got adv (recv_loop k room got adv)"
  using assms(1,2)
proof (induction "unat (k_receivedNum k - k_readNum k)" arbitrary: k got adv)
  case 0
  then have "k_readNum k = k_receivedNum k" by (simp add: unat_eq_0)
  moreover from this have "pending k = []"
    using seq_loop_eq [of "k_receivedNum k" "k_readNum k"] by (simp add: pending_def)
  moreover from calculation(1) have "recv_loop k room got adv = (k, got, adv)"
    by (subst recv_loop.simps) simp
  ultimately show ?case using stop by simp
next
  case (Suc d)
  define p where "p = k_rcvq k (ring_slot (seq_inc (k_readNum k)))"
  define t where "t = min (length (payload p)) (room - length got)"
  define p' where "p' = p\<lparr>pkt_offset := pkt_offset p + of_nat t\<rparr>"
  note inv = Suc.prems(1)
  have ne: "k_readNum k \<noteq> k_receivedNum k" using Suc.hyps(2) by auto
  show ?case
  proof (cases "length got < room \<and> \<not> k_eofReceived k")
    case False
    then have "recv_loop k room got adv = (k, got, adv)" by (subst recv_loop.simps) auto
    moreover have "pending k = [] \<or> length got = room" using False Suc.prems(2) by (auto simp: pending_def)
    ultimately show ?thesis using stop by simp
  next
    case True
    then have room: "length got < room" and open_k: "\<not> k_eofReceived k" by auto
    show ?thesis
    proof (cases "pkt_opcode p = CHOP_EOF")
      case True
      then show ?thesis using recv_loop_eof [OF ne open_k room p_def True] eof [OF inv ne open_k p_def True] by simp
    next
      case noeof: False
      note l = recv_loop_data [OF inv ne open_k room p_def noeof, folded t_def, folded p'_def]
      show ?thesis
      proof (cases "t < length (payload p)")
        case True
        then have "t = room - length got" by (auto simp: t_def)
        then have "P k got adv (k\<lparr>k_rcvq := (k_rcvq k)(ring_slot (seq_inc (k_readNum k)) := p')\<rparr>,
           got @ take t (payload p), adv)"
          unfolding p'_def using part [OF inv ne open_k p_def noeof True _ l(2) [unfolded p'_def]] by simp
        then show ?thesis using l(1) [of adv] True by simp
      next
        case False
        then have len: "length (got @ payload p) \<le> room" using room by (auto simp: t_def)
        have "d = unat (k_receivedNum (consume k p') - k_readNum (consume k p'))"
          using seq_loop_Cons(2) [OF ne] inv Suc.hyps(2) by (simp add: consume_def recv_inv_def)
        then have "P (consume k p') (got @ payload p) True (recv_loop (consume k p') room (got @ payload p) True)"
          using Suc.hyps(1) recv_inv_consume [OF inv ne l(2)] len by simp
        then have "P k got adv (recv_loop (consume k p') room (got @ payload p) True)"
          by (rule full [OF inv ne open_k p_def noeof len l(2)])
        then show ?thesis using l(1) [of adv] False by simp
      qed
    qed
  qed
qed

lemma recv_frame_steps:
  "recv_frame k (k\<lparr>k_rcvq := q\<rparr>)" "recv_frame k (consume k p)"
  "recv_frame k ((consume k p)\<lparr>k_eofReceived := True\<rparr>)" "recv_frame k k"
proof -
  show "recv_frame k (k\<lparr>k_rcvq := q\<rparr>)"
    by (rule recv_frameI [where q = q and r = "k_readNum k" and e = "k_eofReceived k"]) simp
  show "recv_frame k (consume k p)"
    by (rule recv_frameI [where e = "k_eofReceived k"]) (simp add: consume_def)
  show "recv_frame k ((consume k p)\<lparr>k_eofReceived := True\<rparr>)"
    by (rule recv_frameI [where e = True]) (simp add: consume_def)
  show "recv_frame k k"
    by (rule recv_frameI [where q = "k_rcvq k" and r = "k_readNum k" and e = "k_eofReceived k"]) simp
qed

text \<open>The whole loop: a FIFO read of at most \<open>room\<close> bytes.\<close>

lemma recv_loop_fifo:
  assumes "recv_inv k" "length got \<le> room"
  shows "case recv_loop k room got adv of (k', got', adv') \<Rightarrow>
    got' = got @ take (room - length got) (pending k) \<and>
    pending k' = drop (room - length got) (pending k) \<and> recv_inv k' \<and> recv_frame k k'"
proof -
  note frame = recv_frame_steps
  from assms have "recv_inv k \<longrightarrow> (case recv_loop k room got adv of (k', got', adv') \<Rightarrow>
    got' = got @ take (room - length got) (pending k) \<and>
    pending k' = drop (room - length got) (pending k) \<and> recv_inv k' \<and> recv_frame k k')"
  proof (rule recv_loop_induct [where P = "\<lambda>k got adv r. recv_inv k \<longrightarrow> (case r of (k', got', adv') \<Rightarrow>
      got' = got @ take (room - length got) (pending k) \<and>
      pending k' = drop (room - length got) (pending k) \<and> recv_inv k' \<and> recv_frame k k')"],
      goal_cases stop eof part full)
    case (stop k got adv)
    then show ?case using frame by auto
  next
    case (eof k got adv p)
    have "pending k = []"
      using eof seq_loop_Cons(1) [OF eof(2)] by (simp add: pending_def recv_inv_def)
    moreover have "recv_inv ((consume k p)\<lparr>k_eofReceived := True\<rparr>)"
      using recv_inv_consume [OF eof(1,2)] recv_inv_next(3) [OF eof(1,2)] eof(4) by (simp add: recv_inv_def)
    ultimately show ?case using frame by (simp add: pending_def)
  next
    case (part k got adv p t)
    have "take t (pending k) = take t (payload p)"
      using pending_consume [OF part(1-3), of p] part(4-6) by simp
    then show ?case using recv_partial [OF part(1-6)] frame part(7) by simp
  next
    case (full k got adv p p' r)
    have "pending k = payload p @ pending (consume k p')"
      using pending_consume [OF full(1-3), of p'] full(4,5) by simp
    then show ?case
      using full frame(2) recv_inv_consume [OF full(1,2,7)] by (auto intro: recv_frame_trans split: prod.splits)
  qed
  then show ?thesis using assms(1) by simp
qed

end
