(* ===== verification/Chaos_Reach.thy ===== *)
theory Chaos_Reach
  imports Chaos_Recv
begin

text \<open>
  The invariant of the whole core, that every entry point of \<^verbatim>\<open>chaos-core.c\<close> keeps it, and the
  reachable states: any interleaving of user calls, incoming frames and timer ticks.
\<close>

section \<open>The core invariant\<close>

definition slot_inv :: "nat \<Rightarrow> ChaosConn \<Rightarrow> bool" where
  "slot_inv h k \<longleftrightarrow> conn_inv k \<and>
     (k_state k \<noteq> CONN_FREE \<longrightarrow> unat (k_localIndex k AND 31) = h \<and> k_localIndex k \<noteq> 0)"

definition config_inv :: "ChaosCore \<Rightarrow> bool" where
  "config_inv c \<longleftrightarrow> unat (c_localWindow c) \<le> 64 \<and> c_uniquizer c \<noteq> 0 \<and> c_uniquizer c \<le> 0x7FF"

definition core_inv :: "ChaosCore \<Rightarrow> bool" where
  "core_inv c \<longleftrightarrow> (\<forall>h<CHAOS_MAX_CONNS. slot_inv h (c_conns c h)) \<and> config_inv c"

lemma config_inv_same: "same_config c c' \<Longrightarrow> config_inv c' = config_inv c"
  by (simp add: same_config_def config_inv_def)

lemma slot_inv_stamped: "stamped k k' \<Longrightarrow> slot_inv h k \<Longrightarrow> slot_inv h k'"
  using conn_inv_stamped [of k k'] by (simp add: slot_inv_def stamped_sel)

lemma core_inv_quiet: "quiet c c' \<Longrightarrow> core_inv c \<Longrightarrow> core_inv c'"
  unfolding quiet_def core_inv_def using slot_inv_stamped config_inv_same by blast

lemma core_inv_set_conn:
  assumes "core_inv c" "conn_inv k" "k_localIndex k = k_localIndex (c_conns c h)"
    and "k_state (c_conns c h) \<noteq> CONN_FREE"
  shows "core_inv (set_conn c h k)"
  using assms config_inv_same [OF same_config_set_conn [of c h k]]
  by (auto simp: core_inv_def slot_inv_def)

text \<open>What the operations on one connection keep: its index and that it is in use.\<close>

lemma core_inv_conn: "core_inv c \<Longrightarrow> h < CHAOS_MAX_CONNS \<Longrightarrow> conn_inv (c_conns c h)"
  by (simp add: core_inv_def slot_inv_def)

lemma quiet_state: "quiet c c' \<Longrightarrow> k_state (c_conns c' h) = k_state (c_conns c h)"
  by (simp add: quiet_def stamped_sel)

lemma quiet_localIndex: "quiet c c' \<Longrightarrow> k_localIndex (c_conns c' h) = k_localIndex (c_conns c h)"
  by (simp add: quiet_def stamped_sel)

section \<open>Sending controlled packets\<close>

lemma conn_send_controlled_quiet:
  "quiet (set_conn c h (conn_enqueue (c_conns c h) opc pl)) (conn_send_controlled c h opc pl t)"
  unfolding conn_send_controlled_def Let_def by (rule quiet_conn_transmit)

lemma conn_send_controlled_conn:
  "stamped (conn_enqueue (c_conns c h) opc pl) (c_conns (conn_send_controlled c h opc pl t) h)"
  using conn_send_controlled_quiet [of c h opc pl t] unfolding quiet_def
  by (metis fun_upd_same set_conn_sel(7))

lemma core_inv_send_controlled:
  assumes "core_inv c" "h < CHAOS_MAX_CONNS" "conn_window_available (c_conns c h) > 0"
    "length pl \<le> CHAOS_MAX_DATA" "\<not> k_eofSent (c_conns c h)" "k_state (c_conns c h) \<noteq> CONN_FREE"
  shows "core_inv (conn_send_controlled c h opc pl t)"
proof (rule core_inv_quiet [OF conn_send_controlled_quiet])
  show "core_inv (set_conn c h (conn_enqueue (c_conns c h) opc pl))"
    using assms core_inv_conn [OF assms(1,2)] by (intro core_inv_set_conn conn_inv_enqueue) auto
qed

lemma conn_inv_eof_sent:
  "conn_inv k \<Longrightarrow> k_eofWanted k \<Longrightarrow> conn_inv (k\<lparr>k_eofSent := True, k_eofNum := k_sentNum k\<rparr>)"
  by (simp add: conn_inv_def send_inv_def recv_inv_def phase_inv_def)

lemma core_inv_maybe_send_eof:
  assumes inv: "core_inv c" and h: "h < CHAOS_MAX_CONNS"
  shows "core_inv (conn_maybe_send_eof c h t)"
proof (cases "k_state (c_conns c h) = CONN_OPEN \<and> k_eofWanted (c_conns c h) \<and>
    \<not> k_eofSent (c_conns c h) \<and> conn_window_available (c_conns c h) > 0")
  case True
  define c1 where "c1 = conn_send_controlled c h CHOP_EOF [] t"
  have inv1: "core_inv c1"
    unfolding c1_def using True inv h by (intro core_inv_send_controlled) auto
  have k1: "stamped (conn_enqueue (c_conns c h) CHOP_EOF []) (c_conns c1 h)"
    unfolding c1_def by (rule conn_send_controlled_conn)
  have "conn_inv ((c_conns c1 h)\<lparr>k_eofSent := True, k_eofNum := k_sentNum (c_conns c1 h)\<rparr>)"
    using core_inv_conn [OF inv1 h] True stamped_sel(12) [OF k1] by (intro conn_inv_eof_sent) auto
  moreover have "k_state (c_conns c1 h) \<noteq> CONN_FREE" using stamped_sel(1) [OF k1] True by simp
  ultimately have "core_inv (set_conn c1 h ((c_conns c1 h)\<lparr>k_eofSent := True, k_eofNum := k_sentNum (c_conns c1 h)\<rparr>))"
    using inv1 by (intro core_inv_set_conn) auto
  then show ?thesis using True by (simp add: conn_maybe_send_eof_def Let_def c1_def)
next
  case False
  then show ?thesis using inv by (auto simp: conn_maybe_send_eof_def Let_def)
qed

lemma core_inv_close_cls:
  assumes inv: "core_inv c" and h: "h < CHAOS_MAX_CONNS" and st: "k_state (c_conns c h) \<noteq> CONN_FREE"
  shows "core_inv (conn_close_cls c h reason kind t)"
proof -
  let ?c = "conn_send_unc c h CHOP_CLS 0 reason t"
  have q: "quiet c ?c" by (rule quiet_conn_send_unc)
  then have "core_inv ?c" using inv by (rule core_inv_quiet)
  then show ?thesis
    unfolding conn_close_cls_def Let_def
    using core_inv_conn [OF _ h] st quiet_state [OF q, of h]
    by (intro core_inv_set_conn conn_inv_set_closed) auto
qed

lemma core_inv_process_ack:
  assumes inv: "core_inv c" and h: "h < CHAOS_MAX_CONNS" and st: "k_state (c_conns c h) \<noteq> CONN_FREE"
  shows "core_inv (conn_process_ack c h ack receipt t)"
proof (cases "chaos_seq_lt (k_sentNum (c_conns c h)) ack \<or> chaos_seq_lt (k_sentNum (c_conns c h)) receipt")
  case True
  then show ?thesis using inv by (auto simp: conn_process_ack_def Let_def)
next
  case False
  let ?c = "set_conn c h (conn_apply_ack (c_conns c h) ack receipt)"
  have "core_inv ?c"
    using inv False st core_inv_conn [OF inv h] by (intro core_inv_set_conn conn_inv_apply_ack) auto
  then have "core_inv (conn_close_cls ?c h (c_bytes ''Finished'') CLOSE_DONE t)"
    and "core_inv (conn_maybe_send_eof ?c h t)"
    using h st by (auto intro: core_inv_close_cls core_inv_maybe_send_eof)
  then show ?thesis using False by (simp add: conn_process_ack_def Let_def)
qed

section \<open>Input\<close>

lemma length_slice: "length (slice bs lo n) \<le> n"
  by (simp add: slice_def)

lemma core_inv_queue_input:
  assumes inv: "core_inv c" and h: "h < CHAOS_MAX_CONNS" and st: "k_state (c_conns c h) = CONN_OPEN"
    and d: "d \<le> CHAOS_MAX_DATA"
  shows "core_inv (conn_queue_input c h ch d t)"
proof -
  let ?n = "chaos_get16 ch 12" and ?k = "c_conns c h"
  have sts: "core_inv c' \<Longrightarrow> core_inv (conn_send_sts c' h t)" for c'
    by (rule core_inv_quiet [OF quiet_conn_send_sts])
  have meters: "core_inv (c\<lparr>c_nDuplicates := x\<rparr>)" "core_inv (c\<lparr>c_nOverWindow := x\<rparr>)" for x
    using inv by (auto intro: core_inv_quiet quiet_meter)
  have store: "core_inv (set_conn c h (conn_store_input ?k opc ?n (slice ch CHAOS_HEADER d)))"
    if "chaos_seq_lt (k_receivedNum ?k) ?n" "\<not> seq_diff ?n (k_readNum ?k) > k_localWindow ?k" for opc
    using that inv st core_inv_conn [OF inv h] order_trans [OF length_slice d]
    by (intro core_inv_set_conn conn_inv_store_input) (auto simp: not_less)
  show ?thesis
    unfolding conn_queue_input_def Let_def using sts meters store by auto
qed

lemma conn_inv_opened:
  assumes "conn_inv k" "k_state k = CONN_RFC_SENT" "unat w \<le> 50"
  shows "conn_inv (k\<lparr>k_remoteIndex := i, k_readNum := n, k_receivedNum := n, k_lastAckSent := n,
                    k_remoteWindow := w, k_state := CONN_OPEN\<rparr>)"
  using assms ring_only_empty [of "k_rcvq k"]
  by (auto simp: conn_inv_def send_inv_def recv_inv_def phase_inv_def)

lemma conn_inv_window: "conn_inv k \<Longrightarrow> unat w \<le> 50 \<Longrightarrow> conn_inv (k\<lparr>k_remoteWindow := w\<rparr>)"
  by (simp add: conn_inv_def send_inv_def recv_inv_def phase_inv_def)

lemma conn_inv_heard: "conn_inv k \<Longrightarrow> conn_inv (k\<lparr>k_lastHeardMs := t\<rparr>)"
  by (simp add: conn_inv_def send_inv_def recv_inv_def phase_inv_def)

lemma window_cap: "\<not> w > CHAOS_MAX_WINDOW \<Longrightarrow> unat w \<le> 50"
  by (simp add: word_less_nat_alt not_less)

lemma core_inv_handle_rfc_sent:
  assumes inv: "core_inv c" and h: "h < CHAOS_MAX_CONNS" and st: "k_state (c_conns c h) = CONN_RFC_SENT"
  shows "core_inv (handle_rfc_sent c h ch d t)"
proof -
  note k = core_inv_conn [OF inv h]
  have closed: "core_inv (set_conn c h (conn_set_closed (c_conns c h) kind tx))" for kind tx
    using inv k st by (intro core_inv_set_conn conn_inv_set_closed) auto
  have opened: "core_inv (set_conn c h ((c_conns c h)\<lparr>k_remoteIndex := i, k_readNum := n,
      k_receivedNum := n, k_lastAckSent := n, k_remoteWindow := w, k_state := CONN_OPEN\<rparr>))"
    if "unat w \<le> 50" for i n w
    using inv k st that by (intro core_inv_set_conn conn_inv_opened) auto
  have ack: "core_inv (conn_send_sts (conn_process_ack (set_conn c h ((c_conns c h)\<lparr>k_remoteIndex := i,
      k_readNum := n, k_receivedNum := n, k_lastAckSent := n, k_remoteWindow := w,
      k_state := CONN_OPEN\<rparr>)) h a r t) h t)" if "unat w \<le> 50" for i n w a r
    using opened [OF that] h
    by (intro core_inv_quiet [OF quiet_conn_send_sts] core_inv_process_ack) auto
  show ?thesis
    unfolding handle_rfc_sent_def Let_def
    using inv closed ack by (auto simp: window_cap simp del: fun_upd_apply)
qed

lemma conn_maybe_send_eof_state: "k_state (c_conns (conn_maybe_send_eof c h t) h) = k_state (c_conns c h)"
  unfolding conn_maybe_send_eof_def Let_def
  by (simp add: stamped_sel(1) [OF conn_send_controlled_conn])

lemma conn_process_ack_state:
  "k_state (c_conns (conn_process_ack c h a r t) h) \<in> {k_state (c_conns c h), CONN_CLOSED}"
  unfolding conn_process_ack_def Let_def
  by (auto simp: conn_close_cls_def Let_def conn_maybe_send_eof_state)

lemma core_inv_handle_open:
  assumes inv: "core_inv c" and h: "h < CHAOS_MAX_CONNS" and st: "k_state (c_conns c h) = CONN_OPEN"
    and d: "d \<le> CHAOS_MAX_DATA"
  shows "core_inv (handle_open c h ch d t)"
proof -
  note k = core_inv_conn [OF inv h]
  have closed: "core_inv (set_conn c h (conn_set_closed (c_conns c h) kind tx))" for kind tx
    using inv k st by (intro core_inv_set_conn conn_inv_set_closed) auto
  have win: "core_inv (set_conn c h ((c_conns c h)\<lparr>k_remoteWindow := w\<rparr>))" if "unat w \<le> 50" for w
    using inv k st that by (intro core_inv_set_conn conn_inv_window) auto
  have ack: "core_inv (conn_process_ack c h a r t)" for a r
    using inv h st by (intro core_inv_process_ack) auto
  have ackw: "core_inv (conn_process_ack (set_conn c h ((c_conns c h)\<lparr>k_remoteWindow := w\<rparr>)) h a r t)"
    if "unat w \<le> 50" for a r w
    using win [OF that] h st by (intro core_inv_process_ack) auto
  have queue: "core_inv (conn_queue_input (conn_process_ack c h a r t) h ch d t)"
    if "k_state (c_conns (conn_process_ack c h a r t) h) = CONN_OPEN" for a r
    using core_inv_queue_input [OF ack h that d] .
  show ?thesis
    unfolding handle_open_def Let_def
    using inv closed ack ackw queue core_inv_quiet [OF quiet_conn_send_sts]
      core_inv_quiet [OF quiet_conn_retransmit]
    by (auto simp: window_cap simp del: fun_upd_apply set_conn_sel)
qed

lemma conn_for_packet_slot:
  assumes "conn_for_packet c ch = Some h"
  shows "h < CHAOS_MAX_CONNS" "k_state (c_conns c h) \<noteq> CONN_FREE"
proof -
  have "(31 :: u16) = mask 5" by (simp add: mask_eq_exp_minus_1)
  then have "unat (chaos_get16 ch 6 AND 31) < 32"
    using unat_and_mask_less [of "chaos_get16 ch 6" 5] by simp
  then show "h < CHAOS_MAX_CONNS" "k_state (c_conns c h) \<noteq> CONN_FREE"
    using assms by (auto simp: conn_for_packet_def Let_def split: if_splits)
qed

text \<open>The part of \<^verbatim>\<open>handle_chaos\<close> after the ARP learning, for a packet to this station.\<close>

lemma core_inv_dispatch:
  assumes inv: "core_inv c" and d: "d \<le> CHAOS_MAX_DATA" and h: "conn_for_packet c ch = Some h"
  shows "core_inv (let c = set_conn c h ((c_conns c h)\<lparr>k_lastHeardMs := t\<rparr>) in
    (case k_state (c_conns c h) of
       CONN_RFC_SENT \<Rightarrow> handle_rfc_sent c h ch d t
     | CONN_CLOSED \<Rightarrow> if P then c else send_los_reply c ch r t
     | _ \<Rightarrow> handle_open c h ch d t))"
proof -
  note slot = conn_for_packet_slot [OF h]
  let ?c = "set_conn c h ((c_conns c h)\<lparr>k_lastHeardMs := t\<rparr>)"
  have inv': "core_inv ?c"
    using inv slot core_inv_conn [OF inv slot(1)] by (intro core_inv_set_conn conn_inv_heard) auto
  show ?thesis
    unfolding Let_def
    using slot inv' core_inv_handle_rfc_sent [OF inv' slot(1)] core_inv_handle_open [OF inv' slot(1) _ d]
      core_inv_quiet [OF quiet_send_los_reply inv']
    by (auto split: ChaosConnState.splits)
qed

lemma core_inv_handle_chaos: "core_inv c \<Longrightarrow> core_inv (handle_chaos c frame t)"
proof -
  assume inv: "core_inv c"
  define c1 where "c1 = (if drop_bit 8 (chaos_get16 (drop CHAOS_ETH_HEADER frame) 8) = drop_bit 8 (c_myAddr c) \<and>
      frame ! 6 AND 1 = 0
    then arp_learn c (chaos_get16 (drop CHAOS_ETH_HEADER frame) 8) (slice frame 6 6) t else c)"
  have inv1: "core_inv c1"
    unfolding c1_def using inv core_inv_quiet [OF quiet_arp_learn] by auto
  show ?thesis
    unfolding handle_chaos_def Let_def [of "drop CHAOS_ETH_HEADER frame"]
      Let_def [of "unat _"] Let_def [of "chaos_get16 _ _"] Let_def [of "_ ! _"] c1_def [symmetric]
      Let_def [of c1]
    using inv inv1 core_inv_quiet [OF quiet_handle_rfc inv1] core_inv_quiet [OF quiet_send_los_reply inv1]
      core_inv_dispatch [OF inv1]
    by (simp split: option.split)
qed

lemma core_inv_input: "core_inv c \<Longrightarrow> core_inv (chaos_core_input c frame t)"
  unfolding chaos_core_input_def Let_def
  using core_inv_quiet [OF quiet_meter(7)] core_inv_quiet [OF quiet_handle_arp] core_inv_handle_chaos
  by auto

section \<open>Timers\<close>

lemma conn_inv_probe: "conn_inv k \<Longrightarrow> conn_inv (k\<lparr>k_lastProbeMs := t\<rparr>)"
  by (simp add: conn_inv_def send_inv_def recv_inv_def phase_inv_def)

text \<open>The last part of a timer step: retransmission, the delayed STS and the probe.\<close>

definition tick_live :: "u64 \<Rightarrow> nat \<Rightarrow> u64 \<Rightarrow> ChaosCore \<Rightarrow> ChaosCore" where
  "tick_live nowMs h heard c =
     (let c = conn_retransmit c h nowMs CHAOS_RETRANSMIT_MS;
          k = c_conns c h;
          c = (if k_ackDueMs k \<noteq> 0 \<and> nowMs \<ge> k_ackDueMs k then conn_send_sts c h nowMs else c);
          k = c_conns c h
      in if nowMs - k_lastProbeMs k \<ge> CHAOS_PROBE_MS then
           let c = set_conn c h (k\<lparr>k_lastProbeMs := nowMs\<rparr>)
           in if k_ackedNum k \<noteq> k_sentNum k \<or> k_remoteWindow k = 0 \<or> heard \<ge> CHAOS_LONELY_MS
              then conn_send_unc c h CHOP_SNS 0 [] nowMs else c
         else c)"

lemma core_inv_tick_live:
  assumes inv: "core_inv c" and h: "h < CHAOS_MAX_CONNS" and st: "k_state (c_conns c h) \<noteq> CONN_FREE"
  shows "core_inv (tick_live t h heard c)"
proof -
  define c1 where "c1 = conn_retransmit c h t CHAOS_RETRANSMIT_MS"
  define c2 where "c2 = (if k_ackDueMs (c_conns c1 h) \<noteq> 0 \<and> t \<ge> k_ackDueMs (c_conns c1 h)
    then conn_send_sts c1 h t else c1)"
  have "quiet c c1" unfolding c1_def by (rule quiet_conn_retransmit)
  moreover have "quiet c1 c2" unfolding c2_def by (auto intro: quiet_conn_send_sts)
  ultimately have q: "quiet c c2" by (rule quiet_trans)
  then have inv2: "core_inv c2" using inv by (rule core_inv_quiet)
  have st2: "k_state (c_conns c2 h) \<noteq> CONN_FREE" using st quiet_state [OF q] by simp
  have inv3: "core_inv (set_conn c2 h ((c_conns c2 h)\<lparr>k_lastProbeMs := t\<rparr>))"
    using inv2 st2 core_inv_conn [OF inv2 h] by (intro core_inv_set_conn conn_inv_probe) auto
  show ?thesis
    unfolding tick_live_def c1_def [symmetric] Let_def c2_def [symmetric]
    using inv2 inv3 core_inv_quiet [OF quiet_conn_send_unc inv3] by auto
qed

lemma tick_conn_eq:
  "tick_conn t h c =
     (if k_state (c_conns c h) = CONN_RFC_SENT then
        if t - k_openedMs (c_conns c h) \<ge> CHAOS_RFC_TIMEOUT_MS
        then set_conn c h (conn_set_closed (c_conns c h) CLOSE_TIMEOUT (c_bytes ''Host not responding''))
        else conn_retransmit c h t CHAOS_RETRANSMIT_MS
      else if k_state (c_conns c h) \<noteq> CONN_OPEN then c
      else if t - k_lastHeardMs (c_conns c h) \<ge> CHAOS_HOST_DOWN_MS
      then set_conn c h (conn_set_closed (c_conns c h) CLOSE_TIMEOUT (c_bytes ''Host stopped responding''))
      else if k_eofWanted (c_conns c h) \<and> t - k_finishStartMs (c_conns c h) \<ge> CHAOS_FINISH_TIMEOUT_MS
      then conn_close_cls c h (c_bytes ''Finished (EOF not acknowledged)'') CLOSE_DONE t
      else tick_live t h (t - k_lastHeardMs (c_conns c h)) c)"
  by (simp only: tick_conn_def tick_live_def Let_def)

lemma core_inv_tick_conn:
  assumes inv: "core_inv c" and h: "h < CHAOS_MAX_CONNS"
  shows "core_inv (tick_conn t h c)"
proof (cases "k_state (c_conns c h) = CONN_FREE")
  case True
  then show ?thesis using inv by (simp add: tick_conn_def Let_def)
next
  case st: False
  have closed: "core_inv (set_conn c h (conn_set_closed (c_conns c h) kind tx))" for kind tx
    using inv core_inv_conn [OF inv h] st by (intro core_inv_set_conn conn_inv_set_closed) auto
  have live: "core_inv (tick_live t h heard c)" for heard
    using inv h st by (rule core_inv_tick_live)
  show ?thesis
    unfolding tick_conn_eq
    using inv closed live core_inv_quiet [OF quiet_conn_retransmit inv] core_inv_close_cls [OF inv h st]
    by (simp only: split: if_split) simp
qed

lemma core_inv_tick: "core_inv c \<Longrightarrow> core_inv (chaos_core_tick c t)"
proof -
  have "core_inv c \<Longrightarrow> \<forall>h \<in> set hs. h < CHAOS_MAX_CONNS \<Longrightarrow> core_inv (fold (tick_conn t) hs c)" for hs
    by (induction hs arbitrary: c) (auto intro: core_inv_tick_conn)
  then show "core_inv c \<Longrightarrow> core_inv (chaos_core_tick c t)"
    by (simp add: chaos_core_tick_def)
qed

section \<open>User operations\<close>

lemma conn_for_handle_Some:
  "conn_for_handle c h = Some i \<longleftrightarrow>
     h = int i \<and> i < CHAOS_MAX_CONNS \<and> k_state (c_conns c i) \<noteq> CONN_FREE"
  by (auto simp: conn_for_handle_def)

lemma core_inv_send_loop:
  "core_inv c \<Longrightarrow> i < CHAOS_MAX_CONNS \<Longrightarrow> k_state (c_conns c i) \<noteq> CONN_FREE \<Longrightarrow> \<not> k_eofSent (c_conns c i)
    \<Longrightarrow> core_inv (fst (chaos_send_loop c i rest sent t))"
proof (induction c i rest sent t rule: chaos_send_loop.induct)
  case (1 c i rest sent t)
  let ?n = "if length rest > CHAOS_MAX_DATA then CHAOS_MAX_DATA else length rest"
  let ?c = "conn_send_controlled c i CHOP_DAT (take ?n rest) t"
  show ?case
  proof (cases "rest \<noteq> [] \<and> conn_window_available (c_conns c i) > 0")
    case True
    have "core_inv ?c" using "1.prems" True by (intro core_inv_send_controlled) auto
    moreover have "k_state (c_conns ?c i) \<noteq> CONN_FREE" "\<not> k_eofSent (c_conns ?c i)"
      using "1.prems" stamped_sel(1,13) [OF conn_send_controlled_conn] by simp_all
    ultimately have "core_inv (fst (chaos_send_loop ?c i (drop ?n rest) (sent + ?n) t))"
      using "1.IH" [OF True refl refl] "1.prems"(2) by blast
    then show ?thesis using True by (simp add: chaos_send_loop.simps [of c] Let_def)
  next
    case False
    then show ?thesis using "1.prems"(1) by (auto simp: chaos_send_loop.simps [of c])
  qed
qed

lemma core_inv_send: "core_inv c \<Longrightarrow> core_inv (fst (chaos_send c h pl t))"
proof -
  assume inv: "core_inv c"
  have "\<not> k_eofSent (c_conns c i)" if "i < CHAOS_MAX_CONNS" "\<not> k_eofWanted (c_conns c i)" for i
    using core_inv_conn [OF inv that(1)] that(2) by (auto simp: conn_inv_def phase_inv_def)
  then show ?thesis
    using inv unfolding chaos_send_def
    by (auto split: option.split simp: conn_for_handle_Some intro!: core_inv_send_loop)
qed

lemma conn_inv_finish:
  "conn_inv k \<Longrightarrow> k_state k = CONN_OPEN \<Longrightarrow> conn_inv (k\<lparr>k_eofWanted := True, k_finishStartMs := t\<rparr>)"
  by (simp add: conn_inv_def send_inv_def recv_inv_def phase_inv_def)

lemma core_inv_finish: "core_inv c \<Longrightarrow> core_inv (chaos_finish c h t)"
  unfolding chaos_finish_def Let_def
  by (auto split: option.split simp: conn_for_handle_Some core_inv_conn
      intro!: core_inv_maybe_send_eof core_inv_set_conn conn_inv_finish)

lemma conn_inv_recv:
  assumes "conn_inv k" "recv_inv k'" "recv_frame k k'" "k_state k \<noteq> CONN_RFC_SENT"
  shows "conn_inv k'"
  using assms unfolding conn_inv_def send_inv_def phase_inv_def
  by (simp add: recv_frame_sel [OF assms(3)])

lemma conn_inv_ackDue: "conn_inv k \<Longrightarrow> conn_inv (k\<lparr>k_ackDueMs := t\<rparr>)"
  by (simp add: conn_inv_def send_inv_def recv_inv_def phase_inv_def)

lemma recv_loop_idle:
  assumes "k_readNum k = k_receivedNum k"
  shows "recv_loop k room got adv = (k, got, adv)"
  using assms by (subst recv_loop.simps) simp

lemma rfc_sent_idle: "conn_inv k \<Longrightarrow> k_state k = CONN_RFC_SENT \<Longrightarrow> k_readNum k = k_receivedNum k"
proof (rule ccontr)
  assume inv: "conn_inv k" "k_state k = CONN_RFC_SENT" and ne: "k_readNum k \<noteq> k_receivedNum k"
  then have "ring_has (k_rcvq k) (seq_inc (k_readNum k))"
    by (intro recv_inv_next) (auto simp: conn_inv_def)
  then show False using inv by (simp add: conn_inv_def phase_inv_def ring_empty_def ring_has_def)
qed

lemma core_inv_recv: "core_inv c \<Longrightarrow> core_inv (fst (chaos_recv c h room t))"
proof (cases "conn_for_handle c h")
  case None
  then show "core_inv c \<Longrightarrow> ?thesis" by (simp add: chaos_recv_def)
next
  case (Some i)
  assume inv: "core_inv c"
  have i: "i < CHAOS_MAX_CONNS" "k_state (c_conns c i) \<noteq> CONN_FREE"
    using Some by (auto simp: conn_for_handle_Some)
  note k = core_inv_conn [OF inv i(1)]
  obtain k' got adv where l: "recv_loop (c_conns c i) room [] False = (k', got, adv)"
    by (metis prod_cases3)
  have r: "recv_inv k'" "recv_frame (c_conns c i) k'"
    using recv_loop_fifo [of "c_conns c i" "[]" room False] k l by (auto simp: conn_inv_def)
  have k': "conn_inv k'"
  proof (cases "k_state (c_conns c i) = CONN_RFC_SENT")
    case True
    then show ?thesis using recv_loop_idle [OF rfc_sent_idle [OF k True]] l k by simp
  next
    case False
    then show ?thesis using conn_inv_recv [OF k r] by simp
  qed
  have "core_inv (set_conn c i k')" "core_inv (set_conn (set_conn c i k') i (k'\<lparr>k_ackDueMs := x\<rparr>))" for x
    using inv i k' recv_frame_sel(1,2) [OF r(2)]
    by (auto intro!: core_inv_set_conn conn_inv_ackDue)
  then show ?thesis
    using core_inv_quiet [OF quiet_conn_send_sts] by (simp add: chaos_recv_def Some l Let_def)
qed

lemma core_inv_release: "core_inv c \<Longrightarrow> core_inv (chaos_release c h reason t)"
proof -
  assume inv: "core_inv c"
  have free: "core_inv (set_conn c' i (zero_conn\<lparr>k_state := CONN_FREE\<rparr>))" if "core_inv c'" for c' i
  proof -
    have "zero_conn\<lparr>k_state := CONN_FREE\<rparr> = zero_conn" by (simp add: zero_conn_def)
    moreover have "slot_inv j zero_conn" for j by (simp add: slot_inv_def) (simp add: zero_conn_def)
    ultimately show ?thesis
      using that config_inv_same [OF same_config_set_conn [of c' i zero_conn]] by (simp add: core_inv_def)
  qed
  show ?thesis
    unfolding chaos_release_def Let_def
    using inv free core_inv_quiet [OF quiet_conn_send_unc inv] by (auto split: option.split)
qed

section \<open>Opening a connection\<close>

lemma index_low_bits:
  assumes "h < 32"
  shows "(push_bit 5 u OR of_nat h) AND 31 = (of_nat h :: u16)"
proof -
  have m: "(31 :: u16) = mask 5" by (simp add: mask_eq_exp_minus_1)
  have h: "take_bit 5 (of_nat h :: u16) = of_nat h"
  proof (rule unsigned_word_eqI [where 'a = nat])
    show "unat (take_bit 5 (of_nat h :: u16)) = unat (of_nat h :: u16)"
      using assms by (simp only: unsigned_take_bit_eq) (simp add: unat_of_nat take_bit_eq_mod)
  qed
  have "take_bit 5 (push_bit 5 u OR of_nat h) = take_bit 5 (push_bit 5 u) OR take_bit 5 (of_nat h :: u16)"
    by simp
  also have "take_bit 5 (push_bit 5 u) = 0" by (simp add: take_bit_push_bit)
  finally show ?thesis unfolding m by (simp add: take_bit_eq_mask [symmetric] h)
qed

lemma index_nonzero:
  assumes "u \<noteq> 0" "u \<le> (0x7FF :: u16)"
  shows "push_bit 5 u OR x \<noteq> 0"
proof
  assume "push_bit 5 u OR x = 0"
  then have "push_bit 5 u = 0" by (simp add: or_eq_0_iff)
  then have "u * 32 = 0" by (simp add: push_bit_eq_mult mult.commute)
  then have "unat (u * 32) = 0" by simp
  moreover have "unat (u * 32) = unat u * 32"
    using assms(2) by (simp add: unat_word_ariths word_le_nat_alt)
  ultimately show False using assms(1) by (simp add: unat_eq_0)
qed

lemma open_conn_inv:
  assumes "core_inv c" "h < CHAOS_MAX_CONNS"
  shows "slot_inv h (open_conn c h addr t)" "conn_window_available (open_conn c h addr t) > 0"
    "k_state (open_conn c h addr t) = CONN_RFC_SENT" "\<not> k_eofSent (open_conn c h addr t)"
    "k_eofWanted (open_conn c h addr t) = False"
proof -
  let ?k = "open_conn c h addr t"
  have w: "unat (c_localWindow c) \<le> 64" and u: "c_uniquizer c \<noteq> 0" "c_uniquizer c \<le> 0x7FF"
    using assms(1) by (simp_all add: core_inv_def config_inv_def)
  have "conn_inv ?k"
    using w conn_inv_zero
    by (auto simp: conn_inv_def send_inv_def recv_inv_def phase_inv_def open_conn_def zero_conn_def
        ring_only_def zero_pkt_def ring_empty_def)
  moreover have "unat (k_localIndex ?k AND 31) = h"
    using assms(2) by (simp add: open_conn_def index_low_bits unat_of_nat)
  moreover have "k_localIndex ?k \<noteq> 0"
    using index_nonzero [OF u] by (simp add: open_conn_def)
  ultimately show "slot_inv h ?k" by (simp add: slot_inv_def)
  show "conn_window_available ?k > 0" by (simp add: conn_window_available_def seq_diff_def open_conn_def)
  show "k_state ?k = CONN_RFC_SENT" "\<not> k_eofSent ?k" "k_eofWanted ?k = False"
    by (simp_all add: open_conn_def zero_conn_def)
qed

lemma uniquizer_next:
  fixes u :: u16
  shows "(if (u + 1) AND 0x7FF = 0 then 1 else (u + 1) AND 0x7FF) \<noteq> 0"
    "(if (u + 1) AND 0x7FF = 0 then 1 else (u + 1) AND 0x7FF) \<le> 0x7FF"
  using word_and_le1 [of "u + 1" "0x7FF"] by auto

lemma core_inv_open: "core_inv c \<Longrightarrow> core_inv (fst (chaos_open c addr contact t))"
proof -
  assume inv: "core_inv c"
  show ?thesis
  proof (cases "length contact = 0 \<or> length contact > CHAOS_MAX_DATA \<or>
      find (\<lambda>h. k_state (c_conns c h) = CONN_FREE) [0..<CHAOS_MAX_CONNS] = None")
    case True
    then have "fst (chaos_open c addr contact t) = c" by (auto simp: chaos_open_def)
    then show ?thesis using inv by simp
  next
    case False
    then obtain h where f: "find (\<lambda>h. k_state (c_conns c h) = CONN_FREE) [0..<CHAOS_MAX_CONNS] = Some h"
      by auto
    then have h: "h < CHAOS_MAX_CONNS" by (auto simp: find_Some_iff)
    note k = open_conn_inv [OF inv h, of addr t]
    define c1 where "c1 = c\<lparr>c_uniquizer := (if (c_uniquizer c + 1) AND 0x7FF = 0 then 1 else (c_uniquizer c + 1) AND 0x7FF),
                    c_initialPktNum := c_initialPktNum c + 0x0100\<rparr>"
    let ?c = "set_conn c1 h (open_conn c h addr t)"
    have "config_inv c1"
      using inv uniquizer_next [of "c_uniquizer c"] by (simp add: core_inv_def config_inv_def c1_def)
    then have inv1: "core_inv ?c"
      using inv k(1) by (simp add: core_inv_def c1_def config_inv_def)
    have "core_inv (conn_send_controlled ?c h CHOP_RFC contact t)"
      using inv1 h k False by (intro core_inv_send_controlled) auto
    moreover have "fst (chaos_open c addr contact t) = conn_send_controlled ?c h CHOP_RFC contact t"
      using False f by (auto simp: chaos_open_def Let_def c1_def)
    ultimately show ?thesis by simp
  qed
qed

section \<open>Reachable states\<close>

text \<open>
  One step of the core: a user call, a frame from the wire or a timer tick, each with any
  arguments and any clock value. The initial states are those of \<^verbatim>\<open>chaosd\<close>'s \<^verbatim>\<open>main\<close>, which sets
  the window (1 to \<^verbatim>\<open>CHAOS_RING / 2\<close>) and the first packet number after \<^verbatim>\<open>chaos_core_init\<close>.
\<close>

inductive core_step :: "ChaosCore \<Rightarrow> ChaosCore \<Rightarrow> bool" where
  step_open: "core_step c (fst (chaos_open c addr contact t))"
| step_send: "core_step c (fst (chaos_send c h pl t))"
| step_finish: "core_step c (chaos_finish c h t)"
| step_recv: "core_step c (fst (chaos_recv c h room t))"
| step_release: "core_step c (chaos_release c h reason t)"
| step_input: "core_step c (chaos_core_input c frame t)"
| step_tick: "core_step c (chaos_core_tick c t)"

inductive core_reachable :: "ChaosCore \<Rightarrow> bool" where
  reach_init: "1 \<le> w \<Longrightarrow> w \<le> 32 \<Longrightarrow>
    core_reachable ((chaos_core_init addr mac name)\<lparr>c_localWindow := w, c_initialPktNum := first\<rparr>)"
| reach_step: "core_reachable c \<Longrightarrow> core_step c c' \<Longrightarrow> core_reachable c'"

lemma core_inv_init:
  assumes "w \<le> 32"
  shows "core_inv ((chaos_core_init addr mac name)\<lparr>c_localWindow := w, c_initialPktNum := first\<rparr>)"
proof -
  have "slot_inv h zero_conn" for h by (simp add: slot_inv_def) (simp add: zero_conn_def)
  moreover have "unat w \<le> 64" using assms by (simp add: word_le_nat_alt)
  ultimately show ?thesis
    by (simp add: core_inv_def config_inv_def chaos_core_init_def)
qed

lemma core_inv_step: "core_step c c' \<Longrightarrow> core_inv c \<Longrightarrow> core_inv c'"
  by (induction rule: core_step.induct)
     (simp_all add: core_inv_open core_inv_send core_inv_finish core_inv_recv core_inv_release
        core_inv_input core_inv_tick)

lemma core_inv_reachable: "core_reachable c \<Longrightarrow> core_inv c"
  by (induction rule: core_reachable.induct) (auto intro: core_inv_init core_inv_step)

end
