(* ===== verification/Chaos_Send.thy ===== *)
theory Chaos_Send
  imports Chaos_Reach
begin

text \<open>
  The send side as a byte stream: \<open>queued k\<close> is the data of the packets the peer has not
  receipted, in the order of their numbers. \<^verbatim>\<open>chaos_send\<close> appends to it exactly the bytes it
  reports as sent, as many as the window allows.
\<close>

definition queued :: "ChaosConn \<Rightarrow> byte list" where
  "queued k = concat (map (\<lambda>n. payload (k_sendq k (ring_slot n)))
     (seq_loop (seq_inc (k_receiptNum k)) (k_sentNum k)))"

lemma queued_stamped: "stamped k k' \<Longrightarrow> queued k' = queued k"
  by (simp add: queued_def payload_def stamped_sel)

lemma seq_loop_snoc:
  assumes "unat (s - r) < 64"
  shows "seq_loop (seq_inc r) (seq_inc s) = seq_loop (seq_inc r) s @ [seq_inc s]"
proof -
  have d: "unat (seq_inc s - r) = Suc (unat (s - r))" using assms by (intro dist_inc) simp
  have "r + of_nat (Suc (unat (s - r))) = seq_inc s" by (simp add: seq_inc_def)
  then show ?thesis
    using assms d by (simp add: seq_loop_eq del: of_nat_Suc)
qed

lemma queued_enqueue:
  assumes inv: "send_inv k" and room: "conn_window_available k > 0" and len: "length pl \<le> CHAOS_MAX_DATA"
  shows "queued (conn_enqueue k opc pl) = queued k @ pl"
proof -
  let ?r = "k_receiptNum k" and ?s = "k_sentNum k"
  let ?n = "seq_inc ?s" and ?q = "k_sendq (conn_enqueue k opc pl)"
  have b: "unat (?s - ?r) < 50"
    using room inv by (simp add: conn_window_available_pos send_inv_def)
  have sp: "in_span ?r ?n ?n" using b by (simp add: in_span_Suc)
  have le: "unat (?n - ?r) \<le> 64" using b by (simp add: dist_inc)
  have "?q (ring_slot m) = k_sendq k (ring_slot m)" if "m \<in> set (seq_loop (seq_inc ?r) ?s)" for m
  proof -
    have m: "in_span ?r ?s m" using that b by (simp add: set_seq_loop_span)
    then have m': "in_span ?r ?n m" using b by (simp add: in_span_Suc)
    moreover have "m \<noteq> ?n" using m b by (auto simp: in_span_def dist_inc)
    ultimately have "ring_slot m \<noteq> ring_slot ?n"
      using ring_slot_inj_span [OF m' sp le] by blast
    then show ?thesis by (simp add: conn_enqueue_def Let_def)
  qed
  moreover have "payload (?q (ring_slot ?n)) = pl"
    using len by (simp add: conn_enqueue_def Let_def payload_def unat_of_nat)
  ultimately show ?thesis
    using b by (simp add: queued_def seq_loop_snoc cong: map_cong)
qed

lemma window_enqueue:
  assumes inv: "send_inv k" and room: "conn_window_available k > 0"
  shows "conn_window_available (conn_enqueue k opc pl) = conn_window_available k - 1"
proof -
  have "unat (k_sentNum k - k_ackedNum k) < 50"
    using room inv by (simp add: conn_window_available_pos send_inv_def)
  then have "unat (seq_inc (k_sentNum k) - k_ackedNum k) = Suc (unat (k_sentNum k - k_ackedNum k))"
    by (intro dist_inc) simp
  then show ?thesis unfolding conn_window_available_def seq_diff_def by simp
qed

lemma window_stamped: "stamped k k' \<Longrightarrow> conn_window_available k' = conn_window_available k"
  by (simp add: conn_window_available_def stamped_sel)

lemma chaos_send_loop_count:
  assumes "core_inv c" "i < CHAOS_MAX_CONNS" "k_state (c_conns c i) \<noteq> CONN_FREE" "\<not> k_eofSent (c_conns c i)"
  shows "snd (chaos_send_loop c i rest sent t) =
      sent + min (length rest) (nat (conn_window_available (c_conns c i)) * CHAOS_MAX_DATA) \<and>
    queued (c_conns (fst (chaos_send_loop c i rest sent t)) i) =
      queued (c_conns c i) @ take (nat (conn_window_available (c_conns c i)) * CHAOS_MAX_DATA) rest"
  using assms
proof (induction c i rest sent t rule: chaos_send_loop.induct)
  case (1 c i rest sent t)
  let ?k = "c_conns c i"
  let ?n = "if length rest > CHAOS_MAX_DATA then CHAOS_MAX_DATA else length rest"
  let ?c = "conn_send_controlled c i CHOP_DAT (take ?n rest) t"
  show ?case
  proof (cases "rest \<noteq> [] \<and> conn_window_available ?k > 0")
    case True
    have inv: "send_inv ?k" using core_inv_conn [OF "1.prems"(1,2)] by (simp add: conn_inv_def)
    note st = conn_send_controlled_conn [of c i CHOP_DAT "take ?n rest" t]
    have q: "queued (c_conns ?c i) = queued ?k @ take ?n rest"
      using queued_stamped [OF st] queued_enqueue [OF inv] True by simp
    define a where "a = nat (conn_window_available ?k) - 1"
    have a: "nat (conn_window_available ?k) = Suc a" using True by (simp add: a_def)
    have w: "nat (conn_window_available (c_conns ?c i)) = a"
      using window_stamped [OF st] window_enqueue [OF inv, of CHOP_DAT] True by (simp add: a_def)
    have inv': "core_inv ?c" using "1.prems" True by (intro core_inv_send_controlled) auto
    have "k_state (c_conns ?c i) \<noteq> CONN_FREE" "\<not> k_eofSent (c_conns ?c i)"
      using "1.prems" stamped_sel(1,13) [OF st] by simp_all
    then have IH: "snd (chaos_send_loop ?c i (drop ?n rest) (sent + ?n) t) =
        sent + ?n + min (length (drop ?n rest)) (a * CHAOS_MAX_DATA)"
      "queued (c_conns (fst (chaos_send_loop ?c i (drop ?n rest) (sent + ?n) t)) i) =
        queued (c_conns ?c i) @ take (a * CHAOS_MAX_DATA) (drop ?n rest)"
      using "1.IH" [OF True refl refl inv' "1.prems"(2)] w by auto
    have loop: "chaos_send_loop c i rest sent t = chaos_send_loop ?c i (drop ?n rest) (sent + ?n) t"
      using True by (simp add: chaos_send_loop.simps [of c] Let_def)
    have "take ?n rest @ take (a * CHAOS_MAX_DATA) (drop ?n rest) = take (Suc a * CHAOS_MAX_DATA) rest"
      by (simp add: take_add [symmetric])
    then show ?thesis unfolding loop IH q a by (auto simp: min_def)
  next
    case False
    then have "nat (conn_window_available ?k) = 0 \<or> rest = []" by auto
    moreover have "chaos_send_loop c i rest sent t = (c, sent)"
      using False by (auto simp: chaos_send_loop.simps [of c])
    ultimately show ?thesis by auto
  qed
qed

end
