(* ===== verification/Chaos_Integrity.thy ===== *)
theory Chaos_Integrity
  imports Chaos_Send
begin

text \<open>
  Integrity of the received stream. The peer sends packets \<open>src 1\<close>, \<open>src 2\<close>, \<open>\<dots>\<close> (opcode and data),
  numbered from \<open>b + 1\<close> modulo \<open>2\<^sup>1\<^sup>6\<close>. The wire may lose, repeat and reorder them; the only
  hypothesis is that a packet does not arrive when the receiver is already about \<open>2\<^sup>1\<^sup>6\<close> packets
  further on (or the packet as far ahead). Whatever the interleaving of arrivals and reads, the
  bytes the user reads are a prefix of the stream of the source.
\<close>

section \<open>The source stream\<close>

type_synonym source = "nat \<Rightarrow> byte \<times> byte list"

fun stream_upto :: "source \<Rightarrow> nat list \<Rightarrow> byte list" where
  "stream_upto src [] = []"
| "stream_upto src (i # is) = (if fst (src i) = CHOP_EOF then [] else snd (src i) @ stream_upto src is)"

definition src_stream :: "source \<Rightarrow> nat \<Rightarrow> byte list" where
  "src_stream src m = stream_upto src [1..<Suc m]"

lemma stream_upto_append:
  "stream_upto src (xs @ ys) =
     (if \<exists>i \<in> set xs. fst (src i) = CHOP_EOF then stream_upto src xs
      else stream_upto src xs @ stream_upto src ys)"
  by (induction xs) auto

lemma stream_of_append:
  "stream_of q (xs @ ys) =
     (if \<exists>n \<in> set xs. pkt_opcode (q (ring_slot n)) = CHOP_EOF then stream_of q xs
      else stream_of q xs @ stream_of q ys)"
  by (induction xs) auto

section \<open>Agreement of the receive ring with the source\<close>

text \<open>
  \<open>rx_agrees b src R k\<close>: the user has consumed \<open>R\<close> packets, and each packet of the ring is the
  source's packet of its index; only the packet being read has an offset.
\<close>

definition rx_pkt :: "source \<Rightarrow> nat \<Rightarrow> ChaosPkt \<Rightarrow> bool" where
  "rx_pkt src j p \<longleftrightarrow> pkt_opcode p = fst (src j) \<and> take (unat (pkt_nBytes p)) (pkt_data p) = snd (src j)"

definition rx_agrees :: "u16 \<Rightarrow> source \<Rightarrow> nat \<Rightarrow> ChaosConn \<Rightarrow> bool" where
  "rx_agrees b src R k \<longleftrightarrow>
     recv_inv k \<and> k_readNum k = b + of_nat R \<and>
     (\<forall>n. ring_has (k_rcvq k) n \<longrightarrow>
        rx_pkt src (R + unat (n - k_readNum k)) (k_rcvq k (ring_slot n)) \<and>
        (pkt_offset (k_rcvq k (ring_slot n)) \<noteq> 0 \<longrightarrow> in_span (k_readNum k) (k_receivedNum k) n)) \<and>
     (k_eofReceived k \<longleftrightarrow> (\<exists>e \<in> {1..R}. fst (src e) = CHOP_EOF))"

definition rx_mark :: "nat \<Rightarrow> ChaosConn \<Rightarrow> nat" where
  "rx_mark R k = R + unat (k_receivedNum k - k_readNum k)"

text \<open>The packets from one mark to a later one, read from the ring or from the source.\<close>

lemma stream_of_src:
  assumes "\<And>n. in_span r s n \<Longrightarrow> rx_pkt src (J + unat (n - r)) (q (ring_slot n)) \<and> pkt_offset (q (ring_slot n)) = 0"
    and "unat (s - r) \<le> 64"
  shows "stream_of q (seq_loop (seq_inc r) s) = stream_upto src [Suc J..<Suc (J + unat (s - r))]"
  using assms
proof (induction "unat (s - r)" arbitrary: r J)
  case 0
  then have "s = r" by (simp add: unat_eq_0)
  then show ?case using seq_loop_eq [of s r] by simp
next
  case (Suc d)
  have ne: "r \<noteq> s" using Suc.hyps(2) by auto
  note c = seq_loop_Cons [OF ne Suc.prems(2)]
  have le: "unat (seq_inc r - r) \<le> unat (s - r)" using Suc.hyps(2) by (simp add: dist_one)
  have first: "in_span r s (seq_inc r)" using Suc.hyps(2) by (simp add: in_span_def dist_one)
  have sh: "unat (n - r) = Suc (unat (n - seq_inc r))" if "in_span (seq_inc r) s n" for n
  proof -
    have "in_span r s n" "n \<noteq> seq_inc r" using that in_span_rebase [OF le] in_span_one by auto
    then have "unat (seq_inc r - r) \<le> unat (n - r)" by (simp add: dist_one in_span_def)
    then have "unat (n - seq_inc r) = unat (n - r) - 1" using dist_shift [of "seq_inc r" r n] dist_one by simp
    then show ?thesis using \<open>in_span r s n\<close> by (simp add: in_span_def)
  qed
  have "stream_of q (seq_loop (seq_inc (seq_inc r)) s) = stream_upto src [Suc (Suc J)..<Suc (Suc J + unat (s - seq_inc r))]"
  proof (rule Suc.hyps(1))
    show "d = unat (s - seq_inc r)" using c(2) Suc.hyps(2) by simp
    show "unat (s - seq_inc r) \<le> 64" using c(2) Suc.prems(2) by simp
    fix n assume n: "in_span (seq_inc r) s n"
    then have "in_span r s n" using in_span_rebase [OF le] by simp
    then show "rx_pkt src (Suc J + unat (n - seq_inc r)) (q (ring_slot n)) \<and> pkt_offset (q (ring_slot n)) = 0"
      using Suc.prems(1) [of n] sh [OF n] by simp
  qed
  moreover have "Suc (Suc J + unat (s - seq_inc r)) = Suc (J + unat (s - r))"
    using c(2) Suc.hyps(2) by simp
  moreover have "[Suc J..<Suc (J + unat (s - r))] = Suc J # [Suc (Suc J)..<Suc (J + unat (s - r))]"
    using Suc.hyps(2) by (intro upt_conv_Cons) simp
  moreover have "rx_pkt src (Suc J) (q (ring_slot (seq_inc r)))" "pkt_offset (q (ring_slot (seq_inc r))) = 0"
    using Suc.prems(1) [OF first] by (simp_all add: dist_one)
  ultimately show ?case unfolding c(1) by (simp only: stream_of.simps stream_upto.simps rx_pkt_def payload_def) simp
qed

section \<open>Arrival\<close>

text \<open>The connection part of \<^verbatim>\<open>conn_queue_input\<close>.\<close>

definition queue_input_conn :: "ChaosConn \<Rightarrow> byte \<Rightarrow> u16 \<Rightarrow> byte list \<Rightarrow> ChaosConn" where
  "queue_input_conn k opc n pl =
     (if \<not> chaos_seq_lt (k_receivedNum k) n \<or> seq_diff n (k_readNum k) > k_localWindow k \<or> ring_has (k_rcvq k) n
      then k else conn_store_input k opc n pl)"

lemma stamped_after: "stamped k (c_conns c h) \<Longrightarrow> quiet c c' \<Longrightarrow> stamped k (c_conns c' h)"
  unfolding quiet_def using stamped_trans by blast

lemma conn_queue_input_conn:
  "stamped (queue_input_conn (c_conns c h) (ch ! 1) (chaos_get16 ch 12) (slice ch CHAOS_HEADER d))
     (c_conns (conn_queue_input c h ch d t) h)"
proof -
  let ?n = "chaos_get16 ch 12"
  let ?s = "set_conn c h (conn_store_input (c_conns c h) (ch ! 1) ?n (slice ch CHAOS_HEADER d))"
  have "stamped (c_conns c h) (c_conns (conn_send_sts (c\<lparr>c_nDuplicates := x\<rparr>) h t) h)"
    "stamped (c_conns c h) (c_conns (conn_send_sts (c\<lparr>c_nOverWindow := x\<rparr>) h t) h)" for x
    by (rule stamped_after [OF _ quiet_conn_send_sts], simp)+
  moreover have "stamped (c_conns ?s h) (c_conns (conn_send_sts ?s h t) h)"
    by (rule stamped_after [OF _ quiet_conn_send_sts], simp)
  ultimately show ?thesis
    by (auto simp: conn_queue_input_def Let_def queue_input_conn_def ring_has_def)
qed

lemma rx_index:
  fixes b :: u16
  assumes "R \<le> i + 65000" "i < R + 65536" "unat (b + of_nat i - (b + of_nat R)) \<le> 64"
  shows "i = R + unat (b + of_nat i - (b + of_nat R))"
proof (cases "R \<le> i")
  case True
  then have "b + of_nat i - (b + of_nat R) = (of_nat (i - R) :: u16)" by simp
  then have "unat (b + of_nat i - (b + of_nat R)) = i - R"
    using assms(2) True by (simp only: unat_of_nat) simp
  then show ?thesis using True by simp
next
  case False
  then have "b + of_nat i - (b + of_nat R) = (0 - of_nat (R - i) :: u16)" by simp
  moreover have "unat (of_nat (R - i) :: u16) = R - i" using assms(1) False by (simp only: unat_of_nat) simp
  ultimately have "unat (b + of_nat i - (b + of_nat R)) = 2 ^ 16 - (R - i)"
    using unat_sub_wrap [of 0 "of_nat (R - i) :: u16"] False by simp
  then show ?thesis using assms(1,3) False by simp
qed

text \<open>Storing packet \<open>i\<close> of the source keeps the agreement.\<close>

lemma store_ring_has:
  "ring_has (k_rcvq (conn_store_input k opc n pl)) m \<longleftrightarrow>
     m = n \<or> (ring_slot m \<noteq> ring_slot n \<and> ring_has (k_rcvq k) m)"
  "ring_slot m \<noteq> ring_slot n \<Longrightarrow> k_rcvq (conn_store_input k opc n pl) (ring_slot m) = k_rcvq k (ring_slot m)"
  by (auto simp: ring_has_def conn_store_input_def Let_def)

lemma store_pkt:
  fixes k opc n pl
  assumes "length pl \<le> CHAOS_MAX_DATA"
  defines "p \<equiv> k_rcvq (conn_store_input k opc n pl) (ring_slot n)"
  shows "pkt_opcode p = opc" "take (unat (pkt_nBytes p)) (pkt_data p) = pl" "pkt_offset p = 0"
  using assms(1) by (simp_all add: p_def conn_store_input_def Let_def unat_of_nat)

lemma rx_agrees_store:
  assumes ag: "rx_agrees b src R k" and new: "chaos_seq_lt (k_receivedNum k) (b + of_nat i)"
    and win: "seq_diff (b + of_nat i) (k_readNum k) \<le> k_localWindow k"
    and near: "R \<le> i + 65000" "i < R + 65536"
    and pl: "fst (src i) = opc" "snd (src i) = pl" "length pl \<le> CHAOS_MAX_DATA"
  shows "rx_agrees b src R (conn_store_input k opc (b + of_nat i) pl)"
proof -
  let ?n = "b + of_nat i" and ?k = "conn_store_input k opc (b + of_nat i) pl"
  have inv: "recv_inv k" and read: "k_readNum k = b + of_nat R" using ag by (auto simp: rx_agrees_def)
  note st = recv_inv_store_input(1,2) [OF inv new win pl(3), of opc]
  have le: "unat (?n - k_readNum k) \<le> 64"
    using win inv by (simp add: seq_diff_def word_le_nat_alt recv_inv_def)
  have i: "R + unat (?n - k_readNum k) = i"
    using rx_index [OF near] le unfolding read by simp
  have sel: "k_readNum ?k = k_readNum k" "k_eofReceived ?k = k_eofReceived k"
    by (simp_all add: conn_store_input_def Let_def)
  have "rx_pkt src (R + unat (m - k_readNum k)) (k_rcvq ?k (ring_slot m)) \<and>
      (pkt_offset (k_rcvq ?k (ring_slot m)) \<noteq> 0 \<longrightarrow> in_span (k_readNum k) (k_receivedNum ?k) m)"
    if m: "ring_has (k_rcvq ?k) m" for m
  proof (cases "m = ?n")
    case True
    then show ?thesis using store_pkt [OF pl(3)] pl i by (simp add: rx_pkt_def)
  next
    case False
    then have old: "ring_slot m \<noteq> ring_slot ?n" "ring_has (k_rcvq k) m"
      using m store_ring_has(1) by blast+
    then have eq: "k_rcvq ?k (ring_slot m) = k_rcvq k (ring_slot m)"
      using store_ring_has(2) by blast
    have "in_span (k_readNum k) (k_receivedNum ?k) m" if "in_span (k_readNum k) (k_receivedNum k) m"
      using that st(2) by (auto simp: in_span_def)
    then show ?thesis using ag old(2) unfolding eq rx_agrees_def by blast
  qed
  then show ?thesis
    using ag st(1) unfolding rx_agrees_def sel by blast
qed

text \<open>A longer mark appends the source's packets to the readable stream.\<close>

lemma rx_ring_eof:
  assumes ag: "rx_agrees b src R k" and ne: "\<not> k_eofReceived k"
  shows "(\<exists>n \<in> set (seq_loop (seq_inc (k_readNum k)) (k_receivedNum k)).
      pkt_opcode (k_rcvq k (ring_slot n)) = CHOP_EOF) \<longleftrightarrow>
    (\<exists>e \<in> {1..rx_mark R k}. fst (src e) = CHOP_EOF)"
proof -
  let ?b = "k_readNum k" and ?r = "k_receivedNum k"
  have inv: "recv_inv k" using ag by (simp add: rx_agrees_def)
  then have le: "unat (?r - ?b) \<le> 64" by (auto simp: recv_inv_def)
  have op: "pkt_opcode (k_rcvq k (ring_slot n)) = fst (src (R + unat (n - ?b)))" if "in_span ?b ?r n" for n
    using that ag inv by (simp add: rx_agrees_def rx_pkt_def recv_inv_def ring_holds_def)
  have none: "fst (src e) \<noteq> CHOP_EOF" if "1 \<le> e" "e \<le> R" for e
    using that ag ne by (auto simp: rx_agrees_def)
  have idx: "\<exists>n. in_span ?b ?r n \<and> R + unat (n - ?b) = e" if "R < e" "e \<le> rx_mark R k" for e
  proof -
    have "unat (?b + of_nat (e - R) - ?b) = e - R"
      using that le by (simp add: rx_mark_def unat_of_nat del: of_nat_diff)
    then show ?thesis using that by (intro exI [of _ "?b + of_nat (e - R)"]) (simp add: in_span_def rx_mark_def)
  qed
  show ?thesis
  proof
    assume "\<exists>n \<in> set (seq_loop (seq_inc ?b) ?r). pkt_opcode (k_rcvq k (ring_slot n)) = CHOP_EOF"
    then obtain n where n: "in_span ?b ?r n" "fst (src (R + unat (n - ?b))) = CHOP_EOF"
      using le op by (auto simp: set_seq_loop_span)
    then show "\<exists>e \<in> {1..rx_mark R k}. fst (src e) = CHOP_EOF"
      by (intro bexI [of _ "R + unat (n - ?b)"]) (auto simp: in_span_def rx_mark_def)
  next
    assume "\<exists>e \<in> {1..rx_mark R k}. fst (src e) = CHOP_EOF"
    then obtain e where e: "1 \<le> e" "e \<le> rx_mark R k" "fst (src e) = CHOP_EOF" by auto
    then have "R < e" using none [of e] by (meson not_le)
    then obtain n where "in_span ?b ?r n" "R + unat (n - ?b) = e" using idx e(2) by blast
    then show "\<exists>n \<in> set (seq_loop (seq_inc ?b) ?r). pkt_opcode (k_rcvq k (ring_slot n)) = CHOP_EOF"
      using e(3) op le by (auto simp: set_seq_loop_span)
  qed
qed

lemma seq_loop_split:
  assumes "unat (r - b) \<le> unat (r' - b)" "unat (r' - b) \<le> 64"
  shows "seq_loop (seq_inc b) r' = seq_loop (seq_inc b) r @ seq_loop (seq_inc r) r'"
proof -
  have d: "unat (r' - r) = unat (r' - b) - unat (r - b)" using assms(1) by (rule dist_shift)
  have r: "r + of_nat i = b + of_nat (unat (r - b) + i)" for i by simp
  have "unat (r' - r) \<le> 2 ^ 15" using d assms by simp
  then have "seq_loop (seq_inc r) r' = map (\<lambda>i. b + of_nat (unat (r - b) + i)) [1..<Suc (unat (r' - r))]"
    unfolding r [symmetric] by (rule seq_loop_eq)
  also have "\<dots> = map (\<lambda>i. b + of_nat i) (map ((+) (unat (r - b))) [1..<Suc (unat (r' - r))])"
    by (simp only: map_map comp_def)
  also have "map ((+) (unat (r - b))) [1..<Suc (unat (r' - r))] = [Suc (unat (r - b))..<Suc (unat (r' - b))]"
    using d assms(1) map_add_upt [of "unat (r - b) " "unat (r' - r)"]
    by (intro nth_equalityI) (simp_all del: upt_Suc)
  finally have tail: "seq_loop (seq_inc r) r' = map (\<lambda>i. b + of_nat i) [Suc (unat (r - b))..<Suc (unat (r' - b))]" .
  have "[1..<Suc (unat (r' - b))] = [1..<Suc (unat (r - b))] @ [Suc (unat (r - b))..<Suc (unat (r' - b))]"
    using upt_add_eq_append [of 1 "Suc (unat (r - b))" "unat (r' - b) - unat (r - b)"] assms(1) by simp
  then show ?thesis
    unfolding tail using assms by (simp add: seq_loop_eq del: upt_Suc)
qed

lemma rx_stream_grows:
  assumes ag: "rx_agrees b src R k" "rx_agrees b src R k'"
    and same: "k_readNum k' = k_readNum k" "k_eofReceived k' = k_eofReceived k"
      "\<And>n. in_span (k_readNum k) (k_receivedNum k) n \<Longrightarrow> k_rcvq k' (ring_slot n) = k_rcvq k (ring_slot n)"
      "\<And>n. ring_has (k_rcvq k') n \<Longrightarrow> \<not> in_span (k_readNum k) (k_receivedNum k) n \<Longrightarrow> pkt_offset (k_rcvq k' (ring_slot n)) = 0"
    and grows: "unat (k_receivedNum k - k_readNum k) \<le> unat (k_receivedNum k' - k_readNum k)"
    and D: "D @ pending k = src_stream src (rx_mark R k)"
  shows "D @ pending k' = src_stream src (rx_mark R k')"
proof -
  let ?b = "k_readNum k" and ?r = "k_receivedNum k" and ?r' = "k_receivedNum k'"
  let ?eof = "\<exists>e \<in> {1..rx_mark R k}. fst (src e) = CHOP_EOF"
  have inv: "recv_inv k" "recv_inv k'" using ag by (auto simp: rx_agrees_def)
  have le: "unat (?r' - ?b) \<le> 64" using inv(2) same(1) by (auto simp: recv_inv_def)
  have shift: "unat (?r' - ?r) = unat (?r' - ?b) - unat (?r - ?b)" using grows by (rule dist_shift)
  then have mark: "rx_mark R k' = rx_mark R k + unat (?r' - ?r)"
    using grows same(1) by (simp add: rx_mark_def)
  have src: "src_stream src (rx_mark R k') = (if ?eof then src_stream src (rx_mark R k)
      else src_stream src (rx_mark R k) @ stream_upto src [Suc (rx_mark R k)..<Suc (rx_mark R k')])"
  proof -
    have "[1..<Suc (rx_mark R k')] = [1..<Suc (rx_mark R k)] @ [Suc (rx_mark R k)..<Suc (rx_mark R k')]"
      using upt_add_eq_append [of 1 "Suc (rx_mark R k)" "unat (?r' - ?r)"] mark by simp
    then show ?thesis by (simp add: src_stream_def stream_upto_append atLeastLessThanSuc_atLeastAtMost del: upt_Suc)
  qed
  show ?thesis
  proof (cases "k_eofReceived k")
    case True
    then have "?eof" using ag(1) by (auto simp: rx_agrees_def rx_mark_def intro: order_trans)
    then show ?thesis using True D src same(2) by (simp add: pending_def)
  next
    case False
    have sub: "in_span ?b ?r' n" "\<not> in_span ?b ?r n" if "in_span ?r ?r' n" for n
      using that in_span_rebase [OF grows] by auto
    have old: "stream_of (k_rcvq k') (seq_loop (seq_inc ?b) ?r) = stream_of (k_rcvq k) (seq_loop (seq_inc ?b) ?r)"
      using same(3) le grows by (intro stream_of_cong) (simp add: set_seq_loop_span)
    have "rx_pkt src (rx_mark R k + unat (n - ?r)) (k_rcvq k' (ring_slot n)) \<and>
        pkt_offset (k_rcvq k' (ring_slot n)) = 0" if n: "in_span ?r ?r' n" for n
    proof -
      have d: "unat (n - ?b) = unat (?r - ?b) + unat (n - ?r)"
        using n shift grows le by (intro dist_add) (auto simp: in_span_def)
      have has: "ring_has (k_rcvq k') n"
        using sub(1) [OF n] inv(2) same(1) by (simp add: recv_inv_def ring_holds_def)
      then have "rx_pkt src (R + unat (n - ?b)) (k_rcvq k' (ring_slot n))"
        using ag(2) unfolding rx_agrees_def same(1) by blast
      then show ?thesis
        using same(4) [OF has sub(2) [OF n]] by (simp only: d rx_mark_def add.assoc)
    qed
    then have new: "stream_of (k_rcvq k') (seq_loop (seq_inc ?r) ?r') =
        stream_upto src [Suc (rx_mark R k)..<Suc (rx_mark R k')]"
      using shift le unfolding mark by (intro stream_of_src) auto
    have eof: "(\<exists>n \<in> set (seq_loop (seq_inc ?b) ?r). pkt_opcode (k_rcvq k' (ring_slot n)) = CHOP_EOF) \<longleftrightarrow> ?eof"
      using rx_ring_eof [OF ag(1) False] same(3) grows le by (simp add: set_seq_loop_span)
    have "pending k' = (if ?eof then pending k else pending k @ stream_upto src [Suc (rx_mark R k)..<Suc (rx_mark R k')])"
      using False same(1,2) seq_loop_split [OF grows le] eof old new
      by (simp add: pending_def stream_of_append)
    then show ?thesis using D src by (auto simp flip: append_assoc)
  qed
qed

section \<open>Reading\<close>

lemma rx_next:
  assumes "rx_agrees b src R k" "k_readNum k \<noteq> k_receivedNum k"
  shows "rx_pkt src (Suc R) (k_rcvq k (ring_slot (seq_inc (k_readNum k))))"
proof -
  have "ring_has (k_rcvq k) (seq_inc (k_readNum k))"
    using assms by (intro recv_inv_next) (simp_all add: rx_agrees_def)
  then have "rx_pkt src (R + unat (seq_inc (k_readNum k) - k_readNum k)) (k_rcvq k (ring_slot (seq_inc (k_readNum k))))"
    using assms(1) unfolding rx_agrees_def by blast
  then show ?thesis by (simp add: dist_one)
qed

lemma rx_agrees_consume:
  assumes ag: "rx_agrees b src R k" and ne: "k_readNum k \<noteq> k_receivedNum k" and eof: "\<not> k_eofReceived k"
    and wf: "pkt_wf p"
  shows "rx_agrees b src (Suc R) ((consume k p)\<lparr>k_eofReceived := (fst (src (Suc R)) = CHOP_EOF)\<rparr>)"
proof -
  let ?k = "(consume k p)\<lparr>k_eofReceived := (fst (src (Suc R)) = CHOP_EOF)\<rparr>" and ?b = "k_readNum k"
  let ?n = "seq_inc ?b"
  have inv: "recv_inv k" using ag by (simp add: rx_agrees_def)
  have inv': "recv_inv ?k" using recv_inv_consume [OF inv ne wf] by (simp add: recv_inv_def)
  have le: "unat (?n - ?b) \<le> unat (k_receivedNum k - ?b)"
    using recv_inv_next(1) [OF inv ne] by (simp add: in_span_def)
  have w: "in_span ?b (?b + k_localWindow k) n" if "ring_has (k_rcvq k) n" for n
    using that inv by (intro ring_only_has) (auto simp: recv_inv_def)
  have "rx_pkt src (Suc R + unat (n - ?n)) (k_rcvq ?k (ring_slot n)) \<and>
      (pkt_offset (k_rcvq ?k (ring_slot n)) \<noteq> 0 \<longrightarrow> in_span ?n (k_receivedNum k) n)"
    if n: "ring_has (k_rcvq ?k) n" for n
  proof -
    have slot: "ring_slot n \<noteq> ring_slot ?n" using n by (auto simp: ring_has_def consume_def)
    then have eq: "k_rcvq ?k (ring_slot n) = k_rcvq k (ring_slot n)" by (simp add: consume_def)
    then have old: "ring_has (k_rcvq k) n" using n by (simp add: ring_has_def)
    have "0 < unat (n - ?b)" using w [OF old] by (simp add: in_span_def)
    then have "unat (n - ?n) = unat (n - ?b) - 1"
      using dist_shift [of ?n ?b n] dist_one [of ?b] by simp
    then have "Suc R + unat (n - ?n) = R + unat (n - ?b)" using \<open>0 < unat (n - ?b)\<close> by simp
    moreover have "in_span ?n (k_receivedNum k) n" if "in_span ?b (k_receivedNum k) n"
      using that slot in_span_rebase [OF le] by (auto simp: in_span_one)
    ultimately show ?thesis using ag old unfolding eq rx_agrees_def by metis
  qed
  moreover have "(fst (src (Suc R)) = CHOP_EOF) = (\<exists>e \<in> {1..Suc R}. fst (src e) = CHOP_EOF)"
    using ag eof by (simp add: rx_agrees_def atLeastAtMostSuc_conv)
  moreover have "?n = b + of_nat (Suc R)" using ag by (simp add: rx_agrees_def seq_inc_def)
  ultimately show ?thesis
    using inv' unfolding rx_agrees_def by (simp add: consume_def)
qed

lemma rx_agrees_partial:
  assumes ag: "rx_agrees b src R k" and ne: "k_readNum k \<noteq> k_receivedNum k"
    and wf: "pkt_wf (p\<lparr>pkt_offset := x\<rparr>)" and p: "p = k_rcvq k (ring_slot (seq_inc (k_readNum k)))"
  shows "rx_agrees b src R (k\<lparr>k_rcvq := (k_rcvq k)(ring_slot (seq_inc (k_readNum k)) := p\<lparr>pkt_offset := x\<rparr>)\<rparr>)"
proof -
  let ?n = "seq_inc (k_readNum k)"
  let ?k = "k\<lparr>k_rcvq := (k_rcvq k)(ring_slot ?n := p\<lparr>pkt_offset := x\<rparr>)\<rparr>"
  have inv: "recv_inv k" using ag by (simp add: rx_agrees_def)
  note nxt = recv_inv_next [OF inv ne]
  have sel: "pkt_present (k_rcvq ?k i) = pkt_present (k_rcvq k i)" "pkt_num (k_rcvq ?k i) = pkt_num (k_rcvq k i)"
    "pkt_opcode (k_rcvq ?k i) = pkt_opcode (k_rcvq k i)" "pkt_nBytes (k_rcvq ?k i) = pkt_nBytes (k_rcvq k i)"
    "pkt_data (k_rcvq ?k i) = pkt_data (k_rcvq k i)" for i
    by (auto simp: p)
  have has: "ring_has (k_rcvq ?k) n = ring_has (k_rcvq k) n" for n unfolding ring_has_def sel ..
  have "recv_inv ?k"
    using inv wf unfolding recv_inv_def ring_holds_def ring_only_def has sel by simp
  moreover have "pkt_offset (k_rcvq ?k (ring_slot n)) \<noteq> 0 \<longrightarrow> in_span (k_readNum k) (k_receivedNum k) n"
    if n: "ring_has (k_rcvq k) n" for n
  proof (cases "ring_slot n = ring_slot ?n")
    case True
    then have "n = ?n" using n nxt(2) by (simp add: ring_has_def)
    then show ?thesis using nxt(1) by simp
  next
    case False
    then have "k_rcvq ?k (ring_slot n) = k_rcvq k (ring_slot n)" by simp
    then show ?thesis using n ag unfolding rx_agrees_def by metis
  qed
  ultimately show ?thesis
    using ag unfolding rx_agrees_def has rx_pkt_def sel by simp
qed

text \<open>The read loop moves \<open>R\<close> with \<^verbatim>\<open>readNum\<close> and leaves the mark where it is.\<close>

lemma rx_agrees_recv_loop:
  assumes ag: "rx_agrees b src R k" and len: "length got \<le> room"
  shows "\<exists>R' k' got' adv'. recv_loop k room got adv = (k', got', adv') \<and> rx_agrees b src R' k' \<and> R \<le> R' \<and>
    rx_mark R' k' = rx_mark R k"
proof -
  have inv: "recv_inv k" using ag by (simp add: rx_agrees_def)
  have mark: "rx_mark (Suc R) k' = rx_mark R k"
    if "k_readNum k \<noteq> k_receivedNum k" "recv_inv k" "k_readNum k' = seq_inc (k_readNum k)" "k_receivedNum k' = k_receivedNum k"
    for R k k'
    using that unat_Suc_diff [of "k_readNum k" "k_receivedNum k"] by (simp add: rx_mark_def seq_inc_def)
  from inv len have "\<forall>R. rx_agrees b src R k \<longrightarrow> (\<exists>R'\<ge>R. rx_agrees b src R' (fst (recv_loop k room got adv)) \<and>
      rx_mark R' (fst (recv_loop k room got adv)) = rx_mark R k)"
  proof (rule recv_loop_induct [where P = "\<lambda>k got adv r. \<forall>R. rx_agrees b src R k \<longrightarrow>
        (\<exists>R'\<ge>R. rx_agrees b src R' (fst r) \<and> rx_mark R' (fst r) = rx_mark R k)"], goal_cases stop eof part full)
    case (stop k got adv)
    then show ?case by auto
  next
    case (eof k got adv p)
    { fix R assume ag: "rx_agrees b src R k"
      have "fst (src (Suc R)) = CHOP_EOF" using rx_next [OF ag eof(2)] eof(4,5) by (simp add: rx_pkt_def)
      then have "rx_agrees b src (Suc R) ((consume k p)\<lparr>k_eofReceived := True\<rparr>)"
        using rx_agrees_consume [OF ag eof(2,3), of p] recv_inv_next(3) [OF eof(1,2)] eof(4) by simp
      moreover have "rx_mark (Suc R) ((consume k p)\<lparr>k_eofReceived := True\<rparr>) = rx_mark R k"
        using eof by (intro mark) (simp_all add: consume_def)
      ultimately have "\<exists>R'\<ge>R. rx_agrees b src R' ((consume k p)\<lparr>k_eofReceived := True\<rparr>) \<and>
          rx_mark R' ((consume k p)\<lparr>k_eofReceived := True\<rparr>) = rx_mark R k" by (intro exI [of _ "Suc R"]) simp }
    then show ?case by simp
  next
    case (part k got adv p t)
    have "rx_mark R (k\<lparr>k_rcvq := q\<rparr>) = rx_mark R k" for R q by (simp add: rx_mark_def)
    then show ?case using rx_agrees_partial [OF _ part(2) part(8) part(4)] by auto
  next
    case (full k got adv p p' r)
    { fix R assume ag: "rx_agrees b src R k"
      have "fst (src (Suc R)) \<noteq> CHOP_EOF" using rx_next [OF ag full(2)] full(4,5) by (simp add: rx_pkt_def)
      moreover have "(consume k p')\<lparr>k_eofReceived := False\<rparr> = consume k p'" using full(3) by (simp add: consume_def)
      ultimately have "rx_agrees b src (Suc R) (consume k p')"
        using rx_agrees_consume [OF ag full(2,3,7)] by simp
      moreover have "rx_mark (Suc R) (consume k p') = rx_mark R k"
        using full by (intro mark) (simp_all add: consume_def)
      ultimately have "\<exists>R'\<ge>R. rx_agrees b src R' (fst r) \<and> rx_mark R' (fst r) = rx_mark R k"
        using full(8) Suc_leD by fastforce }
    then show ?case by simp
  qed
  then show ?thesis using ag by (metis prod.collapse)
qed

section \<open>Traces\<close>

text \<open>
  Any sequence of arrivals, reads and other events on the connection in slot \<open>h\<close>. \<open>R\<close> is the
  number of packets the user has consumed and \<open>D\<close> the bytes \<^verbatim>\<open>chaos_recv\<close> has returned. The other
  events are those that leave the receive side alone (sending, acknowledgements, timers).
\<close>

definition same_rx :: "ChaosConn \<Rightarrow> ChaosConn \<Rightarrow> bool" where
  "same_rx k k' \<longleftrightarrow> k_rcvq k' = k_rcvq k \<and> k_readNum k' = k_readNum k \<and> k_receivedNum k' = k_receivedNum k \<and>
     k_localWindow k' = k_localWindow k \<and> k_eofReceived k' = k_eofReceived k"

inductive rx_trace :: "u16 \<Rightarrow> source \<Rightarrow> nat \<Rightarrow> nat \<Rightarrow> ChaosCore \<Rightarrow> byte list \<Rightarrow> bool" for b src h where
  rx_start: "recv_inv (c_conns c h) \<Longrightarrow> ring_empty (k_rcvq (c_conns c h)) \<Longrightarrow> k_readNum (c_conns c h) = b \<Longrightarrow>
     k_receivedNum (c_conns c h) = b \<Longrightarrow> \<not> k_eofReceived (c_conns c h) \<Longrightarrow> rx_trace b src h 0 c []"
| rx_arrive: "rx_trace b src h R c D \<Longrightarrow> chaos_get16 ch 12 = b + of_nat i \<Longrightarrow> ch ! 1 = fst (src i) \<Longrightarrow>
     slice ch CHAOS_HEADER d = snd (src i) \<Longrightarrow> d \<le> CHAOS_MAX_DATA \<Longrightarrow> R \<le> i + 65000 \<Longrightarrow> i < R + 65536 \<Longrightarrow>
     rx_trace b src h R (conn_queue_input c h ch d t) D"
| rx_read: "rx_trace b src h R c D \<Longrightarrow> chaos_recv c (int h) room t = (c', got) \<Longrightarrow>
     rx_trace b src h (R + unat (k_readNum (c_conns c' h) - k_readNum (c_conns c h))) c' (D @ got)"
| rx_other: "rx_trace b src h R c D \<Longrightarrow> same_rx (c_conns c h) (c_conns c' h) \<Longrightarrow> rx_trace b src h R c' D"

lemma same_rx_stamped: "stamped k k' \<Longrightarrow> same_rx k k'"
  by (simp add: same_rx_def stamped_sel)

lemma rx_same:
  assumes "same_rx k k'"
  shows "rx_agrees b src R k' = rx_agrees b src R k" "rx_mark R k' = rx_mark R k" "pending k' = pending k"
  using assms unfolding rx_agrees_def rx_mark_def pending_def recv_inv_def by (auto simp: same_rx_def)

lemma chaos_recv_conn:
  assumes "chaos_recv c (int h) room t = (c', got)"
  shows "same_rx (c_conns c h) (c_conns c' h) \<and> got = [] \<or>
    (\<exists>k adv. recv_loop (c_conns c h) room [] False = (k, got, adv) \<and> same_rx k (c_conns c' h))"
proof (cases "conn_for_handle c (int h)")
  case None
  then show ?thesis using assms by (simp add: chaos_recv_def same_rx_def)
next
  case (Some i)
  then have i: "i = h" by (auto simp: conn_for_handle_def split: if_splits)
  obtain k g adv where l: "recv_loop (c_conns c h) room [] False = (k, g, adv)" by (metis prod_cases3)
  have "same_rx k (c_conns (conn_send_sts (set_conn c h k) h t) h)"
    by (rule same_rx_stamped, rule stamped_after [OF _ quiet_conn_send_sts]) simp
  then have sts: "same_rx k (c_conns (conn_send_sts (set_conn c h k) h t) h)" .
  have refl: "same_rx k k" "same_rx k (k\<lparr>k_ackDueMs := x\<rparr>)" for x by (simp_all add: same_rx_def)
  have "same_rx k (c_conns (fst (chaos_recv c (int h) room t)) h)" "snd (chaos_recv c (int h) room t) = g"
    using sts refl by (simp_all add: chaos_recv_def Some i l Let_def)
  then have "same_rx k (c_conns c' h)" "got = g" using assms by simp_all
  then show ?thesis using l by blast
qed

lemma rx_read_step:
  assumes ag: "rx_agrees b src R k" and D: "D @ pending k = src_stream src (rx_mark R k)"
    and l: "recv_loop k room [] False = (k', got, adv)"
  shows "rx_agrees b src (R + unat (k_readNum k' - k_readNum k)) k' \<and>
    (D @ got) @ pending k' = src_stream src (rx_mark (R + unat (k_readNum k' - k_readNum k)) k')"
proof -
  have inv: "recv_inv k" using ag by (simp add: rx_agrees_def)
  from rx_agrees_recv_loop [OF ag, of "[]" room False] l obtain R' where
    R': "rx_agrees b src R' k'" "R \<le> R'" "rx_mark R' k' = rx_mark R k" by auto
  have f: "got = take room (pending k)" "pending k' = drop room (pending k)" "recv_frame k k'"
    using recv_loop_fifo [OF inv, of "[]" room False] l by auto
  have "k_receivedNum k' = k_receivedNum k" using f(3) by (rule recv_frame_sel)
  then have eq: "R' + unat (k_receivedNum k - k_readNum k') = R + unat (k_receivedNum k - k_readNum k)"
    using R'(3) by (simp add: rx_mark_def)
  then have le: "unat (k_receivedNum k - k_readNum k') \<le> unat (k_receivedNum k - k_readNum k)" using R'(2) by simp
  then have "R' = R + unat (k_readNum k' - k_readNum k)" unfolding dist_le_trans [OF le] using eq by linarith
  then show ?thesis using R' D f(1,2) by simp
qed

lemma rx_arrive_step:
  assumes ag: "rx_agrees b src R k" and D: "D @ pending k = src_stream src (rx_mark R k)"
    and near: "R \<le> i + 65000" "i < R + 65536" and len: "length (snd (src i)) \<le> CHAOS_MAX_DATA"
  shows "rx_agrees b src R (queue_input_conn k (fst (src i)) (b + of_nat i) (snd (src i))) \<and>
    D @ pending (queue_input_conn k (fst (src i)) (b + of_nat i) (snd (src i))) =
      src_stream src (rx_mark R (queue_input_conn k (fst (src i)) (b + of_nat i) (snd (src i))))"
proof (cases "\<not> chaos_seq_lt (k_receivedNum k) (b + of_nat i) \<or>
    seq_diff (b + of_nat i) (k_readNum k) > k_localWindow k \<or> ring_has (k_rcvq k) (b + of_nat i)")
  case True
  then show ?thesis using ag D by (simp add: queue_input_conn_def)
next
  case False
  let ?n = "b + of_nat i"
  let ?k = "conn_store_input k (fst (src i)) ?n (snd (src i))"
  have new: "chaos_seq_lt (k_receivedNum k) ?n" "seq_diff ?n (k_readNum k) \<le> k_localWindow k"
    using False by auto
  have inv: "recv_inv k" using ag by (simp add: rx_agrees_def)
  note st = recv_inv_store_input [OF inv new len]
  have ag': "rx_agrees b src R ?k" using rx_agrees_store [OF ag new near refl refl len] .
  have sel: "k_readNum ?k = k_readNum k" "k_eofReceived ?k = k_eofReceived k"
    by (simp_all add: conn_store_input_def Let_def)
  have w: "unat (?n - k_readNum k) \<le> 64"
    using new(2) inv by (simp add: seq_diff_def word_le_nat_alt recv_inv_def)
  have old: "k_rcvq ?k (ring_slot m) = k_rcvq k (ring_slot m)" if "in_span (k_readNum k) (k_receivedNum k) m" for m
  proof -
    have "in_span (k_readNum k) ?n m" "in_span (k_readNum k) ?n ?n" "m \<noteq> ?n"
      using that st(3) by (auto simp: in_span_def)
    then have "ring_slot m \<noteq> ring_slot ?n" using ring_slot_inj_span w by blast
    then show ?thesis by (rule store_ring_has(2))
  qed
  have fresh: "pkt_offset (k_rcvq ?k (ring_slot m)) = 0"
    if "ring_has (k_rcvq ?k) m" "\<not> in_span (k_readNum k) (k_receivedNum k) m" for m
  proof (cases "m = ?n")
    case True
    then show ?thesis using store_pkt(3) [OF len] by simp
  next
    case False
    then have "ring_slot m \<noteq> ring_slot ?n" "ring_has (k_rcvq k) m" using that(1) store_ring_has(1) by blast+
    then show ?thesis using ag that(2) store_ring_has(2) unfolding rx_agrees_def by metis
  qed
  have "D @ pending ?k = src_stream src (rx_mark R ?k)"
    by (rule rx_stream_grows [OF ag ag' sel old fresh st(2) D])
  then show ?thesis using ag' False by (simp add: queue_input_conn_def)
qed

lemma rx_trace_inv:
  "rx_trace b src h R c D \<Longrightarrow> rx_agrees b src R (c_conns c h) \<and>
    D @ pending (c_conns c h) = src_stream src (rx_mark R (c_conns c h))"
proof (induction rule: rx_trace.induct)
  case (rx_start c)
  moreover have "\<not> ring_has (k_rcvq (c_conns c h)) n" for n
    using rx_start(2) by (simp add: ring_has_def ring_empty_def)
  ultimately show ?case
    using seq_loop_eq [of b b] by (simp add: rx_agrees_def pending_def rx_mark_def src_stream_def)
next
  case (rx_arrive R c D ch i d t)
  let ?k = "queue_input_conn (c_conns c h) (fst (src i)) (b + of_nat i) (snd (src i))"
  have "length (snd (src i)) \<le> CHAOS_MAX_DATA"
    using rx_arrive.hyps length_slice [of ch CHAOS_HEADER d] by simp
  then have "rx_agrees b src R ?k \<and> D @ pending ?k = src_stream src (rx_mark R ?k)"
    using rx_arrive by (intro rx_arrive_step) auto
  moreover have "same_rx ?k (c_conns (conn_queue_input c h ch d t) h)"
    using same_rx_stamped [OF conn_queue_input_conn [of c h ch d t]] rx_arrive.hyps by simp
  ultimately show ?case by (simp add: rx_same)
next
  case (rx_read R c D room t c' got)
  from chaos_recv_conn [OF rx_read.hyps(2)] show ?case
  proof (elim disjE exE conjE)
    assume "same_rx (c_conns c h) (c_conns c' h)" "got = []"
    then show ?case using rx_read.IH by (simp add: rx_same) (simp add: same_rx_def)
  next
    fix k adv assume l: "recv_loop (c_conns c h) room [] False = (k, got, adv)" and s: "same_rx k (c_conns c' h)"
    from s have "k_readNum (c_conns c' h) = k_readNum k" by (simp add: same_rx_def)
    moreover have "rx_agrees b src (R + unat (k_readNum k - k_readNum (c_conns c h))) k \<and>
      (D @ got) @ pending k = src_stream src (rx_mark (R + unat (k_readNum k - k_readNum (c_conns c h))) k)"
      using rx_read.IH l by (intro rx_read_step) auto
    ultimately show ?case using s by (simp add: rx_same)
  qed
next
  case (rx_other R c D c')
  then show ?case by (simp add: rx_same)
qed

section \<open>Operations that leave every receive side alone\<close>

definition rx_quiet :: "ChaosCore \<Rightarrow> ChaosCore \<Rightarrow> bool" where
  "rx_quiet c c' \<longleftrightarrow> (\<forall>h. same_rx (c_conns c h) (c_conns c' h))"

lemma rx_quiet_refl [simp]: "rx_quiet c c"
  by (simp add: rx_quiet_def same_rx_def)

lemma rx_quiet_trans: "rx_quiet a b \<Longrightarrow> rx_quiet b c \<Longrightarrow> rx_quiet a c"
  by (simp add: rx_quiet_def same_rx_def)

lemma rx_quiet_quiet: "quiet c c' \<Longrightarrow> rx_quiet c c'"
  by (simp add: rx_quiet_def quiet_def same_rx_stamped)

lemma rx_quiet_set_conn: "same_rx (c_conns c h) k \<Longrightarrow> rx_quiet c (set_conn c h k)"
  by (simp add: rx_quiet_def same_rx_def)

lemma same_rx_upd [simp]:
  "same_rx k (k\<lparr>k_eofSent := b, k_eofNum := n\<rparr>)" "same_rx k (k\<lparr>k_lastProbeMs := t\<rparr>)"
  "same_rx k (k\<lparr>k_eofWanted := b, k_finishStartMs := t\<rparr>)"
  "same_rx k (conn_set_closed k kind tx)" "same_rx k (conn_apply_ack k ack rc)" "same_rx k (conn_enqueue k opc pl)"
  by (simp_all add: same_rx_def) (simp add: conn_enqueue_def Let_def)

lemma rx_quiet_send_controlled: "rx_quiet c (conn_send_controlled c h opc pl t)"
  by (rule rx_quiet_trans [OF rx_quiet_set_conn rx_quiet_quiet [OF conn_send_controlled_quiet]]) simp

lemma rx_quiet_maybe_send_eof: "rx_quiet c (conn_maybe_send_eof c h t)"
  unfolding conn_maybe_send_eof_def Let_def
  by (auto intro: rx_quiet_trans [OF rx_quiet_send_controlled rx_quiet_set_conn])

lemma rx_quiet_close_cls: "rx_quiet c (conn_close_cls c h r kind t)"
  unfolding conn_close_cls_def Let_def
  by (rule rx_quiet_trans [OF rx_quiet_quiet [OF quiet_conn_send_unc] rx_quiet_set_conn]) simp

lemma rx_quiet_process_ack: "rx_quiet c (conn_process_ack c h ack rc t)"
  unfolding conn_process_ack_def Let_def
  by (auto intro: rx_quiet_trans [OF rx_quiet_set_conn rx_quiet_close_cls]
      rx_quiet_trans [OF rx_quiet_set_conn rx_quiet_maybe_send_eof])

lemma rx_quiet_send: "rx_quiet c (fst (chaos_send c h pl t))"
proof -
  have "rx_quiet c (fst (chaos_send_loop c i rest sent t))" for i rest sent
  proof (induction c i rest sent t rule: chaos_send_loop.induct)
    case (1 c i rest sent t)
    show ?case
    proof (cases "rest \<noteq> [] \<and> conn_window_available (c_conns c i) > 0")
      case True
      then show ?thesis
        using rx_quiet_trans [OF rx_quiet_send_controlled "1.IH" [OF True refl refl]]
        by (simp add: chaos_send_loop.simps [of c] Let_def)
    next
      case False
      then have "chaos_send_loop c i rest sent t = (c, sent)" by (auto simp: chaos_send_loop.simps [of c])
      then show ?thesis by simp
    qed
  qed
  then show ?thesis by (simp add: chaos_send_def split: option.split)
qed

lemma rx_quiet_finish: "rx_quiet c (chaos_finish c h t)"
  by (auto simp: chaos_finish_def Let_def split: option.split
      intro: rx_quiet_trans [OF rx_quiet_set_conn rx_quiet_maybe_send_eof])

lemma rx_quiet_tick_live: "rx_quiet c (tick_live t h heard c)"
proof -
  define c1 where "c1 = conn_retransmit c h t CHAOS_RETRANSMIT_MS"
  define c2 where "c2 = (if k_ackDueMs (c_conns c1 h) \<noteq> 0 \<and> t \<ge> k_ackDueMs (c_conns c1 h)
    then conn_send_sts c1 h t else c1)"
  have "quiet c c1" unfolding c1_def by (rule quiet_conn_retransmit)
  moreover have "quiet c1 c2" unfolding c2_def by (auto intro: quiet_conn_send_sts)
  ultimately have q: "rx_quiet c c2" using quiet_trans rx_quiet_quiet by blast
  have p: "rx_quiet c (set_conn c2 h ((c_conns c2 h)\<lparr>k_lastProbeMs := t\<rparr>))"
    using q by (rule rx_quiet_trans) (simp add: rx_quiet_set_conn)
  show ?thesis
    unfolding tick_live_def c1_def [symmetric] Let_def c2_def [symmetric]
    using q p rx_quiet_trans [OF p rx_quiet_quiet [OF quiet_conn_send_unc]] by auto
qed

lemma rx_quiet_tick: "rx_quiet c (chaos_core_tick c t)"
proof -
  have step: "rx_quiet c (tick_conn t h c)" for h c
    unfolding tick_conn_eq
    using rx_quiet_tick_live rx_quiet_close_cls rx_quiet_set_conn rx_quiet_quiet [OF quiet_conn_retransmit] by simp
  have "rx_quiet c (fold (tick_conn t) hs c)" for hs
    by (induction hs arbitrary: c) (auto intro: step rx_quiet_trans)
  then show ?thesis by (simp add: chaos_core_tick_def)
qed

end
