(* ===== verification/VLM_Interfaces.thy ===== *)
theory VLM_Interfaces
  imports VLM_Prelude
begin

text \<open>
  Contracts that several components of the program promise: a transition system with an
  invariant, and the two ends of a byte stream (a reader that takes from the front, a writer
  that appends as much as there is room for), a bounded queue, a memory of words, and a handler that
  serves a queue. Each is interpreted on the definitions that model the code, in the theory of the
  component.
\<close>

section \<open>Transition systems\<close>

locale invariant_system =
  fixes init :: "'s \<Rightarrow> bool" and step :: "'s \<Rightarrow> 's \<Rightarrow> bool" and inv :: "'s \<Rightarrow> bool"
  assumes init_inv: "init s \<Longrightarrow> inv s"
    and step_inv: "step s t \<Longrightarrow> inv s \<Longrightarrow> inv t"
begin

lemma steps_inv: "step\<^sup>*\<^sup>* s t \<Longrightarrow> inv s \<Longrightarrow> inv t"
  by (induction rule: rtranclp_induct) (auto intro: step_inv)

lemma reachable_inv: "init s \<Longrightarrow> step\<^sup>*\<^sup>* s t \<Longrightarrow> inv t"
  using init_inv steps_inv by blast

text \<open>What the invariant gives at every state holds along every run.\<close>

lemma reachable_conseq: "(\<And>s. inv s \<Longrightarrow> P s) \<Longrightarrow> init s \<Longrightarrow> step\<^sup>*\<^sup>* s t \<Longrightarrow> P t"
  using reachable_inv by blast

end

section \<open>Readers and writers of a stream\<close>

locale stream_reader =
  fixes inv :: "'s \<Rightarrow> bool" and pend :: "'s \<Rightarrow> 'a list" and recv :: "'s \<Rightarrow> nat \<Rightarrow> 's \<times> 'a list"
  assumes recv_out: "inv s \<Longrightarrow> snd (recv s n) = take n (pend s)"
    and recv_rest: "inv s \<Longrightarrow> pend (fst (recv s n)) = drop n (pend s)"
    and recv_inv: "inv s \<Longrightarrow> inv (fst (recv s n))"
begin

text \<open>Splitting a read in two reads the same elements.\<close>

lemma recv_split:
  "inv s \<Longrightarrow> snd (recv s m) @ snd (recv (fst (recv s m)) n) = snd (recv s (m + n))"
  by (simp add: recv_out recv_rest recv_inv take_add)

lemma recv_conserves: "inv s \<Longrightarrow> snd (recv s n) @ pend (fst (recv s n)) = pend s"
  by (simp add: recv_out recv_rest)

text \<open>Any sequence of reads returns a prefix of the stream and leaves the rest.\<close>

lemma recv_fold:
  "inv s \<Longrightarrow> fold (\<lambda>n (s, out). (fst (recv s n), out @ snd (recv s n))) ns (s, acc) = (t, out) \<Longrightarrow>
    out @ pend t = acc @ pend s \<and> inv t"
proof (induction ns arbitrary: s acc)
  case (Cons n ns)
  have "inv (fst (recv s n))" using Cons.prems(1) by (rule recv_inv)
  moreover have "fold (\<lambda>n (s, out). (fst (recv s n), out @ snd (recv s n))) ns
      (fst (recv s n), acc @ snd (recv s n)) = (t, out)" using Cons.prems(2) by simp
  ultimately have "out @ pend t = (acc @ snd (recv s n)) @ pend (fst (recv s n)) \<and> inv t" by (rule Cons.IH)
  then show ?case using recv_conserves [OF Cons.prems(1)] by simp
qed simp

end

locale stream_writer =
  fixes inv :: "'s \<Rightarrow> bool" and contents :: "'s \<Rightarrow> 'a list" and room :: "'s \<Rightarrow> nat"
    and send :: "'s \<Rightarrow> 'a list \<Rightarrow> 's \<times> nat"
  assumes send_count: "inv s \<Longrightarrow> snd (send s xs) = min (length xs) (room s)"
    and send_contents: "inv s \<Longrightarrow> contents (fst (send s xs)) = contents s @ take (room s) xs"
    and send_inv: "inv s \<Longrightarrow> inv (fst (send s xs))"
begin

text \<open>The bytes reported as sent are the bytes queued, and the rest is what is left to send.\<close>

lemma send_reported: "inv s \<Longrightarrow> contents (fst (send s xs)) = contents s @ take (snd (send s xs)) xs"
  by (simp add: send_contents send_count min_def)

lemma send_all: "inv s \<Longrightarrow> length xs \<le> room s \<Longrightarrow> contents (fst (send s xs)) = contents s @ xs"
  by (simp add: send_contents)

lemma send_resume:
  "inv s \<Longrightarrow> contents (fst (send s xs)) @ drop (snd (send s xs)) xs = contents s @ xs"
  by (simp add: send_reported)

end

section \<open>Bounded queues\<close>

locale bounded_fifo =
  fixes inv :: "'s \<Rightarrow> bool" and elems :: "'s \<Rightarrow> 'a list" and cap :: "'s \<Rightarrow> nat"
    and put :: "'s \<Rightarrow> 'a \<Rightarrow> 's option" and tak :: "'s \<Rightarrow> ('a \<times> 's) option"
  assumes put_full: "inv s \<Longrightarrow> put s x = None \<longleftrightarrow> cap s \<le> length (elems s)"
    and put_elems: "inv s \<Longrightarrow> put s x = Some t \<Longrightarrow> inv t \<and> elems t = elems s @ [x] \<and> cap t = cap s"
    and tak_empty: "inv s \<Longrightarrow> tak s = None \<longleftrightarrow> elems s = []"
    and tak_elems: "inv s \<Longrightarrow> tak s = Some (x, t) \<Longrightarrow> inv t \<and> elems s = x # elems t \<and> cap t = cap s"
begin

text \<open>Several operations in a row; \<open>None\<close> when one of them cannot complete.\<close>

primrec put_all :: "'s \<Rightarrow> 'a list \<Rightarrow> 's option" where
  "put_all s [] = Some s"
| "put_all s (x # xs) = (case put s x of None \<Rightarrow> None | Some t \<Rightarrow> put_all t xs)"

primrec tak_all :: "'s \<Rightarrow> nat \<Rightarrow> ('a list \<times> 's) option" where
  "tak_all s 0 = Some ([], s)"
| "tak_all s (Suc n) = (case tak s of None \<Rightarrow> None
     | Some (x, t) \<Rightarrow> map_option (\<lambda>(xs, u). (x # xs, u)) (tak_all t n))"

lemma put_all_cases:
  "inv s \<Longrightarrow> if length (elems s) + length xs \<le> max (cap s) (length (elems s))
     then \<exists>t. put_all s xs = Some t \<and> inv t \<and> elems t = elems s @ xs \<and> cap t = cap s
     else put_all s xs = None"
proof (induction xs arbitrary: s)
  case (Cons x xs)
  show ?case
  proof (cases "put s x")
    case None
    then show ?thesis using Cons.prems put_full [of s x] by auto
  next
    case (Some t)
    then have t: "inv t" "elems t = elems s @ [x]" "cap t = cap s" "length (elems s) < cap s"
      using put_elems [OF Cons.prems] put_full [OF Cons.prems, of x] by auto
    then show ?thesis using Cons.IH [OF t(1)] Some by (cases xs) (auto simp: max_def split: if_splits)
  qed
qed simp

lemma tak_all_cases:
  "inv s \<Longrightarrow> if n \<le> length (elems s)
     then \<exists>t. tak_all s n = Some (take n (elems s), t) \<and> inv t \<and> elems t = drop n (elems s) \<and> cap t = cap s
     else tak_all s n = None"
proof (induction n arbitrary: s)
  case (Suc n)
  show ?case
  proof (cases "tak s")
    case None
    then show ?thesis using Suc.prems tak_empty [of s] by auto
  next
    case (Some r)
    then obtain x t where r: "tak s = Some (x, t)" by (cases r) auto
    then have t: "inv t" "elems s = x # elems t" "cap t = cap s" using tak_elems [OF Suc.prems r] by auto
    show ?thesis using Suc.IH [OF t(1)] r t(2,3) by auto
  qed
qed simp

text \<open>What is put into an empty queue comes out in the same order.\<close>

lemma put_all_tak_all:
  assumes "inv s" "elems s = []" "length xs \<le> cap s"
  shows "\<exists>t u. put_all s xs = Some t \<and> tak_all t (length xs) = Some (xs, u) \<and> elems u = []"
proof -
  obtain t where t: "put_all s xs = Some t" "inv t" "elems t = xs"
    using put_all_cases [OF assms(1), of xs] assms(2,3) by auto
  then show ?thesis using tak_all_cases [OF t(2), of "length xs"] by auto
qed

end

section \<open>Memories\<close>

text \<open>
  A memory as its clients see it: at every accessible address a word, which a read returns and
  leaves, and which a write to that address replaces.
\<close>

locale word_memory =
  fixes acc :: "'s \<Rightarrow> 'a \<Rightarrow> bool" and view :: "'s \<Rightarrow> 'a \<Rightarrow> 'w"
    and rd :: "'a \<Rightarrow> 's \<Rightarrow> ('w \<times> 's) option" and wr :: "'a \<Rightarrow> 'w \<Rightarrow> 's \<Rightarrow> 's option"
  assumes rd_view: "acc s a \<Longrightarrow> \<exists>t. rd a s = Some (view s a, t) \<and> view t = view s \<and> acc t = acc s"
    and wr_view: "acc s a \<Longrightarrow> \<exists>t. wr a x s = Some t \<and> view t = (view s)(a := x) \<and> acc t = acc s"
begin

primrec wr_all :: "('a \<times> 'w) list \<Rightarrow> 's \<Rightarrow> 's option" where
  "wr_all [] s = Some s"
| "wr_all (w # ws) s = (case wr (fst w) (snd w) s of None \<Rightarrow> None | Some t \<Rightarrow> wr_all ws t)"

primrec rd_all :: "'a list \<Rightarrow> 's \<Rightarrow> ('w list \<times> 's) option" where
  "rd_all [] s = Some ([], s)"
| "rd_all (a # as) s = (case rd a s of None \<Rightarrow> None
     | Some (x, t) \<Rightarrow> map_option (\<lambda>(xs, u). (x # xs, u)) (rd_all as t))"

lemma wr_all_view:
  "\<forall>w\<in>set ws. acc s (fst w) \<Longrightarrow>
    \<exists>t. wr_all ws s = Some t \<and> view t = fold (\<lambda>w v. v(fst w := snd w)) ws (view s) \<and> acc t = acc s"
proof (induction ws arbitrary: s)
  case (Cons w ws)
  obtain t where t: "wr (fst w) (snd w) s = Some t" "view t = (view s)(fst w := snd w)" "acc t = acc s"
    using wr_view [of s "fst w" "snd w"] Cons.prems by auto
  then show ?case using Cons.IH [of t] Cons.prems by auto
qed simp

lemma rd_all_view:
  "\<forall>a\<in>set as. acc s a \<Longrightarrow> \<exists>t. rd_all as s = Some (map (view s) as, t) \<and> view t = view s \<and> acc t = acc s"
proof (induction as arbitrary: s)
  case (Cons a as)
  obtain t where t: "rd a s = Some (view s a, t)" "view t = view s" "acc t = acc s"
    using rd_view [of s a] Cons.prems by auto
  then show ?case using Cons.IH [of t] Cons.prems by auto
qed simp

lemma fold_upd_lookup:
  "fold (\<lambda>w v. v(fst w := snd w)) ws v a = (case map_of (rev ws) a of Some x \<Rightarrow> x | None \<Rightarrow> v a)"
  by (induction ws arbitrary: v) (auto simp: map_add_def split: option.split)

text \<open>After any writes, a read returns what was last written to its address.\<close>

lemma rd_after_wr_all:
  assumes "\<forall>w\<in>set ws. acc s (fst w)" "\<forall>a\<in>set as. acc s a"
  shows "\<exists>t u. wr_all ws s = Some t \<and>
    rd_all as t = Some (map (\<lambda>a. case map_of (rev ws) a of Some x \<Rightarrow> x | None \<Rightarrow> view s a) as, u)"
proof -
  obtain t where t: "wr_all ws s = Some t" "view t = fold (\<lambda>w v. v(fst w := snd w)) ws (view s)" "acc t = acc s"
    using wr_all_view [OF assms(1)] by blast
  then obtain u where "rd_all as t = Some (map (view t) as, u)" using rd_all_view [of as t] assms(2) by auto
  then show ?thesis using t by (auto simp: fold_upd_lookup)
qed

end

section \<open>Handlers that serve a queue\<close>

text \<open>
  The contract of a signal handler that serves a queue: it takes requests from one queue and
  returns some of them on another, until there is none left or it has to wait and asks to be
  called again. The loops of the disk channels, the command channel and the MBIN channels are
  instances; what the loop does to the two queues, and that it ends, is proved here once.
\<close>

locale queue_server =
  fixes inv :: "'s \<Rightarrow> bool" and inq outq :: "'s \<Rightarrow> 'a list" and answered :: "'a \<Rightarrow> bool"
    and blocked :: "'s \<Rightarrow> bool" and later :: "'s \<Rightarrow> 's" and serve :: "'s \<Rightarrow> 's" and run :: "'s \<Rightarrow> 's option"
  assumes run_unfold: "inv s \<Longrightarrow> run s = (if inq s = [] then Some s else if blocked s then Some (later s) else run (serve s))"
    and serve_inv: "inv s \<Longrightarrow> inq s \<noteq> [] \<Longrightarrow> \<not> blocked s \<Longrightarrow> inv (serve s)"
    and serve_inq: "inv s \<Longrightarrow> inq s \<noteq> [] \<Longrightarrow> \<not> blocked s \<Longrightarrow> inq (serve s) = tl (inq s)"
    and serve_outq: "inv s \<Longrightarrow> inq s \<noteq> [] \<Longrightarrow> \<not> blocked s \<Longrightarrow> outq (serve s) = outq s @ filter answered [hd (inq s)]"
    and later_queues: "inq (later s) = inq s" "outq (later s) = outq s"
begin

text \<open>
  The loop ends after serving the first \<open>n\<close> requests, in order. What every single service keeps,
  starting from the first state, holds of the state in which it ends.
\<close>

lemma run_serves:
  assumes "inv s" "J s"
    and J: "\<And>t. inv t \<Longrightarrow> inq t \<noteq> [] \<Longrightarrow> \<not> blocked t \<Longrightarrow> J t \<Longrightarrow> J (serve t)"
  shows "\<exists>n t. n \<le> length (inq s) \<and> inv t \<and> J t \<and> inq t = drop n (inq s) \<and>
    outq t = outq s @ filter answered (take n (inq s)) \<and> run s = Some (if inq t = [] then t else later t) \<and>
    (inq t \<noteq> [] \<longrightarrow> blocked t)"
  using assms(1,2)
proof (induction "inq s" arbitrary: s)
  case Nil
  then show ?case using run_unfold [of s] by (intro exI [of _ 0] exI [of _ s]) auto
next
  case (Cons x xs)
  show ?case
  proof (cases "blocked s")
    case True
    then show ?thesis using run_unfold [of s] Cons.hyps(2) Cons.prems by (intro exI [of _ 0] exI [of _ s]) auto
  next
    case False
    have ne: "inq s \<noteq> []" using Cons.hyps(2) by auto
    note sv = serve_inv [OF Cons.prems(1) ne False] serve_inq [OF Cons.prems(1) ne False]
      serve_outq [OF Cons.prems(1) ne False] J [OF Cons.prems(1) ne False Cons.prems(2)]
    obtain n t where "n \<le> length (inq (serve s))" "inv t" "J t" "inq t = drop n (inq (serve s))"
      "outq t = outq (serve s) @ filter answered (take n (inq (serve s)))"
      "run (serve s) = Some (if inq t = [] then t else later t)" "inq t \<noteq> [] \<longrightarrow> blocked t"
      using Cons.hyps(1) [of "serve s"] sv Cons.hyps(2) by (metis list.sel(3))
    then show ?thesis using run_unfold [OF Cons.prems(1)] ne False sv(2,3) Cons.hyps(2) [symmetric]
      by (intro exI [of _ "Suc n"] exI [of _ t]) auto
  qed
qed

end

end
