(* ===== verification/Chaos_Streams.thy ===== *)
theory Chaos_Streams
  imports Chaos_Integrity VLM_Interfaces
begin

text \<open>
  The user operations of the protocol core as the two ends of a byte stream:
  \<^verbatim>\<open>chaos_recv\<close> reads the pending stream of a handle, \<^verbatim>\<open>chaos_send\<close> appends to its queued stream,
  and the core with its steps is a transition system that keeps \<open>core_inv\<close>.
\<close>

definition handle_pending :: "int \<Rightarrow> ChaosCore \<Rightarrow> byte list" where
  "handle_pending h c = (case chaos_conn c h of None \<Rightarrow> [] | Some k \<Rightarrow> pending k)"

definition handle_queued :: "int \<Rightarrow> ChaosCore \<Rightarrow> byte list" where
  "handle_queued h c = (case chaos_conn c h of None \<Rightarrow> [] | Some k \<Rightarrow> queued k)"

definition core_start :: "ChaosCore \<Rightarrow> bool" where
  "core_start c \<longleftrightarrow> (\<exists>w first addr mac name. 1 \<le> w \<and> w \<le> 32 \<and>
     c = (chaos_core_init addr mac name)\<lparr>c_localWindow := w, c_initialPktNum := first\<rparr>)"

interpretation core: invariant_system core_start core_step core_inv
  by unfold_locales (auto simp: core_start_def intro: core_inv_init core_inv_step)

lemma conn_for_handle_state:
  assumes "\<And>i. k_state (c_conns c' i) = k_state (c_conns c i)"
  shows "conn_for_handle c' h = conn_for_handle c h"
  by (simp add: conn_for_handle_def assms)

text \<open>Sending and receiving do not change the state of any connection.\<close>

definition same_states :: "ChaosCore \<Rightarrow> ChaosCore \<Rightarrow> bool" where
  "same_states c c' \<longleftrightarrow> (\<forall>i. k_state (c_conns c' i) = k_state (c_conns c i))"

lemma same_states_handle: "same_states c c' \<Longrightarrow> conn_for_handle c' h = conn_for_handle c h"
  by (rule conn_for_handle_state) (simp add: same_states_def)

lemma same_states_refl [simp]: "same_states c c"
  by (simp add: same_states_def)

lemma same_states_trans: "same_states a b \<Longrightarrow> same_states b c \<Longrightarrow> same_states a c"
  by (simp add: same_states_def)

lemma same_states_quiet: "quiet c c' \<Longrightarrow> same_states c c'"
  by (simp add: same_states_def quiet_state)

lemma same_states_set_conn: "k_state k = k_state (c_conns c h) \<Longrightarrow> same_states c (set_conn c h k)"
  by (simp add: same_states_def)

lemma same_states_send_loop: "same_states c (fst (chaos_send_loop c i rest sent t))"
proof (induction c i rest sent t rule: chaos_send_loop.induct)
  case (1 c i rest sent t)
  have step: "same_states c (conn_send_controlled c i CHOP_DAT pl t)" for pl
    by (rule same_states_trans [OF same_states_set_conn same_states_quiet [OF conn_send_controlled_quiet]]) simp
  show ?case
  proof (cases "rest \<noteq> [] \<and> conn_window_available (c_conns c i) > 0")
    case True
    then show ?thesis
      using same_states_trans [OF step "1.IH" [OF True refl refl]]
      by (simp add: chaos_send_loop.simps [of c] Let_def)
  next
    case False
    then have "chaos_send_loop c i rest sent t = (c, sent)" by (auto simp: chaos_send_loop.simps [of c])
    then show ?thesis by simp
  qed
qed

lemma chaos_recv_handle:
  assumes inv: "core_inv c" and h: "conn_for_handle c h = Some i"
  shows "snd (chaos_recv c h room t) = take room (pending (c_conns c i))"
    and "pending (c_conns (fst (chaos_recv c h room t)) i) = drop room (pending (c_conns c i))"
    and "conn_for_handle (fst (chaos_recv c h room t)) h = Some i"
proof -
  have i: "h = int i" "i < CHAOS_MAX_CONNS" "k_state (c_conns c i) \<noteq> CONN_FREE"
    using h by (auto simp: conn_for_handle_Some)
  obtain k got adv where l: "recv_loop (c_conns c i) room [] False = (k, got, adv)" by (metis prod_cases3)
  have r: "got = take room (pending (c_conns c i))" "pending k = drop room (pending (c_conns c i))"
    "recv_frame (c_conns c i) k"
    using recv_loop_fifo [of "c_conns c i" "[]" room False] core_inv_conn [OF inv i(2)] l
    by (auto simp: conn_inv_def)
  show "snd (chaos_recv c h room t) = take room (pending (c_conns c i))"
    by (simp add: chaos_recv_def h l r Let_def)
  obtain c' got' where c': "chaos_recv c h room t = (c', got')" by fastforce
  have st: "k_state k = k_state (c_conns c i)" using r(3) by (rule recv_frame_sel)
  have s: "stamped k (c_conns (conn_send_sts (set_conn c i k) i t) i)"
    by (rule stamped_after [OF _ quiet_conn_send_sts]) simp
  have "same_rx k (c_conns c' i) \<and> k_state (c_conns c' i) = k_state k"
    using arg_cong [OF c', of fst] same_rx_stamped [OF s] stamped_sel(1) [OF s]
    by (auto simp: chaos_recv_def h l Let_def) (simp_all add: same_rx_def)
  then have "pending (c_conns c' i) = pending k" "k_state (c_conns c' i) = k_state k"
    using rx_same(3) by blast+
  then show "pending (c_conns (fst (chaos_recv c h room t)) i) = drop room (pending (c_conns c i))"
    "conn_for_handle (fst (chaos_recv c h room t)) h = Some i"
    using r(2) c' st i by (simp_all add: conn_for_handle_Some)
qed

interpretation chaos_reader: stream_reader core_inv "handle_pending h" "\<lambda>c n. chaos_recv c h n t" for h t
proof
  fix c n assume inv: "core_inv c"
  show "core_inv (fst (chaos_recv c h n t))" using inv by (rule core_inv_recv)
  have "snd (chaos_recv c h n t) = take n (handle_pending h c) \<and>
    handle_pending h (fst (chaos_recv c h n t)) = drop n (handle_pending h c)"
  proof (cases "conn_for_handle c h")
    case None
    then show ?thesis by (simp add: handle_pending_def chaos_conn_def chaos_recv_def)
  next
    case (Some i)
    then show ?thesis
      using chaos_recv_handle [OF inv Some] by (simp add: handle_pending_def chaos_conn_def)
  qed
  then show "snd (chaos_recv c h n t) = take n (handle_pending h c)"
    "handle_pending h (fst (chaos_recv c h n t)) = drop n (handle_pending h c)"
    by auto
qed

interpretation chaos_writer: stream_writer core_inv "handle_queued h" "\<lambda>c. chaos_send_room c h"
  "\<lambda>c xs. chaos_send c h xs t" for h t
proof
  fix c xs assume inv: "core_inv c"
  show "core_inv (fst (chaos_send c h xs t))" using inv by (rule core_inv_send)
  have "snd (chaos_send c h xs t) = min (length xs) (chaos_send_room c h) \<and>
    handle_queued h (fst (chaos_send c h xs t)) = handle_queued h c @ take (chaos_send_room c h) xs"
  proof (cases "conn_for_handle c h")
    case None
    then show ?thesis by (simp add: handle_queued_def chaos_conn_def chaos_send_def chaos_send_room_def)
  next
    case (Some i)
    then have i: "i < CHAOS_MAX_CONNS" "k_state (c_conns c i) \<noteq> CONN_FREE" by (auto simp: conn_for_handle_Some)
    show ?thesis
    proof (cases "k_state (c_conns c i) = CONN_OPEN \<and> \<not> k_eofWanted (c_conns c i)")
      case False
      then show ?thesis by (auto simp: chaos_send_def chaos_send_room_def Some Let_def)
    next
      case True
      then have "\<not> k_eofSent (c_conns c i)"
        using core_inv_conn [OF inv i(1)] by (auto simp: conn_inv_def phase_inv_def)
      note l = chaos_send_loop_count [OF inv i this, of xs 0 t]
      have room: "chaos_send_room c h = nat (conn_window_available (c_conns c i)) * CHAOS_MAX_DATA"
        using True by (simp add: chaos_send_room_def Some Let_def)
      have "conn_for_handle (fst (chaos_send_loop c i xs 0 t)) h = Some i"
        using same_states_handle [OF same_states_send_loop] Some by simp
      then show ?thesis
        using l True by (simp add: room chaos_send_def Some handle_queued_def chaos_conn_def)
    qed
  qed
  then show "snd (chaos_send c h xs t) = min (length xs) (chaos_send_room c h)"
    "handle_queued h (fst (chaos_send c h xs t)) = handle_queued h c @ take (chaos_send_room c h) xs"
    by auto
qed

end
