(* ===== verification/Chaos_Wire.thy ===== *)
theory Chaos_Wire
  imports Chaos_Streams
begin

text \<open>
  What goes on the wire: the layout of a frame read back field by field, the ARP table as a
  partial map from addresses, and the exact frames a retransmission emits.
\<close>

section \<open>Frame layout\<close>

lemma get16_drop: "chaos_get16 (drop n bs) i = chaos_get16 bs (n + i)" if "n + i + 1 < length bs"
  using that by (simp add: chaos_get16_def)

lemma get16_at:
  assumes "bs = pre @ chaos_put16 v @ post" "n = length pre"
  shows "chaos_get16 bs n = v"
  unfolding assms by (rule get16_put16)

lemma frame_fields:
  fixes opc da di sa si n ack pl
  assumes mac: "length mac = 6" "length myMac = 6"
  defines "f \<equiv> chaos_frame mac myMac opc da di sa si n ack pl"
  shows "take 6 f = mac" "slice f 6 6 = myMac" "f ! 12 = 0x08" "f ! 13 = 0x04" "f ! 15 = opc"
    "chaos_get16 f 16 = of_nat (length pl) AND 0xFFF"
    "chaos_get16 f 18 = da" "chaos_get16 f 20 = di" "chaos_get16 f 22 = sa" "chaos_get16 f 24 = si"
    "chaos_get16 f 26 = n" "chaos_get16 f 28 = ack" "drop 30 f = pl"
proof -
  let ?len = "of_nat (length pl) AND 0xFFF :: u16"
  let ?h0 = "mac @ myMac @ [0x08, 0x04] @ [0, opc]"
  have l0: "length ?h0 = 16" using mac by simp
  have f: "f = ?h0 @ chaos_put16 ?len @ chaos_put16 da @ chaos_put16 di @ chaos_put16 sa @
      chaos_put16 si @ chaos_put16 n @ chaos_put16 ack @ pl"
    by (simp add: f_def chaos_frame_def)
  show "take 6 f = mac" "slice f 6 6 = myMac" using mac by (simp_all add: f slice_def)
  show "f ! 12 = 0x08" "f ! 13 = 0x04" "f ! 15 = opc" using mac by (simp_all add: f nth_append)
  show "chaos_get16 f 16 = ?len" by (rule get16_at [OF f]) (use mac in simp)
  show "chaos_get16 f 18 = da"
    by (rule get16_at [where pre = "?h0 @ chaos_put16 ?len"]) (use mac in \<open>simp_all add: f\<close>)
  show "chaos_get16 f 20 = di"
    by (rule get16_at [where pre = "?h0 @ chaos_put16 ?len @ chaos_put16 da"]) (use mac in \<open>simp_all add: f\<close>)
  show "chaos_get16 f 22 = sa"
    by (rule get16_at [where pre = "?h0 @ chaos_put16 ?len @ chaos_put16 da @ chaos_put16 di"])
       (use mac in \<open>simp_all add: f\<close>)
  show "chaos_get16 f 24 = si"
    by (rule get16_at [where pre = "?h0 @ chaos_put16 ?len @ chaos_put16 da @ chaos_put16 di @ chaos_put16 sa"])
       (use mac in \<open>simp_all add: f\<close>)
  show "chaos_get16 f 26 = n"
    by (rule get16_at [where pre = "?h0 @ chaos_put16 ?len @ chaos_put16 da @ chaos_put16 di @ chaos_put16 sa @ chaos_put16 si"])
       (use mac in \<open>simp_all add: f\<close>)
  show "chaos_get16 f 28 = ack"
    by (rule get16_at [where pre = "?h0 @ chaos_put16 ?len @ chaos_put16 da @ chaos_put16 di @ chaos_put16 sa @ chaos_put16 si @ chaos_put16 n"])
       (use mac in \<open>simp_all add: f\<close>)
  show "drop 30 f = pl" using mac by (simp add: f)
qed

lemma length_field:
  assumes "length pl \<le> CHAOS_MAX_DATA"
  shows "unat ((of_nat (length pl) AND 0xFFF :: u16) AND 0xFFF) = length pl"
proof -
  have m: "(0xFFF :: u16) = mask 12" by (simp add: mask_eq_exp_minus_1)
  have "unat (take_bit 12 (take_bit 12 (of_nat (length pl) :: u16))) = length pl"
    using assms by (simp only: unsigned_take_bit_eq) (simp add: unat_of_nat take_bit_eq_mod)
  then show ?thesis unfolding m by (simp only: take_bit_eq_mask)
qed

section \<open>The ARP table\<close>

lemma find_upt_update:
  assumes "find (\<lambda>i. P (f i)) [0..<n] = Some j" "P v"
  shows "find (\<lambda>i. P ((f(j := v)) i)) [0..<n] = Some j"
  using assms by (auto simp: find_Some_iff)

lemma find_upt_insert:
  assumes "find (\<lambda>i. P (f i)) [0..<n] = None" "P v" "j < n"
  shows "find (\<lambda>i. P ((f(j := v)) i)) [0..<n] = Some j"
  unfolding find_Some_iff
proof (intro exI [of _ j] conjI allI impI)
  show "j < length [0..<n]" "P ((f(j := v)) ([0..<n] ! j))" "j = [0..<n] ! j" using assms(2,3) by simp_all
  show "\<not> P ((f(j := v)) ([0..<n] ! i))" if "i < j" for i
    using that assms(1,3) by (simp add: find_None_iff)
qed

lemma arp_victim_bound: "\<forall>i \<in> set is. i < n \<Longrightarrow> victim < n \<Longrightarrow> arp_victim arp is victim oldest < n"
  by (induction arp "is" victim oldest rule: arp_victim.induct) auto

text \<open>The entry \<^verbatim>\<open>arp_find\<close> gives for an address, created or not, is the one a later search finds.\<close>

lemma arp_find_slot:
  assumes "arp_find c a True = (c', Some i)"
  shows "i < CHAOS_ARP_ENTRIES" "arp_addr (c_arp c' i) = a"
    "arp_match e a \<Longrightarrow> find (\<lambda>j. arp_match (((c_arp c')(i := e)) j) a) [0..<CHAOS_ARP_ENTRIES] = Some i"
    "c_conns c' = c_conns c" "c_myAddr c' = c_myAddr c" "c_myMac c' = c_myMac c"
proof -
  have "i < CHAOS_ARP_ENTRIES \<and> arp_addr (c_arp c' i) = a \<and>
    (arp_match e a \<longrightarrow> find (\<lambda>j. arp_match (((c_arp c')(i := e)) j) a) [0..<CHAOS_ARP_ENTRIES] = Some i)"
  proof (cases "find (\<lambda>i. arp_match (c_arp c i) a) [0..<CHAOS_ARP_ENTRIES]")
    case (Some j)
    then have "c' = c" "j = i" using assms by (auto simp: arp_find_def)
    then show ?thesis
      using Some find_upt_update [where P = "\<lambda>e. arp_match e a" and f = "c_arp c" and v = e]
      by (auto simp: find_Some_iff arp_match_def)
  next
    case None
    have v: "arp_victim (c_arp c) [0..<CHAOS_ARP_ENTRIES] 0 (- 1) < CHAOS_ARP_ENTRIES"
      by (rule arp_victim_bound) auto
    have c': "c' = c\<lparr>c_arp := (c_arp c)(i := zero_arp\<lparr>arp_addr := a\<rparr>)\<rparr>" "i < CHAOS_ARP_ENTRIES"
      using assms v by (auto simp: arp_find_def None Let_def)
    then show ?thesis
      using find_upt_insert [where P = "\<lambda>e. arp_match e a" and f = "c_arp c" and v = e, OF None] by simp
  qed
  then show "i < CHAOS_ARP_ENTRIES" "arp_addr (c_arp c' i) = a"
    "arp_match e a \<Longrightarrow> find (\<lambda>j. arp_match (((c_arp c')(i := e)) j) a) [0..<CHAOS_ARP_ENTRIES] = Some i"
    by auto
  show "c_conns c' = c_conns c" "c_myAddr c' = c_myAddr c" "c_myMac c' = c_myMac c"
    using arp_find_sel [of c a True] assms by simp_all
qed

text \<open>A resolved address whose entry is not due for a refresh.\<close>

definition arp_fresh :: "ChaosCore \<Rightarrow> u16 \<Rightarrow> byte list \<Rightarrow> u64 \<Rightarrow> bool" where
  "arp_fresh c a mac t \<longleftrightarrow>
     (case find (\<lambda>i. arp_match (c_arp c i) a) [0..<CHAOS_ARP_ENTRIES] of
        None \<Rightarrow> False
      | Some i \<Rightarrow> arp_valid (c_arp c i) \<and> arp_mac (c_arp c i) = mac \<and>
          t - arp_learnedMs (c_arp c i) \<le> CHAOS_ARP_REFRESH_MS)"

lemma arp_fresh_lookup: "arp_fresh c a mac t \<Longrightarrow> chaos_arp_lookup c a = Some mac"
  by (auto simp: arp_fresh_def chaos_arp_lookup_def arp_find_def split: option.splits)

lemma arp_fresh_resolve: "arp_fresh c a mac t \<Longrightarrow> arp_resolve c a t = (c, Some mac)"
  by (auto simp: arp_fresh_def arp_resolve_def arp_find_def Let_def not_less split: option.splits)

lemma arp_fresh_cong: "c_arp c' = c_arp c \<Longrightarrow> arp_fresh c' a mac t = arp_fresh c a mac t"
  by (simp add: arp_fresh_def split: option.split)

lemma send_raw_fresh:
  assumes "arp_fresh c da mac t" "length pl \<le> CHAOS_MAX_DATA"
  shows "send_raw c opc da di si n ack pl t =
    (emit_frame c (chaos_frame mac (c_myMac c) opc da di (c_myAddr c) si n ack pl), True)"
  using assms by (simp add: send_raw_def arp_fresh_resolve)

section \<open>Retransmission\<close>

text \<open>The frame that carries the packet \<open>p\<close> of the connection \<open>k\<close>.\<close>

definition pkt_frame :: "ChaosCore \<Rightarrow> ChaosConn \<Rightarrow> byte list \<Rightarrow> ChaosPkt \<Rightarrow> byte list" where
  "pkt_frame c k mac p =
     chaos_frame mac (c_myMac c) (pkt_opcode p) (k_remoteAddr k)
       (if pkt_opcode p = CHOP_RFC then 0 else k_remoteIndex k) (c_myAddr c) (k_localIndex k)
       (pkt_num p) (if pkt_opcode p = CHOP_RFC then 0 else k_readNum k)
       (take (unat (pkt_nBytes p)) (pkt_data p))"

lemma pkt_frame_stamped:
  "stamped k k' \<Longrightarrow> c_myMac c' = c_myMac c \<Longrightarrow> c_myAddr c' = c_myAddr c \<Longrightarrow>
    pkt_frame c' k' mac (k_sendq k' s) = pkt_frame c k mac (k_sendq k s)"
  by (simp add: pkt_frame_def stamped_sel)

lemma conn_transmit_emits:
  assumes "arp_fresh c (k_remoteAddr (c_conns c h)) mac t" "pkt_wf (k_sendq (c_conns c h) s)"
  shows "c_emitted (conn_transmit c h s t) = c_emitted c @ [pkt_frame c (c_conns c h) mac (k_sendq (c_conns c h) s)]"
    and "c_arp (conn_transmit c h s t) = c_arp c"
    and "i \<noteq> s \<Longrightarrow> k_sendq (c_conns (conn_transmit c h s t) h) i = k_sendq (c_conns c h) i"
proof -
  let ?k = "c_conns c h"
  let ?p = "(k_sendq ?k s)\<lparr>pkt_sentAtMs := t\<rparr>"
  let ?k' = "?k\<lparr>k_sendq := (k_sendq ?k)(s := ?p), k_lastAckSent := k_readNum ?k, k_ackDueMs := 0\<rparr>"
  have f: "arp_fresh (set_conn c h ?k') (k_remoteAddr ?k) mac t"
    using assms(1) arp_fresh_cong [of "set_conn c h ?k'" c] by simp
  have len: "length (take (unat (pkt_nBytes ?p)) (pkt_data ?p)) \<le> CHAOS_MAX_DATA"
    using assms(2) by (simp add: pkt_wf_def)
  have c': "conn_transmit c h s t = emit_frame (set_conn c h ?k') (pkt_frame c ?k mac (k_sendq ?k s))"
    using send_raw_fresh [OF f len] by (simp add: conn_transmit_def Let_def pkt_frame_def)
  show "c_emitted (conn_transmit c h s t) = c_emitted c @ [pkt_frame c ?k mac (k_sendq ?k s)]"
    "c_arp (conn_transmit c h s t) = c_arp c"
    "i \<noteq> s \<Longrightarrow> k_sendq (c_conns (conn_transmit c h s t) h) i = k_sendq ?k i"
    by (simp_all add: c')
qed

text \<open>What the retransmission loop reads of a packet.\<close>

definition rt_due :: "ChaosConn \<Rightarrow> u64 \<Rightarrow> u64 \<Rightarrow> u16 \<Rightarrow> bool" where
  "rt_due k t m n \<longleftrightarrow> ring_has (k_sendq k) n \<and> m \<le> t - pkt_sentAtMs (k_sendq k (ring_slot n))"

lemma retransmit_one_emits:
  fixes m
  assumes "arp_fresh c (k_remoteAddr (c_conns c h)) mac t" "pkt_wf (k_sendq (c_conns c h) (ring_slot n))"
  defines "c' \<equiv> retransmit_one h t m n c"
  shows "c_emitted c' = c_emitted c @ (if rt_due (c_conns c h) t m n
      then [pkt_frame c (c_conns c h) mac (k_sendq (c_conns c h) (ring_slot n))] else [])"
    and "c_arp c' = c_arp c"
    and "i \<noteq> ring_slot n \<Longrightarrow> k_sendq (c_conns c' h) i = k_sendq (c_conns c h) i"
proof -
  let ?c = "c\<lparr>c_nRetransmits := c_nRetransmits c + 1\<rparr>"
  have "arp_fresh ?c (k_remoteAddr (c_conns ?c h)) mac t"
    using assms(1) arp_fresh_cong [of ?c c] by simp
  note tr = conn_transmit_emits [OF this, of "ring_slot n"]
  have eq: "c' = (if rt_due (c_conns c h) t m n then conn_transmit ?c h (ring_slot n) t else c)"
    by (auto simp: c'_def retransmit_one_def rt_due_def ring_has_def Let_def)
  show "c_emitted c' = c_emitted c @ (if rt_due (c_conns c h) t m n
      then [pkt_frame c (c_conns c h) mac (k_sendq (c_conns c h) (ring_slot n))] else [])"
    "c_arp c' = c_arp c"
    "i \<noteq> ring_slot n \<Longrightarrow> k_sendq (c_conns c' h) i = k_sendq (c_conns c h) i"
    using tr assms(2) unfolding eq by (simp_all add: pkt_frame_def)
qed

lemma retransmit_fold_emits:
  assumes "distinct (map ring_slot ns)" "arp_fresh c (k_remoteAddr (c_conns c h)) mac t"
    "\<And>n. n \<in> set ns \<Longrightarrow> pkt_wf (k_sendq (c_conns c h) (ring_slot n))"
  shows "c_emitted (fold (retransmit_one h t m) ns c) =
    c_emitted c @ map (\<lambda>n. pkt_frame c (c_conns c h) mac (k_sendq (c_conns c h) (ring_slot n)))
                    (filter (rt_due (c_conns c h) t m) ns)"
  using assms
proof (induction ns arbitrary: c)
  case (Cons n ns)
  let ?c = "retransmit_one h t m n c" and ?k = "c_conns c h"
  note one = retransmit_one_emits [OF Cons.prems(2) Cons.prems(3) [of n], where m = m]
  have q: "quiet c ?c" by (rule quiet_retransmit_one)
  then have st: "stamped ?k (c_conns ?c h)" "c_myMac ?c = c_myMac c" "c_myAddr ?c = c_myAddr c"
    by (auto simp: quiet_def same_config_def)
  have other: "k_sendq (c_conns ?c h) (ring_slot x) = k_sendq ?k (ring_slot x)" if "x \<in> set ns" for x
  proof -
    have "ring_slot x \<noteq> ring_slot n" using that Cons.prems(1) by (metis distinct.simps(2) imageI list.simps(9) set_map)
    then show ?thesis using one(3) by simp
  qed
  have due: "filter (rt_due (c_conns ?c h) t m) ns = filter (rt_due ?k t m) ns"
    using other by (intro filter_cong) (simp_all add: rt_due_def ring_has_def)
  have frames: "map (\<lambda>x. pkt_frame ?c (c_conns ?c h) mac (k_sendq (c_conns ?c h) (ring_slot x))) xs =
      map (\<lambda>x. pkt_frame c ?k mac (k_sendq ?k (ring_slot x))) xs" for xs
    using pkt_frame_stamped [OF st] by simp
  have "c_emitted (fold (retransmit_one h t m) ns ?c) = c_emitted ?c @
      map (\<lambda>x. pkt_frame ?c (c_conns ?c h) mac (k_sendq (c_conns ?c h) (ring_slot x)))
        (filter (rt_due (c_conns ?c h) t m) ns)"
  proof (rule Cons.IH)
    show "distinct (map ring_slot ns)" using Cons.prems(1) by simp
    show "arp_fresh ?c (k_remoteAddr (c_conns ?c h)) mac t"
      using Cons.prems(2) arp_fresh_cong [OF one(2)] stamped_sel(4) [OF st(1)] by simp
    show "pkt_wf (k_sendq (c_conns ?c h) (ring_slot x))" if "x \<in> set ns" for x
      using that other Cons.prems(3) by simp
  qed
  then show ?case using one(1) unfolding due frames by simp
qed simp

lemma distinct_ring_slots:
  assumes "unat (s - r) \<le> 64"
  shows "distinct (map ring_slot (seq_loop (seq_inc r) s))"
proof -
  have "unat (s - r) \<le> 2 ^ 15" using assms by simp
  then have "distinct (seq_loop (seq_inc r) s)" "set (seq_loop (seq_inc r) s) = {n. in_span r s n}"
    using distinct_seq_loop set_seq_loop_span by blast+
  then show ?thesis
    using assms ring_slot_inj_span unfolding distinct_map inj_on_def by (metis mem_Collect_eq)
qed

lemma conn_retransmit_emits:
  assumes inv: "conn_inv (c_conns c h)" and fresh: "arp_fresh c (k_remoteAddr (c_conns c h)) mac t"
  shows "c_emitted (conn_retransmit c h t m) =
    c_emitted c @ map (\<lambda>n. pkt_frame c (c_conns c h) mac (k_sendq (c_conns c h) (ring_slot n)))
      (filter (\<lambda>n. m \<le> t - pkt_sentAtMs (k_sendq (c_conns c h) (ring_slot n)))
        (seq_loop (seq_inc (k_receiptNum (c_conns c h))) (k_sentNum (c_conns c h))))"
proof -
  let ?k = "c_conns c h"
  let ?ns = "seq_loop (seq_inc (k_receiptNum ?k)) (k_sentNum ?k)"
  have le: "unat (k_sentNum ?k - k_receiptNum ?k) \<le> 50" using inv by (auto simp: conn_inv_def send_inv_def)
  have "ring_has (k_sendq ?k) n" if "n \<in> set ?ns" for n
    using that le inv by (simp add: set_seq_loop_span conn_inv_def send_inv_def ring_holds_def)
  then have "filter (rt_due ?k t m) ?ns = filter (\<lambda>n. m \<le> t - pkt_sentAtMs (k_sendq ?k (ring_slot n))) ?ns"
    by (intro filter_cong) (simp_all add: rt_due_def)
  then show ?thesis
    unfolding conn_retransmit_def
    using retransmit_fold_emits [OF distinct_ring_slots fresh] le inv
    by (simp add: conn_inv_def send_inv_def)
qed

section \<open>Learning an address\<close>

text \<open>Sending to a freshly learned address leaves the table alone.\<close>

lemma fresh_send_raw_arp: "arp_fresh c da mac t \<Longrightarrow> c_arp (fst (send_raw c opc da di si n ack pl t)) = c_arp c"
  by (simp add: send_raw_def arp_fresh_resolve Let_def)

lemma fresh_retransmit_one_arp:
  assumes "arp_fresh c (k_remoteAddr (c_conns c h)) mac t"
  shows "c_arp (retransmit_one h t m n c) = c_arp c"
proof -
  have "c_arp (conn_transmit c' h s t) = c_arp c'" if "arp_fresh c' (k_remoteAddr (c_conns c' h)) mac t" for c' s
  proof -
    have "arp_fresh (set_conn c' h k) (k_remoteAddr (c_conns c' h)) mac t" for k
      using that arp_fresh_cong [of "set_conn c' h k" c'] by simp
    then show ?thesis by (simp add: conn_transmit_def Let_def fresh_send_raw_arp [where mac = mac])
  qed
  from this [of "c\<lparr>c_nRetransmits := c_nRetransmits c + 1\<rparr>"] show ?thesis
    using assms arp_fresh_cong [of "c\<lparr>c_nRetransmits := c_nRetransmits c + 1\<rparr>" c]
    by (simp add: retransmit_one_def Let_def)
qed

lemma fresh_retransmit_arp:
  assumes "arp_fresh c (k_remoteAddr (c_conns c h)) mac t"
  shows "c_arp (conn_retransmit c h t m) = c_arp c"
proof -
  have "arp_fresh c (k_remoteAddr (c_conns c h)) mac t \<Longrightarrow> c_arp (fold (retransmit_one h t m) ns c) = c_arp c" for ns
  proof (induction ns arbitrary: c)
    case (Cons n ns)
    let ?c = "retransmit_one h t m n c"
    have "k_remoteAddr (c_conns ?c h) = k_remoteAddr (c_conns c h)"
      using quiet_retransmit_one by (simp add: quiet_def stamped_sel)
    then show ?case
      using Cons fresh_retransmit_one_arp [OF Cons.prems] arp_fresh_cong [of ?c c] by simp
  qed simp
  then show ?thesis using assms by (simp add: conn_retransmit_def)
qed

lemma arp_learn_fresh:
  assumes "a \<noteq> 0" "a \<noteq> c_myAddr c"
  shows "arp_fresh (arp_learn c a mac t) a mac t"
proof -
  obtain c1 i where f: "arp_find c a True = (c1, Some i)"
    using arp_find_create [of c a] by (metis not_Some_eq prod.collapse)
  define e where "e = (c_arp c1 i)\<lparr>arp_mac := mac, arp_valid := True, arp_requested := False, arp_learnedMs := t\<rparr>"
  define c2 where "c2 = c1\<lparr>c_arp := (c_arp c1)(i := e)\<rparr>"
  have "arp_match e a" using arp_find_slot(2) [OF f] by (simp add: e_def arp_match_def)
  from arp_find_slot(3) [OF f this] have fresh: "arp_fresh c2 a mac t"
    by (simp add: c2_def arp_fresh_def e_def)
  let ?f = "\<lambda>h c. let k = c_conns c h in
      if (k_state k = CONN_RFC_SENT \<or> k_state k = CONN_OPEN) \<and> k_remoteAddr k = a then conn_retransmit c h t 0 else c"
  have "arp_fresh (fold ?f hs c') a mac t" if "arp_fresh c' a mac t" for hs c'
    using that
  proof (induction hs arbitrary: c')
    case (Cons h hs)
    have "arp_fresh (?f h c') a mac t"
      using Cons.prems fresh_retransmit_arp [of c' h mac t 0]
        arp_fresh_cong [of "conn_retransmit c' h t 0" c' a mac t] by (auto simp: Let_def)
    then show ?case using Cons.IH by simp
  qed simp
  then have "arp_fresh (fold ?f [0..<CHAOS_MAX_CONNS] c2) a mac t" using fresh by blast
  then show ?thesis
    using assms fresh unfolding arp_learn_def
    by (simp add: f Let_def e_def [symmetric] c2_def [symmetric] del: upt_rec_numeral)
qed

end
