(* ===== verification/Chaos_Timers.thy ===== *)
theory Chaos_Timers
  imports Chaos_Wire
begin

text \<open>
  The timer half of the protocol core: the state each connection has after
  \<^verbatim>\<open>chaos_core_tick\<close> as a function of its own record only, and how long the daemon may sleep.
\<close>

section \<open>Ticks\<close>

text \<open>The state and the kind of closing of a connection after a tick at \<open>t\<close>.\<close>

definition tick_state :: "u64 \<Rightarrow> ChaosConn \<Rightarrow> ChaosConnState \<times> ChaosCloseKind" where
  "tick_state t k =
     (if k_state k = CONN_RFC_SENT \<and> t - k_openedMs k \<ge> CHAOS_RFC_TIMEOUT_MS then (CONN_CLOSED, CLOSE_TIMEOUT)
      else if k_state k = CONN_OPEN \<and> t - k_lastHeardMs k \<ge> CHAOS_HOST_DOWN_MS then (CONN_CLOSED, CLOSE_TIMEOUT)
      else if k_state k = CONN_OPEN \<and> k_eofWanted k \<and> t - k_finishStartMs k \<ge> CHAOS_FINISH_TIMEOUT_MS
      then (CONN_CLOSED, CLOSE_DONE)
      else (k_state k, k_closeKind k))"

lemma tick_state_stamped: "stamped k k' \<Longrightarrow> tick_state t k' = tick_state t k"
  by (simp add: tick_state_def stamped_sel)

text \<open>Steps on one connection: the others only see their transmission stamps change.\<close>

definition local_step :: "nat \<Rightarrow> ChaosCore \<Rightarrow> ChaosCore \<Rightarrow> bool" where
  "local_step h c c' \<longleftrightarrow> (\<forall>j. j \<noteq> h \<longrightarrow> stamped (c_conns c j) (c_conns c' j))"

lemma local_step_quiet: "quiet c c' \<Longrightarrow> local_step h c c'"
  by (simp add: local_step_def quiet_def)

lemma local_step_set_conn [simp]: "local_step h c (set_conn c h k)"
  by (simp add: local_step_def)

lemma local_step_refl [simp]: "local_step h c c"
  by (simp add: local_step_def)

lemma local_step_trans: "local_step h a b \<Longrightarrow> local_step h b c \<Longrightarrow> local_step h a c"
  unfolding local_step_def using stamped_trans by blast

text \<open>The live part keeps the connection's state.\<close>

lemma tick_live_steps:
  obtains c2 where "quiet c c2"
    "tick_live t h heard c = c2 \<or> quiet (set_conn c2 h ((c_conns c2 h)\<lparr>k_lastProbeMs := t\<rparr>)) (tick_live t h heard c)"
proof -
  define c1 where "c1 = conn_retransmit c h t CHAOS_RETRANSMIT_MS"
  define c2 where "c2 = (if k_ackDueMs (c_conns c1 h) \<noteq> 0 \<and> t \<ge> k_ackDueMs (c_conns c1 h)
    then conn_send_sts c1 h t else c1)"
  have "quiet c c1" unfolding c1_def by (rule quiet_conn_retransmit)
  moreover have "quiet c1 c2" unfolding c2_def by (auto intro: quiet_conn_send_sts)
  ultimately have "quiet c c2" by (rule quiet_trans)
  moreover have "tick_live t h heard c = c2 \<or>
      quiet (set_conn c2 h ((c_conns c2 h)\<lparr>k_lastProbeMs := t\<rparr>)) (tick_live t h heard c)"
    unfolding tick_live_def c1_def [symmetric] Let_def c2_def [symmetric] using quiet_conn_send_unc by auto
  ultimately show thesis by (rule that)
qed

lemma tick_live_frame:
  "local_step h c (tick_live t h heard c)"
  "k_state (c_conns (tick_live t h heard c) h) = k_state (c_conns c h)"
  "k_closeKind (c_conns (tick_live t h heard c) h) = k_closeKind (c_conns c h)"
proof -
  obtain c2 where q: "quiet c c2" and
    l: "tick_live t h heard c = c2 \<or> quiet (set_conn c2 h ((c_conns c2 h)\<lparr>k_lastProbeMs := t\<rparr>)) (tick_live t h heard c)"
    by (rule tick_live_steps)
  have sel: "k_state (c_conns c2 h) = k_state (c_conns c h)" "k_closeKind (c_conns c2 h) = k_closeKind (c_conns c h)"
    using q by (simp_all add: quiet_def stamped_sel)
  show "local_step h c (tick_live t h heard c)"
    using l
  proof
    assume "quiet (set_conn c2 h ((c_conns c2 h)\<lparr>k_lastProbeMs := t\<rparr>)) (tick_live t h heard c)"
    from local_step_quiet [OF this] show ?thesis
      by (rule local_step_trans [OF local_step_trans [OF local_step_quiet [OF q] local_step_set_conn]])
  qed (simp add: local_step_quiet [OF q])
  show "k_state (c_conns (tick_live t h heard c) h) = k_state (c_conns c h)"
    "k_closeKind (c_conns (tick_live t h heard c) h) = k_closeKind (c_conns c h)"
  proof -
    have "k_state (c_conns c' h) = k_state (c_conns c2 h) \<and> k_closeKind (c_conns c' h) = k_closeKind (c_conns c2 h)"
      if "quiet (set_conn c2 h ((c_conns c2 h)\<lparr>k_lastProbeMs := t\<rparr>)) c'" for c'
    proof -
      have "stamped ((c_conns c2 h)\<lparr>k_lastProbeMs := t\<rparr>) (c_conns c' h)"
        using that unfolding quiet_def by (metis fun_upd_same set_conn_sel(7))
      then show ?thesis by (simp add: stamped_sel)
    qed
    then show "k_state (c_conns (tick_live t h heard c) h) = k_state (c_conns c h)"
      "k_closeKind (c_conns (tick_live t h heard c) h) = k_closeKind (c_conns c h)"
      using l sel by auto
  qed
qed

lemma tick_conn_state:
  "(k_state (c_conns (tick_conn t h c) h), k_closeKind (c_conns (tick_conn t h c) h)) = tick_state t (c_conns c h)"
proof -
  have q: "k_state (c_conns (conn_retransmit c h t m) h) = k_state (c_conns c h)"
    "k_closeKind (c_conns (conn_retransmit c h t m) h) = k_closeKind (c_conns c h)" for m
    using quiet_conn_retransmit by (simp_all add: quiet_def stamped_sel)
  show ?thesis
    unfolding tick_conn_eq tick_state_def
    by (simp add: q tick_live_frame conn_close_cls_def Let_def)
qed

lemma tick_conn_local: "local_step h c (tick_conn t h c)"
proof -
  have "local_step h c (conn_close_cls c h r kind t)" for r kind
    unfolding conn_close_cls_def Let_def
    by (rule local_step_trans [OF local_step_quiet [OF quiet_conn_send_unc] local_step_set_conn])
  then show ?thesis
    unfolding tick_conn_eq
    using tick_live_frame(1) local_step_quiet [OF quiet_conn_retransmit] by simp
qed

lemma tick_fold_state:
  "distinct hs \<Longrightarrow>
   (k_state (c_conns (fold (tick_conn t) hs c) h), k_closeKind (c_conns (fold (tick_conn t) hs c) h)) =
     (if h \<in> set hs then tick_state t (c_conns c h) else (k_state (c_conns c h), k_closeKind (c_conns c h)))"
proof (induction hs arbitrary: c)
  case (Cons j hs)
  have st: "stamped (c_conns c h) (c_conns (tick_conn t j c) h)" if "h \<noteq> j"
    using that tick_conn_local [of j c t] by (simp add: local_step_def)
  show ?case
  proof (cases "h = j")
    case True
    then show ?thesis using Cons tick_conn_state [of t j c] by simp
  next
    case False
    then show ?thesis
      using Cons tick_state_stamped [OF st] stamped_sel(1,2) [OF st] by simp
  qed
qed simp

lemma tick_state_after:
  "h < CHAOS_MAX_CONNS \<Longrightarrow>
   (k_state (c_conns (chaos_core_tick c t) h), k_closeKind (c_conns (chaos_core_tick c t) h)) =
     tick_state t (c_conns c h)"
  unfolding chaos_core_tick_def by (subst tick_fold_state) simp_all

section \<open>The sleep of the daemon\<close>

definition ack_armed :: "ChaosCore \<Rightarrow> nat \<Rightarrow> bool" where
  "ack_armed c h \<longleftrightarrow> k_state (c_conns c h) = CONN_OPEN \<and> k_ackDueMs (c_conns c h) \<noteq> 0"

text \<open>Milliseconds until the delayed acknowledgement of a connection is due.\<close>

definition ack_wait :: "ChaosCore \<Rightarrow> u64 \<Rightarrow> nat \<Rightarrow> nat" where
  "ack_wait c t h = unat (k_ackDueMs (c_conns c h)) - unat t"

lemma next_timeout_conn_min:
  assumes "ack_wait c t h < 2 ^ 31"
  shows "next_timeout_conn c t h best = (if ack_armed c h then min (int (ack_wait c t h)) best else best)"
proof -
  let ?d = "k_ackDueMs (c_conns c h)"
  have "sint (ucast (?d - t) :: u32) = int (ack_wait c t h)" if "?d > t"
  proof -
    have u: "unat (?d - t) = ack_wait c t h" using that by (simp add: ack_wait_def unat_sub order_less_imp_le)
    have "unat (ucast (?d - t) :: u32) = ack_wait c t h"
      using assms u by (simp add: unsigned_ucast_eq take_bit_nat_eq_self)
    moreover have "sint w = int (unat w)" if "unat w < 2 ^ 31" for w :: u32
    proof -
      have "uint w < 2 ^ 31" using that unfolding uint_nat by (metis of_nat_less_iff of_nat_numeral of_nat_power)
      then have "signed_take_bit 31 (uint w) = uint w"
        using uint_nonnegative [of w] by (intro signed_take_bit_int_eq_self) linarith+
      then show ?thesis by (simp add: sint_uint)
    qed
    ultimately show ?thesis using assms by metis
  qed
  moreover have "ack_wait c t h = 0" if "\<not> ?d > t"
    using that by (simp add: ack_wait_def word_le_nat_alt not_less)
  ultimately show ?thesis by (auto simp: next_timeout_conn_def ack_armed_def Let_def min_def)
qed

lemma next_timeout_fold:
  assumes "\<And>h. h \<in> set hs \<Longrightarrow> ack_wait c t h < 2 ^ 31"
  shows "fold (next_timeout_conn c t) hs best =
    Min (insert best ((\<lambda>h. int (ack_wait c t h)) ` {h \<in> set hs. ack_armed c h}))"
  using assms
proof (induction hs arbitrary: best)
  case (Cons h hs)
  let ?S = "(\<lambda>h. int (ack_wait c t h)) ` {h \<in> set hs. ack_armed c h}"
  have fin: "finite ?S" by simp
  have "fold (next_timeout_conn c t) (h # hs) best = Min (insert (next_timeout_conn c t h best) ?S)"
    using Cons by simp
  moreover have "(\<lambda>h. int (ack_wait c t h)) ` {x \<in> set (h # hs). ack_armed c x} =
      (if ack_armed c h then insert (int (ack_wait c t h)) ?S else ?S)"
    by auto
  moreover have "Min (insert (min a best) S) = Min (insert best (insert a S))" if "finite S" for a and S :: "int set"
    using that by (cases "S = {}") (simp_all add: ac_simps)
  ultimately show ?case
    using Cons.prems [of h] fin by (simp add: next_timeout_conn_min)
qed simp

section \<open>The order of packet numbers\<close>

text \<open>Numbers less than half the number space apart compare as the numbers they stand for.\<close>

lemma seq_lt_iff_index:
  fixes b :: u16
  assumes "i < j + 2 ^ 15" "j \<le> i + 2 ^ 15"
  shows "chaos_seq_lt (b + of_nat i) (b + of_nat j) \<longleftrightarrow> i < j"
proof (cases "i < j")
  case True
  then have "b + of_nat i - (b + of_nat j) = 0 - (of_nat (j - i) :: u16)" by simp
  moreover have "unat (of_nat (j - i) :: u16) = j - i" using assms by (simp only: unat_of_nat) simp
  ultimately have "unat (b + of_nat i - (b + of_nat j)) = 2 ^ 16 - (j - i)"
    using unat_sub_wrap [of 0 "of_nat (j - i) :: u16"] True by simp
  then show ?thesis using True assms by (simp add: chaos_seq_lt_iff)
next
  case False
  then have "b + of_nat i - (b + of_nat j) = (of_nat (i - j) :: u16)" by simp
  moreover have "unat (of_nat (i - j) :: u16) = i - j" using assms by (simp only: unat_of_nat) simp
  ultimately show ?thesis using False assms by (simp add: chaos_seq_lt_iff)
qed

end
