(* ===== verification/Chaos_Demo.thy ===== *)
theory Chaos_Demo
  imports Chaos_Timers
begin

text \<open>
  A short conversation used by the witnesses: host 401 (octal) opens a connection to host 402,
  which answers OPN and sends one data packet. Each state is computed by the model.
\<close>

definition demo_mac :: "byte list" where "demo_mac = [2, 0, 0, 0, 0, 1]"

definition demo_peer :: "byte list" where "demo_peer = [2, 0, 0, 0, 0, 2]"

definition demo_start :: ChaosCore where
  "demo_start = (chaos_core_init 0x0101 demo_mac (c_bytes ''HOST''))
     \<lparr>c_localWindow := 13, c_initialPktNum := 0x0100\<rparr>"

definition demo_sent :: ChaosCore where
  "demo_sent = fst (chaos_open demo_start 0x0102 (c_bytes ''TIME'') 1000)"

definition demo_opn :: "byte list" where
  "demo_opn = chaos_frame demo_mac demo_peer CHOP_OPN 0x0101 0x20 0x0102 0x4041 7 0x0100
     (chaos_put16 0x0100 @ chaos_put16 13)"

definition demo_open :: ChaosCore where
  "demo_open = chaos_core_input demo_sent demo_opn 1010"

definition demo_dat :: "byte list" where
  "demo_dat = chaos_frame demo_mac demo_peer CHOP_DAT 0x0101 0x20 0x0102 0x4041 8 0x0100 [1, 2, 3]"

definition demo_data :: ChaosCore where
  "demo_data = chaos_core_input demo_open demo_dat 1020"

lemma demo_start_reach: "core_reachable demo_start"
  unfolding demo_start_def by (rule core_reachable.reach_init) simp_all

lemma demo_sent_reach: "core_reachable demo_sent"
  unfolding demo_sent_def by (rule core_reachable.reach_step [OF demo_start_reach core_step.step_open])

lemma demo_open_reach: "core_reachable demo_open"
  unfolding demo_open_def by (rule core_reachable.reach_step [OF demo_sent_reach core_step.step_input])

lemma demo_data_reach: "core_reachable demo_data"
  unfolding demo_data_def by (rule core_reachable.reach_step [OF demo_open_reach core_step.step_input])

lemma demo_sent_marks: "k_receiptNum (c_conns demo_sent 0) = 0xFF" "k_sentNum (c_conns demo_sent 0) = 0x100"
  by code_simp+

lemma demo_open_conn:
  "conn_for_handle demo_open 0 = Some 0" "k_state (c_conns demo_open 0) = CONN_OPEN"
  "chaos_send_room demo_open 0 = 13 * 488"
  by code_simp+

lemma demo_data_conn:
  "conn_for_handle demo_data 0 = Some 0" "handle_pending 0 demo_data = [1, 2, 3]"
  by code_simp+

lemma demo_data_arp: "arp_fresh demo_data 0x0102 demo_peer 2000"
  by code_simp

end
