(* ===== verification/Chaos_Props.thy ===== *)
theory Chaos_Props
  imports Chaos_Demo
begin

text \<open>
  The properties of chaosd's protocol core: what holds in every reachable state, the two ends
  of the byte stream, acknowledgement and retransmission, frames and addresses, timers.
\<close>

section \<open>Shared consequences of the invariant\<close>

lemma reachable_conn: "core_reachable c \<Longrightarrow> h < CHAOS_MAX_CONNS \<Longrightarrow> conn_inv (c_conns c h)"
  using core_inv_reachable core_inv_conn by blast

lemma live_index:
  assumes "core_inv c" "h < CHAOS_MAX_CONNS" "k_state (c_conns c h) \<noteq> CONN_FREE"
  shows "unat (k_localIndex (c_conns c h) AND 31) = h" "k_localIndex (c_conns c h) \<noteq> 0"
  using assms unfolding core_inv_def slot_inv_def by blast+

definition demo_src :: source where
  "demo_src = (\<lambda>i. (CHOP_DAT, [1, 2, 3]))"

definition demo_ch :: "byte list" where
  "demo_ch = drop CHAOS_ETH_HEADER demo_dat"

definition demo_rx :: ChaosCore where
  "demo_rx = set_conn demo_start 0
     (zero_conn\<lparr>k_state := CONN_OPEN, k_localWindow := 13, k_readNum := 7, k_receivedNum := 7\<rparr>)"

lemma demo_rx_start: "rx_trace 7 demo_src 0 0 demo_rx []"
  by (rule rx_start)
     (simp_all add: demo_rx_def zero_conn_def ring_empty_def zero_pkt_def recv_inv_def ring_only_def pkt_wf_def)

lemma demo_rx_arrive: "rx_trace 7 demo_src 0 0 (conn_queue_input demo_rx 0 demo_ch 3 1020) []"
proof (rule rx_arrive [OF demo_rx_start])
  show "chaos_get16 demo_ch 12 = 7 + of_nat 1" by code_simp
  show "demo_ch ! 1 = fst (demo_src 1)" by code_simp
  show "slice demo_ch CHAOS_HEADER 3 = snd (demo_src 1)" by code_simp
qed simp_all

section \<open>Reachable states\<close>

text \<open>
  C1. In every reachable state the send ring of a connection holds exactly the packets sent and
  not yet receipted, at most \<^verbatim>\<open>CHAOS_MAX_WINDOW\<close> packets are unacknowledged, and a packet that is
  acknowledged has been receipted.
\<close>

theorem send_ring_exact:
  assumes "core_reachable c" "h < CHAOS_MAX_CONNS"
  shows "(ring_has (k_sendq (c_conns c h)) n \<longleftrightarrow>
      in_span (k_receiptNum (c_conns c h)) (k_sentNum (c_conns c h)) n) \<and>
    seq_diff (k_sentNum (c_conns c h)) (k_ackedNum (c_conns c h)) \<le> CHAOS_MAX_WINDOW \<and>
    seq_diff (k_sentNum (c_conns c h)) (k_receiptNum (c_conns c h)) \<le>
      seq_diff (k_sentNum (c_conns c h)) (k_ackedNum (c_conns c h))"
proof -
  have inv: "send_inv (c_conns c h)" using reachable_conn [OF assms] by (simp add: conn_inv_def)
  then have "ring_has (k_sendq (c_conns c h)) n \<longleftrightarrow>
      in_span (k_receiptNum (c_conns c h)) (k_sentNum (c_conns c h)) n"
    using ring_only_has by (auto simp: send_inv_def ring_holds_def)
  then show ?thesis using inv by (simp add: send_inv_def seq_diff_def word_le_nat_alt)
qed

theorem send_ring_exact_witness: "ring_has (k_sendq (c_conns demo_sent 0)) 0x100"
proof -
  have "in_span (k_receiptNum (c_conns demo_sent 0)) (k_sentNum (c_conns demo_sent 0)) 0x100"
    unfolding demo_sent_marks by (simp add: in_span_def)
  then show ?thesis using send_ring_exact [OF demo_sent_reach, of 0 "0x100"] by simp
qed

text \<open>
  C2. Integrity of the received stream. Whatever the order, loss and repetition of the peer's
  packets, what \<^verbatim>\<open>chaos_recv\<close> has returned followed by what it can return now is the stream of
  the source's packets up to the in-order mark, cut at the EOF packet; the bytes read are thus
  always a prefix of what the peer sent.
\<close>

theorem stream_integrity:
  assumes "rx_trace b src h R c D"
  shows "D @ pending (c_conns c h) = src_stream src (rx_mark R (c_conns c h))"
  using rx_trace_inv [OF assms] by blast

theorem stream_integrity_witness:
  "pending (c_conns (conn_queue_input demo_rx 0 demo_ch 3 1020) 0) = [1, 2, 3] \<and>
   src_stream demo_src (rx_mark 0 (c_conns (conn_queue_input demo_rx 0 demo_ch 3 1020) 0)) = [1, 2, 3]"
proof -
  have "pending (c_conns (conn_queue_input demo_rx 0 demo_ch 3 1020) 0) = [1, 2, 3]" by code_simp
  then show ?thesis using stream_integrity [OF demo_rx_arrive] by simp
qed

text \<open>
  C3. \<^verbatim>\<open>chaos_recv\<close> is a FIFO read: it returns the first \<open>room\<close> bytes of the pending stream of the
  handle and leaves the rest, so that any division of a read into smaller ones gives the same bytes.
\<close>

theorem chaos_recv_fifo:
  assumes "core_reachable c"
  shows "snd (chaos_recv c h room t) = take room (handle_pending h c) \<and>
    handle_pending h (fst (chaos_recv c h room t)) = drop room (handle_pending h c) \<and>
    snd (chaos_recv c h room t) @ snd (chaos_recv (fst (chaos_recv c h room t)) h room2 t) =
      snd (chaos_recv c h (room + room2) t)"
  using core_inv_reachable [OF assms] chaos_reader.recv_out chaos_reader.recv_rest chaos_reader.recv_split
  by blast

theorem chaos_recv_fifo_witness: "snd (chaos_recv demo_data 0 2 1030) = [1, 2]"
  using chaos_recv_fifo [OF demo_data_reach, of 0 2 1030] by (simp add: demo_data_conn)

text \<open>
  C4. \<^verbatim>\<open>chaos_send\<close> queues exactly the bytes it reports, in order, and reports the length of the
  data or \<^verbatim>\<open>chaos_send_room\<close>, whichever is less; nothing is sent on a handle that is not open.
\<close>

theorem chaos_send_exact:
  assumes "core_reachable c"
  shows "snd (chaos_send c h xs t) = min (length xs) (chaos_send_room c h) \<and>
    handle_queued h (fst (chaos_send c h xs t)) = handle_queued h c @ take (snd (chaos_send c h xs t)) xs"
  using core_inv_reachable [OF assms] chaos_writer.send_count chaos_writer.send_reported by blast

theorem chaos_send_exact_witness:
  "snd (chaos_send demo_open 0 [7, 8] 1030) = 2 \<and>
   handle_queued 0 (fst (chaos_send demo_open 0 [7, 8] 1030)) = handle_queued 0 demo_open @ [7, 8]"
  using chaos_send_exact [OF demo_open_reach, of 0 "[7, 8]" 1030] by (simp add: demo_open_conn)

text \<open>
  C5. The receive side of a reachable connection: every packet in the ring is in the receive
  window, every packet up to the in-order mark is in the ring, the mark is at most a window ahead
  of what the user has read, and no packet holds more than \<^verbatim>\<open>CHAOS_MAX_DATA\<close> bytes.
\<close>

theorem receive_window_safe:
  assumes "core_reachable c" "h < CHAOS_MAX_CONNS"
  shows "(ring_has (k_rcvq (c_conns c h)) n \<longrightarrow>
      in_span (k_readNum (c_conns c h)) (k_readNum (c_conns c h) + k_localWindow (c_conns c h)) n) \<and>
    (in_span (k_readNum (c_conns c h)) (k_receivedNum (c_conns c h)) n \<longrightarrow> ring_has (k_rcvq (c_conns c h)) n) \<and>
    seq_diff (k_receivedNum (c_conns c h)) (k_readNum (c_conns c h)) \<le> k_localWindow (c_conns c h) \<and>
    unat (pkt_nBytes (k_rcvq (c_conns c h) (ring_slot n))) \<le> length (pkt_data (k_rcvq (c_conns c h) (ring_slot n)))"
proof -
  have inv: "recv_inv (c_conns c h)" using reachable_conn [OF assms] by (simp add: conn_inv_def)
  then have "pkt_wf (k_rcvq (c_conns c h) (ring_slot n))" by (simp add: recv_inv_def)
  then show ?thesis
    using inv ring_only_has by (auto simp: recv_inv_def ring_holds_def seq_diff_def word_le_nat_alt pkt_wf_def)
qed

theorem receive_window_safe_witness: "ring_has (k_rcvq (c_conns demo_data 0)) 8"
proof -
  have "k_readNum (c_conns demo_data 0) = 7" "k_receivedNum (c_conns demo_data 0) = 8" by code_simp+
  then show ?thesis
    using receive_window_safe [OF demo_data_reach, of 0 8] by (simp add: in_span_def)
qed

text \<open>
  C6. Acknowledgements. In a reachable state, an acknowledgement or receipt beyond the last packet
  sent changes nothing; any other moves each mark of the connection to the later of the two
  numbers (measured from the last packet sent), so marks never move back.
\<close>

theorem acknowledgement_marks:
  assumes "core_reachable c" "h < CHAOS_MAX_CONNS"
  shows "let k = c_conns c h; k' = conn_apply_ack k ack receipt in
    (chaos_seq_lt (k_sentNum k) ack \<or> chaos_seq_lt (k_sentNum k) receipt \<longrightarrow>
      conn_process_ack c h ack receipt t = c) \<and>
    (\<not> chaos_seq_lt (k_sentNum k) ack \<and> \<not> chaos_seq_lt (k_sentNum k) receipt \<longrightarrow>
      seq_diff (k_sentNum k) (k_ackedNum k') =
        min (seq_diff (k_sentNum k) (k_ackedNum k)) (seq_diff (k_sentNum k) ack) \<and>
      seq_diff (k_sentNum k) (k_receiptNum k') =
        min (seq_diff (k_sentNum k) (k_receiptNum k))
          (min (seq_diff (k_sentNum k) receipt) (seq_diff (k_sentNum k) ack)))"
proof -
  have inv: "send_inv (c_conns c h)" using reachable_conn [OF assms] by (simp add: conn_inv_def)
  have min_iff: "x = min y z \<longleftrightarrow> unat x = min (unat y) (unat z)" for x y z :: u16
    by (metis (mono_tags) min_def unsigned_word_eqI word_le_nat_alt)
  have unat_min: "unat (min y z) = min (unat y) (unat z)" for y z :: u16
    by (metis min_iff)
  show ?thesis
    using conn_apply_ack_marks [OF inv, of ack receipt] unfolding Let_def seq_diff_def min_iff unat_min
    by (simp add: conn_process_ack_def)
qed

theorem acknowledgement_marks_witness:
  "k_ackedNum (conn_apply_ack (c_conns demo_sent 0) 0x100 0x100) = 0x100"
proof -
  have "\<not> chaos_seq_lt 0x100 (0x100 :: u16)" by (simp add: chaos_seq_lt_iff)
  then have "seq_diff 0x100 (k_ackedNum (conn_apply_ack (c_conns demo_sent 0) 0x100 0x100)) = 0"
    using acknowledgement_marks [OF demo_sent_reach, of 0 "0x100" "0x100" 0]
    by (simp add: demo_sent_marks Let_def) (simp add: seq_diff_def min_def)
  then show ?thesis by (simp add: seq_diff_def)
qed

section \<open>Wire\<close>



text \<open>
  Round trip of the wire format: every field that \<^verbatim>\<open>handle_chaos\<close> and \<^verbatim>\<open>chaos_core_input\<close> read
  of a frame is the one that \<^verbatim>\<open>send_raw\<close> wrote, and the data bytes are the payload.
\<close>

theorem frame_roundtrip:
  assumes "length mac = 6" "length myMac = 6" "length pl \<le> CHAOS_MAX_DATA"
  shows "let f = chaos_frame mac myMac opc da di sa si n ack pl; ch = drop CHAOS_ETH_HEADER f;
        d = unat (chaos_get16 ch 2 AND 0xFFF) in
    length f = CHAOS_ETH_HEADER + CHAOS_HEADER + length pl \<and> slice f 6 6 = myMac \<and>
    push_bit 8 (ucast (f ! 12)) OR ucast (f ! 13) = CHAOS_ETHERTYPE \<and>
    ch ! 1 = opc \<and> d = length pl \<and> chaos_get16 ch 4 = da \<and> chaos_get16 ch 6 = di \<and>
    chaos_get16 ch 8 = sa \<and> chaos_get16 ch 10 = si \<and> chaos_get16 ch 12 = n \<and> chaos_get16 ch 14 = ack \<and>
    slice ch CHAOS_HEADER (length pl) = pl"
proof -
  let ?f = "chaos_frame mac myMac opc da di sa si n ack pl"
  have len: "length ?f = 30 + length pl" using assms by (simp add: chaos_frame_def)
  note ff = frame_fields [OF assms(1,2), of opc da di sa si n ack pl]
  have g: "chaos_get16 (drop 14 ?f) i = chaos_get16 ?f (14 + i)" if "i \<le> 14" for i
    using that len by (intro get16_drop) simp
  show ?thesis
    unfolding Let_def
    using ff len length_field [OF assms(3)] by (simp add: g slice_def)
qed

theorem frame_roundtrip_witness:
  "slice (drop CHAOS_ETH_HEADER demo_dat) CHAOS_HEADER 3 = [1, 2, 3] \<and> length demo_dat = 33"
  using frame_roundtrip [of demo_mac demo_peer "[1, 2, 3]" CHOP_DAT "0x0101" "0x20" "0x0102" "0x4041" 8 "0x0100"]
  by (simp add: demo_dat_def demo_mac_def demo_peer_def Let_def numeral_3_eq_3)

text \<open>
  An address learned from a frame is resolved to the hardware address it came with, without
  any request; only the null address and the station's own are not learned.
\<close>

theorem arp_learn_resolves:
  assumes "a \<noteq> 0" "a \<noteq> c_myAddr c"
  shows "chaos_arp_lookup (arp_learn c a mac t) a = Some mac \<and>
    arp_resolve (arp_learn c a mac t) a t = (arp_learn c a mac t, Some mac)"
  using arp_learn_fresh [OF assms] arp_fresh_lookup arp_fresh_resolve by blast

theorem arp_learn_resolves_witness:
  "chaos_arp_lookup (arp_learn demo_start 0x0102 demo_peer 5) 0x0102 = Some demo_peer"
  using arp_learn_resolves [of "0x0102" demo_start demo_peer 5]
  by (simp add: demo_start_def chaos_core_init_def)

section \<open>Connections\<close>

text \<open>
  C10. Two connections in use never share a local index, no index is 0, and a packet is given to
  the connection whose index it carries, from the host that connection is to.
\<close>

theorem connection_indices:
  assumes "core_reachable c" "h < CHAOS_MAX_CONNS" "k_state (c_conns c h) \<noteq> CONN_FREE"
  shows "k_localIndex (c_conns c h) \<noteq> 0 \<and>
    (j < CHAOS_MAX_CONNS \<longrightarrow> k_state (c_conns c j) \<noteq> CONN_FREE \<longrightarrow>
      k_localIndex (c_conns c j) = k_localIndex (c_conns c h) \<longrightarrow> j = h) \<and>
    (conn_for_packet c ch = Some h \<longrightarrow> chaos_get16 ch 6 = k_localIndex (c_conns c h) \<and>
      chaos_get16 ch 8 = k_remoteAddr (c_conns c h))"
proof -
  have inv: "core_inv c" using assms(1) by (rule core_inv_reachable)
  note h = live_index [OF this assms(2,3)]
  have "j = h" if "j < CHAOS_MAX_CONNS" "k_state (c_conns c j) \<noteq> CONN_FREE"
    "k_localIndex (c_conns c j) = k_localIndex (c_conns c h)"
    using live_index(1) [OF inv that(1,2)] h(1) unfolding that(3) by (rule trans [OF sym])
  moreover have "chaos_get16 ch 6 = k_localIndex (c_conns c h) \<and> chaos_get16 ch 8 = k_remoteAddr (c_conns c h)"
    if "conn_for_packet c ch = Some h"
    using that unfolding conn_for_packet_def Let_def by (metis option.discI option.inject)
  ultimately show ?thesis using h(2) by blast
qed

theorem connection_indices_witness: "k_localIndex (c_conns demo_open 0) \<noteq> 0"
  using connection_indices [OF demo_open_reach, of 0] by (simp add: demo_open_conn)

text \<open>
  C11. After EOF has been sent it is the last packet of the connection, and no data is accepted.
\<close>

theorem nothing_after_eof:
  assumes "core_reachable c" "conn_for_handle c h = Some i" "k_eofSent (c_conns c i)"
  shows "k_eofNum (c_conns c i) = k_sentNum (c_conns c i) \<and> chaos_send_room c h = 0 \<and>
    chaos_send c h xs t = (c, 0)"
proof -
  have "i < CHAOS_MAX_CONNS" using assms(2) by (simp add: conn_for_handle_Some)
  then have "phase_inv (c_conns c i)" using reachable_conn [OF assms(1)] by (simp add: conn_inv_def)
  then show ?thesis
    using assms(2,3) by (simp add: phase_inv_def chaos_send_room_def chaos_send_def Let_def)
qed

theorem nothing_after_eof_witness:
  "chaos_send (chaos_finish demo_open 0 1030) 0 [1] 1040 = (chaos_finish demo_open 0 1030, 0)"
proof -
  have "core_reachable (chaos_finish demo_open 0 1030)"
    by (rule core_reachable.reach_step [OF demo_open_reach core_step.step_finish])
  moreover have "conn_for_handle (chaos_finish demo_open 0 1030) 0 = Some 0" by code_simp
  moreover have "k_eofSent (c_conns (chaos_finish demo_open 0 1030) 0)" by code_simp
  ultimately show ?thesis using nothing_after_eof [of _ 0 0 "[1]" 1040] by blast
qed

text \<open>
  C12. \<^verbatim>\<open>chaos_open\<close> fails, and then changes nothing, exactly when the contact name is empty or too
  long or every connection is in use; else the handle it returns waits for an answer to its RFC
  and the RFC packet with the contact name is queued for retransmission.
\<close>

theorem chaos_open_cases:
  assumes "core_reachable c"
  shows "if contact = [] \<or> length contact > CHAOS_MAX_DATA \<or>
        (\<forall>h<CHAOS_MAX_CONNS. k_state (c_conns c h) \<noteq> CONN_FREE)
    then chaos_open c addr contact t = (c, -1)
    else let (c', h) = chaos_open c addr contact t in
      0 \<le> h \<and> k_state (c_conns c (nat h)) = CONN_FREE \<and> chaos_state c' h = CONN_RFC_SENT \<and>
      handle_queued h c' = contact \<and> core_reachable c'"
proof (cases "find (\<lambda>h. k_state (c_conns c h) = CONN_FREE) [0..<CHAOS_MAX_CONNS]")
  case None
  then have "\<forall>h<CHAOS_MAX_CONNS. k_state (c_conns c h) \<noteq> CONN_FREE"
    by (simp add: find_None_iff del: upt_rec_numeral)
  then show ?thesis using None by (simp add: chaos_open_def del: upt_rec_numeral)
next
  case (Some h)
  then have h: "h < CHAOS_MAX_CONNS" "k_state (c_conns c h) = CONN_FREE"
    by (auto simp: find_Some_iff simp del: upt_rec_numeral)
  let ?c = "set_conn (c\<lparr>c_uniquizer := (if (c_uniquizer c + 1) AND 0x7FF = 0 then 1 else (c_uniquizer c + 1) AND 0x7FF),
      c_initialPktNum := c_initialPktNum c + 0x0100\<rparr>) h (open_conn c h addr t)"
  let ?c' = "conn_send_controlled ?c h CHOP_RFC contact t"
  note k = open_conn_inv [OF core_inv_reachable [OF assms] h(1), of addr t]
  have st: "stamped (conn_enqueue (open_conn c h addr t) CHOP_RFC contact) (c_conns ?c' h)"
    using conn_send_controlled_conn [of ?c h CHOP_RFC contact t] by simp
  have open_eq: "chaos_open c addr contact t = (?c', int h)"
    if "contact \<noteq> []" "length contact \<le> CHAOS_MAX_DATA"
    using that Some by (simp add: chaos_open_def Let_def)
  have "queued (c_conns ?c' h) = contact" if "length contact \<le> CHAOS_MAX_DATA"
  proof -
    have "queued (open_conn c h addr t) = []"
      using seq_loop_eq [of "c_initialPktNum c - 1" "c_initialPktNum c - 1"] by (simp add: queued_def open_conn_def)
    then show ?thesis
      using queued_stamped [OF st] queued_enqueue [of "open_conn c h addr t" contact CHOP_RFC] k(1,2) that
      by (simp add: slot_inv_def conn_inv_def)
  qed
  moreover have "conn_for_handle ?c' (int h) = Some h" "k_state (c_conns ?c' h) = CONN_RFC_SENT"
    using h(1) k(3) stamped_sel(1) [OF st] by (simp_all add: conn_for_handle_Some)
  moreover have "core_reachable (fst (chaos_open c addr contact t))"
    by (rule core_reachable.reach_step [OF assms core_step.step_open])
  ultimately show ?thesis
    using h open_eq by (auto simp: chaos_open_def chaos_state_def handle_queued_def chaos_conn_def)
qed

theorem chaos_open_cases_witness:
  "chaos_open demo_start 0x0102 [] 1000 = (demo_start, -1)"
  using chaos_open_cases [OF demo_start_reach, of "[]" "0x0102" 1000] by simp

section \<open>Timers\<close>

text \<open>
  After a tick the state of every connection is the function \<open>tick_state\<close> of its own record:
  an RFC unanswered for 20 s and a peer silent for 90 s close the connection as timed out, an EOF
  unacknowledged for 10 s closes it as done, and no other connection is closed.
\<close>

theorem tick_timeouts:
  assumes "h < CHAOS_MAX_CONNS"
  shows "(k_state (c_conns (chaos_core_tick c t) h), k_closeKind (c_conns (chaos_core_tick c t) h)) =
    tick_state t (c_conns c h)"
  using assms by (rule tick_state_after)

theorem tick_timeouts_witness:
  "k_state (c_conns (chaos_core_tick demo_sent 30000) 0) = CONN_CLOSED \<and>
   k_closeKind (c_conns (chaos_core_tick demo_sent 30000) 0) = CLOSE_TIMEOUT"
proof -
  have "tick_state 30000 (c_conns demo_sent 0) = (CONN_CLOSED, CLOSE_TIMEOUT)" by code_simp
  then show ?thesis using tick_timeouts [of 0 demo_sent 30000] by simp
qed

text \<open>
  \<^verbatim>\<open>chaos_core_next_timeout\<close> is the least of the caller's limit and the times left until the
  delayed acknowledgements of the open connections are due, while these are less than \<open>2\<^sup>3\<^sup>1\<close> ms.
\<close>

theorem next_timeout_least:
  assumes "\<And>h. h < CHAOS_MAX_CONNS \<Longrightarrow> ack_wait c t h < 2 ^ 31"
  shows "chaos_core_next_timeout c t maxMs =
    Min (insert maxMs ((\<lambda>h. int (ack_wait c t h)) ` {h. h < CHAOS_MAX_CONNS \<and> ack_armed c h}))"
  using next_timeout_fold [of "[0..<CHAOS_MAX_CONNS]" c t maxMs] assms
  by (simp add: chaos_core_next_timeout_def del: upt_rec_numeral)

theorem next_timeout_least_witness: "chaos_core_next_timeout demo_start 5 1000 = 1000"
proof -
  have "ack_wait demo_start 5 h < 2 ^ 31" "\<not> ack_armed demo_start h" for h
    by (simp_all add: ack_wait_def ack_armed_def demo_start_def chaos_core_init_def zero_conn_def)
  then show ?thesis using next_timeout_least [of demo_start 5 1000] by simp
qed

text \<open>
  Packet numbers compare modulo \<open>2\<^sup>1\<^sup>6\<close> as the sequence positions they stand for, whenever
  the positions are less than half the number space apart.
\<close>

theorem seq_lt_order:
  assumes "i < j + 2 ^ 15" "j \<le> i + 2 ^ 15"
  shows "chaos_seq_lt (b + of_nat i) (b + of_nat j) \<longleftrightarrow> i < j"
  using assms by (rule seq_lt_iff_index)

theorem seq_lt_order_witness: "chaos_seq_lt (0xFFFF + of_nat 0) (0xFFFF + of_nat 3)"
  using seq_lt_order [of 0 3 "0xFFFF"] by simp

end
