(* ===== verification/Chaos_Stream.thy ===== *)
theory Chaos_Stream
  imports Chaos_Streams
begin

text \<open>
  chaosd's stream front end (\<^verbatim>\<open>chaosd/chaos-stream.c\<close>, \<^verbatim>\<open>chaos-stream.h\<close>): clients on a Unix socket,
  each bridged to one connection of the protocol core. The server owns the core.

  The operating system is the environment. A socket is what was written to it and a list of the
  results that later calls of \<^verbatim>\<open>write\<close> give; when the list is used up the socket does not accept
  more for now. The results of \<^verbatim>\<open>poll\<close>, \<^verbatim>\<open>read\<close> and \<^verbatim>\<open>accept\<close> are arguments. Creating the listening
  socket (\<^verbatim>\<open>stream_listen\<close>, \<^verbatim>\<open>set_nonblocking\<close>) is not modelled.
\<close>

section \<open>Structures\<close>

abbreviation STREAM_MAX_CLIENTS :: nat where "STREAM_MAX_CLIENTS \<equiv> 32"
abbreviation STREAM_MAX_HOSTS :: nat where "STREAM_MAX_HOSTS \<equiv> 32"
abbreviation STREAM_LINE_MAX :: nat where "STREAM_LINE_MAX \<equiv> 600"
abbreviation STREAM_OUTBUF :: nat where "STREAM_OUTBUF \<equiv> 8192"
abbreviation STREAM_INBUF :: nat where "STREAM_INBUF \<equiv> 4096"

datatype ClientState = CLIENT_FREE | CLIENT_LINE | CLIENT_WAIT_OPN | CLIENT_STREAM | CLIENT_DRAIN

text \<open>
  The buffers \<^verbatim>\<open>line\<close>, \<^verbatim>\<open>in\<close> and \<^verbatim>\<open>out\<close> are the lists of their bytes in use, so that \<^verbatim>\<open>lineLen\<close>,
  \<^verbatim>\<open>inLen\<close> and \<^verbatim>\<open>outLen\<close> are their lengths.
\<close>

record StreamClient =
  sc_state :: ClientState
  sc_fd :: int
  sc_conn :: int
  sc_addr :: u16
  sc_line :: "byte list"
  sc_in :: "byte list"
  sc_outOff :: nat
  sc_out :: "byte list"
  sc_sockEof :: bool
  sc_finished :: bool
  sc_wrShut :: bool
  sc_skipLf :: bool

record StreamHost =
  sh_name :: "byte list"
  sh_addr :: u16

text \<open>Results of the system calls on a socket.\<close>

datatype ReadResult = ReadBytes "byte list" | ReadEof | ReadAgain | ReadError
datatype WriteResult = Wrote nat | WriteAgain | WriteError

record Socket =
  sk_results :: "WriteResult list"
  sk_written :: "byte list"
  sk_shut :: bool
  sk_open :: bool

record StreamServer =
  s_core :: ChaosCore
  s_listening :: bool
  s_clients :: "StreamClient carray"
  s_hosts :: "StreamHost list"
  s_socks :: "int \<Rightarrow> Socket"

definition zero_client :: StreamClient where
  "zero_client = \<lparr>sc_state = CLIENT_FREE, sc_fd = 0, sc_conn = 0, sc_addr = 0, sc_line = [], sc_in = [],
    sc_outOff = 0, sc_out = [], sc_sockEof = False, sc_finished = False, sc_wrShut = False, sc_skipLf = False\<rparr>"

definition set_client :: "StreamServer \<Rightarrow> nat \<Rightarrow> StreamClient \<Rightarrow> StreamServer" where
  "set_client s j k = s\<lparr>s_clients := (s_clients s)(j := k)\<rparr>"

definition set_sock :: "StreamServer \<Rightarrow> int \<Rightarrow> Socket \<Rightarrow> StreamServer" where
  "set_sock s fd k = s\<lparr>s_socks := (s_socks s)(fd := k)\<rparr>"

section \<open>Setup\<close>

definition stream_init :: "ChaosCore \<Rightarrow> (int \<Rightarrow> Socket) \<Rightarrow> StreamServer" where
  "stream_init core socks =
     \<lparr>s_core = core, s_listening = False,
      s_clients = (\<lambda>_. zero_client\<lparr>sc_fd := -1, sc_conn := -1\<rparr>), s_hosts = [], s_socks = socks\<rparr>"

text \<open>
  \<^verbatim>\<open>strtoul (s, &end, 8)\<close>: white space, a sign, octal digits; the value with the sign applied
  modulo \<open>2\<^sup>6\<^sup>4\<close>, or \<^verbatim>\<open>ULONG_MAX\<close> when it does not fit, and the rest of the string (all of it when
  there is no digit).
\<close>

definition is_octal :: "byte \<Rightarrow> bool" where
  "is_octal b \<longleftrightarrow> 48 \<le> b \<and> b \<le> 55"

definition octal_value :: "byte list \<Rightarrow> nat" where
  "octal_value ds = foldl (\<lambda>v d. 8 * v + (unat d - 48)) 0 ds"

definition c_isspace :: "byte \<Rightarrow> bool" where
  "c_isspace b \<longleftrightarrow> b = 32 \<or> (9 \<le> b \<and> b \<le> 13)"

definition strtoul8 :: "byte list \<Rightarrow> u64 \<times> byte list" where
  "strtoul8 str =
     (let t = dropWhile c_isspace str;
          neg = (t \<noteq> [] \<and> hd t = 45);
          t = (if t \<noteq> [] \<and> (hd t = 45 \<or> hd t = 43) then tl t else t);
          ds = takeWhile is_octal t;
          v = octal_value ds
      in if ds = [] then (0, str)
         else (if v \<ge> 2 ^ 64 then - 1 else if neg then - of_nat v else of_nat v, dropWhile is_octal t))"

text \<open>\<open>spec\<close> is a C string.\<close>

definition stream_add_host :: "StreamServer \<Rightarrow> byte list \<Rightarrow> StreamServer \<times> bool" where
  "stream_add_host s spec =
     (let name = takeWhile (\<lambda>b. b \<noteq> 61) spec in
      if 61 \<notin> set spec \<or> name = [] \<or> length name \<ge> 64 \<or> length (s_hosts s) \<ge> STREAM_MAX_HOSTS
      then (s, False)
      else
        let text = drop (Suc (length name)) spec;
            (addr, rest) = strtoul8 text
        in if rest \<noteq> [] \<or> rest = text \<or> addr = 0 \<or> addr > 0xFFFF then (s, False)
           else (s\<lparr>s_hosts := s_hosts s @ [\<lparr>sh_name = name, sh_addr = ucast addr\<rparr>]\<rparr>, True))"

definition stream_adopt :: "StreamServer \<Rightarrow> int \<Rightarrow> StreamServer \<times> int" where
  "stream_adopt s fd =
     (case find (\<lambda>i. sc_state (s_clients s i) = CLIENT_FREE) [0..<STREAM_MAX_CLIENTS] of
        None \<Rightarrow> (s, -1)
      | Some i \<Rightarrow>
          (set_client s i (zero_client\<lparr>sc_state := CLIENT_LINE, sc_fd := fd, sc_conn := -1\<rparr>), int i))"

definition stream_active_clients :: "StreamServer \<Rightarrow> nat" where
  "stream_active_clients s =
     length (filter (\<lambda>i. sc_state (s_clients s i) \<noteq> CLIENT_FREE) [0..<STREAM_MAX_CLIENTS])"

section \<open>Client helpers\<close>

definition client_close :: "StreamServer \<Rightarrow> nat \<Rightarrow> byte list \<Rightarrow> u64 \<Rightarrow> StreamServer" where
  "client_close s j reason nowMs =
     (let k = s_clients s j;
          s = (if sc_conn k \<ge> 0
               then s\<lparr>s_core := chaos_release (s_core s) (sc_conn k) reason nowMs\<rparr> else s);
          s = (if sc_fd k \<ge> 0 then set_sock s (sc_fd k) ((s_socks s (sc_fd k))\<lparr>sk_open := False\<rparr>) else s)
      in set_client s j (zero_client\<lparr>sc_state := CLIENT_FREE, sc_fd := -1, sc_conn := -1\<rparr>))"

definition out_compact :: "StreamClient \<Rightarrow> StreamClient" where
  "out_compact k =
     (if sc_outOff k > 0 then k\<lparr>sc_out := drop (sc_outOff k) (sc_out k), sc_outOff := 0\<rparr> else k)"

definition out_append :: "StreamClient \<Rightarrow> byte list \<Rightarrow> StreamClient" where
  "out_append k bs =
     (let k = out_compact k;
          n = (if length bs > STREAM_OUTBUF - length (sc_out k) then STREAM_OUTBUF - length (sc_out k)
               else length bs)
      in k\<lparr>sc_out := sc_out k @ take n bs\<rparr>)"

text \<open>
  \<^verbatim>\<open>line\<close> has \<open>CHAOS_MAX_DATA + 32 = 520\<close> bytes. \<open>verb\<close> is one of the code's three-letter
  constants, so that \<^verbatim>\<open>snprintf\<close> never truncates; \<open>text\<close> holds the \<open>n\<close> bytes.
\<close>

definition printable :: "byte \<Rightarrow> byte" where
  "printable b = (if 0x20 \<le> b \<and> b < 0x7F then b else 32)"

definition out_line :: "StreamClient \<Rightarrow> byte list \<Rightarrow> byte list \<Rightarrow> StreamClient" where
  "out_line k verb txt' =
     (let line = verb @ [32];
          line = line @ map printable (take (517 - length line) txt');
          line = rev (dropWhile (\<lambda>b. b = 32) (rev line))
      in out_append k (line @ [13, 10]))"

definition fail_client :: "StreamClient \<Rightarrow> byte list \<Rightarrow> byte list \<Rightarrow> StreamClient" where
  "fail_client k verb txt' = (out_line k verb (c_string txt'))\<lparr>sc_state := CLIENT_DRAIN\<rparr>"

text \<open>\<open>name\<close> is a C string. A string of octal digits always is an address.\<close>

definition resolve_host :: "StreamServer \<Rightarrow> byte list \<Rightarrow> u16 option" where
  "resolve_host s name =
     (if name \<noteq> [] \<and> list_all is_octal name then
        let a = fst (strtoul8 name) in if a = 0 \<or> a > 0xFFFF then None else Some (ucast a)
      else map_option sh_addr (find (\<lambda>h. strcaseeq (sh_name h) name) (s_hosts s)))"

definition is_blank :: "byte \<Rightarrow> bool" where
  "is_blank b \<longleftrightarrow> b = 32 \<or> b = 9"

text \<open>
  The words of a request line: \<open>None\<close> if it does not start with \<^verbatim>\<open>RFC\<close> and a blank, else the host
  and the contact, with the blanks around them removed.
\<close>

definition parse_request :: "byte list \<Rightarrow> (byte list \<times> byte list) option" where
  "parse_request line =
     (let p = dropWhile is_blank line in
      if map c_tolower (take 3 p) \<noteq> map c_tolower (c_bytes ''RFC'') \<or> length p \<le> 3 \<or> \<not> is_blank (p ! 3) then None
      else
        let p = dropWhile is_blank (drop 3 p);
            host = takeWhile (\<lambda>b. \<not> is_blank b) p;
            p = dropWhile is_blank (drop (Suc (length host)) p);
            contact = rev (dropWhile is_blank (rev p))
        in Some (host, contact))"

definition handle_request :: "StreamServer \<Rightarrow> nat \<Rightarrow> u64 \<Rightarrow> StreamServer" where
  "handle_request s j nowMs =
     (let k = s_clients s j;
          fail = (\<lambda>msg. set_client s j (fail_client k (c_bytes ''LOS'') msg))
      in case parse_request (c_string (sc_line k)) of
           None \<Rightarrow> fail (c_bytes ''Only RFC <host> <contact> [args] is supported'')
         | Some (host, contact) \<Rightarrow>
             if host = [] \<or> contact = [] then fail (c_bytes ''Usage: RFC <host> <contact> [args]'')
             else case resolve_host s host of
               None \<Rightarrow> fail (take 127 (c_bytes ''Unknown host '' @ host))
             | Some addr \<Rightarrow>
                 if addr = c_myAddr (s_core s) then fail (c_bytes ''That is chaosd's own address'')
                 else
                   let (core, h) = chaos_open (s_core s) addr contact nowMs;
                       s = s\<lparr>s_core := core\<rparr>;
                       k = k\<lparr>sc_addr := addr, sc_conn := h\<rparr>
                   in if h < 0
                      then set_client s j (fail_client k (c_bytes ''LOS'')
                             (c_bytes ''Too many connections, or contact too long''))
                      else set_client s j (k\<lparr>sc_state := CLIENT_WAIT_OPN\<rparr>))"

text \<open>The bytes read in the LINE state; the head of the list is \<^verbatim>\<open>buf[i]\<close>.\<close>

fun line_input :: "StreamServer \<Rightarrow> nat \<Rightarrow> byte list \<Rightarrow> u64 \<Rightarrow> StreamServer" where
  "line_input s j [] nowMs = s"
| "line_input s j (b # bs) nowMs =
     (let k = s_clients s j in
      if b = 13 \<or> b = 10 then
        let skip = (b = 13);
            (rest, skip) = (if bs \<noteq> [] \<and> skip \<and> hd bs = 10 then (tl bs, False) else (bs, skip));
            k = k\<lparr>sc_skipLf := skip\<rparr>;
            k = (if rest \<noteq> [] then k\<lparr>sc_in := take STREAM_INBUF rest, sc_skipLf := False\<rparr> else k)
        in handle_request (set_client s j k) j nowMs
      else if length (sc_line k) \<ge> STREAM_LINE_MAX - 1 then
        set_client s j (fail_client k (c_bytes ''LOS'') (c_bytes ''Request line too long''))
      else line_input (set_client s j (k\<lparr>sc_line := sc_line k @ [b]\<rparr>)) j bs nowMs)"

section \<open>Sockets\<close>

definition read_want :: "StreamClient \<Rightarrow> nat" where
  "read_want k = (if sc_state k = CLIENT_LINE then 256 else STREAM_INBUF - length (sc_in k))"

text \<open>\<open>r\<close> is the result of \<^verbatim>\<open>read (k->fd, buf, want)\<close>.\<close>

definition client_read :: "StreamServer \<Rightarrow> nat \<Rightarrow> ReadResult \<Rightarrow> u64 \<Rightarrow> StreamServer" where
  "client_read s j r nowMs =
     (let k = s_clients s j in
      if read_want k = 0 then s
      else case r of
        ReadAgain \<Rightarrow> s
      | ReadError \<Rightarrow> client_close s j (c_bytes ''Connection aborted by user'') nowMs
      | ReadEof \<Rightarrow>
          if sc_state k = CLIENT_LINE \<or> sc_state k = CLIENT_WAIT_OPN
          then client_close s j (c_bytes ''Connection aborted by user'') nowMs
          else set_client s j (k\<lparr>sc_sockEof := True\<rparr>)
      | ReadBytes bs \<Rightarrow>
          if sc_state k = CLIENT_LINE then line_input s j bs nowMs
          else
            let bs = (if sc_skipLf k \<and> bs \<noteq> [] \<and> hd bs = 10 then tl bs else bs)
            in set_client s j (k\<lparr>sc_skipLf := False, sc_in := sc_in k @ bs\<rparr>))"

text \<open>The loop of \<^verbatim>\<open>client_write\<close>: the results left, \<^verbatim>\<open>outOff\<close>, the bytes written and how it ended.\<close>

datatype WriteEnd = WriteDone | WriteLater | WriteFailed

fun write_loop :: "WriteResult list \<Rightarrow> byte list \<Rightarrow> nat \<Rightarrow> byte list \<Rightarrow>
    WriteResult list \<times> nat \<times> byte list \<times> WriteEnd" where
  "write_loop [] out off wr = ([], off, wr, if off < length out then WriteLater else WriteDone)"
| "write_loop (r # rs) out off wr =
     (if off < length out then
        (case r of
           Wrote n \<Rightarrow>
             let n = min n (length out - off)
             in write_loop rs out (off + n) (wr @ take n (drop off out))
         | WriteAgain \<Rightarrow> (rs, off, wr, WriteLater)
         | WriteError \<Rightarrow> (rs, off, wr, WriteFailed))
      else (r # rs, off, wr, WriteDone))"

definition client_write :: "StreamServer \<Rightarrow> nat \<Rightarrow> u64 \<Rightarrow> StreamServer \<times> bool" where
  "client_write s j nowMs =
     (let k = s_clients s j; sk = s_socks s (sc_fd k)
      in case write_loop (sk_results sk) (sc_out k) (sc_outOff k) (sk_written sk) of
           (rs, off, wr, e) \<Rightarrow>
             let s = set_sock s (sc_fd k) (sk\<lparr>sk_results := rs, sk_written := wr\<rparr>) in
             (case e of
                WriteDone \<Rightarrow> (set_client s j (k\<lparr>sc_outOff := 0, sc_out := []\<rparr>), True)
              | WriteLater \<Rightarrow> (set_client s j (k\<lparr>sc_outOff := off\<rparr>), True)
              | WriteFailed \<Rightarrow>
                  (client_close (set_client s j (k\<lparr>sc_outOff := off\<rparr>)) j
                     (c_bytes ''Connection closed by user'') nowMs, False)))"

section \<open>The client's state machine\<close>

text \<open>The status lines for a connection that closed before it opened.\<close>

definition refusal :: "StreamClient \<Rightarrow> ChaosConn \<Rightarrow> StreamClient" where
  "refusal k conn =
     (case k_closeKind conn of
        CLOSE_CLS \<Rightarrow> out_line k (c_bytes ''CLS'') (take (k_reasonBytes conn) (k_reason conn))
      | CLOSE_ANS \<Rightarrow>
          out_append (out_append k (c_bytes ''ANS '' @ decimal_digits (k_reasonBytes conn) @ [13, 10]))
            (take (k_reasonBytes conn) (k_reason conn))
      | CLOSE_TIMEOUT \<Rightarrow> out_line k (c_bytes ''LOS'') (c_bytes ''Timed out: '' @ c_string (k_reason conn))
      | _ \<Rightarrow> out_line k (c_bytes ''LOS'') (take (k_reasonBytes conn) (k_reason conn)))"

text \<open>The case \<^verbatim>\<open>CLIENT_WAIT_OPN\<close>; the flag tells whether it falls into the stream case.\<close>

definition service_wait :: "StreamServer \<Rightarrow> nat \<Rightarrow> u64 \<Rightarrow> StreamServer \<times> bool" where
  "service_wait s j nowMs =
     (let k = s_clients s j in
      case chaos_conn (s_core s) (sc_conn k) of
        None \<Rightarrow> (set_client s j (fail_client k (c_bytes ''LOS'') (c_bytes ''Connection vanished'')), False)
      | Some conn \<Rightarrow>
          if k_state conn = CONN_OPEN then
            (set_client s j ((out_append k (c_bytes ''OPN Connection to host '' @
               octal_digits (unat (sc_addr k)) @ [13, 10]))\<lparr>sc_state := CLIENT_STREAM\<rparr>), True)
          else if k_state conn = CONN_CLOSED then
            (set_client (s\<lparr>s_core := chaos_release (s_core s) (sc_conn k) [] nowMs\<rparr>) j
               ((refusal k conn)\<lparr>sc_conn := -1, sc_state := CLIENT_DRAIN\<rparr>), False)
          else (s, False))"

text \<open>The steps of the case \<^verbatim>\<open>CLIENT_STREAM\<close>: from the socket to the connection and back.\<close>

definition stream_outward :: "StreamServer \<Rightarrow> nat \<Rightarrow> nat \<Rightarrow> u64 \<Rightarrow> StreamServer" where
  "stream_outward s j i nowMs =
     (let k = s_clients s j;
          s = (if length (sc_in k) > 0 \<and> k_state (c_conns (s_core s) i) = CONN_OPEN then
                 let (core, n) = chaos_send (s_core s) (sc_conn k) (sc_in k) nowMs
                 in set_client (s\<lparr>s_core := core\<rparr>) j (k\<lparr>sc_in := drop n (sc_in k)\<rparr>)
               else s);
          k = s_clients s j
      in if sc_sockEof k \<and> sc_in k = [] \<and> \<not> sc_finished k \<and> k_state (c_conns (s_core s) i) = CONN_OPEN
         then set_client (s\<lparr>s_core := chaos_finish (s_core s) (sc_conn k) nowMs\<rparr>) j (k\<lparr>sc_finished := True\<rparr>)
         else s)"

definition stream_inward :: "StreamServer \<Rightarrow> nat \<Rightarrow> u64 \<Rightarrow> StreamServer" where
  "stream_inward s j nowMs =
     (let k = out_compact (s_clients s j) in
      if length (sc_out k) < STREAM_OUTBUF then
        let (core, got) = chaos_recv (s_core s) (sc_conn k) (STREAM_OUTBUF - length (sc_out k)) nowMs
        in set_client (s\<lparr>s_core := core\<rparr>) j (k\<lparr>sc_out := sc_out k @ got\<rparr>)
      else set_client s j k)"

text \<open>What follows the write in the stream case; the flag is the \<^verbatim>\<open>return\<close> of the function.\<close>

definition stream_finish :: "StreamServer \<Rightarrow> nat \<Rightarrow> nat \<Rightarrow> u64 \<Rightarrow> StreamServer \<times> bool" where
  "stream_finish s j i nowMs =
     (let k = s_clients s j;
          s = (if chaos_recv_eof (s_core s) (sc_conn k) \<and> sc_out k = [] \<and> \<not> sc_wrShut k
               then set_client (set_sock s (sc_fd k) ((s_socks s (sc_fd k))\<lparr>sk_shut := True\<rparr>)) j
                      (k\<lparr>sc_wrShut := True\<rparr>)
               else s);
          k = s_clients s j
      in if k_state (c_conns (s_core s) i) = CONN_CLOSED \<and> \<not> chaos_recv_ready (s_core s) (sc_conn k) \<and> sc_out k = []
         then (client_close s j (c_bytes ''Connection closed'') nowMs, True)
         else (s, False))"

definition service_stream :: "StreamServer \<Rightarrow> nat \<Rightarrow> u64 \<Rightarrow> StreamServer \<times> bool" where
  "service_stream s j nowMs =
     (case conn_for_handle (s_core s) (sc_conn (s_clients s j)) of
        None \<Rightarrow> (set_client s j ((s_clients s j)\<lparr>sc_state := CLIENT_DRAIN\<rparr>), False)
      | Some i \<Rightarrow>
          let s = stream_inward (stream_outward s j i nowMs) j nowMs;
              (s, ok) = client_write s j nowMs
          in if \<not> ok then (s, True) else stream_finish s j i nowMs)"

definition service_drain :: "StreamServer \<Rightarrow> nat \<Rightarrow> u64 \<Rightarrow> StreamServer" where
  "service_drain s j nowMs =
     (if sc_state (s_clients s j) = CLIENT_DRAIN then
        let (s, ok) = client_write s j nowMs
        in if ok \<and> sc_out (s_clients s j) = [] then client_close s j (c_bytes ''Request failed'') nowMs else s
      else s)"

definition client_service :: "StreamServer \<Rightarrow> nat \<Rightarrow> u64 \<Rightarrow> StreamServer" where
  "client_service s j nowMs =
     (let (s, fall) = (if sc_state (s_clients s j) = CLIENT_WAIT_OPN then service_wait s j nowMs
                       else (s, sc_state (s_clients s j) = CLIENT_STREAM));
          (s, returned) = (if fall then service_stream s j nowMs else (s, False))
      in if returned then s else service_drain s j nowMs)"

definition stream_service :: "StreamServer \<Rightarrow> u64 \<Rightarrow> StreamServer" where
  "stream_service s nowMs =
     fold (\<lambda>i s. if sc_state (s_clients s i) \<noteq> CLIENT_FREE then client_service s i nowMs else s)
       [0..<STREAM_MAX_CLIENTS] s"

section \<open>One iteration of the server\<close>

record PollEvents =
  pe_in :: bool
  pe_out :: bool

record PollRevents =
  pr_in :: bool
  pr_out :: bool
  pr_hup :: bool
  pr_err :: bool

text \<open>The events \<^verbatim>\<open>stream_step\<close> polls a client for.\<close>

definition client_events :: "StreamServer \<Rightarrow> nat \<Rightarrow> PollEvents" where
  "client_events s i =
     (let k = s_clients s i in
      \<lparr>pe_in = (case sc_state k of
           CLIENT_LINE \<Rightarrow> True
         | CLIENT_WAIT_OPN \<Rightarrow> length (sc_in k) < STREAM_INBUF
         | CLIENT_STREAM \<Rightarrow> \<not> sc_sockEof k \<and> sc_in k = [] \<and> chaos_send_room (s_core s) (sc_conn k) > 0
         | _ \<Rightarrow> False),
       pe_out = (length (sc_out k) > sc_outOff k)\<rparr>)"

text \<open>What the operating system answers during one iteration.\<close>

record StepEnv =
  e_revents :: "nat \<Rightarrow> PollRevents"
  e_read :: "nat \<Rightarrow> ReadResult"
  e_listen :: bool
  e_accept :: "int list"
  e_extra :: bool
  e_now :: u64

definition poll_client :: "StepEnv \<Rightarrow> (nat \<Rightarrow> PollEvents) \<Rightarrow> nat \<Rightarrow> StreamServer \<Rightarrow> StreamServer" where
  "poll_client env events i s =
     (let ev = events i; re = e_revents env i in
      if (\<not> pe_in ev \<and> \<not> pe_out ev) \<or> \<not> (pr_in re \<or> pr_out re \<or> pr_hup re \<or> pr_err re) \<or>
         sc_state (s_clients s i) = CLIENT_FREE then s
      else
        let (s, ok) = (if pe_out ev \<and> (pr_out re \<or> pr_hup re \<or> pr_err re) then client_write s i (e_now env)
                       else (s, True))
        in if \<not> ok then s
           else if pr_in re \<or> pr_hup re \<or> pr_err re then
             if pe_in ev then client_read s i (e_read env i) (e_now env)
             else if \<not> pe_out ev \<or> pr_err re
             then client_close s i (c_bytes ''Connection aborted by user'') (e_now env)
             else s
           else s)"

text \<open>A single \<^verbatim>\<open>write\<close> whose result is ignored.\<close>

definition write_once :: "Socket \<Rightarrow> byte list \<Rightarrow> Socket" where
  "write_once sk bs =
     (case sk_results sk of
        Wrote n # rs \<Rightarrow> sk\<lparr>sk_results := rs, sk_written := sk_written sk @ take n bs\<rparr>
      | _ # rs \<Rightarrow> sk\<lparr>sk_results := rs\<rparr>
      | [] \<Rightarrow> sk)"

definition accept_one :: "int \<Rightarrow> StreamServer \<Rightarrow> StreamServer" where
  "accept_one fd s =
     (let (s', i) = stream_adopt s fd in
      if i < 0
      then set_sock s fd ((write_once (s_socks s fd) (c_bytes ''LOS Too many clients'' @ [13, 10]))\<lparr>sk_open := False\<rparr>)
      else s')"

text \<open>
  An iteration in which \<^verbatim>\<open>poll\<close> succeeds; when it fails the function returns FALSE and changes
  nothing. The events are computed before the call.
\<close>

definition stream_step :: "StreamServer \<Rightarrow> bool \<Rightarrow> StepEnv \<Rightarrow> StreamServer \<times> bool" where
  "stream_step s extra env =
     (let events = client_events s;
          polled = filter (\<lambda>i. sc_state (s_clients s i) \<noteq> CLIENT_FREE) [0..<STREAM_MAX_CLIENTS];
          s = fold (poll_client env events) polled s;
          s = (if s_listening s \<and> e_listen env then fold accept_one (e_accept env) s else s)
      in (stream_service s (e_now env), extra \<and> e_extra env))"

definition stream_shutdown :: "StreamServer \<Rightarrow> u64 \<Rightarrow> StreamServer" where
  "stream_shutdown s nowMs =
     (let s = fold (\<lambda>i s. if sc_state (s_clients s i) \<noteq> CLIENT_FREE
                          then client_close s i (c_bytes ''chaosd shutting down'') nowMs else s)
                [0..<STREAM_MAX_CLIENTS] s
      in s\<lparr>s_listening := False\<rparr>)"

end
