(* ===== verification/Chaos_Live.thy ===== *)
theory Chaos_Live
  imports Chaos_Streams Chaos_Timers
begin

text \<open>
  Which operations of the protocol core keep a connection in use, and what they do to the
  streams of other handles: the facts the stream front end relies on.
\<close>

section \<open>Connections in use\<close>

definition keeps_live :: "ChaosCore \<Rightarrow> ChaosCore \<Rightarrow> bool" where
  "keeps_live c c' \<longleftrightarrow> (\<forall>i. k_state (c_conns c' i) = CONN_FREE \<longleftrightarrow> k_state (c_conns c i) = CONN_FREE)"

lemma keeps_live_refl [simp]: "keeps_live c c"
  by (simp add: keeps_live_def)

lemma keeps_live_trans: "keeps_live a b \<Longrightarrow> keeps_live b c \<Longrightarrow> keeps_live a c"
  by (simp add: keeps_live_def)

lemma keeps_live_same: "same_states c c' \<Longrightarrow> keeps_live c c'"
  by (simp add: keeps_live_def same_states_def)

lemma keeps_live_quiet: "quiet c c' \<Longrightarrow> keeps_live c c'"
  by (rule keeps_live_same [OF same_states_quiet])

lemma keeps_live_set_conn:
  "k_state k \<noteq> CONN_FREE \<Longrightarrow> k_state (c_conns c h) \<noteq> CONN_FREE \<Longrightarrow> keeps_live c (set_conn c h k)"
  by (simp add: keeps_live_def)

lemma keeps_live_handle: "keeps_live c c' \<Longrightarrow> conn_for_handle c' h = conn_for_handle c h"
  by (simp add: keeps_live_def conn_for_handle_def)

lemma same_states_send_controlled: "same_states c (conn_send_controlled c h opc pl t)"
  by (rule same_states_trans [OF same_states_set_conn same_states_quiet [OF conn_send_controlled_quiet]]) simp

lemma same_states_maybe_send_eof: "same_states c (conn_maybe_send_eof c h t)"
  unfolding conn_maybe_send_eof_def Let_def
  by (auto intro: same_states_trans [OF same_states_send_controlled same_states_set_conn])

lemma same_states_finish: "same_states c (chaos_finish c h t)"
  by (auto simp: chaos_finish_def Let_def split: option.split
      intro: same_states_trans [OF same_states_set_conn same_states_maybe_send_eof])

lemma same_states_send: "same_states c (fst (chaos_send c h pl t))"
  by (simp add: chaos_send_def same_states_send_loop split: option.split)

lemma same_states_recv:
  assumes inv: "core_inv c"
  shows "same_states c (fst (chaos_recv c h room t))"
proof (cases "conn_for_handle c h")
  case (Some i)
  then have i: "i < CHAOS_MAX_CONNS" by (simp add: conn_for_handle_Some)
  obtain k got adv where l: "recv_loop (c_conns c i) room [] False = (k, got, adv)" by (metis prod_cases3)
  have "recv_frame (c_conns c i) k"
    using recv_loop_fifo [of "c_conns c i" "[]" room False] core_inv_conn [OF inv i] l by (auto simp: conn_inv_def)
  then have st: "k_state k = k_state (c_conns c i)" by (rule recv_frame_sel)
  then have s: "same_states c (set_conn c i k)" by (rule same_states_set_conn)
  then have "same_states c (conn_send_sts (set_conn c i k) i t)"
    using same_states_quiet [OF quiet_conn_send_sts] same_states_trans by blast
  moreover have "same_states c (set_conn (set_conn c i k) i (k\<lparr>k_ackDueMs := x\<rparr>))" for x
    using s by (rule same_states_trans) (simp add: same_states_set_conn)
  ultimately show ?thesis using s by (simp add: chaos_recv_def Some l Let_def)
qed (simp add: chaos_recv_def)

section \<open>Input and timers\<close>

lemma keeps_live_process_ack: "keeps_live c (conn_process_ack c h ack rc t)"
proof (cases "k_state (c_conns c h) = CONN_FREE")
  case True
  have "keeps_live c (set_conn c h (conn_apply_ack (c_conns c h) ack rc))"
    by (rule keeps_live_same [OF same_states_set_conn]) simp
  then show ?thesis
    using True same_states_maybe_send_eof [THEN keeps_live_same]
    by (auto simp: conn_process_ack_def Let_def intro: keeps_live_trans)
next
  case False
  let ?c = "set_conn c h (conn_apply_ack (c_conns c h) ack rc)"
  have c: "keeps_live c ?c" by (rule keeps_live_same [OF same_states_set_conn]) simp
  have "keeps_live ?c (conn_close_cls ?c h r kind t)" for r kind
    unfolding conn_close_cls_def Let_def
    by (rule keeps_live_trans [OF keeps_live_quiet [OF quiet_conn_send_unc] keeps_live_set_conn])
       (use False quiet_state [OF quiet_conn_send_unc] in simp_all)
  then show ?thesis
    using c keeps_live_same [OF same_states_maybe_send_eof]
    by (auto simp: conn_process_ack_def Let_def intro: keeps_live_trans)
qed

lemma keeps_live_queue_input: "keeps_live c (conn_queue_input c h ch d t)"
proof -
  let ?k = "\<lambda>n pl opc. conn_store_input (c_conns c h) opc n pl"
  have "same_states c (set_conn c h (?k n pl opc))" for n pl opc by (rule same_states_set_conn) simp
  moreover have "same_states c' (conn_send_sts c' h t)" for c' by (rule same_states_quiet [OF quiet_conn_send_sts])
  moreover have "same_states c (c\<lparr>c_nDuplicates := x\<rparr>)" "same_states c (c\<lparr>c_nOverWindow := x\<rparr>)" for x
    by (simp_all add: same_states_def)
  ultimately have "same_states c (conn_queue_input c h ch d t)"
    unfolding conn_queue_input_def Let_def using same_states_trans by (simp, blast)
  then show ?thesis by (rule keeps_live_same)
qed

lemma keeps_live_handle_rfc_sent:
  assumes st: "k_state (c_conns c h) = CONN_RFC_SENT"
  shows "keeps_live c (handle_rfc_sent c h ch d t)"
proof -
  have "keeps_live c (conn_send_sts (conn_process_ack (set_conn c h ((c_conns c h)\<lparr>k_remoteIndex := i,
      k_readNum := n, k_receivedNum := n, k_lastAckSent := n, k_remoteWindow := w,
      k_state := CONN_OPEN\<rparr>)) h a r t) h t)" for i n w a r
    by (rule keeps_live_trans [OF keeps_live_set_conn
          keeps_live_trans [OF keeps_live_process_ack keeps_live_quiet [OF quiet_conn_send_sts]]])
       (simp_all add: st)
  moreover have "keeps_live c (set_conn c h (conn_set_closed k kind tx))" for k kind tx
    by (rule keeps_live_set_conn) (simp_all add: st)
  ultimately show ?thesis
    unfolding handle_rfc_sent_def Let_def by (simp only: keeps_live_refl if_cancel split: if_split) simp
qed

lemma keeps_live_handle_open:
  assumes st: "k_state (c_conns c h) = CONN_OPEN"
  shows "keeps_live c (handle_open c h ch d t)"
proof -
  have w: "keeps_live c (conn_process_ack (set_conn c h ((c_conns c h)\<lparr>k_remoteWindow := w\<rparr>)) h a r t)" for w a r
    by (rule keeps_live_trans [OF keeps_live_set_conn keeps_live_process_ack]) (simp_all add: st)
  have q: "keeps_live c (conn_queue_input (conn_process_ack c h a r t) h ch d t)"
    "keeps_live c (conn_send_sts (conn_process_ack c h a r t) h t)" for a r
    using keeps_live_trans [OF keeps_live_process_ack] keeps_live_queue_input keeps_live_quiet [OF quiet_conn_send_sts]
    by blast+
  have r: "keeps_live c (conn_retransmit (conn_process_ack (set_conn c h ((c_conns c h)\<lparr>k_remoteWindow := w\<rparr>)) h a b t) h t m)"
    for w a b m
    using keeps_live_trans [OF w keeps_live_quiet [OF quiet_conn_retransmit]] .
  have cl: "keeps_live c (set_conn c h (conn_set_closed k kind tx))" for k kind tx
    by (rule keeps_live_set_conn) (simp_all add: st)
  show ?thesis
    unfolding handle_open_def Let_def
    using w q r cl keeps_live_process_ack keeps_live_quiet [OF quiet_conn_send_sts] by simp
qed

lemma keeps_live_dispatch:
  assumes h: "conn_for_packet c ch = Some h"
  shows "keeps_live c (let c = set_conn c h ((c_conns c h)\<lparr>k_lastHeardMs := t\<rparr>) in
    (case k_state (c_conns c h) of
       CONN_RFC_SENT \<Rightarrow> handle_rfc_sent c h ch d t
     | CONN_CLOSED \<Rightarrow> if P then c else send_los_reply c ch r t
     | _ \<Rightarrow> handle_open c h ch d t))"
proof -
  let ?c = "set_conn c h ((c_conns c h)\<lparr>k_lastHeardMs := t\<rparr>)"
  have c: "keeps_live c ?c" using conn_for_packet_slot(2) [OF h] by (simp add: keeps_live_set_conn)
  have "k_state (c_conns ?c h) = k_state (c_conns c h)" by simp
  then show ?thesis
    unfolding Let_def
    using conn_for_packet_slot(2) [OF h] c keeps_live_trans [OF c keeps_live_handle_rfc_sent]
      keeps_live_trans [OF c keeps_live_quiet [OF quiet_send_los_reply]]
      keeps_live_trans [OF c keeps_live_handle_open]
    by (simp split: ChaosConnState.split)
qed

lemma keeps_live_handle_chaos: "keeps_live c (handle_chaos c frame t)"
proof -
  define c1 where "c1 = (if drop_bit 8 (chaos_get16 (drop CHAOS_ETH_HEADER frame) 8) = drop_bit 8 (c_myAddr c) \<and>
      frame ! 6 AND 1 = 0
    then arp_learn c (chaos_get16 (drop CHAOS_ETH_HEADER frame) 8) (slice frame 6 6) t else c)"
  have c1: "keeps_live c c1"
    unfolding c1_def using keeps_live_quiet [OF quiet_arp_learn] by auto
  show ?thesis
    unfolding handle_chaos_def Let_def [of "drop CHAOS_ETH_HEADER frame"]
      Let_def [of "unat _"] Let_def [of "chaos_get16 _ _"] Let_def [of "_ ! _"] c1_def [symmetric]
      Let_def [of c1]
    using c1 keeps_live_trans [OF c1 keeps_live_quiet [OF quiet_handle_rfc]]
      keeps_live_trans [OF c1 keeps_live_quiet [OF quiet_send_los_reply]]
      keeps_live_trans [OF c1 keeps_live_dispatch]
    by (simp split: option.split)
qed

lemma keeps_live_input: "keeps_live c (chaos_core_input c frame t)"
proof -
  have "keeps_live c (c\<lparr>c_nFramesIn := x\<rparr>)" for x by (simp add: keeps_live_def)
  then have "keeps_live c (handle_arp (c\<lparr>c_nFramesIn := x\<rparr>) frame t)"
    "keeps_live c (handle_chaos (c\<lparr>c_nFramesIn := x\<rparr>) frame t)" for x
    using keeps_live_trans keeps_live_handle_chaos keeps_live_quiet [OF quiet_handle_arp] by blast+
  then show ?thesis unfolding chaos_core_input_def Let_def by simp
qed

lemma keeps_live_tick: "keeps_live c (chaos_core_tick c t)"
proof -
  have "fst (tick_state t k) = CONN_FREE \<longleftrightarrow> k_state k = CONN_FREE" for k
    by (simp add: tick_state_def)
  moreover have "k_state (c_conns (chaos_core_tick c t) i) =
      (if i < CHAOS_MAX_CONNS then fst (tick_state t (c_conns c i)) else k_state (c_conns c i))" for i
    using arg_cong [OF tick_fold_state [of "[0..<CHAOS_MAX_CONNS]" t c i], of fst]
    by (simp add: chaos_core_tick_def del: upt_rec_numeral)
  ultimately show ?thesis by (simp add: keeps_live_def)
qed

section \<open>Opening and releasing\<close>

lemma chaos_release_conns:
  "k_state (c_conns (chaos_release c h r t) i) =
    (if conn_for_handle c h = Some i then CONN_FREE else k_state (c_conns c i))"
proof (cases "conn_for_handle c h")
  case (Some j)
  have "k_state (c_conns (conn_send_unc c j opc n pl t) i) = k_state (c_conns c i)" for opc n pl
    using quiet_state [OF quiet_conn_send_unc] by simp
  then show ?thesis by (simp add: chaos_release_def Some Let_def)
qed (simp add: chaos_release_def)

lemma chaos_open_conns:
  assumes "chaos_open c addr contact t = (c', h)"
  shows "h = -1 \<and> c' = c \<or>
    (\<exists>i<CHAOS_MAX_CONNS. h = int i \<and> k_state (c_conns c i) = CONN_FREE \<and>
      (\<forall>j. k_state (c_conns c' j) = CONN_FREE \<longleftrightarrow> k_state (c_conns c j) = CONN_FREE \<and> j \<noteq> i))"
proof (cases "length contact = 0 \<or> length contact > CHAOS_MAX_DATA \<or>
    find (\<lambda>h. k_state (c_conns c h) = CONN_FREE) [0..<CHAOS_MAX_CONNS] = None")
  case True
  then have "chaos_open c addr contact t = (c, -1)" by (auto simp: chaos_open_def simp del: upt_rec_numeral)
  then show ?thesis using assms by simp
next
  case False
  then obtain i where f: "find (\<lambda>h. k_state (c_conns c h) = CONN_FREE) [0..<CHAOS_MAX_CONNS] = Some i"
    by (auto simp del: upt_rec_numeral)
  then have i: "i < CHAOS_MAX_CONNS" "k_state (c_conns c i) = CONN_FREE"
    by (auto simp: find_Some_iff simp del: upt_rec_numeral)
  let ?c0 = "c\<lparr>c_uniquizer := (if (c_uniquizer c + 1) AND 0x7FF = 0 then 1 else (c_uniquizer c + 1) AND 0x7FF),
      c_initialPktNum := c_initialPktNum c + 0x0100\<rparr>"
  let ?c = "set_conn ?c0 i (open_conn c i addr t)"
  have c': "c' = conn_send_controlled ?c i CHOP_RFC contact t" "h = int i"
    using assms False f by (auto simp: chaos_open_def Let_def simp del: upt_rec_numeral)
  have "k_state (c_conns c' j) = k_state (c_conns ?c j)" for j
    unfolding c'(1) using same_states_send_controlled [of ?c i CHOP_RFC contact t] by (simp add: same_states_def)
  moreover have "k_state (open_conn c i addr t) = CONN_RFC_SENT" by (simp add: open_conn_def)
  ultimately have "\<forall>j. k_state (c_conns c' j) = CONN_FREE \<longleftrightarrow> k_state (c_conns c j) = CONN_FREE \<and> j \<noteq> i"
    by simp
  then show ?thesis using i c'(2) by blast
qed

section \<open>Streams of a handle\<close>

lemma handle_pending_rx: "rx_quiet c c' \<Longrightarrow> keeps_live c c' \<Longrightarrow> handle_pending h c' = handle_pending h c"
  using rx_same(3)
  by (auto simp: handle_pending_def chaos_conn_def keeps_live_handle rx_quiet_def split: option.split)

lemma send_keeps_pending: "handle_pending h (fst (chaos_send c h' xs t)) = handle_pending h c"
  by (rule handle_pending_rx [OF rx_quiet_send keeps_live_same [OF same_states_send]])

lemma finish_keeps_pending: "handle_pending h (chaos_finish c h' t) = handle_pending h c"
  by (rule handle_pending_rx [OF rx_quiet_finish keeps_live_same [OF same_states_finish]])

lemma handle_queued_cong:
  assumes "keeps_live c c'" "\<And>i. conn_for_handle c h = Some i \<Longrightarrow> queued (c_conns c' i) = queued (c_conns c i)"
  shows "handle_queued h c' = handle_queued h c"
  using assms by (auto simp: handle_queued_def chaos_conn_def keeps_live_handle split: option.split)

lemma recv_keeps_queued:
  assumes inv: "core_inv c"
  shows "handle_queued h (fst (chaos_recv c h room t)) = handle_queued h c"
proof (rule handle_queued_cong [OF keeps_live_same [OF same_states_recv [OF inv]]])
  fix i assume Some: "conn_for_handle c h = Some i"
  then have i: "i < CHAOS_MAX_CONNS" by (simp add: conn_for_handle_Some)
  obtain k got adv where l: "recv_loop (c_conns c i) room [] False = (k, got, adv)" by (metis prod_cases3)
  have "recv_frame (c_conns c i) k"
    using recv_loop_fifo [of "c_conns c i" "[]" room False] core_inv_conn [OF inv i] l by (auto simp: conn_inv_def)
  then have q: "queued k = queued (c_conns c i)" by (simp add: queued_def recv_frame_sel)
  have "stamped k (c_conns (conn_send_sts (set_conn c i k) i t) i)"
    by (rule stamped_after [OF _ quiet_conn_send_sts]) simp
  then have "queued (c_conns (conn_send_sts (set_conn c i k) i t) i) = queued k" by (rule queued_stamped)
  moreover have "queued (k\<lparr>k_ackDueMs := x\<rparr>) = queued k" for x by (simp add: queued_def)
  ultimately show "queued (c_conns (fst (chaos_recv c h room t)) i) = queued (c_conns c i)"
    using q by (simp add: chaos_recv_def Some l Let_def)
qed

lemma maybe_send_eof_queued:
  assumes "conn_inv (c_conns c i)"
  shows "queued (c_conns (conn_maybe_send_eof c i t) i) = queued (c_conns c i)"
proof (cases "k_state (c_conns c i) = CONN_OPEN \<and> k_eofWanted (c_conns c i) \<and>
    \<not> k_eofSent (c_conns c i) \<and> conn_window_available (c_conns c i) > 0")
  case True
  let ?c = "conn_send_controlled c i CHOP_EOF [] t"
  have "queued (c_conns ?c i) = queued (conn_enqueue (c_conns c i) CHOP_EOF [])"
    by (rule queued_stamped [OF conn_send_controlled_conn])
  also have "\<dots> = queued (c_conns c i)"
    using queued_enqueue [of "c_conns c i" "[]" CHOP_EOF] assms True by (simp add: conn_inv_def)
  finally show ?thesis
    using True by (simp add: conn_maybe_send_eof_def Let_def) (simp add: queued_def)
qed (auto simp: conn_maybe_send_eof_def Let_def)

lemma finish_keeps_queued:
  assumes inv: "core_inv c"
  shows "handle_queued h (chaos_finish c h t) = handle_queued h c"
proof (rule handle_queued_cong [OF keeps_live_same [OF same_states_finish]])
  fix i assume Some: "conn_for_handle c h = Some i"
  then have i: "i < CHAOS_MAX_CONNS" by (simp add: conn_for_handle_Some)
  let ?k = "(c_conns c i)\<lparr>k_eofWanted := True, k_finishStartMs := t\<rparr>"
  have "conn_inv ?k" if "k_state (c_conns c i) = CONN_OPEN"
    using core_inv_conn [OF inv i] that by (simp add: conn_inv_def send_inv_def recv_inv_def phase_inv_def)
  then have "queued (c_conns (conn_maybe_send_eof (set_conn c i ?k) i t) i) = queued ?k"
    if "k_state (c_conns c i) = CONN_OPEN" using that maybe_send_eof_queued [of "set_conn c i ?k" i t] by simp
  moreover have "queued ?k = queued (c_conns c i)" by (simp add: queued_def)
  ultimately show "queued (c_conns (chaos_finish c h t) i) = queued (c_conns c i)"
    by (simp add: chaos_finish_def Some Let_def)
qed

end
