(* ===== verification/Chaos_Stream_Inv.thy ===== *)
theory Chaos_Stream_Inv
  imports Chaos_Stream Chaos_Live
begin

text \<open>
  The invariant of the stream server: buffers within their bounds, and the connections in use
  are exactly those the clients own, each by one client. No connection leaks and no two clients
  share one, whatever the sockets and the network do.
\<close>

section \<open>The invariant\<close>

definition client_wf :: "StreamClient \<Rightarrow> bool" where
  "client_wf k \<longleftrightarrow>
     length (sc_line k) < STREAM_LINE_MAX \<and> length (sc_in k) \<le> STREAM_INBUF \<and>
     sc_outOff k \<le> length (sc_out k) \<and> length (sc_out k) \<le> STREAM_OUTBUF \<and>
     -1 \<le> sc_conn k \<and> sc_conn k < int CHAOS_MAX_CONNS \<and>
     (sc_state k = CLIENT_FREE \<or> sc_state k = CLIENT_LINE \<longrightarrow> sc_conn k = -1)"

definition owners_inv :: "StreamServer \<Rightarrow> bool" where
  "owners_inv s \<longleftrightarrow>
     (\<forall>i<CHAOS_MAX_CONNS. k_state (c_conns (s_core s) i) \<noteq> CONN_FREE \<longleftrightarrow>
        (\<exists>j<STREAM_MAX_CLIENTS. sc_conn (s_clients s j) = int i)) \<and>
     (\<forall>i j. i < STREAM_MAX_CLIENTS \<longrightarrow> j < STREAM_MAX_CLIENTS \<longrightarrow> 0 \<le> sc_conn (s_clients s i) \<longrightarrow>
        sc_conn (s_clients s i) = sc_conn (s_clients s j) \<longrightarrow> i = j)"

definition server_inv :: "StreamServer \<Rightarrow> bool" where
  "server_inv s \<longleftrightarrow> core_inv (s_core s) \<and> (\<forall>j<STREAM_MAX_CLIENTS. client_wf (s_clients s j)) \<and> owners_inv s"

lemma set_client_sel [simp]:
  "s_core (set_client s j k) = s_core s" "s_clients (set_client s j k) = (s_clients s)(j := k)"
  "s_socks (set_client s j k) = s_socks s" "s_hosts (set_client s j k) = s_hosts s"
  "s_listening (set_client s j k) = s_listening s"
  by (simp_all add: set_client_def)

lemma set_sock_sel [simp]:
  "s_core (set_sock s fd k) = s_core s" "s_clients (set_sock s fd k) = s_clients s"
  "s_socks (set_sock s fd k) = (s_socks s)(fd := k)" "s_hosts (set_sock s fd k) = s_hosts s"
  "s_listening (set_sock s fd k) = s_listening s"
  by (simp_all add: set_sock_def)

lemma server_inv_wf: "server_inv s \<Longrightarrow> j < STREAM_MAX_CLIENTS \<Longrightarrow> client_wf (s_clients s j)"
  by (simp add: server_inv_def)

section \<open>Ways to change the server\<close>

lemma server_inv_cong:
  "s_core s' = s_core s \<Longrightarrow> s_clients s' = s_clients s \<Longrightarrow> server_inv s' = server_inv s"
  by (simp add: server_inv_def owners_inv_def)

lemma server_inv_sock [simp]: "server_inv (set_sock s fd k) = server_inv s"
  by (rule server_inv_cong) simp_all

lemma server_inv_core:
  assumes "server_inv s" "core_inv c" "keeps_live (s_core s) c"
  shows "server_inv (s\<lparr>s_core := c\<rparr>)"
  using assms unfolding server_inv_def owners_inv_def keeps_live_def by simp

lemma server_inv_client:
  assumes "server_inv s" "client_wf k" "sc_conn k = sc_conn (s_clients s j)"
  shows "server_inv (set_client s j k)"
proof -
  have "sc_conn (((s_clients s)(j := k)) i) = sc_conn (s_clients s i)" for i using assms(3) by simp
  then show ?thesis using assms(1,2) unfolding server_inv_def owners_inv_def by simp
qed

lemma server_inv_client_core:
  assumes "server_inv s" "core_inv c" "keeps_live (s_core s) c" "client_wf k"
    "sc_conn k = sc_conn (s_clients s j)"
  shows "server_inv (set_client (s\<lparr>s_core := c\<rparr>) j k)"
  using server_inv_client [OF server_inv_core [OF assms(1-3)] assms(4), of j] assms(5) by simp

text \<open>A client gives up its connection.\<close>

lemma server_inv_release:
  assumes inv: "server_inv s" and j: "j < STREAM_MAX_CLIENTS" and k: "client_wf k" "sc_conn k = -1"
    and c: "c = (if sc_conn (s_clients s j) \<ge> 0
      then chaos_release (s_core s) (sc_conn (s_clients s j)) r t else s_core s)"
  shows "server_inv (set_client (s\<lparr>s_core := c\<rparr>) j k)"
proof -
  let ?h = "sc_conn (s_clients s j)"
  have own: "\<And>i. i < CHAOS_MAX_CONNS \<Longrightarrow> k_state (c_conns (s_core s) i) \<noteq> CONN_FREE \<longleftrightarrow>
        (\<exists>j<STREAM_MAX_CLIENTS. sc_conn (s_clients s j) = int i)"
    and inj: "\<And>i. i < STREAM_MAX_CLIENTS \<Longrightarrow> 0 \<le> ?h \<Longrightarrow> sc_conn (s_clients s i) = ?h \<Longrightarrow> i = j"
    using inv j unfolding server_inv_def owners_inv_def by metis+
  have h: "-1 \<le> ?h" "?h < int CHAOS_MAX_CONNS" using server_inv_wf [OF inv j] by (simp_all add: client_wf_def)
  have free: "k_state (c_conns c i) = CONN_FREE \<longleftrightarrow> k_state (c_conns (s_core s) i) = CONN_FREE \<or> int i = ?h" for i
  proof (cases "int i = ?h")
    case True
    then have "nat ?h = i" "0 \<le> ?h" by (simp_all flip: True)
    then show ?thesis using h True by (simp add: c chaos_release_conns conn_for_handle_def)
  next
    case False
    then show ?thesis by (auto simp: c chaos_release_conns conn_for_handle_def split: if_splits)
  qed
  have "k_state (c_conns c i) \<noteq> CONN_FREE \<longleftrightarrow>
      (\<exists>x<STREAM_MAX_CLIENTS. sc_conn (((s_clients s)(j := k)) x) = int i)" if "i < CHAOS_MAX_CONNS" for i
  proof -
    have "(\<exists>x<STREAM_MAX_CLIENTS. sc_conn (((s_clients s)(j := k)) x) = int i) \<longleftrightarrow>
      (\<exists>x<STREAM_MAX_CLIENTS. x \<noteq> j \<and> sc_conn (s_clients s x) = int i)"
      using k(2) by (auto simp: fun_upd_apply split: if_splits)
    also have "\<dots> \<longleftrightarrow> (\<exists>x<STREAM_MAX_CLIENTS. sc_conn (s_clients s x) = int i) \<and> int i \<noteq> ?h"
      using inj j by fastforce
    finally show ?thesis using free own [OF that] by blast
  qed
  moreover have "core_inv c" using inv core_inv_release by (simp add: c server_inv_def)
  ultimately show ?thesis
    using inv k unfolding server_inv_def owners_inv_def by (simp add: fun_upd_apply)
qed

text \<open>A client without a connection opens one.\<close>

lemma server_inv_open:
  assumes inv: "server_inv s" and j: "j < STREAM_MAX_CLIENTS" and none: "sc_conn (s_clients s j) = -1"
    and op: "chaos_open (s_core s) addr contact t = (c, h)" and k: "client_wf k" "sc_conn k = h"
  shows "server_inv (set_client (s\<lparr>s_core := c\<rparr>) j k)"
  using chaos_open_conns [OF op]
proof
  assume "h = -1 \<and> c = s_core s"
  then show ?thesis using server_inv_client [OF inv k(1), of j] none k(2) by simp
next
  assume "\<exists>i<CHAOS_MAX_CONNS. h = int i \<and> k_state (c_conns (s_core s) i) = CONN_FREE \<and>
      (\<forall>j. k_state (c_conns c j) = CONN_FREE \<longleftrightarrow> k_state (c_conns (s_core s) j) = CONN_FREE \<and> j \<noteq> i)"
  then obtain i where i: "i < CHAOS_MAX_CONNS" "h = int i" "k_state (c_conns (s_core s) i) = CONN_FREE"
    "\<And>j. k_state (c_conns c j) = CONN_FREE \<longleftrightarrow> k_state (c_conns (s_core s) j) = CONN_FREE \<and> j \<noteq> i" by blast
  have own: "\<And>i. i < CHAOS_MAX_CONNS \<Longrightarrow> k_state (c_conns (s_core s) i) \<noteq> CONN_FREE \<longleftrightarrow>
        (\<exists>j<STREAM_MAX_CLIENTS. sc_conn (s_clients s j) = int i)"
    using inv unfolding server_inv_def owners_inv_def by metis
  have unused: "sc_conn (s_clients s x) \<noteq> int i" if "x < STREAM_MAX_CLIENTS" for x
    using own [OF i(1)] i(3) that by blast
  have unused': "int i \<noteq> sc_conn (s_clients s x)" if "x < STREAM_MAX_CLIENTS" for x
    using unused [OF that] by simp
  have "k_state (c_conns c m) \<noteq> CONN_FREE \<longleftrightarrow>
      (\<exists>x<STREAM_MAX_CLIENTS. sc_conn (((s_clients s)(j := k)) x) = int m)" if "m < CHAOS_MAX_CONNS" for m
  proof -
    have "(\<exists>x<STREAM_MAX_CLIENTS. sc_conn (((s_clients s)(j := k)) x) = int m) \<longleftrightarrow>
      m = i \<or> (\<exists>x<STREAM_MAX_CLIENTS. x \<noteq> j \<and> sc_conn (s_clients s x) = int m)"
      using k(2) i(2) j by (auto simp: fun_upd_apply split: if_splits)
    moreover have "sc_conn (s_clients s j) \<noteq> int m" using none by simp
    ultimately have "(\<exists>x<STREAM_MAX_CLIENTS. sc_conn (((s_clients s)(j := k)) x) = int m) \<longleftrightarrow>
      m = i \<or> (\<exists>x<STREAM_MAX_CLIENTS. sc_conn (s_clients s x) = int m)" by metis
    then show ?thesis using own [OF that] i(4) by blast
  qed
  moreover have "core_inv c" using inv core_inv_open [of "s_core s" addr contact t] op by (simp add: server_inv_def)
  ultimately show ?thesis
    using inv k i(2) unused unused' unfolding server_inv_def owners_inv_def by (simp add: fun_upd_apply)
qed

section \<open>The operations keep the invariant\<close>

lemma free_client_wf: "client_wf (zero_client\<lparr>sc_state := CLIENT_FREE, sc_fd := fd, sc_conn := -1\<rparr>)"
  "client_wf (zero_client\<lparr>sc_state := CLIENT_LINE, sc_fd := fd, sc_conn := -1\<rparr>)"
  by (simp_all add: client_wf_def zero_client_def)

lemma server_inv_close:
  assumes inv: "server_inv s" and j: "j < STREAM_MAX_CLIENTS"
  shows "server_inv (client_close s j r t)"
proof -
  let ?c = "if sc_conn (s_clients s j) \<ge> 0
      then chaos_release (s_core s) (sc_conn (s_clients s j)) r t else s_core s"
  have "server_inv (set_client (s\<lparr>s_core := ?c\<rparr>) j (zero_client\<lparr>sc_state := CLIENT_FREE, sc_fd := -1, sc_conn := -1\<rparr>))"
    by (rule server_inv_release [OF inv j free_client_wf(1) _ refl]) simp
  moreover have "s_core (client_close s j r t) = ?c"
    "s_clients (client_close s j r t) = (s_clients s)(j := zero_client\<lparr>sc_state := CLIENT_FREE, sc_fd := -1, sc_conn := -1\<rparr>)"
    by (simp_all add: client_close_def Let_def)
  ultimately show ?thesis
    using server_inv_cong [of "client_close s j r t"
        "set_client (s\<lparr>s_core := ?c\<rparr>) j (zero_client\<lparr>sc_state := CLIENT_FREE, sc_fd := -1, sc_conn := -1\<rparr>)"]
    by simp
qed

lemma out_append_wf: "client_wf k \<Longrightarrow> client_wf (out_append k bs)"
  by (auto simp: client_wf_def out_append_def out_compact_def Let_def)

lemma out_append_sel [simp]:
  "sc_conn (out_append k bs) = sc_conn k" "sc_state (out_append k bs) = sc_state k"
  "sc_in (out_append k bs) = sc_in k" "sc_line (out_append k bs) = sc_line k"
  "sc_fd (out_append k bs) = sc_fd k"
  by (simp_all add: out_append_def out_compact_def Let_def)

lemma out_line_wf: "client_wf k \<Longrightarrow> client_wf (out_line k v bs)"
  unfolding out_line_def Let_def by (rule out_append_wf)

lemma out_line_sel [simp]: "sc_conn (out_line k v bs) = sc_conn k" "sc_state (out_line k v bs) = sc_state k"
  by (simp_all add: out_line_def Let_def)

lemma client_wf_state:
  "client_wf k \<Longrightarrow> st \<noteq> CLIENT_FREE \<Longrightarrow> st \<noteq> CLIENT_LINE \<Longrightarrow> client_wf (k\<lparr>sc_state := st\<rparr>)"
  by (simp add: client_wf_def)

lemma fail_client_wf: "client_wf k \<Longrightarrow> client_wf (fail_client k v bs)"
  unfolding fail_client_def by (rule client_wf_state [OF out_line_wf]) simp_all

lemma fail_client_sel [simp]: "sc_conn (fail_client k v bs) = sc_conn k"
  by (simp add: fail_client_def)

lemma server_inv_fail: "server_inv s \<Longrightarrow> j < STREAM_MAX_CLIENTS \<Longrightarrow>
    server_inv (set_client s j (fail_client (s_clients s j) v bs))"
  by (simp add: server_inv_client fail_client_wf server_inv_wf)

lemma chaos_open_handle: "chaos_open c addr contact t = (c', h) \<Longrightarrow> -1 \<le> h \<and> h < int CHAOS_MAX_CONNS"
  by (drule chaos_open_conns) (elim disjE exE conjE, simp_all)

lemma server_inv_request:
  assumes inv: "server_inv s" and j: "j < STREAM_MAX_CLIENTS" and line: "sc_state (s_clients s j) = CLIENT_LINE"
  shows "server_inv (handle_request s j t)"
proof -
  have wf: "client_wf (s_clients s j)" using server_inv_wf [OF inv j] .
  then have none: "sc_conn (s_clients s j) = -1" using line by (simp add: client_wf_def)
  have step: "server_inv (set_client (s\<lparr>s_core := c\<rparr>) j k)"
    if "chaos_open (s_core s) addr contact t = (c, h)"
      "k = fail_client ((s_clients s j)\<lparr>sc_addr := addr, sc_conn := h\<rparr>) v bs \<and> h < 0 \<or>
       k = (s_clients s j)\<lparr>sc_addr := addr, sc_conn := h, sc_state := CLIENT_WAIT_OPN\<rparr>" for addr contact c h k v bs
  proof (rule server_inv_open [OF inv j none that(1)])
    show "sc_conn k = h" using that(2) by auto
    have h: "-1 \<le> h" "h < int CHAOS_MAX_CONNS" using chaos_open_handle [OF that(1)] by auto
    have "client_wf ((s_clients s j)\<lparr>sc_addr := addr, sc_conn := h\<rparr>)" if "h < 0"
      using wf h that by (simp add: client_wf_def)
    then have "h < 0 \<Longrightarrow> client_wf (fail_client ((s_clients s j)\<lparr>sc_addr := addr, sc_conn := h\<rparr>) v bs)"
      using fail_client_wf by blast
    then show "client_wf k" using that(2) wf h by (auto simp: client_wf_def)
  qed
  have failed: "server_inv (set_client (s\<lparr>s_core := c\<rparr>) j
      (fail_client ((s_clients s j)\<lparr>sc_addr := addr, sc_conn := h\<rparr>) v bs))"
    if "chaos_open (s_core s) addr contact t = (c, h)" "h < 0" for addr contact c h v bs
    using step [OF that(1)] that(2) by blast
  have waits: "server_inv (set_client (s\<lparr>s_core := c\<rparr>) j
      ((s_clients s j)\<lparr>sc_addr := addr, sc_conn := h, sc_state := CLIENT_WAIT_OPN\<rparr>))"
    if "chaos_open (s_core s) addr contact t = (c, h)" for addr contact c h
    using step [OF that] by blast
  show ?thesis
    unfolding handle_request_def Let_def
    using server_inv_fail [OF inv j] by (auto split: option.split prod.split intro: failed waits)
qed

lemma server_inv_line_input:
  assumes "server_inv s" "j < STREAM_MAX_CLIENTS" "sc_state (s_clients s j) = CLIENT_LINE"
  shows "server_inv (line_input s j bs t)"
  using assms
proof (induction s j bs t rule: line_input.induct)
  case (2 s j b bs t)
  let ?k = "s_clients s j"
  have wf: "client_wf ?k" using "2.prems" by (simp add: server_inv_wf)
  show ?case
  proof (cases "b = 13 \<or> b = 10")
    case True
    have "server_inv (handle_request (set_client s j (?k\<lparr>sc_skipLf := x\<rparr>)) j t)"
      "server_inv (handle_request (set_client s j (?k\<lparr>sc_in := take STREAM_INBUF r, sc_skipLf := False\<rparr>)) j t)" for x r
      using "2.prems" wf by (auto intro!: server_inv_request server_inv_client simp: client_wf_def)
    then show ?thesis using True by (auto simp: Let_def)
  next
    case other: False
    show ?thesis
    proof (cases "length (sc_line ?k) \<ge> STREAM_LINE_MAX - 1")
      case True
      then show ?thesis using other server_inv_fail "2.prems" by (auto simp: Let_def)
    next
      case False
      have "server_inv (set_client s j (?k\<lparr>sc_line := sc_line ?k @ [b]\<rparr>))"
        using "2.prems"(1) False wf by (intro server_inv_client) (auto simp: client_wf_def)
      then show ?thesis using "2.IH" [OF refl other False] "2.prems" other False by (auto simp: Let_def)
    qed
  qed
qed simp

text \<open>\<^verbatim>\<open>read\<close> returns at most the number of bytes asked for.\<close>

definition read_ok :: "StreamClient \<Rightarrow> ReadResult \<Rightarrow> bool" where
  "read_ok k r \<longleftrightarrow> (case r of ReadBytes bs \<Rightarrow> length bs \<le> read_want k | _ \<Rightarrow> True)"

lemma server_inv_read:
  assumes inv: "server_inv s" and j: "j < STREAM_MAX_CLIENTS" and r: "read_ok (s_clients s j) r"
    and st: "sc_state (s_clients s j) \<noteq> CLIENT_FREE"
  shows "server_inv (client_read s j r t)"
proof -
  let ?k = "s_clients s j"
  have wf: "client_wf ?k" using server_inv_wf [OF inv j] .
  have "client_wf (?k\<lparr>sc_skipLf := False, sc_in := sc_in ?k @ bs\<rparr>)"
    if "length bs \<le> STREAM_INBUF - length (sc_in ?k)" for bs
    using wf that by (auto simp: client_wf_def)
  then have data: "server_inv (set_client s j (?k\<lparr>sc_skipLf := False, sc_in := sc_in ?k @ bs\<rparr>))"
    if "length bs \<le> STREAM_INBUF - length (sc_in ?k)" for bs
    using that inv by (intro server_inv_client) simp_all
  have eof: "server_inv (set_client s j (?k\<lparr>sc_sockEof := True\<rparr>))"
    using inv wf by (intro server_inv_client) (simp_all add: client_wf_def)
  show ?thesis
  proof (cases r)
    case (ReadBytes bs)
    have "length (tl bs) \<le> length bs" by simp
    then show ?thesis
      using ReadBytes r data [of bs] data [of "tl bs"] inv server_inv_line_input [OF inv j]
      by (auto simp: client_read_def Let_def read_ok_def read_want_def split: if_splits)
  qed (use inv eof server_inv_close [OF inv j] in \<open>auto simp: client_read_def Let_def\<close>)
qed

lemma write_loop_off:
  "write_loop rs out off wr = (rs', off', wr', e) \<Longrightarrow> off \<le> length out \<Longrightarrow>
    off' \<le> length out \<and> off \<le> off' \<and> wr' @ drop off' out = wr @ drop off out \<and> (e = WriteDone \<longrightarrow> off' = length out)"
proof (induction rs out off wr rule: write_loop.induct)
  case (2 r rs out off wr)
  show ?case
  proof (cases "off < length out")
    case True
    show ?thesis
    proof (cases r)
      case (Wrote n)
      let ?n = "min n (length out - off)"
      have "wr @ take ?n (drop off out) @ drop (off + ?n) out = wr @ drop off out"
        by (metis append_take_drop_id add.commute drop_drop)
      moreover have "write_loop rs out (off + ?n) (wr @ take ?n (drop off out)) = (rs', off', wr', e)"
        using "2.prems"(1) True Wrote by (simp add: Let_def)
      moreover have "off + ?n \<le> length out" using True by simp
      ultimately show ?thesis using "2.IH" [OF True Wrote refl] by (metis append.assoc le_trans le_add1)
    qed (use 2 True in auto)
  qed (use 2 in auto)
qed (auto split: if_splits)

lemma server_inv_write:
  assumes inv: "server_inv s" and j: "j < STREAM_MAX_CLIENTS"
  shows "server_inv (fst (client_write s j t))"
proof -
  let ?k = "s_clients s j" and ?sk = "s_socks s (sc_fd (s_clients s j))"
  obtain rs off wr e where w: "write_loop (sk_results ?sk) (sc_out ?k) (sc_outOff ?k) (sk_written ?sk) = (rs, off, wr, e)"
    by (metis prod_cases4)
  have wf: "client_wf ?k" using server_inv_wf [OF inv j] .
  then have off: "off \<le> length (sc_out ?k)" using write_loop_off [OF w] by (simp add: client_wf_def)
  let ?s = "set_sock s (sc_fd ?k) (?sk\<lparr>sk_results := rs, sk_written := wr\<rparr>)"
  have inv': "server_inv ?s" using inv by simp
  have "server_inv (set_client ?s j (?k\<lparr>sc_outOff := 0, sc_out := []\<rparr>))"
    using inv' wf by (intro server_inv_client) (simp_all add: client_wf_def)
  moreover have later: "server_inv (set_client ?s j (?k\<lparr>sc_outOff := off\<rparr>))"
    using inv' wf off by (intro server_inv_client) (simp_all add: client_wf_def)
  moreover have "server_inv (client_close (set_client ?s j (?k\<lparr>sc_outOff := off\<rparr>)) j r t)" for r
    using later j by (rule server_inv_close)
  ultimately show ?thesis by (simp add: client_write_def Let_def w split: WriteEnd.split)
qed

lemma server_inv_refusal: "client_wf k \<Longrightarrow> client_wf (refusal k conn)" "sc_conn (refusal k conn) = sc_conn k"
  by (auto simp: refusal_def out_line_wf out_append_wf split: ChaosCloseKind.split)

lemma server_inv_wait:
  assumes inv: "server_inv s" and j: "j < STREAM_MAX_CLIENTS" and st: "sc_state (s_clients s j) = CLIENT_WAIT_OPN"
  shows "server_inv (fst (service_wait s j t))"
proof (cases "chaos_conn (s_core s) (sc_conn (s_clients s j))")
  case None
  then show ?thesis using server_inv_fail [OF inv j] by (simp add: service_wait_def Let_def)
next
  case (Some conn)
  let ?k = "s_clients s j"
  have wf: "client_wf ?k" using server_inv_wf [OF inv j] .
  have conn: "sc_conn ?k \<ge> 0" using Some by (auto simp: chaos_conn_def conn_for_handle_def split: if_splits)
  have "server_inv (set_client s j ((out_append ?k bs)\<lparr>sc_state := CLIENT_STREAM\<rparr>))" for bs
    using inv wf by (intro server_inv_client client_wf_state out_append_wf) simp_all
  moreover have "client_wf ((refusal ?k conn)\<lparr>sc_conn := -1, sc_state := CLIENT_DRAIN\<rparr>)"
    using server_inv_refusal(1) [OF wf, of conn] by (simp add: client_wf_def)
  then have "server_inv (set_client (s\<lparr>s_core := chaos_release (s_core s) (sc_conn ?k) [] t\<rparr>) j
      ((refusal ?k conn)\<lparr>sc_conn := -1, sc_state := CLIENT_DRAIN\<rparr>))"
    using conn by (intro server_inv_release [OF inv j, where r = "[]" and t = t]) simp_all
  ultimately show ?thesis using inv by (simp add: service_wait_def Let_def Some)
qed

lemma server_inv_outward:
  assumes inv: "server_inv s" and j: "j < STREAM_MAX_CLIENTS" and st: "sc_state (s_clients s j) = CLIENT_STREAM"
  shows "server_inv (stream_outward s j i t)" "sc_state (s_clients (stream_outward s j i t) j) = CLIENT_STREAM"
proof -
  let ?k = "s_clients s j"
  define s1 where "s1 = (if length (sc_in ?k) > 0 \<and> k_state (c_conns (s_core s) i) = CONN_OPEN then
       let (core, n) = chaos_send (s_core s) (sc_conn ?k) (sc_in ?k) t
       in set_client (s\<lparr>s_core := core\<rparr>) j (?k\<lparr>sc_in := drop n (sc_in ?k)\<rparr>)
     else s)"
  have wf: "client_wf ?k" using server_inv_wf [OF inv j] .
  have core: "core_inv (s_core s)" using inv by (simp add: server_inv_def)
  have "server_inv (set_client (s\<lparr>s_core := fst (chaos_send (s_core s) (sc_conn ?k) (sc_in ?k) t)\<rparr>) j (?k\<lparr>sc_in := drop n (sc_in ?k)\<rparr>))" for n
    using inv wf core_inv_send [OF core] keeps_live_same [OF same_states_send]
    by (intro server_inv_client_core) (auto simp: client_wf_def)
  then have inv1: "server_inv s1" using inv by (simp add: s1_def split_def Let_def)
  have st1: "sc_state (s_clients s1 j) = CLIENT_STREAM" using st by (simp add: s1_def split_def Let_def)
  have core1: "core_inv (s_core s1)" using inv1 by (simp add: server_inv_def)
  have "server_inv (set_client (s1\<lparr>s_core := chaos_finish (s_core s1) (sc_conn (s_clients s1 j)) t\<rparr>) j ((s_clients s1 j)\<lparr>sc_finished := True\<rparr>))"
    using inv1 server_inv_wf [OF inv1 j] core_inv_finish [OF core1] keeps_live_same [OF same_states_finish]
    by (intro server_inv_client_core) (simp_all add: client_wf_def)
  then show "server_inv (stream_outward s j i t)" "sc_state (s_clients (stream_outward s j i t) j) = CLIENT_STREAM"
    using inv1 st1 unfolding stream_outward_def Let_def [of "s_clients s j"] s1_def [symmetric] Let_def [of s1]
    by (simp_all add: Let_def)
qed

lemma server_inv_inward:
  assumes inv: "server_inv s" and j: "j < STREAM_MAX_CLIENTS"
  shows "server_inv (stream_inward s j t)"
proof -
  let ?k = "out_compact (s_clients s j)"
  have wf: "client_wf ?k" "sc_conn ?k = sc_conn (s_clients s j)"
    using server_inv_wf [OF inv j] by (auto simp: client_wf_def out_compact_def)
  have core: "core_inv (s_core s)" using inv by (simp add: server_inv_def)
  obtain c got where r: "chaos_recv (s_core s) (sc_conn ?k) (STREAM_OUTBUF - length (sc_out ?k)) t = (c, got)" by fastforce
  have "length got \<le> STREAM_OUTBUF - length (sc_out ?k)"
    using chaos_reader.recv_out [OF core, of "sc_conn ?k" "STREAM_OUTBUF - length (sc_out ?k)" t] r by simp
  then have "client_wf (?k\<lparr>sc_out := sc_out ?k @ got\<rparr>)" using wf(1) by (auto simp: client_wf_def)
  moreover have "core_inv c" "keeps_live (s_core s) c"
    using core_inv_recv [OF core] keeps_live_same [OF same_states_recv [OF core]] r by (metis fst_conv)+
  ultimately have "server_inv (set_client (s\<lparr>s_core := c\<rparr>) j (?k\<lparr>sc_out := sc_out ?k @ got\<rparr>))"
    using inv wf(2) by (intro server_inv_client_core) simp_all
  moreover have "server_inv (set_client s j ?k)" using inv wf by (intro server_inv_client) simp_all
  ultimately show ?thesis by (simp add: stream_inward_def Let_def r)
qed

lemma server_inv_finish:
  assumes inv: "server_inv s" and j: "j < STREAM_MAX_CLIENTS"
  shows "server_inv (fst (stream_finish s j i t))"
proof -
  let ?k = "s_clients s j"
  define s1 where "s1 = (if chaos_recv_eof (s_core s) (sc_conn ?k) \<and> sc_out ?k = [] \<and> \<not> sc_wrShut ?k
     then set_client (set_sock s (sc_fd ?k) ((s_socks s (sc_fd ?k))\<lparr>sk_shut := True\<rparr>)) j (?k\<lparr>sc_wrShut := True\<rparr>)
     else s)"
  have "server_inv s1"
    using inv server_inv_wf [OF inv j] by (auto simp: s1_def client_wf_def intro!: server_inv_client)
  then show ?thesis
    unfolding stream_finish_def Let_def [of "s_clients s j"] s1_def [symmetric]
    using server_inv_close [OF _ j] by (simp add: Let_def)
qed

lemma server_inv_service_stream:
  assumes inv: "server_inv s" and j: "j < STREAM_MAX_CLIENTS" and st: "sc_state (s_clients s j) = CLIENT_STREAM"
  shows "server_inv (fst (service_stream s j t))"
proof (cases "conn_for_handle (s_core s) (sc_conn (s_clients s j))")
  case None
  have "server_inv (set_client s j ((s_clients s j)\<lparr>sc_state := CLIENT_DRAIN\<rparr>))"
    using inv server_inv_wf [OF inv j] by (intro server_inv_client client_wf_state) simp_all
  then show ?thesis by (simp add: service_stream_def None)
next
  case (Some i)
  let ?s = "stream_inward (stream_outward s j i t) j t"
  have "server_inv (fst (client_write ?s j t))"
    using server_inv_outward(1) [OF inv j st] j by (intro server_inv_write server_inv_inward)
  then show ?thesis
    using server_inv_finish [OF _ j] by (simp add: service_stream_def Some Let_def split_def)
qed

lemma server_inv_drain:
  assumes inv: "server_inv s" and j: "j < STREAM_MAX_CLIENTS"
  shows "server_inv (service_drain s j t)"
  using server_inv_write [OF inv j, of t] server_inv_close [OF server_inv_write [OF inv j, of t] j] inv
  by (auto simp: service_drain_def split_def Let_def)

lemma server_inv_client_service:
  assumes inv: "server_inv s" and j: "j < STREAM_MAX_CLIENTS"
  shows "server_inv (client_service s j t)"
proof -
  have wait: "server_inv (fst (service_wait s j t))" if "sc_state (s_clients s j) = CLIENT_WAIT_OPN"
    using server_inv_wait [OF inv j that] .
  have st: "sc_state (s_clients (fst (service_wait s j t)) j) = CLIENT_STREAM" if "snd (service_wait s j t)"
    using that by (auto simp: service_wait_def Let_def split: option.splits if_splits)
  define r where "r = (if sc_state (s_clients s j) = CLIENT_WAIT_OPN then service_wait s j t
                       else (s, sc_state (s_clients s j) = CLIENT_STREAM))"
  have inv1: "server_inv (fst r)" using wait inv by (simp add: r_def)
  have st1: "sc_state (s_clients (fst r) j) = CLIENT_STREAM" if "snd r"
    using that st by (auto simp: r_def split: if_splits)
  define q where "q = (if snd r then service_stream (fst r) j t else (fst r, False))"
  have inv2: "server_inv (fst q)"
    using inv1 st1 server_inv_service_stream [OF inv1 j] by (simp add: q_def)
  have "client_service s j t = (if snd q then fst q else service_drain (fst q) j t)"
    unfolding client_service_def r_def [symmetric] by (simp add: split_def q_def)
  then show ?thesis using inv2 server_inv_drain [OF inv2 j] by simp
qed

section \<open>One iteration of the server\<close>

text \<open>An operation on a client leaves the other clients alone.\<close>

lemma close_other: "i \<noteq> j \<Longrightarrow> s_clients (client_close s j r t) i = s_clients s i"
  by (simp add: client_close_def Let_def)

lemma write_other: "i \<noteq> j \<Longrightarrow> s_clients (fst (client_write s j t)) i = s_clients s i"
  by (simp add: client_write_def Let_def close_other split: prod.split WriteEnd.split)

lemma request_other: "i \<noteq> j \<Longrightarrow> s_clients (handle_request s j t) i = s_clients s i"
  by (simp add: handle_request_def Let_def split: prod.split option.split)

lemma line_input_other: "i \<noteq> j \<Longrightarrow> s_clients (line_input s j bs t) i = s_clients s i"
  by (induction s j bs t rule: line_input.induct) (auto simp: Let_def request_other)

lemma read_other: "i \<noteq> j \<Longrightarrow> s_clients (client_read s j r t) i = s_clients s i"
  by (simp add: client_read_def Let_def close_other line_input_other split: ReadResult.split)

lemma poll_other: "i \<noteq> j \<Longrightarrow> s_clients (poll_client env events j s) i = s_clients s i"
  by (simp add: poll_client_def Let_def split_def read_other write_other close_other)

text \<open>A write that does not fail changes only the output buffer of the client.\<close>

lemma write_own:
  assumes "snd (client_write s j t)"
  shows "sc_state (s_clients (fst (client_write s j t)) j) = sc_state (s_clients s j)"
    "sc_in (s_clients (fst (client_write s j t)) j) = sc_in (s_clients s j)"
    "sc_conn (s_clients (fst (client_write s j t)) j) = sc_conn (s_clients s j)"
    "sc_fd (s_clients (fst (client_write s j t)) j) = sc_fd (s_clients s j)"
    "s_core (fst (client_write s j t)) = s_core s"
  using assms by (auto simp: client_write_def Let_def split: prod.splits WriteEnd.splits)

lemma server_inv_poll:
  assumes inv: "server_inv s" and j: "j < STREAM_MAX_CLIENTS" and r: "read_ok (s_clients s j) (e_read env j)"
  shows "server_inv (poll_client env events j s)"
proof -
  define w where "w = (if pe_out (events j) \<and> (pr_out (e_revents env j) \<or> pr_hup (e_revents env j) \<or> pr_err (e_revents env j))
    then client_write s j (e_now env) else (s, True))"
  have inv': "server_inv (fst w)" using inv server_inv_write [OF inv j] by (simp add: w_def)
  have own: "sc_state (s_clients (fst w) j) = sc_state (s_clients s j)" "sc_in (s_clients (fst w) j) = sc_in (s_clients s j)"
    if "snd w" using that write_own [of s j "e_now env"] by (auto simp: w_def split: if_splits)
  have "read_ok (s_clients (fst w) j) (e_read env j)" if "snd w"
    using r own [OF that] by (simp add: read_ok_def read_want_def split: ReadResult.splits if_splits)
  then have "server_inv (client_read (fst w) j (e_read env j) (e_now env))"
    if "snd w" "sc_state (s_clients s j) \<noteq> CLIENT_FREE"
    using that own inv' j by (intro server_inv_read) simp_all
  then show ?thesis
    unfolding poll_client_def Let_def w_def [symmetric] split_def
    using inv inv' server_inv_close [OF inv' j] by simp
qed

lemma server_inv_poll_fold:
  assumes "server_inv s" "distinct is" "\<And>i. i \<in> set is \<Longrightarrow> i < STREAM_MAX_CLIENTS \<and> read_ok (s_clients s i) (e_read env i)"
  shows "server_inv (fold (poll_client env events) is s)"
  using assms
proof (induction "is" arbitrary: s)
  case (Cons i "is")
  have "server_inv (poll_client env events i s)" using Cons.prems by (intro server_inv_poll) simp_all
  moreover have "s_clients (poll_client env events i s) j = s_clients s j" if "j \<in> set is" for j
    using that Cons.prems(2) by (intro poll_other) auto
  ultimately show ?case using Cons by simp
qed simp

lemma server_inv_adopt: "server_inv s \<Longrightarrow> server_inv (fst (stream_adopt s fd))"
proof -
  assume inv: "server_inv s"
  show ?thesis
  proof (cases "find (\<lambda>i. sc_state (s_clients s i) = CLIENT_FREE) [0..<STREAM_MAX_CLIENTS]")
    case (Some i)
    then have i: "i < STREAM_MAX_CLIENTS" "sc_state (s_clients s i) = CLIENT_FREE"
      by (auto simp: find_Some_iff simp del: upt_rec_numeral)
    then have "sc_conn (s_clients s i) = -1" using server_inv_wf [OF inv i(1)] by (simp add: client_wf_def)
    then have "server_inv (set_client s i (zero_client\<lparr>sc_state := CLIENT_LINE, sc_fd := fd, sc_conn := -1\<rparr>))"
      using inv free_client_wf(2) by (intro server_inv_client) simp_all
    then show ?thesis using Some by (simp add: stream_adopt_def)
  qed (simp add: stream_adopt_def inv)
qed

lemma server_inv_accept: "server_inv s \<Longrightarrow> server_inv (fold accept_one fds s)"
proof (induction fds arbitrary: s)
  case (Cons fd fds)
  have "server_inv (accept_one fd s)"
    using Cons.prems server_inv_adopt [OF Cons.prems] by (simp add: accept_one_def split_def Let_def)
  then show ?case using Cons.IH by simp
qed simp

lemma server_inv_fold:
  assumes "\<And>i s. i < STREAM_MAX_CLIENTS \<Longrightarrow> server_inv s \<Longrightarrow> server_inv (f i s)" "server_inv s"
    "\<forall>i \<in> set is. i < STREAM_MAX_CLIENTS"
  shows "server_inv (fold f is s)"
  using assms(2,3) by (induction "is" arbitrary: s) (auto intro: assms(1))

lemma server_inv_service: "server_inv s \<Longrightarrow> server_inv (stream_service s t)"
  unfolding stream_service_def
  by (rule server_inv_fold) (auto intro: server_inv_client_service simp del: upt_rec_numeral)

lemma server_inv_shutdown: "server_inv s \<Longrightarrow> server_inv (stream_shutdown s t)"
proof -
  assume inv: "server_inv s"
  have "server_inv (fold (\<lambda>i s. if sc_state (s_clients s i) \<noteq> CLIENT_FREE
      then client_close s i (c_bytes ''chaosd shutting down'') t else s) [0..<STREAM_MAX_CLIENTS] s)"
    by (rule server_inv_fold [OF _ inv]) (auto intro: server_inv_close simp del: upt_rec_numeral)
  then show ?thesis
    unfolding stream_shutdown_def Let_def by (subst server_inv_cong) (simp_all del: upt_rec_numeral)
qed

definition env_ok :: "StreamServer \<Rightarrow> StepEnv \<Rightarrow> bool" where
  "env_ok s env \<longleftrightarrow> (\<forall>i<STREAM_MAX_CLIENTS. read_ok (s_clients s i) (e_read env i))"

lemma server_inv_stream_step: "server_inv s \<Longrightarrow> env_ok s env \<Longrightarrow> server_inv (fst (stream_step s extra env))"
proof -
  assume inv: "server_inv s" and env: "env_ok s env"
  define s1 where "s1 = fold (poll_client env (client_events s))
    (filter (\<lambda>i. sc_state (s_clients s i) \<noteq> CLIENT_FREE) [0..<STREAM_MAX_CLIENTS]) s"
  have "server_inv s1"
    unfolding s1_def using inv env
    by (intro server_inv_poll_fold) (auto simp: env_ok_def simp del: upt_rec_numeral)
  then show ?thesis
    unfolding stream_step_def Let_def s1_def [symmetric]
    using server_inv_accept server_inv_service by simp
qed

section \<open>Runs of the daemon\<close>

text \<open>
  A step of the daemon: an iteration of the server, a frame from the network, a timer tick, or
  the service calls between them; shutdown ends the run. The server starts with a fresh core.
\<close>

inductive server_step :: "StreamServer \<Rightarrow> StreamServer \<Rightarrow> bool" where
  sv_step: "env_ok s env \<Longrightarrow> server_step s (fst (stream_step s extra env))"
| sv_service: "server_step s (stream_service s t)"
| sv_input: "server_step s (s\<lparr>s_core := chaos_core_input (s_core s) frame t\<rparr>)"
| sv_tick: "server_step s (s\<lparr>s_core := chaos_core_tick (s_core s) t\<rparr>)"
| sv_add_host: "server_step s (fst (stream_add_host s spec))"
| sv_shutdown: "server_step s (stream_shutdown s t)"

definition server_start :: "StreamServer \<Rightarrow> bool" where
  "server_start s \<longleftrightarrow> (\<exists>c socks lis. core_start c \<and> s = (stream_init c socks)\<lparr>s_listening := lis\<rparr>)"

lemma server_inv_init: "server_start s \<Longrightarrow> server_inv s"
proof -
  assume "server_start s"
  then obtain c socks lis where c: "core_start c" "s = (stream_init c socks)\<lparr>s_listening := lis\<rparr>"
    by (auto simp: server_start_def)
  have "k_state (c_conns c i) = CONN_FREE" for i
    using c(1) by (auto simp: core_start_def chaos_core_init_def zero_conn_def)
  moreover have "core_inv c" using c(1) by (rule core.init_inv)
  ultimately show ?thesis
    by (simp add: c(2) server_inv_def owners_inv_def stream_init_def zero_client_def client_wf_def)
qed

lemma server_inv_step: "server_step s s' \<Longrightarrow> server_inv s \<Longrightarrow> server_inv s'"
proof (induction rule: server_step.induct)
  case (sv_input s frame t)
  then show ?case
    using server_inv_core [OF sv_input] core_inv_input keeps_live_input by (simp add: server_inv_def)
next
  case (sv_tick s t)
  then show ?case
    using server_inv_core [OF sv_tick] core_inv_tick keeps_live_tick by (simp add: server_inv_def)
next
  case (sv_add_host s spec)
  have "s_core (fst (stream_add_host s spec)) = s_core s" "s_clients (fst (stream_add_host s spec)) = s_clients s"
    by (simp_all add: stream_add_host_def Let_def split_def)
  then show ?case using sv_add_host server_inv_cong by blast
qed (simp_all add: server_inv_stream_step server_inv_service server_inv_shutdown)

interpretation server: invariant_system server_start server_step server_inv
  by unfold_locales (auto intro: server_inv_init server_inv_step)

end
