(* ===== verification/Chaos_Bridge.thy ===== *)
theory Chaos_Bridge
  imports Chaos_Stream_Inv
begin

text \<open>
  The bridge between a client's socket and its connection: serving a client moves bytes between
  the socket, the buffers and the connection without losing, repeating or reordering any. Then
  the request line: octal addresses and the words of a request read back as printed.
\<close>

section \<open>The two streams of a client\<close>

text \<open>From the connection to the socket: written, buffered, pending. And from the socket: queued, buffered.\<close>

definition down_stream :: "StreamServer \<Rightarrow> nat \<Rightarrow> byte list" where
  "down_stream s j =
     (let k = s_clients s j
      in sk_written (s_socks s (sc_fd k)) @ drop (sc_outOff k) (sc_out k) @ handle_pending (sc_conn k) (s_core s))"

definition up_stream :: "StreamServer \<Rightarrow> nat \<Rightarrow> byte list" where
  "up_stream s j = (let k = s_clients s j in handle_queued (sc_conn k) (s_core s) @ sc_in k)"

text \<open>What a step on a client keeps of it.\<close>

definition same_client :: "StreamServer \<Rightarrow> StreamServer \<Rightarrow> nat \<Rightarrow> bool" where
  "same_client s s' j \<longleftrightarrow>
     sc_fd (s_clients s' j) = sc_fd (s_clients s j) \<and> sc_conn (s_clients s' j) = sc_conn (s_clients s j) \<and>
     sc_state (s_clients s' j) = sc_state (s_clients s j)"

definition bridges :: "StreamServer \<Rightarrow> StreamServer \<Rightarrow> nat \<Rightarrow> bool" where
  "bridges s s' j \<longleftrightarrow> same_client s s' j \<and> down_stream s' j = down_stream s j \<and> up_stream s' j = up_stream s j"

lemma bridges_refl [simp]: "bridges s s j"
  by (simp add: bridges_def same_client_def)

lemma bridges_trans: "bridges a b j \<Longrightarrow> bridges b c j \<Longrightarrow> bridges a c j"
  by (simp add: bridges_def same_client_def)

lemma bridges_outward:
  assumes inv: "server_inv s" and j: "j < STREAM_MAX_CLIENTS" and st: "sc_state (s_clients s j) = CLIENT_STREAM"
  shows "bridges s (stream_outward s j i t) j" "s_socks (stream_outward s j i t) = s_socks s"
proof -
  let ?k = "s_clients s j"
  define s1 where "s1 = (if length (sc_in ?k) > 0 \<and> k_state (c_conns (s_core s) i) = CONN_OPEN then
       let (core, n) = chaos_send (s_core s) (sc_conn ?k) (sc_in ?k) t
       in set_client (s\<lparr>s_core := core\<rparr>) j (?k\<lparr>sc_in := drop n (sc_in ?k)\<rparr>)
     else s)"
  have core: "core_inv (s_core s)" using inv by (simp add: server_inv_def)
  have b1: "bridges s s1 j" "s_socks s1 = s_socks s"
    using chaos_writer.send_resume [OF core, of "sc_conn ?k" "sc_in ?k" t]
      send_keeps_pending [of "sc_conn ?k" "s_core s" "sc_conn ?k" "sc_in ?k" t]
    by (auto simp: s1_def split_def Let_def bridges_def same_client_def down_stream_def up_stream_def)
  have "core_inv (s_core s1)"
    using core core_inv_send [OF core] by (simp add: s1_def split_def Let_def)
  then have "bridges s1 (set_client (s1\<lparr>s_core := chaos_finish (s_core s1) (sc_conn (s_clients s1 j)) t\<rparr>) j
      ((s_clients s1 j)\<lparr>sc_finished := True\<rparr>)) j"
    by (simp add: bridges_def same_client_def down_stream_def up_stream_def Let_def finish_keeps_pending finish_keeps_queued)
  then show "bridges s (stream_outward s j i t) j" "s_socks (stream_outward s j i t) = s_socks s"
    using b1 bridges_trans unfolding stream_outward_def Let_def [of "s_clients s j"] s1_def [symmetric] Let_def [of s1]
    by (auto simp: Let_def)
qed

lemma bridges_inward:
  assumes core: "core_inv (s_core s)"
  shows "bridges s (stream_inward s j t) j" "s_socks (stream_inward s j t) = s_socks s"
    "sc_outOff (s_clients (stream_inward s j t) j) = 0"
proof -
  let ?k = "s_clients s j"
  let ?k' = "out_compact ?k"
  have k': "sc_fd ?k' = sc_fd ?k" "sc_conn ?k' = sc_conn ?k" "sc_state ?k' = sc_state ?k" "sc_in ?k' = sc_in ?k"
    "sc_outOff ?k' = 0" "sc_out ?k' = drop (sc_outOff ?k) (sc_out ?k)"
    by (simp_all add: out_compact_def)
  obtain c got where r: "chaos_recv (s_core s) (sc_conn ?k) (STREAM_OUTBUF - length (sc_out ?k')) t = (c, got)" by fastforce
  have c: "got @ handle_pending (sc_conn ?k) c = handle_pending (sc_conn ?k) (s_core s)"
    "handle_queued (sc_conn ?k) c = handle_queued (sc_conn ?k) (s_core s)"
    using chaos_reader.recv_conserves [OF core, of "sc_conn ?k" "STREAM_OUTBUF - length (sc_out ?k')" t]
      recv_keeps_queued [OF core, of "sc_conn ?k" "STREAM_OUTBUF - length (sc_out ?k')" t] r by simp_all
  show "bridges s (stream_inward s j t) j"
    unfolding bridges_def same_client_def down_stream_def up_stream_def stream_inward_def Let_def
    using r c k' by (simp add: k')
  show "s_socks (stream_inward s j t) = s_socks s" "sc_outOff (s_clients (stream_inward s j t) j) = 0"
    using r k' by (simp_all add: stream_inward_def Let_def)
qed

lemma bridges_write:
  assumes wf: "client_wf (s_clients s j)" and ok: "snd (client_write s j t)"
  shows "bridges s (fst (client_write s j t)) j"
proof -
  let ?k = "s_clients s j" and ?sk = "s_socks s (sc_fd (s_clients s j))"
  obtain rs off wr e where w: "write_loop (sk_results ?sk) (sc_out ?k) (sc_outOff ?k) (sk_written ?sk) = (rs, off, wr, e)"
    by (metis prod_cases4)
  have "sc_outOff ?k \<le> length (sc_out ?k)" using wf by (simp add: client_wf_def)
  note wl = write_loop_off [OF w this]
  have "down_stream (fst (client_write s j t)) j = down_stream s j"
    using ok wl by (auto simp: client_write_def Let_def w down_stream_def split: WriteEnd.splits)
  then show ?thesis
    using write_own [OF ok] by (simp add: bridges_def same_client_def up_stream_def Let_def)
qed

lemma write_ok: "WriteError \<notin> set (sk_results (s_socks s (sc_fd (s_clients s j)))) \<Longrightarrow> snd (client_write s j t)"
proof -
  have "write_loop rs out off wr = (rs', off', wr', WriteFailed) \<Longrightarrow> WriteError \<in> set rs" for rs out off wr rs' off' wr'
    by (induction rs out off wr rule: write_loop.induct) (auto simp: Let_def split: if_splits WriteResult.splits)
  then show "WriteError \<notin> set (sk_results (s_socks s (sc_fd (s_clients s j)))) \<Longrightarrow> snd (client_write s j t)"
    by (auto simp: client_write_def Let_def split: prod.split WriteEnd.split)
qed

section \<open>Serving a client\<close>

lemma close_written: "sk_written (s_socks (client_close s j r t) fd) = sk_written (s_socks s fd)"
  by (simp add: client_close_def Let_def)

lemma close_state: "sc_state (s_clients (client_close s j r t) j) = CLIENT_FREE"
  by (simp add: client_close_def Let_def)

lemma not_ready_nothing:
  assumes "core_inv c" "\<not> chaos_recv_ready c h"
  shows "handle_pending h c = []"
proof (cases "conn_for_handle c h")
  case (Some i)
  then have "k_readNum (c_conns c i) = k_receivedNum (c_conns c i) \<or> k_eofReceived (c_conns c i)"
    using assms(2) by (simp add: chaos_recv_ready_def Let_def)
  then show ?thesis
    using Some seq_loop_eq [of "k_receivedNum (c_conns c i)" "k_receivedNum (c_conns c i)"]
    by (auto simp: handle_pending_def chaos_conn_def pending_def)
qed (simp add: handle_pending_def chaos_conn_def)

lemma stream_finish_bridge:
  assumes core: "core_inv (s_core s)"
  shows "\<not> snd (stream_finish s j i t) \<Longrightarrow> bridges s (fst (stream_finish s j i t)) j"
    and "snd (stream_finish s j i t) \<Longrightarrow> sc_state (s_clients (fst (stream_finish s j i t)) j) = CLIENT_FREE \<and>
      sk_written (s_socks (fst (stream_finish s j i t)) (sc_fd (s_clients s j))) = down_stream s j"
proof -
  let ?k = "s_clients s j"
  define s1 where "s1 = (if chaos_recv_eof (s_core s) (sc_conn ?k) \<and> sc_out ?k = [] \<and> \<not> sc_wrShut ?k
     then set_client (set_sock s (sc_fd ?k) ((s_socks s (sc_fd ?k))\<lparr>sk_shut := True\<rparr>)) j (?k\<lparr>sc_wrShut := True\<rparr>)
     else s)"
  have b: "bridges s s1 j" "s_core s1 = s_core s"
    by (simp_all add: s1_def bridges_def same_client_def down_stream_def up_stream_def Let_def)
  have fin: "stream_finish s j i t =
    (if k_state (c_conns (s_core s1) i) = CONN_CLOSED \<and> \<not> chaos_recv_ready (s_core s1) (sc_conn (s_clients s1 j)) \<and>
        sc_out (s_clients s1 j) = []
     then (client_close s1 j (c_bytes ''Connection closed'') t, True) else (s1, False))"
    unfolding stream_finish_def Let_def [of "s_clients s j"] s1_def [symmetric] by (simp add: Let_def)
  show "bridges s (fst (stream_finish s j i t)) j" if "\<not> snd (stream_finish s j i t)"
    using that b(1) unfolding fin by (auto split: if_splits)
  show "sc_state (s_clients (fst (stream_finish s j i t)) j) = CLIENT_FREE \<and>
      sk_written (s_socks (fst (stream_finish s j i t)) (sc_fd (s_clients s j))) = down_stream s j"
    if "snd (stream_finish s j i t)"
  proof -
    have closed: "\<not> chaos_recv_ready (s_core s1) (sc_conn (s_clients s1 j))" "sc_out (s_clients s1 j) = []"
      "fst (stream_finish s j i t) = client_close s1 j (c_bytes ''Connection closed'') t"
      using that unfolding fin by (simp_all split: if_splits)
    have "handle_pending (sc_conn (s_clients s1 j)) (s_core s1) = []"
      using not_ready_nothing closed(1) core b(2) by simp
    then have "sk_written (s_socks s1 (sc_fd (s_clients s1 j))) = down_stream s1 j"
      using closed(2) by (simp add: down_stream_def Let_def)
    then show ?thesis
      using b closed(3) close_state close_written by (simp add: bridges_def same_client_def)
  qed
qed

lemma write_fails_closes:
  "\<not> snd (client_write s j t) \<Longrightarrow> sc_state (s_clients (fst (client_write s j t)) j) = CLIENT_FREE"
  by (auto simp: client_write_def Let_def close_state split: prod.splits WriteEnd.splits)

lemma service_stream_bridge:
  assumes inv: "server_inv s" and j: "j < STREAM_MAX_CLIENTS" and st: "sc_state (s_clients s j) = CLIENT_STREAM"
    and live: "conn_for_handle (s_core s) (sc_conn (s_clients s j)) = Some i"
  shows "sc_state (s_clients (fst (service_stream s j t)) j) = CLIENT_STREAM \<Longrightarrow>
      bridges s (fst (service_stream s j t)) j"
    and "WriteError \<notin> set (sk_results (s_socks s (sc_fd (s_clients s j)))) \<Longrightarrow>
      sc_state (s_clients (fst (service_stream s j t)) j) = CLIENT_FREE \<Longrightarrow>
      sk_written (s_socks (fst (service_stream s j t)) (sc_fd (s_clients s j))) = down_stream s j"
proof -
  let ?s1 = "stream_outward s j i t"
  let ?s2 = "stream_inward ?s1 j t"
  let ?w = "client_write ?s2 j t"
  note o1 = server_inv_outward [OF inv j st, of i t]
  note bo = bridges_outward [OF inv j st, of i t]
  note i2 = server_inv_inward [OF o1(1) j, of t]
  have core1: "core_inv (s_core ?s1)" using o1(1) by (simp add: server_inv_def)
  note bi = bridges_inward [OF core1, of j t]
  have b2: "bridges s ?s2 j" using bridges_trans [OF bo(1) bi(1)] .
  have b3: "bridges s (fst ?w) j" if "snd ?w"
    using bridges_trans [OF b2 bridges_write [OF server_inv_wf [OF i2 j] that]] .
  have core3: "core_inv (s_core (fst ?w))" using server_inv_write [OF i2 j] by (simp add: server_inv_def)
  have eq: "service_stream s j t = (if snd ?w then stream_finish (fst ?w) j i t else (fst ?w, True))"
    by (simp add: service_stream_def live Let_def split_def)
  show "bridges s (fst (service_stream s j t)) j"
    if open_c: "sc_state (s_clients (fst (service_stream s j t)) j) = CLIENT_STREAM"
  proof -
    have ok: "snd ?w"
    proof (rule ccontr)
      assume n: "\<not> snd ?w"
      then show False using open_c write_fails_closes [OF n] by (simp add: eq)
    qed
    then have "\<not> snd (stream_finish (fst ?w) j i t)"
      using open_c stream_finish_bridge(2) [OF core3, of j i t] by (auto simp: eq)
    then show ?thesis
      using ok bridges_trans [OF b3 [OF ok] stream_finish_bridge(1) [OF core3]] by (simp add: eq)
  qed
  show "sk_written (s_socks (fst (service_stream s j t)) (sc_fd (s_clients s j))) = down_stream s j"
    if noerr: "WriteError \<notin> set (sk_results (s_socks s (sc_fd (s_clients s j))))"
      and closed: "sc_state (s_clients (fst (service_stream s j t)) j) = CLIENT_FREE"
  proof -
    have "sc_fd (s_clients ?s2 j) = sc_fd (s_clients s j)" using b2 by (simp add: bridges_def same_client_def)
    then have ok: "snd ?w" using noerr bo(2) bi(2) by (intro write_ok) simp
    note b = b3 [OF ok]
    have "snd (stream_finish (fst ?w) j i t)"
    proof (rule ccontr)
      assume n: "\<not> snd (stream_finish (fst ?w) j i t)"
      from bridges_trans [OF b stream_finish_bridge(1) [OF core3 n]] closed st ok show False
        by (simp add: eq bridges_def same_client_def)
    qed
    then have "sk_written (s_socks (fst (stream_finish (fst ?w) j i t)) (sc_fd (s_clients (fst ?w) j))) =
        down_stream (fst ?w) j"
      using stream_finish_bridge(2) [OF core3] by blast
    moreover have "sc_fd (s_clients (fst ?w) j) = sc_fd (s_clients s j)" "down_stream (fst ?w) j = down_stream s j"
      using b by (simp_all add: bridges_def same_client_def)
    ultimately show ?thesis using ok by (simp add: eq)
  qed
qed

section \<open>Addresses in octal\<close>

lemma octal_value_snoc: "octal_value (ds @ [d]) = 8 * octal_value ds + (unat d - 48)"
  by (simp add: octal_value_def)

lemma octal_digit: "d < 8 \<Longrightarrow> is_octal (of_nat (48 + d)) \<and> unat (of_nat (48 + d) :: byte) = 48 + d"
proof -
  assume d: "d < 8"
  then have "unat (of_nat (48 + d) :: byte) = 48 + d" by (simp only: unat_of_nat) simp
  then show ?thesis using d by (simp add: is_octal_def word_le_nat_alt del: of_nat_add)
qed

lemma octal_digits_value: "octal_value (octal_digits n) = n \<and> octal_digits n \<noteq> [] \<and> list_all is_octal (octal_digits n)"
proof (induction n rule: octal_digits.induct)
  case (1 n)
  show ?case
  proof (cases "n < 8")
    case True
    then show ?thesis
      using octal_digit [OF True] by (simp add: octal_digits.simps [of n] octal_value_def del: of_nat_add)
  next
    case False
    have d: "n mod 8 < 8" by simp
    show ?thesis
      using 1 False octal_digit [OF d]
      by (simp add: octal_digits.simps [of n] octal_value_snoc del: of_nat_add)
  qed
qed

lemma octal_not_blank: "is_octal b \<Longrightarrow> \<not> c_isspace b \<and> b \<noteq> 45 \<and> b \<noteq> 43 \<and> \<not> is_blank b \<and> b \<noteq> 0"
  by (auto simp: is_octal_def c_isspace_def is_blank_def word_le_nat_alt)

lemma strtoul8_digits:
  assumes "list_all is_octal ds" "ds \<noteq> []" "octal_value ds < 2 ^ 64"
  shows "strtoul8 ds = (of_nat (octal_value ds), [])"
proof -
  obtain b bs where ds: "ds = b # bs" using assms(2) by (cases ds) auto
  have b: "is_octal b" "list_all is_octal bs" using assms(1) ds by simp_all
  have tw: "takeWhile is_octal ds = ds" "dropWhile is_octal ds = []"
    using assms(1) by (simp_all add: list_all_iff)
  have sp: "dropWhile c_isspace ds = ds" using octal_not_blank [OF b(1)] ds by simp
  have hd: "hd ds \<noteq> 45 \<and> hd ds \<noteq> 43" using octal_not_blank [OF b(1)] ds by simp
  show ?thesis using assms(2,3) hd by (simp add: strtoul8_def Let_def sp tw)
qed

lemma resolve_octal:
  assumes "0 < n" "n \<le> 0xFFFF"
  shows "resolve_host s (octal_digits n) = Some (of_nat n)"
proof -
  note o = octal_digits_value [of n]
  have "octal_value (octal_digits n) < 2 ^ 64" using o assms by simp
  then have "strtoul8 (octal_digits n) = (of_nat n, [])" using strtoul8_digits [of "octal_digits n"] o by simp
  moreover have "unat (of_nat n :: u64) = n" using assms by (simp only: unat_of_nat) simp
  then have "(of_nat n :: u64) \<noteq> 0" "\<not> (of_nat n :: u64) > 0xFFFF" "ucast (of_nat n :: u64) = (of_nat n :: u16)"
    using assms by (auto simp: word_less_nat_alt unat_eq_0 [symmetric] intro!: unsigned_word_eqI [where 'a = nat]
        simp: unsigned_ucast_eq unat_of_nat take_bit_eq_mod)
  ultimately show ?thesis using o by (simp add: resolve_host_def)
qed

section \<open>Request lines\<close>

lemma parse_request_words:
  assumes host: "host \<noteq> []" "\<forall>b \<in> set host. \<not> is_blank b"
    and contact: "contact \<noteq> []" "\<not> is_blank (hd contact)" "\<not> is_blank (last contact)"
  shows "parse_request (c_bytes ''RFC '' @ host @ 32 # contact) = Some (host, contact)"
proof -
  have rfc: "c_bytes ''RFC '' = [82, 70, 67, 32]" by (simp add: c_bytes_def of_char_def)
  have blank: "is_blank 32" "\<not> is_blank 82" by (simp_all add: is_blank_def)
  have h: "dropWhile is_blank (host @ 32 # contact) = host @ 32 # contact"
    using host by (cases host) simp_all
  have tw: "takeWhile (\<lambda>b. \<not> is_blank b) (host @ 32 # contact) = host"
    using host(2) blank(1) by (simp add: takeWhile_append)
  have c: "dropWhile is_blank contact = contact" using contact(1,2) by (cases contact) simp_all
  have r: "dropWhile is_blank (rev contact) = rev contact"
    using contact(1,3) by (cases contact rule: rev_cases) simp_all
  show ?thesis
    by (simp add: parse_request_def rfc blank Let_def h tw c r) (simp add: c_bytes_def of_char_def)
qed

end
