(* ===== verification/Chaos_Stream_Props.thy ===== *)
theory Chaos_Stream_Props
  imports Chaos_Bridge Chaos_Demo
begin

text \<open>
  The properties of the stream front end: who owns which connection, that the bridge between
  socket and connection loses nothing, and the request line.
\<close>

section \<open>A server for the witnesses\<close>

definition demo_sock :: Socket where
  "demo_sock = \<lparr>sk_results = [Wrote 2], sk_written = [], sk_shut = False, sk_open = True\<rparr>"

definition demo_pkt :: ChaosPkt where
  "demo_pkt = zero_pkt\<lparr>pkt_present := True, pkt_opcode := CHOP_DAT, pkt_num := 8, pkt_nBytes := 3,
     pkt_data := [1, 2, 3] @ replicate 485 0\<rparr>"

text \<open>A connection with one packet of three bytes to read, open or closed by the peer.\<close>

definition demo_conn :: "ChaosConnState \<Rightarrow> ChaosConn" where
  "demo_conn st = zero_conn\<lparr>k_state := st, k_localIndex := 32, k_remoteAddr := 0x0102, k_localWindow := 13,
     k_readNum := 7, k_receivedNum := 8, k_rcvq := (\<lambda>_. zero_pkt)(8 := demo_pkt)\<rparr>"

definition demo_server :: "ChaosConnState \<Rightarrow> nat \<Rightarrow> StreamServer" where
  "demo_server st n = set_client
     (stream_init (set_conn demo_start 0 (demo_conn st)) (\<lambda>_. demo_sock\<lparr>sk_results := [Wrote n]\<rparr>)) 0
     (zero_client\<lparr>sc_state := CLIENT_STREAM, sc_fd := 5, sc_conn := 0, sc_in := [9, 8]\<rparr>)"

definition demo_line :: "byte list" where
  "demo_line = c_bytes ''RFC '' @ octal_digits 258 @ 32 # c_bytes ''TIME''"

lemma demo_conn_inv: "st \<noteq> CONN_RFC_SENT \<Longrightarrow> conn_inv (demo_conn st)"
proof -
  assume st: "st \<noteq> CONN_RFC_SENT"
  have sp: "in_span 7 8 n \<longleftrightarrow> n = 8" for n using in_span_one [of 7 n] by (simp add: seq_inc_def)
  have wsp: "in_span 7 20 8" by (simp add: in_span_def)
  have sl: "ring_slot 8 = 8" by (simp add: ring_slot_mod)
  have "recv_inv (demo_conn st)"
    by (auto simp: recv_inv_def demo_conn_def ring_holds_def sp ring_has_def sl demo_pkt_def ring_only_def
        zero_pkt_def pkt_wf_def wsp)
  then show ?thesis
    using st by (auto simp: conn_inv_def send_inv_def phase_inv_def demo_conn_def zero_conn_def zero_pkt_def
        ring_only_def pkt_wf_def)
qed

lemma demo_server_sel:
  "sc_state (s_clients (demo_server st n) 0) = CLIENT_STREAM" "sc_conn (s_clients (demo_server st n) 0) = 0"
  "sc_fd (s_clients (demo_server st n) 0) = 5" "s_core (demo_server st n) = set_conn demo_start 0 (demo_conn st)"
  "sk_results (s_socks (demo_server st n) fd) = [Wrote n]"
  by (simp_all add: demo_server_def stream_init_def)

lemma demo_server_inv:
  assumes "st = CONN_OPEN \<or> st = CONN_CLOSED"
  shows "server_inv (demo_server st n)"
    "conn_for_handle (s_core (demo_server st n)) (sc_conn (s_clients (demo_server st n) 0)) = Some 0"
proof -
  have "core_inv demo_start" using demo_start_reach by (rule core_inv_reachable)
  moreover have "slot_inv 0 (demo_conn st)"
    using assms demo_conn_inv [of st] by (auto simp: slot_inv_def demo_conn_def)
  ultimately have "core_inv (set_conn demo_start 0 (demo_conn st))"
    by (simp add: core_inv_def config_inv_def)
  moreover have "client_wf (s_clients (demo_server st n) j)" for j
    by (simp add: demo_server_def stream_init_def zero_client_def client_wf_def)
  moreover have "sc_conn (s_clients (demo_server st n) j) = (if j = 0 then 0 else -1)" for j
    by (simp add: demo_server_def stream_init_def)
  moreover have "k_state (c_conns (set_conn demo_start 0 (demo_conn st)) i) \<noteq> CONN_FREE \<longleftrightarrow> i = 0" for i
    using assms by (auto simp: demo_conn_def demo_start_def chaos_core_init_def zero_conn_def)
  ultimately show "server_inv (demo_server st n)"
    by (auto simp: server_inv_def owners_inv_def demo_server_sel split: if_splits)
  show "conn_for_handle (s_core (demo_server st n)) (sc_conn (s_clients (demo_server st n) 0)) = Some 0"
    using assms by (auto simp: demo_server_sel conn_for_handle_def demo_conn_def)
qed

section \<open>Properties\<close>



text \<open>
  C17. The bridge loses nothing. While a client stays in the stream state, serving it leaves
  both of its streams as they were: the bytes written to the socket, buffered for it and pending
  on the connection; and the bytes queued on the connection and buffered from the socket.
\<close>

theorem bridge_conserves:
  assumes "server_inv s" "j < STREAM_MAX_CLIENTS" "sc_state (s_clients s j) = CLIENT_STREAM"
    "conn_for_handle (s_core s) (sc_conn (s_clients s j)) = Some i"
    "sc_state (s_clients (fst (service_stream s j t)) j) = CLIENT_STREAM"
  shows "down_stream (fst (service_stream s j t)) j = down_stream s j \<and>
    up_stream (fst (service_stream s j t)) j = up_stream s j"
  using service_stream_bridge(1) [OF assms] by (simp add: bridges_def)

theorem bridge_conserves_witness:
  "down_stream (fst (service_stream (demo_server CONN_OPEN 2) 0 1030)) 0 = [1, 2, 3]"
proof -
  have "sc_state (s_clients (fst (service_stream (demo_server CONN_OPEN 2) 0 1030)) 0) = CLIENT_STREAM" by code_simp
  moreover have "down_stream (demo_server CONN_OPEN 2) 0 = [1, 2, 3]" by code_simp
  ultimately show ?thesis
    using bridge_conserves [of "demo_server CONN_OPEN 2" 0 0 1030] demo_server_inv [of CONN_OPEN 2] demo_server_sel(1)
    by simp
qed

text \<open>
  C18. When serving a client in the stream state ends it, and no write failed, the socket has
  been given all of the bytes that were on their way to it.
\<close>

theorem closing_delivers:
  assumes "server_inv s" "j < STREAM_MAX_CLIENTS" "sc_state (s_clients s j) = CLIENT_STREAM"
    "conn_for_handle (s_core s) (sc_conn (s_clients s j)) = Some i"
    "WriteError \<notin> set (sk_results (s_socks s (sc_fd (s_clients s j))))"
    "sc_state (s_clients (fst (service_stream s j t)) j) = CLIENT_FREE"
  shows "sk_written (s_socks (fst (service_stream s j t)) (sc_fd (s_clients s j))) = down_stream s j"
  using service_stream_bridge(2) [OF assms] .

theorem closing_delivers_witness:
  "sk_written (s_socks (fst (service_stream (demo_server CONN_CLOSED 9) 0 1030)) 5) = [1, 2, 3]"
proof -
  have "sc_state (s_clients (fst (service_stream (demo_server CONN_CLOSED 9) 0 1030)) 0) = CLIENT_FREE" by code_simp
  moreover have "down_stream (demo_server CONN_CLOSED 9) 0 = [1, 2, 3]" by code_simp
  ultimately show ?thesis
    using closing_delivers [of "demo_server CONN_CLOSED 9" 0 0 1030] demo_server_inv [of CONN_CLOSED 9]
      demo_server_sel [of CONN_CLOSED 9] by simp
qed

text \<open>
  A request line made of \<^verbatim>\<open>RFC\<close>, an address printed in octal and a contact name is read back
  as that address and that contact: the client waits for the connection \<^verbatim>\<open>chaos_open\<close> gives it,
  or gets a LOS line when there is none.
\<close>

theorem request_roundtrip:
  assumes "0 < n" "n \<le> 0xFFFF" "of_nat n \<noteq> c_myAddr (s_core s)"
    "contact \<noteq> []" "\<not> is_blank (hd contact)" "\<not> is_blank (last contact)" "0 \<notin> set contact"
    "sc_line (s_clients s j) = c_bytes ''RFC '' @ octal_digits n @ 32 # contact"
  shows "handle_request s j t =
    (let (core, h) = chaos_open (s_core s) (of_nat n) contact t;
         k = (s_clients s j)\<lparr>sc_addr := of_nat n, sc_conn := h\<rparr>
     in if h < 0 then set_client (s\<lparr>s_core := core\<rparr>) j
             (fail_client k (c_bytes ''LOS'') (c_bytes ''Too many connections, or contact too long''))
        else set_client (s\<lparr>s_core := core\<rparr>) j (k\<lparr>sc_state := CLIENT_WAIT_OPN\<rparr>))"
proof -
  note o = octal_digits_value [of n]
  have nb: "\<forall>b \<in> set (octal_digits n). \<not> is_blank b \<and> b \<noteq> 0"
    using o octal_not_blank by (auto simp: list_all_iff)
  have "0 \<notin> set (sc_line (s_clients s j))"
    using assms(7) nb unfolding assms(8) by (auto simp: c_bytes_def of_char_def)
  then have "parse_request (c_string (sc_line (s_clients s j))) = Some (octal_digits n, contact)"
    using c_string_id parse_request_words [of "octal_digits n" contact] o nb assms(4-6) by (simp add: assms(8))
  then show ?thesis
    unfolding handle_request_def Let_def
    using resolve_octal [OF assms(1,2)] assms(3,4) o by (simp add: split_def)
qed

theorem request_roundtrip_witness:
  "sc_state (s_clients (handle_request (set_client (stream_init demo_start (\<lambda>_. demo_sock)) 0
     (zero_client\<lparr>sc_state := CLIENT_LINE, sc_conn := -1, sc_line := demo_line\<rparr>)) 0 7) 0) = CLIENT_WAIT_OPN"
proof -
  let ?s = "set_client (stream_init demo_start (\<lambda>_. demo_sock)) 0
     (zero_client\<lparr>sc_state := CLIENT_LINE, sc_conn := -1, sc_line := demo_line\<rparr>)"
  have l: "sc_line (s_clients ?s 0) = c_bytes ''RFC '' @ octal_digits 258 @ 32 # c_bytes ''TIME''"
    by (simp add: demo_line_def)
  have t: "c_bytes ''TIME'' = [84, 73, 77, 69]" by (simp add: c_bytes_def of_char_def)
  have a: "of_nat 258 \<noteq> c_myAddr (s_core ?s)" "s_core ?s = demo_start"
    by (simp_all add: stream_init_def demo_start_def chaos_core_init_def)
  have "snd (chaos_open demo_start 258 (c_bytes ''TIME'') 7) = 0" by code_simp
  then show ?thesis
    using request_roundtrip [of 258 ?s "c_bytes ''TIME''" 0 7] l a by (simp add: t is_blank_def split_def Let_def)
qed

end
