(* ===== verification/Emb_Signals.thy ===== *)
theory Emb_Signals
  imports VLM_Interfaces
begin

text \<open>
  The signals between the emulator and Life Support (\<^verbatim>\<open>src/life-support/signals.c\<close>): the signal
  words of the communication area, the table of handlers, and the operations on them. Each
  operation runs under the signal lock (or the wakeup lock), so it is one function on the
  communication area; \<^verbatim>\<open>vpunt\<close>, which ends the program, is the result \<open>None\<close>. The threads
  themselves and their condition variables are left out: a call of a handler is the value
  that the iteration of its thread returns.
\<close>

section \<open>The communication area\<close>

type_synonym SignalMask = u32
type_synonym SignalNumber = int

definition NSignals :: nat where
  "NSignals = 32"

text \<open>\<open>'h\<close> stands for a function pointer with its argument; \<open>None\<close> is \<^verbatim>\<open>NULL\<close>.\<close>

record 'h SignalHandler =
  handlerThreadSetup :: bool
  sh_signal :: SignalMask
  handlerFunction :: "'h option"

text \<open>\<open>interrupts\<close> counts the calls of \<^verbatim>\<open>SendInterruptToEmulator\<close>.\<close>

record 'h EmbCommArea =
  guest_to_host_signals :: SignalMask
  live_guest_to_host_signals :: SignalMask
  host_to_guest_signals :: SignalMask
  live_host_to_guest_signals :: SignalMask
  reawaken :: SignalMask
  useSignalLocks :: bool
  signalHandler :: "'h SignalHandler carray"
  interrupts :: nat

text \<open>\<^verbatim>\<open>1 << n\<close> in a signal mask.\<close>

definition signal_bit :: "nat \<Rightarrow> SignalMask" where
  "signal_bit n = push_bit n 1"

section \<open>Operations\<close>

definition InitializeSignalHandlers :: "'h EmbCommArea \<Rightarrow> 'h EmbCommArea" where
  "InitializeSignalHandlers ca = ca\<lparr>guest_to_host_signals := 0, live_guest_to_host_signals := 0,
     host_to_guest_signals := 0, live_host_to_guest_signals := 0, reawaken := 0, useSignalLocks := False,
     signalHandler := (\<lambda>i. if i < NSignals
       then \<lparr>handlerThreadSetup = False, sh_signal = 0, handlerFunction = None\<rparr> else signalHandler ca i)\<rparr>"

text \<open>The search of \<^verbatim>\<open>InstallSignalHandler\<close>: the first signal from \<open>i\<close> on that is not live.\<close>

function free_signal :: "SignalMask \<Rightarrow> nat \<Rightarrow> nat option" where
  "free_signal live i = (if NSignals \<le> i then None
     else if live AND signal_bit i = 0 then Some i else free_signal live (Suc i))"
  by pat_completeness auto
termination by (relation "measure (\<lambda>(_, i). NSignals - i)") auto

declare free_signal.simps [simp del]

text \<open>A handler whose thread exists is reused; otherwise the thread is created.\<close>

definition InstallSignalHandler :: "'h EmbCommArea \<Rightarrow> 'h \<Rightarrow> ('h EmbCommArea \<times> SignalNumber) option" where
  "InstallSignalHandler ca h =
     (case free_signal (live_guest_to_host_signals ca) 0 of
        None \<Rightarrow> None
      | Some i \<Rightarrow> Some (ca\<lparr>live_guest_to_host_signals := live_guest_to_host_signals ca OR signal_bit i,
          signalHandler := (signalHandler ca)(i := \<lparr>handlerThreadSetup = True, sh_signal = signal_bit i,
            handlerFunction = Some h\<rparr>)\<rparr>, int i))"

definition EmbSendSignal :: "'h EmbCommArea \<Rightarrow> SignalNumber \<Rightarrow> 'h EmbCommArea" where
  "EmbSendSignal ca signal =
     (if signal > -1 \<and> signal < int NSignals
      then ca\<lparr>host_to_guest_signals := host_to_guest_signals ca OR signal_bit (nat signal),
              interrupts := Suc (interrupts ca)\<rparr>
      else ca)"

text \<open>
  \<^verbatim>\<open>SignalLater\<close> has no test of its argument: it is called with the signal of an incoming
  queue, which is a live signal.
\<close>

definition SignalLater :: "'h EmbCommArea \<Rightarrow> SignalNumber \<Rightarrow> 'h EmbCommArea" where
  "SignalLater ca signal = ca\<lparr>reawaken := reawaken ca OR signal_bit (nat signal)\<rparr>"

text \<open>\<open>null\<close> is \<^verbatim>\<open>NullSignalHandler\<close>.\<close>

definition RemoveSignalHandler :: "'h \<Rightarrow> 'h EmbCommArea \<Rightarrow> SignalNumber \<Rightarrow> 'h EmbCommArea" where
  "RemoveSignalHandler null ca signal =
     (if signal < 0 \<or> signal \<ge> int NSignals then ca
      else let msk = signal_bit (nat signal);
               ca1 = ca\<lparr>live_guest_to_host_signals := live_guest_to_host_signals ca AND NOT msk,
                  reawaken := reawaken ca AND NOT msk,
                  guest_to_host_signals := guest_to_host_signals ca OR msk\<rparr>;
               h = signalHandler ca (nat signal)
           in if handlerThreadSetup h
              then ca1\<lparr>signalHandler := (signalHandler ca)(nat signal := h\<lparr>handlerFunction := Some null\<rparr>)\<rparr>
              else ca1)"

definition TerminateSignalHandlers :: "'h EmbCommArea \<Rightarrow> 'h EmbCommArea" where
  "TerminateSignalHandlers ca = ca\<lparr>signalHandler := (\<lambda>i. if i < NSignals
     then (signalHandler ca i)\<lparr>handlerThreadSetup := False\<rparr> else signalHandler ca i)\<rparr>"

text \<open>
  One iteration of the handler thread of entry \<open>i\<close>: it clears its signal and calls the handler,
  or waits (\<open>None\<close>) when its signal is not up.
\<close>

definition SignalHandlerTopLevel :: "'h EmbCommArea \<Rightarrow> nat \<Rightarrow> 'h EmbCommArea \<times> 'h option" where
  "SignalHandlerTopLevel ca i =
     (if guest_to_host_signals ca AND sh_signal (signalHandler ca i) \<noteq> 0
      then (ca\<lparr>guest_to_host_signals := guest_to_host_signals ca AND NOT (sh_signal (signalHandler ca i))\<rparr>,
            handlerFunction (signalHandler ca i))
      else (ca, None))"

section \<open>Signal masks\<close>

lemma bit_signal_bit: "bit (signal_bit n) k \<longleftrightarrow> k = n \<and> n < 32"
  unfolding signal_bit_def by (simp only: bit_push_bit_iff bit_1_iff possible_bit_word) auto

lemma and_signal_bit_eq_0: "n < 32 \<Longrightarrow> (m AND signal_bit n = 0) \<longleftrightarrow> \<not> bit m n" for m :: SignalMask
  unfolding bit_eq_iff [of "m AND signal_bit n"] by (auto simp: bit_and_iff bit_signal_bit)

lemma bit_or_signal_bit: "bit (m OR signal_bit n) k \<longleftrightarrow> bit m k \<or> k = n \<and> n < 32" for m :: SignalMask
  by (simp add: bit_or_iff bit_signal_bit)

lemma bit_clear_signal_bit:
  "bit (m AND NOT (signal_bit n)) k \<longleftrightarrow> bit m k \<and> \<not> (k = n \<and> n < 32)" for m :: SignalMask
  using bit_imp_le_length [of m k] by (auto simp: bit_and_iff bit_not_iff bit_signal_bit)

section \<open>Allocation of signals\<close>

lemma free_signal_Some:
  "free_signal live i = Some n \<Longrightarrow> i \<le> n \<and> n < 32 \<and> \<not> bit live n \<and> (\<forall>k. i \<le> k \<and> k < n \<longrightarrow> bit live k)"
proof (induction live i rule: free_signal.induct)
  case (1 live i)
  show ?case
  proof (cases "i < 32 \<and> live AND signal_bit i \<noteq> 0")
    case True
    then have "free_signal live (Suc i) = Some n" "bit live i"
      using "1.prems" by (auto simp: free_signal.simps [of live i] NSignals_def and_signal_bit_eq_0)
    then show ?thesis using True "1.IH" by (auto simp: NSignals_def) (metis Suc_leI le_neq_implies_less)
  next
    case False
    then show ?thesis using "1.prems"
      by (auto simp: free_signal.simps [of live i] NSignals_def and_signal_bit_eq_0 split: if_splits)
  qed
qed

lemma free_signal_None: "free_signal live i = None \<longleftrightarrow> (\<forall>k. i \<le> k \<and> k < 32 \<longrightarrow> bit live k)"
proof (induction live i rule: free_signal.induct)
  case (1 live i)
  show ?case
  proof (cases "i < 32 \<and> bit live i")
    case True
    then have "free_signal live i = free_signal live (Suc i)"
      by (simp add: free_signal.simps [of live i] NSignals_def and_signal_bit_eq_0)
    then show ?thesis using True 1
      by (auto simp: NSignals_def and_signal_bit_eq_0) (metis Suc_leI le_neq_implies_less)
  next
    case False
    then show ?thesis
      by (auto simp: free_signal.simps [of live i] NSignals_def and_signal_bit_eq_0)
  qed
qed

text \<open>
  The entries of the handler table agree with the signal numbers: entry \<open>i\<close> of a live signal has
  a thread and the mask of \<open>i\<close>, and every entry has either no mask yet or the mask of its number.
\<close>

definition signals_inv :: "'h EmbCommArea \<Rightarrow> bool" where
  "signals_inv ca \<longleftrightarrow> (\<forall>i<NSignals.
     (sh_signal (signalHandler ca i) = 0 \<or> sh_signal (signalHandler ca i) = signal_bit i) \<and>
     (bit (live_guest_to_host_signals ca) i \<longrightarrow>
        sh_signal (signalHandler ca i) = signal_bit i \<and> handlerThreadSetup (signalHandler ca i) \<and>
        handlerFunction (signalHandler ca i) \<noteq> None))"

lemma signals_inv_init: "signals_inv (InitializeSignalHandlers ca)"
  by (simp add: signals_inv_def InitializeSignalHandlers_def)

lemma InstallSignalHandler_SomeD:
  assumes "InstallSignalHandler ca h = Some (ca', n)"
  obtains i where "n = int i" "i < 32" "\<not> bit (live_guest_to_host_signals ca) i"
    "\<And>k. k < i \<Longrightarrow> bit (live_guest_to_host_signals ca) k"
    "ca' = ca\<lparr>live_guest_to_host_signals := live_guest_to_host_signals ca OR signal_bit i,
          signalHandler := (signalHandler ca)(i := \<lparr>handlerThreadSetup = True, sh_signal = signal_bit i,
            handlerFunction = Some h\<rparr>)\<rparr>"
  using assms by (auto simp: InstallSignalHandler_def split: option.splits dest!: free_signal_Some)

lemma signals_inv_install: "InstallSignalHandler ca h = Some (ca', n) \<Longrightarrow> signals_inv ca \<Longrightarrow> signals_inv ca'"
  by (erule InstallSignalHandler_SomeD) (auto simp: signals_inv_def bit_or_signal_bit)

lemma signals_inv_send: "signals_inv ca \<Longrightarrow> signals_inv (EmbSendSignal ca n)"
  by (simp add: signals_inv_def EmbSendSignal_def)

lemma signals_inv_later: "signals_inv ca \<Longrightarrow> signals_inv (SignalLater ca n)"
  by (simp add: signals_inv_def SignalLater_def)

lemma signals_inv_remove: "signals_inv ca \<Longrightarrow> signals_inv (RemoveSignalHandler null ca n)"
  by (auto simp: signals_inv_def RemoveSignalHandler_def Let_def bit_clear_signal_bit NSignals_def)

lemma signals_inv_handler: "signals_inv ca \<Longrightarrow> signals_inv (fst (SignalHandlerTopLevel ca i))"
  by (simp add: signals_inv_def SignalHandlerTopLevel_def)

section \<open>Runs\<close>

text \<open>What the threads do to the signal state before the program terminates its handlers.\<close>

inductive signal_step :: "'h EmbCommArea \<Rightarrow> 'h EmbCommArea \<Rightarrow> bool" where
  install: "InstallSignalHandler ca h = Some (ca', n) \<Longrightarrow> signal_step ca ca'"
| send: "signal_step ca (EmbSendSignal ca n)"
| later: "signal_step ca (SignalLater ca n)"
| remove: "signal_step ca (RemoveSignalHandler null ca n)"
| guest: "signal_step ca (ca\<lparr>guest_to_host_signals := guest_to_host_signals ca OR m\<rparr>)"
| handler: "i < NSignals \<Longrightarrow> signal_step ca (fst (SignalHandlerTopLevel ca i))"

lemma signals_inv_step: "signal_step ca ca' \<Longrightarrow> signals_inv ca \<Longrightarrow> signals_inv ca'"
  by (induction rule: signal_step.induct)
    (simp_all add: signals_inv_install signals_inv_send signals_inv_later signals_inv_remove
      signals_inv_handler, simp add: signals_inv_def)

interpretation signals: invariant_system "\<lambda>ca. \<exists>ca0. ca = InitializeSignalHandlers ca0" signal_step signals_inv
  by unfold_locales (auto intro: signals_inv_init signals_inv_step)

end
