(* ===== verification/Emb_Queue.thy ===== *)
theory Emb_Queue
  imports Emb_Signals
begin

text \<open>
  The rings through which the emulator and Life Support exchange elements
  (\<^verbatim>\<open>src/life-support/queues.c\<close>), one call at a time. The indices are C \<^verbatim>\<open>int\<close>s, here integers:
  the invariant keeps them below the size, so no addition overflows. A spin on a full queue
  and a transfer loop that makes no progress are the result \<open>None\<close>: alone, the call never
  returns. The interleaving of two threads is the subject of \<open>Emb_Queue_Conc\<close>.
\<close>

section \<open>Queues\<close>

type_synonym EmbWord = int

text \<open>\<open>first_element\<close> is the array of elements; for queues of structures, their bytes.\<close>

record 'a EmbQueue =
  element_size :: EmbWord
  queue_size :: EmbWord
  put_index :: EmbWord
  take_index :: EmbWord
  q_signal :: SignalNumber
  first_element :: "'a list"

text \<open>\<open>mem\<close> is what the allocated part of the communication area holds.\<close>

definition CreateQueue :: "int \<Rightarrow> int \<Rightarrow> 'a list \<Rightarrow> 'a EmbQueue" where
  "CreateQueue nElements elementSize mem = \<lparr>element_size = elementSize, queue_size = nElements,
     put_index = 0, take_index = 0, q_signal = -1, first_element = mem\<rparr>"

definition EmbQueueSpace :: "'a EmbQueue \<Rightarrow> int" where
  "EmbQueueSpace q = (let put = put_index q; tk = take_index q in
     if tk > put then tk - put - 1 else tk - put - 1 + queue_size q)"

definition EmbQueueFilled :: "'a EmbQueue \<Rightarrow> int" where
  "EmbQueueFilled q = (let put = put_index q; tk = take_index q in
     if put \<ge> tk then put - tk else put - tk + queue_size q)"

text \<open>The increment of an index: \<^verbatim>\<open>if (++i >= queue_size) i = 0\<close>.\<close>

definition next_index :: "'a EmbQueue \<Rightarrow> int \<Rightarrow> int" where
  "next_index q i = (if i + 1 \<ge> queue_size q then 0 else i + 1)"

text \<open>
  The end of the three put operations, after the element is stored: wait while the queue is
  full, publish the new index, and signal the taker when the queue had been empty.
\<close>

definition publish_put :: "'h EmbCommArea \<Rightarrow> 'a EmbQueue \<Rightarrow> ('h EmbCommArea \<times> 'a EmbQueue) option" where
  "publish_put ca q = (let put = next_index q (put_index q) in
     if put = take_index q then None
     else Some (if put_index q = take_index q then EmbSendSignal ca (q_signal q) else ca,
                q\<lparr>put_index := put\<rparr>))"

text \<open>\<^verbatim>\<open>EmbQueuePut\<close> copies \<^verbatim>\<open>element_size\<close> bytes; \<open>ep\<close> are the bytes at its pointer.\<close>

definition EmbQueuePut :: "'h EmbCommArea \<Rightarrow> byte EmbQueue \<Rightarrow> byte list \<Rightarrow> ('h EmbCommArea \<times> byte EmbQueue) option" where
  "EmbQueuePut ca q ep = publish_put ca (q\<lparr>first_element := memcpy_at (first_element q)
     (nat (put_index q * element_size q)) (take (nat (element_size q)) ep)\<rparr>)"

definition put_element :: "'h EmbCommArea \<Rightarrow> 'a EmbQueue \<Rightarrow> 'a \<Rightarrow> ('h EmbCommArea \<times> 'a EmbQueue) option" where
  "put_element ca q elt =
     publish_put ca (q\<lparr>first_element := (first_element q)[nat (put_index q) := elt]\<rparr>)"

definition EmbQueuePutWord :: "'h EmbCommArea \<Rightarrow> EmbWord EmbQueue \<Rightarrow> EmbWord \<Rightarrow> ('h EmbCommArea \<times> EmbWord EmbQueue) option" where
  "EmbQueuePutWord ca q elt = put_element ca q elt"

definition EmbQueuePutByte :: "'h EmbCommArea \<Rightarrow> byte EmbQueue \<Rightarrow> byte \<Rightarrow> ('h EmbCommArea \<times> byte EmbQueue) option" where
  "EmbQueuePutByte ca q elt = put_element ca q elt"

text \<open>\<open>None\<close> is the result \<^verbatim>\<open>FALSE\<close>, of a queue that is empty.\<close>

definition EmbQueueTake :: "byte EmbQueue \<Rightarrow> (byte list \<times> byte EmbQueue) option" where
  "EmbQueueTake q =
     (if put_index q = take_index q then None
      else Some (take (nat (element_size q)) (drop (nat (take_index q * element_size q)) (first_element q)),
                 q\<lparr>take_index := next_index q (take_index q)\<rparr>))"

definition take_element :: "'a EmbQueue \<Rightarrow> ('a \<times> 'a EmbQueue) option" where
  "take_element q =
     (if put_index q = take_index q then None
      else Some (first_element q ! nat (take_index q), q\<lparr>take_index := next_index q (take_index q)\<rparr>))"

text \<open>The word and byte operations return 0, which is \<^verbatim>\<open>FALSE\<close>, for an empty queue.\<close>

definition EmbQueueTakeWord :: "EmbWord EmbQueue \<Rightarrow> EmbWord \<times> EmbWord EmbQueue" where
  "EmbQueueTakeWord q = (case take_element q of None \<Rightarrow> (0, q) | Some r \<Rightarrow> r)"

definition EmbQueueTakeByte :: "byte EmbQueue \<Rightarrow> byte \<times> byte EmbQueue" where
  "EmbQueueTakeByte q = (case take_element q of None \<Rightarrow> (0, q) | Some r \<Rightarrow> r)"

section \<open>Transfers of several elements\<close>

text \<open>The contiguous free elements after the put index, and the contiguous filled ones.\<close>

definition put_count :: "'a EmbQueue \<Rightarrow> int" where
  "put_count q = (let put = put_index q; tk = take_index q in
     if tk > put then tk - put - 1 else if tk = 0 then queue_size q - put - 1 else queue_size q - put)"

definition take_count :: "'a EmbQueue \<Rightarrow> int" where
  "take_count q = (let put = put_index q; tk = take_index q in
     if put \<ge> tk then put - tk else queue_size q - tk)"

definition put_block :: "'a EmbQueue \<Rightarrow> 'a list \<Rightarrow> 'a EmbQueue" where
  "put_block q xs = q\<lparr>first_element := memcpy_at (first_element q) (nat (put_index q)) xs,
     put_index := (if put_index q + int (length xs) = queue_size q then 0 else put_index q + int (length xs))\<rparr>"

definition take_block :: "'a EmbQueue \<Rightarrow> int \<Rightarrow> 'a list \<times> 'a EmbQueue" where
  "take_block q n = (take (nat n) (drop (nat (take_index q)) (first_element q)),
     q\<lparr>take_index := (if take_index q + n = queue_size q then 0 else take_index q + n)\<rparr>)"

text \<open>The loops: \<^verbatim>\<open>while (length > 0)\<close>.\<close>

partial_function (option) put_loop :: "'a EmbQueue \<Rightarrow> 'a list \<Rightarrow> int \<Rightarrow> int \<Rightarrow> ('a EmbQueue \<times> int) option" where
  "put_loop q buffer n actual_length = (if n > 0
     then (let count = min (put_count q) n
           in put_loop (put_block q (take (nat count) buffer)) (drop (nat count) buffer) (n - count)
                (actual_length + count))
     else Some (q, actual_length))"

partial_function (option) take_loop :: "'a EmbQueue \<Rightarrow> 'a list \<Rightarrow> int \<Rightarrow> int \<Rightarrow> ('a list \<times> 'a EmbQueue \<times> int) option" where
  "take_loop q buffer n actual_length = (if n > 0
     then (let count = min (take_count q) n; (xs, q') = take_block q count
           in take_loop q' (buffer @ xs) (n - count) (actual_length + count))
     else Some (buffer, q, actual_length))"

text \<open>
  \<open>buffer\<close> holds at least \<open>n\<close> elements; the last component is \<^verbatim>\<open>actual_length\<close>. The byte and word
  routines differ in the element type only.
\<close>

definition put_many :: "'h EmbCommArea \<Rightarrow> 'a EmbQueue \<Rightarrow> 'a list \<Rightarrow> int \<Rightarrow> ('h EmbCommArea \<times> 'a EmbQueue \<times> int) option" where
  "put_many ca q buffer n = (case put_loop q buffer n 0 of None \<Rightarrow> None
     | Some (q', actual_length) \<Rightarrow>
         Some (if put_index q = take_index q' then EmbSendSignal ca (q_signal q') else ca, q', actual_length))"

definition EmbQueuePutBytes :: "'h EmbCommArea \<Rightarrow> byte EmbQueue \<Rightarrow> byte list \<Rightarrow> int \<Rightarrow> ('h EmbCommArea \<times> byte EmbQueue \<times> int) option" where
  "EmbQueuePutBytes = put_many"

definition EmbQueuePutWords :: "'h EmbCommArea \<Rightarrow> EmbWord EmbQueue \<Rightarrow> EmbWord list \<Rightarrow> int \<Rightarrow> ('h EmbCommArea \<times> EmbWord EmbQueue \<times> int) option" where
  "EmbQueuePutWords = put_many"

definition EmbQueueTakeBytes :: "byte EmbQueue \<Rightarrow> int \<Rightarrow> (byte list \<times> byte EmbQueue \<times> int) option" where
  "EmbQueueTakeBytes q n = take_loop q [] n 0"

definition EmbQueueTakeWords :: "EmbWord EmbQueue \<Rightarrow> int \<Rightarrow> (EmbWord list \<times> EmbWord EmbQueue \<times> int) option" where
  "EmbQueueTakeWords q n = take_loop q [] n 0"

section \<open>Reset\<close>

text \<open>\<open>own\<close>: whether the queue lies in the part of the area that the host allocated.\<close>

definition ResetIncomingQueue :: "'h \<Rightarrow> bool \<Rightarrow> 'h EmbCommArea \<Rightarrow> 'a EmbQueue \<Rightarrow> 'h EmbCommArea \<times> 'a EmbQueue" where
  "ResetIncomingQueue null own ca q = (let q1 = q\<lparr>put_index := 0, take_index := 0\<rparr> in
     if own then (ca, q1) else (RemoveSignalHandler null ca (q_signal q), q1\<lparr>q_signal := -1\<rparr>))"

definition ResetOutgoingQueue :: "'a EmbQueue \<Rightarrow> 'a EmbQueue" where
  "ResetOutgoingQueue q = q\<lparr>put_index := 0, take_index := 0, q_signal := -1\<rparr>"

section \<open>Invariant and contents\<close>

definition queue_inv :: "'a EmbQueue \<Rightarrow> bool" where
  "queue_inv q \<longleftrightarrow> 0 \<le> put_index q \<and> put_index q < queue_size q \<and> 0 \<le> take_index q \<and>
     take_index q < queue_size q \<and> queue_size q < 2 ^ 31 \<and> int (length (first_element q)) = queue_size q"

text \<open>The slot of the element \<open>k\<close> places behind the take index.\<close>

definition slot :: "'a EmbQueue \<Rightarrow> nat \<Rightarrow> nat" where
  "slot q k = nat (if take_index q + int k < queue_size q then take_index q + int k
                   else take_index q + int k - queue_size q)"

text \<open>The elements in the queue, oldest first.\<close>

definition contents :: "'a EmbQueue \<Rightarrow> 'a list" where
  "contents q = map (\<lambda>k. first_element q ! slot q k) [0..<nat (EmbQueueFilled q)]"

lemma filled_bounds: "queue_inv q \<Longrightarrow> 0 \<le> EmbQueueFilled q \<and> EmbQueueFilled q < queue_size q"
  by (auto simp: queue_inv_def EmbQueueFilled_def Let_def)

lemma space_filled: "queue_inv q \<Longrightarrow> EmbQueueSpace q + EmbQueueFilled q = queue_size q - 1"
  by (auto simp: queue_inv_def EmbQueueFilled_def EmbQueueSpace_def Let_def)

lemma space_nonneg: "queue_inv q \<Longrightarrow> 0 \<le> EmbQueueSpace q"
  using filled_bounds [of q] space_filled [of q] by linarith

lemma length_contents: "length (contents q) = nat (EmbQueueFilled q)"
  by (simp add: contents_def)

lemma nth_contents: "int k < EmbQueueFilled q \<Longrightarrow> contents q ! k = first_element q ! slot q k"
  by (simp add: contents_def zless_nat_conj [symmetric] zless_nat_eq_int_zless)

lemma contents_empty_iff: "queue_inv q \<Longrightarrow> contents q = [] \<longleftrightarrow> put_index q = take_index q"
  by (auto simp: contents_def EmbQueueFilled_def Let_def queue_inv_def)

lemma put_count_bounds: "queue_inv q \<Longrightarrow> 0 \<le> put_count q \<and> put_count q \<le> EmbQueueSpace q \<and>
    put_index q + put_count q \<le> queue_size q \<and> (put_count q = 0 \<longleftrightarrow> EmbQueueSpace q = 0)"
  by (auto simp: put_count_def queue_inv_def EmbQueueSpace_def Let_def)

lemma take_count_bounds: "queue_inv q \<Longrightarrow> 0 \<le> take_count q \<and> take_count q \<le> EmbQueueFilled q \<and>
    take_index q + take_count q \<le> queue_size q \<and> (take_count q = 0 \<longleftrightarrow> EmbQueueFilled q = 0)"
  by (auto simp: take_count_def queue_inv_def EmbQueueFilled_def Let_def)

section \<open>One block\<close>

lemma nth_memcpy_at:
  "off + length src \<le> length dst \<Longrightarrow> i < length dst \<Longrightarrow>
    memcpy_at dst off src ! i = (if off \<le> i \<and> i < off + length src then src ! (i - off) else dst ! i)"
  by (auto simp: memcpy_at_def nth_append min_def)

lemma put_block_sel [simp]:
  "first_element (put_block q xs) = memcpy_at (first_element q) (nat (put_index q)) xs"
  "queue_size (put_block q xs) = queue_size q" "take_index (put_block q xs) = take_index q"
  "q_signal (put_block q xs) = q_signal q" "element_size (put_block q xs) = element_size q"
  by (simp_all add: put_block_def)

lemma take_block_sel [simp]:
  "first_element (snd (take_block q n)) = first_element q"
  "queue_size (snd (take_block q n)) = queue_size q" "put_index (snd (take_block q n)) = put_index q"
  "q_signal (snd (take_block q n)) = q_signal q" "element_size (snd (take_block q n)) = element_size q"
  by (simp_all add: take_block_def)

lemma put_block_fits:
  assumes "queue_inv q" "int (length xs) \<le> put_count q"
  shows "queue_inv (put_block q xs)" "contents (put_block q xs) = contents q @ xs"
    "EmbQueueSpace (put_block q xs) = EmbQueueSpace q - int (length xs)"
proof -
  let ?p = "put_block q xs" and ?n = "int (length xs)"
  have b: "put_index q + ?n \<le> queue_size q" using put_count_bounds [OF assms(1)] assms(2) by simp
  have len: "nat (put_index q) + length xs \<le> length (first_element q)"
    using assms(1) b unfolding queue_inv_def by linarith
  show inv: "queue_inv ?p"
    using assms(1) b len by (auto simp: queue_inv_def put_block_def length_memcpy_at)
  have fl: "EmbQueueFilled ?p = EmbQueueFilled q + ?n"
    using assms by (auto simp: EmbQueueFilled_def put_block_def put_count_def queue_inv_def Let_def split: if_splits)
  show "EmbQueueSpace ?p = EmbQueueSpace q - ?n"
    using space_filled [OF inv] space_filled [OF assms(1)] fl by simp
  have fb: "0 \<le> EmbQueueFilled q" using filled_bounds [OF assms(1)] by simp
  show "contents ?p = contents q @ xs"
  proof (rule nth_equalityI)
    show "length (contents ?p) = length (contents q @ xs)" using fl fb by (simp add: length_contents nat_add_distrib)
    fix k assume "k < length (contents ?p)"
    then have k: "int k < EmbQueueFilled q + ?n" using fl fb by (simp add: length_contents)
    have sl: "slot ?p k = slot q k" by (simp add: slot_def)
    have bd: "EmbQueueFilled q + ?n < queue_size q" using filled_bounds [OF inv] fl by simp
    have slt: "slot q k < length (first_element q)"
      using k bd assms(1) by (auto simp: slot_def queue_inv_def nat_less_iff)
    have lhs: "contents ?p ! k = memcpy_at (first_element q) (nat (put_index q)) xs ! slot q k"
      using k fl sl by (simp add: nth_contents)
    show "contents ?p ! k = (contents q @ xs) ! k"
    proof (cases "int k < EmbQueueFilled q")
      case True
      have "\<not> (nat (put_index q) \<le> slot q k \<and> slot q k < nat (put_index q) + length xs)"
        using True assms by (auto simp: slot_def EmbQueueFilled_def put_count_def queue_inv_def Let_def split: if_splits)
      then have "contents ?p ! k = first_element q ! slot q k" using lhs len slt by (simp only: nth_memcpy_at if_False)
      moreover have "k < length (contents q)" using True by (simp add: length_contents zless_nat_eq_int_zless)
      ultimately show ?thesis using True by (simp add: nth_append nth_contents)
    next
      case False
      have "slot q k = nat (put_index q) + (k - nat (EmbQueueFilled q))"
        using False k b bd assms(1) by (auto simp: slot_def EmbQueueFilled_def queue_inv_def Let_def split: if_splits)
      moreover have "k - nat (EmbQueueFilled q) < length xs" using k False fb by linarith
      ultimately have "contents ?p ! k = xs ! (k - nat (EmbQueueFilled q))"
        using lhs len by (simp add: nth_memcpy_at)
      moreover have "\<not> k < length (contents q)" using False by (simp add: length_contents zless_nat_eq_int_zless)
      ultimately show ?thesis by (simp add: nth_append length_contents)
    qed
  qed
qed

lemma take_block_fits:
  assumes "queue_inv q" "0 \<le> n" "n \<le> take_count q"
  shows "queue_inv (snd (take_block q n))" "fst (take_block q n) = take (nat n) (contents q)"
    "contents (snd (take_block q n)) = drop (nat n) (contents q)"
    "EmbQueueFilled (snd (take_block q n)) = EmbQueueFilled q - n"
proof -
  let ?t = "snd (take_block q n)"
  have b: "take_index q + n \<le> queue_size q" "n \<le> EmbQueueFilled q"
    using take_count_bounds [OF assms(1)] assms(3) by simp_all
  show inv: "queue_inv ?t" using assms b by (auto simp: queue_inv_def take_block_def)
  show fl: "EmbQueueFilled ?t = EmbQueueFilled q - n"
    using assms by (auto simp: EmbQueueFilled_def take_block_def take_count_def queue_inv_def Let_def split: if_splits)
  have sl: "slot q k = nat (take_index q) + k" if "int k < n" for k
    using that b assms(1,2) by (auto simp: slot_def queue_inv_def)
  show "fst (take_block q n) = take (nat n) (contents q)"
  proof (rule nth_equalityI)
    have l: "nat n \<le> length (contents q)" "nat n \<le> length (first_element q) - nat (take_index q)"
      using b assms(1,2) by (auto simp: length_contents queue_inv_def)
    then show "length (fst (take_block q n)) = length (take (nat n) (contents q))" by (simp add: take_block_def)
    fix k assume "k < length (fst (take_block q n))"
    then have "int k < n" "int k < EmbQueueFilled q" using b by (auto simp: take_block_def zless_nat_eq_int_zless)
    then show "fst (take_block q n) ! k = take (nat n) (contents q) ! k"
      using l by (simp add: take_block_def nth_contents sl zless_nat_eq_int_zless)
  qed
  have sl2: "slot ?t k = slot q (nat n + k)" if "int k < EmbQueueFilled q - n" for k
    using that b assms by (auto simp: slot_def take_block_def EmbQueueFilled_def queue_inv_def Let_def split: if_splits)
  show "contents ?t = drop (nat n) (contents q)"
    using fl b assms(2) sl2 by (intro nth_equalityI)
      (auto simp: length_contents nth_contents nat_diff_distrib nat_less_iff)
qed

section \<open>Single elements\<close>

lemma put_element_block:
  assumes "queue_inv q"
  shows "put_element ca q x = (if EmbQueueSpace q = 0 then None
    else Some (if put_index q = take_index q then EmbSendSignal ca (q_signal q) else ca, put_block q [x]))"
proof -
  have "next_index q (put_index q) = take_index q \<longleftrightarrow> EmbQueueSpace q = 0"
    using assms by (auto simp: next_index_def EmbQueueSpace_def queue_inv_def Let_def)
  moreover have "memcpy_at (first_element q) (nat (put_index q)) [x] = (first_element q)[nat (put_index q) := x]"
    using assms by (auto simp: memcpy_at_def upd_conv_take_nth_drop queue_inv_def nat_less_iff)
  moreover have "next_index q (put_index q) = put_index (put_block q [x])"
    using assms by (auto simp: next_index_def put_block_def queue_inv_def)
  ultimately show ?thesis
    by (simp add: put_element_def publish_put_def next_index_def put_block_def)
qed

lemma take_element_block:
  assumes "queue_inv q"
  shows "take_element q = (if EmbQueueFilled q = 0 then None
    else Some (hd (fst (take_block q 1)), snd (take_block q 1)))"
proof -
  have "EmbQueueFilled q = 0 \<longleftrightarrow> put_index q = take_index q"
    using assms by (auto simp: EmbQueueFilled_def queue_inv_def Let_def)
  moreover have "hd (fst (take_block q 1)) = first_element q ! nat (take_index q)"
    using assms by (auto simp: take_block_def queue_inv_def hd_conv_nth nat_less_iff)
  moreover have "snd (take_block q 1) = q\<lparr>take_index := next_index q (take_index q)\<rparr>"
    using assms by (auto simp: take_block_def next_index_def queue_inv_def)
  ultimately show ?thesis by (simp add: take_element_def)
qed

text \<open>The word and byte queues as a bounded queue that holds one element less than its size.\<close>

definition fifo_put :: "'h EmbCommArea \<times> 'a EmbQueue \<Rightarrow> 'a \<Rightarrow> ('h EmbCommArea \<times> 'a EmbQueue) option" where
  "fifo_put s x = put_element (fst s) (snd s) x"

definition fifo_take :: "'h EmbCommArea \<times> 'a EmbQueue \<Rightarrow> ('a \<times> 'h EmbCommArea \<times> 'a EmbQueue) option" where
  "fifo_take s = map_option (\<lambda>(x, q). (x, fst s, q)) (take_element (snd s))"

lemma fifo_put_cases:
  assumes "queue_inv (snd s)"
  shows "fifo_put s x = None \<longleftrightarrow> EmbQueueSpace (snd s) = 0"
    and "fifo_put s x = Some t \<Longrightarrow> queue_inv (snd t) \<and> contents (snd t) = contents (snd s) @ [x] \<and>
      queue_size (snd t) = queue_size (snd s)"
proof -
  show "fifo_put s x = None \<longleftrightarrow> EmbQueueSpace (snd s) = 0"
    by (simp add: fifo_put_def put_element_block [OF assms])
  assume t: "fifo_put s x = Some t"
  then have "EmbQueueSpace (snd s) \<noteq> 0" by (auto simp: fifo_put_def put_element_block [OF assms])
  then have "int (length [x]) \<le> put_count (snd s)" using put_count_bounds [OF assms] by auto
  then show "queue_inv (snd t) \<and> contents (snd t) = contents (snd s) @ [x] \<and> queue_size (snd t) = queue_size (snd s)"
    using put_block_fits [OF assms, of "[x]"] put_element_block [OF assms, of "fst s" x] t
    by (auto simp: fifo_put_def split: if_splits)
qed

lemma fifo_take_cases:
  assumes "queue_inv (snd s)"
  shows "fifo_take s = None \<longleftrightarrow> contents (snd s) = []"
    and "fifo_take s = Some (x, t) \<Longrightarrow> queue_inv (snd t) \<and> contents (snd s) = x # contents (snd t) \<and>
      queue_size (snd t) = queue_size (snd s)"
proof -
  show "fifo_take s = None \<longleftrightarrow> contents (snd s) = []"
    using take_element_block [OF assms] filled_bounds [OF assms] by (auto simp: fifo_take_def contents_def)
  assume t: "fifo_take s = Some (x, t)"
  then have n: "EmbQueueFilled (snd s) \<noteq> 0" using take_element_block [OF assms] by (auto simp: fifo_take_def)
  then have c: "1 \<le> take_count (snd s)" using take_count_bounds [OF assms] by auto
  have "contents (snd s) \<noteq> []" using n filled_bounds [OF assms] by (auto simp: contents_def)
  then have "contents (snd s) = hd (fst (take_block (snd s) 1)) # contents (snd (take_block (snd s) 1))"
    using take_block_fits [OF assms _ c] by (cases "contents (snd s)") auto
  then show "queue_inv (snd t) \<and> contents (snd s) = x # contents (snd t) \<and> queue_size (snd t) = queue_size (snd s)"
    using take_block_fits(1) [OF assms _ c] t n take_element_block [OF assms]
    by (auto simp: fifo_take_def)
qed

interpretation fifo: bounded_fifo "\<lambda>s. queue_inv (snd s)" "\<lambda>s. contents (snd s)"
  "\<lambda>s. nat (queue_size (snd s) - 1)" fifo_put fifo_take
proof (unfold_locales, goal_cases)
  case (1 s x)
  have "EmbQueueSpace (snd s) = 0 \<longleftrightarrow> nat (queue_size (snd s) - 1) \<le> length (contents (snd s))"
    using space_filled [OF 1] filled_bounds [OF 1] space_nonneg [OF 1] by (simp add: length_contents) linarith
  then show ?case using fifo_put_cases(1) [OF 1] by simp
next
  case (2 s x t)
  then show ?case using fifo_put_cases(2) [of s x t] by simp
next
  case (3 s)
  then show ?case by (rule fifo_take_cases(1))
next
  case (4 s x t)
  then show ?case using fifo_take_cases(2) [of s x t] by simp
qed

section \<open>Transfers element by element\<close>

text \<open>The reference for the block transfers: one put or take after the other.\<close>

primrec put_each :: "'h EmbCommArea \<Rightarrow> 'a EmbQueue \<Rightarrow> 'a list \<Rightarrow> ('h EmbCommArea \<times> 'a EmbQueue) option" where
  "put_each ca q [] = Some (ca, q)"
| "put_each ca q (x # xs) = (case put_element ca q x of None \<Rightarrow> None | Some (ca', q') \<Rightarrow> put_each ca' q' xs)"

primrec take_each :: "'a EmbQueue \<Rightarrow> nat \<Rightarrow> ('a list \<times> 'a EmbQueue) option" where
  "take_each q 0 = Some ([], q)"
| "take_each q (Suc n) = (case take_element q of None \<Rightarrow> None
     | Some (x, q') \<Rightarrow> map_option (\<lambda>(xs, q2). (x # xs, q2)) (take_each q' n))"

lemma put_each_fifo: "put_each ca q xs = fifo.put_all (ca, q) xs"
  by (induction xs arbitrary: ca q) (auto simp: fifo_put_def split: option.split)

lemma take_each_fifo: "map_option (\<lambda>(xs, q'). (xs, ca, q')) (take_each q n) = fifo.tak_all (ca, q) n"
proof (induction n arbitrary: q)
  case (Suc n)
  show ?case
  proof (cases "take_element q")
    case (Some r)
    then obtain x q' where "take_element q = Some (x, q')" by (cases r) auto
    moreover from this have "fifo_take (ca, q) = Some (x, ca, q')" by (simp add: fifo_take_def)
    ultimately show ?thesis using Suc [of q', symmetric]
      by (simp add: option.map_comp comp_def case_prod_beta)
  next
    case None
    moreover from this have "fifo_take (ca, q) = None" by (simp add: fifo_take_def)
    ultimately show ?thesis by simp
  qed
qed simp

text \<open>A block is the sequence of its elements.\<close>

definition put_seq :: "'a EmbQueue \<Rightarrow> 'a list \<Rightarrow> 'a EmbQueue" where
  "put_seq q xs = foldl (\<lambda>q x. put_block q [x]) q xs"

lemma put_seq_simps [simp]: "put_seq q [] = q" "put_seq q (x # xs) = put_seq (put_block q [x]) xs"
  "put_seq q (xs @ ys) = put_seq (put_seq q xs) ys"
  by (simp_all add: put_seq_def)

lemma put_seq_sel [simp]: "take_index (put_seq q xs) = take_index q" "q_signal (put_seq q xs) = q_signal q"
  by (induction xs arbitrary: q) simp_all

lemma put_block_Nil: "queue_inv q \<Longrightarrow> put_block q [] = q"
  by (auto simp: put_block_def memcpy_at_def queue_inv_def)

lemma memcpy_at_Cons:
  "off + length (x # xs) \<le> length m \<Longrightarrow> memcpy_at (memcpy_at m off [x]) (Suc off) xs = memcpy_at m off (x # xs)"
  by (simp add: memcpy_at_def min_def add.commute)

lemma put_block_seq:
  "queue_inv q \<Longrightarrow> int (length xs) \<le> put_count q \<Longrightarrow> put_block q xs = put_seq q xs"
proof (induction xs arbitrary: q)
  case (Cons x xs)
  have c: "int (length [x]) \<le> put_count q" using Cons.prems(2) by simp
  note q' = put_block_fits [OF Cons.prems(1) c]
  have b: "put_index q + int (length (x # xs)) \<le> queue_size q"
    using put_count_bounds [OF Cons.prems(1)] Cons.prems(2) by simp
  show ?case
  proof (cases "xs = []")
    case False
    have pi: "put_index (put_block q [x]) = put_index q + 1"
      using b False by (auto simp: put_block_def neq_Nil_conv)
    have "int (length xs) \<le> put_count (put_block q [x])"
      using Cons.prems False pi by (auto simp: put_count_def Let_def neq_Nil_conv split: if_splits)
    then have "put_seq (put_block q [x]) xs = put_block (put_block q [x]) xs"
      using Cons.IH [OF q'(1)] by simp
    moreover have "put_block (put_block q [x]) xs = put_block q (x # xs)"
    proof -
      have "nat (put_index q) + length (x # xs) \<le> length (first_element q)" "0 \<le> put_index q"
        using b Cons.prems(1) by (auto simp: queue_inv_def)
      then have "memcpy_at (memcpy_at (first_element q) (nat (put_index q)) [x]) (nat (put_index q + 1)) xs =
          memcpy_at (first_element q) (nat (put_index q)) (x # xs)"
        using memcpy_at_Cons [of "nat (put_index q)" x xs "first_element q"]
        by (simp only: nat_add_distrib) simp
      then show ?thesis using pi by (simp add: put_block_def ac_simps)
    qed
    ultimately show ?thesis by simp
  qed simp
qed (simp add: put_block_Nil)

lemma put_loop_fits:
  "queue_inv q \<Longrightarrow> n \<le> EmbQueueSpace q \<Longrightarrow> n \<le> int (length buffer) \<Longrightarrow>
    put_loop q buffer n a = Some (put_seq q (take (nat n) buffer), a + max 0 n)"
proof (induction "nat n" arbitrary: q buffer n a rule: less_induct)
  case less
  show ?case
  proof (cases "n > 0")
    case True
    define c where "c = min (put_count q) n"
    have c: "0 < c" "c \<le> n" "c \<le> put_count q"
      using put_count_bounds [OF less.prems(1)] True less.prems(2) by (auto simp: c_def)
    let ?xs = "take (nat c) buffer"
    have l: "int (length ?xs) = c" using c less.prems(3) by simp
    then have "int (length ?xs) \<le> put_count q" using c(3) by simp
    note q' = put_block_fits [OF less.prems(1) this] put_block_seq [OF less.prems(1) this]
    have "put_loop q buffer n a = put_loop (put_block q ?xs) (drop (nat c) buffer) (n - c) (a + c)"
      using True by (simp add: put_loop.simps [of q] c_def Let_def)
    also have "\<dots> = Some (put_seq (put_block q ?xs) (take (nat (n - c)) (drop (nat c) buffer)), a + c + max 0 (n - c))"
      using c l less.prems q' by (intro less.hyps) auto
    also have "put_seq (put_block q ?xs) (take (nat (n - c)) (drop (nat c) buffer)) = put_seq q (take (nat n) buffer)"
    proof -
      have "nat n = nat c + nat (n - c)" using c by simp
      then show ?thesis using q'(4) by (simp add: take_add)
    qed
    finally show ?thesis using c by simp
  qed (simp add: put_loop.simps)
qed

lemma put_loop_only_fits:
  assumes "put_loop q buffer n a = Some r"
  shows "queue_inv q \<and> n \<le> int (length buffer) \<and> 0 < n \<longrightarrow> n \<le> EmbQueueSpace q"
proof (rule put_loop.raw_induct
    [where P = "\<lambda>q buffer n a r. queue_inv q \<and> n \<le> int (length buffer) \<and> 0 < n \<longrightarrow> n \<le> EmbQueueSpace q",
      OF _ assms], rule impI)
  fix loop :: "'a EmbQueue \<Rightarrow> 'a list \<Rightarrow> int \<Rightarrow> int \<Rightarrow> ('a EmbQueue \<times> int) option" and q buffer n a r
  assume IH: "\<And>q buffer n a r. loop q buffer n a = Some r \<Longrightarrow>
      queue_inv q \<and> n \<le> int (length buffer) \<and> 0 < n \<longrightarrow> n \<le> EmbQueueSpace q"
    and eq: "(if n > 0 then (let count = min (put_count q) n
           in loop (put_block q (take (nat count) buffer)) (drop (nat count) buffer) (n - count) (a + count))
     else Some (q, a)) = Some r"
    and pre: "queue_inv q \<and> n \<le> int (length buffer) \<and> 0 < n"
  define c where "c = min (put_count q) n"
  have c: "0 \<le> c" "c \<le> n" "c \<le> put_count q" "c \<le> EmbQueueSpace q"
    using put_count_bounds [of q] pre by (auto simp: c_def)
  let ?xs = "take (nat c) buffer"
  have l: "int (length ?xs) = c" using c pre by (auto simp: min_def)
  then have "int (length ?xs) \<le> put_count q" using c(3) by simp
  note q' = put_block_fits [OF _ this]
  have "loop (put_block q ?xs) (drop (nat c) buffer) (n - c) (a + c) = Some r"
    using eq pre by (simp add: c_def Let_def)
  from IH [OF this] show "n \<le> EmbQueueSpace q" using c l pre q'(1,3) by (cases "c = n") auto
qed

lemma put_each_seq:
  "queue_inv q \<Longrightarrow> int (length xs) \<le> EmbQueueSpace q \<Longrightarrow> put_each ca q xs =
    Some (if xs \<noteq> [] \<and> put_index q = take_index q then EmbSendSignal ca (q_signal q) else ca, put_seq q xs)"
proof (induction xs arbitrary: ca q)
  case (Cons x xs)
  have sp: "EmbQueueSpace q \<noteq> 0" "int (length [x]) \<le> put_count q"
    using Cons.prems(2) put_count_bounds [OF Cons.prems(1)] by auto
  note q' = put_block_fits [OF Cons.prems(1) sp(2)]
  have "contents (put_block q [x]) \<noteq> []" using q'(2) by simp
  then have "put_index (put_block q [x]) \<noteq> take_index q" using contents_empty_iff [OF q'(1)] by simp
  then show ?case using sp q'(3) Cons.prems(2)
    by (simp add: put_element_block [OF Cons.prems(1)] Cons.IH [OF q'(1)])
qed simp

text \<open>The block transfer of a positive number of elements is the transfer one by one.\<close>

lemma put_many_each:
  assumes "queue_inv q" "0 < n" "n \<le> int (length buffer)"
  shows "put_many ca q buffer n = map_option (\<lambda>(ca', q'). (ca', q', n)) (put_each ca q (take (nat n) buffer))"
proof (cases "n \<le> EmbQueueSpace q")
  case True
  have "take (nat n) buffer \<noteq> []" "int (length (take (nat n) buffer)) \<le> EmbQueueSpace q" using assms True by auto
  then show ?thesis
    using put_loop_fits [OF assms(1) True assms(3)] assms(2) by (simp add: put_many_def put_each_seq [OF assms(1)])
next
  case False
  have "put_loop q buffer n 0 = None"
    using put_loop_only_fits [of q buffer n 0] assms False by (cases "put_loop q buffer n 0") auto
  moreover have "put_each ca q (take (nat n) buffer) = None"
  proof -
    have "\<not> length (contents q) + length (take (nat n) buffer) \<le>
        max (nat (queue_size q - 1)) (length (contents q))"
      using space_filled [OF assms(1)] filled_bounds [OF assms(1)] False assms by (auto simp: length_contents)
    then show ?thesis
      using fifo.put_all_cases [of "(ca, q)" "take (nat n) buffer"] assms(1) by (simp add: put_each_fifo)
  qed
  ultimately show ?thesis by (simp add: put_many_def)
qed

lemma put_many_result:
  assumes "queue_inv q" "0 \<le> n" "n \<le> int (length buffer)" "n \<le> EmbQueueSpace q"
  shows "\<exists>ca' q'. put_many ca q buffer n = Some (ca', q', n) \<and> queue_inv q' \<and>
    contents q' = contents q @ take (nat n) buffer"
proof (cases "n = 0")
  case False
  have "length (contents q) + length (take (nat n) buffer) \<le> nat (queue_size q - 1)"
    using space_filled [OF assms(1)] filled_bounds [OF assms(1)] assms by (simp add: length_contents)
  then obtain t where "fifo.put_all (ca, q) (take (nat n) buffer) = Some t" "queue_inv (snd t)"
      "contents (snd t) = contents q @ take (nat n) buffer"
    using fifo.put_all_cases [of "(ca, q)" "take (nat n) buffer"] assms(1) by (fastforce simp: max_def split: if_splits)
  then show ?thesis
    using put_many_each [of q n buffer ca] False assms by (cases t) (auto simp: put_each_fifo)
qed (use assms in \<open>simp add: put_many_def put_loop.simps\<close>)

lemma take_loop_fits:
  "queue_inv q \<Longrightarrow> n \<le> EmbQueueFilled q \<Longrightarrow>
    \<exists>q'. take_loop q buffer n a = Some (buffer @ take (nat n) (contents q), q', a + max 0 n) \<and>
      queue_inv q' \<and> contents q' = drop (nat n) (contents q)"
proof (induction "nat n" arbitrary: q buffer n a rule: less_induct)
  case less
  show ?case
  proof (cases "n > 0")
    case True
    define c where "c = min (take_count q) n"
    have c: "0 < c" "c \<le> n" "c \<le> take_count q"
      using take_count_bounds [OF less.prems(1)] True less.prems(2) by (auto simp: c_def)
    obtain xs q1 where tb: "take_block q c = (xs, q1)" by fastforce
    have q1: "queue_inv q1" "xs = take (nat c) (contents q)" "contents q1 = drop (nat c) (contents q)"
        "EmbQueueFilled q1 = EmbQueueFilled q - c"
      using take_block_fits [OF less.prems(1) _ c(3)] c(1) tb by simp_all
    have split: "nat n = nat c + nat (n - c)" using c by simp
    obtain q' where "take_loop q1 (buffer @ xs) (n - c) (a + c) =
        Some ((buffer @ xs) @ take (nat (n - c)) (contents q1), q', a + c + max 0 (n - c))"
        "queue_inv q'" "contents q' = drop (nat (n - c)) (contents q1)"
      using less.hyps [of "n - c" q1 "buffer @ xs" "a + c"] c q1(1,4) less.prems(2) by auto
    moreover have "take_loop q buffer n a = take_loop q1 (buffer @ xs) (n - c) (a + c)"
      using True tb by (simp add: take_loop.simps [of q] c_def [symmetric] Let_def)
    ultimately show ?thesis using q1(2,3) c split by (auto simp: take_add add.commute)
  next
    case False
    then show ?thesis using less.prems by (simp add: take_loop.simps)
  qed
qed

lemma take_loop_only_fits:
  assumes "take_loop q buffer n a = Some r"
  shows "queue_inv q \<and> 0 < n \<longrightarrow> n \<le> EmbQueueFilled q"
proof (rule take_loop.raw_induct
    [where P = "\<lambda>q buffer n a r. queue_inv q \<and> 0 < n \<longrightarrow> n \<le> EmbQueueFilled q", OF _ assms], rule impI)
  fix loop :: "'a EmbQueue \<Rightarrow> 'a list \<Rightarrow> int \<Rightarrow> int \<Rightarrow> ('a list \<times> 'a EmbQueue \<times> int) option" and q buffer n a r
  assume IH: "\<And>q buffer n a r. loop q buffer n a = Some r \<Longrightarrow> queue_inv q \<and> 0 < n \<longrightarrow> n \<le> EmbQueueFilled q"
    and eq: "(if n > 0 then (let count = min (take_count q) n; (xs, q') = take_block q count
           in loop q' (buffer @ xs) (n - count) (a + count)) else Some (buffer, q, a)) = Some r"
    and pre: "queue_inv q \<and> 0 < n"
  define c where "c = min (take_count q) n"
  have c: "0 \<le> c" "c \<le> n" "c \<le> take_count q" "c \<le> EmbQueueFilled q"
    using take_count_bounds [of q] pre by (auto simp: c_def)
  obtain xs q1 where tb: "take_block q c = (xs, q1)" by fastforce
  have q1: "queue_inv q1" "EmbQueueFilled q1 = EmbQueueFilled q - c"
    using take_block_fits [OF _ c(1,3)] pre tb by simp_all
  have "loop q1 (buffer @ xs) (n - c) (a + c) = Some r"
    using eq pre tb by (simp add: c_def [symmetric] Let_def)
  from IH [OF this] show "n \<le> EmbQueueFilled q" using c pre q1 by (cases "c = n") auto
qed

section \<open>Queues of structures\<close>

text \<open>
  The queue of element records that a byte queue stands for: element \<open>i\<close> is made of the
  \<^verbatim>\<open>element_size\<close> bytes from \<^verbatim>\<open>i * element_size\<close> on.
\<close>

definition chunk :: "nat \<Rightarrow> 'a list \<Rightarrow> nat \<Rightarrow> 'a list" where
  "chunk es m i = take es (drop (i * es) m)"

definition chunked :: "byte EmbQueue \<Rightarrow> byte list EmbQueue" where
  "chunked q = \<lparr>element_size = element_size q, queue_size = queue_size q, put_index = put_index q,
     take_index = take_index q, q_signal = q_signal q,
     first_element = map (chunk (nat (element_size q)) (first_element q)) [0..<nat (queue_size q)]\<rparr>"

definition struct_queue_inv :: "byte EmbQueue \<Rightarrow> bool" where
  "struct_queue_inv q \<longleftrightarrow> 0 < element_size q \<and> queue_inv (chunked q) \<and>
     int (length (first_element q)) = queue_size q * element_size q"

lemma chunk_memcpy_at:
  assumes "length e = es" "p * es + es \<le> length m" "i * es + es \<le> length m"
  shows "chunk es (memcpy_at m (p * es) e) i = (if i = p then e else chunk es m i)"
proof (cases "i = p")
  case False
  then have "i * es + es \<le> p * es \<or> p * es + es \<le> i * es"
    by (metis add.commute linorder_neqE_nat mult_Suc mult_le_mono1 Suc_leI)
  then show ?thesis
  proof
    assume a: "i * es + es \<le> p * es"
    then have "take es (drop (i * es) (take (p * es) m)) = take es (drop (i * es) m)"
      by (simp add: drop_take min_def)
    then show ?thesis using a assms False by (simp add: chunk_def memcpy_at_def)
  next
    assume a: "p * es + es \<le> i * es"
    then have "p * es \<le> i * es" by (rule add_leD1)
    then have "drop (i * es) (take (p * es) m) = []" "p * es - i * es = 0"
      by (simp_all only: drop_eq_Nil length_take min.coboundedI2 diff_is_0_eq)
    with a show ?thesis using assms False by (simp add: chunk_def memcpy_at_def)
  qed
qed (use assms in \<open>simp add: chunk_def memcpy_at_def\<close>)

lemma struct_slot_bound:
  "struct_queue_inv q \<Longrightarrow> i < nat (queue_size q) \<Longrightarrow>
    i * nat (element_size q) + nat (element_size q) \<le> length (first_element q)"
proof -
  assume inv: "struct_queue_inv q" and i: "i < nat (queue_size q)"
  have "length (first_element q) = nat (queue_size q) * nat (element_size q)"
    using inv by (metis struct_queue_inv_def nat_int mult.commute nat_mult_distrib order_less_imp_le)
  moreover have "(i + 1) * nat (element_size q) \<le> nat (queue_size q) * nat (element_size q)"
    using i by (intro mult_le_mono1) simp
  ultimately show ?thesis by simp
qed

text \<open>The byte operations implement the operations on the queue of elements.\<close>

lemma chunked_put:
  assumes "struct_queue_inv q" "int (length ep) \<ge> element_size q"
  shows "map_option (map_prod id chunked) (EmbQueuePut ca q ep) =
    put_element ca (chunked q) (take (nat (element_size q)) ep)"
proof -
  let ?es = "nat (element_size q)" and ?p = "nat (put_index q)" and ?e = "take (nat (element_size q)) ep"
  have idx: "0 \<le> put_index q" "put_index q < queue_size q" "0 < element_size q"
    using assms(1) by (auto simp: struct_queue_inv_def queue_inv_def chunked_def)
  have off: "nat (put_index q * element_size q) = ?p * ?es" using idx by (simp add: nat_mult_distrib)
  have le: "length ?e = ?es" using assms(2) by simp
  have "map (chunk ?es (memcpy_at (first_element q) (?p * ?es) ?e)) [0..<nat (queue_size q)] =
      (map (chunk ?es (first_element q)) [0..<nat (queue_size q)])[?p := ?e]" (is "?l = ?r")
  proof (rule nth_equalityI)
    fix i assume "i < length ?l"
    then have i: "i < nat (queue_size q)" by simp
    have "?p < nat (queue_size q)" using idx by simp
    from chunk_memcpy_at [OF le struct_slot_bound [OF assms(1) this] struct_slot_bound [OF assms(1) i]]
    show "?l ! i = ?r ! i" using i by (cases "i = ?p") simp_all
  qed simp
  then show ?thesis
    by (simp add: EmbQueuePut_def put_element_def publish_put_def Let_def next_index_def chunked_def off)
qed

lemma chunked_take:
  assumes "struct_queue_inv q"
  shows "map_option (map_prod id chunked) (EmbQueueTake q) = take_element (chunked q)"
proof -
  have idx: "0 \<le> take_index q" "take_index q < queue_size q" "0 < element_size q"
    using assms by (auto simp: struct_queue_inv_def queue_inv_def chunked_def)
  have "nat (take_index q * element_size q) = nat (take_index q) * nat (element_size q)"
    using idx by (simp add: nat_mult_distrib)
  then show ?thesis using idx
    by (simp add: EmbQueueTake_def take_element_def next_index_def chunked_def chunk_def)
qed

lemma struct_queue_inv_put:
  assumes "struct_queue_inv q" "int (length ep) \<ge> element_size q" "EmbQueuePut ca q ep = Some (ca', q')"
  shows "struct_queue_inv q'" "contents (chunked q') = contents (chunked q) @ [take (nat (element_size q)) ep]"
proof -
  have inv: "queue_inv (chunked q)" using assms(1) by (simp add: struct_queue_inv_def)
  have p: "fifo_put (ca, chunked q) (take (nat (element_size q)) ep) = Some (ca', chunked q')"
    using chunked_put [OF assms(1,2), of ca] assms(3) by (simp add: fifo_put_def)
  have c: "queue_inv (chunked q')" "contents (chunked q') = contents (chunked q) @ [take (nat (element_size q)) ep]"
    using fifo_put_cases(2) [OF _ p] inv by simp_all
  then show "contents (chunked q') = contents (chunked q) @ [take (nat (element_size q)) ep]" by simp
  have eq: "element_size q' = element_size q" "queue_size q' = queue_size q"
      "first_element q' = memcpy_at (first_element q) (nat (put_index q * element_size q)) (take (nat (element_size q)) ep)"
    using assms(3) by (auto simp: EmbQueuePut_def publish_put_def Let_def next_index_def split: if_splits)
  have idx: "0 \<le> put_index q" "put_index q < queue_size q" "0 < element_size q"
    using assms(1) by (auto simp: struct_queue_inv_def queue_inv_def chunked_def)
  have "nat (put_index q * element_size q) + length (take (nat (element_size q)) ep) \<le> length (first_element q)"
    using struct_slot_bound [OF assms(1), of "nat (put_index q)"] idx assms(2)
    by (simp add: nat_mult_distrib min_def)
  then show "struct_queue_inv q'" using c(1) assms(1) eq by (simp add: struct_queue_inv_def length_memcpy_at)
qed

lemma struct_queue_inv_take:
  assumes "struct_queue_inv q" "EmbQueueTake q = Some (e, q')"
  shows "struct_queue_inv q'" "contents (chunked q) = e # contents (chunked q')"
proof -
  have "fifo_take (ca, chunked q) = Some (e, ca, chunked q')" for ca :: "unit EmbCommArea"
    using chunked_take [OF assms(1)] assms(2) by (simp add: fifo_take_def)
  from fifo_take_cases(2) [OF _ this] assms(1)
  have c: "queue_inv (chunked q')" "contents (chunked q) = e # contents (chunked q')"
    by (simp_all add: struct_queue_inv_def)
  show "struct_queue_inv q'" using c(1) assms by (auto simp: struct_queue_inv_def EmbQueueTake_def split: if_splits)
  show "contents (chunked q) = e # contents (chunked q')" by (rule c(2))
qed

end
