(* ===== verification/Emb_Queue_Conc.thy ===== *)
theory Emb_Queue_Conc
  imports Emb_Queue
begin

text \<open>
  One thread that puts elements into a queue and one that takes them, with no lock: every
  access to the shared indices of \<^verbatim>\<open>EmbQueuePutWord\<close> and \<^verbatim>\<open>EmbQueueTakeWord\<close> is a step of its own,
  in program order, and the two threads interleave in any way. The acquire and release
  accesses of the indices are what makes this sequentially consistent view sound.
\<close>

section \<open>The threads\<close>

text \<open>
  The putter has filled the slot and spins on the take index with its new put index
  (\<open>PSpin\<close>), has left the loop (\<open>PReady\<close>), or has stored the index and is about to compare the
  original put index with the take index (\<open>PSignal\<close>).
\<close>

datatype 'a putter = PIdle | PSpin 'a | PReady 'a | PSignal int

text \<open>
  The taker has seen an element (\<open>TFound\<close>), has copied it (\<open>TCopied\<close>), or found the queue empty
  and sleeps until it is signalled (\<open>TWait\<close>).
\<close>

datatype 'a taker = TIdle | TFound | TCopied 'a | TWait

text \<open>\<open>signalled\<close>: the signal of the queue is up. The histories record completed operations.\<close>

record 'a ring =
  r_queue :: "'a EmbQueue"
  r_put :: "'a putter"
  r_take :: "'a taker"
  signalled :: bool
  published :: "'a list"
  taken :: "'a list"

inductive ring_step :: "'a ring \<Rightarrow> 'a ring \<Rightarrow> bool" where
  fill: "r_put r = PIdle \<Longrightarrow> q = r_queue r \<Longrightarrow>
    ring_step r (r\<lparr>r_queue := q\<lparr>first_element := (first_element q)[nat (put_index q) := x]\<rparr>, r_put := PSpin x\<rparr>)"
| spin: "r_put r = PSpin x \<Longrightarrow> q = r_queue r \<Longrightarrow> next_index q (put_index q) = take_index q \<Longrightarrow> ring_step r r"
| leave: "r_put r = PSpin x \<Longrightarrow> q = r_queue r \<Longrightarrow> next_index q (put_index q) \<noteq> take_index q \<Longrightarrow>
    ring_step r (r\<lparr>r_put := PReady x\<rparr>)"
| publish: "r_put r = PReady x \<Longrightarrow> q = r_queue r \<Longrightarrow>
    ring_step r (r\<lparr>r_queue := q\<lparr>put_index := next_index q (put_index q)\<rparr>, r_put := PSignal (put_index q),
      published := published r @ [x]\<rparr>)"
| signal: "r_put r = PSignal p \<Longrightarrow>
    ring_step r (r\<lparr>r_put := PIdle, signalled := (signalled r \<or> p = take_index (r_queue r))\<rparr>)"
| empty: "r_take r = TIdle \<Longrightarrow> put_index (r_queue r) = take_index (r_queue r) \<Longrightarrow> ring_step r (r\<lparr>r_take := TWait\<rparr>)"
| found: "r_take r = TIdle \<Longrightarrow> put_index (r_queue r) \<noteq> take_index (r_queue r) \<Longrightarrow> ring_step r (r\<lparr>r_take := TFound\<rparr>)"
| copy: "r_take r = TFound \<Longrightarrow> q = r_queue r \<Longrightarrow>
    ring_step r (r\<lparr>r_take := TCopied (first_element q ! nat (take_index q))\<rparr>)"
| advance: "r_take r = TCopied x \<Longrightarrow> q = r_queue r \<Longrightarrow>
    ring_step r (r\<lparr>r_queue := q\<lparr>take_index := next_index q (take_index q)\<rparr>, r_take := TIdle, taken := taken r @ [x]\<rparr>)"
| wake: "r_take r = TWait \<Longrightarrow> signalled r \<Longrightarrow> ring_step r (r\<lparr>r_take := TIdle, signalled := False\<rparr>)"

inductive_cases ring_stepE: "ring_step r r'"

definition ring_start :: "'a ring \<Rightarrow> bool" where
  "ring_start r \<longleftrightarrow> queue_inv (r_queue r) \<and> put_index (r_queue r) = take_index (r_queue r) \<and>
     r_put r = PIdle \<and> r_take r = TIdle \<and> published r = [] \<and> taken r = []"

section \<open>Invariant\<close>

definition put_phase :: "'a ring \<Rightarrow> bool" where
  "put_phase r \<longleftrightarrow> (case r_put r of
       PIdle \<Rightarrow> True
     | PSpin x \<Rightarrow> first_element (r_queue r) ! nat (put_index (r_queue r)) = x
     | PReady x \<Rightarrow> first_element (r_queue r) ! nat (put_index (r_queue r)) = x \<and> EmbQueueSpace (r_queue r) \<noteq> 0
     | PSignal p \<Rightarrow> True)"

definition take_phase :: "'a ring \<Rightarrow> bool" where
  "take_phase r \<longleftrightarrow> (case r_take r of
       TIdle \<Rightarrow> True
     | TFound \<Rightarrow> contents (r_queue r) \<noteq> []
     | TCopied x \<Rightarrow> contents (r_queue r) \<noteq> [] \<and> hd (contents (r_queue r)) = x
     | TWait \<Rightarrow> contents (r_queue r) \<noteq> [] \<longrightarrow> signalled r \<or> r_put r = PSignal (take_index (r_queue r)))"

definition ring_inv :: "'a ring \<Rightarrow> bool" where
  "ring_inv r \<longleftrightarrow> queue_inv (r_queue r) \<and> published r = taken r @ contents (r_queue r) \<and> put_phase r \<and> take_phase r"

lemma ring_inv_start: "ring_start r \<Longrightarrow> ring_inv r"
  using contents_empty_iff [of "r_queue r"]
  by (auto simp: ring_start_def ring_inv_def put_phase_def take_phase_def)

text \<open>
  Filling the slot at the put index, before the test for a full queue, changes no element:
  that slot is never in use.
\<close>

lemma fill_free_slot:
  assumes "queue_inv q"
  shows "queue_inv (q\<lparr>first_element := (first_element q)[nat (put_index q) := x]\<rparr>)"
    "contents (q\<lparr>first_element := (first_element q)[nat (put_index q) := x]\<rparr>) = contents q"
proof -
  let ?q = "q\<lparr>first_element := (first_element q)[nat (put_index q) := x]\<rparr>"
  show "queue_inv ?q" using assms by (simp add: queue_inv_def)
  have "nat (put_index q) \<noteq> slot q k" if "int k < EmbQueueFilled q" for k
    using that assms by (auto simp: slot_def EmbQueueFilled_def queue_inv_def Let_def split: if_splits)
  moreover have "EmbQueueFilled ?q = EmbQueueFilled q" "slot ?q = slot q"
    by (simp_all add: EmbQueueFilled_def Let_def slot_def fun_eq_iff)
  ultimately show "contents ?q = contents q" by (auto simp: contents_def zless_nat_eq_int_zless)
qed

lemma full_index: "queue_inv q \<Longrightarrow> next_index q (put_index q) = take_index q \<longleftrightarrow> EmbQueueSpace q = 0"
  by (auto simp: next_index_def EmbQueueSpace_def queue_inv_def Let_def)

lemma publish_contents:
  assumes "queue_inv q" "EmbQueueSpace q \<noteq> 0"
  shows "queue_inv (q\<lparr>put_index := next_index q (put_index q)\<rparr>)"
    "contents (q\<lparr>put_index := next_index q (put_index q)\<rparr>) =
      contents q @ [first_element q ! nat (put_index q)]"
proof -
  let ?x = "first_element q ! nat (put_index q)"
  have "nat (put_index q) < length (first_element q)" using assms(1) by (auto simp: queue_inv_def)
  then have "memcpy_at (first_element q) (nat (put_index q)) [?x] = first_element q"
    by (simp add: memcpy_at_def id_take_nth_drop [symmetric])
  then have "put_block q [?x] = q\<lparr>put_index := next_index q (put_index q)\<rparr>"
    using assms(1) by (auto simp: put_block_def next_index_def queue_inv_def)
  moreover have "int (length [?x]) \<le> put_count q" using put_count_bounds [OF assms(1)] assms(2) by auto
  ultimately show "queue_inv (q\<lparr>put_index := next_index q (put_index q)\<rparr>)"
    "contents (q\<lparr>put_index := next_index q (put_index q)\<rparr>) = contents q @ [?x]"
    using put_block_fits [OF assms(1), of "[?x]"] by metis+
qed

lemma advance_contents:
  assumes "queue_inv q" "contents q \<noteq> []"
  shows "queue_inv (q\<lparr>take_index := next_index q (take_index q)\<rparr>)"
    "contents q = first_element q ! nat (take_index q) # contents (q\<lparr>take_index := next_index q (take_index q)\<rparr>)"
    "EmbQueueSpace (q\<lparr>take_index := next_index q (take_index q)\<rparr>) = EmbQueueSpace q + 1"
proof -
  have "take_element q = Some (first_element q ! nat (take_index q), q\<lparr>take_index := next_index q (take_index q)\<rparr>)"
    using contents_empty_iff [OF assms(1)] assms(2) by (simp add: take_element_def)
  then have "fifo_take (undefined, q) = Some (first_element q ! nat (take_index q), undefined,
      q\<lparr>take_index := next_index q (take_index q)\<rparr>)" by (simp add: fifo_take_def)
  from fifo_take_cases(2) [OF _ this] assms(1)
  show inv: "queue_inv (q\<lparr>take_index := next_index q (take_index q)\<rparr>)"
    and c: "contents q = first_element q ! nat (take_index q) # contents (q\<lparr>take_index := next_index q (take_index q)\<rparr>)"
    by simp_all
  have "length (contents q) = Suc (length (contents (q\<lparr>take_index := next_index q (take_index q)\<rparr>)))"
    by (subst c) simp
  then show "EmbQueueSpace (q\<lparr>take_index := next_index q (take_index q)\<rparr>) = EmbQueueSpace q + 1"
    using space_filled [OF inv] space_filled [OF assms(1)] filled_bounds [OF inv] filled_bounds [OF assms(1)]
    by (simp add: length_contents) linarith
qed

lemma ring_inv_step: "ring_step r r' \<Longrightarrow> ring_inv r \<Longrightarrow> ring_inv r'"
proof (induction rule: ring_step.induct)
  case (fill r q x)
  have q: "queue_inv q" using fill by (simp add: ring_inv_def)
  have "nat (put_index q) < length (first_element q)" using q by (auto simp: queue_inv_def)
  moreover have "r_take r = TCopied y \<Longrightarrow> take_phase r \<Longrightarrow> contents q \<noteq> []" for y
    using fill by (simp add: take_phase_def)
  ultimately show ?case using fill fill_free_slot [OF q, of x]
    by (auto simp: ring_inv_def put_phase_def take_phase_def split: taker.splits)
next
  case (leave r x q)
  then show ?case using full_index [of q]
    by (auto simp: ring_inv_def put_phase_def take_phase_def split: taker.splits)
next
  case (publish r x q)
  have q: "queue_inv q" "EmbQueueSpace q \<noteq> 0" "first_element q ! nat (put_index q) = x"
    using publish by (auto simp: ring_inv_def put_phase_def)
  have "contents q = [] \<Longrightarrow> put_index q = take_index q" using contents_empty_iff [OF q(1)] by simp
  then show ?case using publish publish_contents [OF q(1,2)] q(3)
    by (auto simp: ring_inv_def put_phase_def take_phase_def hd_append split: taker.splits)
next
  case (empty r)
  then show ?case using contents_empty_iff [of "r_queue r"]
    by (auto simp: ring_inv_def put_phase_def take_phase_def split: putter.splits)
next
  case (found r)
  then show ?case using contents_empty_iff [of "r_queue r"]
    by (auto simp: ring_inv_def put_phase_def take_phase_def split: putter.splits)
next
  case (copy r q)
  have "queue_inv q" "contents q \<noteq> []" using copy by (auto simp: ring_inv_def take_phase_def)
  from advance_contents(2) [OF this] have "hd (contents q) = first_element q ! nat (take_index q)"
    by (metis list.sel(1))
  then show ?case using copy
    by (auto simp: ring_inv_def put_phase_def take_phase_def split: putter.splits)
next
  case (advance r x q)
  have q: "queue_inv q" "contents q \<noteq> []" "hd (contents q) = x"
    using advance by (auto simp: ring_inv_def take_phase_def)
  note a = advance_contents [OF q(1,2)]
  have "contents q = x # contents (q\<lparr>take_index := next_index q (take_index q)\<rparr>)"
    using a(2) q(3) by (metis list.sel(1))
  moreover have "EmbQueueSpace (q\<lparr>take_index := next_index q (take_index q)\<rparr>) \<noteq> 0"
    using a(3) space_nonneg [OF q(1)] by simp
  ultimately show ?case using advance a(1)
    by (auto simp: ring_inv_def put_phase_def take_phase_def split: putter.splits)
qed (auto simp: ring_inv_def put_phase_def take_phase_def split: putter.splits taker.splits)

interpretation ring: invariant_system ring_start ring_step ring_inv
  by unfold_locales (rule ring_inv_start, assumption, rule ring_inv_step)

section \<open>Progress\<close>

text \<open>A put that has filled its slot completes as soon as there is space.\<close>

lemma put_completes_space:
  assumes "r_put r = PSpin x" "queue_inv (r_queue r)" "EmbQueueSpace (r_queue r) \<noteq> 0"
  shows "\<exists>r'. ring_step\<^sup>*\<^sup>* r r' \<and> published r' = published r @ [x]"
proof -
  let ?q = "r_queue r" and ?r1 = "r\<lparr>r_put := PReady x\<rparr>"
  let ?r2 = "?r1\<lparr>r_queue := ?q\<lparr>put_index := next_index ?q (put_index ?q)\<rparr>, r_put := PSignal (put_index ?q),
    published := published ?r1 @ [x]\<rparr>"
  have "ring_step r ?r1" using assms by (intro ring_step.leave [OF _ refl]) (auto simp: full_index)
  moreover have "ring_step ?r1 ?r2" by (rule ring_step.publish) simp_all
  ultimately have "ring_step\<^sup>*\<^sup>* r ?r2" by (rule converse_rtranclp_into_rtranclp [OF _ r_into_rtranclp])
  then show ?thesis by (intro exI [of _ ?r2]) simp
qed

text \<open>One take makes space.\<close>

lemma take_completes:
  assumes "r_take r = TIdle" "queue_inv (r_queue r)" "contents (r_queue r) \<noteq> []"
  shows "\<exists>r'. ring_step\<^sup>*\<^sup>* r r' \<and> r_put r' = r_put r \<and> published r' = published r \<and>
    taken r' = taken r @ [hd (contents (r_queue r))] \<and> queue_inv (r_queue r') \<and>
    EmbQueueSpace (r_queue r') = EmbQueueSpace (r_queue r) + 1"
proof -
  let ?q = "r_queue r"
  let ?y = "first_element ?q ! nat (take_index ?q)"
  let ?r3 = "r\<lparr>r_queue := ?q\<lparr>take_index := next_index ?q (take_index ?q)\<rparr>, r_take := TIdle, taken := taken r @ [?y]\<rparr>"
  have "ring_step r (r\<lparr>r_take := TFound\<rparr>)"
    using assms(1,3) contents_empty_iff [OF assms(2)] by (intro ring_step.found) auto
  moreover have "ring_step (r\<lparr>r_take := TFound\<rparr>) (r\<lparr>r_take := TCopied ?y\<rparr>)"
    using ring_step.copy [of "r\<lparr>r_take := TFound\<rparr>" ?q] by simp
  moreover have "ring_step (r\<lparr>r_take := TCopied ?y\<rparr>) ?r3"
    using ring_step.advance [of "r\<lparr>r_take := TCopied ?y\<rparr>" ?y ?q] by simp
  ultimately have "ring_step\<^sup>*\<^sup>* r ?r3" by (meson converse_rtranclp_into_rtranclp r_into_rtranclp)
  moreover have "hd (contents ?q) = ?y" using advance_contents(2) [OF assms(2,3)] by (metis list.sel(1))
  ultimately show ?thesis using advance_contents(1,3) [OF assms(2,3)] by (intro exI [of _ ?r3]) simp
qed

lemma put_completes:
  assumes "ring_inv r" "r_put r = PSpin x" "r_take r = TIdle" "1 < queue_size (r_queue r)"
  shows "\<exists>r'. ring_step\<^sup>*\<^sup>* r r' \<and> published r' = published r @ [x]"
proof -
  have q: "queue_inv (r_queue r)" using assms(1) by (simp add: ring_inv_def)
  show ?thesis
  proof (cases "EmbQueueSpace (r_queue r) = 0")
    case True
    then have "EmbQueueFilled (r_queue r) \<noteq> 0" using space_filled [OF q] assms(4) by auto
    then have "contents (r_queue r) \<noteq> []" using filled_bounds [OF q] by (auto simp: contents_def)
    from take_completes [OF assms(3) q this] obtain r' where r': "ring_step\<^sup>*\<^sup>* r r'" "r_put r' = PSpin x"
        "published r' = published r" "queue_inv (r_queue r')" "EmbQueueSpace (r_queue r') = 1"
      using True assms(2) by auto
    then obtain r'' where "ring_step\<^sup>*\<^sup>* r' r''" "published r'' = published r' @ [x]"
      using put_completes_space [of r' x] by auto
    then show ?thesis using r'(1,3) by (metis rtranclp_trans)
  qed (rule put_completes_space [OF assms(2) q])
qed

end
