(* ===== verification/Life_Props.thy ===== *)
theory Life_Props
  imports Emb_Queue_Conc
begin

text \<open>
  Properties of Life Support's queues and signals, each with a witness that applies it at a
  concrete state.
\<close>

section \<open>Concrete states\<close>

definition demo_area :: "nat EmbCommArea" where
  "demo_area = \<lparr>guest_to_host_signals = 0, live_guest_to_host_signals = 5, host_to_guest_signals = 0,
     live_host_to_guest_signals = 0, reawaken = 0, useSignalLocks = True,
     signalHandler = (\<lambda>i. \<lparr>handlerThreadSetup = True, sh_signal = signal_bit i, handlerFunction = Some 7\<rparr>), interrupts = 0\<rparr>"

definition demo_queue :: "int \<Rightarrow> int \<Rightarrow> int EmbQueue" where
  "demo_queue put tk = \<lparr>element_size = 4, queue_size = 4, put_index = put, take_index = tk, q_signal = 3,
     first_element = [10, 11, 12, 13]\<rparr>"

definition demo_bytes :: "int \<Rightarrow> int \<Rightarrow> byte EmbQueue" where
  "demo_bytes put tk = \<lparr>element_size = 1, queue_size = 4, put_index = put, take_index = tk, q_signal = 3,
     first_element = [10, 11, 12, 13]\<rparr>"

definition demo_structs :: "byte EmbQueue" where
  "demo_structs = \<lparr>element_size = 2, queue_size = 3, put_index = 2, take_index = 1, q_signal = 3,
     first_element = [1, 2, 3, 4, 5, 6]\<rparr>"

lemma demo_queue_inv:
  "0 \<le> p \<Longrightarrow> p < 4 \<Longrightarrow> 0 \<le> t \<Longrightarrow> t < 4 \<Longrightarrow> queue_inv (demo_queue p t)"
  "0 \<le> p \<Longrightarrow> p < 4 \<Longrightarrow> 0 \<le> t \<Longrightarrow> t < 4 \<Longrightarrow> queue_inv (demo_bytes p t)"
  by (simp_all add: queue_inv_def demo_queue_def demo_bytes_def)

definition demo_ring :: "int ring" where
  "demo_ring = \<lparr>r_queue = demo_queue 2 2, r_put = PIdle, r_take = TIdle, signalled = False, published = [], taken = []\<rparr>"

lemma demo_ring_start: "ring_start demo_ring"
  by (simp add: ring_start_def demo_ring_def demo_queue_inv) (simp add: demo_queue_def)

section \<open>Queues\<close>

text \<open>
  C20. Two threads that put and take without a lock, interleaved at every access to the shared
  indices, exchange the elements in order: at any moment what was taken followed by what is in
  the queue is what was published, nothing is lost, duplicated or overwritten, and the queue
  never holds more than its size less one.
\<close>

theorem ring_is_fifo:
  assumes "ring_start r0" "ring_step\<^sup>*\<^sup>* r0 r"
  shows "published r = taken r @ contents (r_queue r) \<and> int (length (contents (r_queue r))) < queue_size (r_queue r)"
proof -
  have inv: "ring_inv r" using ring.reachable_inv [OF assms] .
  then have "queue_inv (r_queue r)" by (simp add: ring_inv_def)
  from filled_bounds [OF this] inv show ?thesis by (simp add: ring_inv_def length_contents)
qed

theorem ring_is_fifo_witness:
  "published (demo_ring\<lparr>r_take := TWait\<rparr>) = taken demo_ring @ contents (demo_queue 2 2)"
proof -
  have "ring_step demo_ring (demo_ring\<lparr>r_take := TWait\<rparr>)"
    by (rule ring_step.empty) (simp_all add: demo_ring_def demo_queue_def)
  from ring_is_fifo [OF demo_ring_start r_into_rtranclp [of ring_step, OF this]] show ?thesis
    by (simp add: demo_ring_def)
qed



text \<open>
  C22. The block transfers into byte and word queues, which copy contiguous runs around the end
  of the ring, have exactly the effect of putting the elements one by one (signals included),
  for every positive length; both wait for ever on the same inputs.
\<close>

theorem put_blocks_equal_puts:
  assumes "0 < n"
  shows "(queue_inv qb \<and> n \<le> int (length bs) \<longrightarrow> EmbQueuePutBytes ca qb bs n =
      map_option (\<lambda>(ca', q'). (ca', q', n)) (put_each ca qb (take (nat n) bs))) \<and>
    (queue_inv qw \<and> n \<le> int (length ws) \<longrightarrow> EmbQueuePutWords ca qw ws n =
      map_option (\<lambda>(ca', q'). (ca', q', n)) (put_each ca qw (take (nat n) ws)))"
  by (simp add: EmbQueuePutBytes_def EmbQueuePutWords_def put_many_each [OF _ assms])

theorem put_blocks_equal_puts_witness:
  "EmbQueuePutBytes demo_area (demo_bytes 3 2) [1, 2] 2 =
     map_option (\<lambda>(ca', q'). (ca', q', 2)) (put_each demo_area (demo_bytes 3 2) [1, 2])"
  using put_blocks_equal_puts [of 2 "demo_bytes 3 2" "[1, 2]" demo_area undefined "[]"] demo_queue_inv(2) [of 3 2]
  by simp

text \<open>
  C23. The transfers of several elements return exactly when the elements fit: a put of \<open>n\<close>
  elements returns if \<open>n\<close> is at most the free space and a take of \<open>n\<close> if there are \<open>n\<close> elements,
  then with the number \<open>n\<close>; otherwise the loop never ends.
\<close>

theorem block_transfers_return:
  assumes "queue_inv q" "0 < n" "n \<le> int (length bs)"
  shows "(EmbQueuePutBytes ca q bs n \<noteq> None \<longleftrightarrow> n \<le> EmbQueueSpace q) \<and>
    (EmbQueueTakeBytes q n \<noteq> None \<longleftrightarrow> n \<le> EmbQueueFilled q) \<and>
    (\<forall>ca' q' k. EmbQueuePutBytes ca q bs n = Some (ca', q', k) \<longrightarrow>
      k = n \<and> queue_inv q' \<and> contents q' = contents q @ take (nat n) bs) \<and>
    (\<forall>xs q' k. EmbQueueTakeBytes q n = Some (xs, q', k) \<longrightarrow>
      k = n \<and> queue_inv q' \<and> xs = take (nat n) (contents q) \<and> contents q' = drop (nat n) (contents q))"
proof -
  have p: "put_many ca q bs n = None" if "\<not> n \<le> EmbQueueSpace q"
    using put_loop_only_fits [of q bs n 0] that assms by (cases "put_loop q bs n 0") (auto simp: put_many_def)
  have t: "take_loop q [] n 0 = None" if "\<not> n \<le> EmbQueueFilled q"
    using take_loop_only_fits [of q "[]" n 0] that assms by (cases "take_loop q [] n 0") auto
  show ?thesis unfolding EmbQueuePutBytes_def EmbQueueTakeBytes_def
    using p t put_many_result [OF assms(1) _ assms(3), of ca] take_loop_fits [OF assms(1), of n "[]" 0] assms(2)
    by (cases "n \<le> EmbQueueSpace q"; cases "n \<le> EmbQueueFilled q") auto
qed

theorem block_transfers_return_witness:
  "EmbQueuePutBytes demo_area (demo_bytes 1 2) [1, 2] 2 = None \<and> EmbQueueTakeBytes (demo_bytes 1 2) 2 \<noteq> None"
proof -
  have "EmbQueueSpace (demo_bytes 1 2) = 0" "EmbQueueFilled (demo_bytes 1 2) = 3"
    by (simp_all add: demo_bytes_def EmbQueueSpace_def EmbQueueFilled_def)
  then show ?thesis
    using block_transfers_return [of "demo_bytes 1 2" 2 "[1, 2]" demo_area] demo_queue_inv(2) [of 1 2]
    by (cases "EmbQueuePutBytes demo_area (demo_bytes 1 2) [1, 2] 2") auto
qed

text \<open>
  C24. A queue of structures, kept as bytes, implements the queue of its elements: cutting the
  bytes into elements turns \<^verbatim>\<open>EmbQueuePut\<close> and \<^verbatim>\<open>EmbQueueTake\<close> into the put and take of whole
  elements, and both keep the layout.
\<close>

theorem struct_queue_refines:
  assumes "struct_queue_inv q" "element_size q \<le> int (length ep)"
  shows "map_option (map_prod id chunked) (EmbQueuePut ca q ep) =
      put_element ca (chunked q) (take (nat (element_size q)) ep) \<and>
    map_option (map_prod id chunked) (EmbQueueTake q) = take_element (chunked q) \<and>
    (\<forall>ca' q'. EmbQueuePut ca q ep = Some (ca', q') \<longrightarrow> struct_queue_inv q' \<and>
      contents (chunked q') = contents (chunked q) @ [take (nat (element_size q)) ep]) \<and>
    (\<forall>e q'. EmbQueueTake q = Some (e, q') \<longrightarrow> struct_queue_inv q' \<and>
      contents (chunked q) = e # contents (chunked q'))"
  by (intro conjI allI impI chunked_put [OF assms] chunked_take [OF assms(1)])
    (auto intro: struct_queue_inv_put(1) [OF assms] struct_queue_inv_take [OF assms(1)]
      dest: struct_queue_inv_put(2) [OF assms])

theorem struct_queue_refines_witness:
  "struct_queue_inv demo_structs \<and>
    map_option (map_prod id chunked) (EmbQueuePut demo_area demo_structs [8, 9]) =
      put_element demo_area (chunked demo_structs) [8, 9]"
proof -
  have inv: "struct_queue_inv demo_structs" by code_simp
  have es: "element_size demo_structs = 2" by (simp add: demo_structs_def)
  have "element_size demo_structs \<le> int (length [8, 9 :: byte])" by (simp add: es)
  from conjunct1 [OF struct_queue_refines [OF inv this, of demo_area]] show ?thesis
    unfolding es using inv by simp
qed

section \<open>Signals\<close>

text \<open>
  Installing a handler in a reachable signal state gives it the least signal that is not in
  use, leaves every other entry alone, and fails exactly when all 32 signals are in use; when the
  guest then raises the signal, the next iteration of that entry's thread calls this handler and
  clears the signal and no other.
\<close>

theorem installed_handler_runs:
  assumes "signal_step\<^sup>*\<^sup>* (InitializeSignalHandlers ca0) ca"
  shows "(InstallSignalHandler ca h = None \<longleftrightarrow> (\<forall>i<NSignals. bit (live_guest_to_host_signals ca) i)) \<and>
    (\<forall>ca' n. InstallSignalHandler ca h = Some (ca', n) \<longrightarrow> 0 \<le> n \<and> n < int NSignals \<and>
      \<not> bit (live_guest_to_host_signals ca) (nat n) \<and>
      (\<forall>k<nat n. bit (live_guest_to_host_signals ca) k) \<and>
      (\<forall>k. k \<noteq> nat n \<longrightarrow> signalHandler ca' k = signalHandler ca k) \<and>
      (let up = ca'\<lparr>guest_to_host_signals := guest_to_host_signals ca' OR signal_bit (nat n)\<rparr>;
           (after, called) = SignalHandlerTopLevel up (nat n)
       in called = Some h \<and> signals_inv after \<and>
          (\<forall>k. bit (guest_to_host_signals after) k \<longleftrightarrow> bit (guest_to_host_signals ca) k \<and> k \<noteq> nat n)))"
proof -
  have inv: "signals_inv ca" using signals.reachable_inv [OF _ assms] by blast
  have none: "InstallSignalHandler ca h = None \<longleftrightarrow> (\<forall>i<NSignals. bit (live_guest_to_host_signals ca) i)"
    using free_signal_None [of "live_guest_to_host_signals ca" 0]
    by (auto simp: InstallSignalHandler_def NSignals_def split: option.splits)
  have up: "(m OR signal_bit i) AND signal_bit i \<noteq> 0" if "i < 32" for m :: SignalMask and i
    using and_signal_bit_eq_0 [OF that, of "m OR signal_bit i"] that by (simp only: bit_or_signal_bit) simp
  show ?thesis
  proof (intro conjI none allI impI)
    fix ca' n assume i: "InstallSignalHandler ca h = Some (ca', n)"
    note inv' = signals_inv_install [OF i inv]
    obtain j where j: "n = int j" "j < 32" "\<not> bit (live_guest_to_host_signals ca) j"
      "\<And>k. k < j \<Longrightarrow> bit (live_guest_to_host_signals ca) k"
      "ca' = ca\<lparr>live_guest_to_host_signals := live_guest_to_host_signals ca OR signal_bit j,
          signalHandler := (signalHandler ca)(j := \<lparr>handlerThreadSetup = True, sh_signal = signal_bit j,
            handlerFunction = Some h\<rparr>)\<rparr>" by (rule InstallSignalHandler_SomeD [OF i]) blast
    show "0 \<le> n" "n < int NSignals" "\<not> bit (live_guest_to_host_signals ca) (nat n)"
      using j(1-3) by (simp_all add: NSignals_def)
    show "bit (live_guest_to_host_signals ca) k" if "k < nat n" for k using that j(1,4) by simp
    show "signalHandler ca' k = signalHandler ca k" if "k \<noteq> nat n" for k using that j(1,5) by simp
    show "let up = ca'\<lparr>guest_to_host_signals := guest_to_host_signals ca' OR signal_bit (nat n)\<rparr>;
           (after, called) = SignalHandlerTopLevel up (nat n)
       in called = Some h \<and> signals_inv after \<and>
          (\<forall>k. bit (guest_to_host_signals after) k \<longleftrightarrow> bit (guest_to_host_signals ca) k \<and> k \<noteq> nat n)"
      using j(1,2) inv' up [OF j(2)]
      by (auto simp: j(5) SignalHandlerTopLevel_def bit_clear_signal_bit bit_or_signal_bit signals_inv_def)
  qed
qed

theorem installed_handler_runs_witness:
  "\<exists>ca'. InstallSignalHandler (InitializeSignalHandlers demo_area) 9 = Some (ca', 0) \<and>
    signalHandler ca' 4 = signalHandler (InitializeSignalHandlers demo_area) 4"
proof -
  have "\<exists>ca'. InstallSignalHandler (InitializeSignalHandlers demo_area) 9 = Some (ca', 0)"
    by (simp add: InstallSignalHandler_def InitializeSignalHandlers_def free_signal.simps NSignals_def)
  then show ?thesis using installed_handler_runs [of demo_area "InitializeSignalHandlers demo_area" 9] by auto
qed

end
