(* ===== verification/Life_Area.thy ===== *)
theory Life_Area
  imports Emb_Queue "HOL-Library.AList"
begin

text \<open>
  What the channels of Life Support share: the slots of the communication area they use
  (\<^verbatim>\<open>src/life-support/embed.h\<close>), its allocator (\<^verbatim>\<open>src/life-support/initialization.c\<close>), the queues
  at their addresses, the structures of the disk and message channels, the guest's memory, and
  the calls of the C library and the operating system that the channels make. The structures in
  the communication area are kept as one typed store per type, indexed by their address: the
  model is of areas in which they do not overlap each other or the buffers of a transfer. The
  build is one without \<^verbatim>\<open>OS_DARWIN\<close>, where the data pages of the guest are never protected.
\<close>

section \<open>Addresses\<close>

text \<open>
  An \<^verbatim>\<open>EmbPtr\<close> is a word offset in the communication area. A host pointer made by
  \<^verbatim>\<open>HostPointer\<close> is written as the \<open>EmbPtr\<close> it came from, and \<open>None\<close> where it may be \<^verbatim>\<open>NULL\<close>.
  \<open>addr\<close> is the address of an object allocated by \<^verbatim>\<open>malloc\<close>, 0 for \<^verbatim>\<open>NULL\<close>.
\<close>

type_synonym EmbPtr = int
type_synonym addr = u64

definition NullEmbPtr :: EmbPtr where
  "NullEmbPtr = -1"

text \<open>A 32-bit and a 64-bit C integer: what a signed sum or product of the code keeps.\<close>

definition c_int :: "int \<Rightarrow> int" where
  "c_int i = signed_take_bit 31 i"

definition c_long :: "int \<Rightarrow> int" where
  "c_long i = signed_take_bit 63 i"

section \<open>Error codes\<close>

definition ESUCCESS :: int where "ESUCCESS = 0"
definition ENOENT :: int where "ENOENT = 2"
definition EINTR :: int where "EINTR = 4"
definition ENXIO :: int where "ENXIO = 6"
definition EBADF :: int where "EBADF = 9"
definition ENOMEM :: int where "ENOMEM = 12"
definition EINVAL :: int where "EINVAL = 22"
definition EROFS :: int where "EROFS = 30"

lemmas errnos = ESUCCESS_def ENOENT_def EINTR_def ENXIO_def EBADF_def ENOMEM_def EINVAL_def EROFS_def

section \<open>Channels\<close>

text \<open>The fields every channel starts with, and the channel types that are looked for.\<close>

record EmbChannel =
  ch_type :: EmbWord
  ch_unit :: EmbWord
  ch_next :: EmbPtr

definition EmbDiskChannelType :: EmbWord where "EmbDiskChannelType = 1"
definition EmbConsoleChannelType :: EmbWord where "EmbConsoleChannelType = 2"
definition EmbNetworkChannelType :: EmbWord where "EmbNetworkChannelType = 3"
definition EmbColdLoadChannelType :: EmbWord where "EmbColdLoadChannelType = 6"
definition EmbMessageChannelType :: EmbWord where "EmbMessageChannelType = 8"

text \<open>A disk channel after its common fields, its host state, and a command.\<close>

record EmbDiskChannel =
  number_of_pages :: EmbWord
  command_queue :: EmbPtr
  status_queue :: EmbPtr
  read_only :: bool
  hostState :: addr
  dc_blocksize :: EmbWord

record DiskChannelState =
  command_queue_ptr :: EmbPtr
  status_queue_ptr :: EmbPtr
  error_pending :: bool
  ds_fd :: int
  ds_blocksize :: int
  ds_filename :: "byte list"

record EmbAddressPair =
  ap_address :: EmbPtr
  n_words :: EmbWord

record EmbDiskQueueElement =
  op_cmd :: EmbWord
  dq_page :: EmbWord
  dq_count :: EmbWord
  n_addresses :: EmbWord
  dq_status :: EmbWord
  error_code :: EmbWord
  addresses :: "EmbAddressPair carray"

text \<open>A message channel after its common fields, its subtype data, and a command buffer.\<close>

record EmbMessageChannel =
  mc_subtype :: EmbWord
  guestToHostQueue :: EmbPtr
  guestToHostReturnQueue :: EmbPtr
  guestToHostImpulse :: EmbWord
  hostToGuestQueue :: EmbPtr
  hostToGuestSupplyQueue :: EmbPtr
  hostToGuestImpulse :: EmbWord
  subtypeData0 :: u32
  subtypeData1 :: u32

text \<open>
  \<^verbatim>\<open>EmbCommandChannel\<close> and \<^verbatim>\<open>EmbMBINChannel\<close> start with the header of \<^verbatim>\<open>EmbMessageSubtypeData\<close>; the
  first has the two queues from the guest only.
\<close>

record EmbMessageSubtypeData =
  nextActiveChannel :: "EmbPtr option"
  messageChannel :: EmbPtr
  sd_guestToHostQueue :: EmbPtr
  sd_guestToHostReturnQueue :: EmbPtr
  sd_hostToGuestQueue :: EmbPtr
  sd_hostToGuestSupplyQueue :: EmbPtr

record EmbCommandBuffer =
  cb_opcode :: EmbWord
  resultCode :: EmbWord
  mbinChannel :: EmbPtr

text \<open>The functions installed as signal handlers, with their argument.\<close>

datatype handler = NullSignalHandler | DiskLife_on EmbPtr | ExecuteGuestCommands_on addr | SendMBINBuffers_on addr
  | OtherHandler nat

section \<open>The host\<close>

text \<open>
  Files are byte lists by name, open files carry their offset and access, and \<open>outcomes\<close> says how
  the coming calls that can fail end: as asked, after part of the transfer, or with an error
  (\<open>Failed e\<close> is the error code \<open>e + 1\<close>, since a failed call never leaves 0 in \<^verbatim>\<open>errno\<close>).
  \<open>mallocs\<close> are the results of the coming calls of \<^verbatim>\<open>malloc\<close>.
\<close>

datatype call_outcome = Completed | Partly nat | Failed nat

record open_file =
  of_name :: "byte list"
  of_offset :: int
  of_writable :: bool

text \<open>\<open>dataspace\<close> is indexed by byte, \<open>tagspace\<close> by word.\<close>

record life =
  comm :: "handler EmbCommArea"
  area_version :: EmbWord
  inhibitDisk :: bool
  channel_table :: EmbPtr
  command_channel :: EmbPtr
  host_buffer_start :: EmbPtr
  host_buffer_size :: EmbWord
  clock_signal :: SignalNumber
  clock_interval :: EmbWord
  reset_request :: EmbWord
  spy_status :: EmbWord
  fep_status :: nat
  guestStatus :: EmbWord
  restart_applications :: EmbWord
  resetRequestCount :: EmbWord
  pollTime :: int
  pollClockTime :: int
  EmbCommAreaAllocPtr :: EmbPtr
  EmbCommAreaAllocSize :: nat
  queues :: "EmbPtr \<Rightarrow> EmbWord EmbQueue"
  channels :: "EmbPtr \<Rightarrow> EmbChannel"
  diskChannels :: "EmbPtr \<Rightarrow> EmbDiskChannel"
  diskStates :: "addr \<Rightarrow> DiskChannelState"
  diskCommands :: "EmbPtr \<Rightarrow> EmbDiskQueueElement"
  messageChannels :: "EmbPtr \<Rightarrow> EmbMessageChannel"
  subtypes :: "addr \<Rightarrow> EmbMessageSubtypeData option"
  commandBuffers :: "EmbPtr \<Rightarrow> EmbCommandBuffer"
  activeMBINChannel :: addr
  dataspace :: "int \<Rightarrow> byte"
  tagspace :: "int \<Rightarrow> byte"
  stackcachebasevma :: int
  scovlimit :: int
  stackcachedata :: "int \<Rightarrow> byte \<times> u32"
  mallocs :: "addr list"
  files :: "byte list \<Rightarrow> byte list option"
  fds :: "(int \<times> open_file) list"
  outcomes :: "call_outcome list"

section \<open>Memory\<close>

definition EmbCommAreaAddress :: int where
  "EmbCommAreaAddress = 0xFFFE0080"

text \<open>\<^verbatim>\<open>HostPointer\<close> as a byte index of the data space.\<close>

definition HostPointer :: "EmbPtr \<Rightarrow> int" where
  "HostPointer p = 4 * (EmbCommAreaAddress + p)"

definition load_bytes :: "(int \<Rightarrow> byte) \<Rightarrow> int \<Rightarrow> nat \<Rightarrow> byte list" where
  "load_bytes m a n = map (\<lambda>i. m (a + int i)) [0..<n]"

primrec store_bytes :: "(int \<Rightarrow> byte) \<Rightarrow> int \<Rightarrow> byte list \<Rightarrow> (int \<Rightarrow> byte)" where
  "store_bytes m a [] = m"
| "store_bytes m a (b # bs) = store_bytes (m(a := b)) (a + 1) bs"

text \<open>A data word, in the order of a little endian host.\<close>

definition data_word :: "life \<Rightarrow> int \<Rightarrow> u32" where
  "data_word s vma = word_rcat (rev (load_bytes (dataspace s) (4 * vma) 4))"

text \<open>The tag and data of a word; the stack cache hides the memory behind it.\<close>

definition read_guest_word :: "life \<Rightarrow> int \<Rightarrow> byte \<times> u32" where
  "read_guest_word s vma = (if stackcachebasevma s \<le> vma \<and> vma - stackcachebasevma s < scovlimit s
     then stackcachedata s (vma - stackcachebasevma s) else (tagspace s vma, data_word s vma))"

text \<open>\<^verbatim>\<open>malloc\<close>; a list that has run out is a heap that has.\<close>

definition malloc :: "life \<Rightarrow> addr \<times> life" where
  "malloc s = (case mallocs s of [] \<Rightarrow> (0, s) | a # as \<Rightarrow> (a, s\<lparr>mallocs := as\<rparr>))"

definition EmbCommAreaAlloc :: "life \<Rightarrow> nat \<Rightarrow> (EmbPtr \<times> life) option" where
  "EmbCommAreaAlloc s nBytes = (let w = (nBytes + 3) div 4; nWords = (if odd w then w + 1 else w) in
     if nWords > EmbCommAreaAllocSize s \<or> nBytes = 0 then None
     else Some (EmbCommAreaAllocPtr s, s\<lparr>EmbCommAreaAllocSize := EmbCommAreaAllocSize s - nWords,
        EmbCommAreaAllocPtr := EmbCommAreaAllocPtr s + int nWords\<rparr>))"

section \<open>System calls\<close>

definition next_outcome :: "life \<Rightarrow> call_outcome \<times> life" where
  "next_outcome s = (case outcomes s of [] \<Rightarrow> (Completed, s) | x # xs \<Rightarrow> (x, s\<lparr>outcomes := xs\<rparr>))"

definition sys_lseek :: "life \<Rightarrow> int \<Rightarrow> int \<Rightarrow> int + life" where
  "sys_lseek s fd off = (case map_of (fds s) fd of None \<Rightarrow> Inl EBADF
     | Some f \<Rightarrow> if off < 0 then Inl EINVAL else Inr (s\<lparr>fds := AList.update fd (f\<lparr>of_offset := off\<rparr>) (fds s)\<rparr>))"

type_synonym iovec = "int \<times> nat"

definition iov_total :: "iovec list \<Rightarrow> nat" where
  "iov_total iovs = sum_list (map snd iovs)"

definition iov_gather :: "(int \<Rightarrow> byte) \<Rightarrow> iovec list \<Rightarrow> byte list" where
  "iov_gather m iovs = concat (map (\<lambda>(a, n). load_bytes m a n) iovs)"

fun iov_scatter :: "(int \<Rightarrow> byte) \<Rightarrow> iovec list \<Rightarrow> byte list \<Rightarrow> (int \<Rightarrow> byte)" where
  "iov_scatter m [] bs = m"
| "iov_scatter m ((a, n) # iovs) bs = iov_scatter (store_bytes m a (take n bs)) iovs (drop n bs)"

definition SSIZE_MAX :: int where
  "SSIZE_MAX = 2 ^ 63 - 1"

definition file_bytes :: "life \<Rightarrow> byte list \<Rightarrow> byte list" where
  "file_bytes s name = (case files s name of None \<Rightarrow> [] | Some bs \<Rightarrow> bs)"

text \<open>A write into a file at an offset, which may lie after its end.\<close>

definition file_write :: "byte list \<Rightarrow> nat \<Rightarrow> byte list \<Rightarrow> byte list" where
  "file_write c off bs = (if bs = [] then c
     else memcpy_at (c @ replicate (off + length bs - length c) 0) off bs)"

definition outcome_part :: "call_outcome \<Rightarrow> 'a list \<Rightarrow> 'a list" where
  "outcome_part out xs = (case out of Partly n \<Rightarrow> take n xs | _ \<Rightarrow> xs)"

definition sys_readv :: "life \<Rightarrow> int \<Rightarrow> iovec list \<Rightarrow> (int + nat) \<times> life" where
  "sys_readv s fd iovs = (case map_of (fds s) fd of None \<Rightarrow> (Inl EBADF, s)
     | Some f \<Rightarrow> if int (iov_total iovs) > SSIZE_MAX then (Inl EINVAL, s)
       else case next_outcome s of
         (Failed e, s1) \<Rightarrow> (Inl (int e + 1), s1)
       | (out, s1) \<Rightarrow>
         let bs = outcome_part out (take (iov_total iovs) (drop (nat (of_offset f)) (file_bytes s (of_name f))))
         in (Inr (length bs), s1\<lparr>dataspace := iov_scatter (dataspace s) iovs bs,
              fds := AList.update fd (f\<lparr>of_offset := of_offset f + int (length bs)\<rparr>) (fds s)\<rparr>))"

definition sys_writev :: "life \<Rightarrow> int \<Rightarrow> iovec list \<Rightarrow> (int + nat) \<times> life" where
  "sys_writev s fd iovs = (case map_of (fds s) fd of None \<Rightarrow> (Inl EBADF, s)
     | Some f \<Rightarrow> if \<not> of_writable f then (Inl EBADF, s)
       else if int (iov_total iovs) > SSIZE_MAX then (Inl EINVAL, s)
       else case next_outcome s of
         (Failed e, s1) \<Rightarrow> (Inl (int e + 1), s1)
       | (out, s1) \<Rightarrow>
         let bs = outcome_part out (iov_gather (dataspace s) iovs)
         in (Inr (length bs), s1\<lparr>
              files := (files s)(of_name f \<mapsto> file_write (file_bytes s (of_name f)) (nat (of_offset f)) bs),
              fds := AList.update fd (f\<lparr>of_offset := of_offset f + int (length bs)\<rparr>) (fds s)\<rparr>))"

text \<open>The least descriptor that is not open.\<close>

definition free_fd :: "(int \<times> open_file) list \<Rightarrow> int" where
  "free_fd t = int (length (takeWhile (\<lambda>i. int i \<in> fst ` set t) [0..<length t]))"

definition sys_open :: "life \<Rightarrow> byte list \<Rightarrow> bool \<Rightarrow> bool \<Rightarrow> (int + int) \<times> life" where
  "sys_open s name creat writable = (case next_outcome s of
       (Failed e, s1) \<Rightarrow> (Inl (int e + 1), s1)
     | (_, s1) \<Rightarrow> if files s name = None \<and> \<not> creat then (Inl ENOENT, s1)
       else let fd = free_fd (fds s) in (Inr fd, s1\<lparr>files := (files s)(name \<mapsto> file_bytes s name),
         fds := (fd, \<lparr>of_name = name, of_offset = 0, of_writable = writable\<rparr>) # fds s\<rparr>))"

definition sys_close :: "life \<Rightarrow> int \<Rightarrow> life" where
  "sys_close s fd = s\<lparr>fds := AList.delete fd (fds s)\<rparr>"

text \<open>\<^verbatim>\<open>fstat\<close>, for the size, and \<^verbatim>\<open>ftruncate\<close> to a size above the present one.\<close>

definition sys_fstat :: "life \<Rightarrow> int \<Rightarrow> (int + int) \<times> life" where
  "sys_fstat s fd = (case map_of (fds s) fd of None \<Rightarrow> (Inl EBADF, s)
     | Some f \<Rightarrow> (case next_outcome s of (Failed e, s1) \<Rightarrow> (Inl (int e + 1), s1)
         | (_, s1) \<Rightarrow> (Inr (int (length (file_bytes s (of_name f)))), s1)))"

definition sys_ftruncate :: "life \<Rightarrow> int \<Rightarrow> int \<Rightarrow> int option \<times> life" where
  "sys_ftruncate s fd newsize = (case map_of (fds s) fd of None \<Rightarrow> (Some EBADF, s)
     | Some f \<Rightarrow> if \<not> of_writable f \<or> newsize < 0 then (Some EINVAL, s)
       else case next_outcome s of (Failed e, s1) \<Rightarrow> (Some (int e + 1), s1)
         | (_, s1) \<Rightarrow> let c = file_bytes s (of_name f) in
             (None, s1\<lparr>files := (files s)(of_name f \<mapsto> take (nat newsize) c @ replicate (nat newsize - length c) 0)\<rparr>))"

end
