(* ===== verification/Life_Disks.thy ===== *)
theory Life_Disks
  imports Life_Area
begin

text \<open>
  Disk channels (\<^verbatim>\<open>src/life-support/disks.c\<close>): a file of the host serves as a disk of the guest.
  Commands arrive on one queue as pointers to structures that Life Support fills in and returns
  on another. A C function that never returns is the result \<open>None\<close>.
\<close>

section \<open>Codes\<close>

definition ReadCmd :: EmbWord where "ReadCmd = 1"
definition WriteCmd :: EmbWord where "WriteCmd = 2"
definition ResetCmd :: EmbWord where "ResetCmd = 3"
definition InitializeCmd :: EmbWord where "InitializeCmd = 4"

definition WonStatus :: EmbWord where "WonStatus = 1"
definition LostStatus :: EmbWord where "LostStatus = 2"
definition AbortStatus :: EmbWord where "AbortStatus = 3"

lemmas disk_codes = ReadCmd_def WriteCmd_def ResetCmd_def InitializeCmd_def WonStatus_def LostStatus_def AbortStatus_def

definition NIOVectors :: nat where "NIOVectors = 32"
definition DiskPageSize :: int where "DiskPageSize = 8192"
definition RequestBlockSizeVersion :: int where "RequestBlockSizeVersion = 4711"

section \<open>A transfer\<close>

text \<open>The buffer of an address pair; a negative number of words is a huge \<^verbatim>\<open>size_t\<close>.\<close>

definition iov_of :: "EmbAddressPair \<Rightarrow> iovec" where
  "iov_of ap = (HostPointer (ap_address ap), nat (n_words ap * 4 mod 2 ^ 64))"

text \<open>The vectors of \<open>n\<close> address pairs from the \<open>i\<close>th on, and the transfer of one set of vectors.\<close>

definition cmd_iovs :: "EmbDiskQueueElement \<Rightarrow> nat \<Rightarrow> nat \<Rightarrow> iovec list" where
  "cmd_iovs cmd i n = map (\<lambda>k. iov_of (addresses cmd k)) [i..<i + n]"

definition disk_vectors :: "life \<Rightarrow> int \<Rightarrow> EmbDiskQueueElement \<Rightarrow> iovec list \<Rightarrow> (int + nat) \<times> life" where
  "disk_vectors s fd cmd iovs = (if op_cmd cmd = ReadCmd then sys_readv s fd iovs
     else if op_cmd cmd = WriteCmd then sys_writev s fd iovs else (Inl EINVAL, s))"

text \<open>
  The loop over the address pairs, \<open>NIOVectors\<close> at a time: \<open>i\<close> is the first pair that is left and
  \<open>n\<close> how many are. The result is an error code, 0 for none.
\<close>

function disk_transfer :: "life \<Rightarrow> int \<Rightarrow> EmbDiskQueueElement \<Rightarrow> nat \<Rightarrow> nat \<Rightarrow> int \<times> life" where
  "disk_transfer s fd cmd i n = (if n = 0 then (0, s)
     else let nVectors = min n NIOVectors;
              iovs = cmd_iovs cmd i nVectors;
              nBytes = c_long (int (iov_total iovs))
          in case disk_vectors s fd cmd iovs of
               (Inl e, s1) \<Rightarrow> (e, s1)
             | (Inr actual, s1) \<Rightarrow> if int actual \<noteq> nBytes then (EINTR, s1)
                 else disk_transfer s1 fd cmd (i + nVectors) (n - nVectors))"
  by pat_completeness auto
termination by (relation "measure (\<lambda>(_, _, _, _, n). n)") (auto simp: NIOVectors_def)

declare disk_transfer.simps [simp del]

definition DoDiskIO :: "life \<Rightarrow> EmbDiskChannel \<Rightarrow> DiskChannelState \<Rightarrow> EmbDiskQueueElement \<Rightarrow> int \<times> life" where
  "DoDiskIO s ch ds cmd =
     (if dq_page cmd < 0 \<or> c_int (dq_page cmd + dq_count cmd) > number_of_pages ch then (EINVAL, s)
      else case sys_lseek s (ds_fd ds) (dq_page cmd * dc_blocksize ch) of
        Inl e \<Rightarrow> (e, s)
      | Inr s1 \<Rightarrow> disk_transfer s1 (ds_fd ds) cmd 0 (nat (n_addresses cmd)))"

section \<open>Serving the commands\<close>

definition set_disk_state :: "life \<Rightarrow> EmbPtr \<Rightarrow> (DiskChannelState \<Rightarrow> DiskChannelState) \<Rightarrow> life" where
  "set_disk_state s chp f = (let a = hostState (diskChannels s chp) in
     s\<lparr>diskStates := (diskStates s)(a := f (diskStates s a))\<rparr>)"

definition disk_state :: "life \<Rightarrow> EmbPtr \<Rightarrow> DiskChannelState" where
  "disk_state s chp = diskStates s (hostState (diskChannels s chp))"

definition set_disk_command :: "life \<Rightarrow> EmbPtr \<Rightarrow> EmbDiskQueueElement \<Rightarrow> life" where
  "set_disk_command s p cmd = s\<lparr>diskCommands := (diskCommands s)(p := cmd)\<rparr>"

text \<open>The case of \<^verbatim>\<open>ReadCmd\<close>, which a \<^verbatim>\<open>WriteCmd\<close> to a writable channel falls through to.\<close>

definition disk_read_write :: "life \<Rightarrow> EmbPtr \<Rightarrow> EmbPtr \<Rightarrow> life" where
  "disk_read_write s chp p = (let cmd = diskCommands s p; ds = disk_state s chp in
     if error_pending ds then set_disk_command s p (cmd\<lparr>dq_status := AbortStatus\<rparr>)
     else if ds_fd ds = -1 then set_disk_command s p (cmd\<lparr>dq_status := LostStatus, error_code := ENXIO\<rparr>)
     else case DoDiskIO s (diskChannels s chp) ds cmd of
       (e, s1) \<Rightarrow> if e \<noteq> 0
         then set_disk_state (set_disk_command s1 p (cmd\<lparr>error_code := e, dq_status := LostStatus\<rparr>)) chp
                (\<lambda>d. d\<lparr>error_pending := True\<rparr>)
         else set_disk_command s1 p (cmd\<lparr>error_code := 0, dq_status := WonStatus\<rparr>))"

text \<open>The \<^verbatim>\<open>switch\<close> of \<^verbatim>\<open>DiskLife\<close> on the command at \<open>p\<close>.\<close>

definition disk_command :: "life \<Rightarrow> EmbPtr \<Rightarrow> EmbPtr \<Rightarrow> life" where
  "disk_command s chp p = (let cmd = diskCommands s p in
     if op_cmd cmd = WriteCmd \<and> read_only (diskChannels s chp)
     then set_disk_command s p (cmd\<lparr>dq_status := LostStatus, error_code := EROFS\<rparr>)
     else if op_cmd cmd = WriteCmd \<or> op_cmd cmd = ReadCmd then disk_read_write s chp p
     else if op_cmd cmd = ResetCmd \<or> op_cmd cmd = InitializeCmd
     then set_disk_command (set_disk_state s chp (\<lambda>d. d\<lparr>error_pending := False\<rparr>)) p (cmd\<lparr>dq_status := WonStatus\<rparr>)
     else set_disk_command s p (cmd\<lparr>dq_status := LostStatus, error_code := ENXIO\<rparr>))"

definition set_queue :: "life \<Rightarrow> EmbPtr \<Rightarrow> EmbWord EmbQueue \<Rightarrow> life" where
  "set_queue s p q = s\<lparr>queues := (queues s)(p := q)\<rparr>"

definition take_word :: "life \<Rightarrow> EmbPtr \<Rightarrow> EmbWord \<times> life" where
  "take_word s p = (case EmbQueueTakeWord (queues s p) of (x, q) \<Rightarrow> (x, set_queue s p q))"

definition put_word :: "life \<Rightarrow> EmbPtr \<Rightarrow> EmbWord \<Rightarrow> life option" where
  "put_word s p x = (case EmbQueuePutWord (comm s) (queues s p) x of None \<Rightarrow> None
     | Some (ca, q) \<Rightarrow> Some (set_queue (s\<lparr>comm := ca\<rparr>) p q))"

definition signal_later :: "life \<Rightarrow> SignalNumber \<Rightarrow> life" where
  "signal_later s n = s\<lparr>comm := SignalLater (comm s) n\<rparr>"

partial_function (option) DiskLife :: "EmbPtr \<Rightarrow> EmbPtr \<Rightarrow> EmbPtr \<Rightarrow> life \<Rightarrow> life option" where
  "DiskLife chp commandQueue statusQueue s =
     (if EmbQueueFilled (queues s commandQueue) \<noteq> 0
      then if inhibitDisk s \<or> EmbQueueSpace (queues s statusQueue) = 0
           then Some (signal_later s (q_signal (queues s commandQueue)))
           else case take_word s commandQueue of (p, s1) \<Rightarrow>
             if p = 0 then DiskLife chp commandQueue statusQueue s1
             else case put_word (disk_command s1 chp p) statusQueue p of
               None \<Rightarrow> None
             | Some s2 \<Rightarrow> DiskLife chp commandQueue statusQueue s2
      else Some s)"

declare DiskLife.simps [code]

text \<open>The call of the handler, which reads the pointers to the queues once.\<close>

definition DiskLife_handler :: "life \<Rightarrow> EmbPtr \<Rightarrow> life option" where
  "DiskLife_handler s chp = DiskLife chp (command_queue_ptr (disk_state s chp)) (status_queue_ptr (disk_state s chp)) s"

section \<open>Attaching and detaching\<close>

text \<open>
  The requests, with the fields the guest sets and the result. The request itself is at a guest
  address, whose tag for the word of the filename says whether that is a string.
\<close>

record AttachDiskChannelRequest =
  ar_diskChannel :: EmbPtr
  ar_filename :: u32
  ifNotFoundAction :: EmbWord
  minimumLength :: EmbWord
  ar_result :: EmbWord
  ar_errorMsg :: EmbPtr
  ar_blockSize :: EmbWord

record GrowDiskPartitionRequest =
  gr_diskChannel :: EmbPtr
  newLength :: EmbWord
  gr_result :: EmbWord
  gr_errorMsg :: EmbPtr

definition CreateIfNotFound :: EmbWord where "CreateIfNotFound = 0"

definition Type_String :: byte where "Type_String = 23"
definition Type_HeaderI :: byte where "Type_HeaderI = 3"
definition Array_LengthMask :: u32 where "Array_LengthMask = 32767"

text \<open>A length from Lisp: negative, it is a count of FEP blocks.\<close>

definition lisp_length :: "EmbWord \<Rightarrow> int" where
  "lisp_length n = (if n < 0 then - n * DiskPageSize else n)"

text \<open>The file grows to the size asked for; the result is its size then, or the error of \<^verbatim>\<open>ftruncate\<close>.\<close>

definition grow_file :: "life \<Rightarrow> int \<Rightarrow> int \<Rightarrow> int \<Rightarrow> (int + int) \<times> life" where
  "grow_file s fd sizeInBytes st_size = (if sizeInBytes > st_size
     then case sys_ftruncate s fd sizeInBytes of (Some e, s1) \<Rightarrow> (Inl e, s1) | (None, s1) \<Rightarrow> (Inr sizeInBytes, s1)
     else (Inr st_size, s))"

definition set_pages :: "life \<Rightarrow> EmbPtr \<Rightarrow> int \<Rightarrow> life" where
  "set_pages s chp st_size = (let ch = diskChannels s chp in
     s\<lparr>diskChannels := (diskChannels s)(chp := ch\<lparr>number_of_pages := c_int (st_size div dc_blocksize ch)\<rparr>)\<rparr>)"

text \<open>The name of the file, from the word of the request, or the error code.\<close>

definition attach_filename :: "life \<Rightarrow> int \<Rightarrow> u32 \<Rightarrow> int + byte list" where
  "attach_filename s reqp name =
     (if tagspace s (reqp + 1) \<noteq> Type_String then Inl EINVAL
      else case read_guest_word s (uint name) of (t, d) \<Rightarrow>
        if t AND 0x3F \<noteq> Type_HeaderI then Inl EINVAL
        else if d AND NOT Array_LengthMask \<noteq> 0x50000000 then Inl EINVAL
        else Inr (load_bytes (dataspace s) (4 * uint (name + 1)) (unat (d AND Array_LengthMask))))"

text \<open>
  The part of \<^verbatim>\<open>AttachDiskChannel\<close> after the name is copied: open the file, let it have its
  minimum length, link the channel and install the handler. \<open>None\<close> is the end of the program
  when no signal is left.
\<close>

definition attach_file :: "life \<Rightarrow> EmbPtr \<Rightarrow> byte list \<Rightarrow> AttachDiskChannelRequest \<Rightarrow> (life \<times> AttachDiskChannelRequest) option" where
  "attach_file s chp filename req =
     (case sys_open s (c_string filename) (ifNotFoundAction req = CreateIfNotFound) (\<not> read_only (diskChannels s chp)) of
        (Inl e, s1) \<Rightarrow> Some (set_disk_state s1 chp (\<lambda>d. d\<lparr>ds_fd := -1\<rparr>), req\<lparr>ar_result := e\<rparr>)
      | (Inr fd, s1) \<Rightarrow> let s2 = set_disk_state s1 chp (\<lambda>d. d\<lparr>ds_fd := fd\<rparr>) in
        (case sys_fstat s2 fd of
           (Inl e, s3) \<Rightarrow> Some (sys_close s3 fd, req\<lparr>ar_result := e\<rparr>)
         | (Inr st_size, s3) \<Rightarrow>
           (case (if minimumLength req \<noteq> 0 then grow_file s3 fd (lisp_length (minimumLength req)) st_size else (Inr st_size, s3)) of
              (Inl e, s4) \<Rightarrow> Some (sys_close s4 fd, req\<lparr>ar_result := e\<rparr>)
            | (Inr st_size', s4) \<Rightarrow>
              let s5 = set_pages s4 chp st_size';
                  s6 = s5\<lparr>channels := (channels s5)(chp := (channels s5 chp)\<lparr>ch_next := channel_table s5\<rparr>), channel_table := chp\<rparr>
              in case InstallSignalHandler (comm s6) (DiskLife_on chp) of None \<Rightarrow> None
                 | Some (ca, n) \<Rightarrow>
                   let cq = command_queue_ptr (disk_state s6 chp)
                   in Some (set_queue (s6\<lparr>comm := ca\<rparr>) cq ((queues s6 cq)\<lparr>q_signal := n\<rparr>), req))))"

text \<open>\<open>reqp\<close> is the address of the request. A block size the guest may not ask for is replaced.\<close>

definition attach_blocksize :: "life \<Rightarrow> AttachDiskChannelRequest \<Rightarrow> EmbWord" where
  "attach_blocksize s req = (if area_version s = RequestBlockSizeVersion \<and> ar_blockSize req > 0 \<and> ar_blockSize req \<le> 4096
     then ar_blockSize req * 4 else 2048 * 4)"

definition AttachDiskChannel :: "life \<Rightarrow> int \<Rightarrow> AttachDiskChannelRequest \<Rightarrow> (life \<times> AttachDiskChannelRequest) option" where
  "AttachDiskChannel s reqp req0 =
     (let req = req0\<lparr>ar_result := ESUCCESS, ar_errorMsg := NullEmbPtr\<rparr>; chp = ar_diskChannel req
      in case malloc s of (a, s1) \<Rightarrow>
        if a = 0 then Some (s1, req\<lparr>ar_result := ENOMEM\<rparr>)
        else let bs = attach_blocksize s1 req;
                 ch = (diskChannels s1 chp)\<lparr>hostState := a, dc_blocksize := bs\<rparr>;
                 s2 = s1\<lparr>diskChannels := (diskChannels s1)(chp := ch),
                   diskStates := (diskStates s1)(a := (diskStates s1 a)\<lparr>ds_fd := -1, command_queue_ptr := command_queue ch,
                     status_queue_ptr := status_queue ch, error_pending := False, ds_blocksize := bs\<rparr>)\<rparr>
             in case attach_filename s2 reqp (ar_filename req) of
                  Inl e \<Rightarrow> Some (s2, req\<lparr>ar_result := e\<rparr>)
                | Inr filename \<Rightarrow> (case malloc s2 of (b, s3) \<Rightarrow>
                    if b = 0 then Some (s3, req\<lparr>ar_result := ENOMEM\<rparr>)
                    else attach_file (set_disk_state s3 chp (\<lambda>d. d\<lparr>ds_filename := filename\<rparr>)) chp filename req))"

definition GrowDiskPartition :: "life \<Rightarrow> GrowDiskPartitionRequest \<Rightarrow> life \<times> GrowDiskPartitionRequest" where
  "GrowDiskPartition s req0 =
     (let req = req0\<lparr>gr_result := ESUCCESS, gr_errorMsg := NullEmbPtr\<rparr>; chp = gr_diskChannel req; fd = ds_fd (disk_state s chp)
      in if fd = -1 then (s, req\<lparr>gr_result := EINVAL\<rparr>)
         else case sys_fstat s fd of
           (Inl e, s1) \<Rightarrow> (s1, req\<lparr>gr_result := e\<rparr>)
         | (Inr st_size, s1) \<Rightarrow> (case grow_file s1 fd (lisp_length (newLength req)) st_size of
             (Inl e, s2) \<Rightarrow> (s2, req\<lparr>gr_result := e\<rparr>)
           | (Inr st_size', s2) \<Rightarrow> (set_pages s2 chp st_size', req)))"

text \<open>The walk along the channel table; \<open>prev\<close> is the channel before \<open>p\<close>.\<close>

partial_function (option) unlink_channel :: "EmbPtr \<Rightarrow> EmbPtr \<Rightarrow> EmbPtr \<Rightarrow> life \<Rightarrow> life option" where
  "unlink_channel chp prev p s =
     (if p = NullEmbPtr then Some s
      else if chp = p then Some (if prev = NullEmbPtr then s\<lparr>channel_table := ch_next (channels s chp)\<rparr>
        else s\<lparr>channels := (channels s)(prev := (channels s prev)\<lparr>ch_next := ch_next (channels s chp)\<rparr>)\<rparr>)
      else unlink_channel chp p (ch_next (channels s p)) s)"

declare unlink_channel.simps [code]

definition close_disk :: "life \<Rightarrow> EmbPtr \<Rightarrow> life" where
  "close_disk s chp = (if ds_fd (disk_state s chp) \<noteq> -1
     then set_disk_state (sys_close s (ds_fd (disk_state s chp))) chp (\<lambda>d. d\<lparr>ds_fd := -1\<rparr>) else s)"

definition DetachDiskChannel :: "life \<Rightarrow> EmbPtr \<Rightarrow> life option" where
  "DetachDiskChannel s chp =
     (let cq = command_queue_ptr (disk_state s chp);
          s1 = s\<lparr>comm := RemoveSignalHandler NullSignalHandler (comm s) (q_signal (queues s cq))\<rparr>;
          s2 = set_queue s1 cq ((queues s1 cq)\<lparr>q_signal := -1\<rparr>)
      in unlink_channel chp NullEmbPtr (channel_table s2) (close_disk s2 chp))"

text \<open>Whether a channel or queue lies after the part of the area that the host allocated.\<close>

definition after_host_buffers :: "life \<Rightarrow> EmbPtr \<Rightarrow> bool" where
  "after_host_buffers s p \<longleftrightarrow> p > c_int (host_buffer_start s + host_buffer_size s)"

definition reset_incoming :: "life \<Rightarrow> EmbPtr \<Rightarrow> life" where
  "reset_incoming s p = (case ResetIncomingQueue NullSignalHandler (\<not> after_host_buffers s p) (comm s) (queues s p) of
     (ca, q) \<Rightarrow> set_queue (s\<lparr>comm := ca\<rparr>) p q)"

definition reset_outgoing :: "life \<Rightarrow> EmbPtr \<Rightarrow> life" where
  "reset_outgoing s p = set_queue s p (ResetOutgoingQueue (queues s p))"

definition ResetDiskChannel :: "life \<Rightarrow> EmbPtr \<Rightarrow> life" where
  "ResetDiskChannel s chp =
     (let ds = disk_state s chp;
          s1 = set_disk_state (reset_outgoing (reset_incoming s (command_queue_ptr ds)) (status_queue_ptr ds)) chp
                 (\<lambda>d. d\<lparr>error_pending := False\<rparr>)
      in if after_host_buffers s chp then close_disk s1 chp else s1)"

definition TerminateDiskChannel :: "life \<Rightarrow> EmbPtr \<Rightarrow> life" where
  "TerminateDiskChannel s chp = close_disk s chp"

partial_function (option) terminate_disks :: "EmbPtr \<Rightarrow> life \<Rightarrow> life option" where
  "terminate_disks p s = (if p = NullEmbPtr then Some s
     else terminate_disks (ch_next (channels s p))
       (if ch_type (channels s p) = EmbDiskChannelType then TerminateDiskChannel s p else s))"

declare terminate_disks.simps [code]

definition TerminateDiskChannels :: "life \<Rightarrow> life option" where
  "TerminateDiskChannels s = terminate_disks (channel_table s) s"

end
