(* ===== verification/Life_Disk_Facts.thy ===== *)
theory Life_Disk_Facts
  imports Life_Disks VLM_Interfaces
begin

text \<open>
  Facts about the disk channels: what a transfer does to the file and the buffers, which parts
  of the state a command leaves alone, and the command loop as an instance of \<open>queue_server\<close>.
\<close>

section \<open>Queues in the area\<close>

lemma take_word_nonempty:
  assumes "queue_inv (queues s p)" "EmbQueueFilled (queues s p) \<noteq> 0"
  shows "fst (take_word s p) = hd (contents (queues s p))"
    "queue_inv (queues (snd (take_word s p)) p)"
    "contents (queues (snd (take_word s p)) p) = tl (contents (queues s p))"
    "q_signal (queues (snd (take_word s p)) p) = q_signal (queues s p)"
proof -
  have "take_element (queues s p) \<noteq> None" using take_element_block [OF assms(1)] assms(2) by simp
  then obtain x q where xq: "take_element (queues s p) = Some (x, q)" by auto
  then have t: "fifo_take (c, queues s p) = Some (x, c, q)" for c by (simp add: fifo_take_def)
  have "take_word s p = (x, set_queue s p q)" using xq by (simp add: take_word_def EmbQueueTakeWord_def)
  moreover have "q_signal q = q_signal (queues s p)" using xq by (auto simp: take_element_def split: if_splits)
  ultimately show "fst (take_word s p) = hd (contents (queues s p))"
    "queue_inv (queues (snd (take_word s p)) p)"
    "contents (queues (snd (take_word s p)) p) = tl (contents (queues s p))"
    "q_signal (queues (snd (take_word s p)) p) = q_signal (queues s p)"
    using fifo_take_cases(2) [OF _ t] assms(1) by (auto simp: set_queue_def)
qed

lemma take_word_frame:
  "p' \<noteq> p \<Longrightarrow> queues (snd (take_word s p)) p' = queues s p'"
  "comm (snd (take_word s p)) = comm s" "inhibitDisk (snd (take_word s p)) = inhibitDisk s"
  "snd (take_word s p) = s\<lparr>queues := queues (snd (take_word s p))\<rparr>"
  by (simp_all add: take_word_def set_queue_def split: prod.split)

lemma put_word_room:
  assumes "queue_inv (queues s p)" "EmbQueueSpace (queues s p) \<noteq> 0"
  obtains t where "put_word s p x = Some t" "queue_inv (queues t p)"
    "contents (queues t p) = contents (queues s p) @ [x]" "\<And>p'. p' \<noteq> p \<Longrightarrow> queues t p' = queues s p'"
    "t = s\<lparr>comm := comm t, queues := queues t\<rparr>" "q_signal (queues t p) = q_signal (queues s p)"
    "reawaken (comm t) = reawaken (comm s)"
proof -
  let ?q = "put_block (queues s p) [x]"
  and ?ca = "if put_index (queues s p) = take_index (queues s p) then EmbSendSignal (comm s) (q_signal (queues s p)) else comm s"
  let ?t = "set_queue (s\<lparr>comm := ?ca\<rparr>) p ?q"
  have "put_word s p x = Some ?t"
    using assms(2) by (simp add: put_word_def EmbQueuePutWord_def put_element_block [OF assms(1)])
  moreover have "int (length [x]) \<le> put_count (queues s p)" using put_count_bounds [OF assms(1)] assms(2) by auto
  note put_block_fits [OF assms(1) this]
  moreover have "reawaken ?ca = reawaken (comm s)" by (simp add: EmbSendSignal_def)
  ultimately show ?thesis by (intro that [of ?t]) (auto simp: set_queue_def)
qed

lemma contents_Nil_iff: "queue_inv q \<Longrightarrow> contents q = [] \<longleftrightarrow> EmbQueueFilled q = 0"
  using filled_bounds [of q] by (auto simp: contents_def)

section \<open>What a command leaves alone\<close>

definition disk_frame :: "life \<Rightarrow> life \<Rightarrow> bool" where
  "disk_frame s t \<longleftrightarrow> queues t = queues s \<and> comm t = comm s \<and> inhibitDisk t = inhibitDisk s \<and>
     diskChannels t = diskChannels s"

text \<open>The system calls leave the answers and the states of the channels alone as well.\<close>

definition host_frame :: "life \<Rightarrow> life \<Rightarrow> bool" where
  "host_frame s t \<longleftrightarrow> disk_frame s t \<and> diskStates t = diskStates s \<and> diskCommands t = diskCommands s"

lemma host_frame_refl [simp]: "host_frame s s"
  by (simp add: host_frame_def disk_frame_def)

lemma host_frame_trans: "host_frame s t \<Longrightarrow> host_frame t u \<Longrightarrow> host_frame s u"
  by (simp add: host_frame_def disk_frame_def)

lemma next_outcome_frame: "next_outcome s = (out, t) \<Longrightarrow> t = s\<lparr>outcomes := tl (outcomes s)\<rparr>"
  by (auto simp: next_outcome_def split: list.splits)

lemma sys_host_frame:
  "sys_lseek s fd off = Inr t \<Longrightarrow> host_frame s t"
  "sys_readv s fd iovs = (r, t) \<Longrightarrow> host_frame s t"
  "sys_writev s fd iovs = (r, t) \<Longrightarrow> host_frame s t"
  by (auto simp: sys_lseek_def sys_readv_def sys_writev_def host_frame_def disk_frame_def Let_def
      split: option.splits if_splits prod.splits call_outcome.splits dest!: next_outcome_frame)

lemma disk_vectors_frame: "disk_vectors s fd cmd iovs = (r, t) \<Longrightarrow> host_frame s t"
  by (auto simp: disk_vectors_def split: if_splits intro: sys_host_frame)

lemma disk_transfer_cases:
  assumes "disk_transfer s fd cmd i n = (e, t)"
  obtains (Done) "n = 0" "e = 0" "t = s"
  | (Error) "n \<noteq> 0" "disk_vectors s fd cmd (cmd_iovs cmd i (min n NIOVectors)) = (Inl e, t)"
  | (Interrupted) a where "n \<noteq> 0" "disk_vectors s fd cmd (cmd_iovs cmd i (min n NIOVectors)) = (Inr a, t)" "e = EINTR"
  | (More) a s1 m where "n \<noteq> 0" "m = min n NIOVectors" "m \<le> n" "n - m < n"
      "disk_vectors s fd cmd (cmd_iovs cmd i m) = (Inr a, s1)"
      "int a = c_long (int (iov_total (cmd_iovs cmd i m)))" "disk_transfer s1 fd cmd (i + m) (n - m) = (e, t)"
proof -
  obtain r s1 where r: "disk_vectors s fd cmd (cmd_iovs cmd i (min n NIOVectors)) = (r, s1)" by fastforce
  note unf = assms [unfolded disk_transfer.simps [of s fd cmd i n] Let_def]
  show ?thesis
  proof (cases "n = 0")
    case True
    then show ?thesis using unf Done by simp
  next
    case False
    then have lt: "n - min n NIOVectors < n" by (simp add: NIOVectors_def)
    show ?thesis
    proof (cases r)
      case (Inl x)
      then show ?thesis using unf Error False r by simp
    next
      case (Inr a)
      then show ?thesis using unf Interrupted [of a] More [OF False refl _ lt, of a s1] False r by (auto split: if_splits)
    qed
  qed
qed

lemma disk_transfer_frame: "disk_transfer s fd cmd i n = (e, t) \<Longrightarrow> host_frame s t"
proof (induction n arbitrary: s i rule: less_induct)
  case (less n)
  from less.prems show ?case
  proof (cases rule: disk_transfer_cases)
    case (More a s1 m)
    then show ?thesis using less.IH disk_vectors_frame host_frame_trans by blast
  qed (auto dest: disk_vectors_frame)
qed

lemma DoDiskIO_frame: "DoDiskIO s ch ds cmd = (e, t) \<Longrightarrow> host_frame s t"
  by (auto simp: DoDiskIO_def split: if_splits sum.splits
      intro: host_frame_trans sys_host_frame disk_transfer_frame)

lemma disk_command_frame: "disk_frame s (disk_command s chp p)"
proof -
  have "disk_frame s (disk_read_write s chp p)"
    using DoDiskIO_frame
    by (auto simp: disk_read_write_def Let_def disk_frame_def host_frame_def set_disk_command_def
        set_disk_state_def split: prod.splits)
  then show ?thesis
    by (auto simp: disk_command_def Let_def disk_frame_def set_disk_command_def set_disk_state_def)
qed

section \<open>The command loop\<close>

text \<open>One turn of the loop that is not held up; the answer has room.\<close>

definition disk_serve :: "EmbPtr \<Rightarrow> EmbPtr \<Rightarrow> EmbPtr \<Rightarrow> life \<Rightarrow> life" where
  "disk_serve chp cq sq s = (case take_word s cq of (p, s1) \<Rightarrow>
     if p = 0 then s1 else the (put_word (disk_command s1 chp p) sq p))"

definition disk_blocked :: "EmbPtr \<Rightarrow> life \<Rightarrow> bool" where
  "disk_blocked sq s \<longleftrightarrow> inhibitDisk s \<or> EmbQueueSpace (queues s sq) = 0"

definition queue_pair :: "EmbPtr \<Rightarrow> EmbPtr \<Rightarrow> life \<Rightarrow> bool" where
  "queue_pair cq sq s \<longleftrightarrow> cq \<noteq> sq \<and> queue_inv (queues s cq) \<and> queue_inv (queues s sq)"

lemma disk_serve_step:
  assumes "queue_pair cq sq s" "contents (queues s cq) \<noteq> []" "\<not> disk_blocked sq s"
  obtains p s1 where "take_word s cq = (p, s1)" "p = hd (contents (queues s cq))"
    "p = 0 \<Longrightarrow> disk_serve chp cq sq s = s1"
    "p \<noteq> 0 \<Longrightarrow> put_word (disk_command s1 chp p) sq p = Some (disk_serve chp cq sq s)"
    "queue_pair cq sq (disk_serve chp cq sq s)"
    "contents (queues (disk_serve chp cq sq s) cq) = tl (contents (queues s cq))"
    "contents (queues (disk_serve chp cq sq s) sq) = contents (queues s sq) @ filter (\<lambda>p. p \<noteq> 0) [p]"
    "q_signal (queues (disk_serve chp cq sq s) cq) = q_signal (queues s cq)"
proof -
  obtain p s1 where tw: "take_word s cq = (p, s1)" by fastforce
  have q: "queue_inv (queues s cq)" "EmbQueueFilled (queues s cq) \<noteq> 0" "cq \<noteq> sq" "queue_inv (queues s sq)"
    "EmbQueueSpace (queues s sq) \<noteq> 0"
    using assms contents_Nil_iff by (auto simp: queue_pair_def disk_blocked_def)
  note t = take_word_nonempty [OF q(1,2), unfolded tw, simplified]
  have sq: "queues s1 sq = queues s sq" using take_word_frame(1) [of sq cq s] q(3) by (simp add: tw)
  have fr: "queues (disk_command s1 chp p) = queues s1" using disk_command_frame by (simp add: disk_frame_def)
  show ?thesis
  proof (cases "p = 0")
    case True
    then show ?thesis using that [OF tw t(1)] t q sq by (auto simp: disk_serve_def tw queue_pair_def)
  next
    case False
    obtain u where u: "put_word (disk_command s1 chp p) sq p = Some u" "queue_inv (queues u sq)"
      "contents (queues u sq) = contents (queues s sq) @ [p]" "\<And>p'. p' \<noteq> sq \<Longrightarrow> queues u p' = queues s1 p'"
      using put_word_room [of "disk_command s1 chp p" sq p] q sq fr by metis
    then have "disk_serve chp cq sq s = u" using False by (simp add: disk_serve_def tw)
    then show ?thesis using that [OF tw t(1)] t q u False by (auto simp: queue_pair_def)
  qed
qed

lemma DiskLife_unfold:
  assumes "queue_pair cq sq s"
  shows "DiskLife chp cq sq s = (if contents (queues s cq) = [] then Some s
    else if disk_blocked sq s then Some (signal_later s (q_signal (queues s cq)))
    else DiskLife chp cq sq (disk_serve chp cq sq s))"
proof -
  have e: "contents (queues s cq) = [] \<longleftrightarrow> EmbQueueFilled (queues s cq) = 0"
    using assms contents_Nil_iff by (auto simp: queue_pair_def)
  show ?thesis
  proof (cases "contents (queues s cq) = [] \<or> disk_blocked sq s")
    case True
    then show ?thesis by (subst DiskLife.simps) (auto simp: e disk_blocked_def)
  next
    case False
    then obtain p s1 where "take_word s cq = (p, s1)" "p = 0 \<Longrightarrow> disk_serve chp cq sq s = s1"
      "p \<noteq> 0 \<Longrightarrow> put_word (disk_command s1 chp p) sq p = Some (disk_serve chp cq sq s)"
      using disk_serve_step [OF assms] by metis
    then show ?thesis using False by (subst DiskLife.simps) (auto simp: e disk_blocked_def)
  qed
qed

interpretation disk: queue_server "queue_pair cq sq" "\<lambda>s. contents (queues s cq)" "\<lambda>s. contents (queues s sq)"
  "\<lambda>p. p \<noteq> 0" "disk_blocked sq" "\<lambda>s. signal_later s (q_signal (queues s cq))" "disk_serve chp cq sq"
  "DiskLife chp cq sq" for chp cq sq
proof (unfold_locales, goal_cases)
  case (1 s)
  then show ?case by (rule DiskLife_unfold)
next
  case (2 s)
  then show ?case by (rule disk_serve_step) auto
next
  case (3 s)
  then show ?case by (rule disk_serve_step) auto
next
  case (4 s)
  then show ?case by (rule disk_serve_step) auto
qed (simp_all add: signal_later_def)

end
