(* ===== verification/Life_Transfer_Facts.thy ===== *)
theory Life_Transfer_Facts
  imports Life_Disk_Facts
begin

text \<open>
  What a disk transfer that reports success did: a write put the bytes of its buffers into the
  file, a read put the bytes of the file into its buffers, however many calls it took.
\<close>

section \<open>Files and buffers\<close>

lemma length_file_write: "bs \<noteq> [] \<Longrightarrow> length (file_write c off bs) = max (length c) (off + length bs)"
  by (auto simp: file_write_def memcpy_at_def)

lemma nth_file_write:
  assumes "i < max (length c) (off + length bs)" "bs \<noteq> []"
  shows "file_write c off bs ! i =
    (if off \<le> i \<and> i < off + length bs then bs ! (i - off) else if i < length c then c ! i else 0)"
proof -
  have "i < length (c @ replicate (off + length bs - length c) 0)" using assms(1) by auto
  then show ?thesis using assms(2) by (simp add: file_write_def nth_memcpy_at nth_append)
qed

lemma file_write_append: "file_write (file_write c off a) (off + length a) b = file_write c off (a @ b)"
proof (cases "a = [] \<or> b = []")
  case True
  then show ?thesis by (auto simp: file_write_def)
next
  case False
  then show ?thesis
    by (intro nth_equalityI) (auto simp: length_file_write nth_file_write nth_append max_def split: if_splits)
qed

lemma read_file_write: "take (length bs) (drop off (file_write c off bs)) = bs"
proof (cases "bs = []")
  case False
  then show ?thesis by (intro nth_equalityI) (auto simp: length_file_write nth_file_write)
qed simp

lemma length_load_bytes [simp]: "length (load_bytes m a n) = n"
  by (simp add: load_bytes_def)

lemma store_bytes_apply:
  "store_bytes m a bs x = (if a \<le> x \<and> x < a + int (length bs) then bs ! nat (x - a) else m x)"
proof (induction bs arbitrary: m a)
  case (Cons b bs)
  have "nat (x - a) = Suc (nat (x - (a + 1)))" if "a < x" using that by linarith
  moreover have "a + 1 \<le> x \<longleftrightarrow> a < x" by linarith
  ultimately show ?case unfolding store_bytes.simps Cons.IH by (cases x a rule: linorder_cases) auto
qed auto

lemma load_store_bytes: "load_bytes (store_bytes m a bs) a (length bs) = bs"
  by (auto intro!: nth_equalityI simp: load_bytes_def store_bytes_apply)

lemma load_bytes_cong: "(\<And>x. a \<le> x \<Longrightarrow> x < a + int n \<Longrightarrow> m x = m' x) \<Longrightarrow> load_bytes m a n = load_bytes m' a n"
  by (simp add: load_bytes_def)

section \<open>Vectors\<close>

lemma length_iov_gather [simp]: "length (iov_gather m iovs) = iov_total iovs"
  by (simp add: iov_gather_def iov_total_def length_concat comp_def case_prod_beta)

lemma iov_append [simp]:
  "iov_total (xs @ ys) = iov_total xs + iov_total ys"
  "iov_gather m (xs @ ys) = iov_gather m xs @ iov_gather m ys"
  by (simp_all add: iov_total_def iov_gather_def)

lemma iov_scatter_append:
  "iov_scatter m (xs @ ys) bs = iov_scatter (iov_scatter m xs (take (iov_total xs) bs)) ys (drop (iov_total xs) bs)"
proof (induction xs arbitrary: m bs)
  case (Cons x xs)
  obtain a n where x: "x = (a, n)" by fastforce
  have "take (n + iov_total xs) bs = take n bs @ take (iov_total xs) (drop n bs)" by (simp add: take_add)
  then show ?case
    by (simp add: Cons x iov_total_def drop_take add.commute min_absorb1) (simp add: min_def take_drop add.commute)
qed (simp add: iov_total_def)

text \<open>Vectors whose ranges do not overlap, and the addresses of a range.\<close>

fun iovs_disjoint :: "iovec list \<Rightarrow> bool" where
  "iovs_disjoint [] \<longleftrightarrow> True"
| "iovs_disjoint ((a, n) # iovs) \<longleftrightarrow> (\<forall>(b, k) \<in> set iovs. a + int n \<le> b \<or> b + int k \<le> a) \<and> iovs_disjoint iovs"

lemma iov_scatter_outside:
  "\<forall>(b, k) \<in> set iovs. x < b \<or> b + int k \<le> x \<Longrightarrow> iov_scatter m iovs bs x = m x"
  by (induction m iovs bs rule: iov_scatter.induct) (auto simp: store_bytes_apply)

lemma gather_scatter:
  "iovs_disjoint iovs \<Longrightarrow> length bs = iov_total iovs \<Longrightarrow> iov_gather (iov_scatter m iovs bs) iovs = bs"
proof (induction m iovs bs rule: iov_scatter.induct)
  case (2 m a n iovs bs)
  have n: "length (take n bs) = n" using "2.prems"(2) by (simp add: iov_total_def)
  have "load_bytes (iov_scatter (store_bytes m a (take n bs)) iovs (drop n bs)) a n = load_bytes (store_bytes m a (take n bs)) a n"
    using "2.prems"(1) by (intro load_bytes_cong iov_scatter_outside) fastforce
  also have "\<dots> = take n bs" using load_store_bytes [of m a "take n bs"] n by simp
  finally show ?case using 2 by (simp add: iov_gather_def iov_total_def)
qed (simp add: iov_gather_def iov_total_def)

section \<open>One call\<close>

lemma c_long_nonneg: "0 \<le> i \<Longrightarrow> i \<le> SSIZE_MAX \<Longrightarrow> c_long i = i"
  by (simp add: c_long_def SSIZE_MAX_def signed_take_bit_int_eq_self)

lemma outcome_part_all: "length (outcome_part out xs) = length xs \<Longrightarrow> outcome_part out xs = xs"
  by (cases out) (auto simp: outcome_part_def)

text \<open>The open file of a descriptor, moved on by a number of bytes.\<close>

definition opened :: "life \<Rightarrow> int \<Rightarrow> open_file \<Rightarrow> bool" where
  "opened s fd f \<longleftrightarrow> map_of (fds s) fd = Some f \<and> 0 \<le> of_offset f"

lemma sys_writev_full:
  assumes "sys_writev s fd iovs = (Inr a, t)" "int a = c_long (int (iov_total iovs))" "opened s fd f"
  shows "dataspace t = dataspace s" "opened t fd (f\<lparr>of_offset := of_offset f + int (iov_total iovs)\<rparr>)"
    "file_bytes t (of_name f) = file_write (file_bytes s (of_name f)) (nat (of_offset f)) (iov_gather (dataspace s) iovs)"
proof -
  obtain out s1 where o: "next_outcome s = (out, s1)" by fastforce
  note s1 = next_outcome_frame [OF o]
  have "map_of (fds s) fd = Some f" using assms(3) by (simp add: opened_def)
  with assms(1) o have w: "int (iov_total iovs) \<le> SSIZE_MAX" "a = length (outcome_part out (iov_gather (dataspace s) iovs))"
    "t = s1\<lparr>files := (files s)(of_name f \<mapsto> file_write (file_bytes s (of_name f)) (nat (of_offset f))
        (outcome_part out (iov_gather (dataspace s) iovs))),
      fds := AList.update fd (f\<lparr>of_offset := of_offset f + int a\<rparr>) (fds s)\<rparr>"
    by (auto simp: sys_writev_def Let_def split: if_splits call_outcome.splits)
  have a: "a = iov_total iovs" using assms(2) c_long_nonneg [of "int (iov_total iovs)"] w(1) by simp
  then have "outcome_part out (iov_gather (dataspace s) iovs) = iov_gather (dataspace s) iovs"
    using w(2) by (intro outcome_part_all) simp
  then show "dataspace t = dataspace s" "opened t fd (f\<lparr>of_offset := of_offset f + int (iov_total iovs)\<rparr>)"
    "file_bytes t (of_name f) = file_write (file_bytes s (of_name f)) (nat (of_offset f)) (iov_gather (dataspace s) iovs)"
    using w(3) a s1 assms(3) by (auto simp: opened_def update_conv file_bytes_def)
qed

lemma sys_readv_full:
  assumes "sys_readv s fd iovs = (Inr a, t)" "int a = c_long (int (iov_total iovs))" "opened s fd f"
  shows "files t = files s" "opened t fd (f\<lparr>of_offset := of_offset f + int (iov_total iovs)\<rparr>)"
    "nat (of_offset f) + iov_total iovs \<le> max (nat (of_offset f)) (length (file_bytes s (of_name f)))"
    "dataspace t = iov_scatter (dataspace s) iovs (take (iov_total iovs) (drop (nat (of_offset f)) (file_bytes s (of_name f))))"
proof -
  obtain out s1 where o: "next_outcome s = (out, s1)" by fastforce
  note s1 = next_outcome_frame [OF o]
  let ?av = "take (iov_total iovs) (drop (nat (of_offset f)) (file_bytes s (of_name f)))"
  have "map_of (fds s) fd = Some f" using assms(3) by (simp add: opened_def)
  with assms(1) o have w: "int (iov_total iovs) \<le> SSIZE_MAX" "a = length (outcome_part out ?av)"
    "t = s1\<lparr>dataspace := iov_scatter (dataspace s) iovs (outcome_part out ?av),
      fds := AList.update fd (f\<lparr>of_offset := of_offset f + int a\<rparr>) (fds s)\<rparr>"
    by (auto simp: sys_readv_def Let_def split: if_splits call_outcome.splits)
  have a: "a = iov_total iovs" using assms(2) c_long_nonneg [of "int (iov_total iovs)"] w(1) by simp
  have "length (outcome_part out ?av) \<le> length ?av" by (cases out) (auto simp: outcome_part_def)
  then have len: "length ?av = iov_total iovs" using a w(2) by simp
  then have "outcome_part out ?av = ?av" using w(2) a by (intro outcome_part_all) simp
  then show "files t = files s" "opened t fd (f\<lparr>of_offset := of_offset f + int (iov_total iovs)\<rparr>)"
    "nat (of_offset f) + iov_total iovs \<le> max (nat (of_offset f)) (length (file_bytes s (of_name f)))"
    "dataspace t = iov_scatter (dataspace s) iovs ?av"
    using w(3) a s1 assms(3) len by (auto simp: opened_def update_conv)
qed

section \<open>Whole transfers\<close>

lemma cmd_iovs_split: "m \<le> n \<Longrightarrow> cmd_iovs cmd i n = cmd_iovs cmd i m @ cmd_iovs cmd (i + m) (n - m)"
  using upt_add_eq_append [of i "i + m" "n - m"] by (simp add: cmd_iovs_def flip: map_append)

lemma EINTR_neq_0 [simp]: "EINTR \<noteq> 0" "EINVAL \<noteq> 0" "EBADF \<noteq> 0"
  by (simp_all add: errnos)

text \<open>A call that fails has an error code.\<close>

lemma disk_vectors_error: "disk_vectors s fd cmd iovs \<noteq> (Inl 0, t)"
  by (auto simp: disk_vectors_def sys_readv_def sys_writev_def Let_def split: option.splits prod.splits call_outcome.splits if_splits)

lemma disk_transfer_write:
  assumes "disk_transfer s fd cmd i n = (0, t)" "op_cmd cmd = WriteCmd" "opened s fd f"
  shows "dataspace t = dataspace s \<and> opened t fd (f\<lparr>of_offset := of_offset f + int (iov_total (cmd_iovs cmd i n))\<rparr>) \<and>
    file_bytes t (of_name f) =
      file_write (file_bytes s (of_name f)) (nat (of_offset f)) (iov_gather (dataspace s) (cmd_iovs cmd i n))"
  using assms(1,3)
proof (induction n arbitrary: s i f rule: less_induct)
  case (less n)
  from less.prems(1) show ?case
  proof (cases rule: disk_transfer_cases)
    case Done
    then show ?thesis using less.prems(2) by (simp add: cmd_iovs_def iov_total_def iov_gather_def file_write_def)
  next
    case (More a s1 m)
    have w: "sys_writev s fd (cmd_iovs cmd i m) = (Inr a, s1)"
      using More(5) assms(2) by (simp add: disk_vectors_def disk_codes)
    note blk = sys_writev_full [OF w More(6) less.prems(2)]
    have "nat (of_offset f + int (iov_total (cmd_iovs cmd i m))) = nat (of_offset f) + length (iov_gather (dataspace s) (cmd_iovs cmd i m))"
      using less.prems(2) by (simp add: opened_def nat_add_distrib)
    then show ?thesis using less.IH [OF More(4,7) blk(2)] blk(1,3) cmd_iovs_split [OF More(3), of cmd i]
      by (simp add: add.assoc flip: file_write_append)
  qed (use disk_vectors_error in auto)
qed

lemma disk_transfer_read:
  assumes "disk_transfer s fd cmd i n = (0, t)" "op_cmd cmd = ReadCmd" "opened s fd f"
  shows "files t = files s \<and> opened t fd (f\<lparr>of_offset := of_offset f + int (iov_total (cmd_iovs cmd i n))\<rparr>) \<and>
    nat (of_offset f) + iov_total (cmd_iovs cmd i n) \<le> max (nat (of_offset f)) (length (file_bytes s (of_name f))) \<and>
    dataspace t = iov_scatter (dataspace s) (cmd_iovs cmd i n)
      (take (iov_total (cmd_iovs cmd i n)) (drop (nat (of_offset f)) (file_bytes s (of_name f))))"
  using assms(1,3)
proof (induction n arbitrary: s i f rule: less_induct)
  case (less n)
  from less.prems(1) show ?case
  proof (cases rule: disk_transfer_cases)
    case Done
    then show ?thesis using less.prems(2) by (simp add: cmd_iovs_def iov_total_def)
  next
    case (More a s1 m)
    have w: "sys_readv s fd (cmd_iovs cmd i m) = (Inr a, s1)"
      using More(5) assms(2) by (simp add: disk_vectors_def disk_codes)
    note blk = sys_readv_full [OF w More(6) less.prems(2)]
    have "nat (of_offset f + int (iov_total (cmd_iovs cmd i m))) = nat (of_offset f) + iov_total (cmd_iovs cmd i m)"
      using less.prems(2) by (simp add: opened_def nat_add_distrib)
    then show ?thesis using less.IH [OF More(4,7) blk(2)] blk(1,3,4) cmd_iovs_split [OF More(3), of cmd i]
      by (simp add: iov_scatter_append add.assoc file_bytes_def take_take min_absorb1 drop_take add.commute) linarith
  qed (use disk_vectors_error in auto)
qed

text \<open>All the buffers of a command, and where its page starts in the file.\<close>

definition cmd_buffers :: "EmbDiskQueueElement \<Rightarrow> iovec list" where
  "cmd_buffers cmd = cmd_iovs cmd 0 (nat (n_addresses cmd))"

definition page_offset :: "EmbDiskChannel \<Rightarrow> EmbDiskQueueElement \<Rightarrow> nat" where
  "page_offset ch cmd = nat (dq_page cmd * dc_blocksize ch)"

lemma DoDiskIO_success:
  assumes "DoDiskIO s ch ds cmd = (0, t)"
  obtains f s1 where "map_of (fds s) (ds_fd ds) = Some f" "opened s1 (ds_fd ds) (f\<lparr>of_offset := dq_page cmd * dc_blocksize ch\<rparr>)"
    "files s1 = files s" "dataspace s1 = dataspace s"
    "disk_transfer s1 (ds_fd ds) cmd 0 (nat (n_addresses cmd)) = (0, t)"
proof -
  obtain f where f: "map_of (fds s) (ds_fd ds) = Some f"
    using assms by (auto simp: DoDiskIO_def sys_lseek_def split: if_splits option.splits)
  let ?s1 = "s\<lparr>fds := AList.update (ds_fd ds) (f\<lparr>of_offset := dq_page cmd * dc_blocksize ch\<rparr>) (fds s)\<rparr>"
  show ?thesis using that [OF f, of ?s1] assms f
    by (auto simp: DoDiskIO_def sys_lseek_def opened_def update_conv split: if_splits)
qed

lemma DoDiskIO_write:
  assumes "DoDiskIO s ch ds cmd = (0, t)" "op_cmd cmd = WriteCmd"
  obtains f g where "map_of (fds s) (ds_fd ds) = Some f" "map_of (fds t) (ds_fd ds) = Some g" "of_name g = of_name f"
    "dataspace t = dataspace s"
    "file_bytes t (of_name f) = file_write (file_bytes s (of_name f)) (page_offset ch cmd) (iov_gather (dataspace s) (cmd_buffers cmd))"
proof -
  obtain f s1 where f: "map_of (fds s) (ds_fd ds) = Some f" "opened s1 (ds_fd ds) (f\<lparr>of_offset := dq_page cmd * dc_blocksize ch\<rparr>)"
    "files s1 = files s" "dataspace s1 = dataspace s"
    "disk_transfer s1 (ds_fd ds) cmd 0 (nat (n_addresses cmd)) = (0, t)"
    using DoDiskIO_success [OF assms(1)] .
  show ?thesis using that [OF f(1)] disk_transfer_write [OF f(5) assms(2) f(2)] f(3,4)
    by (auto simp: opened_def cmd_buffers_def page_offset_def file_bytes_def)
qed

lemma DoDiskIO_read:
  assumes "DoDiskIO s ch ds cmd = (0, t)" "op_cmd cmd = ReadCmd"
  obtains f where "map_of (fds s) (ds_fd ds) = Some f" "files t = files s"
    "page_offset ch cmd + iov_total (cmd_buffers cmd) \<le> max (page_offset ch cmd) (length (file_bytes s (of_name f)))"
    "dataspace t = iov_scatter (dataspace s) (cmd_buffers cmd)
      (take (iov_total (cmd_buffers cmd)) (drop (page_offset ch cmd) (file_bytes s (of_name f))))"
proof -
  obtain f s1 where f: "map_of (fds s) (ds_fd ds) = Some f" "opened s1 (ds_fd ds) (f\<lparr>of_offset := dq_page cmd * dc_blocksize ch\<rparr>)"
    "files s1 = files s" "dataspace s1 = dataspace s"
    "disk_transfer s1 (ds_fd ds) cmd 0 (nat (n_addresses cmd)) = (0, t)"
    using DoDiskIO_success [OF assms(1)] .
  show ?thesis using that [OF f(1)] disk_transfer_read [OF f(5) assms(2) f(2)] f(3,4)
    by (auto simp: cmd_buffers_def page_offset_def file_bytes_def)
qed

end
