(* ===== verification/Life_Messages.thy ===== *)
theory Life_Messages
  imports Life_Disks
begin

text \<open>
  Message channels (\<^verbatim>\<open>src/life-support/message_channels.c\<close>): the channel through which the guest sends
  commands to Life Support, and the list of active channels that is threaded through their subtype
  data. Following a null or freed pointer to subtype data, a walk that does not end, and \<^verbatim>\<open>vpunt\<close>
  are the result \<open>None\<close>.
\<close>

section \<open>Subtype data\<close>

definition EmbMessageChannelCommandSubtype :: EmbWord where "EmbMessageChannelCommandSubtype = 2"
definition EmbMessageChannelMBINSubtype :: EmbWord where "EmbMessageChannelMBINSubtype = 3"
definition EmbMessageImpulseNone :: EmbWord where "EmbMessageImpulseNone = 0"
definition EmbCommandBufferStartMBIN :: EmbWord where "EmbCommandBufferStartMBIN = 1"
definition CommandQueueSize :: nat where "CommandQueueSize = 5"

lemmas message_codes = EmbMessageChannelCommandSubtype_def EmbMessageChannelMBINSubtype_def EmbMessageImpulseNone_def
  EmbCommandBufferStartMBIN_def CommandQueueSize_def

text \<open>The pointer is kept in two words of the channel.\<close>

definition SetSubtypeData :: "EmbMessageChannel \<Rightarrow> addr \<Rightarrow> EmbMessageChannel" where
  "SetSubtypeData mc p = mc\<lparr>subtypeData0 := ucast (drop_bit 32 p), subtypeData1 := ucast p\<rparr>"

definition SubtypeData :: "EmbMessageChannel \<Rightarrow> addr" where
  "SubtypeData mc = push_bit 32 (ucast (subtypeData0 mc)) OR ucast (subtypeData1 mc)"

definition subtype_of :: "life \<Rightarrow> EmbPtr \<Rightarrow> EmbMessageSubtypeData option" where
  "subtype_of s p = subtypes s (SubtypeData (messageChannels s p))"

text \<open>A store through the pointer to subtype data.\<close>

definition set_next_active :: "life \<Rightarrow> EmbPtr \<Rightarrow> EmbPtr option \<Rightarrow> life option" where
  "set_next_active s p nxt = (case subtype_of s p of None \<Rightarrow> None
     | Some sd \<Rightarrow> Some (s\<lparr>subtypes := (subtypes s)(SubtypeData (messageChannels s p) \<mapsto> sd\<lparr>nextActiveChannel := nxt\<rparr>)\<rparr>))"

definition set_message_channel :: "life \<Rightarrow> EmbPtr \<Rightarrow> (EmbMessageChannel \<Rightarrow> EmbMessageChannel) \<Rightarrow> life" where
  "set_message_channel s p f = s\<lparr>messageChannels := (messageChannels s)(p := f (messageChannels s p))\<rparr>"

section \<open>Initialization\<close>

text \<open>\<^verbatim>\<open>CreateQueue\<close> in the area, which is cleared when Life Support starts.\<close>

definition create_queue :: "life \<Rightarrow> nat \<Rightarrow> nat \<Rightarrow> (EmbPtr \<times> life) option" where
  "create_queue s nElements elementSize = (case EmbCommAreaAlloc s (24 + nElements * elementSize) of None \<Rightarrow> None
     | Some (cp, s1) \<Rightarrow> Some (cp, set_queue s1 cp (CreateQueue (int nElements) (int elementSize) (replicate nElements 0))))"

definition InitializeMessageChannels :: "life \<Rightarrow> life option" where
  "InitializeMessageChannels s = (case EmbCommAreaAlloc s 48 of None \<Rightarrow> None
     | Some (cp, s1) \<Rightarrow>
       let s2 = s1\<lparr>channels := (channels s1)(cp := \<lparr>ch_type = EmbMessageChannelType, ch_unit = 0, ch_next = channel_table s1\<rparr>),
             command_channel := cp, channel_table := cp\<rparr>;
           s3 = set_message_channel s2 cp (\<lambda>m. m\<lparr>mc_subtype := EmbMessageChannelCommandSubtype,
             hostToGuestQueue := NullEmbPtr, hostToGuestSupplyQueue := NullEmbPtr\<rparr>)
       in case malloc s3 of (cc, s4) \<Rightarrow>
         if cc = 0 then None
         else case create_queue (set_message_channel s4 cp (\<lambda>m. SetSubtypeData m cc)) CommandQueueSize 4 of None \<Rightarrow> None
         | Some (gq, s5) \<Rightarrow>
           (case InstallSignalHandler (comm s5) (ExecuteGuestCommands_on cc) of None \<Rightarrow> None
            | Some (ca, n) \<Rightarrow>
              let s6 = set_queue (s5\<lparr>comm := ca\<rparr>) gq ((queues s5 gq)\<lparr>q_signal := n\<rparr>)
              in case create_queue s6 CommandQueueSize 4 of None \<Rightarrow> None
                 | Some (rq, s7) \<Rightarrow>
                   Some (set_message_channel (s7\<lparr>subtypes := (subtypes s7)(cc \<mapsto> \<lparr>nextActiveChannel = None, messageChannel = cp,
                       sd_guestToHostQueue = gq, sd_guestToHostReturnQueue = rq, sd_hostToGuestQueue = NullEmbPtr,
                       sd_hostToGuestSupplyQueue = NullEmbPtr\<rparr>)\<rparr>) cp
                     (\<lambda>m. m\<lparr>guestToHostQueue := gq, guestToHostReturnQueue := rq\<rparr>))))"

section \<open>The active channels\<close>

text \<open>The loop of \<^verbatim>\<open>PollMessageChannels\<close>.\<close>

definition poll_channel :: "life \<Rightarrow> EmbPtr \<Rightarrow> life" where
  "poll_channel s p = (let mc = messageChannels s p; sig = q_signal (queues s (guestToHostQueue mc)) in
     if guestToHostImpulse mc \<noteq> 0 \<and> sig \<noteq> -1
     then s\<lparr>comm := (comm s)\<lparr>guest_to_host_signals := guest_to_host_signals (comm s) OR signal_bit (nat sig)\<rparr>\<rparr> else s)"

partial_function (option) poll_channels :: "EmbPtr option \<Rightarrow> life \<Rightarrow> life option" where
  "poll_channels mc s = (case mc of None \<Rightarrow> Some s
     | Some p \<Rightarrow> (case subtype_of s p of None \<Rightarrow> None
         | Some sd \<Rightarrow> poll_channels (nextActiveChannel sd) (poll_channel s p)))"

declare poll_channels.simps [code]

definition PollMessageChannels :: "life \<Rightarrow> life option" where
  "PollMessageChannels s = (if command_channel s = NullEmbPtr then Some s else poll_channels (Some (command_channel s)) s)"

partial_function (option) thread_last :: "EmbPtr \<Rightarrow> EmbPtr option \<Rightarrow> life \<Rightarrow> life option" where
  "thread_last theChannel mc s = (case mc of None \<Rightarrow> Some s
     | Some p \<Rightarrow> (case subtype_of s p of None \<Rightarrow> None
         | Some sd \<Rightarrow> if nextActiveChannel sd = None then set_next_active s p (Some theChannel)
             else thread_last theChannel (nextActiveChannel sd) s))"

declare thread_last.simps [code]

definition ThreadActiveMessageChannel :: "life \<Rightarrow> EmbPtr \<Rightarrow> life option" where
  "ThreadActiveMessageChannel s theChannel = (case set_next_active s theChannel None of None \<Rightarrow> None
     | Some s1 \<Rightarrow> thread_last theChannel (Some (command_channel s1)) s1)"

partial_function (option) unthread_from :: "EmbPtr \<Rightarrow> EmbPtr option \<Rightarrow> life \<Rightarrow> life option" where
  "unthread_from theChannel mc s = (case mc of None \<Rightarrow> Some s
     | Some p \<Rightarrow> (case subtype_of s p of None \<Rightarrow> None
         | Some sd \<Rightarrow> if nextActiveChannel sd = Some theChannel
             then (case subtype_of s theChannel of None \<Rightarrow> None
               | Some sd' \<Rightarrow> (case set_next_active s p (nextActiveChannel sd') of None \<Rightarrow> None
                   | Some s1 \<Rightarrow> set_next_active s1 theChannel None))
             else unthread_from theChannel (nextActiveChannel sd) s))"

declare unthread_from.simps [code]

definition UnthreadMessageChannel :: "life \<Rightarrow> EmbPtr \<Rightarrow> life option" where
  "UnthreadMessageChannel s theChannel = unthread_from theChannel (Some (command_channel s)) s"

section \<open>Commands\<close>

definition set_result :: "life \<Rightarrow> EmbPtr \<Rightarrow> EmbWord \<Rightarrow> life" where
  "set_result s p r = s\<lparr>commandBuffers := (commandBuffers s)(p := (commandBuffers s p)\<lparr>resultCode := r\<rparr>)\<rparr>"

text \<open>The subtype data of a channel that is being started.\<close>

definition mbin_subchannel :: "life \<Rightarrow> EmbPtr \<Rightarrow> EmbMessageSubtypeData" where
  "mbin_subchannel s c = (let mc = messageChannels s c in \<lparr>nextActiveChannel = None, messageChannel = c,
     sd_guestToHostQueue = guestToHostQueue mc, sd_guestToHostReturnQueue = guestToHostReturnQueue mc,
     sd_hostToGuestQueue = hostToGuestQueue mc, sd_hostToGuestSupplyQueue = hostToGuestSupplyQueue mc\<rparr>)"

definition start_mbin :: "life \<Rightarrow> EmbPtr \<Rightarrow> life option" where
  "start_mbin s p = (let c = mbinChannel (commandBuffers s p) in case malloc s of (a, s1) \<Rightarrow>
     if a = 0 then Some (set_result s1 p ENOMEM)
     else let sd = mbin_subchannel s1 c;
              s2 = set_message_channel (s1\<lparr>subtypes := (subtypes s1)(a \<mapsto> sd)\<rparr>) c (\<lambda>m. SetSubtypeData m a)
          in case ThreadActiveMessageChannel s2 c of None \<Rightarrow> None
             | Some s3 \<Rightarrow> (case InstallSignalHandler (comm s3) (SendMBINBuffers_on a) of None \<Rightarrow> None
                 | Some (ca, n) \<Rightarrow> let q = sd_guestToHostQueue sd in
                     Some (set_result (set_queue (s3\<lparr>activeMBINChannel := a, comm := ca\<rparr>) q ((queues s3 q)\<lparr>q_signal := n\<rparr>)) p ESUCCESS)))"

definition guest_command :: "life \<Rightarrow> EmbPtr \<Rightarrow> life option" where
  "guest_command s p = (if cb_opcode (commandBuffers s p) = EmbCommandBufferStartMBIN then start_mbin s p
     else Some (set_result s p EINVAL))"

partial_function (option) ExecuteGuestCommands :: "EmbPtr \<Rightarrow> EmbPtr \<Rightarrow> life \<Rightarrow> life option" where
  "ExecuteGuestCommands commandQueue resultsQueue s =
     (if EmbQueueFilled (queues s commandQueue) \<noteq> 0
      then if EmbQueueSpace (queues s resultsQueue) = 0
           then Some (signal_later s (q_signal (queues s commandQueue)))
           else case take_word s commandQueue of (p, s1) \<Rightarrow>
             if p = 0 then ExecuteGuestCommands commandQueue resultsQueue s1
             else (case guest_command s1 p of None \<Rightarrow> None
               | Some s2 \<Rightarrow> (case put_word s2 resultsQueue p of None \<Rightarrow> None
                   | Some s3 \<Rightarrow> ExecuteGuestCommands commandQueue resultsQueue s3))
      else Some s)"

declare ExecuteGuestCommands.simps [code]

definition ExecuteGuestCommands_handler :: "life \<Rightarrow> addr \<Rightarrow> life option" where
  "ExecuteGuestCommands_handler s cc = (case subtypes s cc of None \<Rightarrow> None
     | Some sd \<Rightarrow> ExecuteGuestCommands (sd_guestToHostQueue sd) (sd_guestToHostReturnQueue sd) s)"

section \<open>Reset\<close>

definition ResetMessageChannel :: "life \<Rightarrow> EmbPtr \<Rightarrow> life option" where
  "ResetMessageChannel s p =
     (let allocatedByVLM = after_host_buffers s p;
          s1 = set_message_channel s p (\<lambda>m. m\<lparr>guestToHostImpulse := EmbMessageImpulseNone, hostToGuestImpulse := EmbMessageImpulseNone\<rparr>);
          mc = messageChannels s1 p; a = SubtypeData mc
      in case set_next_active s1 p None of None \<Rightarrow> None
         | Some s2 \<Rightarrow>
           let s3 = (if mc_subtype mc = EmbMessageChannelCommandSubtype
                 then reset_outgoing (reset_incoming s2 (guestToHostQueue mc)) (guestToHostReturnQueue mc)
                 else if mc_subtype mc = EmbMessageChannelMBINSubtype
                 then let s' = reset_outgoing (reset_incoming (reset_outgoing (reset_incoming s2 (guestToHostQueue mc))
                        (guestToHostReturnQueue mc)) (hostToGuestSupplyQueue mc)) (hostToGuestQueue mc)
                   in if allocatedByVLM \<and> activeMBINChannel s' = a then s'\<lparr>activeMBINChannel := 0\<rparr> else s'
                 else s2)
           in Some (if allocatedByVLM \<and> a \<noteq> 0
                then set_message_channel (s3\<lparr>subtypes := (subtypes s3)(a := None)\<rparr>) p (\<lambda>m. SetSubtypeData m 0) else s3))"

end
