(* ===== verification/Life_Demo.thy ===== *)
theory Life_Demo
  imports Life_Disk_Facts Life_Messages
begin

text \<open>A concrete state of Life Support, at which the witnesses apply the properties of the channels.\<close>

section \<open>A concrete channel\<close>

text \<open>
  A disk of two pages of eight bytes on descriptor 3, with a write and then a read of page 1 on
  the command queue: the write from two buffers of a word, the read into one of two words.
\<close>

definition demo_words :: "EmbWord list \<Rightarrow> EmbWord EmbQueue" where
  "demo_words ws = \<lparr>element_size = 4, queue_size = 4, put_index = int (length ws), take_index = 0, q_signal = 3,
     first_element = ws @ replicate (4 - length ws) 0\<rparr>"

definition demo_comm :: "handler EmbCommArea" where
  "demo_comm = \<lparr>guest_to_host_signals = 0, live_guest_to_host_signals = 15, host_to_guest_signals = 0,
     live_host_to_guest_signals = 0, reawaken = 0, useSignalLocks = True,
     signalHandler = (\<lambda>i. \<lparr>handlerThreadSetup = True, sh_signal = signal_bit i, handlerFunction = Some (DiskLife_on 30)\<rparr>),
     interrupts = 0\<rparr>"

definition demo_channel :: EmbDiskChannel where
  "demo_channel = \<lparr>number_of_pages = 2, command_queue = 10, status_queue = 20, read_only = False, hostState = 1000, dc_blocksize = 8\<rparr>"

definition demo_disk :: DiskChannelState where
  "demo_disk = \<lparr>command_queue_ptr = 10, status_queue_ptr = 20, error_pending = False, ds_fd = 3, ds_blocksize = 8, ds_filename = [100]\<rparr>"

definition demo_command :: "EmbWord \<Rightarrow> EmbAddressPair list \<Rightarrow> EmbDiskQueueElement" where
  "demo_command c aps = \<lparr>op_cmd = c, dq_page = 1, dq_count = 1, n_addresses = int (length aps), dq_status = 0, error_code = 0,
     addresses = (\<lambda>i. if i < length aps then aps ! i else \<lparr>ap_address = 0, n_words = 0\<rparr>)\<rparr>"

definition demo_write :: EmbDiskQueueElement where
  "demo_write = demo_command 2 [\<lparr>ap_address = 100, n_words = 1\<rparr>, \<lparr>ap_address = 101, n_words = 1\<rparr>]"

definition demo_read :: EmbDiskQueueElement where
  "demo_read = demo_command 1 [\<lparr>ap_address = 200, n_words = 2\<rparr>]"

definition demo_life :: life where
  "demo_life = \<lparr>comm = demo_comm, area_version = 1, inhibitDisk = False, channel_table = 30, command_channel = 60,
     host_buffer_start = 300, host_buffer_size = 100, clock_signal = -1, clock_interval = 0, reset_request = 0,
     spy_status = 0, fep_status = 1, guestStatus = 5, restart_applications = 0, resetRequestCount = 0, pollTime = 0,
     pollClockTime = 0, EmbCommAreaAllocPtr = 400, EmbCommAreaAllocSize = 100,
     queues = (\<lambda>p. demo_words (if p = 10 then [40, 50] else [])),
     channels = (\<lambda>_. \<lparr>ch_type = 1, ch_unit = 0, ch_next = -1\<rparr>), diskChannels = (\<lambda>_. demo_channel),
     diskStates = (\<lambda>_. demo_disk), diskCommands = (\<lambda>p. if p = 40 then demo_write else demo_read),
     messageChannels = (\<lambda>_. \<lparr>mc_subtype = 2, guestToHostQueue = 70, guestToHostReturnQueue = 80, guestToHostImpulse = 0,
       hostToGuestQueue = -1, hostToGuestSupplyQueue = -1, hostToGuestImpulse = 0, subtypeData0 = 0, subtypeData1 = 2000\<rparr>),
     subtypes = Map.empty, commandBuffers = (\<lambda>_. \<lparr>cb_opcode = 0, resultCode = 0, mbinChannel = 0\<rparr>), activeMBINChannel = 0,
     dataspace = store_bytes (\<lambda>_. 0) (HostPointer 100) [1, 2, 3, 4, 5, 6, 7, 8], tagspace = (\<lambda>_. 0),
     stackcachebasevma = 0, scovlimit = 0, stackcachedata = (\<lambda>_. (0, 0)), mallocs = [],
     files = [[100] \<mapsto> replicate 16 0], fds = [(3, \<lparr>of_name = [100], of_offset = 0, of_writable = True\<rparr>)], outcomes = []\<rparr>"

lemma demo_life_sel [simp]:
  "disk_state demo_life 30 = demo_disk" "command_queue_ptr demo_disk = 10" "status_queue_ptr demo_disk = 20"
  "\<not> inhibitDisk demo_life" "diskChannels demo_life p = demo_channel"
  by (simp_all add: disk_state_def demo_life_def demo_disk_def)

lemma demo_words_inv: "length ws < 4 \<Longrightarrow> queue_inv (demo_words ws)"
  by (simp add: demo_words_def queue_inv_def)

lemma demo_pair: "queue_pair 10 20 demo_life"
  by (simp add: queue_pair_def demo_life_def demo_words_inv)

lemma demo_contents: "contents (queues demo_life 10) = [40, 50]" "contents (queues demo_life 20) = []"
  by (simp_all add: demo_life_def demo_words_def contents_def EmbQueueFilled_def slot_def upt_rec)

section \<open>Concrete message channels\<close>

text \<open>The command channel at 60 is active; the channel at 61 has its subtype data and an impulse.\<close>

definition demo_subtype :: "EmbPtr \<Rightarrow> EmbMessageSubtypeData" where
  "demo_subtype p = \<lparr>nextActiveChannel = None, messageChannel = p, sd_guestToHostQueue = 70, sd_guestToHostReturnQueue = 80,
     sd_hostToGuestQueue = 70, sd_hostToGuestSupplyQueue = 80\<rparr>"

definition demo_messages :: life where
  "demo_messages = demo_life\<lparr>subtypes := [2000 \<mapsto> demo_subtype 60, 2001 \<mapsto> demo_subtype 61],
     messageChannels := (\<lambda>p. (messageChannels demo_life p)\<lparr>subtypeData1 := (if p = 60 then 2000 else 2001),
       guestToHostImpulse := (if p = 60 then 0 else 1)\<rparr>)\<rparr>"

end
