(* ===== verification/Life_Disk_Props.thy ===== *)
theory Life_Disk_Props
  imports Life_Transfer_Facts Life_Demo
begin

text \<open>
  Properties of the disk channels, each with a witness at a concrete state.
\<close>

section \<open>Single commands\<close>

definition disk_statuses :: "EmbWord set" where
  "disk_statuses = {WonStatus, LostStatus, AbortStatus}"

lemma disk_command_answer:
  "dq_status (diskCommands (disk_command s chp p) p) \<in> disk_statuses"
  "p' \<noteq> p \<Longrightarrow> diskCommands (disk_command s chp p) p' = diskCommands s p'"
  "op_cmd (diskCommands (disk_command s chp p) p) = op_cmd (diskCommands s p)"
proof -
  have rw: "dq_status (diskCommands (disk_read_write s chp p) p) \<in> disk_statuses \<and>
    (p' \<noteq> p \<longrightarrow> diskCommands (disk_read_write s chp p) p' = diskCommands s p') \<and>
    op_cmd (diskCommands (disk_read_write s chp p) p) = op_cmd (diskCommands s p)"
    using DoDiskIO_frame by (auto simp: disk_read_write_def Let_def set_disk_command_def set_disk_state_def
        disk_statuses_def host_frame_def split: prod.splits)
  then show "dq_status (diskCommands (disk_command s chp p) p) \<in> disk_statuses"
    "p' \<noteq> p \<Longrightarrow> diskCommands (disk_command s chp p) p' = diskCommands s p'"
    "op_cmd (diskCommands (disk_command s chp p) p) = op_cmd (diskCommands s p)"
    by (auto simp: disk_command_def Let_def set_disk_command_def set_disk_state_def disk_statuses_def)
qed


lemma disk_state_frame [simp]:
  "disk_state (s\<lparr>queues := Q\<rparr>) chp = disk_state s chp" "disk_state (s\<lparr>comm := C\<rparr>) chp = disk_state s chp"
  by (simp_all add: disk_state_def)


text \<open>What is left of a state by the loop around a command.\<close>

lemma disk_serve_eq:
  assumes "queue_pair cq sq s" "contents (queues s cq) \<noteq> []" "\<not> disk_blocked sq s"
  obtains Q where "take_word s cq = (hd (contents (queues s cq)), s\<lparr>queues := Q\<rparr>)"
    "hd (contents (queues s cq)) = 0 \<Longrightarrow> disk_serve chp cq sq s = s\<lparr>queues := Q\<rparr>"
    "hd (contents (queues s cq)) \<noteq> 0 \<Longrightarrow> \<exists>C Q'. disk_serve chp cq sq s =
       (disk_command (s\<lparr>queues := Q\<rparr>) chp (hd (contents (queues s cq))))\<lparr>comm := C, queues := Q'\<rparr>"
proof -
  obtain p s1 where s: "take_word s cq = (p, s1)" "p = hd (contents (queues s cq))" "p = 0 \<Longrightarrow> disk_serve chp cq sq s = s1"
    "p \<noteq> 0 \<Longrightarrow> put_word (disk_command s1 chp p) sq p = Some (disk_serve chp cq sq s)"
    using disk_serve_step [OF assms] by metis
  then have s1: "s1 = s\<lparr>queues := queues s1\<rparr>" using take_word_frame(4) [of s cq] by simp
  have "\<exists>C Q'. u = t\<lparr>comm := C, queues := Q'\<rparr>" if "put_word t sq p = Some u" for t u
    using that by (auto simp: put_word_def set_queue_def split: option.splits)
  then show ?thesis using that [of "queues s1", folded s1] s by auto
qed

lemma disk_serve_commands:
  assumes "queue_pair cq sq s" "contents (queues s cq) \<noteq> []" "\<not> disk_blocked sq s"
  shows "inhibitDisk (disk_serve chp cq sq s) = inhibitDisk s" "diskChannels (disk_serve chp cq sq s) = diskChannels s"
    "q_signal (queues (disk_serve chp cq sq s) cq) = q_signal (queues s cq)"
    "op_cmd (diskCommands (disk_serve chp cq sq s) x) = op_cmd (diskCommands s x)"
    "x \<noteq> hd (contents (queues s cq)) \<or> hd (contents (queues s cq)) = 0 \<Longrightarrow> diskCommands (disk_serve chp cq sq s) x = diskCommands s x"
    "hd (contents (queues s cq)) \<noteq> 0 \<Longrightarrow>
      dq_status (diskCommands (disk_serve chp cq sq s) (hd (contents (queues s cq)))) \<in> disk_statuses"
proof -
  let ?p = "hd (contents (queues s cq))"
  obtain Q where Q: "?p = 0 \<Longrightarrow> disk_serve chp cq sq s = s\<lparr>queues := Q\<rparr>"
    "?p \<noteq> 0 \<Longrightarrow> \<exists>C Q'. disk_serve chp cq sq s = (disk_command (s\<lparr>queues := Q\<rparr>) chp ?p)\<lparr>comm := C, queues := Q'\<rparr>"
    by (rule disk_serve_eq [OF assms, of chp]) blast
  note fr = disk_command_frame [of "s\<lparr>queues := Q\<rparr>" chp ?p, unfolded disk_frame_def]
  note ans = disk_command_answer [where s = "s\<lparr>queues := Q\<rparr>" and chp = chp and p = ?p]
  show "inhibitDisk (disk_serve chp cq sq s) = inhibitDisk s" "diskChannels (disk_serve chp cq sq s) = diskChannels s"
    "x \<noteq> ?p \<or> ?p = 0 \<Longrightarrow> diskCommands (disk_serve chp cq sq s) x = diskCommands s x"
    "?p \<noteq> 0 \<Longrightarrow> dq_status (diskCommands (disk_serve chp cq sq s) ?p) \<in> disk_statuses"
    using Q fr ans by (cases "?p = 0"; auto)+
  show "op_cmd (diskCommands (disk_serve chp cq sq s) x) = op_cmd (diskCommands s x)"
    using Q ans(2,3) by (cases "?p = 0"; cases "x = ?p"; auto)
  show "q_signal (queues (disk_serve chp cq sq s) cq) = q_signal (queues s cq)"
    by (rule disk_serve_step [OF assms])
qed






section \<open>Properties\<close>

text \<open>
  C15. The handler of a disk channel returns. It serves a number of commands from the front of the
  command queue; the pointers it serves appear on the status queue in the same order, each with a
  status filled in, and every null pointer is dropped. It leaves commands on the queue only when
  disk transfers are inhibited or the status queue is full, and then it has asked to be called again.
\<close>

theorem disk_commands_answered:
  assumes "queue_pair (command_queue_ptr (disk_state s chp)) (status_queue_ptr (disk_state s chp)) s"
    and "0 \<le> q_signal (queues s (command_queue_ptr (disk_state s chp)))"
    and "q_signal (queues s (command_queue_ptr (disk_state s chp))) < 32"
  shows "\<exists>t n. DiskLife_handler s chp = Some t \<and>
    n \<le> length (contents (queues s (command_queue_ptr (disk_state s chp)))) \<and>
    contents (queues t (command_queue_ptr (disk_state s chp))) =
      drop n (contents (queues s (command_queue_ptr (disk_state s chp)))) \<and>
    contents (queues t (status_queue_ptr (disk_state s chp))) = contents (queues s (status_queue_ptr (disk_state s chp))) @
      filter (\<lambda>p. p \<noteq> 0) (take n (contents (queues s (command_queue_ptr (disk_state s chp))))) \<and>
    (\<forall>p \<in> set (take n (contents (queues s (command_queue_ptr (disk_state s chp))))).
      p \<noteq> 0 \<longrightarrow> dq_status (diskCommands t p) \<in> {WonStatus, LostStatus, AbortStatus}) \<and>
    (n < length (contents (queues s (command_queue_ptr (disk_state s chp)))) \<longrightarrow>
      (inhibitDisk s \<or> EmbQueueSpace (queues t (status_queue_ptr (disk_state s chp))) = 0) \<and>
      bit (reawaken (comm t)) (nat (q_signal (queues s (command_queue_ptr (disk_state s chp))))))"
proof -
  define cq where "cq = command_queue_ptr (disk_state s chp)"
  define sq where "sq = status_queue_ptr (disk_state s chp)"
  define k where "k = length (contents (queues s sq))"
  define J where "J t \<longleftrightarrow> inhibitDisk t = inhibitDisk s \<and> q_signal (queues t cq) = q_signal (queues s cq) \<and>
    k \<le> length (contents (queues t sq)) \<and>
    (\<forall>p \<in> set (drop k (contents (queues t sq))). dq_status (diskCommands t p) \<in> disk_statuses)" for t :: life
  have inv: "queue_pair cq sq s" using assms(1) by (simp add: cq_def sq_def)
  have J0: "J s" by (simp add: J_def k_def)
  have J1: "J (disk_serve chp cq sq t)" if "queue_pair cq sq t" "contents (queues t cq) \<noteq> []" "\<not> disk_blocked sq t" "J t" for t
  proof -
    note sc = disk_serve_commands [OF that(1-3), where chp = chp]
    have "dq_status (diskCommands (disk_serve chp cq sq t) p) \<in> disk_statuses"
      if "p \<in> set (drop k (contents (queues (disk_serve chp cq sq t) sq)))" for p
      using that \<open>J t\<close> sc(5,6) disk.serve_outq [OF \<open>queue_pair cq sq t\<close> \<open>contents (queues t cq) \<noteq> []\<close> \<open>\<not> disk_blocked sq t\<close>, of chp]
      by (cases "p \<noteq> hd (contents (queues t cq)) \<or> hd (contents (queues t cq)) = 0") (auto simp: J_def split: if_splits)
    then show ?thesis using \<open>J t\<close> sc(1,3) disk.serve_outq [OF that(1-3), of chp] by (auto simp: J_def)
  qed
  obtain n t where t: "n \<le> length (contents (queues s cq))" "J t" "contents (queues t cq) = drop n (contents (queues s cq))"
    "contents (queues t sq) = contents (queues s sq) @ filter (\<lambda>p. p \<noteq> 0) (take n (contents (queues s cq)))"
    "DiskLife chp cq sq s = Some (if contents (queues t cq) = [] then t else signal_later t (q_signal (queues t cq)))"
    "contents (queues t cq) \<noteq> [] \<longrightarrow> disk_blocked sq t"
    using disk.run_serves [where J = J and chp = chp, OF inv J0 J1] by blast
  let ?u = "if contents (queues t cq) = [] then t else signal_later t (q_signal (queues t cq))"
  have "DiskLife_handler s chp = Some ?u" using t(5) by (simp add: DiskLife_handler_def cq_def sq_def)
  moreover have "queues ?u = queues t" "diskCommands ?u = diskCommands t" by (simp_all add: signal_later_def)
  moreover have "bit (reawaken (comm ?u)) (nat (q_signal (queues s cq)))" if "n < length (contents (queues s cq))"
    using that t(2,3) assms(2,3) by (auto simp: J_def signal_later_def SignalLater_def bit_or_signal_bit cq_def)
  ultimately show ?thesis unfolding cq_def [symmetric] sq_def [symmetric] disk_statuses_def [symmetric]
    using t by (intro exI [of _ ?u] exI [of _ n]) (auto simp: J_def k_def disk_blocked_def)
qed

theorem disk_commands_answered_witness:
  "\<exists>t n. DiskLife_handler demo_life 30 = Some t \<and> n \<le> 2 \<and> contents (queues t 10) = drop n [40, 50] \<and>
    contents (queues t 20) = filter (\<lambda>p. p \<noteq> 0) (take n [40, 50])"
proof -
  have "q_signal (queues demo_life 10) = 3" by (simp add: demo_life_def demo_words_def)
  with disk_commands_answered [of demo_life 30, simplified demo_life_sel] demo_pair demo_contents
  obtain t n where "DiskLife_handler demo_life 30 = Some t" "n \<le> 2" "contents (queues t 10) = drop n [40, 50]"
    "contents (queues t 20) = filter (\<lambda>p. p \<noteq> 0) (take n [40, 50])" by (simp add: numeral_2_eq_2) blast
  then show ?thesis by blast
qed

text \<open>
  C9. What a write command stored is what a read command of the same page returns: when both report
  success, the buffers of the read hold, in order, the first bytes of the buffers of the write,
  however the two commands split their data into buffers and the host the transfers into calls.
\<close>

theorem disk_write_read:
  assumes "DoDiskIO s ch ds w = (0, s1)" "op_cmd w = WriteCmd"
    and "DoDiskIO s1 ch ds r = (0, s2)" "op_cmd r = ReadCmd" "dq_page r = dq_page w"
    and "iovs_disjoint (cmd_buffers r)" "iov_total (cmd_buffers r) \<le> iov_total (cmd_buffers w)"
  shows "iov_gather (dataspace s2) (cmd_buffers r) =
    take (iov_total (cmd_buffers r)) (iov_gather (dataspace s) (cmd_buffers w))"
proof -
  obtain f g :: open_file where w: "map_of (fds s1) (ds_fd ds) = Some g" "of_name g = of_name f" "dataspace s1 = dataspace s"
    "file_bytes s1 (of_name f) = file_write (file_bytes s (of_name f)) (page_offset ch w) (iov_gather (dataspace s) (cmd_buffers w))"
    by (rule DoDiskIO_write [OF assms(1,2)]) blast
  obtain h :: open_file where "map_of (fds s1) (ds_fd ds) = Some h"
    "dataspace s2 = iov_scatter (dataspace s1) (cmd_buffers r)
      (take (iov_total (cmd_buffers r)) (drop (page_offset ch r) (file_bytes s1 (of_name h))))"
    by (rule DoDiskIO_read [OF assms(3,4)]) blast
  moreover have "take (iov_total (cmd_buffers r)) (drop (page_offset ch r) (file_bytes s1 (of_name f))) =
      take (iov_total (cmd_buffers r)) (iov_gather (dataspace s) (cmd_buffers w))"
    using read_file_write [of "iov_gather (dataspace s) (cmd_buffers w)" "page_offset ch w" "file_bytes s (of_name f)"]
      assms(5,7) w(4) by (simp add: page_offset_def) (metis min_absorb1 take_take)
  ultimately show ?thesis using w assms(6,7) by (simp add: gather_scatter min_absorb1)
qed

lemma demo_write_won: "fst (DoDiskIO demo_life demo_channel demo_disk demo_write) = 0"
  by code_simp

lemma demo_read_won:
  "fst (DoDiskIO (snd (DoDiskIO demo_life demo_channel demo_disk demo_write)) demo_channel demo_disk demo_read) = 0"
  by code_simp

theorem disk_write_read_witness:
  "iov_gather (dataspace (snd (DoDiskIO (snd (DoDiskIO demo_life demo_channel demo_disk demo_write))
     demo_channel demo_disk demo_read))) (cmd_buffers demo_read) = [1, 2, 3, 4, 5, 6, 7, 8]"
proof -
  have "take (iov_total (cmd_buffers demo_read)) (iov_gather (dataspace demo_life) (cmd_buffers demo_write)) = [1, 2, 3, 4, 5, 6, 7, 8]"
    by code_simp
  moreover have "iovs_disjoint (cmd_buffers demo_read)" "iov_total (cmd_buffers demo_read) \<le> iov_total (cmd_buffers demo_write)"
    by code_simp+
  moreover have "op_cmd demo_write = WriteCmd" "op_cmd demo_read = ReadCmd" "dq_page demo_read = dq_page demo_write"
    by (simp_all add: demo_write_def demo_read_def demo_command_def disk_codes)
  ultimately show ?thesis
    using disk_write_read [OF prod_eqI [of "DoDiskIO demo_life demo_channel demo_disk demo_write" "(0, _)"] _
      prod_eqI [of "DoDiskIO (snd (DoDiskIO demo_life demo_channel demo_disk demo_write)) demo_channel demo_disk demo_read" "(0, _)"]]
      demo_write_won demo_read_won by simp
qed


text \<open>The same channel when the first transfer fails with error code 5.\<close>

definition demo_broken :: life where
  "demo_broken = demo_life\<lparr>outcomes := [Failed 4]\<rparr>"


lemma demo_broken_sel [simp]:
  "disk_state demo_broken 30 = demo_disk" "\<not> inhibitDisk demo_broken" "queues demo_broken = queues demo_life"
  "diskChannels demo_broken p = demo_channel" "diskCommands demo_broken = (\<lambda>p. if p = 40 then demo_write else demo_read)"
  by (simp_all add: disk_state_def demo_broken_def demo_life_def)


end
