(* ===== verification/Life_Message_Props.thy ===== *)
theory Life_Message_Props
  imports Life_Messages Life_Demo
begin

text \<open>
  The list of active message channels: the links in the subtype data as the list they represent,
  what threading, unthreading and polling do to it, and what happens to a channel that is
  threaded twice.
\<close>

section \<open>Linked lists\<close>

text \<open>
  \<open>h p\<close> is the link of \<open>p\<close>, or \<open>None\<close> when it cannot be read; \<open>segment h m xs m'\<close> says that the links
  lead from \<open>m\<close> along \<open>xs\<close> to \<open>m'\<close>.
\<close>

fun segment :: "('a \<Rightarrow> 'a option option) \<Rightarrow> 'a option \<Rightarrow> 'a list \<Rightarrow> 'a option \<Rightarrow> bool" where
  "segment h m [] m' \<longleftrightarrow> m = m'"
| "segment h m (p # ps) m' \<longleftrightarrow> m = Some p \<and> (case h p of None \<Rightarrow> False | Some n \<Rightarrow> segment h n ps m')"

lemma segment_append: "segment h m (xs @ ys) m' \<longleftrightarrow> (\<exists>n. segment h m xs n \<and> segment h n ys m')"
  by (induction xs arbitrary: m) (auto split: option.split)

lemma segment_cong: "(\<And>p. p \<in> set xs \<Longrightarrow> h p = h' p) \<Longrightarrow> segment h m xs m' = segment h' m xs m'"
  by (induction xs arbitrary: m) (auto split: option.split)

lemma segment_snoc:
  assumes "segment h m (xs @ [p]) None" "p \<notin> set xs" "h' p = Some (Some c)" "h' c = Some None" "\<And>q. q \<in> set xs \<Longrightarrow> h' q = h q"
  shows "segment h' m (xs @ [p, c]) None"
  using assms segment_cong [of xs h' h] by (auto simp: segment_append)

lemma segment_skip:
  assumes "segment h m (xs @ p # c # ys) None" "h' p = h c" "\<And>q. q \<in> set xs \<union> set ys \<Longrightarrow> h' q = h q"
  shows "segment h' m (xs @ p # ys) None"
  using assms segment_cong [of xs h' h] segment_cong [of ys h' h] by (auto simp: segment_append split: option.splits)

section \<open>The links of the active channels\<close>

definition active_link :: "life \<Rightarrow> EmbPtr \<Rightarrow> EmbPtr option option" where
  "active_link s p = map_option nextActiveChannel (subtype_of s p)"

lemma segment_link:
  assumes "segment (active_link s) m (x # xs) m'"
  obtains sd where "m = Some x" "subtype_of s x = Some sd" "segment (active_link s) (nextActiveChannel sd) xs m'"
proof (cases "subtype_of s x")
  case None
  then have "active_link s x = None" by (simp add: active_link_def)
  then show ?thesis using assms by simp
next
  case (Some sd)
  then have "active_link s x = Some (nextActiveChannel sd)" by (simp add: active_link_def)
  then show ?thesis using assms that Some by simp
qed

definition subtype_address :: "life \<Rightarrow> EmbPtr \<Rightarrow> addr" where
  "subtype_address s p = SubtypeData (messageChannels s p)"

lemma set_next_active_link:
  assumes "active_link s p = Some n"
  obtains t where "set_next_active s p nxt = Some t" "active_link t p = Some nxt"
    "\<And>q. subtype_address s q \<noteq> subtype_address s p \<Longrightarrow> active_link t q = active_link s q"
    "messageChannels t = messageChannels s" "command_channel t = command_channel s" "queues t = queues s" "comm t = comm s"
proof -
  obtain sd where sd: "subtype_of s p = Some sd" using assms by (auto simp: active_link_def)
  let ?t = "s\<lparr>subtypes := (subtypes s)(SubtypeData (messageChannels s p) \<mapsto> sd\<lparr>nextActiveChannel := nxt\<rparr>)\<rparr>"
  have "set_next_active s p nxt = Some ?t" using sd by (simp add: set_next_active_def)
  then show ?thesis by (rule that) (auto simp: active_link_def subtype_of_def subtype_address_def)
qed

text \<open>The two halves of the pointer are put together again.\<close>

lemma SubtypeData_SetSubtypeData: "SubtypeData (SetSubtypeData mc p) = p"
proof -
  have "bit (SubtypeData (SetSubtypeData mc p)) n = bit p n" if "n < 64" for n
    using that by (auto simp: SubtypeData_def SetSubtypeData_def bit_simps)
  then show ?thesis by (intro bit_word_eqI) simp
qed

section \<open>Threading\<close>

lemma thread_last_segment:
  "segment (active_link s) m (xs @ [p]) None \<Longrightarrow> thread_last c m s = set_next_active s p (Some c)"
proof (induction xs arbitrary: m)
  case Nil
  then show ?case by (subst thread_last.simps) (auto simp: active_link_def split: option.splits)
next
  case (Cons x xs)
  then obtain sd where x: "m = Some x" "subtype_of s x = Some sd" "segment (active_link s) (nextActiveChannel sd) (xs @ [p]) None"
    using segment_link [of s m x "xs @ [p]" None] by auto
  then have "nextActiveChannel sd \<noteq> None" by (cases xs) auto
  then show ?case using x Cons.IH by (subst thread_last.simps) auto
qed

lemma unthread_from_segment:
  "segment (active_link s) m (xs @ p # c # ys) None \<Longrightarrow> c \<notin> set (xs @ [p]) \<Longrightarrow> active_link s c = Some n \<Longrightarrow>
    unthread_from c m s = (case set_next_active s p n of None \<Rightarrow> None | Some t \<Rightarrow> set_next_active t c None)"
proof (induction xs arbitrary: m)
  case Nil
  then show ?case by (subst unthread_from.simps) (auto simp: active_link_def split: option.splits)
next
  case (Cons x xs)
  then obtain sd where x: "m = Some x" "subtype_of s x = Some sd"
    "segment (active_link s) (nextActiveChannel sd) (xs @ p # c # ys) None"
    using segment_link [of s m x "xs @ p # c # ys" None] by auto
  moreover from this Cons.prems(2) have "nextActiveChannel sd \<noteq> Some c" by (cases xs) auto
  ultimately show ?case using Cons by (subst unthread_from.simps) auto
qed

section \<open>Polling\<close>

lemma poll_channel_frame [simp]:
  "subtype_of (poll_channel s p) = subtype_of s" "messageChannels (poll_channel s p) = messageChannels s"
  "queues (poll_channel s p) = queues s"
  by (auto simp: poll_channel_def subtype_of_def Let_def fun_eq_iff)

lemma poll_channels_segment:
  "segment (active_link s) m xs m' \<Longrightarrow> poll_channels m s = poll_channels m' (fold (\<lambda>p t. poll_channel t p) xs s)"
proof (induction xs arbitrary: m s)
  case (Cons x xs)
  then obtain sd where x: "m = Some x" "subtype_of s x = Some sd" "segment (active_link s) (nextActiveChannel sd) xs m'"
    using segment_link by blast
  have "active_link (poll_channel s x) = active_link s" by (simp add: active_link_def fun_eq_iff)
  then show ?case using x Cons.IH [of "poll_channel s x" "nextActiveChannel sd"]
    by (subst poll_channels.simps) simp
qed simp

lemma poll_fold_signals:
  "bit (guest_to_host_signals (comm (fold (\<lambda>p t. poll_channel t p) xs s))) k \<longleftrightarrow>
    bit (guest_to_host_signals (comm s)) k \<or>
    (\<exists>p \<in> set xs. guestToHostImpulse (messageChannels s p) \<noteq> 0 \<and>
      q_signal (queues s (guestToHostQueue (messageChannels s p))) \<noteq> -1 \<and>
      nat (q_signal (queues s (guestToHostQueue (messageChannels s p)))) = k \<and> k < 32)"
proof (induction xs arbitrary: s)
  case (Cons x xs)
  have "bit (guest_to_host_signals (comm (poll_channel s x))) k \<longleftrightarrow> bit (guest_to_host_signals (comm s)) k \<or>
      (guestToHostImpulse (messageChannels s x) \<noteq> 0 \<and> q_signal (queues s (guestToHostQueue (messageChannels s x))) \<noteq> -1 \<and>
      nat (q_signal (queues s (guestToHostQueue (messageChannels s x)))) = k \<and> k < 32)"
    by (auto simp: poll_channel_def Let_def bit_or_signal_bit)
  then show ?case by (auto simp: Cons)
qed simp

text \<open>A channel whose link leads to itself is polled for ever.\<close>

lemma poll_self_loop:
  assumes "active_link s c = Some (Some c)"
  shows "poll_channels (Some c) s = None"
proof -
  have "m = Some c \<longrightarrow> active_link s c \<noteq> Some (Some c)" if "poll_channels m s = Some r" for m s r
    using _ that
  proof (rule poll_channels.raw_induct)
    fix poll m s r
    assume IH: "\<And>m s r. poll m s = Some r \<Longrightarrow> m = Some c \<longrightarrow> active_link s c \<noteq> Some (Some c)"
      and step: "(case m of None \<Rightarrow> Some s | Some p \<Rightarrow> (case subtype_of s p of None \<Rightarrow> None
        | Some sd \<Rightarrow> poll (nextActiveChannel sd) (poll_channel s p))) = Some (r :: life)"
    have "active_link (poll_channel s c) = active_link s" by (simp add: active_link_def fun_eq_iff)
    then show "m = Some c \<longrightarrow> active_link s c \<noteq> Some (Some c)"
      using step IH [of "Some c" "poll_channel s c" r] by (auto simp: active_link_def split: option.splits)
  qed
  then show ?thesis using assms by (cases "poll_channels (Some c) s") blast+
qed

section \<open>Lists of channels\<close>

text \<open>The active channels, with subtype data of their own.\<close>

definition active_list :: "life \<Rightarrow> EmbPtr list \<Rightarrow> bool" where
  "active_list s xs \<longleftrightarrow> segment (active_link s) (Some (command_channel s)) xs None \<and> distinct (map (subtype_address s) xs)"

lemma active_list_linked: "active_list s xs \<Longrightarrow> p \<in> set xs \<Longrightarrow> \<exists>n. active_link s p = Some n"
  by (auto simp: active_list_def in_set_conv_decomp segment_append split: option.splits)

lemma thread_appends:
  assumes "active_list s xs" "distinct (map (subtype_address s) (c # xs))" "active_link s c = Some n"
  obtains t where "ThreadActiveMessageChannel s c = Some t" "active_list t (xs @ [c])"
    "messageChannels t = messageChannels s" "queues t = queues s" "comm t = comm s" "command_channel t = command_channel s"
proof -
  obtain ys p where xs: "xs = ys @ [p]" using assms(1) by (cases xs rule: rev_cases) (auto simp: active_list_def)
  obtain s1 where s1: "set_next_active s c None = Some s1" "active_link s1 c = Some None"
    "\<And>q. subtype_address s q \<noteq> subtype_address s c \<Longrightarrow> active_link s1 q = active_link s q"
    "messageChannels s1 = messageChannels s" "command_channel s1 = command_channel s" "queues s1 = queues s" "comm s1 = comm s"
    using set_next_active_link [OF assms(3), of None] by metis
  have agree: "active_link s1 q = active_link s q" if "q \<in> set xs" for q using that s1(3) assms(2) by (auto simp: image_iff)
  then have seg: "segment (active_link s1) (Some (command_channel s1)) (ys @ [p]) None"
    using assms(1) segment_cong [of xs "active_link s1" "active_link s"] s1(5) by (simp add: active_list_def xs)
  have addr: "subtype_address s1 = subtype_address s" using s1(4) by (simp add: subtype_address_def fun_eq_iff)
  obtain m where "active_link s1 p = Some m" using agree [of p] active_list_linked [OF assms(1), of p] by (auto simp: xs)
  then obtain t where t: "set_next_active s1 p (Some c) = Some t" "active_link t p = Some (Some c)"
    "\<And>q. subtype_address s q \<noteq> subtype_address s p \<Longrightarrow> active_link t q = active_link s1 q"
    "messageChannels t = messageChannels s1" "command_channel t = command_channel s1" "queues t = queues s1" "comm t = comm s1"
    using set_next_active_link [of s1 p m "Some c", unfolded addr] by metis
  have "segment (active_link t) (Some (command_channel t)) (ys @ [p, c]) None"
    unfolding t(5) using t(2,3) assms(2) s1(2) xs by (intro segment_snoc [OF seg]) (auto simp: image_iff)
  moreover have "ThreadActiveMessageChannel s c = Some t"
    using s1(1) t(1) thread_last_segment [OF seg] by (simp add: ThreadActiveMessageChannel_def)
  moreover have "subtype_address t = subtype_address s" using s1(4) t(4) by (simp add: subtype_address_def fun_eq_iff)
  ultimately show ?thesis using that [of t] s1 t assms(2) by (auto simp: active_list_def xs)
qed

lemma unthread_removes:
  assumes "active_list s (xs @ p # c # ys)"
  obtains t where "UnthreadMessageChannel s c = Some t" "active_list t (xs @ p # ys)" "active_link t c = Some None"
proof -
  let ?a = "subtype_address s"
  have d: "distinct (map ?a (xs @ p # c # ys))" and seg: "segment (active_link s) (Some (command_channel s)) (xs @ p # c # ys) None"
    using assms by (simp_all add: active_list_def)
  obtain n m where n: "active_link s c = Some n" "active_link s p = Some m"
    using active_list_linked [OF assms, of c] active_list_linked [OF assms, of p] by auto
  obtain s1 where s1: "set_next_active s p n = Some s1" "active_link s1 p = Some n"
    "\<And>q. ?a q \<noteq> ?a p \<Longrightarrow> active_link s1 q = active_link s q" "messageChannels s1 = messageChannels s" "command_channel s1 = command_channel s"
    using set_next_active_link [OF n(2), of n] by metis
  have addr: "subtype_address s1 = ?a" using s1(4) by (simp add: subtype_address_def fun_eq_iff)
  obtain t where t: "set_next_active s1 c None = Some t" "active_link t c = Some None"
    "\<And>q. ?a q \<noteq> ?a c \<Longrightarrow> active_link t q = active_link s1 q" "messageChannels t = messageChannels s1" "command_channel t = command_channel s1"
    using set_next_active_link [of s1 c n None, unfolded addr] s1(3) [of c] n(1) d by auto metis
  have other: "active_link t q = active_link s q" if "?a q \<noteq> ?a c" "?a q \<noteq> ?a p" for q using that s1(3) t(3) by simp
  have "active_link t q = active_link s q" if "q \<in> set xs \<union> set ys" for q
    using that d by (intro other) (auto simp: image_iff)
  moreover have "active_link t p = active_link s c" using t(3) [of p] s1(2) n(1) d by simp
  ultimately have "segment (active_link t) (Some (command_channel s)) (xs @ p # ys) None"
    by (intro segment_skip [OF seg])
  moreover have "UnthreadMessageChannel s c = Some t"
    using unthread_from_segment [OF seg _ n(1)] d s1(1) t(1) by (auto simp: UnthreadMessageChannel_def)
  moreover have "subtype_address t = ?a" using s1(4) t(4) by (simp add: subtype_address_def fun_eq_iff)
  ultimately show ?thesis using that [of t] s1(5) t d by (auto simp: active_list_def)
qed

lemma poll_active:
  assumes "active_list s xs" "command_channel s \<noteq> NullEmbPtr"
  shows "PollMessageChannels s = Some (fold (\<lambda>p t. poll_channel t p) xs s)"
  using poll_channels_segment [of s "Some (command_channel s)" xs None] assms
    poll_channels.simps [of None "fold (\<lambda>p t. poll_channel t p) xs s"]
  by (simp add: PollMessageChannels_def active_list_def)

lemma poll_fold_link: "active_link (fold (\<lambda>p t. poll_channel t p) xs s) = active_link s"
  by (induction xs arbitrary: s) (simp_all add: active_link_def fun_eq_iff)

text \<open>
  Starting a channel that is active already closes the list into a cycle, on which the next poll
  never ends.
\<close>

theorem rethreaded_channel_hangs:
  assumes "active_list s (xs @ c # ys)" "command_channel s \<noteq> NullEmbPtr"
  shows "\<exists>t. ThreadActiveMessageChannel s c = Some t \<and> PollMessageChannels t = None"
proof -
  let ?a = "subtype_address s"
  obtain n where n: "active_link s c = Some n" using active_list_linked [OF assms(1), of c] by auto
  obtain s1 where s1: "set_next_active s c None = Some s1" "active_link s1 c = Some None"
    "\<And>q. ?a q \<noteq> ?a c \<Longrightarrow> active_link s1 q = active_link s q" "messageChannels s1 = messageChannels s" "command_channel s1 = command_channel s"
    using set_next_active_link [OF n, of None] by metis
  obtain t where t: "set_next_active s1 c (Some c) = Some t" "active_link t c = Some (Some c)"
    "\<And>q. subtype_address s1 q \<noteq> subtype_address s1 c \<Longrightarrow> active_link t q = active_link s1 q" "command_channel t = command_channel s1"
    using set_next_active_link [OF s1(2), of "Some c"] by metis
  have d: "\<And>q. q \<in> set xs \<Longrightarrow> ?a q \<noteq> ?a c" using assms(1) by (auto simp: active_list_def image_iff)
  moreover have addr: "subtype_address s1 = ?a" using s1(4) by (simp add: subtype_address_def fun_eq_iff)
  ultimately have same: "\<And>q. q \<in> set xs \<Longrightarrow> active_link s1 q = active_link s q" "\<And>q. q \<in> set xs \<Longrightarrow> active_link t q = active_link s q"
    using s1(3) t(3) by simp_all
  have seg: "segment (active_link s) (Some (command_channel s)) xs (Some c)"
    using assms(1) by (auto simp: active_list_def segment_append)
  then have "segment (active_link s1) (Some (command_channel s1)) (xs @ [c]) None"
    using segment_cong [of xs "active_link s1" "active_link s"] same(1) s1(2,5) by (auto simp: segment_append)
  then have "ThreadActiveMessageChannel s c = Some t"
    using s1(1) t(1) thread_last_segment [of s1 _ xs c c] by (simp add: ThreadActiveMessageChannel_def)
  moreover have "segment (active_link t) (Some (command_channel t)) xs (Some c)"
    using seg segment_cong [of xs "active_link t" "active_link s"] same(2) t(4) s1(5) by simp
  then have "PollMessageChannels t = None"
    using poll_channels_segment [of t "Some (command_channel t)" xs "Some c"] poll_self_loop [of "fold (\<lambda>p t. poll_channel t p) xs t" c]
      t(2,4) s1(5) assms(2) by (simp add: PollMessageChannels_def poll_fold_link)
  ultimately show ?thesis by blast
qed

section \<open>Properties\<close>

text \<open>
  C14. The links of the active message channels implement a list that starts with the command
  channel: threading a new channel appends it and unthreading any channel but the first removes
  exactly that one. A poll goes through the whole list and ends; it raises the signals of exactly
  the channels that have an impulse and a handler, and no other signal changes.
\<close>

theorem active_channels_list:
  assumes "active_list s xs" "distinct (map (subtype_address s) (c # xs))" "active_link s c = Some n"
    and "command_channel s \<noteq> NullEmbPtr"
  shows "\<exists>t v. ThreadActiveMessageChannel s c = Some t \<and> active_list t (xs @ [c]) \<and>
    (\<forall>ys p y zs. xs @ [c] = ys @ p # y # zs \<longrightarrow>
      (\<exists>u. UnthreadMessageChannel t y = Some u \<and> active_list u (ys @ p # zs))) \<and>
    PollMessageChannels t = Some v \<and>
    (\<forall>k. bit (guest_to_host_signals (comm v)) k \<longleftrightarrow> bit (guest_to_host_signals (comm s)) k \<or>
      (\<exists>p \<in> set (xs @ [c]). guestToHostImpulse (messageChannels s p) \<noteq> 0 \<and>
        q_signal (queues s (guestToHostQueue (messageChannels s p))) \<noteq> -1 \<and>
        nat (q_signal (queues s (guestToHostQueue (messageChannels s p)))) = k \<and> k < 32))"
proof -
  obtain t where t: "ThreadActiveMessageChannel s c = Some t" "active_list t (xs @ [c])"
    "messageChannels t = messageChannels s" "queues t = queues s" "comm t = comm s" "command_channel t = command_channel s"
    using thread_appends [OF assms(1-3)] by metis
  have "\<exists>u. UnthreadMessageChannel t y = Some u \<and> active_list u (ys @ p # zs)" if "xs @ [c] = ys @ p # y # zs" for ys p y zs
    using unthread_removes [OF t(2) [unfolded that]] by metis
  moreover have "command_channel t \<noteq> NullEmbPtr" using t(6) assms(4) by simp
  note poll_active [OF t(2) this]
  ultimately show ?thesis using t poll_fold_signals [of "xs @ [c]" t] by (intro exI [of _ t] exI) auto
qed

lemma demo_messages_links:
  "subtype_address demo_messages 60 = 2000" "subtype_address demo_messages 61 = 2001" "command_channel demo_messages = 60"
  "active_link demo_messages 60 = Some None" "active_link demo_messages 61 = Some None"
  by (simp_all add: subtype_address_def active_link_def subtype_of_def demo_messages_def demo_life_def demo_subtype_def SubtypeData_def)

theorem active_channels_list_witness:
  "\<exists>t v. ThreadActiveMessageChannel demo_messages 61 = Some t \<and> active_list t [60, 61] \<and>
    PollMessageChannels t = Some v \<and> bit (guest_to_host_signals (comm v)) 3"
proof -
  have "active_list demo_messages [60]" by (simp add: active_list_def demo_messages_links)
  then obtain t v where "ThreadActiveMessageChannel demo_messages 61 = Some t" "active_list t ([60] @ [61])" "PollMessageChannels t = Some v"
    "\<forall>k. bit (guest_to_host_signals (comm v)) k \<longleftrightarrow> bit (guest_to_host_signals (comm demo_messages)) k \<or>
      (\<exists>p \<in> set ([60] @ [61]). guestToHostImpulse (messageChannels demo_messages p) \<noteq> 0 \<and>
        q_signal (queues demo_messages (guestToHostQueue (messageChannels demo_messages p))) \<noteq> -1 \<and>
        nat (q_signal (queues demo_messages (guestToHostQueue (messageChannels demo_messages p)))) = k \<and> k < 32)"
    using active_channels_list [of demo_messages "[60]" 61 None] demo_messages_links by (auto simp: NullEmbPtr_def)
  moreover have "guestToHostImpulse (messageChannels demo_messages 61) \<noteq> 0"
    "q_signal (queues demo_messages (guestToHostQueue (messageChannels demo_messages 61))) = 3"
    by (simp_all add: demo_messages_def demo_life_def demo_words_def)
  ultimately show ?thesis by (intro exI [of _ t] exI [of _ v]) auto
qed

end
