(* ===== verification/World_Memory.thy ===== *)
theory World_Memory
  imports VLM_Prelude
begin

text \<open>
  The guest's memory as the loader of worlds sees it (\<^verbatim>\<open>src/emulator/memory.c\<close>, the build without
  \<^verbatim>\<open>OS_DARWIN\<close>): tags and data by address, the attributes of pages, wads of eight pages that are mapped
  as a whole, the protection that the host gives each page, the stack cache in front of the memory,
  and the mapping of a world file. Addresses are naturals below 2 to the 32, with the wrap-around of C
  written out. The calls of \<^verbatim>\<open>mmap\<close> and \<^verbatim>\<open>mprotect\<close> succeed, except that a mapping of no bytes fails. What
  happens when the guest or the emulator touches a page against its protection is in
  \<open>Guest_Faults\<close>; the loader only stores into pages that it made accessible before.
\<close>

section \<open>Memory\<close>

text \<open>A Q: its tag and its data.\<close>

type_synonym Q = "byte \<times> u32"

text \<open>The protection of a page by the host; a page of a wad that is not mapped has none.\<close>

datatype protection = PROT_NONE | PROT_READ | PROT_WRITE

record vmem =
  TagSpace :: "nat \<Rightarrow> byte"
  DataSpace :: "nat \<Rightarrow> u32"
  VMAttributeTable :: "nat \<Rightarrow> byte"
  PageProtection :: "nat \<Rightarrow> protection"
  EnableIDS :: bool
  stackcachebase :: nat
  stackcachelimit :: nat
  stackcachewords :: "nat \<Rightarrow> Q"

definition MemoryPage_Size :: nat where "MemoryPage_Size = 8192"
definition MemoryWad_Size :: nat where "MemoryWad_Size = 65536"

definition VMAttribute_AccessFault :: byte where "VMAttribute_AccessFault = 1"
definition VMAttribute_WriteFault :: byte where "VMAttribute_WriteFault = 2"
definition VMAttribute_TransportFault :: byte where "VMAttribute_TransportFault = 4"
definition VMAttribute_TransportDisable :: byte where "VMAttribute_TransportDisable = 8"
definition VMAttribute_Ephemeral :: byte where "VMAttribute_Ephemeral = 16"
definition VMAttribute_Modified :: byte where "VMAttribute_Modified = 32"
definition VMAttribute_Exists :: byte where "VMAttribute_Exists = 64"

lemmas vm_sizes = MemoryPage_Size_def MemoryWad_Size_def

definition wrap32 :: "nat \<Rightarrow> nat" where
  "wrap32 n = n mod 2 ^ 32"

definition PageCreated :: "vmem \<Rightarrow> nat \<Rightarrow> bool" where
  "PageCreated m vma \<longleftrightarrow> VMAttributeTable m (vma div MemoryPage_Size) AND VMAttribute_Exists \<noteq> 0"

text \<open>Some page of the wad exists: the mask over the eight attributes of the wad.\<close>

definition WadCreated :: "vmem \<Rightarrow> nat \<Rightarrow> bool" where
  "WadCreated m vma \<longleftrightarrow> list_ex (\<lambda>i. VMAttributeTable m (8 * (vma div MemoryWad_Size) + i) AND VMAttribute_Exists \<noteq> 0) [0..<8]"

definition VirtualAddressWadMappedP :: "vmem \<Rightarrow> nat \<Rightarrow> bool" where
  "VirtualAddressWadMappedP m vma = WadCreated m vma"

definition DefaultAttributes :: "vmem \<Rightarrow> bool \<Rightarrow> bool \<Rightarrow> byte" where
  "DefaultAttributes m faultp worldp = VMAttribute_Exists OR VMAttribute_Ephemeral OR
     (if faultp then VMAttribute_AccessFault else 0) OR (if EnableIDS m \<and> worldp then 0 else VMAttribute_Modified)"

text \<open>
  The protection for a combination of attributes; a transport fault that is disabled does not count.
  Without the modified and ephemeral bits a page is read only, so that they can be noted.
\<close>

definition ComputeProtection :: "byte \<Rightarrow> protection" where
  "ComputeProtection attr0 =
     (let attr = (if attr0 AND VMAttribute_TransportDisable \<noteq> 0 then attr0 AND NOT VMAttribute_TransportFault else attr0) in
      if attr AND (VMAttribute_Exists OR VMAttribute_TransportFault OR VMAttribute_AccessFault) \<noteq> VMAttribute_Exists
      then PROT_NONE
      else if attr AND (VMAttribute_Modified OR VMAttribute_Ephemeral OR VMAttribute_WriteFault)
                \<noteq> VMAttribute_Modified OR VMAttribute_Ephemeral
      then PROT_READ else PROT_WRITE)"

text \<open>
  The host is only called when the protection changes, or when the page comes into existence: then
  nothing is known of the protection it had.
\<close>

definition AdjustProtection :: "vmem \<Rightarrow> nat \<Rightarrow> byte \<Rightarrow> vmem" where
  "AdjustProtection m vma new_attr =
     (let p = vma div MemoryPage_Size; oa = VMAttributeTable m p;
          changed = (ComputeProtection oa \<noteq> ComputeProtection new_attr \<or>
                     oa AND VMAttribute_Exists = 0 \<and> new_attr AND VMAttribute_Exists \<noteq> 0)
      in m\<lparr>VMAttributeTable := (VMAttributeTable m)(p := new_attr),
           PageProtection := (if changed then (PageProtection m)(p := ComputeProtection new_attr) else PageProtection m)\<rparr>)"

definition SetPageCreated :: "vmem \<Rightarrow> nat \<Rightarrow> bool \<Rightarrow> bool \<Rightarrow> vmem" where
  "SetPageCreated m vma faultp worldp = AdjustProtection m vma (DefaultAttributes m faultp worldp)"

definition ClearPageCreated :: "vmem \<Rightarrow> nat \<Rightarrow> vmem" where
  "ClearPageCreated m vma = AdjustProtection m vma 0"

section \<open>Creating pages\<close>

text \<open>The eight pages of the wad of an address get a protection.\<close>

definition protect_wad :: "vmem \<Rightarrow> nat \<Rightarrow> protection \<Rightarrow> vmem" where
  "protect_wad m vma prot = m\<lparr>
     PageProtection := (\<lambda>p. if p div 8 = vma div MemoryWad_Size then prot else PageProtection m p)\<rparr>"

text \<open>A fresh wad has data of all ones and tags of 0.\<close>

definition fresh_wad :: "vmem \<Rightarrow> nat \<Rightarrow> vmem" where
  "fresh_wad m vma = m\<lparr>
     DataSpace := (\<lambda>a. if a div MemoryWad_Size = vma div MemoryWad_Size then -1 else DataSpace m a),
     TagSpace := (\<lambda>a. if a div MemoryWad_Size = vma div MemoryWad_Size then 0 else TagSpace m a)\<rparr>"

definition ensure_page :: "vmem \<Rightarrow> nat \<Rightarrow> bool \<Rightarrow> vmem" where
  "ensure_page m vma faultp =
     (let attr = VMAttributeTable m (vma div MemoryPage_Size) in
      if attr AND VMAttribute_Exists \<noteq> 0
      then if attr AND VMAttribute_Modified = 0 then AdjustProtection m vma (attr OR VMAttribute_Modified) else m
      else if WadCreated m vma then SetPageCreated m vma faultp False
      else let attr = DefaultAttributes m faultp False; m1 = protect_wad (fresh_wad m vma) vma (ComputeProtection attr)
           in m1\<lparr>VMAttributeTable := (VMAttributeTable m1)(vma div MemoryPage_Size := attr)\<rparr>)"

text \<open>\<open>pages\<close> pages from the one of \<open>vma\<close> on.\<close>

fun ensure_pages :: "vmem \<Rightarrow> nat \<Rightarrow> nat \<Rightarrow> bool \<Rightarrow> vmem" where
  "ensure_pages m vma 0 faultp = m"
| "ensure_pages m vma (Suc pages) faultp = ensure_pages (ensure_page m vma faultp) (wrap32 (vma + MemoryPage_Size)) pages faultp"

definition range_pages :: "nat \<Rightarrow> nat \<Rightarrow> nat" where
  "range_pages vma count = (count + vma mod MemoryPage_Size + MemoryPage_Size - 1) div MemoryPage_Size"

definition ensure_address_range :: "vmem \<Rightarrow> nat \<Rightarrow> nat \<Rightarrow> bool \<Rightarrow> vmem" where
  "ensure_address_range m vma count faultp = ensure_pages m vma (range_pages vma count) faultp"

text \<open>A wad of which no page is left is unmapped; its words are not accessible then.\<close>

definition destroy_page :: "vmem \<Rightarrow> nat \<Rightarrow> vmem \<times> nat" where
  "destroy_page m vma =
     (let (m1, result) = (if PageCreated m vma then (ClearPageCreated m vma, MemoryPage_Size) else (m, 0))
      in (if WadCreated m1 vma then m1 else protect_wad m1 vma PROT_NONE, result))"

text \<open>The pages of a range that exist are destroyed; the result is how many words they had.\<close>

fun destroy_each_page :: "vmem \<Rightarrow> nat \<Rightarrow> nat \<Rightarrow> vmem \<times> nat" where
  "destroy_each_page m vma 0 = (m, 0)"
| "destroy_each_page m vma (Suc pages) =
     (let (m1, n) = (if PageCreated m vma then destroy_page m vma else (m, 0));
          (m2, k) = destroy_each_page m1 (wrap32 (vma + MemoryPage_Size)) pages
      in (m2, n + k))"

section \<open>Words\<close>

definition in_cached_stack :: "vmem \<Rightarrow> nat \<Rightarrow> bool" where
  "in_cached_stack m vma \<longleftrightarrow> stackcachebase m \<le> vma \<and> vma - stackcachebase m < stackcachelimit m"

definition read_q :: "vmem \<Rightarrow> nat \<Rightarrow> Q" where
  "read_q m vma = (if in_cached_stack m vma then stackcachewords m (vma - stackcachebase m) else (TagSpace m vma, DataSpace m vma))"

definition write_q :: "vmem \<Rightarrow> nat \<Rightarrow> Q \<Rightarrow> vmem" where
  "write_q m vma q = (if in_cached_stack m vma
     then m\<lparr>stackcachewords := (stackcachewords m)(vma - stackcachebase m := q)\<rparr>
     else m\<lparr>TagSpace := (TagSpace m)(vma := fst q), DataSpace := (DataSpace m)(vma := snd q)\<rparr>)"

section \<open>Blocks\<close>

text \<open>
  The loops up to \<^verbatim>\<open>&DataSpace[vma + count]\<close>, where the sum wraps: a block that reaches the end of the
  address space is not transferred at all.
\<close>

definition uncached_count :: "nat \<Rightarrow> nat \<Rightarrow> nat" where
  "uncached_count vma count = (if vma + count < 2 ^ 32 then count else 0)"

definition read_uncached :: "vmem \<Rightarrow> nat \<Rightarrow> nat \<Rightarrow> Q list" where
  "read_uncached m vma count = map (\<lambda>i. (TagSpace m (vma + i), DataSpace m (vma + i))) [0..<uncached_count vma count]"

fun store_words :: "vmem \<Rightarrow> nat \<Rightarrow> Q list \<Rightarrow> vmem" where
  "store_words m vma [] = m"
| "store_words m vma (q # qs) =
     store_words (m\<lparr>TagSpace := (TagSpace m)(vma := fst q), DataSpace := (DataSpace m)(vma := snd q)\<rparr>) (vma + 1) qs"

definition write_uncached :: "vmem \<Rightarrow> nat \<Rightarrow> Q list \<Rightarrow> vmem" where
  "write_uncached m vma qs = store_words m vma (take (uncached_count vma (length qs)) qs)"

text \<open>How many words lie below the stack cache, and how many of the rest in it.\<close>

definition below_cache :: "vmem \<Rightarrow> nat \<Rightarrow> nat \<Rightarrow> nat" where
  "below_cache m vma count = (if vma < stackcachebase m
     then if int vma + int count - 1 < int (stackcachebase m) then count else stackcachebase m - vma else 0)"

fun cached_run :: "vmem \<Rightarrow> nat \<Rightarrow> nat \<Rightarrow> nat" where
  "cached_run m vma 0 = 0"
| "cached_run m vma (Suc n) = (if in_cached_stack m vma then Suc (cached_run m (wrap32 (vma + 1)) n) else 0)"

fun read_q_each :: "vmem \<Rightarrow> nat \<Rightarrow> nat \<Rightarrow> Q list" where
  "read_q_each m vma 0 = []"
| "read_q_each m vma (Suc n) = read_q m vma # read_q_each m (wrap32 (vma + 1)) n"

fun write_q_each :: "vmem \<Rightarrow> nat \<Rightarrow> Q list \<Rightarrow> vmem" where
  "write_q_each m vma [] = m"
| "write_q_each m vma (q # qs) = write_q_each (write_q m vma q) (wrap32 (vma + 1)) qs"

text \<open>
  Reading into a buffer, of which the words that no loop reaches keep what they were: \<open>old\<close> is the
  buffer before the call.
\<close>

definition fill_from :: "Q list \<Rightarrow> Q list \<Rightarrow> Q list" where
  "fill_from qs old = qs @ drop (length qs) old"

definition read_block :: "vmem \<Rightarrow> nat \<Rightarrow> nat \<Rightarrow> Q list \<Rightarrow> Q list" where
  "read_block m vma count old =
     (let pc = below_cache m vma count; a = wrap32 (vma + pc); c = count - pc; k = cached_run m a c;
          b = wrap32 (a + k)
      in fill_from (read_uncached m vma pc) (take pc old) @
         read_q_each m a k @
         fill_from (read_uncached m b (c - k)) (take (c - k) (drop (pc + k) old)))"

definition write_block :: "vmem \<Rightarrow> nat \<Rightarrow> Q list \<Rightarrow> vmem" where
  "write_block m vma qs =
     (let count = length qs; pc = below_cache m vma count; a = wrap32 (vma + pc); c = count - pc; k = cached_run m a c;
          b = wrap32 (a + k);
          m1 = write_uncached m vma (take pc qs);
          m2 = write_q_each m1 a (take k (drop pc qs))
      in write_uncached m2 b (drop (pc + k) qs))"

text \<open>Constants: the data of word \<open>i\<close> is that of the first and \<open>i\<close> times the increment.\<close>

definition constant_qs :: "Q \<Rightarrow> nat \<Rightarrow> nat \<Rightarrow> Q list" where
  "constant_qs q count inc = map (\<lambda>i. (fst q, snd q + of_nat (i * inc))) [0..<count]"

text \<open>\<^verbatim>\<open>memset\<close> sets the tags of the whole block, and its data when these are all zero.\<close>

definition write_constant_uncached :: "vmem \<Rightarrow> nat \<Rightarrow> Q \<Rightarrow> nat \<Rightarrow> nat \<Rightarrow> vmem" where
  "write_constant_uncached m vma q count inc =
     (let m1 = m\<lparr>TagSpace := (\<lambda>a. if vma \<le> a \<and> a < vma + count then fst q else TagSpace m a)\<rparr>;
          n = (if inc = 0 \<and> snd q = 0 then count else uncached_count vma count)
      in m1\<lparr>DataSpace := (\<lambda>a. if vma \<le> a \<and> a < vma + n then snd q + of_nat ((a - vma) * inc) else DataSpace m a)\<rparr>)"

definition write_block_constant :: "vmem \<Rightarrow> nat \<Rightarrow> Q \<Rightarrow> nat \<Rightarrow> nat \<Rightarrow> vmem" where
  "write_block_constant m vma q count inc =
     (let pc = below_cache m vma count; a = wrap32 (vma + pc); c = count - pc; k = cached_run m a c;
          b = wrap32 (a + k);
          step = (\<lambda>n. (fst q, snd q + of_nat (n * inc)));
          m1 = (if vma < stackcachebase m then write_constant_uncached m vma q pc inc else m);
          m2 = write_q_each m1 a (constant_qs (step pc) k inc)
      in if c - k > 0 then write_constant_uncached m2 b (step (pc + k)) (c - k) inc else m2)"

section \<open>World files\<close>

text \<open>The bytes of a file and its length; the words of the file are little endian.\<close>

record wfile =
  f_bytes :: "nat \<Rightarrow> byte"
  f_length :: nat

definition file_word :: "wfile \<Rightarrow> nat \<Rightarrow> u32" where
  "file_word f off = word_rcat [f_bytes f (off + 3), f_bytes f (off + 2), f_bytes f (off + 1), f_bytes f off]"

text \<open>\<open>words\<close> words of data from one offset and of tags from another, stored from \<open>vma\<close> on.\<close>

definition load_words :: "vmem \<Rightarrow> wfile \<Rightarrow> nat \<Rightarrow> nat \<Rightarrow> nat \<Rightarrow> nat \<Rightarrow> vmem" where
  "load_words m f vma words dataoffset tagoffset = m\<lparr>
     DataSpace := (\<lambda>a. if vma \<le> a \<and> a < vma + words then file_word f (dataoffset + 4 * (a - vma)) else DataSpace m a),
     TagSpace := (\<lambda>a. if vma \<le> a \<and> a < vma + words then f_bytes f (tagoffset + (a - vma)) else TagSpace m a)\<rparr>"

text \<open>One page, or part of one, read into memory; a short read ends the program.\<close>

definition load_page :: "vmem \<Rightarrow> wfile \<Rightarrow> nat \<Rightarrow> nat \<Rightarrow> nat \<Rightarrow> nat \<Rightarrow> vmem option" where
  "load_page m f vma words dataoffset tagoffset =
     (if dataoffset + 4 * words \<le> f_length f \<and> tagoffset + words \<le> f_length f
      then Some (SetPageCreated (load_words (ensure_page m vma False) f vma words dataoffset tagoffset) vma False True)
      else None)"

text \<open>The whole wads from \<open>vma\<close> on, below the limit, of which no page exists.\<close>

function wads_to_map :: "vmem \<Rightarrow> nat \<Rightarrow> nat \<Rightarrow> nat \<Rightarrow> nat" where
  "wads_to_map m vma words limit = (if words < limit \<and> \<not> WadCreated m (vma + words)
     then wads_to_map m vma (words + MemoryWad_Size) limit else words)"
  by pat_completeness auto
termination by (relation "measure (\<lambda>(_, _, words, limit). limit - words)") (auto simp: MemoryWad_Size_def)

declare wads_to_map.simps [simp del]

definition map_wads :: "vmem \<Rightarrow> wfile \<Rightarrow> nat \<Rightarrow> nat \<Rightarrow> nat \<Rightarrow> nat \<Rightarrow> vmem" where
  "map_wads m f vma words dataoffset tagoffset =
     (let mapped = (\<lambda>p. vma div MemoryPage_Size \<le> p \<and> p < (vma + words) div MemoryPage_Size);
          attr = DefaultAttributes m False True
      in (load_words m f vma words dataoffset tagoffset)\<lparr>
           VMAttributeTable := (\<lambda>p. if mapped p then attr else VMAttributeTable m p),
           PageProtection := (\<lambda>p. if mapped p then ComputeProtection attr else PageProtection m p)\<rparr>)"

text \<open>
  Pages are read one at a time as long as the address is not that of a wad, the page exists or less
  than a wad is left; then as many wads as are not mapped yet are mapped at once. The result is the
  memory, or \<open>None\<close> when the program ends.
\<close>

function MapWorldLoad :: "vmem \<Rightarrow> wfile \<Rightarrow> nat \<Rightarrow> nat \<Rightarrow> nat \<Rightarrow> nat \<Rightarrow> vmem option" where
  "MapWorldLoad m f vma len dataoffset tagoffset =
     (if len = 0 then Some m
      else if vma mod MemoryWad_Size \<noteq> 0 \<or> PageCreated m vma \<or> len < MemoryWad_Size
      then let words = min (MemoryPage_Size - vma mod MemoryPage_Size) len in
           case load_page m f vma words dataoffset tagoffset of None \<Rightarrow> None
           | Some m1 \<Rightarrow> MapWorldLoad m1 f (wrap32 (vma + words)) (len - words) (dataoffset + 4 * words) (tagoffset + words)
      else let words = wads_to_map m vma 0 (len - len mod MemoryWad_Size) in
           if words = 0 then None
           else MapWorldLoad (map_wads m f vma words dataoffset tagoffset) f (wrap32 (vma + words)) (len - words)
                  (dataoffset + 4 * words) (tagoffset + words))"
  by pat_completeness auto
termination
proof (relation "measure (\<lambda>(_, _, _, len, _). len)", goal_cases)
  case (2 m f vma len dataoffset tagoffset words m1)
  have "vma mod MemoryPage_Size < MemoryPage_Size" by (simp add: MemoryPage_Size_def)
  then show ?case using 2 by (simp add: Let_def)
qed (auto simp: Let_def)

declare MapWorldLoad.simps [simp del]

end
