(* ===== verification/World_Files.thy ===== *)
theory World_Files
  imports World_Memory
begin

text \<open>
  World files (\<^verbatim>\<open>src/src/world_tools.c\<close>, \<^verbatim>\<open>src/include/world_tools.h\<close>): the pages of 256 Qs in which headers
  and load maps of both formats are stored, reading and writing them a Q at a time, opening a file
  and reading its load maps, and the pages of files of the other byte order. The host is little
  endian. A world refers to the bytes of its open file in place of a descriptor, and to other worlds by
  their number in a table; what ends the program is a value of \<open>punt\<close>. The products of an \<^verbatim>\<open>int\<close> page
  number are exact integers here, which they are for files of less than 2 to the 31 bytes.
\<close>

section \<open>Data\<close>

datatype LoadFileFormat = VLMWorldFormat | IvoryWorldFormat

text \<open>
  A load map entry: \<open>le_count\<close> has 24 bits and \<open>le_opcode\<close> 8 of one word; \<open>le_world\<close> is the number of the
  world the entry was read from.
\<close>

record LoadMapEntry =
  le_address :: nat
  le_count :: nat
  le_opcode :: nat
  le_data :: Q
  le_world :: nat

definition LoadMapDataPages :: nat where "LoadMapDataPages = 0"
definition LoadMapConstant :: nat where "LoadMapConstant = 1"
definition LoadMapConstantIncremented :: nat where "LoadMapConstantIncremented = 2"
definition LoadMapCopy :: nat where "LoadMapCopy = 3"

lemmas load_map_opcodes = LoadMapDataPages_def LoadMapConstant_def LoadMapConstantIncremented_def LoadMapCopy_def

record World =
  pathname :: string
  fd :: wfile
  wformat :: LoadFileFormat
  byteSwapped :: bool
  vlmDataPageBase :: nat
  vlmTagsPageBase :: nat
  vlmDataPage :: "(nat \<Rightarrow> byte) option"
  vlmTagsPage :: "nat \<Rightarrow> byte"
  ivoryDataPage :: "nat \<Rightarrow> byte"
  currentPageNumber :: int
  currentQNumber :: nat
  parentWorld :: "nat option"
  sysoutGeneration :: u32
  sysoutTimestamp1 :: u32
  sysoutTimestamp2 :: u32
  sysoutParentTimestamp1 :: u32
  sysoutParentTimestamp2 :: u32
  wiredMapEntries :: "LoadMapEntry list"
  mergedWiredMapEntries :: "LoadMapEntry list"
  unwiredMapEntries :: "LoadMapEntry list"
  mergedUnwiredMapEntries :: "LoadMapEntry list"

text \<open>
  How the program ends. \<open>Undefined\<close> stands for what the language leaves open: the use of a variable
  that was never set, an access outside an array, or a loop that never ends.
\<close>

datatype punt =
    CannotOpen | CannotReadCookie | FormatUnrecognized | NoSpace | CannotSeek | CannotReadPage | InvalidWord
  | UnknownOpcode | CannotMap | UnwiredDebugger | HeaderTooLarge | NotPageBoundary | NoParent | NotSimpleString
  | CannotRename | Undefined

type_synonym 'a wres = "punt + 'a"

definition wbind :: "'a wres \<Rightarrow> ('a \<Rightarrow> 'b wres) \<Rightarrow> 'b wres" where
  "wbind r k = (case r of Inl p \<Rightarrow> Inl p | Inr x \<Rightarrow> k x)"

lemma wbind_simps [simp]: "wbind (Inl p) k = Inl p" "wbind (Inr x) k = k x"
  by (simp_all add: wbind_def)

lemma wbind_Inr_iff: "wbind r k = Inr y \<longleftrightarrow> (\<exists>x. r = Inr x \<and> k x = Inr y)"
  by (cases r) auto

lemma wbind_cong [fundef_cong]: "r = r' \<Longrightarrow> (\<And>x. r' = Inr x \<Longrightarrow> k x = k' x) \<Longrightarrow> wbind r k = wbind r' k'"
  by (cases r') auto

section \<open>Formats\<close>

definition VersionAndArchitectureQ :: nat where "VersionAndArchitectureQ = 0"

definition VLMWorldFileCookie :: u32 where "VLMWorldFileCookie = 0xA38A8988"
definition VLMWorldFileCookieSwapped :: u32 where "VLMWorldFileCookieSwapped = 0x88898AA3"
definition VLMPageSizeQs :: nat where "VLMPageSizeQs = 8192"
definition VLMBlockSize :: nat where "VLMBlockSize = 8192"
definition VLMBlocksPerDataPage :: nat where "VLMBlocksPerDataPage = 4"
definition VLMBlocksPerTagsPage :: nat where "VLMBlocksPerTagsPage = 1"
definition VLMMaximumHeaderBlocks :: nat where "VLMMaximumHeaderBlocks = 14"
definition VLMDataPageSizeBytes :: nat where "VLMDataPageSizeBytes = 4 * 8192"
definition VLMTagsPageSizeBytes :: nat where "VLMTagsPageSizeBytes = 8192"
definition VLMVersion1AndArchitecture :: u32 where "VLMVersion1AndArchitecture = 0x800080"
definition VLMVersion2AndArchitecture :: u32 where "VLMVersion2AndArchitecture = 0x800081"

definition IvoryWorldFileCookie :: u32 where "IvoryWorldFileCookie = 0x634A4948"
definition IvoryPageSizeQs :: nat where "IvoryPageSizeQs = 256"
definition IvoryPageSizeBytes :: nat where "IvoryPageSizeBytes = 1280"

lemmas vlm_sizes = VLMPageSizeQs_def VLMBlockSize_def VLMBlocksPerDataPage_def VLMBlocksPerTagsPage_def
  VLMMaximumHeaderBlocks_def VLMDataPageSizeBytes_def VLMTagsPageSizeBytes_def
lemmas ivory_sizes = IvoryPageSizeQs_def IvoryPageSizeBytes_def

text \<open>
  Where the parts of a header are: the counts of wired and unwired entries, the page bases, the first
  Q of the generation and the first of the maps. Q 0 stands for a part that is absent.
\<close>

record header_layout =
  wiredCountQ :: nat
  unwiredCountQ :: nat
  pagesBaseQ :: nat
  firstSysoutQ :: nat
  firstMapQ :: nat

definition vlm_layout :: "u32 \<Rightarrow> header_layout option" where
  "vlm_layout version =
     (if version = VLMVersion1AndArchitecture
      then Some \<lparr>wiredCountQ = 1, unwiredCountQ = 0, pagesBaseQ = 3, firstSysoutQ = 0, firstMapQ = 8\<rparr>
      else if version = VLMVersion2AndArchitecture
      then Some \<lparr>wiredCountQ = 1, unwiredCountQ = 0, pagesBaseQ = 2, firstSysoutQ = 3, firstMapQ = 8\<rparr>
      else None)"

definition ivory_layout :: header_layout where
  "ivory_layout = \<lparr>wiredCountQ = 1, unwiredCountQ = 2, pagesBaseQ = 0, firstSysoutQ = 0, firstMapQ = 8\<rparr>"

section \<open>Pages of 256 Qs\<close>

text \<open>Four tags, then four words, in every 20 bytes.\<close>

definition q_tag_offset :: "nat \<Rightarrow> nat" where
  "q_tag_offset q = 4 * 5 * (q div 4) + q mod 4"

definition q_data_offset :: "nat \<Rightarrow> nat" where
  "q_data_offset q = 4 * (5 * (q div 4) + q mod 4 + 1)"

definition page_word :: "(nat \<Rightarrow> byte) \<Rightarrow> nat \<Rightarrow> u32" where
  "page_word b off = word_rcat [b (off + 3), b (off + 2), b (off + 1), b off]"

definition word_bytes :: "u32 \<Rightarrow> nat \<Rightarrow> byte" where
  "word_bytes w i = ucast (drop_bit (8 * i) w)"

definition put_page_word :: "(nat \<Rightarrow> byte) \<Rightarrow> nat \<Rightarrow> u32 \<Rightarrow> nat \<Rightarrow> byte" where
  "put_page_word b off w = (\<lambda>i. if off \<le> i \<and> i < off + 4 then word_bytes w (i - off) else b i)"

text \<open>\<^verbatim>\<open>lseek\<close> and \<^verbatim>\<open>read\<close> of a number of bytes, all of which have to be there.\<close>

definition read_at :: "wfile \<Rightarrow> int \<Rightarrow> nat \<Rightarrow> (nat \<Rightarrow> byte) wres" where
  "read_at f off n = (if off < 0 then Inl CannotSeek
     else if nat off + n \<le> f_length f then Inr (\<lambda>i. f_bytes f (nat off + i)) else Inl CannotReadPage)"

text \<open>\<^verbatim>\<open>lseek\<close> and \<^verbatim>\<open>write\<close>: the file grows as needed, with zeros in a gap.\<close>

definition write_at :: "wfile \<Rightarrow> nat \<Rightarrow> nat \<Rightarrow> (nat \<Rightarrow> byte) \<Rightarrow> wfile" where
  "write_at f off n b = \<lparr>f_bytes = (\<lambda>i. if off \<le> i \<and> i < off + n then b (i - off)
        else if f_length f \<le> i \<and> i < off then 0 else f_bytes f i),
     f_length = (if n = 0 then f_length f else max (f_length f) (off + n))\<rparr>"

definition ReadIvoryWorldFilePage :: "World \<Rightarrow> int \<Rightarrow> World wres" where
  "ReadIvoryWorldFilePage world pageNumber =
     (if currentPageNumber world = pageNumber then Inr world
      else wbind (read_at (fd world) (pageNumber * int IvoryPageSizeBytes) IvoryPageSizeBytes)
        (\<lambda>page. Inr (world\<lparr>ivoryDataPage := page, currentPageNumber := pageNumber\<rparr>)))"

definition page_q :: "(nat \<Rightarrow> byte) \<Rightarrow> nat \<Rightarrow> Q" where
  "page_q page q = (page (q_tag_offset q), page_word page (q_data_offset q))"

definition ReadIvoryWorldFileQ :: "World \<Rightarrow> nat \<Rightarrow> Q wres" where
  "ReadIvoryWorldFileQ world qNumber =
     (if qNumber \<ge> IvoryPageSizeQs then Inl InvalidWord else Inr (page_q (ivoryDataPage world) qNumber))"

text \<open>The loop of the next operation: pages are read until the Q is in the current one.\<close>

function advance_pages :: "World \<Rightarrow> nat \<Rightarrow> World wres" where
  "advance_pages world q =
     (if q \<ge> IvoryPageSizeQs
      then wbind (ReadIvoryWorldFilePage world (currentPageNumber world + 1)) (\<lambda>w. advance_pages w (q - IvoryPageSizeQs))
      else Inr (world\<lparr>currentQNumber := q\<rparr>))"
  by pat_completeness auto
termination by (relation "measure snd") (auto simp: IvoryPageSizeQs_def)

declare advance_pages.simps [simp del]

definition ReadIvoryWorldFileNextQ :: "World \<Rightarrow> (World \<times> Q) wres" where
  "ReadIvoryWorldFileNextQ world =
     wbind (advance_pages world (currentQNumber world)) (\<lambda>w.
     wbind (ReadIvoryWorldFileQ w (currentQNumber w)) (\<lambda>q.
     Inr (w\<lparr>currentQNumber := currentQNumber w + 1\<rparr>, q)))"

definition PrepareToWriteIvoryWorldFilePage :: "World \<Rightarrow> int \<Rightarrow> World" where
  "PrepareToWriteIvoryWorldFilePage world pageNumber =
     world\<lparr>currentPageNumber := pageNumber, currentQNumber := 0, ivoryDataPage := (\<lambda>i. 0)\<rparr>"

definition WriteIvoryWorldFilePage :: "World \<Rightarrow> World wres" where
  "WriteIvoryWorldFilePage world =
     (if currentQNumber world = 0 then Inr world
      else if currentPageNumber world < 0 then Inl CannotSeek
      else let w = world\<lparr>fd := write_at (fd world) (nat (currentPageNumber world) * IvoryPageSizeBytes) IvoryPageSizeBytes
                                (ivoryDataPage world),
                         currentPageNumber := currentPageNumber world + 1\<rparr>
           in Inr (PrepareToWriteIvoryWorldFilePage w (currentPageNumber w)))"

definition put_q :: "(nat \<Rightarrow> byte) \<Rightarrow> nat \<Rightarrow> Q \<Rightarrow> nat \<Rightarrow> byte" where
  "put_q page n q = put_page_word (page(q_tag_offset n := fst q)) (q_data_offset n) (snd q)"

definition WriteIvoryWorldFileNextQ :: "World \<Rightarrow> Q \<Rightarrow> World wres" where
  "WriteIvoryWorldFileNextQ world q =
     wbind (if currentQNumber world \<ge> IvoryPageSizeQs then WriteIvoryWorldFilePage world else Inr world) (\<lambda>w.
     Inr (w\<lparr>ivoryDataPage := put_q (ivoryDataPage w) (currentQNumber w) q, currentQNumber := currentQNumber w + 1\<rparr>))"

section \<open>Load maps\<close>

definition op_word :: "LoadMapEntry \<Rightarrow> u32" where
  "op_word e = of_nat (le_count e mod 2 ^ 24 + 2 ^ 24 * (le_opcode e mod 2 ^ 8))"

fun ReadLoadMap :: "World \<Rightarrow> nat \<Rightarrow> nat \<Rightarrow> (World \<times> LoadMapEntry list) wres" where
  "ReadLoadMap world self 0 = Inr (world, [])"
| "ReadLoadMap world self (Suc n) =
     wbind (ReadIvoryWorldFileNextQ world) (\<lambda>(w1, a).
     wbind (ReadIvoryWorldFileNextQ w1) (\<lambda>(w2, op).
     wbind (ReadIvoryWorldFileNextQ w2) (\<lambda>(w3, d).
     wbind (ReadLoadMap w3 self n) (\<lambda>(w4, es).
     Inr (w4, \<lparr>le_address = unat (snd a), le_count = unat (snd op) mod 2 ^ 24, le_opcode = unat (snd op) div 2 ^ 24,
               le_data = d, le_world = self\<rparr> # es)))))"

section \<open>Opening\<close>

type_synonym filesystem = "string \<Rightarrow> wfile option"

definition fresh_world :: "string \<Rightarrow> wfile \<Rightarrow> World" where
  "fresh_world path f = \<lparr>pathname = path, fd = f, wformat = VLMWorldFormat, byteSwapped = False, vlmDataPageBase = 0,
     vlmTagsPageBase = 0, vlmDataPage = None, vlmTagsPage = (\<lambda>_. 0), ivoryDataPage = (\<lambda>_. 0), currentPageNumber = -1,
     currentQNumber = 0, parentWorld = None, sysoutGeneration = 0, sysoutTimestamp1 = 0, sysoutTimestamp2 = 0,
     sysoutParentTimestamp1 = 0, sysoutParentTimestamp2 = 0, wiredMapEntries = [], mergedWiredMapEntries = [],
     unwiredMapEntries = [], mergedUnwiredMapEntries = []\<rparr>"

text \<open>The format that a cookie stands for, and whether the file has the other byte order.\<close>

definition cookie_format :: "u32 \<Rightarrow> (LoadFileFormat \<times> bool) option" where
  "cookie_format cookie =
     (if cookie = VLMWorldFileCookie then Some (VLMWorldFormat, False)
      else if cookie = VLMWorldFileCookieSwapped then Some (VLMWorldFormat, True)
      else if cookie = IvoryWorldFileCookie then Some (IvoryWorldFormat, False)
      else None)"

text \<open>The number of entries of a load map is an \<^verbatim>\<open>int\<close>: no space can be had for a negative one.\<close>

definition entry_count :: "Q \<Rightarrow> nat option" where
  "entry_count q = (if sint (snd q) < 0 then None else Some (unat (snd q)))"

definition page_bases :: "World \<Rightarrow> u32 \<Rightarrow> World" where
  "page_bases world bases = world\<lparr>vlmDataPageBase := unat bases mod 2 ^ 28, vlmTagsPageBase := unat bases div 2 ^ 28\<rparr>"

definition read_sysout :: "World \<Rightarrow> nat \<Rightarrow> World wres" where
  "read_sysout world first =
     (if first = 0
      then Inr (world\<lparr>sysoutGeneration := 0, sysoutTimestamp1 := 0, sysoutTimestamp2 := 0,
                      sysoutParentTimestamp1 := 0, sysoutParentTimestamp2 := 0\<rparr>)
      else wbind (ReadIvoryWorldFileNextQ (world\<lparr>currentQNumber := first\<rparr>)) (\<lambda>(w1, q1).
           wbind (ReadIvoryWorldFileNextQ w1) (\<lambda>(w2, q2).
           wbind (ReadIvoryWorldFileNextQ w2) (\<lambda>(w3, q3).
           wbind (ReadIvoryWorldFileNextQ w3) (\<lambda>(w4, q4).
           wbind (ReadIvoryWorldFileNextQ w4) (\<lambda>(w5, q5).
           Inr (w5\<lparr>sysoutGeneration := snd q1, sysoutTimestamp1 := snd q2, sysoutTimestamp2 := snd q3,
                   sysoutParentTimestamp1 := snd q4, sysoutParentTimestamp2 := snd q5\<rparr>)))))))"

text \<open>The part of opening that follows the header's layout.\<close>

definition read_maps :: "World \<Rightarrow> nat \<Rightarrow> header_layout \<Rightarrow> nat \<Rightarrow> nat \<Rightarrow> World wres" where
  "read_maps world self lay nWired nUnwired =
     wbind (if wformat world = VLMWorldFormat
            then wbind (ReadIvoryWorldFileQ world (pagesBaseQ lay)) (\<lambda>q. Inr (page_bases world (snd q)))
            else Inr world) (\<lambda>w1.
     wbind (read_sysout w1 (firstSysoutQ lay)) (\<lambda>w2.
     wbind (ReadLoadMap (w2\<lparr>currentQNumber := firstMapQ lay\<rparr>) self nWired) (\<lambda>(w3, wired).
     wbind (ReadLoadMap w3 self nUnwired) (\<lambda>(w4, unwired).
     Inr (w4\<lparr>wiredMapEntries := wired, unwiredMapEntries := unwired\<rparr>)))))"

text \<open>
  Opening the world with number \<open>self\<close>: \<open>Inr None\<close> is the result \<^verbatim>\<open>FALSE\<close>, which the errors have that do not
  end the program. The others do in either mode.
\<close>

definition open_failure :: "bool \<Rightarrow> punt \<Rightarrow> World option wres" where
  "open_failure puntOnErrors p = (if puntOnErrors then Inl p else Inr None)"

definition read_header :: "World \<Rightarrow> nat \<Rightarrow> header_layout \<Rightarrow> bool \<Rightarrow> World option wres" where
  "read_header world self lay puntOnErrors =
     wbind (ReadIvoryWorldFileQ world (wiredCountQ lay)) (\<lambda>wq.
     case entry_count wq of None \<Rightarrow> open_failure puntOnErrors NoSpace
     | Some nWired \<Rightarrow>
       wbind (if unwiredCountQ lay \<noteq> 0 then ReadIvoryWorldFileQ world (unwiredCountQ lay) else Inr (0, 0)) (\<lambda>uq.
       case entry_count uq of None \<Rightarrow> open_failure puntOnErrors NoSpace
       | Some nUnwired \<Rightarrow> wbind (read_maps world self lay nWired nUnwired) (\<lambda>w. Inr (Some w))))"

definition OpenWorldFile :: "filesystem \<Rightarrow> string \<Rightarrow> nat \<Rightarrow> bool \<Rightarrow> World option wres" where
  "OpenWorldFile fs path self puntOnErrors =
     (case fs path of None \<Rightarrow> open_failure puntOnErrors CannotOpen
      | Some f \<Rightarrow>
        if f_length f < 4 then open_failure puntOnErrors CannotReadCookie
        else case cookie_format (file_word f 0) of None \<Rightarrow> open_failure puntOnErrors FormatUnrecognized
        | Some (fmt, swapped) \<Rightarrow>
          wbind (ReadIvoryWorldFilePage ((fresh_world path f)\<lparr>wformat := fmt, byteSwapped := swapped\<rparr>) 0) (\<lambda>w.
          if fmt = VLMWorldFormat
          then wbind (ReadIvoryWorldFileQ w VersionAndArchitectureQ) (\<lambda>q.
               case vlm_layout (snd q) of None \<Rightarrow> Inl Undefined
               | Some lay \<Rightarrow> read_header w self lay puntOnErrors)
          else read_header w self ivory_layout puntOnErrors))"

section \<open>Pages of the other byte order\<close>

definition bswap_32 :: "u32 \<Rightarrow> u32" where
  "bswap_32 w = word_rcat [word_bytes w 0, word_bytes w 1, word_bytes w 2, word_bytes w 3]"

definition ReadSwappedVLMWorldFilePage :: "World \<Rightarrow> int \<Rightarrow> World wres" where
  "ReadSwappedVLMWorldFilePage world pageNumber =
     (let w = (if vlmDataPage world = None then world\<lparr>vlmDataPage := Some (\<lambda>_. 0), currentPageNumber := -1\<rparr> else world) in
      if currentPageNumber w = pageNumber then Inr w
      else wbind (read_at (fd w) (int VLMBlockSize * (int (vlmDataPageBase w) + pageNumber * int VLMBlocksPerDataPage))
                    VLMDataPageSizeBytes) (\<lambda>d.
           wbind (read_at (fd w) (int VLMBlockSize * (int (vlmTagsPageBase w) + pageNumber * int VLMBlocksPerTagsPage))
                    VLMTagsPageSizeBytes) (\<lambda>t.
           Inr (w\<lparr>vlmDataPage := Some d, vlmTagsPage := t, currentPageNumber := pageNumber\<rparr>))))"

definition ReadSwappedVLMWorldFileQ :: "World \<Rightarrow> nat \<Rightarrow> Q wres" where
  "ReadSwappedVLMWorldFileQ world qNumber =
     (if qNumber \<ge> VLMPageSizeQs then Inl InvalidWord
      else case vlmDataPage world of None \<Rightarrow> Inl Undefined
      | Some d \<Rightarrow> Inr (vlmTagsPage world qNumber, bswap_32 (page_word d (4 * qNumber))))"

function advance_swapped :: "World \<Rightarrow> nat \<Rightarrow> World wres" where
  "advance_swapped world q =
     (if q \<ge> VLMPageSizeQs
      then wbind (ReadSwappedVLMWorldFilePage world (currentPageNumber world + 1)) (\<lambda>w. advance_swapped w (q - VLMPageSizeQs))
      else Inr (world\<lparr>currentQNumber := q\<rparr>))"
  by pat_completeness auto
termination by (relation "measure snd") (auto simp: VLMPageSizeQs_def)

declare advance_swapped.simps [simp del]

definition ReadSwappedVLMWorldFileNextQ :: "World \<Rightarrow> (World \<times> Q) wres" where
  "ReadSwappedVLMWorldFileNextQ world =
     wbind (advance_swapped world (currentQNumber world)) (\<lambda>w.
     wbind (ReadSwappedVLMWorldFileQ w (currentQNumber w)) (\<lambda>q.
     Inr (w\<lparr>currentQNumber := currentQNumber w + 1\<rparr>, q)))"

end
