(* ===== verification/World_Loading.thy ===== *)
theory World_Loading
  imports World_Files
begin

text \<open>
  Loading worlds (\<^verbatim>\<open>src/src/world_tools.c\<close>): the operations of load map entries in both formats, the copy of
  memory in chunks, loading a world and the debugger, and the repaving of the stack regions of a
  loaded world. The table \<open>ws\<close> holds the open worlds by their numbers; world 0 is the one
  the user asked for.
\<close>

section \<open>Copies\<close>

definition LoadMapChunkQs :: nat where "LoadMapChunkQs = 256"

text \<open>
  The size of the next chunk; \<open>None\<close> when the distance, converted to \<^verbatim>\<open>int\<close>, is negative: then the size is
  negative too and the loop goes backwards for ever.
\<close>

definition copy_chunk :: "nat \<Rightarrow> nat \<Rightarrow> nat \<Rightarrow> nat option" where
  "copy_chunk to from left =
     (let n = min left LoadMapChunkQs in
      if from < to \<and> to - from \<ge> 2 ^ 31 then None
      else if from < to \<and> to - from < n then Some (to - from) else Some n)"

lemma copy_chunk_bounds: "copy_chunk to from left = Some n \<Longrightarrow> left \<noteq> 0 \<Longrightarrow> 0 < n \<and> n \<le> left"
  by (auto simp: copy_chunk_def Let_def LoadMapChunkQs_def split: if_splits)

function LoadMapCopyQs :: "vmem \<Rightarrow> nat \<Rightarrow> nat \<Rightarrow> nat \<Rightarrow> vmem wres" where
  "LoadMapCopyQs m to from left =
     (if left = 0 then Inr m
      else case copy_chunk to from left of None \<Rightarrow> Inl Undefined
      | Some n \<Rightarrow> LoadMapCopyQs (write_block m to (read_block m from n (replicate n (0, 0))))
                    (wrap32 (to + n)) (wrap32 (from + n)) (left - n))"
  by pat_completeness auto
termination
  by (relation "measure (\<lambda>(_, _, _, left). left)") (auto dest: copy_chunk_bounds)

declare LoadMapCopyQs.simps [simp del]

section \<open>Streams of Qs into memory\<close>

text \<open>
  \<open>n\<close> Qs by the operation \<open>next\<close>; and \<open>count\<close> Qs in chunks, each of which is written to memory as a block. The
  recursion is over the number of Qs left.
\<close>

fun read_qs :: "(World \<Rightarrow> (World \<times> Q) wres) \<Rightarrow> World \<Rightarrow> nat \<Rightarrow> (World \<times> Q list) wres" where
  "read_qs nxt w 0 = Inr (w, [])"
| "read_qs nxt w (Suc n) =
     wbind (nxt w) (\<lambda>(w1, q). wbind (read_qs nxt w1 n) (\<lambda>(w2, qs). Inr (w2, q # qs)))"

function load_qs :: "(World \<Rightarrow> (World \<times> Q) wres) \<Rightarrow> World \<Rightarrow> vmem \<Rightarrow> nat \<Rightarrow> nat \<Rightarrow> (World \<times> vmem) wres" where
  "load_qs nxt w m address left =
     (if left = 0 then Inr (w, m)
      else let n = min left LoadMapChunkQs in
           wbind (read_qs nxt w n) (\<lambda>(w1, qs).
             load_qs nxt w1 (write_block m address qs) (wrap32 (address + n)) (left - n)))"
  by pat_completeness auto
termination by (relation "measure (\<lambda>(_, _, _, _, left). left)") (auto simp: LoadMapChunkQs_def)

declare load_qs.simps [simp del]

section \<open>Load map entries\<close>

type_synonym wtable = "nat \<Rightarrow> World"

text \<open>The offset of a page is computed with 32 bits.\<close>

definition file_offset :: "nat \<Rightarrow> nat \<Rightarrow> nat \<Rightarrow> nat" where
  "file_offset base pageNumber blocks = wrap32 (VLMBlockSize * wrap32 (base + pageNumber * blocks))"

definition map_result :: "'a option \<Rightarrow> 'a wres" where
  "map_result r = (case r of None \<Rightarrow> Inl CannotMap | Some x \<Rightarrow> Inr x)"

text \<open>The data page number of an entry, converted to the \<^verbatim>\<open>int\<close> parameter of the page readers.\<close>

definition int_page :: "Q \<Rightarrow> int" where
  "int_page q = sint (snd q)"

definition VLMLoadMapData :: "wtable \<Rightarrow> vmem \<Rightarrow> LoadMapEntry \<Rightarrow> (wtable \<times> vmem) wres" where
  "VLMLoadMapData ws m e =
     (let mapWorld = ws (le_world e) in
      if le_opcode e = LoadMapDataPages
      then if byteSwapped mapWorld
           then wbind (ReadSwappedVLMWorldFilePage mapWorld (int_page (le_data e))) (\<lambda>w.
                wbind (load_qs ReadSwappedVLMWorldFileNextQ (w\<lparr>currentQNumber := 0\<rparr>)
                         (ensure_address_range m (le_address e) (le_count e) False) (le_address e) (le_count e)) (\<lambda>(w1, m1).
                Inr (ws(le_world e := w1), m1)))
           else wbind (map_result (MapWorldLoad m (fd mapWorld) (le_address e) (le_count e)
                         (file_offset (vlmDataPageBase mapWorld) (unat (snd (le_data e))) VLMBlocksPerDataPage)
                         (file_offset (vlmTagsPageBase mapWorld) (unat (snd (le_data e))) VLMBlocksPerTagsPage))) (\<lambda>m1.
                Inr (ws, m1))
      else if le_opcode e = LoadMapConstant \<or> le_opcode e = LoadMapConstantIncremented
      then Inr (ws, write_block_constant (ensure_address_range m (le_address e) (le_count e) False) (le_address e) (le_data e)
                      (le_count e) (if le_opcode e = LoadMapConstantIncremented then 1 else 0))
      else if le_opcode e = LoadMapCopy
      then wbind (LoadMapCopyQs (ensure_address_range m (le_address e) (le_count e) False) (le_address e)
                    (unat (snd (le_data e))) (le_count e)) (\<lambda>m1. Inr (ws, m1))
      else Inl UnknownOpcode)"

text \<open>Files of the Ivory format: the pages are those of the world that is loaded, whatever world the entry is of.\<close>

definition IvoryLoadMapData :: "wtable \<Rightarrow> nat \<Rightarrow> vmem \<Rightarrow> LoadMapEntry \<Rightarrow> (wtable \<times> vmem) wres" where
  "IvoryLoadMapData ws self m e =
     (let m0 = ensure_address_range m (le_address e) (le_count e) False in
      if le_opcode e = LoadMapDataPages
      then wbind (ReadIvoryWorldFilePage (ws self) (int_page (le_data e))) (\<lambda>w.
           wbind (load_qs ReadIvoryWorldFileNextQ (w\<lparr>currentQNumber := 0\<rparr>) m0 (le_address e) (le_count e)) (\<lambda>(w1, m1).
           Inr (ws(self := w1), m1)))
      else if le_opcode e = LoadMapConstant \<or> le_opcode e = LoadMapConstantIncremented
      then Inr (ws, write_block_constant m0 (le_address e) (le_data e) (le_count e)
                      (if le_opcode e = LoadMapConstantIncremented then 1 else 0))
      else if le_opcode e = LoadMapCopy
      then wbind (LoadMapCopyQs m0 (le_address e) (unat (snd (le_data e))) (le_count e)) (\<lambda>m1. Inr (ws, m1))
      else Inl UnknownOpcode)"

definition LoadMapData :: "wtable \<Rightarrow> nat \<Rightarrow> vmem \<Rightarrow> LoadMapEntry \<Rightarrow> (wtable \<times> vmem) wres" where
  "LoadMapData ws self m e =
     (case wformat (ws self) of VLMWorldFormat \<Rightarrow> VLMLoadMapData ws m e | IvoryWorldFormat \<Rightarrow> IvoryLoadMapData ws self m e)"

text \<open>A list of entries; the result has the number of words they loaded, which wraps.\<close>

fun load_entries :: "wtable \<Rightarrow> nat \<Rightarrow> vmem \<Rightarrow> LoadMapEntry list \<Rightarrow> nat \<Rightarrow> (wtable \<times> vmem \<times> nat) wres" where
  "load_entries ws self m [] words = Inr (ws, m, words)"
| "load_entries ws self m (e # es) words =
     wbind (LoadMapData ws self m e) (\<lambda>(ws1, m1). load_entries ws1 self m1 es (wrap32 (words + le_count e)))"

definition LoadVLMDebugger :: "filesystem \<Rightarrow> vmem \<Rightarrow> string \<Rightarrow> vmem wres" where
  "LoadVLMDebugger fs m path =
     wbind (OpenWorldFile fs path 0 True) (\<lambda>r. case r of None \<Rightarrow> Inl Undefined
     | Some w \<Rightarrow>
       if unwiredMapEntries w \<noteq> [] then Inl UnwiredDebugger
       else wbind (load_entries (\<lambda>_. w) 0 m (wiredMapEntries w) 0) (\<lambda>(_, m1, _). Inr m1))"

section \<open>Stack regions\<close>

definition RegionOriginTableCell :: nat where "RegionOriginTableCell = 0xF804110A"
definition RegionLengthTableCell :: nat where "RegionLengthTableCell = 0xF804110B"
definition RegionFreePointerTableCell :: nat where "RegionFreePointerTableCell = 0xF804110C"
definition RegionBitsTableCell :: nat where "RegionBitsTableCell = 0xF804110E"
definition RegionQuantumAddressShift :: nat where "RegionQuantumAddressShift = 16"
definition RegionTableCapacity :: nat where "RegionTableCapacity = 0x400"
definition RegionBitsStack :: u32 where "RegionBitsStack = 0x20"
definition RegionMaxRepavePages :: nat where "RegionMaxRepavePages = 0x1000"

definition Type_Array :: byte where "Type_Array = 22"
definition Type_Fixnum :: byte where "Type_Fixnum = 8"

definition RegionPageExistsP :: "vmem \<Rightarrow> nat \<Rightarrow> bool" where
  "RegionPageExistsP m vma = PageCreated m vma"

definition read_uncached_q :: "vmem \<Rightarrow> nat \<Rightarrow> Q" where
  "read_uncached_q m vma = (TagSpace m vma, DataSpace m vma)"

definition ReadRegionTableBase :: "vmem \<Rightarrow> nat \<Rightarrow> nat option" where
  "ReadRegionTableBase m cell =
     (if \<not> RegionPageExistsP m cell then None
      else let q = read_uncached_q m cell in
           if fst q AND 0x3F \<noteq> Type_Array then None
           else if RegionPageExistsP m (unat (snd q)) then Some (unat (snd q)) else None)"

definition ReadRegionTableEntry :: "vmem \<Rightarrow> nat \<Rightarrow> nat \<Rightarrow> u32 option" where
  "ReadRegionTableEntry m base n =
     (let vma = wrap32 (base + 1 + n) in
      if \<not> RegionPageExistsP m vma then None
      else let q = read_uncached_q m vma in if fst q AND 0x3F \<noteq> Type_Fixnum then None else Some (snd q))"

record region =
  r_origin :: nat
  r_pages :: nat

text \<open>
  The stack region with number \<open>n\<close> and how many of its pages lie below its free pointer; \<open>None\<close> for an entry
  that is skipped.
\<close>

definition stack_region :: "vmem \<Rightarrow> nat \<Rightarrow> nat \<Rightarrow> nat \<Rightarrow> nat \<Rightarrow> nat \<Rightarrow> region option" where
  "stack_region m originBase lengthBase freePointerBase bitsBase n =
     (case (ReadRegionTableEntry m originBase n, ReadRegionTableEntry m lengthBase n,
            ReadRegionTableEntry m freePointerBase n, ReadRegionTableEntry m bitsBase n) of
        (Some originQuantum, Some len, Some freePointer, Some bits) \<Rightarrow>
          if freePointer = 0 \<or> len = 0 \<or> unat freePointer > unat len * 2 ^ RegionQuantumAddressShift then None
          else if bits AND RegionBitsStack = 0 then None
          else let nPages = (unat freePointer + MemoryPage_Size - 1) div MemoryPage_Size in
               if nPages > RegionMaxRepavePages then None
               else Some \<lparr>r_origin = unat (originQuantum AND 0xFFFF) * 2 ^ RegionQuantumAddressShift, r_pages = nPages\<rparr>
      | _ \<Rightarrow> None)"

text \<open>Tags and data of a page to all ones.\<close>

definition stamp_page :: "vmem \<Rightarrow> nat \<Rightarrow> vmem" where
  "stamp_page m vma = m\<lparr>
     TagSpace := (\<lambda>a. if vma \<le> a \<and> a < vma + MemoryPage_Size then 0xFF else TagSpace m a),
     DataSpace := (\<lambda>a. if vma \<le> a \<and> a < vma + MemoryPage_Size then -1 else DataSpace m a)\<rparr>"

definition repave_page :: "vmem \<Rightarrow> nat \<Rightarrow> vmem" where
  "repave_page m vma =
     (if RegionPageExistsP m vma \<or> VirtualAddressWadMappedP m vma then m
      else stamp_page (ensure_page m vma False) vma)"

definition repave_region :: "vmem \<Rightarrow> region \<Rightarrow> vmem" where
  "repave_region m r = fold (\<lambda>page m. repave_page m (wrap32 (r_origin r + page * MemoryPage_Size))) [0..<r_pages r] m"

definition repave_nth :: "nat \<Rightarrow> nat \<Rightarrow> nat \<Rightarrow> nat \<Rightarrow> nat \<Rightarrow> vmem \<Rightarrow> vmem" where
  "repave_nth originBase lengthBase freePointerBase bitsBase n m =
     (case stack_region m originBase lengthBase freePointerBase bitsBase n of None \<Rightarrow> m | Some r \<Rightarrow> repave_region m r)"

definition RepaveStackRegions :: "vmem \<Rightarrow> vmem" where
  "RepaveStackRegions m =
     (case (ReadRegionTableBase m RegionOriginTableCell, ReadRegionTableBase m RegionLengthTableCell,
            ReadRegionTableBase m RegionFreePointerTableCell, ReadRegionTableBase m RegionBitsTableCell) of
        (Some originBase, Some lengthBase, Some freePointerBase, Some bitsBase) \<Rightarrow>
          fold (repave_nth originBase lengthBase freePointerBase bitsBase) [0..<RegionTableCapacity] m
      | _ \<Rightarrow> m)"

end
