(* ===== verification/World_Merging.thy ===== *)
theory World_Merging
  imports World_Loading
begin

text \<open>
  The ancestors of an incrementally saved world and its load map (\<^verbatim>\<open>src/src/world_tools.c\<close>): scanning directories
  for world files, finding the chain of parents, merging the load map of a world over that of its
  parent, and loading the result.
\<close>

section \<open>Merging two maps\<close>

text \<open>
  The background is an array that is read without regard to its length: \<open>background\<close> gives the entries by
  their index, those at \<open>nBackground\<close> and above being whatever the memory after the array holds. The state of
  the loop is the merged map so far, the array, the two indices and whether the
  current foreground entry was copied.
\<close>

record merge_state =
  ms_new :: "LoadMapEntry list"
  ms_background :: "nat \<Rightarrow> LoadMapEntry"
  ms_fIndex :: nat
  ms_bIndex :: nat
  ms_copied :: bool

definition le_end :: "LoadMapEntry \<Rightarrow> nat" where
  "le_end e = wrap32 (le_address e + le_count e)"

text \<open>A background entry that is a special operation, or that lies below the foreground entry.\<close>

definition passes_below :: "LoadMapEntry \<Rightarrow> LoadMapEntry \<Rightarrow> bool" where
  "passes_below b f \<longleftrightarrow> le_opcode b \<noteq> LoadMapDataPages \<or> (le_address b < le_address f \<and> le_end b < le_address f)"

function copy_below :: "nat \<Rightarrow> LoadMapEntry \<Rightarrow> merge_state \<Rightarrow> merge_state" where
  "copy_below nBackground f s =
     (let b = ms_background s (ms_bIndex s) in
      if ms_bIndex s < nBackground \<and> passes_below b f
      then copy_below nBackground f (s\<lparr>ms_new := ms_new s @ [b], ms_bIndex := ms_bIndex s + 1\<rparr>)
      else s)"
  by pat_completeness auto
termination by (relation "measure (\<lambda>(n, _, s). n - ms_bIndex s)") (auto simp: Let_def)

declare copy_below.simps [simp del]

text \<open>
  The background entry reduced to what lies above the foreground entry, starting on a page; the
  count is a field of 24 bits. \<open>None\<close> when nothing is left.
\<close>

definition trim_background :: "nat \<Rightarrow> LoadMapEntry \<Rightarrow> LoadMapEntry \<Rightarrow> LoadMapEntry option" where
  "trim_background pageSizeQs b f =
     (let oldAddress = le_address b;
          address = le_end f;
          count = (le_count b + 2 ^ 32 - wrap32 (address + 2 ^ 32 - oldAddress)) mod 2 ^ 24;
          slop = address mod pageSizeQs;
          address1 = (if slop \<noteq> 0 then wrap32 (address + pageSizeQs - slop) else address);
          count1 = (if slop \<noteq> 0 then (count + 2 ^ 24 - slop) mod 2 ^ 24 else count)
      in if slop \<noteq> 0 \<and> count1 = 0 then None
         else Some (b\<lparr>le_address := address1, le_count := count1,
                      le_data := (fst (le_data b),
                                  snd (le_data b) + of_nat (wrap32 (address1 + 2 ^ 32 - oldAddress) div pageSizeQs))\<rparr>))"

definition copy_foreground :: "LoadMapEntry \<Rightarrow> merge_state \<Rightarrow> merge_state" where
  "copy_foreground f s = (if ms_copied s then s else s\<lparr>ms_new := ms_new s @ [f], ms_copied := True\<rparr>)"

text \<open>The part of the current background entry below the foreground entry.\<close>

definition copy_lower_part :: "LoadMapEntry \<Rightarrow> merge_state \<Rightarrow> merge_state" where
  "copy_lower_part f s =
     (let b = ms_background s (ms_bIndex s) in
      if le_address b < le_address f
      then s\<lparr>ms_new := ms_new s @ [b\<lparr>le_count := (le_address f - le_address b) mod 2 ^ 24\<rparr>]\<rparr> else s)"

definition skip_overlap :: "nat \<Rightarrow> LoadMapEntry \<Rightarrow> merge_state \<Rightarrow> merge_state wres" where
  "skip_overlap pageSizeQs f s =
     (let b = ms_background s (ms_bIndex s) in
      if le_address b < le_end f
      then if le_end b > le_end f
           then case trim_background pageSizeQs b f of None \<Rightarrow> Inl NotPageBoundary
                | Some b1 \<Rightarrow> Inr (s\<lparr>ms_background := (ms_background s)(ms_bIndex s := b1)\<rparr>)
           else Inr (s\<lparr>ms_bIndex := ms_bIndex s + 1\<rparr>)
      else Inr s)"

definition merge_step :: "nat \<Rightarrow> nat \<Rightarrow> LoadMapEntry \<Rightarrow> merge_state \<Rightarrow> merge_state wres" where
  "merge_step pageSizeQs nBackground f s =
     wbind (let s1 = copy_below nBackground f s in
            if le_opcode f \<noteq> LoadMapDataPages \<and> \<not> ms_copied s1 then Inr (copy_foreground f s1)
            else skip_overlap pageSizeQs f (copy_foreground f (copy_lower_part f s1))) (\<lambda>s2.
     if ms_bIndex s2 \<ge> nBackground \<or> le_address (ms_background s2 (ms_bIndex s2)) \<ge> le_end f
     then Inr (s2\<lparr>ms_fIndex := ms_fIndex s2 + 1, ms_copied := False\<rparr>) else Inr s2)"

text \<open>
  The outer loop, with a bound on its passes: a pass finishes a foreground entry or a background
  entry, or copies a special foreground entry. On a map that runs over the end of the address space
  a trimmed entry may be trimmed again and again; such a loop runs out of passes.
\<close>

fun merge_loop :: "nat \<Rightarrow> nat \<Rightarrow> nat \<Rightarrow> LoadMapEntry list \<Rightarrow> merge_state \<Rightarrow> merge_state wres" where
  "merge_loop 0 pageSizeQs nBackground foreground s =
     (if ms_fIndex s < length foreground then Inl Undefined else Inr s)"
| "merge_loop (Suc fuel) pageSizeQs nBackground foreground s =
     (if ms_fIndex s < length foreground
      then wbind (merge_step pageSizeQs nBackground (foreground ! ms_fIndex s) s) (\<lambda>s1.
           merge_loop fuel pageSizeQs nBackground foreground s1)
      else Inr s)"

definition merge_fuel :: "nat \<Rightarrow> nat \<Rightarrow> nat" where
  "merge_fuel nForeground nBackground = 3 * nForeground + 2 * nBackground + 1"

definition MergeAMap ::
    "LoadFileFormat \<Rightarrow> LoadMapEntry list \<Rightarrow> nat \<Rightarrow> (nat \<Rightarrow> LoadMapEntry) \<Rightarrow> LoadMapEntry list wres" where
  "MergeAMap originalFormat foreground nBackground background =
     (let pageSizeQs = (if originalFormat = VLMWorldFormat then VLMPageSizeQs else IvoryPageSizeQs);
          s0 = \<lparr>ms_new = [], ms_background = background, ms_fIndex = 0, ms_bIndex = 0, ms_copied = False\<rparr>
      in if nBackground + length foreground + length foreground = 0 then Inr []
         else wbind (merge_loop (merge_fuel (length foreground) nBackground) pageSizeQs nBackground foreground s0) (\<lambda>s.
              Inr (ms_new s @ map (ms_background s) [ms_bIndex s..<nBackground])))"

section \<open>Finding the ancestors\<close>

text \<open>
  What \<^verbatim>\<open>scandir\<close> finds under the name of a directory: the names of its entries, in the order in which it
  offers them to the filter, or an error.
\<close>

datatype directory = Entries "string list" | NoDirectory | Unreadable

type_synonym directories = "string \<Rightarrow> directory"

definition VLMWorldSuffix :: string where "VLMWorldSuffix = ''.vlod''"
definition IvoryWorldSuffix :: string where "IvoryWorldSuffix = ''.ilod''"

definition has_suffix :: "LoadFileFormat \<Rightarrow> string \<Rightarrow> bool" where
  "has_suffix fmt name \<longleftrightarrow> length name > length VLMWorldSuffix \<and>
     drop (length name - length VLMWorldSuffix) name = (if fmt = VLMWorldFormat then VLMWorldSuffix else IvoryWorldSuffix)"

text \<open>
  The worlds found so far have the numbers from 1 to \<open>nWorlds\<close>. A path of more than 256 characters is
  written over the end of its buffer.
\<close>

definition WorldP :: "filesystem \<Rightarrow> string \<Rightarrow> string \<Rightarrow> wtable \<times> nat \<Rightarrow> (wtable \<times> nat) wres" where
  "WorldP fs dir name s =
     (let (ws, nWorlds) = s; path = dir @ ''/'' @ name in
      if \<not> has_suffix (wformat (ws 0)) name then Inr s
      else if length path > 256 then Inl Undefined
      else wbind (OpenWorldFile fs path (nWorlds + 1) False) (\<lambda>r.
           case r of None \<Rightarrow> Inr s | Some w \<Rightarrow> Inr (ws(nWorlds + 1 := w), nWorlds + 1)))"

fun scan_entries :: "filesystem \<Rightarrow> string \<Rightarrow> string list \<Rightarrow> wtable \<times> nat \<Rightarrow> (wtable \<times> nat) wres" where
  "scan_entries fs dir [] s = Inr s"
| "scan_entries fs dir (name # names) s = wbind (WorldP fs dir name s) (\<lambda>s1. scan_entries fs dir names s1)"

definition ScanOneDirectory :: "filesystem \<Rightarrow> directories \<Rightarrow> string \<Rightarrow> wtable \<times> nat \<Rightarrow> (wtable \<times> nat) wres" where
  "ScanOneDirectory fs dirs dir s =
     (case dirs dir of Entries names \<Rightarrow> scan_entries fs dir names s | NoDirectory \<Rightarrow> Inr s | Unreadable \<Rightarrow> Inl CannotOpen)"

fun scan_all :: "filesystem \<Rightarrow> directories \<Rightarrow> string list \<Rightarrow> wtable \<times> nat \<Rightarrow> (wtable \<times> nat) wres" where
  "scan_all fs dirs [] s = Inr s"
| "scan_all fs dirs (d # ds) s = wbind (ScanOneDirectory fs dirs d s) (\<lambda>s1. scan_all fs dirs ds s1)"

text \<open>The directory of a path, and the parts of a search path: what follows the last colon counts only if it is not empty.\<close>

definition world_directory :: "string \<Rightarrow> string" where
  "world_directory path = (if CHR ''/'' \<in> set path then rev (tl (dropWhile (\<lambda>c. c \<noteq> CHR ''/'') (rev path))) else ''.'')"

function search_directories :: "string \<Rightarrow> string list" where
  "search_directories path =
     (if CHR '':'' \<in> set path
      then takeWhile (\<lambda>c. c \<noteq> CHR '':'') path # search_directories (tl (dropWhile (\<lambda>c. c \<noteq> CHR '':'') path))
      else if path \<noteq> [] then [path] else [])"
  by pat_completeness auto
termination
proof (relation "measure length", goal_cases)
  case (2 path)
  then have "0 < length path" by auto
  moreover have "length (dropWhile (\<lambda>c. c \<noteq> CHR '':'') path) \<le> length path" by (rule length_dropWhile_le)
  ultimately have "length (tl (dropWhile (\<lambda>c. c \<noteq> CHR '':'') path)) < length path"
    unfolding length_tl by linarith
  then show ?case by simp
qed simp

declare search_directories.simps [simp del]

definition parent_match :: "World \<Rightarrow> World \<Rightarrow> bool" where
  "parent_match child w \<longleftrightarrow> sysoutGeneration w = sysoutGeneration child - 1 \<and>
     sysoutTimestamp1 w = sysoutParentTimestamp1 child \<and> sysoutTimestamp2 w = sysoutParentTimestamp2 child"

text \<open>The chain of ancestors of \<open>child\<close>, from the worlds that are not in the chain yet.\<close>

function find_parents :: "wtable \<Rightarrow> nat list \<Rightarrow> nat \<Rightarrow> (wtable \<times> nat list) wres" where
  "find_parents ws avail child =
     (if sysoutGeneration (ws child) = 0 then Inr (ws, [child])
      else case find (\<lambda>i. parent_match (ws child) (ws i)) avail of None \<Rightarrow> Inl NoParent
      | Some p \<Rightarrow> wbind (find_parents (ws(child := (ws child)\<lparr>parentWorld := Some p\<rparr>)) (remove1 p avail) p) (\<lambda>(ws1, chain).
                  Inr (ws1, child # chain)))"
  by pat_completeness auto
termination
proof (relation "measure (\<lambda>(_, avail, _). length avail)", goal_cases)
  case (2 ws avail child p)
  then have "p \<in> set avail" by (auto simp: find_Some_iff)
  then have "length avail > 0" by (cases avail) auto
  with \<open>p \<in> set avail\<close> show ?case by (simp add: length_remove1)
qed simp

declare find_parents.simps [simp del]

definition FindParentWorlds :: "filesystem \<Rightarrow> directories \<Rightarrow> wtable \<Rightarrow> string \<Rightarrow> (wtable \<times> nat list) wres" where
  "FindParentWorlds fs dirs ws searchPath =
     wbind (scan_all fs dirs (world_directory (pathname (ws 0)) # search_directories searchPath) (ws, 0)) (\<lambda>(ws1, nWorlds).
     find_parents ws1 [1..<Suc nWorlds] 0)"

section \<open>Merging along the chain\<close>

definition own_maps :: "World \<Rightarrow> World" where
  "own_maps w = w\<lparr>mergedWiredMapEntries := wiredMapEntries w, mergedUnwiredMapEntries := unwiredMapEntries w\<rparr>"

text \<open>The array of a list of entries; \<open>junk\<close> is what the memory after it holds.\<close>

definition entry_array :: "(nat \<Rightarrow> LoadMapEntry) \<Rightarrow> LoadMapEntry list \<Rightarrow> nat \<Rightarrow> LoadMapEntry" where
  "entry_array junk es i = (if i < length es then es ! i else junk i)"

text \<open>The world at the head of the chain, after its ancestors.\<close>

fun MergeParentLoadMap :: "LoadFileFormat \<Rightarrow> (nat \<Rightarrow> LoadMapEntry) \<Rightarrow> wtable \<Rightarrow> nat list \<Rightarrow> wtable wres" where
  "MergeParentLoadMap fmt junk ws [] = Inl Undefined"
| "MergeParentLoadMap fmt junk ws (w # ancestors) =
     (if sysoutGeneration (ws w) = 0 then Inr (ws(w := own_maps (ws w)))
      else wbind (MergeParentLoadMap fmt junk ws ancestors) (\<lambda>ws1.
           let wired = mergedWiredMapEntries (ws1 (hd ancestors)); unwired = mergedUnwiredMapEntries (ws1 (hd ancestors)) in
           wbind (MergeAMap fmt (wiredMapEntries (ws1 w)) (length wired) (entry_array junk wired)) (\<lambda>mw.
           wbind (MergeAMap fmt (unwiredMapEntries (ws1 w)) (length unwired) (entry_array junk unwired)) (\<lambda>mu.
           Inr (ws1(w := (ws1 w)\<lparr>mergedWiredMapEntries := mw, mergedUnwiredMapEntries := mu\<rparr>))))))"

definition MergeLoadMaps ::
    "filesystem \<Rightarrow> directories \<Rightarrow> (nat \<Rightarrow> LoadMapEntry) \<Rightarrow> wtable \<Rightarrow> string \<Rightarrow> wtable wres" where
  "MergeLoadMaps fs dirs junk ws searchPath =
     (if sysoutGeneration (ws 0) > 0
      then wbind (FindParentWorlds fs dirs ws searchPath) (\<lambda>(ws1, chain). MergeParentLoadMap (wformat (ws 0)) junk ws1 chain)
      else Inr (ws(0 := own_maps (ws 0))))"

definition LoadWorld ::
    "filesystem \<Rightarrow> directories \<Rightarrow> (nat \<Rightarrow> LoadMapEntry) \<Rightarrow> vmem \<Rightarrow> string \<Rightarrow> string \<Rightarrow> (vmem \<times> nat) wres" where
  "LoadWorld fs dirs junk m path searchPath =
     wbind (OpenWorldFile fs path 0 True) (\<lambda>r. case r of None \<Rightarrow> Inl Undefined
     | Some w \<Rightarrow>
       wbind (MergeLoadMaps fs dirs junk (\<lambda>_. w) searchPath) (\<lambda>ws.
       wbind (load_entries ws 0 m (mergedWiredMapEntries (ws 0)) 0) (\<lambda>(ws1, m1, n).
       wbind (load_entries ws1 0 m1 (mergedUnwiredMapEntries (ws 0)) n) (\<lambda>(ws2, m2, n2).
       Inr (m2, n2)))))"

end
