(* ===== verification/World_Saving.thy ===== *)
theory World_Saving
  imports World_Merging
begin

text \<open>
  Saving a world (\<^verbatim>\<open>src/src/world_tools.c\<close>): the request in guest memory, the load map that is made of its
  regions, the header and the pages of the file; and the change of the byte order of a file.
\<close>

section \<open>The load map of a file\<close>

definition VLMWorldFileV2FirstMapQ :: nat where "VLMWorldFileV2FirstMapQ = 8"

definition World_Type_HeaderI :: byte where "World_Type_HeaderI = 3"
definition Type_SmallRatio :: byte where "Type_SmallRatio = 9"
definition Type_SingleFloat :: byte where "Type_SingleFloat = 10"
definition World_Type_String :: byte where "World_Type_String = 23"
definition Type_Locative :: byte where "Type_Locative = 25"
definition Type_Character :: byte where "Type_Character = 35"
definition Cdr_Normal_tag :: byte where "Cdr_Normal_tag = 2 * 64"

text \<open>
  A region that starts on a page gets the next pages of the file; one that does not becomes an entry
  for each of its words. The result has the number of pages used.
\<close>

definition vlm_pages :: "nat \<Rightarrow> nat" where
  "vlm_pages count = (count + VLMPageSizeQs - 1) div VLMPageSizeQs"

definition constant_entries :: "vmem \<Rightarrow> LoadMapEntry \<Rightarrow> LoadMapEntry list" where
  "constant_entries m e = map (\<lambda>j. let a = wrap32 (le_address e + j) in
     \<lparr>le_address = a, le_count = 1, le_opcode = LoadMapConstant, le_data = read_q m a, le_world = 0\<rparr>) [0..<le_count e]"

fun canonical_entries :: "vmem \<Rightarrow> nat \<Rightarrow> LoadMapEntry list \<Rightarrow> LoadMapEntry list \<times> nat" where
  "canonical_entries m pageNumber [] = ([], pageNumber)"
| "canonical_entries m pageNumber (e # es) =
     (if le_address e mod VLMPageSizeQs = 0
      then let (es1, n) = canonical_entries m (wrap32 (pageNumber + vlm_pages (le_count e))) es
           in (e\<lparr>le_data := (Type_Fixnum, of_nat pageNumber)\<rparr> # es1, n)
      else let (es1, n) = canonical_entries m pageNumber es in (constant_entries m e @ es1, n))"

definition header_blocks :: "nat \<Rightarrow> nat" where
  "header_blocks nEntries =
     (let nQs = VLMWorldFileV2FirstMapQ + 3 * nEntries;
          pageCount = (nQs + IvoryPageSizeQs - 1) div IvoryPageSizeQs
      in (pageCount * IvoryPageSizeBytes + VLMBlockSize - 1) div VLMBlockSize)"

definition CanonicalizeVLMLoadMapEntries :: "vmem \<Rightarrow> World \<Rightarrow> World wres" where
  "CanonicalizeVLMLoadMapEntries m world =
     (let (es, pageNumber) = canonical_entries m 0 (wiredMapEntries world);
          blockCount = header_blocks (length es)
      in if blockCount > VLMMaximumHeaderBlocks then Inl HeaderTooLarge
         else Inr (world\<lparr>wiredMapEntries := es, vlmTagsPageBase := blockCount,
                         vlmDataPageBase := blockCount + VLMBlocksPerTagsPage * pageNumber\<rparr>))"

section \<open>Header\<close>

text \<open>\<^verbatim>\<open>ftruncate\<close>: what is added is zero.\<close>

definition ftruncate :: "wfile \<Rightarrow> nat \<Rightarrow> wfile" where
  "ftruncate f n = \<lparr>f_bytes = (\<lambda>i. if i < n \<and> i < f_length f then f_bytes f i else 0), f_length = n\<rparr>"

definition preallocate :: "World \<Rightarrow> World" where
  "preallocate world =
     (case filter (\<lambda>e. le_opcode e = LoadMapDataPages) (rev (wiredMapEntries world)) of
        [] \<Rightarrow> world
      | e # _ \<Rightarrow>
        let nBlocks = wrap32 (vlmDataPageBase world +
              (unat (snd (le_data e)) + le_count e div VLMPageSizeQs + 1) * VLMBlocksPerDataPage)
        in world\<lparr>fd := ftruncate (fd world) (nBlocks * VLMBlockSize)\<rparr>)"

definition sysout_slot :: "nat \<Rightarrow> nat" where
  "sysout_slot n = 0xF8041100 + 43 + n"

definition bases_word :: "World \<Rightarrow> u32" where
  "bases_word world = of_nat (vlmDataPageBase world mod 2 ^ 28 + 2 ^ 28 * (vlmTagsPageBase world mod 2 ^ 4))"

definition header_qs :: "vmem \<Rightarrow> World \<Rightarrow> Q list" where
  "header_qs m world =
     [(Cdr_Normal_tag + Type_Fixnum, VLMVersion2AndArchitecture),
      (Cdr_Normal_tag + Type_SmallRatio, of_nat (length (wiredMapEntries world))),
      (Cdr_Normal_tag + Type_SingleFloat, bases_word world),
      (Cdr_Normal_tag + Type_Character, snd (read_q m (sysout_slot 0)))] @
     map (\<lambda>n. read_q m (sysout_slot n)) [1..<5]"

definition entry_qs :: "LoadMapEntry \<Rightarrow> Q list" where
  "entry_qs e = [(Type_Locative, of_nat (le_address e)), (Type_Fixnum, op_word e), le_data e]"

fun write_qs :: "World \<Rightarrow> Q list \<Rightarrow> World wres" where
  "write_qs w [] = Inr w"
| "write_qs w (q # qs) = wbind (WriteIvoryWorldFileNextQ w q) (\<lambda>w1. write_qs w1 qs)"

definition WriteVLMWorldFileHeader :: "vmem \<Rightarrow> World \<Rightarrow> World wres" where
  "WriteVLMWorldFileHeader m world =
     wbind (write_qs (PrepareToWriteIvoryWorldFilePage (preallocate world) 0)
              (header_qs m world @ concat (map entry_qs (wiredMapEntries world)))) (\<lambda>w.
     WriteIvoryWorldFilePage w)"

section \<open>Pages\<close>

definition data_bytes :: "vmem \<Rightarrow> nat \<Rightarrow> nat \<Rightarrow> byte" where
  "data_bytes m vma i = word_bytes (DataSpace m (vma + i div 4)) (i mod 4)"

definition write_entry_pages :: "vmem \<Rightarrow> World \<Rightarrow> LoadMapEntry \<Rightarrow> World" where
  "write_entry_pages m world e =
     (if le_opcode e \<noteq> LoadMapDataPages then world
      else let pageNumber = unat (snd (le_data e));
               f1 = write_at (fd world) (file_offset (vlmDataPageBase world) pageNumber VLMBlocksPerDataPage) (4 * le_count e)
                      (data_bytes m (le_address e));
               f2 = write_at f1 (file_offset (vlmTagsPageBase world) pageNumber VLMBlocksPerTagsPage) (le_count e)
                      (\<lambda>i. TagSpace m (le_address e + i))
           in world\<lparr>fd := f2\<rparr>)"

definition WriteVLMWorldFilePages :: "vmem \<Rightarrow> World \<Rightarrow> World" where
  "WriteVLMWorldFilePages m world = foldl (write_entry_pages m) world (wiredMapEntries world)"

section \<open>Requests\<close>

definition World_Array_LengthMask :: u32 where "World_Array_LengthMask = 32767"

text \<open>The characters of a string, four to a word, up to the first that is null; \<^verbatim>\<open>>\<close> stands for a slash.\<close>

definition guest_char :: "vmem \<Rightarrow> nat \<Rightarrow> nat \<Rightarrow> char" where
  "guest_char m vma i = (let c = char_of (unat (data_bytes m vma i)) in if c = CHR ''>'' then CHR ''/'' else c)"

definition guest_pathname :: "vmem \<Rightarrow> nat \<Rightarrow> nat \<Rightarrow> string" where
  "guest_pathname m vma n = takeWhile (\<lambda>c. c \<noteq> CHR 0x00) (map (guest_char m vma) [0..<n])"

definition save_pathname :: "vmem \<Rightarrow> nat \<Rightarrow> string wres" where
  "save_pathname m vma =
     (let p = unat (DataSpace m vma); h = read_q m p in
      if TagSpace m vma \<noteq> World_Type_String then Inl NotSimpleString
      else if fst h AND 0x3F \<noteq> World_Type_HeaderI then Inl NotSimpleString
      else if snd h AND NOT World_Array_LengthMask \<noteq> 0x50000000 then Inl NotSimpleString
      else Inr (guest_pathname m (wrap32 (p + 1)) (unat (snd h AND World_Array_LengthMask))))"

text \<open>The regions of the request: addresses and extents, of which an entry keeps 24 bits.\<close>

definition save_entry :: "vmem \<Rightarrow> nat \<Rightarrow> nat \<Rightarrow> LoadMapEntry" where
  "save_entry m vma i = \<lparr>le_address = unat (DataSpace m (vma + 2 + 2 * i)), le_count = unat (DataSpace m (vma + 3 + 2 * i)) mod 2 ^ 24,
     le_opcode = LoadMapDataPages, le_data = (0, 0), le_world = 0\<rparr>"

definition save_entries :: "vmem \<Rightarrow> nat \<Rightarrow> LoadMapEntry list" where
  "save_entries m vma = map (save_entry m vma) [0..<unat (DataSpace m (vma + 1))]"

definition empty_file :: wfile where
  "empty_file = \<lparr>f_bytes = (\<lambda>_. 0), f_length = 0\<rparr>"

text \<open>The new file is empty; its creation does not fail.\<close>

definition CreateWorldFile :: "string \<Rightarrow> World" where
  "CreateWorldFile path = fresh_world path empty_file"

text \<open>The world with its load map and its file, for regions that are given.\<close>

definition save_regions :: "vmem \<Rightarrow> string \<Rightarrow> LoadMapEntry list \<Rightarrow> World wres" where
  "save_regions m path es =
     wbind (CanonicalizeVLMLoadMapEntries m ((CreateWorldFile path)\<lparr>wiredMapEntries := es\<rparr>)) (\<lambda>w1.
     wbind (WriteVLMWorldFileHeader m w1) (\<lambda>w2.
     Inr (WriteVLMWorldFilePages m w2)))"

definition SaveWorld :: "filesystem \<Rightarrow> vmem \<Rightarrow> nat \<Rightarrow> filesystem wres" where
  "SaveWorld fs m saveWorldDataVMA =
     wbind (save_pathname m saveWorldDataVMA) (\<lambda>path.
     if sint (DataSpace m (saveWorldDataVMA + 1)) < 0 then Inl NoSpace
     else wbind (save_regions m path (save_entries m saveWorldDataVMA)) (\<lambda>w. Inr (fs(path \<mapsto> fd w))))"

section \<open>Byte order\<close>

definition cookie_bytes :: "wfile \<Rightarrow> nat \<Rightarrow> byte" where
  "cookie_bytes f i = (if i < 4 then word_bytes VLMWorldFileCookie i else f_bytes f i)"

text \<open>The bytes of the words in the blocks of data are reversed.\<close>

definition swapped_file :: "World \<Rightarrow> wfile" where
  "swapped_file world =
     (let f = fd world;
          dataStart = VLMBlockSize * vlmDataPageBase world;
          dataEnd = (if vlmDataPageBase world > vlmTagsPageBase world then f_length f else VLMBlockSize * vlmTagsPageBase world)
      in \<lparr>f_bytes = (\<lambda>i. let offset = VLMBlockSize * (i div VLMBlockSize) in
              if dataStart \<le> offset \<and> offset + VLMBlockSize \<le> dataEnd then cookie_bytes f (i - i mod 4 + (3 - i mod 4))
              else cookie_bytes f i),
          f_length = f_length f\<rparr>)"

text \<open>The file is read in whole blocks; the old one stays under a name with the suffix \<^verbatim>\<open>.bak\<close>.\<close>

definition ByteSwapOneWorld :: "filesystem \<Rightarrow> World \<Rightarrow> filesystem wres" where
  "ByteSwapOneWorld fs world =
     (if f_length (fd world) mod VLMBlockSize \<noteq> 0 then Inl CannotReadPage
      else case fs (pathname world) of None \<Rightarrow> Inl CannotRename
      | Some f \<Rightarrow> Inr (fs(pathname world @ ''.swap'' := None, pathname world @ ''.bak'' \<mapsto> f,
                         pathname world \<mapsto> swapped_file world)))"

fun swap_chain :: "filesystem \<Rightarrow> wtable \<Rightarrow> nat list \<Rightarrow> filesystem wres" where
  "swap_chain fs ws [] = Inr fs"
| "swap_chain fs ws (w # rest) =
     wbind (if wformat (ws w) = VLMWorldFormat \<and> byteSwapped (ws w) then ByteSwapOneWorld fs (ws w) else Inr fs) (\<lambda>fs1.
     swap_chain fs1 ws rest)"

definition ByteSwapWorld :: "filesystem \<Rightarrow> directories \<Rightarrow> string \<Rightarrow> string \<Rightarrow> filesystem wres" where
  "ByteSwapWorld fs dirs path searchPath =
     wbind (OpenWorldFile fs path 0 True) (\<lambda>r. case r of None \<Rightarrow> Inl Undefined
     | Some w \<Rightarrow> wbind (FindParentWorlds fs dirs (\<lambda>_. w) searchPath) (\<lambda>(ws, chain). swap_chain fs ws chain))"

end
