(* ===== verification/World_Memory_Facts.thy ===== *)
theory World_Memory_Facts
  imports World_Loading
begin

text \<open>
  Facts on the memory of the loader: blocks against single words, the chunked copy against the copy of one
  word after the other, what the creation of pages keeps, and the relation \<open>loaded\<close> that says what a step
  of loading does to memory, by which steps compose.
\<close>

section \<open>Words and blocks\<close>

lemma wrap32_id [simp]: "n < 2 ^ 32 \<Longrightarrow> wrap32 n = n"
  by (simp add: wrap32_def)

lemma unat_of_small: "x < 2 ^ 32 \<Longrightarrow> unat (of_nat x :: u32) = x"
  by (simp add: unat_of_nat)

lemma in_stack_cache_write_q [simp]: "in_cached_stack (write_q m a q) b = in_cached_stack m b"
  by (simp add: in_cached_stack_def write_q_def)

lemma read_q_write_q: "read_q (write_q m a q) b = (if a = b then q else read_q m b)"
  by (auto simp: read_q_def write_q_def in_cached_stack_def)

lemma read_each_eq: "vma + n < 2 ^ 32 \<Longrightarrow> read_q_each m vma n = map (\<lambda>i. read_q m (vma + i)) [0..<n]"
  by (induction n arbitrary: vma) (auto simp: upt_conv_Cons map_Suc_upt [symmetric] simp del: upt_Suc)

lemma length_read_each [simp]: "length (read_q_each m vma n) = n"
  by (induction n arbitrary: vma) auto

lemma read_each_split: "vma + n < 2 ^ 32 \<Longrightarrow> k \<le> n \<Longrightarrow>
    read_q_each m vma n = read_q_each m vma k @ read_q_each m (vma + k) (n - k)"
proof (induction k arbitrary: vma n)
  case (Suc k)
  then obtain n' where "n = Suc n'" by (cases n) auto
  with Suc.prems Suc.IH [of "vma + 1" n'] show ?case by simp
qed simp

lemma write_each_append:
  "vma + length xs + length ys < 2 ^ 32 \<Longrightarrow> write_q_each m vma (xs @ ys) = write_q_each (write_q_each m vma xs) (vma + length xs) ys"
  by (induction xs arbitrary: m vma) (auto simp: wrap32_id)

lemma read_uncached_each:
  assumes "vma + n < 2 ^ 32" "\<And>i. i < n \<Longrightarrow> \<not> in_cached_stack m (vma + i)"
  shows "read_uncached m vma n = read_q_each m vma n"
  using assms by (simp add: read_uncached_def uncached_count_def read_each_eq read_q_def)

lemma store_words_each:
  assumes "vma + length qs < 2 ^ 32" "\<And>i. i < length qs \<Longrightarrow> \<not> in_cached_stack m (vma + i)"
  shows "store_words m vma qs = write_q_each m vma qs"
  using assms
proof (induction qs arbitrary: m vma)
  case (Cons q qs)
  let ?m = "m\<lparr>TagSpace := (TagSpace m)(vma := fst q), DataSpace := (DataSpace m)(vma := snd q)\<rparr>"
  have "write_q m vma q = ?m" using Cons.prems(2) [of 0] by (simp add: write_q_def)
  moreover have "\<not> in_cached_stack ?m (vma + 1 + i)" if "i < length qs" for i
    using Cons.prems(2) [of "Suc i"] that by (simp add: in_cached_stack_def)
  ultimately show ?case using Cons.IH [of "vma + 1" ?m] Cons.prems(1) by simp
qed simp

lemma write_uncached_each:
  assumes "vma + length qs < 2 ^ 32" "\<And>i. i < length qs \<Longrightarrow> \<not> in_cached_stack m (vma + i)"
  shows "write_uncached m vma qs = write_q_each m vma qs"
  using assms by (simp add: write_uncached_def uncached_count_def store_words_each)

lemma in_stack_cache_write_each [simp]: "in_cached_stack (write_q_each m vma qs) a = in_cached_stack m a"
  by (induction qs arbitrary: m vma) auto

text \<open>The three parts of a block: below the stack cache, in it, and above.\<close>

lemma below_cache_le: "below_cache m vma n \<le> n"
  by (auto simp: below_cache_def)

lemma below_cache_out: "i < below_cache m vma n \<Longrightarrow> \<not> in_cached_stack m (vma + i)"
  by (auto simp: below_cache_def in_cached_stack_def split: if_splits)

lemma cached_run_le: "cached_run m vma n \<le> n"
  by (induction n arbitrary: vma) auto

lemma cached_run_stop: "vma + n < 2 ^ 32 \<Longrightarrow> cached_run m vma n < n \<Longrightarrow> \<not> in_cached_stack m (vma + cached_run m vma n)"
proof (induction n arbitrary: vma)
  case (Suc n)
  then show ?case using Suc.IH [of "vma + 1"] by (auto split: if_splits)
qed simp

lemma above_cache_out:
  assumes "vma + n < 2 ^ 32" "pc = below_cache m vma n" "k = cached_run m (vma + pc) (n - pc)" "i < n - pc - k"
  shows "\<not> in_cached_stack m (vma + pc + k + i)"
proof -
  have stop: "\<not> in_cached_stack m (vma + pc + k)"
    using cached_run_stop [of "vma + pc" "n - pc" m] assms below_cache_le [of m vma n] by auto
  have "stackcachebase m \<le> vma + pc"
    using assms by (auto simp: below_cache_def split: if_splits)
  with stop show ?thesis by (auto simp: in_cached_stack_def)
qed

lemma read_block_each:
  assumes "vma + n < 2 ^ 32"
  shows "read_block m vma n old = read_q_each m vma n"
proof -
  let ?pc = "below_cache m vma n"
  let ?k = "cached_run m (vma + ?pc) (n - ?pc)"
  have le: "?pc \<le> n" "?k \<le> n - ?pc" by (rule below_cache_le, rule cached_run_le)
  have lt: "vma + ?pc < 2 ^ 32" "vma + ?pc + ?k < 2 ^ 32" using le assms by auto
  have "read_uncached m vma ?pc = read_q_each m vma ?pc"
    using assms le by (intro read_uncached_each) (auto dest: below_cache_out)
  moreover have "read_uncached m (vma + ?pc + ?k) (n - ?pc - ?k) = read_q_each m (vma + ?pc + ?k) (n - ?pc - ?k)"
    using assms le above_cache_out [OF assms refl refl] by (intro read_uncached_each) auto
  moreover have "read_q_each m vma n = read_q_each m vma ?pc @ read_q_each m (vma + ?pc) ?k @ read_q_each m (vma + ?pc + ?k) (n - ?pc - ?k)"
    using read_each_split [of vma n ?pc m] read_each_split [of "vma + ?pc" "n - ?pc" ?k m] assms le by simp
  ultimately show ?thesis
    using lt by (simp add: read_block_def Let_def fill_from_def)
qed

lemma write_block_each:
  assumes "vma + length qs < 2 ^ 32"
  shows "write_block m vma qs = write_q_each m vma qs"
proof -
  let ?n = "length qs"
  let ?pc = "below_cache m vma ?n"
  let ?k = "cached_run m (vma + ?pc) (?n - ?pc)"
  have le: "?pc \<le> ?n" "?k \<le> ?n - ?pc" by (rule below_cache_le, rule cached_run_le)
  have lt: "vma + ?pc < 2 ^ 32" "vma + ?pc + ?k < 2 ^ 32" using le assms by auto
  let ?m1 = "write_q_each m vma (take ?pc qs)"
  let ?m2 = "write_q_each ?m1 (vma + ?pc) (take ?k (drop ?pc qs))"
  have "write_uncached m vma (take ?pc qs) = ?m1"
    using assms le by (intro write_uncached_each) (auto dest: below_cache_out)
  moreover have "write_uncached ?m2 (vma + ?pc + ?k) (drop (?pc + ?k) qs) = write_q_each ?m2 (vma + ?pc + ?k) (drop (?pc + ?k) qs)"
    using assms le above_cache_out [OF assms refl refl] by (intro write_uncached_each) auto
  moreover have "write_q_each m vma qs = write_q_each ?m2 (vma + ?pc + ?k) (drop (?pc + ?k) qs)"
  proof -
    have "qs = take ?pc qs @ take ?k (drop ?pc qs) @ drop (?pc + ?k) qs"
      by (simp add: take_add [symmetric] append_assoc [symmetric] del: append_assoc)
    then have "write_q_each m vma qs = write_q_each m vma (take ?pc qs @ take ?k (drop ?pc qs) @ drop (?pc + ?k) qs)" by simp
    also have "\<dots> = write_q_each ?m2 (vma + ?pc + ?k) (drop (?pc + ?k) qs)"
      using assms le by (simp add: write_each_append)
    finally show ?thesis .
  qed
  ultimately show ?thesis
    using lt by (simp add: write_block_def Let_def)
qed

section \<open>The chunked copy\<close>

text \<open>The copy of one word after the other: each is read after those before it were written.\<close>

fun copy_each :: "vmem \<Rightarrow> nat \<Rightarrow> nat \<Rightarrow> nat \<Rightarrow> vmem" where
  "copy_each m dst src 0 = m"
| "copy_each m dst src (Suc n) = copy_each (write_q m dst (read_q m src)) (dst + 1) (src + 1) n"

lemma copy_each_add: "copy_each m dst src (k + n) = copy_each (copy_each m dst src k) (dst + k) (src + k) n"
  by (induction k arbitrary: m dst src) auto

lemma read_each_write_q: "src + n < 2 ^ 32 \<Longrightarrow> \<not> (src \<le> dst \<and> dst < src + n) \<Longrightarrow> read_q_each (write_q m dst q) src n = read_q_each m src n"
  by (auto simp: read_each_eq read_q_write_q)

lemma chunk_copies_each:
  assumes "dst + n < 2 ^ 32" "src + n < 2 ^ 32" "dst \<le> src \<or> n \<le> dst - src"
  shows "write_q_each m dst (read_q_each m src n) = copy_each m dst src n"
  using assms
proof (induction n arbitrary: m dst src)
  case (Suc n)
  have "read_q_each (write_q m dst (read_q m src)) (src + 1) n = read_q_each m (src + 1) n"
    using Suc.prems by (intro read_each_write_q) auto
  then show ?case using Suc.IH [of "dst + 1" "src + 1" "write_q m dst (read_q m src)"] Suc.prems by auto
qed simp

lemma copy_chunk_fits: "copy_chunk dst src left = Some n \<Longrightarrow> dst \<le> src \<or> n \<le> dst - src"
  by (auto simp: copy_chunk_def Let_def split: if_splits)

lemma copy_chunk_distance: "copy_chunk dst src left = None \<longleftrightarrow> src < dst \<and> 2 ^ 31 \<le> dst - src"
  by (auto simp: copy_chunk_def Let_def)

lemma LoadMapCopyQs_each:
  assumes "dst + n < 2 ^ 32" "src + n < 2 ^ 32" "\<not> (src < dst \<and> 2 ^ 31 \<le> dst - src)"
  shows "LoadMapCopyQs m dst src n = Inr (copy_each m dst src n)"
  using assms
proof (induction n arbitrary: m dst src rule: less_induct)
  case (less n)
  show ?case
  proof (cases "n = 0")
    case False
    obtain k where k: "copy_chunk dst src n = Some k"
      using copy_chunk_distance [of dst src n] less.prems(3) by (cases "copy_chunk dst src n") auto
    then have kn: "0 < k" "k \<le> n" using copy_chunk_bounds False by blast+
    then have lt: "dst + k < 2 ^ 32" "src + k < 2 ^ 32" using less.prems by auto
    have "write_block m dst (read_block m src k (replicate k (0, 0))) = copy_each m dst src k"
      using lt copy_chunk_fits [OF k] by (simp add: read_block_each write_block_each chunk_copies_each)
    moreover have "LoadMapCopyQs (copy_each m dst src k) (dst + k) (src + k) (n - k)
        = Inr (copy_each (copy_each m dst src k) (dst + k) (src + k) (n - k))"
      using less.prems kn by (intro less.IH) auto
    ultimately show ?thesis
      using False k kn lt copy_each_add [of m dst src k "n - k"] by (subst LoadMapCopyQs.simps) simp
  qed (simp add: LoadMapCopyQs.simps)
qed

section \<open>Steps of loading\<close>

definition words_at :: "vmem \<Rightarrow> nat \<Rightarrow> Q" where
  "words_at m a = (TagSpace m a, DataSpace m a)"

definition page_touched :: "nat set \<Rightarrow> nat \<Rightarrow> bool" where
  "page_touched S a \<longleftrightarrow> (\<exists>b\<in>S. b div MemoryPage_Size = a div MemoryPage_Size)"

definition cache_frame :: "vmem \<Rightarrow> vmem \<Rightarrow> bool" where
  "cache_frame m m' \<longleftrightarrow> stackcachebase m' = stackcachebase m \<and> stackcachelimit m' = stackcachelimit m \<and>
     stackcachewords m' = stackcachewords m \<and> EnableIDS m' = EnableIDS m"

text \<open>
  From memory \<open>m\<close> to \<open>m'\<close> the words at \<open>S\<close> were loaded with what \<open>src\<close> gives, the pages they are on were created,
  and the words of pages that existed before were kept.
\<close>

definition loaded :: "vmem \<Rightarrow> vmem \<Rightarrow> nat set \<Rightarrow> (nat \<Rightarrow> Q) \<Rightarrow> bool" where
  "loaded m m' S src \<longleftrightarrow>
     (\<forall>a\<in>S. words_at m' a = src a) \<and>
     (\<forall>a. a \<notin> S \<longrightarrow> PageCreated m a \<longrightarrow> words_at m' a = words_at m a) \<and>
     (\<forall>a. PageCreated m' a \<longleftrightarrow> PageCreated m a \<or> page_touched S a) \<and> cache_frame m m'"

lemma cache_frame_refl [simp]: "cache_frame m m" and cache_frame_trans: "cache_frame m m1 \<Longrightarrow> cache_frame m1 m2 \<Longrightarrow> cache_frame m m2"
  by (simp_all add: cache_frame_def)

lemma page_touched_Un [simp]: "page_touched (S \<union> T) a \<longleftrightarrow> page_touched S a \<or> page_touched T a"
  and page_touched_empty [simp]: "\<not> page_touched {} a"
  and page_touched_mem: "a \<in> S \<Longrightarrow> page_touched S a"
  by (auto simp: page_touched_def)

lemma loaded_none: "loaded m m {} src"
  by (simp add: loaded_def)

lemma loaded_trans: "loaded m m1 S src \<Longrightarrow> loaded m1 m2 T src \<Longrightarrow> loaded m m2 (S \<union> T) src"
  unfolding loaded_def by (auto intro: cache_frame_trans simp: page_touched_mem)

lemma loaded_Created: "loaded m m' S src \<Longrightarrow> a \<in> S \<Longrightarrow> PageCreated m' a"
  by (simp add: loaded_def page_touched_mem)

lemma loaded_in_stack_cache: "loaded m m' S src \<Longrightarrow> in_cached_stack m' a = in_cached_stack m a"
  by (simp add: loaded_def cache_frame_def in_cached_stack_def)

lemma loaded_read_q: "loaded m m' S src \<Longrightarrow> a \<in> S \<Longrightarrow> \<not> in_cached_stack m a \<Longrightarrow> read_q m' a = src a"
  by (simp add: read_q_def loaded_in_stack_cache) (simp add: loaded_def words_at_def)

end
