(* ===== verification/World_Load_Facts.thy ===== *)
theory World_Load_Facts
  imports World_Memory_Facts
begin

text \<open>
  What loading does to memory: creating a page, loading a page or whole wads from a file, mapping a world,
  and storing constants, each as a step of the relation \<open>loaded\<close>.
\<close>

section \<open>Pages\<close>

lemma exists_bits [simp]:
  "DefaultAttributes m faultp worldp AND VMAttribute_Exists \<noteq> 0"
  "(attr OR VMAttribute_Modified) AND VMAttribute_Exists = attr AND VMAttribute_Exists"
proof -
  have "bit (DefaultAttributes m faultp worldp AND VMAttribute_Exists) 6"
    by (simp add: DefaultAttributes_def VMAttribute_Exists_def bit_simps)
  then show "DefaultAttributes m faultp worldp AND VMAttribute_Exists \<noteq> 0" by (metis bit_0_eq bot_apply bot_bool_def)
  show "(attr OR VMAttribute_Modified) AND VMAttribute_Exists = attr AND VMAttribute_Exists"
    by (simp add: VMAttribute_Modified_def VMAttribute_Exists_def word_ao_dist)
qed

lemma Created_cong: "VMAttributeTable m' = VMAttributeTable m \<Longrightarrow> PageCreated m' = PageCreated m"
  by (simp add: PageCreated_def fun_eq_iff)

lemma AdjustProtection_sel [simp]:
  "TagSpace (AdjustProtection m vma attr) = TagSpace m" "DataSpace (AdjustProtection m vma attr) = DataSpace m"
  "VMAttributeTable (AdjustProtection m vma attr) = (VMAttributeTable m)(vma div MemoryPage_Size := attr)"
  "EnableIDS (AdjustProtection m vma attr) = EnableIDS m" "stackcachebase (AdjustProtection m vma attr) = stackcachebase m"
  "stackcachelimit (AdjustProtection m vma attr) = stackcachelimit m"
  "stackcachewords (AdjustProtection m vma attr) = stackcachewords m"
  by (simp_all add: AdjustProtection_def Let_def)

lemma protect_wad_sel [simp]:
  "TagSpace (protect_wad m vma prot) = TagSpace m" "DataSpace (protect_wad m vma prot) = DataSpace m"
  "VMAttributeTable (protect_wad m vma prot) = VMAttributeTable m" "EnableIDS (protect_wad m vma prot) = EnableIDS m"
  "stackcachebase (protect_wad m vma prot) = stackcachebase m" "stackcachelimit (protect_wad m vma prot) = stackcachelimit m"
  "stackcachewords (protect_wad m vma prot) = stackcachewords m"
  by (simp_all add: protect_wad_def)

lemma Created_AdjustProtection:
  "PageCreated (AdjustProtection m vma attr) a \<longleftrightarrow>
     (if a div MemoryPage_Size = vma div MemoryPage_Size then attr AND VMAttribute_Exists \<noteq> 0 else PageCreated m a)"
  by (auto simp: PageCreated_def)

lemma AdjustProtection_frame [simp]:
  "words_at (AdjustProtection m vma attr) = words_at m" "cache_frame m' (AdjustProtection m vma attr) = cache_frame m' m"
  by (simp_all add: fun_eq_iff words_at_def cache_frame_def)

lemma fresh_wad_frame [simp]:
  "PageCreated (fresh_wad m vma) = PageCreated m" "cache_frame m' (fresh_wad m vma) = cache_frame m' m"
  by (simp_all add: PageCreated_def fun_eq_iff fresh_wad_def cache_frame_def)

lemma wad_of_page: "a div MemoryWad_Size = a div MemoryPage_Size div 8"
  by (simp add: vm_sizes div_mult2_eq [symmetric])

lemma wad_page: "a div MemoryPage_Size = 8 * (a div MemoryWad_Size) + a div MemoryPage_Size mod 8"
  by (metis wad_of_page div_mult_mod_eq mult.commute)

lemma WadCreated_iff: "WadCreated m vma \<longleftrightarrow> (\<exists>a. a div MemoryWad_Size = vma div MemoryWad_Size \<and> PageCreated m a)"
proof
  assume "WadCreated m vma"
  then obtain i where i: "i < 8" "VMAttributeTable m (8 * (vma div MemoryWad_Size) + i) AND VMAttribute_Exists \<noteq> 0"
    by (auto simp: WadCreated_def list_ex_iff)
  define a where "a = MemoryPage_Size * (8 * (vma div MemoryWad_Size) + i)"
  have "a div MemoryPage_Size = 8 * (vma div MemoryWad_Size) + i" by (simp add: a_def MemoryPage_Size_def)
  with wad_of_page [of a] have "a div MemoryWad_Size = vma div MemoryWad_Size" "PageCreated m a" using i by (auto simp: PageCreated_def)
  then show "\<exists>a. a div MemoryWad_Size = vma div MemoryWad_Size \<and> PageCreated m a" by blast
next
  assume "\<exists>a. a div MemoryWad_Size = vma div MemoryWad_Size \<and> PageCreated m a"
  then obtain a where a: "a div MemoryWad_Size = vma div MemoryWad_Size" "PageCreated m a" by blast
  then have "VMAttributeTable m (8 * (vma div MemoryWad_Size) + a div MemoryPage_Size mod 8) AND VMAttribute_Exists \<noteq> 0"
    using wad_page [of a] by (simp add: PageCreated_def)
  moreover have "a div MemoryPage_Size mod 8 < 8" by simp
  ultimately show "WadCreated m vma" unfolding WadCreated_def list_ex_iff
    by (intro bexI [of _ "a div MemoryPage_Size mod 8"]) auto
qed

lemma fresh_wad_keeps:
  "\<not> WadCreated m vma \<Longrightarrow> PageCreated m a \<Longrightarrow> words_at (fresh_wad m vma) a = words_at m a"
  by (auto simp: WadCreated_iff words_at_def fresh_wad_def)

text \<open>Creating a page keeps the words of all pages that exist.\<close>

lemma ensure_page_keeps:
  shows "PageCreated m a \<Longrightarrow> words_at (ensure_page m vma faultp) a = words_at m a"
    and "PageCreated (ensure_page m vma faultp) a \<longleftrightarrow> PageCreated m a \<or> a div MemoryPage_Size = vma div MemoryPage_Size"
    and "cache_frame m (ensure_page m vma faultp)"
proof -
  show "PageCreated m a \<Longrightarrow> words_at (ensure_page m vma faultp) a = words_at m a"
    using fresh_wad_keeps [of m vma a] by (auto simp: ensure_page_def Let_def SetPageCreated_def words_at_def)
  show "PageCreated (ensure_page m vma faultp) a \<longleftrightarrow> PageCreated m a \<or> a div MemoryPage_Size = vma div MemoryPage_Size"
    by (auto simp: ensure_page_def Let_def SetPageCreated_def Created_AdjustProtection PageCreated_def fresh_wad_def)
  show "cache_frame m (ensure_page m vma faultp)"
    by (auto simp: ensure_page_def Let_def SetPageCreated_def cache_frame_def fresh_wad_def)
qed

lemma load_words_frame [simp]:
  "PageCreated (load_words m f vma n d t) = PageCreated m" "cache_frame m' (load_words m f vma n d t) = cache_frame m' m"
  by (simp_all add: PageCreated_def fun_eq_iff load_words_def cache_frame_def)

lemma words_at_load_words:
  "words_at (load_words m f vma n d t) a =
     (if a \<in> {vma..<vma + n} then (f_bytes f (t + (a - vma)), file_word f (d + 4 * (a - vma))) else words_at m a)"
  by (auto simp: words_at_def load_words_def)

text \<open>What the words at \<open>d\<close> and the tags at \<open>t\<close> of a file give for addresses from \<open>vma\<close> on.\<close>

definition file_source :: "wfile \<Rightarrow> nat \<Rightarrow> nat \<Rightarrow> nat \<Rightarrow> nat \<Rightarrow> Q" where
  "file_source f vma d t a = (f_bytes f (t + (a - vma)), file_word f (d + 4 * (a - vma)))"

lemma file_source_shift: "vma + n \<le> a \<Longrightarrow> file_source f (vma + n) (d + 4 * n) (t + n) a = file_source f vma d t a"
  by (simp add: file_source_def algebra_simps)

lemma same_page:
  "vma mod MemoryPage_Size + n \<le> MemoryPage_Size \<Longrightarrow> vma \<le> b \<Longrightarrow> b < vma + n \<Longrightarrow> b div MemoryPage_Size = vma div MemoryPage_Size"
proof -
  assume a: "vma mod MemoryPage_Size + n \<le> MemoryPage_Size" "vma \<le> b" "b < vma + n"
  define p where "p = vma div MemoryPage_Size"
  have "vma = MemoryPage_Size * p + vma mod MemoryPage_Size" by (simp add: p_def)
  with a have "MemoryPage_Size * p \<le> b" "b < MemoryPage_Size * (p + 1)" by auto
  then have "b div MemoryPage_Size = p" by (simp add: div_nat_eqI mult.commute)
  then show ?thesis by (simp add: p_def)
qed

lemma page_touched_page:
  assumes "vma mod MemoryPage_Size + n \<le> MemoryPage_Size" "0 < n"
  shows "page_touched {vma..<vma + n} a \<longleftrightarrow> a div MemoryPage_Size = vma div MemoryPage_Size"
proof
  assume "page_touched {vma..<vma + n} a"
  then obtain b where "vma \<le> b" "b < vma + n" "b div MemoryPage_Size = a div MemoryPage_Size"
    unfolding page_touched_def by fastforce
  with same_page [OF assms(1)] show "a div MemoryPage_Size = vma div MemoryPage_Size" by metis
next
  assume "a div MemoryPage_Size = vma div MemoryPage_Size"
  then show "page_touched {vma..<vma + n} a"
    unfolding page_touched_def using assms(2) by (intro bexI [of _ vma]) simp_all
qed

lemma load_page_loaded:
  assumes "0 < n" "vma mod MemoryPage_Size + n \<le> MemoryPage_Size" "d + 4 * n \<le> f_length f" "t + n \<le> f_length f"
  obtains m1 where "load_page m f vma n d t = Some m1" "loaded m m1 {vma..<vma + n} (file_source f vma d t)"
proof -
  let ?m = "SetPageCreated (load_words (ensure_page m vma False) f vma n d t) vma False True"
  have "loaded m ?m {vma..<vma + n} (file_source f vma d t)"
    unfolding loaded_def SetPageCreated_def
    using ensure_page_keeps [where m = m and vma = vma and faultp = False] page_touched_page [OF assms(2,1)]
    by (auto simp: words_at_load_words file_source_def Created_AdjustProtection)
  then show thesis using assms that by (simp add: load_page_def)
qed

section \<open>Mapping a world\<close>

lemma multiple: "a mod b = 0 \<Longrightarrow> \<exists>k. a = b * k" for a b :: nat
  by (metis mod_0_imp_dvd dvdE)

lemma multiples_apart:
  assumes "i mod W = 0" "n mod W = 0" "i < n"
  shows "i + W \<le> (n :: nat)"
proof -
  obtain k j where kj: "i = W * k" "n = W * j" using assms multiple by metis
  with assms(3) have "k + 1 \<le> j" by simp
  then have "W * (k + 1) \<le> W * j" by (rule mult_le_mono2)
  then show ?thesis by (simp add: kj)
qed

lemma wads_to_map_all:
  assumes "\<And>i. words \<le> i \<Longrightarrow> i < limit \<Longrightarrow> i mod MemoryWad_Size = 0 \<Longrightarrow> \<not> WadCreated m (vma + i)"
    "words mod MemoryWad_Size = 0" "limit mod MemoryWad_Size = 0" "words \<le> limit"
  shows "wads_to_map m vma words limit = limit"
  using assms
proof (induction m vma words limit rule: wads_to_map.induct)
  case (1 m vma words limit)
  show ?case
  proof (cases "words < limit")
    case True
    have "words + MemoryWad_Size \<le> limit" using 1(3,4) True by (rule multiples_apart)
    with 1 True show ?thesis by (subst wads_to_map.simps) auto
  qed (use 1(5) in \<open>simp add: wads_to_map.simps\<close>)
qed

lemma Created_map_wads:
  assumes "vma mod MemoryPage_Size = 0" "n mod MemoryPage_Size = 0"
  shows "PageCreated (map_wads m f vma n d t) a \<longleftrightarrow> PageCreated m a \<or> page_touched {vma..<vma + n} a"
proof -
  let ?p = "a div MemoryPage_Size"
  obtain i j where ij: "vma = MemoryPage_Size * i" "n = MemoryPage_Size * j" using assms multiple by metis
  have "page_touched {vma..<vma + n} a \<longleftrightarrow> i \<le> ?p \<and> ?p < i + j"
  proof
    assume "page_touched {vma..<vma + n} a"
    then obtain b where b: "vma \<le> b" "b < vma + n" "b div MemoryPage_Size = ?p" by (auto simp: page_touched_def)
    have "MemoryPage_Size * i \<le> b" "b < MemoryPage_Size * (i + j)" using b(1,2) by (auto simp: ij algebra_simps)
    then have "i \<le> b div MemoryPage_Size" "b div MemoryPage_Size < i + j"
      by (simp_all add: less_eq_div_iff_mult_less_eq MemoryPage_Size_def mult.commute div_less_iff_less_mult)
    with b(3) show "i \<le> ?p \<and> ?p < i + j" by simp
  next
    assume "i \<le> ?p \<and> ?p < i + j"
    then have "MemoryPage_Size * ?p \<in> {vma..<vma + n}" by (auto simp: ij MemoryPage_Size_def)
    then show "page_touched {vma..<vma + n} a"
      unfolding page_touched_def by (intro bexI [of _ "MemoryPage_Size * ?p"]) (simp_all add: MemoryPage_Size_def)
  qed
  moreover have "vma div MemoryPage_Size = i" "(vma + n) div MemoryPage_Size = i + j"
    by (simp_all add: ij MemoryPage_Size_def)
  ultimately show ?thesis by (simp add: PageCreated_def map_wads_def Let_def) blast
qed

lemma map_wads_loaded:
  assumes "vma mod MemoryPage_Size = 0" "n mod MemoryPage_Size = 0"
  shows "loaded m (map_wads m f vma n d t) {vma..<vma + n} (file_source f vma d t)"
  using Created_map_wads [OF assms]
  by (auto simp: loaded_def file_source_def words_at_def map_wads_def Let_def load_words_def cache_frame_def)

lemma wad_aligned_page: "a mod MemoryWad_Size = 0 \<Longrightarrow> a mod MemoryPage_Size = 0"
  by (auto simp: vm_sizes)

text \<open>The wads that lie in a range of addresses and have no page yet.\<close>

definition wads_free :: "vmem \<Rightarrow> nat \<Rightarrow> nat \<Rightarrow> bool" where
  "wads_free m lo hi \<longleftrightarrow> (\<forall>w. w mod MemoryWad_Size = 0 \<longrightarrow> lo \<le> w \<longrightarrow> w + MemoryWad_Size \<le> hi \<longrightarrow> \<not> WadCreated m w)"

lemma wads_free_next:
  assumes "wads_free m vma hi" "loaded m m1 {vma..<vma + n} src"
    and "n \<noteq> 0"
  shows "wads_free m1 (vma + n) hi"
  unfolding wads_free_def
proof (intro allI impI notI)
  fix w
  assume w: "w mod MemoryWad_Size = 0" "vma + n \<le> w" "w + MemoryWad_Size \<le> hi" "WadCreated m1 w"
  then obtain a where a: "a div MemoryWad_Size = w div MemoryWad_Size" "PageCreated m1 a" by (auto simp: WadCreated_iff)
  have "\<not> WadCreated m w" using assms(1) w by (auto simp: wads_free_def)
  with a have "\<not> PageCreated m a" by (auto simp: WadCreated_iff)
  with a(2) assms(2) obtain b where b: "vma \<le> b" "b < vma + n" "b div MemoryPage_Size = a div MemoryPage_Size"
    by (auto simp: loaded_def page_touched_def)
  have "b div MemoryWad_Size = a div MemoryWad_Size" using b(3) by (simp add: wad_of_page)
  with a have "b div MemoryWad_Size = w div MemoryWad_Size" by simp
  moreover have "b < w" using b w by simp
  moreover obtain k where "w = MemoryWad_Size * k" using w(1) multiple by blast
  ultimately show False by (simp add: MemoryWad_Size_def)
qed

lemma MapWorldLoad_loaded:
  assumes "vma + len \<le> 2 ^ 32" "d + 4 * len \<le> f_length f" "t + len \<le> f_length f" "wads_free m vma (vma + len)"
  shows "\<exists>m1. MapWorldLoad m f vma len d t = Some m1 \<and> loaded m m1 {vma..<vma + len} (file_source f vma d t)"
  using assms
proof (induction len arbitrary: m vma d t rule: less_induct)
  case (less len)
  define step where "step = (\<lambda>n m1. 0 < n \<and> n \<le> len \<and> loaded m m1 {vma..<vma + n} (file_source f vma d t))"
  have rest: "\<exists>m2. MapWorldLoad m1 f (wrap32 (vma + n)) (len - n) (d + 4 * n) (t + n) = Some m2 \<and>
      loaded m m2 {vma..<vma + len} (file_source f vma d t)" if "step n m1" for n m1
  proof (cases "n = len")
    case True
    with that show ?thesis by (auto simp: step_def MapWorldLoad.simps)
  next
    case False
    with that have n: "0 < n" "n < len" "loaded m m1 {vma..<vma + n} (file_source f vma d t)" by (auto simp: step_def)
    have "wads_free m1 (vma + n) (vma + n + (len - n))" using wads_free_next [OF less.prems(4) n(3)] n by simp
    moreover have "d + 4 * n + 4 * (len - n) \<le> f_length f" "t + n + (len - n) \<le> f_length f" "vma + n + (len - n) \<le> 2 ^ 32"
      using less.prems n by simp_all
    ultimately obtain m2 where m2: "MapWorldLoad m1 f (vma + n) (len - n) (d + 4 * n) (t + n) = Some m2"
        "loaded m1 m2 {vma + n..<vma + n + (len - n)} (file_source f (vma + n) (d + 4 * n) (t + n))"
      using less.IH [of "len - n" "vma + n" "d + 4 * n" "t + n" m1] n by auto
    from m2(2) have "loaded m1 m2 {vma + n..<vma + len} (file_source f vma d t)"
      using n by (auto simp: loaded_def file_source_shift)
    then have "loaded m m2 ({vma..<vma + n} \<union> {vma + n..<vma + len}) (file_source f vma d t)"
      by (rule loaded_trans [OF n(3)])
    moreover have "{vma..<vma + n} \<union> {vma + n..<vma + len} = {vma..<vma + len}" using n by auto
    moreover have "vma + n < 2 ^ 32" using less.prems n by simp
    ultimately show ?thesis using m2(1) by simp
  qed
  show ?case
  proof (cases "len = 0")
    case True
    then show ?thesis by (simp add: MapWorldLoad.simps loaded_none)
  next
    case False
    show ?thesis
    proof (cases "vma mod MemoryWad_Size \<noteq> 0 \<or> PageCreated m vma \<or> len < MemoryWad_Size")
      case True
      let ?n = "min (MemoryPage_Size - vma mod MemoryPage_Size) len"
      have n: "0 < ?n" "?n \<le> len" "vma mod MemoryPage_Size + ?n \<le> MemoryPage_Size"
        using False by (auto simp: MemoryPage_Size_def)
      obtain m1 where m1: "load_page m f vma ?n d t = Some m1" "loaded m m1 {vma..<vma + ?n} (file_source f vma d t)"
        using less.prems n by (elim load_page_loaded [rotated 4]) auto
      then have "step ?n m1" using n by (simp add: step_def)
      from rest [OF this] show ?thesis
        using False True m1(1) by (subst MapWorldLoad.simps) (simp add: Let_def)
    next
      case small: False
      let ?n = "len - len mod MemoryWad_Size"
      have al: "vma mod MemoryWad_Size = 0" "MemoryWad_Size \<le> len" "?n mod MemoryWad_Size = 0" "0 < ?n"
        using small by (auto simp: MemoryWad_Size_def minus_mod_eq_mult_div)
      have "wads_to_map m vma 0 ?n = ?n"
      proof (rule wads_to_map_all)
        fix i assume i: "i < ?n" "i mod MemoryWad_Size = 0"
        have "(vma + i) mod MemoryWad_Size = 0" using al(1) i(2) by (simp add: mod_add_eq [symmetric])
        moreover have "i + MemoryWad_Size \<le> ?n" using i(2) al(3) i(1) by (rule multiples_apart)
        ultimately show "\<not> WadCreated m (vma + i)"
          using less.prems(4) unfolding wads_free_def by (elim allE [of _ "vma + i"]) simp
      qed (use al in simp_all)
      moreover have "step ?n (map_wads m f vma ?n d t)"
        using al map_wads_loaded [of vma ?n m f d t] by (simp add: step_def wad_aligned_page)
      note rest [OF this]
      ultimately show ?thesis
        using False small al by (subst MapWorldLoad.simps) (simp add: Let_def)
    qed
  qed
qed

section \<open>Constants\<close>

lemma ensure_one_word: "ensure_address_range m a 1 faultp = ensure_page m a faultp"
proof -
  have "a mod MemoryPage_Size < MemoryPage_Size" by (simp add: MemoryPage_Size_def)
  then have "range_pages a 1 = 1" by (simp add: range_pages_def MemoryPage_Size_def div_nat_eqI)
  then show ?thesis by (simp add: ensure_address_range_def)
qed

lemma write_one_constant:
  assumes "\<not> in_cached_stack m a" "a + 1 < 2 ^ 32"
  shows "write_block_constant m a q 1 0 = write_constant_uncached m a q 1 0"
proof (cases "a < stackcachebase m")
  case True
  then have "below_cache m a 1 = 1" by (simp add: below_cache_def)
  with True show ?thesis by (simp add: write_block_constant_def Let_def constant_qs_def)
next
  case False
  then have "below_cache m a 1 = 0" "cached_run m a 1 = 0" using assms by (simp_all add: below_cache_def)
  with False assms show ?thesis by (simp add: write_block_constant_def Let_def constant_qs_def)
qed

lemma constant_loaded:
  assumes "\<not> in_cached_stack m a" "a + 1 < 2 ^ 32"
  shows "loaded m (write_block_constant (ensure_address_range m a 1 False) a q 1 0) {a} (\<lambda>_. q)"
proof -
  let ?m = "ensure_page m a False"
  have "\<not> in_cached_stack ?m a"
    using assms ensure_page_keeps(3) [of m a False] by (simp add: in_cached_stack_def cache_frame_def)
  then have "write_block_constant (ensure_address_range m a 1 False) a q 1 0 = write_constant_uncached ?m a q 1 0"
    unfolding ensure_one_word using assms(2) by (rule write_one_constant)
  moreover have "words_at (write_constant_uncached ?m a q 1 0) = (words_at ?m)(a := q)"
    using assms(2) by (auto simp: fun_eq_iff words_at_def write_constant_uncached_def Let_def uncached_count_def)
  moreover have "PageCreated (write_constant_uncached ?m a q 1 0) = PageCreated ?m"
    "cache_frame m (write_constant_uncached ?m a q 1 0) = cache_frame m ?m"
    by (simp_all add: PageCreated_def fun_eq_iff write_constant_uncached_def Let_def cache_frame_def)
  ultimately show ?thesis
    using ensure_page_keeps [where m = m and vma = a and faultp = False]
    by (auto simp: loaded_def page_touched_def)
qed

end
