(* ===== verification/World_File_Facts.thy ===== *)
theory World_File_Facts
  imports World_Saving World_Load_Facts
begin

text \<open>
  Facts on world files: words and their bytes, Qs in a page, the reading and the writing of a file a Q at a
  time, and the reading of what was written.
\<close>

section \<open>Words and their bytes\<close>

lemma uint_word_bytes: "uint (word_bytes w i) = uint w div 2 ^ (8 * i) mod 256"
proof -
  have "uint (word_bytes w i) = take_bit 8 (drop_bit (8 * i) (uint w))"
    using take_bit_int_eq_self [of "uint w" 32] uint_lt2p [of w]
    by (simp add: word_bytes_def unsigned_ucast_eq unsigned_drop_bit_eq)
  then show ?thesis by (simp add: take_bit_eq_mod drop_bit_eq_div)
qed

lemma bytes_of_int:
  assumes "0 \<le> x" "x < 2 ^ 32"
  shows "x mod 256 + 256 * (x div 2 ^ 8 mod 256 + 256 * (x div 2 ^ 16 mod 256 + 256 * (x div 2 ^ 24 mod 256))) = (x :: int)"
proof -
  have d: "x div 2 ^ 16 = x div 2 ^ 8 div 256" "x div 2 ^ 24 = x div 2 ^ 16 div 256"
    by (simp_all add: zdiv_zmult2_eq [symmetric])
  have "x div 2 ^ 24 mod 256 = x div 2 ^ 24" using assms by (intro mod_pos_pos_trivial) (simp_all add: div_less_iff_less_mult)
  moreover have "x div 2 ^ 16 mod 256 + 256 * (x div 2 ^ 24) = x div 2 ^ 16" unfolding d(2) by simp
  moreover have "x div 2 ^ 8 mod 256 + 256 * (x div 2 ^ 16) = x div 2 ^ 8" unfolding d(1) by simp
  moreover have "x mod 256 + 256 * (x div 2 ^ 8) = x" by simp
  ultimately show ?thesis by presburger
qed

lemma word_of_bytes: "word_rcat [word_bytes w 3, word_bytes w 2, word_bytes w 1, word_bytes w 0] = w"
proof -
  have "uint w < 2 ^ 32" using uint_lt2p [of w] by simp
  note e = bytes_of_int [OF uint_ge_0 this]
  have "word_rcat [word_bytes w 3, word_bytes w 2, word_bytes w 1, word_bytes w 0] =
    (word_of_int (uint (word_bytes w 0) + 256 * (uint (word_bytes w 1) + 256 * (uint (word_bytes w 2) + 256 * uint (word_bytes w 3)))) :: u32)"
    by (simp add: word_rcat_def)
  also have "\<dots> = word_of_int (uint w)" by (subst e [symmetric]) (simp add: uint_word_bytes)
  finally show ?thesis by simp
qed

lemma word_at_put_word [simp]: "page_word (put_page_word b off w) off = w"
  using word_of_bytes [of w] by (simp add: page_word_def put_page_word_def)

lemma word_at_cong:
  assumes "\<And>i. i < 4 \<Longrightarrow> b (off + i) = b' (off' + i)"
  shows "page_word b off = page_word b' off'"
  using assms [of 0] assms [of 1] assms [of 2] assms [of 3] by (simp add: page_word_def)

lemma file_word_word_at: "file_word f off = page_word (f_bytes f) off"
  by (simp add: file_word_def page_word_def)

section \<open>Qs in a page\<close>

lemma q_offsets:
  "q_tag_offset k = 20 * (k div 4) + k mod 4" "q_data_offset k = 20 * (k div 4) + 4 * (k mod 4) + 4"
  by (simp_all add: q_tag_offset_def q_data_offset_def)

lemma q_offsets_apart:
  assumes "k \<noteq> n"
  shows "q_tag_offset k \<noteq> q_tag_offset n"
    "q_data_offset k + 4 \<le> q_data_offset n \<or> q_data_offset n + 4 \<le> q_data_offset k"
proof -
  have m: "k mod 4 < 4" "n mod 4 < 4" by simp_all
  have "k div 4 < n div 4 \<or> k div 4 = n div 4 \<and> k mod 4 \<noteq> n mod 4 \<or> n div 4 < k div 4"
    using assms by (metis div_mult_mod_eq linorder_neqE_nat)
  with m show "q_tag_offset k \<noteq> q_tag_offset n"
    "q_data_offset k + 4 \<le> q_data_offset n \<or> q_data_offset n + 4 \<le> q_data_offset k"
    unfolding q_offsets by linarith+
qed

lemma q_tag_not_data: "q_tag_offset k < q_data_offset n \<or> q_data_offset n + 4 \<le> q_tag_offset k"
proof -
  have m: "k mod 4 < 4" "n mod 4 < 4" by simp_all
  have "k div 4 \<le> n div 4 \<or> n div 4 + 1 \<le> k div 4" by linarith
  with m show ?thesis unfolding q_offsets by linarith
qed

lemma q_offsets_bound: "k < 256 \<Longrightarrow> q_tag_offset k < 1280 \<and> q_data_offset k + 4 \<le> 1280"
proof -
  assume "k < 256"
  then have "k div 4 < 64" "k mod 4 < 4" by (simp_all add: div_less_iff_less_mult)
  then show ?thesis unfolding q_offsets by linarith
qed

lemma page_q_put_q: "page_q (put_q page n q) k = (if k = n then q else page_q page k)"
proof (cases "k = n")
  case True
  then show ?thesis using q_tag_not_data [of n n]
    by (auto simp: page_q_def put_q_def put_page_word_def word_at_put_word [unfolded put_page_word_def])
next
  case False
  have "page_word (put_q page n q) (q_data_offset k) = page_word page (q_data_offset k)"
    using q_offsets_apart(2) [OF False] q_tag_not_data [of n k]
    by (intro word_at_cong) (auto simp: put_q_def put_page_word_def)
  moreover have "put_q page n q (q_tag_offset k) = page (q_tag_offset k)"
    using q_offsets_apart(1) [OF False] q_tag_not_data [of k n] by (auto simp: put_q_def put_page_word_def)
  ultimately show ?thesis using False by (simp add: page_q_def)
qed

lemma page_q_cong: "k < 256 \<Longrightarrow> (\<And>i. i < 1280 \<Longrightarrow> page i = page' i) \<Longrightarrow> page_q page k = page_q page' k"
  using q_offsets_bound [of k] word_at_cong [of page "q_data_offset k" page' "q_data_offset k"] by (simp add: page_q_def)

text \<open>The Q with number \<open>k\<close> of a file.\<close>

definition file_q :: "wfile \<Rightarrow> nat \<Rightarrow> Q" where
  "file_q f k = page_q (\<lambda>i. f_bytes f (1280 * (k div 256) + i)) (k mod 256)"

lemma file_q_cong:
  "(\<And>i. 1280 * (k div 256) \<le> i \<Longrightarrow> i < 1280 * (k div 256) + 1280 \<Longrightarrow> f_bytes f i = f_bytes f' i) \<Longrightarrow> file_q f k = file_q f' k"
  unfolding file_q_def by (rule page_q_cong) simp_all

section \<open>Readers\<close>

text \<open>What reading leaves unchanged of a world: all but its buffers and its place.\<close>

definition world_core :: "World \<Rightarrow> World" where
  "world_core w = w\<lparr>vlmDataPage := None, vlmTagsPage := (\<lambda>_. 0), ivoryDataPage := (\<lambda>_. 0), currentPageNumber := 0, currentQNumber := 0\<rparr>"

text \<open>
  An operation that reads the next Q: worlds have a place \<open>pos\<close> and contents that depend on no buffer; the
  operation gives the Q at the place and moves on by one, where the file has that Q.
\<close>

locale q_reader =
  fixes nxt :: "World \<Rightarrow> (World \<times> Q) wres" and ok :: "World \<Rightarrow> bool" and pos :: "World \<Rightarrow> nat"
    and content :: "World \<Rightarrow> nat \<Rightarrow> Q" and avail :: "World \<Rightarrow> nat \<Rightarrow> bool"
  assumes next_q: "ok w \<Longrightarrow> avail w (pos w) \<Longrightarrow>
      \<exists>w1. nxt w = Inr (w1, content w (pos w)) \<and> ok w1 \<and> pos w1 = pos w + 1 \<and> world_core w1 = world_core w"
    and content_stable: "world_core w1 = world_core w \<Longrightarrow> content w1 = content w"
    and avail_stable: "world_core w1 = world_core w \<Longrightarrow> avail w1 = avail w"
begin

lemma read_qs_content:
  assumes "ok w" "\<And>k. pos w \<le> k \<Longrightarrow> k < pos w + n \<Longrightarrow> avail w k"
  shows "\<exists>w1. read_qs nxt w n = Inr (w1, map (content w) [pos w..<pos w + n]) \<and> ok w1 \<and> pos w1 = pos w + n \<and> world_core w1 = world_core w"
  using assms
proof (induction n arbitrary: w)
  case (Suc n)
  obtain w1 where w1: "nxt w = Inr (w1, content w (pos w))" "ok w1" "pos w1 = pos w + 1" "world_core w1 = world_core w"
    using next_q [of w] Suc.prems by fastforce
  obtain w2 where w2: "read_qs nxt w1 n = Inr (w2, map (content w1) [pos w1..<pos w1 + n])" "ok w2" "pos w2 = pos w1 + n"
      "world_core w2 = world_core w1"
    using Suc.IH [of w1] Suc.prems w1 avail_stable [OF w1(4)] by fastforce
  have "[pos w..<pos w + Suc n] = pos w # [pos w1..<pos w1 + n]" using w1 by (simp add: upt_conv_Cons)
  with w1 w2 content_stable [OF w1(4)] show ?case by simp
qed simp

end

definition ivory_ok :: "World \<Rightarrow> bool" where
  "ivory_ok w \<longleftrightarrow> 0 \<le> currentPageNumber w \<and> 1280 * (nat (currentPageNumber w) + 1) \<le> f_length (fd w) \<and>
     (\<forall>i<1280. ivoryDataPage w i = f_bytes (fd w) (1280 * nat (currentPageNumber w) + i))"

definition ivory_pos :: "World \<Rightarrow> nat" where
  "ivory_pos w = 256 * nat (currentPageNumber w) + currentQNumber w"

definition ivory_avail :: "World \<Rightarrow> nat \<Rightarrow> bool" where
  "ivory_avail w k \<longleftrightarrow> 1280 * (k div 256 + 1) \<le> f_length (fd w)"

lemma core_fd: "world_core w1 = world_core w \<Longrightarrow> fd w1 = fd w"
  by (drule arg_cong [of _ _ fd]) (simp add: world_core_def)

lemma core_simps [simp]:
  "world_core (w\<lparr>currentQNumber := q\<rparr>) = world_core w" "world_core (w\<lparr>currentPageNumber := p\<rparr>) = world_core w"
  "world_core (w\<lparr>ivoryDataPage := b\<rparr>) = world_core w" "world_core (w\<lparr>vlmDataPage := d\<rparr>) = world_core w"
  "world_core (w\<lparr>vlmTagsPage := t\<rparr>) = world_core w"
  by (simp_all add: world_core_def)

lemma ReadIvoryWorldFilePage_ok:
  assumes "1280 * (p + 1) \<le> f_length (fd w)" "currentPageNumber w = int p \<longrightarrow> ivory_ok w"
  shows "\<exists>w1. ReadIvoryWorldFilePage w (int p) = Inr w1 \<and> ivory_ok w1 \<and> currentPageNumber w1 = int p \<and> world_core w1 = world_core w"
proof (cases "currentPageNumber w = int p")
  case True
  with assms show ?thesis by (simp add: ReadIvoryWorldFilePage_def)
next
  case False
  have "nat (int p * 1280) = 1280 * p" by simp
  with False assms show ?thesis
    by (simp add: ReadIvoryWorldFilePage_def read_at_def ivory_ok_def IvoryPageSizeBytes_def algebra_simps)
qed

lemma advance_pages_ok:
  assumes "ivory_ok w" "ivory_avail w (256 * nat (currentPageNumber w) + q)"
  shows "\<exists>w1. advance_pages w q = Inr w1 \<and> ivory_ok w1 \<and> world_core w1 = world_core w \<and> currentQNumber w1 < 256 \<and>
    ivory_pos w1 = 256 * nat (currentPageNumber w) + q"
  using assms
proof (induction q arbitrary: w rule: less_induct)
  case (less q)
  show ?case
  proof (cases "q \<ge> 256")
    case True
    let ?p = "nat (currentPageNumber w)"
    have p: "currentPageNumber w = int ?p" using less.prems by (simp add: ivory_ok_def)
    have k: "256 * ?p + q = 256 * (?p + 1) + (q - 256)" using True by simp
    then have "?p + 1 \<le> (256 * ?p + q) div 256" by simp
    with less.prems(2) have "1280 * (?p + 1 + 1) \<le> f_length (fd w)" by (simp add: ivory_avail_def)
    from ReadIvoryWorldFilePage_ok [OF this] p obtain w1 where w1: "ReadIvoryWorldFilePage w (currentPageNumber w + 1) = Inr w1"
        "ivory_ok w1" "currentPageNumber w1 = int (?p + 1)" "world_core w1 = world_core w"
      by (metis Suc_eq_plus1 n_not_Suc_n nat_int of_nat_Suc add.commute)
    moreover have "256 * nat (currentPageNumber w1) + (q - 256) = 256 * ?p + q"
      unfolding w1(3) nat_int using k by linarith
    moreover from this have "ivory_avail w1 (256 * nat (currentPageNumber w1) + (q - 256))"
      using less.prems(2) core_fd [OF w1(4)] by (simp only: ivory_avail_def)
    ultimately obtain w2 where "advance_pages w1 (q - 256) = Inr w2" "ivory_ok w2" "world_core w2 = world_core w1"
        "currentQNumber w2 < 256" "ivory_pos w2 = 256 * ?p + q"
      using less.IH [of "q - 256" w1] True w1(2) by auto
    with w1 True show ?thesis by (simp add: advance_pages.simps [of w q] IvoryPageSizeQs_def)
  next
    case False
    with less.prems show ?thesis
      by (subst advance_pages.simps) (simp add: IvoryPageSizeQs_def ivory_ok_def ivory_pos_def)
  qed
qed

lemma ivory_page_q: "ivory_ok w \<Longrightarrow> currentQNumber w < 256 \<Longrightarrow> page_q (ivoryDataPage w) (currentQNumber w) = file_q (fd w) (ivory_pos w)"
  unfolding file_q_def ivory_pos_def by (simp add: ivory_ok_def) (rule page_q_cong, simp_all)

interpretation ivory: q_reader ReadIvoryWorldFileNextQ ivory_ok ivory_pos "\<lambda>w. file_q (fd w)" ivory_avail
proof
  fix w assume w: "ivory_ok w" "ivory_avail w (ivory_pos w)"
  obtain w1 where w1: "advance_pages w (currentQNumber w) = Inr w1" "ivory_ok w1" "world_core w1 = world_core w"
      "currentQNumber w1 < 256" "ivory_pos w1 = ivory_pos w"
    using advance_pages_ok [OF w(1)] w(2) unfolding ivory_pos_def by blast
  then show "\<exists>w1. ReadIvoryWorldFileNextQ w = Inr (w1, file_q (fd w) (ivory_pos w)) \<and> ivory_ok w1 \<and>
      ivory_pos w1 = ivory_pos w + 1 \<and> world_core w1 = world_core w"
    using ivory_page_q [OF w1(2,4)] core_fd [OF w1(3)]
    by (simp add: ReadIvoryWorldFileNextQ_def ReadIvoryWorldFileQ_def IvoryPageSizeQs_def ivory_ok_def ivory_pos_def)
qed (auto dest: core_fd simp: ivory_avail_def fun_eq_iff)

end
