(* ===== verification/World_Write_Facts.thy ===== *)
theory World_Write_Facts
  imports World_File_Facts
begin

text \<open>
  What is written a Q at a time is in the file at the end, page by page, and the rest of the file is
  as it was; and opening a file whose first Qs are a header gives the world that the header describes.
\<close>

section \<open>The header frame\<close>

text \<open>Writing changes the file, the buffer and the place only.\<close>

definition same_maps :: "World \<Rightarrow> World \<Rightarrow> bool" where
  "same_maps w w1 \<longleftrightarrow> wiredMapEntries w1 = wiredMapEntries w \<and> vlmDataPageBase w1 = vlmDataPageBase w \<and>
     vlmTagsPageBase w1 = vlmTagsPageBase w"

lemma same_maps_refl [simp]: "same_maps w w"
  and same_maps_trans: "same_maps w w1 \<Longrightarrow> same_maps w1 w2 \<Longrightarrow> same_maps w w2"
  by (simp_all add: same_maps_def)

section \<open>Writing Qs\<close>

text \<open>
  After \<open>qs\<close> were written from the start of a file that was \<open>f0\<close>: the pages before the current one are in the file,
  the Qs of the current one in the buffer.
\<close>

definition qs_written :: "wfile \<Rightarrow> World \<Rightarrow> Q list \<Rightarrow> bool" where
  "qs_written f0 w qs \<longleftrightarrow> (\<exists>p. currentPageNumber w = int p \<and> length qs = 256 * p + currentQNumber w \<and> currentQNumber w \<le> 256 \<and>
     (\<forall>k<256 * p. file_q (fd w) k = qs ! k) \<and>
     (\<forall>k<currentQNumber w. page_q (ivoryDataPage w) k = qs ! (256 * p + k)) \<and>
     (\<forall>i\<ge>1280 * p. f_bytes (fd w) i = f_bytes f0 i) \<and> f_length (fd w) = max (f_length f0) (1280 * p))"

text \<open>The file when the last page was written too.\<close>

definition qs_flushed :: "wfile \<Rightarrow> wfile \<Rightarrow> Q list \<Rightarrow> nat \<Rightarrow> bool" where
  "qs_flushed f0 f qs pages \<longleftrightarrow> (\<forall>k<length qs. file_q f k = qs ! k) \<and> (\<forall>i\<ge>1280 * pages. f_bytes f i = f_bytes f0 i) \<and>
     f_length f = max (f_length f0) (1280 * pages)"

lemma written_start: "qs_written (fd w) (PrepareToWriteIvoryWorldFilePage w 0) []"
  by (simp add: qs_written_def PrepareToWriteIvoryWorldFilePage_def)

lemma file_q_write_page_below:
  assumes "k < 256 * p" "1280 * p \<le> f_length f"
  shows "file_q (write_at f (1280 * p) 1280 b) k = file_q f k"
proof (rule file_q_cong)
  fix i assume "i < 1280 * (k div 256) + 1280"
  moreover have "k div 256 < p" using assms by (simp add: div_less_iff_less_mult mult.commute)
  ultimately have "i < 1280 * p" by linarith
  with assms(2) show "f_bytes (write_at f (1280 * p) 1280 b) i = f_bytes f i" by (simp add: write_at_def)
qed

lemma file_q_write_page:
  assumes "k < 256"
  shows "file_q (write_at f (1280 * p) 1280 b) (256 * p + k) = page_q b k"
  using assms unfolding file_q_def by (simp add: write_at_def) (rule page_q_cong, simp_all)

lemma WritePage_flushed:
  assumes "qs_written f0 w qs" "qs \<noteq> []"
  obtains w1 where "WriteIvoryWorldFilePage w = Inr w1" "qs_flushed f0 (fd w1) qs ((length qs + 255) div 256)" "same_maps w w1"
    "currentQNumber w = 256 \<longrightarrow> qs_written f0 w1 qs"
proof -
  obtain p where p: "currentPageNumber w = int p" "length qs = 256 * p + currentQNumber w" "currentQNumber w \<le> 256"
      "\<And>k. k < 256 * p \<Longrightarrow> file_q (fd w) k = qs ! k" "\<And>k. k < currentQNumber w \<Longrightarrow> page_q (ivoryDataPage w) k = qs ! (256 * p + k)"
      "\<And>i. 1280 * p \<le> i \<Longrightarrow> f_bytes (fd w) i = f_bytes f0 i" "f_length (fd w) = max (f_length f0) (1280 * p)"
    using assms(1) unfolding qs_written_def by blast
  show thesis
  proof (cases "currentQNumber w = 0")
    case True
    with p have "(length qs + 255) div 256 = p" by simp
    with True p have "qs_flushed f0 (fd w) qs ((length qs + 255) div 256)" by (simp add: qs_flushed_def)
    with True show thesis by (intro that [of w]) (simp_all add: WriteIvoryWorldFilePage_def)
  next
    case False
    let ?f = "write_at (fd w) (1280 * p) 1280 (ivoryDataPage w)"
    let ?w = "PrepareToWriteIvoryWorldFilePage (w\<lparr>fd := ?f, currentPageNumber := int p + 1\<rparr>) (int p + 1)"
    have W: "WriteIvoryWorldFilePage w = Inr ?w"
      using False p(1) by (simp add: WriteIvoryWorldFilePage_def Let_def IvoryPageSizeBytes_def mult.commute)
    have pages: "(length qs + 255) div 256 = p + 1" using False p(2,3) by (simp add: div_nat_eqI)
    have len: "f_length ?f = max (f_length f0) (1280 * (p + 1))" using p(7) by (simp add: write_at_def)
    have q: "file_q ?f k = qs ! k" if "k < length qs" for k
    proof (cases "k < 256 * p")
      case True
      then show ?thesis using p(4) p(7) by (simp add: file_q_write_page_below)
    next
      case False
      then have k: "k = 256 * p + (k - 256 * p)" "k - 256 * p < currentQNumber w" using that p(2) by auto
      then have "file_q ?f (256 * p + (k - 256 * p)) = qs ! (256 * p + (k - 256 * p))"
        using p(3,5) by (subst file_q_write_page) auto
      with k(1) show ?thesis by simp
    qed
    have above: "f_bytes ?f i = f_bytes f0 i" if "1280 * (p + 1) \<le> i" for i
      using that p(6) by (auto simp: write_at_def)
    have "qs_flushed f0 (fd ?w) qs ((length qs + 255) div 256)"
      unfolding pages using q len above by (simp add: qs_flushed_def PrepareToWriteIvoryWorldFilePage_def)
    moreover have "currentQNumber w = 256 \<longrightarrow> qs_written f0 ?w qs"
      using q len above p(2) unfolding qs_written_def by (intro impI exI [of _ "p + 1"]) (simp add: PrepareToWriteIvoryWorldFilePage_def)
    moreover have "same_maps w ?w" by (simp add: same_maps_def PrepareToWriteIvoryWorldFilePage_def)
    ultimately show thesis using W that by blast
  qed
qed

lemma put_in_page:
  assumes "qs_written f0 w qs" "currentQNumber w < 256"
  shows "qs_written f0 (w\<lparr>ivoryDataPage := put_q (ivoryDataPage w) (currentQNumber w) q, currentQNumber := currentQNumber w + 1\<rparr>) (qs @ [q])"
proof -
  obtain p where p: "currentPageNumber w = int p" "length qs = 256 * p + currentQNumber w"
      "\<And>k. k < 256 * p \<Longrightarrow> file_q (fd w) k = qs ! k" "\<And>k. k < currentQNumber w \<Longrightarrow> page_q (ivoryDataPage w) k = qs ! (256 * p + k)"
      "\<And>i. 1280 * p \<le> i \<Longrightarrow> f_bytes (fd w) i = f_bytes f0 i" "f_length (fd w) = max (f_length f0) (1280 * p)"
    using assms(1) unfolding qs_written_def by blast
  then show ?thesis
    using assms(2) unfolding qs_written_def
    by (intro exI [of _ p]) (auto simp: page_q_put_q nth_append less_Suc_eq)
qed

lemma WriteNextQ_written:
  assumes "qs_written f0 w qs"
  obtains w1 where "WriteIvoryWorldFileNextQ w q = Inr w1" "qs_written f0 w1 (qs @ [q])" "same_maps w w1"
proof (cases "currentQNumber w < 256")
  case True
  then show thesis
    by (intro that [OF _ put_in_page [OF assms True, of q]]) (auto simp: WriteIvoryWorldFileNextQ_def IvoryPageSizeQs_def same_maps_def)
next
  case False
  then have "currentQNumber w = 256" "qs \<noteq> []" using assms by (auto simp: qs_written_def)
  then obtain w1 where w1: "WriteIvoryWorldFilePage w = Inr w1" "same_maps w w1" "qs_written f0 w1 qs"
    using WritePage_flushed [OF assms] by blast
  have "currentQNumber w1 < 256"
    using w1(1) \<open>currentQNumber w = 256\<close>
    by (auto simp: WriteIvoryWorldFilePage_def Let_def PrepareToWriteIvoryWorldFilePage_def split: if_splits)
  from w1 False show thesis
    by (intro that [OF _ put_in_page [OF w1(3) \<open>currentQNumber w1 < 256\<close>, of q]]) (auto simp: WriteIvoryWorldFileNextQ_def IvoryPageSizeQs_def same_maps_def)
qed

lemma write_qs_written:
  "qs_written f0 w qs \<Longrightarrow> \<exists>w1. write_qs w rest = Inr w1 \<and> qs_written f0 w1 (qs @ rest) \<and> same_maps w w1"
proof (induction rest arbitrary: w qs)
  case (Cons q rest)
  obtain w1 where w1: "WriteIvoryWorldFileNextQ w q = Inr w1" "qs_written f0 w1 (qs @ [q])" "same_maps w w1"
    using WriteNextQ_written [OF Cons.prems] by blast
  from Cons.IH [OF w1(2)] w1 show ?case by (auto intro: same_maps_trans)
qed simp

text \<open>A list of Qs, written from the start of a file.\<close>

lemma write_file_qs:
  assumes "qs \<noteq> []"
  obtains w1 where
    "wbind (write_qs (PrepareToWriteIvoryWorldFilePage w 0) qs) WriteIvoryWorldFilePage = Inr w1"
    "qs_flushed (fd w) (fd w1) qs ((length qs + 255) div 256)" "same_maps w w1"
proof -
  obtain w2 where w2: "write_qs (PrepareToWriteIvoryWorldFilePage w 0) qs = Inr w2" "qs_written (fd w) w2 qs"
      "same_maps (PrepareToWriteIvoryWorldFilePage w 0) w2"
    using write_qs_written [OF written_start, of w qs] by auto
  moreover have "same_maps w (PrepareToWriteIvoryWorldFilePage w 0)"
    by (simp add: same_maps_def PrepareToWriteIvoryWorldFilePage_def)
  ultimately show thesis
    using WritePage_flushed [OF w2(2) assms] that by (metis same_maps_trans wbind_simps(2))
qed

section \<open>Load maps\<close>

text \<open>An entry that fits the fields of the format, and belongs to the world with number \<open>self\<close>.\<close>

definition entry_fits :: "nat \<Rightarrow> LoadMapEntry \<Rightarrow> bool" where
  "entry_fits self e \<longleftrightarrow> le_address e < 2 ^ 32 \<and> le_count e < 2 ^ 24 \<and> le_opcode e < 2 ^ 8 \<and> le_world e = self"

fun parse_entries :: "nat \<Rightarrow> Q list \<Rightarrow> LoadMapEntry list" where
  "parse_entries self (a # op # d # qs) =
     \<lparr>le_address = unat (snd a), le_count = unat (snd op) mod 2 ^ 24, le_opcode = unat (snd op) div 2 ^ 24,
      le_data = d, le_world = self\<rparr> # parse_entries self qs"
| "parse_entries self qs = []"

lemma unat_op_word: "entry_fits self e \<Longrightarrow> unat (op_word e) = le_count e + 2 ^ 24 * le_opcode e"
proof -
  assume "entry_fits self e"
  then have c: "le_count e < 2 ^ 24" "le_opcode e < 2 ^ 8" by (simp_all add: entry_fits_def)
  then have "le_count e + 2 ^ 24 * le_opcode e < 2 ^ 32" by simp
  then have "unat (of_nat (le_count e + 2 ^ 24 * le_opcode e) :: u32) = le_count e + 2 ^ 24 * le_opcode e"
    by (rule unat_of_small)
  moreover have "op_word e = of_nat (le_count e + 2 ^ 24 * le_opcode e)" using c by (simp add: op_word_def)
  ultimately show ?thesis by simp
qed

lemma parse_entry_qs:
  "\<forall>e\<in>set es. entry_fits self e \<Longrightarrow> parse_entries self (concat (map entry_qs es)) = es"
proof (induction es)
  case (Cons e es)
  then have e: "entry_fits self e" by simp
  then have "unat (of_nat (le_address e) :: u32) = le_address e"
    by (simp add: unat_of_nat entry_fits_def)
  moreover have "unat (op_word e) mod 2 ^ 24 = le_count e" "unat (op_word e) div 2 ^ 24 = le_opcode e"
    using e unfolding unat_op_word [OF e] by (simp_all add: entry_fits_def)
  ultimately show ?case using Cons e by (simp add: entry_qs_def entry_fits_def)
qed simp

lemma ReadLoadMap_qs:
  "ReadLoadMap w self n = wbind (read_qs ReadIvoryWorldFileNextQ w (3 * n)) (\<lambda>(w1, qs). Inr (w1, parse_entries self qs))"
proof (induction n arbitrary: w)
  case (Suc n)
  have three: "3 * Suc n = Suc (Suc (Suc (3 * n)))" by simp
  show ?case unfolding three read_qs.simps ReadLoadMap.simps Suc.IH by (simp add: wbind_def split: sum.splits prod.splits)
qed simp

lemma length_entry_qs [simp]: "length (concat (map entry_qs es)) = 3 * length es"
  by (induction es) (simp_all add: entry_qs_def)

lemma sint_of_small: "n < 2 ^ 31 \<Longrightarrow> sint (of_nat n :: u32) = int n"
  using signed_take_bit_int_eq_self [of 31 "int n"] by (simp add: signed_of_nat)

section \<open>Opening\<close>

text \<open>The first Qs of a file, which has all the pages they are on.\<close>

definition starts_with :: "wfile \<Rightarrow> Q list \<Rightarrow> bool" where
  "starts_with f qs \<longleftrightarrow> (\<forall>k<length qs. file_q f k = qs ! k \<and> 1280 * (k div 256 + 1) \<le> f_length f)"

lemma starts_with_read:
  assumes "starts_with f qs" "ivory_ok w" "fd w = f" "ivory_pos w + n \<le> length qs"
  obtains w1 where "read_qs ReadIvoryWorldFileNextQ w n = Inr (w1, take n (drop (ivory_pos w) qs))" "ivory_ok w1"
    "ivory_pos w1 = ivory_pos w + n" "world_core w1 = world_core w"
proof -
  have "ivory_avail w k" if "ivory_pos w \<le> k" "k < ivory_pos w + n" for k
    using that assms by (auto simp: starts_with_def ivory_avail_def)
  from ivory.read_qs_content [OF assms(2) this] obtain w1 where
    w1: "read_qs ReadIvoryWorldFileNextQ w n = Inr (w1, map (file_q (fd w)) [ivory_pos w..<ivory_pos w + n])"
      "ivory_ok w1" "ivory_pos w1 = ivory_pos w + n" "world_core w1 = world_core w" by blast
  moreover have "map (file_q (fd w)) [ivory_pos w..<ivory_pos w + n] = take n (drop (ivory_pos w) qs)"
    using assms by (intro nth_equalityI) (auto simp: starts_with_def)
  ultimately show thesis using that by simp
qed

lemma starts_with_cookie:
  assumes "starts_with f qs" "4 \<le> length qs"
  shows "file_word f 0 = word_rcat [fst (qs ! 3), fst (qs ! 2), fst (qs ! 1), fst (qs ! 0)]"
proof -
  have "f_bytes f k = fst (qs ! k)" if "k < 4" for k
  proof -
    have "file_q f k = qs ! k" using assms that by (simp add: starts_with_def)
    then have "fst (qs ! k) = fst (file_q f k)" by simp
    then show ?thesis using that by (simp add: file_q_def page_q_def q_tag_offset_def)
  qed
  from this [of 3] this [of 2] this [of 1] this [of 0] show ?thesis by (simp add: file_word_def numeral_2_eq_2)
qed

lemma vlm_cookie:
  "word_rcat [Cdr_Normal_tag + Type_Character, Cdr_Normal_tag + Type_SingleFloat, Cdr_Normal_tag + Type_SmallRatio,
     Cdr_Normal_tag + Type_Fixnum] = VLMWorldFileCookie"
  by (simp add: Cdr_Normal_tag_def Type_Character_def Type_SingleFloat_def Type_SmallRatio_def Type_Fixnum_def
      VLMWorldFileCookie_def word_rcat_def)

lemma read_sysout_qs:
  "first \<noteq> 0 \<Longrightarrow> read_sysout w first = wbind (read_qs ReadIvoryWorldFileNextQ (w\<lparr>currentQNumber := first\<rparr>) 5) (\<lambda>(w5, qs).
     Inr (w5\<lparr>sysoutGeneration := snd (qs ! 0), sysoutTimestamp1 := snd (qs ! 1), sysoutTimestamp2 := snd (qs ! 2),
             sysoutParentTimestamp1 := snd (qs ! 3), sysoutParentTimestamp2 := snd (qs ! 4)\<rparr>))"
  by (simp add: read_sysout_def numeral_eq_Suc wbind_def split: sum.splits prod.splits)

lemma ivory_page_read:
  "ivory_ok w \<Longrightarrow> currentPageNumber w = 0 \<Longrightarrow> k < 256 \<Longrightarrow> ReadIvoryWorldFileQ w k = Inr (file_q (fd w) k)"
  using ivory_page_q [of "w\<lparr>currentQNumber := k\<rparr>"]
  by (simp add: ReadIvoryWorldFileQ_def IvoryPageSizeQs_def ivory_ok_def ivory_pos_def)

text \<open>What the header describes: the world \<open>w\<close> that is read from the file \<open>f\<close> of the world \<open>w1\<close> that was saved.\<close>

definition opened_as :: "vmem \<Rightarrow> World \<Rightarrow> wfile \<Rightarrow> string \<Rightarrow> World \<Rightarrow> bool" where
  "opened_as m w1 f path w \<longleftrightarrow> fd w = f \<and> pathname w = path \<and> wformat w = VLMWorldFormat \<and> \<not> byteSwapped w \<and>
     parentWorld w = None \<and> vlmDataPageBase w = vlmDataPageBase w1 \<and> vlmTagsPageBase w = vlmTagsPageBase w1 \<and>
     wiredMapEntries w = wiredMapEntries w1 \<and> unwiredMapEntries w = [] \<and>
     sysoutGeneration w = snd (read_q m (sysout_slot 0)) \<and>
     sysoutTimestamp1 w = snd (read_q m (sysout_slot 1)) \<and> sysoutTimestamp2 w = snd (read_q m (sysout_slot 2)) \<and>
     sysoutParentTimestamp1 w = snd (read_q m (sysout_slot 3)) \<and> sysoutParentTimestamp2 w = snd (read_q m (sysout_slot 4))"

lemma core_fields:
  assumes "world_core w1 = world_core w"
  shows "pathname w1 = pathname w" "wformat w1 = wformat w" "byteSwapped w1 = byteSwapped w" "parentWorld w1 = parentWorld w"
    "vlmDataPageBase w1 = vlmDataPageBase w" "vlmTagsPageBase w1 = vlmTagsPageBase w" "fd w1 = fd w"
    "sysoutGeneration w1 = sysoutGeneration w" "sysoutTimestamp1 w1 = sysoutTimestamp1 w" "sysoutTimestamp2 w1 = sysoutTimestamp2 w"
    "sysoutParentTimestamp1 w1 = sysoutParentTimestamp1 w" "sysoutParentTimestamp2 w1 = sysoutParentTimestamp2 w"
  using arg_cong [OF assms, of pathname]
    arg_cong [OF assms, of wformat]
    arg_cong [OF assms, of byteSwapped]
    arg_cong [OF assms, of parentWorld]
    arg_cong [OF assms, of vlmDataPageBase]
    arg_cong [OF assms, of vlmTagsPageBase]
    arg_cong [OF assms, of fd]
    arg_cong [OF assms, of sysoutGeneration]
    arg_cong [OF assms, of sysoutTimestamp1]
    arg_cong [OF assms, of sysoutTimestamp2]
    arg_cong [OF assms, of sysoutParentTimestamp1]
    arg_cong [OF assms, of sysoutParentTimestamp2]
  by (simp_all add: world_core_def)

lemma bases_word_read:
  assumes "vlmDataPageBase w1 < 2 ^ 28" "vlmTagsPageBase w1 < 2 ^ 4"
  shows "page_bases w (bases_word w1) = w\<lparr>vlmDataPageBase := vlmDataPageBase w1, vlmTagsPageBase := vlmTagsPageBase w1\<rparr>"
proof -
  have "vlmDataPageBase w1 + 2 ^ 28 * vlmTagsPageBase w1 < 2 ^ 32" using assms by simp
  moreover have "bases_word w1 = of_nat (vlmDataPageBase w1 + 2 ^ 28 * vlmTagsPageBase w1)"
    using assms by (simp only: bases_word_def mod_less)
  ultimately have "unat (bases_word w1) = vlmDataPageBase w1 + 2 ^ 28 * vlmTagsPageBase w1"
    by (simp only: unat_of_small)
  then show ?thesis using assms by (simp add: page_bases_def)
qed

lemma read_maps_header:
  assumes f: "starts_with (fd w) (header_qs m w1 @ concat (map entry_qs (wiredMapEntries w1)))"
    and w: "ivory_ok w" "currentPageNumber w = 0" "wformat w = VLMWorldFormat" "\<not> byteSwapped w" "parentWorld w = None"
    and fits: "\<forall>e\<in>set (wiredMapEntries w1). entry_fits self e"
    and bases: "vlmDataPageBase w1 < 2 ^ 28" "vlmTagsPageBase w1 < 2 ^ 4"
    and lay: "pagesBaseQ lay = 2" "firstSysoutQ lay = 3" "firstMapQ lay = 8"
  shows "\<exists>w2. read_maps w self lay (length (wiredMapEntries w1)) 0 = Inr w2 \<and> opened_as m w1 (fd w) (pathname w) w2"
proof -
  let ?n = "length (wiredMapEntries w1)"
  let ?qs = "header_qs m w1 @ concat (map entry_qs (wiredMapEntries w1))"
  have hl: "length (header_qs m w1) = 8" by (simp add: header_qs_def)
  have q2: "ReadIvoryWorldFileQ w 2 = Inr (Cdr_Normal_tag + Type_SingleFloat, bases_word w1)"
    using f ivory_page_read [OF w(1,2), of 2] by (simp add: starts_with_def hl header_qs_def)
  let ?w1 = "(page_bases w (bases_word w1))\<lparr>currentQNumber := 3\<rparr>"
  have b: "?w1 = w\<lparr>vlmDataPageBase := vlmDataPageBase w1, vlmTagsPageBase := vlmTagsPageBase w1, currentQNumber := 3\<rparr>"
    using bases_word_read [OF bases] by simp
  have "ivory_ok ?w1" "fd ?w1 = fd w" "ivory_pos ?w1 = 3"
    unfolding b using w by (simp_all add: ivory_ok_def ivory_pos_def)
  then obtain w3 where w3: "read_qs ReadIvoryWorldFileNextQ ?w1 5 = Inr (w3, take 5 (drop 3 ?qs))" "ivory_ok w3"
      "ivory_pos w3 = 8" "world_core w3 = world_core ?w1"
    using starts_with_read [OF f, of ?w1 5] hl by auto
  have q5: "take 5 (drop 3 ?qs) = (Cdr_Normal_tag + Type_Character, snd (read_q m (sysout_slot 0))) # map (\<lambda>n. read_q m (sysout_slot n)) [1..<5]"
    by (simp add: header_qs_def)
  define w4 where "w4 = w3\<lparr>sysoutGeneration := snd (read_q m (sysout_slot 0)), sysoutTimestamp1 := snd (read_q m (sysout_slot 1)),
     sysoutTimestamp2 := snd (read_q m (sysout_slot 2)), sysoutParentTimestamp1 := snd (read_q m (sysout_slot 3)),
     sysoutParentTimestamp2 := snd (read_q m (sysout_slot 4))\<rparr>"
  have s: "read_sysout (page_bases w (bases_word w1)) 3 = Inr w4"
    using w3(1) unfolding q5 by (simp add: read_sysout_qs w4_def numeral_eq_Suc)
  have pos: "ivory_ok (w4\<lparr>currentQNumber := 8\<rparr>)" "fd w4 = fd w" "ivory_pos (w4\<lparr>currentQNumber := 8\<rparr>) = 8"
    using w3 core_fields(7) [OF w3(4)] unfolding b by (simp_all add: w4_def ivory_ok_def ivory_pos_def)
  obtain w5 where w5: "read_qs ReadIvoryWorldFileNextQ (w4\<lparr>currentQNumber := 8\<rparr>) (3 * ?n) = Inr (w5, take (3 * ?n) (drop 8 ?qs))"
      "world_core w5 = world_core (w4\<lparr>currentQNumber := 8\<rparr>)"
    using starts_with_read [OF f, of "w4\<lparr>currentQNumber := 8\<rparr>" "3 * ?n"] pos hl by auto
  have "take (3 * ?n) (drop 8 ?qs) = concat (map entry_qs (wiredMapEntries w1))" by (simp add: hl)
  with w5(1) have r: "ReadLoadMap (w4\<lparr>currentQNumber := 8\<rparr>) self ?n = Inr (w5, wiredMapEntries w1)"
    by (simp add: ReadLoadMap_qs parse_entry_qs [OF fits])
  have "read_maps w self lay ?n 0 = Inr (w5\<lparr>wiredMapEntries := wiredMapEntries w1, unwiredMapEntries := []\<rparr>)"
    using q2 s r w(3) lay by (simp add: read_maps_def)
  moreover have "opened_as m w1 (fd w) (pathname w) (w5\<lparr>wiredMapEntries := wiredMapEntries w1, unwiredMapEntries := []\<rparr>)"
    using core_fields [OF w5(2)] core_fields [OF w3(4)] w unfolding b by (simp add: opened_as_def w4_def)
  ultimately show ?thesis by blast
qed

text \<open>Opening a file whose header was written for the world \<open>w1\<close>.\<close>

lemma OpenWorldFile_header:
  assumes f: "fs path = Some f" "starts_with f (header_qs m w1 @ concat (map entry_qs (wiredMapEntries w1)))"
    and fits: "\<forall>e\<in>set (wiredMapEntries w1). entry_fits self e"
    and bases: "vlmDataPageBase w1 < 2 ^ 28" "vlmTagsPageBase w1 < 2 ^ 4"
    and count: "length (wiredMapEntries w1) < 2 ^ 31"
  shows "\<exists>w. OpenWorldFile fs path self puntOnErrors = Inr (Some w) \<and> opened_as m w1 f path w"
proof -
  let ?qs = "header_qs m w1 @ concat (map entry_qs (wiredMapEntries w1))"
  let ?n = "length (wiredMapEntries w1)"
  have hl: "length (header_qs m w1) = 8" by (simp add: header_qs_def)
  have len: "1280 \<le> f_length f" using f(2) by (force simp: starts_with_def hl)
  have cookie: "file_word f 0 = VLMWorldFileCookie"
    using starts_with_cookie [OF f(2)] vlm_cookie by (simp add: hl header_qs_def numeral_eq_Suc)
  let ?w = "(fresh_world path f)\<lparr>wformat := VLMWorldFormat, byteSwapped := False\<rparr>"
  obtain w where w: "ReadIvoryWorldFilePage ?w 0 = Inr w" "ivory_ok w" "currentPageNumber w = 0" "world_core w = world_core ?w"
    using ReadIvoryWorldFilePage_ok [of 0 ?w] len by (auto simp: fresh_world_def)
  have wf: "fd w = f" "pathname w = path" "wformat w = VLMWorldFormat" "\<not> byteSwapped w" "parentWorld w = None"
    using core_fields [OF w(4)] by (simp_all add: fresh_world_def)
  have q: "ReadIvoryWorldFileQ w k = Inr (header_qs m w1 ! k)" if "k < 8" for k
    using ivory_page_read [OF w(2,3), of k] f(2) wf that by (simp add: starts_with_def hl nth_append)
  have q0: "ReadIvoryWorldFileQ w 0 = Inr (Cdr_Normal_tag + Type_Fixnum, VLMVersion2AndArchitecture)"
    and q1: "ReadIvoryWorldFileQ w 1 = Inr (Cdr_Normal_tag + Type_SmallRatio, of_nat ?n)"
    using q [of 0] q [of 1] by (simp_all add: header_qs_def)
  have n: "entry_count (Cdr_Normal_tag + Type_SmallRatio, of_nat ?n) = Some ?n"
  proof -
    have "sint (of_nat ?n :: u32) = int ?n" using count by (rule sint_of_small)
    then show ?thesis using count by (simp add: entry_count_def unat_of_small)
  qed
  define lay where "lay = \<lparr>wiredCountQ = 1, unwiredCountQ = 0, pagesBaseQ = 2, firstSysoutQ = 3, firstMapQ = 8\<rparr>"
  have l: "vlm_layout VLMVersion2AndArchitecture = Some lay"
    by (simp add: vlm_layout_def VLMVersion1AndArchitecture_def VLMVersion2AndArchitecture_def lay_def)
  obtain w2 where w2: "read_maps w self lay ?n 0 = Inr w2" "opened_as m w1 f path w2"
    using read_maps_header [of w m w1 self lay] f(2) w wf fits bases by (auto simp: lay_def)
  have "OpenWorldFile fs path self puntOnErrors = Inr (Some w2)"
    using f(1) len cookie w(1) q0 q1 l n w2(1)
    by (simp add: OpenWorldFile_def cookie_format_def VersionAndArchitectureQ_def read_header_def entry_count_def lay_def)
  with w2(2) show ?thesis by blast
qed

end
