(* ===== verification/World_Save_Facts.thy ===== *)
theory World_Save_Facts
  imports World_Write_Facts
begin

text \<open>
  What a saved file holds, and the loading of it: where the pages of the regions are, that no write disturbs
  another or the header, and that the entries of the load map bring back the words of the regions.
\<close>

section \<open>Parts of a file\<close>

definition file_has :: "wfile \<Rightarrow> nat \<Rightarrow> nat \<Rightarrow> (nat \<Rightarrow> byte) \<Rightarrow> bool" where
  "file_has f off n b \<longleftrightarrow> (\<forall>i<n. off + i < f_length f \<and> f_bytes f (off + i) = b i)"

lemma write_at_has: "file_has (write_at f off n b) off n b"
  by (simp add: file_has_def write_at_def less_max_iff_disj)

lemma file_has_length: "file_has f off n b \<Longrightarrow> 0 < n \<Longrightarrow> off + n \<le> f_length f"
  by (auto simp: file_has_def dest: spec [of _ "n - 1"])

lemma write_at_keeps:
  "i < f_length f \<Longrightarrow> i < off \<or> off + n \<le> i \<Longrightarrow> i < f_length (write_at f off n b) \<and> f_bytes (write_at f off n b) i = f_bytes f i"
  by (auto simp: write_at_def)

text \<open>The pages from \<open>pn\<close> to \<open>n\<close> of the tags and of the data of a file do not meet a range of bytes.\<close>

definition off_pages :: "nat \<Rightarrow> nat \<Rightarrow> nat \<Rightarrow> nat \<Rightarrow> nat \<Rightarrow> bool" where
  "off_pages tb db pn n i \<longleftrightarrow> (i < 8192 * (tb + pn) \<or> 8192 * (tb + n) \<le> i) \<and> (i < 8192 * (db + 4 * pn) \<or> 8192 * (db + 4 * n) \<le> i)"

definition keeps_bytes :: "wfile \<Rightarrow> wfile \<Rightarrow> (nat \<Rightarrow> bool) \<Rightarrow> bool" where
  "keeps_bytes f f1 P \<longleftrightarrow> (\<forall>i. P i \<longrightarrow> i < f_length f \<longrightarrow> i < f_length f1 \<and> f_bytes f1 i = f_bytes f i)"

lemma keeps_bytes_refl [simp]: "keeps_bytes f f P"
  and keeps_bytes_trans: "keeps_bytes f f1 P \<Longrightarrow> keeps_bytes f1 f2 Q \<Longrightarrow> (\<And>i. R i \<Longrightarrow> P i \<and> Q i) \<Longrightarrow> keeps_bytes f f2 R"
  by (auto simp: keeps_bytes_def)

lemma keeps_bytes_has: "keeps_bytes f f1 P \<Longrightarrow> file_has f off n b \<Longrightarrow> (\<And>i. i < n \<Longrightarrow> P (off + i)) \<Longrightarrow> file_has f1 off n b"
  by (auto simp: keeps_bytes_def file_has_def)

section \<open>Pages of regions\<close>

lemma vlm_pages_enough: "count \<le> 8192 * vlm_pages count"
proof -
  have "count + 8191 = 8192 * ((count + 8191) div 8192) + (count + 8191) mod 8192" by simp
  moreover have "(count + 8191) mod 8192 < 8192" by simp
  ultimately have "count + 8191 < 8192 * ((count + 8191) div 8192) + 8192" by linarith
  then show ?thesis by (simp add: vlm_pages_def VLMPageSizeQs_def)
qed

fun region_pages :: "LoadMapEntry list \<Rightarrow> nat" where
  "region_pages [] = 0"
| "region_pages (e # es) = (if le_address e mod VLMPageSizeQs = 0 then vlm_pages (le_count e) else 0) + region_pages es"

lemma canonical_pages: "pn + region_pages es < 2 ^ 32 \<Longrightarrow> snd (canonical_entries m pn es) = pn + region_pages es"
  by (induction es arbitrary: pn) (auto simp: split_beta)

text \<open>The words of an entry with data pages, in a file with given bases.\<close>

definition entry_in_file :: "vmem \<Rightarrow> nat \<Rightarrow> nat \<Rightarrow> wfile \<Rightarrow> LoadMapEntry \<Rightarrow> bool" where
  "entry_in_file m tb db f e \<longleftrightarrow> (le_opcode e = LoadMapDataPages \<longrightarrow>
     file_has f (file_offset db (unat (snd (le_data e))) 4) (4 * le_count e) (data_bytes m (le_address e)) \<and>
     file_has f (file_offset tb (unat (snd (le_data e))) 1) (le_count e) (\<lambda>i. TagSpace m (le_address e + i)))"

lemma page_offset_small: "base + p * blocks < 2 ^ 19 \<Longrightarrow> file_offset base p blocks = 8192 * (base + p * blocks)"
  by (simp add: file_offset_def VLMBlockSize_def)

definition pages_fit :: "nat \<Rightarrow> nat \<Rightarrow> nat \<Rightarrow> bool" where
  "pages_fit tb db n \<longleftrightarrow> tb + n \<le> db \<and> db + 4 * n < 2 ^ 19"

lemma write_entry_pages_has:
  assumes fit: "pages_fit tb db (pn + k)" and bases: "vlmTagsPageBase w = tb" "vlmDataPageBase w = db"
    and e: "le_opcode e = LoadMapDataPages" "snd (le_data e) = of_nat pn" "le_count e \<le> 8192 * k"
  shows "entry_in_file m tb db (fd (write_entry_pages m w e)) e \<and>
    keeps_bytes (fd w) (fd (write_entry_pages m w e)) (off_pages tb db pn (pn + k))"
proof -
  have s: "tb + pn + k \<le> db" "db + 4 * pn + 4 * k < 2 ^ 19" using fit by (simp_all add: pages_fit_def)
  then have "unat (snd (le_data e)) = pn" using e(2) by (simp add: unat_of_small)
  moreover have o: "file_offset db pn 4 = 8192 * (db + 4 * pn)" "file_offset tb pn 1 = 8192 * (tb + pn)"
    using s by (simp_all add: page_offset_small mult.commute)
  moreover define f1 where "f1 = write_at (fd w) (8192 * (db + 4 * pn)) (4 * le_count e) (data_bytes m (le_address e))"
  moreover define f2 where "f2 = write_at f1 (8192 * (tb + pn)) (le_count e) (\<lambda>i. TagSpace m (le_address e + i))"
  ultimately have F: "fd (write_entry_pages m w e) = f2"
    using e(1) bases by (simp add: write_entry_pages_def Let_def VLMBlocksPerDataPage_def VLMBlocksPerTagsPage_def)
  have t: "8192 * (tb + pn) + le_count e \<le> 8192 * (tb + (pn + k))" "8192 * (tb + (pn + k)) \<le> 8192 * (db + 4 * pn)"
    "8192 * (db + 4 * pn) + 4 * le_count e \<le> 8192 * (db + 4 * (pn + k))"
    using s(1) e(3) by (simp_all add: algebra_simps)
  have 1: "file_has f1 (8192 * (db + 4 * pn)) (4 * le_count e) (data_bytes m (le_address e))"
    unfolding f1_def by (rule write_at_has)
  have k2: "keeps_bytes f1 f2 (\<lambda>i. i < 8192 * (tb + pn) \<or> 8192 * (tb + (pn + k)) \<le> i)"
    unfolding keeps_bytes_def f2_def using t(1) by (intro allI impI write_at_keeps) auto
  have k1: "keeps_bytes (fd w) f1 (\<lambda>i. i < 8192 * (db + 4 * pn) \<or> 8192 * (db + 4 * (pn + k)) \<le> i)"
    unfolding keeps_bytes_def f1_def using t(3) by (intro allI impI write_at_keeps) auto
  have "file_has f2 (8192 * (db + 4 * pn)) (4 * le_count e) (data_bytes m (le_address e))"
    by (rule keeps_bytes_has [OF k2 1]) (use t(2) in linarith)
  moreover have "file_has f2 (8192 * (tb + pn)) (le_count e) (\<lambda>i. TagSpace m (le_address e + i))"
    unfolding f2_def by (rule write_at_has)
  ultimately have "entry_in_file m tb db f2 e"
    unfolding entry_in_file_def \<open>unat (snd (le_data e)) = pn\<close> o by blast
  moreover have "keeps_bytes (fd w) f2 (off_pages tb db pn (pn + k))"
    by (rule keeps_bytes_trans [OF k1 k2]) (simp add: off_pages_def)
  ultimately show ?thesis unfolding F by blast
qed

lemma write_entry_pages_maps [simp]: "same_maps w (write_entry_pages m w e)"
  by (simp add: same_maps_def write_entry_pages_def Let_def)

lemma write_constants:
  "\<forall>e\<in>set es. le_opcode e \<noteq> LoadMapDataPages \<Longrightarrow> foldl (write_entry_pages m) w es = w"
  by (induction es) (auto simp: write_entry_pages_def)

lemma constant_opcode [simp]: "\<forall>e1\<in>set (constant_entries m e). le_opcode e1 \<noteq> LoadMapDataPages"
  by (auto simp: constant_entries_def Let_def load_map_opcodes)

lemma entry_in_file_keeps:
  assumes "entry_in_file m tb db f e" "keeps_bytes f f1 (off_pages tb db (pn + k) n)" "le_opcode e = LoadMapDataPages"
    and "snd (le_data e) = of_nat pn" "le_count e \<le> 8192 * k" "pages_fit tb db (pn + k)" "pages_fit tb db n"
  shows "entry_in_file m tb db f1 e"
proof -
  have s: "tb + pn + k \<le> db" "db + 4 * pn + 4 * k < 2 ^ 19" "tb + n \<le> db" using assms(6,7) by (simp_all add: pages_fit_def)
  then have u: "unat (snd (le_data e)) = pn" using assms(4) by (simp add: unat_of_small)
  have o: "file_offset db pn 4 = 8192 * (db + 4 * pn)" "file_offset tb pn 1 = 8192 * (tb + pn)"
    using s by (simp_all add: page_offset_small mult.commute)
  have a: "file_has f (8192 * (db + 4 * pn)) (4 * le_count e) (data_bytes m (le_address e))"
    and b: "file_has f (8192 * (tb + pn)) (le_count e) (\<lambda>i. TagSpace m (le_address e + i))"
    using assms(1,3) unfolding entry_in_file_def u o by blast+
  have "off_pages tb db (pn + k) n (8192 * (db + 4 * pn) + i)" if "i < 4 * le_count e" for i
    using that s assms(5) unfolding off_pages_def by auto
  moreover have "off_pages tb db (pn + k) n (8192 * (tb + pn) + i)" if "i < le_count e" for i
    using that s assms(5) unfolding off_pages_def by auto
  ultimately show ?thesis
    using keeps_bytes_has [OF assms(2) a] keeps_bytes_has [OF assms(2) b] unfolding entry_in_file_def u o by blast
qed

text \<open>All pages of a canonical load map.\<close>

lemma write_pages_all:
  assumes "\<forall>e\<in>set es. le_opcode e = LoadMapDataPages" "vlmTagsPageBase w = tb" "vlmDataPageBase w = db"
    and "pages_fit tb db (pn + region_pages es)"
  shows "(\<forall>e\<in>set (fst (canonical_entries m pn es)). entry_in_file m tb db (fd (foldl (write_entry_pages m) w (fst (canonical_entries m pn es)))) e) \<and>
    keeps_bytes (fd w) (fd (foldl (write_entry_pages m) w (fst (canonical_entries m pn es)))) (off_pages tb db pn (pn + region_pages es)) \<and>
    same_maps w (foldl (write_entry_pages m) w (fst (canonical_entries m pn es)))"
  using assms
proof (induction es arbitrary: pn w)
  case (Cons e es)
  show ?case
  proof (cases "le_address e mod VLMPageSizeQs = 0")
    case True
    define k where "k = vlm_pages (le_count e)"
    define e1 where "e1 = e\<lparr>le_data := (Type_Fixnum, of_nat pn)\<rparr>"
    define w1 where "w1 = write_entry_pages m w e1"
    have e1: "le_opcode e1 = LoadMapDataPages" "snd (le_data e1) = of_nat pn" "le_count e1 \<le> 8192 * k"
      using Cons.prems(1) vlm_pages_enough by (simp_all add: e1_def k_def)
    have n: "pn + region_pages (e # es) = pn + k + region_pages es" using True by (simp add: k_def)
    have fit: "pages_fit tb db (pn + k)" "pages_fit tb db (pn + k + region_pages es)"
      using Cons.prems(4) unfolding n by (simp_all add: pages_fit_def)
    have c: "fst (canonical_entries m pn (e # es)) = e1 # fst (canonical_entries m (pn + k) es)"
      using True fit(1) by (simp add: split_beta e1_def k_def pages_fit_def)
    have b: "vlmTagsPageBase w1 = tb" "vlmDataPageBase w1 = db" "same_maps w w1"
      using Cons.prems(2,3) write_entry_pages_maps [of w m e1] by (simp_all add: w1_def same_maps_def)
    define w2 where "w2 = foldl (write_entry_pages m) w1 (fst (canonical_entries m (pn + k) es))"
    have h: "entry_in_file m tb db (fd w1) e1" "keeps_bytes (fd w) (fd w1) (off_pages tb db pn (pn + k))"
      using write_entry_pages_has [OF fit(1) Cons.prems(2,3) e1] by (simp_all add: w1_def)
    have ih: "\<forall>e\<in>set (fst (canonical_entries m (pn + k) es)). entry_in_file m tb db (fd w2) e"
        "keeps_bytes (fd w1) (fd w2) (off_pages tb db (pn + k) (pn + k + region_pages es))" "same_maps w1 w2"
      using Cons.IH [OF _ b(1,2) fit(2)] Cons.prems(1) by (simp_all add: w2_def)
    have "entry_in_file m tb db (fd w2) e1" by (rule entry_in_file_keeps [OF h(1) ih(2) e1 fit])
    moreover have "keeps_bytes (fd w) (fd w2) (off_pages tb db pn (pn + k + region_pages es))"
      by (rule keeps_bytes_trans [OF h(2) ih(2)]) (auto simp: off_pages_def)
    moreover have "same_maps w w2" using b(3) ih(3) by (rule same_maps_trans)
    ultimately show ?thesis using ih(1) unfolding c n by (simp add: w1_def [symmetric] w2_def)
  next
    case False
    then show ?thesis
      using Cons.IH [of w pn] Cons.prems by (auto simp: split_beta write_constants entry_in_file_def)
  qed
qed simp

section \<open>Loading what was saved\<close>

definition region_set :: "LoadMapEntry \<Rightarrow> nat set" where
  "region_set e = {le_address e..<le_address e + le_count e}"

lemma entry_file_source:
  assumes "file_has f d (4 * le_count e) (data_bytes m (le_address e))" "file_has f t (le_count e) (\<lambda>i. TagSpace m (le_address e + i))"
    and "a \<in> region_set e"
  shows "file_source f (le_address e) d t a = words_at m a"
proof -
  define k where "k = a - le_address e"
  have k: "k < le_count e" "a = le_address e + k" using assms(3) by (auto simp: k_def region_set_def)
  have "f_bytes f (d + 4 * k + i) = word_bytes (DataSpace m a) i" if "i < 4" for i
  proof -
    have "4 * k + i < 4 * le_count e" using k that by linarith
    with assms(1) have "f_bytes f (d + (4 * k + i)) = data_bytes m (le_address e) (4 * k + i)" by (simp add: file_has_def)
    with that k show ?thesis by (simp add: data_bytes_def add.assoc)
  qed
  from this [of 3] this [of 2] this [of 1] this [of 0] have "file_word f (d + 4 * k) = DataSpace m a"
    using word_of_bytes [of "DataSpace m a"] by (simp add: file_word_def)
  moreover have "f_bytes f (t + k) = TagSpace m a" using assms(2) k by (simp add: file_has_def)
  ultimately show ?thesis by (simp add: file_source_def words_at_def k_def)
qed

lemma wads_free_loaded:
  assumes "wads_free m lo hi" "loaded m m1 S src" "S \<inter> {lo..<hi} = {}"
  shows "wads_free m1 lo hi"
  unfolding wads_free_def
proof (intro allI impI notI)
  fix w assume w: "w mod MemoryWad_Size = 0" "lo \<le> w" "w + MemoryWad_Size \<le> hi" "WadCreated m1 w"
  then obtain a where a: "a div MemoryWad_Size = w div MemoryWad_Size" "PageCreated m1 a" by (auto simp: WadCreated_iff)
  have "\<not> PageCreated m a" using assms(1) w a by (auto simp: wads_free_def WadCreated_iff)
  with a(2) assms(2) obtain b where b: "b \<in> S" "b div MemoryPage_Size = a div MemoryPage_Size"
    by (auto simp: loaded_def page_touched_def)
  then have "b div MemoryWad_Size = w div MemoryWad_Size" using a by (simp add: wad_of_page)
  moreover obtain k where k: "w = MemoryWad_Size * k" using w(1) multiple by blast
  ultimately have "b div MemoryWad_Size = k" by (simp add: MemoryWad_Size_def)
  then have "w \<le> b" "b < w + MemoryWad_Size" unfolding k by (auto simp: MemoryWad_Size_def)
  with b(1) w assms(3) show False by auto
qed

text \<open>Regions that can be saved and loaded: inside the address space, outside the stack cache, apart from each other.\<close>

definition region_ok :: "vmem \<Rightarrow> vmem \<Rightarrow> LoadMapEntry \<Rightarrow> bool" where
  "region_ok m m0 e \<longleftrightarrow> le_opcode e = LoadMapDataPages \<and> le_address e + le_count e < 2 ^ 32 \<and>
     (\<forall>a\<in>region_set e. \<not> in_cached_stack m a \<and> \<not> in_cached_stack m0 a) \<and>
     wads_free m0 (le_address e) (le_address e + le_count e)"

fun regions_apart :: "LoadMapEntry list \<Rightarrow> bool" where
  "regions_apart [] \<longleftrightarrow> True"
| "regions_apart (e # es) \<longleftrightarrow> (\<forall>e1\<in>set es. region_set e \<inter> region_set e1 = {}) \<and> regions_apart es"

lemma load_data_entry:
  assumes "region_ok m m0 e" "entry_in_file m tb db (fd (ws (le_world e))) e" "le_count e < 2 ^ 24"
    and w: "wformat (ws self) = VLMWorldFormat" "\<not> byteSwapped (ws (le_world e))" "vlmDataPageBase (ws (le_world e)) = db"
      "vlmTagsPageBase (ws (le_world e)) = tb"
  shows "\<exists>m1. LoadMapData ws self m0 e = Inr (ws, m1) \<and> loaded m0 m1 (region_set e) (read_q m)"
proof -
  let ?f = "fd (ws (le_world e))"
  let ?d = "file_offset db (unat (snd (le_data e))) 4" and ?t = "file_offset tb (unat (snd (le_data e))) 1"
  have e: "le_opcode e = LoadMapDataPages" "le_address e + le_count e < 2 ^ 32" using assms(1) by (simp_all add: region_ok_def)
  have L: "LoadMapData ws self m0 e = wbind (map_result (MapWorldLoad m0 ?f (le_address e) (le_count e) ?d ?t)) (\<lambda>m1. Inr (ws, m1))"
    using w e(1) by (simp add: LoadMapData_def VLMLoadMapData_def VLMBlocksPerDataPage_def VLMBlocksPerTagsPage_def)
  show ?thesis
  proof (cases "le_count e = 0")
    case True
    then show ?thesis unfolding L by (simp add: MapWorldLoad.simps map_result_def region_set_def loaded_none)
  next
    case False
    have h: "file_has ?f ?d (4 * le_count e) (data_bytes m (le_address e))"
        "file_has ?f ?t (le_count e) (\<lambda>i. TagSpace m (le_address e + i))"
      using assms(2) e(1) by (simp_all add: entry_in_file_def)
    have "?d + 4 * le_count e \<le> f_length ?f" "?t + le_count e \<le> f_length ?f"
      using file_has_length [OF h(1)] file_has_length [OF h(2)] False by simp_all
    then obtain m1 where m1: "MapWorldLoad m0 ?f (le_address e) (le_count e) ?d ?t = Some m1"
        "loaded m0 m1 (region_set e) (file_source ?f (le_address e) ?d ?t)"
      using MapWorldLoad_loaded [of "le_address e" "le_count e" ?d ?f ?t m0] assms(1) e
      by (auto simp: region_ok_def region_set_def)
    have "file_source ?f (le_address e) ?d ?t a = read_q m a" if "a \<in> region_set e" for a
      using entry_file_source [OF h that] assms(1) that by (simp add: region_ok_def read_q_def words_at_def)
    with m1(2) have "loaded m0 m1 (region_set e) (read_q m)" by (simp add: loaded_def)
    then show ?thesis unfolding L m1(1) by (simp add: map_result_def)
  qed
qed

lemma load_constants:
  assumes "\<forall>i<n. \<not> in_cached_stack m0 (a + i)" "a + n < 2 ^ 32" "wformat (ws self) = VLMWorldFormat"
  shows "\<exists>m1 k. load_entries ws self m0 (map (\<lambda>j. \<lparr>le_address = a + j, le_count = 1, le_opcode = LoadMapConstant,
      le_data = src (a + j), le_world = 0\<rparr>) [0..<n]) c = Inr (ws, m1, k) \<and> loaded m0 m1 {a..<a + n} src"
  using assms
proof (induction n arbitrary: m0 a c)
  case (Suc n)
  let ?m = "write_block_constant (ensure_address_range m0 a 1 False) a (src a) 1 0"
  have "\<not> in_cached_stack m0 a" "a + 1 < 2 ^ 32" using Suc.prems by (auto dest: spec [of _ 0])
  from constant_loaded [OF this, of "src a"] have l: "loaded m0 ?m {a} src" by (simp add: loaded_def)
  have "\<forall>i<n. \<not> in_cached_stack ?m (a + 1 + i)"
  proof (intro allI impI)
    fix i assume "i < n"
    then have "\<not> in_cached_stack m0 (a + Suc i)" using Suc.prems(1) by blast
    with loaded_in_stack_cache [OF l, of "a + 1 + i"] show "\<not> in_cached_stack ?m (a + 1 + i)" by simp
  qed
  then obtain m1 k where m1: "load_entries ws self ?m (map (\<lambda>j. \<lparr>le_address = a + 1 + j, le_count = 1, le_opcode = LoadMapConstant,
      le_data = src (a + 1 + j), le_world = 0\<rparr>) [0..<n]) (wrap32 (c + 1)) = Inr (ws, m1, k)" "loaded ?m m1 {a + 1..<a + 1 + n} src"
    using Suc.IH [of ?m "a + 1" "wrap32 (c + 1)"] Suc.prems by auto
  have "LoadMapData ws self m0 \<lparr>le_address = a, le_count = 1, le_opcode = LoadMapConstant, le_data = src a, le_world = 0\<rparr> = Inr (ws, ?m)"
    using Suc.prems(3) by (simp add: LoadMapData_def VLMLoadMapData_def load_map_opcodes)
  moreover have "[0..<Suc n] = 0 # map Suc [0..<n]" by (simp add: map_Suc_upt upt_conv_Cons del: upt_Suc)
  moreover have "{a} \<union> {a + 1..<a + 1 + n} = {a..<a + Suc n}" by auto
  ultimately show ?case using m1(1) loaded_trans [OF l m1(2)] by (auto simp: comp_def simp del: upt_Suc)
qed (simp add: loaded_none)

lemma load_entries_append:
  "load_entries ws self m (es1 @ es2) c = wbind (load_entries ws self m es1 c) (\<lambda>(ws1, m1, c1). load_entries ws1 self m1 es2 c1)"
  by (induction es1 arbitrary: ws m c) (auto simp: wbind_def split: sum.splits)

text \<open>The entries of a canonical load map bring back the words of the regions.\<close>

lemma load_canonical:
  assumes "\<forall>e\<in>set es. region_ok m m0 e \<and> le_count e < 2 ^ 24 \<and> le_world e = 0" "regions_apart es"
    and "\<forall>e\<in>set (fst (canonical_entries m pn es)). entry_in_file m tb db (fd (ws 0)) e"
    and w: "wformat (ws 0) = VLMWorldFormat" "\<not> byteSwapped (ws 0)" "vlmDataPageBase (ws 0) = db" "vlmTagsPageBase (ws 0) = tb"
  shows "\<exists>m1 k. load_entries ws 0 m0 (fst (canonical_entries m pn es)) c = Inr (ws, m1, k) \<and>
    loaded m0 m1 (\<Union> (region_set ` set es)) (read_q m)"
  using assms(1-3)
proof (induction es arbitrary: m0 pn c)
  case (Cons e es)
  have e: "region_ok m m0 e" "le_count e < 2 ^ 24" "le_world e = 0" using Cons.prems(1) by simp_all
  have next_ok: "\<forall>e1\<in>set es. region_ok m m1 e1 \<and> le_count e1 < 2 ^ 24 \<and> le_world e1 = 0"
    if l: "loaded m0 m1 (region_set e) (read_q m)" for m1
  proof
    fix e1 assume e1: "e1 \<in> set es"
    then have ok: "region_ok m m0 e1" and apart: "region_set e \<inter> {le_address e1..<le_address e1 + le_count e1} = {}"
      using Cons.prems(1,2) by (auto simp: region_set_def)
    have "wads_free m1 (le_address e1) (le_address e1 + le_count e1)"
      using wads_free_loaded [OF _ l apart] ok by (simp add: region_ok_def)
    with ok e1 Cons.prems(1) show "region_ok m m1 e1 \<and> le_count e1 < 2 ^ 24 \<and> le_world e1 = 0"
      by (simp add: region_ok_def loaded_in_stack_cache [OF l])
  qed
  have finish: "\<exists>m2 k. load_entries ws 0 m0 (pre @ fst (canonical_entries m pn1 es)) c = Inr (ws, m2, k) \<and>
      loaded m0 m2 (\<Union> (region_set ` set (e # es))) (read_q m)"
    if pre: "load_entries ws 0 m0 pre c = Inr (ws, m1, k1)" "loaded m0 m1 (region_set e) (read_q m)"
      and f: "\<forall>e\<in>set (fst (canonical_entries m pn1 es)). entry_in_file m tb db (fd (ws 0)) e" for pre m1 k1 pn1
  proof -
    obtain m2 k where m2: "load_entries ws 0 m1 (fst (canonical_entries m pn1 es)) k1 = Inr (ws, m2, k)"
        "loaded m1 m2 (\<Union> (region_set ` set es)) (read_q m)"
      using Cons.IH [OF next_ok [OF pre(2)] _ f, of k1] Cons.prems(2) by auto
    with loaded_trans [OF pre(2) m2(2)] pre(1) show ?thesis by (simp add: load_entries_append)
  qed
  show ?case
  proof (cases "le_address e mod VLMPageSizeQs = 0")
    case True
    define e1 where "e1 = e\<lparr>le_data := (Type_Fixnum, of_nat pn)\<rparr>"
    define pn1 where "pn1 = wrap32 (pn + vlm_pages (le_count e))"
    have c: "fst (canonical_entries m pn (e # es)) = [e1] @ fst (canonical_entries m pn1 es)"
      using True by (simp add: split_beta e1_def pn1_def)
    have ok1: "region_ok m m0 e1" "region_set e1 = region_set e" "le_count e1 < 2 ^ 24" "le_world e1 = 0"
      using e by (simp_all add: e1_def region_ok_def region_set_def)
    have in_f: "entry_in_file m tb db (fd (ws (le_world e1))) e1" using Cons.prems(3) unfolding c by (simp add: ok1)
    obtain m1 where m1: "LoadMapData ws 0 m0 e1 = Inr (ws, m1)" "loaded m0 m1 (region_set e) (read_q m)"
      using load_data_entry [of m m0 e1 tb db ws 0] ok1 in_f w by auto
    then have "load_entries ws 0 m0 [e1] c = Inr (ws, m1, wrap32 (c + le_count e1))" by simp
    from finish [OF this m1(2), of pn1] show ?thesis using Cons.prems(3) unfolding c by simp
  next
    case False
    have c: "fst (canonical_entries m pn (e # es)) = constant_entries m e @ fst (canonical_entries m pn es)"
      using False by (simp add: split_beta)
    have k: "constant_entries m e = map (\<lambda>j. \<lparr>le_address = le_address e + j, le_count = 1, le_opcode = LoadMapConstant,
        le_data = read_q m (le_address e + j), le_world = 0\<rparr>) [0..<le_count e]"
      using e(1) by (auto simp: constant_entries_def Let_def region_ok_def)
    have "\<forall>i<le_count e. \<not> in_cached_stack m0 (le_address e + i)" using e(1) by (auto simp: region_ok_def region_set_def)
    then obtain m1 k1 where "load_entries ws 0 m0 (constant_entries m e) c = Inr (ws, m1, k1)" "loaded m0 m1 (region_set e) (read_q m)"
      using load_constants [of "le_count e" m0 "le_address e" ws 0 "read_q m" c] e(1) w(1) unfolding k
      by (auto simp: region_ok_def region_set_def)
    from finish [OF this, of pn] show ?thesis using Cons.prems(3) unfolding c by simp
  qed
qed (simp add: loaded_none)

section \<open>A saved world\<close>

lemma header_blocks_enough:
  assumes "header_blocks n \<le> VLMMaximumHeaderBlocks"
  shows "1280 * ((8 + 3 * n + 255) div 256) \<le> 8192 * header_blocks n" "n < 2 ^ 31" "header_blocks n < 16"
proof -
  define p where "p = (8 + 3 * n + 255) div 256"
  have b: "header_blocks n = (p * 1280 + 8191) div 8192"
    by (simp add: header_blocks_def p_def VLMWorldFileV2FirstMapQ_def IvoryPageSizeQs_def IvoryPageSizeBytes_def VLMBlockSize_def)
  have m: "p * 1280 + 8191 = 8192 * header_blocks n + (p * 1280 + 8191) mod 8192" "(p * 1280 + 8191) mod 8192 < 8192"
    unfolding b by simp_all
  then show "1280 * ((8 + 3 * n + 255) div 256) \<le> 8192 * header_blocks n" unfolding p_def [symmetric] by linarith
  show "header_blocks n < 16" using assms by (simp add: VLMMaximumHeaderBlocks_def)
  have "8 + 3 * n + 255 = 256 * p + (8 + 3 * n + 255) mod 256" "(8 + 3 * n + 255) mod 256 < 256" unfolding p_def by simp_all
  with m assms show "n < 2 ^ 31" by (simp add: VLMMaximumHeaderBlocks_def)
qed

lemma flushed_starts:
  assumes "qs_flushed f0 f qs ((length qs + 255) div 256)"
  shows "starts_with f qs"
  unfolding starts_with_def
proof (intro allI impI conjI)
  fix k assume k: "k < length qs"
  then show "file_q f k = qs ! k" using assms by (simp add: qs_flushed_def)
  have "k div 256 + 1 \<le> (length qs + 255) div 256"
  proof -
    have "(k + 256) div 256 \<le> (length qs + 255) div 256" using k by (intro div_le_mono) simp
    then show ?thesis by simp
  qed
  then show "1280 * (k div 256 + 1) \<le> f_length f" using assms by (simp add: qs_flushed_def le_max_iff_disj)
qed

lemma starts_with_keeps:
  assumes "starts_with f qs" "keeps_bytes f f1 P" "\<And>i. i < 1280 * ((length qs + 255) div 256) \<Longrightarrow> P i"
  shows "starts_with f1 qs"
  unfolding starts_with_def
proof (intro allI impI)
  fix k assume k: "k < length qs"
  then have s: "file_q f k = qs ! k" "1280 * (k div 256 + 1) \<le> f_length f" using assms(1) by (simp_all add: starts_with_def)
  have "(k + 256) div 256 \<le> (length qs + 255) div 256" using k by (intro div_le_mono) simp
  then have le: "k div 256 + 1 \<le> (length qs + 255) div 256" by simp
  have b: "i < f_length f1 \<and> f_bytes f1 i = f_bytes f i" if "i < 1280 * (k div 256 + 1)" for i
  proof -
    have "i < 1280 * ((length qs + 255) div 256)"
      using that mult_le_mono2 [OF le, of 1280] by (rule less_le_trans)
    with assms(2,3) s(2) that show ?thesis by (auto simp: keeps_bytes_def)
  qed
  have "file_q f1 k = file_q f k" using b by (intro file_q_cong) simp
  moreover have "1280 * (k div 256) + 1279 < f_length f1" using b [of "1280 * (k div 256) + 1279"] by simp
  ultimately show "file_q f1 k = qs ! k \<and> 1280 * (k div 256 + 1) \<le> f_length f1" using s by simp
qed

lemma canonical_fits:
  "\<forall>e\<in>set es. entry_fits 0 e \<Longrightarrow> \<forall>e\<in>set (fst (canonical_entries m pn es)). entry_fits 0 e"
proof (induction es arbitrary: pn)
  case (Cons e es)
  have "\<forall>e1\<in>set (constant_entries m e). entry_fits 0 e1"
    by (auto simp: constant_entries_def Let_def entry_fits_def wrap32_def LoadMapConstant_def)
  moreover have "entry_fits 0 (e\<lparr>le_data := q\<rparr>)" for q using Cons.prems by (simp add: entry_fits_def)
  ultimately show ?case using Cons by (auto simp: split_beta)
qed simp

lemma preallocate_maps [simp]: "same_maps w (preallocate w)"
  by (simp add: same_maps_def preallocate_def Let_def split: list.splits)

text \<open>The file of a save, with its header and all of its pages.\<close>

lemma save_regions_file:
  assumes es: "\<forall>e\<in>set es. le_opcode e = LoadMapDataPages \<and> entry_fits 0 e"
    and small: "region_pages es \<le> 100000" "header_blocks (length (fst (canonical_entries m 0 es))) \<le> VLMMaximumHeaderBlocks"
  obtains w1 w2 where "save_regions m path es = Inr w2"
    "starts_with (fd w2) (header_qs m w1 @ concat (map entry_qs (wiredMapEntries w1)))"
    "wiredMapEntries w1 = fst (canonical_entries m 0 es)"
    "vlmTagsPageBase w1 = header_blocks (length (wiredMapEntries w1))" "vlmDataPageBase w1 = vlmTagsPageBase w1 + region_pages es"
    "\<forall>e\<in>set (wiredMapEntries w1). entry_in_file m (vlmTagsPageBase w1) (vlmDataPageBase w1) (fd w2) e"
proof -
  let ?es = "fst (canonical_entries m 0 es)"
  define tb where "tb = header_blocks (length ?es)"
  define db where "db = tb + region_pages es"
  define w1 where "w1 = (CreateWorldFile path)\<lparr>wiredMapEntries := ?es, vlmTagsPageBase := tb, vlmDataPageBase := db\<rparr>"
  have n: "snd (canonical_entries m 0 es) = region_pages es" using canonical_pages [of 0 es m] small(1) by simp
  have C: "CanonicalizeVLMLoadMapEntries m ((CreateWorldFile path)\<lparr>wiredMapEntries := es\<rparr>) = Inr w1"
    using small(2) n
    by (simp add: CanonicalizeVLMLoadMapEntries_def split_beta Let_def w1_def tb_def db_def VLMBlocksPerTagsPage_def)
  define qs where "qs = header_qs m w1 @ concat (map entry_qs ?es)"
  have qs: "qs \<noteq> []" "length qs = 8 + 3 * length ?es" by (simp_all add: qs_def header_qs_def)
  obtain w3 where w3: "WriteVLMWorldFileHeader m w1 = Inr w3" "qs_flushed (fd (preallocate w1)) (fd w3) qs ((length qs + 255) div 256)"
      "same_maps (preallocate w1) w3"
    using write_file_qs [OF qs(1), of "preallocate w1"]
    unfolding WriteVLMWorldFileHeader_def qs_def by (auto simp: w1_def)
  have b3: "vlmTagsPageBase w3 = tb" "vlmDataPageBase w3 = db" "wiredMapEntries w3 = ?es"
    using same_maps_trans [OF preallocate_maps w3(3)] by (simp_all add: same_maps_def w1_def)
  have "tb < 16" unfolding tb_def using header_blocks_enough [OF small(2)] by simp
  then have fit: "pages_fit tb db (0 + region_pages es)" using small(1) by (simp add: pages_fit_def db_def)
  define w2 where "w2 = foldl (write_entry_pages m) w3 ?es"
  have w2: "\<forall>e\<in>set ?es. entry_in_file m tb db (fd w2) e" "keeps_bytes (fd w3) (fd w2) (off_pages tb db 0 (0 + region_pages es))"
    using write_pages_all [OF _ b3(1,2) fit] es unfolding w2_def by blast+
  have "starts_with (fd w2) qs"
  proof (rule starts_with_keeps [OF flushed_starts [OF w3(2)] w2(2)])
    fix i assume "i < 1280 * ((length qs + 255) div 256)"
    then have "i < 8192 * tb" using header_blocks_enough(1) [OF small(2)] unfolding qs(2) tb_def by (rule less_le_trans)
    then show "off_pages tb db 0 (0 + region_pages es) i" by (auto simp: off_pages_def db_def)
  qed
  moreover have "save_regions m path es = Inr w2"
    by (simp add: save_regions_def C w3(1) WriteVLMWorldFilePages_def b3(3) w2_def)
  ultimately show thesis
    using w2(1) that [of w2 w1] by (simp add: w1_def qs_def tb_def db_def)
qed

end
