(* ===== verification/World_Merge_Facts.thy ===== *)
theory World_Merge_Facts
  imports World_Merging World_Memory_Facts
begin

text \<open>
  Merging load maps: what a map of data pages says of every address, and that the merged map says what the
  foreground says, or else the background. The invariant of the loop is stated over what is left of
  the two maps and what was put into the merged one.
\<close>

section \<open>Maps of data pages\<close>

definition covers :: "LoadMapEntry \<Rightarrow> nat \<Rightarrow> bool" where
  "covers e a \<longleftrightarrow> le_address e \<le> a \<and> a < le_address e + le_count e"

text \<open>Where the word of an address comes from: a world, and the place of the word in its pages.\<close>

definition entry_source :: "nat \<Rightarrow> LoadMapEntry \<Rightarrow> nat \<Rightarrow> nat \<times> nat" where
  "entry_source P e a = (le_world e, unat (snd (le_data e)) * P + (a - le_address e))"

fun map_source :: "nat \<Rightarrow> LoadMapEntry list \<Rightarrow> nat \<Rightarrow> (nat \<times> nat) option" where
  "map_source P [] a = None"
| "map_source P (e # es) a = (if covers e a then Some (entry_source P e a) else map_source P es a)"

definition orelse :: "'a option \<Rightarrow> 'a option \<Rightarrow> 'a option" where
  "orelse x y = (case x of None \<Rightarrow> y | Some z \<Rightarrow> Some z)"

lemma orelse_simps [simp]: "orelse None y = y" "orelse (Some z) y = Some z" "orelse x None = x" "orelse (orelse x y) w = orelse x (orelse y w)"
  by (simp_all add: orelse_def split: option.splits)

lemma map_source_append: "map_source P (xs @ ys) a = orelse (map_source P xs a) (map_source P ys a)"
  by (induction xs) auto

text \<open>Data pages that start on a page, in order and apart, within the fields of the format.\<close>

definition page_entry :: "nat \<Rightarrow> LoadMapEntry \<Rightarrow> bool" where
  "page_entry P e \<longleftrightarrow> le_opcode e = LoadMapDataPages \<and> le_address e mod P = 0 \<and> 0 < le_count e \<and> le_count e < 2 ^ 24 \<and>
     le_address e + le_count e < 2 ^ 32 \<and> unat (snd (le_data e)) + le_count e < 2 ^ 32"

fun page_map :: "nat \<Rightarrow> LoadMapEntry list \<Rightarrow> bool" where
  "page_map P [] \<longleftrightarrow> True"
| "page_map P (e # es) \<longleftrightarrow> page_entry P e \<and> (\<forall>e1\<in>set es. le_address e + le_count e \<le> le_address e1) \<and> page_map P es"

lemma page_map_append:
  "page_map P (xs @ ys) \<longleftrightarrow> page_map P xs \<and> page_map P ys \<and> (\<forall>x\<in>set xs. \<forall>y\<in>set ys. le_address x + le_count x \<le> le_address y)"
  by (induction xs) auto

lemma map_source_above: "\<forall>e\<in>set es. a < le_address e \<Longrightarrow> map_source P es a = None"
  by (induction es) (auto simp: covers_def)

lemma le_end_eq: "page_entry P e \<Longrightarrow> le_end e = le_address e + le_count e"
  by (simp add: le_end_def page_entry_def wrap32_def)

lemma passes_below_eq:
  "page_entry P b \<Longrightarrow> page_entry P f \<Longrightarrow> passes_below b f \<longleftrightarrow> le_address b + le_count b < le_address f"
  unfolding passes_below_def by (subst le_end_eq, assumption) (auto simp: page_entry_def)

section \<open>Parts of a background entry\<close>

definition lower_part :: "LoadMapEntry \<Rightarrow> LoadMapEntry \<Rightarrow> LoadMapEntry" where
  "lower_part b f = b\<lparr>le_count := (le_address f - le_address b) mod 2 ^ 24\<rparr>"

lemma lower_part_facts:
  assumes "page_entry P b" "le_address b < le_address f" "le_address f \<le> le_address b + le_count b"
  shows "page_entry P (lower_part b f)" "le_address (lower_part b f) = le_address b"
    "le_count (lower_part b f) = le_address f - le_address b" "entry_source P (lower_part b f) a = entry_source P b a"
proof -
  have "le_address f - le_address b \<le> le_count b" using assms(2,3) by linarith
  then have "le_address f - le_address b < 2 ^ 24" using assms(1) unfolding page_entry_def by linarith
  then show c: "le_count (lower_part b f) = le_address f - le_address b" by (simp add: lower_part_def)
  show "le_address (lower_part b f) = le_address b" "entry_source P (lower_part b f) a = entry_source P b a"
    by (simp_all add: lower_part_def entry_source_def)
  have "le_count (lower_part b f) \<le> le_count b" "0 < le_count (lower_part b f)" unfolding c using assms by simp_all
  with assms(1) show "page_entry P (lower_part b f)" by (auto simp: page_entry_def lower_part_def)
qed

lemma trim_background_facts:
  assumes P: "0 < P" and b: "page_entry P b" and f: "page_entry P f" "le_count f mod P = 0"
    and o: "le_address b < le_address f + le_count f" "le_address f + le_count f < le_address b + le_count b"
  obtains b1 where "trim_background P b f = Some b1" "page_entry P b1" "le_address b1 = le_address f + le_count f"
    "le_address b1 + le_count b1 = le_address b + le_count b"
    "\<And>a. le_address b1 \<le> a \<Longrightarrow> entry_source P b1 a = entry_source P b a"
proof -
  let ?e = "le_address f + le_count f"
  define d where "d = ?e - le_address b"
  have e: "le_end f = ?e" by (rule le_end_eq [OF f(1)])
  have al: "?e mod P = 0" using f by (simp add: page_entry_def mod_add_eq [symmetric])
  have lt: "?e < 2 ^ 32" "le_address b < 2 ^ 32" "le_count b < 2 ^ 24" using b f by (simp_all add: page_entry_def)
  have d: "wrap32 (?e + 2 ^ 32 - le_address b) = d" "d < le_count b" "0 < d"
    using o lt by (simp_all add: wrap32_def d_def mod_if)
  have c: "(le_count b + 2 ^ 32 - d) mod 2 ^ 24 = le_count b - d"
  proof -
    have "le_count b + 2 ^ 32 - d = (le_count b - d) + 2 ^ 8 * 2 ^ 24" using d by simp
    then show ?thesis using lt(3) by (simp only: mod_mult_self1 mod_less less_imp_diff_less)
  qed
  define b1 where "b1 = b\<lparr>le_address := ?e, le_count := le_count b - d, le_data := (fst (le_data b), snd (le_data b) + of_nat (d div P))\<rparr>"
  have t: "trim_background P b f = Some b1"
    using al d c by (simp add: trim_background_def Let_def e b1_def)
  have dP: "d mod P = 0"
  proof -
    have "le_address b mod P = 0" using b by (simp add: page_entry_def)
    with al show ?thesis unfolding d_def by (simp add: dvd_diff_nat mod_eq_0_iff_dvd)
  qed
  have "d div P \<le> d" by simp
  then have u: "unat (snd (le_data b) + of_nat (d div P)) = unat (snd (le_data b)) + d div P"
  proof -
    have "unat (snd (le_data b)) + d div P < 2 ^ 32" using b d \<open>d div P \<le> d\<close> unfolding page_entry_def by linarith
    then have "unat (of_nat (unat (snd (le_data b)) + d div P) :: u32) = unat (snd (le_data b)) + d div P" by (rule unat_of_small)
    then show ?thesis by simp
  qed
  have b1: "le_address b1 = ?e" "le_count b1 = le_count b - d" "le_world b1 = le_world b" "le_opcode b1 = le_opcode b"
      "unat (snd (le_data b1)) = unat (snd (le_data b)) + d div P"
    using u by (simp_all add: b1_def)
  have "unat (snd (le_data b)) + le_count b < 2 ^ 32" using b unfolding page_entry_def by linarith
  then have r: "unat (snd (le_data b1)) + le_count b1 < 2 ^ 32" unfolding b1 using d(2) \<open>d div P \<le> d\<close> by linarith
  have "?e + (le_count b - d) = le_address b + le_count b" using o by (simp add: d_def)
  then have "page_entry P b1" using b d(2,3) al r unfolding page_entry_def b1 by auto
  moreover have "entry_source P b1 a = entry_source P b a" if "?e \<le> a" for a
  proof -
    have "d div P * P = d" using dP by (simp add: mod_0_imp_dvd)
    moreover have "a - le_address b = d + (a - ?e)" using that o by (simp add: d_def)
    ultimately show ?thesis unfolding entry_source_def b1 by (simp add: add_mult_distrib)
  qed
  ultimately show thesis using that [OF t] b1 o by (simp add: d_def)
qed

section \<open>The invariant\<close>

text \<open>
  Between the passes: \<open>new\<close> is the merged map so far, \<open>F\<close> and \<open>B\<close> what is left of the foreground and of the
  background, \<open>T\<close> what the maps said at the start, and \<open>cap\<close> the space of the merged map.
\<close>

definition merging :: "nat \<Rightarrow> nat \<Rightarrow> (nat \<Rightarrow> (nat \<times> nat) option) \<Rightarrow> LoadMapEntry list \<Rightarrow> bool \<Rightarrow>
    LoadMapEntry list \<Rightarrow> LoadMapEntry list \<Rightarrow> bool" where
  "merging P cap T new copied F B \<longleftrightarrow>
     page_map P new \<and> page_map P F \<and> page_map P B \<and> (\<forall>f\<in>set F. le_count f mod P = 0) \<and>
     (\<forall>a. orelse (map_source P new a) (orelse (map_source P F a) (map_source P B a)) = T a) \<and>
     length new + length B + 2 * length F \<le> cap + (if copied then 2 else 0) \<and>
     (if copied then F \<noteq> [] \<and> hd F \<in> set new \<and> (\<forall>e\<in>set new. le_address e + le_count e \<le> le_address (hd F) + le_count (hd F)) \<and>
          (\<forall>b\<in>set B. le_address (hd F) \<le> le_address b)
      else \<forall>e\<in>set new. \<forall>x\<in>set F \<union> set B. le_address e + le_count e \<le> le_address x)"

lemma map_source_covered: "e \<in> set es \<Longrightarrow> covers e a \<Longrightarrow> map_source P es a \<noteq> None"
  by (induction es) auto

lemma map_source_rest:
  "page_map P (e # es) \<Longrightarrow> a < le_address e + le_count e \<Longrightarrow> map_source P es a = None"
  by (rule map_source_above) auto

lemma page_entry_pos: "page_entry P e \<Longrightarrow> 0 < le_count e"
  by (simp add: page_entry_def)

text \<open>A background entry that lies below the foreground entry.\<close>

lemma merging_below:
  assumes "merging P cap T new False (f # F) (b # B)" "le_address b + le_count b < le_address f"
  shows "merging P cap T (new @ [b]) False (f # F) B"
proof -
  have F: "page_map P (f # F)" and B: "page_map P (b # B)" using assms(1) by (simp_all add: merging_def)
  have "orelse (map_source P (new @ [b]) a) (orelse (map_source P (f # F) a) (map_source P B a)) =
      orelse (map_source P new a) (orelse (map_source P (f # F) a) (map_source P (b # B) a))" for a
  proof (cases "covers b a")
    case True
    then have "map_source P (f # F) a = None" using F assms(2) by (intro map_source_above) (auto simp: covers_def)
    with True show ?thesis by (cases "map_source P new a") (simp_all add: map_source_append)
  qed (simp add: map_source_append)
  moreover have "\<forall>x\<in>set (f # F) \<union> set B. le_address b + le_count b \<le> le_address x"
    using F B assms(2) by auto
  ultimately show ?thesis using assms(1) unfolding merging_def by (auto simp: page_map_append)
qed

text \<open>The foreground entry is finished.\<close>

lemma merging_finish:
  assumes "merging P cap T new copied (f # F) B" "\<forall>b\<in>set B. le_address f + le_count f \<le> le_address b"
  shows "merging P cap T (new @ (if copied then [] else [f])) False F B"
proof -
  have F: "page_map P (f # F)" and src: "\<And>a. orelse (map_source P new a) (orelse (map_source P (f # F) a) (map_source P B a)) = T a"
    using assms(1) by (simp_all add: merging_def)
  have eq: "orelse (map_source P (new @ (if copied then [] else [f])) a) (orelse (map_source P F a) (map_source P B a)) = T a" for a
  proof (cases "copied \<and> covers f a")
    case True
    then obtain x where "map_source P new a = Some x"
      using assms(1) map_source_covered [of f new a P] by (auto simp: merging_def)
    with src [of a] show ?thesis using True by (metis append_Nil2 orelse_simps(2))
  next
    case False
    with src [of a] show ?thesis by (auto simp: map_source_append)
  qed
  show ?thesis
  proof (cases copied)
    case True
    with assms F eq show ?thesis by (fastforce simp: merging_def)
  next
    case False
    with assms F eq show ?thesis by (auto simp: merging_def page_map_append)
  qed
qed

lemma merging_copy:
  assumes m: "merging P cap T new copied (f # F) B" and "\<forall>b\<in>set B. le_address f + le_count f \<le> le_address b"
  shows "merging P cap T (new @ (if copied then [] else [f])) True (f # F) B"
proof (cases copied)
  case False
  have "orelse (map_source P (new @ [f]) a) (orelse (map_source P (f # F) a) (map_source P B a)) =
      orelse (map_source P new a) (orelse (map_source P (f # F) a) (map_source P B a))" for a
    by (simp add: map_source_append)
  with assms False show ?thesis by (fastforce simp: merging_def page_map_append simp del: map_source.simps)
qed (use m in simp)

text \<open>
  A background entry that meets the foreground entry or touches it from below: its lower part and the
  foreground entry are put into the merged map; what is left of it is \<open>B1\<close>, which agrees with it above the
  foreground entry.
\<close>

definition overlap_new :: "LoadMapEntry \<Rightarrow> LoadMapEntry \<Rightarrow> bool \<Rightarrow> LoadMapEntry list" where
  "overlap_new b f copied = (if le_address b < le_address f then [lower_part b f] else []) @ (if copied then [] else [f])"

lemma merging_overlap:
  assumes m: "merging P cap T new copied (f # F) (b # B)"
    and b: "le_address b < le_address f + le_count f" "le_address f \<le> le_address b + le_count b"
    and B1: "page_map P (B1 @ B)" "length B1 \<le> 1" "\<forall>x\<in>set B1. le_address f + le_count f \<le> le_address x"
      "\<And>a. le_address f + le_count f \<le> a \<Longrightarrow> map_source P B1 a = map_source P [b] a"
  shows "merging P cap T (new @ overlap_new b f copied) True (f # F) (B1 @ B)"
proof -
  have F: "page_map P (f # F)" and B: "page_map P (b # B)" and N: "page_map P new"
    and src: "\<And>a. orelse (map_source P new a) (orelse (map_source P (f # F) a) (map_source P (b # B) a)) = T a"
    using m by (simp_all add: merging_def)
  have low: "copied \<longrightarrow> \<not> le_address b < le_address f" using m by (auto simp: merging_def)
  have pe: "page_entry P b" "page_entry P f" using F B by simp_all
  note lp = lower_part_facts [OF pe(1)]
  have ends: "le_address e + le_count e \<le> le_address b" "le_address e + le_count e \<le> le_address f" if "e \<in> set new" "\<not> copied" for e
    using m that by (auto simp: merging_def)
  have eq: "orelse (map_source P (new @ overlap_new b f copied) a) (orelse (map_source P (f # F) a) (map_source P (B1 @ B) a)) = T a" for a
  proof (cases "map_source P new a")
    case (Some x)
    have "T a = Some x" using src [of a] by (simp add: Some)
    then show ?thesis by (simp add: map_source_append Some)
  next
    case None
    consider "a < le_address f" | "covers f a" | "le_address f + le_count f \<le> a" unfolding covers_def by linarith
    then show ?thesis
    proof cases
      case 1
      have "map_source P (f # F) a = None" using 1 F page_entry_pos [OF pe(2)] by (intro map_source_above) auto
      moreover have "map_source P (B1 @ B) a = None" using 1 b B B1(3) by (intro map_source_above) auto
      moreover have "map_source P (overlap_new b f copied) a = map_source P (b # B) a"
      proof -
        have "map_source P B a = None" using 1 b B by (intro map_source_above) auto
        then show ?thesis using 1 b lp(2-4) [of f] by (auto simp: overlap_new_def covers_def)
      qed
      ultimately show ?thesis using src [of a] None by (simp add: map_source_append del: map_source.simps(2))
    next
      case 2
      then have "\<not> copied" using m None map_source_covered [of f new a P] by (auto simp: merging_def)
      then have "map_source P (overlap_new b f copied) a = Some (entry_source P f a)"
        using 2 b lp(2,3) [of f] by (auto simp: overlap_new_def covers_def)
      moreover have "T a = Some (entry_source P f a)" using src [of a] 2 None by simp
      ultimately show ?thesis by (simp add: map_source_append None)
    next
      case 3
      then have "map_source P (overlap_new b f copied) a = None" using b lp(2,3) [of f] by (auto simp: overlap_new_def covers_def)
      moreover have "map_source P (B1 @ B) a = map_source P (b # B) a" using B1(4) [OF 3] by (simp add: map_source_append)
      ultimately show ?thesis using src [of a] None by (simp add: map_source_append del: map_source.simps(2))
    qed
  qed
  have "page_map P (new @ overlap_new b f copied)"
    using N pe ends low b lp(1-3) [of f] by (auto simp: overlap_new_def page_map_append)
  moreover have "length new + length (overlap_new b f copied) + length (B1 @ B) + 2 * length (f # F) \<le> cap + 2"
    using m low B1(2) by (auto simp: overlap_new_def merging_def)
  moreover have "\<forall>e\<in>set (new @ overlap_new b f copied). le_address e + le_count e \<le> le_address f + le_count f"
  proof (cases copied)
    case True
    with m low show ?thesis by (simp add: overlap_new_def merging_def)
  next
    case False
    have "le_address e + le_count e \<le> le_address f + le_count f" if "e \<in> set new" for e
      using ends(2) [OF that False] by linarith
    with False b lp(2,3) [of f] show ?thesis by (auto simp: overlap_new_def)
  qed
  moreover have "f \<in> set (new @ overlap_new b f copied)" using m by (auto simp: overlap_new_def merging_def)
  moreover have "\<forall>x\<in>set (B1 @ B). le_address f \<le> le_address x" using B B1(3) b(2) by auto
  ultimately show ?thesis using m B1(1) eq by (simp add: merging_def)
qed

section \<open>The loop\<close>

definition background_left :: "nat \<Rightarrow> merge_state \<Rightarrow> LoadMapEntry list" where
  "background_left nB s = map (ms_background s) [ms_bIndex s..<nB]"

definition merge_inv :: "nat \<Rightarrow> nat \<Rightarrow> (nat \<Rightarrow> (nat \<times> nat) option) \<Rightarrow> LoadMapEntry list \<Rightarrow> nat \<Rightarrow> merge_state \<Rightarrow> bool" where
  "merge_inv P cap T fg nB s \<longleftrightarrow>
     merging P cap T (ms_new s) (ms_copied s) (drop (ms_fIndex s) fg) (background_left nB s) \<and> ms_fIndex s \<le> length fg \<and>
     (\<forall>i\<ge>nB. \<forall>f\<in>set fg. le_address f + le_count f \<le> le_address (ms_background s i))"

lemma background_left_next:
  "ms_bIndex s < nB \<Longrightarrow> background_left nB s =
     ms_background s (ms_bIndex s) # background_left nB (s\<lparr>ms_bIndex := ms_bIndex s + 1, ms_new := new, ms_copied := c\<rparr>)"
  by (simp add: background_left_def upt_conv_Cons)

lemma background_left_cong [simp]:
  "background_left nB (s\<lparr>ms_new := new\<rparr>) = background_left nB s" "background_left nB (s\<lparr>ms_copied := c\<rparr>) = background_left nB s"
  "background_left nB (s\<lparr>ms_fIndex := i\<rparr>) = background_left nB s"
  by (simp_all add: background_left_def)

lemma background_left_end: "ms_bIndex s \<ge> nB \<Longrightarrow> background_left nB s = []"
  by (simp add: background_left_def)

lemma merging_entries: "merging P cap T new c (f # F) (b # B) \<Longrightarrow> page_entry P f \<and> page_entry P b \<and> le_count f mod P = 0"
  by (simp add: merging_def)

lemma copy_below_stop:
  "\<not> (ms_bIndex s < nB \<and> passes_below (ms_background s (ms_bIndex s)) f) \<Longrightarrow> copy_below nB f s = s"
  by (subst copy_below.simps) (auto simp: Let_def)

lemma copy_below_next:
  "ms_bIndex s < nB \<Longrightarrow> passes_below (ms_background s (ms_bIndex s)) f \<Longrightarrow>
     copy_below nB f s = copy_below nB f (s\<lparr>ms_new := ms_new s @ [ms_background s (ms_bIndex s)], ms_bIndex := ms_bIndex s + 1\<rparr>)"
  by (subst copy_below.simps) (simp add: Let_def)

lemma copy_below_inv:
  assumes "merge_inv P cap T fg nB s" "drop (ms_fIndex s) fg = f # F"
  shows "merge_inv P cap T fg nB (copy_below nB f s) \<and> ms_fIndex (copy_below nB f s) = ms_fIndex s \<and>
    ms_copied (copy_below nB f s) = ms_copied s \<and> ms_bIndex s \<le> ms_bIndex (copy_below nB f s) \<and>
    (ms_bIndex (copy_below nB f s) < nB \<longrightarrow> \<not> passes_below (ms_background (copy_below nB f s) (ms_bIndex (copy_below nB f s))) f)"
  using assms
proof (induction nB f s rule: copy_below.induct)
  case (1 nB f s)
  let ?b = "ms_background s (ms_bIndex s)"
  show ?case
  proof (cases "ms_bIndex s < nB \<and> passes_below ?b f")
    case True
    let ?s = "s\<lparr>ms_new := ms_new s @ [?b], ms_bIndex := ms_bIndex s + 1\<rparr>"
    have B: "background_left nB s = ?b # background_left nB ?s" using True by (simp add: background_left_def upt_conv_Cons)
    have m: "merging P cap T (ms_new s) (ms_copied s) (f # F) (?b # background_left nB ?s)"
      using 1(2,3) unfolding merge_inv_def B by simp
    have below: "le_address ?b + le_count ?b < le_address f"
      using True merging_entries [OF m] passes_below_eq by blast
    have "\<not> ms_copied s" using m below by (auto simp: merging_def)
    with merging_below [OF _ below, of P cap T "ms_new s" F "background_left nB ?s"] m
    have "merge_inv P cap T fg nB ?s" using 1(2,3) by (simp add: merge_inv_def)
    then have ih: "merge_inv P cap T fg nB (copy_below nB f ?s) \<and> ms_fIndex (copy_below nB f ?s) = ms_fIndex ?s \<and>
      ms_copied (copy_below nB f ?s) = ms_copied ?s \<and> ms_bIndex ?s \<le> ms_bIndex (copy_below nB f ?s) \<and>
      (ms_bIndex (copy_below nB f ?s) < nB \<longrightarrow> \<not> passes_below (ms_background (copy_below nB f ?s) (ms_bIndex (copy_below nB f ?s))) f)"
      using 1(1) [OF refl True] 1(3) by simp
    have "copy_below nB f s = copy_below nB f ?s" using True by (intro copy_below_next) simp_all
    with ih show ?thesis by simp
  next
    case False
    then have "copy_below nB f s = s" by (rule copy_below_stop)
    with False 1(2) show ?thesis by auto
  qed
qed

lemma page_entry_data: "page_entry P e \<Longrightarrow> le_opcode e = LoadMapDataPages"
  by (simp add: page_entry_def)

definition merge_measure :: "LoadMapEntry list \<Rightarrow> nat \<Rightarrow> merge_state \<Rightarrow> nat" where
  "merge_measure fg nB s = (length fg - ms_fIndex s) + (nB - ms_bIndex s)"

text \<open>The end of a pass: the foreground entry is finished if nothing of the background meets it any more.\<close>

lemma pass_end:
  assumes m: "merging P cap T (ms_new s) (ms_copied s) (f # F) (background_left nB s)" and f: "drop (ms_fIndex s) fg = f # F"
    and c: "ms_copied s" and junk: "\<forall>i\<ge>nB. \<forall>f\<in>set fg. le_address f + le_count f \<le> le_address (ms_background s i)"
    and fin: "ms_bIndex s \<ge> nB \<or> le_address (ms_background s (ms_bIndex s)) \<ge> le_end f"
  shows "merge_inv P cap T fg nB (s\<lparr>ms_fIndex := ms_fIndex s + 1, ms_copied := False\<rparr>)"
proof -
  have pe: "page_entry P f" using m by (simp add: merging_def)
  have "\<forall>b\<in>set (background_left nB s). le_address f + le_count f \<le> le_address b"
  proof (cases "ms_bIndex s < nB")
    case True
    then have B: "background_left nB s = ms_background s (ms_bIndex s) # tl (background_left nB s)"
      by (simp add: background_left_def upt_conv_Cons)
    then have "page_map P (ms_background s (ms_bIndex s) # tl (background_left nB s))" using m by (simp add: merging_def)
    with True fin le_end_eq [OF pe] have "\<forall>b\<in>set (ms_background s (ms_bIndex s) # tl (background_left nB s)). le_address f + le_count f \<le> le_address b"
      by (auto 0 3 dest: page_entry_pos)
    with B show ?thesis by metis
  qed (simp add: background_left_def)
  from merging_finish [OF m this] c
  have "merging P cap T (ms_new s) False F (background_left nB s)" by simp
  moreover have "ms_fIndex s < length fg" "drop (ms_fIndex s + 1) fg = F"
    using f by (auto simp: drop_Suc intro: ccontr) (metis drop_Suc list.sel(3) tl_drop)
  ultimately show ?thesis using junk by (simp add: merge_inv_def)
qed

lemma merge_pass:
  assumes inv: "merge_inv P cap T fg nB s" and i: "ms_fIndex s < length fg" and P: "0 < P"
  shows "\<exists>s1. merge_step P nB (fg ! ms_fIndex s) s = Inr s1 \<and> merge_inv P cap T fg nB s1 \<and> merge_measure fg nB s1 < merge_measure fg nB s"
proof -
  define f where "f = fg ! ms_fIndex s"
  define F where "F = drop (Suc (ms_fIndex s)) fg"
  have fF: "drop (ms_fIndex s) fg = f # F" using i by (simp add: f_def F_def Cons_nth_drop_Suc)
  define s1 where "s1 = copy_below nB f s"
  have s1: "merge_inv P cap T fg nB s1" "ms_fIndex s1 = ms_fIndex s" "ms_bIndex s \<le> ms_bIndex s1"
      "ms_bIndex s1 < nB \<longrightarrow> \<not> passes_below (ms_background s1 (ms_bIndex s1)) f"
    using copy_below_inv [OF inv fF] by (simp_all add: s1_def)
  let ?b = "ms_background s1 (ms_bIndex s1)"
  define c where "c = ms_copied s1"
  have m: "merging P cap T (ms_new s1) c (f # F) (background_left nB s1)"
    and junk: "\<forall>i\<ge>nB. \<forall>f\<in>set fg. le_address f + le_count f \<le> le_address (ms_background s1 i)"
    using s1(1) fF by (simp_all add: merge_inv_def s1(2) c_def)
  have pf: "page_entry P f" "le_count f mod P = 0" and fin: "f \<in> set fg" using m i by (simp_all add: merging_def f_def)
  have e: "le_end f = le_address f + le_count f" by (rule le_end_eq [OF pf(1)])
  define s2 where "s2 = copy_foreground f (copy_lower_part f s1)"
  have s2: "s2 = s1\<lparr>ms_new := ms_new s1 @ (if le_address ?b < le_address f then [lower_part ?b f] else []) @ (if c then [] else [f]), ms_copied := True\<rparr>"
    by (auto simp: s2_def copy_foreground_def copy_lower_part_def Let_def lower_part_def c_def)
  have step: "merge_step P nB f s = wbind (skip_overlap P f s2) (\<lambda>s2.
     if ms_bIndex s2 \<ge> nB \<or> le_address (ms_background s2 (ms_bIndex s2)) \<ge> le_end f
     then Inr (s2\<lparr>ms_fIndex := ms_fIndex s2 + 1, ms_copied := False\<rparr>) else Inr s2)"
    using page_entry_data [OF pf(1)] by (simp add: merge_step_def Let_def s1_def s2_def)
  have finish: ?thesis
    if k: "skip_overlap P f s2 = Inr s3" "merging P cap T (ms_new s3) True (f # F) (background_left nB s3)" "ms_copied s3"
      and j: "\<forall>i\<ge>nB. \<forall>f\<in>set fg. le_address f + le_count f \<le> le_address (ms_background s3 i)"
      and d: "ms_fIndex s3 = ms_fIndex s1" "ms_bIndex s1 \<le> ms_bIndex s3"
        "ms_bIndex s1 < ms_bIndex s3 \<and> ms_bIndex s1 < nB \<or> ms_bIndex s3 \<ge> nB \<or> le_address (ms_background s3 (ms_bIndex s3)) \<ge> le_end f" for s3
  proof (cases "ms_bIndex s3 \<ge> nB \<or> le_address (ms_background s3 (ms_bIndex s3)) \<ge> le_end f")
    case True
    let ?s = "s3\<lparr>ms_fIndex := ms_fIndex s3 + 1, ms_copied := False\<rparr>"
    have "drop (ms_fIndex s3) fg = f # F" using fF d(1) s1(2) by simp
    from pass_end [OF _ this k(3) j True] have "merge_inv P cap T fg nB ?s" using k(2,3) by simp
    moreover have "merge_step P nB f s = Inr ?s" using step k(1) True by simp
    moreover have "merge_measure fg nB ?s < merge_measure fg nB s" using d s1 i by (simp add: merge_measure_def)
    ultimately show ?thesis unfolding f_def by blast
  next
    case False
    have "merge_inv P cap T fg nB s3" using k(2,3) j d(1) s1(2) fF i by (simp add: merge_inv_def)
    moreover have "merge_step P nB f s = Inr s3" using step k(1) False by simp
    moreover have "merge_measure fg nB s3 < merge_measure fg nB s" using d False s1(2,3) i unfolding merge_measure_def by linarith
    ultimately show ?thesis unfolding f_def by blast
  qed
  consider (none) "ms_bIndex s1 \<ge> nB \<or> le_end f \<le> le_address ?b"
    | (meets) "ms_bIndex s1 < nB" "le_address ?b < le_end f" by linarith
  then show ?thesis
  proof cases
    case none
    let ?B = "background_left nB s1"
    have above: "\<forall>b\<in>set ?B. le_address f + le_count f \<le> le_address b"
    proof (cases "ms_bIndex s1 < nB")
      case True
      then have B: "?B = ?b # tl ?B" by (simp add: background_left_def upt_conv_Cons)
      with m have "page_map P (?b # tl ?B)" by (simp add: merging_def)
      with True none e have "\<forall>b\<in>set (?b # tl ?B). le_address f + le_count f \<le> le_address b" by (auto 0 3)
      with B show ?thesis by metis
    qed (simp add: background_left_def)
    have b: "le_address f + le_count f \<le> le_address ?b" using none junk fin e by fastforce
    then have nl: "\<not> le_address ?b < le_address f" by linarith
    have s2n: "s2 = s1\<lparr>ms_new := ms_new s1 @ (if c then [] else [f]), ms_copied := True\<rparr>" using s2 nl by simp
    have "merging P cap T (ms_new s2) True (f # F) (background_left nB s2)"
      using merging_copy [OF m above] by (simp add: s2n)
    moreover have "skip_overlap P f s2 = Inr s2" using b e by (simp add: skip_overlap_def s2n)
    ultimately show ?thesis using junk none by (intro finish [of s2]) (simp_all add: s2n)
  next
    case meets
    define B where "B = background_left nB (s1\<lparr>ms_bIndex := ms_bIndex s1 + 1\<rparr>)"
    have Bl: "background_left nB s1 = ?b # B" using meets(1) by (simp add: background_left_def upt_conv_Cons B_def)
    have mb: "merging P cap T (ms_new s1) c (f # F) (?b # B)" using m unfolding Bl .
    then have pb: "page_entry P ?b" and pB: "page_map P (?b # B)" by (simp_all add: merging_def)
    have o: "le_address ?b < le_address f + le_count f" "le_address f \<le> le_address ?b + le_count ?b"
      using meets s1(4) passes_below_eq [OF pb pf(1)] e by simp_all
    have new2: "ms_new s2 = ms_new s1 @ overlap_new ?b f c" "ms_bIndex s2 = ms_bIndex s1" "ms_background s2 = ms_background s1"
        "ms_copied s2" "ms_fIndex s2 = ms_fIndex s1"
      by (simp_all add: s2 overlap_new_def)
    show ?thesis
    proof (cases "le_address f + le_count f < le_address ?b + le_count ?b")
      case True
      obtain b1 where b1: "trim_background P ?b f = Some b1" "page_entry P b1" "le_address b1 = le_address f + le_count f"
          "le_address b1 + le_count b1 = le_address ?b + le_count ?b"
          "\<And>a. le_address b1 \<le> a \<Longrightarrow> entry_source P b1 a = entry_source P ?b a"
        using trim_background_facts [OF P pb pf o(1) True] by blast
      let ?s = "s2\<lparr>ms_background := (ms_background s2)(ms_bIndex s2 := b1)\<rparr>"
      have "merging P cap T (ms_new s1 @ overlap_new ?b f c) True (f # F) ([b1] @ B)"
        using b1 pB True o(1) by (intro merging_overlap [OF mb o]) (auto simp: covers_def)
      moreover have "background_left nB ?s = b1 # B"
        using meets(1) by (auto simp: background_left_def upt_conv_Cons B_def new2)
      moreover have "skip_overlap P f s2 = Inr ?s"
        using meets(2) True le_end_eq [OF pb] e b1(1) by (simp add: skip_overlap_def Let_def new2)
      ultimately show ?thesis using junk b1(3) e meets(1) by (intro finish [of ?s]) (simp_all add: new2)
    next
      case False
      let ?s = "s2\<lparr>ms_bIndex := ms_bIndex s2 + 1\<rparr>"
      have "merging P cap T (ms_new s1 @ overlap_new ?b f c) True (f # F) ([] @ B)"
        using pB False by (intro merging_overlap [OF mb o]) (auto simp: covers_def)
      moreover have "background_left nB ?s = B" by (simp add: background_left_def B_def new2)
      moreover have "skip_overlap P f s2 = Inr ?s"
        using meets(2) False le_end_eq [OF pb] e by (simp add: skip_overlap_def Let_def new2)
      ultimately show ?thesis using junk meets(1) by (intro finish [of ?s]) (simp_all add: new2)
    qed
  qed
qed

lemma merge_loop_done: "length fg \<le> ms_fIndex s \<Longrightarrow> merge_loop n P nB fg s = Inr s"
  by (cases n) simp_all

lemma merge_loop_pass: "0 < n \<Longrightarrow> ms_fIndex s < length fg \<Longrightarrow>
    merge_loop n P nB fg s = wbind (merge_step P nB (fg ! ms_fIndex s) s) (merge_loop (n - 1) P nB fg)"
  by (cases n) simp_all

lemma merge_loop_inv:
  "merge_inv P cap T fg nB s \<Longrightarrow> 0 < P \<Longrightarrow> merge_measure fg nB s \<le> fuel \<Longrightarrow>
     \<exists>s1. merge_loop fuel P nB fg s = Inr s1 \<and> merge_inv P cap T fg nB s1 \<and> ms_fIndex s1 = length fg"
proof (induction fuel arbitrary: s)
  case 0
  then show ?case by (auto simp: merge_measure_def merge_inv_def)
next
  case (Suc fuel)
  show ?case
  proof (cases "ms_fIndex s < length fg")
    case True
    obtain s1 where s1: "merge_step P nB (fg ! ms_fIndex s) s = Inr s1" "merge_inv P cap T fg nB s1"
        "merge_measure fg nB s1 < merge_measure fg nB s"
      using merge_pass [OF Suc.prems(1) True Suc.prems(2)] by blast
    then have "merge_measure fg nB s1 \<le> fuel" using Suc.prems(3) by simp
    from Suc.IH [OF s1(2) Suc.prems(2) this] show ?thesis using True s1(1) by simp
  next
    case False
    with Suc.prems(1) show ?thesis by (auto simp: merge_inv_def)
  qed
qed

lemma MergeAMap_maps:
  fixes fmt
  defines "P \<equiv> (if fmt = VLMWorldFormat then VLMPageSizeQs else IvoryPageSizeQs)"
  assumes fg: "page_map P fg" "\<forall>f\<in>set fg. le_count f mod P = 0" and bg: "page_map P bg"
    and junk: "\<forall>i\<ge>length bg. \<forall>f\<in>set fg. le_address f + le_count f \<le> le_address (junk i)"
  obtains new where "MergeAMap fmt fg (length bg) (entry_array junk bg) = Inr new" "page_map P new"
    "length new \<le> length bg + 2 * length fg" "\<And>a. map_source P new a = orelse (map_source P fg a) (map_source P bg a)"
proof -
  define T where "T = (\<lambda>a. orelse (map_source P fg a) (map_source P bg a))"
  define s0 where "s0 = \<lparr>ms_new = [], ms_background = entry_array junk bg, ms_fIndex = 0, ms_bIndex = 0, ms_copied = False\<rparr>"
  have P: "0 < P" by (simp add: P_def VLMPageSizeQs_def IvoryPageSizeQs_def)
  have B: "background_left (length bg) s0 = bg"
    by (auto simp: background_left_def s0_def entry_array_def intro: nth_equalityI)
  have "merge_inv P (length bg + 2 * length fg) T fg (length bg) s0"
    unfolding merge_inv_def B using fg bg junk by (simp add: s0_def merging_def T_def entry_array_def)
  then obtain s1 where s1: "merge_loop (merge_fuel (length fg) (length bg)) P (length bg) fg s0 = Inr s1"
      "merge_inv P (length bg + 2 * length fg) T fg (length bg) s1" "ms_fIndex s1 = length fg"
    using merge_loop_inv [OF _ P, of _ T fg "length bg" s0 "merge_fuel (length fg) (length bg)"]
    by (force simp: merge_measure_def merge_fuel_def s0_def)
  define new where "new = ms_new s1 @ background_left (length bg) s1"
  have m: "merging P (length bg + 2 * length fg) T (ms_new s1) (ms_copied s1) [] (background_left (length bg) s1)"
    using s1(2,3) by (simp add: merge_inv_def)
  then have nc: "\<not> ms_copied s1" by (auto simp: merging_def)
  have "page_map P new" "length new \<le> length bg + 2 * length fg" "map_source P new a = T a" for a
    using m nc by (auto simp: merging_def new_def page_map_append map_source_append)
  moreover have "MergeAMap fmt fg (length bg) (entry_array junk bg) = Inr new"
  proof (cases "length bg + length fg + length fg = 0")
    case True
    have "new = []" using m nc True by (auto simp: merging_def new_def)
    with True show ?thesis by (simp add: MergeAMap_def)
  next
    case False
    then show ?thesis
      using s1(1) unfolding P_def s0_def by (auto simp: MergeAMap_def Let_def new_def background_left_def)
  qed
  ultimately show thesis using that by (simp add: T_def)
qed

end
