(* ===== verification/World_Repave_Facts.thy ===== *)
theory World_Repave_Facts
  imports World_Load_Facts World_Merge_Facts
begin

text \<open>
  The repaving of stack regions keeps every page that exists and leaves no page of a region in an unmapped
  wad; and the merging of load maps along a chain of ancestors.
\<close>

section \<open>Repaving\<close>

text \<open>Words and attributes of the pages that exist, and wads that are mapped, stay.\<close>

definition keeps_pages :: "vmem \<Rightarrow> vmem \<Rightarrow> bool" where
  "keeps_pages m m1 \<longleftrightarrow> (\<forall>a. PageCreated m a \<longrightarrow> words_at m1 a = words_at m a \<and>
     VMAttributeTable m1 (a div MemoryPage_Size) = VMAttributeTable m (a div MemoryPage_Size))"

lemma keeps_pages_refl [simp]: "keeps_pages m m"
  by (simp add: keeps_pages_def)

lemma keeps_pages_Created: "keeps_pages m m1 \<Longrightarrow> PageCreated m a \<Longrightarrow> PageCreated m1 a"
  by (simp add: keeps_pages_def PageCreated_def)

lemma keeps_pages_trans: "keeps_pages m m1 \<Longrightarrow> keeps_pages m1 m2 \<Longrightarrow> keeps_pages m m2"
  using keeps_pages_Created [of m m1] by (simp add: keeps_pages_def)

lemma keeps_pages_wads: "keeps_pages m m1 \<Longrightarrow> WadCreated m vma \<Longrightarrow> WadCreated m1 vma"
  using keeps_pages_Created [of m m1] by (auto simp: WadCreated_iff)

lemma repave_page_keeps:
  assumes "vma mod MemoryPage_Size = 0"
  shows "keeps_pages m (repave_page m vma) \<and> WadCreated (repave_page m vma) vma"
proof (cases "RegionPageExistsP m vma \<or> VirtualAddressWadMappedP m vma")
  case True
  then show ?thesis by (auto simp: repave_page_def RegionPageExistsP_def VirtualAddressWadMappedP_def WadCreated_iff)
next
  case False
  then have w: "\<not> WadCreated m vma" by (simp add: VirtualAddressWadMappedP_def)
  let ?m = "stamp_page (ensure_page m vma False) vma"
  have page: "a div MemoryPage_Size = vma div MemoryPage_Size" if "vma \<le> a" "a < vma + MemoryPage_Size" for a
    using assms that by (intro same_page [of vma MemoryPage_Size]) auto
  have other: "PageCreated m a \<Longrightarrow> a div MemoryPage_Size \<noteq> vma div MemoryPage_Size" for a
    using w by (auto simp: WadCreated_iff wad_of_page)
  have "VMAttributeTable ?m p = VMAttributeTable m p" if "p \<noteq> vma div MemoryPage_Size" for p
    using that by (simp add: stamp_page_def ensure_page_def Let_def SetPageCreated_def fresh_wad_def)
  moreover have "words_at ?m a = words_at m a" if "PageCreated m a" for a
    using ensure_page_keeps(1) [OF that, of vma False] other [OF that] page [of a] by (auto simp: stamp_page_def words_at_def)
  moreover have "PageCreated ?m vma"
    using ensure_page_keeps(2) [of m vma False vma] by (simp add: stamp_page_def PageCreated_def)
  ultimately show ?thesis
    using False other by (auto simp: repave_page_def keeps_pages_def WadCreated_iff)
qed

lemma repave_fold_keeps:
  assumes "\<forall>p\<in>set ps. f p mod MemoryPage_Size = 0"
  shows "keeps_pages m (fold (\<lambda>p m. repave_page m (f p)) ps m) \<and> (\<forall>p\<in>set ps. WadCreated (fold (\<lambda>p m. repave_page m (f p)) ps m) (f p))"
  using assms
proof (induction ps arbitrary: m)
  case (Cons p ps)
  have "f p mod MemoryPage_Size = 0" using Cons.prems by simp
  from repave_page_keeps [OF this, of m] Cons.IH [of "repave_page m (f p)"] Cons.prems
  show ?case by (auto intro: keeps_pages_trans keeps_pages_wads)
qed simp

lemma repave_region_keeps:
  assumes "r_origin r mod MemoryPage_Size = 0"
  shows "keeps_pages m (repave_region m r) \<and>
    (\<forall>page<r_pages r. WadCreated (repave_region m r) (wrap32 (r_origin r + page * MemoryPage_Size)))"
proof -
  have "wrap32 (r_origin r + page * MemoryPage_Size) mod MemoryPage_Size = 0" for page
  proof -
    have "MemoryPage_Size dvd r_origin r + page * MemoryPage_Size" using assms by (simp add: mod_eq_0_iff_dvd)
    moreover have "MemoryPage_Size dvd 2 ^ 32" by (simp add: MemoryPage_Size_def)
    ultimately show ?thesis unfolding wrap32_def by (simp add: dvd_mod mod_eq_0_iff_dvd)
  qed
  then show ?thesis
    using repave_fold_keeps [of "[0..<r_pages r]" "\<lambda>page. wrap32 (r_origin r + page * MemoryPage_Size)" m]
    by (simp add: repave_region_def)
qed

lemma stack_region_origin: "stack_region m o' l f b n = Some r \<Longrightarrow> r_origin r mod MemoryPage_Size = 0"
  by (auto simp: stack_region_def Let_def RegionQuantumAddressShift_def MemoryPage_Size_def split: option.splits if_splits)

text \<open>A region that the tables describe is described by them still when more pages exist.\<close>

lemma ReadRegionTableEntry_keeps:
  "keeps_pages m m1 \<Longrightarrow> ReadRegionTableEntry m base n = Some q \<Longrightarrow> ReadRegionTableEntry m1 base n = Some q"
  using keeps_pages_Created [of m m1 "wrap32 (base + 1 + n)"]
  by (auto simp: ReadRegionTableEntry_def Let_def RegionPageExistsP_def read_uncached_q_def keeps_pages_def words_at_def split: if_splits)

lemma stack_region_keeps:
  assumes "keeps_pages m m1" "stack_region m o' l f b n = Some r"
  shows "stack_region m1 o' l f b n = Some r"
  using assms(2) ReadRegionTableEntry_keeps [OF assms(1)] unfolding stack_region_def
  by (auto split: option.splits if_splits)

lemma repave_nth_keeps:
  "keeps_pages m (repave_nth o' l f b n m) \<and> (\<forall>r. stack_region m o' l f b n = Some r \<longrightarrow>
     (\<forall>page<r_pages r. WadCreated (repave_nth o' l f b n m) (wrap32 (r_origin r + page * MemoryPage_Size))))"
  using repave_region_keeps [OF stack_region_origin] by (auto simp: repave_nth_def split: option.splits)

lemma repave_all_keeps:
  "keeps_pages m (fold (repave_nth o' l f b) ns m) \<and> (\<forall>n\<in>set ns. \<forall>r. stack_region m o' l f b n = Some r \<longrightarrow>
     (\<forall>page<r_pages r. WadCreated (fold (repave_nth o' l f b) ns m) (wrap32 (r_origin r + page * MemoryPage_Size))))"
proof (induction ns arbitrary: m)
  case (Cons n ns)
  let ?m = "repave_nth o' l f b n m"
  note one = repave_nth_keeps [of m o' l f b n] and rest = Cons.IH [of ?m]
  have "stack_region ?m o' l f b k = Some r" if "stack_region m o' l f b k = Some r" for k r
    using one that stack_region_keeps by blast
  with one rest show ?case by (auto intro: keeps_pages_trans keeps_pages_wads)
qed simp

section \<open>Chains of worlds\<close>

text \<open>The youngest world of a chain that has an address decides where its word comes from.\<close>

fun chain_source :: "nat \<Rightarrow> wtable \<Rightarrow> nat list \<Rightarrow> nat \<Rightarrow> (nat \<times> nat) option" where
  "chain_source P ws [] a = None"
| "chain_source P ws (w # chain) a = orelse (map_source P (wiredMapEntries (ws w)) a) (chain_source P ws chain a)"

text \<open>A chain that ends with a base world; each world has a map of whole data pages.\<close>

fun world_chain :: "nat \<Rightarrow> wtable \<Rightarrow> nat list \<Rightarrow> bool" where
  "world_chain P ws [] \<longleftrightarrow> False"
| "world_chain P ws [w] \<longleftrightarrow> sysoutGeneration (ws w) = 0 \<and> page_map P (wiredMapEntries (ws w)) \<and> unwiredMapEntries (ws w) = []"
| "world_chain P ws (w # v # chain) \<longleftrightarrow> sysoutGeneration (ws w) \<noteq> 0 \<and> page_map P (wiredMapEntries (ws w)) \<and>
     (\<forall>e\<in>set (wiredMapEntries (ws w)). le_count e mod P = 0) \<and> unwiredMapEntries (ws w) = [] \<and> w \<notin> set (v # chain) \<and>
     world_chain P ws (v # chain)"

lemma merge_chain:
  assumes "P = (if fmt = VLMWorldFormat then VLMPageSizeQs else IvoryPageSizeQs)" "world_chain P ws chain"
    and "\<forall>i. \<forall>w\<in>set chain. \<forall>e\<in>set (wiredMapEntries (ws w)). le_address e + le_count e \<le> le_address (junk i)"
  shows "\<exists>ws1. MergeParentLoadMap fmt junk ws chain = Inr ws1 \<and> page_map P (mergedWiredMapEntries (ws1 (hd chain))) \<and>
    mergedUnwiredMapEntries (ws1 (hd chain)) = [] \<and>
    (\<forall>a. map_source P (mergedWiredMapEntries (ws1 (hd chain))) a = chain_source P ws chain a) \<and> (\<forall>w. w \<notin> set chain \<longrightarrow> ws1 w = ws w)"
  using assms
proof (induction P ws chain rule: world_chain.induct)
  case (3 P ws w v chain)
  have w: "sysoutGeneration (ws w) \<noteq> 0" "page_map P (wiredMapEntries (ws w))" "\<forall>e\<in>set (wiredMapEntries (ws w)). le_count e mod P = 0"
      "unwiredMapEntries (ws w) = []" "w \<notin> set (v # chain)" "world_chain P ws (v # chain)"
    using "3.prems"(2) by simp_all
  obtain ws1 where ws1: "MergeParentLoadMap fmt junk ws (v # chain) = Inr ws1" "page_map P (mergedWiredMapEntries (ws1 v))"
      "mergedUnwiredMapEntries (ws1 v) = []" "\<And>a. map_source P (mergedWiredMapEntries (ws1 v)) a = chain_source P ws (v # chain) a"
      "\<And>u. u \<notin> set (v # chain) \<Longrightarrow> ws1 u = ws u"
    using "3.IH" [OF "3.prems"(1) w(6)] "3.prems"(3) by auto
  have same: "ws1 w = ws w" using ws1(5) w(5) by simp
  obtain new where new: "MergeAMap fmt (wiredMapEntries (ws w)) (length (mergedWiredMapEntries (ws1 v))) (entry_array junk (mergedWiredMapEntries (ws1 v))) = Inr new"
      "page_map P new" "\<And>a. map_source P new a = orelse (map_source P (wiredMapEntries (ws w)) a) (map_source P (mergedWiredMapEntries (ws1 v)) a)"
    by (rule MergeAMap_maps [of fmt "wiredMapEntries (ws w)" "mergedWiredMapEntries (ws1 v)" junk, folded "3.prems"(1)])
      (use w ws1(2) "3.prems"(3) in auto)
  have "MergeAMap fmt [] 0 (entry_array junk []) = Inr []" by (simp add: MergeAMap_def)
  then have "MergeParentLoadMap fmt junk ws (w # v # chain) =
      Inr (ws1(w := (ws w)\<lparr>mergedWiredMapEntries := new, mergedUnwiredMapEntries := []\<rparr>))"
    using w(1,4) ws1(1,3) new(1) same by simp
  then show ?case using new(2,3) ws1(4,5) by simp
qed (auto simp: own_maps_def)

end
