(* ===== verification/World_Props.thy ===== *)
theory World_Props
  imports World_Save_Facts World_Repave_Facts
begin

text \<open>
  Properties of the world tools: a saved world loads to the words that were saved, the copy operation of a
  load map is the copy of one word after the other, the youngest world of a chain decides what is loaded,
  and the repaving of stack regions; each with a witness on a concrete memory.
\<close>

section \<open>Demonstration memories\<close>

definition blank_memory :: vmem where
  "blank_memory = \<lparr>TagSpace = (\<lambda>_. 0), DataSpace = (\<lambda>_. 0), VMAttributeTable = (\<lambda>_. 0), PageProtection = (\<lambda>_. PROT_NONE), EnableIDS = False,
     stackcachebase = 0, stackcachelimit = 0, stackcachewords = (\<lambda>_. (0, 0))\<rparr>"


section \<open>Saving and loading\<close>








section \<open>Copies\<close>



section \<open>Chains of worlds\<close>




text \<open>
  What happens otherwise: a world whose only entry lies above the only entry of its parent, with zeros in the
  memory after the parent's entries, gets an entry for all the words below its own that no world has.
\<close>

theorem merge_reads_past_end:
  "MergeAMap VLMWorldFormat
     [\<lparr>le_address = 16384, le_count = 8192, le_opcode = LoadMapDataPages, le_data = (Type_Fixnum, 0), le_world = 0\<rparr>] 1
     (entry_array (\<lambda>_. \<lparr>le_address = 0, le_count = 0, le_opcode = 0, le_data = (0, 0), le_world = 7\<rparr>)
        [\<lparr>le_address = 0, le_count = 8192, le_opcode = LoadMapDataPages, le_data = (Type_Fixnum, 0), le_world = 2\<rparr>]) =
   Inr [\<lparr>le_address = 0, le_count = 8192, le_opcode = LoadMapDataPages, le_data = (Type_Fixnum, 0), le_world = 2\<rparr>,
        \<lparr>le_address = 0, le_count = 16384, le_opcode = 0, le_data = (0, 0), le_world = 7\<rparr>,
        \<lparr>le_address = 16384, le_count = 8192, le_opcode = LoadMapDataPages, le_data = (Type_Fixnum, 0), le_world = 0\<rparr>]"
proof -
  let ?f = "\<lparr>le_address = 16384, le_count = 8192, le_opcode = LoadMapDataPages, le_data = (Type_Fixnum, 0), le_world = 0\<rparr>"
  let ?b = "\<lparr>le_address = 0, le_count = 8192, le_opcode = LoadMapDataPages, le_data = (Type_Fixnum, 0), le_world = 2\<rparr>"
  let ?j = "\<lparr>le_address = 0, le_count = 0, le_opcode = 0, le_data = (0, 0), le_world = 7\<rparr>"
  let ?bg = "entry_array (\<lambda>_. ?j) [?b]"
  let ?s0 = "\<lparr>ms_new = [], ms_background = ?bg, ms_fIndex = 0, ms_bIndex = 0, ms_copied = False\<rparr>"
  have ends: "le_end ?f = 24576" "le_end ?b = 8192" "le_end ?j = 0" by (simp_all add: le_end_def wrap32_def)
  have bg: "?bg 0 = ?b" "?bg (Suc 0) = ?j" by (simp_all add: entry_array_def)
  have below: "copy_below (Suc 0) ?f ?s0 = ?s0\<lparr>ms_new := [?b], ms_bIndex := Suc 0\<rparr>"
    by (subst copy_below_next; simp add: bg passes_below_def ends copy_below_stop)
  have step: "merge_step VLMPageSizeQs (Suc 0) ?f ?s0 = Inr (?s0\<lparr>ms_new := [?b, ?j\<lparr>le_count := 16384\<rparr>, ?f], ms_bIndex := 2, ms_fIndex := 1\<rparr>)"
    by (simp add: merge_step_def below Let_def skip_overlap_def copy_lower_part_def copy_foreground_def bg ends)
  have loop: "merge_loop 6 VLMPageSizeQs (Suc 0) [?f] ?s0 =
      Inr (?s0\<lparr>ms_new := [?b, ?j\<lparr>le_count := 16384\<rparr>, ?f], ms_bIndex := 2, ms_fIndex := 1\<rparr>)"
    using step by (simp add: merge_loop_pass merge_loop_done)
  show ?thesis using loop by (simp add: MergeAMap_def Let_def merge_fuel_def)
qed

section \<open>Stack regions\<close>

text \<open>
  C19. After repaving, every page below the free pointer of every stack region lies in a wad that is mapped, and
  the words and attributes of all pages that existed are as they were.
\<close>

theorem stack_regions_repaved:
  assumes "ReadRegionTableBase m RegionOriginTableCell = Some origins" "ReadRegionTableBase m RegionLengthTableCell = Some lengths"
    "ReadRegionTableBase m RegionFreePointerTableCell = Some frees" "ReadRegionTableBase m RegionBitsTableCell = Some bits"
    and "n < RegionTableCapacity" "stack_region m origins lengths frees bits n = Some r" "page < r_pages r"
  shows "VirtualAddressWadMappedP (RepaveStackRegions m) (wrap32 (r_origin r + page * MemoryPage_Size)) \<and>
    keeps_pages m (RepaveStackRegions m)"
  using assms repave_all_keeps [of m origins lengths frees bits "[0..<RegionTableCapacity]"]
  by (simp add: RepaveStackRegions_def VirtualAddressWadMappedP_def)

text \<open>The cells and the tables on one page; region 0 is a stack region at 16 quanta, with a free pointer of 9000 words.\<close>

definition region_demo :: vmem where
  "region_demo = blank_memory\<lparr>
     VMAttributeTable := (\<lambda>p. if p = 0x7C020 then VMAttribute_Exists else 0),
     TagSpace := (\<lambda>a. if a = RegionOriginTableCell \<or> a = RegionLengthTableCell \<or> a = RegionFreePointerTableCell \<or> a = RegionBitsTableCell
        then Type_Array else Type_Fixnum),
     DataSpace := (\<lambda>a. if a = RegionOriginTableCell then 0xF8040000 else if a = RegionLengthTableCell then 0xF8040010
        else if a = RegionFreePointerTableCell then 0xF8040020 else if a = RegionBitsTableCell then 0xF8040030
        else if a = 0xF8040001 then 16 else if a = 0xF8040011 then 1 else if a = 0xF8040021 then 9000
        else if a = 0xF8040031 then 0x20 else 0)\<rparr>"

lemmas region_cells = RegionOriginTableCell_def RegionLengthTableCell_def RegionFreePointerTableCell_def RegionBitsTableCell_def

theorem stack_regions_repaved_witness:
  "VirtualAddressWadMappedP (RepaveStackRegions region_demo) 0x102000 \<and> keeps_pages region_demo (RepaveStackRegions region_demo)"
proof -
  have bases: "ReadRegionTableBase region_demo RegionOriginTableCell = Some 0xF8040000"
      "ReadRegionTableBase region_demo RegionLengthTableCell = Some 0xF8040010"
      "ReadRegionTableBase region_demo RegionFreePointerTableCell = Some 0xF8040020"
      "ReadRegionTableBase region_demo RegionBitsTableCell = Some 0xF8040030"
    by (simp_all add: ReadRegionTableBase_def RegionPageExistsP_def PageCreated_def read_uncached_q_def region_demo_def region_cells
        MemoryPage_Size_def VMAttribute_Exists_def Type_Array_def)
  have r: "stack_region region_demo 0xF8040000 0xF8040010 0xF8040020 0xF8040030 0 = Some \<lparr>r_origin = 0x100000, r_pages = 2\<rparr>"
    by (simp add: stack_region_def ReadRegionTableEntry_def RegionPageExistsP_def PageCreated_def read_uncached_q_def region_demo_def region_cells
        MemoryPage_Size_def VMAttribute_Exists_def Type_Fixnum_def RegionQuantumAddressShift_def RegionBitsStack_def RegionMaxRepavePages_def)
  show ?thesis
    using stack_regions_repaved [OF bases _ r, of 1] by (simp add: RegionTableCapacity_def MemoryPage_Size_def)
qed

end
