(* ===== verification/Guest_Faults.thy ===== *)
theory Guest_Faults
  imports World_Memory
begin

text \<open>
  Protected pages of the guest's memory (\<^verbatim>\<open>src/emulator/memory.c\<close>, the build for Linux on x86-64): the
  state of the page tables, the handler of segmentation violations, and accesses that are tried again
  after the handler noted them. Tags are protected, data are not; an access touches the tag of a word.
\<close>

section \<open>State\<close>

text \<open>
  The memory, the two words that say which zones and ephemeral levels are oldspace, the ring of pages
  that were modified, the last fault and how often it was repeated, and the address of a fault that was
  delivered to Lisp.
\<close>

record guest =
  g_mem :: vmem
  zoneoldspace :: u32
  ephemeraloldspace :: u32
  ResidentPages :: "nat \<Rightarrow> nat"
  ResidentPagesPointer :: nat
  ResidentPagesScan :: nat
  ResidentPagesWrap :: bool
  last_vma :: "nat option"
  times :: nat
  fault_vma :: nat

definition ResidentPages_Size :: nat where "ResidentPages_Size = 16384"

definition g_attr :: "guest \<Rightarrow> nat \<Rightarrow> byte" where
  "g_attr s vma = VMAttributeTable (g_mem s) (vma div MemoryPage_Size)"

definition adjust :: "nat \<Rightarrow> byte \<Rightarrow> guest \<Rightarrow> guest" where
  "adjust vma attr s = s\<lparr>g_mem := AdjustProtection (g_mem s) vma attr\<rparr>"

text \<open>
  What a routine of the emulator comes to: a result; a fault that the handler delivered to Lisp,
  from where the routine does not continue; the end of the program; or arguments outside the model.
\<close>

datatype 'a goutcome = Done 'a | Faulted | Exited | Unmodelled

type_synonym 'a gm = "guest \<Rightarrow> 'a goutcome \<times> guest"

definition greturn :: "'a \<Rightarrow> 'a gm" where
  "greturn x = (\<lambda>s. (Done x, s))"

definition gbind :: "'a gm \<Rightarrow> ('a \<Rightarrow> 'b gm) \<Rightarrow> 'b gm" where
  "gbind f k = (\<lambda>s. case f s of
     (Done x, s1) \<Rightarrow> k x s1 | (Faulted, s1) \<Rightarrow> (Faulted, s1) | (Exited, s1) \<Rightarrow> (Exited, s1) | (Unmodelled, s1) \<Rightarrow> (Unmodelled, s1))"

section \<open>The fault handler\<close>

definition fault_mask :: byte where
  "fault_mask = VMAttribute_TransportFault OR VMAttribute_WriteFault OR VMAttribute_AccessFault"

text \<open>No Lisp fault: the page exists, and has no fault but a transport fault that is disabled.\<close>

definition quiet_attributes :: "byte \<Rightarrow> bool" where
  "quiet_attributes attr \<longleftrightarrow>
     (let a = attr AND (fault_mask OR VMAttribute_TransportDisable OR VMAttribute_Exists) in
      a = VMAttribute_Exists \<or> a = VMAttribute_Exists OR VMAttribute_TransportDisable \<or>
      a = VMAttribute_Exists OR VMAttribute_TransportDisable OR VMAttribute_TransportFault)"

definition note_resident :: "nat \<Rightarrow> guest \<Rightarrow> guest" where
  "note_resident vma s =
     (let p = ResidentPagesPointer s; s1 = s\<lparr>ResidentPages := (ResidentPages s)(p := vma)\<rparr> in
      if p + 1 \<ge> ResidentPages_Size then s1\<lparr>ResidentPagesWrap := True, ResidentPagesPointer := 0\<rparr>
      else s1\<lparr>ResidentPagesPointer := p + 1\<rparr>)"

text \<open>\<open>True\<close> when the access is tried again, \<open>False\<close> when the fault is delivered to Lisp.\<close>

definition fault_switch :: "nat \<Rightarrow> guest \<Rightarrow> bool \<times> guest" where
  "fault_switch vma s =
     (let attr = g_attr s vma in
      if quiet_attributes attr
      then (True, adjust vma (attr OR (VMAttribute_Ephemeral OR VMAttribute_Modified)) (note_resident vma s))
      else (False, s\<lparr>fault_vma := vma\<rparr>))"

definition segv_handler_vlm :: "nat \<Rightarrow> guest \<Rightarrow> bool \<times> guest" where
  "segv_handler_vlm vma s =
     (if last_vma s = Some vma
      then let s1 = s\<lparr>times := times s + 1\<rparr> in
           if times s1 > 10 then (False, s1\<lparr>fault_vma := vma\<rparr>) else fault_switch vma s1
      else fault_switch vma (s\<lparr>last_vma := Some vma, times := 1\<rparr>))"

section \<open>Accesses\<close>

fun permits :: "protection \<Rightarrow> bool \<Rightarrow> bool" where
  "permits PROT_NONE store = False"
| "permits PROT_READ store = (\<not> store)"
| "permits PROT_WRITE store = True"

definition accessible :: "guest \<Rightarrow> nat \<Rightarrow> bool \<Rightarrow> bool" where
  "accessible s vma store \<longleftrightarrow> permits (PageProtection (g_mem s) (vma div MemoryPage_Size)) store"

lemma segv_handler_counts:
  "segv_handler_vlm vma s = (True, s') \<Longrightarrow>
    last_vma s' = Some vma \<and> times s' = (if last_vma s = Some vma then times s + 1 else 1) \<and> times s' \<le> 10"
  by (auto simp: segv_handler_vlm_def fault_switch_def adjust_def note_resident_def Let_def split: if_splits)

text \<open>The access is repeated as long as the handler says so, which the count of repetitions bounds.\<close>

function access :: "nat \<Rightarrow> bool \<Rightarrow> unit gm" where
  "access vma store s =
     (if accessible s vma store then (Done (), s)
      else case segv_handler_vlm vma s of (retry, s1) \<Rightarrow> if retry then access vma store s1 else (Faulted, s1))"
  by pat_completeness auto
termination
proof (relation "measure (\<lambda>(vma, _, s). if last_vma s = Some vma then 11 - times s else 12)", goal_cases)
  case (2 vma store s retry s1)
  then have "segv_handler_vlm vma s = (True, s1)" by simp
  from segv_handler_counts [OF this] show ?case by auto
qed simp

declare access.simps [simp del]

definition set_word_tag :: "nat \<Rightarrow> byte \<Rightarrow> guest \<Rightarrow> guest" where
  "set_word_tag vma tag s = s\<lparr>g_mem := (g_mem s)\<lparr>TagSpace := (TagSpace (g_mem s))(vma := tag)\<rparr>\<rparr>"

definition set_word_data :: "nat \<Rightarrow> u32 \<Rightarrow> guest \<Rightarrow> guest" where
  "set_word_data vma data s = s\<lparr>g_mem := (g_mem s)\<lparr>DataSpace := (DataSpace (g_mem s))(vma := data)\<rparr>\<rparr>"

text \<open>A store of the guest into memory outside the stack cache, tag first, and a load.\<close>

definition guest_store :: "nat \<Rightarrow> Q \<Rightarrow> unit gm" where
  "guest_store vma q = gbind (access vma True) (\<lambda>_ s. (Done (), set_word_data vma (snd q) (set_word_tag vma (fst q) s)))"

definition guest_load :: "nat \<Rightarrow> Q gm" where
  "guest_load vma = gbind (access vma False) (\<lambda>_ s. (Done (TagSpace (g_mem s) vma, DataSpace (g_mem s) vma), s))"

text \<open>
  A run of words is touched page by page, and a run that leaves the address space ends the program.
\<close>

function touch_run :: "nat \<Rightarrow> nat \<Rightarrow> bool \<Rightarrow> unit gm" where
  "touch_run vma count store =
     (if count = 0 then greturn ()
      else if vma \<ge> 2 ^ 32 then (\<lambda>s. (Exited, s))
      else gbind (access vma store) (\<lambda>_.
        let words = MemoryPage_Size - vma mod MemoryPage_Size in touch_run (vma + words) (count - words) store))"
  by pat_completeness auto
termination
proof (relation "measure (\<lambda>(_, count, _). count)", goal_cases)
  case (2 vma count store u words)
  have "vma mod MemoryPage_Size < MemoryPage_Size" by (simp add: MemoryPage_Size_def)
  then show ?case using 2 by simp
qed simp

declare touch_run.simps [simp del]

section \<open>Accesses of the emulator under a changed protection\<close>

text \<open>
  The page is made accessible for the access, and then gets the protection of its attributes. In a wad
  that is not mapped the change of protection fails. The data of a word are stored before its tag.
\<close>

definition reprotect :: "nat \<Rightarrow> guest \<Rightarrow> guest" where
  "reprotect vma s = s\<lparr>g_mem := (g_mem s)\<lparr>PageProtection :=
     (PageProtection (g_mem s))(vma div MemoryPage_Size := ComputeProtection (g_attr s vma))\<rparr>\<rparr>"

definition VirtualMemoryReadUncached :: "nat \<Rightarrow> Q gm" where
  "VirtualMemoryReadUncached vma s =
     (let q = (TagSpace (g_mem s) vma, DataSpace (g_mem s) vma) in
      if permits (ComputeProtection (g_attr s vma)) False
      then gbind (access vma False) (\<lambda>_. greturn q) s
      else if \<not> WadCreated (g_mem s) vma then (Exited, s)
      else (Done q, reprotect vma s))"

definition VirtualMemoryWriteUncached :: "nat \<Rightarrow> Q \<Rightarrow> unit gm" where
  "VirtualMemoryWriteUncached vma q s =
     (if permits (ComputeProtection (g_attr s vma)) True
      then gbind (access vma True) (\<lambda>_ s1. (Done (), set_word_tag vma (fst q) s1)) (set_word_data vma (snd q) s)
      else if \<not> WadCreated (g_mem s) vma then (Exited, s)
      else (Done (), reprotect vma (set_word_tag vma (fst q) (set_word_data vma (snd q) s))))"

section \<open>Flips\<close>

text \<open>
  At a flip, pages are armed: an ephemeral flip (no zone is oldspace) arms the pages of copyspace, for
  which no fault is asked, and those with ephemeral references; a dynamic flip arms every page.
\<close>

definition flip_attributes :: "bool \<Rightarrow> bool \<Rightarrow> byte \<Rightarrow> byte" where
  "flip_attributes dynamic faultp oa =
     (if \<not> dynamic
      then if \<not> faultp then oa OR VMAttribute_TransportFault OR VMAttribute_TransportDisable
           else if oa AND VMAttribute_Ephemeral \<noteq> 0
           then (oa OR VMAttribute_TransportFault) AND NOT VMAttribute_TransportDisable
           else oa AND NOT VMAttribute_TransportDisable AND NOT VMAttribute_TransportFault
      else if \<not> faultp then (oa OR VMAttribute_TransportFault) OR VMAttribute_TransportDisable
           else (oa OR VMAttribute_TransportFault) AND NOT VMAttribute_TransportDisable)"

definition enable_one :: "bool \<Rightarrow> nat \<Rightarrow> guest \<Rightarrow> guest" where
  "enable_one faultp p s =
     (let vma = p * MemoryPage_Size; oa = g_attr s vma; a = flip_attributes (zoneoldspace s \<noteq> 0) faultp oa in
      if oa AND VMAttribute_Exists \<noteq> 0 \<and> a \<noteq> oa then adjust vma a s else s)"

text \<open>The end of the range is computed in 64 bits, and the count is signed.\<close>

definition VirtualMemoryEnable_vlm :: "nat \<Rightarrow> nat \<Rightarrow> bool \<Rightarrow> guest \<Rightarrow> guest" where
  "VirtualMemoryEnable_vlm vma count faultp s =
     (let count64 = (if count < 2 ^ 31 then count else count + 2 ^ 64 - 2 ^ 32);
          elimit = min (((vma + count64 + MemoryPage_Size - 1) mod 2 ^ 64) div MemoryPage_Size) (2 ^ 19)
      in fold (enable_one faultp) [vma div MemoryPage_Size..<elimit] s)"

end
