(* ===== verification/Guest_Scans.thy ===== *)
theory Guest_Scans
  imports Guest_Faults
begin

text \<open>
  The searches and copies of the memory commands, and the scans of the garbage collector for references
  to oldspace in a range of words, for pages with given attributes and for modified pages
  (\<^verbatim>\<open>src/emulator/memory.c\<close>). The searches for types and
  cdr codes read eight tags at a time as one word of 64 bits, least significant first, and shift it.
  Counts are signed: \<open>count\<close> is the value of a 32 bit register.
\<close>

section \<open>Searches for tags\<close>

text \<open>\<open>k\<close> tags from \<open>r\<close> on as one word, the first in its lowest byte; \<open>k\<close> is 8 for the code's words.\<close>

fun pack_tags :: "nat \<Rightarrow> (nat \<Rightarrow> byte) \<Rightarrow> nat \<Rightarrow> u64" where
  "pack_tags 0 T r = 0"
| "pack_tags (Suc k) T r = ucast (T r) OR push_bit 8 (pack_tags k T (r + 1))"

definition tags8 :: "vmem \<Rightarrow> nat \<Rightarrow> u64" where
  "tags8 m r = pack_tags 8 (TagSpace m) r"

definition selected :: "u64 \<Rightarrow> u64 \<Rightarrow> bool" where
  "selected sel i \<longleftrightarrow> drop_bit (unat i) sel AND 1 \<noteq> 0"

text \<open>
  One row, upwards and downwards: the field of each tag selects a bit of the mask, and addresses that
  the search was not asked for are passed over.
\<close>

fun row_up :: "u64 \<Rightarrow> u64 \<Rightarrow> nat \<Rightarrow> nat \<Rightarrow> nat \<Rightarrow> u64 \<Rightarrow> nat \<Rightarrow> nat option" where
  "row_up sel field startvma limitvma 0 tagbits thisvma = None"
| "row_up sel field startvma limitvma (Suc k) tagbits thisvma =
     (if selected sel (tagbits AND field) \<and> startvma \<le> thisvma \<and> thisvma < limitvma then Some thisvma
      else row_up sel field startvma limitvma k (drop_bit 8 tagbits) (thisvma + 1))"

fun row_down :: "u64 \<Rightarrow> u64 \<Rightarrow> nat \<Rightarrow> nat \<Rightarrow> nat \<Rightarrow> u64 \<Rightarrow> nat \<Rightarrow> nat option" where
  "row_down sel field startvma limitvma 0 tagbits thisvma = None"
| "row_down sel field startvma limitvma (Suc k) tagbits thisvma =
     (if selected sel (drop_bit 56 tagbits AND field) \<and> startvma \<ge> thisvma \<and> thisvma > limitvma then Some thisvma
      else row_down sel field startvma limitvma k (push_bit 8 tagbits) (thisvma - 1))"

text \<open>
  The rows. In the last row of the address space the end of the row is 0, so that no tag of it is
  looked at, and the search goes on beyond the tags, where the program ends; so it does downwards in the
  first row. \<open>shift\<close> brings the field of the first tag to the lowest bits.
\<close>

function rows_up :: "u64 \<Rightarrow> u64 \<Rightarrow> nat \<Rightarrow> nat \<Rightarrow> nat \<Rightarrow> nat \<Rightarrow> nat option gm" where
  "rows_up sel field shift startvma limitvma thisvma =
     (if thisvma < limitvma
      then gbind (access thisvma False) (\<lambda>_ s.
        if thisvma + 8 = 2 ^ 32 then (Exited, s)
        else case row_up sel field startvma limitvma 8 (signed_drop_bit shift (tags8 (g_mem s) thisvma)) thisvma of
            Some vma \<Rightarrow> (Done (Some vma), s)
          | None \<Rightarrow> rows_up sel field shift startvma limitvma (thisvma + 8) s)
      else greturn None)"
  by pat_completeness auto
termination by (relation "measure (\<lambda>(_, _, _, _, limitvma, thisvma). limitvma - thisvma)") auto

function rows_down :: "u64 \<Rightarrow> u64 \<Rightarrow> nat \<Rightarrow> nat \<Rightarrow> nat \<Rightarrow> nat \<Rightarrow> nat option gm" where
  "rows_down sel field shift startvma limitvma thisvma =
     (if thisvma > limitvma
      then gbind (access (thisvma - 7) False) (\<lambda>_ s.
        if thisvma < 8 then (Exited, s)
        else case row_down sel field startvma limitvma 8 (signed_drop_bit shift (tags8 (g_mem s) (thisvma - 7))) thisvma of
            Some vma \<Rightarrow> (Done (Some vma), s)
          | None \<Rightarrow> rows_down sel field shift startvma limitvma (thisvma - 8) s)
      else greturn None)"
  by pat_completeness auto
termination by (relation "measure (\<lambda>(_, _, _, _, _, thisvma). thisvma)") auto

declare rows_up.simps [simp del] rows_down.simps [simp del]

definition search_rows :: "u64 \<Rightarrow> u64 \<Rightarrow> nat \<Rightarrow> nat \<Rightarrow> nat \<Rightarrow> nat option gm" where
  "search_rows sel field shift vma count =
     (let limitvma = wrap32 (vma + count) in
      if 0 < count \<and> count < 2 ^ 31 then rows_up sel field shift vma limitvma (vma - vma mod 8)
      else rows_down sel field shift vma limitvma (vma - vma mod 8 + 7))"

definition VirtualMemorySearchType :: "nat \<Rightarrow> nat \<Rightarrow> u64 \<Rightarrow> nat option gm" where
  "VirtualMemorySearchType vma count type_mask = search_rows type_mask 0x3F 0 vma count"

definition VirtualMemorySearchCDR :: "nat \<Rightarrow> nat \<Rightarrow> u32 \<Rightarrow> nat option gm" where
  "VirtualMemorySearchCDR vma count cdr_mask = search_rows (ucast cdr_mask) 0x3 6 vma count"

section \<open>Search for a word\<close>

function search_words :: "Q \<Rightarrow> nat \<Rightarrow> nat \<Rightarrow> nat option gm" where
  "search_words object tag etag =
     (if tag < etag
      then gbind (access tag False) (\<lambda>_ s.
        if (fst object XOR TagSpace (g_mem s) tag) AND 0x3F = 0 \<and> DataSpace (g_mem s) tag = snd object
        then (Done (Some tag), s) else search_words object (tag + 1) etag s)
      else greturn None)"
  by pat_completeness auto
termination by (relation "measure (\<lambda>(_, tag, etag). etag - tag)") auto

declare search_words.simps [simp del]

definition VirtualMemorySearch_vlm :: "nat \<Rightarrow> Q \<Rightarrow> nat \<Rightarrow> nat option gm" where
  "VirtualMemorySearch_vlm vma object count = search_words object vma (wrap32 (vma + count))"

section \<open>Copies\<close>

text \<open>A count as an argument of the C library: a negative one is enormous.\<close>

definition size_of_count :: "nat \<Rightarrow> nat" where
  "size_of_count count = (if count < 2 ^ 31 then count else count + 2 ^ 64 - 2 ^ 32)"

text \<open>
  The pages are touched before anything is stored, those of the source first: what a copy that a fault cuts
  short has already stored is left out.
\<close>

definition copy_tags :: "nat \<Rightarrow> nat \<Rightarrow> nat \<Rightarrow> vmem \<Rightarrow> vmem" where
  "copy_tags from to n m = m\<lparr>TagSpace := (\<lambda>a. if to \<le> a \<and> a < to + n then TagSpace m (from + (a - to)) else TagSpace m a)\<rparr>"

definition copy_data :: "nat \<Rightarrow> nat \<Rightarrow> nat \<Rightarrow> vmem \<Rightarrow> vmem" where
  "copy_data from to n m = m\<lparr>DataSpace := (\<lambda>a. if to \<le> a \<and> a < to + n then DataSpace m (from + (a - to)) else DataSpace m a)\<rparr>"

definition VirtualMemoryCopy_vlm :: "nat \<Rightarrow> nat \<Rightarrow> nat \<Rightarrow> bool gm" where
  "VirtualMemoryCopy_vlm from to count =
     (let n = size_of_count count in
      gbind (touch_run from n False) (\<lambda>_. gbind (touch_run to n True) (\<lambda>_ s.
        (Done True, s\<lparr>g_mem := copy_data from to n (copy_tags from to n (g_mem s))\<rparr>))))"

definition Type_GCForward :: byte where "Type_GCForward = 37"

text \<open>The tag of a word that was copied: the type with the cdr code \<^verbatim>\<open>Cdr_Nil\<close>.\<close>

definition forwarded_tag :: byte where "forwarded_tag = Type_GCForward OR push_bit 6 1"

definition fill_tags :: "nat \<Rightarrow> nat \<Rightarrow> byte \<Rightarrow> vmem \<Rightarrow> vmem" where
  "fill_tags vma n tag m = m\<lparr>TagSpace := (\<lambda>a. if vma \<le> a \<and> a < vma + n then tag else TagSpace m a)\<rparr>"

text \<open>The loop over the data, one word at a time: copy a word, leave its new address.\<close>

fun forward_data :: "nat \<Rightarrow> nat \<Rightarrow> nat \<Rightarrow> vmem \<Rightarrow> vmem" where
  "forward_data from to 0 m = m"
| "forward_data from to (Suc n) m =
     forward_data (from + 1) (to + 1) n
       (m\<lparr>DataSpace := ((DataSpace m)(to := DataSpace m from))(from := of_nat to)\<rparr>)"

text \<open>
  \<^verbatim>\<open>memccpy\<close> copies tags up to the first one that is exactly the type, with a cdr code of 0: if there is one
  the copy fails, and the tags are copied up to it. The loop over the data ends at once when the end of
  the range wraps to 0.
\<close>

definition VirtualMemoryCopyandForward :: "nat \<Rightarrow> nat \<Rightarrow> nat \<Rightarrow> bool gm" where
  "VirtualMemoryCopyandForward from to count s =
     (let n = size_of_count count; reach = min n (2 ^ 32 - max from to) in
      case find (\<lambda>i. TagSpace (g_mem s) (from + i) = Type_GCForward) [0..<reach] of
        Some i \<Rightarrow> gbind (touch_run from (i + 1) False) (\<lambda>_. gbind (touch_run to (i + 1) True) (\<lambda>_ s1.
          (Done False, s1\<lparr>g_mem := copy_tags from to (i + 1) (g_mem s1)\<rparr>))) s
      | None \<Rightarrow> gbind (touch_run from n False) (\<lambda>_. gbind (touch_run to n True) (\<lambda>_. gbind (touch_run from n True) (\<lambda>_ s1.
          (Done True, s1\<lparr>g_mem := forward_data from to (uncached_count from n)
                       (fill_tags from n forwarded_tag (copy_tags from to n (g_mem s1)))\<rparr>)))) s)"

section \<open>References to oldspace\<close>

definition pointertypes :: u64 where "pointertypes = 0x0000FFF4FFFFF8F7"

definition PointerP :: "u64 \<Rightarrow> bool" where
  "PointerP tagbits \<longleftrightarrow> selected pointertypes (tagbits AND 0x3F)"

definition EphemeralAddressP_vlm :: "u32 \<Rightarrow> bool" where
  "EphemeralAddressP_vlm vma \<longleftrightarrow> drop_bit 27 vma = 0"

text \<open>The bits of the ephemeral levels, with their complements in the low half.\<close>

definition ephemeraloldbits :: "guest \<Rightarrow> u64" where
  "ephemeraloldbits s =
     (let bits = ucast (ephemeraloldspace s) :: u64 in push_bit 32 bits OR (NOT bits AND 0xFFFFFFFF))"

definition EphemeralOldspaceP :: "u32 \<Rightarrow> u64 \<Rightarrow> bool" where
  "EphemeralOldspaceP vma oldbits \<longleftrightarrow> drop_bit (unat (drop_bit 21 vma)) oldbits AND 1 \<noteq> 0"

definition ZoneOldspaceP :: "u32 \<Rightarrow> u64 \<Rightarrow> bool" where
  "ZoneOldspaceP vma oldbits \<longleftrightarrow> drop_bit (unat (drop_bit 27 vma AND 0x1F)) oldbits AND 1 \<noteq> 0"

definition oldspace_word :: "guest \<Rightarrow> u32 \<Rightarrow> bool" where
  "oldspace_word s word \<longleftrightarrow>
     (if EphemeralAddressP_vlm word then EphemeralOldspaceP word (ephemeraloldbits s)
      else ZoneOldspaceP word (ucast (zoneoldspace s)))"

section \<open>Scanning part of a page\<close>

text \<open>
  A row of eight words. In the update phase the row ends the scan at the first ephemeral reference;
  otherwise it finds a reference to oldspace, if the scan was asked for its address, and notes ephemeral ones.
\<close>

datatype row_result = Next bool | Stop | Oldspace nat

fun scan_row :: "guest \<Rightarrow> bool \<Rightarrow> nat \<Rightarrow> nat \<Rightarrow> nat \<Rightarrow> u64 \<Rightarrow> nat \<Rightarrow> bool \<Rightarrow> row_result" where
  "scan_row s update scanvma endvma 0 tagbits thisvma ephemeral = Next ephemeral"
| "scan_row s update scanvma endvma (Suc k) tagbits thisvma ephemeral =
     (let word = DataSpace (g_mem s) thisvma;
          continue = scan_row s update scanvma endvma k (drop_bit 8 tagbits) (thisvma + 1) in
      if \<not> PointerP tagbits then continue ephemeral
      else if update
      then if ephemeral \<or> EphemeralAddressP_vlm word then Stop else continue ephemeral
      else if oldspace_word s word \<and> scanvma \<le> thisvma \<and> thisvma < endvma then Oldspace thisvma
      else continue (ephemeral \<or> EphemeralAddressP_vlm word))"

text \<open>
  The rows from \<open>thisvma\<close> on, below the limit: an address, or whether there was an ephemeral reference.
\<close>

function scan_rows :: "bool \<Rightarrow> nat \<Rightarrow> nat \<Rightarrow> nat \<Rightarrow> nat \<Rightarrow> bool \<Rightarrow> (nat + bool) gm" where
  "scan_rows update scanvma endvma limitvma thisvma ephemeral =
     (if thisvma < limitvma
      then gbind (access thisvma False) (\<lambda>_ s.
        case scan_row s update scanvma endvma 8 (tags8 (g_mem s) thisvma) thisvma ephemeral of
            Oldspace vma \<Rightarrow> (Done (Inl vma), s) | Stop \<Rightarrow> (Done (Inr True), s)
          | Next e \<Rightarrow> scan_rows update scanvma endvma limitvma (thisvma + 8) e s)
      else greturn (Inr ephemeral))"
  by pat_completeness auto
termination by (relation "measure (\<lambda>(_, _, _, limitvma, thisvma, _). limitvma - thisvma)") auto

declare scan_rows.simps [simp del]

text \<open>The page was scanned: it needs no fault any more, and the ephemeral bit is known.\<close>

definition scanned_attributes :: "bool \<Rightarrow> byte \<Rightarrow> byte" where
  "scanned_attributes ephemeral oa =
     (let a = oa AND NOT VMAttribute_TransportFault AND NOT VMAttribute_TransportDisable in
      if ephemeral then a OR VMAttribute_Ephemeral else a AND NOT VMAttribute_Ephemeral)"

definition page_scanned :: "nat \<Rightarrow> bool \<Rightarrow> guest \<Rightarrow> guest" where
  "page_scanned vma ephemeral s =
     (let oa = g_attr s vma; a = scanned_attributes ephemeral oa in if a \<noteq> oa then adjust vma a s else s)"

text \<open>
  The words asked for are scanned, and unless this is an update already, an update pass goes over the
  words of the page before them.
\<close>

definition ScanPage :: "nat \<Rightarrow> nat \<Rightarrow> bool \<Rightarrow> nat option gm" where
  "ScanPage scanvma count update =
     (let startvma = scanvma - scanvma mod MemoryPage_Size; endvma = scanvma + count in
      gbind (scan_rows update scanvma endvma endvma (scanvma - scanvma mod 8) False) (\<lambda>r.
        case r of Inl vma \<Rightarrow> greturn (Some vma)
        | Inr ephemeral \<Rightarrow>
            if update then (\<lambda>s. (Done None, page_scanned scanvma ephemeral s))
            else gbind (scan_rows True scanvma endvma scanvma startvma ephemeral) (\<lambda>r2.
              case r2 of Inl vma \<Rightarrow> greturn (Some vma)
              | Inr e \<Rightarrow> (\<lambda>s. (Done None, page_scanned scanvma e s)))))"

text \<open>The scan for debugging: one word at a time, without any update.\<close>

function SlowScanPage :: "nat \<Rightarrow> nat \<Rightarrow> nat option gm" where
  "SlowScanPage scanvma count =
     (if count = 0 then greturn None
      else gbind (access scanvma False) (\<lambda>_ s.
        if PointerP (ucast (TagSpace (g_mem s) scanvma)) \<and> oldspace_word s (DataSpace (g_mem s) scanvma)
        then (Done (Some scanvma), s) else SlowScanPage (scanvma + 1) (count - 1) s))"
  by pat_completeness auto
termination by (relation "measure (\<lambda>(_, count). count)") auto

declare SlowScanPage.simps [simp del]

section \<open>Scanning a range\<close>

definition scan_mask :: "guest \<Rightarrow> bool \<Rightarrow> byte" where
  "scan_mask s slowp =
     (if slowp then VMAttribute_Exists
      else if zoneoldspace s = 0 then VMAttribute_Ephemeral OR VMAttribute_TransportFault
      else VMAttribute_Exists OR VMAttribute_TransportFault)"

text \<open>Faults of a page are disabled before it is looked at; the memory of the attributes is stored directly after it.\<close>

definition disable_faults :: "nat \<Rightarrow> guest \<Rightarrow> guest" where
  "disable_faults vma s =
     (let a = g_attr s vma in
      if a AND VMAttribute_TransportFault \<noteq> 0 \<and> a AND VMAttribute_TransportDisable = 0
      then adjust vma (a OR VMAttribute_TransportDisable) s else s)"

definition store_attributes :: "nat \<Rightarrow> byte \<Rightarrow> guest \<Rightarrow> guest" where
  "store_attributes vma a s = s\<lparr>g_mem := (g_mem s)\<lparr>VMAttributeTable :=
     (VMAttributeTable (g_mem s))(vma div MemoryPage_Size := a)\<rparr>\<rparr>"

definition skip_page :: "nat \<Rightarrow> guest \<Rightarrow> guest" where
  "skip_page vma s = store_attributes vma
     (g_attr s vma AND NOT VMAttribute_TransportFault AND NOT VMAttribute_TransportDisable) s"

text \<open>The pages of a range, of which the first is scanned for \<open>whack\<close> words; a range beyond the table of attributes is not modelled.\<close>

function scan_pages :: "byte \<Rightarrow> bool \<Rightarrow> bool \<Rightarrow> nat \<Rightarrow> nat \<Rightarrow> nat \<Rightarrow> nat option gm" where
  "scan_pages sel slowp update scanvma count whack s =
     (if count = 0 then (Done None, s)
      else if scanvma \<ge> 2 ^ 32 then (Unmodelled, s)
      else let s1 = disable_faults scanvma s;
               next = (\<lambda>s2. if whack = 0 then (Done None, s2)
                     else scan_pages sel slowp update (scanvma + whack) (count - whack)
                            (min MemoryPage_Size (count - whack)) s2) in
           if g_attr s1 scanvma AND sel = sel
           then gbind (if slowp then SlowScanPage scanvma whack else ScanPage scanvma whack update)
                  (\<lambda>r. case r of Some vma \<Rightarrow> greturn (Some vma) | None \<Rightarrow> next) s1
           else next (if slowp then s1 else skip_page scanvma s1))"
  by pat_completeness auto
termination by (relation "measure (\<lambda>(_, _, _, _, count, _, _). count)") auto

declare scan_pages.simps [simp del]

text \<open>
  A count of 0 at the start of a page stands for the page before, whose ephemeral bit is brought up to date.
\<close>

definition VirtualMemoryScan_vlm :: "nat \<Rightarrow> nat \<Rightarrow> bool \<Rightarrow> nat option gm" where
  "VirtualMemoryScan_vlm vma count slowp s =
     (let sel = scan_mask s slowp; whack = MemoryPage_Size - vma mod MemoryPage_Size in
      if count \<ge> 2 ^ 31 then (Done None, s)
      else if count = 0 \<and> vma mod MemoryPage_Size = 0
      then scan_pages sel slowp True (wrap32 (vma + 2 ^ 32 - MemoryPage_Size)) MemoryPage_Size MemoryPage_Size s
      else scan_pages sel slowp False vma count (min whack count) s)"

section \<open>Pages with given attributes\<close>

definition attributes_match :: "byte \<Rightarrow> bool \<Rightarrow> byte \<Rightarrow> bool" where
  "attributes_match sel sense attr \<longleftrightarrow> (if sense then attr AND sel = sel else attr AND sel \<noteq> sel)"

text \<open>Wads without a page are passed over; each takes the words of a wad off the count.\<close>

function skip_wads :: "vmem \<Rightarrow> nat \<Rightarrow> int \<Rightarrow> nat \<times> int" where
  "skip_wads m wad n =
     (if wad < 2 ^ 16 \<and> n > 0 \<and> \<not> WadCreated m (wad * MemoryWad_Size)
      then skip_wads m (wad + 1) (n - int MemoryWad_Size) else (wad, n))"
  by pat_completeness auto
termination by (relation "measure (\<lambda>(_, wad, _). 2 ^ 16 - wad)") auto

function pht_pages :: "vmem \<Rightarrow> byte \<Rightarrow> bool \<Rightarrow> nat \<Rightarrow> int \<Rightarrow> nat option" where
  "pht_pages m sel sense attr n =
     (if attr < 2 ^ 19 \<and> n > 0
      then if attributes_match sel sense (VMAttributeTable m attr) then Some (attr * MemoryPage_Size)
           else pht_pages m sel sense (attr + 1) (n - int MemoryPage_Size)
      else None)"
  by pat_completeness auto
termination by (relation "measure (\<lambda>(_, _, _, attr, _). 2 ^ 19 - attr)") auto

declare skip_wads.simps [simp del] pht_pages.simps [simp del]

definition VirtualMemoryPHTScan :: "vmem \<Rightarrow> nat \<Rightarrow> nat \<Rightarrow> byte \<Rightarrow> bool \<Rightarrow> nat option" where
  "VirtualMemoryPHTScan m vma count sel sense =
     (let (wad, n) = skip_wads m (vma div MemoryWad_Size) (int count + int (vma mod MemoryPage_Size))
      in pht_pages m sel sense (max (vma div MemoryPage_Size) (8 * wad)) n)"

text \<open>
  The pages noted by the fault handler, from where the last scan stopped: the entry found and how many are
  left with it. When none is left the ring is emptied.
\<close>

definition VirtualMemoryResidentScan :: "byte \<Rightarrow> bool \<Rightarrow> guest \<Rightarrow> (nat \<times> nat) option \<times> guest" where
  "VirtualMemoryResidentScan sel sense s =
     (let escan = (if ResidentPagesWrap s then ResidentPages_Size else ResidentPagesPointer s) in
      case find (\<lambda>i. attributes_match sel sense (g_attr s (ResidentPages s i))) [ResidentPagesScan s..<escan] of
        Some i \<Rightarrow> (Some (ResidentPages s i, escan - i), s\<lparr>ResidentPagesScan := i + 1\<rparr>)
      | None \<Rightarrow> (None, s\<lparr>ResidentPagesPointer := 0, ResidentPagesScan := 0, ResidentPagesWrap := False\<rparr>))"

end
