(* ===== verification/Guest_Commands.thy ===== *)
theory Guest_Commands
  imports Guest_Scans
begin

text \<open>
  The commands that the guest gives its memory (\<^verbatim>\<open>VMCommand\<close> of \<^verbatim>\<open>src/emulator/memory.c\<close>), and the steps of
  the memory: commands and accesses of the guest, and accesses of the emulator to single words.
\<close>

section \<open>Commands\<close>

text \<open>The registers of the interface; addresses and counts as naturals below 2 to the 32.\<close>

record VMRegisters =
  AddressRegister_vlm :: nat
  ExtentRegister_vlm :: nat
  AttributesRegister_vlm :: u32
  DestinationRegister_vlm :: nat
  DataRegister_vlm :: Q
  MaskRegisterLow :: u32
  MaskRegisterHigh :: u32

definition CommandOpcode :: "u32 \<Rightarrow> nat" where
  "CommandOpcode command = unat (drop_bit 19 command)"

definition CommandOperand :: "u32 \<Rightarrow> nat" where
  "CommandOperand command = unat (command AND 0x7FFFF)"

definition ReplyResult :: "u32 \<Rightarrow> bool \<Rightarrow> u32" where
  "ReplyResult reply result = push_bit 19 (if result then 0 else 1) OR (reply AND NOT (push_bit 19 0x1FFF))"

text \<open>How many pages a range of a register's extent touches, in 32 bits.\<close>

definition extent_pages :: "nat \<Rightarrow> nat \<Rightarrow> nat" where
  "extent_pages vma extent = wrap32 (extent + vma mod MemoryPage_Size + (MemoryPage_Size - 1)) div MemoryPage_Size"

definition vm_create :: "nat \<Rightarrow> nat \<Rightarrow> bool \<Rightarrow> guest \<Rightarrow> guest \<times> nat" where
  "vm_create vma extent faultp s =
     (if WadCreated (g_mem s) vma \<and> (extent \<ge> 2 ^ 31 \<or> vma mod MemoryPage_Size + extent \<le> MemoryPage_Size)
      then (s\<lparr>g_mem := SetPageCreated (g_mem s) vma faultp False\<rparr>, MemoryPage_Size)
      else let pages = extent_pages vma extent in
           (s\<lparr>g_mem := ensure_pages (g_mem s) vma pages faultp\<rparr>, wrap32 (pages * MemoryPage_Size)))"

definition vm_destroy :: "nat \<Rightarrow> nat \<Rightarrow> guest \<Rightarrow> guest \<times> nat" where
  "vm_destroy vma extent s =
     (let (m, n) = destroy_each_page (g_mem s) vma (extent_pages vma extent) in (s\<lparr>g_mem := m\<rparr>, wrap32 n))"

text \<open>The bits that say whether a page exists and was modified are not Lisp's to change.\<close>

definition merge_attributes :: "byte \<Rightarrow> byte \<Rightarrow> byte" where
  "merge_attributes attr nattr =
     (let kept = VMAttribute_Exists OR VMAttribute_Modified in (nattr AND NOT kept) OR (attr AND kept))"

definition vm_write_attributes :: "nat \<Rightarrow> u32 \<Rightarrow> guest \<Rightarrow> bool \<times> guest" where
  "vm_write_attributes vpn register s =
     (let vma = vpn * MemoryPage_Size; attr = g_attr s vma; nattr = merge_attributes attr (ucast register) in
      if attr AND VMAttribute_Exists = 0 then (False, s)
      else (True, if attr \<noteq> nattr then adjust vma nattr s else s))"

text \<open>Filling touches the words outside the stack cache; extents that are negative counts are not modelled.\<close>

definition vm_fill :: "nat \<Rightarrow> Q \<Rightarrow> nat \<Rightarrow> nat \<Rightarrow> unit gm" where
  "vm_fill vma q count increment s =
     (if count \<ge> 2 ^ 31 then (Unmodelled, s)
      else let pc = below_cache (g_mem s) vma count; a = wrap32 (vma + pc); c = count - pc;
               k = cached_run (g_mem s) a c
           in gbind (touch_run vma pc True) (\<lambda>_. gbind (touch_run (wrap32 (a + k)) (c - k) True) (\<lambda>_ s1.
                (Done (), s1\<lparr>g_mem := write_block_constant (g_mem s1) vma q count increment\<rparr>))) s)"

text \<open>The reply of a search, which moves the address register when it found something.\<close>

definition search_reply :: "VMRegisters \<Rightarrow> nat option \<Rightarrow> u32 \<times> VMRegisters" where
  "search_reply vm r = (case r of Some vma \<Rightarrow> (ReplyResult 0 True, vm\<lparr>AddressRegister_vlm := vma\<rparr>)
                                | None \<Rightarrow> (ReplyResult 0 False, vm))"

definition VMCommand_vlm :: "u32 \<Rightarrow> VMRegisters \<Rightarrow> (u32 \<times> VMRegisters) gm" where
  "VMCommand_vlm command vm s =
     (let opcode = CommandOpcode command; operand = CommandOperand command;
          vma = AddressRegister_vlm vm; extent = ExtentRegister_vlm vm; destination = DestinationRegister_vlm vm;
          vpn = vma div MemoryPage_Size; reply = (\<lambda>r. greturn (search_reply vm r)) in
      if opcode = 0 then (Done (ReplyResult (of_nat vpn) (g_attr s vma AND VMAttribute_Exists \<noteq> 0), vm), s)
      else if opcode = 1 then
        (let (s1, n) = vm_create vma extent (operand \<noteq> 0) s in
         (Done (ReplyResult (of_nat vpn) True, vm\<lparr>ExtentRegister_vlm := n\<rparr>), s1))
      else if opcode = 2 then
        (let (s1, n) = vm_destroy vma extent s in (Done (ReplyResult 0 True, vm\<lparr>ExtentRegister_vlm := n\<rparr>), s1))
      else if opcode = 3 then
        (let attr = VMAttributeTable (g_mem s) operand in
         if attr AND VMAttribute_Exists \<noteq> 0
         then (Done (ReplyResult command True, vm\<lparr>AttributesRegister_vlm := ucast attr\<rparr>), s)
         else (Done (ReplyResult command False, vm), s))
      else if opcode = 4 then
        (let (exists, s1) = vm_write_attributes operand (AttributesRegister_vlm vm) s in (Done (ReplyResult command exists, vm), s1))
      else if opcode = 5 then
        gbind (vm_fill vma (DataRegister_vlm vm) extent operand) (\<lambda>_. greturn (ReplyResult 0 True, vm)) s
      else if opcode = 6 then gbind (VirtualMemorySearch_vlm vma (DataRegister_vlm vm) extent) reply s
      else if opcode = 7 then
        gbind (VirtualMemoryCopy_vlm vma destination extent) (\<lambda>r. greturn (ReplyResult 0 r, vm)) s
      else if opcode = 8 then gbind (VirtualMemoryScan_vlm vma extent (operand \<noteq> 0)) reply s
      else if opcode = 9 then (Done (ReplyResult 0 True, vm), VirtualMemoryEnable_vlm vma extent (operand \<noteq> 0) s)
      else if opcode = 10 then
        reply (VirtualMemoryPHTScan (g_mem s) vma extent (ucast (AttributesRegister_vlm vm)) (operand \<noteq> 0)) s
      else if opcode = 11 then
        gbind (VirtualMemoryCopyandForward vma destination extent) (\<lambda>r. greturn (ReplyResult 0 r, vm)) s
      else if opcode = 12 then
        (case VirtualMemoryResidentScan (ucast (AttributesRegister_vlm vm)) (operand \<noteq> 0) s of
           (Some (a, n), s1) \<Rightarrow> (Done (ReplyResult 0 True, vm\<lparr>AddressRegister_vlm := a, ExtentRegister_vlm := n\<rparr>), s1)
         | (None, s1) \<Rightarrow> (Done (ReplyResult 0 False, vm), s1))
      else if opcode = 13 then
        gbind (VirtualMemorySearchType vma extent (push_bit 32 (ucast (MaskRegisterHigh vm)) OR ucast (MaskRegisterLow vm))) reply s
      else if opcode = 14 then gbind (VirtualMemorySearchCDR vma extent (MaskRegisterLow vm)) reply s
      else (Done (ReplyResult 0 False, vm), s))"

section \<open>Steps of the memory\<close>

text \<open>At the start no page exists, and the ring of modified pages is empty.\<close>

definition guest_initial :: "guest \<Rightarrow> bool" where
  "guest_initial s \<longleftrightarrow> (\<forall>p. VMAttributeTable (g_mem s) p = 0) \<and> ResidentPagesPointer s = 0 \<and> ResidentPagesScan s = 0 \<and>
     \<not> ResidentPagesWrap s \<and> last_vma s = None"

text \<open>
  A step is one command, access or change of the oldspace registers, whatever its outcome; and the loading
  of part of a world file.
\<close>

inductive guest_step :: "guest \<Rightarrow> guest \<Rightarrow> bool" where
  gs_command: "VMCommand_vlm command vm s = (r, s') \<Longrightarrow> guest_step s s'"
| gs_store: "guest_store vma q s = (r, s') \<Longrightarrow> guest_step s s'"
| gs_load: "guest_load vma s = (r, s') \<Longrightarrow> guest_step s s'"
| gs_read: "VirtualMemoryReadUncached vma s = (r, s') \<Longrightarrow> guest_step s s'"
| gs_write: "VirtualMemoryWriteUncached vma q s = (r, s') \<Longrightarrow> guest_step s s'"
| gs_flip: "guest_step s (s\<lparr>zoneoldspace := z, ephemeraloldspace := e\<rparr>)"
| gs_world: "MapWorldLoad (g_mem s) f vma len dataoffset tagoffset = Some m \<Longrightarrow> guest_step s (s\<lparr>g_mem := m\<rparr>)"

inductive_simps guest_step_iff: "guest_step s s'"

end
