(* ===== verification/Guest_Facts.thy ===== *)
theory Guest_Facts
  imports Guest_Commands World_Load_Facts
begin

text \<open>
  The table of attributes and the protection of pages by the host stay in step: attributes by their bits, what each
  operation of the memory keeps, and every step. An operation keeps what its accesses and its own
  changes keep (\<open>gkeeps\<close>).
\<close>

section \<open>Attributes by their bits\<close>

lemma byte_eq_bits: "(x :: byte) = y \<longleftrightarrow> (\<forall>n\<in>{0,1,2,3,4,5,6,7}. bit x n = bit y n)"
proof
  assume h: "\<forall>n\<in>{0,1,2,3,4,5,6,7}. bit x n = bit y n"
  show "x = y"
  proof (rule bit_word_eqI)
    fix n :: nat assume "n < LENGTH(8)"
    then have "n \<in> {0,1,2,3,4,5,6,7}" by auto
    with h show "bit x n = bit y n" by blast
  qed
qed simp

lemmas attribute_defs = VMAttribute_AccessFault_def VMAttribute_WriteFault_def VMAttribute_TransportFault_def
  VMAttribute_TransportDisable_def VMAttribute_Ephemeral_def VMAttribute_Modified_def VMAttribute_Exists_def

lemma attribute_bit:
  "bit VMAttribute_AccessFault n \<longleftrightarrow> n = 0" "bit VMAttribute_WriteFault n \<longleftrightarrow> n = 1" "bit VMAttribute_TransportFault n \<longleftrightarrow> n = 2"
  "bit VMAttribute_TransportDisable n \<longleftrightarrow> n = 3" "bit VMAttribute_Ephemeral n \<longleftrightarrow> n = 4" "bit VMAttribute_Modified n \<longleftrightarrow> n = 5"
  "bit VMAttribute_Exists n \<longleftrightarrow> n = 6"
proof -
  have "bit (2 ^ k :: byte) n \<longleftrightarrow> n = k" if "k < 8" for k using that by (auto simp: bit_simps)
  from this [of 0] this [of 1] this [of 2] this [of 3] this [of 4] this [of 5] this [of 6] show
  "bit VMAttribute_AccessFault n \<longleftrightarrow> n = 0" "bit VMAttribute_WriteFault n \<longleftrightarrow> n = 1" "bit VMAttribute_TransportFault n \<longleftrightarrow> n = 2"
  "bit VMAttribute_TransportDisable n \<longleftrightarrow> n = 3" "bit VMAttribute_Ephemeral n \<longleftrightarrow> n = 4" "bit VMAttribute_Modified n \<longleftrightarrow> n = 5"
  "bit VMAttribute_Exists n \<longleftrightarrow> n = 6" by (simp_all add: attribute_defs)
qed

lemma attribute_ops:
  "bit (a AND b) n \<longleftrightarrow> bit a n \<and> bit b n" "bit (a OR b) n \<longleftrightarrow> bit a n \<or> bit b n" "bit (NOT a) n \<longleftrightarrow> n < 8 \<and> \<not> bit a n"
  for a b :: byte
  by (simp_all add: bit_simps)

lemma attribute_bits:
  "(a AND VMAttribute_AccessFault \<noteq> 0) = bit a 0" "(a AND VMAttribute_WriteFault \<noteq> 0) = bit a 1"
  "(a AND VMAttribute_TransportFault \<noteq> 0) = bit a 2" "(a AND VMAttribute_TransportDisable \<noteq> 0) = bit a 3"
  "(a AND VMAttribute_Ephemeral \<noteq> 0) = bit a 4" "(a AND VMAttribute_Modified \<noteq> 0) = bit a 5"
  "(a AND VMAttribute_Exists \<noteq> 0) = bit a 6"
  by (simp_all add: byte_eq_bits attribute_defs bit_simps)

lemma ComputeProtection_bits:
  "ComputeProtection a =
     (if \<not> bit a 6 \<or> bit a 0 \<or> (bit a 2 \<and> \<not> bit a 3) then PROT_NONE
      else if bit a 4 \<and> bit a 5 \<and> \<not> bit a 1 then PROT_WRITE else PROT_READ)"
proof -
  have 1: "(x AND (VMAttribute_Exists OR VMAttribute_TransportFault OR VMAttribute_AccessFault) = VMAttribute_Exists) =
     (bit x 6 \<and> \<not> bit x 0 \<and> \<not> bit x 2)" for x :: byte
    by (auto simp: byte_eq_bits attribute_defs bit_simps)
  have 2: "(x AND (VMAttribute_Modified OR VMAttribute_Ephemeral OR VMAttribute_WriteFault) = VMAttribute_Modified OR VMAttribute_Ephemeral) =
     (bit x 4 \<and> bit x 5 \<and> \<not> bit x 1)" for x :: byte
    by (auto simp: byte_eq_bits attribute_defs bit_simps)
  show ?thesis unfolding ComputeProtection_def Let_def 1 2 attribute_bits by (auto simp: attribute_ops attribute_bit)
qed

section \<open>Table and protection in step\<close>

text \<open>The protection of every page that exists is the one that its attributes ask for.\<close>

definition in_step :: "vmem \<Rightarrow> bool" where
  "in_step m \<longleftrightarrow> (\<forall>p. VMAttributeTable m p AND VMAttribute_Exists \<noteq> 0 \<longrightarrow> PageProtection m p = ComputeProtection (VMAttributeTable m p))"

lemma in_stepD: "in_step m \<Longrightarrow> PageCreated m a \<Longrightarrow>
    PageProtection m (a div MemoryPage_Size) = ComputeProtection (VMAttributeTable m (a div MemoryPage_Size))"
  by (simp add: in_step_def PageCreated_def)

lemma in_step_frame:
  "VMAttributeTable m' = VMAttributeTable m \<Longrightarrow> PageProtection m' = PageProtection m \<Longrightarrow> in_step m' = in_step m"
  by (simp add: in_step_def)

lemma in_step_set:
  "in_step m \<Longrightarrow> PageProtection m p = ComputeProtection a \<Longrightarrow> in_step (m\<lparr>VMAttributeTable := (VMAttributeTable m)(p := a)\<rparr>)"
  by (simp add: in_step_def)

lemma in_step_adjust [intro]: "in_step m \<Longrightarrow> in_step (AdjustProtection m vma a)"
  by (auto simp: in_step_def AdjustProtection_def Let_def)

lemma protect_wad_in_step:
  assumes "in_step m" "\<And>p. p div 8 = vma div MemoryWad_Size \<Longrightarrow> VMAttributeTable m p AND VMAttribute_Exists = 0"
  shows "in_step (protect_wad m vma prot)"
  using assms by (auto simp: in_step_def protect_wad_def)

lemma no_wad_page: "\<not> WadCreated m vma \<Longrightarrow> p div 8 = vma div MemoryWad_Size \<Longrightarrow> VMAttributeTable m p AND VMAttribute_Exists = 0"
  using wad_of_page [of "p * MemoryPage_Size"] by (auto simp: WadCreated_iff PageCreated_def MemoryPage_Size_def)

lemma in_step_ensure_page [intro]:
  assumes "in_step m" shows "in_step (ensure_page m vma faultp)"
proof (cases "PageCreated m vma \<or> WadCreated m vma")
  case True
  then show ?thesis using assms by (auto simp: ensure_page_def Let_def SetPageCreated_def PageCreated_def)
next
  case False
  then have "\<not> WadCreated m vma" by simp
  then have none: "VMAttributeTable m p AND VMAttribute_Exists = 0" if "p div 8 = vma div MemoryWad_Size" for p
    using that by (rule no_wad_page)
  let ?a = "DefaultAttributes m faultp False"
  let ?m = "protect_wad (fresh_wad m vma) vma (ComputeProtection ?a)"
  have "in_step (fresh_wad m vma)" using assms by (subst in_step_frame [of _ m]) (simp_all add: fresh_wad_def)
  then have "in_step ?m" by (rule protect_wad_in_step) (simp add: fresh_wad_def none)
  moreover have "PageProtection ?m (vma div MemoryPage_Size) = ComputeProtection ?a"
    using wad_of_page [of vma] by (simp add: protect_wad_def)
  ultimately have "in_step (?m\<lparr>VMAttributeTable := (VMAttributeTable ?m)(vma div MemoryPage_Size := ?a)\<rparr>)"
    by (rule in_step_set)
  then show ?thesis using False by (simp add: ensure_page_def Let_def PageCreated_def)
qed

lemma in_step_ensure_pages [intro]: "in_step m \<Longrightarrow> in_step (ensure_pages m vma n faultp)"
  by (induction m vma n faultp rule: ensure_pages.induct) auto

lemma in_step_destroy_page [intro]: "in_step m \<Longrightarrow> in_step (fst (destroy_page m vma))"
  by (auto simp: destroy_page_def Let_def ClearPageCreated_def intro!: protect_wad_in_step dest: no_wad_page)

lemma in_step_destroy_pages [intro]: "in_step m \<Longrightarrow> in_step (fst (destroy_each_page m vma n))"
proof (induction m vma n rule: destroy_each_page.induct)
  case (2 m vma pages)
  then show ?case using in_step_destroy_page [of m vma] by (cases "destroy_page m vma") (simp add: split_beta Let_def)
qed simp

lemma in_step_load_words [simp]: "in_step (load_words m f vma n d t) = in_step m"
  by (rule in_step_frame) (simp_all add: load_words_def)

lemma in_step_load_page: "load_page m f vma n d t = Some m' \<Longrightarrow> in_step m \<Longrightarrow> in_step m'"
  by (auto simp: load_page_def SetPageCreated_def split: if_splits intro!: in_step_adjust)

lemma in_step_map_wads: "in_step m \<Longrightarrow> in_step (map_wads m f vma n d t)"
  by (simp add: in_step_def map_wads_def Let_def)

lemma in_step_MapWorldLoad: "MapWorldLoad m f vma n d t = Some m' \<Longrightarrow> in_step m \<Longrightarrow> in_step m'"
proof (induction m f vma n d t rule: MapWorldLoad.induct)
  case (1 m f vma n d t)
  let ?w = "min (MemoryPage_Size - vma mod MemoryPage_Size) n" and ?k = "wads_to_map m vma 0 (n - n mod MemoryWad_Size)"
  let ?page = "vma mod MemoryWad_Size \<noteq> 0 \<or> PageCreated m vma \<or> n < MemoryWad_Size"
  consider "n = 0" | "n \<noteq> 0" ?page | "n \<noteq> 0" "\<not> ?page" by blast
  then show ?case
  proof cases
    case 1
    then show ?thesis using "1.prems" by (simp add: MapWorldLoad.simps)
  next
    case 2
    then obtain m1 where m1: "load_page m f vma ?w d t = Some m1"
      using "1.prems"(1) by (subst (asm) MapWorldLoad.simps) (auto simp: Let_def split: option.splits)
    have "MapWorldLoad m1 f (wrap32 (vma + ?w)) (n - ?w) (d + 4 * ?w) (t + ?w) = Some m'"
      using "1.prems"(1) 2 m1 by (subst (asm) MapWorldLoad.simps) (simp add: Let_def)
    then show ?thesis by (rule "1.IH"(1) [OF 2 refl m1]) (rule in_step_load_page [OF m1 "1.prems"(2)])
  next
    case 3
    let ?rest = "MapWorldLoad (map_wads m f vma ?k d t) f (wrap32 (vma + ?k)) (n - ?k) (d + 4 * ?k) (t + ?k)"
    have "MapWorldLoad m f vma n d t = (if ?k = 0 then None else ?rest)"
      using 3 by (subst MapWorldLoad.simps) (simp add: Let_def)
    then have "?k \<noteq> 0" "?rest = Some m'" using "1.prems"(1) by (simp_all split: if_splits)
    then show ?thesis using "1.IH"(2) [OF 3 refl] in_step_map_wads [OF "1.prems"(2)] by blast
  qed
qed

section \<open>What the operations keep\<close>

definition gkeeps :: "(guest \<Rightarrow> bool) \<Rightarrow> 'a gm \<Rightarrow> bool" where
  "gkeeps I f \<longleftrightarrow> (\<forall>s. I s \<longrightarrow> I (snd (f s)))"

lemma gkeepsI [intro?]: "(\<And>s. I s \<Longrightarrow> I (snd (f s))) \<Longrightarrow> gkeeps I f"
  by (simp add: gkeeps_def)

lemma gkeepsD: "gkeeps I f \<Longrightarrow> I s \<Longrightarrow> I (snd (f s))"
  by (simp add: gkeeps_def)

lemma gkeeps_bind [intro]: "gkeeps I f \<Longrightarrow> (\<And>x. gkeeps I (k x)) \<Longrightarrow> gkeeps I (gbind f k)"
proof
  fix s assume f: "gkeeps I f" and k: "\<And>x. gkeeps I (k x)" and "I s"
  obtain r t where r: "f s = (r, t)" by fastforce
  with gkeepsD [OF f \<open>I s\<close>] have "I t" by simp
  then show "I (snd (gbind f k s))" using gkeepsD [OF k] by (cases r) (simp_all add: gbind_def r)
qed

lemma gkeeps_return [intro, simp]: "gkeeps I (greturn x)"
  by (simp add: gkeeps_def greturn_def)

lemma gkeeps_access:
  assumes "\<And>vma s. I s \<Longrightarrow> I (snd (segv_handler_vlm vma s))"
  shows "gkeeps I (access vma store)"
proof
  fix s assume "I s"
  then show "I (snd (access vma store s))"
  proof (induction vma store s rule: access.induct)
    case (1 vma store s)
    obtain retry t where t: "segv_handler_vlm vma s = (retry, t)" by fastforce
    then have "I t" using assms [OF "1.prems", of vma] by simp
    then show ?case using 1 t by (subst access.simps) simp
  qed
qed

text \<open>An operation keeps what accesses and the operation's own changes keep.\<close>

lemma gkeeps_touch_run:
  assumes "\<And>vma store. gkeeps I (access vma store)"
  shows "gkeeps I (touch_run vma n store)"
proof (induction vma n store rule: touch_run.induct)
  case (1 vma n store)
  show ?case
    by (subst touch_run.simps) (auto simp: Let_def gkeeps_def [of I "\<lambda>s. (Exited, s)"] intro!: gkeeps_bind assms "1.IH" [OF _ _ refl])
qed

lemma gkeeps_rows_up:
  assumes "\<And>vma store. gkeeps I (access vma store)"
  shows "gkeeps I (rows_up sel field sh start limit vma)"
proof (induction sel field sh start limit vma rule: rows_up.induct)
  case (1 sel field sh start limit vma)
  have "gkeeps I (\<lambda>s. if vma + 8 = 2 ^ 32 then (Exited, s)
      else case row_up sel field start limit 8 (signed_drop_bit sh (tags8 (g_mem s) vma)) vma of
          Some vma \<Rightarrow> (Done (Some vma), s) | None \<Rightarrow> rows_up sel field sh start limit (vma + 8) s)" if "vma < limit"
    using gkeepsD [OF "1.IH" [OF that]] by (auto simp: gkeeps_def split: option.splits)
  then show ?case by (subst rows_up.simps) (auto intro: assms)
qed

lemma gkeeps_rows_down:
  assumes "\<And>vma store. gkeeps I (access vma store)"
  shows "gkeeps I (rows_down sel field sh start limit vma)"
proof (induction sel field sh start limit vma rule: rows_down.induct)
  case (1 sel field sh start limit vma)
  have "gkeeps I (\<lambda>s. if vma < 8 then (Exited, s)
      else case row_down sel field start limit 8 (signed_drop_bit sh (tags8 (g_mem s) (vma - 7))) vma of
          Some vma \<Rightarrow> (Done (Some vma), s) | None \<Rightarrow> rows_down sel field sh start limit (vma - 8) s)" if "vma > limit"
    using gkeepsD [OF "1.IH" [OF that]] by (auto simp: gkeeps_def split: option.splits)
  then show ?case by (subst rows_down.simps) (auto intro: assms)
qed

lemma gkeeps_search_words:
  assumes "\<And>vma store. gkeeps I (access vma store)"
  shows "gkeeps I (search_words q a e)"
proof (induction q a e rule: search_words.induct)
  case (1 q a e)
  have "gkeeps I (\<lambda>s. if (fst q XOR TagSpace (g_mem s) a) AND 0x3F = 0 \<and> DataSpace (g_mem s) a = snd q
      then (Done (Some a), s) else search_words q (a + 1) e s)" if "a < e"
    using gkeepsD [OF "1.IH" [OF that]] by (auto simp: gkeeps_def)
  then show ?case by (subst search_words.simps) (auto intro: assms)
qed

lemma gkeeps_SlowScanPage:
  assumes "\<And>vma store. gkeeps I (access vma store)"
  shows "gkeeps I (SlowScanPage a n)"
proof (induction a n rule: SlowScanPage.induct)
  case (1 a n)
  have "gkeeps I (\<lambda>s. if PointerP (ucast (TagSpace (g_mem s) a)) \<and> oldspace_word s (DataSpace (g_mem s) a)
      then (Done (Some a), s) else SlowScanPage (a + 1) (n - 1) s)" if "n \<noteq> 0"
    using gkeepsD [OF "1.IH" [OF that]] by (auto simp: gkeeps_def)
  then show ?case by (subst SlowScanPage.simps) (auto intro: assms)
qed

lemma gkeeps_scan_rows:
  assumes "\<And>vma store. gkeeps I (access vma store)"
  shows "gkeeps I (scan_rows update scanvma endvma limit vma e)"
proof (induction update scanvma endvma limit vma e rule: scan_rows.induct)
  case (1 update scanvma endvma limit vma e)
  have "gkeeps I (\<lambda>s. case scan_row s update scanvma endvma 8 (tags8 (g_mem s) vma) vma e of
      Oldspace a \<Rightarrow> (Done (Inl a), s) | Stop \<Rightarrow> (Done (Inr True), s)
    | Next e \<Rightarrow> scan_rows update scanvma endvma limit (vma + 8) e s)" if "vma < limit"
    using gkeepsD [OF "1.IH" [OF that]] by (auto simp: gkeeps_def split: row_result.splits)
  then show ?case by (subst scan_rows.simps) (auto intro: assms)
qed

lemma gkeeps_ScanPage:
  assumes "\<And>vma store. gkeeps I (access vma store)" "\<And>s e. I s \<Longrightarrow> I (page_scanned scanvma e s)"
  shows "gkeeps I (ScanPage scanvma n update)"
proof -
  have "gkeeps I (\<lambda>s. (Done None, page_scanned scanvma e s))" for e using assms(2) by (simp add: gkeeps_def)
  then show ?thesis unfolding ScanPage_def Let_def
    by (auto intro!: gkeeps_bind gkeeps_scan_rows assms(1) split: sum.splits)
qed

text \<open>The scan of a range: the page at hand has its faults disabled when its attributes are stored.\<close>

lemma gkeeps_scan_pages:
  assumes "\<And>vma store. gkeeps I (access vma store)" "\<And>vma s e. I s \<Longrightarrow> I (page_scanned vma e s)"
    "\<And>vma s. I s \<Longrightarrow> I (disable_faults vma s)"
    "\<And>vma s. I (disable_faults vma s) \<Longrightarrow> I (skip_page vma (disable_faults vma s))"
  shows "I s \<Longrightarrow> I (snd (scan_pages sel slowp update scanvma n whack s))"
proof (induction n arbitrary: scanvma whack s rule: less_induct)
  case (less n)
  let ?s = "disable_faults scanvma s"
  let ?next = "\<lambda>s2. if whack = 0 then (Done None, s2)
     else scan_pages sel slowp update (scanvma + whack) (n - whack) (min MemoryPage_Size (n - whack)) s2"
  show ?case
  proof (cases "n = 0 \<or> scanvma \<ge> 2 ^ 32")
    case True
    then show ?thesis using less.prems by (subst scan_pages.simps) auto
  next
    case False
    have rest: "gkeeps I ?next" using False less.IH by (auto simp: gkeeps_def)
    then have "gkeeps I (gbind (if slowp then SlowScanPage scanvma whack else ScanPage scanvma whack update)
        (\<lambda>r. case r of Some vma \<Rightarrow> greturn (Some vma) | None \<Rightarrow> ?next))"
      by (auto intro!: gkeeps_bind gkeeps_SlowScanPage gkeeps_ScanPage assms(1,2) split: option.splits)
    moreover have "I ?s" "I (skip_page scanvma ?s)" using less.prems assms(3,4) by simp_all
    ultimately show ?thesis using False gkeepsD [OF rest]
      by (subst scan_pages.simps) (simp add: Let_def gkeepsD)
  qed
qed

section \<open>Every step keeps them in step\<close>

abbreviation table_in_step :: "guest \<Rightarrow> bool" where
  "table_in_step s \<equiv> in_step (g_mem s)"

lemma adjust_in_step [intro]: "table_in_step s \<Longrightarrow> table_in_step (adjust vma a s)"
  by (simp add: adjust_def in_step_adjust)

lemma note_resident_mem [simp]: "g_mem (note_resident vma s) = g_mem s"
  by (simp add: note_resident_def Let_def)

lemma handler_in_step: "table_in_step s \<Longrightarrow> table_in_step (snd (segv_handler_vlm vma s))"
  by (auto simp: segv_handler_vlm_def fault_switch_def Let_def intro!: adjust_in_step)

lemma access_in_step: "gkeeps table_in_step (access vma store)"
  by (rule gkeeps_access) (rule handler_in_step)

lemma page_scanned_in_step: "table_in_step s \<Longrightarrow> table_in_step (page_scanned vma e s)"
  by (auto simp: page_scanned_def Let_def)

lemma disable_faults_in_step: "table_in_step s \<Longrightarrow> table_in_step (disable_faults vma s)"
  by (auto simp: disable_faults_def Let_def)

lemma g_attr_adjust: "g_attr (adjust vma a s) b = (if b div MemoryPage_Size = vma div MemoryPage_Size then a else g_attr s b)"
  by (simp add: g_attr_def adjust_def)

lemma disable_faults_disabled: "bit (g_attr (disable_faults vma s) vma) 2 \<Longrightarrow> bit (g_attr (disable_faults vma s) vma) 3"
  unfolding disable_faults_def Let_def attribute_bits de_Morgan_conj
  using attribute_bits(4) [of "g_attr s vma"] by (auto simp: g_attr_adjust attribute_bits attribute_ops attribute_bit split: if_splits)

text \<open>Once the fault is disabled, clearing both transport bits asks for the same protection.\<close>

lemma skip_page_in_step:
  assumes "table_in_step s" "bit (g_attr s vma) 2 \<Longrightarrow> bit (g_attr s vma) 3"
  shows "table_in_step (skip_page vma s)"
proof -
  have "ComputeProtection (g_attr s vma AND NOT VMAttribute_TransportFault AND NOT VMAttribute_TransportDisable) = ComputeProtection (g_attr s vma)"
    using assms(2) by (auto simp: ComputeProtection_bits attribute_ops attribute_bit)
  then show ?thesis using assms(1)
    by (auto simp: skip_page_def store_attributes_def in_step_def g_attr_def attribute_bits attribute_ops)
qed

lemma scan_pages_in_step: "gkeeps table_in_step (scan_pages sel slowp update vma n whack)"
proof
  fix s assume "table_in_step s"
  then show "table_in_step (snd (scan_pages sel slowp update vma n whack s))"
  proof (rule gkeeps_scan_pages [rotated -1])
    fix a t assume "table_in_step (disable_faults a t)"
    then show "table_in_step (skip_page a (disable_faults a t))" by (rule skip_page_in_step) (rule disable_faults_disabled)
  qed (simp_all add: access_in_step page_scanned_in_step disable_faults_in_step)
qed

text \<open>Stores of words change neither the table nor the protection.\<close>

definition same_table :: "vmem \<Rightarrow> vmem \<Rightarrow> bool" where
  "same_table m m' \<longleftrightarrow> VMAttributeTable m' = VMAttributeTable m \<and> PageProtection m' = PageProtection m"

lemma same_table_in_step: "same_table m m' \<Longrightarrow> in_step m' = in_step m"
  unfolding same_table_def by (rule in_step_frame) simp_all

lemma same_table_write_q_each [simp]: "same_table m (write_q_each m' vma qs) = same_table m m'"
  by (induction m' vma qs rule: write_q_each.induct) (auto simp: same_table_def write_q_def)

lemma same_table_constant [simp]: "same_table m (write_constant_uncached m' vma q n inc) = same_table m m'"
  by (simp add: same_table_def write_constant_uncached_def Let_def)

lemma same_table_refl [simp]: "same_table m m"
  by (simp add: same_table_def)

lemma same_table_fill [simp]: "same_table m (write_block_constant m vma q n inc)"
  by (simp add: write_block_constant_def Let_def)

lemma same_table_forward [simp]: "same_table m (forward_data from to n m') = same_table m m'"
  by (induction "from" to n m' rule: forward_data.induct) (auto simp: same_table_def)

lemma same_table_copies [simp]:
  "same_table m (copy_tags from to n m') = same_table m m'" "same_table m (copy_data from to n m') = same_table m m'"
  "same_table m (fill_tags to n tag m') = same_table m m'"
  by (simp_all add: same_table_def copy_tags_def copy_data_def fill_tags_def)

lemma gkeeps_store: "(\<And>m. same_table m (f m)) \<Longrightarrow> gkeeps table_in_step (\<lambda>s. (Done x, s\<lparr>g_mem := f (g_mem s)\<rparr>))"
  using same_table_in_step by (auto simp: gkeeps_def)

lemmas touch_in_step = gkeeps_touch_run [OF access_in_step]

lemma words_in_step [simp]:
  "table_in_step (set_word_tag vma t s) = table_in_step s" "table_in_step (set_word_data vma d s) = table_in_step s"
  by (simp_all add: set_word_tag_def set_word_data_def in_step_def)

lemma reprotect_in_step: "table_in_step s \<Longrightarrow> table_in_step (reprotect vma s)"
  by (simp add: reprotect_def in_step_def g_attr_def)

lemma enable_in_step: "table_in_step s \<Longrightarrow> table_in_step (VirtualMemoryEnable_vlm vma n faultp s)"
proof -
  have "table_in_step s \<Longrightarrow> table_in_step (fold (enable_one faultp) ps s)" for ps
    by (induction ps arbitrary: s) (auto simp: enable_one_def Let_def)
  then show "table_in_step s \<Longrightarrow> ?thesis" by (simp add: VirtualMemoryEnable_vlm_def Let_def)
qed

lemma copy_in_step: "gkeeps table_in_step (VirtualMemoryCopy_vlm from to n)"
  unfolding VirtualMemoryCopy_vlm_def Let_def
  by (intro gkeeps_bind touch_in_step gkeeps_store) simp

lemma copy_and_forward_in_step: "gkeeps table_in_step (VirtualMemoryCopyandForward from to n)"
proof
  have 1: "gkeeps table_in_step (gbind (touch_run from i False) (\<lambda>_. gbind (touch_run to i True) (\<lambda>_ s1.
      (Done x, s1\<lparr>g_mem := copy_tags from to i (g_mem s1)\<rparr>))))" for i and x :: bool
    by (intro gkeeps_bind touch_in_step gkeeps_store) simp
  have 2: "gkeeps table_in_step (gbind (touch_run from n False) (\<lambda>_. gbind (touch_run to n True) (\<lambda>_. gbind (touch_run from n True) (\<lambda>_ s1.
      (Done x, s1\<lparr>g_mem := forward_data from to k (fill_tags from n forwarded_tag (copy_tags from to n (g_mem s1)))\<rparr>)))))"
    for n k and x :: bool
    by (intro gkeeps_bind touch_in_step gkeeps_store) simp
  fix s assume "table_in_step s"
  then show "table_in_step (snd (VirtualMemoryCopyandForward from to n s))"
    using gkeepsD [OF 1] gkeepsD [OF 2] by (simp add: VirtualMemoryCopyandForward_def Let_def split: option.split)
qed

lemma fill_in_step: "gkeeps table_in_step (vm_fill vma q n inc)"
proof
  fix s assume s: "table_in_step s"
  have "gkeeps table_in_step (gbind (touch_run a k True) (\<lambda>_. gbind (touch_run b j True) (\<lambda>_ s1.
      (Done (), s1\<lparr>g_mem := write_block_constant (g_mem s1) vma q n inc\<rparr>))))" for a b k j
    by (intro gkeeps_bind touch_in_step gkeeps_store) simp
  from gkeepsD [OF this s] show "table_in_step (snd (vm_fill vma q n inc s))"
    using s by (simp add: vm_fill_def Let_def)
qed

lemma searches_in_step:
  "gkeeps table_in_step (VirtualMemorySearch_vlm vma q n)" "gkeeps table_in_step (VirtualMemorySearchType vma n u)"
  "gkeeps table_in_step (VirtualMemorySearchCDR vma n c)"
  by (simp_all add: VirtualMemorySearch_vlm_def VirtualMemorySearchType_def VirtualMemorySearchCDR_def search_rows_def Let_def
      gkeeps_search_words gkeeps_rows_up gkeeps_rows_down access_in_step)

lemma scan_in_step: "gkeeps table_in_step (VirtualMemoryScan_vlm vma n slowp)"
  using gkeepsD [OF scan_pages_in_step] by (simp add: gkeeps_def VirtualMemoryScan_vlm_def Let_def)

lemma resident_mem: "g_mem (snd (VirtualMemoryResidentScan sel sense s)) = g_mem s"
  by (simp add: VirtualMemoryResidentScan_def Let_def split: option.split)

lemma create_in_step: "table_in_step s \<Longrightarrow> table_in_step (fst (vm_create vma n faultp s))"
  by (auto simp: vm_create_def Let_def SetPageCreated_def)

lemma destroy_in_step: "table_in_step s \<Longrightarrow> table_in_step (fst (vm_destroy vma n s))"
  using in_step_destroy_pages [of "g_mem s" vma "extent_pages vma n"] by (simp add: vm_destroy_def split_beta Let_def)

lemma write_attributes_in_step: "table_in_step s \<Longrightarrow> table_in_step (snd (vm_write_attributes vpn r s))"
  by (auto simp: vm_write_attributes_def Let_def)

lemma command_in_step:
  assumes "table_in_step s" shows "table_in_step (snd (VMCommand_vlm command vm s))"
proof -
  have bind: "gkeeps table_in_step (gbind f (\<lambda>x. greturn (k x)))" if "gkeeps table_in_step f" for f :: "'a gm" and k :: "'a \<Rightarrow> u32 \<times> VMRegisters"
    using that by (rule gkeeps_bind) simp
  have ifs: "table_in_step (snd (if c then x else y))" if "c \<Longrightarrow> table_in_step (snd x)" "\<not> c \<Longrightarrow> table_in_step (snd y)"
    for c and x y :: "(u32 \<times> VMRegisters) goutcome \<times> guest" using that by simp
  note facts = assms gkeepsD [OF bind [OF searches_in_step(1)] assms] gkeepsD [OF bind [OF searches_in_step(2)] assms]
    gkeepsD [OF bind [OF searches_in_step(3)] assms] gkeepsD [OF bind [OF copy_in_step] assms]
    gkeepsD [OF bind [OF copy_and_forward_in_step] assms] gkeepsD [OF bind [OF fill_in_step] assms]
    gkeepsD [OF bind [OF scan_in_step] assms] enable_in_step [OF assms]
    create_in_step [OF assms] destroy_in_step [OF assms] write_attributes_in_step [OF assms]
  show ?thesis unfolding VMCommand_vlm_def Let_def
    by (intro ifs) (use facts resident_mem [of "ucast (AttributesRegister_vlm vm)" "CommandOperand command \<noteq> 0" s] in
      \<open>simp_all add: split_beta greturn_def split: option.split\<close>)
qed

lemma guest_step_in_step: "guest_step s s' \<Longrightarrow> table_in_step s \<Longrightarrow> table_in_step s'"
proof (induction rule: guest_step.induct)
  case (gs_command command vm s r s')
  then show ?case using command_in_step [of s command vm] by simp
next
  case (gs_store vma q s r s')
  have "gkeeps table_in_step (guest_store vma q)" unfolding guest_store_def
    by (intro gkeeps_bind access_in_step) (simp add: gkeeps_def)
  then show ?case using gs_store by (auto dest: gkeepsD)
next
  case (gs_load vma s r s')
  have "gkeeps table_in_step (guest_load vma)" unfolding guest_load_def
    by (intro gkeeps_bind access_in_step) (simp add: gkeeps_def)
  then show ?case using gs_load by (auto dest: gkeepsD)
next
  case (gs_read vma s r s')
  have "gkeeps table_in_step (gbind (access vma False) (\<lambda>_. greturn q))" for q :: Q
    by (intro gkeeps_bind access_in_step) simp
  from gkeepsD [OF this] have "table_in_step (snd (VirtualMemoryReadUncached vma s))"
    using gs_read(2) by (simp add: VirtualMemoryReadUncached_def Let_def reprotect_in_step)
  then show ?case using gs_read(1) by simp
next
  case (gs_write vma q s r s')
  have "gkeeps table_in_step (gbind (access vma True) (\<lambda>_ s1. (Done (), set_word_tag vma (fst q) s1)))"
    by (intro gkeeps_bind access_in_step) (simp add: gkeeps_def)
  from gkeepsD [OF this] have "table_in_step (snd (VirtualMemoryWriteUncached vma q s))"
    using gs_write(2) by (simp add: VirtualMemoryWriteUncached_def reprotect_in_step)
  then show ?case using gs_write(1) by simp
qed (auto intro: in_step_MapWorldLoad)

end
