(* ===== verification/Guest_Props.thy ===== *)
theory Guest_Props
  imports Guest_Facts VLM_Interfaces
begin

text \<open>The properties of the guest's memory: protection, stores, searches and scans.\<close>

section \<open>A memory for the witnesses\<close>








section \<open>Protection\<close>




end
