(* ===== verification/Ivory_Types.thy ===== *)
theory Ivory_Types
  imports VLM_Prelude
begin

text \<open>
  Words of the Ivory architecture as the portable emulator has them
  (\<^verbatim>\<open>src/c-emulator/emulator.h\<close>, \<^verbatim>\<open>src/c-emulator/ivory.h\<close>): Lisp objects of a tag and 32 bits of
  data, byte fields, data types, array headers and the fields of the control register.
  Shifts take their count modulo 32, as the instructions of both supported hosts do. A tag has the
  eight bits of the type \<^verbatim>\<open>Tag\<close>, as it has in memory; where the host's words have 64 bits, the field
  in the stack cache is wider, and only the set-tag instruction can store a larger number there.
\<close>

section \<open>Lisp objects\<close>

type_synonym Integer = u32
type_synonym Tag = byte

record LispObj =
  TAG :: Tag
  DATA :: Integer

abbreviation obj :: "Tag \<Rightarrow> Integer \<Rightarrow> LispObj" where
  "obj t d \<equiv> \<lparr>TAG = t, DATA = d\<rparr>"

section \<open>Byte fields\<close>

definition shl32 :: "Integer \<Rightarrow> nat \<Rightarrow> Integer" where
  "shl32 x n = push_bit (n mod 32) x"

definition shr32 :: "Integer \<Rightarrow> nat \<Rightarrow> Integer" where
  "shr32 x n = drop_bit (n mod 32) x"

text \<open>The right shift of a C \<^verbatim>\<open>int\<close>.\<close>

definition sar32 :: "Integer \<Rightarrow> nat \<Rightarrow> Integer" where
  "sar32 x n = signed_drop_bit (n mod 32) x"

definition ldb :: "nat \<Rightarrow> nat \<Rightarrow> Integer \<Rightarrow> Integer" where
  "ldb ss pp source = shr32 source pp AND (shl32 1 ss - 1)"

definition dpb :: "Integer \<Rightarrow> nat \<Rightarrow> nat \<Rightarrow> Integer \<Rightarrow> Integer" where
  "dpb field ss pp background =
     shl32 (field AND (shl32 1 ss - 1)) pp OR (background AND NOT (shl32 (shl32 1 ss - 1) pp))"

section \<open>Tags\<close>

abbreviation (input) "TypeNull \<equiv> 0 :: Tag"
abbreviation (input) "TypeMonitorForward \<equiv> 1 :: Tag"
abbreviation (input) "TypeHeaderP \<equiv> 2 :: Tag"
abbreviation (input) "TypeHeaderI \<equiv> 3 :: Tag"
abbreviation (input) "TypeExternalValueCellPointer \<equiv> 4 :: Tag"
abbreviation (input) "TypeOneQForward \<equiv> 5 :: Tag"
abbreviation (input) "TypeHeaderForward \<equiv> 6 :: Tag"
abbreviation (input) "TypeElementForward \<equiv> 7 :: Tag"
abbreviation (input) "TypeFixnum \<equiv> 8 :: Tag"
abbreviation (input) "TypeSmallRatio \<equiv> 9 :: Tag"
abbreviation (input) "TypeSingleFloat \<equiv> 10 :: Tag"
abbreviation (input) "TypeDoubleFloat \<equiv> 11 :: Tag"
abbreviation (input) "TypeBignum \<equiv> 12 :: Tag"
abbreviation (input) "TypeBigRatio \<equiv> 13 :: Tag"
abbreviation (input) "TypeComplex \<equiv> 14 :: Tag"
abbreviation (input) "TypeSpareNumber \<equiv> 15 :: Tag"
abbreviation (input) "TypeInstance \<equiv> 16 :: Tag"
abbreviation (input) "TypeListInstance \<equiv> 17 :: Tag"
abbreviation (input) "TypeArrayInstance \<equiv> 18 :: Tag"
abbreviation (input) "TypeStringInstance \<equiv> 19 :: Tag"
abbreviation (input) "TypeNIL \<equiv> 20 :: Tag"
abbreviation (input) "TypeList \<equiv> 21 :: Tag"
abbreviation (input) "TypeArray \<equiv> 22 :: Tag"
abbreviation (input) "TypeString \<equiv> 23 :: Tag"
abbreviation (input) "TypeSymbol \<equiv> 24 :: Tag"
abbreviation (input) "TypeLocative \<equiv> 25 :: Tag"
abbreviation (input) "TypeLexicalClosure \<equiv> 26 :: Tag"
abbreviation (input) "TypeDynamicClosure \<equiv> 27 :: Tag"
abbreviation (input) "TypeCompiledFunction \<equiv> 28 :: Tag"
abbreviation (input) "TypeGenericFunction \<equiv> 29 :: Tag"
abbreviation (input) "TypeSparePointer1 \<equiv> 30 :: Tag"
abbreviation (input) "TypeSparePointer2 \<equiv> 31 :: Tag"
abbreviation (input) "TypePhysicalAddress \<equiv> 32 :: Tag"
abbreviation (input) "TypeSpareImmediate1 \<equiv> 33 :: Tag"
abbreviation (input) "TypeBoundLocation \<equiv> 34 :: Tag"
abbreviation (input) "TypeCharacter \<equiv> 35 :: Tag"
abbreviation (input) "TypeLogicVariable \<equiv> 36 :: Tag"
abbreviation (input) "TypeGCForward \<equiv> 37 :: Tag"
abbreviation (input) "TypeEvenPC \<equiv> 38 :: Tag"
abbreviation (input) "TypeOddPC \<equiv> 39 :: Tag"

abbreviation (input) "CdrNext \<equiv> 0 :: Tag"
abbreviation (input) "CdrNil \<equiv> 1 :: Tag"
abbreviation (input) "CdrNormal \<equiv> 2 :: Tag"

abbreviation (input) "TagTypeMask \<equiv> 63 :: Tag"
abbreviation (input) "TagCdrMask \<equiv> 192 :: Tag"

definition TagType :: "Tag \<Rightarrow> Tag" where
  "TagType tag = tag AND 63"

definition TagCdr :: "Tag \<Rightarrow> Tag" where
  "TagCdr tag = drop_bit 6 tag"

definition SetTagCdr :: "Tag \<Rightarrow> Tag \<Rightarrow> Tag" where
  "SetTagCdr tag cdr = tag OR push_bit 6 cdr"

definition MergeCdr :: "Tag \<Rightarrow> Tag \<Rightarrow> Tag" where
  "MergeCdr cdr type = (cdr AND TagCdrMask) OR (type AND TagTypeMask)"

definition TypeEqualP :: "Tag \<Rightarrow> Tag \<Rightarrow> bool" where
  "TypeEqualP tag1 tag2 \<longleftrightarrow> (tag1 XOR tag2) AND TagTypeMask = 0"

definition TypeFixnumP :: "Tag \<Rightarrow> bool" where
  "TypeFixnumP tag \<longleftrightarrow> TypeEqualP tag TypeFixnum"

definition TypeNumericP :: "Tag \<Rightarrow> bool" where
  "TypeNumericP tag \<longleftrightarrow> tag AND 56 = 8"

definition TypeArrayP :: "Tag \<Rightarrow> bool" where
  "TypeArrayP tag \<longleftrightarrow> tag AND 62 = TypeArray AND 62"

definition TypeSpareP :: "Tag \<Rightarrow> bool" where
  "TypeSpareP tag \<longleftrightarrow> tag AND 62 = TypeSparePointer1 AND 62 \<or> tag AND TagTypeMask = TypeSpareImmediate1 \<or>
     tag AND TagTypeMask = TypeSpareNumber"

definition BinaryTypeFixnumP :: "Tag \<Rightarrow> Tag \<Rightarrow> bool" where
  "BinaryTypeFixnumP tag1 tag2 \<longleftrightarrow> ((tag1 XOR TypeFixnum) OR (tag2 XOR TypeFixnum)) AND TagTypeMask = 0"

definition BinaryTypeNumericP :: "Tag \<Rightarrow> Tag \<Rightarrow> bool" where
  "BinaryTypeNumericP tag1 tag2 \<longleftrightarrow> tag1 AND 56 = 8 \<and> tag2 AND 56 = 8"

text \<open>The value that \<^verbatim>\<open>StoreCdrNext\<close> stores: the object with cdr code 0.\<close>

definition cdr_next :: "LispObj \<Rightarrow> LispObj" where
  "cdr_next source = source\<lparr>TAG := TAG source AND TagTypeMask\<rparr>"

definition ObjectEqP :: "LispObj \<Rightarrow> LispObj \<Rightarrow> bool" where
  "ObjectEqP a b \<longleftrightarrow> DATA a = DATA b \<and> TypeEqualP (TAG a) (TAG b)"

definition ObjectT :: LispObj where
  "ObjectT = obj TypeSymbol 0xf8041208"

definition ObjectNIL :: LispObj where
  "ObjectNIL = obj TypeNIL 0xf8041200"

section \<open>Arrays\<close>

abbreviation (input) "ArrayHeaderTag \<equiv> 67 :: Tag"

abbreviation (input) "ArrayElementTypeFixnum \<equiv> 0 :: Integer"
abbreviation (input) "ArrayElementTypeCharacter \<equiv> 1 :: Integer"
abbreviation (input) "ArrayElementTypeBoolean \<equiv> 2 :: Integer"
abbreviation (input) "ArrayElementTypeObject \<equiv> 3 :: Integer"

definition ArrayLongPrefixP :: "Integer \<Rightarrow> bool" where
  "ArrayLongPrefixP a \<longleftrightarrow> a AND shl32 1 23 \<noteq> 0"

definition ArrayShortLength :: "Integer \<Rightarrow> Integer" where
  "ArrayShortLength a = ldb 15 0 a"

definition ArrayBytePacking :: "Integer \<Rightarrow> nat" where
  "ArrayBytePacking a = unat (ldb 3 27 a)"

definition ArrayElementType :: "Integer \<Rightarrow> Integer" where
  "ArrayElementType a = ldb 2 30 a"

definition ArrayLeaderLength :: "Integer \<Rightarrow> Integer" where
  "ArrayLeaderLength a = ldb 8 15 a"

definition ArrayRegisterByteOffset :: "Integer \<Rightarrow> Integer" where
  "ArrayRegisterByteOffset r = ldb 5 22 r"

definition ArrayRegisterEventCount :: "Integer \<Rightarrow> Integer" where
  "ArrayRegisterEventCount r = ldb 22 0 r"

definition SetArrayRegisterEventCount :: "Integer \<Rightarrow> Integer \<Rightarrow> Integer" where
  "SetArrayRegisterEventCount c r = dpb (ldb 22 0 c) 27 0 r"

definition BytePackingSize :: "nat \<Rightarrow> nat" where
  "BytePackingSize b = 32 div 2 ^ b"

definition BytePackingRotation :: "nat \<Rightarrow> Integer \<Rightarrow> Integer" where
  "BytePackingRotation b i = shl32 (NOT (shl32 (-1) b) AND i) (nat (5 - int b))"

definition ArrayElementLdb :: "nat \<Rightarrow> Integer \<Rightarrow> Integer \<Rightarrow> Integer" where
  "ArrayElementLdb b i w = ldb (BytePackingSize b) (unat (BytePackingRotation b i)) w"

definition ArrayElementDpb :: "Integer \<Rightarrow> nat \<Rightarrow> Integer \<Rightarrow> Integer \<Rightarrow> Integer" where
  "ArrayElementDpb e b i w = dpb e (BytePackingSize b) (unat (BytePackingRotation b i)) w"

section \<open>The control register\<close>

definition ReadControlArgumentSize :: "Integer \<Rightarrow> Integer" where
  "ReadControlArgumentSize c = ldb 8 0 c"

definition ReadControlCallerFrameSize :: "Integer \<Rightarrow> Integer" where
  "ReadControlCallerFrameSize c = ldb 8 9 c"

definition ReadControlCleanupBits :: "Integer \<Rightarrow> Integer" where
  "ReadControlCleanupBits c = ldb 3 24 c"

definition ReadControlCleanupBindings :: "Integer \<Rightarrow> Integer" where
  "ReadControlCleanupBindings c = ldb 1 25 c"

definition ReadControlTrapMode :: "Integer \<Rightarrow> Integer" where
  "ReadControlTrapMode c = ldb 2 30 c"

definition ReadControlExtraArgument :: "Integer \<Rightarrow> Integer" where
  "ReadControlExtraArgument c = ldb 1 8 c"

definition ReadControlApply :: "Integer \<Rightarrow> Integer" where
  "ReadControlApply c = ldb 1 17 c"

definition ReadControlValueDisposition :: "Integer \<Rightarrow> Integer" where
  "ReadControlValueDisposition c = ldb 2 18 c"

definition ReadControlCleanupCatch :: "Integer \<Rightarrow> Integer" where
  "ReadControlCleanupCatch c = ldb 1 26 c"

definition ReadControlTrapOnExit :: "Integer \<Rightarrow> Integer" where
  "ReadControlTrapOnExit c = ldb 1 24 c"

definition ReadControlCleanupInProgress :: "Integer \<Rightarrow> Integer" where
  "ReadControlCleanupInProgress c = ldb 1 23 c"

definition ReadControlInstructionTrace :: "Integer \<Rightarrow> Integer" where
  "ReadControlInstructionTrace c = ldb 1 29 c"

abbreviation (input) "ControlApply \<equiv> 0x20000 :: Integer"
abbreviation (input) "ControlCleanupBits \<equiv> 0x7000000 :: Integer"
abbreviation (input) "ControlTraceBits \<equiv> 0x38000000 :: Integer"
abbreviation (input) "ControlCallStarted \<equiv> 0x400000 :: Integer"
abbreviation (input) "ControlExtraArgument \<equiv> 0x100 :: Integer"
abbreviation (input) "ControlArgumentSize \<equiv> 0xff :: Integer"
abbreviation (input) "ControlCallerFrameSize \<equiv> 0x1fe00 :: Integer"
abbreviation (input) "ControlValueDisposition \<equiv> 0xc0000 :: Integer"

definition WriteControlArgumentSize :: "Integer \<Rightarrow> Integer \<Rightarrow> Integer" where
  "WriteControlArgumentSize c x = dpb x 8 0 c"

definition WriteControlCallerFrameSize :: "Integer \<Rightarrow> Integer \<Rightarrow> Integer" where
  "WriteControlCallerFrameSize c x = dpb x 8 9 c"

definition WriteControlApply :: "Integer \<Rightarrow> Integer \<Rightarrow> Integer" where
  "WriteControlApply c x = dpb x 1 17 c"

definition WriteControlCleanupBindings :: "Integer \<Rightarrow> Integer \<Rightarrow> Integer" where
  "WriteControlCleanupBindings c x = dpb x 1 25 c"

definition WriteControlExtraArgument :: "Integer \<Rightarrow> Integer \<Rightarrow> Integer" where
  "WriteControlExtraArgument c x = dpb x 1 8 c"

definition WriteControlCleanupCatch :: "Integer \<Rightarrow> Integer \<Rightarrow> Integer" where
  "WriteControlCleanupCatch c x = dpb x 1 26 c"

definition WriteControlTrapMode :: "Integer \<Rightarrow> Integer \<Rightarrow> Integer" where
  "WriteControlTrapMode c x = dpb x 2 30 c"

definition WriteControlCleanupInProgress :: "Integer \<Rightarrow> Integer \<Rightarrow> Integer" where
  "WriteControlCleanupInProgress c x = dpb x 1 23 c"

definition WriteControlTracePending :: "Integer \<Rightarrow> Integer \<Rightarrow> Integer" where
  "WriteControlTracePending c x = dpb x 1 27 c"

section \<open>Garbage collector's address fields\<close>

definition ReadVMAZoneNum :: "Integer \<Rightarrow> Integer" where
  "ReadVMAZoneNum a = ldb 5 27 a"

definition ReadVMAEphemeralHalf :: "Integer \<Rightarrow> Integer" where
  "ReadVMAEphemeralHalf a = ldb 1 26 a"

definition ReadVMAEphemeralDemilevel :: "Integer \<Rightarrow> Integer" where
  "ReadVMAEphemeralDemilevel a = ldb 6 21 a"

definition EphemeralAddressP :: "Integer \<Rightarrow> bool" where
  "EphemeralAddressP a \<longleftrightarrow> ReadVMAZoneNum a = 0"

text \<open>
  \<^verbatim>\<open>PointerDataTypes & (1 << t)\<close>: the shift is of a 32-bit \<^verbatim>\<open>int\<close>, which is sign-extended to
  the 64 bits of the mask.
\<close>

definition PointerTypeP :: "Tag \<Rightarrow> bool" where
  "PointerTypeP t \<longleftrightarrow> (0xFFF4FFFFF8F7 :: u64) AND scast (shl32 1 (unat t)) = 0"

section \<open>Lemmas on fields\<close>

lemma shl32_1_minus: "ss < 32 \<Longrightarrow> shl32 1 ss - 1 = mask ss"
  by (simp add: shl32_def mask_eq_decr_exp push_bit_eq_mult)

lemma bit_ldb: "ss < 32 \<Longrightarrow> pp < 32 \<Longrightarrow> bit (ldb ss pp x) n \<longleftrightarrow> n < ss \<and> bit x (pp + n)"
  by (auto simp: ldb_def shl32_1_minus shr32_def bit_and_iff bit_mask_iff bit_drop_bit_eq)

lemma dpb_mask:
  assumes "ss < 32" "pp < 32"
  shows "dpb field ss pp bg = push_bit pp (field AND mask ss) OR (bg AND NOT (push_bit pp (mask ss)))"
proof -
  have "shl32 1 ss - 1 = mask ss" using assms(1) by (rule shl32_1_minus)
  then show ?thesis using assms(2) by (simp only: dpb_def shl32_def [of _ pp] mod_less)
qed

lemma bit_dpb:
  "ss < 32 \<Longrightarrow> pp + ss \<le> 32 \<Longrightarrow> pp < 32 \<Longrightarrow> n < 32 \<Longrightarrow>
    bit (dpb field ss pp bg) n \<longleftrightarrow> (if pp \<le> n \<and> n < pp + ss then bit field (n - pp) else bit bg n)"
  by (auto simp: dpb_mask bit_or_iff bit_and_iff bit_not_iff bit_push_bit_iff bit_mask_iff)

lemma ldb_dpb_same:
  assumes "ss < 32" "pp + ss \<le> 32" "pp < 32"
  shows "ldb ss pp (dpb field ss pp bg) = take_bit ss field"
  by (rule bit_word_eqI) (use assms in \<open>auto simp: bit_ldb bit_dpb bit_take_bit_iff\<close>)

lemma ldb_dpb_other:
  assumes "ss < 32" "pp + ss \<le> 32" "pp < 32" "ss' < 32" "pp' + ss' \<le> 32" "pp' < 32"
    and "pp + ss \<le> pp' \<or> pp' + ss' \<le> pp"
  shows "ldb ss' pp' (dpb field ss pp bg) = ldb ss' pp' bg"
  by (rule bit_word_eqI) (use assms in \<open>auto simp: bit_ldb bit_dpb\<close>)

lemma dpb_ldb:
  assumes "ss < 32" "pp + ss \<le> 32" "pp < 32"
  shows "dpb (ldb ss pp x) ss pp x = x"
  by (rule bit_word_eqI) (use assms in \<open>auto simp: bit_ldb bit_dpb\<close>)

lemma dpb_dpb_same:
  assumes "ss < 32" "pp + ss \<le> 32" "pp < 32"
  shows "dpb a ss pp (dpb b ss pp x) = dpb a ss pp x"
  by (rule bit_word_eqI) (use assms in \<open>auto simp: bit_dpb\<close>)

lemma ldb_less: "ss < 32 \<Longrightarrow> unat (ldb ss pp x) < 2 ^ ss"
  by (simp add: ldb_def shl32_1_minus unat_and_mask_less)

section \<open>Lemmas on tags\<close>

lemma tag_mask: "TagTypeMask = mask 6" "TagCdrMask = push_bit 6 (mask 2)"
  by (simp_all add: mask_eq_exp_minus_1)

lemma TagType_less: "unat (TagType t) < 64"
  using unat_and_mask_less [of t 6] by (simp add: TagType_def tag_mask(1))

lemma TypeEqualP_TagType: "TypeEqualP a b \<longleftrightarrow> TagType a = TagType b"
  unfolding TypeEqualP_def TagType_def bit_eq_iff [where 'a = "8 word"] by (auto simp: bit_simps)

lemma TypeEqualP_refl [simp]: "TypeEqualP t t"
  by (simp add: TypeEqualP_TagType)

lemma BinaryTypeFixnumP_conj: "BinaryTypeFixnumP a b \<longleftrightarrow> TypeFixnumP a \<and> TypeFixnumP b"
  unfolding BinaryTypeFixnumP_def TypeFixnumP_def TypeEqualP_def bit_eq_iff [where 'a = "8 word"]
  by (auto simp: bit_simps)

lemma TagType_MergeCdr [simp]: "TagType (MergeCdr c t) = TagType t"
  by (rule bit_word_eqI) (auto simp: TagType_def MergeCdr_def tag_mask bit_simps)

lemma TagCdr_MergeCdr [simp]: "TagCdr (MergeCdr c t) = TagCdr c"
  by (rule bit_word_eqI) (auto dest: bit_imp_le_length simp: TagCdr_def MergeCdr_def tag_mask bit_simps)

lemma TagType_idem [simp]: "TagType (TagType t) = TagType t"
  by (simp add: TagType_def ac_simps)

lemma TagType_and_mask [simp]: "TagType (t AND TagTypeMask) = TagType t"
  by (simp add: TagType_def ac_simps)

lemma TAG_cdr_next [simp]: "TAG (cdr_next x) = TagType (TAG x)" "DATA (cdr_next x) = DATA x"
  by (simp_all add: cdr_next_def TagType_def)

end
