(* ===== verification/Ivory_Machine.thy ===== *)
theory Ivory_Machine
  imports Ivory_Types
begin

text \<open>
  The state of the portable emulator and its memory interface: the virtual memory of
  \<^verbatim>\<open>src/c-emulator/memory.c\<close> (tags, data and page attributes), the stack cache in front of it,
  and the memory cycles of \<^verbatim>\<open>src/c-emulator/emulator.c\<close>.

  A routine is a function of the machine. It returns normally, leaves by \<^verbatim>\<open>longjmp\<close> with a trap
  vector, or ends the program; the result \<open>None\<close> is a loop that never ends. The pointers \<^verbatim>\<open>sp\<close>,
  \<^verbatim>\<open>fp\<close> and \<^verbatim>\<open>lp\<close> are indices of the stack cache. The sequencer's copies of these registers and
  the fields of \<^verbatim>\<open>ProcessorState\<close> they are written back to are one field here. \<open>bar_address\<close> holds
  the addresses of the four block address registers, and \<open>AluOp\<close> the index in \<^verbatim>\<open>ALUFunctionClass\<close>
  of the function that the field of this name points to.
\<close>

section \<open>Machine state\<close>

record Machine =
  SP :: int
  restartSP :: int
  FP :: int
  LP :: int
  PC :: LispObj
  continuation :: LispObj
  StackCache :: "int \<Rightarrow> LispObj"
  StackCacheLimit :: int
  StackCacheBase :: Integer
  control :: Integer
  ArrayEventCount :: Integer
  BindingStackPointer :: Integer
  PreemptRegister :: Integer
  ByteSize :: Integer
  ByteRotate :: Integer
  RotateLatch :: Integer
  ALUOverflow :: bool
  ALUBorrow :: bool
  ALULessThan :: bool
  EphemeralOldspaceRegister :: Integer
  ZoneOldspaceRegister :: Integer
  DataSpace :: "Integer \<Rightarrow> Integer"
  TagSpace :: "Integer \<Rightarrow> Tag"
  VMAttributeTable :: "nat \<Rightarrow> byte"
  memory_vma :: Integer
  trap_vma :: Integer
  trap_microstate :: Integer
  bar_address :: "nat \<Rightarrow> LispObj"
  ListCacheArea :: LispObj
  ListCacheAddress :: LispObj
  StructureCacheArea :: LispObj
  StructureCacheAddress :: LispObj
  CatchBlockPointer :: LispObj
  ListCacheLength :: Integer
  StructureCacheLength :: Integer
  BindingStackLimit :: Integer
  DeepBoundP :: bool
  AluAndRotateControl :: Integer
  AluOp :: Integer
  ControlStackLimit :: Integer
  ControlStackExtraLimit :: Integer
  DynamicBindingCacheBase :: Integer
  DynamicBindingCacheMask :: Integer
  FEPModeTrapVectorAddress :: Integer
  MappingTableCache :: Integer
  MappingTableLength :: Integer

definition PageSize :: int where
  "PageSize = 0x100"

definition StackCacheSize :: int where
  "StackCacheSize = 4"

section \<open>Outcomes\<close>

datatype 'a outcome = Ok 'a | Longjmp int | Exit

type_synonym 'a em = "Machine \<Rightarrow> ('a outcome \<times> Machine) option"

definition ret :: "'a \<Rightarrow> 'a em" where
  "ret x = (\<lambda>m. Some (Ok x, m))"

definition bind_em :: "'a em \<Rightarrow> ('a \<Rightarrow> 'b em) \<Rightarrow> 'b em" where
  "bind_em f g = (\<lambda>m. case f m of None \<Rightarrow> None
     | Some (Ok x, m') \<Rightarrow> g x m'
     | Some (Longjmp v, m') \<Rightarrow> Some (Longjmp v, m')
     | Some (Exit, m') \<Rightarrow> Some (Exit, m'))"

definition modify :: "(Machine \<Rightarrow> Machine) \<Rightarrow> unit em" where
  "modify f = (\<lambda>m. Some (Ok (), f m))"

section \<open>Traps\<close>

abbreviation (input) "ErrorTrapVector \<equiv> 2624 :: int"
abbreviation (input) "InstructionExceptionVector \<equiv> 2048 :: int"
abbreviation (input) "TransportTrapVector \<equiv> 2630 :: int"
abbreviation (input) "MonitorTrapVector \<equiv> 2634 :: int"
abbreviation (input) "PageNotResidentTrapVector \<equiv> 2640 :: int"

definition TakeMemoryTrap :: "int \<Rightarrow> Integer \<Rightarrow> 'a em" where
  "TakeMemoryTrap vector vma = (\<lambda>m. Some (Longjmp vector, m\<lparr>trap_vma := vma\<rparr>))"

text \<open>\<open>operand\<close> is the index of the operand in the stack cache.\<close>

definition TakeIllegalOperandTrap :: "Integer \<Rightarrow> int \<Rightarrow> 'a em" where
  "TakeIllegalOperandTrap microstate operand = (\<lambda>m. Some (Longjmp ErrorTrapVector,
     m\<lparr>trap_microstate := microstate, trap_vma := StackCacheBase m + of_int operand\<rparr>))"

definition TakeInstructionExceptionTrap :: "'a em" where
  "TakeInstructionExceptionTrap = (\<lambda>m. Some (Longjmp InstructionExceptionVector, m))"

definition segv_handler :: "'a em" where
  "segv_handler = (\<lambda>m. TakeMemoryTrap PageNotResidentTrapVector (memory_vma m) m)"

section \<open>Virtual memory\<close>

abbreviation (input) "MemoryPageSize \<equiv> 0x2000 :: Integer"

definition MemoryPageNumber :: "Integer \<Rightarrow> nat" where
  "MemoryPageNumber vma = unat (drop_bit 13 vma)"

definition MemoryPageOffset :: "Integer \<Rightarrow> Integer" where
  "MemoryPageOffset vma = vma AND (MemoryPageSize - 1)"

definition VMExists :: "byte \<Rightarrow> bool" where
  "VMExists a \<longleftrightarrow> a AND 0x40 \<noteq> 0"

definition Created :: "Machine \<Rightarrow> Integer \<Rightarrow> bool" where
  "Created m vma \<longleftrightarrow> VMExists (VMAttributeTable m (MemoryPageNumber vma))"

text \<open>An access to a page that was not created faults; the handler turns the fault into a trap.\<close>

definition VirtualMemoryRead :: "Integer \<Rightarrow> LispObj em" where
  "VirtualMemoryRead vma = (\<lambda>m. let m1 = m\<lparr>memory_vma := vma\<rparr> in
     if Created m vma then Some (Ok (obj (TagSpace m vma) (DataSpace m vma)), m1) else segv_handler m1)"

definition store_word :: "Integer \<Rightarrow> LispObj \<Rightarrow> Machine \<Rightarrow> Machine" where
  "store_word vma x m = m\<lparr>DataSpace := (DataSpace m)(vma := DATA x), TagSpace := (TagSpace m)(vma := TAG x)\<rparr>"

definition VirtualMemoryWrite :: "Integer \<Rightarrow> LispObj \<Rightarrow> unit em" where
  "VirtualMemoryWrite vma x = (\<lambda>m. let m1 = m\<lparr>memory_vma := vma\<rparr> in
     if Created m vma then Some (Ok (), store_word vma x m1) else segv_handler m1)"

text \<open>
  The block loops run from \<^verbatim>\<open>&DataSpace[vma]\<close> to \<^verbatim>\<open>&DataSpace[vma + count]\<close>, where the index of the
  end is computed modulo \<open>2 ^ 32\<close>: \<open>block_words\<close> is the number of iterations. The object \<open>k\<close> of a
  block that is read is stored by \<open>store k\<close>; \<open>object k\<close> is that of a block that is written.
\<close>

definition block_words :: "Integer \<Rightarrow> int \<Rightarrow> nat" where
  "block_words vma count = unat (vma + of_int count) - unat vma"

primrec read_block_loop :: "(nat \<Rightarrow> LispObj \<Rightarrow> Machine \<Rightarrow> Machine) \<Rightarrow> nat \<Rightarrow> Integer \<Rightarrow> nat \<Rightarrow> unit em" where
  "read_block_loop store k data 0 = ret ()"
| "read_block_loop store k data (Suc n) = (\<lambda>m.
     if Created m data
     then (let m1 = store k (obj (TagSpace m data) (DataSpace m data)) m
           in read_block_loop store (Suc k) (data + 1) n (m1\<lparr>memory_vma := memory_vma m1 + 1\<rparr>))
     else segv_handler m)"

definition VirtualMemoryReadBlock :: "Integer \<Rightarrow> (nat \<Rightarrow> LispObj \<Rightarrow> Machine \<Rightarrow> Machine) \<Rightarrow> int \<Rightarrow> unit em" where
  "VirtualMemoryReadBlock vma store count =
     (\<lambda>m. read_block_loop store 0 vma (block_words vma count) (m\<lparr>memory_vma := vma\<rparr>))"

primrec write_block_loop :: "(nat \<Rightarrow> LispObj) \<Rightarrow> nat \<Rightarrow> Integer \<Rightarrow> nat \<Rightarrow> unit em" where
  "write_block_loop object k data 0 = ret ()"
| "write_block_loop object k data (Suc n) = (\<lambda>m.
     if Created m data
     then (let m1 = store_word data (object k) m
           in write_block_loop object (Suc k) (data + 1) n (m1\<lparr>memory_vma := memory_vma m1 + 1\<rparr>))
     else segv_handler m)"

definition VirtualMemoryWriteBlock :: "Integer \<Rightarrow> (nat \<Rightarrow> LispObj) \<Rightarrow> int \<Rightarrow> unit em" where
  "VirtualMemoryWriteBlock vma object count =
     (\<lambda>m. write_block_loop object 0 vma (block_words vma count) (m\<lparr>memory_vma := vma\<rparr>))"

section \<open>The stack cache\<close>

definition stack_cache_index :: "Machine \<Rightarrow> Integer \<Rightarrow> Integer" where
  "stack_cache_index m vma = vma - StackCacheBase m"

definition in_stack_cache :: "Machine \<Rightarrow> Integer \<Rightarrow> bool" where
  "in_stack_cache m vma \<longleftrightarrow> stack_cache_index m vma < of_int (StackCacheSize * PageSize)"

definition ReadVirtualMemory :: "Integer \<Rightarrow> LispObj em" where
  "ReadVirtualMemory vma = (\<lambda>m.
     if in_stack_cache m vma then Some (Ok (StackCache m (uint (stack_cache_index m vma))), m)
     else VirtualMemoryRead vma m)"

definition WriteVirtualMemory :: "Integer \<Rightarrow> LispObj \<Rightarrow> unit em" where
  "WriteVirtualMemory vma x = (\<lambda>m. VirtualMemoryWrite vma x
     (if in_stack_cache m vma
      then m\<lparr>StackCache := (StackCache m)(uint (stack_cache_index m vma) := x)\<rparr> else m))"

primrec read_words :: "(nat \<Rightarrow> LispObj \<Rightarrow> Machine \<Rightarrow> Machine) \<Rightarrow> nat \<Rightarrow> Integer \<Rightarrow> nat \<Rightarrow> unit em" where
  "read_words store k vma 0 = ret ()"
| "read_words store k vma (Suc n) =
     bind_em (ReadVirtualMemory vma) (\<lambda>x. bind_em (modify (store k x)) (\<lambda>_. read_words store (Suc k) (vma + 1) n))"

definition ReadVirtualMemoryBlock :: "Integer \<Rightarrow> (nat \<Rightarrow> LispObj \<Rightarrow> Machine \<Rightarrow> Machine) \<Rightarrow> nat \<Rightarrow> unit em" where
  "ReadVirtualMemoryBlock vma store count = (\<lambda>m.
     if in_stack_cache m vma then read_words store 0 vma count m
     else VirtualMemoryReadBlock vma store (int count) m)"

primrec write_words :: "(nat \<Rightarrow> LispObj) \<Rightarrow> nat \<Rightarrow> Integer \<Rightarrow> nat \<Rightarrow> unit em" where
  "write_words object k vma 0 = ret ()"
| "write_words object k vma (Suc n) =
     bind_em (WriteVirtualMemory vma (object k)) (\<lambda>_. write_words object (Suc k) (vma + 1) n)"

definition WriteVirtualMemoryBlock :: "Integer \<Rightarrow> (nat \<Rightarrow> LispObj) \<Rightarrow> nat \<Rightarrow> unit em" where
  "WriteVirtualMemoryBlock vma object count = (\<lambda>m.
     if in_stack_cache m vma then write_words object 0 vma count m
     else VirtualMemoryWriteBlock vma object (int count) m)"

text \<open>The page copies of the two scrolls, page by page in the order of their loops.\<close>

definition copy_page :: "int \<Rightarrow> int \<Rightarrow> (int \<Rightarrow> LispObj) \<Rightarrow> int \<Rightarrow> LispObj" where
  "copy_page dst src c = (\<lambda>j. if dst * PageSize \<le> j \<and> j < (dst + 1) * PageSize
     then c (j - dst * PageSize + src * PageSize) else c j)"

definition StackCacheScrollUp :: "unit em" where
  "StackCacheScrollUp = (\<lambda>m.
     bind_em (VirtualMemoryWriteBlock (StackCacheBase m) (\<lambda>k. StackCache m (int k)) PageSize)
       (\<lambda>_. modify (\<lambda>m. m\<lparr>StackCache := fold (\<lambda>i c. copy_page i (1 + i) c) [2, 1, 0] (StackCache m),
          FP := FP m - PageSize, SP := SP m - PageSize, LP := LP m - PageSize,
          StackCacheBase := StackCacheBase m + of_int PageSize\<rparr>)) m)"

definition StackCacheScrollDown :: "unit em" where
  "StackCacheScrollDown = (\<lambda>m.
     (let m1 = m\<lparr>StackCache := fold (\<lambda>i c. copy_page (1 + i) i c) [2, 1, 0] (StackCache m),
          FP := FP m + PageSize, SP := SP m + PageSize, LP := LP m + PageSize,
          StackCacheBase := StackCacheBase m - of_int PageSize\<rparr>
      in VirtualMemoryReadBlock (StackCacheBase m1)
           (\<lambda>k x m. m\<lparr>StackCache := (StackCache m)(int k := x)\<rparr>) PageSize m1))"

section \<open>Oldspace\<close>

definition EphemeralP :: "LispObj \<Rightarrow> bool" where
  "EphemeralP x \<longleftrightarrow> PointerTypeP (TagType (TAG x)) \<and> EphemeralAddressP (DATA x)"

definition OldspaceAddressP :: "Machine \<Rightarrow> Integer \<Rightarrow> bool" where
  "OldspaceAddressP m vma \<longleftrightarrow> (let zone = ReadVMAZoneNum vma in
     if zone = 0
     then ReadVMAEphemeralHalf vma =
       shr32 (EphemeralOldspaceRegister m) (unat (ReadVMAEphemeralDemilevel vma)) AND 1
     else ZoneOldspaceRegister m AND shl32 1 (unat zone) \<noteq> 0)"

definition OldspaceP :: "Machine \<Rightarrow> LispObj \<Rightarrow> bool" where
  "OldspaceP m x \<longleftrightarrow> PointerTypeP (TagType (TAG x)) \<and> OldspaceAddressP m (DATA x)"

section \<open>Memory cycles\<close>

abbreviation (input) "CycleDataRead \<equiv> 0 :: nat"
abbreviation (input) "CycleDataWrite \<equiv> 1 :: nat"
abbreviation (input) "CycleBindRead \<equiv> 2 :: nat"
abbreviation (input) "CycleBindWrite \<equiv> 3 :: nat"
abbreviation (input) "CycleHeader \<equiv> 6 :: nat"
abbreviation (input) "CycleCdr \<equiv> 9 :: nat"

abbreviation (input) "MemoryActionIndirect \<equiv> 1 :: byte"
abbreviation (input) "MemoryActionMonitor \<equiv> 2 :: byte"
abbreviation (input) "MemoryActionTransport \<equiv> 4 :: byte"
abbreviation (input) "MemoryActionTrap \<equiv> 8 :: byte"
abbreviation (input) "MemoryActionTransform \<equiv> 16 :: byte"

text \<open>The action of each data type (a column) in each cycle (a row).\<close>

definition MemoryActionTable :: "byte list list" where
  "MemoryActionTable =
  [
   [12, 6, 12, 8, 5, 5, 5, 5, 0, 0, 0, 4, 4, 4, 4, 4, 4, 4, 4, 4, 4, 4, 4, 4, 4, 4, 4, 4, 4, 4, 4, 4, 0, 0, 36, 0, 20, 8, 4, 4, 4, 4, 4, 4, 4, 4, 4, 4, 0, 0, 0, 0, 0, 0, 0, 0, 0, 0, 0, 0, 0, 0, 0, 0],
   [0, 6, 8, 8, 5, 5, 5, 5, 0, 0, 0, 0, 0, 0, 0, 0, 0, 0, 0, 0, 0, 0, 0, 0, 0, 0, 0, 0, 0, 0, 0, 0, 0, 0, 36, 0, 0, 8, 0, 0, 0, 0, 0, 0, 0, 0, 0, 0, 0, 0, 0, 0, 0, 0, 0, 0, 0, 0, 0, 0, 0, 0, 0, 0],
   [4, 6, 12, 8, 4, 5, 5, 5, 0, 0, 0, 4, 4, 4, 4, 4, 4, 4, 4, 4, 4, 4, 4, 4, 4, 4, 4, 4, 4, 4, 4, 4, 0, 0, 4, 0, 4, 8, 4, 4, 4, 4, 4, 4, 4, 4, 4, 4, 0, 0, 0, 0, 0, 0, 0, 0, 0, 0, 0, 0, 0, 0, 0, 0],
   [0, 6, 8, 8, 0, 5, 5, 5, 0, 0, 0, 0, 0, 0, 0, 0, 0, 0, 0, 0, 0, 0, 0, 0, 0, 0, 0, 0, 0, 0, 0, 0, 0, 0, 0, 0, 0, 8, 0, 0, 0, 0, 0, 0, 0, 0, 0, 0, 0, 0, 0, 0, 0, 0, 0, 0, 0, 0, 0, 0, 0, 0, 0, 0],
   [4, 5, 12, 8, 4, 5, 5, 5, 0, 0, 0, 4, 4, 4, 4, 4, 4, 4, 4, 4, 4, 4, 4, 4, 4, 4, 4, 4, 4, 4, 4, 4, 0, 0, 4, 0, 4, 8, 4, 4, 4, 4, 4, 4, 4, 4, 4, 4, 0, 0, 0, 0, 0, 0, 0, 0, 0, 0, 0, 0, 0, 0, 0, 0],
   [0, 5, 8, 8, 0, 5, 5, 5, 0, 0, 0, 0, 0, 0, 0, 0, 0, 0, 0, 0, 0, 0, 0, 0, 0, 0, 0, 0, 0, 0, 0, 0, 0, 0, 0, 0, 0, 8, 0, 0, 0, 0, 0, 0, 0, 0, 0, 0, 0, 0, 0, 0, 0, 0, 0, 0, 0, 0, 0, 0, 0, 0, 0, 0],
   [12, 12, 4, 0, 12, 12, 5, 12, 8, 8, 8, 12, 12, 12, 12, 12, 12, 12, 12, 12, 12, 12, 12, 12, 12, 12, 12, 12, 12, 12, 12, 12, 8, 8, 12, 8, 12, 8, 12, 12, 12, 12, 12, 12, 12, 12, 12, 12, 8, 8, 8, 8, 8, 8, 8, 8, 8, 8, 8, 8, 8, 8, 8, 8],
   [0, 0, 0, 0, 0, 0, 5, 0, 0, 0, 0, 0, 0, 0, 0, 0, 0, 0, 0, 0, 0, 0, 0, 0, 0, 0, 0, 0, 0, 0, 0, 0, 0, 0, 0, 0, 0, 8, 0, 0, 0, 0, 0, 0, 0, 0, 0, 0, 0, 0, 0, 0, 0, 0, 0, 0, 0, 0, 0, 0, 0, 0, 0, 0],
   [4, 4, 4, 0, 4, 4, 4, 4, 0, 0, 0, 4, 4, 4, 4, 4, 4, 4, 4, 4, 4, 4, 4, 4, 4, 4, 4, 4, 4, 4, 4, 4, 0, 0, 4, 0, 4, 8, 4, 4, 4, 4, 4, 4, 4, 4, 4, 4, 0, 0, 0, 0, 0, 0, 0, 0, 0, 0, 0, 0, 0, 0, 0, 0],
   [0, 0, 8, 8, 0, 0, 5, 5, 0, 0, 0, 0, 0, 0, 0, 0, 0, 0, 0, 0, 0, 0, 0, 0, 0, 0, 0, 0, 0, 0, 0, 0, 0, 0, 0, 0, 0, 8, 0, 0, 0, 0, 0, 0, 0, 0, 0, 0, 0, 0, 0, 0, 0, 0, 0, 0, 0, 0, 0, 0, 0, 0, 0, 0],
   [0, 0, 0, 0, 0, 0, 0, 0, 0, 0, 0, 0, 0, 0, 0, 0, 0, 0, 0, 0, 0, 0, 0, 0, 0, 0, 0, 0, 0, 0, 0, 0, 0, 0, 0, 0, 0, 8, 0, 0, 0, 0, 0, 0, 0, 0, 0, 0, 0, 0, 0, 0, 0, 0, 0, 0, 0, 0, 0, 0, 0, 0, 0, 0],
   [0, 0, 0, 0, 0, 0, 0, 0, 0, 0, 0, 0, 0, 0, 0, 0, 0, 0, 0, 0, 0, 0, 0, 0, 0, 0, 0, 0, 0, 0, 0, 0, 0, 0, 0, 0, 0, 0, 0, 0, 0, 0, 0, 0, 0, 0, 0, 0, 0, 0, 0, 0, 0, 0, 0, 0, 0, 0, 0, 0, 0, 0, 0, 0]
  ]"

definition memory_action :: "nat \<Rightarrow> Tag \<Rightarrow> byte" where
  "memory_action cycle tag = MemoryActionTable ! cycle ! unat (TagType tag)"

text \<open>
  The test for a transport trap, as it is written: \<^verbatim>\<open>action & (Transport|Trap) == Transport\<close>
  compares first, and \<^verbatim>\<open>==\<close> gives 0.
\<close>

definition transport_test :: "byte \<Rightarrow> bool" where
  "transport_test action \<longleftrightarrow>
     action AND (if MemoryActionTransport OR MemoryActionTrap = MemoryActionTransport then 1 else 0) \<noteq> 0"

text \<open>
  Where a routine stores the object it reads: a variable of its caller, whose value is the result
  of the model's function, or a slot of the stack cache.
\<close>

type_synonym dest = "int option"

definition set_dest :: "dest \<Rightarrow> LispObj \<Rightarrow> Machine \<Rightarrow> Machine" where
  "set_dest d x m = (case d of None \<Rightarrow> m | Some i \<Rightarrow> m\<lparr>StackCache := (StackCache m)(i := x)\<rparr>)"

text \<open>The result is the address that the cycle ended at and the object there.\<close>

partial_function (option) MemoryReadInternal ::
    "nat \<Rightarrow> dest \<Rightarrow> Integer \<Rightarrow> Machine \<Rightarrow> ((Integer \<times> LispObj) outcome \<times> Machine) option" where
  "MemoryReadInternal cycle d vma m =
     (case ReadVirtualMemory vma m of
        None \<Rightarrow> None
      | Some (Longjmp v, m1) \<Rightarrow> Some (Longjmp v, m1)
      | Some (Exit, m1) \<Rightarrow> Some (Exit, m1)
      | Some (Ok x, m0) \<Rightarrow>
          (let m1 = set_dest d x m0; action = memory_action cycle (TAG x) in
           if transport_test action \<and> OldspaceAddressP m1 (DATA x) then TakeMemoryTrap TransportTrapVector vma m1
           else let act = action AND NOT MemoryActionTransport in
             if act = 0 then Some (Ok (vma, x), m1)
             else if act = MemoryActionTrap then TakeMemoryTrap ErrorTrapVector vma m1
             else if act = MemoryActionTransform
               then (let x' = x\<lparr>TAG := MergeCdr (TAG x) TypeExternalValueCellPointer\<rparr>
                     in Some (Ok (vma, x'), set_dest d x' m1))
             else if act = MemoryActionMonitor then TakeMemoryTrap MonitorTrapVector vma m1
             else if act = MemoryActionIndirect then MemoryReadInternal cycle d (DATA x) m1
             else Some (Exit, m1)))"

definition MemoryReadData :: "Integer \<Rightarrow> dest \<Rightarrow> (Integer \<times> LispObj) em" where
  "MemoryReadData vma d = MemoryReadInternal CycleDataRead d vma"

definition MemoryReadHeader :: "Integer \<Rightarrow> (Integer \<times> LispObj) em" where
  "MemoryReadHeader vma = MemoryReadInternal CycleHeader None vma"

definition MemoryReadCdr :: "Integer \<Rightarrow> (Integer \<times> LispObj) em" where
  "MemoryReadCdr vma = MemoryReadInternal CycleCdr None vma"

definition StoreContentsInternal :: "nat \<Rightarrow> Integer \<Rightarrow> LispObj \<Rightarrow> unit em" where
  "StoreContentsInternal cycle vma x = bind_em (MemoryReadInternal cycle None vma)
     (\<lambda>(vma', dest). WriteVirtualMemory vma' (obj (MergeCdr (TAG dest) (TAG x)) (DATA x)))"

end
