(* ===== verification/Ivory_Lists.thy ===== *)
theory Ivory_Lists
  imports Ivory_Machine
begin

text \<open>
  Lists of the portable emulator (\<^verbatim>\<open>src/c-emulator/emulator.c\<close>): car and cdr of cdr-coded lists and
  the list instructions. An instruction is a function of its addressing mode and the operand of
  its cache line; its result is the label that the sequencer goes to.
\<close>

section \<open>Operands and labels\<close>

text \<open>\<open>BranchTaken\<close> is the jump to the instruction cache lookup, \<open>Halt\<close> those to \<^verbatim>\<open>halt\<close> and \<^verbatim>\<open>save_and_halt\<close>.\<close>

datatype label = NextInstruction | BranchTaken | IllegalOperand | InstructionException | UnimplementedInstruction |
  FollowPCInstructionException | Halt

datatype address_mode = ModeImmediate | ModeSP | ModeFP | ModeLP | ModePop

text \<open>What \<^verbatim>\<open>op2\<close> points to: the sequencer's variable \<^verbatim>\<open>immediate\<close>, or a slot of the stack cache.\<close>

datatype operand = Immediate Integer | Slot int

definition op_read :: "Machine \<Rightarrow> operand \<Rightarrow> LispObj" where
  "op_read m op2 = (case op2 of Immediate d \<Rightarrow> obj TypeFixnum d | Slot i \<Rightarrow> StackCache m i)"

text \<open>A store through \<^verbatim>\<open>op2\<close>; the immediate operand is not read again.\<close>

definition op_write :: "operand \<Rightarrow> LispObj \<Rightarrow> Machine \<Rightarrow> Machine" where
  "op_write op2 x m = (case op2 of Immediate _ \<Rightarrow> m | Slot i \<Rightarrow> m\<lparr>StackCache := (StackCache m)(i := x)\<rparr>)"

fun address :: "address_mode \<Rightarrow> int \<Rightarrow> Machine \<Rightarrow> operand \<times> Machine" where
  "address ModeImmediate operand m = (Immediate (of_int operand), m)"
| "address ModeSP operand m = (Slot (SP m + operand), m)"
| "address ModeFP operand m = (Slot (FP m + operand), m)"
| "address ModeLP operand m = (Slot (LP m + operand), m)"
| "address ModePop operand m = (Slot (SP m), m\<lparr>SP := SP m - 1\<rparr>)"

definition addressed :: "address_mode \<Rightarrow> int \<Rightarrow> (operand \<Rightarrow> label em) \<Rightarrow> label em" where
  "addressed mode operand f = (\<lambda>m. case address mode operand m of (op2, m1) \<Rightarrow> f op2 m1)"

definition TOS :: "Machine \<Rightarrow> LispObj" where
  "TOS m = StackCache m (SP m)"

definition set_slot :: "int \<Rightarrow> LispObj \<Rightarrow> Machine \<Rightarrow> Machine" where
  "set_slot i x m = m\<lparr>StackCache := (StackCache m)(i := x)\<rparr>"

definition set_tos :: "LispObj \<Rightarrow> Machine \<Rightarrow> Machine" where
  "set_tos x m = set_slot (SP m) x m"

definition push :: "LispObj \<Rightarrow> Machine \<Rightarrow> Machine" where
  "push x m = (set_slot (SP m + 1) x m)\<lparr>SP := SP m + 1\<rparr>"

definition predicate :: "bool \<Rightarrow> LispObj" where
  "predicate v = (if v then ObjectT else ObjectNIL)"

definition next_with :: "Machine \<Rightarrow> (label outcome \<times> Machine) option" where
  "next_with m = Some (Ok NextInstruction, m)"

section \<open>Exceptions\<close>

text \<open>The labels at the end of the sequencer, as functions of the tag they test.\<close>

definition SpareExceptions :: "Tag \<Rightarrow> label" where
  "SpareExceptions tag = (if TypeSpareP tag then InstructionException else IllegalOperand)"

definition ListExceptions :: "Tag \<Rightarrow> label" where
  "ListExceptions tag = (if TypeEqualP tag TypeListInstance then InstructionException else SpareExceptions tag)"

definition ArrayExceptions :: "Tag \<Rightarrow> label" where
  "ArrayExceptions tag = (if TagType tag = TypeArrayInstance \<or> TagType tag = TypeStringInstance
     then InstructionException else SpareExceptions tag)"

definition FixnumExceptions :: "Tag \<Rightarrow> label" where
  "FixnumExceptions tag = (if TypeNumericP tag then InstructionException else IllegalOperand)"

definition BinaryTypeFixnumExceptions :: "Tag \<Rightarrow> Tag \<Rightarrow> label" where
  "BinaryTypeFixnumExceptions tag1 tag2 =
     (if BinaryTypeNumericP tag1 tag2 then InstructionException else IllegalOperand)"

section \<open>Car and cdr\<close>

text \<open>\<open>None\<close> is the result 1 of the C functions: the object is not one they handle.\<close>

definition read_masked :: "Integer \<Rightarrow> dest \<Rightarrow> LispObj option em" where
  "read_masked vma d = bind_em (MemoryReadData vma d)
     (\<lambda>(_, x). bind_em (modify (set_dest d (cdr_next x))) (\<lambda>_. ret (Some (cdr_next x))))"

definition CarInternal :: "LispObj \<Rightarrow> dest \<Rightarrow> LispObj option em" where
  "CarInternal l d =
     (if TagType (TAG l) = TypeList then read_masked (DATA l) d
      else if TagType (TAG l) = TypeNIL
        then bind_em (modify (set_dest d ObjectNIL)) (\<lambda>_. ret (Some ObjectNIL))
      else if TagType (TAG l) = TypeLocative then read_masked (DATA l) d
      else ret None)"

definition CdrInternal :: "LispObj \<Rightarrow> dest \<Rightarrow> LispObj option em" where
  "CdrInternal l d =
     (if TagType (TAG l) = TypeList
      then bind_em (MemoryReadCdr (DATA l)) (\<lambda>(vma, cdr).
        if TagCdr (TAG cdr) = CdrNil
          then bind_em (modify (set_dest d ObjectNIL)) (\<lambda>_. ret (Some ObjectNIL))
        else if TagCdr (TAG cdr) = CdrNext
          then bind_em (modify (set_dest d (obj TypeList (vma + 1)))) (\<lambda>_. ret (Some (obj TypeList (vma + 1))))
        else if TagCdr (TAG cdr) = CdrNormal then read_masked (vma + 1) d
        else ret None)
      else if TagType (TAG l) = TypeNIL
        then bind_em (modify (set_dest d ObjectNIL)) (\<lambda>_. ret (Some ObjectNIL))
      else if TagType (TAG l) = TypeLocative then read_masked (DATA l) d
      else ret None)"

definition CarCdrInternal :: "LispObj \<Rightarrow> (LispObj \<times> LispObj) option em" where
  "CarCdrInternal l =
     (if TypeEqualP (TAG l) TypeLocative then ret None
      else bind_em (CarInternal l None) (\<lambda>car. case car of
          None \<Rightarrow> ret None
        | Some a \<Rightarrow> bind_em (CdrInternal l None) (\<lambda>cdr. case cdr of
            None \<Rightarrow> ret None
          | Some b \<Rightarrow> ret (Some (a, b)))))"

section \<open>Instructions\<close>

definition push_result :: "operand \<Rightarrow> LispObj option \<Rightarrow> label em" where
  "push_result op2 r = (\<lambda>m. case r of
       Some _ \<Rightarrow> next_with (m\<lparr>SP := SP m + 1\<rparr>)
     | None \<Rightarrow> Some (Ok (ListExceptions (TAG (op_read m op2))), m))"

definition ExecuteCar :: "address_mode \<Rightarrow> int \<Rightarrow> label em" where
  "ExecuteCar mode operand = addressed mode operand (\<lambda>op2 m.
     bind_em (CarInternal (op_read m op2) (Some (SP m + 1))) (push_result op2) m)"

definition ExecuteCdr :: "address_mode \<Rightarrow> int \<Rightarrow> label em" where
  "ExecuteCdr mode operand = addressed mode operand (\<lambda>op2 m.
     bind_em (CdrInternal (op_read m op2) (Some (SP m + 1))) (push_result op2) m)"

text \<open>\<^verbatim>\<open>op2->TAG = MergeCdr (op2->TAG, scratch->TAG); op2->DATA = scratch->DATA\<close>\<close>

definition merge_op :: "operand \<Rightarrow> LispObj \<Rightarrow> Machine \<Rightarrow> Machine" where
  "merge_op op2 x m = op_write op2 (obj (MergeCdr (TAG (op_read m op2)) (TAG x)) (DATA x)) m"

definition merge_result :: "operand \<Rightarrow> LispObj option \<Rightarrow> label em" where
  "merge_result op2 r = (\<lambda>m. case r of
       Some x \<Rightarrow> next_with (merge_op op2 x m)
     | None \<Rightarrow> Some (Ok (ListExceptions (TAG (op_read m op2))), m))"

definition ExecuteSetToCar :: "address_mode \<Rightarrow> int \<Rightarrow> label em" where
  "ExecuteSetToCar mode operand = addressed mode operand (\<lambda>op2 m.
     bind_em (CarInternal (op_read m op2) None) (merge_result op2) m)"

definition ExecuteSetToCdr :: "address_mode \<Rightarrow> int \<Rightarrow> label em" where
  "ExecuteSetToCdr mode operand = addressed mode operand (\<lambda>op2 m.
     bind_em (CdrInternal (op_read m op2) None) (merge_result op2) m)"

definition ExecuteSetToCdrPushCar :: "address_mode \<Rightarrow> int \<Rightarrow> label em" where
  "ExecuteSetToCdrPushCar mode operand = addressed mode operand (\<lambda>op2 m.
     bind_em (CarInternal (op_read m op2) (Some (SP m + 1))) (\<lambda>car m1. case car of
         None \<Rightarrow> Some (Ok (ListExceptions (TAG (op_read m1 op2))), m1)
       | Some _ \<Rightarrow> bind_em (CdrInternal (op_read m1 op2) None) (\<lambda>cdr m2. case cdr of
             None \<Rightarrow> Some (Ok (ListExceptions (TAG (op_read m2 op2))), m2)
           | Some x \<Rightarrow> next_with ((merge_op op2 x m2)\<lparr>SP := SP m2 + 1\<rparr>)) m1) m)"

text \<open>\<^verbatim>\<open>StoreContents (vma, op2, CycleDataWrite); sp--\<close>\<close>

definition store_and_pop :: "Integer \<Rightarrow> LispObj \<Rightarrow> label em" where
  "store_and_pop vma x = bind_em (StoreContentsInternal CycleDataWrite vma x)
     (\<lambda>_ m. next_with (m\<lparr>SP := SP m - 1\<rparr>))"

definition ExecuteRplaca :: "address_mode \<Rightarrow> int \<Rightarrow> label em" where
  "ExecuteRplaca mode operand = addressed mode operand (\<lambda>op2 m.
     if TagType (TAG (TOS m)) = TypeList \<or> TagType (TAG (TOS m)) = TypeLocative
     then store_and_pop (DATA (TOS m)) (op_read m op2) m
     else Some (Ok (ListExceptions (TAG (TOS m))), m))"

definition ExecuteRplacd :: "address_mode \<Rightarrow> int \<Rightarrow> label em" where
  "ExecuteRplacd mode operand = addressed mode operand (\<lambda>op2 m.
     if TagType (TAG (TOS m)) = TypeList
     then bind_em (MemoryReadCdr (DATA (TOS m))) (\<lambda>(vma, cdr) m1.
       if TagCdr (TAG cdr) = CdrNormal then store_and_pop (vma + 1) (op_read m1 op2) m1
       else Some (Ok InstructionException, m1)) m
     else if TagType (TAG (TOS m)) = TypeLocative then store_and_pop (DATA (TOS m)) (op_read m op2) m
     else Some (Ok (ListExceptions (TAG (TOS m))), m))"

text \<open>The types for which \<^verbatim>\<open>eql\<close> differs from \<^verbatim>\<open>eq\<close>.\<close>

definition eql_type :: "Tag \<Rightarrow> bool" where
  "eql_type tag \<longleftrightarrow> TypeDoubleFloat \<le> TagType tag \<and> TagType tag \<le> TypeSpareNumber"

text \<open>
  The three searches. Each iteration of their loops tests for a pending interrupt, which can only
  leave the instruction before it has changed anything; an interrupt is not part of the model.
\<close>

partial_function (option) member_loop :: "LispObj \<Rightarrow> Machine \<Rightarrow> (label outcome \<times> Machine) option" where
  "member_loop scratch m =
     (if TagType (TAG scratch) = TypeNIL then next_with (set_tos ObjectNIL m)
      else case CarCdrInternal scratch m of
        None \<Rightarrow> None
      | Some (Longjmp v, m1) \<Rightarrow> Some (Longjmp v, m1)
      | Some (Exit, m1) \<Rightarrow> Some (Exit, m1)
      | Some (Ok None, m1) \<Rightarrow> Some (Ok (ListExceptions (TAG scratch)), m1)
      | Some (Ok (Some (car, cdr)), m1) \<Rightarrow>
          if ObjectEqP car (TOS m1) then next_with (set_tos (cdr_next scratch) m1)
          else member_loop cdr m1)"

definition ExecuteMember :: "address_mode \<Rightarrow> int \<Rightarrow> label em" where
  "ExecuteMember mode operand = addressed mode operand (\<lambda>op2 m.
     if eql_type (TAG (TOS m)) then Some (Ok InstructionException, m) else member_loop (op_read m op2) m)"

partial_function (option) assoc_loop :: "LispObj \<Rightarrow> Machine \<Rightarrow> (label outcome \<times> Machine) option" where
  "assoc_loop scratch m =
     (if TagType (TAG scratch) = TypeNIL then next_with (set_tos ObjectNIL m)
      else case CarCdrInternal scratch m of
        None \<Rightarrow> None
      | Some (Longjmp v, m1) \<Rightarrow> Some (Longjmp v, m1)
      | Some (Exit, m1) \<Rightarrow> Some (Exit, m1)
      | Some (Ok None, m1) \<Rightarrow> Some (Ok (ListExceptions (TAG scratch)), m1)
      | Some (Ok (Some (car, cdr)), m1) \<Rightarrow>
          if TagType (TAG car) = TypeNIL then assoc_loop cdr m1
          else if TagType (TAG car) = TypeList then
            (case CarInternal car None m1 of
               None \<Rightarrow> None
             | Some (Longjmp v, m2) \<Rightarrow> Some (Longjmp v, m2)
             | Some (Exit, m2) \<Rightarrow> Some (Exit, m2)
             | Some (Ok None, m2) \<Rightarrow> Some (Ok InstructionException, m2)
             | Some (Ok (Some key), m2) \<Rightarrow>
                 if ObjectEqP key (TOS m2) then next_with (set_tos (cdr_next car) m2)
                 else assoc_loop cdr m2)
          else if TagType (TAG car) = TypeListInstance then Some (Ok InstructionException, m1)
          else Some (Ok IllegalOperand, m1))"

definition ExecuteAssoc :: "address_mode \<Rightarrow> int \<Rightarrow> label em" where
  "ExecuteAssoc mode operand = addressed mode operand (\<lambda>op2 m.
     if eql_type (TAG (TOS m)) then Some (Ok InstructionException, m) else assoc_loop (op_read m op2) m)"

partial_function (option) rgetf_loop :: "LispObj \<Rightarrow> Machine \<Rightarrow> (label outcome \<times> Machine) option" where
  "rgetf_loop scratch m =
     (if TagType (TAG scratch) = TypeNIL then next_with (push ObjectNIL (set_tos ObjectNIL m))
      else case CarCdrInternal scratch m of
        None \<Rightarrow> None
      | Some (Longjmp v, m1) \<Rightarrow> Some (Longjmp v, m1)
      | Some (Exit, m1) \<Rightarrow> Some (Exit, m1)
      | Some (Ok None, m1) \<Rightarrow> Some (Ok (ListExceptions (TAG scratch)), m1)
      | Some (Ok (Some (car, cdr)), m1) \<Rightarrow>
          if ObjectEqP car (TOS m1) then
            if TagType (TAG cdr) = TypeList then
              bind_em (CarInternal cdr (Some (SP m1))) (\<lambda>r m2. case r of
                  None \<Rightarrow> Some (Ok InstructionException, m2)
                | Some _ \<Rightarrow> next_with (push (cdr_next cdr) m2)) m1
            else if TagType (TAG cdr) = TypeNIL \<or> TagType (TAG cdr) = TypeListInstance
              then Some (Ok InstructionException, m1)
            else Some (Ok IllegalOperand, m1)
          else
            (case CdrInternal cdr None m1 of
               None \<Rightarrow> None
             | Some (Longjmp v, m2) \<Rightarrow> Some (Longjmp v, m2)
             | Some (Exit, m2) \<Rightarrow> Some (Exit, m2)
             | Some (Ok None, m2) \<Rightarrow>
                 Some (Ok (if TypeEqualP (TAG cdr) TypeListInstance \<or> TypeSpareP (TAG cdr)
                           then InstructionException else IllegalOperand), m2)
             | Some (Ok (Some x), m2) \<Rightarrow> rgetf_loop x m2))"

definition ExecuteRgetf :: "address_mode \<Rightarrow> int \<Rightarrow> label em" where
  "ExecuteRgetf mode operand = addressed mode operand (\<lambda>op2 m.
     if eql_type (TAG (TOS m)) then Some (Ok InstructionException, m) else rgetf_loop (op_read m op2) m)"

definition ExecuteEndp :: "address_mode \<Rightarrow> int \<Rightarrow> label em" where
  "ExecuteEndp mode operand =
     (if mode = ModeImmediate then (\<lambda>m. Some (Ok IllegalOperand, m))
      else addressed mode operand (\<lambda>op2 m.
        let t = TagType (TAG (op_read m op2)) in
        if t = TypeList \<or> t = TypeListInstance then next_with (push ObjectNIL m)
        else if t = TypeNIL then next_with (push ObjectT m)
        else Some (Ok (ListExceptions (TAG (op_read m op2))), m)))"

end
