(* ===== verification/Ivory_Arith.thy ===== *)
theory Ivory_Arith
  imports Ivory_Lists "HOL-Library.Signed_Division"
begin

text \<open>
  The predicates and the arithmetic of the portable emulator (\<^verbatim>\<open>src/c-emulator/emulator.c\<close>). The
  machine word of a fixnum is a 32-bit word, its C \<^verbatim>\<open>int\<close> value is \<open>sint\<close> of it; sums and
  differences wrap. \<open>sdiv\<close> is the division of C.
\<close>

section \<open>Results\<close>

text \<open>
  The instructions with \<^verbatim>\<open>NoPop\<close> in their names push the result, the others replace the top of
  the stack with it.
\<close>

definition give :: "bool \<Rightarrow> bool \<Rightarrow> label em" where
  "give nopop v = (\<lambda>m. next_with (if nopop then push (predicate v) m else set_tos (predicate v) m))"

definition stop :: "label \<Rightarrow> label em" where
  "stop l = (\<lambda>m. Some (Ok l, m))"

definition set_fixnum :: "Integer \<Rightarrow> Machine \<Rightarrow> Machine" where
  "set_fixnum d m = set_tos (obj TypeFixnum d) m"

definition push_fixnum :: "Integer \<Rightarrow> Machine \<Rightarrow> Machine" where
  "push_fixnum d m = push (obj TypeFixnum d) m"

text \<open>\<^verbatim>\<open>sp->DATA.s = i\<close>: the tag stays.\<close>

definition set_data :: "Integer \<Rightarrow> Machine \<Rightarrow> Machine" where
  "set_data d m = set_tos ((TOS m)\<lparr>DATA := d\<rparr>) m"

section \<open>Binary predicates\<close>

text \<open>The immediate form of the equality predicates.\<close>

definition equal_immediate :: "bool \<Rightarrow> int \<Rightarrow> label em" where
  "equal_immediate nopop operand = (\<lambda>m.
     give nopop (TypeFixnumP (TAG (TOS m)) \<and> sint (DATA (TOS m)) = operand) m)"

definition eq_insn :: "bool \<Rightarrow> address_mode \<Rightarrow> int \<Rightarrow> label em" where
  "eq_insn nopop mode operand = (if mode = ModeImmediate then equal_immediate nopop operand
     else addressed mode operand (\<lambda>op2 m. give nopop (ObjectEqP (op_read m op2) (TOS m)) m))"

definition ExecuteEq :: "address_mode \<Rightarrow> int \<Rightarrow> label em" where
  "ExecuteEq = eq_insn False"

definition ExecuteEqNoPop :: "address_mode \<Rightarrow> int \<Rightarrow> label em" where
  "ExecuteEqNoPop = eq_insn True"

definition eql_insn :: "bool \<Rightarrow> address_mode \<Rightarrow> int \<Rightarrow> label em" where
  "eql_insn nopop mode operand = (if mode = ModeImmediate then equal_immediate nopop operand
     else addressed mode operand (\<lambda>op2 m.
       if \<not> TypeEqualP (TAG (TOS m)) (TAG (op_read m op2)) then give nopop False m
       else if DATA (TOS m) = DATA (op_read m op2) then give nopop True m
       else if TagType (TAG (TOS m)) \<in> {TypeDoubleFloat, TypeBignum, TypeBigRatio, TypeComplex, TypeSpareNumber}
         then stop InstructionException m
       else give nopop False m))"

definition ExecuteEql :: "address_mode \<Rightarrow> int \<Rightarrow> label em" where
  "ExecuteEql = eql_insn False"

definition ExecuteEqlNoPop :: "address_mode \<Rightarrow> int \<Rightarrow> label em" where
  "ExecuteEqlNoPop = eql_insn True"

text \<open>The predicates on two fixnums; \<open>f\<close> is applied to the top of the stack and the operand.\<close>

definition fixnum_predicate ::
    "(Integer \<Rightarrow> Integer \<Rightarrow> bool) \<Rightarrow> bool \<Rightarrow> address_mode \<Rightarrow> int \<Rightarrow> label em" where
  "fixnum_predicate f nopop mode operand = addressed mode operand (\<lambda>op2 m.
     if BinaryTypeFixnumP (TAG (op_read m op2)) (TAG (TOS m))
     then give nopop (f (DATA (TOS m)) (DATA (op_read m op2))) m
     else stop (BinaryTypeFixnumExceptions (TAG (op_read m op2)) (TAG (TOS m))) m)"

definition equal_number_insn :: "bool \<Rightarrow> address_mode \<Rightarrow> int \<Rightarrow> label em" where
  "equal_number_insn nopop mode operand = (if mode = ModeImmediate then equal_immediate nopop operand
     else fixnum_predicate (\<lambda>a b. sint b = sint a) nopop mode operand)"

definition ExecuteEqualNumber :: "address_mode \<Rightarrow> int \<Rightarrow> label em" where
  "ExecuteEqualNumber = equal_number_insn False"

definition ExecuteEqualNumberNoPop :: "address_mode \<Rightarrow> int \<Rightarrow> label em" where
  "ExecuteEqualNumberNoPop = equal_number_insn True"

definition ExecuteGreaterp :: "address_mode \<Rightarrow> int \<Rightarrow> label em" where
  "ExecuteGreaterp = fixnum_predicate (\<lambda>a b. sint a > sint b) False"

definition ExecuteGreaterpNoPop :: "address_mode \<Rightarrow> int \<Rightarrow> label em" where
  "ExecuteGreaterpNoPop = fixnum_predicate (\<lambda>a b. sint a > sint b) True"

definition ExecuteLessp :: "address_mode \<Rightarrow> int \<Rightarrow> label em" where
  "ExecuteLessp = fixnum_predicate (\<lambda>a b. sint a < sint b) False"

definition ExecuteLesspNoPop :: "address_mode \<Rightarrow> int \<Rightarrow> label em" where
  "ExecuteLesspNoPop = fixnum_predicate (\<lambda>a b. sint a < sint b) True"

definition ExecuteLogtest :: "address_mode \<Rightarrow> int \<Rightarrow> label em" where
  "ExecuteLogtest = fixnum_predicate (\<lambda>a b. a AND b \<noteq> 0) False"

definition ExecuteLogtestNoPop :: "address_mode \<Rightarrow> int \<Rightarrow> label em" where
  "ExecuteLogtestNoPop = fixnum_predicate (\<lambda>a b. a AND b \<noteq> 0) True"

definition type_member :: "int \<Rightarrow> Tag \<Rightarrow> bool" where
  "type_member operand tag \<longleftrightarrow>
     (let n = (operand div 256) mod 16; msk = operand mod 256; dtp = uint (TagType tag) - n * 4
      in 0 \<le> dtp \<and> dtp \<le> 7 \<and> bit msk (nat dtp))"

definition ExecuteTypeMember :: "int \<Rightarrow> label em" where
  "ExecuteTypeMember operand = (\<lambda>m. give False (type_member operand (TAG (TOS m))) m)"

definition ExecuteTypeMemberNoPop :: "int \<Rightarrow> label em" where
  "ExecuteTypeMemberNoPop operand = (\<lambda>m. give True (type_member operand (TAG (TOS m))) m)"

section \<open>Unary predicates\<close>

definition sign_predicate :: "(int \<Rightarrow> bool) \<Rightarrow> address_mode \<Rightarrow> int \<Rightarrow> label em" where
  "sign_predicate f mode operand = (if mode = ModeImmediate then give True (f operand)
     else addressed mode operand (\<lambda>op2 m.
       if TypeFixnumP (TAG (op_read m op2)) then give True (f (sint (DATA (op_read m op2)))) m
       else stop (FixnumExceptions (TAG (op_read m op2))) m))"

definition ExecutePlusp :: "address_mode \<Rightarrow> int \<Rightarrow> label em" where
  "ExecutePlusp = sign_predicate (\<lambda>i. i > 0)"

definition ExecuteMinusp :: "address_mode \<Rightarrow> int \<Rightarrow> label em" where
  "ExecuteMinusp = sign_predicate (\<lambda>i. i < 0)"

definition ExecuteZerop :: "address_mode \<Rightarrow> int \<Rightarrow> label em" where
  "ExecuteZerop = sign_predicate (\<lambda>i. i = 0)"

section \<open>Sums and products\<close>

text \<open>
  A binary operation on two fixnums. \<open>f\<close> is given the top of the stack, the operand and the
  machine; \<open>None\<close> goes to \<^verbatim>\<open>BinaryTypeFixnumExceptions\<close>.
\<close>

definition fixnum_operation ::
    "(Integer \<Rightarrow> Integer \<Rightarrow> operand \<Rightarrow> Machine \<Rightarrow> (label \<times> Machine) option) \<Rightarrow> address_mode \<Rightarrow> int \<Rightarrow> label em" where
  "fixnum_operation f mode operand = addressed mode operand (\<lambda>op2 m.
     let bad = stop (BinaryTypeFixnumExceptions (TAG (op_read m op2)) (TAG (TOS m))) m in
     if BinaryTypeFixnumP (TAG (op_read m op2)) (TAG (TOS m))
     then (case f (DATA (TOS m)) (DATA (op_read m op2)) op2 m of None \<Rightarrow> bad | Some (l, m') \<Rightarrow> stop l m')
     else bad)"

definition add_data :: "Integer \<Rightarrow> Integer \<Rightarrow> operand \<Rightarrow> Machine \<Rightarrow> (label \<times> Machine) option" where
  "add_data a b op2 m = (let i = a + b in
     if (sint i \<ge> sint a) = (sint b \<ge> 0) then Some (NextInstruction, set_data i m) else None)"

definition ExecuteAdd :: "address_mode \<Rightarrow> int \<Rightarrow> label em" where
  "ExecuteAdd = fixnum_operation add_data"

definition sub_data :: "Integer \<Rightarrow> Integer \<Rightarrow> operand \<Rightarrow> Machine \<Rightarrow> (label \<times> Machine) option" where
  "sub_data a b op2 m = (let i = a - b in
     if (sint i \<le> sint a) = (sint b \<ge> 0) then Some (NextInstruction, set_data i m) else None)"

definition ExecuteSub :: "address_mode \<Rightarrow> int \<Rightarrow> label em" where
  "ExecuteSub = fixnum_operation sub_data"

text \<open>\<^verbatim>\<open>-1 << 31\<close>, the least fixnum.\<close>

abbreviation (input) "MinFixnum \<equiv> 0x80000000 :: Integer"

definition ExecuteUnaryMinus :: "address_mode \<Rightarrow> int \<Rightarrow> label em" where
  "ExecuteUnaryMinus mode operand = (if mode = ModeImmediate
     then (\<lambda>m. next_with (push_fixnum (of_int (- operand)) m))
     else addressed mode operand (\<lambda>op2 m.
       if TypeFixnumP (TAG (op_read m op2)) \<and> DATA (op_read m op2) \<noteq> MinFixnum
       then next_with (push_fixnum (- DATA (op_read m op2)) m)
       else stop (FixnumExceptions (TAG (op_read m op2))) m))"

definition ExecuteIncrement :: "address_mode \<Rightarrow> int \<Rightarrow> label em" where
  "ExecuteIncrement mode operand = addressed mode operand (\<lambda>op2 m. let x = op_read m op2 in
     if TypeFixnumP (TAG x) \<and> DATA x \<noteq> NOT MinFixnum
     then next_with (op_write op2 (x\<lparr>DATA := DATA x + 1\<rparr>) m)
     else stop (FixnumExceptions (TAG x)) m)"

definition ExecuteDecrement :: "address_mode \<Rightarrow> int \<Rightarrow> label em" where
  "ExecuteDecrement mode operand = addressed mode operand (\<lambda>op2 m. let x = op_read m op2 in
     if TypeFixnumP (TAG x) \<and> DATA x \<noteq> MinFixnum
     then next_with (op_write op2 (x\<lparr>DATA := DATA x - 1\<rparr>) m)
     else stop (FixnumExceptions (TAG x)) m)"

text \<open>The product is a 64-bit \<^verbatim>\<open>long\<close>, which holds every product of two \<^verbatim>\<open>int\<close>s.\<close>

definition multiply_data :: "Integer \<Rightarrow> Integer \<Rightarrow> operand \<Rightarrow> Machine \<Rightarrow> (label \<times> Machine) option" where
  "multiply_data a b op2 m = (let v = sint a * sint b in
     if v \<ge> - (2 ^ 31) \<and> v \<le> 2 ^ 31 - 1 then Some (NextInstruction, set_data (of_int v) m) else None)"

definition ExecuteMultiply :: "address_mode \<Rightarrow> int \<Rightarrow> label em" where
  "ExecuteMultiply = fixnum_operation multiply_data"

section \<open>Division\<close>

text \<open>
  The tests before every division, then \<open>f\<close> of quotient and remainder.
\<close>

definition divide_data ::
    "(int \<Rightarrow> int \<Rightarrow> Integer \<Rightarrow> operand \<Rightarrow> Machine \<Rightarrow> (label \<times> Machine) option) \<Rightarrow>
     Integer \<Rightarrow> Integer \<Rightarrow> operand \<Rightarrow> Machine \<Rightarrow> (label \<times> Machine) option" where
  "divide_data f a b op2 m =
     (if b = 0 then Some (IllegalOperand, m)
      else if a = MinFixnum \<and> b = -1 then Some (InstructionException, m)
      else let quotient = sint a sdiv sint b; remainder = sint a - sint b * quotient
           in f quotient remainder b op2 m)"

definition ExecuteQuotient :: "address_mode \<Rightarrow> int \<Rightarrow> label em" where
  "ExecuteQuotient = fixnum_operation (divide_data (\<lambda>q r b op2 m. Some (NextInstruction, set_data (of_int q) m)))"

text \<open>\<^verbatim>\<open>SetFixnum (quotient); PushFixnum (remainder)\<close>\<close>

definition two_results :: "int \<Rightarrow> int \<Rightarrow> Machine \<Rightarrow> (label \<times> Machine) option" where
  "two_results q r m = Some (NextInstruction, push_fixnum (of_int r) (set_fixnum (of_int q) m))"

definition floor_results :: "int \<Rightarrow> int \<Rightarrow> Integer \<Rightarrow> operand \<Rightarrow> Machine \<Rightarrow> (label \<times> Machine) option" where
  "floor_results q r b op2 m =
     (if r = 0 then two_results q r m
      else if (r \<ge> 0) \<noteq> (sint b \<ge> 0) then two_results (q - 1) (r + sint b) m
      else two_results q r m)"

definition ExecuteFloor :: "address_mode \<Rightarrow> int \<Rightarrow> label em" where
  "ExecuteFloor = fixnum_operation (divide_data floor_results)"

definition ceiling_results :: "int \<Rightarrow> int \<Rightarrow> Integer \<Rightarrow> operand \<Rightarrow> Machine \<Rightarrow> (label \<times> Machine) option" where
  "ceiling_results q r b op2 m =
     (if r = 0 then two_results q r m
      else if (r \<ge> 0) = (sint b \<ge> 0) then two_results (q + 1) (r - sint b) m
      else two_results q r m)"

definition ExecuteCeiling :: "address_mode \<Rightarrow> int \<Rightarrow> label em" where
  "ExecuteCeiling = fixnum_operation (divide_data ceiling_results)"

definition ExecuteTruncate :: "address_mode \<Rightarrow> int \<Rightarrow> label em" where
  "ExecuteTruncate = fixnum_operation (divide_data (\<lambda>q r b op2 m. two_results q r m))"

text \<open>
  \<^verbatim>\<open>op2->DATA.s\<close> is read again after the quotient is stored, when it may be the same slot.
\<close>

definition round_results :: "int \<Rightarrow> int \<Rightarrow> Integer \<Rightarrow> operand \<Rightarrow> Machine \<Rightarrow> (label \<times> Machine) option" where
  "round_results q r b op2 m =
     (let temp = sint (b - of_int r - of_int r) in
      if (if temp = 0 then odd q else if sint b > 0 then temp < 0 else temp > 0)
      then (let m1 = set_fixnum (of_int (q + 1)) m
            in Some (NextInstruction, push_fixnum (of_int r - DATA (op_read m1 op2)) m1))
      else two_results q r m)"

definition ExecuteRound :: "address_mode \<Rightarrow> int \<Rightarrow> label em" where
  "ExecuteRound = fixnum_operation (divide_data round_results)"

definition ExecuteRationalQuotient :: "address_mode \<Rightarrow> int \<Rightarrow> label em" where
  "ExecuteRationalQuotient = fixnum_operation (divide_data (\<lambda>q r b op2 m.
     if r = 0 then Some (NextInstruction, set_data (of_int q) m) else None))"

section \<open>Comparison and logic\<close>

definition ExecuteMax :: "address_mode \<Rightarrow> int \<Rightarrow> label em" where
  "ExecuteMax = fixnum_operation (\<lambda>a b op2 m. Some (NextInstruction,
     if sint b > sint a then set_tos (cdr_next (op_read m op2)) m else m))"

definition ExecuteMin :: "address_mode \<Rightarrow> int \<Rightarrow> label em" where
  "ExecuteMin = fixnum_operation (\<lambda>a b op2 m. Some (NextInstruction,
     if sint b < sint a then set_tos (cdr_next (op_read m op2)) m else m))"

definition ExecuteLogand :: "address_mode \<Rightarrow> int \<Rightarrow> label em" where
  "ExecuteLogand = fixnum_operation (\<lambda>a b op2 m. Some (NextInstruction, set_data (a AND b) m))"

definition ExecuteLogior :: "address_mode \<Rightarrow> int \<Rightarrow> label em" where
  "ExecuteLogior = fixnum_operation (\<lambda>a b op2 m. Some (NextInstruction, set_data (a OR b) m))"

definition ExecuteLogxor :: "address_mode \<Rightarrow> int \<Rightarrow> label em" where
  "ExecuteLogxor = fixnum_operation (\<lambda>a b op2 m. Some (NextInstruction, set_data (a XOR b) m))"

section \<open>Shifts\<close>

definition ash_data :: "Integer \<Rightarrow> Integer \<Rightarrow> operand \<Rightarrow> Machine \<Rightarrow> (label \<times> Machine) option" where
  "ash_data a b op2 m = (let places = sint b in
     if places = 0 \<or> a = 0 then Some (NextInstruction, m)
     else if places > 0 then
       (let i = shl32 a (nat places) in
        if (sint a < 0) = (sint i < 0) \<and> i \<noteq> 0 then Some (NextInstruction, set_fixnum i m)
        else Some (InstructionException, m))
     else Some (NextInstruction, set_fixnum (sar32 a (nat (- places))) m))"

definition ExecuteAsh :: "address_mode \<Rightarrow> int \<Rightarrow> label em" where
  "ExecuteAsh = fixnum_operation ash_data"

text \<open>The instructions that only take fixnums.\<close>

definition fixnum_only ::
    "(Integer \<Rightarrow> Integer \<Rightarrow> Machine \<Rightarrow> Machine) \<Rightarrow> address_mode \<Rightarrow> int \<Rightarrow> label em" where
  "fixnum_only f mode operand = addressed mode operand (\<lambda>op2 m.
     if BinaryTypeFixnumP (TAG (op_read m op2)) (TAG (TOS m))
     then next_with (f (DATA (TOS m)) (DATA (op_read m op2)) m) else stop IllegalOperand m)"

definition lsh_data :: "Integer \<Rightarrow> Integer \<Rightarrow> Machine \<Rightarrow> Machine" where
  "lsh_data a b m = (let places = sint b in
     if places = 0 then m
     else if places > 31 \<or> places < -31 then set_fixnum 0 m
     else if places > 0 then set_fixnum (shl32 a (nat places)) m
     else set_fixnum (shr32 a (nat (- places))) m)"

definition ExecuteLsh :: "address_mode \<Rightarrow> int \<Rightarrow> label em" where
  "ExecuteLsh = fixnum_only lsh_data"

definition rot_data :: "Integer \<Rightarrow> Integer \<Rightarrow> Machine \<Rightarrow> Machine" where
  "rot_data a b m = (let places = unat (b AND 0x1F) in
     if places = 0 then m else set_data (shl32 a places OR shr32 a (32 - places)) m)"

definition ExecuteRot :: "address_mode \<Rightarrow> int \<Rightarrow> label em" where
  "ExecuteRot = fixnum_only rot_data"

text \<open>The immediate forms use the operand of the cache line directly.\<close>

definition Execute32BitPlus :: "address_mode \<Rightarrow> int \<Rightarrow> label em" where
  "Execute32BitPlus mode operand = (if mode = ModeImmediate
     then (\<lambda>m. if TypeFixnumP (TAG (TOS m)) then next_with (set_data (DATA (TOS m) + of_int operand) m)
               else stop IllegalOperand m)
     else fixnum_only (\<lambda>a b m. set_data (a + b) m) mode operand)"

definition Execute32BitDifference :: "address_mode \<Rightarrow> int \<Rightarrow> label em" where
  "Execute32BitDifference mode operand = (if mode = ModeImmediate
     then (\<lambda>m. if TypeFixnumP (TAG (TOS m)) then next_with (set_data (DATA (TOS m) - of_int operand) m)
               else stop IllegalOperand m)
     else fixnum_only (\<lambda>a b m. set_data (a - b) m) mode operand)"

definition ExecuteMultiplyBignumStep :: "address_mode \<Rightarrow> int \<Rightarrow> label em" where
  "ExecuteMultiplyBignumStep = fixnum_only (\<lambda>a b m.
     let v = (ucast b :: u64) * ucast a
     in push_fixnum (ucast (drop_bit 32 v)) (set_fixnum (ucast v) m))"

text \<open>
  The dividend's high half is \<^verbatim>\<open>sp->DATA.u << 32\<close>, a shift of a 32-bit value. A division by zero ends
  the program.
\<close>

definition ExecuteDivideBignumStep :: "address_mode \<Rightarrow> int \<Rightarrow> label em" where
  "ExecuteDivideBignumStep mode operand = addressed mode operand (\<lambda>op2 m.
     let low = StackCache m (SP m - 1); high = TOS m; d = op_read m op2 in
     if BinaryTypeFixnumP (TAG d) (TAG high) \<and> TypeFixnumP (TAG low) then
       (let dividend = uint (shl32 (DATA high) 32 OR DATA low); divisor = uint (DATA d) in
        if divisor = 0 then Some (Exit, m)
        else let quotient = dividend div divisor in
          if quotient div 2 ^ 32 \<noteq> 0 then stop IllegalOperand m
          else next_with (set_tos (high\<lparr>DATA := of_int (dividend - quotient * divisor)\<rparr>)
                 (set_slot (SP m - 1) (low\<lparr>DATA := of_int quotient\<rparr>) m)))
     else stop IllegalOperand m)"

section \<open>Unimplemented instructions\<close>

definition unimplemented :: "address_mode \<Rightarrow> int \<Rightarrow> label em" where
  "unimplemented mode operand = addressed mode operand (\<lambda>op2. stop UnimplementedInstruction)"

definition ExecuteMultiplyDouble :: "address_mode \<Rightarrow> int \<Rightarrow> label em" where
  "ExecuteMultiplyDouble = unimplemented"

definition ExecuteAddBignumStep :: "address_mode \<Rightarrow> int \<Rightarrow> label em" where
  "ExecuteAddBignumStep = unimplemented"

definition ExecuteSubBignumStep :: "address_mode \<Rightarrow> int \<Rightarrow> label em" where
  "ExecuteSubBignumStep = unimplemented"

definition ExecuteLshcBignumStep :: "address_mode \<Rightarrow> int \<Rightarrow> label em" where
  "ExecuteLshcBignumStep = unimplemented"

end
