(* ===== verification/Ivory_Stack.thy ===== *)
theory Ivory_Stack
  imports Ivory_Arith
begin

text \<open>
  Data movement, byte fields, branches, the ALU, bindings and the arguments of an apply, of the
  portable emulator (\<^verbatim>\<open>src/c-emulator/emulator.c\<close>), and the frames that its start-up pushes and
  pops (\<^verbatim>\<open>src/c-emulator/initialization.c\<close>).
\<close>

section \<open>Data movement\<close>

definition ExecutePush :: "address_mode \<Rightarrow> int \<Rightarrow> label em" where
  "ExecutePush mode operand =
     (if mode = ModeImmediate then (\<lambda>m. next_with (push_fixnum (of_int operand) m))
      else if mode = ModePop then next_with
      else addressed mode operand (\<lambda>op2 m. next_with (push (cdr_next (op_read m op2)) m)))"

definition ExecutePop :: "address_mode \<Rightarrow> int \<Rightarrow> label em" where
  "ExecutePop mode operand = addressed mode operand (\<lambda>op2 m.
     next_with ((op_write op2 (TOS m) m)\<lparr>SP := SP m - 1\<rparr>))"

definition ExecuteMovem :: "address_mode \<Rightarrow> int \<Rightarrow> label em" where
  "ExecuteMovem mode operand =
     (if mode = ModePop then next_with
      else addressed mode operand (\<lambda>op2 m. next_with (op_write op2 (TOS m) m)))"

primrec push_n_nils :: "nat \<Rightarrow> Machine \<Rightarrow> Machine" where
  "push_n_nils 0 m = m"
| "push_n_nils (Suc i) m = push_n_nils i (push ObjectNIL m)"

definition ExecutePushNNils :: "nat \<Rightarrow> label em" where
  "ExecutePushNNils operand = (\<lambda>m. next_with (push_n_nils operand m))"

text \<open>The address of a slot: \<^verbatim>\<open>StackCacheBase + (op2 - StackCache)\<close>.\<close>

definition slot_address :: "Machine \<Rightarrow> int \<Rightarrow> Integer" where
  "slot_address m i = StackCacheBase m + of_int i"

definition op_slot :: "operand \<Rightarrow> int" where
  "op_slot op2 = (case op2 of Slot i \<Rightarrow> i | Immediate _ \<Rightarrow> 0)"

text \<open>These four instructions have no immediate form, so their operand is a slot.\<close>

definition ExecutePushAddress :: "address_mode \<Rightarrow> int \<Rightarrow> label em" where
  "ExecutePushAddress mode operand = addressed mode operand (\<lambda>op2 m.
     next_with (push (obj TypeLocative (slot_address m (op_slot op2))) m))"

definition ExecuteSetSpToAddress :: "address_mode \<Rightarrow> int \<Rightarrow> label em" where
  "ExecuteSetSpToAddress mode operand = addressed mode operand (\<lambda>op2 m.
     next_with (m\<lparr>SP := op_slot op2\<rparr>))"

definition ExecuteSetSpToAddressSaveTos :: "address_mode \<Rightarrow> int \<Rightarrow> label em" where
  "ExecuteSetSpToAddressSaveTos mode operand = addressed mode operand (\<lambda>op2 m.
     next_with ((op_write op2 (TOS m) m)\<lparr>SP := op_slot op2\<rparr>))"

definition ExecutePushAddressSpRelative :: "address_mode \<Rightarrow> int \<Rightarrow> label em" where
  "ExecutePushAddressSpRelative mode operand =
     (if mode = ModeImmediate
      then (\<lambda>m. next_with (push (obj TypeLocative (slot_address m (SP m) - of_int operand - 1)) m))
      else addressed mode operand (\<lambda>op2 m.
        if TypeFixnumP (TAG (op_read m op2))
        then next_with (push (obj TypeLocative (slot_address m (restartSP m) - DATA (op_read m op2) - 1)) m)
        else stop IllegalOperand m))"

text \<open>\<^verbatim>\<open>for (; i--; ) *op1++ = *op2++\<close>, upwards from the lowest slot.\<close>

primrec blt_loop :: "nat \<Rightarrow> int \<Rightarrow> int \<Rightarrow> (int \<Rightarrow> LispObj) \<Rightarrow> int \<Rightarrow> LispObj" where
  "blt_loop 0 op1 op2 c = c"
| "blt_loop (Suc i) op1 op2 c = blt_loop i (op1 + 1) (op2 + 1) (c(op1 := c op2))"

definition stack_blt_address :: "int \<Rightarrow> label em" where
  "stack_blt_address op2 = (\<lambda>m.
     if \<not> TypeEqualP (TAG (TOS m)) TypeLocative then stop (SpareExceptions (TAG (TOS m))) m
     else let op1 = uint (DATA (TOS m) - StackCacheBase m) in
       if op1 > op2 \<or> op1 < FP m \<or> op2 \<ge> SP m then stop IllegalOperand m
       else let i = nat (SP m - op2)
            in next_with (m\<lparr>StackCache := blt_loop i op1 op2 (StackCache m), SP := op1 + int i - 1\<rparr>))"

definition ExecuteStackBlt :: "address_mode \<Rightarrow> int \<Rightarrow> label em" where
  "ExecuteStackBlt mode operand = addressed mode operand (\<lambda>op2 m.
     if \<not> TypeEqualP (TAG (op_read m op2)) TypeLocative then stop (SpareExceptions (TAG (op_read m op2))) m
     else stack_blt_address (uint (DATA (op_read m op2) - StackCacheBase m)) m)"

definition ExecuteStackBltAddress :: "address_mode \<Rightarrow> int \<Rightarrow> label em" where
  "ExecuteStackBltAddress mode operand = addressed mode operand (\<lambda>op2. stack_blt_address (op_slot op2))"

section \<open>Byte fields\<close>

text \<open>The operand of the field instructions: five bits of position and five of size less one.\<close>

definition field_position :: "int \<Rightarrow> nat" where
  "field_position operand = nat (operand mod 32)"

definition load_position :: "int \<Rightarrow> nat" where
  "load_position operand = nat ((32 - operand) mod 32)"

definition field_size :: "int \<Rightarrow> nat" where
  "field_size operand = nat ((operand div 32) mod 32)"

text \<open>\<^verbatim>\<open>~(-2 << ss)\<close>\<close>

definition field_mask :: "nat \<Rightarrow> Integer" where
  "field_mask ss = NOT (shl32 (-2) ss)"

definition load_field :: "int \<Rightarrow> Integer \<Rightarrow> Integer" where
  "load_field operand x = sar32 x (load_position operand) AND field_mask (field_size operand)"

definition deposit_field :: "int \<Rightarrow> Integer \<Rightarrow> Integer \<Rightarrow> Integer" where
  "deposit_field operand newbyte x =
     (let pp = field_position operand; newbyte_mask = shl32 (field_mask (field_size operand)) pp
      in (x AND NOT newbyte_mask) OR (shl32 newbyte pp AND newbyte_mask))"

definition ExecuteLdb :: "int \<Rightarrow> label em" where
  "ExecuteLdb operand = (\<lambda>m.
     if TypeFixnumP (TAG (TOS m)) then next_with (set_fixnum (load_field operand (DATA (TOS m))) m)
     else stop (FixnumExceptions (TAG (TOS m))) m)"

definition ExecuteCharLdb :: "int \<Rightarrow> label em" where
  "ExecuteCharLdb operand = (\<lambda>m.
     if TypeEqualP (TAG (TOS m)) TypeCharacter
     then next_with (set_fixnum (load_field operand (DATA (TOS m))) m)
     else stop (SpareExceptions (TAG (TOS m))) m)"

definition ExecutePLdb :: "int \<Rightarrow> label em" where
  "ExecutePLdb operand = (\<lambda>m.
     if TypeEqualP (TAG (TOS m)) TypePhysicalAddress then stop InstructionException m
     else bind_em (ReadVirtualMemory (DATA (TOS m)))
       (\<lambda>w m1. next_with (set_fixnum (load_field operand (DATA w)) m1)) m)"

definition ExecutePTagLdb :: "int \<Rightarrow> label em" where
  "ExecutePTagLdb operand = (\<lambda>m.
     if TypeEqualP (TAG (TOS m)) TypePhysicalAddress then stop InstructionException m
     else bind_em (ReadVirtualMemory (DATA (TOS m)))
       (\<lambda>w m1. next_with (set_fixnum (load_field operand (ucast (TAG w))) m1)) m)"

definition ExecuteDpb :: "int \<Rightarrow> label em" where
  "ExecuteDpb operand = (\<lambda>m. let x = TOS m; new = StackCache m (SP m - 1) in
     if BinaryTypeFixnumP (TAG x) (TAG new)
     then next_with ((set_slot (SP m - 1) (new\<lparr>DATA := deposit_field operand (DATA new) (DATA x)\<rparr>) m)
       \<lparr>SP := SP m - 1\<rparr>)
     else if BinaryTypeNumericP (TAG x) (TAG new) then stop InstructionException m
     else stop IllegalOperand m)"

definition ExecuteCharDpb :: "int \<Rightarrow> label em" where
  "ExecuteCharDpb operand = (\<lambda>m. let x = TOS m; new = StackCache m (SP m - 1) in
     if \<not> TypeFixnumP (TAG new) then stop IllegalOperand m
     else if TypeEqualP (TAG x) TypeCharacter
     then next_with ((set_slot (SP m - 1) (obj TypeCharacter (deposit_field operand (DATA new) (DATA x))) m)
       \<lparr>SP := SP m - 1\<rparr>)
     else stop (SpareExceptions (TAG x)) m)"

text \<open>
  The stack pointer is moved before the memory is touched; a trap in the access leaves it moved,
  and the instruction is restarted from \<^verbatim>\<open>restartsp\<close>.
\<close>

definition p_deposit :: "(LispObj \<Rightarrow> Integer \<Rightarrow> LispObj) \<Rightarrow> label em" where
  "p_deposit f = (\<lambda>m. let ptr = TOS m; new = StackCache m (SP m - 1) in
     if \<not> TypeFixnumP (TAG new) then stop IllegalOperand m
     else if TypeEqualP (TAG ptr) TypePhysicalAddress then stop InstructionException m
     else bind_em (ReadVirtualMemory (DATA ptr)) (\<lambda>w.
       bind_em (WriteVirtualMemory (DATA ptr) (f w (DATA new))) (\<lambda>_. next_with)) (m\<lparr>SP := SP m - 2\<rparr>))"

definition ExecutePDpb :: "int \<Rightarrow> label em" where
  "ExecutePDpb operand = p_deposit (\<lambda>w new. w\<lparr>DATA := deposit_field operand new (DATA w)\<rparr>)"

text \<open>The new tag is truncated to the width of the tag.\<close>

definition ExecutePTagDpb :: "int \<Rightarrow> label em" where
  "ExecutePTagDpb operand = p_deposit (\<lambda>w new. w\<lparr>TAG := ucast (deposit_field operand new (ucast (TAG w)))\<rparr>)"

section \<open>Branches\<close>

definition IncrementPC :: "LispObj \<Rightarrow> int \<Rightarrow> LispObj" where
  "IncrementPC p offset = (let d = DATA p + of_int (offset div 2) in
     if bit (TAG p) 0
     then (if odd offset then obj TypeEvenPC (d + 1) else obj TypeOddPC d)
     else (if odd offset then obj TypeOddPC d else obj TypeEvenPC d))"

text \<open>The label \<^verbatim>\<open>BranchTaken\<close>; \<open>BranchTaken\<close> as a result is the jump to the instruction cache lookup.\<close>

definition take_branch :: "int \<Rightarrow> label em" where
  "take_branch operand = (\<lambda>m. if operand = 0 then stop IllegalOperand m
     else stop BranchTaken (m\<lparr>PC := IncrementPC (PC m) operand\<rparr>))"

text \<open>
  The sixteen conditional branches: \<open>sense\<close> is the truth of the condition, \<open>taken\<close> and \<open>not_taken\<close>
  the number of words popped.
\<close>

definition conditional_branch :: "bool \<Rightarrow> int \<Rightarrow> int \<Rightarrow> int \<Rightarrow> label em" where
  "conditional_branch sense not_taken taken operand = (\<lambda>m.
     if (TAG (TOS m) AND TagTypeMask \<noteq> TypeNIL) = sense
     then take_branch operand (m\<lparr>SP := SP m - taken\<rparr>)
     else next_with (m\<lparr>SP := SP m - not_taken\<rparr>))"

datatype branch_pops = PlainBranch | ElseExtraPop | AndExtraPop | ExtraPop | NoPop | AndNoPop | ElseNoPop |
  AndNoPopElseNoPopExtraPop

fun branch_pop_counts :: "branch_pops \<Rightarrow> int \<times> int" where
  "branch_pop_counts PlainBranch = (1, 1)"
| "branch_pop_counts ElseExtraPop = (2, 1)"
| "branch_pop_counts AndExtraPop = (1, 2)"
| "branch_pop_counts ExtraPop = (2, 2)"
| "branch_pop_counts NoPop = (0, 0)"
| "branch_pop_counts AndNoPop = (1, 0)"
| "branch_pop_counts ElseNoPop = (0, 1)"
| "branch_pop_counts AndNoPopElseNoPopExtraPop = (1, 1)"

definition ExecuteBranchTrue :: "branch_pops \<Rightarrow> int \<Rightarrow> label em" where
  "ExecuteBranchTrue pops operand =
     (case branch_pop_counts pops of (not_taken, taken) \<Rightarrow> conditional_branch True not_taken taken operand)"

definition ExecuteBranchFalse :: "branch_pops \<Rightarrow> int \<Rightarrow> label em" where
  "ExecuteBranchFalse pops operand =
     (case branch_pop_counts pops of (not_taken, taken) \<Rightarrow> conditional_branch False not_taken taken operand)"

section \<open>The ALU\<close>

definition ReadALUBooleanFunction :: "Integer \<Rightarrow> Integer" where
  "ReadALUBooleanFunction a = ldb 4 10 a"

definition ALUFunctionBoolean :: "Integer \<Rightarrow> Integer \<Rightarrow> Integer \<Rightarrow> Integer" where
  "ALUFunctionBoolean alu op1 op2 =
     [0, op1 AND op2, NOT op1 AND op2, op2, op1 AND NOT op2, op1, op1 XOR op2, op1 OR op2,
      NOT (op1 OR op2), NOT (op1 XOR op2), NOT op1, NOT op1 OR op2, NOT op2, op1 OR NOT op2,
      NOT (op1 AND op2), -1] ! unat (ReadALUBooleanFunction alu)"

text \<open>
  The background selector 3 has no case: the variable stays uninitialised, and the value is the
  argument \<open>garbage\<close>.
\<close>

definition ALUFunctionByte :: "Integer \<Rightarrow> Integer \<Rightarrow> Integer \<Rightarrow> Integer \<Rightarrow> Machine \<Rightarrow> Integer \<times> Machine" where
  "ALUFunctionByte garbage alu op1 op2 m =
     (let background = (if ldb 2 10 alu = 0 then op1 else if ldb 2 10 alu = 1 then RotateLatch m
          else if ldb 2 10 alu = 2 then 0 else garbage);
          rot = unat (ByteRotate m); size = unat (ByteSize m);
          back = unat ((32 - ByteRotate m) AND 0x1f)
      in if ldb 1 13 alu = 0
         then (let rotated = shl32 op2 rot; msk = shl32 (field_mask size) rot;
                   m1 = (if ldb 1 12 alu \<noteq> 0 then m\<lparr>RotateLatch := rotated OR shr32 op2 back\<rparr> else m)
               in ((rotated AND msk) OR (background AND NOT msk), m1))
         else (let rotated = shr32 op2 back; msk = field_mask size;
                   m1 = (if ldb 1 12 alu \<noteq> 0 then m\<lparr>RotateLatch := rotated OR shl32 op2 rot\<rparr> else m)
               in ((rotated AND msk) OR (background AND NOT msk), m1)))"

text \<open>
  The adder. The cases of its switch on the second operand have no \<^verbatim>\<open>break\<close>: 1 sets it to 0, then
  negates it, then sets it to -1, and so on. \<^verbatim>\<open>op1\<close> and \<^verbatim>\<open>op2\<close> are unsigned, hence the comparisons
  are, and \<^verbatim>\<open>op2 >= 0\<close> is true.
\<close>

definition adder_op2 :: "Integer \<Rightarrow> Integer \<Rightarrow> Integer" where
  "adder_op2 alu op2 =
     (let sel = ldb 2 11 alu;
          after_zero = (if sel = 1 then 0 else op2);
          after_invert = (if sel = 1 \<or> sel = 2 then - after_zero else after_zero)
      in if sel = 1 \<or> sel = 2 \<or> sel = 3 then -1 else after_invert)"

definition ALUFunctionAdder :: "Integer \<Rightarrow> Integer \<Rightarrow> Integer \<Rightarrow> Machine \<Rightarrow> Integer \<times> Machine" where
  "ALUFunctionAdder alu op1 op2 m =
     (let b = adder_op2 alu op2; sum = op1 + b + ldb 1 10 alu
      in (sum, m\<lparr>ALUOverflow := ((sum \<ge> op1) \<noteq> True), ALUBorrow := (op1 < b), ALULessThan := (op1 < b)\<rparr>))"

text \<open>The conditions; \<open>None\<close> for those that are not implemented.\<close>

definition ALUComputeCondition :: "Integer \<Rightarrow> LispObj \<Rightarrow> LispObj \<Rightarrow> Integer \<Rightarrow> Machine \<Rightarrow> bool option" where
  "ALUComputeCondition alu op1 op2 result m =
     (let c = unat (ldb 5 16 alu) in
      if c = 0 then Some (ALULessThan m \<or> result = 0)
      else if c = 1 then Some (ALULessThan m)
      else if c = 2 then Some (sint result < 0)
      else if c = 3 then Some (ALUOverflow m)
      else if c = 4 then Some (ALUBorrow m \<or> result = 0)
      else if c = 5 then Some (ALUBorrow m)
      else if c = 6 then Some (result = 0)
      else if c = 7 then Some (ldb 25 7 result = 0)
      else if c = 8 then Some (ObjectEqP op1 op2)
      else if c = 9 then Some (EphemeralP op1)
      else if c = 12 then Some (TypeEqualP (TAG op1) TypeNIL)
      else if c = 13 then Some (TypeFixnumP (TAG op2))
      else if c = 14 then Some False
      else if c = 15 then Some (bit (TagCdr (TAG op1)) 0)
      else if c = 16 then Some (ReadControlCleanupBits (control m) \<noteq> 0)
      else if c = 17 then Some (in_stack_cache m (DATA op1))
      else if c = 19 then Some (ReadControlTrapMode (control m) = 0)
      else if c = 20 then Some (ReadControlTrapMode (control m) = 3)
      else if c = 21 then Some False
      else if c = 22 then Some (OldspaceP m op1)
      else None)"

section \<open>Bindings\<close>

text \<open>The result is 0, or -1 when the frame has no bindings to undo.\<close>

definition Unbind :: "int em" where
  "Unbind = (\<lambda>m. let bsp = BindingStackPointer m in
     if ReadControlCleanupBindings (control m) = 0 then Some (Ok (-1), m)
     else bind_em (MemoryReadInternal CycleBindRead None bsp) (\<lambda>(_, old).
       bind_em (MemoryReadInternal CycleBindRead None (bsp - 1)) (\<lambda>(_, loc).
       bind_em (StoreContentsInternal CycleBindWrite (DATA loc) old) (\<lambda>_ m3.
         let m4 = m3\<lparr>BindingStackPointer := bsp - 2,
               control := WriteControlCleanupBindings (control m3) (ldb 1 6 (ucast (TAG loc)))\<rparr>
         in Some (Ok 0, if ldb 1 1 (PreemptRegister m4) \<noteq> 0
                        then m4\<lparr>PreemptRegister := PreemptRegister m4 OR 1\<rparr> else m4)))) m)"

section \<open>Frames\<close>

definition PushOneFakeFrame :: "Machine \<Rightarrow> Machine" where
  "PushOneFakeFrame m = (let fp = SP m + 1 in
     m\<lparr>StackCache := (StackCache m)(fp := (continuation m)\<lparr>TAG := TAG (continuation m) OR 0xc0\<rparr>,
          fp + 1 := obj (0xc0 OR TypeFixnum) (control m)),
       control := WriteControlCallerFrameSize (WriteControlArgumentSize 0 2) (of_int (fp - FP m)),
       continuation := PC m, FP := fp, SP := fp + 1\<rparr>)"

definition PopOneFakeFrame :: "Machine \<Rightarrow> Machine" where
  "PopOneFakeFrame m = (let fp = FP m; fp' = fp - uint (ReadControlCallerFrameSize (control m));
       control' = DATA (StackCache m (fp + 1)) in
     m\<lparr>SP := fp - 1, FP := fp', PC := continuation m, continuation := StackCache m fp,
       control := control', LP := fp' + uint (ReadControlArgumentSize control')\<rparr>)"

section \<open>Arguments of an apply\<close>

text \<open>The end of \<^verbatim>\<open>PullApplyArgsQuickly\<close> at its label \<^verbatim>\<open>trap\<close>.\<close>

definition pull_trap :: "nat \<Rightarrow> Integer \<Rightarrow> nat \<Rightarrow> int \<Rightarrow> int em" where
  "pull_trap count supplied i rest = (\<lambda>m.
     let m1 = push (obj TypeList (slot_address m rest)) m
     in Some (Ok (int count - int i),
        m1\<lparr>control := WriteControlArgumentSize (control m1) (supplied + of_nat i), LP := LP m1 + int i\<rparr>))"

text \<open>The exits that have taken all arguments: \<open>apply\<close> is false once the list has ended.\<close>

definition pull_done :: "bool \<Rightarrow> Integer \<Rightarrow> nat \<Rightarrow> int \<Rightarrow> int em" where
  "pull_done ended supplied i left = (\<lambda>m.
     let c = (if ended then WriteControlApply (control m) 0 else control m)
     in Some (Ok left, m\<lparr>control := WriteControlArgumentSize c (supplied + of_nat i + 1), LP := LP m + int i + 1\<rparr>))"

definition scroll_if_full :: "int \<Rightarrow> int em" where
  "scroll_if_full rest = (\<lambda>m. if SP m \<ge> StackCacheLimit m
     then bind_em StackCacheScrollUp (\<lambda>_ m1. Some (Ok (rest + (SP m1 - SP m)), m1)) m
     else Some (Ok rest, m))"

text \<open>
  The loop. After the \<^verbatim>\<open>break\<close> of the inner switch, of a list that goes on in the stack cache, the
  outer switch falls into its default case.
\<close>

primrec pull_loop :: "nat \<Rightarrow> nat \<Rightarrow> Integer \<Rightarrow> nat \<Rightarrow> int \<Rightarrow> int em" where
  "pull_loop 0 count supplied i rest = pull_trap count supplied i rest"
| "pull_loop (Suc n) count supplied i rest = bind_em (scroll_if_full rest) (\<lambda>rest m.
     let x = StackCache m rest; m1 = push (cdr_next x) m; y = StackCache m1 (rest + 1) in
     if TagCdr (TAG x) = CdrNext then pull_loop n count supplied (Suc i) (rest + 1) m1
     else if TagCdr (TAG x) = CdrNil then pull_done True supplied i 0 m1
     else if TagCdr (TAG x) = CdrNormal then
       (if TagType (TAG y) = TypeNIL then pull_done True supplied i 0 m1
        else if TagType (TAG y) = TypeList \<and> in_stack_cache m1 (DATA y)
          then pull_trap count supplied i (uint (stack_cache_index m1 (DATA y))) m1
        else pull_done False supplied i (int count - (int i + 1)) (push (cdr_next y) m1))
     else pull_trap count supplied i rest m)"

definition PullApplyArgsQuickly :: "nat \<Rightarrow> int em" where
  "PullApplyArgsQuickly count = (\<lambda>m.
     let rest = uint (DATA (TOS m) - StackCacheBase m)
     in pull_loop count count (ReadControlArgumentSize (control m)) 0 rest (m\<lparr>SP := SP m - 1\<rparr>))"

end
