(* ===== verification/Ivory_Arrays.thy ===== *)
theory Ivory_Arrays
  imports Ivory_Stack
begin

text \<open>
  Arrays and instances of the portable emulator (\<^verbatim>\<open>src/c-emulator/emulator.c\<close>): access to packed
  array elements, the array instructions with and without an array register, array leaders, and
  the location of instance variables.
\<close>

section \<open>Elements\<close>

text \<open>\<^verbatim>\<open>index >> packing\<close> of a C \<^verbatim>\<open>int\<close>.\<close>

definition element_word :: "Integer \<Rightarrow> nat \<Rightarrow> Integer" where
  "element_word index packing = sar32 index packing"

definition Aref1Internal :: "Integer \<Rightarrow> nat \<Rightarrow> Integer \<Rightarrow> Integer \<Rightarrow> Integer \<Rightarrow> LispObj em" where
  "Aref1Internal vma packing offset type index =
     (if type = ArrayElementTypeObject \<and> packing = 0
      then bind_em (MemoryReadData (vma + index) None) (\<lambda>(_, q). ret (cdr_next q))
      else let index = index + offset; word_vma = vma + element_word index packing in
        bind_em (MemoryReadData word_vma None) (\<lambda>(_, q).
          if \<not> TypeFixnumP (TAG q) then TakeMemoryTrap ErrorTrapVector word_vma
          else let d = (if packing \<noteq> 0 then ArrayElementLdb packing index (DATA q) else DATA q) in
            if type = ArrayElementTypeFixnum then ret (obj TypeFixnum d)
            else if type = ArrayElementTypeCharacter then ret (obj TypeCharacter d)
            else if type = ArrayElementTypeBoolean then ret (if d \<noteq> 0 then ObjectT else ObjectNIL)
            else TakeMemoryTrap ErrorTrapVector (vma - 1)))"

text \<open>\<open>slot\<close> is the slot of the value, which an illegal operand trap reports.\<close>

definition Aset1Internal :: "Integer \<Rightarrow> nat \<Rightarrow> Integer \<Rightarrow> Integer \<Rightarrow> Integer \<Rightarrow> LispObj \<Rightarrow> int \<Rightarrow> unit em" where
  "Aset1Internal vma packing offset type index val slot =
     (if type = ArrayElementTypeObject \<and> packing = 0
      then StoreContentsInternal CycleDataWrite (vma + index) val
      else if type = ArrayElementTypeFixnum \<and> \<not> TypeFixnumP (TAG val) then TakeIllegalOperandTrap 0 slot
      else if type = ArrayElementTypeCharacter \<and>
          (\<not> TypeEqualP (TAG val) TypeCharacter \<or> ArrayElementLdb packing 0 (DATA val) \<noteq> DATA val)
        then TakeIllegalOperandTrap 0 slot
      else if type = ArrayElementTypeObject then TakeMemoryTrap ErrorTrapVector (vma - 1)
      else let data = (if type = ArrayElementTypeBoolean
                 then (if TypeEqualP (TAG val) TypeNIL then 0 else -1) else DATA val);
               index = index + offset in
        bind_em (MemoryReadData (vma + element_word index packing) None) (\<lambda>(vma', q).
          if \<not> TypeFixnumP (TAG q) then TakeMemoryTrap ErrorTrapVector vma'
          else WriteVirtualMemory vma' (q\<lparr>DATA :=
            (if packing \<noteq> 0 then ArrayElementDpb data packing index (DATA q) else data)\<rparr>)))"

text \<open>\<open>areg\<close> is the slot of the control word; the array is in the slot before it.\<close>

definition RecomputeArrayRegister :: "int \<Rightarrow> Integer \<Rightarrow> unit em" where
  "RecomputeArrayRegister areg count = (\<lambda>m. let a = StackCache m (areg - 1); t = TagType (TAG a) in
     if t = TypeArray \<or> t = TypeString then
       bind_em (MemoryReadHeader (DATA a)) (\<lambda>(vma, header) m1.
         if TAG header \<noteq> ArrayHeaderTag then TakeIllegalOperandTrap 0 areg m1
         else if ArrayLongPrefixP (DATA header) then TakeInstructionExceptionTrap m1
         else modify (\<lambda>m. m\<lparr>StackCache := (StackCache m)(
             areg := (StackCache m areg)\<lparr>DATA := SetArrayRegisterEventCount count (DATA header)\<rparr>,
             areg + 1 := (StackCache m (areg + 1))\<lparr>DATA := vma + 1\<rparr>,
             areg + 2 := (StackCache m (areg + 2))\<lparr>DATA := ArrayShortLength (DATA header)\<rparr>)\<rparr>) m1) m
     else if t = TypeArrayInstance \<or> t = TypeStringInstance then TakeInstructionExceptionTrap m
     else if TypeSpareP (TAG a) then TakeInstructionExceptionTrap m
     else TakeIllegalOperandTrap 0 areg m)"

section \<open>Array instructions\<close>

text \<open>
  The tests that open the array instructions: the index must be a fixnum and the top of the stack
  an array; \<open>f\<close> continues with the header and its address.
\<close>

definition with_header :: "(Integer \<Rightarrow> Integer \<Rightarrow> label em) \<Rightarrow> LispObj \<Rightarrow> label em" where
  "with_header f a = bind_em (MemoryReadHeader (DATA a)) (\<lambda>(vma, header).
     if TAG header \<noteq> ArrayHeaderTag then stop IllegalOperand
     else if ArrayLongPrefixP (DATA header) then stop InstructionException
     else f vma (DATA header))"

definition indexed_array :: "(Integer \<Rightarrow> Integer \<Rightarrow> Integer \<Rightarrow> label em) \<Rightarrow> address_mode \<Rightarrow> int \<Rightarrow> label em" where
  "indexed_array f mode operand = addressed mode operand (\<lambda>op2 m.
     if \<not> TypeFixnumP (TAG (op_read m op2)) then stop IllegalOperand m
     else if TypeArrayP (TAG (TOS m))
     then with_header (\<lambda>vma h m1. let i = DATA (op_read m1 op2) in
       if i \<ge> ArrayShortLength h then stop IllegalOperand m1 else f vma h i m1) (TOS m) m
     else stop (ArrayExceptions (TAG (TOS m))) m)"

definition ExecuteAref1 :: "address_mode \<Rightarrow> int \<Rightarrow> label em" where
  "ExecuteAref1 = indexed_array (\<lambda>vma h i.
     bind_em (Aref1Internal (vma + 1) (ArrayBytePacking h) 0 (ArrayElementType h) i)
       (\<lambda>x m. next_with (set_tos x m)))"

definition ExecuteAset1 :: "address_mode \<Rightarrow> int \<Rightarrow> label em" where
  "ExecuteAset1 = indexed_array (\<lambda>vma h i m.
     bind_em (Aset1Internal (vma + 1) (ArrayBytePacking h) 0 (ArrayElementType h) i
         (StackCache m (SP m - 1)) (SP m - 1))
       (\<lambda>_ m. next_with (m\<lparr>SP := SP m - 2\<rparr>)) m)"

definition ExecuteAloc1 :: "address_mode \<Rightarrow> int \<Rightarrow> label em" where
  "ExecuteAloc1 = indexed_array (\<lambda>vma h i m.
     if ArrayElementType h \<noteq> ArrayElementTypeObject then stop IllegalOperand m
     else next_with (set_tos (obj TypeLocative (vma + 1 + i)) m))"

text \<open>Both setup instructions; the operand may be any slot, and there is no immediate form.\<close>

definition ExecuteSetup1dArray :: "address_mode \<Rightarrow> int \<Rightarrow> label em" where
  "ExecuteSetup1dArray mode operand = (if mode = ModeImmediate then stop UnimplementedInstruction
     else addressed mode operand (\<lambda>op2 m.
       if TypeArrayP (TAG (op_read m op2))
       then with_header (\<lambda>vma h m1. next_with
         (push_fixnum (ArrayShortLength h) (push (obj TypeLocative (vma + 1))
           (push_fixnum (SetArrayRegisterEventCount (ArrayEventCount m1) h)
             (push (obj (TagType (TAG (op_read m1 op2))) vma) m1))))) (op_read m op2) m
       else stop (ArrayExceptions (TAG (op_read m op2))) m))"

text \<open>
  The instructions on array registers. When the event count has changed, the register is
  recomputed and the instruction starts again.
\<close>

partial_function (option) fast_array ::
    "(int \<Rightarrow> Machine \<Rightarrow> (label outcome \<times> Machine) option) \<Rightarrow> int \<Rightarrow> Machine \<Rightarrow> (label outcome \<times> Machine) option" where
  "fast_array f areg m =
     (if \<not> TypeFixnumP (TAG (TOS m)) then stop IllegalOperand m
      else if DATA (TOS m) \<ge> DATA (StackCache m (areg + 2)) then stop IllegalOperand m
      else if ArrayRegisterEventCount (DATA (StackCache m areg)) \<noteq> ArrayEventCount m
      then (case RecomputeArrayRegister areg (ArrayEventCount m) m of
           None \<Rightarrow> None
         | Some (Longjmp v, m1) \<Rightarrow> Some (Longjmp v, m1)
         | Some (Exit, m1) \<Rightarrow> Some (Exit, m1)
         | Some (Ok _, m1) \<Rightarrow> fast_array f areg m1)
      else f areg m)"

definition fast_aref :: "int \<Rightarrow> label em" where
  "fast_aref areg = (\<lambda>m. let c = DATA (StackCache m areg) in
     bind_em (Aref1Internal (DATA (StackCache m (areg + 1))) (ArrayBytePacking c)
         (ArrayRegisterByteOffset c) (ArrayElementType c) (DATA (TOS m)))
       (\<lambda>x m. next_with (set_tos x m)) m)"

definition ExecuteFastAref1 :: "address_mode \<Rightarrow> int \<Rightarrow> label em" where
  "ExecuteFastAref1 mode operand = addressed mode operand (\<lambda>op2. fast_array fast_aref (op_slot op2))"

definition fast_aset :: "int \<Rightarrow> label em" where
  "fast_aset areg = (\<lambda>m. let c = DATA (StackCache m areg) in
     bind_em (Aset1Internal (DATA (StackCache m (areg + 1))) (ArrayBytePacking c)
         (ArrayRegisterByteOffset c) (ArrayElementType c) (DATA (TOS m))
         (StackCache m (SP m - 1)) (SP m - 1))
       (\<lambda>_ m. next_with (m\<lparr>SP := SP m - 2\<rparr>)) m)"

definition ExecuteFastAset1 :: "address_mode \<Rightarrow> int \<Rightarrow> label em" where
  "ExecuteFastAset1 mode operand = addressed mode operand (\<lambda>op2. fast_array fast_aset (op_slot op2))"

text \<open>The leader instructions take long arrays as well.\<close>

definition indexed_leader :: "(Integer \<Rightarrow> label em) \<Rightarrow> address_mode \<Rightarrow> int \<Rightarrow> label em" where
  "indexed_leader f mode operand = addressed mode operand (\<lambda>op2 m.
     if \<not> TypeFixnumP (TAG (op_read m op2)) then stop IllegalOperand m
     else if TypeArrayP (TAG (TOS m))
     then bind_em (MemoryReadHeader (DATA (TOS m))) (\<lambda>(vma, header) m1. let i = DATA (op_read m1 op2) in
       if TAG header \<noteq> ArrayHeaderTag \<or> i \<ge> ArrayLeaderLength (DATA header) then stop IllegalOperand m1
       else f (vma - (1 + i)) m1) m
     else stop (ArrayExceptions (TAG (TOS m))) m)"

definition ExecuteArrayLeader :: "address_mode \<Rightarrow> int \<Rightarrow> label em" where
  "ExecuteArrayLeader = indexed_leader (\<lambda>vma.
     bind_em (MemoryReadData vma None) (\<lambda>(_, q) m. next_with (set_tos (cdr_next q) m)))"

definition ExecuteStoreArrayLeader :: "address_mode \<Rightarrow> int \<Rightarrow> label em" where
  "ExecuteStoreArrayLeader = indexed_leader (\<lambda>vma m.
     bind_em (StoreContentsInternal CycleDataWrite vma (StackCache m (SP m - 1)))
       (\<lambda>_ m. next_with (m\<lparr>SP := SP m - 2\<rparr>)) m)"

definition ExecuteAlocLeader :: "address_mode \<Rightarrow> int \<Rightarrow> label em" where
  "ExecuteAlocLeader = indexed_leader (\<lambda>vma m. next_with (set_tos (obj TypeLocative vma) m))"

section \<open>Instances\<close>

definition instance_tag :: "Tag \<Rightarrow> bool" where
  "instance_tag tag \<longleftrightarrow> ldb 4 2 (ucast tag) = ldb 4 2 (ucast TypeInstance)"

text \<open>
  \<open>ivmap\<close> and \<open>self\<close> are slots. When the header was not forwarded, the instance is marked with cdr
  code 1, and the next access skips the header.
\<close>

definition LocateInstanceVariableMapped :: "int \<Rightarrow> int \<Rightarrow> Integer \<Rightarrow> Integer em" where
  "LocateInstanceVariableMapped ivmap self n = (\<lambda>m. let mp = StackCache m ivmap in
     if \<not> TypeEqualP (TAG mp) TypeArray then TakeIllegalOperandTrap 0 ivmap m
     else bind_em (MemoryReadHeader (DATA mp)) (\<lambda>(_, header) m1.
       if n \<ge> ArrayShortLength (DATA header) then TakeIllegalOperandTrap 0 ivmap m1
       else bind_em (MemoryReadData (DATA mp + n + 1) None) (\<lambda>(_, offset) m2.
         let s = StackCache m2 self in
         if \<not> TypeFixnumP (TAG offset) then TakeInstructionExceptionTrap m2
         else if \<not> instance_tag (TAG s) then TakeIllegalOperandTrap 0 self m2
         else if TagCdr (TAG s) = 1 then Some (Ok (DATA s + DATA offset), m2)
         else bind_em (MemoryReadHeader (DATA s)) (\<lambda>(vma, _) m3.
           Some (Ok (vma + DATA offset),
             if vma = DATA s then set_slot self (s\<lparr>TAG := SetTagCdr (TAG s) 1\<rparr>) m3 else m3)) m2) m1) m)"

text \<open>
  \<^verbatim>\<open>offset->DATA.u >= size.DATA.s\<close> compares unsigned. For an immediate offset, which is not in the
  stack cache, the address that an illegal operand trap reports has no meaning.
\<close>

definition LocateArbitraryInstanceVariable :: "int \<Rightarrow> operand \<Rightarrow> Integer em" where
  "LocateArbitraryInstanceVariable instance off = (\<lambda>m. let s = StackCache m instance; o2 = op_read m off in
     if \<not> instance_tag (TAG s)
     then (if TypeSpareP (TAG s) then TakeInstructionExceptionTrap m else TakeIllegalOperandTrap 0 instance m)
     else if \<not> TypeFixnumP (TAG o2) then TakeIllegalOperandTrap 0 (op_slot off) m
     else bind_em (MemoryReadHeader (DATA s)) (\<lambda>(vma, flavor).
       bind_em (MemoryReadData (DATA flavor - 1) None) (\<lambda>(_, size).
         if \<not> TypeFixnumP (TAG size) \<or> DATA o2 \<ge> DATA size then TakeIllegalOperandTrap 0 (op_slot off)
         else ret (vma + DATA o2))) m)"

end
