(* ===== verification/Ivory_Traps.thy ===== *)
theory Ivory_Traps
  imports Ivory_Arrays
begin

text \<open>
  Traps of the portable emulator (\<^verbatim>\<open>src/c-emulator/traps.c\<close>, and the places in
  \<^verbatim>\<open>src/c-emulator/emulator.c\<close> where the sequencer takes them): the trap vector, the frames that
  pre-traps and post-traps push, instruction exceptions, and what the sequencer does at the labels
  an instruction can leave to and after a \<^verbatim>\<open>longjmp\<close>.
\<close>

section \<open>The trap vector\<close>

abbreviation (input) "TrapVectorBase \<equiv> 0xf8040000 :: Integer"
abbreviation (input) "ArithmeticInstructionExceptionVector \<equiv> 0 :: int"
abbreviation (input) "InterpreterFunctionVector \<equiv> 2304 :: int"
abbreviation (input) "ResetTrapVector \<equiv> 2625 :: int"
abbreviation (input) "PullApplyArgsTrapVector \<equiv> 2626 :: int"
abbreviation (input) "FepModeTrapVector \<equiv> 2631 :: int"
abbreviation (input) "LowPrioritySequenceBreakTrapVector \<equiv> 2632 :: int"
abbreviation (input) "HighPrioritySequenceBreakTrapVector \<equiv> 2633 :: int"

definition pc_tag :: "Tag \<Rightarrow> bool" where
  "pc_tag tag \<longleftrightarrow> TypeEqualP tag TypeOddPC \<or> TypeEqualP tag TypeEvenPC"

definition set_trap_mode :: "Integer \<Rightarrow> Machine \<Rightarrow> Machine" where
  "set_trap_mode x m = m\<lparr>control := WriteControlTrapMode (control m) x\<rparr>"

text \<open>
  \<^verbatim>\<open>FetchTrapVectorEntry\<close> calls itself at most once, in trap mode 3, where it reads the entry for that
  mode whatever its argument: \<open>fetch_fep_entry\<close> is that call. \<open>None\<close> is the result 0.
\<close>

definition fetch_fep_entry :: "LispObj option em" where
  "fetch_fep_entry = bind_em (modify (set_trap_mode 3)) (\<lambda>_.
     bind_em (MemoryReadData (TrapVectorBase + of_int FepModeTrapVector) None) (\<lambda>(_, entry).
       if pc_tag (TAG entry) then bind_em (modify (set_trap_mode 3)) (\<lambda>_. ret (Some entry)) else ret None))"

definition FetchTrapVectorEntry :: "Integer \<Rightarrow> LispObj option em" where
  "FetchTrapVectorEntry index = (\<lambda>m. let previous = ReadControlTrapMode (control m) in
     if previous = 3 then fetch_fep_entry m
     else bind_em (MemoryReadData (TrapVectorBase + index) None) (\<lambda>(_, entry).
       if pc_tag (TAG entry) then bind_em (modify (set_trap_mode previous)) (\<lambda>_. ret (Some entry))
       else bind_em fetch_fep_entry (\<lambda>r. case r of
           None \<Rightarrow> ret None
         | Some e \<Rightarrow> bind_em (modify (set_trap_mode previous)) (\<lambda>_. ret (Some e)))) (set_trap_mode 3 m))"

section \<open>Trap frames\<close>

definition push_continuation :: "Machine \<Rightarrow> Machine" where
  "push_continuation m = push ((continuation m)\<lparr>TAG := TAG (continuation m) OR 0xc0\<rparr>) m"

definition push_control :: "Machine \<Rightarrow> Machine" where
  "push_control m = push (obj (TypeFixnum OR 0xc0) (control m)) m"

text \<open>The control register of a trap's frame.\<close>

definition trap_control :: "Integer \<Rightarrow> int \<Rightarrow> int \<Rightarrow> Integer" where
  "trap_control c argument_size frame_size =
     (c AND NOT (ControlApply OR ControlTraceBits OR ControlCleanupBits OR ControlExtraArgument OR ControlCallStarted OR
        ControlArgumentSize OR ControlValueDisposition OR ControlCallerFrameSize))
     OR of_int argument_size OR push_bit 9 (of_int frame_size)"

text \<open>The end of both traps: the entry of the vector, its trap mode, and the jump to it.\<close>

definition enter_trap :: "Integer \<Rightarrow> bool em" where
  "enter_trap index = bind_em (FetchTrapVectorEntry index) (\<lambda>r m. case r of
       None \<Rightarrow> Some (Ok False, m)
     | Some entry \<Rightarrow> let m1 = (if ReadControlTrapMode (control m) < ucast (TagCdr (TAG entry))
           then set_trap_mode (ucast (TagCdr (TAG entry))) m else m)
         in Some (Ok True, m1\<lparr>PC := entry\<rparr>))"

definition scroll_for_trap :: "unit em" where
  "scroll_for_trap = (\<lambda>m. if SP m + 8 > StackCacheLimit m then StackCacheScrollUp m else Some (Ok (), m))"

definition push_extra :: "LispObj option \<Rightarrow> Machine \<Rightarrow> Machine" where
  "push_extra extra m = (case extra of None \<Rightarrow> m | Some x \<Rightarrow> push (cdr_next x) m)"

text \<open>
  \<^verbatim>\<open>oldfp\<close> and \<^verbatim>\<open>restartsp\<close> are read before the stack cache may scroll, and used after it as they were.
\<close>

definition TakePreTrap :: "Integer \<Rightarrow> LispObj option \<Rightarrow> LispObj option \<Rightarrow> bool em" where
  "TakePreTrap index extra1 extra2 = (\<lambda>m0. let oldfp = FP m0; restartsp = restartSP m0 in
     bind_em scroll_for_trap (\<lambda>_ m.
       let m1 = push_extra extra2 (push_extra extra1
             (push (cdr_next (PC m)) (push (obj TypeFixnum index) (push_control (push_continuation m)))));
           fp = restartsp + 1; lp = SP m1 + 1
       in enter_trap index (m1\<lparr>FP := fp, LP := lp, control := trap_control (control m1) (lp - fp) (fp - oldfp),
            continuation := PC m1\<rparr>)) (m0\<lparr>SP := restartsp\<rparr>))"

text \<open>The operands move up by four slots, from the top one down.\<close>

primrec move_operands :: "nat \<Rightarrow> int \<Rightarrow> (int \<Rightarrow> LispObj) \<Rightarrow> int \<Rightarrow> LispObj" where
  "move_operands 0 sp c = c"
| "move_operands (Suc n) sp c = move_operands n (sp - 1) (c(sp + 4 := c sp))"

definition TakePostTrap :: "Integer \<Rightarrow> nat \<Rightarrow> LispObj \<Rightarrow> bool em" where
  "TakePostTrap index arity nextpc = (\<lambda>m0. let oldfp = FP m0 in
     bind_em scroll_for_trap (\<lambda>_ m.
       let fp = SP m - (int arity - 1); sp = SP m + 4; lp = sp + 1;
           c = control m;
           saved = (if ReadControlInstructionTrace c \<noteq> 0 then WriteControlTracePending c 1 else c);
           m1 = m\<lparr>StackCache := (move_operands arity (SP m) (StackCache m))
               (fp := (continuation m)\<lparr>TAG := TAG (continuation m) OR 0xc0\<rparr>,
                fp + 1 := obj (TypeFixnum OR 0xc0) saved, fp + 2 := obj TypeFixnum index, fp + 3 := cdr_next (PC m))\<rparr>
       in enter_trap index (m1\<lparr>SP := sp, FP := fp, LP := lp, control := trap_control c (lp - fp) (fp - oldfp),
            continuation := nextpc\<rparr>)) m0)"

section \<open>Instruction exceptions\<close>

text \<open>For each opcode: the number of operands, whether they are on the stack, whether it is arithmetic.\<close>

definition InstructionExceptionInfo :: "(nat \<times> bool \<times> bool) list" where
  "InstructionExceptionInfo = [
   (1, False, False), (1, False, False), (0, True, False), (1, False, False), (1, False, False),
   (1, False, False), (1, False, False), (0, True, False), (0, True, False), (0, True, False),
   (0, True, False), (0, True, False), (1, False, False), (0, True, False), (0, True, False),
   (0, True, False), (1, False, False), (0, True, False), (0, True, False), (0, True, False),
   (0, True, False), (0, True, False), (0, True, False), (0, True, False), (0, True, False),
   (0, True, False), (0, True, False), (0, True, False), (1, False, True), (1, False, True),
   (1, False, True), (0, True, False), (0, True, False), (0, True, False), (0, True, False),
   (0, True, False), (0, True, False), (0, True, False), (0, True, False), (0, True, False),
   (0, True, False), (0, True, False), (0, True, False), (0, True, False), (0, True, False),
   (0, True, False), (0, True, False), (0, True, False), (0, True, False), (0, True, False),
   (0, True, False), (0, True, False), (0, True, False), (0, True, False), (0, True, False),
   (0, True, False), (0, True, False), (0, True, False), (0, True, False), (0, True, False),
   (0, True, False), (0, True, False), (0, True, False), (0, True, False), (0, True, False),
   (0, True, False), (1, False, False), (0, True, False), (0, True, False), (0, True, False),
   (0, True, False), (0, True, False), (1, False, False), (1, False, False), (0, True, False),
   (0, True, False), (1, False, True), (0, True, False), (0, True, False), (0, True, False),
   (0, True, False), (0, True, False), (0, True, False), (0, True, False), (0, True, False),
   (0, True, False), (0, True, False), (0, True, False), (2, True, False), (2, True, False),
   (2, True, False), (2, True, False), (0, True, False), (0, True, False), (0, True, False),
   (0, True, False), (1, False, False), (1, False, False), (1, False, False), (1, False, False),
   (1, False, False), (0, True, False), (0, True, False), (0, True, False), (0, True, False),
   (0, True, False), (0, True, False), (0, True, False), (0, True, False), (0, True, False),
   (0, True, False), (0, True, False), (1, False, False), (1, False, False), (1, False, False),
   (1, False, False), (0, True, False), (0, True, False), (0, True, False), (0, True, False),
   (1, True, False), (1, True, False), (0, True, False), (0, True, False), (0, True, False),
   (1, True, False), (0, True, False), (0, True, False), (2, False, False), (2, False, False),
   (2, False, True), (2, False, True), (2, False, True), (2, False, True), (2, False, True),
   (2, False, True), (0, True, False), (2, False, True), (2, False, True), (2, False, True),
   (2, False, False), (2, False, True), (2, False, True), (2, False, True), (0, True, False),
   (0, True, False), (0, True, False), (0, True, False), (2, False, False), (2, False, False),
   (2, False, False), (2, False, False), (0, True, False), (0, True, False), (2, False, True),
   (0, True, False), (0, True, False), (0, True, False), (2, False, False), (2, False, False),
   (2, False, False), (0, True, False), (0, True, False), (0, True, False), (0, True, False),
   (0, True, False), (0, True, False), (0, True, False), (2, False, False), (0, True, False),
   (0, True, False), (0, True, False), (0, True, False), (0, True, False), (0, True, False),
   (0, True, False), (2, False, True), (2, False, True), (2, False, True), (2, False, True),
   (2, False, True), (2, False, True), (2, False, True), (2, False, True), (0, True, False),
   (0, True, False), (0, True, False), (2, False, True), (0, True, False), (0, True, False),
   (0, True, False), (2, False, True), (2, False, True), (2, False, True), (0, True, False),
   (0, True, False), (0, True, False), (0, True, False), (0, True, False), (0, True, False),
   (3, False, False), (2, False, False), (2, False, False), (2, False, False), (3, False, False),
   (2, False, False), (2, False, False), (2, False, False), (2, False, False), (2, False, False),
   (0, True, False), (0, True, False), (2, False, False), (3, False, False), (2, False, False),
   (0, True, False), (0, True, False), (0, True, False), (0, True, False), (0, True, False),
   (0, True, False), (0, True, False), (0, True, False), (0, True, False), (0, True, False),
   (0, True, False), (0, True, False), (0, True, False), (0, True, False), (0, True, False),
   (0, True, False), (0, True, False), (2, False, False), (3, False, False), (2, False, False),
   (0, True, False), (0, True, False), (0, True, False), (0, True, False), (0, True, False),
   (0, True, False), (0, True, False), (0, True, False), (0, True, False), (0, True, False),
   (0, True, False), (0, True, False), (0, True, False), (2, True, False), (2, True, False),
   (0, True, False), (0, True, False), (0, True, False), (2, True, False), (0, True, False),
   (0, True, False)]"

text \<open>
  The place of an operand in the stack cache; that of the sequencer's variable \<^verbatim>\<open>immediate\<close>, which is
  not in the cache, is the argument \<open>stray\<close>.
\<close>

definition operand_place :: "int \<Rightarrow> operand \<Rightarrow> int" where
  "operand_place stray op2 = (case op2 of Slot i \<Rightarrow> i | Immediate _ \<Rightarrow> stray)"

definition push_exception_operand :: "int \<Rightarrow> Integer \<Rightarrow> operand \<Rightarrow> Machine \<Rightarrow> Machine" where
  "push_exception_operand stray instruction op2 m =
     (if ldb 2 15 instruction = 3 then push (obj TypeLocative (slot_address m (operand_place stray op2))) m
      else if ldb 10 0 instruction \<noteq> 0x200 then push (cdr_next (op_read m op2)) m
      else m)"

definition exception_vector :: "Machine \<Rightarrow> Integer \<Rightarrow> nat \<Rightarrow> bool \<Rightarrow> Integer" where
  "exception_vector m opcode arity arithp =
     (if \<not> arithp then of_int InstructionExceptionVector + opcode
      else if arity > 1 then of_int ArithmeticInstructionExceptionVector +
        dpb opcode 5 6 (dpb (ucast (TAG (StackCache m (SP m - 1)))) 3 3 (ucast (TAG (TOS m))))
      else of_int ArithmeticInstructionExceptionVector + dpb opcode 5 6 (dpb (ucast (TAG (TOS m))) 3 3 0))"

definition TakeInstructionException :: "int \<Rightarrow> Integer \<Rightarrow> operand \<Rightarrow> LispObj \<Rightarrow> bool em" where
  "TakeInstructionException stray instruction op2 nextpc = (\<lambda>m0.
     let opcode = ldb 8 10 instruction; m = m0\<lparr>SP := restartSP m0\<rparr> in
     case InstructionExceptionInfo ! unat opcode of (arity, stackp, arithp) \<Rightarrow>
       let m1 = (if stackp then m else push_exception_operand stray instruction op2 m)
       in TakePostTrap (exception_vector m1 opcode arity arithp) arity nextpc m1)"

section \<open>The sequencer's trap handling\<close>

text \<open>A trap that was taken goes on at the instruction cache lookup; one that could not be halts.\<close>

definition trap_done :: "bool \<Rightarrow> label em" where
  "trap_done taken = stop (if taken then BranchTaken else Halt)"

text \<open>
  A line of the instruction cache. The pointer \<^verbatim>\<open>next_cp\<close> is the index of a line, or \<open>None\<close> for the line
  that forces a lookup.
\<close>

record InstructionCacheLine =
  line_pc :: LispObj
  next_pc :: LispObj
  code :: nat
  line_operand :: int
  instruction :: Integer
  next_cp :: "int option"

text \<open>What the sequencer does at the labels that an instruction leaves to; \<open>op2\<close> is its last operand.\<close>

definition handle_label :: "int \<Rightarrow> InstructionCacheLine \<Rightarrow> operand \<Rightarrow> label \<Rightarrow> label em" where
  "handle_label stray cp op2 l = (case l of
       UnimplementedInstruction \<Rightarrow> (\<lambda>m.
         bind_em (TakePreTrap (of_int ErrorTrapVector) (Some (obj TypeFixnum 0)) (Some (PC m))) trap_done m)
     | IllegalOperand \<Rightarrow> (\<lambda>m. bind_em (TakePreTrap (of_int ErrorTrapVector) (Some (obj TypeFixnum 0))
         (Some (obj TypeLocative (slot_address m (operand_place stray op2))))) trap_done m)
     | InstructionException \<Rightarrow>
         bind_em (TakeInstructionException stray (instruction cp) op2 (next_pc cp)) trap_done
     | FollowPCInstructionException \<Rightarrow> (\<lambda>m.
         bind_em (TakeInstructionException stray (instruction cp) op2 (IncrementPC (PC m) (line_operand cp))) trap_done m)
     | _ \<Rightarrow> stop l)"

text \<open>
  What the sequencer does after a \<^verbatim>\<open>longjmp\<close>. A memory trap whose address is in the page of the reset
  vector halts the machine. The vector -1, for the spy, returns from the sequencer as a halt does.
\<close>

definition PageNumberMask :: Integer where
  "PageNumberMask = 0xffffff00"

definition bad_spot :: "Machine \<Rightarrow> bool" where
  "bad_spot m \<longleftrightarrow> (trap_vma m XOR (TrapVectorBase + of_int ResetTrapVector)) AND PageNumberMask = 0"

definition handle_longjmp :: "int \<Rightarrow> InstructionCacheLine \<Rightarrow> operand \<Rightarrow> int \<Rightarrow> label em" where
  "handle_longjmp stray cp op2 vector = (\<lambda>m.
     let microstate = obj TypeFixnum (trap_microstate m); vma = obj TypeLocative (trap_vma m) in
     if vector = -1 then stop Halt m
     else if vector = HighPrioritySequenceBreakTrapVector \<or> vector = LowPrioritySequenceBreakTrapVector \<or>
         vector = ResetTrapVector
       then bind_em (TakePreTrap (of_int vector) None None) trap_done m
     else if vector = ErrorTrapVector then
       (if bad_spot m then stop Halt m
        else bind_em (TakePreTrap (of_int vector) (Some microstate) (Some vma)) trap_done m)
     else if vector = MonitorTrapVector \<or> vector = TransportTrapVector \<or> vector = PageNotResidentTrapVector then
       (if bad_spot m then stop Halt m
        else bind_em (TakePreTrap (of_int vector) (Some vma) None) trap_done m)
     else if vector = InstructionExceptionVector then
       bind_em (TakeInstructionException stray (instruction cp) op2 (next_pc cp)) trap_done m
     else Some (Exit, m))"

end
