(* ===== verification/Ivory_Codes.thy ===== *)
theory Ivory_Codes
  imports VLM_Prelude
begin

text \<open>
  The dispatch codes of the portable emulator, the constants of the enumeration
  \<^verbatim>\<open>IvoryDispatch\<close> (\<^verbatim>\<open>src/c-emulator/dispatch.h\<close>) with their values.
\<close>

abbreviation (input) "CodeCarFP \<equiv> 0 :: nat"
abbreviation (input) "CodeCarLP \<equiv> 1 :: nat"
abbreviation (input) "CodeCarSP \<equiv> 2 :: nat"
abbreviation (input) "CodeCarImmediate \<equiv> 3 :: nat"
abbreviation (input) "CodeCarPop \<equiv> 4 :: nat"
abbreviation (input) "CodeCdrFP \<equiv> 5 :: nat"
abbreviation (input) "CodeCdrLP \<equiv> 6 :: nat"
abbreviation (input) "CodeCdrSP \<equiv> 7 :: nat"
abbreviation (input) "CodeCdrImmediate \<equiv> 8 :: nat"
abbreviation (input) "CodeCdrPop \<equiv> 9 :: nat"
abbreviation (input) "CodeEndpFP \<equiv> 10 :: nat"
abbreviation (input) "CodeEndpLP \<equiv> 11 :: nat"
abbreviation (input) "CodeEndpSP \<equiv> 12 :: nat"
abbreviation (input) "CodeEndpImmediate \<equiv> 13 :: nat"
abbreviation (input) "CodeEndpPop \<equiv> 14 :: nat"
abbreviation (input) "CodeSetup1dArrayFP \<equiv> 15 :: nat"
abbreviation (input) "CodeSetup1dArrayLP \<equiv> 16 :: nat"
abbreviation (input) "CodeSetup1dArraySP \<equiv> 17 :: nat"
abbreviation (input) "CodeSetup1dArrayImmediate \<equiv> 18 :: nat"
abbreviation (input) "CodeSetup1dArrayPop \<equiv> 19 :: nat"
abbreviation (input) "CodeSetupForce1dArrayFP \<equiv> 20 :: nat"
abbreviation (input) "CodeSetupForce1dArrayLP \<equiv> 21 :: nat"
abbreviation (input) "CodeSetupForce1dArraySP \<equiv> 22 :: nat"
abbreviation (input) "CodeSetupForce1dArrayImmediate \<equiv> 23 :: nat"
abbreviation (input) "CodeSetupForce1dArrayPop \<equiv> 24 :: nat"
abbreviation (input) "CodeBindLocativeFP \<equiv> 25 :: nat"
abbreviation (input) "CodeBindLocativeLP \<equiv> 26 :: nat"
abbreviation (input) "CodeBindLocativeSP \<equiv> 27 :: nat"
abbreviation (input) "CodeBindLocativeImmediate \<equiv> 28 :: nat"
abbreviation (input) "CodeBindLocativePop \<equiv> 29 :: nat"
abbreviation (input) "CodeRestoreBindingStackFP \<equiv> 30 :: nat"
abbreviation (input) "CodeRestoreBindingStackLP \<equiv> 31 :: nat"
abbreviation (input) "CodeRestoreBindingStackSP \<equiv> 32 :: nat"
abbreviation (input) "CodeRestoreBindingStackImmediate \<equiv> 33 :: nat"
abbreviation (input) "CodeRestoreBindingStackPop \<equiv> 34 :: nat"
abbreviation (input) "CodeEphemeralpFP \<equiv> 35 :: nat"
abbreviation (input) "CodeEphemeralpLP \<equiv> 36 :: nat"
abbreviation (input) "CodeEphemeralpSP \<equiv> 37 :: nat"
abbreviation (input) "CodeEphemeralpImmediate \<equiv> 38 :: nat"
abbreviation (input) "CodeEphemeralpPop \<equiv> 39 :: nat"
abbreviation (input) "CodeStartCallFP \<equiv> 40 :: nat"
abbreviation (input) "CodeStartCallLP \<equiv> 41 :: nat"
abbreviation (input) "CodeStartCallSP \<equiv> 42 :: nat"
abbreviation (input) "CodeStartCallImmediate \<equiv> 43 :: nat"
abbreviation (input) "CodeStartCallPop \<equiv> 44 :: nat"
abbreviation (input) "CodeJumpFP \<equiv> 45 :: nat"
abbreviation (input) "CodeJumpLP \<equiv> 46 :: nat"
abbreviation (input) "CodeJumpSP \<equiv> 47 :: nat"
abbreviation (input) "CodeJumpImmediate \<equiv> 48 :: nat"
abbreviation (input) "CodeJumpPop \<equiv> 49 :: nat"
abbreviation (input) "CodeTagFP \<equiv> 50 :: nat"
abbreviation (input) "CodeTagLP \<equiv> 51 :: nat"
abbreviation (input) "CodeTagSP \<equiv> 52 :: nat"
abbreviation (input) "CodeTagImmediate \<equiv> 53 :: nat"
abbreviation (input) "CodeTagPop \<equiv> 54 :: nat"
abbreviation (input) "CodeDereferenceFP \<equiv> 55 :: nat"
abbreviation (input) "CodeDereferenceLP \<equiv> 56 :: nat"
abbreviation (input) "CodeDereferenceSP \<equiv> 57 :: nat"
abbreviation (input) "CodeDereferenceImmediate \<equiv> 58 :: nat"
abbreviation (input) "CodeDereferencePop \<equiv> 59 :: nat"
abbreviation (input) "CodeLogicTailTestFP \<equiv> 60 :: nat"
abbreviation (input) "CodeLogicTailTestLP \<equiv> 61 :: nat"
abbreviation (input) "CodeLogicTailTestSP \<equiv> 62 :: nat"
abbreviation (input) "CodeLogicTailTestImmediate \<equiv> 63 :: nat"
abbreviation (input) "CodeLogicTailTestPop \<equiv> 64 :: nat"
abbreviation (input) "CodeProcBreakpointFP \<equiv> 65 :: nat"
abbreviation (input) "CodeProcBreakpointLP \<equiv> 66 :: nat"
abbreviation (input) "CodeProcBreakpointSP \<equiv> 67 :: nat"
abbreviation (input) "CodeProcBreakpointImmediate \<equiv> 68 :: nat"
abbreviation (input) "CodeProcBreakpointPop \<equiv> 69 :: nat"
abbreviation (input) "CodePushLexicalVarFP \<equiv> 70 :: nat"
abbreviation (input) "CodePushLexicalVarLP \<equiv> 71 :: nat"
abbreviation (input) "CodePushLexicalVarSP \<equiv> 72 :: nat"
abbreviation (input) "CodePushLexicalVarImmediate \<equiv> 73 :: nat"
abbreviation (input) "CodePushLexicalVarPop \<equiv> 74 :: nat"
abbreviation (input) "CodeBlock0WriteFP \<equiv> 75 :: nat"
abbreviation (input) "CodeBlock0WriteLP \<equiv> 76 :: nat"
abbreviation (input) "CodeBlock0WriteSP \<equiv> 77 :: nat"
abbreviation (input) "CodeBlock0WriteImmediate \<equiv> 78 :: nat"
abbreviation (input) "CodeBlock0WritePop \<equiv> 79 :: nat"
abbreviation (input) "CodeBlock1WriteFP \<equiv> 80 :: nat"
abbreviation (input) "CodeBlock1WriteLP \<equiv> 81 :: nat"
abbreviation (input) "CodeBlock1WriteSP \<equiv> 82 :: nat"
abbreviation (input) "CodeBlock1WriteImmediate \<equiv> 83 :: nat"
abbreviation (input) "CodeBlock1WritePop \<equiv> 84 :: nat"
abbreviation (input) "CodeBlock2WriteFP \<equiv> 85 :: nat"
abbreviation (input) "CodeBlock2WriteLP \<equiv> 86 :: nat"
abbreviation (input) "CodeBlock2WriteSP \<equiv> 87 :: nat"
abbreviation (input) "CodeBlock2WriteImmediate \<equiv> 88 :: nat"
abbreviation (input) "CodeBlock2WritePop \<equiv> 89 :: nat"
abbreviation (input) "CodeBlock3WriteFP \<equiv> 90 :: nat"
abbreviation (input) "CodeBlock3WriteLP \<equiv> 91 :: nat"
abbreviation (input) "CodeBlock3WriteSP \<equiv> 92 :: nat"
abbreviation (input) "CodeBlock3WriteImmediate \<equiv> 93 :: nat"
abbreviation (input) "CodeBlock3WritePop \<equiv> 94 :: nat"
abbreviation (input) "CodeZeropFP \<equiv> 95 :: nat"
abbreviation (input) "CodeZeropLP \<equiv> 96 :: nat"
abbreviation (input) "CodeZeropSP \<equiv> 97 :: nat"
abbreviation (input) "CodeZeropImmediate \<equiv> 98 :: nat"
abbreviation (input) "CodeZeropPop \<equiv> 99 :: nat"
abbreviation (input) "CodeMinuspFP \<equiv> 100 :: nat"
abbreviation (input) "CodeMinuspLP \<equiv> 101 :: nat"
abbreviation (input) "CodeMinuspSP \<equiv> 102 :: nat"
abbreviation (input) "CodeMinuspImmediate \<equiv> 103 :: nat"
abbreviation (input) "CodeMinuspPop \<equiv> 104 :: nat"
abbreviation (input) "CodePluspFP \<equiv> 105 :: nat"
abbreviation (input) "CodePluspLP \<equiv> 106 :: nat"
abbreviation (input) "CodePluspSP \<equiv> 107 :: nat"
abbreviation (input) "CodePluspImmediate \<equiv> 108 :: nat"
abbreviation (input) "CodePluspPop \<equiv> 109 :: nat"
abbreviation (input) "CodeTypeMember \<equiv> 110 :: nat"
abbreviation (input) "CodeTypeMemberNoPop \<equiv> 111 :: nat"
abbreviation (input) "CodeLocateLocals \<equiv> 112 :: nat"
abbreviation (input) "CodeCatchClose \<equiv> 113 :: nat"
abbreviation (input) "CodeGenericDispatch \<equiv> 114 :: nat"
abbreviation (input) "CodeMessageDispatch \<equiv> 115 :: nat"
abbreviation (input) "CodeCheckPreemptRequest \<equiv> 116 :: nat"
abbreviation (input) "CodePushGlobalLogicVariable \<equiv> 117 :: nat"
abbreviation (input) "CodeNoOp \<equiv> 118 :: nat"
abbreviation (input) "CodeHalt \<equiv> 119 :: nat"
abbreviation (input) "CodeBranchTrue \<equiv> 120 :: nat"
abbreviation (input) "CodeBranchTrueElseExtraPop \<equiv> 121 :: nat"
abbreviation (input) "CodeBranchTrueAndExtraPop \<equiv> 122 :: nat"
abbreviation (input) "CodeBranchTrueExtraPop \<equiv> 123 :: nat"
abbreviation (input) "CodeBranchTrueNoPop \<equiv> 124 :: nat"
abbreviation (input) "CodeBranchTrueAndNoPop \<equiv> 125 :: nat"
abbreviation (input) "CodeBranchTrueElseNoPop \<equiv> 126 :: nat"
abbreviation (input) "CodeBranchTrueAndNoPopElseNoPopExtraPop \<equiv> 127 :: nat"
abbreviation (input) "CodeBranchFalse \<equiv> 128 :: nat"
abbreviation (input) "CodeBranchFalseElseExtraPop \<equiv> 129 :: nat"
abbreviation (input) "CodeBranchFalseAndExtraPop \<equiv> 130 :: nat"
abbreviation (input) "CodeBranchFalseExtraPop \<equiv> 131 :: nat"
abbreviation (input) "CodeBranchFalseNoPop \<equiv> 132 :: nat"
abbreviation (input) "CodeBranchFalseAndNoPop \<equiv> 133 :: nat"
abbreviation (input) "CodeBranchFalseElseNoPop \<equiv> 134 :: nat"
abbreviation (input) "CodeBranchFalseAndNoPopElseNoPopExtraPop \<equiv> 135 :: nat"
abbreviation (input) "CodePushFP \<equiv> 136 :: nat"
abbreviation (input) "CodePushLP \<equiv> 137 :: nat"
abbreviation (input) "CodePushSP \<equiv> 138 :: nat"
abbreviation (input) "CodePushImmediate \<equiv> 139 :: nat"
abbreviation (input) "CodePushPop \<equiv> 140 :: nat"
abbreviation (input) "CodePushNNils \<equiv> 141 :: nat"
abbreviation (input) "CodePushAddressSpRelativeFP \<equiv> 142 :: nat"
abbreviation (input) "CodePushAddressSpRelativeLP \<equiv> 143 :: nat"
abbreviation (input) "CodePushAddressSpRelativeSP \<equiv> 144 :: nat"
abbreviation (input) "CodePushAddressSpRelativeImmediate \<equiv> 145 :: nat"
abbreviation (input) "CodePushAddressSpRelativePop \<equiv> 146 :: nat"
abbreviation (input) "CodePushLocalLogicVariablesFP \<equiv> 147 :: nat"
abbreviation (input) "CodePushLocalLogicVariablesLP \<equiv> 148 :: nat"
abbreviation (input) "CodePushLocalLogicVariablesSP \<equiv> 149 :: nat"
abbreviation (input) "CodePushLocalLogicVariablesImmediate \<equiv> 150 :: nat"
abbreviation (input) "CodePushLocalLogicVariablesPop \<equiv> 151 :: nat"
abbreviation (input) "CodeReturnMultipleFP \<equiv> 152 :: nat"
abbreviation (input) "CodeReturnMultipleLP \<equiv> 153 :: nat"
abbreviation (input) "CodeReturnMultipleSP \<equiv> 154 :: nat"
abbreviation (input) "CodeReturnMultipleImmediate \<equiv> 155 :: nat"
abbreviation (input) "CodeReturnMultiplePop \<equiv> 156 :: nat"
abbreviation (input) "CodeReturnKludgeFP \<equiv> 157 :: nat"
abbreviation (input) "CodeReturnKludgeLP \<equiv> 158 :: nat"
abbreviation (input) "CodeReturnKludgeSP \<equiv> 159 :: nat"
abbreviation (input) "CodeReturnKludgeImmediate \<equiv> 160 :: nat"
abbreviation (input) "CodeReturnKludgePop \<equiv> 161 :: nat"
abbreviation (input) "CodeTakeValues \<equiv> 162 :: nat"
abbreviation (input) "CodeUnbindNImmediate \<equiv> 163 :: nat"
abbreviation (input) "CodeUnbindNPop \<equiv> 164 :: nat"
abbreviation (input) "CodePushInstanceVariable \<equiv> 165 :: nat"
abbreviation (input) "CodePushAddressInstanceVariable \<equiv> 166 :: nat"
abbreviation (input) "CodePushInstanceVariableOrdered \<equiv> 167 :: nat"
abbreviation (input) "CodePushAddressInstanceVariableOrdered \<equiv> 168 :: nat"
abbreviation (input) "CodeUnaryMinusFP \<equiv> 169 :: nat"
abbreviation (input) "CodeUnaryMinusLP \<equiv> 170 :: nat"
abbreviation (input) "CodeUnaryMinusSP \<equiv> 171 :: nat"
abbreviation (input) "CodeUnaryMinusImmediate \<equiv> 172 :: nat"
abbreviation (input) "CodeUnaryMinusPop \<equiv> 173 :: nat"
abbreviation (input) "CodeReturnSingleNIL \<equiv> 174 :: nat"
abbreviation (input) "CodeReturnSingleT \<equiv> 175 :: nat"
abbreviation (input) "CodeReturnSingleTOS \<equiv> 176 :: nat"
abbreviation (input) "CodeMemoryRead \<equiv> 177 :: nat"
abbreviation (input) "CodeMemoryReadAddress \<equiv> 178 :: nat"
abbreviation (input) "CodeBlock0Read \<equiv> 179 :: nat"
abbreviation (input) "CodeBlock1Read \<equiv> 180 :: nat"
abbreviation (input) "CodeBlock2Read \<equiv> 181 :: nat"
abbreviation (input) "CodeBlock3Read \<equiv> 182 :: nat"
abbreviation (input) "CodeBlock0ReadShift \<equiv> 183 :: nat"
abbreviation (input) "CodeBlock1ReadShift \<equiv> 184 :: nat"
abbreviation (input) "CodeBlock2ReadShift \<equiv> 185 :: nat"
abbreviation (input) "CodeBlock3ReadShift \<equiv> 186 :: nat"
abbreviation (input) "CodeBlock0ReadTest \<equiv> 187 :: nat"
abbreviation (input) "CodeBlock1ReadTest \<equiv> 188 :: nat"
abbreviation (input) "CodeBlock2ReadTest \<equiv> 189 :: nat"
abbreviation (input) "CodeBlock3ReadTest \<equiv> 190 :: nat"
abbreviation (input) "CodeFinishCallN \<equiv> 191 :: nat"
abbreviation (input) "CodeFinishCallNApply \<equiv> 192 :: nat"
abbreviation (input) "CodeFinishCallTos \<equiv> 193 :: nat"
abbreviation (input) "CodeFinishCallTosApply \<equiv> 194 :: nat"
abbreviation (input) "CodeSetToCarFP \<equiv> 195 :: nat"
abbreviation (input) "CodeSetToCarLP \<equiv> 196 :: nat"
abbreviation (input) "CodeSetToCarSP \<equiv> 197 :: nat"
abbreviation (input) "CodeSetToCarImmediate \<equiv> 198 :: nat"
abbreviation (input) "CodeSetToCarPop \<equiv> 199 :: nat"
abbreviation (input) "CodeSetToCdrFP \<equiv> 200 :: nat"
abbreviation (input) "CodeSetToCdrLP \<equiv> 201 :: nat"
abbreviation (input) "CodeSetToCdrSP \<equiv> 202 :: nat"
abbreviation (input) "CodeSetToCdrImmediate \<equiv> 203 :: nat"
abbreviation (input) "CodeSetToCdrPop \<equiv> 204 :: nat"
abbreviation (input) "CodeSetToCdrPushCarFP \<equiv> 205 :: nat"
abbreviation (input) "CodeSetToCdrPushCarLP \<equiv> 206 :: nat"
abbreviation (input) "CodeSetToCdrPushCarSP \<equiv> 207 :: nat"
abbreviation (input) "CodeSetToCdrPushCarImmediate \<equiv> 208 :: nat"
abbreviation (input) "CodeSetToCdrPushCarPop \<equiv> 209 :: nat"
abbreviation (input) "CodeIncrementFP \<equiv> 210 :: nat"
abbreviation (input) "CodeIncrementLP \<equiv> 211 :: nat"
abbreviation (input) "CodeIncrementSP \<equiv> 212 :: nat"
abbreviation (input) "CodeIncrementImmediate \<equiv> 213 :: nat"
abbreviation (input) "CodeIncrementPop \<equiv> 214 :: nat"
abbreviation (input) "CodeDecrementFP \<equiv> 215 :: nat"
abbreviation (input) "CodeDecrementLP \<equiv> 216 :: nat"
abbreviation (input) "CodeDecrementSP \<equiv> 217 :: nat"
abbreviation (input) "CodeDecrementImmediate \<equiv> 218 :: nat"
abbreviation (input) "CodeDecrementPop \<equiv> 219 :: nat"
abbreviation (input) "CodePointerIncrementFP \<equiv> 220 :: nat"
abbreviation (input) "CodePointerIncrementLP \<equiv> 221 :: nat"
abbreviation (input) "CodePointerIncrementSP \<equiv> 222 :: nat"
abbreviation (input) "CodePointerIncrementImmediate \<equiv> 223 :: nat"
abbreviation (input) "CodePointerIncrementPop \<equiv> 224 :: nat"
abbreviation (input) "CodeSetCdrCode1FP \<equiv> 225 :: nat"
abbreviation (input) "CodeSetCdrCode1LP \<equiv> 226 :: nat"
abbreviation (input) "CodeSetCdrCode1SP \<equiv> 227 :: nat"
abbreviation (input) "CodeSetCdrCode1Immediate \<equiv> 228 :: nat"
abbreviation (input) "CodeSetCdrCode1Pop \<equiv> 229 :: nat"
abbreviation (input) "CodeSetCdrCode2FP \<equiv> 230 :: nat"
abbreviation (input) "CodeSetCdrCode2LP \<equiv> 231 :: nat"
abbreviation (input) "CodeSetCdrCode2SP \<equiv> 232 :: nat"
abbreviation (input) "CodeSetCdrCode2Immediate \<equiv> 233 :: nat"
abbreviation (input) "CodeSetCdrCode2Pop \<equiv> 234 :: nat"
abbreviation (input) "CodePushAddressFP \<equiv> 235 :: nat"
abbreviation (input) "CodePushAddressLP \<equiv> 236 :: nat"
abbreviation (input) "CodePushAddressSP \<equiv> 237 :: nat"
abbreviation (input) "CodePushAddressImmediate \<equiv> 238 :: nat"
abbreviation (input) "CodePushAddressPop \<equiv> 239 :: nat"
abbreviation (input) "CodeSetSpToAddressFP \<equiv> 240 :: nat"
abbreviation (input) "CodeSetSpToAddressLP \<equiv> 241 :: nat"
abbreviation (input) "CodeSetSpToAddressSP \<equiv> 242 :: nat"
abbreviation (input) "CodeSetSpToAddressImmediate \<equiv> 243 :: nat"
abbreviation (input) "CodeSetSpToAddressPop \<equiv> 244 :: nat"
abbreviation (input) "CodeSetSpToAddressSaveTosFP \<equiv> 245 :: nat"
abbreviation (input) "CodeSetSpToAddressSaveTosLP \<equiv> 246 :: nat"
abbreviation (input) "CodeSetSpToAddressSaveTosSP \<equiv> 247 :: nat"
abbreviation (input) "CodeSetSpToAddressSaveTosImmediate \<equiv> 248 :: nat"
abbreviation (input) "CodeSetSpToAddressSaveTosPop \<equiv> 249 :: nat"
abbreviation (input) "CodeReadInternalRegister \<equiv> 250 :: nat"
abbreviation (input) "CodeWriteInternalRegister \<equiv> 251 :: nat"
abbreviation (input) "CodeCoprocessorRead \<equiv> 252 :: nat"
abbreviation (input) "CodeCoprocessorWrite \<equiv> 253 :: nat"
abbreviation (input) "CodeBlock0ReadAluFP \<equiv> 254 :: nat"
abbreviation (input) "CodeBlock0ReadAluLP \<equiv> 255 :: nat"
abbreviation (input) "CodeBlock0ReadAluSP \<equiv> 256 :: nat"
abbreviation (input) "CodeBlock0ReadAluImmediate \<equiv> 257 :: nat"
abbreviation (input) "CodeBlock0ReadAluPop \<equiv> 258 :: nat"
abbreviation (input) "CodeBlock1ReadAluFP \<equiv> 259 :: nat"
abbreviation (input) "CodeBlock1ReadAluLP \<equiv> 260 :: nat"
abbreviation (input) "CodeBlock1ReadAluSP \<equiv> 261 :: nat"
abbreviation (input) "CodeBlock1ReadAluImmediate \<equiv> 262 :: nat"
abbreviation (input) "CodeBlock1ReadAluPop \<equiv> 263 :: nat"
abbreviation (input) "CodeBlock2ReadAluFP \<equiv> 264 :: nat"
abbreviation (input) "CodeBlock2ReadAluLP \<equiv> 265 :: nat"
abbreviation (input) "CodeBlock2ReadAluSP \<equiv> 266 :: nat"
abbreviation (input) "CodeBlock2ReadAluImmediate \<equiv> 267 :: nat"
abbreviation (input) "CodeBlock2ReadAluPop \<equiv> 268 :: nat"
abbreviation (input) "CodeBlock3ReadAluFP \<equiv> 269 :: nat"
abbreviation (input) "CodeBlock3ReadAluLP \<equiv> 270 :: nat"
abbreviation (input) "CodeBlock3ReadAluSP \<equiv> 271 :: nat"
abbreviation (input) "CodeBlock3ReadAluImmediate \<equiv> 272 :: nat"
abbreviation (input) "CodeBlock3ReadAluPop \<equiv> 273 :: nat"
abbreviation (input) "CodeLdb \<equiv> 274 :: nat"
abbreviation (input) "CodeCharLdb \<equiv> 275 :: nat"
abbreviation (input) "CodePLdb \<equiv> 276 :: nat"
abbreviation (input) "CodePTagLdb \<equiv> 277 :: nat"
abbreviation (input) "CodeBranch \<equiv> 278 :: nat"
abbreviation (input) "CodeLoopDecrementTos \<equiv> 279 :: nat"
abbreviation (input) "CodeEntryRestAccepted \<equiv> 280 :: nat"
abbreviation (input) "CodeEntryRestNotAccepted \<equiv> 281 :: nat"
abbreviation (input) "CodeRplacaFP \<equiv> 282 :: nat"
abbreviation (input) "CodeRplacaLP \<equiv> 283 :: nat"
abbreviation (input) "CodeRplacaSP \<equiv> 284 :: nat"
abbreviation (input) "CodeRplacaImmediate \<equiv> 285 :: nat"
abbreviation (input) "CodeRplacaPop \<equiv> 286 :: nat"
abbreviation (input) "CodeRplacdFP \<equiv> 287 :: nat"
abbreviation (input) "CodeRplacdLP \<equiv> 288 :: nat"
abbreviation (input) "CodeRplacdSP \<equiv> 289 :: nat"
abbreviation (input) "CodeRplacdImmediate \<equiv> 290 :: nat"
abbreviation (input) "CodeRplacdPop \<equiv> 291 :: nat"
abbreviation (input) "CodeMultiplyFP \<equiv> 292 :: nat"
abbreviation (input) "CodeMultiplyLP \<equiv> 293 :: nat"
abbreviation (input) "CodeMultiplySP \<equiv> 294 :: nat"
abbreviation (input) "CodeMultiplyImmediate \<equiv> 295 :: nat"
abbreviation (input) "CodeMultiplyPop \<equiv> 296 :: nat"
abbreviation (input) "CodeQuotientFP \<equiv> 297 :: nat"
abbreviation (input) "CodeQuotientLP \<equiv> 298 :: nat"
abbreviation (input) "CodeQuotientSP \<equiv> 299 :: nat"
abbreviation (input) "CodeQuotientImmediate \<equiv> 300 :: nat"
abbreviation (input) "CodeQuotientPop \<equiv> 301 :: nat"
abbreviation (input) "CodeCeilingFP \<equiv> 302 :: nat"
abbreviation (input) "CodeCeilingLP \<equiv> 303 :: nat"
abbreviation (input) "CodeCeilingSP \<equiv> 304 :: nat"
abbreviation (input) "CodeCeilingImmediate \<equiv> 305 :: nat"
abbreviation (input) "CodeCeilingPop \<equiv> 306 :: nat"
abbreviation (input) "CodeFloorFP \<equiv> 307 :: nat"
abbreviation (input) "CodeFloorLP \<equiv> 308 :: nat"
abbreviation (input) "CodeFloorSP \<equiv> 309 :: nat"
abbreviation (input) "CodeFloorImmediate \<equiv> 310 :: nat"
abbreviation (input) "CodeFloorPop \<equiv> 311 :: nat"
abbreviation (input) "CodeTruncateFP \<equiv> 312 :: nat"
abbreviation (input) "CodeTruncateLP \<equiv> 313 :: nat"
abbreviation (input) "CodeTruncateSP \<equiv> 314 :: nat"
abbreviation (input) "CodeTruncateImmediate \<equiv> 315 :: nat"
abbreviation (input) "CodeTruncatePop \<equiv> 316 :: nat"
abbreviation (input) "CodeRoundFP \<equiv> 317 :: nat"
abbreviation (input) "CodeRoundLP \<equiv> 318 :: nat"
abbreviation (input) "CodeRoundSP \<equiv> 319 :: nat"
abbreviation (input) "CodeRoundImmediate \<equiv> 320 :: nat"
abbreviation (input) "CodeRoundPop \<equiv> 321 :: nat"
abbreviation (input) "CodeRationalQuotientFP \<equiv> 322 :: nat"
abbreviation (input) "CodeRationalQuotientLP \<equiv> 323 :: nat"
abbreviation (input) "CodeRationalQuotientSP \<equiv> 324 :: nat"
abbreviation (input) "CodeRationalQuotientImmediate \<equiv> 325 :: nat"
abbreviation (input) "CodeRationalQuotientPop \<equiv> 326 :: nat"
abbreviation (input) "CodeMinFP \<equiv> 327 :: nat"
abbreviation (input) "CodeMinLP \<equiv> 328 :: nat"
abbreviation (input) "CodeMinSP \<equiv> 329 :: nat"
abbreviation (input) "CodeMinImmediate \<equiv> 330 :: nat"
abbreviation (input) "CodeMinPop \<equiv> 331 :: nat"
abbreviation (input) "CodeMaxFP \<equiv> 332 :: nat"
abbreviation (input) "CodeMaxLP \<equiv> 333 :: nat"
abbreviation (input) "CodeMaxSP \<equiv> 334 :: nat"
abbreviation (input) "CodeMaxImmediate \<equiv> 335 :: nat"
abbreviation (input) "CodeMaxPop \<equiv> 336 :: nat"
abbreviation (input) "CodeAluFP \<equiv> 337 :: nat"
abbreviation (input) "CodeAluLP \<equiv> 338 :: nat"
abbreviation (input) "CodeAluSP \<equiv> 339 :: nat"
abbreviation (input) "CodeAluImmediate \<equiv> 340 :: nat"
abbreviation (input) "CodeAluPop \<equiv> 341 :: nat"
abbreviation (input) "CodeLogandFP \<equiv> 342 :: nat"
abbreviation (input) "CodeLogandLP \<equiv> 343 :: nat"
abbreviation (input) "CodeLogandSP \<equiv> 344 :: nat"
abbreviation (input) "CodeLogandImmediate \<equiv> 345 :: nat"
abbreviation (input) "CodeLogandPop \<equiv> 346 :: nat"
abbreviation (input) "CodeLogxorFP \<equiv> 347 :: nat"
abbreviation (input) "CodeLogxorLP \<equiv> 348 :: nat"
abbreviation (input) "CodeLogxorSP \<equiv> 349 :: nat"
abbreviation (input) "CodeLogxorImmediate \<equiv> 350 :: nat"
abbreviation (input) "CodeLogxorPop \<equiv> 351 :: nat"
abbreviation (input) "CodeLogiorFP \<equiv> 352 :: nat"
abbreviation (input) "CodeLogiorLP \<equiv> 353 :: nat"
abbreviation (input) "CodeLogiorSP \<equiv> 354 :: nat"
abbreviation (input) "CodeLogiorImmediate \<equiv> 355 :: nat"
abbreviation (input) "CodeLogiorPop \<equiv> 356 :: nat"
abbreviation (input) "CodeRotFP \<equiv> 357 :: nat"
abbreviation (input) "CodeRotLP \<equiv> 358 :: nat"
abbreviation (input) "CodeRotSP \<equiv> 359 :: nat"
abbreviation (input) "CodeRotImmediate \<equiv> 360 :: nat"
abbreviation (input) "CodeRotPop \<equiv> 361 :: nat"
abbreviation (input) "CodeLshFP \<equiv> 362 :: nat"
abbreviation (input) "CodeLshLP \<equiv> 363 :: nat"
abbreviation (input) "CodeLshSP \<equiv> 364 :: nat"
abbreviation (input) "CodeLshImmediate \<equiv> 365 :: nat"
abbreviation (input) "CodeLshPop \<equiv> 366 :: nat"
abbreviation (input) "CodeMultiplyDoubleFP \<equiv> 367 :: nat"
abbreviation (input) "CodeMultiplyDoubleLP \<equiv> 368 :: nat"
abbreviation (input) "CodeMultiplyDoubleSP \<equiv> 369 :: nat"
abbreviation (input) "CodeMultiplyDoubleImmediate \<equiv> 370 :: nat"
abbreviation (input) "CodeMultiplyDoublePop \<equiv> 371 :: nat"
abbreviation (input) "CodeLshcBignumStepFP \<equiv> 372 :: nat"
abbreviation (input) "CodeLshcBignumStepLP \<equiv> 373 :: nat"
abbreviation (input) "CodeLshcBignumStepSP \<equiv> 374 :: nat"
abbreviation (input) "CodeLshcBignumStepImmediate \<equiv> 375 :: nat"
abbreviation (input) "CodeLshcBignumStepPop \<equiv> 376 :: nat"
abbreviation (input) "CodeStackBltFP \<equiv> 377 :: nat"
abbreviation (input) "CodeStackBltLP \<equiv> 378 :: nat"
abbreviation (input) "CodeStackBltSP \<equiv> 379 :: nat"
abbreviation (input) "CodeStackBltImmediate \<equiv> 380 :: nat"
abbreviation (input) "CodeStackBltPop \<equiv> 381 :: nat"
abbreviation (input) "CodeRgetfFP \<equiv> 382 :: nat"
abbreviation (input) "CodeRgetfLP \<equiv> 383 :: nat"
abbreviation (input) "CodeRgetfSP \<equiv> 384 :: nat"
abbreviation (input) "CodeRgetfImmediate \<equiv> 385 :: nat"
abbreviation (input) "CodeRgetfPop \<equiv> 386 :: nat"
abbreviation (input) "CodeMemberFP \<equiv> 387 :: nat"
abbreviation (input) "CodeMemberLP \<equiv> 388 :: nat"
abbreviation (input) "CodeMemberSP \<equiv> 389 :: nat"
abbreviation (input) "CodeMemberImmediate \<equiv> 390 :: nat"
abbreviation (input) "CodeMemberPop \<equiv> 391 :: nat"
abbreviation (input) "CodeAssocFP \<equiv> 392 :: nat"
abbreviation (input) "CodeAssocLP \<equiv> 393 :: nat"
abbreviation (input) "CodeAssocSP \<equiv> 394 :: nat"
abbreviation (input) "CodeAssocImmediate \<equiv> 395 :: nat"
abbreviation (input) "CodeAssocPop \<equiv> 396 :: nat"
abbreviation (input) "CodePointerPlusFP \<equiv> 397 :: nat"
abbreviation (input) "CodePointerPlusLP \<equiv> 398 :: nat"
abbreviation (input) "CodePointerPlusSP \<equiv> 399 :: nat"
abbreviation (input) "CodePointerPlusImmediate \<equiv> 400 :: nat"
abbreviation (input) "CodePointerPlusPop \<equiv> 401 :: nat"
abbreviation (input) "CodePointerDifferenceFP \<equiv> 402 :: nat"
abbreviation (input) "CodePointerDifferenceLP \<equiv> 403 :: nat"
abbreviation (input) "CodePointerDifferenceSP \<equiv> 404 :: nat"
abbreviation (input) "CodePointerDifferenceImmediate \<equiv> 405 :: nat"
abbreviation (input) "CodePointerDifferencePop \<equiv> 406 :: nat"
abbreviation (input) "CodeAshFP \<equiv> 407 :: nat"
abbreviation (input) "CodeAshLP \<equiv> 408 :: nat"
abbreviation (input) "CodeAshSP \<equiv> 409 :: nat"
abbreviation (input) "CodeAshImmediate \<equiv> 410 :: nat"
abbreviation (input) "CodeAshPop \<equiv> 411 :: nat"
abbreviation (input) "CodeStoreConditionalFP \<equiv> 412 :: nat"
abbreviation (input) "CodeStoreConditionalLP \<equiv> 413 :: nat"
abbreviation (input) "CodeStoreConditionalSP \<equiv> 414 :: nat"
abbreviation (input) "CodeStoreConditionalImmediate \<equiv> 415 :: nat"
abbreviation (input) "CodeStoreConditionalPop \<equiv> 416 :: nat"
abbreviation (input) "CodeMemoryWriteFP \<equiv> 417 :: nat"
abbreviation (input) "CodeMemoryWriteLP \<equiv> 418 :: nat"
abbreviation (input) "CodeMemoryWriteSP \<equiv> 419 :: nat"
abbreviation (input) "CodeMemoryWriteImmediate \<equiv> 420 :: nat"
abbreviation (input) "CodeMemoryWritePop \<equiv> 421 :: nat"
abbreviation (input) "CodePStoreContentsFP \<equiv> 422 :: nat"
abbreviation (input) "CodePStoreContentsLP \<equiv> 423 :: nat"
abbreviation (input) "CodePStoreContentsSP \<equiv> 424 :: nat"
abbreviation (input) "CodePStoreContentsImmediate \<equiv> 425 :: nat"
abbreviation (input) "CodePStoreContentsPop \<equiv> 426 :: nat"
abbreviation (input) "CodeBindLocativeToValueFP \<equiv> 427 :: nat"
abbreviation (input) "CodeBindLocativeToValueLP \<equiv> 428 :: nat"
abbreviation (input) "CodeBindLocativeToValueSP \<equiv> 429 :: nat"
abbreviation (input) "CodeBindLocativeToValueImmediate \<equiv> 430 :: nat"
abbreviation (input) "CodeBindLocativeToValuePop \<equiv> 431 :: nat"
abbreviation (input) "CodeUnifyFP \<equiv> 432 :: nat"
abbreviation (input) "CodeUnifyLP \<equiv> 433 :: nat"
abbreviation (input) "CodeUnifySP \<equiv> 434 :: nat"
abbreviation (input) "CodeUnifyImmediate \<equiv> 435 :: nat"
abbreviation (input) "CodeUnifyPop \<equiv> 436 :: nat"
abbreviation (input) "CodePopLexicalVarFP \<equiv> 437 :: nat"
abbreviation (input) "CodePopLexicalVarLP \<equiv> 438 :: nat"
abbreviation (input) "CodePopLexicalVarSP \<equiv> 439 :: nat"
abbreviation (input) "CodePopLexicalVarImmediate \<equiv> 440 :: nat"
abbreviation (input) "CodePopLexicalVarPop \<equiv> 441 :: nat"
abbreviation (input) "CodeMovemLexicalVarFP \<equiv> 442 :: nat"
abbreviation (input) "CodeMovemLexicalVarLP \<equiv> 443 :: nat"
abbreviation (input) "CodeMovemLexicalVarSP \<equiv> 444 :: nat"
abbreviation (input) "CodeMovemLexicalVarImmediate \<equiv> 445 :: nat"
abbreviation (input) "CodeMovemLexicalVarPop \<equiv> 446 :: nat"
abbreviation (input) "CodeEqualNumberFP \<equiv> 447 :: nat"
abbreviation (input) "CodeEqualNumberLP \<equiv> 448 :: nat"
abbreviation (input) "CodeEqualNumberSP \<equiv> 449 :: nat"
abbreviation (input) "CodeEqualNumberImmediate \<equiv> 450 :: nat"
abbreviation (input) "CodeEqualNumberPop \<equiv> 451 :: nat"
abbreviation (input) "CodeLesspFP \<equiv> 452 :: nat"
abbreviation (input) "CodeLesspLP \<equiv> 453 :: nat"
abbreviation (input) "CodeLesspSP \<equiv> 454 :: nat"
abbreviation (input) "CodeLesspImmediate \<equiv> 455 :: nat"
abbreviation (input) "CodeLesspPop \<equiv> 456 :: nat"
abbreviation (input) "CodeGreaterpFP \<equiv> 457 :: nat"
abbreviation (input) "CodeGreaterpLP \<equiv> 458 :: nat"
abbreviation (input) "CodeGreaterpSP \<equiv> 459 :: nat"
abbreviation (input) "CodeGreaterpImmediate \<equiv> 460 :: nat"
abbreviation (input) "CodeGreaterpPop \<equiv> 461 :: nat"
abbreviation (input) "CodeEqlFP \<equiv> 462 :: nat"
abbreviation (input) "CodeEqlLP \<equiv> 463 :: nat"
abbreviation (input) "CodeEqlSP \<equiv> 464 :: nat"
abbreviation (input) "CodeEqlImmediate \<equiv> 465 :: nat"
abbreviation (input) "CodeEqlPop \<equiv> 466 :: nat"
abbreviation (input) "CodeEqualNumberNoPopFP \<equiv> 467 :: nat"
abbreviation (input) "CodeEqualNumberNoPopLP \<equiv> 468 :: nat"
abbreviation (input) "CodeEqualNumberNoPopSP \<equiv> 469 :: nat"
abbreviation (input) "CodeEqualNumberNoPopImmediate \<equiv> 470 :: nat"
abbreviation (input) "CodeEqualNumberNoPopPop \<equiv> 471 :: nat"
abbreviation (input) "CodeLesspNoPopFP \<equiv> 472 :: nat"
abbreviation (input) "CodeLesspNoPopLP \<equiv> 473 :: nat"
abbreviation (input) "CodeLesspNoPopSP \<equiv> 474 :: nat"
abbreviation (input) "CodeLesspNoPopImmediate \<equiv> 475 :: nat"
abbreviation (input) "CodeLesspNoPopPop \<equiv> 476 :: nat"
abbreviation (input) "CodeGreaterpNoPopFP \<equiv> 477 :: nat"
abbreviation (input) "CodeGreaterpNoPopLP \<equiv> 478 :: nat"
abbreviation (input) "CodeGreaterpNoPopSP \<equiv> 479 :: nat"
abbreviation (input) "CodeGreaterpNoPopImmediate \<equiv> 480 :: nat"
abbreviation (input) "CodeGreaterpNoPopPop \<equiv> 481 :: nat"
abbreviation (input) "CodeEqlNoPopFP \<equiv> 482 :: nat"
abbreviation (input) "CodeEqlNoPopLP \<equiv> 483 :: nat"
abbreviation (input) "CodeEqlNoPopSP \<equiv> 484 :: nat"
abbreviation (input) "CodeEqlNoPopImmediate \<equiv> 485 :: nat"
abbreviation (input) "CodeEqlNoPopPop \<equiv> 486 :: nat"
abbreviation (input) "CodeEqFP \<equiv> 487 :: nat"
abbreviation (input) "CodeEqLP \<equiv> 488 :: nat"
abbreviation (input) "CodeEqSP \<equiv> 489 :: nat"
abbreviation (input) "CodeEqImmediate \<equiv> 490 :: nat"
abbreviation (input) "CodeEqPop \<equiv> 491 :: nat"
abbreviation (input) "CodeLogtestFP \<equiv> 492 :: nat"
abbreviation (input) "CodeLogtestLP \<equiv> 493 :: nat"
abbreviation (input) "CodeLogtestSP \<equiv> 494 :: nat"
abbreviation (input) "CodeLogtestImmediate \<equiv> 495 :: nat"
abbreviation (input) "CodeLogtestPop \<equiv> 496 :: nat"
abbreviation (input) "CodeEqNoPopFP \<equiv> 497 :: nat"
abbreviation (input) "CodeEqNoPopLP \<equiv> 498 :: nat"
abbreviation (input) "CodeEqNoPopSP \<equiv> 499 :: nat"
abbreviation (input) "CodeEqNoPopImmediate \<equiv> 500 :: nat"
abbreviation (input) "CodeEqNoPopPop \<equiv> 501 :: nat"
abbreviation (input) "CodeLogtestNoPopFP \<equiv> 502 :: nat"
abbreviation (input) "CodeLogtestNoPopLP \<equiv> 503 :: nat"
abbreviation (input) "CodeLogtestNoPopSP \<equiv> 504 :: nat"
abbreviation (input) "CodeLogtestNoPopImmediate \<equiv> 505 :: nat"
abbreviation (input) "CodeLogtestNoPopPop \<equiv> 506 :: nat"
abbreviation (input) "CodeAddFP \<equiv> 507 :: nat"
abbreviation (input) "CodeAddLP \<equiv> 508 :: nat"
abbreviation (input) "CodeAddSP \<equiv> 509 :: nat"
abbreviation (input) "CodeAddImmediate \<equiv> 510 :: nat"
abbreviation (input) "CodeAddPop \<equiv> 511 :: nat"
abbreviation (input) "CodeSubFP \<equiv> 512 :: nat"
abbreviation (input) "CodeSubLP \<equiv> 513 :: nat"
abbreviation (input) "CodeSubSP \<equiv> 514 :: nat"
abbreviation (input) "CodeSubImmediate \<equiv> 515 :: nat"
abbreviation (input) "CodeSubPop \<equiv> 516 :: nat"
abbreviation (input) "Code32BitPlusFP \<equiv> 517 :: nat"
abbreviation (input) "Code32BitPlusLP \<equiv> 518 :: nat"
abbreviation (input) "Code32BitPlusSP \<equiv> 519 :: nat"
abbreviation (input) "Code32BitPlusImmediate \<equiv> 520 :: nat"
abbreviation (input) "Code32BitPlusPop \<equiv> 521 :: nat"
abbreviation (input) "Code32BitDifferenceFP \<equiv> 522 :: nat"
abbreviation (input) "Code32BitDifferenceLP \<equiv> 523 :: nat"
abbreviation (input) "Code32BitDifferenceSP \<equiv> 524 :: nat"
abbreviation (input) "Code32BitDifferenceImmediate \<equiv> 525 :: nat"
abbreviation (input) "Code32BitDifferencePop \<equiv> 526 :: nat"
abbreviation (input) "CodeAddBignumStepFP \<equiv> 527 :: nat"
abbreviation (input) "CodeAddBignumStepLP \<equiv> 528 :: nat"
abbreviation (input) "CodeAddBignumStepSP \<equiv> 529 :: nat"
abbreviation (input) "CodeAddBignumStepImmediate \<equiv> 530 :: nat"
abbreviation (input) "CodeAddBignumStepPop \<equiv> 531 :: nat"
abbreviation (input) "CodeSubBignumStepFP \<equiv> 532 :: nat"
abbreviation (input) "CodeSubBignumStepLP \<equiv> 533 :: nat"
abbreviation (input) "CodeSubBignumStepSP \<equiv> 534 :: nat"
abbreviation (input) "CodeSubBignumStepImmediate \<equiv> 535 :: nat"
abbreviation (input) "CodeSubBignumStepPop \<equiv> 536 :: nat"
abbreviation (input) "CodeMultiplyBignumStepFP \<equiv> 537 :: nat"
abbreviation (input) "CodeMultiplyBignumStepLP \<equiv> 538 :: nat"
abbreviation (input) "CodeMultiplyBignumStepSP \<equiv> 539 :: nat"
abbreviation (input) "CodeMultiplyBignumStepImmediate \<equiv> 540 :: nat"
abbreviation (input) "CodeMultiplyBignumStepPop \<equiv> 541 :: nat"
abbreviation (input) "CodeDivideBignumStepFP \<equiv> 542 :: nat"
abbreviation (input) "CodeDivideBignumStepLP \<equiv> 543 :: nat"
abbreviation (input) "CodeDivideBignumStepSP \<equiv> 544 :: nat"
abbreviation (input) "CodeDivideBignumStepImmediate \<equiv> 545 :: nat"
abbreviation (input) "CodeDivideBignumStepPop \<equiv> 546 :: nat"
abbreviation (input) "CodeAset1FP \<equiv> 547 :: nat"
abbreviation (input) "CodeAset1LP \<equiv> 548 :: nat"
abbreviation (input) "CodeAset1SP \<equiv> 549 :: nat"
abbreviation (input) "CodeAset1Immediate \<equiv> 550 :: nat"
abbreviation (input) "CodeAset1Pop \<equiv> 551 :: nat"
abbreviation (input) "CodeAllocateListBlockFP \<equiv> 552 :: nat"
abbreviation (input) "CodeAllocateListBlockLP \<equiv> 553 :: nat"
abbreviation (input) "CodeAllocateListBlockSP \<equiv> 554 :: nat"
abbreviation (input) "CodeAllocateListBlockImmediate \<equiv> 555 :: nat"
abbreviation (input) "CodeAllocateListBlockPop \<equiv> 556 :: nat"
abbreviation (input) "CodeAref1FP \<equiv> 557 :: nat"
abbreviation (input) "CodeAref1LP \<equiv> 558 :: nat"
abbreviation (input) "CodeAref1SP \<equiv> 559 :: nat"
abbreviation (input) "CodeAref1Immediate \<equiv> 560 :: nat"
abbreviation (input) "CodeAref1Pop \<equiv> 561 :: nat"
abbreviation (input) "CodeAloc1FP \<equiv> 562 :: nat"
abbreviation (input) "CodeAloc1LP \<equiv> 563 :: nat"
abbreviation (input) "CodeAloc1SP \<equiv> 564 :: nat"
abbreviation (input) "CodeAloc1Immediate \<equiv> 565 :: nat"
abbreviation (input) "CodeAloc1Pop \<equiv> 566 :: nat"
abbreviation (input) "CodeStoreArrayLeaderFP \<equiv> 567 :: nat"
abbreviation (input) "CodeStoreArrayLeaderLP \<equiv> 568 :: nat"
abbreviation (input) "CodeStoreArrayLeaderSP \<equiv> 569 :: nat"
abbreviation (input) "CodeStoreArrayLeaderImmediate \<equiv> 570 :: nat"
abbreviation (input) "CodeStoreArrayLeaderPop \<equiv> 571 :: nat"
abbreviation (input) "CodeAllocateStructureBlockFP \<equiv> 572 :: nat"
abbreviation (input) "CodeAllocateStructureBlockLP \<equiv> 573 :: nat"
abbreviation (input) "CodeAllocateStructureBlockSP \<equiv> 574 :: nat"
abbreviation (input) "CodeAllocateStructureBlockImmediate \<equiv> 575 :: nat"
abbreviation (input) "CodeAllocateStructureBlockPop \<equiv> 576 :: nat"
abbreviation (input) "CodeArrayLeaderFP \<equiv> 577 :: nat"
abbreviation (input) "CodeArrayLeaderLP \<equiv> 578 :: nat"
abbreviation (input) "CodeArrayLeaderSP \<equiv> 579 :: nat"
abbreviation (input) "CodeArrayLeaderImmediate \<equiv> 580 :: nat"
abbreviation (input) "CodeArrayLeaderPop \<equiv> 581 :: nat"
abbreviation (input) "CodeAlocLeaderFP \<equiv> 582 :: nat"
abbreviation (input) "CodeAlocLeaderLP \<equiv> 583 :: nat"
abbreviation (input) "CodeAlocLeaderSP \<equiv> 584 :: nat"
abbreviation (input) "CodeAlocLeaderImmediate \<equiv> 585 :: nat"
abbreviation (input) "CodeAlocLeaderPop \<equiv> 586 :: nat"
abbreviation (input) "CodePopInstanceVariable \<equiv> 587 :: nat"
abbreviation (input) "CodeMovemInstanceVariable \<equiv> 588 :: nat"
abbreviation (input) "CodePopInstanceVariableOrdered \<equiv> 589 :: nat"
abbreviation (input) "CodeMovemInstanceVariableOrdered \<equiv> 590 :: nat"
abbreviation (input) "CodeInstanceRefFP \<equiv> 591 :: nat"
abbreviation (input) "CodeInstanceRefLP \<equiv> 592 :: nat"
abbreviation (input) "CodeInstanceRefSP \<equiv> 593 :: nat"
abbreviation (input) "CodeInstanceRefImmediate \<equiv> 594 :: nat"
abbreviation (input) "CodeInstanceRefPop \<equiv> 595 :: nat"
abbreviation (input) "CodeInstanceSetFP \<equiv> 596 :: nat"
abbreviation (input) "CodeInstanceSetLP \<equiv> 597 :: nat"
abbreviation (input) "CodeInstanceSetSP \<equiv> 598 :: nat"
abbreviation (input) "CodeInstanceSetImmediate \<equiv> 599 :: nat"
abbreviation (input) "CodeInstanceSetPop \<equiv> 600 :: nat"
abbreviation (input) "CodeInstanceLocFP \<equiv> 601 :: nat"
abbreviation (input) "CodeInstanceLocLP \<equiv> 602 :: nat"
abbreviation (input) "CodeInstanceLocSP \<equiv> 603 :: nat"
abbreviation (input) "CodeInstanceLocImmediate \<equiv> 604 :: nat"
abbreviation (input) "CodeInstanceLocPop \<equiv> 605 :: nat"
abbreviation (input) "CodeSetTagFP \<equiv> 606 :: nat"
abbreviation (input) "CodeSetTagLP \<equiv> 607 :: nat"
abbreviation (input) "CodeSetTagSP \<equiv> 608 :: nat"
abbreviation (input) "CodeSetTagImmediate \<equiv> 609 :: nat"
abbreviation (input) "CodeSetTagPop \<equiv> 610 :: nat"
abbreviation (input) "CodeUnsignedLesspFP \<equiv> 611 :: nat"
abbreviation (input) "CodeUnsignedLesspLP \<equiv> 612 :: nat"
abbreviation (input) "CodeUnsignedLesspSP \<equiv> 613 :: nat"
abbreviation (input) "CodeUnsignedLesspImmediate \<equiv> 614 :: nat"
abbreviation (input) "CodeUnsignedLesspPop \<equiv> 615 :: nat"
abbreviation (input) "CodeUnsignedLesspNoPopFP \<equiv> 616 :: nat"
abbreviation (input) "CodeUnsignedLesspNoPopLP \<equiv> 617 :: nat"
abbreviation (input) "CodeUnsignedLesspNoPopSP \<equiv> 618 :: nat"
abbreviation (input) "CodeUnsignedLesspNoPopImmediate \<equiv> 619 :: nat"
abbreviation (input) "CodeUnsignedLesspNoPopPop \<equiv> 620 :: nat"
abbreviation (input) "CodePopFP \<equiv> 621 :: nat"
abbreviation (input) "CodePopLP \<equiv> 622 :: nat"
abbreviation (input) "CodePopSP \<equiv> 623 :: nat"
abbreviation (input) "CodePopImmediate \<equiv> 624 :: nat"
abbreviation (input) "CodePopPop \<equiv> 625 :: nat"
abbreviation (input) "CodeMovemFP \<equiv> 626 :: nat"
abbreviation (input) "CodeMovemLP \<equiv> 627 :: nat"
abbreviation (input) "CodeMovemSP \<equiv> 628 :: nat"
abbreviation (input) "CodeMovemImmediate \<equiv> 629 :: nat"
abbreviation (input) "CodeMovemPop \<equiv> 630 :: nat"
abbreviation (input) "CodeMergeCdrNoPopFP \<equiv> 631 :: nat"
abbreviation (input) "CodeMergeCdrNoPopLP \<equiv> 632 :: nat"
abbreviation (input) "CodeMergeCdrNoPopSP \<equiv> 633 :: nat"
abbreviation (input) "CodeMergeCdrNoPopImmediate \<equiv> 634 :: nat"
abbreviation (input) "CodeMergeCdrNoPopPop \<equiv> 635 :: nat"
abbreviation (input) "CodeFastAref1FP \<equiv> 636 :: nat"
abbreviation (input) "CodeFastAref1LP \<equiv> 637 :: nat"
abbreviation (input) "CodeFastAref1SP \<equiv> 638 :: nat"
abbreviation (input) "CodeFastAref1Immediate \<equiv> 639 :: nat"
abbreviation (input) "CodeFastAref1Pop \<equiv> 640 :: nat"
abbreviation (input) "CodeFastAset1FP \<equiv> 641 :: nat"
abbreviation (input) "CodeFastAset1LP \<equiv> 642 :: nat"
abbreviation (input) "CodeFastAset1SP \<equiv> 643 :: nat"
abbreviation (input) "CodeFastAset1Immediate \<equiv> 644 :: nat"
abbreviation (input) "CodeFastAset1Pop \<equiv> 645 :: nat"
abbreviation (input) "CodeStackBltAddressFP \<equiv> 646 :: nat"
abbreviation (input) "CodeStackBltAddressLP \<equiv> 647 :: nat"
abbreviation (input) "CodeStackBltAddressSP \<equiv> 648 :: nat"
abbreviation (input) "CodeStackBltAddressImmediate \<equiv> 649 :: nat"
abbreviation (input) "CodeStackBltAddressPop \<equiv> 650 :: nat"
abbreviation (input) "CodeDpb \<equiv> 651 :: nat"
abbreviation (input) "CodeCharDpb \<equiv> 652 :: nat"
abbreviation (input) "CodePDpb \<equiv> 653 :: nat"
abbreviation (input) "CodePTagDpb \<equiv> 654 :: nat"
abbreviation (input) "CodeLoopIncrementTosLessThan \<equiv> 655 :: nat"
abbreviation (input) "CodeCatchOpen \<equiv> 656 :: nat"
abbreviation (input) "CodeHack \<equiv> 657 :: nat"
abbreviation (input) "CodePushNull \<equiv> 658 :: nat"
abbreviation (input) "CodePushMonitorForward \<equiv> 659 :: nat"
abbreviation (input) "CodePushHeaderP \<equiv> 660 :: nat"
abbreviation (input) "CodePushHeaderI \<equiv> 661 :: nat"
abbreviation (input) "CodePushExternalValueCellPointer \<equiv> 662 :: nat"
abbreviation (input) "CodePushOneQForward \<equiv> 663 :: nat"
abbreviation (input) "CodePushHeaderForward \<equiv> 664 :: nat"
abbreviation (input) "CodePushElementForward \<equiv> 665 :: nat"
abbreviation (input) "CodePushFixnum \<equiv> 666 :: nat"
abbreviation (input) "CodePushSmallRatio \<equiv> 667 :: nat"
abbreviation (input) "CodePushSingleFloat \<equiv> 668 :: nat"
abbreviation (input) "CodePushDoubleFloat \<equiv> 669 :: nat"
abbreviation (input) "CodePushBignum \<equiv> 670 :: nat"
abbreviation (input) "CodePushBigRatio \<equiv> 671 :: nat"
abbreviation (input) "CodePushComplex \<equiv> 672 :: nat"
abbreviation (input) "CodePushSpareNumber \<equiv> 673 :: nat"
abbreviation (input) "CodePushInstance \<equiv> 674 :: nat"
abbreviation (input) "CodePushListInstance \<equiv> 675 :: nat"
abbreviation (input) "CodePushArrayInstance \<equiv> 676 :: nat"
abbreviation (input) "CodePushStringInstance \<equiv> 677 :: nat"
abbreviation (input) "CodePushNil \<equiv> 678 :: nat"
abbreviation (input) "CodePushList \<equiv> 679 :: nat"
abbreviation (input) "CodePushArray \<equiv> 680 :: nat"
abbreviation (input) "CodePushString \<equiv> 681 :: nat"
abbreviation (input) "CodePushSymbol \<equiv> 682 :: nat"
abbreviation (input) "CodePushLocative \<equiv> 683 :: nat"
abbreviation (input) "CodePushLexicalClosure \<equiv> 684 :: nat"
abbreviation (input) "CodePushDynamicClosure \<equiv> 685 :: nat"
abbreviation (input) "CodePushCompiledFunction \<equiv> 686 :: nat"
abbreviation (input) "CodePushGenericFunction \<equiv> 687 :: nat"
abbreviation (input) "CodePushSparePointer1 \<equiv> 688 :: nat"
abbreviation (input) "CodePushSparePointer2 \<equiv> 689 :: nat"
abbreviation (input) "CodePushPhysicalAddress \<equiv> 690 :: nat"
abbreviation (input) "CodePushSpareImmediate1 \<equiv> 691 :: nat"
abbreviation (input) "CodePushBoundLocation \<equiv> 692 :: nat"
abbreviation (input) "CodePushCharacter \<equiv> 693 :: nat"
abbreviation (input) "CodePushLogicVariable \<equiv> 694 :: nat"
abbreviation (input) "CodePushGcForward \<equiv> 695 :: nat"
abbreviation (input) "CodePushEvenPc \<equiv> 696 :: nat"
abbreviation (input) "CodePushOddPc \<equiv> 697 :: nat"
abbreviation (input) "CodeCallCompiledEven \<equiv> 698 :: nat"
abbreviation (input) "CodeCallCompiledOdd \<equiv> 699 :: nat"
abbreviation (input) "CodeCallIndirect \<equiv> 700 :: nat"
abbreviation (input) "CodeCallGeneric \<equiv> 701 :: nat"
abbreviation (input) "CodeCallCompiledEvenPrefetch \<equiv> 702 :: nat"
abbreviation (input) "CodeCallCompiledOddPrefetch \<equiv> 703 :: nat"
abbreviation (input) "CodeCallIndirectPrefetch \<equiv> 704 :: nat"
abbreviation (input) "CodeCallGenericPrefetch \<equiv> 705 :: nat"
abbreviation (input) "CodePushPackedInstruction60 \<equiv> 706 :: nat"
abbreviation (input) "CodePushPackedInstruction61 \<equiv> 707 :: nat"
abbreviation (input) "CodePushPackedInstruction62 \<equiv> 708 :: nat"
abbreviation (input) "CodePushPackedInstruction63 \<equiv> 709 :: nat"
abbreviation (input) "CodePushPackedInstruction64 \<equiv> 710 :: nat"
abbreviation (input) "CodePushPackedInstruction65 \<equiv> 711 :: nat"
abbreviation (input) "CodePushPackedInstruction66 \<equiv> 712 :: nat"
abbreviation (input) "CodePushPackedInstruction67 \<equiv> 713 :: nat"
abbreviation (input) "CodePushPackedInstruction70 \<equiv> 714 :: nat"
abbreviation (input) "CodePushPackedInstruction71 \<equiv> 715 :: nat"
abbreviation (input) "CodePushPackedInstruction72 \<equiv> 716 :: nat"
abbreviation (input) "CodePushPackedInstruction73 \<equiv> 717 :: nat"
abbreviation (input) "CodePushPackedInstruction74 \<equiv> 718 :: nat"
abbreviation (input) "CodePushPackedInstruction75 \<equiv> 719 :: nat"
abbreviation (input) "CodePushPackedInstruction76 \<equiv> 720 :: nat"
abbreviation (input) "CodePushPackedInstruction77 \<equiv> 721 :: nat"
abbreviation (input) "CodeInstructionCacheLookup \<equiv> 722 :: nat"
abbreviation (input) "CodeIllegalInstruction \<equiv> 723 :: nat"

end
