(* ===== verification/Ivory_Decode.thy ===== *)
theory Ivory_Decode
  imports Ivory_Traps Ivory_Codes
begin

text \<open>
  Instruction decoding of the portable emulator (\<^verbatim>\<open>src/c-emulator/dispatch.c\<close>): the decoder tables, the
  operands of the instruction formats, and the filling of a block of the instruction cache from
  the words of memory. A word holds one instruction or two packed ones; the cdr code of its tag
  says which instruction follows.
\<close>

section \<open>Operand formats\<close>

type_synonym decoder = "Integer \<Rightarrow> InstructionCacheLine \<Rightarrow> InstructionCacheLine"

definition ReturnInstructionDecoder :: "nat list" where
  "ReturnInstructionDecoder = [CodeReturnSingleNIL, CodeReturnSingleT, CodeReturnSingleTOS]"

definition WordInstructionDecoder :: "nat list" where
  "WordInstructionDecoder = [
   CodePushNull, CodePushMonitorForward, CodePushHeaderP, CodePushHeaderI, CodePushExternalValueCellPointer,
   CodePushOneQForward, CodePushHeaderForward, CodePushElementForward, CodePushFixnum, CodePushSmallRatio,
   CodePushSingleFloat, CodePushDoubleFloat, CodePushBignum, CodePushBigRatio, CodePushComplex, CodePushSpareNumber,
   CodePushInstance, CodePushListInstance, CodePushArrayInstance, CodePushStringInstance, CodePushNil, CodePushList,
   CodePushArray, CodePushString, CodePushSymbol, CodePushLocative, CodePushLexicalClosure, CodePushDynamicClosure,
   CodePushCompiledFunction, CodePushGenericFunction, CodePushSparePointer1, CodePushSparePointer2,
   CodePushPhysicalAddress, CodePushSpareImmediate1, CodePushBoundLocation, CodePushCharacter, CodePushLogicVariable,
   CodePushGcForward, CodePushEvenPc, CodePushOddPc, CodeCallCompiledEven, CodeCallCompiledOdd, CodeCallIndirect,
   CodeCallGeneric, CodeCallCompiledEvenPrefetch, CodeCallCompiledOddPrefetch, CodeCallIndirectPrefetch,
   CodeCallGenericPrefetch, CodePushPackedInstruction60, CodePushPackedInstruction61, CodePushPackedInstruction62,
   CodePushPackedInstruction63, CodePushPackedInstruction64, CodePushPackedInstruction65,
   CodePushPackedInstruction66, CodePushPackedInstruction67, CodePushPackedInstruction70,
   CodePushPackedInstruction71, CodePushPackedInstruction72, CodePushPackedInstruction73,
   CodePushPackedInstruction74, CodePushPackedInstruction75, CodePushPackedInstruction76, CodePushPackedInstruction77]"

definition PopInstructionDecoder :: "nat list" where
  "PopInstructionDecoder = [
   CodeCarPop, CodeCdrPop, CodeEndpPop, CodeSetup1dArrayPop, CodeSetupForce1dArrayPop, CodeBindLocativePop,
   CodeRestoreBindingStackPop, CodeEphemeralpPop, CodeStartCallPop, CodeJumpPop, CodeTagPop, CodeDereferencePop,
   CodeLogicTailTestPop, CodeProcBreakpointPop, CodeIllegalInstruction, CodeIllegalInstruction,
   CodePushLexicalVarPop, CodePushLexicalVarPop, CodePushLexicalVarPop, CodePushLexicalVarPop, CodePushLexicalVarPop,
   CodePushLexicalVarPop, CodePushLexicalVarPop, CodePushLexicalVarPop, CodeBlock0WritePop, CodeBlock1WritePop,
   CodeBlock2WritePop, CodeBlock3WritePop, CodeZeropPop, CodeMinuspPop, CodePluspPop, CodeIllegalInstruction,
   CodeIllegalInstruction, CodeIllegalInstruction, CodeIllegalInstruction, CodeIllegalInstruction,
   CodeIllegalInstruction, CodeIllegalInstruction, CodeIllegalInstruction, CodeIllegalInstruction,
   CodeIllegalInstruction, CodeIllegalInstruction, CodeIllegalInstruction, CodeIllegalInstruction,
   CodeIllegalInstruction, CodeIllegalInstruction, CodeIllegalInstruction, CodeIllegalInstruction,
   CodeIllegalInstruction, CodeIllegalInstruction, CodeIllegalInstruction, CodeIllegalInstruction,
   CodeIllegalInstruction, CodeIllegalInstruction, CodeIllegalInstruction, CodeIllegalInstruction,
   CodeIllegalInstruction, CodeIllegalInstruction, CodeIllegalInstruction, CodeIllegalInstruction,
   CodeIllegalInstruction, CodeIllegalInstruction, CodeIllegalInstruction, CodeIllegalInstruction, CodePushPop,
   CodeIllegalInstruction, CodePushAddressSpRelativePop, CodePushLocalLogicVariablesPop, CodeReturnMultiplePop,
   CodeReturnKludgePop, CodeIllegalInstruction, CodeUnbindNPop, CodeIllegalInstruction, CodeIllegalInstruction,
   CodeIllegalInstruction, CodeIllegalInstruction, CodeUnaryMinusPop, CodeIllegalInstruction, CodeIllegalInstruction,
   CodeIllegalInstruction, CodeIllegalInstruction, CodeIllegalInstruction, CodeIllegalInstruction,
   CodeIllegalInstruction, CodeIllegalInstruction, CodeIllegalInstruction, CodeIllegalInstruction,
   CodeIllegalInstruction, CodeIllegalInstruction, CodeIllegalInstruction, CodeIllegalInstruction,
   CodeIllegalInstruction, CodeIllegalInstruction, CodeIllegalInstruction, CodeIllegalInstruction,
   CodeIllegalInstruction, CodeSetToCarPop, CodeSetToCdrPop, CodeSetToCdrPushCarPop, CodeIncrementPop,
   CodeDecrementPop, CodePointerIncrementPop, CodeSetCdrCode1Pop, CodeSetCdrCode2Pop, CodePushAddressPop,
   CodeSetSpToAddressPop, CodeSetSpToAddressSaveTosPop, CodeIllegalInstruction, CodeIllegalInstruction,
   CodeIllegalInstruction, CodeIllegalInstruction, CodeIllegalInstruction, CodeBlock0ReadAluPop,
   CodeBlock1ReadAluPop, CodeBlock2ReadAluPop, CodeBlock3ReadAluPop, CodeIllegalInstruction, CodeIllegalInstruction,
   CodeIllegalInstruction, CodeIllegalInstruction, CodeIllegalInstruction, CodeIllegalInstruction,
   CodeIllegalInstruction, CodeIllegalInstruction, CodeIllegalInstruction, CodeIllegalInstruction,
   CodeIllegalInstruction, CodeIllegalInstruction, CodeRplacaPop, CodeRplacdPop, CodeMultiplyPop, CodeQuotientPop,
   CodeCeilingPop, CodeFloorPop, CodeTruncatePop, CodeRoundPop, CodeIllegalInstruction, CodeRationalQuotientPop,
   CodeMinPop, CodeMaxPop, CodeAluPop, CodeLogandPop, CodeLogxorPop, CodeLogiorPop, CodeRotPop, CodeLshPop,
   CodeMultiplyDoublePop, CodeLshcBignumStepPop, CodeStackBltPop, CodeRgetfPop, CodeMemberPop, CodeAssocPop,
   CodePointerPlusPop, CodePointerDifferencePop, CodeAshPop, CodeStoreConditionalPop, CodeMemoryWritePop,
   CodePStoreContentsPop, CodeBindLocativeToValuePop, CodeUnifyPop, CodePopLexicalVarPop, CodePopLexicalVarPop,
   CodePopLexicalVarPop, CodePopLexicalVarPop, CodePopLexicalVarPop, CodePopLexicalVarPop, CodePopLexicalVarPop,
   CodePopLexicalVarPop, CodeMovemLexicalVarPop, CodeMovemLexicalVarPop, CodeMovemLexicalVarPop,
   CodeMovemLexicalVarPop, CodeMovemLexicalVarPop, CodeMovemLexicalVarPop, CodeMovemLexicalVarPop,
   CodeMovemLexicalVarPop, CodeEqualNumberPop, CodeLesspPop, CodeGreaterpPop, CodeEqlPop, CodeEqualNumberNoPopPop,
   CodeLesspNoPopPop, CodeGreaterpNoPopPop, CodeEqlNoPopPop, CodeEqPop, CodeIllegalInstruction,
   CodeIllegalInstruction, CodeLogtestPop, CodeEqNoPopPop, CodeIllegalInstruction, CodeIllegalInstruction,
   CodeLogtestNoPopPop, CodeAddPop, CodeSubPop, Code32BitPlusPop, Code32BitDifferencePop, CodeAddBignumStepPop,
   CodeSubBignumStepPop, CodeMultiplyBignumStepPop, CodeDivideBignumStepPop, CodeAset1Pop, CodeAllocateListBlockPop,
   CodeAref1Pop, CodeAloc1Pop, CodeStoreArrayLeaderPop, CodeAllocateStructureBlockPop, CodeArrayLeaderPop,
   CodeAlocLeaderPop, CodeIllegalInstruction, CodeIllegalInstruction, CodeIllegalInstruction, CodeIllegalInstruction,
   CodeInstanceRefPop, CodeInstanceSetPop, CodeInstanceLocPop, CodeSetTagPop, CodeIllegalInstruction,
   CodeUnsignedLesspPop, CodeIllegalInstruction, CodeIllegalInstruction, CodeIllegalInstruction,
   CodeUnsignedLesspNoPopPop, CodeIllegalInstruction, CodeIllegalInstruction, CodePopPop, CodeMovemPop,
   CodeMergeCdrNoPopPop, CodeIllegalInstruction, CodeIllegalInstruction, CodeIllegalInstruction,
   CodeIllegalInstruction, CodeIllegalInstruction, CodeFastAref1Pop, CodeFastAset1Pop, CodeStackBltAddressPop,
   CodeIllegalInstruction, CodeIllegalInstruction, CodeIllegalInstruction, CodeIllegalInstruction,
   CodeIllegalInstruction, CodeIllegalInstruction, CodeIllegalInstruction, CodeIllegalInstruction,
   CodeIllegalInstruction, CodeIllegalInstruction, CodeIllegalInstruction, CodeIllegalInstruction,
   CodeIllegalInstruction, CodeIllegalInstruction, CodeIllegalInstruction, CodeIllegalInstruction,
   CodeIllegalInstruction, CodeIllegalInstruction, CodeIllegalInstruction, CodeIllegalInstruction,
   CodeIllegalInstruction]"

definition DecodeNoneFunction :: decoder where
  "DecodeNoneFunction i cp = cp\<lparr>line_operand := 0\<rparr>"

definition Decode8BitUnsignedOperandFunction :: decoder where
  "Decode8BitUnsignedOperandFunction i cp = cp\<lparr>line_operand := uint (i AND 0xff)\<rparr>"

text \<open>\<^verbatim>\<open>SignExtend8\<close> and \<^verbatim>\<open>SignExtend10\<close> shift the sign bit to the top and divide by the power of two.\<close>

definition SignExtend8 :: "Integer \<Rightarrow> int" where
  "SignExtend8 i = sint (push_bit 24 i) div 16777216"

definition SignExtend10 :: "Integer \<Rightarrow> int" where
  "SignExtend10 i = sint (push_bit 22 i) div 4194304"

definition Decode8BitSignedOperandFunction :: decoder where
  "Decode8BitSignedOperandFunction i cp = cp\<lparr>line_operand := SignExtend8 i\<rparr>"

definition Decode10BitUnsignedOperandFunction :: decoder where
  "Decode10BitUnsignedOperandFunction i cp = cp\<lparr>line_operand := uint (i AND 0x3ff)\<rparr>"

definition Decode12BitUnsignedOperandFunction :: decoder where
  "Decode12BitUnsignedOperandFunction i cp = cp\<lparr>line_operand := uint (i AND 0xfff)\<rparr>"

definition DecodeFPOperandFunction :: decoder where
  "DecodeFPOperandFunction i cp = cp\<lparr>line_operand := uint (i AND 0xff)\<rparr>"

definition DecodeLPOperandFunction :: decoder where
  "DecodeLPOperandFunction i cp = cp\<lparr>line_operand := uint (i AND 0xff)\<rparr>"

definition DecodeSPOperandFunction :: decoder where
  "DecodeSPOperandFunction i cp = (let offset = uint (i AND 0xff) in
     if offset = 0 then cp\<lparr>code := PopInstructionDecoder ! unat (ldb 8 10 i), line_operand := 0\<rparr>
     else cp\<lparr>line_operand := offset - 255\<rparr>)"

definition DecodeBranchOperandFunction :: decoder where
  "DecodeBranchOperandFunction i cp = cp\<lparr>line_operand := SignExtend10 i\<rparr>"

text \<open>Any other operand of a return leaves that of the line as it was.\<close>

definition DecodeReturnOperandFunction :: decoder where
  "DecodeReturnOperandFunction i cp = (let c = uint (i AND 0x3ff) in
     if c = 512 then cp\<lparr>code := ReturnInstructionDecoder ! 2, line_operand := 0\<rparr>
     else if c = 544 then cp\<lparr>code := ReturnInstructionDecoder ! 0, line_operand := 0\<rparr>
     else if c = 545 then cp\<lparr>code := ReturnInstructionDecoder ! 1, line_operand := 0\<rparr>
     else cp)"

definition DecodeEntryOperandFunction :: decoder where
  "DecodeEntryOperandFunction i cp = cp\<lparr>line_operand := sint (dpb (ldb 8 18 i) 8 8 (i AND 0xff))\<rparr>"

definition PackedInstructionDecoder :: "(nat \<times> decoder) list" where
  "PackedInstructionDecoder = [
   (CodeCarFP, DecodeFPOperandFunction), (CodeCarLP, DecodeLPOperandFunction), (CodeCarSP, DecodeSPOperandFunction),
   (CodeCarImmediate, Decode8BitUnsignedOperandFunction), (CodeCdrFP, DecodeFPOperandFunction),
   (CodeCdrLP, DecodeLPOperandFunction), (CodeCdrSP, DecodeSPOperandFunction),
   (CodeCdrImmediate, Decode8BitUnsignedOperandFunction), (CodeEndpFP, DecodeFPOperandFunction),
   (CodeEndpLP, DecodeLPOperandFunction), (CodeEndpSP, DecodeSPOperandFunction),
   (CodeEndpImmediate, Decode8BitSignedOperandFunction), (CodeSetup1dArrayFP, DecodeFPOperandFunction),
   (CodeSetup1dArrayLP, DecodeLPOperandFunction), (CodeSetup1dArraySP, DecodeSPOperandFunction),
   (CodeSetup1dArrayImmediate, Decode8BitSignedOperandFunction), (CodeSetupForce1dArrayFP, DecodeFPOperandFunction),
   (CodeSetupForce1dArrayLP, DecodeLPOperandFunction), (CodeSetupForce1dArraySP, DecodeSPOperandFunction),
   (CodeSetupForce1dArrayImmediate, Decode8BitSignedOperandFunction), (CodeBindLocativeFP, DecodeFPOperandFunction),
   (CodeBindLocativeLP, DecodeLPOperandFunction), (CodeBindLocativeSP, DecodeSPOperandFunction),
   (CodeBindLocativeImmediate, Decode8BitUnsignedOperandFunction),
   (CodeRestoreBindingStackFP, DecodeFPOperandFunction), (CodeRestoreBindingStackLP, DecodeLPOperandFunction),
   (CodeRestoreBindingStackSP, DecodeSPOperandFunction),
   (CodeRestoreBindingStackImmediate, Decode8BitUnsignedOperandFunction),
   (CodeEphemeralpFP, DecodeFPOperandFunction), (CodeEphemeralpLP, DecodeLPOperandFunction),
   (CodeEphemeralpSP, DecodeSPOperandFunction), (CodeEphemeralpImmediate, Decode8BitUnsignedOperandFunction),
   (CodeStartCallFP, DecodeFPOperandFunction), (CodeStartCallLP, DecodeLPOperandFunction),
   (CodeStartCallSP, DecodeSPOperandFunction), (CodeStartCallImmediate, Decode8BitSignedOperandFunction),
   (CodeJumpFP, DecodeFPOperandFunction), (CodeJumpLP, DecodeLPOperandFunction),
   (CodeJumpSP, DecodeSPOperandFunction), (CodeJumpImmediate, Decode8BitUnsignedOperandFunction),
   (CodeTagFP, DecodeFPOperandFunction), (CodeTagLP, DecodeLPOperandFunction), (CodeTagSP, DecodeSPOperandFunction),
   (CodeTagImmediate, Decode8BitSignedOperandFunction), (CodeDereferenceFP, DecodeFPOperandFunction),
   (CodeDereferenceLP, DecodeLPOperandFunction), (CodeDereferenceSP, DecodeSPOperandFunction),
   (CodeDereferenceImmediate, Decode8BitSignedOperandFunction), (CodeLogicTailTestFP, DecodeFPOperandFunction),
   (CodeLogicTailTestLP, DecodeLPOperandFunction), (CodeLogicTailTestSP, DecodeSPOperandFunction),
   (CodeLogicTailTestImmediate, Decode8BitSignedOperandFunction), (CodeProcBreakpointFP, DecodeFPOperandFunction),
   (CodeProcBreakpointLP, DecodeLPOperandFunction), (CodeProcBreakpointSP, DecodeSPOperandFunction),
   (CodeProcBreakpointImmediate, Decode8BitSignedOperandFunction), (CodeIllegalInstruction, DecodeNoneFunction),
   (CodeIllegalInstruction, DecodeNoneFunction), (CodeIllegalInstruction, DecodeNoneFunction),
   (CodeIllegalInstruction, DecodeNoneFunction), (CodeIllegalInstruction, DecodeNoneFunction),
   (CodeIllegalInstruction, DecodeNoneFunction), (CodeIllegalInstruction, DecodeNoneFunction),
   (CodeIllegalInstruction, DecodeNoneFunction), (CodePushLexicalVarFP, DecodeFPOperandFunction),
   (CodePushLexicalVarLP, DecodeLPOperandFunction), (CodePushLexicalVarSP, DecodeSPOperandFunction),
   (CodePushLexicalVarImmediate, Decode8BitSignedOperandFunction), (CodePushLexicalVarFP, DecodeFPOperandFunction),
   (CodePushLexicalVarLP, DecodeLPOperandFunction), (CodePushLexicalVarSP, DecodeSPOperandFunction),
   (CodePushLexicalVarImmediate, Decode8BitSignedOperandFunction), (CodePushLexicalVarFP, DecodeFPOperandFunction),
   (CodePushLexicalVarLP, DecodeLPOperandFunction), (CodePushLexicalVarSP, DecodeSPOperandFunction),
   (CodePushLexicalVarImmediate, Decode8BitSignedOperandFunction), (CodePushLexicalVarFP, DecodeFPOperandFunction),
   (CodePushLexicalVarLP, DecodeLPOperandFunction), (CodePushLexicalVarSP, DecodeSPOperandFunction),
   (CodePushLexicalVarImmediate, Decode8BitSignedOperandFunction), (CodePushLexicalVarFP, DecodeFPOperandFunction),
   (CodePushLexicalVarLP, DecodeLPOperandFunction), (CodePushLexicalVarSP, DecodeSPOperandFunction),
   (CodePushLexicalVarImmediate, Decode8BitSignedOperandFunction), (CodePushLexicalVarFP, DecodeFPOperandFunction),
   (CodePushLexicalVarLP, DecodeLPOperandFunction), (CodePushLexicalVarSP, DecodeSPOperandFunction),
   (CodePushLexicalVarImmediate, Decode8BitSignedOperandFunction), (CodePushLexicalVarFP, DecodeFPOperandFunction),
   (CodePushLexicalVarLP, DecodeLPOperandFunction), (CodePushLexicalVarSP, DecodeSPOperandFunction),
   (CodePushLexicalVarImmediate, Decode8BitSignedOperandFunction), (CodePushLexicalVarFP, DecodeFPOperandFunction),
   (CodePushLexicalVarLP, DecodeLPOperandFunction), (CodePushLexicalVarSP, DecodeSPOperandFunction),
   (CodePushLexicalVarImmediate, Decode8BitSignedOperandFunction), (CodeBlock0WriteFP, DecodeFPOperandFunction),
   (CodeBlock0WriteLP, DecodeLPOperandFunction), (CodeBlock0WriteSP, DecodeSPOperandFunction),
   (CodeBlock0WriteImmediate, Decode8BitSignedOperandFunction), (CodeBlock1WriteFP, DecodeFPOperandFunction),
   (CodeBlock1WriteLP, DecodeLPOperandFunction), (CodeBlock1WriteSP, DecodeSPOperandFunction),
   (CodeBlock1WriteImmediate, Decode8BitSignedOperandFunction), (CodeBlock2WriteFP, DecodeFPOperandFunction),
   (CodeBlock2WriteLP, DecodeLPOperandFunction), (CodeBlock2WriteSP, DecodeSPOperandFunction),
   (CodeBlock2WriteImmediate, Decode8BitSignedOperandFunction), (CodeBlock3WriteFP, DecodeFPOperandFunction),
   (CodeBlock3WriteLP, DecodeLPOperandFunction), (CodeBlock3WriteSP, DecodeSPOperandFunction),
   (CodeBlock3WriteImmediate, Decode8BitSignedOperandFunction), (CodeZeropFP, DecodeFPOperandFunction),
   (CodeZeropLP, DecodeLPOperandFunction), (CodeZeropSP, DecodeSPOperandFunction),
   (CodeZeropImmediate, Decode8BitSignedOperandFunction), (CodeMinuspFP, DecodeFPOperandFunction),
   (CodeMinuspLP, DecodeLPOperandFunction), (CodeMinuspSP, DecodeSPOperandFunction),
   (CodeMinuspImmediate, Decode8BitSignedOperandFunction), (CodePluspFP, DecodeFPOperandFunction),
   (CodePluspLP, DecodeLPOperandFunction), (CodePluspSP, DecodeSPOperandFunction),
   (CodePluspImmediate, Decode8BitSignedOperandFunction), (CodeIllegalInstruction, DecodeNoneFunction),
   (CodeIllegalInstruction, DecodeNoneFunction), (CodeIllegalInstruction, DecodeNoneFunction),
   (CodeIllegalInstruction, DecodeNoneFunction), (CodeTypeMember, Decode12BitUnsignedOperandFunction),
   (CodeTypeMember, Decode12BitUnsignedOperandFunction), (CodeTypeMember, Decode12BitUnsignedOperandFunction),
   (CodeTypeMember, Decode12BitUnsignedOperandFunction), (CodeTypeMember, Decode12BitUnsignedOperandFunction),
   (CodeTypeMember, Decode12BitUnsignedOperandFunction), (CodeTypeMember, Decode12BitUnsignedOperandFunction),
   (CodeTypeMember, Decode12BitUnsignedOperandFunction), (CodeTypeMember, Decode12BitUnsignedOperandFunction),
   (CodeTypeMember, Decode12BitUnsignedOperandFunction), (CodeTypeMember, Decode12BitUnsignedOperandFunction),
   (CodeTypeMember, Decode12BitUnsignedOperandFunction), (CodeTypeMember, Decode12BitUnsignedOperandFunction),
   (CodeTypeMember, Decode12BitUnsignedOperandFunction), (CodeTypeMember, Decode12BitUnsignedOperandFunction),
   (CodeTypeMember, Decode12BitUnsignedOperandFunction), (CodeTypeMemberNoPop, Decode12BitUnsignedOperandFunction),
   (CodeTypeMemberNoPop, Decode12BitUnsignedOperandFunction),
   (CodeTypeMemberNoPop, Decode12BitUnsignedOperandFunction),
   (CodeTypeMemberNoPop, Decode12BitUnsignedOperandFunction),
   (CodeTypeMemberNoPop, Decode12BitUnsignedOperandFunction),
   (CodeTypeMemberNoPop, Decode12BitUnsignedOperandFunction),
   (CodeTypeMemberNoPop, Decode12BitUnsignedOperandFunction),
   (CodeTypeMemberNoPop, Decode12BitUnsignedOperandFunction),
   (CodeTypeMemberNoPop, Decode12BitUnsignedOperandFunction),
   (CodeTypeMemberNoPop, Decode12BitUnsignedOperandFunction),
   (CodeTypeMemberNoPop, Decode12BitUnsignedOperandFunction),
   (CodeTypeMemberNoPop, Decode12BitUnsignedOperandFunction),
   (CodeTypeMemberNoPop, Decode12BitUnsignedOperandFunction),
   (CodeTypeMemberNoPop, Decode12BitUnsignedOperandFunction),
   (CodeTypeMemberNoPop, Decode12BitUnsignedOperandFunction),
   (CodeTypeMemberNoPop, Decode12BitUnsignedOperandFunction), (CodeLocateLocals, DecodeNoneFunction),
   (CodeLocateLocals, DecodeNoneFunction), (CodeLocateLocals, DecodeNoneFunction),
   (CodeLocateLocals, DecodeNoneFunction), (CodeCatchClose, DecodeNoneFunction),
   (CodeCatchClose, DecodeNoneFunction), (CodeCatchClose, DecodeNoneFunction), (CodeCatchClose, DecodeNoneFunction),
   (CodeGenericDispatch, DecodeNoneFunction), (CodeGenericDispatch, DecodeNoneFunction),
   (CodeGenericDispatch, DecodeNoneFunction), (CodeGenericDispatch, DecodeNoneFunction),
   (CodeMessageDispatch, DecodeNoneFunction), (CodeMessageDispatch, DecodeNoneFunction),
   (CodeMessageDispatch, DecodeNoneFunction), (CodeMessageDispatch, DecodeNoneFunction),
   (CodeCheckPreemptRequest, DecodeNoneFunction), (CodeCheckPreemptRequest, DecodeNoneFunction),
   (CodeCheckPreemptRequest, DecodeNoneFunction), (CodeCheckPreemptRequest, DecodeNoneFunction),
   (CodePushGlobalLogicVariable, DecodeNoneFunction), (CodePushGlobalLogicVariable, DecodeNoneFunction),
   (CodePushGlobalLogicVariable, DecodeNoneFunction), (CodePushGlobalLogicVariable, DecodeNoneFunction),
   (CodeNoOp, DecodeNoneFunction), (CodeNoOp, DecodeNoneFunction), (CodeNoOp, DecodeNoneFunction),
   (CodeNoOp, DecodeNoneFunction), (CodeHalt, DecodeNoneFunction), (CodeHalt, DecodeNoneFunction),
   (CodeHalt, DecodeNoneFunction), (CodeHalt, DecodeNoneFunction), (CodeBranchTrue, DecodeBranchOperandFunction),
   (CodeBranchTrue, DecodeBranchOperandFunction), (CodeBranchTrue, DecodeBranchOperandFunction),
   (CodeBranchTrue, DecodeBranchOperandFunction), (CodeBranchTrueElseExtraPop, DecodeBranchOperandFunction),
   (CodeBranchTrueElseExtraPop, DecodeBranchOperandFunction),
   (CodeBranchTrueElseExtraPop, DecodeBranchOperandFunction),
   (CodeBranchTrueElseExtraPop, DecodeBranchOperandFunction),
   (CodeBranchTrueAndExtraPop, DecodeBranchOperandFunction),
   (CodeBranchTrueAndExtraPop, DecodeBranchOperandFunction),
   (CodeBranchTrueAndExtraPop, DecodeBranchOperandFunction),
   (CodeBranchTrueAndExtraPop, DecodeBranchOperandFunction), (CodeBranchTrueExtraPop, DecodeBranchOperandFunction),
   (CodeBranchTrueExtraPop, DecodeBranchOperandFunction), (CodeBranchTrueExtraPop, DecodeBranchOperandFunction),
   (CodeBranchTrueExtraPop, DecodeBranchOperandFunction), (CodeBranchTrueNoPop, DecodeBranchOperandFunction),
   (CodeBranchTrueNoPop, DecodeBranchOperandFunction), (CodeBranchTrueNoPop, DecodeBranchOperandFunction),
   (CodeBranchTrueNoPop, DecodeBranchOperandFunction), (CodeBranchTrueAndNoPop, DecodeBranchOperandFunction),
   (CodeBranchTrueAndNoPop, DecodeBranchOperandFunction), (CodeBranchTrueAndNoPop, DecodeBranchOperandFunction),
   (CodeBranchTrueAndNoPop, DecodeBranchOperandFunction), (CodeBranchTrueElseNoPop, DecodeBranchOperandFunction),
   (CodeBranchTrueElseNoPop, DecodeBranchOperandFunction), (CodeBranchTrueElseNoPop, DecodeBranchOperandFunction),
   (CodeBranchTrueElseNoPop, DecodeBranchOperandFunction),
   (CodeBranchTrueAndNoPopElseNoPopExtraPop, DecodeBranchOperandFunction),
   (CodeBranchTrueAndNoPopElseNoPopExtraPop, DecodeBranchOperandFunction),
   (CodeBranchTrueAndNoPopElseNoPopExtraPop, DecodeBranchOperandFunction),
   (CodeBranchTrueAndNoPopElseNoPopExtraPop, DecodeBranchOperandFunction),
   (CodeBranchFalse, DecodeBranchOperandFunction), (CodeBranchFalse, DecodeBranchOperandFunction),
   (CodeBranchFalse, DecodeBranchOperandFunction), (CodeBranchFalse, DecodeBranchOperandFunction),
   (CodeBranchFalseElseExtraPop, DecodeBranchOperandFunction),
   (CodeBranchFalseElseExtraPop, DecodeBranchOperandFunction),
   (CodeBranchFalseElseExtraPop, DecodeBranchOperandFunction),
   (CodeBranchFalseElseExtraPop, DecodeBranchOperandFunction),
   (CodeBranchFalseAndExtraPop, DecodeBranchOperandFunction),
   (CodeBranchFalseAndExtraPop, DecodeBranchOperandFunction),
   (CodeBranchFalseAndExtraPop, DecodeBranchOperandFunction),
   (CodeBranchFalseAndExtraPop, DecodeBranchOperandFunction), (CodeBranchFalseExtraPop, DecodeBranchOperandFunction),
   (CodeBranchFalseExtraPop, DecodeBranchOperandFunction), (CodeBranchFalseExtraPop, DecodeBranchOperandFunction),
   (CodeBranchFalseExtraPop, DecodeBranchOperandFunction), (CodeBranchFalseNoPop, DecodeBranchOperandFunction),
   (CodeBranchFalseNoPop, DecodeBranchOperandFunction), (CodeBranchFalseNoPop, DecodeBranchOperandFunction),
   (CodeBranchFalseNoPop, DecodeBranchOperandFunction), (CodeBranchFalseAndNoPop, DecodeBranchOperandFunction),
   (CodeBranchFalseAndNoPop, DecodeBranchOperandFunction), (CodeBranchFalseAndNoPop, DecodeBranchOperandFunction),
   (CodeBranchFalseAndNoPop, DecodeBranchOperandFunction), (CodeBranchFalseElseNoPop, DecodeBranchOperandFunction),
   (CodeBranchFalseElseNoPop, DecodeBranchOperandFunction), (CodeBranchFalseElseNoPop, DecodeBranchOperandFunction),
   (CodeBranchFalseElseNoPop, DecodeBranchOperandFunction),
   (CodeBranchFalseAndNoPopElseNoPopExtraPop, DecodeBranchOperandFunction),
   (CodeBranchFalseAndNoPopElseNoPopExtraPop, DecodeBranchOperandFunction),
   (CodeBranchFalseAndNoPopElseNoPopExtraPop, DecodeBranchOperandFunction),
   (CodeBranchFalseAndNoPopElseNoPopExtraPop, DecodeBranchOperandFunction), (CodePushFP, DecodeFPOperandFunction),
   (CodePushLP, DecodeLPOperandFunction), (CodePushSP, DecodeSPOperandFunction),
   (CodePushImmediate, Decode8BitUnsignedOperandFunction), (CodePushNNils, Decode8BitUnsignedOperandFunction),
   (CodePushNNils, Decode8BitUnsignedOperandFunction), (CodePushNNils, Decode8BitUnsignedOperandFunction),
   (CodePushNNils, Decode8BitUnsignedOperandFunction), (CodePushAddressSpRelativeFP, DecodeFPOperandFunction),
   (CodePushAddressSpRelativeLP, DecodeLPOperandFunction), (CodePushAddressSpRelativeSP, DecodeSPOperandFunction),
   (CodePushAddressSpRelativeImmediate, Decode8BitUnsignedOperandFunction),
   (CodePushLocalLogicVariablesFP, DecodeFPOperandFunction),
   (CodePushLocalLogicVariablesLP, DecodeLPOperandFunction),
   (CodePushLocalLogicVariablesSP, DecodeSPOperandFunction),
   (CodePushLocalLogicVariablesImmediate, Decode8BitUnsignedOperandFunction),
   (CodeReturnMultipleFP, DecodeFPOperandFunction), (CodeReturnMultipleLP, DecodeLPOperandFunction),
   (CodeReturnMultipleSP, DecodeSPOperandFunction), (CodeReturnMultipleImmediate, Decode8BitUnsignedOperandFunction),
   (CodeReturnKludgeFP, DecodeFPOperandFunction), (CodeReturnKludgeLP, DecodeLPOperandFunction),
   (CodeReturnKludgeSP, DecodeSPOperandFunction), (CodeReturnKludgeImmediate, Decode8BitUnsignedOperandFunction),
   (CodeTakeValues, Decode8BitUnsignedOperandFunction), (CodeTakeValues, Decode8BitUnsignedOperandFunction),
   (CodeTakeValues, Decode8BitUnsignedOperandFunction), (CodeTakeValues, Decode8BitUnsignedOperandFunction),
   (CodeIllegalInstruction, Decode8BitUnsignedOperandFunction),
   (CodeIllegalInstruction, Decode8BitUnsignedOperandFunction),
   (CodeIllegalInstruction, Decode8BitUnsignedOperandFunction),
   (CodeUnbindNImmediate, Decode8BitUnsignedOperandFunction),
   (CodePushInstanceVariable, Decode8BitUnsignedOperandFunction),
   (CodePushInstanceVariable, Decode8BitUnsignedOperandFunction),
   (CodePushInstanceVariable, Decode8BitUnsignedOperandFunction),
   (CodePushInstanceVariable, Decode8BitUnsignedOperandFunction),
   (CodePushAddressInstanceVariable, Decode8BitUnsignedOperandFunction),
   (CodePushAddressInstanceVariable, Decode8BitUnsignedOperandFunction),
   (CodePushAddressInstanceVariable, Decode8BitUnsignedOperandFunction),
   (CodePushAddressInstanceVariable, Decode8BitUnsignedOperandFunction),
   (CodePushInstanceVariableOrdered, Decode8BitUnsignedOperandFunction),
   (CodePushInstanceVariableOrdered, Decode8BitUnsignedOperandFunction),
   (CodePushInstanceVariableOrdered, Decode8BitUnsignedOperandFunction),
   (CodePushInstanceVariableOrdered, Decode8BitUnsignedOperandFunction),
   (CodePushAddressInstanceVariableOrdered, Decode8BitUnsignedOperandFunction),
   (CodePushAddressInstanceVariableOrdered, Decode8BitUnsignedOperandFunction),
   (CodePushAddressInstanceVariableOrdered, Decode8BitUnsignedOperandFunction),
   (CodePushAddressInstanceVariableOrdered, Decode8BitUnsignedOperandFunction),
   (CodeUnaryMinusFP, DecodeFPOperandFunction), (CodeUnaryMinusLP, DecodeLPOperandFunction),
   (CodeUnaryMinusSP, DecodeSPOperandFunction), (CodeUnaryMinusImmediate, Decode8BitUnsignedOperandFunction),
   (CodeReturnSingleTOS, DecodeReturnOperandFunction), (CodeReturnSingleTOS, DecodeReturnOperandFunction),
   (CodeReturnSingleTOS, DecodeReturnOperandFunction), (CodeReturnSingleTOS, DecodeReturnOperandFunction),
   (CodeMemoryRead, Decode10BitUnsignedOperandFunction), (CodeMemoryRead, Decode10BitUnsignedOperandFunction),
   (CodeMemoryRead, Decode10BitUnsignedOperandFunction), (CodeMemoryRead, Decode10BitUnsignedOperandFunction),
   (CodeMemoryReadAddress, Decode10BitUnsignedOperandFunction),
   (CodeMemoryReadAddress, Decode10BitUnsignedOperandFunction),
   (CodeMemoryReadAddress, Decode10BitUnsignedOperandFunction),
   (CodeMemoryReadAddress, Decode10BitUnsignedOperandFunction), (CodeBlock0Read, Decode10BitUnsignedOperandFunction),
   (CodeBlock0Read, Decode10BitUnsignedOperandFunction), (CodeBlock0Read, Decode10BitUnsignedOperandFunction),
   (CodeBlock0Read, Decode10BitUnsignedOperandFunction), (CodeBlock1Read, Decode10BitUnsignedOperandFunction),
   (CodeBlock1Read, Decode10BitUnsignedOperandFunction), (CodeBlock1Read, Decode10BitUnsignedOperandFunction),
   (CodeBlock1Read, Decode10BitUnsignedOperandFunction), (CodeBlock2Read, Decode10BitUnsignedOperandFunction),
   (CodeBlock2Read, Decode10BitUnsignedOperandFunction), (CodeBlock2Read, Decode10BitUnsignedOperandFunction),
   (CodeBlock2Read, Decode10BitUnsignedOperandFunction), (CodeBlock3Read, Decode10BitUnsignedOperandFunction),
   (CodeBlock3Read, Decode10BitUnsignedOperandFunction), (CodeBlock3Read, Decode10BitUnsignedOperandFunction),
   (CodeBlock3Read, Decode10BitUnsignedOperandFunction), (CodeBlock0ReadShift, Decode10BitUnsignedOperandFunction),
   (CodeBlock0ReadShift, Decode10BitUnsignedOperandFunction),
   (CodeBlock0ReadShift, Decode10BitUnsignedOperandFunction),
   (CodeBlock0ReadShift, Decode10BitUnsignedOperandFunction),
   (CodeBlock1ReadShift, Decode10BitUnsignedOperandFunction),
   (CodeBlock1ReadShift, Decode10BitUnsignedOperandFunction),
   (CodeBlock1ReadShift, Decode10BitUnsignedOperandFunction),
   (CodeBlock1ReadShift, Decode10BitUnsignedOperandFunction),
   (CodeBlock2ReadShift, Decode10BitUnsignedOperandFunction),
   (CodeBlock2ReadShift, Decode10BitUnsignedOperandFunction),
   (CodeBlock2ReadShift, Decode10BitUnsignedOperandFunction),
   (CodeBlock2ReadShift, Decode10BitUnsignedOperandFunction),
   (CodeBlock3ReadShift, Decode10BitUnsignedOperandFunction),
   (CodeBlock3ReadShift, Decode10BitUnsignedOperandFunction),
   (CodeBlock3ReadShift, Decode10BitUnsignedOperandFunction),
   (CodeBlock3ReadShift, Decode10BitUnsignedOperandFunction),
   (CodeBlock0ReadTest, Decode10BitUnsignedOperandFunction),
   (CodeBlock0ReadTest, Decode10BitUnsignedOperandFunction),
   (CodeBlock0ReadTest, Decode10BitUnsignedOperandFunction),
   (CodeBlock0ReadTest, Decode10BitUnsignedOperandFunction),
   (CodeBlock1ReadTest, Decode10BitUnsignedOperandFunction),
   (CodeBlock1ReadTest, Decode10BitUnsignedOperandFunction),
   (CodeBlock1ReadTest, Decode10BitUnsignedOperandFunction),
   (CodeBlock1ReadTest, Decode10BitUnsignedOperandFunction),
   (CodeBlock2ReadTest, Decode10BitUnsignedOperandFunction),
   (CodeBlock2ReadTest, Decode10BitUnsignedOperandFunction),
   (CodeBlock2ReadTest, Decode10BitUnsignedOperandFunction),
   (CodeBlock2ReadTest, Decode10BitUnsignedOperandFunction),
   (CodeBlock3ReadTest, Decode10BitUnsignedOperandFunction),
   (CodeBlock3ReadTest, Decode10BitUnsignedOperandFunction),
   (CodeBlock3ReadTest, Decode10BitUnsignedOperandFunction),
   (CodeBlock3ReadTest, Decode10BitUnsignedOperandFunction), (CodeFinishCallN, Decode10BitUnsignedOperandFunction),
   (CodeFinishCallN, Decode10BitUnsignedOperandFunction), (CodeFinishCallN, Decode10BitUnsignedOperandFunction),
   (CodeFinishCallN, Decode10BitUnsignedOperandFunction), (CodeFinishCallNApply, Decode10BitUnsignedOperandFunction),
   (CodeFinishCallNApply, Decode10BitUnsignedOperandFunction),
   (CodeFinishCallNApply, Decode10BitUnsignedOperandFunction),
   (CodeFinishCallNApply, Decode10BitUnsignedOperandFunction),
   (CodeFinishCallTos, Decode10BitUnsignedOperandFunction), (CodeFinishCallTos, Decode10BitUnsignedOperandFunction),
   (CodeFinishCallTos, Decode10BitUnsignedOperandFunction), (CodeFinishCallTos, Decode10BitUnsignedOperandFunction),
   (CodeFinishCallTosApply, Decode10BitUnsignedOperandFunction),
   (CodeFinishCallTosApply, Decode10BitUnsignedOperandFunction),
   (CodeFinishCallTosApply, Decode10BitUnsignedOperandFunction),
   (CodeFinishCallTosApply, Decode10BitUnsignedOperandFunction), (CodeSetToCarFP, DecodeFPOperandFunction),
   (CodeSetToCarLP, DecodeLPOperandFunction), (CodeSetToCarSP, DecodeSPOperandFunction),
   (CodeSetToCarImmediate, Decode8BitUnsignedOperandFunction), (CodeSetToCdrFP, DecodeFPOperandFunction),
   (CodeSetToCdrLP, DecodeLPOperandFunction), (CodeSetToCdrSP, DecodeSPOperandFunction),
   (CodeSetToCdrImmediate, Decode8BitUnsignedOperandFunction), (CodeSetToCdrPushCarFP, DecodeFPOperandFunction),
   (CodeSetToCdrPushCarLP, DecodeLPOperandFunction), (CodeSetToCdrPushCarSP, DecodeSPOperandFunction),
   (CodeSetToCdrPushCarImmediate, Decode8BitUnsignedOperandFunction), (CodeIncrementFP, DecodeFPOperandFunction),
   (CodeIncrementLP, DecodeLPOperandFunction), (CodeIncrementSP, DecodeSPOperandFunction),
   (CodeIncrementImmediate, Decode8BitUnsignedOperandFunction), (CodeDecrementFP, DecodeFPOperandFunction),
   (CodeDecrementLP, DecodeLPOperandFunction), (CodeDecrementSP, DecodeSPOperandFunction),
   (CodeDecrementImmediate, Decode8BitUnsignedOperandFunction), (CodePointerIncrementFP, DecodeFPOperandFunction),
   (CodePointerIncrementLP, DecodeLPOperandFunction), (CodePointerIncrementSP, DecodeSPOperandFunction),
   (CodePointerIncrementImmediate, Decode8BitUnsignedOperandFunction), (CodeSetCdrCode1FP, DecodeFPOperandFunction),
   (CodeSetCdrCode1LP, DecodeLPOperandFunction), (CodeSetCdrCode1SP, DecodeSPOperandFunction),
   (CodeSetCdrCode1Immediate, Decode8BitUnsignedOperandFunction), (CodeSetCdrCode2FP, DecodeFPOperandFunction),
   (CodeSetCdrCode2LP, DecodeLPOperandFunction), (CodeSetCdrCode2SP, DecodeSPOperandFunction),
   (CodeSetCdrCode2Immediate, Decode8BitUnsignedOperandFunction), (CodePushAddressFP, DecodeFPOperandFunction),
   (CodePushAddressLP, DecodeLPOperandFunction), (CodePushAddressSP, DecodeSPOperandFunction),
   (CodePushAddressImmediate, Decode8BitUnsignedOperandFunction), (CodeSetSpToAddressFP, DecodeFPOperandFunction),
   (CodeSetSpToAddressLP, DecodeLPOperandFunction), (CodeSetSpToAddressSP, DecodeSPOperandFunction),
   (CodeSetSpToAddressImmediate, Decode8BitUnsignedOperandFunction),
   (CodeSetSpToAddressSaveTosFP, DecodeFPOperandFunction), (CodeSetSpToAddressSaveTosLP, DecodeLPOperandFunction),
   (CodeSetSpToAddressSaveTosSP, DecodeSPOperandFunction),
   (CodeSetSpToAddressSaveTosImmediate, Decode8BitUnsignedOperandFunction),
   (CodeIllegalInstruction, DecodeNoneFunction), (CodeIllegalInstruction, DecodeNoneFunction),
   (CodeIllegalInstruction, DecodeNoneFunction), (CodeIllegalInstruction, DecodeNoneFunction),
   (CodeReadInternalRegister, Decode10BitUnsignedOperandFunction),
   (CodeReadInternalRegister, Decode10BitUnsignedOperandFunction),
   (CodeReadInternalRegister, Decode10BitUnsignedOperandFunction),
   (CodeReadInternalRegister, Decode10BitUnsignedOperandFunction),
   (CodeWriteInternalRegister, Decode10BitUnsignedOperandFunction),
   (CodeWriteInternalRegister, Decode10BitUnsignedOperandFunction),
   (CodeWriteInternalRegister, Decode10BitUnsignedOperandFunction),
   (CodeWriteInternalRegister, Decode10BitUnsignedOperandFunction),
   (CodeCoprocessorRead, Decode10BitUnsignedOperandFunction),
   (CodeCoprocessorRead, Decode10BitUnsignedOperandFunction),
   (CodeCoprocessorRead, Decode10BitUnsignedOperandFunction),
   (CodeCoprocessorRead, Decode10BitUnsignedOperandFunction),
   (CodeCoprocessorWrite, Decode10BitUnsignedOperandFunction),
   (CodeCoprocessorWrite, Decode10BitUnsignedOperandFunction),
   (CodeCoprocessorWrite, Decode10BitUnsignedOperandFunction),
   (CodeCoprocessorWrite, Decode10BitUnsignedOperandFunction), (CodeBlock0ReadAluFP, DecodeFPOperandFunction),
   (CodeBlock0ReadAluLP, DecodeLPOperandFunction), (CodeBlock0ReadAluSP, DecodeSPOperandFunction),
   (CodeBlock0ReadAluImmediate, Decode8BitUnsignedOperandFunction), (CodeBlock1ReadAluFP, DecodeFPOperandFunction),
   (CodeBlock1ReadAluLP, DecodeLPOperandFunction), (CodeBlock1ReadAluSP, DecodeSPOperandFunction),
   (CodeBlock1ReadAluImmediate, Decode8BitUnsignedOperandFunction), (CodeBlock2ReadAluFP, DecodeFPOperandFunction),
   (CodeBlock2ReadAluLP, DecodeLPOperandFunction), (CodeBlock2ReadAluSP, DecodeSPOperandFunction),
   (CodeBlock2ReadAluImmediate, Decode8BitUnsignedOperandFunction), (CodeBlock3ReadAluFP, DecodeFPOperandFunction),
   (CodeBlock3ReadAluLP, DecodeLPOperandFunction), (CodeBlock3ReadAluSP, DecodeSPOperandFunction),
   (CodeBlock3ReadAluImmediate, Decode8BitUnsignedOperandFunction), (CodeIllegalInstruction, DecodeNoneFunction),
   (CodeIllegalInstruction, DecodeNoneFunction), (CodeIllegalInstruction, DecodeNoneFunction),
   (CodeIllegalInstruction, DecodeNoneFunction), (CodeIllegalInstruction, DecodeNoneFunction),
   (CodeIllegalInstruction, DecodeNoneFunction), (CodeIllegalInstruction, DecodeNoneFunction),
   (CodeIllegalInstruction, DecodeNoneFunction), (CodeIllegalInstruction, DecodeNoneFunction),
   (CodeIllegalInstruction, DecodeNoneFunction), (CodeIllegalInstruction, DecodeNoneFunction),
   (CodeIllegalInstruction, DecodeNoneFunction), (CodeIllegalInstruction, DecodeNoneFunction),
   (CodeIllegalInstruction, DecodeNoneFunction), (CodeIllegalInstruction, DecodeNoneFunction),
   (CodeIllegalInstruction, DecodeNoneFunction), (CodeLdb, Decode10BitUnsignedOperandFunction),
   (CodeLdb, Decode10BitUnsignedOperandFunction), (CodeLdb, Decode10BitUnsignedOperandFunction),
   (CodeLdb, Decode10BitUnsignedOperandFunction), (CodeCharLdb, Decode10BitUnsignedOperandFunction),
   (CodeCharLdb, Decode10BitUnsignedOperandFunction), (CodeCharLdb, Decode10BitUnsignedOperandFunction),
   (CodeCharLdb, Decode10BitUnsignedOperandFunction), (CodePLdb, Decode10BitUnsignedOperandFunction),
   (CodePLdb, Decode10BitUnsignedOperandFunction), (CodePLdb, Decode10BitUnsignedOperandFunction),
   (CodePLdb, Decode10BitUnsignedOperandFunction), (CodePTagLdb, Decode10BitUnsignedOperandFunction),
   (CodePTagLdb, Decode10BitUnsignedOperandFunction), (CodePTagLdb, Decode10BitUnsignedOperandFunction),
   (CodePTagLdb, Decode10BitUnsignedOperandFunction), (CodeBranch, DecodeBranchOperandFunction),
   (CodeBranch, DecodeBranchOperandFunction), (CodeBranch, DecodeBranchOperandFunction),
   (CodeBranch, DecodeBranchOperandFunction), (CodeLoopDecrementTos, DecodeBranchOperandFunction),
   (CodeLoopDecrementTos, DecodeBranchOperandFunction), (CodeLoopDecrementTos, DecodeBranchOperandFunction),
   (CodeLoopDecrementTos, DecodeBranchOperandFunction), (CodeEntryRestAccepted, DecodeEntryOperandFunction),
   (CodeEntryRestAccepted, DecodeEntryOperandFunction), (CodeEntryRestAccepted, DecodeEntryOperandFunction),
   (CodeEntryRestAccepted, DecodeEntryOperandFunction), (CodeEntryRestNotAccepted, DecodeEntryOperandFunction),
   (CodeEntryRestNotAccepted, DecodeEntryOperandFunction), (CodeEntryRestNotAccepted, DecodeEntryOperandFunction),
   (CodeEntryRestNotAccepted, DecodeEntryOperandFunction), (CodeRplacaFP, DecodeFPOperandFunction),
   (CodeRplacaLP, DecodeLPOperandFunction), (CodeRplacaSP, DecodeSPOperandFunction),
   (CodeRplacaImmediate, Decode8BitSignedOperandFunction), (CodeRplacdFP, DecodeFPOperandFunction),
   (CodeRplacdLP, DecodeLPOperandFunction), (CodeRplacdSP, DecodeSPOperandFunction),
   (CodeRplacdImmediate, Decode8BitSignedOperandFunction), (CodeMultiplyFP, DecodeFPOperandFunction),
   (CodeMultiplyLP, DecodeLPOperandFunction), (CodeMultiplySP, DecodeSPOperandFunction),
   (CodeMultiplyImmediate, Decode8BitSignedOperandFunction), (CodeQuotientFP, DecodeFPOperandFunction),
   (CodeQuotientLP, DecodeLPOperandFunction), (CodeQuotientSP, DecodeSPOperandFunction),
   (CodeQuotientImmediate, Decode8BitSignedOperandFunction), (CodeCeilingFP, DecodeFPOperandFunction),
   (CodeCeilingLP, DecodeLPOperandFunction), (CodeCeilingSP, DecodeSPOperandFunction),
   (CodeCeilingImmediate, Decode8BitSignedOperandFunction), (CodeFloorFP, DecodeFPOperandFunction),
   (CodeFloorLP, DecodeLPOperandFunction), (CodeFloorSP, DecodeSPOperandFunction),
   (CodeFloorImmediate, Decode8BitSignedOperandFunction), (CodeTruncateFP, DecodeFPOperandFunction),
   (CodeTruncateLP, DecodeLPOperandFunction), (CodeTruncateSP, DecodeSPOperandFunction),
   (CodeTruncateImmediate, Decode8BitSignedOperandFunction), (CodeRoundFP, DecodeFPOperandFunction),
   (CodeRoundLP, DecodeLPOperandFunction), (CodeRoundSP, DecodeSPOperandFunction),
   (CodeRoundImmediate, Decode8BitSignedOperandFunction), (CodeIllegalInstruction, DecodeNoneFunction),
   (CodeIllegalInstruction, DecodeNoneFunction), (CodeIllegalInstruction, DecodeNoneFunction),
   (CodeIllegalInstruction, DecodeNoneFunction), (CodeRationalQuotientFP, DecodeFPOperandFunction),
   (CodeRationalQuotientLP, DecodeLPOperandFunction), (CodeRationalQuotientSP, DecodeSPOperandFunction),
   (CodeRationalQuotientImmediate, Decode8BitSignedOperandFunction), (CodeMinFP, DecodeFPOperandFunction),
   (CodeMinLP, DecodeLPOperandFunction), (CodeMinSP, DecodeSPOperandFunction),
   (CodeMinImmediate, Decode8BitSignedOperandFunction), (CodeMaxFP, DecodeFPOperandFunction),
   (CodeMaxLP, DecodeLPOperandFunction), (CodeMaxSP, DecodeSPOperandFunction),
   (CodeMaxImmediate, Decode8BitSignedOperandFunction), (CodeAluFP, DecodeFPOperandFunction),
   (CodeAluLP, DecodeLPOperandFunction), (CodeAluSP, DecodeSPOperandFunction),
   (CodeAluImmediate, Decode8BitSignedOperandFunction), (CodeLogandFP, DecodeFPOperandFunction),
   (CodeLogandLP, DecodeLPOperandFunction), (CodeLogandSP, DecodeSPOperandFunction),
   (CodeLogandImmediate, Decode8BitSignedOperandFunction), (CodeLogxorFP, DecodeFPOperandFunction),
   (CodeLogxorLP, DecodeLPOperandFunction), (CodeLogxorSP, DecodeSPOperandFunction),
   (CodeLogxorImmediate, Decode8BitSignedOperandFunction), (CodeLogiorFP, DecodeFPOperandFunction),
   (CodeLogiorLP, DecodeLPOperandFunction), (CodeLogiorSP, DecodeSPOperandFunction),
   (CodeLogiorImmediate, Decode8BitSignedOperandFunction), (CodeRotFP, DecodeFPOperandFunction),
   (CodeRotLP, DecodeLPOperandFunction), (CodeRotSP, DecodeSPOperandFunction),
   (CodeRotImmediate, Decode8BitSignedOperandFunction), (CodeLshFP, DecodeFPOperandFunction),
   (CodeLshLP, DecodeLPOperandFunction), (CodeLshSP, DecodeSPOperandFunction),
   (CodeLshImmediate, Decode8BitSignedOperandFunction), (CodeMultiplyDoubleFP, DecodeFPOperandFunction),
   (CodeMultiplyDoubleLP, DecodeLPOperandFunction), (CodeMultiplyDoubleSP, DecodeSPOperandFunction),
   (CodeMultiplyDoubleImmediate, Decode8BitSignedOperandFunction), (CodeLshcBignumStepFP, DecodeFPOperandFunction),
   (CodeLshcBignumStepLP, DecodeLPOperandFunction), (CodeLshcBignumStepSP, DecodeSPOperandFunction),
   (CodeLshcBignumStepImmediate, Decode8BitSignedOperandFunction), (CodeStackBltFP, DecodeFPOperandFunction),
   (CodeStackBltLP, DecodeLPOperandFunction), (CodeStackBltSP, DecodeSPOperandFunction),
   (CodeStackBltImmediate, Decode8BitSignedOperandFunction), (CodeRgetfFP, DecodeFPOperandFunction),
   (CodeRgetfLP, DecodeLPOperandFunction), (CodeRgetfSP, DecodeSPOperandFunction),
   (CodeRgetfImmediate, Decode8BitUnsignedOperandFunction), (CodeMemberFP, DecodeFPOperandFunction),
   (CodeMemberLP, DecodeLPOperandFunction), (CodeMemberSP, DecodeSPOperandFunction),
   (CodeMemberImmediate, Decode8BitUnsignedOperandFunction), (CodeAssocFP, DecodeFPOperandFunction),
   (CodeAssocLP, DecodeLPOperandFunction), (CodeAssocSP, DecodeSPOperandFunction),
   (CodeAssocImmediate, Decode8BitUnsignedOperandFunction), (CodePointerPlusFP, DecodeFPOperandFunction),
   (CodePointerPlusLP, DecodeLPOperandFunction), (CodePointerPlusSP, DecodeSPOperandFunction),
   (CodePointerPlusImmediate, Decode8BitSignedOperandFunction), (CodePointerDifferenceFP, DecodeFPOperandFunction),
   (CodePointerDifferenceLP, DecodeLPOperandFunction), (CodePointerDifferenceSP, DecodeSPOperandFunction),
   (CodePointerDifferenceImmediate, Decode8BitSignedOperandFunction), (CodeAshFP, DecodeFPOperandFunction),
   (CodeAshLP, DecodeLPOperandFunction), (CodeAshSP, DecodeSPOperandFunction),
   (CodeAshImmediate, Decode8BitSignedOperandFunction), (CodeStoreConditionalFP, DecodeFPOperandFunction),
   (CodeStoreConditionalLP, DecodeLPOperandFunction), (CodeStoreConditionalSP, DecodeSPOperandFunction),
   (CodeStoreConditionalImmediate, Decode8BitSignedOperandFunction), (CodeMemoryWriteFP, DecodeFPOperandFunction),
   (CodeMemoryWriteLP, DecodeLPOperandFunction), (CodeMemoryWriteSP, DecodeSPOperandFunction),
   (CodeMemoryWriteImmediate, Decode8BitSignedOperandFunction), (CodePStoreContentsFP, DecodeFPOperandFunction),
   (CodePStoreContentsLP, DecodeLPOperandFunction), (CodePStoreContentsSP, DecodeSPOperandFunction),
   (CodePStoreContentsImmediate, Decode8BitSignedOperandFunction),
   (CodeBindLocativeToValueFP, DecodeFPOperandFunction), (CodeBindLocativeToValueLP, DecodeLPOperandFunction),
   (CodeBindLocativeToValueSP, DecodeSPOperandFunction),
   (CodeBindLocativeToValueImmediate, Decode8BitSignedOperandFunction), (CodeUnifyFP, DecodeFPOperandFunction),
   (CodeUnifyLP, DecodeLPOperandFunction), (CodeUnifySP, DecodeSPOperandFunction),
   (CodeUnifyImmediate, Decode8BitSignedOperandFunction), (CodePopLexicalVarFP, DecodeFPOperandFunction),
   (CodePopLexicalVarLP, DecodeLPOperandFunction), (CodePopLexicalVarSP, DecodeSPOperandFunction),
   (CodePopLexicalVarImmediate, Decode8BitSignedOperandFunction), (CodePopLexicalVarFP, DecodeFPOperandFunction),
   (CodePopLexicalVarLP, DecodeLPOperandFunction), (CodePopLexicalVarSP, DecodeSPOperandFunction),
   (CodePopLexicalVarImmediate, Decode8BitSignedOperandFunction), (CodePopLexicalVarFP, DecodeFPOperandFunction),
   (CodePopLexicalVarLP, DecodeLPOperandFunction), (CodePopLexicalVarSP, DecodeSPOperandFunction),
   (CodePopLexicalVarImmediate, Decode8BitSignedOperandFunction), (CodePopLexicalVarFP, DecodeFPOperandFunction),
   (CodePopLexicalVarLP, DecodeLPOperandFunction), (CodePopLexicalVarSP, DecodeSPOperandFunction),
   (CodePopLexicalVarImmediate, Decode8BitSignedOperandFunction), (CodePopLexicalVarFP, DecodeFPOperandFunction),
   (CodePopLexicalVarLP, DecodeLPOperandFunction), (CodePopLexicalVarSP, DecodeSPOperandFunction),
   (CodePopLexicalVarImmediate, Decode8BitSignedOperandFunction), (CodePopLexicalVarFP, DecodeFPOperandFunction),
   (CodePopLexicalVarLP, DecodeLPOperandFunction), (CodePopLexicalVarSP, DecodeSPOperandFunction),
   (CodePopLexicalVarImmediate, Decode8BitSignedOperandFunction), (CodePopLexicalVarFP, DecodeFPOperandFunction),
   (CodePopLexicalVarLP, DecodeLPOperandFunction), (CodePopLexicalVarSP, DecodeSPOperandFunction),
   (CodePopLexicalVarImmediate, Decode8BitSignedOperandFunction), (CodePopLexicalVarFP, DecodeFPOperandFunction),
   (CodePopLexicalVarLP, DecodeLPOperandFunction), (CodePopLexicalVarSP, DecodeSPOperandFunction),
   (CodePopLexicalVarImmediate, Decode8BitSignedOperandFunction), (CodeMovemLexicalVarFP, DecodeFPOperandFunction),
   (CodeMovemLexicalVarLP, DecodeLPOperandFunction), (CodeMovemLexicalVarSP, DecodeSPOperandFunction),
   (CodeMovemLexicalVarImmediate, Decode8BitSignedOperandFunction), (CodeMovemLexicalVarFP, DecodeFPOperandFunction),
   (CodeMovemLexicalVarLP, DecodeLPOperandFunction), (CodeMovemLexicalVarSP, DecodeSPOperandFunction),
   (CodeMovemLexicalVarImmediate, Decode8BitSignedOperandFunction), (CodeMovemLexicalVarFP, DecodeFPOperandFunction),
   (CodeMovemLexicalVarLP, DecodeLPOperandFunction), (CodeMovemLexicalVarSP, DecodeSPOperandFunction),
   (CodeMovemLexicalVarImmediate, Decode8BitSignedOperandFunction), (CodeMovemLexicalVarFP, DecodeFPOperandFunction),
   (CodeMovemLexicalVarLP, DecodeLPOperandFunction), (CodeMovemLexicalVarSP, DecodeSPOperandFunction),
   (CodeMovemLexicalVarImmediate, Decode8BitSignedOperandFunction), (CodeMovemLexicalVarFP, DecodeFPOperandFunction),
   (CodeMovemLexicalVarLP, DecodeLPOperandFunction), (CodeMovemLexicalVarSP, DecodeSPOperandFunction),
   (CodeMovemLexicalVarImmediate, Decode8BitSignedOperandFunction), (CodeMovemLexicalVarFP, DecodeFPOperandFunction),
   (CodeMovemLexicalVarLP, DecodeLPOperandFunction), (CodeMovemLexicalVarSP, DecodeSPOperandFunction),
   (CodeMovemLexicalVarImmediate, Decode8BitSignedOperandFunction), (CodeMovemLexicalVarFP, DecodeFPOperandFunction),
   (CodeMovemLexicalVarLP, DecodeLPOperandFunction), (CodeMovemLexicalVarSP, DecodeSPOperandFunction),
   (CodeMovemLexicalVarImmediate, Decode8BitSignedOperandFunction), (CodeMovemLexicalVarFP, DecodeFPOperandFunction),
   (CodeMovemLexicalVarLP, DecodeLPOperandFunction), (CodeMovemLexicalVarSP, DecodeSPOperandFunction),
   (CodeMovemLexicalVarImmediate, Decode8BitSignedOperandFunction), (CodeEqualNumberFP, DecodeFPOperandFunction),
   (CodeEqualNumberLP, DecodeLPOperandFunction), (CodeEqualNumberSP, DecodeSPOperandFunction),
   (CodeEqualNumberImmediate, Decode8BitSignedOperandFunction), (CodeLesspFP, DecodeFPOperandFunction),
   (CodeLesspLP, DecodeLPOperandFunction), (CodeLesspSP, DecodeSPOperandFunction),
   (CodeLesspImmediate, Decode8BitSignedOperandFunction), (CodeGreaterpFP, DecodeFPOperandFunction),
   (CodeGreaterpLP, DecodeLPOperandFunction), (CodeGreaterpSP, DecodeSPOperandFunction),
   (CodeGreaterpImmediate, Decode8BitSignedOperandFunction), (CodeEqlFP, DecodeFPOperandFunction),
   (CodeEqlLP, DecodeLPOperandFunction), (CodeEqlSP, DecodeSPOperandFunction),
   (CodeEqlImmediate, Decode8BitSignedOperandFunction), (CodeEqualNumberNoPopFP, DecodeFPOperandFunction),
   (CodeEqualNumberNoPopLP, DecodeLPOperandFunction), (CodeEqualNumberNoPopSP, DecodeSPOperandFunction),
   (CodeEqualNumberNoPopImmediate, Decode8BitSignedOperandFunction), (CodeLesspNoPopFP, DecodeFPOperandFunction),
   (CodeLesspNoPopLP, DecodeLPOperandFunction), (CodeLesspNoPopSP, DecodeSPOperandFunction),
   (CodeLesspNoPopImmediate, Decode8BitSignedOperandFunction), (CodeGreaterpNoPopFP, DecodeFPOperandFunction),
   (CodeGreaterpNoPopLP, DecodeLPOperandFunction), (CodeGreaterpNoPopSP, DecodeSPOperandFunction),
   (CodeGreaterpNoPopImmediate, Decode8BitSignedOperandFunction), (CodeEqlNoPopFP, DecodeFPOperandFunction),
   (CodeEqlNoPopLP, DecodeLPOperandFunction), (CodeEqlNoPopSP, DecodeSPOperandFunction),
   (CodeEqlNoPopImmediate, Decode8BitSignedOperandFunction), (CodeEqFP, DecodeFPOperandFunction),
   (CodeEqLP, DecodeLPOperandFunction), (CodeEqSP, DecodeSPOperandFunction),
   (CodeEqImmediate, Decode8BitSignedOperandFunction), (CodeIllegalInstruction, DecodeNoneFunction),
   (CodeIllegalInstruction, DecodeNoneFunction), (CodeIllegalInstruction, DecodeNoneFunction),
   (CodeIllegalInstruction, DecodeNoneFunction), (CodeIllegalInstruction, DecodeNoneFunction),
   (CodeIllegalInstruction, DecodeNoneFunction), (CodeIllegalInstruction, DecodeNoneFunction),
   (CodeIllegalInstruction, DecodeNoneFunction), (CodeLogtestFP, DecodeFPOperandFunction),
   (CodeLogtestLP, DecodeLPOperandFunction), (CodeLogtestSP, DecodeSPOperandFunction),
   (CodeLogtestImmediate, Decode8BitSignedOperandFunction), (CodeEqNoPopFP, DecodeFPOperandFunction),
   (CodeEqNoPopLP, DecodeLPOperandFunction), (CodeEqNoPopSP, DecodeSPOperandFunction),
   (CodeEqNoPopImmediate, Decode8BitSignedOperandFunction), (CodeIllegalInstruction, DecodeNoneFunction),
   (CodeIllegalInstruction, DecodeNoneFunction), (CodeIllegalInstruction, DecodeNoneFunction),
   (CodeIllegalInstruction, DecodeNoneFunction), (CodeIllegalInstruction, DecodeNoneFunction),
   (CodeIllegalInstruction, DecodeNoneFunction), (CodeIllegalInstruction, DecodeNoneFunction),
   (CodeIllegalInstruction, DecodeNoneFunction), (CodeLogtestNoPopFP, DecodeFPOperandFunction),
   (CodeLogtestNoPopLP, DecodeLPOperandFunction), (CodeLogtestNoPopSP, DecodeSPOperandFunction),
   (CodeLogtestNoPopImmediate, Decode8BitSignedOperandFunction), (CodeAddFP, DecodeFPOperandFunction),
   (CodeAddLP, DecodeLPOperandFunction), (CodeAddSP, DecodeSPOperandFunction),
   (CodeAddImmediate, Decode8BitUnsignedOperandFunction), (CodeSubFP, DecodeFPOperandFunction),
   (CodeSubLP, DecodeLPOperandFunction), (CodeSubSP, DecodeSPOperandFunction),
   (CodeSubImmediate, Decode8BitUnsignedOperandFunction), (Code32BitPlusFP, DecodeFPOperandFunction),
   (Code32BitPlusLP, DecodeLPOperandFunction), (Code32BitPlusSP, DecodeSPOperandFunction),
   (Code32BitPlusImmediate, Decode8BitUnsignedOperandFunction), (Code32BitDifferenceFP, DecodeFPOperandFunction),
   (Code32BitDifferenceLP, DecodeLPOperandFunction), (Code32BitDifferenceSP, DecodeSPOperandFunction),
   (Code32BitDifferenceImmediate, Decode8BitUnsignedOperandFunction), (CodeAddBignumStepFP, DecodeFPOperandFunction),
   (CodeAddBignumStepLP, DecodeLPOperandFunction), (CodeAddBignumStepSP, DecodeSPOperandFunction),
   (CodeAddBignumStepImmediate, Decode8BitUnsignedOperandFunction), (CodeSubBignumStepFP, DecodeFPOperandFunction),
   (CodeSubBignumStepLP, DecodeLPOperandFunction), (CodeSubBignumStepSP, DecodeSPOperandFunction),
   (CodeSubBignumStepImmediate, Decode8BitUnsignedOperandFunction),
   (CodeMultiplyBignumStepFP, DecodeFPOperandFunction), (CodeMultiplyBignumStepLP, DecodeLPOperandFunction),
   (CodeMultiplyBignumStepSP, DecodeSPOperandFunction),
   (CodeMultiplyBignumStepImmediate, Decode8BitUnsignedOperandFunction),
   (CodeDivideBignumStepFP, DecodeFPOperandFunction), (CodeDivideBignumStepLP, DecodeLPOperandFunction),
   (CodeDivideBignumStepSP, DecodeSPOperandFunction),
   (CodeDivideBignumStepImmediate, Decode8BitUnsignedOperandFunction), (CodeAset1FP, DecodeFPOperandFunction),
   (CodeAset1LP, DecodeLPOperandFunction), (CodeAset1SP, DecodeSPOperandFunction),
   (CodeAset1Immediate, Decode8BitUnsignedOperandFunction), (CodeAllocateListBlockFP, DecodeFPOperandFunction),
   (CodeAllocateListBlockLP, DecodeLPOperandFunction), (CodeAllocateListBlockSP, DecodeSPOperandFunction),
   (CodeAllocateListBlockImmediate, Decode8BitUnsignedOperandFunction), (CodeAref1FP, DecodeFPOperandFunction),
   (CodeAref1LP, DecodeLPOperandFunction), (CodeAref1SP, DecodeSPOperandFunction),
   (CodeAref1Immediate, Decode8BitUnsignedOperandFunction), (CodeAloc1FP, DecodeFPOperandFunction),
   (CodeAloc1LP, DecodeLPOperandFunction), (CodeAloc1SP, DecodeSPOperandFunction),
   (CodeAloc1Immediate, Decode8BitUnsignedOperandFunction), (CodeStoreArrayLeaderFP, DecodeFPOperandFunction),
   (CodeStoreArrayLeaderLP, DecodeLPOperandFunction), (CodeStoreArrayLeaderSP, DecodeSPOperandFunction),
   (CodeStoreArrayLeaderImmediate, Decode8BitUnsignedOperandFunction),
   (CodeAllocateStructureBlockFP, DecodeFPOperandFunction), (CodeAllocateStructureBlockLP, DecodeLPOperandFunction),
   (CodeAllocateStructureBlockSP, DecodeSPOperandFunction),
   (CodeAllocateStructureBlockImmediate, Decode8BitUnsignedOperandFunction),
   (CodeArrayLeaderFP, DecodeFPOperandFunction), (CodeArrayLeaderLP, DecodeLPOperandFunction),
   (CodeArrayLeaderSP, DecodeSPOperandFunction), (CodeArrayLeaderImmediate, Decode8BitUnsignedOperandFunction),
   (CodeAlocLeaderFP, DecodeFPOperandFunction), (CodeAlocLeaderLP, DecodeLPOperandFunction),
   (CodeAlocLeaderSP, DecodeSPOperandFunction), (CodeAlocLeaderImmediate, Decode8BitUnsignedOperandFunction),
   (CodePopInstanceVariable, Decode8BitUnsignedOperandFunction),
   (CodePopInstanceVariable, Decode8BitUnsignedOperandFunction),
   (CodePopInstanceVariable, Decode8BitUnsignedOperandFunction),
   (CodePopInstanceVariable, Decode8BitUnsignedOperandFunction),
   (CodeMovemInstanceVariable, Decode8BitUnsignedOperandFunction),
   (CodeMovemInstanceVariable, Decode8BitUnsignedOperandFunction),
   (CodeMovemInstanceVariable, Decode8BitUnsignedOperandFunction),
   (CodeMovemInstanceVariable, Decode8BitUnsignedOperandFunction),
   (CodePopInstanceVariableOrdered, Decode8BitUnsignedOperandFunction),
   (CodePopInstanceVariableOrdered, Decode8BitUnsignedOperandFunction),
   (CodePopInstanceVariableOrdered, Decode8BitUnsignedOperandFunction),
   (CodePopInstanceVariableOrdered, Decode8BitUnsignedOperandFunction),
   (CodeMovemInstanceVariableOrdered, Decode8BitUnsignedOperandFunction),
   (CodeMovemInstanceVariableOrdered, Decode8BitUnsignedOperandFunction),
   (CodeMovemInstanceVariableOrdered, Decode8BitUnsignedOperandFunction),
   (CodeMovemInstanceVariableOrdered, Decode8BitUnsignedOperandFunction),
   (CodeInstanceRefFP, DecodeFPOperandFunction), (CodeInstanceRefLP, DecodeLPOperandFunction),
   (CodeInstanceRefSP, DecodeSPOperandFunction), (CodeInstanceRefImmediate, Decode8BitUnsignedOperandFunction),
   (CodeInstanceSetFP, DecodeFPOperandFunction), (CodeInstanceSetLP, DecodeLPOperandFunction),
   (CodeInstanceSetSP, DecodeSPOperandFunction), (CodeInstanceSetImmediate, Decode8BitUnsignedOperandFunction),
   (CodeInstanceLocFP, DecodeFPOperandFunction), (CodeInstanceLocLP, DecodeLPOperandFunction),
   (CodeInstanceLocSP, DecodeSPOperandFunction), (CodeInstanceLocImmediate, Decode8BitUnsignedOperandFunction),
   (CodeSetTagFP, DecodeFPOperandFunction), (CodeSetTagLP, DecodeLPOperandFunction),
   (CodeSetTagSP, DecodeSPOperandFunction), (CodeSetTagImmediate, Decode8BitUnsignedOperandFunction),
   (CodeIllegalInstruction, DecodeNoneFunction), (CodeIllegalInstruction, DecodeNoneFunction),
   (CodeIllegalInstruction, DecodeNoneFunction), (CodeIllegalInstruction, DecodeNoneFunction),
   (CodeUnsignedLesspFP, DecodeFPOperandFunction), (CodeUnsignedLesspLP, DecodeLPOperandFunction),
   (CodeUnsignedLesspSP, DecodeSPOperandFunction), (CodeUnsignedLesspImmediate, Decode8BitUnsignedOperandFunction),
   (CodeIllegalInstruction, DecodeNoneFunction), (CodeIllegalInstruction, DecodeNoneFunction),
   (CodeIllegalInstruction, DecodeNoneFunction), (CodeIllegalInstruction, DecodeNoneFunction),
   (CodeIllegalInstruction, DecodeNoneFunction), (CodeIllegalInstruction, DecodeNoneFunction),
   (CodeIllegalInstruction, DecodeNoneFunction), (CodeIllegalInstruction, DecodeNoneFunction),
   (CodeIllegalInstruction, DecodeNoneFunction), (CodeIllegalInstruction, DecodeNoneFunction),
   (CodeIllegalInstruction, DecodeNoneFunction), (CodeIllegalInstruction, DecodeNoneFunction),
   (CodeUnsignedLesspNoPopFP, DecodeFPOperandFunction), (CodeUnsignedLesspNoPopLP, DecodeLPOperandFunction),
   (CodeUnsignedLesspNoPopSP, DecodeSPOperandFunction),
   (CodeUnsignedLesspNoPopImmediate, Decode8BitUnsignedOperandFunction),
   (CodeIllegalInstruction, DecodeNoneFunction), (CodeIllegalInstruction, DecodeNoneFunction),
   (CodeIllegalInstruction, DecodeNoneFunction), (CodeIllegalInstruction, DecodeNoneFunction),
   (CodeIllegalInstruction, DecodeNoneFunction), (CodeIllegalInstruction, DecodeNoneFunction),
   (CodeIllegalInstruction, DecodeNoneFunction), (CodeIllegalInstruction, DecodeNoneFunction),
   (CodePopFP, DecodeFPOperandFunction), (CodePopLP, DecodeLPOperandFunction), (CodePopSP, DecodeSPOperandFunction),
   (CodePopImmediate, Decode8BitUnsignedOperandFunction), (CodeMovemFP, DecodeFPOperandFunction),
   (CodeMovemLP, DecodeLPOperandFunction), (CodeMovemSP, DecodeSPOperandFunction),
   (CodeMovemImmediate, Decode8BitUnsignedOperandFunction), (CodeMergeCdrNoPopFP, DecodeFPOperandFunction),
   (CodeMergeCdrNoPopLP, DecodeLPOperandFunction), (CodeMergeCdrNoPopSP, DecodeSPOperandFunction),
   (CodeMergeCdrNoPopImmediate, Decode8BitUnsignedOperandFunction), (CodeIllegalInstruction, DecodeNoneFunction),
   (CodeIllegalInstruction, DecodeNoneFunction), (CodeIllegalInstruction, DecodeNoneFunction),
   (CodeIllegalInstruction, DecodeNoneFunction), (CodeIllegalInstruction, DecodeNoneFunction),
   (CodeIllegalInstruction, DecodeNoneFunction), (CodeIllegalInstruction, DecodeNoneFunction),
   (CodeIllegalInstruction, DecodeNoneFunction), (CodeIllegalInstruction, DecodeNoneFunction),
   (CodeIllegalInstruction, DecodeNoneFunction), (CodeIllegalInstruction, DecodeNoneFunction),
   (CodeIllegalInstruction, DecodeNoneFunction), (CodeIllegalInstruction, DecodeNoneFunction),
   (CodeIllegalInstruction, DecodeNoneFunction), (CodeIllegalInstruction, DecodeNoneFunction),
   (CodeIllegalInstruction, DecodeNoneFunction), (CodeIllegalInstruction, DecodeNoneFunction),
   (CodeIllegalInstruction, DecodeNoneFunction), (CodeIllegalInstruction, DecodeNoneFunction),
   (CodeIllegalInstruction, DecodeNoneFunction), (CodeFastAref1FP, DecodeFPOperandFunction),
   (CodeFastAref1LP, DecodeLPOperandFunction), (CodeFastAref1SP, DecodeSPOperandFunction),
   (CodeFastAref1Immediate, Decode8BitUnsignedOperandFunction), (CodeFastAset1FP, DecodeFPOperandFunction),
   (CodeFastAset1LP, DecodeLPOperandFunction), (CodeFastAset1SP, DecodeSPOperandFunction),
   (CodeFastAset1Immediate, Decode8BitUnsignedOperandFunction), (CodeStackBltAddressFP, DecodeFPOperandFunction),
   (CodeStackBltAddressLP, DecodeLPOperandFunction), (CodeStackBltAddressSP, DecodeSPOperandFunction),
   (CodeStackBltAddressImmediate, Decode8BitUnsignedOperandFunction), (CodeIllegalInstruction, DecodeNoneFunction),
   (CodeIllegalInstruction, DecodeNoneFunction), (CodeIllegalInstruction, DecodeNoneFunction),
   (CodeIllegalInstruction, DecodeNoneFunction), (CodeIllegalInstruction, DecodeNoneFunction),
   (CodeIllegalInstruction, DecodeNoneFunction), (CodeIllegalInstruction, DecodeNoneFunction),
   (CodeIllegalInstruction, DecodeNoneFunction), (CodeIllegalInstruction, DecodeNoneFunction),
   (CodeIllegalInstruction, DecodeNoneFunction), (CodeIllegalInstruction, DecodeNoneFunction),
   (CodeIllegalInstruction, DecodeNoneFunction), (CodeIllegalInstruction, DecodeNoneFunction),
   (CodeIllegalInstruction, DecodeNoneFunction), (CodeIllegalInstruction, DecodeNoneFunction),
   (CodeIllegalInstruction, DecodeNoneFunction), (CodeIllegalInstruction, DecodeNoneFunction),
   (CodeIllegalInstruction, DecodeNoneFunction), (CodeIllegalInstruction, DecodeNoneFunction),
   (CodeIllegalInstruction, DecodeNoneFunction), (CodeIllegalInstruction, DecodeNoneFunction),
   (CodeIllegalInstruction, DecodeNoneFunction), (CodeIllegalInstruction, DecodeNoneFunction),
   (CodeIllegalInstruction, DecodeNoneFunction), (CodeIllegalInstruction, DecodeNoneFunction),
   (CodeIllegalInstruction, DecodeNoneFunction), (CodeIllegalInstruction, DecodeNoneFunction),
   (CodeIllegalInstruction, DecodeNoneFunction), (CodeIllegalInstruction, DecodeNoneFunction),
   (CodeIllegalInstruction, DecodeNoneFunction), (CodeIllegalInstruction, DecodeNoneFunction),
   (CodeIllegalInstruction, DecodeNoneFunction), (CodeIllegalInstruction, DecodeNoneFunction),
   (CodeIllegalInstruction, DecodeNoneFunction), (CodeIllegalInstruction, DecodeNoneFunction),
   (CodeIllegalInstruction, DecodeNoneFunction), (CodeIllegalInstruction, DecodeNoneFunction),
   (CodeIllegalInstruction, DecodeNoneFunction), (CodeIllegalInstruction, DecodeNoneFunction),
   (CodeIllegalInstruction, DecodeNoneFunction), (CodeIllegalInstruction, DecodeNoneFunction),
   (CodeIllegalInstruction, DecodeNoneFunction), (CodeIllegalInstruction, DecodeNoneFunction),
   (CodeIllegalInstruction, DecodeNoneFunction), (CodeIllegalInstruction, DecodeNoneFunction),
   (CodeIllegalInstruction, DecodeNoneFunction), (CodeIllegalInstruction, DecodeNoneFunction),
   (CodeIllegalInstruction, DecodeNoneFunction), (CodeIllegalInstruction, DecodeNoneFunction),
   (CodeIllegalInstruction, DecodeNoneFunction), (CodeIllegalInstruction, DecodeNoneFunction),
   (CodeIllegalInstruction, DecodeNoneFunction), (CodeDpb, Decode10BitUnsignedOperandFunction),
   (CodeDpb, Decode10BitUnsignedOperandFunction), (CodeDpb, Decode10BitUnsignedOperandFunction),
   (CodeDpb, Decode10BitUnsignedOperandFunction), (CodeCharDpb, Decode10BitUnsignedOperandFunction),
   (CodeCharDpb, Decode10BitUnsignedOperandFunction), (CodeCharDpb, Decode10BitUnsignedOperandFunction),
   (CodeCharDpb, Decode10BitUnsignedOperandFunction), (CodePDpb, Decode10BitUnsignedOperandFunction),
   (CodePDpb, Decode10BitUnsignedOperandFunction), (CodePDpb, Decode10BitUnsignedOperandFunction),
   (CodePDpb, Decode10BitUnsignedOperandFunction), (CodePTagDpb, Decode10BitUnsignedOperandFunction),
   (CodePTagDpb, Decode10BitUnsignedOperandFunction), (CodePTagDpb, Decode10BitUnsignedOperandFunction),
   (CodePTagDpb, Decode10BitUnsignedOperandFunction), (CodeIllegalInstruction, DecodeNoneFunction),
   (CodeIllegalInstruction, DecodeNoneFunction), (CodeIllegalInstruction, DecodeNoneFunction),
   (CodeIllegalInstruction, DecodeNoneFunction), (CodeLoopIncrementTosLessThan, DecodeBranchOperandFunction),
   (CodeLoopIncrementTosLessThan, DecodeBranchOperandFunction),
   (CodeLoopIncrementTosLessThan, DecodeBranchOperandFunction),
   (CodeLoopIncrementTosLessThan, DecodeBranchOperandFunction), (CodeCatchOpen, Decode8BitUnsignedOperandFunction),
   (CodeCatchOpen, Decode8BitUnsignedOperandFunction), (CodeCatchOpen, Decode8BitUnsignedOperandFunction),
   (CodeCatchOpen, Decode8BitUnsignedOperandFunction), (CodeHack, Decode10BitUnsignedOperandFunction),
   (CodeHack, Decode10BitUnsignedOperandFunction), (CodeHack, Decode10BitUnsignedOperandFunction),
   (CodeHack, Decode10BitUnsignedOperandFunction)]"

section \<open>Words\<close>

definition PackedInstructionP :: "Tag \<Rightarrow> bool" where
  "PackedInstructionP tag \<longleftrightarrow> tag AND 48 = 48"

text \<open>A packed instruction; the decoder of the even one sees the whole word.\<close>

definition decode_packed :: "Integer \<Rightarrow> Integer \<Rightarrow> InstructionCacheLine \<Rightarrow> InstructionCacheLine" where
  "decode_packed i instr cp = (case PackedInstructionDecoder ! unat (drop_bit 8 instr) of
     (dispatch, decode) \<Rightarrow> decode i (cp\<lparr>instruction := instr, code := dispatch\<rparr>))"

definition even_instruction :: "LispObj \<Rightarrow> Integer" where
  "even_instruction w = DATA w AND 0x3ffff"

definition odd_instruction :: "LispObj \<Rightarrow> Integer" where
  "odd_instruction w = push_bit 14 (ucast (TAG w AND 15)) OR ldb 14 18 (DATA w)"

definition decode_packed_word :: "LispObj \<Rightarrow> InstructionCacheLine \<times> InstructionCacheLine \<Rightarrow> InstructionCacheLine \<times> InstructionCacheLine" where
  "decode_packed_word w = (\<lambda>(even_cp, odd_cp).
     (decode_packed (DATA w) (even_instruction w) even_cp, decode_packed (odd_instruction w) (odd_instruction w) odd_cp))"

definition illegal_line :: "InstructionCacheLine \<Rightarrow> InstructionCacheLine" where
  "illegal_line cp = cp\<lparr>code := CodeIllegalInstruction, line_operand := 0, instruction := 0\<rparr>"

definition decode_full_word :: "LispObj \<Rightarrow> InstructionCacheLine \<times> InstructionCacheLine \<Rightarrow> InstructionCacheLine \<times> InstructionCacheLine" where
  "decode_full_word w = (\<lambda>(even_cp, odd_cp).
     (even_cp\<lparr>code := WordInstructionDecoder ! unat (TagType (TAG w)), line_operand := sint (DATA w), instruction := 0\<rparr>,
      illegal_line odd_cp))"

definition set_next :: "LispObj \<Rightarrow> int option \<Rightarrow> InstructionCacheLine \<Rightarrow> InstructionCacheLine" where
  "set_next p n cp = cp\<lparr>next_pc := p, next_cp := n\<rparr>"

text \<open>The successors of the two lines of a word; \<open>i\<close> is the index of the even one.\<close>

definition link_word :: "Tag \<Rightarrow> Integer \<Rightarrow> int \<Rightarrow> InstructionCacheLine \<times> InstructionCacheLine \<Rightarrow> InstructionCacheLine \<times> InstructionCacheLine" where
  "link_word cdr vma i = (\<lambda>(even_cp, odd_cp).
     if cdr = 0 then (set_next (obj TypeOddPC vma) (Some (i + 1)) even_cp,
       set_next (obj TypeEvenPC (vma + 1)) (Some (i + 2)) odd_cp)
     else if cdr = 3 then (set_next (obj TypeEvenPC (vma + 1)) (Some (i + 2)) even_cp,
       set_next (obj TypeEvenPC (vma + 2)) (Some (i + 4)) odd_cp)
     else if cdr = 2 then (set_next (obj TypeOddPC (vma - 1)) (Some (i - 1)) even_cp,
       set_next (obj TypeEvenPC vma) None odd_cp)
     else (even_cp, odd_cp))"

definition decode_word :: "LispObj \<Rightarrow> Integer \<Rightarrow> int \<Rightarrow> InstructionCacheLine \<times> InstructionCacheLine \<Rightarrow> InstructionCacheLine \<times> InstructionCacheLine" where
  "decode_word w vma i = (\<lambda>(even_cp, odd_cp).
     let cdr = TagCdr (TAG w);
         lines = link_word cdr vma i (even_cp\<lparr>line_pc := (line_pc even_cp)\<lparr>DATA := vma\<rparr>\<rparr>, odd_cp\<lparr>line_pc := (line_pc odd_cp)\<lparr>DATA := vma\<rparr>\<rparr>)
     in if cdr = 0 then decode_packed_word w lines
        else if cdr = 1 then (illegal_line (fst lines), illegal_line (snd lines))
        else if PackedInstructionP (TAG w) then decode_packed_word w lines
        else decode_full_word w lines)"

section \<open>The instruction cache\<close>

type_synonym icache = "int \<Rightarrow> InstructionCacheLine"

abbreviation (input) "InstructionCacheSize \<equiv> 2048 :: int"
abbreviation (input) "InstructionCacheLineSize \<equiv> 64 :: int"

definition block_start :: "Integer \<Rightarrow> Integer" where
  "block_start vma = vma AND NOT 31"

definition cache_index :: "Integer \<Rightarrow> int" where
  "cache_index vma = uint (push_bit 1 vma AND 2047)"

text \<open>The loop over the words of a block: \<open>n\<close> words from address \<open>vma\<close>, whose even line is \<open>i\<close>.\<close>

primrec decode_block :: "nat \<Rightarrow> (Integer \<Rightarrow> LispObj) \<Rightarrow> Integer \<Rightarrow> int \<Rightarrow> icache \<Rightarrow> icache" where
  "decode_block 0 words vma i c = c"
| "decode_block (Suc n) words vma i c = (case decode_word (words vma) vma i (c i, c (i + 1)) of
     (even_cp, odd_cp) \<Rightarrow> decode_block n words (vma + 1) (i + 2) (c(i := even_cp, i + 1 := odd_cp)))"

definition force_lookup :: "bool \<Rightarrow> InstructionCacheLine \<Rightarrow> InstructionCacheLine" where
  "force_lookup b cp = (if b then cp\<lparr>next_cp := None\<rparr> else cp)"

text \<open>The successors that may be out of the block: that of the first line, and of the last four.\<close>

definition close_block :: "Integer \<Rightarrow> Integer \<Rightarrow> int \<Rightarrow> icache \<Rightarrow> icache" where
  "close_block block_vma bound_vma i c =
     (let c1 = c(i := force_lookup (DATA (next_pc (c i)) < block_vma) (c i)) in
      fold (\<lambda>j c. c(j := force_lookup (DATA (next_pc (c j)) \<ge> bound_vma) (c j))) [i + 60, i + 61, i + 62, i + 63] c1)"

text \<open>
  The words of the block are read from memory behind the stack cache. The loop ends at
  \<open>bound_vma\<close>, which for the last block of the address space is 0.
\<close>

definition memory_word :: "Machine \<Rightarrow> Integer \<Rightarrow> LispObj" where
  "memory_word m vma = obj (TagSpace m vma) (DataSpace m vma)"

definition InstructionCacheMiss :: "icache \<Rightarrow> icache em" where
  "InstructionCacheMiss c = (\<lambda>m.
     let block_vma = block_start (DATA (PC m)); i = cache_index block_vma; bound_vma = block_vma + 32 in
     bind_em (VirtualMemoryReadBlock block_vma (\<lambda>k x m. m) 32) (\<lambda>_ m.
       Some (Ok (close_block block_vma bound_vma i
         (decode_block (block_words block_vma 32) (memory_word m) block_vma i c)), m)) m)"

definition line_index :: "LispObj \<Rightarrow> int" where
  "line_index p = cache_index (DATA p) + uint (TAG p AND 1)"

text \<open>
  The lookup: the result is the line to execute, or the label that the lookup leaves to.
\<close>

definition InstructionCacheLookup :: "icache \<Rightarrow> (label + int \<times> icache) em" where
  "InstructionCacheLookup c = (\<lambda>m.
     if TypeEqualP (TAG (PC m)) TypeNIL then Some (Ok (Inl Halt), m)
     else if \<not> (TypeEqualP (TAG (PC m)) TypeEvenPC \<or> TypeEqualP (TAG (PC m)) TypeOddPC)
       then Some (Ok (Inl InstructionException), m)
     else let i = line_index (PC m) in
       if DATA (line_pc (c i)) \<noteq> DATA (PC m)
       then bind_em (InstructionCacheMiss c) (\<lambda>c'. ret (Inr (i, c'))) m
       else Some (Ok (Inr (i, c)), m))"

end
