(* ===== verification/Ivory_Bind.thy ===== *)
theory Ivory_Bind
  imports Ivory_Traps
begin

text \<open>
  Special variable bindings and catch blocks of the portable emulator
  (\<^verbatim>\<open>src/c-emulator/emulator.c\<close>). A binding saves the bound location and its old contents in two words
  of the binding stack; bit 6 of the tag of the first says whether the frame had bindings before
  it. A catch block is three or four words of the stack, linked through \<^verbatim>\<open>CatchBlockPointer\<close>.
\<close>

section \<open>Bindings\<close>

text \<open>The locative as it is saved, with the frame's binding bit.\<close>

definition saved_locative :: "Machine \<Rightarrow> LispObj \<Rightarrow> LispObj" where
  "saved_locative m loc = loc\<lparr>TAG := TAG loc OR push_bit 6 (ucast (ReadControlCleanupBindings (control m)))\<rparr>"

text \<open>The part of both instructions that saves the old contents: the result is the locative.\<close>

definition save_binding :: "LispObj \<Rightarrow> unit em" where
  "save_binding loc = bind_em (MemoryReadInternal CycleBindRead None (DATA loc)) (\<lambda>(_, old) m.
     bind_em (WriteVirtualMemory (BindingStackPointer m + 1) (saved_locative m loc)) (\<lambda>_.
       WriteVirtualMemory (BindingStackPointer m + 2) old) m)"

definition note_binding :: "Machine \<Rightarrow> Machine" where
  "note_binding m = m\<lparr>control := WriteControlCleanupBindings (control m) 1,
     BindingStackPointer := BindingStackPointer m + 2\<rparr>"

definition bindings_full :: "Machine \<Rightarrow> bool" where
  "bindings_full m \<longleftrightarrow> BindingStackPointer m \<ge> BindingStackLimit m \<or> DeepBoundP m"

definition ExecuteBindLocativeToValue :: "address_mode \<Rightarrow> int \<Rightarrow> label em" where
  "ExecuteBindLocativeToValue mode operand = addressed mode operand (\<lambda>op2 m0.
     if TypeEqualP (TAG (TOS m0)) TypeLocative then
       (let loc = TOS m0; m = m0\<lparr>SP := SP m0 - 1\<rparr> in
        if bindings_full m then stop IllegalOperand m
        else bind_em (save_binding loc) (\<lambda>_ m.
          bind_em (StoreContentsInternal CycleBindWrite (DATA loc) (op_read m op2))
            (\<lambda>_ m. next_with (note_binding m)) m) m)
     else stop (SpareExceptions (TAG (TOS m0))) m0)"

definition ExecuteBindLocative :: "address_mode \<Rightarrow> int \<Rightarrow> label em" where
  "ExecuteBindLocative mode operand = addressed mode operand (\<lambda>op2 m.
     let loc = op_read m op2 in
     if TypeEqualP (TAG loc) TypeLocative then
       (if bindings_full m then stop IllegalOperand m
        else bind_em (save_binding loc) (\<lambda>_ m. next_with (note_binding m)) m)
     else stop (SpareExceptions (TAG loc)) m)"

primrec unbind_n :: "nat \<Rightarrow> label em" where
  "unbind_n 0 = next_with"
| "unbind_n (Suc i) = bind_em Unbind (\<lambda>r. if r \<noteq> 0 then stop IllegalOperand else unbind_n i)"

definition ExecuteUnbindN :: "address_mode \<Rightarrow> int \<Rightarrow> label em" where
  "ExecuteUnbindN mode operand = addressed mode operand (\<lambda>op2 m.
     if \<not> TypeFixnumP (TAG (op_read m op2)) \<or> DeepBoundP m then stop IllegalOperand m
     else unbind_n (unat (DATA (op_read m op2))) m)"

text \<open>
  The loops that undo all bindings above a pointer, which is read again at each turn. The result is
  false when a frame without bindings was asked to undo one.
\<close>

partial_function (option) unbind_above :: "(Machine \<Rightarrow> Integer) \<Rightarrow> Machine \<Rightarrow> (bool outcome \<times> Machine) option" where
  "unbind_above limit m =
     (if BindingStackPointer m > limit m then
        (case Unbind m of
           None \<Rightarrow> None
         | Some (Longjmp v, m1) \<Rightarrow> Some (Longjmp v, m1)
         | Some (Exit, m1) \<Rightarrow> Some (Exit, m1)
         | Some (Ok r, m1) \<Rightarrow> if r \<noteq> 0 then Some (Ok False, m1) else unbind_above limit m1)
      else Some (Ok True, m))"

definition ExecuteRestoreBindingStack :: "address_mode \<Rightarrow> int \<Rightarrow> label em" where
  "ExecuteRestoreBindingStack mode operand = addressed mode operand (\<lambda>op2 m.
     if TypeEqualP (TAG (op_read m op2)) TypeLocative then
       (if DeepBoundP m then stop IllegalOperand m
        else bind_em (unbind_above (\<lambda>m. DATA (op_read m op2)))
          (\<lambda>done. stop (if done then NextInstruction else IllegalOperand)) m)
     else stop (SpareExceptions (TAG (op_read m op2))) m)"

section \<open>Catch blocks\<close>

definition DispatchCatchOpen :: "int \<Rightarrow> label em" where
  "DispatchCatchOpen operand = (\<lambda>m.
     let newpointer = slot_address m (SP m); unwindprotect = ldb 1 0 (of_int operand);
         m1 = push (obj (SetTagCdr TypeLocative (ucast unwindprotect)) (BindingStackPointer m)) m;
         m2 = push (obj (SetTagCdr (TAG (CatchBlockPointer m))
                (ucast (dpb (ReadControlExtraArgument (control m)) 1 1 (ReadControlCleanupCatch (control m)))))
                (DATA (CatchBlockPointer m))) m1;
         m3 = (if unwindprotect = 0
               then push (obj (SetTagCdr (TAG (continuation m)) (ucast (ldb 2 6 (of_int operand)))) (DATA (continuation m))) m2
               else m2)
     in next_with (m3\<lparr>CatchBlockPointer := obj TypeLocative newpointer,
          control := WriteControlCleanupCatch (control m) 1\<rparr>))"

text \<open>The slot of the current catch block; word 0 is its pc, 1 the binding stack, 2 the previous block.\<close>

definition catch_slot :: "Machine \<Rightarrow> int" where
  "catch_slot m = uint (DATA (CatchBlockPointer m) - StackCacheBase m)"

text \<open>The flags that the link of a catch block saves go back to a control register.\<close>

definition restore_catch_flags :: "LispObj \<Rightarrow> Integer \<Rightarrow> Integer" where
  "restore_catch_flags link c = WriteControlCleanupCatch (WriteControlExtraArgument c (ldb 1 7 (ucast (TAG link))))
     (ldb 1 6 (ucast (TAG link)))"

text \<open>Undoing the bindings of a catch block: \<open>None\<close> goes on, \<open>Some\<close> leaves to a label.\<close>

definition unbind_to_catch :: "int \<Rightarrow> label option em" where
  "unbind_to_catch cbp = (\<lambda>m.
     if BindingStackPointer m \<noteq> DATA (StackCache m (cbp + 1)) then
       (if DeepBoundP m then Some (Ok (Some UnimplementedInstruction), m)
        else bind_em (unbind_above (\<lambda>m. DATA (StackCache m (cbp + 1))))
          (\<lambda>done. ret (if done then None else Some IllegalOperand)) m)
     else Some (Ok None, m))"

definition cleanup_pc :: "LispObj \<Rightarrow> Integer \<Rightarrow> LispObj" where
  "cleanup_pc p c = obj (SetTagCdr (TAG p) (ucast (dpb (ReadControlCleanupInProgress c) 1 0 2))) (DATA p)"

text \<open>Both routines save the control register before the bindings are undone, and restore from that copy.\<close>

definition DispatchCatchClose :: "LispObj \<Rightarrow> label em" where
  "DispatchCatchClose next = (\<lambda>m0. let cbp = catch_slot m0; saved = control m0 in
     bind_em (unbind_to_catch cbp) (\<lambda>r m. case r of
         Some l \<Rightarrow> stop l m
       | None \<Rightarrow>
           let link = StackCache m (cbp + 2);
               m1 = m\<lparr>control := restore_catch_flags link saved, CatchBlockPointer := cdr_next link\<rparr>
           in if ldb 1 6 (ucast (TAG (StackCache m1 (cbp + 1)))) \<noteq> 0
              then (let m2 = push (cleanup_pc next (control m1)) m1
                    in stop BranchTaken (m2\<lparr>control := WriteControlCleanupInProgress (control m2) 1,
                         PC := StackCache m2 cbp\<rparr>))
              else next_with m1) m0)"

definition HandleUnwindProtect :: "label em" where
  "HandleUnwindProtect = (\<lambda>m0. let cbp = catch_slot m0; saved = control m0 in
     bind_em (unbind_to_catch cbp) (\<lambda>r m. case r of
         Some l \<Rightarrow> stop l m
       | None \<Rightarrow>
           let m1 = push (cleanup_pc (PC m) saved) m; link = StackCache m1 (cbp + 2)
           in stop BranchTaken (m1\<lparr>control := restore_catch_flags link (WriteControlCleanupInProgress saved 1),
                CatchBlockPointer := cdr_next link, PC := StackCache m1 cbp\<rparr>)) (m0\<lparr>SP := restartSP m0\<rparr>))"

end
