(* ===== verification/Ivory_Calls.thy ===== *)
theory Ivory_Calls
  imports Ivory_Bind
begin

text \<open>
  Function calls of the portable emulator (\<^verbatim>\<open>src/c-emulator/emulator.c\<close>): starting and finishing a
  call, the entry instructions that match the arguments supplied with those accepted, and the
  returns, which undo catch blocks and bindings and give the values the way the caller asked for.
  A frame starts with the caller's continuation and control register.
\<close>

section \<open>Starting a call\<close>

definition begin_call :: "LispObj option \<Rightarrow> LispObj \<Rightarrow> Machine \<Rightarrow> Machine" where
  "begin_call extra target m = (let m1 = push_control (push_continuation m) in
     case extra of
       None \<Rightarrow> m1\<lparr>control := (control m OR ControlCallStarted) AND NOT ControlExtraArgument, continuation := target\<rparr>
     | Some x \<Rightarrow> (push (cdr_next x) m1)\<lparr>control := control m OR ControlCallStarted OR ControlExtraArgument,
         continuation := target\<rparr>)"

definition DispatchCallCompiledEven :: "int \<Rightarrow> label em" where
  "DispatchCallCompiledEven operand = (\<lambda>m. next_with (begin_call None (obj TypeEvenPC (of_int operand)) m))"

definition DispatchCallCompiledOdd :: "int \<Rightarrow> label em" where
  "DispatchCallCompiledOdd operand = (\<lambda>m. next_with (begin_call None (obj TypeOddPC (of_int operand)) m))"

definition call_interpreter :: "LispObj \<Rightarrow> label em" where
  "call_interpreter scratch = bind_em
     (MemoryReadData (TrapVectorBase + of_int InterpreterFunctionVector + ucast (TagType (TAG scratch))) None)
     (\<lambda>(_, f) m. if TagType (TAG f) = TypeEvenPC \<or> TagType (TAG f) = TypeOddPC
        then next_with (begin_call (Some scratch) f m) else stop IllegalOperand m)"

definition StartCallDispatch :: "LispObj \<Rightarrow> label em" where
  "StartCallDispatch scratch =
     (if TagType (TAG scratch) = TypeCompiledFunction
      then (\<lambda>m. next_with (begin_call None (obj TypeEvenPC (DATA scratch)) m))
      else if TagType (TAG scratch) = TypeLexicalClosure then
        bind_em (MemoryReadData (DATA scratch) None) (\<lambda>(_, environment).
        bind_em (MemoryReadData (DATA scratch + 1) None) (\<lambda>(_, function).
          if TypeEqualP (TAG function) TypeCompiledFunction
          then (\<lambda>m. next_with (begin_call (Some environment) (obj TypeEvenPC (DATA function)) m))
          else call_interpreter scratch))
      else call_interpreter scratch)"

definition ExecuteStartCall :: "address_mode \<Rightarrow> int \<Rightarrow> label em" where
  "ExecuteStartCall mode operand = addressed mode operand (\<lambda>op2 m. StartCallDispatch (op_read m op2) m)"

definition DispatchCallGeneric :: "int \<Rightarrow> label em" where
  "DispatchCallGeneric operand = StartCallDispatch (obj TypeGenericFunction (of_int operand))"

definition DispatchCallIndirect :: "int \<Rightarrow> label em" where
  "DispatchCallIndirect operand = bind_em (MemoryReadData (of_int operand) None) (\<lambda>(_, scratch). StartCallDispatch scratch)"

section \<open>Finishing a call\<close>

text \<open>
  The control register of the callee. The fields are set by \<^verbatim>\<open>|\<close>, without a mask: the sizes must fit
  their eight bits.
\<close>

definition call_control :: "bool \<Rightarrow> int \<Rightarrow> int \<Rightarrow> int \<Rightarrow> Integer \<Rightarrow> Integer" where
  "call_control apply operand argument_size frame_size c =
     ((c AND NOT ((if apply then 0 else ControlApply) OR ControlCleanupBits OR ControlExtraArgument OR ControlCallStarted OR
        ControlArgumentSize OR ControlValueDisposition OR ControlCallerFrameSize)) OR (if apply then ControlApply else 0))
     OR of_int argument_size OR push_bit 10 (of_int operand AND 0x300) OR push_bit 9 (of_int frame_size)"

definition FinishCallInternal :: "LispObj \<Rightarrow> int \<Rightarrow> int \<Rightarrow> label em" where
  "FinishCallInternal next op1 op2 = (\<lambda>m0.
     let m = m0\<lparr>FP := op1, LP := op2, PC := continuation m0, continuation := next\<rparr> in
     if FP m > StackCacheLimit m then bind_em StackCacheScrollUp (\<lambda>_. stop BranchTaken) m
     else stop BranchTaken m)"

definition finish_call :: "bool \<Rightarrow> InstructionCacheLine \<Rightarrow> int \<Rightarrow> label em" where
  "finish_call apply cp arguments = (\<lambda>m.
     let op1 = SP m - arguments - uint (ReadControlExtraArgument (control m));
         op2 = (if apply then SP m else SP m + 1)
     in FinishCallInternal (next_pc cp) op1 op2
          (m\<lparr>control := call_control apply (line_operand cp) (op2 - op1) (op1 - FP m) (control m)\<rparr>))"

definition DispatchFinishCallN :: "InstructionCacheLine \<Rightarrow> label em" where
  "DispatchFinishCallN cp = finish_call False cp (uint (ldb 8 0 (of_int (line_operand cp))))"

definition DispatchFinishCallNApply :: "InstructionCacheLine \<Rightarrow> label em" where
  "DispatchFinishCallNApply cp = finish_call True cp (uint (ldb 8 0 (of_int (line_operand cp))))"

text \<open>The count on the stack is signed in the first and unsigned in the second.\<close>

definition DispatchFinishCallTos :: "InstructionCacheLine \<Rightarrow> label em" where
  "DispatchFinishCallTos cp = (\<lambda>m. finish_call False cp (sint (DATA (TOS m)) + 1) (m\<lparr>SP := SP m - 1\<rparr>))"

definition DispatchFinishCallTosApply :: "InstructionCacheLine \<Rightarrow> label em" where
  "DispatchFinishCallTosApply cp = (\<lambda>m. finish_call True cp (uint (DATA (TOS m) + 1)) (m\<lparr>SP := SP m - 1\<rparr>))"

section \<open>Entry\<close>

definition advance_pc :: "int \<Rightarrow> label em" where
  "advance_pc n = (\<lambda>m. stop BranchTaken (m\<lparr>PC := (PC m)\<lparr>DATA := DATA (PC m) + of_int n\<rparr>\<rparr>))"

definition mark_cdr :: "int \<Rightarrow> Tag \<Rightarrow> Machine \<Rightarrow> Machine" where
  "mark_cdr i cdr m = set_slot i ((StackCache m i)\<lparr>TAG := SetTagCdr (TAG (StackCache m i)) cdr\<rparr>) m"

text \<open>The list of the arguments beyond \<open>maximum\<close>, which are on the stack.\<close>

definition push_rest :: "int \<Rightarrow> Machine \<Rightarrow> Machine" where
  "push_rest maximum m = push (obj TypeList (slot_address m (FP m) + of_int maximum)) m"

definition end_apply :: "Machine \<Rightarrow> Machine" where
  "end_apply m = m\<lparr>SP := SP m - 1, control := WriteControlApply (control m) 0\<rparr>"

definition PullApplyArgsTrap :: "int \<Rightarrow> label em" where
  "PullApplyArgsTrap i = (\<lambda>m. let sp = SP m - 1 in
     bind_em (TakePreTrap (of_int PullApplyArgsTrapVector) (Some (obj TypeFixnum (of_int i))) (Some (TOS m))) trap_done
       (m\<lparr>SP := sp, restartSP := sp\<rparr>))"

text \<open>Arguments from the list of an apply: the result is the number of those still missing.\<close>

definition pull_missing :: "int \<Rightarrow> int em" where
  "pull_missing missing = (\<lambda>m. if in_stack_cache m (DATA (TOS m)) then PullApplyArgsQuickly (nat missing) m
     else Some (Ok missing, m))"

definition entry_rest :: "int \<Rightarrow> int \<Rightarrow> int \<Rightarrow> label em" where
  "entry_rest minimum maximum supplied = (\<lambda>m.
     if supplied > maximum then advance_pc (maximum - minimum + 2) (push_rest maximum (mark_cdr (SP m) CdrNil m))
     else if supplied < minimum then stop IllegalOperand m
     else advance_pc (supplied - minimum + 1) m)"

definition entry_minimum :: "int \<Rightarrow> int" where
  "entry_minimum operand = uint (ldb 8 0 (of_int operand))"

definition entry_maximum :: "int \<Rightarrow> int" where
  "entry_maximum operand = uint (ldb 8 8 (of_int operand))"

partial_function (option) DispatchEntryRestAccepted :: "int \<Rightarrow> Machine \<Rightarrow> (label outcome \<times> Machine) option" where
  "DispatchEntryRestAccepted operand m =
     (let minimum = entry_minimum operand; maximum = entry_maximum operand;
          supplied = uint (ReadControlArgumentSize (control m)) in
      if ReadControlApply (control m) = 0 then entry_rest minimum maximum supplied m
      else if TypeEqualP (TAG (TOS m)) TypeNIL then entry_rest minimum maximum supplied (end_apply m)
      else if supplied > maximum then
        (let m1 = push_rest maximum (mark_cdr (SP m - 1) CdrNormal (mark_cdr (SP m) CdrNil m))
         in advance_pc (maximum - minimum + 2)
              (m1\<lparr>LP := LP m1 + 1, control := WriteControlArgumentSize (control m1) (of_int (1 + supplied))\<rparr>))
      else if supplied < maximum then
        (if TagType (TAG (TOS m)) = TypeList then
           (case pull_missing (maximum - supplied) m of
              None \<Rightarrow> None
            | Some (Longjmp v, m1) \<Rightarrow> Some (Longjmp v, m1)
            | Some (Exit, m1) \<Rightarrow> Some (Exit, m1)
            | Some (Ok i, m1) \<Rightarrow>
                if i \<noteq> 0 then PullApplyArgsTrap i m1 else DispatchEntryRestAccepted operand m1)
         else PullApplyArgsTrap (maximum - supplied) m)
      else advance_pc (supplied - minimum + 2) m)"

definition entry_exact :: "int \<Rightarrow> int \<Rightarrow> int \<Rightarrow> label em" where
  "entry_exact minimum maximum supplied = (\<lambda>m.
     if minimum \<le> supplied \<and> supplied \<le> maximum then advance_pc (supplied - minimum + 1) m
     else stop IllegalOperand m)"

partial_function (option) DispatchEntryRestNotAccepted :: "int \<Rightarrow> Machine \<Rightarrow> (label outcome \<times> Machine) option" where
  "DispatchEntryRestNotAccepted operand m =
     (let minimum = entry_minimum operand; maximum = entry_maximum operand;
          supplied = uint (ReadControlArgumentSize (control m)) in
      if ReadControlApply (control m) = 0 then entry_exact minimum maximum supplied m
      else if TypeEqualP (TAG (TOS m)) TypeNIL then entry_exact minimum maximum supplied (end_apply m)
      else if supplied \<ge> maximum then stop IllegalOperand m
      else if TypeEqualP (TAG (TOS m)) TypeList then
        (case pull_missing (maximum - supplied) m of
           None \<Rightarrow> None
         | Some (Longjmp v, m1) \<Rightarrow> Some (Longjmp v, m1)
         | Some (Exit, m1) \<Rightarrow> Some (Exit, m1)
         | Some (Ok i, m1) \<Rightarrow>
             if i \<noteq> 0 then PullApplyArgsTrap i m1 else DispatchEntryRestNotAccepted operand m1)
      else PullApplyArgsTrap (maximum - supplied) m)"

definition DispatchLocateLocals :: "label em" where
  "DispatchLocateLocals = (\<lambda>m. let lp = SP m in
     next_with ((push_fixnum (ReadControlArgumentSize (control m) - 2) m)\<lparr>LP := lp,
       control := WriteControlArgumentSize (control m) (of_int (lp - FP m))\<rparr>))"

section \<open>Cleaning up a frame\<close>

text \<open>What a return does after the cleanup: go on, run an unwind-protect handler, or leave.\<close>

datatype cleanup = CleanupDone | CleanupUnwind | CleanupLeave label

partial_function (option) cleanup_catches :: "Machine \<Rightarrow> (cleanup outcome \<times> Machine) option" where
  "cleanup_catches m =
     (if ReadControlCleanupCatch (control m) = 0 then Some (Ok CleanupDone, m)
      else let cbp = catch_slot m in
        if ldb 1 6 (ucast (TAG (StackCache m (cbp + 1)))) \<noteq> 0 then Some (Ok CleanupUnwind, m)
        else let link = StackCache m (cbp + 2)
             in cleanup_catches (m\<lparr>control := restore_catch_flags link (control m), CatchBlockPointer := cdr_next link\<rparr>))"

partial_function (option) cleanup_bindings :: "Machine \<Rightarrow> (unit outcome \<times> Machine) option" where
  "cleanup_bindings m =
     (if ReadControlCleanupBindings (control m) = 0 then Some (Ok (), m)
      else case Unbind m of
          None \<Rightarrow> None
        | Some (Longjmp v, m1) \<Rightarrow> Some (Longjmp v, m1)
        | Some (Exit, m1) \<Rightarrow> Some (Exit, m1)
        | Some (Ok _, m1) \<Rightarrow> cleanup_bindings m1)"

definition cleanup_frame :: "cleanup em" where
  "cleanup_frame = (\<lambda>m.
     if ReadControlCleanupBits (control m) = 0 then Some (Ok CleanupDone, m)
     else bind_em cleanup_catches (\<lambda>r m.
       if r \<noteq> CleanupDone then Some (Ok r, m)
       else if ReadControlCleanupBindings (control m) \<noteq> 0 \<and> DeepBoundP m
         then Some (Ok (CleanupLeave UnimplementedInstruction), m)
       else bind_em cleanup_bindings (\<lambda>_ m. Some (Ok
         (if ReadControlTrapOnExit (control m) \<noteq> 0 then CleanupLeave IllegalOperand else CleanupDone), m)) m) m)"

definition leave_cleanup :: "cleanup \<Rightarrow> label em" where
  "leave_cleanup c = (case c of CleanupLeave l \<Rightarrow> stop l | _ \<Rightarrow> HandleUnwindProtect)"

section \<open>Returning\<close>

abbreviation (input) "ValueDispositionEffect \<equiv> 0 :: Integer"
abbreviation (input) "ValueDispositionValue \<equiv> 1 :: Integer"
abbreviation (input) "ValueDispositionReturn \<equiv> 2 :: Integer"
abbreviation (input) "ValueDispositionMultiple \<equiv> 3 :: Integer"

text \<open>Back to the caller's frame; the control register \<open>saved\<close> was read before the cleanup.\<close>

definition pop_frame :: "bool \<Rightarrow> int \<Rightarrow> Integer \<Rightarrow> Machine \<Rightarrow> Machine" where
  "pop_frame jump frame_size saved m = (let fp = FP m - frame_size in
     m\<lparr>PC := (if jump then continuation m else PC m), continuation := StackCache m (FP m), SP := FP m - 1, FP := fp,
       LP := fp + uint (ReadControlArgumentSize saved), control := saved\<rparr>)"

definition scroll_if_below :: "unit em" where
  "scroll_if_below = (\<lambda>m. if FP m < 0 then StackCacheScrollDown m else Some (Ok (), m))"

definition give_single :: "Integer \<Rightarrow> LispObj \<Rightarrow> Machine \<Rightarrow> Machine" where
  "give_single disp x m =
     (if disp = ValueDispositionValue then push (cdr_next x) m
      else if disp = ValueDispositionMultiple then push_fixnum 1 (push (cdr_next x) m)
      else m)"

text \<open>
  A frame whose caller returns what it returns is left like that caller's own. An interrupt that is
  pending between the two frames is not part of the model.
\<close>

partial_function (option) ReturnSingleInternal :: "LispObj \<Rightarrow> Machine \<Rightarrow> (label outcome \<times> Machine) option" where
  "ReturnSingleInternal scratch m0 =
     (let disp = ReadControlValueDisposition (control m0); saved = DATA (StackCache m0 (FP m0 + 1)) in
      case cleanup_frame m0 of
        None \<Rightarrow> None
      | Some (Longjmp v, m) \<Rightarrow> Some (Longjmp v, m)
      | Some (Exit, m) \<Rightarrow> Some (Exit, m)
      | Some (Ok c, m) \<Rightarrow>
          if c \<noteq> CleanupDone then leave_cleanup c m
          else case scroll_if_below (give_single disp scratch (pop_frame (disp \<noteq> ValueDispositionReturn)
              (uint (ReadControlCallerFrameSize (control m))) saved m)) of
            None \<Rightarrow> None
          | Some (Longjmp v, m1) \<Rightarrow> Some (Longjmp v, m1)
          | Some (Exit, m1) \<Rightarrow> Some (Exit, m1)
          | Some (Ok _, m1) \<Rightarrow>
              if disp = ValueDispositionReturn then ReturnSingleInternal scratch m1 else stop BranchTaken m1)"

definition DispatchReturnSingleTOS :: "label em" where
  "DispatchReturnSingleTOS = (\<lambda>m. ReturnSingleInternal (TOS m) m)"

definition DispatchReturnSingleNIL :: "label em" where
  "DispatchReturnSingleNIL = ReturnSingleInternal ObjectNIL"

definition DispatchReturnSingleT :: "label em" where
  "DispatchReturnSingleT = ReturnSingleInternal ObjectT"

text \<open>
  The copy of the values down to the caller's stack, from the first to the last; \<open>strip\<close> is what
  happens to a word. A negative count runs over all of memory: it has no result here.
\<close>

primrec copy_values :: "(LispObj \<Rightarrow> LispObj) \<Rightarrow> nat \<Rightarrow> int \<Rightarrow> Machine \<Rightarrow> Machine" where
  "copy_values strip 0 block m = m"
| "copy_values strip (Suc i) block m = copy_values strip i (block + 1) (push (strip (StackCache m block)) m)"

definition copy_block :: "(LispObj \<Rightarrow> LispObj) \<Rightarrow> int \<Rightarrow> int \<Rightarrow> unit em" where
  "copy_block strip count block = (\<lambda>m. if count < 0 then None else Some (Ok (), copy_values strip (nat count) block m))"

definition give_multiple :: "Integer \<Rightarrow> int \<Rightarrow> int \<Rightarrow> unit em" where
  "give_multiple disp count block =
     (if disp = ValueDispositionValue
      then modify (\<lambda>m. if count > 0 then push (cdr_next (StackCache m block)) m else push ObjectNIL m)
      else if disp = ValueDispositionMultiple
        then bind_em (copy_block cdr_next count block) (\<lambda>_. modify (push_fixnum (of_int count)))
      else if disp = ValueDispositionReturn then copy_block (\<lambda>x. x) count block
      else ret ())"

partial_function (option) return_multiple :: "int \<Rightarrow> Machine \<Rightarrow> (label outcome \<times> Machine) option" where
  "return_multiple count m0 =
     (let disp = ReadControlValueDisposition (control m0); frame_size = uint (ReadControlCallerFrameSize (control m0));
          saved = DATA (StackCache m0 (FP m0 + 1)); block = SP m0 - (count - 1) in
      if (disp = ValueDispositionMultiple \<or> disp = ValueDispositionReturn) \<and> frame_size + count + 1 > 112
      then stop IllegalOperand m0
      else case cleanup_frame m0 of
        None \<Rightarrow> None
      | Some (Longjmp v, m) \<Rightarrow> Some (Longjmp v, m)
      | Some (Exit, m) \<Rightarrow> Some (Exit, m)
      | Some (Ok c, m) \<Rightarrow>
          if c \<noteq> CleanupDone then leave_cleanup c m
          else case bind_em (give_multiple disp count block) (\<lambda>_. scroll_if_below)
              (pop_frame (disp \<noteq> ValueDispositionReturn) frame_size saved m) of
            None \<Rightarrow> None
          | Some (Longjmp v, m1) \<Rightarrow> Some (Longjmp v, m1)
          | Some (Exit, m1) \<Rightarrow> Some (Exit, m1)
          | Some (Ok _, m1) \<Rightarrow>
              if disp = ValueDispositionReturn then return_multiple count m1 else stop BranchTaken m1)"

definition ExecuteReturnMultiple :: "address_mode \<Rightarrow> int \<Rightarrow> label em" where
  "ExecuteReturnMultiple mode operand = addressed mode operand (\<lambda>op2 m.
     if \<not> TypeFixnumP (TAG (op_read m op2)) then stop IllegalOperand m
     else return_multiple (sint (DATA (op_read m op2))) m)"

definition ExecuteReturnKludge :: "address_mode \<Rightarrow> int \<Rightarrow> label em" where
  "ExecuteReturnKludge mode operand = addressed mode operand (\<lambda>op2 m0.
     if \<not> TypeFixnumP (TAG (op_read m0 op2)) then stop IllegalOperand m0
     else let count = sint (DATA (op_read m0 op2)); frame_size = uint (ReadControlCallerFrameSize (control m0));
              saved = DATA (StackCache m0 (FP m0 + 1)); block = SP m0 - (count - 1) in
       if frame_size + count + 1 > 112 then stop IllegalOperand m0
       else bind_em cleanup_frame (\<lambda>c m.
         if c \<noteq> CleanupDone then leave_cleanup c m
         else bind_em (copy_block (\<lambda>x. x) count block) (\<lambda>_. bind_em scroll_if_below (\<lambda>_. stop BranchTaken))
                (pop_frame True frame_size saved m)) m0)"

definition DispatchTakeValues :: "int \<Rightarrow> label em" where
  "DispatchTakeValues operand = (\<lambda>m0.
     if \<not> TypeFixnumP (TAG (TOS m0)) then stop IllegalOperand m0
     else let i = sint (of_int operand - DATA (TOS m0)); m = m0\<lparr>SP := SP m0 - 1\<rparr> in
       if i > 0 then next_with (push_n_nils (nat i) m)
       else next_with (m\<lparr>SP := SP m + i\<rparr>))"

end
