(* ===== verification/Ivory_VM.thy ===== *)
theory Ivory_VM
  imports Ivory_Machine
begin

text \<open>
  The virtual memory coprocessor of the portable emulator (\<^verbatim>\<open>src/c-emulator/memory.c\<close>): creating and
  destroying pages, filling, searching and scanning memory, and the command register. \<^verbatim>\<open>mmap\<close> and
  \<^verbatim>\<open>munmap\<close> succeed; a failure ends the program. Created pages read as zero.

  Ranges that run past the last address are outside the model of the fill: there the C code
  writes tags over data.
\<close>

section \<open>Attributes\<close>

type_synonym VMAttribute = byte

definition VMCreatedDefault :: VMAttribute where
  "VMCreatedDefault = 0x01 OR 0x04 OR 0x40"

definition VMTransportFault :: "VMAttribute \<Rightarrow> bool" where
  "VMTransportFault a \<longleftrightarrow> a AND 0x04 \<noteq> 0"

definition VMTransportDisable :: "VMAttribute \<Rightarrow> bool" where
  "VMTransportDisable a \<longleftrightarrow> a AND 0x08 \<noteq> 0"

definition SetVMTransportFault :: "VMAttribute \<Rightarrow> VMAttribute" where
  "SetVMTransportFault a = a OR 0x04"

definition SetVMExists :: "VMAttribute \<Rightarrow> VMAttribute" where
  "SetVMExists a = a OR 0x40"

definition set_attribute :: "nat \<Rightarrow> VMAttribute \<Rightarrow> Machine \<Rightarrow> Machine" where
  "set_attribute page a m = m\<lparr>VMAttributeTable := (VMAttributeTable m)(page := a)\<rparr>"

section \<open>Creating and destroying pages\<close>

text \<open>A fresh anonymous mapping over the page of \<open>vma\<close>.\<close>

definition map_page :: "Integer \<Rightarrow> Machine \<Rightarrow> Machine" where
  "map_page vma m = m\<lparr>
     DataSpace := (\<lambda>a. if MemoryPageNumber a = MemoryPageNumber vma then 0 else DataSpace m a),
     TagSpace := (\<lambda>a. if MemoryPageNumber a = MemoryPageNumber vma then 0 else TagSpace m a)\<rparr>"

definition SetCreated :: "Integer \<Rightarrow> Machine \<Rightarrow> Machine" where
  "SetCreated vma = set_attribute (MemoryPageNumber vma) VMCreatedDefault"

definition ClearCreated :: "Integer \<Rightarrow> Machine \<Rightarrow> Machine" where
  "ClearCreated vma = set_attribute (MemoryPageNumber vma) 0"

definition EnsureVirtualAddress :: "Integer \<Rightarrow> Machine \<Rightarrow> Machine" where
  "EnsureVirtualAddress vma m = (if Created m vma then m else SetCreated vma (map_page vma m))"

text \<open>
  The loop over a range maps runs of missing pages at once; the pages of a run are those that its
  inner loop has just marked, from \<^verbatim>\<open>aligned_vma\<close> on. The three inner loops are one recursion with
  the pages of the current run that are still to be mapped.
\<close>

primrec map_pages :: "nat \<Rightarrow> Integer \<Rightarrow> Machine \<Rightarrow> Machine" where
  "map_pages 0 aligned_vma m = m"
| "map_pages (Suc n) aligned_vma m = map_pages n (aligned_vma + MemoryPageSize) (map_page aligned_vma m)"

text \<open>\<^verbatim>\<open>while (!Created (vma) && pages)\<close>: the number of pages of the run, the pages left, the next address.\<close>

primrec missing_run :: "nat \<Rightarrow> Integer \<Rightarrow> Machine \<Rightarrow> nat \<times> nat \<times> Integer \<times> Machine" where
  "missing_run 0 vma m = (0, 0, vma, m)"
| "missing_run (Suc pages) vma m = (if Created m vma then (0, Suc pages, vma, m)
     else case missing_run pages (vma + MemoryPageSize) (SetCreated vma m) of (n, left, v, m') \<Rightarrow> (Suc n, left, v, m'))"

text \<open>\<^verbatim>\<open>while (Created (vma) && pages)\<close>\<close>

primrec created_run :: "nat \<Rightarrow> Integer \<Rightarrow> Integer \<Rightarrow> Machine \<Rightarrow> nat \<times> Integer \<times> Integer" where
  "created_run 0 vma aligned_vma m = (0, vma, aligned_vma)"
| "created_run (Suc pages) vma aligned_vma m = (if \<not> Created m vma then (Suc pages, vma, aligned_vma)
     else created_run pages (vma + MemoryPageSize) (aligned_vma + MemoryPageSize) m)"

lemma missing_run_left: "missing_run pages vma m = (n, left, v, m') \<Longrightarrow> left \<le> pages \<and> (n = 0 \<longrightarrow> m' = m \<and> v = vma \<and> left = pages)"
  by (induction pages arbitrary: vma m n left v m') (fastforce split: if_splits prod.splits intro: le_SucI)+

lemma missing_run_less: "missing_run (Suc pages) vma m = (n, left, v, m') \<Longrightarrow> \<not> Created m vma \<Longrightarrow> left \<le> pages"
  by (auto split: prod.splits dest: missing_run_left)

lemma created_run_left: "fst (created_run pages vma a m) \<le> pages"
  by (induction pages arbitrary: vma a) (auto intro: le_SucI)

lemma ensure_decreases:
  assumes "0 < pages" "missing_run pages vma m = (n, left, v, m1)"
    and "created_run left v a (map_pages n aligned m1) = (left', v', a')"
  shows "left' < pages"
proof -
  obtain k where k: "pages = Suc k" using assms(1) by (cases pages) auto
  have le: "left' \<le> left" using created_run_left [of left v a "map_pages n aligned m1"] assms(3) by simp
  show ?thesis
  proof (cases "Created m vma")
    case False
    then show ?thesis using missing_run_less [of k vma m n left v m1] assms(2) k le by auto
  next
    case True
    then have *: "n = 0" "left = pages" "v = vma" "m1 = m" using assms(2) k by auto
    then have "left' = fst (created_run k (vma + MemoryPageSize) (a + MemoryPageSize) m)"
      using assms(3) k True by simp
    then show ?thesis using created_run_left [of k "vma + MemoryPageSize" "a + MemoryPageSize" m] k by simp
  qed
qed

function ensure_range :: "nat \<Rightarrow> Integer \<Rightarrow> Integer \<Rightarrow> Machine \<Rightarrow> Integer \<times> Machine" where
  "ensure_range pages vma aligned_vma m =
     (if pages = 0 then (vma, m)
      else case missing_run pages vma m of (n, left, v, m1) \<Rightarrow>
        case created_run left v (aligned_vma + of_nat n * MemoryPageSize) (map_pages n aligned_vma m1) of
          (left', v', a') \<Rightarrow> ensure_range left' v' a' (map_pages n aligned_vma m1))"
  by pat_completeness auto
termination
  by (relation "measure (\<lambda>(pages, _). pages)") (auto intro: ensure_decreases [OF _ sym sym])

declare ensure_range.simps [simp del]

text \<open>\<^verbatim>\<open>ceiling (count, MemoryPageSize)\<close> for a count that is not negative.\<close>

definition page_count :: "nat \<Rightarrow> nat" where
  "page_count count = (count + (0x2000 - 1)) div 0x2000"

definition EnsureVirtualAddressRange :: "Integer \<Rightarrow> nat \<Rightarrow> Machine \<Rightarrow> Integer \<times> Machine" where
  "EnsureVirtualAddressRange vma count m = ensure_range (page_count count) vma (vma - MemoryPageOffset vma) m"

definition DestroyVirtualAddress :: "Integer \<Rightarrow> Machine \<Rightarrow> Machine" where
  "DestroyVirtualAddress vma m = (if \<not> Created m vma then m else ClearCreated vma m)"

primrec destroy_pages :: "nat \<Rightarrow> Integer \<Rightarrow> Machine \<Rightarrow> Machine" where
  "destroy_pages 0 vma m = m"
| "destroy_pages (Suc pages) vma m = destroy_pages pages (vma + MemoryPageSize) (DestroyVirtualAddress vma m)"

definition DestroyVirtualAddressRange :: "Integer \<Rightarrow> nat \<Rightarrow> Machine \<Rightarrow> Machine" where
  "DestroyVirtualAddressRange vma count m = destroy_pages (page_count count) vma m"

section \<open>Filling\<close>

text \<open>\<^verbatim>\<open>memset\<close> of tags, upwards; \<^verbatim>\<open>memory_vma\<close> stays.\<close>

primrec set_tags :: "nat \<Rightarrow> Integer \<Rightarrow> Tag \<Rightarrow> unit em" where
  "set_tags 0 vma t = ret ()"
| "set_tags (Suc n) vma t = (\<lambda>m. if Created m vma
     then set_tags n (vma + 1) t (m\<lparr>TagSpace := (TagSpace m)(vma := t)\<rparr>) else segv_handler m)"

primrec clear_data :: "nat \<Rightarrow> Integer \<Rightarrow> unit em" where
  "clear_data 0 vma = ret ()"
| "clear_data (Suc n) vma = (\<lambda>m. if Created m vma
     then clear_data n (vma + 1) (m\<lparr>DataSpace := (DataSpace m)(vma := 0)\<rparr>) else segv_handler m)"

primrec fill_data :: "nat \<Rightarrow> Integer \<Rightarrow> Integer \<Rightarrow> Integer \<Rightarrow> unit em" where
  "fill_data 0 vma cdata increment = ret ()"
| "fill_data (Suc n) vma cdata increment = (\<lambda>m. if Created m vma
     then fill_data n (vma + 1) (cdata + increment) increment
       (m\<lparr>DataSpace := (DataSpace m)(vma := cdata), memory_vma := memory_vma m + 1\<rparr>)
     else segv_handler m)"

definition VirtualMemoryWriteBlockConstant :: "Integer \<Rightarrow> LispObj \<Rightarrow> nat \<Rightarrow> Integer \<Rightarrow> unit em" where
  "VirtualMemoryWriteBlockConstant vma x count increment = (\<lambda>m.
     bind_em (set_tags count vma (TAG x)) (\<lambda>_.
       if increment = 0 \<and> DATA x = 0 then clear_data count vma
       else fill_data (block_words vma (int count)) vma (DATA x) increment) (m\<lparr>memory_vma := vma\<rparr>))"

section \<open>Searching and scanning\<close>

text \<open>
  \<^verbatim>\<open>memchr\<close> reads the tags in order and \<^verbatim>\<open>memory_vma\<close> is set only when a tag is found. The result is
  the address found.
\<close>

primrec search_loop :: "nat \<Rightarrow> Integer \<Rightarrow> LispObj \<Rightarrow> Integer option em" where
  "search_loop 0 tag x = ret None"
| "search_loop (Suc n) tag x = (\<lambda>m.
     if \<not> Created m tag then segv_handler m
     else if TagSpace m tag = TAG x then
       (let m1 = m\<lparr>memory_vma := tag\<rparr> in
        if DataSpace m tag = DATA x then Some (Ok (Some tag), m1) else search_loop n (tag + 1) x m1)
     else search_loop n (tag + 1) x m)"

definition VirtualMemorySearch :: "Integer \<Rightarrow> LispObj \<Rightarrow> int \<Rightarrow> Integer option em" where
  "VirtualMemorySearch vma x count = search_loop (block_words vma count) vma x"

text \<open>
  The scan goes through the attributes of the pages from that of \<open>vma\<close> on, and through each page
  with the fault bit from its start.
\<close>

primrec scan_page :: "nat \<Rightarrow> Integer \<Rightarrow> Integer option em" where
  "scan_page 0 tag = ret None"
| "scan_page (Suc n) tag = (\<lambda>m.
     if \<not> Created m tag then segv_handler m
     else if PointerTypeP (TagSpace m tag) \<and> OldspaceAddressP m (DataSpace m tag) then Some (Ok (Some tag), m)
     else scan_page n (tag + 1) m)"

function scan_loop :: "nat \<Rightarrow> int \<Rightarrow> Integer option em" where
  "scan_loop page count =
     (if count > 0 then
        (\<lambda>m. if VMTransportFault (VMAttributeTable m page)
             then bind_em (scan_page (nat (min 0x2000 count)) (of_nat page * MemoryPageSize)) (\<lambda>r. case r of
                 Some a \<Rightarrow> ret (Some a)
               | None \<Rightarrow> scan_loop (Suc page) (count - 0x2000)) m
             else scan_loop (Suc page) (count - 0x2000) m)
      else ret None)"
  by pat_completeness auto
termination by (relation "measure (\<lambda>(_, count). nat count)") auto

declare scan_loop.simps [simp del]

definition VirtualMemoryScan :: "Integer \<Rightarrow> int \<Rightarrow> Integer option em" where
  "VirtualMemoryScan vma count = scan_loop (MemoryPageNumber vma) count"

definition enable_page :: "nat \<Rightarrow> Machine \<Rightarrow> Machine" where
  "enable_page page m = (let a = VMAttributeTable m page in
     if VMExists a \<and> \<not> VMTransportDisable a then set_attribute page (SetVMTransportFault a) m else m)"

definition VirtualMemoryEnable :: "Integer \<Rightarrow> int \<Rightarrow> Machine \<Rightarrow> Machine" where
  "VirtualMemoryEnable vma count m =
     fold enable_page [MemoryPageNumber vma..<MemoryPageNumber (vma + of_int count)] m"

section \<open>Copying\<close>

text \<open>
  The action that the copy looks up: \<^verbatim>\<open>row[tag]\<close> with the whole tag, its cdr code included, so that
  it reads into the rows that follow, and past the table with the argument \<open>beyond\<close>.
\<close>

definition row_action :: "(nat \<Rightarrow> byte) \<Rightarrow> nat \<Rightarrow> Tag \<Rightarrow> byte" where
  "row_action beyond cycle tag = (let k = cycle * 64 + unat tag in
     if k < 768 then MemoryActionTable ! (k div 64) ! (k mod 64) else beyond (k - 768))"

text \<open>
  \<^verbatim>\<open>memmove\<close> of the raw cycle. A fault on the way leaves an unspecified part of the range copied, here
  none of it.
\<close>

definition raw_copy :: "Integer \<Rightarrow> Integer \<Rightarrow> nat \<Rightarrow> unit em" where
  "raw_copy from to count = (\<lambda>m.
     if \<forall>k<count. Created m (from + of_nat k) \<and> Created m (to + of_nat k)
     then Some (Ok (), m\<lparr>
       TagSpace := (\<lambda>a. if unat (a - to) < count then TagSpace m (a - to + from) else TagSpace m a),
       DataSpace := (\<lambda>a. if unat (a - to) < count then DataSpace m (a - to + from) else DataSpace m a)\<rparr>)
     else segv_handler m)"

primrec copy_loop :: "nat \<Rightarrow> (nat \<Rightarrow> byte) \<Rightarrow> nat \<Rightarrow> Integer \<Rightarrow> Integer \<Rightarrow> unit em" where
  "copy_loop 0 beyond cycle from to = ret ()"
| "copy_loop (Suc n) beyond cycle from to = (\<lambda>m.
     if \<not> Created m from then segv_handler m
     else let tag = TagSpace m from; action = row_action beyond cycle tag in
       if transport_test action \<and> OldspaceAddressP m (DataSpace m from)
       then TakeMemoryTrap TransportTrapVector (DataSpace m from) m
       else bind_em
         (if action \<noteq> 0 then bind_em (MemoryReadInternal cycle None from) (\<lambda>(_, x). ret x)
          else ret (obj tag (DataSpace m from)))
         (\<lambda>x m1. if \<not> Created m1 to then segv_handler m1
           else copy_loop n beyond cycle (from + 1) (to + 1)
             (store_word to x (m1\<lparr>memory_vma := memory_vma m1 + 1\<rparr>))) m)"

definition VirtualMemoryCopy :: "(nat \<Rightarrow> byte) \<Rightarrow> nat \<Rightarrow> Integer \<Rightarrow> Integer \<Rightarrow> nat \<Rightarrow> int em" where
  "VirtualMemoryCopy beyond cycle from to count = (\<lambda>m.
     bind_em (if cycle = 11 then raw_copy from to count
              else copy_loop (block_words from (int count)) beyond cycle from to) (\<lambda>_. ret 0)
       (m\<lparr>memory_vma := from\<rparr>))"

section \<open>Commands\<close>

record VMState =
  AddressRegister :: Integer
  ExtentRegister :: Integer
  AttributesRegister :: Integer
  DestinationRegister :: Integer
  DataRegister :: LispObj
  CommandRegister :: Integer

abbreviation (input) "VMOpcodeLookup \<equiv> 0 :: Integer"
abbreviation (input) "VMOpcodeCreate \<equiv> 1 :: Integer"
abbreviation (input) "VMOpcodeDestroy \<equiv> 2 :: Integer"
abbreviation (input) "VMOpcodeReadAttributes \<equiv> 3 :: Integer"
abbreviation (input) "VMOpcodeWriteAttributes \<equiv> 4 :: Integer"
abbreviation (input) "VMOpcodeFill \<equiv> 5 :: Integer"
abbreviation (input) "VMOpcodeSearch \<equiv> 6 :: Integer"
abbreviation (input) "VMOpcodeCopy \<equiv> 7 :: Integer"
abbreviation (input) "VMOpcodeScan \<equiv> 8 :: Integer"
abbreviation (input) "VMOpcodeEnable \<equiv> 9 :: Integer"

definition VMCommandOpcode :: "Integer \<Rightarrow> Integer" where
  "VMCommandOpcode command = ldb 13 19 command"

definition VMCommandOperand :: "Integer \<Rightarrow> Integer" where
  "VMCommandOperand command = ldb 19 0 command"

definition SetVMReplyResult :: "Integer \<Rightarrow> bool \<Rightarrow> Integer" where
  "SetVMReplyResult reply result = dpb (if result then 0 else 1) 13 19 reply"

text \<open>A result of the searches: the register moves to the address found.\<close>

definition found_reply :: "VMState \<Rightarrow> Integer option \<Rightarrow> (Integer \<times> VMState) em" where
  "found_reply vm r = (case r of
     Some a \<Rightarrow> ret (SetVMReplyResult 0 True, vm\<lparr>AddressRegister := a\<rparr>)
   | None \<Rightarrow> ret (SetVMReplyResult 0 False, vm))"

text \<open>
  The command register. An extent of \<open>2 ^ 31\<close> words or more is a negative \<^verbatim>\<open>int\<close> in the loops of the
  create, destroy, fill and copy commands, and a copy command may name a cycle that is not in the
  table: these, and the opcodes that have no case, have no result here.
\<close>

definition VMCommand :: "(nat \<Rightarrow> byte) \<Rightarrow> VMState \<Rightarrow> Integer \<Rightarrow> (Integer \<times> VMState) em option" where
  "VMCommand beyond vm command =
     (let opcode = VMCommandOpcode command; operand = VMCommandOperand command;
          page = unat operand; extent = ExtentRegister vm; small = (extent < 0x80000000) in
      if opcode = VMOpcodeLookup then Some (\<lambda>m.
        let vpn = MemoryPageNumber (AddressRegister vm)
        in Some (Ok (SetVMReplyResult (of_nat vpn) (VMExists (VMAttributeTable m vpn)), vm), m))
      else if opcode = VMOpcodeCreate \<and> small then Some (\<lambda>m.
        Some (Ok (SetVMReplyResult 0 True, vm), snd (EnsureVirtualAddressRange (AddressRegister vm) (unat extent) m)))
      else if opcode = VMOpcodeDestroy \<and> small then Some (\<lambda>m.
        Some (Ok (SetVMReplyResult 0 True, vm), DestroyVirtualAddressRange (AddressRegister vm) (unat extent) m))
      else if opcode = VMOpcodeReadAttributes then Some (\<lambda>m.
        let a = VMAttributeTable m page in
        if VMExists a then Some (Ok (SetVMReplyResult command True, vm\<lparr>AttributesRegister := ucast a\<rparr>), m)
        else Some (Ok (SetVMReplyResult command False, vm), m))
      else if opcode = VMOpcodeWriteAttributes then Some (\<lambda>m.
        if VMExists (VMAttributeTable m page)
        then let a = AttributesRegister vm OR 0x40
             in Some (Ok (SetVMReplyResult command True, vm\<lparr>AttributesRegister := a\<rparr>), set_attribute page (ucast a) m)
        else Some (Ok (SetVMReplyResult command False, vm), m))
      else if opcode = VMOpcodeFill \<and> small then Some
        (bind_em (VirtualMemoryWriteBlockConstant (AddressRegister vm) (DataRegister vm) (unat extent) operand)
          (\<lambda>_. ret (SetVMReplyResult 0 True, vm)))
      else if opcode = VMOpcodeSearch then Some
        (bind_em (VirtualMemorySearch (AddressRegister vm) (DataRegister vm) (sint extent)) (found_reply vm))
      else if opcode = VMOpcodeCopy \<and> small \<and> page < 12 then Some
        (bind_em (VirtualMemoryCopy beyond page (AddressRegister vm) (DestinationRegister vm) (unat extent))
          (\<lambda>result. ret (SetVMReplyResult 0 (result \<noteq> 0), vm)))
      else if opcode = VMOpcodeScan then Some
        (bind_em (VirtualMemoryScan (AddressRegister vm) (sint extent)) (found_reply vm))
      else if opcode = VMOpcodeEnable then Some (\<lambda>m.
        Some (Ok (SetVMReplyResult 0 True, vm), VirtualMemoryEnable (AddressRegister vm) (sint extent) m))
      else None)"

end
