(* ===== verification/Ivory_Data.thy ===== *)
theory Ivory_Data
  imports Ivory_Calls Ivory_VM
begin

text \<open>
  The remaining instructions of the portable emulator (\<^verbatim>\<open>src/c-emulator/emulator.c\<close>): loops, block
  accesses, lexical and instance variables, the ALU instruction, allocation from the list and
  structure caches, pointers, internal and coprocessor registers, memory accesses, tags and jumps.
\<close>

section \<open>Loops\<close>

text \<open>The branch at the end of a loop instruction pops nothing.\<close>

definition loop_branch :: "bool \<Rightarrow> Integer \<Rightarrow> int \<Rightarrow> label em" where
  "loop_branch taken counter operand = (\<lambda>m. let m1 = set_fixnum counter m in
     if taken then take_branch operand m1 else next_with m1)"

definition DispatchLoopDecrementTos :: "int \<Rightarrow> label em" where
  "DispatchLoopDecrementTos operand = (\<lambda>m. let x = TOS m; i = DATA x - 1 in
     if TypeFixnumP (TAG x) \<and> sint i < sint (DATA x) then loop_branch (sint i > 0) i operand m
     else if TypeNumericP (TAG x) then stop FollowPCInstructionException m
     else stop IllegalOperand m)"

definition DispatchLoopIncrementTosLessThan :: "int \<Rightarrow> label em" where
  "DispatchLoopIncrementTosLessThan operand = (\<lambda>m. let x = TOS m; op2 = StackCache m (SP m - 1); i = DATA x + 1 in
     if BinaryTypeFixnumP (TAG op2) (TAG x) \<and> sint i > sint (DATA x) then loop_branch (sint i \<le> sint (DATA op2)) i operand m
     else if BinaryTypeNumericP (TAG op2) (TAG x) then stop FollowPCInstructionException m
     else stop IllegalOperand m)"

section \<open>Block and memory accesses\<close>

text \<open>
  The operand of a memory access: four bits of the cycle, a bit that asks for a fixnum, and one that
  clears the cdr code. The table has no rows 12 to 15: an access with such a cycle has no result here.
\<close>

definition access_cycle :: "int \<Rightarrow> nat" where
  "access_cycle operand = unat (ldb 4 6 (of_int operand))"

definition wants_fixnum :: "int \<Rightarrow> bool" where
  "wants_fixnum operand \<longleftrightarrow> bit operand 5"

definition clear_cdr :: "int \<Rightarrow> LispObj \<Rightarrow> LispObj" where
  "clear_cdr operand x = (if bit operand 4 then x\<lparr>TAG := TagType (TAG x)\<rparr> else x)"

definition read_access :: "int \<Rightarrow> dest \<Rightarrow> Integer \<Rightarrow> (Integer \<times> LispObj) em" where
  "read_access operand d vma = (if access_cycle operand < 12 then MemoryReadInternal (access_cycle operand) d vma
     else (\<lambda>m. None))"

definition bump_bar :: "nat \<Rightarrow> Machine \<Rightarrow> Machine" where
  "bump_bar n m = m\<lparr>bar_address := (bar_address m)(n := (bar_address m n)\<lparr>DATA := DATA (bar_address m n) + 1\<rparr>)\<rparr>"

definition ExecuteBlockRead :: "nat \<Rightarrow> int \<Rightarrow> label em" where
  "ExecuteBlockRead n operand = (\<lambda>m.
     bind_em (read_access operand (Some (SP m + 1)) (DATA (bar_address m n))) (\<lambda>(_, x) m1.
       if wants_fixnum operand \<and> \<not> TypeFixnumP (TAG x) then stop InstructionException m1
       else let m2 = set_slot (SP m1 + 1) (clear_cdr operand x) (m1\<lparr>SP := SP m1 + 1\<rparr>)
            in next_with (if bit operand 2 then m2 else bump_bar n m2)) m)"

definition ExecuteBlockWrite :: "nat \<Rightarrow> address_mode \<Rightarrow> int \<Rightarrow> label em" where
  "ExecuteBlockWrite n mode operand = addressed mode operand (\<lambda>op2 m.
     bind_em (WriteVirtualMemory (DATA (bar_address m n)) (op_read m op2)) (\<lambda>_ m. next_with (bump_bar n m)) m)"

definition DispatchMemoryRead :: "int \<Rightarrow> label em" where
  "DispatchMemoryRead operand = (\<lambda>m. bind_em (read_access operand None (DATA (TOS m))) (\<lambda>(_, x) m.
     if wants_fixnum operand \<and> \<not> TypeFixnumP (TAG x) then stop IllegalOperand m
     else next_with (set_tos (clear_cdr operand x) m)) m)"

definition DispatchMemoryReadAddress :: "int \<Rightarrow> label em" where
  "DispatchMemoryReadAddress operand = (\<lambda>m. bind_em (read_access operand None (DATA (TOS m))) (\<lambda>(vma, x) m.
     if wants_fixnum operand \<and> \<not> TypeFixnumP (TAG x) then stop IllegalOperand m
     else next_with (set_tos (clear_cdr operand ((TOS m)\<lparr>DATA := vma\<rparr>)) m)) m)"

definition ExecuteMemoryWrite :: "address_mode \<Rightarrow> int \<Rightarrow> label em" where
  "ExecuteMemoryWrite mode operand = addressed mode operand (\<lambda>op2 m.
     if TypeEqualP (TAG (TOS m)) TypePhysicalAddress then stop InstructionException m
     else bind_em (WriteVirtualMemory (DATA (TOS m)) (op_read m op2)) (\<lambda>_ m. next_with (m\<lparr>SP := SP m - 1\<rparr>)) m)"

abbreviation (input) "CycleRaw \<equiv> 11 :: nat"

definition ExecutePStoreContents :: "address_mode \<Rightarrow> int \<Rightarrow> label em" where
  "ExecutePStoreContents mode operand = addressed mode operand (\<lambda>op2 m.
     if TypeEqualP (TAG (TOS m)) TypePhysicalAddress then stop InstructionException m
     else bind_em (StoreContentsInternal CycleRaw (DATA (TOS m)) (op_read m op2)) (\<lambda>_ m. next_with (m\<lparr>SP := SP m - 1\<rparr>)) m)"

definition ExecuteStoreConditional :: "address_mode \<Rightarrow> int \<Rightarrow> label em" where
  "ExecuteStoreConditional mode operand = addressed mode operand (\<lambda>op2 m.
     let loc = StackCache m (SP m - 1) in
     if TypeEqualP (TagType (TAG loc)) TypeLocative then
       bind_em (MemoryReadData (DATA loc) None) (\<lambda>(vma, x) m.
         if ObjectEqP (TOS m) x
         then bind_em (WriteVirtualMemory vma (op_read m op2)) (\<lambda>_ m. next_with (set_tos ObjectT (m\<lparr>SP := SP m - 1\<rparr>))) m
         else next_with (set_tos ObjectNIL (m\<lparr>SP := SP m - 1\<rparr>))) m
     else stop (SpareExceptions (TAG loc)) m)"

definition DispatchPushExternalValueCellPointer :: "int \<Rightarrow> label em" where
  "DispatchPushExternalValueCellPointer operand = (\<lambda>m.
     bind_em (MemoryReadData (of_int operand) (Some (SP m + 1))) (\<lambda>(_, x) m. next_with (push (cdr_next x) m)) m)"

section \<open>Lexical variables\<close>

definition lexical_variable :: "(Integer \<Rightarrow> label em) \<Rightarrow> Integer \<Rightarrow> address_mode \<Rightarrow> int \<Rightarrow> label em" where
  "lexical_variable f instr mode operand =
     (if mode = ModeImmediate then stop UnimplementedInstruction
      else addressed mode operand (\<lambda>op2 m. let x = op_read m op2 in
        if TagType (TAG x) = TypeList \<or> TagType (TAG x) = TypeLocative then f (DATA x + ldb 3 10 instr) m
        else stop IllegalOperand m))"

definition store_tos :: "int \<Rightarrow> Integer \<Rightarrow> label em" where
  "store_tos pops vma = (\<lambda>m. bind_em (StoreContentsInternal CycleDataWrite vma (TOS m))
     (\<lambda>_ m. next_with (m\<lparr>SP := SP m - pops\<rparr>)) m)"

definition ExecutePushLexicalVar :: "Integer \<Rightarrow> address_mode \<Rightarrow> int \<Rightarrow> label em" where
  "ExecutePushLexicalVar = lexical_variable (\<lambda>vma. bind_em (MemoryReadData vma None) (\<lambda>(_, x) m. next_with (push (cdr_next x) m)))"

definition ExecutePopLexicalVar :: "Integer \<Rightarrow> address_mode \<Rightarrow> int \<Rightarrow> label em" where
  "ExecutePopLexicalVar = lexical_variable (store_tos 1)"

definition ExecuteMovemLexicalVar :: "Integer \<Rightarrow> address_mode \<Rightarrow> int \<Rightarrow> label em" where
  "ExecuteMovemLexicalVar = lexical_variable (store_tos 0)"

section \<open>Instance variables\<close>

definition mapped_variable :: "(Integer \<Rightarrow> label em) \<Rightarrow> int \<Rightarrow> label em" where
  "mapped_variable f operand = (\<lambda>m. bind_em (LocateInstanceVariableMapped (FP m + 2) (FP m + 3) (of_int operand)) f m)"

definition ordered_variable :: "(Integer \<Rightarrow> label em) \<Rightarrow> int \<Rightarrow> label em" where
  "ordered_variable f operand = (\<lambda>m. let self = StackCache m (FP m + 3) in
     if \<not> instance_tag (TAG self) then stop IllegalOperand m else f (DATA self + of_int operand) m)"

text \<open>The word read keeps its cdr code.\<close>

definition push_variable :: "Integer \<Rightarrow> label em" where
  "push_variable vma = (\<lambda>m. bind_em (MemoryReadData vma (Some (SP m + 1))) (\<lambda>_ m. next_with (m\<lparr>SP := SP m + 1\<rparr>)) m)"

definition push_locative :: "Integer \<Rightarrow> label em" where
  "push_locative vma = (\<lambda>m. next_with (push (obj TypeLocative vma) m))"

definition DispatchPushInstanceVariable :: "int \<Rightarrow> label em" where
  "DispatchPushInstanceVariable = mapped_variable push_variable"

definition DispatchPopInstanceVariable :: "int \<Rightarrow> label em" where
  "DispatchPopInstanceVariable = mapped_variable (store_tos 1)"

definition DispatchMovemInstanceVariable :: "int \<Rightarrow> label em" where
  "DispatchMovemInstanceVariable = mapped_variable (store_tos 0)"

definition DispatchPushAddressInstanceVariable :: "int \<Rightarrow> label em" where
  "DispatchPushAddressInstanceVariable = mapped_variable push_locative"

definition DispatchPushInstanceVariableOrdered :: "int \<Rightarrow> label em" where
  "DispatchPushInstanceVariableOrdered = ordered_variable push_variable"

definition DispatchPopInstanceVariableOrdered :: "int \<Rightarrow> label em" where
  "DispatchPopInstanceVariableOrdered = ordered_variable (store_tos 1)"

definition DispatchMovemInstanceVariableOrdered :: "int \<Rightarrow> label em" where
  "DispatchMovemInstanceVariableOrdered = ordered_variable (store_tos 0)"

definition DispatchPushAddressInstanceVariableOrdered :: "int \<Rightarrow> label em" where
  "DispatchPushAddressInstanceVariableOrdered = ordered_variable push_locative"

definition ExecuteInstanceRef :: "address_mode \<Rightarrow> int \<Rightarrow> label em" where
  "ExecuteInstanceRef mode operand = addressed mode operand (\<lambda>op2 m.
     bind_em (LocateArbitraryInstanceVariable (SP m) op2) (\<lambda>i.
       bind_em (MemoryReadData i None) (\<lambda>(_, x) m. next_with (set_tos (cdr_next x) m))) m)"

definition ExecuteInstanceSet :: "address_mode \<Rightarrow> int \<Rightarrow> label em" where
  "ExecuteInstanceSet mode operand = addressed mode operand (\<lambda>op2 m.
     bind_em (LocateArbitraryInstanceVariable (SP m - 1) op2) (store_tos 2) m)"

text \<open>The immediate form goes to the code of the store.\<close>

definition ExecuteInstanceLoc :: "address_mode \<Rightarrow> int \<Rightarrow> label em" where
  "ExecuteInstanceLoc mode operand =
     (if mode = ModeImmediate then ExecuteInstanceSet mode operand
      else addressed mode operand (\<lambda>op2 m.
        bind_em (LocateArbitraryInstanceVariable (SP m) op2) (\<lambda>i m. next_with (set_tos (obj TypeLocative i) m)) m))"

section \<open>Pointers and the ALU\<close>

definition ExecuteUnsignedLessp :: "bool \<Rightarrow> address_mode \<Rightarrow> int \<Rightarrow> label em" where
  "ExecuteUnsignedLessp nopop mode operand = addressed mode operand (\<lambda>op2 m.
     give nopop (DATA (TOS m) < DATA (op_read m op2)) m)"

text \<open>The fourth class of ALU functions returns no value: it is the argument \<open>garbage\<close>.\<close>

definition alu_function :: "Integer \<Rightarrow> Integer \<Rightarrow> Integer \<Rightarrow> Machine \<Rightarrow> Integer \<times> Machine" where
  "alu_function garbage op1 op2 m = (let alu = AluAndRotateControl m in
     if AluOp m = 0 then (ALUFunctionBoolean alu op1 op2, m)
     else if AluOp m = 1 then ALUFunctionByte garbage alu op1 op2 m
     else if AluOp m = 2 then ALUFunctionAdder alu op1 op2 m
     else (garbage, m))"

definition ExecuteAlu :: "Integer \<Rightarrow> address_mode \<Rightarrow> int \<Rightarrow> label em" where
  "ExecuteAlu garbage mode operand = addressed mode operand (\<lambda>op2 m.
     if BinaryTypeFixnumP (TAG (op_read m op2)) (TAG (TOS m)) then
       (case alu_function garbage (DATA (TOS m)) (DATA (op_read m op2)) (m\<lparr>ALUOverflow := False\<rparr>) of (result, m1) \<Rightarrow>
          if ALUOverflow m1 then stop InstructionException m1
          else next_with (set_tos ((TOS m1)\<lparr>DATA := result\<rparr>) m1))
     else stop (BinaryTypeFixnumExceptions (TAG (op_read m op2)) (TAG (TOS m))) m)"

definition ExecutePointerPlus :: "address_mode \<Rightarrow> int \<Rightarrow> label em" where
  "ExecutePointerPlus mode operand = addressed mode operand (\<lambda>op2 m.
     next_with (set_tos ((TOS m)\<lparr>DATA := DATA (TOS m) + DATA (op_read m op2)\<rparr>) m))"

definition ExecutePointerDifference :: "address_mode \<Rightarrow> int \<Rightarrow> label em" where
  "ExecutePointerDifference mode operand = addressed mode operand (\<lambda>op2 m.
     next_with (set_fixnum (DATA (TOS m) - DATA (op_read m op2)) m))"

definition ExecutePointerIncrement :: "address_mode \<Rightarrow> int \<Rightarrow> label em" where
  "ExecutePointerIncrement mode operand = addressed mode operand (\<lambda>op2 m. let x = op_read m op2 in
     next_with (op_write op2 (x\<lparr>DATA := DATA x + 1\<rparr>) m))"

section \<open>Allocation\<close>

text \<open>
  The size is read again after the top of the stack, which may be the same word, has been replaced
  by the address.
\<close>

definition raise_trap_mode :: "Machine \<Rightarrow> Machine" where
  "raise_trap_mode m = (if ReadControlTrapMode (control m) < 1 then set_trap_mode 1 m else m)"

definition ExecuteAllocateListBlock :: "address_mode \<Rightarrow> int \<Rightarrow> label em" where
  "ExecuteAllocateListBlock mode operand = addressed mode operand (\<lambda>op2 m.
     if \<not> TypeFixnumP (TAG (op_read m op2)) then stop IllegalOperand m
     else if \<not> ObjectEqP (ListCacheArea m) (TOS m) \<or> DATA (op_read m op2) > ListCacheLength m
       then stop InstructionException m
     else let a = ListCacheAddress m;
              m1 = raise_trap_mode ((set_tos (cdr_next a) m)\<lparr>bar_address := (bar_address m)(1 := a)\<rparr>);
              size = DATA (op_read m1 op2)
          in next_with (m1\<lparr>ListCacheLength := ListCacheLength m1 - size,
               ListCacheAddress := a\<lparr>DATA := DATA a + size\<rparr>\<rparr>))"

text \<open>The immediate form goes to the code for lists.\<close>

definition ExecuteAllocateStructureBlock :: "address_mode \<Rightarrow> int \<Rightarrow> label em" where
  "ExecuteAllocateStructureBlock mode operand =
     (if mode = ModeImmediate then ExecuteAllocateListBlock mode operand
      else addressed mode operand (\<lambda>op2 m.
     if \<not> TypeFixnumP (TAG (op_read m op2)) then stop IllegalOperand m
     else if \<not> ObjectEqP (StructureCacheArea m) (TOS m) \<or> DATA (op_read m op2) > StructureCacheLength m
       then stop InstructionException m
     else let a = StructureCacheAddress m;
              m1 = raise_trap_mode ((set_tos (cdr_next a) m)\<lparr>bar_address := (bar_address m)(1 := a)\<rparr>);
              size = DATA (op_read m1 op2)
          in next_with (m1\<lparr>StructureCacheLength := StructureCacheLength m1 - size,
               StructureCacheAddress := a\<lparr>DATA := DATA a + size\<rparr>\<rparr>)))"

section \<open>Internal registers\<close>

abbreviation (input) "InternalRegisterFP \<equiv> 1 :: int"
abbreviation (input) "InternalRegisterLP \<equiv> 2 :: int"
abbreviation (input) "InternalRegisterSP \<equiv> 3 :: int"
abbreviation (input) "InternalRegisterMacroSP \<equiv> 4 :: int"
abbreviation (input) "InternalRegisterStackCacheLowerBound \<equiv> 5 :: int"
abbreviation (input) "InternalRegisterContinuation \<equiv> 10 :: int"
abbreviation (input) "InternalRegisterAluAndRotateControl \<equiv> 11 :: int"
abbreviation (input) "InternalRegisterControlRegister \<equiv> 12 :: int"
abbreviation (input) "InternalRegisterCRArgumentSize \<equiv> 13 :: int"
abbreviation (input) "InternalRegisterEphemeralOldspaceRegister \<equiv> 14 :: int"
abbreviation (input) "InternalRegisterZoneOldspaceRegister \<equiv> 15 :: int"
abbreviation (input) "InternalRegisterChipRevision \<equiv> 16 :: int"
abbreviation (input) "InternalRegisterFPCoprocessorPresent \<equiv> 17 :: int"
abbreviation (input) "InternalRegisterPreemptRegister \<equiv> 19 :: int"
abbreviation (input) "InternalRegisterStackCacheOverflowLimit \<equiv> 28 :: int"
abbreviation (input) "InternalRegisterMicrosecondClock \<equiv> 39 :: int"
abbreviation (input) "InternalRegisterBAR1 \<equiv> 134 :: int"
abbreviation (input) "InternalRegisterBAR2 \<equiv> 262 :: int"
abbreviation (input) "InternalRegisterBAR3 \<equiv> 390 :: int"
abbreviation (input) "InternalRegisterTOS \<equiv> 512 :: int"
abbreviation (input) "InternalRegisterEventCount \<equiv> 513 :: int"
abbreviation (input) "InternalRegisterBindingStackPointer \<equiv> 514 :: int"
abbreviation (input) "InternalRegisterCatchBlockList \<equiv> 515 :: int"
abbreviation (input) "InternalRegisterControlStackLimit \<equiv> 516 :: int"
abbreviation (input) "InternalRegisterControlStackExtraLimit \<equiv> 517 :: int"
abbreviation (input) "InternalRegisterBindingStackLimit \<equiv> 518 :: int"
abbreviation (input) "InternalRegisterListCacheArea \<equiv> 522 :: int"
abbreviation (input) "InternalRegisterListCacheAddress \<equiv> 523 :: int"
abbreviation (input) "InternalRegisterListCacheLength \<equiv> 524 :: int"
abbreviation (input) "InternalRegisterStructureCacheArea \<equiv> 525 :: int"
abbreviation (input) "InternalRegisterStructureCacheAddress \<equiv> 526 :: int"
abbreviation (input) "InternalRegisterStructureCacheLength \<equiv> 527 :: int"
abbreviation (input) "InternalRegisterDynamicBindingCacheBase \<equiv> 528 :: int"
abbreviation (input) "InternalRegisterDynamicBindingCacheMask \<equiv> 529 :: int"
abbreviation (input) "InternalRegisterFEPModeTrapVectorAddress \<equiv> 532 :: int"
abbreviation (input) "InternalRegisterMappingTableCache \<equiv> 534 :: int"
abbreviation (input) "InternalRegisterMappingTableLength \<equiv> 535 :: int"
abbreviation (input) "InternalRegisterStackCacheDumpQuantum \<equiv> 537 :: int"
abbreviation (input) "InternalRegisterConstantNIL \<equiv> 544 :: int"
abbreviation (input) "InternalRegisterConstantT \<equiv> 545 :: int"

text \<open>
  What a read pushes: \<open>None\<close> for the registers that raise an instruction exception. \<open>clock\<close> is the
  microsecond clock. The words that are pushed as objects lose their cdr codes, the others have none.
\<close>

definition internal_register :: "Integer \<Rightarrow> int \<Rightarrow> Machine \<Rightarrow> LispObj option" where
  "internal_register clock r m =
     (if r = InternalRegisterFP then Some (obj TypeLocative (slot_address m (FP m)))
      else if r = InternalRegisterLP then Some (obj TypeLocative (slot_address m (LP m)))
      else if r = InternalRegisterMacroSP then Some (obj TypeLocative (slot_address m (SP m)))
      else if r = InternalRegisterSP then Some (obj TypeLocative (slot_address m (SP m)))
      else if r = InternalRegisterStackCacheLowerBound then Some (obj TypeLocative (StackCacheBase m))
      else if r = InternalRegisterBAR1 then Some (bar_address m 1)
      else if r = InternalRegisterBAR2 then Some (bar_address m 1)
      else if r = InternalRegisterBAR3 then Some (bar_address m 1)
      else if r = InternalRegisterContinuation then Some (continuation m)
      else if r = InternalRegisterAluAndRotateControl then Some (obj TypeFixnum (AluAndRotateControl m))
      else if r = InternalRegisterControlRegister then Some (obj TypeFixnum (control m))
      else if r = InternalRegisterCRArgumentSize then Some (obj TypeFixnum 3)
      else if r = InternalRegisterEphemeralOldspaceRegister then Some (obj TypeFixnum (EphemeralOldspaceRegister m))
      else if r = InternalRegisterZoneOldspaceRegister then Some (obj TypeFixnum (ZoneOldspaceRegister m))
      else if r = InternalRegisterChipRevision then Some (obj TypeFixnum 5)
      else if r = InternalRegisterFPCoprocessorPresent then Some (obj TypeFixnum 0)
      else if r = InternalRegisterPreemptRegister then Some (obj TypeFixnum (PreemptRegister m))
      else if r = InternalRegisterStackCacheOverflowLimit then Some (obj TypeLocative (slot_address m (StackCacheLimit m)))
      else if r = InternalRegisterMicrosecondClock then Some (obj TypeFixnum clock)
      else if r = InternalRegisterTOS then Some (TOS m)
      else if r = InternalRegisterEventCount then Some (obj TypeFixnum (ArrayEventCount m))
      else if r = InternalRegisterBindingStackPointer then Some (obj TypeLocative (BindingStackPointer m))
      else if r = InternalRegisterBindingStackLimit then Some (obj TypeLocative (BindingStackLimit m))
      else if r = InternalRegisterCatchBlockList then Some (CatchBlockPointer m)
      else if r = InternalRegisterControlStackLimit then Some (obj TypeLocative (ControlStackLimit m))
      else if r = InternalRegisterControlStackExtraLimit then Some (obj TypeLocative (ControlStackExtraLimit m))
      else if r = InternalRegisterListCacheArea then Some (ListCacheArea m)
      else if r = InternalRegisterListCacheAddress then Some (ListCacheAddress m)
      else if r = InternalRegisterListCacheLength then Some (obj TypeFixnum (ListCacheLength m))
      else if r = InternalRegisterStructureCacheArea then Some (StructureCacheArea m)
      else if r = InternalRegisterStructureCacheAddress then Some (StructureCacheAddress m)
      else if r = InternalRegisterStructureCacheLength then Some (obj TypeFixnum (StructureCacheLength m))
      else if r = InternalRegisterDynamicBindingCacheBase then Some (obj TypeLocative (DynamicBindingCacheBase m))
      else if r = InternalRegisterDynamicBindingCacheMask then Some (obj TypeFixnum (DynamicBindingCacheMask m))
      else if r = InternalRegisterFEPModeTrapVectorAddress then Some (obj TypeLocative (FEPModeTrapVectorAddress m))
      else if r = InternalRegisterMappingTableCache then Some (obj TypeLocative (MappingTableCache m))
      else if r = InternalRegisterMappingTableLength then Some (obj TypeFixnum (MappingTableLength m))
      else if r = InternalRegisterStackCacheDumpQuantum then Some (obj TypeFixnum (of_int PageSize))
      else if r = InternalRegisterConstantNIL then Some (ObjectNIL)
      else if r = InternalRegisterConstantT then Some (ObjectT)
      else None)"

definition DispatchReadInternalRegister :: "Integer \<Rightarrow> int \<Rightarrow> label em" where
  "DispatchReadInternalRegister clock operand = (\<lambda>m. case internal_register clock operand m of
       None \<Rightarrow> stop InstructionException m
     | Some x \<Rightarrow> next_with (push (cdr_next x) m))"

definition set_internal_register :: "int \<Rightarrow> LispObj \<Rightarrow> Machine \<Rightarrow> Machine option" where
  "set_internal_register r x m =
     (if r = InternalRegisterBAR1 then Some (m\<lparr>bar_address := (bar_address m)(1 := x)\<rparr>)
      else if r = InternalRegisterBAR2 then Some (m\<lparr>bar_address := (bar_address m)(2 := x)\<rparr>)
      else if r = InternalRegisterBAR3 then Some (m\<lparr>bar_address := (bar_address m)(3 := x)\<rparr>)
      else if r = InternalRegisterContinuation then Some (m\<lparr>continuation := x\<rparr>)
      else if r = InternalRegisterAluAndRotateControl then Some (m\<lparr>AluAndRotateControl := DATA x, AluOp := ldb 2 14 (DATA x), ByteSize := ldb 5 5 (DATA x), ByteRotate := ldb 5 0 (DATA x)\<rparr>)
      else if r = InternalRegisterControlRegister then Some (m\<lparr>control := DATA x\<rparr>)
      else if r = InternalRegisterEphemeralOldspaceRegister then Some (m\<lparr>EphemeralOldspaceRegister := DATA x\<rparr>)
      else if r = InternalRegisterZoneOldspaceRegister then Some (m\<lparr>ZoneOldspaceRegister := DATA x\<rparr>)
      else if r = InternalRegisterFPCoprocessorPresent then Some (m)
      else if r = InternalRegisterPreemptRegister then Some (m\<lparr>PreemptRegister := DATA x\<rparr>)
      else if r = InternalRegisterMicrosecondClock then Some (m)
      else if r = InternalRegisterTOS then Some (m)
      else if r = InternalRegisterEventCount then Some (m\<lparr>ArrayEventCount := DATA x\<rparr>)
      else if r = InternalRegisterBindingStackPointer then Some (m\<lparr>BindingStackPointer := DATA x\<rparr>)
      else if r = InternalRegisterBindingStackLimit then Some (m\<lparr>BindingStackLimit := DATA x\<rparr>)
      else if r = InternalRegisterCatchBlockList then Some (m\<lparr>CatchBlockPointer := x\<rparr>)
      else if r = InternalRegisterControlStackLimit then Some (m\<lparr>ControlStackLimit := DATA x\<rparr>)
      else if r = InternalRegisterControlStackExtraLimit then Some (m\<lparr>ControlStackExtraLimit := DATA x\<rparr>)
      else if r = InternalRegisterListCacheArea then Some (m\<lparr>ListCacheArea := x\<rparr>)
      else if r = InternalRegisterListCacheAddress then Some (m\<lparr>ListCacheAddress := x\<rparr>)
      else if r = InternalRegisterListCacheLength then Some (m\<lparr>ListCacheLength := DATA x\<rparr>)
      else if r = InternalRegisterStructureCacheArea then Some (m\<lparr>StructureCacheArea := x\<rparr>)
      else if r = InternalRegisterStructureCacheAddress then Some (m\<lparr>StructureCacheAddress := x\<rparr>)
      else if r = InternalRegisterStructureCacheLength then Some (m\<lparr>StructureCacheLength := DATA x\<rparr>)
      else if r = InternalRegisterDynamicBindingCacheBase then Some (m\<lparr>DynamicBindingCacheBase := DATA x\<rparr>)
      else if r = InternalRegisterDynamicBindingCacheMask then Some (m\<lparr>DynamicBindingCacheMask := DATA x\<rparr>)
      else if r = InternalRegisterFEPModeTrapVectorAddress then Some (m\<lparr>FEPModeTrapVectorAddress := DATA x\<rparr>)
      else if r = InternalRegisterMappingTableCache then Some (m\<lparr>MappingTableCache := DATA x\<rparr>)
      else if r = InternalRegisterMappingTableLength then Some (m\<lparr>MappingTableLength := DATA x\<rparr>)
      else None)"

definition DispatchWriteInternalRegister :: "int \<Rightarrow> label em" where
  "DispatchWriteInternalRegister operand = (\<lambda>m. case set_internal_register operand (TOS m) m of
       None \<Rightarrow> stop InstructionException m
     | Some m1 \<Rightarrow> next_with (m1\<lparr>SP := SP m1 - 1\<rparr>))"

section \<open>Coprocessor registers\<close>

abbreviation (input) "CoprocessorRegisterMicrosecondClock \<equiv> 514 :: int"
abbreviation (input) "VMRegisterCommand \<equiv> 576 :: int"
abbreviation (input) "VMRegisterAddress \<equiv> 577 :: int"
abbreviation (input) "VMRegisterExtent \<equiv> 578 :: int"
abbreviation (input) "VMRegisterAttributes \<equiv> 579 :: int"
abbreviation (input) "VMRegisterDestination \<equiv> 580 :: int"
abbreviation (input) "VMRegisterData \<equiv> 581 :: int"

definition coprocessor_register :: "Integer \<Rightarrow> VMState \<Rightarrow> int \<Rightarrow> LispObj option" where
  "coprocessor_register clock vm r =
     (if r = CoprocessorRegisterMicrosecondClock then Some (obj TypeFixnum clock)
      else if r = VMRegisterCommand then Some (obj TypeFixnum (CommandRegister vm))
      else if r = VMRegisterAddress then Some (obj TypeLocative (AddressRegister vm))
      else if r = VMRegisterExtent then Some (obj TypeFixnum (ExtentRegister vm))
      else if r = VMRegisterAttributes then Some (obj TypeFixnum (AttributesRegister vm))
      else if r = VMRegisterDestination then Some (obj TypeLocative (DestinationRegister vm))
      else if r = VMRegisterData then Some (DataRegister vm)
      else None)"

definition DispatchCoprocessorRead :: "Integer \<Rightarrow> VMState \<Rightarrow> int \<Rightarrow> label em" where
  "DispatchCoprocessorRead clock vm operand = (\<lambda>m. case coprocessor_register clock vm operand of
       None \<Rightarrow> stop InstructionException m
     | Some x \<Rightarrow> next_with (push (cdr_next x) m))"

text \<open>
  Register 520 interrupts the life support; it and the clock change nothing here. A command that
  \<open>VMCommand\<close> has no result for has none here. \<open>beyond\<close> is the argument of \<open>VMCommand\<close>.
\<close>

definition set_coprocessor_register :: "(nat \<Rightarrow> byte) \<Rightarrow> VMState \<Rightarrow> int \<Rightarrow> LispObj \<Rightarrow> VMState option em" where
  "set_coprocessor_register beyond vm r x =
     (if r = 520 \<or> r = CoprocessorRegisterMicrosecondClock then ret (Some vm)
      else if r = VMRegisterCommand then (case VMCommand beyond vm (DATA x) of
          None \<Rightarrow> (\<lambda>m. None)
        | Some run \<Rightarrow> bind_em run (\<lambda>(reply, vm'). ret (Some (vm'\<lparr>CommandRegister := reply\<rparr>))))
      else if r = VMRegisterAddress then ret (Some (vm\<lparr>AddressRegister := DATA x\<rparr>))
      else if r = VMRegisterExtent then ret (Some (vm\<lparr>ExtentRegister := DATA x\<rparr>))
      else if r = VMRegisterAttributes then ret (Some (vm\<lparr>AttributesRegister := DATA x\<rparr>))
      else if r = VMRegisterDestination then ret (Some (vm\<lparr>DestinationRegister := DATA x\<rparr>))
      else if r = VMRegisterData then ret (Some (vm\<lparr>DataRegister := x\<rparr>))
      else ret None)"

definition DispatchCoprocessorWrite :: "(nat \<Rightarrow> byte) \<Rightarrow> VMState \<Rightarrow> int \<Rightarrow> (label \<times> VMState) em" where
  "DispatchCoprocessorWrite beyond vm operand = (\<lambda>m.
     bind_em (set_coprocessor_register beyond vm operand (TOS m)) (\<lambda>r m. case r of
         None \<Rightarrow> Some (Ok (InstructionException, vm), m)
       | Some vm' \<Rightarrow> Some (Ok (NextInstruction, vm'), m\<lparr>SP := SP m - 1\<rparr>)) m)"

section \<open>Tags, cdr codes and jumps\<close>

definition ExecuteTag :: "address_mode \<Rightarrow> int \<Rightarrow> label em" where
  "ExecuteTag mode operand = addressed mode operand (\<lambda>op2 m. next_with (push_fixnum (ucast (TAG (op_read m op2))) m))"

definition ExecuteSetTag :: "address_mode \<Rightarrow> int \<Rightarrow> label em" where
  "ExecuteSetTag mode operand = addressed mode operand (\<lambda>op2 m.
     if TypeEqualP (TAG (op_read m op2)) TypeFixnum
     then next_with (set_tos ((TOS m)\<lparr>TAG := ucast (DATA (op_read m op2))\<rparr>) m)
     else stop InstructionException m)"

definition set_cdr_code :: "Tag \<Rightarrow> address_mode \<Rightarrow> int \<Rightarrow> label em" where
  "set_cdr_code cdr mode operand = addressed mode operand (\<lambda>op2 m. let x = op_read m op2 in
     next_with (op_write op2 (x\<lparr>TAG := push_bit 6 cdr OR TagType (TAG x)\<rparr>) m))"

definition ExecuteSetCdrCode1 :: "address_mode \<Rightarrow> int \<Rightarrow> label em" where
  "ExecuteSetCdrCode1 = set_cdr_code 1"

definition ExecuteSetCdrCode2 :: "address_mode \<Rightarrow> int \<Rightarrow> label em" where
  "ExecuteSetCdrCode2 = set_cdr_code 2"

definition ExecuteMergeCdrNoPop :: "address_mode \<Rightarrow> int \<Rightarrow> label em" where
  "ExecuteMergeCdrNoPop mode operand = addressed mode operand (\<lambda>op2 m. let x = op_read m op2 in
     next_with (op_write op2 (x\<lparr>TAG := MergeCdr (TAG (TOS m)) (TAG x)\<rparr>) m))"

definition ExecuteJump :: "address_mode \<Rightarrow> int \<Rightarrow> label em" where
  "ExecuteJump mode operand = addressed mode operand (\<lambda>op2 m. let x = op_read m op2 in
     if TagType (TAG x) = TypeEvenPC \<or> TagType (TAG x) = TypeOddPC
     then stop BranchTaken (m\<lparr>PC := x, control := (if ldb 1 7 (ucast (TAG x)) \<noteq> 0
            then WriteControlCleanupInProgress (control m) (ldb 1 6 (ucast (TAG x))) else control m)\<rparr>)
     else stop InstructionException m)"

text \<open>The words that, met as instructions, push themselves: \<^verbatim>\<open>DispatchPushFixnum\<close> and those after it.\<close>

definition push_constant :: "Tag \<Rightarrow> int \<Rightarrow> label em" where
  "push_constant type operand = (\<lambda>m. next_with (push (obj type (of_int operand)) m))"

section \<open>Unimplemented instructions\<close>

definition ExecuteEphemeralp :: "address_mode \<Rightarrow> int \<Rightarrow> label em" where
  "ExecuteEphemeralp = unimplemented"

definition ExecuteBlockReadAlu :: "address_mode \<Rightarrow> int \<Rightarrow> label em" where
  "ExecuteBlockReadAlu = unimplemented"

definition ExecuteDereference :: "address_mode \<Rightarrow> int \<Rightarrow> label em" where
  "ExecuteDereference = unimplemented"

definition ExecuteUnify :: "address_mode \<Rightarrow> int \<Rightarrow> label em" where
  "ExecuteUnify = unimplemented"

definition ExecutePushLocalLogicVariables :: "address_mode \<Rightarrow> int \<Rightarrow> label em" where
  "ExecutePushLocalLogicVariables = unimplemented"

definition ExecuteLogicTailTest :: "address_mode \<Rightarrow> int \<Rightarrow> label em" where
  "ExecuteLogicTailTest = unimplemented"

end
