(* ===== verification/Ivory_Startup.thy ===== *)
theory Ivory_Startup
  imports Ivory_Data
begin

text \<open>
  Starting the portable emulator, and the registers that its console reads and writes
  (\<^verbatim>\<open>src/c-emulator/initialization.c\<close>). The instruction cache, which start-up empties, and the flags
  of the run loop are not part of the machine.
\<close>

section \<open>Initialisation\<close>

definition initial_stack :: "(int \<Rightarrow> LispObj) \<Rightarrow> int \<Rightarrow> LispObj" where
  "initial_stack c = (\<lambda>i. if 0 \<le> i \<and> i < PageSize * StackCacheSize then obj TypeNull (0xf8000100 + of_int i) else c i)"

definition initial_control :: Integer where
  "initial_control = WriteControlTrapMode (WriteControlCallerFrameSize (WriteControlArgumentSize 0 2) 2) 3"

definition initial_registers :: "Machine \<Rightarrow> Machine" where
  "initial_registers m = m\<lparr>StackCacheLimit := PageSize * StackCacheSize - 128, StackCacheBase := 0xf8000100,
     StackCache := initial_stack (StackCache m), FP := 4, SP := 5, LP := 6, control := initial_control,
     PC := obj (0xc0 OR TypeNIL) 0, continuation := obj (0xc0 OR TypeNIL) 0\<rparr>"

definition InitializeIvoryProcessor :: "Machine \<Rightarrow> Machine" where
  "InitializeIvoryProcessor m =
     (let m1 = PushOneFakeFrame (PushOneFakeFrame (initial_registers m));
          m2 = snd (EnsureVirtualAddressRange 0xf8000100 0xf00 m1)
      in snd (EnsureVirtualAddressRange 0xf8062000 0x9e000 m2))"

text \<open>No handler for faults is installed yet: one ends the program.\<close>

definition startup_read :: "Integer \<Rightarrow> LispObj em" where
  "startup_read vma = (\<lambda>m. case ReadVirtualMemory vma m of
       Some (Longjmp _, m1) \<Rightarrow> Some (Exit, m1)
     | r \<Rightarrow> r)"

definition set_start :: "LispObj \<Rightarrow> Machine \<Rightarrow> Machine" where
  "set_start q m = set_slot (FP m) (obj (0xc0 OR TypeEvenPC) (DATA q)) m"

text \<open>The start function is at one of two addresses; its tag is compared with its cdr code.\<close>

definition find_start :: "bool em" where
  "find_start = bind_em (startup_read 0xf8041002) (\<lambda>q.
     if TAG q = TypeCompiledFunction then bind_em (modify (set_start q)) (\<lambda>_. ret True)
     else bind_em (startup_read 0xf8041102) (\<lambda>q.
       if TAG q = TypeCompiledFunction then bind_em (modify (set_start q)) (\<lambda>_. ret True) else ret False))"

definition IvoryProcessorSystemStartup :: "bool \<Rightarrow> bool em" where
  "IvoryProcessorSystemStartup booting =
     bind_em (if booting then bind_em (modify InitializeIvoryProcessor) (\<lambda>_. find_start) else ret True) (\<lambda>found.
       if found then bind_em (modify (\<lambda>m. PopOneFakeFrame (PopOneFakeFrame m))) (\<lambda>_. ret True) else ret False)"

section \<open>Registers\<close>

definition bar_register :: "int \<Rightarrow> bool" where
  "bar_register r \<longleftrightarrow> r = 6 \<or> r = InternalRegisterBAR1 \<or> r = InternalRegisterBAR2 \<or> r = InternalRegisterBAR3"

definition bar_number :: "int \<Rightarrow> nat" where
  "bar_number r = unat (ldb 2 7 (of_int r))"

definition ReadInternalRegister :: "int \<Rightarrow> Machine \<Rightarrow> LispObj option" where
  "ReadInternalRegister r m =
     (if r = InternalRegisterFP then Some (obj TypeLocative (slot_address m (FP m)))
      else if r = InternalRegisterLP then Some (obj TypeLocative (slot_address m (LP m)))
      else if r = InternalRegisterSP then Some (obj TypeLocative (slot_address m (SP m)))
      else if bar_register r then Some (bar_address m (bar_number r))
      else if r = InternalRegisterContinuation then Some (continuation m)
      else if r = InternalRegisterControlRegister then Some (obj TypeFixnum (control m))
      else None)"

partial_function (option) scroll_down_to_fp :: "Machine \<Rightarrow> (unit outcome \<times> Machine) option" where
  "scroll_down_to_fp m = (if FP m < 0 then
       (case StackCacheScrollDown m of
          None \<Rightarrow> None
        | Some (Longjmp v, m1) \<Rightarrow> Some (Longjmp v, m1)
        | Some (Exit, m1) \<Rightarrow> Some (Exit, m1)
        | Some (Ok _, m1) \<Rightarrow> scroll_down_to_fp m1)
     else Some (Ok (), m))"

partial_function (option) scroll_up_to_fp :: "Machine \<Rightarrow> (unit outcome \<times> Machine) option" where
  "scroll_up_to_fp m = (if FP m > StackCacheLimit m then
       (case StackCacheScrollUp m of
          None \<Rightarrow> None
        | Some (Longjmp v, m1) \<Rightarrow> Some (Longjmp v, m1)
        | Some (Exit, m1) \<Rightarrow> Some (Exit, m1)
        | Some (Ok _, m1) \<Rightarrow> scroll_up_to_fp m1)
     else Some (Ok (), m))"

text \<open>The slot of an address; an address below the cache wraps to a slot far above it.\<close>

definition address_slot :: "Machine \<Rightarrow> Integer \<Rightarrow> int" where
  "address_slot m a = uint (a - StackCacheBase m)"

definition WriteInternalRegister :: "int \<Rightarrow> LispObj \<Rightarrow> bool em" where
  "WriteInternalRegister r x = (\<lambda>m.
     if r = InternalRegisterFP then bind_em scroll_down_to_fp (\<lambda>_. bind_em scroll_up_to_fp (\<lambda>_. ret True))
       (m\<lparr>FP := address_slot m (DATA x)\<rparr>)
     else if r = InternalRegisterSP then ret True (m\<lparr>SP := address_slot m (DATA x)\<rparr>)
     else if r = InternalRegisterLP then ret True (m\<lparr>LP := address_slot m (DATA x)\<rparr>)
     else if bar_register r then ret True (m\<lparr>bar_address := (bar_address m)(bar_number r := x)\<rparr>)
     else if r = InternalRegisterContinuation then ret True (m\<lparr>continuation := x\<rparr>)
     else if r = InternalRegisterControlRegister then ret True (m\<lparr>control := DATA x\<rparr>)
     else ret False m)"

end
