(* ===== verification/Ivory_Sequencer.thy ===== *)
theory Ivory_Sequencer
  imports Ivory_Decode Ivory_Startup
begin

text \<open>
  The instruction sequencer of the portable emulator (\<^verbatim>\<open>src/c-emulator/emulator.c\<close>,
  \<^verbatim>\<open>InstructionSequencer\<close>): its switch over the dispatch codes, and one turn of its loop, from the
  dispatch of an instruction or the lookup of its line to the next one. Sequence breaks, which other
  threads ask for, are not part of the model.
\<close>

section \<open>The switch\<close>

text \<open>
  What an instruction sees besides the machine: the microsecond clock, the value of a result that the
  code leaves undefined, the slot that the address of \<^verbatim>\<open>immediate\<close> stands for, and the memory behind
  the table of memory actions.
\<close>

record Outside =
  clock_now :: Integer
  stale_result :: Integer
  stray_slot :: int
  beyond_table :: "nat \<Rightarrow> byte"

text \<open>
  An entry of the switch: where it makes \<^verbatim>\<open>op2\<close> point to, if it does, and its effect on the machine and
  the registers of the virtual memory commands.
\<close>

type_synonym pointer = "InstructionCacheLine \<Rightarrow> Machine \<Rightarrow> operand"
type_synonym effect = "Outside \<Rightarrow> VMState \<Rightarrow> InstructionCacheLine \<Rightarrow> (label \<times> VMState) em"
type_synonym entry = "pointer option \<times> effect"

definition keep_vm :: "(InstructionCacheLine \<Rightarrow> label em) \<Rightarrow> effect" where
  "keep_vm f e vm cp = bind_em (f cp) (\<lambda>l. ret (l, vm))"

definition operand_at :: "address_mode \<Rightarrow> pointer" where
  "operand_at mode cp m = fst (address mode (line_operand cp) m)"

text \<open>The operand is addressed, or it is not and the code of the entry is in line.\<close>

definition via :: "address_mode \<Rightarrow> (address_mode \<Rightarrow> int \<Rightarrow> label em) \<Rightarrow> entry" where
  "via mode f = (Some (operand_at mode), keep_vm (\<lambda>cp. f mode (line_operand cp)))"

definition inline :: "address_mode \<Rightarrow> (address_mode \<Rightarrow> int \<Rightarrow> label em) \<Rightarrow> entry" where
  "inline mode f = (None, keep_vm (\<lambda>cp. f mode (line_operand cp)))"

definition via_line :: "address_mode \<Rightarrow> (Integer \<Rightarrow> address_mode \<Rightarrow> int \<Rightarrow> label em) \<Rightarrow> entry" where
  "via_line mode f = (Some (operand_at mode), keep_vm (\<lambda>cp. f (instruction cp) mode (line_operand cp)))"

definition inline_line :: "address_mode \<Rightarrow> (Integer \<Rightarrow> address_mode \<Rightarrow> int \<Rightarrow> label em) \<Rightarrow> entry" where
  "inline_line mode f = (None, keep_vm (\<lambda>cp. f (instruction cp) mode (line_operand cp)))"

definition plain :: "(int \<Rightarrow> label em) \<Rightarrow> entry" where
  "plain f = (None, keep_vm (\<lambda>cp. f (line_operand cp)))"

definition on_line :: "(InstructionCacheLine \<Rightarrow> label em) \<Rightarrow> entry" where
  "on_line f = (None, keep_vm f)"

definition unimplemented_entry :: entry where
  "unimplemented_entry = plain (\<lambda>_. stop UnimplementedInstruction)"

definition via_alu :: "address_mode \<Rightarrow> entry" where
  "via_alu mode = (Some (operand_at mode),
     \<lambda>e vm cp. keep_vm (\<lambda>cp. ExecuteAlu (stale_result e) mode (line_operand cp)) e vm cp)"

text \<open>The block transfers move \<^verbatim>\<open>op2\<close>: to the slot it addresses, and past the words transferred.\<close>

definition blt_operand :: "int \<Rightarrow> Machine \<Rightarrow> operand" where
  "blt_operand op2 m = (let op1 = uint (DATA (TOS m) - StackCacheBase m) in
     if \<not> TypeEqualP (TAG (TOS m)) TypeLocative \<or> op1 > op2 \<or> op1 < FP m \<or> op2 \<ge> SP m then Slot op2 else Slot (SP m))"

definition via_blt_address :: "address_mode \<Rightarrow> entry" where
  "via_blt_address mode = (Some (\<lambda>cp m. case address mode (line_operand cp) m of (op2, m1) \<Rightarrow> blt_operand (op_slot op2) m1),
     keep_vm (\<lambda>cp. ExecuteStackBltAddress mode (line_operand cp)))"

definition via_blt :: "address_mode \<Rightarrow> entry" where
  "via_blt mode = (Some (\<lambda>cp m. case address mode (line_operand cp) m of (op2, m1) \<Rightarrow>
       if TypeEqualP (TAG (op_read m1 op2)) TypeLocative
       then blt_operand (uint (DATA (op_read m1 op2) - StackCacheBase m1)) m1 else op2),
     keep_vm (\<lambda>cp. ExecuteStackBlt mode (line_operand cp)))"

definition read_register :: entry where
  "read_register = (None, \<lambda>e vm cp. keep_vm (\<lambda>cp. DispatchReadInternalRegister (clock_now e) (line_operand cp)) e vm cp)"

definition read_coprocessor :: entry where
  "read_coprocessor = (None, \<lambda>e vm cp. keep_vm (\<lambda>cp. DispatchCoprocessorRead (clock_now e) vm (line_operand cp)) e vm cp)"

definition write_coprocessor :: entry where
  "write_coprocessor = (None, \<lambda>e vm cp. DispatchCoprocessorWrite (beyond_table e) vm (line_operand cp))"

definition Instructions :: "(nat \<times> entry) list" where
  "Instructions = [
   (CodeIllegalInstruction, unimplemented_entry), (CodeBranch, plain take_branch), (CodeCarSP, via ModeSP ExecuteCar),
   (CodeCarFP, via ModeFP ExecuteCar), (CodeCarLP, via ModeLP ExecuteCar), (CodeCarPop, via ModePop ExecuteCar),
   (CodeCdrSP, via ModeSP ExecuteCdr), (CodeCdrFP, via ModeFP ExecuteCdr), (CodeCdrLP, via ModeLP ExecuteCdr),
   (CodeCdrPop, via ModePop ExecuteCdr), (CodeSetToCarSP, via ModeSP ExecuteSetToCar),
   (CodeSetToCarFP, via ModeFP ExecuteSetToCar), (CodeSetToCarLP, via ModeLP ExecuteSetToCar),
   (CodeSetToCdrSP, via ModeSP ExecuteSetToCdr), (CodeSetToCdrFP, via ModeFP ExecuteSetToCdr),
   (CodeSetToCdrLP, via ModeLP ExecuteSetToCdr), (CodeSetToCdrPushCarSP, via ModeSP ExecuteSetToCdrPushCar),
   (CodeSetToCdrPushCarFP, via ModeFP ExecuteSetToCdrPushCar),
   (CodeSetToCdrPushCarLP, via ModeLP ExecuteSetToCdrPushCar), (CodeRplacaImmediate, via ModeImmediate ExecuteRplaca),
   (CodeRplacaSP, via ModeSP ExecuteRplaca), (CodeRplacaFP, via ModeFP ExecuteRplaca),
   (CodeRplacaLP, via ModeLP ExecuteRplaca), (CodeRplacaPop, via ModePop ExecuteRplaca),
   (CodeRplacdImmediate, via ModeImmediate ExecuteRplacd), (CodeRplacdSP, via ModeSP ExecuteRplacd),
   (CodeRplacdFP, via ModeFP ExecuteRplacd), (CodeRplacdLP, via ModeLP ExecuteRplacd),
   (CodeRplacdPop, via ModePop ExecuteRplacd), (CodeRgetfSP, via ModeSP ExecuteRgetf),
   (CodeRgetfFP, via ModeFP ExecuteRgetf), (CodeRgetfLP, via ModeLP ExecuteRgetf),
   (CodeRgetfPop, via ModePop ExecuteRgetf), (CodeMemberSP, via ModeSP ExecuteMember),
   (CodeMemberFP, via ModeFP ExecuteMember), (CodeMemberLP, via ModeLP ExecuteMember),
   (CodeMemberPop, via ModePop ExecuteMember), (CodeAssocSP, via ModeSP ExecuteAssoc),
   (CodeAssocFP, via ModeFP ExecuteAssoc), (CodeAssocLP, via ModeLP ExecuteAssoc),
   (CodeAssocPop, via ModePop ExecuteAssoc), (CodeEqImmediate, inline ModeImmediate ExecuteEq),
   (CodeEqSP, via ModeSP ExecuteEq), (CodeEqFP, via ModeFP ExecuteEq), (CodeEqLP, via ModeLP ExecuteEq),
   (CodeEqPop, via ModePop ExecuteEq), (CodeEqNoPopImmediate, inline ModeImmediate ExecuteEqNoPop),
   (CodeEqNoPopSP, via ModeSP ExecuteEqNoPop), (CodeEqNoPopFP, via ModeFP ExecuteEqNoPop),
   (CodeEqNoPopLP, via ModeLP ExecuteEqNoPop), (CodeEqNoPopPop, via ModePop ExecuteEqNoPop),
   (CodeEqlImmediate, inline ModeImmediate ExecuteEql), (CodeEqlSP, via ModeSP ExecuteEql),
   (CodeEqlFP, via ModeFP ExecuteEql), (CodeEqlLP, via ModeLP ExecuteEql), (CodeEqlPop, via ModePop ExecuteEql),
   (CodeEqlNoPopImmediate, inline ModeImmediate ExecuteEqlNoPop), (CodeEqlNoPopSP, via ModeSP ExecuteEqlNoPop),
   (CodeEqlNoPopFP, via ModeFP ExecuteEqlNoPop), (CodeEqlNoPopLP, via ModeLP ExecuteEqlNoPop),
   (CodeEqlNoPopPop, via ModePop ExecuteEqlNoPop), (CodeEqualNumberImmediate, inline ModeImmediate ExecuteEqualNumber),
   (CodeEqualNumberSP, via ModeSP ExecuteEqualNumber), (CodeEqualNumberFP, via ModeFP ExecuteEqualNumber),
   (CodeEqualNumberLP, via ModeLP ExecuteEqualNumber), (CodeEqualNumberPop, via ModePop ExecuteEqualNumber),
   (CodeEqualNumberNoPopImmediate, inline ModeImmediate ExecuteEqualNumberNoPop),
   (CodeEqualNumberNoPopSP, via ModeSP ExecuteEqualNumberNoPop),
   (CodeEqualNumberNoPopFP, via ModeFP ExecuteEqualNumberNoPop),
   (CodeEqualNumberNoPopLP, via ModeLP ExecuteEqualNumberNoPop),
   (CodeEqualNumberNoPopPop, via ModePop ExecuteEqualNumberNoPop),
   (CodeGreaterpImmediate, via ModeImmediate ExecuteGreaterp), (CodeGreaterpSP, via ModeSP ExecuteGreaterp),
   (CodeGreaterpFP, via ModeFP ExecuteGreaterp), (CodeGreaterpLP, via ModeLP ExecuteGreaterp),
   (CodeGreaterpPop, via ModePop ExecuteGreaterp),
   (CodeGreaterpNoPopImmediate, via ModeImmediate ExecuteGreaterpNoPop),
   (CodeGreaterpNoPopSP, via ModeSP ExecuteGreaterpNoPop), (CodeGreaterpNoPopFP, via ModeFP ExecuteGreaterpNoPop),
   (CodeGreaterpNoPopLP, via ModeLP ExecuteGreaterpNoPop), (CodeGreaterpNoPopPop, via ModePop ExecuteGreaterpNoPop),
   (CodeLesspImmediate, via ModeImmediate ExecuteLessp), (CodeLesspSP, via ModeSP ExecuteLessp),
   (CodeLesspFP, via ModeFP ExecuteLessp), (CodeLesspLP, via ModeLP ExecuteLessp),
   (CodeLesspPop, via ModePop ExecuteLessp), (CodeLesspNoPopImmediate, via ModeImmediate ExecuteLesspNoPop),
   (CodeLesspNoPopSP, via ModeSP ExecuteLesspNoPop), (CodeLesspNoPopFP, via ModeFP ExecuteLesspNoPop),
   (CodeLesspNoPopLP, via ModeLP ExecuteLesspNoPop), (CodeLesspNoPopPop, via ModePop ExecuteLesspNoPop),
   (CodeLogtestImmediate, via ModeImmediate ExecuteLogtest), (CodeLogtestSP, via ModeSP ExecuteLogtest),
   (CodeLogtestFP, via ModeFP ExecuteLogtest), (CodeLogtestLP, via ModeLP ExecuteLogtest),
   (CodeLogtestPop, via ModePop ExecuteLogtest), (CodeLogtestNoPopImmediate, via ModeImmediate ExecuteLogtestNoPop),
   (CodeLogtestNoPopSP, via ModeSP ExecuteLogtestNoPop), (CodeLogtestNoPopFP, via ModeFP ExecuteLogtestNoPop),
   (CodeLogtestNoPopLP, via ModeLP ExecuteLogtestNoPop), (CodeLogtestNoPopPop, via ModePop ExecuteLogtestNoPop),
   (CodeTypeMember, plain ExecuteTypeMember), (CodeTypeMemberNoPop, plain ExecuteTypeMemberNoPop),
   (CodeEndpImmediate, inline ModeImmediate ExecuteEndp), (CodeEndpSP, via ModeSP ExecuteEndp),
   (CodeEndpFP, via ModeFP ExecuteEndp), (CodeEndpLP, via ModeLP ExecuteEndp), (CodeEndpPop, via ModePop ExecuteEndp),
   (CodePluspImmediate, inline ModeImmediate ExecutePlusp), (CodePluspSP, via ModeSP ExecutePlusp),
   (CodePluspFP, via ModeFP ExecutePlusp), (CodePluspLP, via ModeLP ExecutePlusp),
   (CodePluspPop, via ModePop ExecutePlusp), (CodeMinuspImmediate, inline ModeImmediate ExecuteMinusp),
   (CodeMinuspSP, via ModeSP ExecuteMinusp), (CodeMinuspFP, via ModeFP ExecuteMinusp),
   (CodeMinuspLP, via ModeLP ExecuteMinusp), (CodeMinuspPop, via ModePop ExecuteMinusp),
   (CodeZeropImmediate, inline ModeImmediate ExecuteZerop), (CodeZeropSP, via ModeSP ExecuteZerop),
   (CodeZeropFP, via ModeFP ExecuteZerop), (CodeZeropLP, via ModeLP ExecuteZerop),
   (CodeZeropPop, via ModePop ExecuteZerop), (CodeAddImmediate, via ModeImmediate ExecuteAdd),
   (CodeAddSP, via ModeSP ExecuteAdd), (CodeAddFP, via ModeFP ExecuteAdd), (CodeAddLP, via ModeLP ExecuteAdd),
   (CodeAddPop, via ModePop ExecuteAdd), (CodeSubImmediate, via ModeImmediate ExecuteSub),
   (CodeSubSP, via ModeSP ExecuteSub), (CodeSubFP, via ModeFP ExecuteSub), (CodeSubLP, via ModeLP ExecuteSub),
   (CodeSubPop, via ModePop ExecuteSub), (CodeUnaryMinusImmediate, inline ModeImmediate ExecuteUnaryMinus),
   (CodeUnaryMinusSP, via ModeSP ExecuteUnaryMinus), (CodeUnaryMinusFP, via ModeFP ExecuteUnaryMinus),
   (CodeUnaryMinusLP, via ModeLP ExecuteUnaryMinus), (CodeUnaryMinusPop, via ModePop ExecuteUnaryMinus),
   (CodeIncrementSP, via ModeSP ExecuteIncrement), (CodeIncrementFP, via ModeFP ExecuteIncrement),
   (CodeIncrementLP, via ModeLP ExecuteIncrement), (CodeDecrementSP, via ModeSP ExecuteDecrement),
   (CodeDecrementFP, via ModeFP ExecuteDecrement), (CodeDecrementLP, via ModeLP ExecuteDecrement),
   (CodeMultiplyImmediate, via ModeImmediate ExecuteMultiply), (CodeMultiplySP, via ModeSP ExecuteMultiply),
   (CodeMultiplyFP, via ModeFP ExecuteMultiply), (CodeMultiplyLP, via ModeLP ExecuteMultiply),
   (CodeMultiplyPop, via ModePop ExecuteMultiply), (CodeQuotientImmediate, via ModeImmediate ExecuteQuotient),
   (CodeQuotientSP, via ModeSP ExecuteQuotient), (CodeQuotientFP, via ModeFP ExecuteQuotient),
   (CodeQuotientLP, via ModeLP ExecuteQuotient), (CodeQuotientPop, via ModePop ExecuteQuotient),
   (CodeFloorImmediate, via ModeImmediate ExecuteFloor), (CodeFloorSP, via ModeSP ExecuteFloor),
   (CodeFloorFP, via ModeFP ExecuteFloor), (CodeFloorLP, via ModeLP ExecuteFloor),
   (CodeFloorPop, via ModePop ExecuteFloor), (CodeCeilingImmediate, via ModeImmediate ExecuteCeiling),
   (CodeCeilingSP, via ModeSP ExecuteCeiling), (CodeCeilingFP, via ModeFP ExecuteCeiling),
   (CodeCeilingLP, via ModeLP ExecuteCeiling), (CodeCeilingPop, via ModePop ExecuteCeiling),
   (CodeTruncateImmediate, via ModeImmediate ExecuteTruncate), (CodeTruncateSP, via ModeSP ExecuteTruncate),
   (CodeTruncateFP, via ModeFP ExecuteTruncate), (CodeTruncateLP, via ModeLP ExecuteTruncate),
   (CodeTruncatePop, via ModePop ExecuteTruncate), (CodeRoundImmediate, via ModeImmediate ExecuteRound),
   (CodeRoundSP, via ModeSP ExecuteRound), (CodeRoundFP, via ModeFP ExecuteRound),
   (CodeRoundLP, via ModeLP ExecuteRound), (CodeRoundPop, via ModePop ExecuteRound),
   (CodeRationalQuotientImmediate, via ModeImmediate ExecuteRationalQuotient),
   (CodeRationalQuotientSP, via ModeSP ExecuteRationalQuotient),
   (CodeRationalQuotientFP, via ModeFP ExecuteRationalQuotient),
   (CodeRationalQuotientLP, via ModeLP ExecuteRationalQuotient),
   (CodeRationalQuotientPop, via ModePop ExecuteRationalQuotient), (CodeMaxImmediate, via ModeImmediate ExecuteMax),
   (CodeMaxSP, via ModeSP ExecuteMax), (CodeMaxFP, via ModeFP ExecuteMax), (CodeMaxLP, via ModeLP ExecuteMax),
   (CodeMaxPop, via ModePop ExecuteMax), (CodeMinImmediate, via ModeImmediate ExecuteMin),
   (CodeMinSP, via ModeSP ExecuteMin), (CodeMinFP, via ModeFP ExecuteMin), (CodeMinLP, via ModeLP ExecuteMin),
   (CodeMinPop, via ModePop ExecuteMin), (CodeLogandImmediate, via ModeImmediate ExecuteLogand),
   (CodeLogandSP, via ModeSP ExecuteLogand), (CodeLogandFP, via ModeFP ExecuteLogand),
   (CodeLogandLP, via ModeLP ExecuteLogand), (CodeLogandPop, via ModePop ExecuteLogand),
   (CodeLogiorImmediate, via ModeImmediate ExecuteLogior), (CodeLogiorSP, via ModeSP ExecuteLogior),
   (CodeLogiorFP, via ModeFP ExecuteLogior), (CodeLogiorLP, via ModeLP ExecuteLogior),
   (CodeLogiorPop, via ModePop ExecuteLogior), (CodeLogxorImmediate, via ModeImmediate ExecuteLogxor),
   (CodeLogxorSP, via ModeSP ExecuteLogxor), (CodeLogxorFP, via ModeFP ExecuteLogxor),
   (CodeLogxorLP, via ModeLP ExecuteLogxor), (CodeLogxorPop, via ModePop ExecuteLogxor),
   (CodeAshImmediate, via ModeImmediate ExecuteAsh), (CodeAshSP, via ModeSP ExecuteAsh),
   (CodeAshFP, via ModeFP ExecuteAsh), (CodeAshLP, via ModeLP ExecuteAsh), (CodeAshPop, via ModePop ExecuteAsh),
   (CodeLshImmediate, via ModeImmediate ExecuteLsh), (CodeLshSP, via ModeSP ExecuteLsh),
   (CodeLshFP, via ModeFP ExecuteLsh), (CodeLshLP, via ModeLP ExecuteLsh), (CodeLshPop, via ModePop ExecuteLsh),
   (CodeRotImmediate, via ModeImmediate ExecuteRot), (CodeRotSP, via ModeSP ExecuteRot),
   (CodeRotFP, via ModeFP ExecuteRot), (CodeRotLP, via ModeLP ExecuteRot), (CodeRotPop, via ModePop ExecuteRot),
   (Code32BitPlusImmediate, inline ModeImmediate Execute32BitPlus), (Code32BitPlusSP, via ModeSP Execute32BitPlus),
   (Code32BitPlusFP, via ModeFP Execute32BitPlus), (Code32BitPlusLP, via ModeLP Execute32BitPlus),
   (Code32BitPlusPop, via ModePop Execute32BitPlus),
   (Code32BitDifferenceImmediate, inline ModeImmediate Execute32BitDifference),
   (Code32BitDifferenceSP, via ModeSP Execute32BitDifference),
   (Code32BitDifferenceFP, via ModeFP Execute32BitDifference),
   (Code32BitDifferenceLP, via ModeLP Execute32BitDifference),
   (Code32BitDifferencePop, via ModePop Execute32BitDifference),
   (CodeMultiplyDoubleImmediate, via ModeImmediate ExecuteMultiplyDouble),
   (CodeMultiplyDoubleSP, via ModeSP ExecuteMultiplyDouble), (CodeMultiplyDoubleFP, via ModeFP ExecuteMultiplyDouble),
   (CodeMultiplyDoubleLP, via ModeLP ExecuteMultiplyDouble),
   (CodeMultiplyDoublePop, via ModePop ExecuteMultiplyDouble),
   (CodeAddBignumStepImmediate, via ModeImmediate ExecuteAddBignumStep),
   (CodeAddBignumStepSP, via ModeSP ExecuteAddBignumStep), (CodeAddBignumStepFP, via ModeFP ExecuteAddBignumStep),
   (CodeAddBignumStepLP, via ModeLP ExecuteAddBignumStep), (CodeAddBignumStepPop, via ModePop ExecuteAddBignumStep),
   (CodeSubBignumStepImmediate, via ModeImmediate ExecuteSubBignumStep),
   (CodeSubBignumStepSP, via ModeSP ExecuteSubBignumStep), (CodeSubBignumStepFP, via ModeFP ExecuteSubBignumStep),
   (CodeSubBignumStepLP, via ModeLP ExecuteSubBignumStep), (CodeSubBignumStepPop, via ModePop ExecuteSubBignumStep),
   (CodeMultiplyBignumStepImmediate, via ModeImmediate ExecuteMultiplyBignumStep),
   (CodeMultiplyBignumStepSP, via ModeSP ExecuteMultiplyBignumStep),
   (CodeMultiplyBignumStepFP, via ModeFP ExecuteMultiplyBignumStep),
   (CodeMultiplyBignumStepLP, via ModeLP ExecuteMultiplyBignumStep),
   (CodeMultiplyBignumStepPop, via ModePop ExecuteMultiplyBignumStep),
   (CodeDivideBignumStepImmediate, via ModeImmediate ExecuteDivideBignumStep),
   (CodeDivideBignumStepSP, via ModeSP ExecuteDivideBignumStep),
   (CodeDivideBignumStepFP, via ModeFP ExecuteDivideBignumStep),
   (CodeDivideBignumStepLP, via ModeLP ExecuteDivideBignumStep),
   (CodeDivideBignumStepPop, via ModePop ExecuteDivideBignumStep),
   (CodeLshcBignumStepImmediate, via ModeImmediate ExecuteLshcBignumStep),
   (CodeLshcBignumStepSP, via ModeSP ExecuteLshcBignumStep), (CodeLshcBignumStepFP, via ModeFP ExecuteLshcBignumStep),
   (CodeLshcBignumStepLP, via ModeLP ExecuteLshcBignumStep),
   (CodeLshcBignumStepPop, via ModePop ExecuteLshcBignumStep), (CodePushImmediate, inline ModeImmediate ExecutePush),
   (CodePushPop, inline ModePop ExecutePush), (CodePushSP, via ModeSP ExecutePush),
   (CodePushLP, via ModeLP ExecutePush), (CodePushFP, via ModeFP ExecutePush), (CodePopSP, via ModeSP ExecutePop),
   (CodePopFP, via ModeFP ExecutePop), (CodePopLP, via ModeLP ExecutePop), (CodeMovemPop, inline ModePop ExecuteMovem),
   (CodeMovemSP, via ModeSP ExecuteMovem), (CodeMovemFP, via ModeFP ExecuteMovem),
   (CodeMovemLP, via ModeLP ExecuteMovem), (CodePushNNils, plain (\<lambda>operand. ExecutePushNNils (nat operand))),
   (CodePushAddressSP, via ModeSP ExecutePushAddress), (CodePushAddressFP, via ModeFP ExecutePushAddress),
   (CodePushAddressLP, via ModeLP ExecutePushAddress), (CodeSetSpToAddressSP, via ModeSP ExecuteSetSpToAddress),
   (CodeSetSpToAddressFP, via ModeFP ExecuteSetSpToAddress), (CodeSetSpToAddressLP, via ModeLP ExecuteSetSpToAddress),
   (CodeSetSpToAddressSaveTosSP, via ModeSP ExecuteSetSpToAddressSaveTos),
   (CodeSetSpToAddressSaveTosFP, via ModeFP ExecuteSetSpToAddressSaveTos),
   (CodeSetSpToAddressSaveTosLP, via ModeLP ExecuteSetSpToAddressSaveTos),
   (CodePushAddressSpRelativeImmediate, inline ModeImmediate ExecutePushAddressSpRelative),
   (CodePushAddressSpRelativeSP, via ModeSP ExecutePushAddressSpRelative),
   (CodePushAddressSpRelativeFP, via ModeFP ExecutePushAddressSpRelative),
   (CodePushAddressSpRelativeLP, via ModeLP ExecutePushAddressSpRelative),
   (CodePushAddressSpRelativePop, via ModePop ExecutePushAddressSpRelative), (CodeStackBltSP, via_blt ModeSP),
   (CodeStackBltFP, via_blt ModeFP), (CodeStackBltLP, via_blt ModeLP), (CodeStackBltPop, via_blt ModePop),
   (CodeStackBltAddressSP, via_blt_address ModeSP), (CodeStackBltAddressFP, via_blt_address ModeFP),
   (CodeStackBltAddressLP, via_blt_address ModeLP), (CodeStackBltAddressPop, via_blt_address ModePop),
   (CodeLdb, plain ExecuteLdb), (CodeCharLdb, plain ExecuteCharLdb), (CodePLdb, plain ExecutePLdb),
   (CodePTagLdb, plain ExecutePTagLdb), (CodeDpb, plain ExecuteDpb), (CodeCharDpb, plain ExecuteCharDpb),
   (CodePDpb, plain ExecutePDpb), (CodePTagDpb, plain ExecutePTagDpb),
   (CodeAref1Immediate, via ModeImmediate ExecuteAref1), (CodeAref1SP, via ModeSP ExecuteAref1),
   (CodeAref1FP, via ModeFP ExecuteAref1), (CodeAref1LP, via ModeLP ExecuteAref1),
   (CodeAref1Pop, via ModePop ExecuteAref1), (CodeAset1Immediate, via ModeImmediate ExecuteAset1),
   (CodeAset1SP, via ModeSP ExecuteAset1), (CodeAset1FP, via ModeFP ExecuteAset1),
   (CodeAset1LP, via ModeLP ExecuteAset1), (CodeAset1Pop, via ModePop ExecuteAset1),
   (CodeAloc1Immediate, via ModeImmediate ExecuteAloc1), (CodeAloc1SP, via ModeSP ExecuteAloc1),
   (CodeAloc1FP, via ModeFP ExecuteAloc1), (CodeAloc1LP, via ModeLP ExecuteAloc1),
   (CodeAloc1Pop, via ModePop ExecuteAloc1), (CodeSetup1dArrayImmediate, inline ModeImmediate ExecuteSetup1dArray),
   (CodeSetup1dArraySP, via ModeSP ExecuteSetup1dArray), (CodeSetup1dArrayFP, via ModeFP ExecuteSetup1dArray),
   (CodeSetup1dArrayLP, via ModeLP ExecuteSetup1dArray), (CodeSetup1dArrayPop, via ModePop ExecuteSetup1dArray),
   (CodeSetupForce1dArrayImmediate, unimplemented_entry), (CodeSetupForce1dArraySP, via ModeSP ExecuteSetup1dArray),
   (CodeSetupForce1dArrayFP, via ModeFP ExecuteSetup1dArray),
   (CodeSetupForce1dArrayLP, via ModeLP ExecuteSetup1dArray),
   (CodeSetupForce1dArrayPop, via ModePop ExecuteSetup1dArray), (CodeFastAref1SP, via ModeSP ExecuteFastAref1),
   (CodeFastAref1FP, via ModeFP ExecuteFastAref1), (CodeFastAref1LP, via ModeLP ExecuteFastAref1),
   (CodeFastAset1SP, via ModeSP ExecuteFastAset1), (CodeFastAset1FP, via ModeFP ExecuteFastAset1),
   (CodeFastAset1LP, via ModeLP ExecuteFastAset1), (CodeArrayLeaderImmediate, via ModeImmediate ExecuteArrayLeader),
   (CodeArrayLeaderSP, via ModeSP ExecuteArrayLeader), (CodeArrayLeaderFP, via ModeFP ExecuteArrayLeader),
   (CodeArrayLeaderLP, via ModeLP ExecuteArrayLeader), (CodeArrayLeaderPop, via ModePop ExecuteArrayLeader),
   (CodeStoreArrayLeaderImmediate, via ModeImmediate ExecuteStoreArrayLeader),
   (CodeStoreArrayLeaderSP, via ModeSP ExecuteStoreArrayLeader),
   (CodeStoreArrayLeaderFP, via ModeFP ExecuteStoreArrayLeader),
   (CodeStoreArrayLeaderLP, via ModeLP ExecuteStoreArrayLeader),
   (CodeStoreArrayLeaderPop, via ModePop ExecuteStoreArrayLeader),
   (CodeAlocLeaderImmediate, via ModeImmediate ExecuteAlocLeader), (CodeAlocLeaderSP, via ModeSP ExecuteAlocLeader),
   (CodeAlocLeaderFP, via ModeFP ExecuteAlocLeader), (CodeAlocLeaderLP, via ModeLP ExecuteAlocLeader),
   (CodeAlocLeaderPop, via ModePop ExecuteAlocLeader), (CodeBranchTrue, plain (ExecuteBranchTrue PlainBranch)),
   (CodeBranchTrueElseExtraPop, plain (ExecuteBranchTrue ElseExtraPop)),
   (CodeBranchTrueAndExtraPop, plain (ExecuteBranchTrue AndExtraPop)),
   (CodeBranchTrueExtraPop, plain (ExecuteBranchTrue ExtraPop)),
   (CodeBranchTrueNoPop, plain (ExecuteBranchTrue NoPop)),
   (CodeBranchTrueAndNoPop, plain (ExecuteBranchTrue AndNoPop)),
   (CodeBranchTrueElseNoPop, plain (ExecuteBranchTrue ElseNoPop)),
   (CodeBranchTrueAndNoPopElseNoPopExtraPop, plain (ExecuteBranchTrue AndNoPopElseNoPopExtraPop)),
   (CodeBranchFalse, plain (ExecuteBranchFalse PlainBranch)),
   (CodeBranchFalseElseExtraPop, plain (ExecuteBranchFalse ElseExtraPop)),
   (CodeBranchFalseAndExtraPop, plain (ExecuteBranchFalse AndExtraPop)),
   (CodeBranchFalseExtraPop, plain (ExecuteBranchFalse ExtraPop)),
   (CodeBranchFalseNoPop, plain (ExecuteBranchFalse NoPop)),
   (CodeBranchFalseAndNoPop, plain (ExecuteBranchFalse AndNoPop)),
   (CodeBranchFalseElseNoPop, plain (ExecuteBranchFalse ElseNoPop)),
   (CodeBranchFalseAndNoPopElseNoPopExtraPop, plain (ExecuteBranchFalse AndNoPopElseNoPopExtraPop)),
   (CodeLoopDecrementTos, plain DispatchLoopDecrementTos),
   (CodeLoopIncrementTosLessThan, (Some (\<lambda>cp m. Slot (SP m - 1)), keep_vm (\<lambda>cp. DispatchLoopIncrementTosLessThan (line_operand cp)))),
   (CodeBlock1Read, plain (ExecuteBlockRead 1)), (CodeBlock2Read, plain (ExecuteBlockRead 2)),
   (CodeBlock3Read, plain (ExecuteBlockRead 3)), (CodeBlock1ReadShift, unimplemented_entry),
   (CodeBlock2ReadShift, unimplemented_entry), (CodeBlock3ReadShift, unimplemented_entry),
   (CodeBlock1ReadTest, unimplemented_entry), (CodeBlock2ReadTest, unimplemented_entry),
   (CodeBlock3ReadTest, unimplemented_entry), (CodeBlock1ReadAluSP, via ModeSP ExecuteBlockReadAlu),
   (CodeBlock1ReadAluFP, via ModeFP ExecuteBlockReadAlu), (CodeBlock1ReadAluLP, via ModeLP ExecuteBlockReadAlu),
   (CodeBlock2ReadAluSP, via ModeSP ExecuteBlockReadAlu), (CodeBlock2ReadAluFP, via ModeFP ExecuteBlockReadAlu),
   (CodeBlock2ReadAluLP, via ModeLP ExecuteBlockReadAlu), (CodeBlock3ReadAluSP, via ModeSP ExecuteBlockReadAlu),
   (CodeBlock3ReadAluFP, via ModeFP ExecuteBlockReadAlu), (CodeBlock3ReadAluLP, via ModeLP ExecuteBlockReadAlu),
   (CodeBlock1WriteImmediate, via ModeImmediate (ExecuteBlockWrite 1)),
   (CodeBlock2WriteImmediate, via ModeImmediate (ExecuteBlockWrite 2)),
   (CodeBlock3WriteImmediate, via ModeImmediate (ExecuteBlockWrite 3)),
   (CodeBlock1WriteSP, via ModeSP (ExecuteBlockWrite 1)), (CodeBlock1WriteFP, via ModeFP (ExecuteBlockWrite 1)),
   (CodeBlock1WriteLP, via ModeLP (ExecuteBlockWrite 1)), (CodeBlock1WritePop, via ModePop (ExecuteBlockWrite 1)),
   (CodeBlock2WriteSP, via ModeSP (ExecuteBlockWrite 2)), (CodeBlock2WriteFP, via ModeFP (ExecuteBlockWrite 2)),
   (CodeBlock2WriteLP, via ModeLP (ExecuteBlockWrite 2)), (CodeBlock2WritePop, via ModePop (ExecuteBlockWrite 2)),
   (CodeBlock3WriteSP, via ModeSP (ExecuteBlockWrite 3)), (CodeBlock3WriteFP, via ModeFP (ExecuteBlockWrite 3)),
   (CodeBlock3WriteLP, via ModeLP (ExecuteBlockWrite 3)), (CodeBlock3WritePop, via ModePop (ExecuteBlockWrite 3)),
   (CodeStartCallSP, via ModeSP ExecuteStartCall), (CodeStartCallFP, via ModeFP ExecuteStartCall),
   (CodeStartCallLP, via ModeLP ExecuteStartCall), (CodeStartCallPop, via ModePop ExecuteStartCall),
   (CodeCallCompiledEven, plain DispatchCallCompiledEven),
   (CodeCallCompiledEvenPrefetch, plain DispatchCallCompiledEven),
   (CodeCallCompiledOdd, plain DispatchCallCompiledOdd), (CodeCallCompiledOddPrefetch, plain DispatchCallCompiledOdd),
   (CodeCallGeneric, plain DispatchCallGeneric), (CodeCallGenericPrefetch, plain DispatchCallGeneric),
   (CodeCallIndirect, plain DispatchCallIndirect), (CodeCallIndirectPrefetch, plain DispatchCallIndirect),
   (CodeFinishCallN, (Some (\<lambda>cp m. Slot (SP m + 1)), keep_vm DispatchFinishCallN)),
   (CodeFinishCallNApply, (Some (\<lambda>cp m. Slot (SP m)), keep_vm DispatchFinishCallNApply)),
   (CodeFinishCallTos, (Some (\<lambda>cp m. Slot (SP m)), keep_vm DispatchFinishCallTos)),
   (CodeFinishCallTosApply, (Some (\<lambda>cp m. Slot (SP m - 1)), keep_vm DispatchFinishCallTosApply)),
   (CodeEntryRestAccepted, plain DispatchEntryRestAccepted),
   (CodeEntryRestNotAccepted, plain DispatchEntryRestNotAccepted),
   (CodeLocateLocals, plain (\<lambda>_. DispatchLocateLocals)),
   (CodeReturnSingleTOS, plain (\<lambda>_. DispatchReturnSingleTOS)),
   (CodeReturnSingleNIL, plain (\<lambda>_. DispatchReturnSingleNIL)),
   (CodeReturnSingleT, plain (\<lambda>_. DispatchReturnSingleT)),
   (CodeReturnMultipleImmediate, via ModeImmediate ExecuteReturnMultiple),
   (CodeReturnMultiplePop, via ModePop ExecuteReturnMultiple),
   (CodeReturnKludgeImmediate, via ModeImmediate ExecuteReturnKludge),
   (CodeReturnKludgePop, via ModePop ExecuteReturnKludge), (CodeTakeValues, plain DispatchTakeValues),
   (CodeBindLocativeToValueImmediate, via ModeImmediate ExecuteBindLocativeToValue),
   (CodeBindLocativeToValueSP, via ModeSP ExecuteBindLocativeToValue),
   (CodeBindLocativeToValueFP, via ModeFP ExecuteBindLocativeToValue),
   (CodeBindLocativeToValueLP, via ModeLP ExecuteBindLocativeToValue),
   (CodeBindLocativeToValuePop, via ModePop ExecuteBindLocativeToValue),
   (CodeBindLocativeSP, via ModeSP ExecuteBindLocative), (CodeBindLocativeFP, via ModeFP ExecuteBindLocative),
   (CodeBindLocativeLP, via ModeLP ExecuteBindLocative), (CodeBindLocativePop, via ModePop ExecuteBindLocative),
   (CodeUnbindNImmediate, via ModeImmediate ExecuteUnbindN), (CodeUnbindNPop, via ModePop ExecuteUnbindN),
   (CodeRestoreBindingStackImmediate, via ModeImmediate ExecuteRestoreBindingStack),
   (CodeRestoreBindingStackSP, via ModeSP ExecuteRestoreBindingStack),
   (CodeRestoreBindingStackFP, via ModeFP ExecuteRestoreBindingStack),
   (CodeRestoreBindingStackLP, via ModeLP ExecuteRestoreBindingStack),
   (CodeRestoreBindingStackPop, via ModePop ExecuteRestoreBindingStack), (CodeCatchOpen, plain DispatchCatchOpen),
   (CodeCatchClose, on_line (\<lambda>cp. DispatchCatchClose (next_pc cp))),
   (CodePushLexicalVarImmediate, inline_line ModeImmediate ExecutePushLexicalVar),
   (CodePushLexicalVarSP, via_line ModeSP ExecutePushLexicalVar),
   (CodePushLexicalVarFP, via_line ModeFP ExecutePushLexicalVar),
   (CodePushLexicalVarLP, via_line ModeLP ExecutePushLexicalVar),
   (CodePushLexicalVarPop, via_line ModePop ExecutePushLexicalVar),
   (CodePopLexicalVarImmediate, inline_line ModeImmediate ExecutePopLexicalVar),
   (CodePopLexicalVarSP, via_line ModeSP ExecutePopLexicalVar),
   (CodePopLexicalVarFP, via_line ModeFP ExecutePopLexicalVar),
   (CodePopLexicalVarLP, via_line ModeLP ExecutePopLexicalVar),
   (CodePopLexicalVarPop, via_line ModePop ExecutePopLexicalVar),
   (CodeMovemLexicalVarImmediate, inline_line ModeImmediate ExecuteMovemLexicalVar),
   (CodeMovemLexicalVarSP, via_line ModeSP ExecuteMovemLexicalVar),
   (CodeMovemLexicalVarFP, via_line ModeFP ExecuteMovemLexicalVar),
   (CodeMovemLexicalVarLP, via_line ModeLP ExecuteMovemLexicalVar),
   (CodeMovemLexicalVarPop, via_line ModePop ExecuteMovemLexicalVar),
   (CodePushInstanceVariable, plain DispatchPushInstanceVariable),
   (CodePopInstanceVariable, plain DispatchPopInstanceVariable),
   (CodeMovemInstanceVariable, plain DispatchMovemInstanceVariable),
   (CodePushAddressInstanceVariable, plain DispatchPushAddressInstanceVariable),
   (CodePushInstanceVariableOrdered, plain DispatchPushInstanceVariableOrdered),
   (CodePopInstanceVariableOrdered, plain DispatchPopInstanceVariableOrdered),
   (CodeMovemInstanceVariableOrdered, plain DispatchMovemInstanceVariableOrdered),
   (CodePushAddressInstanceVariableOrdered, plain DispatchPushAddressInstanceVariableOrdered),
   (CodeInstanceRefImmediate, via ModeImmediate ExecuteInstanceRef),
   (CodeInstanceRefSP, via ModeSP ExecuteInstanceRef), (CodeInstanceRefFP, via ModeFP ExecuteInstanceRef),
   (CodeInstanceRefLP, via ModeLP ExecuteInstanceRef), (CodeInstanceRefPop, via ModePop ExecuteInstanceRef),
   (CodeInstanceSetImmediate, via ModeImmediate ExecuteInstanceSet),
   (CodeInstanceSetSP, via ModeSP ExecuteInstanceSet), (CodeInstanceSetFP, via ModeFP ExecuteInstanceSet),
   (CodeInstanceSetLP, via ModeLP ExecuteInstanceSet), (CodeInstanceSetPop, via ModePop ExecuteInstanceSet),
   (CodeInstanceLocImmediate, via ModeImmediate ExecuteInstanceSet),
   (CodeInstanceLocSP, via ModeSP ExecuteInstanceLoc), (CodeInstanceLocFP, via ModeFP ExecuteInstanceLoc),
   (CodeInstanceLocLP, via ModeLP ExecuteInstanceLoc), (CodeInstanceLocPop, via ModePop ExecuteInstanceLoc),
   (CodeEphemeralpImmediate, inline ModeImmediate ExecuteEphemeralp), (CodeEphemeralpSP, via ModeSP ExecuteEphemeralp),
   (CodeEphemeralpFP, via ModeFP ExecuteEphemeralp), (CodeEphemeralpLP, via ModeLP ExecuteEphemeralp),
   (CodeEphemeralpPop, via ModePop ExecuteEphemeralp),
   (CodeUnsignedLesspImmediate, inline ModeImmediate (ExecuteUnsignedLessp False)),
   (CodeUnsignedLesspSP, via ModeSP (ExecuteUnsignedLessp False)),
   (CodeUnsignedLesspFP, via ModeFP (ExecuteUnsignedLessp False)),
   (CodeUnsignedLesspLP, via ModeLP (ExecuteUnsignedLessp False)),
   (CodeUnsignedLesspPop, via ModePop (ExecuteUnsignedLessp False)),
   (CodeUnsignedLesspNoPopImmediate, inline ModeImmediate (ExecuteUnsignedLessp True)),
   (CodeUnsignedLesspNoPopSP, via ModeSP (ExecuteUnsignedLessp True)),
   (CodeUnsignedLesspNoPopFP, via ModeFP (ExecuteUnsignedLessp True)),
   (CodeUnsignedLesspNoPopLP, via ModeLP (ExecuteUnsignedLessp True)),
   (CodeUnsignedLesspNoPopPop, via ModePop (ExecuteUnsignedLessp True)), (CodeAluImmediate, via_alu ModeImmediate),
   (CodeAluSP, via_alu ModeSP), (CodeAluFP, via_alu ModeFP), (CodeAluLP, via_alu ModeLP),
   (CodeAluPop, via_alu ModePop), (CodeAllocateListBlockImmediate, via ModeImmediate ExecuteAllocateListBlock),
   (CodeAllocateListBlockSP, via ModeSP ExecuteAllocateListBlock),
   (CodeAllocateListBlockFP, via ModeFP ExecuteAllocateListBlock),
   (CodeAllocateListBlockLP, via ModeLP ExecuteAllocateListBlock),
   (CodeAllocateListBlockPop, via ModePop ExecuteAllocateListBlock),
   (CodeAllocateStructureBlockImmediate, via ModeImmediate ExecuteAllocateListBlock),
   (CodeAllocateStructureBlockSP, via ModeSP ExecuteAllocateStructureBlock),
   (CodeAllocateStructureBlockFP, via ModeFP ExecuteAllocateStructureBlock),
   (CodeAllocateStructureBlockLP, via ModeLP ExecuteAllocateStructureBlock),
   (CodeAllocateStructureBlockPop, via ModePop ExecuteAllocateStructureBlock),
   (CodePointerPlusImmediate, inline ModeImmediate ExecutePointerPlus),
   (CodePointerPlusSP, via ModeSP ExecutePointerPlus), (CodePointerPlusFP, via ModeFP ExecutePointerPlus),
   (CodePointerPlusLP, via ModeLP ExecutePointerPlus), (CodePointerPlusPop, via ModePop ExecutePointerPlus),
   (CodePointerDifferenceImmediate, inline ModeImmediate ExecutePointerDifference),
   (CodePointerDifferenceSP, via ModeSP ExecutePointerDifference),
   (CodePointerDifferenceFP, via ModeFP ExecutePointerDifference),
   (CodePointerDifferenceLP, via ModeLP ExecutePointerDifference),
   (CodePointerDifferencePop, via ModePop ExecutePointerDifference),
   (CodePointerIncrementSP, via ModeSP ExecutePointerIncrement),
   (CodePointerIncrementFP, via ModeFP ExecutePointerIncrement),
   (CodePointerIncrementLP, via ModeLP ExecutePointerIncrement), (CodeReadInternalRegister, read_register),
   (CodeWriteInternalRegister, plain DispatchWriteInternalRegister), (CodeCoprocessorRead, read_coprocessor),
   (CodeCoprocessorWrite, write_coprocessor), (CodeMemoryRead, plain DispatchMemoryRead),
   (CodeMemoryReadAddress, plain DispatchMemoryReadAddress), (CodeTagImmediate, inline ModeImmediate ExecuteTag),
   (CodeTagSP, via ModeSP ExecuteTag), (CodeTagFP, via ModeFP ExecuteTag), (CodeTagLP, via ModeLP ExecuteTag),
   (CodeTagPop, via ModePop ExecuteTag), (CodeSetTagImmediate, inline ModeImmediate ExecuteSetTag),
   (CodeSetTagSP, via ModeSP ExecuteSetTag), (CodeSetTagFP, via ModeFP ExecuteSetTag),
   (CodeSetTagLP, via ModeLP ExecuteSetTag), (CodeSetTagPop, via ModePop ExecuteSetTag),
   (CodeStoreConditionalImmediate, via ModeImmediate ExecuteStoreConditional),
   (CodeStoreConditionalSP, via ModeSP ExecuteStoreConditional),
   (CodeStoreConditionalFP, via ModeFP ExecuteStoreConditional),
   (CodeStoreConditionalLP, via ModeLP ExecuteStoreConditional),
   (CodeStoreConditionalPop, via ModePop ExecuteStoreConditional),
   (CodeMemoryWriteImmediate, via ModeImmediate ExecuteMemoryWrite),
   (CodeMemoryWriteSP, via ModeSP ExecuteMemoryWrite), (CodeMemoryWriteFP, via ModeFP ExecuteMemoryWrite),
   (CodeMemoryWriteLP, via ModeLP ExecuteMemoryWrite), (CodeMemoryWritePop, via ModePop ExecuteMemoryWrite),
   (CodePStoreContentsImmediate, via ModeImmediate ExecutePStoreContents),
   (CodePStoreContentsSP, via ModeSP ExecutePStoreContents), (CodePStoreContentsFP, via ModeFP ExecutePStoreContents),
   (CodePStoreContentsLP, via ModeLP ExecutePStoreContents),
   (CodePStoreContentsPop, via ModePop ExecutePStoreContents), (CodeSetCdrCode1SP, via ModeSP ExecuteSetCdrCode1),
   (CodeSetCdrCode1FP, via ModeFP ExecuteSetCdrCode1), (CodeSetCdrCode1LP, via ModeLP ExecuteSetCdrCode1),
   (CodeSetCdrCode2SP, via ModeSP ExecuteSetCdrCode2), (CodeSetCdrCode2FP, via ModeFP ExecuteSetCdrCode2),
   (CodeSetCdrCode2LP, via ModeLP ExecuteSetCdrCode2), (CodeMergeCdrNoPopSP, via ModeSP ExecuteMergeCdrNoPop),
   (CodeMergeCdrNoPopFP, via ModeFP ExecuteMergeCdrNoPop), (CodeMergeCdrNoPopLP, via ModeLP ExecuteMergeCdrNoPop),
   (CodeGenericDispatch, unimplemented_entry), (CodeMessageDispatch, unimplemented_entry),
   (CodeJumpSP, via ModeSP ExecuteJump), (CodeJumpFP, via ModeFP ExecuteJump), (CodeJumpLP, via ModeLP ExecuteJump),
   (CodeJumpPop, via ModePop ExecuteJump), (CodeCheckPreemptRequest, unimplemented_entry),
   (CodeNoOp, plain (\<lambda>_. next_with)), (CodeHalt, plain (\<lambda>_. stop Halt)),
   (CodePushExternalValueCellPointer, plain DispatchPushExternalValueCellPointer),
   (CodePushFixnum, plain (push_constant TypeFixnum)), (CodePushSmallRatio, plain (push_constant TypeSmallRatio)),
   (CodePushSingleFloat, plain (push_constant TypeSingleFloat)),
   (CodePushDoubleFloat, plain (push_constant TypeDoubleFloat)), (CodePushBignum, plain (push_constant TypeBignum)),
   (CodePushBigRatio, plain (push_constant TypeBigRatio)), (CodePushComplex, plain (push_constant TypeComplex)),
   (CodePushSpareNumber, plain (push_constant TypeSpareNumber)),
   (CodePushInstance, plain (push_constant TypeInstance)),
   (CodePushListInstance, plain (push_constant TypeListInstance)),
   (CodePushArrayInstance, plain (push_constant TypeArrayInstance)),
   (CodePushStringInstance, plain (push_constant TypeStringInstance)), (CodePushNil, plain (push_constant TypeNIL)),
   (CodePushList, plain (push_constant TypeList)), (CodePushArray, plain (push_constant TypeArray)),
   (CodePushString, plain (push_constant TypeString)), (CodePushSymbol, plain (push_constant TypeSymbol)),
   (CodePushLocative, plain (push_constant TypeLocative)),
   (CodePushLexicalClosure, plain (push_constant TypeLexicalClosure)),
   (CodePushDynamicClosure, plain (push_constant TypeDynamicClosure)),
   (CodePushCompiledFunction, plain (push_constant TypeCompiledFunction)),
   (CodePushGenericFunction, plain (push_constant TypeGenericFunction)),
   (CodePushSparePointer1, plain (push_constant TypeSparePointer1)),
   (CodePushSparePointer2, plain (push_constant TypeSparePointer2)),
   (CodePushPhysicalAddress, plain (push_constant TypePhysicalAddress)),
   (CodePushSpareImmediate1, plain (push_constant TypeSpareImmediate1)),
   (CodePushBoundLocation, plain (push_constant TypeBoundLocation)),
   (CodePushCharacter, plain (push_constant TypeCharacter)),
   (CodePushLogicVariable, plain (push_constant TypeLogicVariable)),
   (CodePushGcForward, plain (push_constant TypeGCForward)), (CodePushEvenPc, plain (push_constant TypeEvenPC)),
   (CodePushOddPc, plain (push_constant TypeOddPC)), (CodeDereferenceSP, via ModeSP ExecuteDereference),
   (CodeDereferenceFP, via ModeFP ExecuteDereference), (CodeDereferenceLP, via ModeLP ExecuteDereference),
   (CodeDereferencePop, via ModePop ExecuteDereference), (CodeUnifySP, via ModeSP ExecuteUnify),
   (CodeUnifyFP, via ModeFP ExecuteUnify), (CodeUnifyLP, via ModeLP ExecuteUnify),
   (CodeUnifyPop, via ModePop ExecuteUnify),
   (CodePushLocalLogicVariablesImmediate, inline ModeImmediate ExecutePushLocalLogicVariables),
   (CodePushLocalLogicVariablesSP, via ModeSP ExecutePushLocalLogicVariables),
   (CodePushLocalLogicVariablesFP, via ModeFP ExecutePushLocalLogicVariables),
   (CodePushLocalLogicVariablesLP, via ModeLP ExecutePushLocalLogicVariables),
   (CodePushLocalLogicVariablesPop, via ModePop ExecutePushLocalLogicVariables),
   (CodePushGlobalLogicVariable, unimplemented_entry),
   (CodeLogicTailTestImmediate, inline ModeImmediate ExecuteLogicTailTest),
   (CodeLogicTailTestSP, via ModeSP ExecuteLogicTailTest), (CodeLogicTailTestFP, via ModeFP ExecuteLogicTailTest),
   (CodeLogicTailTestLP, via ModeLP ExecuteLogicTailTest), (CodeLogicTailTestPop, via ModePop ExecuteLogicTailTest)]"

text \<open>Any other code is the default of the switch.\<close>

definition entry_of :: "nat \<Rightarrow> entry" where
  "entry_of n = (case map_of Instructions n of Some x \<Rightarrow> x | None \<Rightarrow> unimplemented_entry)"

text \<open>The equations of the loops that may not end, as code: the whole switch can be run.\<close>

declare fast_array.simps [code] unbind_above.simps [code] DispatchEntryRestAccepted.simps [code] DispatchEntryRestNotAccepted.simps [code] cleanup_catches.simps [code] cleanup_bindings.simps [code] ReturnSingleInternal.simps [code] return_multiple.simps [code] member_loop.simps [code] assoc_loop.simps [code] rgetf_loop.simps [code] MemoryReadInternal.simps [code] scroll_down_to_fp.simps [code] scroll_up_to_fp.simps [code]

section \<open>The loop\<close>

text \<open>
  Where the loop is: at the lookup of the line for the PC, at the dispatch of the line that the
  pointer \<^verbatim>\<open>cp\<close> is at, back from a \<^verbatim>\<open>longjmp\<close>, or left.
\<close>

datatype position = Lookup | Dispatch | Trapped int | Halted

record Sequencer =
  position :: position
  seq_cp :: "int option"
  seq_op2 :: operand
  seq_cache :: icache
  seq_vm :: VMState

text \<open>The line that forces a lookup.\<close>

definition InstructionCacheLookupCPRepresentation :: InstructionCacheLine where
  "InstructionCacheLookupCPRepresentation = \<lparr>line_pc = obj TypeOddPC (-1), next_pc = obj TypeOddPC (-1),
     code = CodeInstructionCacheLookup, line_operand = 0, instruction = 0, next_cp = None\<rparr>"

definition line_at :: "icache \<Rightarrow> int option \<Rightarrow> InstructionCacheLine" where
  "line_at c p = (case p of None \<Rightarrow> InstructionCacheLookupCPRepresentation | Some i \<Rightarrow> c i)"

definition current_line :: "Sequencer \<Rightarrow> InstructionCacheLine" where
  "current_line s = line_at (seq_cache s) (seq_cp s)"

text \<open>The labels that end a turn; a trap that was taken goes on at the lookup.\<close>

definition after_trap :: "Sequencer \<Rightarrow> label \<Rightarrow> Sequencer em" where
  "after_trap s l = ret (s\<lparr>position := (if l = Halt then Halted else Lookup)\<rparr>)"

definition after_label :: "Outside \<Rightarrow> Sequencer \<Rightarrow> label \<Rightarrow> Sequencer em" where
  "after_label e s l = (case l of
       NextInstruction \<Rightarrow> (\<lambda>m. Some (Ok (s\<lparr>position := Dispatch, seq_cp := next_cp (current_line s)\<rparr>),
         m\<lparr>PC := next_pc (current_line s)\<rparr>))
     | BranchTaken \<Rightarrow> ret (s\<lparr>position := Lookup\<rparr>)
     | Halt \<Rightarrow> ret (s\<lparr>position := Halted\<rparr>)
     | _ \<Rightarrow> bind_em (handle_label (stray_slot e) (current_line s) (seq_op2 s) l) (after_trap s))"

text \<open>A \<^verbatim>\<open>longjmp\<close> lands at the top of the loop, with the variables as they were.\<close>

definition landing :: "Sequencer \<Rightarrow> Sequencer em \<Rightarrow> Sequencer em" where
  "landing s f = (\<lambda>m. case f m of
       Some (Longjmp v, m1) \<Rightarrow> Some (Ok (s\<lparr>position := Trapped v\<rparr>), m1)
     | r \<Rightarrow> r)"

definition execute :: "Outside \<Rightarrow> Sequencer \<Rightarrow> Sequencer em" where
  "execute e s = (\<lambda>m0. let m = m0\<lparr>restartSP := SP m0\<rparr>; cp = current_line s in
     case entry_of (code cp) of (place, run) \<Rightarrow>
       let s1 = (case place of None \<Rightarrow> s | Some f \<Rightarrow> s\<lparr>seq_op2 := f cp m\<rparr>)
       in landing s1 (bind_em (run e (seq_vm s1) cp) (\<lambda>(l, vm). after_label e (s1\<lparr>seq_vm := vm\<rparr>) l)) m)"

text \<open>The lookup moves \<^verbatim>\<open>cp\<close> to the line for the PC before it tests that the line is filled.\<close>

definition lookup :: "Outside \<Rightarrow> Sequencer \<Rightarrow> Sequencer em" where
  "lookup e s = (\<lambda>m. case InstructionCacheLookup (seq_cache s) m of
       None \<Rightarrow> None
     | Some (Ok (Inl l), m1) \<Rightarrow> landing s (after_label e s l) m1
     | Some (Ok (Inr (i, c)), m1) \<Rightarrow> execute e (s\<lparr>seq_cp := Some i, seq_cache := c\<rparr>) m1
     | Some (Longjmp v, m1) \<Rightarrow> Some (Ok (s\<lparr>position := Trapped v, seq_cp := Some (line_index (PC m))\<rparr>), m1)
     | Some (Exit, m1) \<Rightarrow> Some (Exit, m1))"

definition turn :: "Outside \<Rightarrow> Sequencer \<Rightarrow> Sequencer em" where
  "turn e s = (case position s of
       Lookup \<Rightarrow> lookup e s
     | Dispatch \<Rightarrow> (case seq_cp s of
           None \<Rightarrow> (\<lambda>m. lookup e s (m\<lparr>restartSP := SP m\<rparr>))
         | Some _ \<Rightarrow> execute e s)
     | Trapped v \<Rightarrow> landing s (bind_em (handle_longjmp (stray_slot e) (current_line s) (seq_op2 s) v) (after_trap s))
     | Halted \<Rightarrow> ret s)"

text \<open>The turns of the loop; turn \<open>n\<close> sees \<open>env n\<close>.\<close>

primrec turns :: "(nat \<Rightarrow> Outside) \<Rightarrow> nat \<Rightarrow> Sequencer \<Rightarrow> Sequencer em" where
  "turns env 0 s = ret s"
| "turns env (Suc n) s = bind_em (turns env n s) (turn (env n))"

text \<open>The sequencer is entered at the lookup.\<close>

definition sequencer_start :: "operand \<Rightarrow> icache \<Rightarrow> VMState \<Rightarrow> Sequencer" where
  "sequencer_start op2 c vm = \<lparr>position = Lookup, seq_cp = None, seq_op2 = op2, seq_cache = c, seq_vm = vm\<rparr>"

text \<open>The instruction cache that start-up leaves: no line is for any address; what else they hold is \<open>c\<close>.\<close>

definition empty_cache :: "icache \<Rightarrow> icache" where
  "empty_cache c = (\<lambda>i. (c i)\<lparr>line_pc := obj (if even i then TypeEvenPC else TypeOddPC) (-1)\<rparr>)"

end
