(* ===== verification/Ivory_Decode_Facts.thy ===== *)
theory Ivory_Decode_Facts
  imports Ivory_Sequencer
begin

text \<open>
  The instruction cache of the portable emulator: what decoding a word leaves in its two lines, where
  the pointers between lines lead, and that filling a block keeps every pointer of the cache at the
  line for the program counter that is stored beside it.
\<close>

section \<open>Decoders\<close>

text \<open>A decoder changes the code, the operand and the instruction of a line, not its links.\<close>

definition keeps_links :: "decoder \<Rightarrow> bool" where
  "keeps_links f \<longleftrightarrow> (\<forall>i l. line_pc (f i l) = line_pc l \<and> next_pc (f i l) = next_pc l \<and> next_cp (f i l) = next_cp l)"

lemma decoders_keep_links [simp]:
  "keeps_links DecodeNoneFunction"
  "keeps_links Decode8BitUnsignedOperandFunction"
  "keeps_links Decode8BitSignedOperandFunction"
  "keeps_links Decode10BitUnsignedOperandFunction"
  "keeps_links Decode12BitUnsignedOperandFunction"
  "keeps_links DecodeFPOperandFunction"
  "keeps_links DecodeLPOperandFunction"
  "keeps_links DecodeSPOperandFunction"
  "keeps_links DecodeBranchOperandFunction"
  "keeps_links DecodeReturnOperandFunction"
  "keeps_links DecodeEntryOperandFunction"
  by (simp_all add: keeps_links_def DecodeNoneFunction_def Decode8BitUnsignedOperandFunction_def
      Decode8BitSignedOperandFunction_def Decode10BitUnsignedOperandFunction_def
      Decode12BitUnsignedOperandFunction_def DecodeFPOperandFunction_def DecodeLPOperandFunction_def
      DecodeSPOperandFunction_def DecodeBranchOperandFunction_def DecodeReturnOperandFunction_def
      DecodeEntryOperandFunction_def Let_def)

lemma packed_decoders: "list_all (\<lambda>x. keeps_links (snd x)) PackedInstructionDecoder"
  unfolding PackedInstructionDecoder_def
  by (simp only: list.pred_inject snd_conv decoders_keep_links simp_thms)

lemma length_packed_decoders: "length PackedInstructionDecoder = 1024"
  by (simp add: PackedInstructionDecoder_def)

lemma decode_packed_links:
  assumes "unat (drop_bit 8 instr) < 1024"
  shows "line_pc (decode_packed i instr l) = line_pc l" "next_pc (decode_packed i instr l) = next_pc l"
    "next_cp (decode_packed i instr l) = next_cp l"
proof -
  let ?p = "PackedInstructionDecoder ! unat (drop_bit 8 instr)"
  have "keeps_links (snd ?p)"
    using packed_decoders assms by (simp add: list_all_length length_packed_decoders)
  then show "line_pc (decode_packed i instr l) = line_pc l" "next_pc (decode_packed i instr l) = next_pc l"
    "next_cp (decode_packed i instr l) = next_cp l"
    by (simp_all add: decode_packed_def keeps_links_def split_beta)
qed

lemma unat_drop_8:
  fixes x :: Integer
  assumes "unat x < 262144"
  shows "unat (drop_bit 8 x) < 1024"
  using assms by (simp add: drop_bit_eq_div unat_div less_mult_imp_div_less)

lemma unat_even_instruction: "unat (even_instruction w) < 262144"
  using unat_and_mask_less [of "DATA w" 18] by (simp add: even_instruction_def mask_eq_exp_minus_1)

lemma unat_odd_instruction: "unat (odd_instruction w) < 262144"
proof -
  have "TAG w AND 15 = take_bit 4 (TAG w)" by (simp add: take_bit_eq_mask mask_eq_exp_minus_1)
  then have "odd_instruction w = odd_instruction w AND mask 18"
    unfolding odd_instruction_def by (intro bit_word_eqI) (auto simp: bit_simps bit_ldb)
  then show ?thesis using unat_and_mask_less [of "odd_instruction w" 18] by simp
qed

lemma decode_packed_word_links:
  "line_pc (fst (decode_packed_word w (l1, l2))) = line_pc l1" "line_pc (snd (decode_packed_word w (l1, l2))) = line_pc l2"
  "next_pc (fst (decode_packed_word w (l1, l2))) = next_pc l1" "next_pc (snd (decode_packed_word w (l1, l2))) = next_pc l2"
  "next_cp (fst (decode_packed_word w (l1, l2))) = next_cp l1" "next_cp (snd (decode_packed_word w (l1, l2))) = next_cp l2"
  by (simp_all add: decode_packed_word_def decode_packed_links unat_drop_8 unat_even_instruction unat_odd_instruction)

section \<open>Words\<close>

definition pc_typed :: "LispObj \<Rightarrow> bool" where
  "pc_typed p \<longleftrightarrow> TypeEqualP (TAG p) TypeEvenPC \<or> TypeEqualP (TAG p) TypeOddPC"

text \<open>
  The pointer of a line, for the word at address \<open>vma\<close> whose even line has index \<open>i\<close>: it leads at most
  two words on, or to the odd line of the word before, and agrees with the program counter beside it.
\<close>

definition local_link :: "Integer \<Rightarrow> int \<Rightarrow> int \<Rightarrow> InstructionCacheLine \<Rightarrow> bool" where
  "local_link vma i low l \<longleftrightarrow> DATA (line_pc l) = vma \<and> (code l = CodeIllegalInstruction \<or>
     (case next_cp l of None \<Rightarrow> True
      | Some k \<Rightarrow> pc_typed (next_pc l) \<and> (\<exists>d. low \<le> d \<and> d \<le> 2 \<and>
          DATA (next_pc l) = vma + of_int d \<and> k = i + 2 * d + uint (TAG (next_pc l) AND 1))))"

lemma local_link_illegal: "DATA (line_pc l) = vma \<Longrightarrow> code l = CodeIllegalInstruction \<Longrightarrow> local_link vma i low l"
  by (simp add: local_link_def)

lemma local_link_none: "DATA (line_pc l) = vma \<Longrightarrow> next_cp l = None \<Longrightarrow> local_link vma i low l"
  by (simp add: local_link_def)

lemma local_link_some:
  "DATA (line_pc l) = vma \<Longrightarrow> next_cp l = Some (i + 2 * d + uint (TAG (next_pc l) AND 1)) \<Longrightarrow> pc_typed (next_pc l) \<Longrightarrow>
   DATA (next_pc l) = vma + of_int d \<Longrightarrow> low \<le> d \<Longrightarrow> d \<le> 2 \<Longrightarrow> local_link vma i low l"
  by (auto simp: local_link_def)

lemma TagCdr_cases: "TagCdr t = 0 \<or> TagCdr t = 1 \<or> TagCdr t = 2 \<or> TagCdr t = 3"
proof -
  have "unat (TagCdr t) < 4"
    using unsigned_less [of t, where 'a = nat] by (simp add: TagCdr_def drop_bit_eq_div unat_div less_mult_imp_div_less)
  then have "unat (TagCdr t) \<in> {0, 1, 2, 3}" by auto
  then show ?thesis by (auto simp: word_eq_iff_unsigned [where 'a = nat])
qed

lemma pc_typed_obj [simp]: "pc_typed (obj TypeEvenPC x)" "pc_typed (obj TypeOddPC x)"
  by (simp_all add: pc_typed_def TypeEqualP_def)

lemma decode_word_pc:
  "DATA (line_pc (fst (decode_word w vma i (l1, l2)))) = vma" "DATA (line_pc (snd (decode_word w vma i (l1, l2)))) = vma"
  by (simp_all add: decode_word_def link_word_def set_next_def decode_packed_word_links decode_full_word_def
      illegal_line_def Let_def)

lemma decode_word_next:
  assumes "TagCdr (TAG w) \<noteq> 1"
  shows "next_pc (fst (decode_word w vma i (l1, l2))) = next_pc (fst (link_word (TagCdr (TAG w)) vma i (l1, l2)))"
    "next_pc (snd (decode_word w vma i (l1, l2))) = next_pc (snd (link_word (TagCdr (TAG w)) vma i (l1, l2)))"
    "next_cp (fst (decode_word w vma i (l1, l2))) = next_cp (fst (link_word (TagCdr (TAG w)) vma i (l1, l2)))"
    "next_cp (snd (decode_word w vma i (l1, l2))) = next_cp (snd (link_word (TagCdr (TAG w)) vma i (l1, l2)))"
  using assms
  by (simp_all add: decode_word_def link_word_def set_next_def decode_packed_word_links decode_full_word_def
      illegal_line_def Let_def)

lemma decode_word_illegal:
  assumes "TagCdr (TAG w) = 1"
  shows "code (fst (decode_word w vma i (l1, l2))) = CodeIllegalInstruction"
    "code (snd (decode_word w vma i (l1, l2))) = CodeIllegalInstruction"
  using assms by (simp_all add: decode_word_def illegal_line_def Let_def)

lemmas word_links = decode_word_pc decode_word_next link_word_def set_next_def

lemma decode_word_links:
  "local_link vma i (-1) (fst (decode_word w vma i (l1, l2)))"
  "local_link vma i 0 (snd (decode_word w vma i (l1, l2)))"
proof -
  consider "TagCdr (TAG w) = 0" | "TagCdr (TAG w) = 1" | "TagCdr (TAG w) = 2" | "TagCdr (TAG w) = 3"
    using TagCdr_cases by blast
  then have "local_link vma i (-1) (fst (decode_word w vma i (l1, l2))) \<and> local_link vma i 0 (snd (decode_word w vma i (l1, l2)))"
  proof cases
    case 1
    then show ?thesis by (auto intro: local_link_some [where d = 0] local_link_some [where d = 1] simp: word_links)
  next
    case 2
    then show ?thesis by (simp add: local_link_illegal decode_word_pc decode_word_illegal)
  next
    case 3
    then show ?thesis by (auto intro: local_link_some [where d = "-1"] local_link_none simp: word_links)
  next
    case 4
    then show ?thesis by (auto intro: local_link_some [where d = 1] local_link_some [where d = 2] simp: word_links)
  qed
  then show "local_link vma i (-1) (fst (decode_word w vma i (l1, l2)))"
    "local_link vma i 0 (snd (decode_word w vma i (l1, l2)))" by auto
qed

section \<open>Blocks\<close>

lemma decode_block_outside: "j < i \<or> i + 2 * int n \<le> j \<Longrightarrow> decode_block n words vma i c j = c j"
  by (induction n arbitrary: vma i c) (auto split: prod.split)

text \<open>After the loop, the lines of each word are what decoding it makes of the lines before.\<close>

lemma decode_block_at:
  assumes "k < n"
  shows "(decode_block n words vma i c (i + 2 * int k), decode_block n words vma i c (i + 2 * int k + 1)) =
    decode_word (words (vma + of_nat k)) (vma + of_nat k) (i + 2 * int k) (c (i + 2 * int k), c (i + 2 * int k + 1))"
  using assms
proof (induction n arbitrary: k vma i c)
  case 0
  then show ?case by simp
next
  case (Suc n)
  obtain even_cp odd_cp where w: "decode_word (words vma) vma i (c i, c (i + 1)) = (even_cp, odd_cp)"
    by (cases "decode_word (words vma) vma i (c i, c (i + 1))")
  let ?c = "c(i := even_cp, i + 1 := odd_cp)"
  show ?case
  proof (cases k)
    case 0
    then show ?thesis using w by (simp add: decode_block_outside)
  next
    case (Suc k')
    have "(decode_block n words (vma + 1) (i + 2) ?c (i + 2 + 2 * int k'),
        decode_block n words (vma + 1) (i + 2) ?c (i + 2 + 2 * int k' + 1)) =
      decode_word (words (vma + 1 + of_nat k')) (vma + 1 + of_nat k') (i + 2 + 2 * int k')
        (?c (i + 2 + 2 * int k'), ?c (i + 2 + 2 * int k' + 1))"
      using Suc.prems Suc by (intro Suc.IH) simp
    then show ?thesis using w Suc by (simp add: algebra_simps)
  qed
qed

lemma decode_block_links:
  assumes "k < n"
  shows "local_link (vma + of_nat k) (i + 2 * int k) (-1) (decode_block n words vma i c (i + 2 * int k))"
    "local_link (vma + of_nat k) (i + 2 * int k) 0 (decode_block n words vma i c (i + 2 * int k + 1))"
  using decode_word_links [of "vma + of_nat k" "i + 2 * int k" "words (vma + of_nat k)"]
    decode_block_at [OF assms, of words vma i c] by (metis fst_conv snd_conv)+

text \<open>Closing a block only drops pointers, among them every one that leads out of it.\<close>

lemma fold_lookup_at:
  "fold (\<lambda>j c. c(j := force_lookup (e \<le> DATA (next_pc (c j))) (c j))) js c j =
    (if j \<in> set js then force_lookup (e \<le> DATA (next_pc (c j))) (c j) else c j)"
  by (induction js arbitrary: c) (auto simp: force_lookup_def)

lemma close_block_at:
  "close_block b e i c j = force_lookup ((j = i \<and> DATA (next_pc (c j)) < b) \<or>
     (i + 60 \<le> j \<and> j < i + 64 \<and> e \<le> DATA (next_pc (c j)))) (c j)"
proof -
  have "j \<in> set [i + 60, i + 61, i + 62, i + 63] \<longleftrightarrow> i + 60 \<le> j \<and> j < i + 64" by auto
  then show ?thesis
    unfolding close_block_def Let_def fold_lookup_at by (auto simp: force_lookup_def)
qed

lemma close_block_keeps [simp]:
  "line_pc (close_block b e i c j) = line_pc (c j)" "next_pc (close_block b e i c j) = next_pc (c j)"
  "code (close_block b e i c j) = code (c j)"
  by (simp_all add: close_block_at force_lookup_def)

lemma close_block_outside: "j < i \<or> i + 64 \<le> j \<Longrightarrow> close_block b e i c j = c j"
  by (auto simp: close_block_at force_lookup_def)

section \<open>The cache\<close>

text \<open>
  A pointer between lines leads to the line for the program counter stored with it, in the same
  block. It need not for an illegal instruction, which has no successor, nor for a line that was
  never filled or is for address 0.
\<close>

definition line_linked :: "icache \<Rightarrow> int \<Rightarrow> bool" where
  "line_linked c j \<longleftrightarrow> DATA (line_pc (c j)) = -1 \<or> DATA (line_pc (c j)) = 0 \<or> code (c j) = CodeIllegalInstruction \<or>
     (case next_cp (c j) of None \<Rightarrow> True
      | Some k \<Rightarrow> k = line_index (next_pc (c j)) \<and> pc_typed (next_pc (c j)) \<and>
          DATA (line_pc (c k)) = DATA (next_pc (c j)) \<and> k div 64 = j div 64)"

definition cache_linked :: "icache \<Rightarrow> bool" where
  "cache_linked c \<longleftrightarrow> (\<forall>j. 0 \<le> j \<and> j < InstructionCacheSize \<longrightarrow> line_linked c j)"

lemma cache_index_mod: "cache_index vma = (2 * uint vma) mod 2048"
proof -
  have "cache_index vma = uint (take_bit 11 (2 * vma))"
    by (simp add: cache_index_def take_bit_eq_mask mask_eq_exp_minus_1 push_bit_eq_mult mult.commute)
  also have "\<dots> = (2 * uint vma mod 4294967296) mod 2048"
    by (simp add: take_bit_eq_mod uint_mod uint_word_ariths(3))
  finally show ?thesis by (simp add: mod_mod_cancel)
qed

lemma uint_block_start: "uint (block_start vma) = uint vma - uint vma mod 32"
proof -
  have "block_start vma = vma AND NOT (mask 5)" by (simp add: block_start_def mask_eq_exp_minus_1)
  also have "\<dots> = push_bit 5 (drop_bit 5 vma)" by (rule bit_word_eqI) (auto simp: bit_simps)
  also have "\<dots> = vma - take_bit 5 vma" using bits_ident [of 5 vma] by (simp add: eq_diff_eq)
  finally have "block_start vma = vma - take_bit 5 vma" .
  moreover have "uint (take_bit 5 vma) = uint vma mod 32" by (simp add: take_bit_eq_mod uint_mod)
  moreover have "take_bit 5 vma \<le> vma" by (simp add: word_le_def unsigned_take_bit_eq take_bit_int_less_eq_self_iff)
  ultimately show ?thesis by (simp add: uint_minus_simple_alt)
qed

text \<open>The addresses of an aligned block that does not end the address space, and their lines.\<close>

definition whole_block :: "Integer \<Rightarrow> bool" where
  "whole_block b \<longleftrightarrow> uint b mod 32 = 0 \<and> uint b + 64 \<le> 4294967296"

lemma whole_blockI: "uint vma < 4294967264 \<Longrightarrow> whole_block (block_start vma)"
proof -
  assume vma: "uint vma < 4294967264"
  define q where "q = uint vma div 32"
  have "uint (block_start vma) = 32 * q" by (simp add: uint_block_start minus_mod_eq_mult_div q_def)
  moreover have "32 * q \<le> uint vma" by (simp add: q_def)
  then have "32 * q < 4294967264" using vma by linarith
  then have "32 * q + 64 \<le> 4294967296" by presburger
  ultimately show "whole_block (block_start vma)" by (simp add: whole_block_def)
qed

lemma uint_in_block:
  assumes "whole_block b" "0 \<le> x" "x < 64"
  shows "uint (b + of_int x) = uint b + x"
proof -
  have "uint (b + of_int x) = (uint b + x) mod 4294967296"
    using assms by (simp add: uint_word_ariths(1) uint_word_of_int take_bit_eq_mod)
  then show ?thesis using assms unsigned_greater_eq [of b, where 'a = int] by (simp add: whole_block_def)
qed

lemma mod_2048_split:
  fixes q y :: int
  assumes "0 \<le> y" "y < 64"
  shows "(64 * q + y) mod 2048 = 64 * (q mod 32) + y"
proof -
  have "64 * q + y = 64 * (q mod 32) + y + (q div 32) * 2048" using mult_div_mod_eq [of 32 q] by linarith
  then have "(64 * q + y) mod 2048 = (64 * (q mod 32) + y) mod 2048" by (metis mod_mult_self1)
  moreover have "0 \<le> q mod 32" "q mod 32 < 32" by simp_all
  ultimately show ?thesis using assms by simp
qed

lemma index_in_block:
  assumes "whole_block b" "0 \<le> x" "x < 32"
  shows "cache_index (b + of_int x) = cache_index b + 2 * x" "cache_index b = 64 * (uint b div 32 mod 32)"
proof -
  define q where "q = uint b div 32"
  have q: "uint b = 32 * q"
    using assms mult_div_mod_eq [of 32 "uint b"] unfolding whole_block_def q_def by linarith
  show i: "cache_index b = 64 * (uint b div 32 mod 32)"
    using mod_2048_split [of 0 q] by (simp add: cache_index_mod q)
  have "2 * uint (b + of_int x) = 64 * q + 2 * x" using q assms by (simp add: uint_in_block)
  then show "cache_index (b + of_int x) = cache_index b + 2 * x"
    using mod_2048_split [of "2 * x" q] assms i by (simp add: cache_index_mod q)
qed

lemma block_index:
  assumes "whole_block b"
  shows "0 \<le> cache_index b" "cache_index b + 64 \<le> 2048" "cache_index b mod 64 = 0"
proof -
  have "cache_index b = 64 * (uint b div 32 mod 32)" using index_in_block(2) [OF assms, of 0] by simp
  moreover have "0 \<le> uint b div 32 mod 32" "uint b div 32 mod 32 < 32" by simp_all
  ultimately show "0 \<le> cache_index b" "cache_index b + 64 \<le> 2048" "cache_index b mod 64 = 0" by simp_all
qed

lemma block_words_whole: "whole_block b \<Longrightarrow> block_words b 32 = 32"
proof -
  assume b: "whole_block b"
  have "uint (b + 32) = uint b + 32" using uint_in_block [OF b, of 32] by simp
  moreover have "nat (uint b + 32) = nat (uint b) + 32" by (simp only: nat_add_distrib unsigned_greater_eq)
  ultimately have "nat (uint (b + 32)) = nat (uint b) + 32" by (simp only:)
  then show "block_words b 32 = 32" by (simp add: block_words_def)
qed

lemma in_block_div:
  assumes "whole_block b" "cache_index b \<le> j" "j < cache_index b + 64"
  shows "j div 64 = cache_index b div 64"
proof -
  have "j = 64 * (cache_index b div 64) + (j - cache_index b)"
    using mult_div_mod_eq [of 64 "cache_index b"] block_index(3) [OF assms(1)] by linarith
  then show ?thesis using assms(2,3) by (intro int_div_pos_eq [where r = "j - cache_index b"]) simp_all
qed

lemma tag_parity: "uint (t AND 1 :: Tag) = 0 \<or> uint (t AND 1) = 1"
proof -
  have "uint (t AND 1) = uint t mod 2" by (simp add: and_one_eq uint_mod)
  then show ?thesis by linarith
qed

text \<open>A pointer that closing the block has left is to a line of the block.\<close>

lemma link_stays:
  assumes b: "whole_block b" and k: "k < 32" and p: "p = 0 \<or> p = 1"
    and j: "j = cache_index b + 2 * int k + p" and d: "- 1 + p \<le> d" "d \<le> 2"
    and data: "DATA (next_pc (c j)) = b + of_nat k + of_int d"
    and pc: "b + of_nat k \<noteq> 0"
    and kept: "next_cp (close_block b (b + 32) (cache_index b) c j) \<noteq> None"
  shows "0 \<le> int k + d" "int k + d < 32"
proof -
  have data': "DATA (next_pc (c j)) = b + of_int (int k + d)" using data by simp
  have first: "\<not> (j = cache_index b \<and> DATA (next_pc (c j)) < b)"
    and last: "\<not> (cache_index b + 60 \<le> j \<and> j < cache_index b + 64 \<and> b + 32 \<le> DATA (next_pc (c j)))"
    using kept by (auto simp: close_block_at force_lookup_def)
  show "0 \<le> int k + d"
  proof (rule ccontr)
    assume neg: "\<not> 0 \<le> int k + d"
    then have "k = 0" "d = -1" "p = 0" using d p by auto
    moreover have "b - 1 < b" using pc \<open>k = 0\<close> by (simp add: measure_unat word_less_nat_alt)
    ultimately show False using first j data by simp
  qed
  show "int k + d < 32"
  proof (rule ccontr)
    assume "\<not> int k + d < 32"
    then have x: "32 \<le> int k + d" "int k + d < 64" "cache_index b + 60 \<le> j" "j < cache_index b + 64"
      using d p j k by auto
    have "b + of_int 32 \<le> b + of_int (int k + d)"
      unfolding word_le_def using x by (subst (1 2) uint_in_block [OF b]) auto
    then show False using last x data' by simp
  qed
qed

definition fill_block :: "(Integer \<Rightarrow> LispObj) \<Rightarrow> Integer \<Rightarrow> icache \<Rightarrow> icache" where
  "fill_block words b c = close_block b (b + 32) (cache_index b) (decode_block 32 words b (cache_index b) c)"

lemma fill_block_outside:
  "j < cache_index b \<or> cache_index b + 64 \<le> j \<Longrightarrow> fill_block words b c j = c j"
  by (auto simp: fill_block_def close_block_outside decode_block_outside)

lemma block_line_cases:
  assumes "cache_index b \<le> j" "j < cache_index b + 64"
  obtains k p where "k < 32" "p = 0 \<or> p = 1" "j = cache_index b + 2 * int k + p"
proof -
  define y where "y = j - cache_index b"
  have y: "0 \<le> y" "y < 64" "j = cache_index b + y" using assms by (simp_all add: y_def)
  have "0 \<le> y div 2" "y div 2 < 32" using y by presburger+
  then have k: "int (nat (y div 2)) = y div 2" "nat (y div 2) < 32" by linarith+
  then have "j = cache_index b + 2 * int (nat (y div 2)) + y mod 2" using y(3) mult_div_mod_eq [of 2 y] by presburger
  moreover note k(2)
  moreover have "y mod 2 = 0 \<or> y mod 2 = 1" by linarith
  ultimately show ?thesis by (intro that [of "nat (y div 2)" "y mod 2"])
qed

lemma decode_block_link:
  assumes "k < 32" "p = 0 \<or> p = 1"
  shows "local_link (b + of_nat k) (i + 2 * int k) (p - 1) (decode_block 32 words b i c (i + 2 * int k + p))"
  using assms decode_block_links [of k 32 b i words c] by auto

lemma fill_block_pc:
  assumes "0 \<le> x" "x < 32" "p = 0 \<or> p = 1"
  shows "DATA (line_pc (fill_block words b c (cache_index b + 2 * x + p))) = b + of_int x"
  using decode_block_link [of "nat x" p b "cache_index b" words c] assms
  by (simp add: fill_block_def local_link_def)

lemma fill_block_inside:
  assumes b: "whole_block b" and j: "cache_index b \<le> j" "j < cache_index b + 64"
  shows "line_linked (fill_block words b c) j"
proof -
  let ?c = "fill_block words b c"
  obtain k p where k: "k < 32" and p: "p = 0 \<or> p = 1" and jk: "j = cache_index b + 2 * int k + p"
    using block_line_cases [OF j] .
  let ?l = "decode_block 32 words b (cache_index b) c j"
  have local: "local_link (b + of_nat k) (cache_index b + 2 * int k) (p - 1) ?l"
    unfolding jk using decode_block_link [OF k p] .
  then have pc: "DATA (line_pc ?l) = b + of_nat k" by (simp add: local_link_def)
  show ?thesis
  proof (cases "b + of_nat k = 0 \<or> code ?l = CodeIllegalInstruction \<or> next_cp (?c j) = None")
    case True
    then show ?thesis using pc by (auto simp: line_linked_def fill_block_def)
  next
    case False
    then obtain t where t: "next_cp (?c j) = Some t" by auto
    then have lt: "next_cp ?l = Some t" by (auto simp: fill_block_def close_block_at force_lookup_def split: if_splits)
    then obtain d where typed: "pc_typed (next_pc ?l)" and d: "p - 1 \<le> d" "d \<le> 2"
      and data: "DATA (next_pc ?l) = b + of_nat k + of_int d"
      and td: "t = cache_index b + 2 * int k + 2 * d + uint (TAG (next_pc ?l) AND 1)"
      using local False by (auto simp: local_link_def)
    let ?q = "uint (TAG (next_pc ?l) AND 1)"
    have x: "0 \<le> int k + d" "int k + d < 32"
      using link_stays [where c = "decode_block 32 words b (cache_index b) c", OF b k p jk _ d(2)] data d(1) False t by (auto simp: fill_block_def)
    have data': "DATA (next_pc ?l) = b + of_int (int k + d)" using data by simp
    have t': "t = cache_index b + 2 * (int k + d) + ?q" using td by simp
    have "DATA (line_pc (?c t)) = DATA (next_pc ?l)"
      unfolding t' data' using fill_block_pc [OF x tag_parity] .
    moreover have "t = line_index (next_pc ?l)"
      using index_in_block(1) [OF b x] t' data' by (simp add: line_index_def)
    moreover have "t div 64 = j div 64"
      using in_block_div [OF b, of t] in_block_div [OF b j] t' x tag_parity [of "TAG (next_pc ?l)"] by auto
    ultimately show ?thesis using typed t by (simp add: line_linked_def fill_block_def)
  qed
qed

lemma fill_block_linked:
  assumes b: "whole_block b" and c: "cache_linked c"
  shows "cache_linked (fill_block words b c)"
  unfolding cache_linked_def
proof (intro allI impI)
  fix j :: int
  assume j: "0 \<le> j \<and> j < 2048"
  let ?i = "cache_index b"
  show "line_linked (fill_block words b c) j"
  proof (cases "?i \<le> j \<and> j < ?i + 64")
    case True
    then show ?thesis using fill_block_inside [OF b] by blast
  next
    case False
    then have same: "fill_block words b c j = c j" by (intro fill_block_outside) auto
    have "fill_block words b c k = c k" if "k div 64 = j div 64" for k
    proof (rule fill_block_outside)
      show "k < ?i \<or> ?i + 64 \<le> k"
        using that in_block_div [OF b, of k] False block_index(3) [OF b] by fastforce
    qed
    moreover have "line_linked c j" using c j by (simp add: cache_linked_def)
    ultimately show ?thesis using same by (auto simp: line_linked_def split: option.splits)
  qed
qed

end
