(* ===== verification/Ivory_Sequencer_Facts.thy ===== *)
theory Ivory_Sequencer_Facts
  imports Ivory_Decode_Facts
begin

text \<open>
  The sequencer of the portable emulator follows the pointers between the lines of the instruction
  cache instead of looking lines up. The state in which a turn starts is such that the pointer leads
  to the line that a lookup would find; every turn keeps it so.
\<close>

section \<open>Lookup\<close>

text \<open>Program counters whose block the cache fills as it should: not 0, and not in the last block.\<close>

definition safe_pc :: "Machine \<Rightarrow> bool" where
  "safe_pc m \<longleftrightarrow> 0 < uint (DATA (PC m)) \<and> uint (DATA (PC m)) < 4294967264"

lemma read_block_loop_nothing:
  "read_block_loop (\<lambda>k x m. m) k data n m = Some (Ok u, m') \<Longrightarrow> \<exists>a. m' = m\<lparr>memory_vma := a\<rparr>"
proof (induction n arbitrary: k data m)
  case 0
  then have "m' = m\<lparr>memory_vma := memory_vma m\<rparr>" by (simp add: ret_def)
  then show ?case by blast
next
  case (Suc n)
  show ?case
  proof (cases "Created m data")
    case True
    then have "read_block_loop (\<lambda>k x m. m) (Suc k) (data + 1) n (m\<lparr>memory_vma := memory_vma m + 1\<rparr>) = Some (Ok u, m')"
      using Suc.prems by (simp add: Let_def)
    from Suc.IH [OF this] show ?thesis by auto
  next
    case False
    then show ?thesis using Suc.prems by (simp add: segv_handler_def TakeMemoryTrap_def)
  qed
qed

lemma read_block_loop_created:
  assumes "\<forall>j<n. Created m (data + of_nat j)"
  shows "read_block_loop (\<lambda>k x m. m) k data n m = Some (Ok (), m\<lparr>memory_vma := memory_vma m + of_nat n\<rparr>)"
  using assms
proof (induction n arbitrary: k data m)
  case 0
  then show ?case by (simp add: ret_def)
next
  case (Suc n)
  have "Created m data" using Suc.prems [rule_format, of 0] by simp
  moreover have "Created m (data + 1 + of_nat j)" if "j < n" for j
    using Suc.prems [rule_format, of "Suc j"] that by (simp add: add.assoc)
  then have "\<forall>j<n. Created (m\<lparr>memory_vma := memory_vma m + 1\<rparr>) (data + 1 + of_nat j)" by (simp add: Created_def)
  ultimately show ?case by (simp add: Suc.IH add.assoc)
qed

lemma InstructionCacheMiss_fills:
  assumes "InstructionCacheMiss c m = Some (Ok c', m')" "safe_pc m"
  shows "c' = fill_block (memory_word m) (block_start (DATA (PC m))) c" "\<exists>a. m' = m\<lparr>memory_vma := a\<rparr>"
proof -
  let ?b = "block_start (DATA (PC m))"
  have b: "whole_block ?b" using assms(2) by (intro whole_blockI) (simp add: safe_pc_def)
  obtain u where r: "read_block_loop (\<lambda>k x m. m) 0 ?b 32 (m\<lparr>memory_vma := ?b\<rparr>) = Some (Ok u, m')"
    and c': "c' = fill_block (memory_word m') ?b c"
    using assms(1) block_words_whole [OF b]
    by (auto simp: InstructionCacheMiss_def VirtualMemoryReadBlock_def fill_block_def bind_em_def Let_def
        split: option.splits outcome.splits)
  from read_block_loop_nothing [OF r] obtain a where a: "m' = m\<lparr>memory_vma := a\<rparr>" by auto
  then have "memory_word m' = memory_word m" by (auto simp: memory_word_def)
  then show "c' = fill_block (memory_word m) ?b c" "\<exists>a. m' = m\<lparr>memory_vma := a\<rparr>" using c' a by auto
qed

text \<open>A block whose words all exist is filled.\<close>

lemma InstructionCacheMiss_created:
  assumes "safe_pc m" "\<forall>j<32. Created m (block_start (DATA (PC m)) + of_nat j)"
  shows "InstructionCacheMiss c m = Some (Ok (fill_block (memory_word m) (block_start (DATA (PC m))) c),
    m\<lparr>memory_vma := block_start (DATA (PC m)) + 32\<rparr>)"
proof -
  let ?b = "block_start (DATA (PC m))"
  have b: "whole_block ?b" using assms(1) by (intro whole_blockI) (simp add: safe_pc_def)
  have "\<forall>j<32. Created (m\<lparr>memory_vma := ?b\<rparr>) (?b + of_nat j)" using assms(2) by (simp add: Created_def)
  from read_block_loop_created [OF this, of 0]
  have "VirtualMemoryReadBlock ?b (\<lambda>k x m. m) 32 m = Some (Ok (), m\<lparr>memory_vma := ?b + 32\<rparr>)"
    by (simp add: VirtualMemoryReadBlock_def block_words_whole [OF b])
  moreover have "memory_word (m\<lparr>memory_vma := ?b + 32\<rparr>) = memory_word m" by (auto simp: memory_word_def)
  ultimately show ?thesis
    by (simp add: InstructionCacheMiss_def bind_em_def fill_block_def block_words_whole [OF b] Let_def)
qed

lemma line_index_range: "0 \<le> line_index p" "line_index p < InstructionCacheSize"
proof -
  have "cache_index v = 2 * (uint v mod 1024)" for v
    using mult_mod_right [of 2 "uint v" 1024] by (simp add: cache_index_mod)
  moreover have "0 \<le> v mod 1024" "v mod 1024 < 1024" for v :: int by simp_all
  ultimately show "0 \<le> line_index p" "line_index p < InstructionCacheSize"
    using tag_parity [of "TAG p"] by (auto simp: line_index_def)
qed

text \<open>The line that a lookup finds is the line for the program counter.\<close>

definition found_line :: "icache \<Rightarrow> int \<Rightarrow> Machine \<Rightarrow> bool" where
  "found_line c k m \<longleftrightarrow> pc_typed (PC m) \<and> k = line_index (PC m) \<and> DATA (line_pc (c k)) = DATA (PC m)"

lemma fill_block_finds:
  assumes "safe_pc m"
  shows "DATA (line_pc (fill_block words (block_start (DATA (PC m))) c (line_index (PC m)))) = DATA (PC m)"
proof -
  let ?v = "DATA (PC m)"
  let ?b = "block_start ?v"
  let ?x = "uint ?v mod 32"
  have b: "whole_block ?b" using assms by (intro whole_blockI) (simp add: safe_pc_def)
  have x: "0 \<le> ?x" "?x < 32" by simp_all
  have v: "?v = ?b + of_int ?x"
    unfolding word_uint_eq_iff using uint_in_block [OF b, of ?x] x uint_block_start [of ?v] by simp
  have "line_index (PC m) = cache_index ?b + 2 * ?x + uint (TAG (PC m) AND 1)"
    using index_in_block(1) [OF b x] v by (simp add: line_index_def)
  then show ?thesis using fill_block_pc [OF x tag_parity] v by simp
qed

lemma lookup_hit: "found_line c k m \<Longrightarrow> InstructionCacheLookup c m = Some (Ok (Inr (k, c)), m)"
proof -
  assume f: "found_line c k m"
  have "\<not> TypeEqualP (TAG (PC m)) TypeNIL" if "TypeEqualP (TAG (PC m)) t" "t = TypeEvenPC \<or> t = TypeOddPC" for t
    using that by (auto simp: TypeEqualP_TagType TagType_def)
  then show "InstructionCacheLookup c m = Some (Ok (Inr (k, c)), m)"
    using f by (auto simp: InstructionCacheLookup_def found_line_def pc_typed_def Let_def)
qed

lemma lookup_finds:
  assumes "InstructionCacheLookup c m = Some (Ok (Inr (k, c')), m')" "safe_pc m" "cache_linked c"
  shows "found_line c' k m'" "cache_linked c'" "safe_pc m'"
proof -
  have typed: "pc_typed (PC m)" and k: "k = line_index (PC m)"
    using assms(1) by (auto simp: InstructionCacheLookup_def pc_typed_def bind_em_def ret_def Let_def
        split: if_splits option.splits outcome.splits)
  have "found_line c' k m' \<and> cache_linked c' \<and> safe_pc m'"
  proof (cases "DATA (line_pc (c (line_index (PC m)))) = DATA (PC m)")
    case True
    then have "found_line c k m" using typed k by (simp add: found_line_def)
    with lookup_hit [OF this] assms show ?thesis by simp
  next
    case False
    then have miss: "InstructionCacheMiss c m = Some (Ok c', m')"
      using assms(1) typed by (auto simp: InstructionCacheLookup_def pc_typed_def bind_em_def ret_def Let_def
          split: if_splits option.splits outcome.splits)
    note fills = InstructionCacheMiss_fills [OF miss assms(2)]
    have pc: "PC m' = PC m" using fills(2) by auto
    have "whole_block (block_start (DATA (PC m)))" using assms(2) by (intro whole_blockI) (simp add: safe_pc_def)
    then have "cache_linked c'" using fill_block_linked assms(3) fills(1) by simp
    then show ?thesis using typed k pc fill_block_finds [OF assms(2)] fills(1) assms(2)
      by (simp add: found_line_def safe_pc_def)
  qed
  then show "found_line c' k m'" "cache_linked c'" "safe_pc m'" by auto
qed

section \<open>Turns\<close>

definition seq_ok :: "Sequencer \<Rightarrow> Machine \<Rightarrow> bool" where
  "seq_ok s m \<longleftrightarrow> cache_linked (seq_cache s) \<and>
     (position s = Dispatch \<longrightarrow> (\<forall>k. seq_cp s = Some k \<longrightarrow> found_line (seq_cache s) k m))"

text \<open>The sequencer with the pointer to the next line forgotten: the turn looks the line up.\<close>

definition unlink :: "Sequencer \<Rightarrow> Sequencer" where
  "unlink s = (if position s = Dispatch then s\<lparr>seq_cp := None\<rparr> else s)"

text \<open>A turn that follows the pointer is the turn that looks the line up.\<close>

lemma turn_unlink:
  assumes "seq_ok s m"
  shows "turn e (unlink s) m = turn e s m"
proof (cases "position s = Dispatch \<and> seq_cp s \<noteq> None")
  case True
  then obtain k where k: "seq_cp s = Some k" and d: "position s = Dispatch" by auto
  let ?m = "m\<lparr>restartSP := SP m\<rparr>"
  have "found_line (seq_cache s) k ?m" using assms k d by (auto simp: seq_ok_def found_line_def)
  then have "InstructionCacheLookup (seq_cache s) ?m = Some (Ok (Inr (k, seq_cache s)), ?m)" by (rule lookup_hit)
  then have "turn e (unlink s) m = execute e (s\<lparr>seq_cp := Some k, seq_cache := seq_cache s\<rparr>) ?m"
    using d by (simp add: turn_def unlink_def lookup_def)
  also have "s\<lparr>seq_cp := Some k, seq_cache := seq_cache s\<rparr> = s" using k by (cases s) simp
  also have "execute e s ?m = execute e s m" by (simp add: execute_def)
  finally show ?thesis using d k by (simp add: turn_def)
next
  case False
  then have "unlink s = s" by (cases s) (auto simp: unlink_def)
  then show ?thesis by simp
qed

lemma after_trap_position: "after_trap s l m = Some (Ok s', m') \<Longrightarrow> seq_cache s' = seq_cache s \<and> position s' \<noteq> Dispatch"
  by (auto simp: after_trap_def ret_def split: if_splits)

lemma bind_after_trap:
  "bind_em f (after_trap s) m = Some (Ok s', m') \<Longrightarrow> seq_cache s' = seq_cache s \<and> position s' \<noteq> Dispatch"
  by (auto simp: bind_em_def dest: after_trap_position split: option.splits outcome.splits)

lemma after_label_next:
  assumes "after_label e s l m = Some (Ok s', m')"
  shows "seq_cache s' = seq_cache s"
    "position s' = Dispatch \<Longrightarrow> l = NextInstruction \<and> seq_cp s' = next_cp (current_line s) \<and> PC m' = next_pc (current_line s)"
  using assms by (auto simp: after_label_def ret_def dest: bind_after_trap split: label.splits)

lemma landing_ok:
  assumes "landing s f m = Some (Ok s', m')"
  shows "f m = Some (Ok s', m') \<or> (seq_cache s' = seq_cache s \<and> position s' \<noteq> Dispatch)"
  using assms by (auto simp: landing_def split: option.splits outcome.splits)

lemma entry_of_illegal: "entry_of CodeIllegalInstruction = unimplemented_entry"
  unfolding entry_of_def Instructions_def by (subst map_of_Cons_code(2)) (simp only: simp_thms if_True option.case)

lemma illegal_never_next:
  assumes "snd (entry_of CodeIllegalInstruction) e vm cp m = Some (Ok (l, vm'), m')"
  shows "l \<noteq> NextInstruction"
  using assms by (auto simp: entry_of_illegal unimplemented_entry_def plain_def keep_vm_def stop_def bind_em_def ret_def)

lemma seq_ok_elsewhere: "cache_linked (seq_cache s) \<Longrightarrow> position s \<noteq> Dispatch \<Longrightarrow> seq_ok s m"
  by (simp add: seq_ok_def)

lemma linked_next:
  assumes "cache_linked c" "found_line c k m" "safe_pc m" "code (c k) \<noteq> CodeIllegalInstruction"
    and "next_cp (c k) = Some k'" "PC m' = next_pc (c k)"
  shows "found_line c k' m'"
proof -
  have "line_linked c k" using assms(1,2) line_index_range [of "PC m"] by (simp add: cache_linked_def found_line_def)
  moreover have "uint (-1 :: Integer) = 4294967295" by (simp add: unsigned_minus_1_eq_mask mask_eq_exp_minus_1)
  then have "DATA (line_pc (c k)) \<noteq> 0" "DATA (line_pc (c k)) \<noteq> -1"
    using assms(2,3) by (auto simp: found_line_def safe_pc_def word_uint_eq_iff)
  ultimately show ?thesis using assms(4-6) by (auto simp: line_linked_def found_line_def)
qed

lemma execute_ok:
  assumes "cache_linked (seq_cache s)" "seq_cp s = Some k" "found_line (seq_cache s) k m" "safe_pc m"
    and r: "execute e s m = Some (Ok s', m')"
  shows "seq_ok s' m'"
proof -
  let ?m = "m\<lparr>restartSP := SP m\<rparr>" and ?cp = "current_line s"
  obtain place run where entry: "entry_of (code ?cp) = (place, run)" by (cases "entry_of (code ?cp)")
  define s1 where "s1 = (case place of None \<Rightarrow> s | Some f \<Rightarrow> s\<lparr>seq_op2 := f ?cp ?m\<rparr>)"
  have s1: "seq_cache s1 = seq_cache s" "seq_cp s1 = Some k" "current_line s1 = ?cp"
    using assms(2) by (simp_all add: s1_def current_line_def split: option.splits)
  from r have "landing s1 (bind_em (run e (seq_vm s1) ?cp) (\<lambda>(l, vm). after_label e (s1\<lparr>seq_vm := vm\<rparr>) l)) ?m = Some (Ok s', m')"
    by (simp add: execute_def entry s1_def Let_def)
  from landing_ok [OF this] show ?thesis
  proof
    assume "seq_cache s' = seq_cache s1 \<and> position s' \<noteq> Dispatch"
    then show ?thesis using s1 assms(1) by (simp add: seq_ok_elsewhere)
  next
    assume "bind_em (run e (seq_vm s1) ?cp) (\<lambda>(l, vm). after_label e (s1\<lparr>seq_vm := vm\<rparr>) l) ?m = Some (Ok s', m')"
    then obtain l vm m1 where run: "run e (seq_vm s1) ?cp ?m = Some (Ok (l, vm), m1)"
      and l: "after_label e (s1\<lparr>seq_vm := vm\<rparr>) l m1 = Some (Ok s', m')"
      by (auto simp: bind_em_def split: option.splits outcome.splits)
    note next_line = after_label_next [OF l]
    have cp: "?cp = seq_cache s k" "current_line (s1\<lparr>seq_vm := vm\<rparr>) = seq_cache s k"
      using assms(2) s1 by (simp_all add: current_line_def line_at_def)
    show ?thesis
      unfolding seq_ok_def
    proof (intro conjI impI allI)
      show "cache_linked (seq_cache s')" using next_line(1) s1 assms(1) by simp
    next
      fix k' assume d: "position s' = Dispatch" and k': "seq_cp s' = Some k'"
      have "code (seq_cache s k) \<noteq> CodeIllegalInstruction"
        using illegal_never_next run next_line(2) [OF d] entry cp by (metis snd_conv)
      then have "found_line (seq_cache s) k' m'"
        using linked_next [OF assms(1,3,4)] next_line(2) [OF d] k' cp by simp
      then show "found_line (seq_cache s') k' m'" using next_line(1) s1 by simp
    qed
  qed
qed

text \<open>A turn from a safe program counter keeps the invariant.\<close>

lemma lookup_ok:
  assumes "cache_linked (seq_cache s)" "safe_pc m" and r: "lookup e s m = Some (Ok s', m')"
  shows "seq_ok s' m'"
proof -
  obtain x m1 where l: "InstructionCacheLookup (seq_cache s) m = Some (x, m1)"
    using r by (auto simp: lookup_def split: option.splits)
  show ?thesis
  proof (cases x)
    case (Ok y)
    show ?thesis
    proof (cases y)
      case (Inl lab)
      have lab: "lab = Halt \<or> lab = InstructionException"
        using l Ok Inl by (auto simp: InstructionCacheLookup_def bind_em_def ret_def Let_def split: if_splits option.splits outcome.splits)
      have "landing s (after_label e s lab) m1 = Some (Ok s', m')" using r l Ok Inl by (simp add: lookup_def)
      from landing_ok [OF this] have "seq_cache s' = seq_cache s \<and> position s' \<noteq> Dispatch"
        using after_label_next [of e s lab m1 s' m'] lab by auto
      then show ?thesis using assms(1) by (simp add: seq_ok_elsewhere)
    next
      case (Inr p)
      obtain k c where p: "p = (k, c)" by (cases p)
      have hit: "InstructionCacheLookup (seq_cache s) m = Some (Ok (Inr (k, c)), m1)" using l Ok Inr p by simp
      have "execute e (s\<lparr>seq_cp := Some k, seq_cache := c\<rparr>) m1 = Some (Ok s', m')" using r hit by (simp add: lookup_def)
      then show ?thesis using lookup_finds [OF hit assms(2,1)] by (intro execute_ok) auto
    qed
  next
    case (Longjmp v)
    then show ?thesis using r l assms(1) by (auto simp: lookup_def seq_ok_def)
  next
    case Exit
    then show ?thesis using r l by (simp add: lookup_def)
  qed
qed

lemma turn_ok:
  assumes "seq_ok s m" "safe_pc m" "turn e s m = Some (Ok s', m')"
  shows "seq_ok s' m'"
proof (cases "position s")
  case Lookup
  then show ?thesis using assms lookup_ok by (simp add: turn_def seq_ok_def)
next
  case Dispatch
  show ?thesis
  proof (cases "seq_cp s")
    case None
    moreover have "safe_pc (m\<lparr>restartSP := SP m\<rparr>)" using assms(2) by (simp add: safe_pc_def)
    ultimately show ?thesis using assms Dispatch lookup_ok by (auto simp: turn_def seq_ok_def)
  next
    case (Some k)
    then show ?thesis using assms Dispatch by (intro execute_ok [of s k m e]) (auto simp: turn_def seq_ok_def)
  qed
next
  case (Trapped v)
  then have "landing s (bind_em (handle_longjmp (stray_slot e) (current_line s) (seq_op2 s) v) (after_trap s)) m = Some (Ok s', m')"
    using assms(3) by (simp add: turn_def)
  from landing_ok [OF this] show ?thesis using assms(1) by (auto simp: seq_ok_def dest: bind_after_trap)
next
  case Halted
  then show ?thesis using assms by (simp add: turn_def ret_def seq_ok_def)
qed

section \<open>Runs\<close>

text \<open>The same turns, each of which looks its line up.\<close>

primrec unlinked_turns :: "(nat \<Rightarrow> Outside) \<Rightarrow> nat \<Rightarrow> Sequencer \<Rightarrow> Sequencer em" where
  "unlinked_turns env 0 s = ret s"
| "unlinked_turns env (Suc n) s = bind_em (unlinked_turns env n s) (\<lambda>s'. turn (env n) (unlink s'))"

definition safe_run :: "(nat \<Rightarrow> Outside) \<Rightarrow> nat \<Rightarrow> Sequencer \<Rightarrow> Machine \<Rightarrow> bool" where
  "safe_run env n s m \<longleftrightarrow> (\<forall>k<n. case turns env k s m of Some (Ok _, m') \<Rightarrow> safe_pc m' | _ \<Rightarrow> True)"

lemma turns_ok:
  assumes "seq_ok s m" "safe_run env n s m" "turns env n s m = Some (Ok s', m')"
  shows "seq_ok s' m'"
  using assms(2,3)
proof (induction n arbitrary: s' m')
  case 0
  then show ?case using assms(1) by (simp add: ret_def)
next
  case (Suc n)
  from Suc.prems(2) obtain s1 m1 where t: "turns env n s m = Some (Ok s1, m1)" "turn (env n) s1 m1 = Some (Ok s', m')"
    by (auto simp: bind_em_def split: option.splits outcome.splits)
  have "safe_run env n s m" using Suc.prems(1) by (simp add: safe_run_def less_Suc_eq)
  then have "seq_ok s1 m1" using Suc.IH t(1) by simp
  moreover have "safe_pc m1" using Suc.prems(1) t(1) by (auto simp: safe_run_def less_Suc_eq)
  ultimately show ?case using turn_ok t(2) by blast
qed

lemma turns_unlinked:
  assumes "seq_ok s m" "safe_run env n s m"
  shows "unlinked_turns env n s m = turns env n s m"
  using assms(2)
proof (induction n)
  case 0
  then show ?case by simp
next
  case (Suc n)
  then have safe: "safe_run env n s m" by (simp add: safe_run_def less_Suc_eq)
  then have IH: "unlinked_turns env n s m = turns env n s m" using Suc.IH by simp
  have "turn (env n) (unlink s1) m1 = turn (env n) s1 m1" if "turns env n s m = Some (Ok s1, m1)" for s1 m1
    using turn_unlink turns_ok [OF assms(1) safe that] by blast
  then show ?case using IH by (auto simp: bind_em_def split: option.splits outcome.splits)
qed

lemma empty_cache_linked: "cache_linked (empty_cache c)"
  by (simp add: cache_linked_def line_linked_def empty_cache_def)

lemma start_ok: "seq_ok (sequencer_start op2 (empty_cache c) vm) m"
  by (simp add: seq_ok_def sequencer_start_def empty_cache_linked)

end
