(* ===== verification/Ivory_Facts.thy ===== *)
theory Ivory_Facts
  imports Ivory_VM Ivory_Lists
begin

text \<open>
  Facts on the emulator's memory: the word that a program sees at an address, what reads and
  writes do to it, the scrolling of the stack cache, and the chains of forwarding pointers that
  a memory cycle follows.
\<close>

section \<open>Outcomes\<close>

named_theorems em_simps \<open>unfolding the sequencing of routines\<close>

lemma bind_em_simps [em_simps]:
  "f m = None \<Longrightarrow> bind_em f g m = None"
  "f m = Some (Ok x, m') \<Longrightarrow> bind_em f g m = g x m'"
  "f m = Some (Longjmp v, m') \<Longrightarrow> bind_em f g m = Some (Longjmp v, m')"
  "f m = Some (Exit, m') \<Longrightarrow> bind_em f g m = Some (Exit, m')"
  by (simp_all add: bind_em_def)

lemma bind_ret [em_simps, simp]: "bind_em (ret x) g = g x"
  by (simp add: bind_em_def ret_def)

lemma bind_modify [em_simps, simp]: "bind_em (modify f) g = (\<lambda>m. g () (f m))"
  by (simp add: bind_em_def modify_def)

lemma ret_apply [simp]: "ret x m = Some (Ok x, m)"
  by (simp add: ret_def)

lemma modify_apply [simp]: "modify f m = Some (Ok (), f m)"
  by (simp add: modify_def)

section \<open>The word at an address\<close>

definition word_at :: "Machine \<Rightarrow> Integer \<Rightarrow> LispObj" where
  "word_at m vma = (if in_stack_cache m vma then StackCache m (uint (stack_cache_index m vma))
     else obj (TagSpace m vma) (DataSpace m vma))"

definition readable :: "Machine \<Rightarrow> Integer \<Rightarrow> bool" where
  "readable m vma \<longleftrightarrow> in_stack_cache m vma \<or> Created m vma"

text \<open>The address of the last access that did not hit the stack cache is all a read changes.\<close>

definition touch :: "Integer \<Rightarrow> Machine \<Rightarrow> Machine" where
  "touch vma m = (if in_stack_cache m vma then m else m\<lparr>memory_vma := vma\<rparr>)"

lemma touch_view [simp]:
  "word_at (touch vma m) = word_at m" "readable (touch vma m) = readable m"
  "in_stack_cache (touch vma m) = in_stack_cache m" "Created (touch vma m) = Created m"
  "StackCache (touch vma m) = StackCache m" "SP (touch vma m) = SP m"
  by (simp_all add: touch_def fun_eq_iff word_at_def readable_def in_stack_cache_def stack_cache_index_def Created_def)

lemma read_word:
  "ReadVirtualMemory vma m = (if readable m vma then Some (Ok (word_at m vma), touch vma m)
    else Some (Longjmp PageNotResidentTrapVector, m\<lparr>memory_vma := vma, trap_vma := vma\<rparr>))"
  by (simp add: ReadVirtualMemory_def VirtualMemoryRead_def segv_handler_def TakeMemoryTrap_def readable_def
      word_at_def touch_def)

text \<open>A write goes through the stack cache to memory, whose page must be there.\<close>

definition written :: "Integer \<Rightarrow> LispObj \<Rightarrow> Machine \<Rightarrow> Machine" where
  "written vma x m = store_word vma x ((if in_stack_cache m vma
     then m\<lparr>StackCache := (StackCache m)(uint (stack_cache_index m vma) := x)\<rparr> else m)\<lparr>memory_vma := vma\<rparr>)"

lemma write_word: "Created m vma \<Longrightarrow> WriteVirtualMemory vma x m = Some (Ok (), written vma x m)"
  by (simp add: WriteVirtualMemory_def VirtualMemoryWrite_def written_def Created_def)

lemma stack_cache_index_inj: "stack_cache_index m a = stack_cache_index m b \<longleftrightarrow> a = b"
  by (simp add: stack_cache_index_def)

lemma written_view:
  "word_at (written vma x m) = (word_at m)(vma := x)" "Created (written vma x m) = Created m"
  "in_stack_cache (written vma x m) = in_stack_cache m"
  by (auto simp: fun_eq_iff word_at_def written_def store_word_def in_stack_cache_def stack_cache_index_def
      Created_def dest: word_uint_eqI)

section \<open>Scrolling\<close>

lemma in_stack_cache_iff: "in_stack_cache m vma \<longleftrightarrow> uint (stack_cache_index m vma) < 1024"
  by (simp add: in_stack_cache_def StackCacheSize_def PageSize_def word_less_def)

text \<open>
  The copies of the upward scroll run from the last page down, so each overwrites the page that
  the next one reads: every page ends up as the last one.
\<close>

lemma scroll_up_copies:
  assumes "0 \<le> r" "r < 256" "0 \<le> page" "page < 4"
  shows "fold (\<lambda>i c. copy_page i (1 + i) c) [2, 1, 0] c (256 * page + r) = c (768 + r)"
proof -
  consider "page = 0" | "page = 1" | "page = 2" | "page = 3" using assms(3,4) by linarith
  then show ?thesis using assms(1,2) by cases (simp_all add: copy_page_def PageSize_def add.commute)
qed

lemma scroll_down_copies:
  assumes "0 \<le> j" "j < 1024"
  shows "fold (\<lambda>i c. copy_page (1 + i) i c) [2, 1, 0] c j = (if j < 256 then c j else c (j - 256))"
proof -
  show ?thesis using assms by (simp add: copy_page_def PageSize_def)
qed

lemma write_block_loop_ok:
  "(\<And>i. i < n \<Longrightarrow> Created m (data + of_nat i)) \<Longrightarrow>
    \<exists>m'. write_block_loop object k data n m = Some (Ok (), m') \<and> StackCache m' = StackCache m \<and>
      StackCacheBase m' = StackCacheBase m \<and> SP m' = SP m \<and> FP m' = FP m \<and> LP m' = LP m"
proof (induction n arbitrary: k data m)
  case (Suc n)
  let ?m = "(store_word data (object k) m)\<lparr>memory_vma := memory_vma (store_word data (object k) m) + 1\<rparr>"
  have "Created m data" using Suc.prems [of 0] by simp
  moreover have "Created ?m (data + 1 + of_nat i)" if "i < n" for i
    using Suc.prems [of "Suc i"] that by (simp add: Created_def store_word_def ac_simps)
  ultimately show ?case using Suc.IH [of ?m "data + 1" "Suc k"] by (auto simp: store_word_def)
qed simp

lemma read_block_loop_stack:
  "(\<And>i. i < n \<Longrightarrow> Created m (data + of_nat i)) \<Longrightarrow>
    \<exists>m'. read_block_loop (\<lambda>k x m. m\<lparr>StackCache := (StackCache m)(int k := x)\<rparr>) k data n m = Some (Ok (), m') \<and>
      StackCacheBase m' = StackCacheBase m \<and> SP m' = SP m \<and> FP m' = FP m \<and> LP m' = LP m \<and>
      DataSpace m' = DataSpace m \<and> TagSpace m' = TagSpace m \<and>
      (\<forall>j. StackCache m' j = (if int k \<le> j \<and> j < int (k + n)
        then obj (TagSpace m (data + of_int (j - int k))) (DataSpace m (data + of_int (j - int k)))
        else StackCache m j))"
proof (induction n arbitrary: k data m)
  case (Suc n)
  let ?m = "m\<lparr>StackCache := (StackCache m)(int k := obj (TagSpace m data) (DataSpace m data)),
    memory_vma := memory_vma m + 1\<rparr>"
  have c: "Created m data" using Suc.prems [of 0] by simp
  have "Created ?m (data + 1 + of_nat i)" if "i < n" for i
    using Suc.prems [of "Suc i"] that by (simp add: Created_def ac_simps)
  from Suc.IH [of ?m "data + 1" "Suc k", OF this] obtain m' where
    m': "read_block_loop (\<lambda>k x m. m\<lparr>StackCache := (StackCache m)(int k := x)\<rparr>) (Suc k) (data + 1) n ?m = Some (Ok (), m')"
      "StackCacheBase m' = StackCacheBase ?m" "SP m' = SP ?m" "FP m' = FP ?m" "LP m' = LP ?m"
      "DataSpace m' = DataSpace ?m" "TagSpace m' = TagSpace ?m"
      "\<forall>j. StackCache m' j = (if int (Suc k) \<le> j \<and> j < int (Suc k + n)
        then obj (TagSpace ?m (data + 1 + of_int (j - int (Suc k)))) (DataSpace ?m (data + 1 + of_int (j - int (Suc k))))
        else StackCache ?m j)" by blast
  have sh: "data + 1 + of_int (j - int (Suc k)) = data + of_int (j - int k)" for j by simp
  have "StackCache m' j = (if int k \<le> j \<and> j < int (k + Suc n)
        then obj (TagSpace m (data + of_int (j - int k))) (DataSpace m (data + of_int (j - int k)))
        else StackCache m j)" for j
    using m'(8) [rule_format, of j] unfolding sh by (cases "j = int k") auto
  moreover have "read_block_loop (\<lambda>k x m. m\<lparr>StackCache := (StackCache m)(int k := x)\<rparr>) k data (Suc n) m = Some (Ok (), m')"
    using c m'(1) by (simp add: Let_def)
  moreover have "StackCacheBase m' = StackCacheBase m" "SP m' = SP m" "FP m' = FP m" "LP m' = LP m"
      "DataSpace m' = DataSpace m" "TagSpace m' = TagSpace m" using m'(2-7) by simp_all
  ultimately show ?case by blast
qed auto

lemma block_words_page: "unat base \<le> 2 ^ 32 - 257 \<Longrightarrow> block_words base PageSize = 256"
proof -
  assume "unat base \<le> 2 ^ 32 - 257"
  then have "unat (base + 256) = unat base + 256" by (subst unat_add_lem [THEN iffD1]) simp_all
  then show ?thesis by (simp add: block_words_def PageSize_def)
qed

section \<open>Forwarding\<close>

text \<open>The address that a memory cycle goes on to from the word at \<open>vma\<close>, if it is a forward.\<close>

definition forward :: "nat \<Rightarrow> Machine \<Rightarrow> Integer \<Rightarrow> Integer option" where
  "forward cycle m vma = (if readable m vma \<and>
       memory_action cycle (TAG (word_at m vma)) AND NOT MemoryActionTransport = MemoryActionIndirect
     then Some (DATA (word_at m vma)) else None)"

lemma forward_touch [simp]: "forward cycle (touch vma m) = forward cycle m"
  by (simp add: forward_def fun_eq_iff)

text \<open>\<open>n\<close> forwards from \<open>vma\<close> lead to \<open>v\<close>, which is not one.\<close>

inductive forwards_to :: "nat \<Rightarrow> Machine \<Rightarrow> nat \<Rightarrow> Integer \<Rightarrow> Integer \<Rightarrow> bool" for cycle m where
  here: "forward cycle m vma = None \<Longrightarrow> forwards_to cycle m 0 vma vma"
| there: "forward cycle m vma = Some v \<Longrightarrow> forwards_to cycle m n v w \<Longrightarrow> forwards_to cycle m (Suc n) vma w"

inductive_cases forwards_toE: "forwards_to cycle m n vma v"

lemma transport_never: "transport_test action = False"
  by (simp add: transport_test_def)

text \<open>What the cycle does at the end of the chain.\<close>

definition cycle_end :: "nat \<Rightarrow> Machine \<Rightarrow> Integer \<Rightarrow> (Integer \<times> LispObj) outcome" where
  "cycle_end cycle m vma =
     (if \<not> readable m vma then Longjmp PageNotResidentTrapVector
      else let x = word_at m vma; act = memory_action cycle (TAG x) AND NOT MemoryActionTransport in
        if act = 0 then Ok (vma, x)
        else if act = MemoryActionTrap then Longjmp ErrorTrapVector
        else if act = MemoryActionTransform then Ok (vma, x\<lparr>TAG := MergeCdr (TAG x) TypeExternalValueCellPointer\<rparr>)
        else if act = MemoryActionMonitor then Longjmp MonitorTrapVector
        else Exit)"

text \<open>Machines that differ in the registers of the trap mechanism only.\<close>

definition same_words :: "Machine \<Rightarrow> Machine \<Rightarrow> bool" where
  "same_words m m' \<longleftrightarrow> (\<exists>a b. m' = m\<lparr>memory_vma := a, trap_vma := b\<rparr>)"

lemma same_wordsI: "m' = m\<lparr>memory_vma := a, trap_vma := b\<rparr> \<Longrightarrow> same_words m m'"
  unfolding same_words_def by blast

lemma same_words_refl: "same_words m m"
  by (rule same_wordsI [where a = "memory_vma m" and b = "trap_vma m"]) simp

lemma same_words_touch: "same_words m (touch vma m)"
proof (cases "in_stack_cache m vma")
  case False
  then show ?thesis by (intro same_wordsI [where a = vma and b = "trap_vma m"]) (simp add: touch_def)
qed (simp add: touch_def same_words_refl)

lemma same_words_trans: "same_words a b \<Longrightarrow> same_words b c \<Longrightarrow> same_words a c"
  unfolding same_words_def by (elim exE) (rule exI, rule exI, simp)

lemma same_words_trap: "same_words a b \<Longrightarrow> same_words a (b\<lparr>trap_vma := v\<rparr>)"
  unfolding same_words_def by (elim exE) (rule exI, rule exI, simp)

lemma same_words_view:
  assumes "same_words m m'"
  shows "word_at m' = word_at m" "readable m' = readable m" "StackCache m' = StackCache m" "SP m' = SP m"
    "forward cycle m' = forward cycle m" "cycle_end cycle m' = cycle_end cycle m" "Created m' = Created m"
proof -
  show 1: "word_at m' = word_at m" "readable m' = readable m" "StackCache m' = StackCache m" "SP m' = SP m"
      "Created m' = Created m"
    using assms by (auto simp: same_words_def fun_eq_iff word_at_def readable_def in_stack_cache_def
        stack_cache_index_def Created_def)
  show "forward cycle m' = forward cycle m" "cycle_end cycle m' = cycle_end cycle m"
    by (simp_all add: fun_eq_iff forward_def cycle_end_def 1)
qed

text \<open>A cycle whose chain ends does what the last word asks for, and changes no word.\<close>

lemma memory_read_ends:
  "forwards_to cycle m n vma v \<Longrightarrow> same_words m k \<Longrightarrow>
    \<exists>m'. MemoryReadInternal cycle None vma k = Some (cycle_end cycle m v, m') \<and> same_words m m'"
proof (induction arbitrary: k rule: forwards_to.induct)
  case (here vma)
  note view = same_words_view [OF here.prems]
  have act: "readable m vma \<Longrightarrow>
      memory_action cycle (TAG (word_at m vma)) AND NOT MemoryActionTransport \<noteq> MemoryActionIndirect"
    using here.hyps by (auto simp: forward_def split: if_splits)
  have t: "same_words m (touch vma k)" using same_words_trans [OF here.prems same_words_touch] .
  have u: "same_words m (k\<lparr>memory_vma := vma, trap_vma := vma\<rparr>)"
    using here.prems by (rule same_words_trans) (rule same_wordsI, simp)
  show ?case
  proof (cases "readable m vma")
    case False
    then show ?thesis using u by (simp add: MemoryReadInternal.simps read_word view cycle_end_def)
  next
    case True
    then show ?thesis using t act [OF True] same_words_trap [OF t]
      by (subst MemoryReadInternal.simps)
        (auto simp: read_word view cycle_end_def transport_never set_dest_def Let_def TakeMemoryTrap_def)
  qed
next
  case (there vma v n w)
  note view = same_words_view [OF there.prems]
  have r: "readable m vma" "DATA (word_at m vma) = v"
      "memory_action cycle (TAG (word_at m vma)) AND NOT MemoryActionTransport = MemoryActionIndirect"
    using there.hyps(1) by (auto simp: forward_def split: if_splits)
  have "MemoryReadInternal cycle None vma k = MemoryReadInternal cycle None v (touch vma k)"
    using r by (subst MemoryReadInternal.simps) (simp add: read_word view transport_never set_dest_def Let_def)
  then show ?case using there.IH [OF same_words_trans [OF there.prems same_words_touch]] by simp
qed

text \<open>Only a chain that ends is read to the end.\<close>

lemma memory_read_only_ends:
  assumes "MemoryReadInternal cycle None vma m = Some r"
  shows "\<exists>n v. forwards_to cycle m n vma v"
proof (rule MemoryReadInternal.raw_induct
    [where P = "\<lambda>cycle d vma m r. d = None \<longrightarrow> (\<exists>n v. forwards_to cycle m n vma v)", OF _ assms,
      rule_format, OF _ refl])
  fix loop :: "nat \<Rightarrow> dest \<Rightarrow> Integer \<Rightarrow> Machine \<Rightarrow> ((Integer \<times> LispObj) outcome \<times> Machine) option"
    and cycle d vma m r
  assume IH: "\<And>cycle d vma m r. loop cycle d vma m = Some r \<Longrightarrow> d = None \<Longrightarrow> \<exists>n v. forwards_to cycle m n vma v"
    and eq: "(case ReadVirtualMemory vma m of
        None \<Rightarrow> None
      | Some (Longjmp v, m1) \<Rightarrow> Some (Longjmp v, m1)
      | Some (Exit, m1) \<Rightarrow> Some (Exit, m1)
      | Some (Ok x, m0) \<Rightarrow>
          (let m1 = set_dest d x m0; action = memory_action cycle (TAG x) in
           if transport_test action \<and> OldspaceAddressP m1 (DATA x) then TakeMemoryTrap TransportTrapVector vma m1
           else let act = action AND NOT MemoryActionTransport in
             if act = 0 then Some (Ok (vma, x), m1)
             else if act = MemoryActionTrap then TakeMemoryTrap ErrorTrapVector vma m1
             else if act = MemoryActionTransform
               then (let x' = x\<lparr>TAG := MergeCdr (TAG x) TypeExternalValueCellPointer\<rparr>
                     in Some (Ok (vma, x'), set_dest d x' m1))
             else if act = MemoryActionMonitor then TakeMemoryTrap MonitorTrapVector vma m1
             else if act = MemoryActionIndirect then loop cycle d (DATA x) m1
             else Some (Exit, m1))) = Some r"
    and d: "d = None"
  show "\<exists>n v. forwards_to cycle m n vma v"
  proof (cases "forward cycle m vma")
    case None
    then show ?thesis using forwards_to.here by blast
  next
    case (Some w)
    then have "readable m vma" "DATA (word_at m vma) = w"
        "memory_action cycle (TAG (word_at m vma)) AND NOT MemoryActionTransport = MemoryActionIndirect"
      by (auto simp: forward_def split: if_splits)
    then have "loop cycle d w (touch vma m) = Some r"
      using eq d by (simp add: read_word transport_never set_dest_def Let_def)
    then obtain n v where "forwards_to cycle (touch vma m) n w v" using IH d by blast
    then have "forwards_to cycle m n w v"
      by (induction rule: forwards_to.induct) (auto intro: forwards_to.intros)
    then show ?thesis using forwards_to.there [OF Some] by blast
  qed
qed

section \<open>Lists in memory\<close>

text \<open>A memory cycle at \<open>vma\<close> ends at \<open>v\<close> and reads \<open>x\<close>.\<close>

definition reads :: "nat \<Rightarrow> Machine \<Rightarrow> Integer \<Rightarrow> Integer \<Rightarrow> LispObj \<Rightarrow> bool" where
  "reads cycle m vma v x \<longleftrightarrow> (\<exists>n w. forwards_to cycle m n vma w \<and> cycle_end cycle m w = Ok (v, x))"

lemma reads_result:
  "reads cycle m vma v x \<Longrightarrow> same_words m k \<Longrightarrow>
    \<exists>m'. MemoryReadInternal cycle None vma k = Some (Ok (v, x), m') \<and> same_words m m'"
  unfolding reads_def using memory_read_ends by metis

text \<open>The cdr-coded list that an object stands for.\<close>

inductive list_at :: "Machine \<Rightarrow> LispObj \<Rightarrow> LispObj list \<Rightarrow> bool" for m where
  nil: "TagType (TAG l) = TypeNIL \<Longrightarrow> list_at m l []"
| cdr_nil: "TagType (TAG l) = TypeList \<Longrightarrow> reads CycleDataRead m (DATA l) v x \<Longrightarrow>
    reads CycleCdr m (DATA l) w c \<Longrightarrow> TagCdr (TAG c) = CdrNil \<Longrightarrow> list_at m l [cdr_next x]"
| cdr_next: "TagType (TAG l) = TypeList \<Longrightarrow> reads CycleDataRead m (DATA l) v x \<Longrightarrow>
    reads CycleCdr m (DATA l) w c \<Longrightarrow> TagCdr (TAG c) = CdrNext \<Longrightarrow>
    list_at m (obj TypeList (w + 1)) xs \<Longrightarrow> list_at m l (cdr_next x # xs)"
| cdr_normal: "TagType (TAG l) = TypeList \<Longrightarrow> reads CycleDataRead m (DATA l) v x \<Longrightarrow>
    reads CycleCdr m (DATA l) w c \<Longrightarrow> TagCdr (TAG c) = CdrNormal \<Longrightarrow>
    reads CycleDataRead m (w + 1) u y \<Longrightarrow> list_at m (cdr_next y) xs \<Longrightarrow> list_at m l (cdr_next x # xs)"

inductive_cases list_at_NilE: "list_at m l []"
inductive_cases list_at_ConsE: "list_at m l (x # xs)"

text \<open>What is known of a machine after a read.\<close>

definition gives :: "'a em \<Rightarrow> Machine \<Rightarrow> Machine \<Rightarrow> 'a \<Rightarrow> bool" where
  "gives f m k r \<longleftrightarrow> (\<exists>m'. f k = Some (Ok r, m') \<and> same_words m m')"

lemma gives_ret: "same_words m k \<Longrightarrow> gives (ret r) m k r"
  by (simp add: gives_def)

lemma gives_bind: "gives f m k r \<Longrightarrow> (\<And>k'. same_words m k' \<Longrightarrow> gives (g r) m k' s) \<Longrightarrow> gives (bind_em f g) m k s"
  by (auto simp: gives_def bind_em_def)

lemma gives_read: "reads cycle m vma v x \<Longrightarrow> same_words m k \<Longrightarrow> gives (MemoryReadInternal cycle None vma) m k (v, x)"
  using reads_result by (auto simp: gives_def)

lemma gives_read_masked:
  assumes "reads CycleDataRead m vma v x" "same_words m k"
  shows "gives (read_masked vma None) m k (Some (cdr_next x))"
  unfolding read_masked_def MemoryReadData_def
  by (rule gives_bind [OF gives_read [OF assms]]) (simp add: set_dest_def gives_def)

text \<open>Car and cdr are head and tail.\<close>

lemma car_cons: "list_at m l (x # xs) \<Longrightarrow> same_words m k \<Longrightarrow> gives (CarInternal l None) m k (Some x)"
  by (erule list_at_ConsE) (auto simp: CarInternal_def intro: gives_read_masked)

lemma cdr_cons:
  assumes "list_at m l (x # xs)"
  shows "\<exists>r. (\<forall>k. same_words m k \<longrightarrow> gives (CdrInternal l None) m k (Some r)) \<and> list_at m r xs"
proof -
  from assms consider
      (cdr_nil) w c where "TagType (TAG l) = TypeList" "reads CycleCdr m (DATA l) w c" "TagCdr (TAG c) = CdrNil" "xs = []"
    | (cdr_next) w c where "TagType (TAG l) = TypeList" "reads CycleCdr m (DATA l) w c" "TagCdr (TAG c) = CdrNext"
        "list_at m (obj TypeList (w + 1)) xs"
    | (cdr_normal) w c u y where "TagType (TAG l) = TypeList" "reads CycleCdr m (DATA l) w c"
        "TagCdr (TAG c) = CdrNormal" "reads CycleDataRead m (w + 1) u y" "list_at m (cdr_next y) xs"
    by (rule list_at_ConsE) blast+
  then show ?thesis
  proof cases
    case (cdr_nil w c)
    have "gives (CdrInternal l None) m k (Some ObjectNIL)" if k: "same_words m k" for k
      unfolding CdrInternal_def MemoryReadCdr_def using cdr_nil
      by simp (rule gives_bind [OF gives_read [OF _ k]], assumption, simp add: gives_def set_dest_def)
    moreover have "list_at m ObjectNIL xs" using cdr_nil by (auto intro: list_at.nil simp: ObjectNIL_def TagType_def)
    ultimately show ?thesis by blast
  next
    case (cdr_next w c)
    have "gives (CdrInternal l None) m k (Some (obj TypeList (w + 1)))" if k: "same_words m k" for k
      unfolding CdrInternal_def MemoryReadCdr_def using cdr_next
      by simp (rule gives_bind [OF gives_read [OF _ k]], assumption, simp add: gives_def set_dest_def)
    then show ?thesis using cdr_next by blast
  next
    case (cdr_normal w c u y)
    have "gives (CdrInternal l None) m k (Some (cdr_next y))" if k: "same_words m k" for k
      unfolding CdrInternal_def MemoryReadCdr_def using cdr_normal
      by simp (rule gives_bind [OF gives_read [OF _ k]], assumption, simp add: gives_read_masked)
    then show ?thesis using cdr_normal by blast
  qed
qed

lemma carcdr_cons:
  assumes "list_at m l (x # xs)"
  shows "\<exists>r. (\<forall>k. same_words m k \<longrightarrow> gives (CarCdrInternal l) m k (Some (x, r))) \<and> list_at m r xs"
proof -
  have loc: "\<not> TypeEqualP (TAG l) TypeLocative"
    using assms by (rule list_at_ConsE) (auto simp: TypeEqualP_TagType TagType_def)
  obtain r where r: "\<And>k. same_words m k \<Longrightarrow> gives (CdrInternal l None) m k (Some r)" "list_at m r xs"
    using cdr_cons [OF assms] by blast
  have "gives (CarCdrInternal l) m k (Some (x, r))" if "same_words m k" for k
    unfolding CarCdrInternal_def using loc
    by simp (rule gives_bind [OF car_cons [OF assms that]], simp, rule gives_bind [OF r(1)], assumption,
      simp add: gives_ret)
  then show ?thesis using r(2) by blast
qed

lemma list_at_cong:
  "list_at m l xs \<Longrightarrow> TagType (TAG l') = TagType (TAG l) \<Longrightarrow> DATA l' = DATA l \<Longrightarrow> list_at m l' xs"
  by (erule list_at.cases) (metis list_at.intros)+

lemma list_at_cdr_next: "list_at m l xs \<Longrightarrow> list_at m (cdr_next l) xs"
  by (erule list_at_cong) simp_all

text \<open>
  The member instruction on a proper list ends, and leaves the tail of the list from the first
  element that is \<^verbatim>\<open>eq\<close> to the object on the stack, or NIL.
\<close>

lemma member_on_list:
  "list_at m l xs \<Longrightarrow> same_words m k \<Longrightarrow>
    \<exists>t m'. member_loop l k = Some (Ok NextInstruction, set_tos t m') \<and> same_words m m' \<and>
      list_at m t (dropWhile (\<lambda>x. \<not> ObjectEqP x (TOS m)) xs)"
proof (induction xs arbitrary: l k)
  case Nil
  then have "TagType (TAG l) = TypeNIL" using list_at_NilE by blast
  moreover have "list_at m ObjectNIL []" by (rule list_at.nil) (simp add: ObjectNIL_def TagType_def)
  ultimately show ?case using Nil.prems(2)
    by (subst member_loop.simps) (auto simp: next_with_def)
next
  case (Cons x xs)
  have t: "TagType (TAG l) = TypeList" using Cons.prems(1) by (rule list_at_ConsE) simp_all
  obtain r where r: "gives (CarCdrInternal l) m k (Some (x, r))" "list_at m r xs"
    using carcdr_cons [OF Cons.prems(1)] Cons.prems(2) by blast
  then obtain m' where m': "CarCdrInternal l k = Some (Ok (Some (x, r)), m')" "same_words m m'"
    by (auto simp: gives_def)
  have tos: "TOS m' = TOS m" using same_words_view [OF m'(2)] by (simp add: TOS_def)
  have tail: "list_at m (cdr_next l) (x # xs)" using Cons.prems(1) by (rule list_at_cdr_next)
  show ?case
  proof (cases "ObjectEqP x (TOS m)")
    case True
    then show ?thesis using t m' tail tos by (subst member_loop.simps) (auto simp: next_with_def TagType_def)
  next
    case False
    then show ?thesis using t m' tos Cons.IH [OF r(2) m'(2)] by (subst member_loop.simps) (simp add: TagType_def)
  qed
qed

end
