(* ===== verification/Ivory_Memory_Facts.thy ===== *)
theory Ivory_Memory_Facts
  imports Ivory_Facts VLM_Interfaces
begin

text \<open>
  The memory of the emulator as a memory of words: single accesses, blocks that go through the
  stack cache, and the two scrolls of the stack cache.
\<close>

section \<open>Single words\<close>

text \<open>The accesses that return normally.\<close>

definition read_ok :: "Integer \<Rightarrow> Machine \<Rightarrow> (LispObj \<times> Machine) option" where
  "read_ok a m = (case ReadVirtualMemory a m of Some (Ok x, m') \<Rightarrow> Some (x, m') | _ \<Rightarrow> None)"

definition write_ok :: "Integer \<Rightarrow> LispObj \<Rightarrow> Machine \<Rightarrow> Machine option" where
  "write_ok a x m = (case WriteVirtualMemory a x m of Some (Ok _, m') \<Rightarrow> Some m' | _ \<Rightarrow> None)"

interpretation vm: word_memory Created word_at read_ok write_ok
proof unfold_locales
  fix m a assume "Created m a"
  then show "\<exists>t. read_ok a m = Some (word_at m a, t) \<and> word_at t = word_at m \<and> Created t = Created m"
    by (simp add: read_ok_def read_word readable_def)
next
  fix m a x assume "Created m a"
  then show "\<exists>t. write_ok a x m = Some t \<and> word_at t = (word_at m)(a := x) \<and> Created t = Created m"
    by (simp add: write_ok_def write_word written_view)
qed

text \<open>A sequence of writes and a sequence of reads, as a program makes them.\<close>

primrec write_each :: "(Integer \<times> LispObj) list \<Rightarrow> unit em" where
  "write_each [] = ret ()"
| "write_each (w # ws) = bind_em (WriteVirtualMemory (fst w) (snd w)) (\<lambda>_. write_each ws)"

primrec read_each :: "Integer list \<Rightarrow> LispObj list em" where
  "read_each [] = ret []"
| "read_each (a # as) = bind_em (ReadVirtualMemory a) (\<lambda>x. bind_em (read_each as) (\<lambda>xs. ret (x # xs)))"

lemma write_each_all: "vm.wr_all ws m = Some m' \<Longrightarrow> write_each ws m = Some (Ok (), m')"
  by (induction ws arbitrary: m)
    (auto simp: write_ok_def bind_em_def split: option.splits outcome.splits prod.splits)

lemma read_each_all: "vm.rd_all as m = Some (xs, m') \<Longrightarrow> read_each as m = Some (Ok xs, m')"
  by (induction as arbitrary: m xs)
    (auto simp: read_ok_def bind_em_def split: option.splits outcome.splits prod.splits)

section \<open>Blocks\<close>

lemma write_words_view:
  "(\<And>i. i < n \<Longrightarrow> Created m (vma + of_nat i)) \<Longrightarrow> n \<le> 2 ^ 32 \<Longrightarrow>
    \<exists>m'. write_words object k vma n m = Some (Ok (), m') \<and>
      word_at m' = (\<lambda>a. if unat (a - vma) < n then object (k + unat (a - vma)) else word_at m a)"
proof (induction n arbitrary: k vma m)
  case (Suc n)
  have c: "Created m vma" using Suc.prems(1) [of 0] by simp
  let ?m = "written vma (object k) m"
  have "Created ?m (vma + 1 + of_nat i)" if "i < n" for i
    using Suc.prems(1) [of "Suc i"] that by (simp add: written_view ac_simps)
  from Suc.IH [of ?m "vma + 1" "Suc k", OF this] Suc.prems(2) obtain m' where
    m': "write_words object (Suc k) (vma + 1) n ?m = Some (Ok (), m')"
      "word_at m' = (\<lambda>a. if unat (a - (vma + 1)) < n then object (Suc k + unat (a - (vma + 1))) else word_at ?m a)"
    by auto
  have "write_words object k vma (Suc n) m = Some (Ok (), m')"
    using m'(1) by (simp add: bind_em_def write_word [OF c])
  moreover have "word_at m' a = (if unat (a - vma) < Suc n then object (k + unat (a - vma)) else word_at m a)" for a
  proof (cases "a = vma")
    case True
    have "unat (- 1 :: Integer) = 2 ^ 32 - 1" by (simp add: unsigned_minus_1_eq_mask mask_eq_exp_minus_1)
    then show ?thesis using True m'(2) Suc.prems(2) by (simp add: written_view)
  next
    case False
    have u: "unat (a - vma) = Suc (unat (a - vma - 1))"
      using False by (subst unat_minus_one) (auto simp: word_less_nat_alt unat_eq_0 Suc_diff_1 unat_gt_0)
    have d: "a - (vma + 1) = a - vma - 1" by simp
    show ?thesis using False unfolding m'(2) u d by (auto simp: written_view)
  qed
  ultimately show ?case by (auto simp: fun_eq_iff)
qed simp

section \<open>Scrolling\<close>

lemma in_cache_slot: "in_stack_cache m a \<Longrightarrow> \<exists>j. 0 \<le> j \<and> j < 1024 \<and> a = StackCacheBase m + of_int j \<and> word_at m a = StackCache m j"
  by (rule exI [of _ "uint (stack_cache_index m a)"]) (auto simp: in_stack_cache_iff word_at_def stack_cache_index_def)

lemma slot_in_cache:
  assumes "0 \<le> j" "j < 1024" "a = StackCacheBase m + of_int j"
  shows "in_stack_cache m a" "word_at m a = StackCache m j"
proof -
  have u: "uint (stack_cache_index m a) = j"
    using assms by (simp add: stack_cache_index_def uint_word_of_int_eq take_bit_int_eq_self)
  show "in_stack_cache m a" using assms u by (simp add: in_stack_cache_iff)
  then show "word_at m a = StackCache m j" using u by (simp add: word_at_def)
qed

text \<open>
  Scrolling down: every word that is in the cache afterwards is the word that was at its address
  before, and the registers point to the words they pointed to.
\<close>

lemma scroll_down_words:
  assumes "256 \<le> unat (StackCacheBase m)"
    and "\<And>i. i < 256 \<Longrightarrow> Created m (StackCacheBase m - 256 + of_nat i)"
  shows "\<exists>m'. StackCacheScrollDown m = Some (Ok (), m') \<and> StackCacheBase m' = StackCacheBase m - 256 \<and>
    SP m' = SP m + 256 \<and> FP m' = FP m + 256 \<and> LP m' = LP m + 256 \<and>
    (\<forall>a. in_stack_cache m' a \<longrightarrow> word_at m' a = word_at m a)"
proof -
  let ?m1 = "m\<lparr>StackCache := fold (\<lambda>i c. copy_page (1 + i) i c) [2, 1, 0] (StackCache m),
          FP := FP m + PageSize, SP := SP m + PageSize, LP := LP m + PageSize,
          StackCacheBase := StackCacheBase m - of_int PageSize, memory_vma := StackCacheBase m - 256\<rparr>"
  let ?base = "StackCacheBase m - 256"
  have ub: "unat ?base = unat (StackCacheBase m) - 256" using assms(1) by (subst unat_sub) (simp_all add: word_le_nat_alt)
  have "unat (StackCacheBase m) < 2 ^ 32" using unsigned_less [where 'a = nat, of "StackCacheBase m"] by simp
  then have "unat ?base \<le> 2 ^ 32 - 257" using ub by simp
  then have n: "block_words ?base PageSize = 256" by (rule block_words_page)
  have "Created ?m1 (?base + of_nat i)" if "i < 256" for i using assms(2) [OF that] by (simp add: Created_def)
  from read_block_loop_stack [of 256 ?m1 ?base 0, OF this] obtain m' where
    m': "read_block_loop (\<lambda>k x m. m\<lparr>StackCache := (StackCache m)(int k := x)\<rparr>) 0 ?base 256 ?m1 = Some (Ok (), m')"
      "StackCacheBase m' = StackCacheBase ?m1" "SP m' = SP ?m1" "FP m' = FP ?m1" "LP m' = LP ?m1"
      "\<forall>j. StackCache m' j = (if 0 \<le> j \<and> j < 256
        then obj (TagSpace ?m1 (?base + of_int j)) (DataSpace ?m1 (?base + of_int j)) else StackCache ?m1 j)"
    by auto
  have "StackCacheScrollDown m = Some (Ok (), m')"
    using m'(1) n by (simp add: StackCacheScrollDown_def VirtualMemoryReadBlock_def Let_def PageSize_def)
  moreover have base: "StackCacheBase m' = ?base" using m'(2) by (simp add: PageSize_def)
  moreover have "word_at m' a = word_at m a" if inc: "in_stack_cache m' a" for a
  proof -
    obtain j where j: "0 \<le> j" "j < 1024" "a = ?base + of_int j" "word_at m' a = StackCache m' j"
      using in_cache_slot [OF inc] base by auto
    show ?thesis
    proof (cases "j < 256")
      case True
      have "\<not> in_stack_cache m a"
      proof -
        have "a - StackCacheBase m = of_int (j - 256)" using j(3) by simp
        then have "uint (stack_cache_index m a) = (j - 256) mod 2 ^ 32"
          by (simp add: stack_cache_index_def uint_word_of_int del: of_int_diff)
        also have "\<dots> = (j - 256 + 2 ^ 32) mod 2 ^ 32" by (simp only: mod_add_self2)
        also have "\<dots> = j - 256 + 2 ^ 32" using j True by (intro mod_pos_pos_trivial) simp_all
        finally show ?thesis using j by (simp add: in_stack_cache_iff)
      qed
      then show ?thesis using j True m'(6) by (simp add: word_at_def [of m])
    next
      case False
      have "StackCache m' j = StackCache m (j - 256)"
        using m'(6) scroll_down_copies [OF j(1,2), of "StackCache m"] False j by simp
      moreover have "a = StackCacheBase m + of_int (j - 256)" using j(3) by simp
      ultimately show ?thesis using slot_in_cache(2) [of "j - 256" a m] j False by simp
    qed
  qed
  ultimately show ?thesis using m'(3-5) by (auto simp: PageSize_def)
qed

text \<open>
  Scrolling up writes the lowest page back and moves the registers, and then every page of the
  cache is the last page that was there.
\<close>

lemma scroll_up_words:
  assumes "unat (StackCacheBase m) \<le> 2 ^ 32 - 257"
    and "\<And>i. i < 256 \<Longrightarrow> Created m (StackCacheBase m + of_nat i)"
  shows "\<exists>m'. StackCacheScrollUp m = Some (Ok (), m') \<and> StackCacheBase m' = StackCacheBase m + 256 \<and>
    SP m' = SP m - 256 \<and> FP m' = FP m - 256 \<and> LP m' = LP m - 256 \<and>
    (\<forall>page r. 0 \<le> page \<and> page < 4 \<and> 0 \<le> r \<and> r < 256 \<longrightarrow> StackCache m' (256 * page + r) = StackCache m (768 + r))"
proof -
  have n: "block_words (StackCacheBase m) PageSize = 256" using assms(1) by (rule block_words_page)
  have "Created (m\<lparr>memory_vma := StackCacheBase m\<rparr>) (StackCacheBase m + of_nat i)" if "i < 256" for i
    using assms(2) [OF that] by (simp add: Created_def)
  from write_block_loop_ok [of 256 "m\<lparr>memory_vma := StackCacheBase m\<rparr>" "StackCacheBase m" "\<lambda>k. StackCache m (int k)" 0, OF this]
  obtain m1 where m1: "write_block_loop (\<lambda>k. StackCache m (int k)) 0 (StackCacheBase m) 256
        (m\<lparr>memory_vma := StackCacheBase m\<rparr>) = Some (Ok (), m1)"
      "StackCache m1 = StackCache m" "StackCacheBase m1 = StackCacheBase m" "SP m1 = SP m" "FP m1 = FP m" "LP m1 = LP m"
    by auto
  let ?m' = "m1\<lparr>StackCache := fold (\<lambda>i c. copy_page i (1 + i) c) [2, 1, 0] (StackCache m1),
          FP := FP m1 - PageSize, SP := SP m1 - PageSize, LP := LP m1 - PageSize,
          StackCacheBase := StackCacheBase m1 + of_int PageSize\<rparr>"
  have "StackCacheScrollUp m = Some (Ok (), ?m')"
    using m1(1) n by (simp add: StackCacheScrollUp_def VirtualMemoryWriteBlock_def bind_em_def)
  moreover have "StackCache ?m' (256 * page + r) = StackCache m (768 + r)"
    if "0 \<le> page" "page < 4" "0 \<le> r" "r < 256" for page r
    using scroll_up_copies [OF that(3,4,1,2), of "StackCache m"] m1(2) by simp
  ultimately show ?thesis using m1(3-6) by (intro exI [of _ ?m']) (simp add: PageSize_def)
qed

end
