(* ===== verification/Ivory_Arith_Facts.thy ===== *)
theory Ivory_Arith_Facts
  imports Ivory_Arith Ivory_Facts
begin

text \<open>
  The overflow tests and divisions of the arithmetic instructions, in terms of the integers that
  the fixnums stand for.
\<close>

section \<open>Machine integers\<close>

definition fixnum_range :: "int \<Rightarrow> bool" where
  "fixnum_range i \<longleftrightarrow> - (2 ^ 31) \<le> i \<and> i < 2 ^ 31"

lemma sint_range: "fixnum_range (sint (a :: Integer))"
  using sint_lt [of a] sint_ge [of a] by (simp add: fixnum_range_def)

lemma sint_wrap: "sint (word_of_int i :: Integer) = (i + 2 ^ 31) mod 2 ^ 32 - 2 ^ 31"
  by (simp add: signed_of_int signed_take_bit_eq_take_bit_shift take_bit_eq_mod)

lemma sint_of_range: "fixnum_range i \<Longrightarrow> sint (word_of_int i :: Integer) = i"
  by (simp add: sint_wrap fixnum_range_def)

lemma sint_add_wrap: "sint (a + b :: Integer) = (sint a + sint b + 2 ^ 31) mod 2 ^ 32 - 2 ^ 31"
  using sint_wrap [of "sint a + sint b"] by simp

lemma sint_sub_wrap: "sint (a - b :: Integer) = (sint a - sint b + 2 ^ 31) mod 2 ^ 32 - 2 ^ 31"
  using sint_wrap [of "sint a - sint b"] by simp

lemma wrap_cases:
  assumes "- (2 ^ 32) \<le> i" "i < 2 ^ 32"
  shows "(i + 2 ^ 31) mod 2 ^ 32 - 2 ^ 31 =
    (if i < - (2 ^ 31) then i + 2 ^ 32 else if i < 2 ^ 31 then i else i - (2 ^ 32 :: int))"
proof -
  consider "i < - (2 ^ 31)" | "- (2 ^ 31) \<le> i" "i < 2 ^ 31" | "2 ^ 31 \<le> i" by linarith
  then show ?thesis
  proof cases
    case 1
    have "(i + 2 ^ 31) mod 2 ^ 32 = (i + 2 ^ 31 + 2 ^ 32) mod (2 ^ 32 :: int)" by (simp only: mod_add_self2)
    also have "\<dots> = i + 2 ^ 31 + 2 ^ 32" using 1 assms by (intro mod_pos_pos_trivial) simp_all
    finally show ?thesis using 1 by simp
  next
    case 2
    then show ?thesis by (simp add: mod_pos_pos_trivial)
  next
    case 3
    have "(i + 2 ^ 31) mod 2 ^ 32 = (i + 2 ^ 31 - 2 ^ 32) mod (2 ^ 32 :: int)" by (simp only: minus_mod_self2)
    also have "\<dots> = i + 2 ^ 31 - 2 ^ 32" using 3 assms by (intro mod_pos_pos_trivial) simp_all
    finally show ?thesis using 3 by simp
  qed
qed

lemma add_test:
  "((sint (a + b) \<ge> sint a) = (sint b \<ge> 0)) = fixnum_range (sint a + sint b)" for a b :: Integer
proof -
  have "sint (a + b) = (if sint a + sint b < - (2 ^ 31) then sint a + sint b + 2 ^ 32
      else if sint a + sint b < 2 ^ 31 then sint a + sint b else sint a + sint b - 2 ^ 32)"
    using sint_add_wrap [of a b] wrap_cases [of "sint a + sint b"] sint_range [of a] sint_range [of b]
    by (simp add: fixnum_range_def)
  then show ?thesis using sint_range [of a] sint_range [of b] by (auto simp: fixnum_range_def split: if_splits)
qed

lemma sub_test:
  "((sint (a - b) \<le> sint a) = (sint b \<ge> 0)) = fixnum_range (sint a - sint b)" for a b :: Integer
proof -
  have "sint (a - b) = (if sint a - sint b < - (2 ^ 31) then sint a - sint b + 2 ^ 32
      else if sint a - sint b < 2 ^ 31 then sint a - sint b else sint a - sint b - 2 ^ 32)"
    using sint_sub_wrap [of a b] wrap_cases [of "sint a - sint b"] sint_range [of a] sint_range [of b]
    by (simp add: fixnum_range_def)
  then show ?thesis using sint_range [of a] sint_range [of b] by (auto simp: fixnum_range_def split: if_splits)
qed

lemma sint_add_exact: "fixnum_range (sint a + sint b) \<Longrightarrow> sint (a + b :: Integer) = sint a + sint b"
  using sint_of_range [of "sint a + sint b"] by simp

lemma sint_sub_exact: "fixnum_range (sint a - sint b) \<Longrightarrow> sint (a - b :: Integer) = sint a - sint b"
  using sint_of_range [of "sint a - sint b"] by simp

section \<open>Division\<close>

lemma sdiv_floor:
  fixes a b :: int
  assumes "b \<noteq> 0"
  defines "q \<equiv> a sdiv b" and "r \<equiv> a - b * (a sdiv b)"
  shows "r \<noteq> 0 \<Longrightarrow> (r \<ge> 0) \<noteq> (b \<ge> 0) \<Longrightarrow> q - 1 = a div b \<and> r + b = a mod b"
    and "r = 0 \<or> (r \<ge> 0) = (b \<ge> 0) \<Longrightarrow> q = a div b \<and> r = a mod b"
proof -
  have e: "b * q + r = a" by (simp add: q_def r_def)
  have bd: "\<bar>r\<bar> < \<bar>b\<bar>"
    using smod_int_range [OF assms(1), of a] by (auto simp: r_def minus_mult_sdiv_eq_smod)
  show "q - 1 = a div b \<and> r + b = a mod b" if "r \<noteq> 0" "(r \<ge> 0) \<noteq> (b \<ge> 0)"
  proof (cases "b > 0")
    case True
    have "a = b * (q - 1) + (r + b)" using e by (simp add: algebra_simps)
    moreover have "0 \<le> r + b" "r + b < b" using that True bd by auto
    ultimately show ?thesis using int_div_pos_eq [of a b] int_mod_pos_eq [of a b] by metis
  next
    case False
    have "a = b * (q - 1) + (r + b)" using e by (simp add: algebra_simps)
    moreover have "r + b \<le> 0" "b < r + b" using that False bd assms(1) by auto
    ultimately show ?thesis using int_div_neg_eq [of a b] int_mod_neg_eq [of a b] by metis
  qed
  show "q = a div b \<and> r = a mod b" if "r = 0 \<or> (r \<ge> 0) = (b \<ge> 0)"
  proof (cases "b > 0")
    case True
    have "0 \<le> r" "r < b" using that True bd by auto
    then show ?thesis using int_div_pos_eq [of a b q r] int_mod_pos_eq [of a b q r] e by simp
  next
    case False
    have "r \<le> 0" "b < r" using that False bd assms(1) by auto
    then show ?thesis using int_div_neg_eq [of a b q r] int_mod_neg_eq [of a b q r] e by simp
  qed
qed

lemma div_bounds:
  fixes x c d lo hi :: int
  assumes "0 < d" "d \<le> c" "lo \<le> x" "x \<le> hi" "lo < 0" "0 \<le> hi"
  shows "lo div d \<le> x div c" "x div c \<le> hi div d"
proof -
  have "lo div d \<le> lo div c" using assms by (intro zdiv_mono2_neg) auto
  also have "\<dots> \<le> x div c" using assms by (intro zdiv_mono1) auto
  finally show "lo div d \<le> x div c" .
  have "x div c \<le> hi div c" using assms by (intro zdiv_mono1) auto
  also have "\<dots> \<le> hi div d" using assms by (intro zdiv_mono2) auto
  finally show "x div c \<le> hi div d" .
qed

text \<open>Quotients of fixnums are fixnums, but for one pair.\<close>

lemma floor_range:
  assumes "fixnum_range a" "fixnum_range b" "b \<noteq> 0" "\<not> (a = - (2 ^ 31) \<and> b = -1)"
  shows "fixnum_range (a div b)" "fixnum_range (- ((- a) div b))"
proof -
  have pos: "fixnum_range (x div c) \<and> fixnum_range (- ((- x) div c))"
    if "0 < c" "fixnum_range x" for x c :: int
    using div_bounds [of 1 c "- (2 ^ 31)" x "2 ^ 31 - 1"] div_bounds [of 1 c "1 - 2 ^ 31" "- x" "2 ^ 31"] that
    by (simp add: fixnum_range_def)
  have neg: "fixnum_range ((- x) div c) \<and> fixnum_range (- (x div c))"
    if "0 < c" "fixnum_range x" "\<not> (x = - (2 ^ 31) \<and> c = 1)" for x c :: int
  proof (cases "x = - (2 ^ 31)")
    case True
    then show ?thesis using that div_bounds [of 2 c "- (2 ^ 31)" x "2 ^ 31 - 1"] div_bounds [of 2 c "1 - 2 ^ 31" "- x" "2 ^ 31"]
      by (simp add: fixnum_range_def)
  next
    case False
    then show ?thesis using that div_bounds [of 1 c "1 - 2 ^ 31" x "2 ^ 31 - 1"] div_bounds [of 1 c "1 - 2 ^ 31" "- x" "2 ^ 31 - 1"]
      by (simp add: fixnum_range_def)
  qed
  have "fixnum_range (a div b) \<and> fixnum_range (- ((- a) div b))"
  proof (cases "0 < b")
    case True
    show ?thesis using pos [OF True assms(1)] .
  next
    case False
    have "a div b = (- a) div (- b)" "(- a) div b = a div (- b)" by (simp_all add: div_minus_right)
    moreover have "0 < - b" "\<not> (a = - (2 ^ 31) \<and> - b = 1)" using False assms(3,4) by auto
    ultimately show ?thesis using neg [of "- b" a] assms(1) by auto
  qed
  then show "fixnum_range (a div b)" "fixnum_range (- ((- a) div b))" by auto
qed

lemma mod_range:
  assumes "fixnum_range b" "b \<noteq> 0"
  shows "fixnum_range (a mod b)" "fixnum_range (- ((- a) mod b))"
proof -
  have "fixnum_range (x mod b) \<and> fixnum_range (- (x mod b))" for x
  proof (cases "0 < b")
    case True
    have "0 \<le> x mod b" "x mod b < b" using True by simp_all
    then show ?thesis using assms(1) unfolding fixnum_range_def by linarith
  next
    case False
    have "x mod b \<le> 0" "b < x mod b" using False assms(2) by simp_all
    then show ?thesis using assms(1) unfolding fixnum_range_def by linarith
  qed
  then show "fixnum_range (a mod b)" "fixnum_range (- ((- a) mod b))" by auto
qed

lemma sdiv_ceiling:
  fixes a b :: int
  assumes "b \<noteq> 0"
  defines "q \<equiv> a sdiv b" and "r \<equiv> a - b * (a sdiv b)"
  shows "r \<noteq> 0 \<Longrightarrow> (r \<ge> 0) = (b \<ge> 0) \<Longrightarrow> q + 1 = - ((- a) div b) \<and> r - b = - ((- a) mod b)"
    and "r = 0 \<or> (r \<ge> 0) \<noteq> (b \<ge> 0) \<Longrightarrow> q = - ((- a) div b) \<and> r = - ((- a) mod b)"
proof -
  have m: "(- a) sdiv b = - (a sdiv b)" by (simp add: signed_divide_int_def sgn_if)
  then have r: "- a - b * ((- a) sdiv b) = - r" by (simp add: r_def)
  show "q + 1 = - ((- a) div b) \<and> r - b = - ((- a) mod b)" if "r \<noteq> 0" "(r \<ge> 0) = (b \<ge> 0)"
    using sdiv_floor(1) [OF assms(1), of "- a", unfolded r, unfolded m, folded q_def] that by auto
  show "q = - ((- a) div b) \<and> r = - ((- a) mod b)" if "r = 0 \<or> (r \<ge> 0) \<noteq> (b \<ge> 0)"
    using sdiv_floor(2) [OF assms(1), of "- a", unfolded r, unfolded m, folded q_def] that by auto
qed

section \<open>Instructions on fixnums\<close>

text \<open>The operands of an instruction, after addressing, are both fixnums.\<close>

definition fixnum_operands :: "address_mode \<Rightarrow> int \<Rightarrow> Machine \<Rightarrow> operand \<Rightarrow> Machine \<Rightarrow> bool" where
  "fixnum_operands mode operand m op2 m1 \<longleftrightarrow> address mode operand m = (op2, m1) \<and>
     TypeFixnumP (TAG (TOS m1)) \<and> TypeFixnumP (TAG (op_read m1 op2))"

lemma TypeFixnumP_numeric: "TypeFixnumP t \<Longrightarrow> t AND 56 = 8"
proof -
  assume "TypeFixnumP t"
  then have "t AND 63 = 8" by (simp add: TypeFixnumP_def TypeEqualP_TagType TagType_def)
  then have "(t AND 63) AND 56 = 8 AND 56" by (rule arg_cong)
  then show ?thesis by (simp add: and.assoc)
qed

lemma fixnum_operation_eq:
  assumes "fixnum_operands mode operand m op2 m1"
  shows "fixnum_operation f mode operand m = (case f (DATA (TOS m1)) (DATA (op_read m1 op2)) op2 m1 of
    None \<Rightarrow> stop InstructionException m1 | Some (l, m') \<Rightarrow> stop l m')"
  using assms TypeFixnumP_numeric
  by (auto simp: fixnum_operands_def fixnum_operation_def addressed_def BinaryTypeFixnumP_conj Let_def
      BinaryTypeFixnumExceptions_def BinaryTypeNumericP_def split: option.split)

lemma sint_min: "sint (MinFixnum :: Integer) = - (2 ^ 31)"
  by simp

lemma divide_data_sint:
  "divide_data f a b op2 m =
    (if sint b = 0 then Some (IllegalOperand, m)
     else if sint a = - (2 ^ 31) \<and> sint b = -1 then Some (InstructionException, m)
     else f (sint a sdiv sint b) (sint a - sint b * (sint a sdiv sint b)) b op2 m)"
proof -
  have "a = MinFixnum \<longleftrightarrow> sint a = - (2 ^ 31)" "b = -1 \<longleftrightarrow> sint b = -1" "b = 0 \<longleftrightarrow> sint b = 0"
    using signed_word_eqI [of a MinFixnum] signed_word_eqI [of b "-1"] signed_word_eqI [of b 0] by auto
  then show ?thesis by (simp add: divide_data_def Let_def)
qed

text \<open>The three roundings of a quotient that is a fixnum.\<close>

lemma floor_results_eq:
  assumes "sint b \<noteq> 0"
  shows "floor_results (a sdiv sint b) (a - sint b * (a sdiv sint b)) b op2 m = two_results (a div sint b) (a mod sint b) m"
  using sdiv_floor [OF assms, of a] by (auto simp: floor_results_def)

lemma ceiling_results_eq:
  assumes "sint b \<noteq> 0"
  shows "ceiling_results (a sdiv sint b) (a - sint b * (a sdiv sint b)) b op2 m =
    two_results (- ((- a) div sint b)) (- ((- a) mod sint b)) m"
  using sdiv_ceiling [OF assms, of a] by (auto simp: ceiling_results_def)

lemma truncate_range:
  assumes "fixnum_range a" "fixnum_range b" "b \<noteq> 0" "\<not> (a = - (2 ^ 31) \<and> b = -1)"
  shows "fixnum_range (a sdiv b)" "fixnum_range (a smod b)"
proof -
  note bounds = floor_range [OF assms] mod_range [OF assms(2,3), of a]
  have r: "a smod b = a - b * (a sdiv b)" by (simp add: minus_mult_sdiv_eq_smod)
  consider "a sdiv b = a div b \<and> a smod b = a mod b" | "a sdiv b = - ((- a) div b) \<and> a smod b = - ((- a) mod b)"
    using sdiv_floor [OF assms(3), of a] sdiv_ceiling [OF assms(3), of a] unfolding r by blast
  then show "fixnum_range (a sdiv b)" "fixnum_range (a smod b)" using bounds by (cases; simp)+
qed

end
