(* ===== verification/Ivory_Array_Facts.thy ===== *)
theory Ivory_Array_Facts
  imports Ivory_Arrays Ivory_Arith_Facts
begin

text \<open>Packed array elements: what a store does to each element of its word and of other words.\<close>

section \<open>Elements of a word\<close>

lemma packing_size:
  assumes "1 \<le> b" "b \<le> 5"
  shows "BytePackingSize b = 2 ^ (5 - b)" "BytePackingSize b < 32"
proof -
  consider "b = 1" | "b = 2" | "b = 3" | "b = 4" | "b = 5" using assms by linarith
  then have "BytePackingSize b = 2 ^ (5 - b) \<and> BytePackingSize b < 32"
    by cases (simp_all add: BytePackingSize_def)
  then show "BytePackingSize b = 2 ^ (5 - b)" "BytePackingSize b < 32" by auto
qed

lemma packing_rotation:
  assumes "1 \<le> b" "b \<le> 5"
  shows "unat (BytePackingRotation b i) = BytePackingSize b * (unat i mod 2 ^ b)"
proof -
  have "NOT (shl32 (-1) b) = mask b"
    using assms by (simp add: shl32_def)
  then have r: "BytePackingRotation b i = push_bit (5 - b) (take_bit b i)"
    using assms by (simp add: BytePackingRotation_def shl32_def take_bit_eq_mask and.commute nat_diff_distrib)
  have lt: "unat i mod 2 ^ b < 2 ^ b" by simp
  then have "2 ^ (5 - b) * (unat i mod 2 ^ b) < 2 ^ (5 - b) * 2 ^ b" by simp
  also have "\<dots> = 2 ^ 5" using assms by (simp flip: power_add)
  finally have small: "2 ^ (5 - b) * (unat i mod 2 ^ b) < 2 ^ 32" by simp
  have "unat (push_bit (5 - b) (take_bit b i)) = 2 ^ (5 - b) * (unat i mod 2 ^ b)"
  proof -
    have "unat (push_bit (5 - b) (take_bit b i)) = take_bit 32 (push_bit (5 - b) (unat (take_bit b i)))"
      by (simp add: unsigned_push_bit_eq)
    also have "\<dots> = take_bit 32 (2 ^ (5 - b) * (unat i mod 2 ^ b))"
      by (simp only: unsigned_take_bit_eq take_bit_eq_mod [of b "unat i"] push_bit_eq_mult mult.commute)
    also have "\<dots> = 2 ^ (5 - b) * (unat i mod 2 ^ b)" using small by (simp add: take_bit_nat_eq_self)
    finally show ?thesis .
  qed
  then show ?thesis using r packing_size(1) [OF assms] by simp
qed

lemma rotation_fits:
  assumes "1 \<le> b" "b \<le> 5"
  shows "unat (BytePackingRotation b i) + BytePackingSize b \<le> 32" "unat (BytePackingRotation b i) < 32"
proof -
  have "BytePackingSize b * (unat i mod 2 ^ b + 1) \<le> BytePackingSize b * 2 ^ b"
    by (intro mult_le_mono2) (simp add: Suc_le_eq)
  also have "\<dots> = 32" using assms packing_size(1) [OF assms] by (simp flip: power_add)
  finally show f: "unat (BytePackingRotation b i) + BytePackingSize b \<le> 32"
    by (simp add: packing_rotation [OF assms])
  show "unat (BytePackingRotation b i) < 32" using f packing_size(1) [OF assms]
    by (metis add_leD1 le_neq_implies_less less_add_same_cancel1 not_le zero_less_numeral zero_less_power)
qed

lemma element_same:
  "1 \<le> b \<Longrightarrow> b \<le> 5 \<Longrightarrow> ArrayElementLdb b i (ArrayElementDpb e b i w) = take_bit (BytePackingSize b) e"
  unfolding ArrayElementLdb_def ArrayElementDpb_def
  by (intro ldb_dpb_same rotation_fits packing_size)

lemma element_other:
  assumes "1 \<le> b" "b \<le> 5" "unat i mod 2 ^ b \<noteq> unat j mod 2 ^ b"
  shows "ArrayElementLdb b j (ArrayElementDpb e b i w) = ArrayElementLdb b j w"
  unfolding ArrayElementLdb_def ArrayElementDpb_def
proof (intro ldb_dpb_other rotation_fits packing_size assms(1,2))
  have "x < y \<Longrightarrow> BytePackingSize b * x + BytePackingSize b \<le> BytePackingSize b * y" for x y
    by (metis Suc_leI mult_Suc_right add.commute mult_le_mono2)
  then show "unat (BytePackingRotation b i) + BytePackingSize b \<le> unat (BytePackingRotation b j) \<or>
    unat (BytePackingRotation b j) + BytePackingSize b \<le> unat (BytePackingRotation b i)"
    using assms(3) unfolding packing_rotation [OF assms(1,2)] by (metis linorder_neqE_nat)
qed

text \<open>Two indices are those of one element exactly when word and position agree.\<close>

lemma element_word_position:
  assumes "b \<le> 5" "element_word i b = element_word j b" "unat i mod 2 ^ b = unat j mod 2 ^ b"
  shows "i = j"
proof (rule bit_word_eqI)
  fix n assume n: "n < LENGTH(32)"
  have low: "take_bit b i = take_bit b j"
  proof (rule unsigned_word_eqI [where 'a = nat])
    show "unat (take_bit b i) = unat (take_bit b j)"
      using assms(3) by (simp only: unsigned_take_bit_eq take_bit_eq_mod [where 'a = nat])
  qed
  show "bit i n \<longleftrightarrow> bit j n"
  proof (cases "n < b")
    case True
    then show ?thesis using arg_cong [OF low, of "\<lambda>w. bit w n"] by (simp add: bit_take_bit_iff)
  next
    case False
    have "b mod 32 = b" using assms(1) by simp
    then have "bit (signed_drop_bit b i) (n - b) \<longleftrightarrow> bit (signed_drop_bit b j) (n - b)"
      using assms(2) by (simp add: element_word_def sar32_def)
    moreover have "\<not> 32 - b \<le> n - b" using False n by simp
    ultimately show ?thesis using False by (simp add: bit_signed_drop_bit_iff)
  qed
qed

section \<open>Stores and loads\<close>

lemma fixnum_action: "TypeFixnumP t \<Longrightarrow> memory_action CycleDataRead t = 0"
  by (simp add: memory_action_def TypeFixnumP_def TypeEqualP_TagType TagType_def [of 8] MemoryActionTable_def)

lemma read_fixnum:
  "readable m a \<Longrightarrow> TypeFixnumP (TAG (word_at m a)) \<Longrightarrow>
    MemoryReadData a None m = Some (Ok (a, word_at m a), touch a m)"
  by (simp add: MemoryReadData_def MemoryReadInternal.simps [of _ _ a] read_word fixnum_action transport_never
      set_dest_def Let_def)

text \<open>The element of a fixnum array at \<open>index\<close>, in the word at \<open>a\<close>.\<close>

definition fixnum_element :: "Machine \<Rightarrow> Integer \<Rightarrow> nat \<Rightarrow> Integer \<Rightarrow> Integer" where
  "fixnum_element m a packing index = ArrayElementLdb packing index (DATA (word_at m a))"

lemma aref_fixnum:
  assumes "packing \<noteq> 0" "a = vma + element_word (index + offset) packing" "readable m a"
    and "TypeFixnumP (TAG (word_at m a))"
  shows "Aref1Internal vma packing offset ArrayElementTypeFixnum index m =
    Some (Ok (obj TypeFixnum (fixnum_element m a packing (index + offset))), touch a m)"
  using assms read_fixnum [OF assms(3,4)]
  by (simp add: Aref1Internal_def Let_def bind_em_def ret_def fixnum_element_def)

lemma aset_fixnum:
  assumes "packing \<noteq> 0" "a = vma + element_word (index + offset) packing" "Created m a"
    and "TypeFixnumP (TAG (word_at m a))" "TypeFixnumP (TAG val)"
  shows "Aset1Internal vma packing offset ArrayElementTypeFixnum index val slot m = Some (Ok (),
    written a ((word_at m a)\<lparr>DATA := ArrayElementDpb (DATA val) packing (index + offset) (DATA (word_at m a))\<rparr>) (touch a m))"
  using assms read_fixnum [of m a] write_word [of "touch a m" a]
  by (simp add: Aset1Internal_def Let_def bind_em_def readable_def)

end
