(* ===== verification/Ivory_VM_Facts.thy ===== *)
theory Ivory_VM_Facts
  imports Ivory_VM
begin

text \<open>
  Creating a range of pages: the loop that maps runs of missing pages together does what creating
  the pages one by one would do.
\<close>

section \<open>Page numbers\<close>

lemma page_number_div: "MemoryPageNumber a = unat a div 8192"
  by (simp add: MemoryPageNumber_def drop_bit_eq_div unat_div)

lemma page_number_next: "MemoryPageNumber (a + MemoryPageSize) = (MemoryPageNumber a + 1) mod 2 ^ 19"
proof -
  have "unat (a + 8192) = (unat a + 8192) mod 2 ^ 32" by (simp add: unat_word_ariths)
  then have "MemoryPageNumber (a + MemoryPageSize) = (unat a + 8192) mod (8192 * 2 ^ 19) div 8192"
    by (simp add: page_number_div)
  also have "\<dots> = (unat a + 8192) div 8192 mod 2 ^ 19" by (subst mod_mult2_eq) simp
  also have "(unat a + 8192) div 8192 = unat a div 8192 + 1" by simp
  finally show ?thesis by (simp add: page_number_div)
qed

lemma page_number_aligned: "MemoryPageNumber (vma - MemoryPageOffset vma) = MemoryPageNumber vma"
proof -
  have off: "unat (MemoryPageOffset vma) = unat vma mod 8192"
  proof -
    have "MemoryPageOffset vma = take_bit 13 vma"
      by (simp add: MemoryPageOffset_def take_bit_eq_mask mask_eq_exp_minus_1)
    then show ?thesis by (simp only: unsigned_take_bit_eq take_bit_eq_mod [where 'a = nat]) simp
  qed
  then have "MemoryPageOffset vma \<le> vma" by (simp add: word_le_nat_alt)
  then have "unat (vma - MemoryPageOffset vma) = unat vma - unat vma mod 8192" by (simp add: unat_sub off)
  also have "\<dots> = 8192 * (unat vma div 8192)" by (simp add: minus_mod_eq_mult_div)
  finally show ?thesis by (simp add: page_number_div)
qed

section \<open>Independent changes\<close>

lemma map_page_frame [simp]: "VMAttributeTable (map_page a m) = VMAttributeTable m"
  by (simp add: map_page_def)

lemma Created_map_page [simp]: "Created (map_page a m) = Created m"
  by (simp add: Created_def fun_eq_iff)

lemma map_page_SetCreated: "map_page a (SetCreated b m) = SetCreated b (map_page a m)"
  by (cases m) (simp add: map_page_def SetCreated_def set_attribute_def cong: if_cong)

lemma map_page_cong: "MemoryPageNumber a = MemoryPageNumber b \<Longrightarrow> map_page a m = map_page b m"
  by (simp add: map_page_def)

lemma missing_run_map_page:
  "missing_run pages vma m = (n, left, v, m1) \<Longrightarrow> missing_run pages vma (map_page a m) = (n, left, v, map_page a m1)"
proof (induction pages arbitrary: vma m n left v m1)
  case (Suc pages)
  show ?case
  proof (cases "Created m vma")
    case False
    obtain k l w m2 where r: "missing_run pages (vma + MemoryPageSize) (SetCreated vma m) = (k, l, w, m2)"
      by (metis prod_cases4)
    then show ?thesis using Suc.IH [OF r] Suc.prems False by (auto simp: map_page_SetCreated)
  qed (use Suc.prems in auto)
qed simp

section \<open>Page by page\<close>

primrec ensure_each :: "nat \<Rightarrow> Integer \<Rightarrow> Machine \<Rightarrow> Machine" where
  "ensure_each 0 vma m = m"
| "ensure_each (Suc n) vma m = ensure_each n (vma + MemoryPageSize) (EnsureVirtualAddress vma m)"

lemma ensure_each_add: "ensure_each (n + k) vma m = ensure_each k (vma + of_nat n * MemoryPageSize) (ensure_each n vma m)"
  by (induction n arbitrary: vma m) (simp_all add: algebra_simps)

lemma missing_run_each:
  "missing_run pages vma m = (n, left, v, m1) \<Longrightarrow> MemoryPageNumber aligned = MemoryPageNumber vma \<Longrightarrow>
    map_pages n aligned m1 = ensure_each n vma m \<and> n + left = pages \<and> v = vma + of_nat n * MemoryPageSize"
proof (induction pages arbitrary: vma m n left v m1 aligned)
  case (Suc pages)
  show ?case
  proof (cases "Created m vma")
    case False
    obtain k l w m2 where r: "missing_run pages (vma + MemoryPageSize) (SetCreated vma m) = (k, l, w, m2)"
      by (metis prod_cases4)
    have eq: "n = Suc k" "left = l" "v = w" "m1 = m2" using Suc.prems(1) False r by auto
    have al: "MemoryPageNumber (aligned + MemoryPageSize) = MemoryPageNumber (vma + MemoryPageSize)"
      using Suc.prems(2) by (simp add: page_number_next)
    have ev: "EnsureVirtualAddress vma m = map_page aligned (SetCreated vma m)"
      using False map_page_cong [OF Suc.prems(2)] by (simp add: EnsureVirtualAddress_def map_page_SetCreated)
    from Suc.IH [OF missing_run_map_page [OF r, of aligned] al] show ?thesis
      using ev by (simp add: eq algebra_simps)
  qed (use Suc.prems in auto)
qed simp

lemma created_run_each:
  "created_run pages vma aligned m = (left, v, a) \<Longrightarrow>
    \<exists>n. n + left = pages \<and> v = vma + of_nat n * MemoryPageSize \<and> a = aligned + of_nat n * MemoryPageSize \<and>
      ensure_each n vma m = m"
proof (induction pages arbitrary: vma aligned)
  case (Suc pages)
  show ?case
  proof (cases "Created m vma")
    case True
    then have "created_run pages (vma + MemoryPageSize) (aligned + MemoryPageSize) m = (left, v, a)"
      using Suc.prems by simp
    from Suc.IH [OF this] obtain n where "n + left = pages" "v = vma + MemoryPageSize + of_nat n * MemoryPageSize"
        "a = aligned + MemoryPageSize + of_nat n * MemoryPageSize" "ensure_each n (vma + MemoryPageSize) m = m"
      by blast
    then show ?thesis using True
      by (intro exI [of _ "Suc n"]) (simp add: EnsureVirtualAddress_def algebra_simps)
  next
    case False
    then show ?thesis using Suc.prems by (intro exI [of _ 0]) simp
  qed
qed auto

lemma page_number_shift:
  "MemoryPageNumber a = MemoryPageNumber b \<Longrightarrow>
    MemoryPageNumber (a + of_nat n * MemoryPageSize) = MemoryPageNumber (b + of_nat n * MemoryPageSize)"
proof (induction n arbitrary: a b)
  case (Suc n)
  have "MemoryPageNumber (a + MemoryPageSize) = MemoryPageNumber (b + MemoryPageSize)"
    using Suc.prems by (simp add: page_number_next)
  from Suc.IH [OF this] show ?case by (simp add: algebra_simps)
qed simp

lemma ensure_range_each:
  "MemoryPageNumber aligned = MemoryPageNumber vma \<Longrightarrow>
    ensure_range pages vma aligned m = (vma + of_nat pages * MemoryPageSize, ensure_each pages vma m)"
proof (induction pages vma aligned m rule: ensure_range.induct)
  case (1 pages vma aligned m)
  show ?case
  proof (cases "pages = 0")
    case False
    obtain n left v m1 where r: "missing_run pages vma m = (n, left, v, m1)" by (metis prod_cases4)
    note e = missing_run_each [OF r "1.prems"]
    let ?m = "map_pages n aligned m1" and ?a = "aligned + of_nat n * MemoryPageSize"
    obtain left' v' a' where c: "created_run left v ?a ?m = (left', v', a')" by (metis prod_cases3)
    obtain k where k: "k + left' = left" "v' = v + of_nat k * MemoryPageSize"
        "a' = ?a + of_nat k * MemoryPageSize" "ensure_each k v ?m = ?m"
      using created_run_each [OF c] by blast
    have "MemoryPageNumber a' = MemoryPageNumber v'"
      using page_number_shift [OF page_number_shift [OF "1.prems"]] e k by simp
    then have "ensure_range left' v' a' ?m = (v' + of_nat left' * MemoryPageSize, ensure_each left' v' ?m)"
      using "1.IH" [OF False r [symmetric] refl refl c [symmetric] refl] by simp
    moreover have "ensure_range pages vma aligned m = ensure_range left' v' a' ?m"
      using False r c by (simp add: ensure_range.simps [of pages])
    moreover have "ensure_each pages vma m = ensure_each left' v' ?m"
    proof -
      have "pages = n + (k + left')" using e k by simp
      then have "ensure_each pages vma m = ensure_each (k + left') v ?m" using e by (simp add: ensure_each_add)
      also have "\<dots> = ensure_each left' v' ?m" unfolding ensure_each_add k(4) k(2) ..
      finally show ?thesis .
    qed
    moreover have "v' + of_nat left' * MemoryPageSize = vma + of_nat pages * MemoryPageSize"
    proof -
      have p: "pages = n + (k + left')" using e k by simp
      have "v = vma + of_nat n * MemoryPageSize" using e by simp
      then show ?thesis unfolding k(2) p by (simp add: algebra_simps)
    qed
    ultimately show ?thesis by simp
  qed (simp add: ensure_range.simps)
qed

section \<open>What a page keeps\<close>

definition page_state :: "Machine \<Rightarrow> Integer \<Rightarrow> byte \<times> Tag \<times> Integer" where
  "page_state m a = (VMAttributeTable m (MemoryPageNumber a), TagSpace m a, DataSpace m a)"

lemma ensure_one_state:
  "page_state (EnsureVirtualAddress vma m) a =
    (if \<not> Created m a \<and> MemoryPageNumber a = MemoryPageNumber vma then (VMCreatedDefault, 0, 0) else page_state m a)"
  by (auto simp: page_state_def EnsureVirtualAddress_def Created_def SetCreated_def set_attribute_def map_page_def)

lemma Created_page_state: "Created m a \<longleftrightarrow> VMExists (fst (page_state m a))"
  by (simp add: Created_def page_state_def)

lemma ensure_each_state:
  "page_state (ensure_each n vma m) a =
    (if \<not> Created m a \<and> (\<exists>k<n. MemoryPageNumber a = MemoryPageNumber (vma + of_nat k * MemoryPageSize))
     then (VMCreatedDefault, 0, 0) else page_state m a)"
proof (induction n arbitrary: vma m)
  case (Suc n)
  have split: "(\<exists>k<Suc n. MemoryPageNumber a = MemoryPageNumber (vma + of_nat k * MemoryPageSize)) \<longleftrightarrow>
      MemoryPageNumber a = MemoryPageNumber vma \<or>
      (\<exists>k<n. MemoryPageNumber a = MemoryPageNumber (vma + MemoryPageSize + of_nat k * MemoryPageSize))"
    by (subst Ex_less_Suc2) (simp add: algebra_simps)
  have "VMExists VMCreatedDefault" by (simp add: VMExists_def VMCreatedDefault_def)
  then show ?case using Suc [of "vma + MemoryPageSize" "EnsureVirtualAddress vma m"]
    unfolding split by (auto simp: ensure_one_state Created_page_state)
qed simp

end
