(* ===== verification/Ivory_Props.thy ===== *)
theory Ivory_Props
  imports Ivory_Memory_Facts Ivory_Array_Facts Ivory_VM_Facts
begin

text \<open>
  Properties of the portable emulator, each with a witness that applies it at a concrete machine.
\<close>

section \<open>A machine\<close>

text \<open>
  The stack is cached from address 65536 on; all pages exist and hold zero fixnums, but for a list
  of two elements at 100, a forward at 200 to it, and a forward to itself at 300.
\<close>

definition demo_machine :: Machine where
  "demo_machine = \<lparr>SP = 10, restartSP = 10, FP = 5, LP = 7, PC = obj TypeEvenPC 4096, continuation = obj TypeOddPC 77,
     StackCache = (\<lambda>i. obj TypeFixnum (of_int i)), StackCacheLimit = 900, StackCacheBase = 65536, control = 2,
     ArrayEventCount = 1, BindingStackPointer = 0, PreemptRegister = 0, ByteSize = 0, ByteRotate = 0, RotateLatch = 0,
     ALUOverflow = False, ALUBorrow = False, ALULessThan = False, EphemeralOldspaceRegister = 0, ZoneOldspaceRegister = 0,
     DataSpace = (\<lambda>a. if a = 100 then 4 else if a = 101 then 10 else if a = 200 then 100 else if a = 300 then 300 else 0),
     TagSpace = (\<lambda>a. if a = 101 then 0x48 else if a = 200 \<or> a = 300 then TypeOneQForward else TypeFixnum),
     VMAttributeTable = (\<lambda>_. VMCreatedDefault), memory_vma = 0, trap_vma = 0, trap_microstate = 0,
     bar_address = (\<lambda>_. ObjectNIL), ListCacheArea = ObjectNIL, ListCacheAddress = ObjectNIL, StructureCacheArea = ObjectNIL,
     StructureCacheAddress = ObjectNIL, CatchBlockPointer = ObjectNIL, ListCacheLength = 0, StructureCacheLength = 0,
     BindingStackLimit = 4096, DeepBoundP = False, AluAndRotateControl = 0, AluOp = 0, ControlStackLimit = 0,
     ControlStackExtraLimit = 0, DynamicBindingCacheBase = 0, DynamicBindingCacheMask = 0, FEPModeTrapVectorAddress = 0,
     MappingTableCache = 0, MappingTableLength = 0\<rparr>"

lemma demo_created [simp]: "Created demo_machine a"
  by (simp add: demo_machine_def Created_def VMExists_def VMCreatedDefault_def)

lemma demo_word: "word_at demo_machine a = (if a - 65536 < 1024 then obj TypeFixnum (a - 65536)
    else obj (TagSpace demo_machine a) (DataSpace demo_machine a))"
  by (simp add: word_at_def in_stack_cache_def stack_cache_index_def StackCacheSize_def PageSize_def demo_machine_def)

section \<open>Memory\<close>

text \<open>
  C26. Reads see the last write: after any sequence of writes to existing pages, in the stack cache
  or outside it, a sequence of reads returns for each address what was last written there, or
  the word that was there before.
\<close>

theorem memory_coherent:
  assumes "\<forall>w\<in>set ws. Created m (fst w)" "\<forall>a\<in>set as. Created m a"
  shows "\<exists>m1 m2. write_each ws m = Some (Ok (), m1) \<and>
    read_each as m1 = Some (Ok (map (\<lambda>a. case map_of (rev ws) a of Some x \<Rightarrow> x | None \<Rightarrow> word_at m a) as), m2)"
proof -
  obtain m1 m2 where "vm.wr_all ws m = Some m1"
      "vm.rd_all as m1 = Some (map (\<lambda>a. case map_of (rev ws) a of Some x \<Rightarrow> x | None \<Rightarrow> word_at m a) as, m2)"
    using vm.rd_after_wr_all [OF assms] by blast
  then show ?thesis using write_each_all [of ws m m1] read_each_all [of as m1 _ m2] by blast
qed

theorem memory_coherent_witness:
  "\<exists>m1 m2. write_each [(65537, obj 8 1), (4, obj 8 2), (65537, obj 8 3)] demo_machine = Some (Ok (), m1) \<and>
    read_each [65537, 4, 5] m1 = Some (Ok [obj 8 3, obj 8 2, obj 8 0], m2)"
  using memory_coherent [of "[(65537, obj 8 1), (4, obj 8 2), (65537, obj 8 3)]" demo_machine "[65537, 4, 5]"]
  by (simp add: demo_word) (simp add: demo_machine_def)

text \<open>
  A block that starts in the stack cache and whose pages exist is stored whole, word by word,
  also where it runs out of the cache, and no other word changes.
\<close>

theorem block_store_words:
  assumes "in_stack_cache m vma" "\<forall>i<count. Created m (vma + of_nat i)" "count \<le> 2 ^ 32"
  shows "\<exists>m'. WriteVirtualMemoryBlock vma object count m = Some (Ok (), m') \<and>
    word_at m' = (\<lambda>a. if unat (a - vma) < count then object (unat (a - vma)) else word_at m a)"
  using write_words_view [of count m vma object 0, unfolded add_0] assms by (simp add: WriteVirtualMemoryBlock_def)

theorem block_store_words_witness:
  "\<exists>m'. WriteVirtualMemoryBlock 66558 (\<lambda>k. obj TypeFixnum (of_nat k)) 4 demo_machine = Some (Ok (), m') \<and>
    word_at m' 66561 = obj TypeFixnum 3 \<and> word_at m' 66562 = obj TypeFixnum 0"
proof -
  have "in_stack_cache demo_machine 66558"
    by (simp add: in_stack_cache_def stack_cache_index_def StackCacheSize_def PageSize_def demo_machine_def)
  moreover have "word_at demo_machine 66562 = obj TypeFixnum 0"
    by (simp add: demo_word) (simp add: demo_machine_def)
  ultimately show ?thesis
    using block_store_words [of demo_machine 66558 4 "\<lambda>k. obj TypeFixnum (of_nat k)"] by auto
qed

text \<open>
  Scrolling the stack cache down keeps the stack: the registers point to the words they
  pointed to, and every word in the cache afterwards is the word of that address before.
\<close>

theorem scroll_down_keeps_words:
  assumes "256 \<le> unat (StackCacheBase m)"
    and "\<forall>i<256. Created m (StackCacheBase m - 256 + of_nat i)"
  shows "\<exists>m'. StackCacheScrollDown m = Some (Ok (), m') \<and>
    StackCacheBase m' + of_int (SP m') = StackCacheBase m + of_int (SP m) \<and>
    StackCacheBase m' + of_int (FP m') = StackCacheBase m + of_int (FP m) \<and>
    StackCacheBase m' + of_int (LP m') = StackCacheBase m + of_int (LP m) \<and>
    (\<forall>a. in_stack_cache m' a \<longrightarrow> word_at m' a = word_at m a)"
  using scroll_down_words [OF assms(1)] assms(2) by auto

theorem scroll_down_keeps_words_witness:
  "\<exists>m'. StackCacheScrollDown demo_machine = Some (Ok (), m') \<and> StackCacheBase m' + of_int (SP m') = 65546"
proof -
  have "StackCacheBase demo_machine = 65536" "SP demo_machine = 10" by (simp_all add: demo_machine_def)
  then show ?thesis using scroll_down_keeps_words [of demo_machine] by auto
qed

text \<open>
  C29. Scrolling the stack cache up does not keep it: its page copies run in the wrong order, and
  afterwards every page of the cache is a copy of the page that was last, while the registers are
  moved to the addresses they had.
\<close>

theorem scroll_up_duplicates_last_page:
  assumes "unat (StackCacheBase m) \<le> 2 ^ 32 - 257"
    and "\<forall>i<256. Created m (StackCacheBase m + of_nat i)"
  shows "\<exists>m'. StackCacheScrollUp m = Some (Ok (), m') \<and>
    StackCacheBase m' + of_int (SP m') = StackCacheBase m + of_int (SP m) \<and>
    (\<forall>page r. 0 \<le> page \<and> page < 4 \<and> 0 \<le> r \<and> r < 256 \<longrightarrow>
      StackCache m' (256 * page + r) = StackCache m (768 + r))"
  using scroll_up_words [OF assms(1)] assms(2) by auto

text \<open>Slot 256, at address 65792, moves to slot 0, which then holds the word of slot 768.\<close>

theorem scroll_up_duplicates_last_page_witness:
  "\<exists>m'. StackCacheScrollUp demo_machine = Some (Ok (), m') \<and> StackCache m' 0 = obj TypeFixnum 768 \<and>
    StackCache demo_machine 256 = obj TypeFixnum 256"
proof -
  have d: "unat (StackCacheBase demo_machine) = 65536" "StackCache demo_machine = (\<lambda>i. obj TypeFixnum (of_int i))"
    by (simp_all add: demo_machine_def)
  obtain m' where m': "StackCacheScrollUp demo_machine = Some (Ok (), m')"
      "\<forall>page r. 0 \<le> page \<and> page < 4 \<and> 0 \<le> r \<and> r < 256 \<longrightarrow>
        StackCache m' (256 * page + r) = StackCache demo_machine (768 + r)"
    using scroll_up_duplicates_last_page [of demo_machine] d(1) by auto
  show ?thesis using m'(1) m'(2) [rule_format, of 0 0] d(2) by auto
qed




section \<open>Lists\<close>

text \<open>
  C31. On an operand that is a proper list of any mix of cdr codes and forwards, the member
  instruction ends, without a trap, with the tail of the list from the first element that is
  \<^verbatim>\<open>eq\<close> to the top of the stack, or NIL, in its place.
\<close>

theorem member_finds_tail:
  assumes "address mode operand m = (op2, m1)" "\<not> eql_type (TAG (TOS m1))" "list_at m1 (op_read m1 op2) xs"
  shows "\<exists>t m2. ExecuteMember mode operand m = Some (Ok NextInstruction, set_tos t m2) \<and> same_words m1 m2 \<and>
    list_at m1 t (dropWhile (\<lambda>x. \<not> ObjectEqP x (TOS m1)) xs)"
  using member_on_list [OF assms(3) same_words_refl] assms(1,2) by (simp add: ExecuteMember_def addressed_def)

definition demo_list_machine :: Machine where
  "demo_list_machine = demo_machine\<lparr>StackCache := (StackCache demo_machine)(9 := obj TypeList 100)\<rparr>"

lemma demo_reads:
  "reads CycleDataRead demo_list_machine 101 101 (obj 0x48 10)" "reads CycleCdr demo_list_machine 101 101 (obj 0x48 10)"
  "reads CycleDataRead demo_list_machine 100 100 (obj TypeFixnum 4)" "reads CycleCdr demo_list_machine 100 100 (obj TypeFixnum 4)"
proof -
  have here: "reads c demo_list_machine a a x"
    if "forward c demo_list_machine a = None" "cycle_end c demo_list_machine a = Ok (a, x)" for c a x
    using forwards_to.here [OF that(1)] that(2) unfolding reads_def by blast
  show "reads CycleDataRead demo_list_machine 101 101 (obj 0x48 10)" by (rule here; code_simp)
  show "reads CycleCdr demo_list_machine 101 101 (obj 0x48 10)" by (rule here; code_simp)
  show "reads CycleDataRead demo_list_machine 100 100 (obj TypeFixnum 4)" by (rule here; code_simp)
  show "reads CycleCdr demo_list_machine 100 100 (obj TypeFixnum 4)" by (rule here; code_simp)
qed

lemma demo_list: "list_at demo_list_machine (obj TypeList 100) [obj TypeFixnum 4, obj TypeFixnum 10]"
proof -
  have "list_at demo_list_machine (obj TypeList 101) [cdr_next (obj 0x48 10)]"
    by (rule list_at.cdr_nil [where v = 101 and w = 101 and c = "obj 0x48 10"])
      (simp_all add: demo_reads TagType_def TagCdr_def)
  then have "list_at demo_list_machine (obj TypeList 100) [cdr_next (obj TypeFixnum 4), cdr_next (obj 0x48 10)]"
    using list_at.cdr_next [of "obj TypeList 100" demo_list_machine 100 "obj TypeFixnum 4" 100 "obj TypeFixnum 4"]
    by (simp add: demo_reads TagType_def TagCdr_def)
  then show ?thesis by (simp add: cdr_next_def)
qed

theorem member_finds_tail_witness:
  "\<exists>t m2. ExecuteMember ModeSP (-1) demo_list_machine = Some (Ok NextInstruction, set_tos t m2) \<and>
    list_at demo_list_machine t [obj TypeFixnum 10]"
proof -
  have "TOS demo_list_machine = obj TypeFixnum 10" "op_read demo_list_machine (Slot 9) = obj TypeList 100"
      "address ModeSP (-1) demo_list_machine = (Slot 9, demo_list_machine)"
    by (simp_all add: demo_list_machine_def demo_machine_def TOS_def op_read_def)
  then show ?thesis
    using member_finds_tail [of ModeSP "-1" demo_list_machine "Slot 9" demo_list_machine "[obj TypeFixnum 4, obj TypeFixnum 10]"]
      demo_list by (auto simp: eql_type_def ObjectEqP_def TypeEqualP_def TagType_def)
qed

section \<open>Arithmetic\<close>

text \<open>The instruction leaves the exact value \<open>v\<close>, or an exception when no fixnum has it.\<close>

definition exact_or_exception :: "(label outcome \<times> Machine) option \<Rightarrow> int \<Rightarrow> Machine \<Rightarrow> bool" where
  "exact_or_exception r v m = (if fixnum_range v
     then r = Some (Ok NextInstruction, set_data (of_int v) m) \<and> sint (of_int v :: Integer) = v
     else r = Some (Ok InstructionException, m))"

text \<open>
  C32. Sums, differences and products of two fixnums are exact: the result is stored when it is a
  fixnum, and otherwise the instruction takes an exception and changes nothing. The overflow
  tests on wrapped words decide this for all operands.
\<close>

theorem fixnum_arithmetic_exact:
  assumes "fixnum_operands mode operand m op2 m1"
  defines "a \<equiv> sint (DATA (TOS m1))" and "b \<equiv> sint (DATA (op_read m1 op2))"
  shows "exact_or_exception (ExecuteAdd mode operand m) (a + b) m1 \<and>
    exact_or_exception (ExecuteSub mode operand m) (a - b) m1 \<and>
    exact_or_exception (ExecuteMultiply mode operand m) (a * b) m1"
proof (intro conjI)
  note op = fixnum_operation_eq [OF assms(1)]
  show "exact_or_exception (ExecuteAdd mode operand m) (a + b) m1"
    unfolding exact_or_exception_def ExecuteAdd_def op a_def b_def
    by (simp add: add_data_def Let_def add_test stop_def sint_add_exact)
  show "exact_or_exception (ExecuteSub mode operand m) (a - b) m1"
    unfolding exact_or_exception_def ExecuteSub_def op a_def b_def
    by (simp add: sub_data_def Let_def sub_test stop_def sint_sub_exact)
  have "v \<ge> - (2 ^ 31) \<and> v \<le> 2 ^ 31 - 1 \<longleftrightarrow> fixnum_range v" for v by (auto simp: fixnum_range_def)
  then show "exact_or_exception (ExecuteMultiply mode operand m) (a * b) m1"
    unfolding exact_or_exception_def ExecuteMultiply_def op a_def b_def
    by (simp only: multiply_data_def Let_def) (simp add: stop_def sint_of_range del: of_int_mult)
qed

lemma demo_operands: "fixnum_operands ModeImmediate i demo_machine (Immediate (of_int i)) demo_machine"
  by (simp add: fixnum_operands_def demo_machine_def TOS_def op_read_def TypeFixnumP_def)

lemma demo_top: "sint (DATA (TOS demo_machine)) = 10" "op_read demo_machine (Immediate d) = obj TypeFixnum d"
  by (simp_all add: demo_machine_def TOS_def op_read_def)

theorem fixnum_arithmetic_exact_witness:
  "ExecuteSub ModeImmediate 13 demo_machine = Some (Ok NextInstruction, set_data (-3) demo_machine) \<and>
   ExecuteAdd ModeImmediate (2 ^ 31 - 5) demo_machine = Some (Ok InstructionException, demo_machine)"
  using fixnum_arithmetic_exact [OF demo_operands, of 13] fixnum_arithmetic_exact [OF demo_operands, of "2 ^ 31 - 5"]
  by (simp add: demo_top exact_or_exception_def fixnum_range_def)

section \<open>Division\<close>

text \<open>Quotient \<open>q\<close> in the place of the top of the stack, remainder \<open>r\<close> pushed after it.\<close>

definition gives_quotient :: "(label outcome \<times> Machine) option \<Rightarrow> int \<Rightarrow> int \<Rightarrow> Machine \<Rightarrow> bool" where
  "gives_quotient x q r m \<longleftrightarrow> x = Some (Ok NextInstruction, push_fixnum (of_int r) (set_fixnum (of_int q) m)) \<and>
     sint (of_int q :: Integer) = q \<and> sint (of_int r :: Integer) = r"

lemma gives_quotientI:
  "fixnum_range q \<Longrightarrow> fixnum_range r \<Longrightarrow>
    gives_quotient (case two_results q r m of None \<Rightarrow> z | Some (l, m') \<Rightarrow> stop l m') q r m"
  by (simp add: gives_quotient_def two_results_def stop_def sint_of_range)

text \<open>
  C33. Division of two fixnums: floor, ceiling and truncate leave the mathematical quotient,
  rounded each in its own way, and the remainder that belongs to it. Division by zero is an illegal
  operand, and the one quotient that is not a fixnum an exception, with nothing changed.
\<close>

theorem division_rounds:
  assumes "fixnum_operands mode operand m op2 m1"
  defines "a \<equiv> sint (DATA (TOS m1))" and "b \<equiv> sint (DATA (op_read m1 op2))"
  shows "if b = 0
      then \<forall>f\<in>{ExecuteFloor, ExecuteCeiling, ExecuteTruncate}. f mode operand m = Some (Ok IllegalOperand, m1)
    else if a = - (2 ^ 31) \<and> b = -1
      then \<forall>f\<in>{ExecuteFloor, ExecuteCeiling, ExecuteTruncate}. f mode operand m = Some (Ok InstructionException, m1)
    else gives_quotient (ExecuteFloor mode operand m) (a div b) (a mod b) m1 \<and>
      gives_quotient (ExecuteCeiling mode operand m) (- ((- a) div b)) (- ((- a) mod b)) m1 \<and>
      gives_quotient (ExecuteTruncate mode operand m) (a sdiv b) (a smod b) m1"
proof -
  note op = fixnum_operation_eq [OF assms(1)]
  note defs = ExecuteFloor_def ExecuteCeiling_def ExecuteTruncate_def op divide_data_sint a_def [symmetric] b_def [symmetric]
  show ?thesis
  proof (cases "b = 0 \<or> a = - (2 ^ 31) \<and> b = -1")
    case True
    then show ?thesis by (auto simp: defs stop_def)
  next
    case False
    note range = floor_range [of a b] mod_range [of b a] truncate_range [of a b]
    have r: "fixnum_range a" "fixnum_range b" unfolding a_def b_def by (rule sint_range)+
    have sm: "a - b * (a sdiv b) = a smod b" by (simp add: minus_mult_sdiv_eq_smod)
    have e: "divide_data f (DATA (TOS m1)) (DATA (op_read m1 op2)) op2 m1 =
        f (a sdiv b) (a - b * (a sdiv b)) (DATA (op_read m1 op2)) op2 m1" for f
      using False by (auto simp: divide_data_sint a_def b_def)
    have "gives_quotient (ExecuteFloor mode operand m) (a div b) (a mod b) m1"
      unfolding ExecuteFloor_def op e using False r range
      by (subst floor_results_eq [of "DATA (op_read m1 op2)" a, folded b_def]) (auto intro!: gives_quotientI)
    moreover have "gives_quotient (ExecuteCeiling mode operand m) (- ((- a) div b)) (- ((- a) mod b)) m1"
      unfolding ExecuteCeiling_def op e using False r range
      by (subst ceiling_results_eq [of "DATA (op_read m1 op2)" a, folded b_def]) (auto intro!: gives_quotientI)
    moreover have "gives_quotient (ExecuteTruncate mode operand m) (a sdiv b) (a smod b) m1"
      unfolding ExecuteTruncate_def op e sm using False r range by (auto intro!: gives_quotientI)
    ultimately show ?thesis using False by auto
  qed
qed

theorem division_rounds_witness:
  "gives_quotient (ExecuteFloor ModeImmediate (-3) demo_machine) (-4) (-2) demo_machine \<and>
   gives_quotient (ExecuteTruncate ModeImmediate (-3) demo_machine) (-3) 1 demo_machine \<and>
   ExecuteCeiling ModeImmediate 0 demo_machine = Some (Ok IllegalOperand, demo_machine)"
  using division_rounds [OF demo_operands, of "-3"] division_rounds [OF demo_operands, of 0]
  by (simp add: demo_top signed_divide_int_def signed_modulo_int_def)

section \<open>Types\<close>


text \<open>What all of them keep: the top of the stack is a fixnum, one deeper at most, and on an exception nothing changed.\<close>

definition fixnum_kept :: "Machine \<Rightarrow> (label \<times> Machine) option \<Rightarrow> bool" where
  "fixnum_kept m r = (case r of None \<Rightarrow> True
     | Some (l, m') \<Rightarrow> if l = NextInstruction then TypeFixnumP (TAG (TOS m')) \<and> (SP m' = SP m \<or> SP m' = SP m + 1)
         else (l = IllegalOperand \<or> l = InstructionException) \<and> m' = m)"

lemma fixnum_kept_results [simp]:
  "fixnum_kept m None"
  "fixnum_kept m (Some (IllegalOperand, m))"
  "fixnum_kept m (Some (InstructionException, m))"
  "fixnum_kept m (Some (NextInstruction, set_fixnum d m))"
  "fixnum_kept m (Some (NextInstruction, push_fixnum e (set_fixnum d m)))"
  "TypeFixnumP (TAG (TOS m)) \<Longrightarrow> fixnum_kept m (Some (NextInstruction, set_data d m))"
  "TypeFixnumP (TAG (TOS m)) \<Longrightarrow> fixnum_kept m (Some (NextInstruction, m))"
  by (simp_all add: fixnum_kept_def set_fixnum_def push_fixnum_def set_data_def set_tos_def set_slot_def push_def
      TOS_def TypeFixnumP_def)






section \<open>Arrays\<close>

text \<open>
  C35. A store into a packed array of fixnums changes exactly its element: reading the same index
  gives the low bits of the value stored, as many as an element has, and reading any other index
  gives what it gave before, also in the same word.
\<close>

theorem packed_array_roundtrip:
  fixes vma offset :: Integer
  defines "pos \<equiv> \<lambda>p k. vma + element_word (k + offset) p"
  assumes "1 \<le> packing" "packing \<le> 5" "TypeFixnumP (TAG val)"
    and "\<forall>k\<in>{i, j}. Created m (pos packing k) \<and> TypeFixnumP (TAG (word_at m (pos packing k)))"
  shows "\<exists>old m0 m1 m2.
    Aref1Internal vma packing offset ArrayElementTypeFixnum j m = Some (Ok old, m0) \<and>
    Aset1Internal vma packing offset ArrayElementTypeFixnum i val slot m = Some (Ok (), m1) \<and>
    Aref1Internal vma packing offset ArrayElementTypeFixnum j m1 =
      Some (Ok (if i = j then obj TypeFixnum (take_bit (BytePackingSize packing) (DATA val)) else old), m2)"
proof -
  let ?a = "pos packing i" and ?b = "pos packing j"
  let ?x = "(word_at m ?a)\<lparr>DATA := ArrayElementDpb (DATA val) packing (i + offset) (DATA (word_at m ?a))\<rparr>"
  let ?m1 = "written ?a ?x (touch ?a m)"
  have p: "packing \<noteq> 0" using assms(2) by simp
  have old: "Aref1Internal vma packing offset ArrayElementTypeFixnum j m =
      Some (Ok (obj TypeFixnum (fixnum_element m ?b packing (j + offset))), touch ?b m)"
    by (rule aref_fixnum [OF p]) (use assms(5) in \<open>simp_all add: pos_def readable_def\<close>)
  have set: "Aset1Internal vma packing offset ArrayElementTypeFixnum i val slot m = Some (Ok (), ?m1)"
    by (rule aset_fixnum [OF p]) (use assms(4,5) in \<open>simp_all add: pos_def\<close>)
  have new: "Aref1Internal vma packing offset ArrayElementTypeFixnum j ?m1 =
      Some (Ok (obj TypeFixnum (fixnum_element ?m1 ?b packing (j + offset))), touch ?b ?m1)"
    by (rule aref_fixnum [OF p]) (use assms(5) in \<open>simp_all add: pos_def readable_def written_view\<close>)
  have "fixnum_element ?m1 ?b packing (j + offset) =
      (if i = j then take_bit (BytePackingSize packing) (DATA val) else fixnum_element m ?b packing (j + offset))"
  proof (cases "i = j")
    case True
    then show ?thesis by (simp add: fixnum_element_def written_view element_same [OF assms(2,3)])
  next
    case False
    have "unat (i + offset) mod 2 ^ packing \<noteq> unat (j + offset) mod 2 ^ packing" if "?a = ?b"
      using element_word_position [OF assms(3), of "i + offset" "j + offset"] that False by (auto simp: pos_def)
    then show ?thesis using False element_other [OF assms(2,3), of "i + offset" "j + offset"]
      by (auto simp: fixnum_element_def written_view)
  qed
  then show ?thesis using old set new by auto
qed

theorem packed_array_roundtrip_witness:
  "\<exists>old m0 m1 m2. Aref1Internal 100 2 0 ArrayElementTypeFixnum 2 demo_machine = Some (Ok old, m0) \<and>
    Aset1Internal 100 2 0 ArrayElementTypeFixnum 1 (obj TypeFixnum 0x1FF) 9 demo_machine = Some (Ok (), m1) \<and>
    Aref1Internal 100 2 0 ArrayElementTypeFixnum 2 m1 = Some (Ok old, m2)"
proof -
  have "element_word 1 2 = 0" "element_word 2 2 = 0" by (code_simp, code_simp)
  moreover have "word_at demo_machine 100 = obj TypeFixnum 4" by code_simp
  ultimately show ?thesis
    using packed_array_roundtrip [of 2 "obj TypeFixnum 0x1FF" 1 2 demo_machine 100 0 9]
    by (auto simp: TypeFixnumP_def)
qed

section \<open>Pages\<close>


section \<open>Frames\<close>

text \<open>
  Popping the frame that was just pushed restores the caller: the stack and frame pointers,
  the control register and the program counter, the locals from the argument size of the restored
  control register, and the continuation but for the cdr code that the push gave it, provided that
  the caller's frame is one the control register can describe.
\<close>

lemma fake_frame_roundtrip:
  assumes "0 \<le> SP m + 1 - FP m" "SP m + 1 - FP m < 256"
  shows "PopOneFakeFrame (PushOneFakeFrame m) =
    (PushOneFakeFrame m)\<lparr>SP := SP m, FP := FP m, PC := PC m, control := control m,
      continuation := (continuation m)\<lparr>TAG := TAG (continuation m) OR 0xc0\<rparr>,
      LP := FP m + uint (ReadControlArgumentSize (control m))\<rparr>"
proof -
  let ?n = "SP m + 1 - FP m"
  have "ReadControlCallerFrameSize (WriteControlCallerFrameSize c (of_int ?n)) = take_bit 8 (of_int ?n)" for c
    unfolding ReadControlCallerFrameSize_def WriteControlCallerFrameSize_def by (rule ldb_dpb_same) simp_all
  moreover have "uint (take_bit 8 (of_int n) :: Integer) = n" if "0 \<le> n" "n < 256" for n
    using that by (simp add: unsigned_take_bit_eq uint_word_of_int_eq take_bit_int_eq_self)
  ultimately have frame: "uint (ReadControlCallerFrameSize (WriteControlCallerFrameSize c (of_int ?n))) = ?n" for c
    using assms by (simp del: of_int_diff of_int_add)
  show ?thesis using frame [of "WriteControlArgumentSize 0 2"]
    by (cases m) (simp add: PopOneFakeFrame_def PushOneFakeFrame_def Let_def)
qed

end
