(* ===== verification/Ivory_Sequencer_Props.thy ===== *)
theory Ivory_Sequencer_Props
  imports Ivory_Sequencer_Facts Ivory_Props
begin

text \<open>
  Properties of the instruction cache and the sequencer of the portable emulator, with a small program
  that is decoded and run.
\<close>

section \<open>A program\<close>

text \<open>Two fixnums that push themselves, and a word with an addition and a halt.\<close>

definition demo_program :: Machine where
  "demo_program = demo_machine\<lparr>
     TagSpace := (TagSpace demo_machine)(4096 := 0xc8, 4097 := 0xc8, 4098 := 0x32),
     DataSpace := (DataSpace demo_machine)(4096 := 20, 4097 := 22, 4098 := 0xf0030200)\<rparr>"

definition demo_outside :: Outside where
  "demo_outside = \<lparr>clock_now = 0, stale_result = 0, stray_slot = 0, beyond_table = (\<lambda>_. 0)\<rparr>"

definition demo_vm :: VMState where
  "demo_vm = \<lparr>AddressRegister = 0, ExtentRegister = 0, AttributesRegister = 0, DestinationRegister = 0,
     DataRegister = ObjectNIL, CommandRegister = 0\<rparr>"

definition demo_cache :: icache where
  "demo_cache = empty_cache (\<lambda>_. InstructionCacheLookupCPRepresentation)"

lemma demo_program_view:
  "PC demo_program = obj TypeEvenPC 4096" "SP demo_program = 10" "Created demo_program a"
  "memory_word demo_program 4096 = obj 0xc8 20" "memory_word demo_program 4097 = obj 0xc8 22"
  "memory_word demo_program 4098 = obj 0x32 0xf0030200" "safe_pc demo_program"
  by (simp_all add: demo_program_def demo_machine_def memory_word_def Created_def VMExists_def VMCreatedDefault_def safe_pc_def)

lemma demo_block: "block_start 4096 = 4096" "cache_index 4096 = 0" "whole_block 4096"
  by (simp_all add: block_start_def cache_index_mod whole_block_def)

definition demo_filled :: icache where
  "demo_filled = fill_block (memory_word demo_program) 4096 demo_cache"

lemma demo_lines:
  "demo_filled 0 = \<lparr>line_pc = obj TypeEvenPC 4096, next_pc = obj TypeEvenPC 4097, code = CodePushFixnum,
     line_operand = 20, instruction = 0, next_cp = Some 2\<rparr>"
  "demo_filled 2 = \<lparr>line_pc = obj TypeEvenPC 4097, next_pc = obj TypeEvenPC 4098, code = CodePushFixnum,
     line_operand = 22, instruction = 0, next_cp = Some 4\<rparr>"
  using decode_block_at [of 0 32 "memory_word demo_program" 4096 0 demo_cache]
    decode_block_at [of 1 32 "memory_word demo_program" 4096 0 demo_cache]
  by (simp_all add: demo_filled_def fill_block_def demo_block close_block_at force_lookup_def demo_program_view
      decode_word_def TagCdr_def link_word_def set_next_def PackedInstructionP_def decode_full_word_def
      WordInstructionDecoder_def TagType_def demo_cache_def empty_cache_def InstructionCacheLookupCPRepresentation_def)

lemma demo_decoders:
  "PackedInstructionDecoder ! 770 = (CodeAddSP, DecodeSPOperandFunction)" "PopInstructionDecoder ! 192 = CodeAddPop"
  "PackedInstructionDecoder ! 188 = (CodeHalt, DecodeNoneFunction)"
  by (simp_all add: PackedInstructionDecoder_def PopInstructionDecoder_def)

lemma demo_packed:
  "demo_filled 4 = \<lparr>line_pc = obj TypeEvenPC 4098, next_pc = obj TypeOddPC 4098, code = CodeAddPop,
     line_operand = 0, instruction = 0x30200, next_cp = Some 5\<rparr>"
  "demo_filled 5 = \<lparr>line_pc = obj TypeOddPC 4098, next_pc = obj TypeEvenPC 4099, code = CodeHalt,
     line_operand = 0, instruction = 0xbc00, next_cp = Some 6\<rparr>"
  using decode_block_at [of 2 32 "memory_word demo_program" 4096 0 demo_cache]
  by (simp_all add: demo_filled_def fill_block_def demo_block close_block_at force_lookup_def demo_program_view
      decode_word_def TagCdr_def link_word_def set_next_def decode_packed_word_def decode_packed_def
      even_instruction_def odd_instruction_def demo_decoders DecodeSPOperandFunction_def DecodeNoneFunction_def
      ldb_def shl32_def shr32_def
      demo_cache_def empty_cache_def InstructionCacheLookupCPRepresentation_def)

lemmas look_up_entry = entry_of_def Instructions_def map_of_Cons_code

lemma demo_entry_push: "entry_of CodePushFixnum = plain (push_constant TypeFixnum)"
  by (simp add: look_up_entry del: map_of.simps cong: if_weak_cong)

lemma demo_entry_add: "entry_of CodeAddPop = via ModePop ExecuteAdd"
  by (simp add: look_up_entry del: map_of.simps cong: if_weak_cong)

lemma demo_entry_halt: "entry_of CodeHalt = plain (\<lambda>_. stop Halt)"
  by (simp add: look_up_entry del: map_of.simps cong: if_weak_cong)

lemma demo_lookup:
  "InstructionCacheLookup demo_cache demo_program = Some (Ok (Inr (0, demo_filled)), demo_program\<lparr>memory_vma := 4128\<rparr>)"
proof -
  have "InstructionCacheMiss demo_cache demo_program = Some (Ok demo_filled, demo_program\<lparr>memory_vma := 4128\<rparr>)"
    using InstructionCacheMiss_created [of demo_program demo_cache]
    by (simp add: demo_program_view demo_block demo_filled_def)
  moreover have "line_index (obj TypeEvenPC 4096) = 0" by (simp add: line_index_def demo_block)
  ultimately show ?thesis
    by (simp add: InstructionCacheLookup_def demo_program_view TypeEqualP_def bind_em_def ret_def demo_cache_def
        empty_cache_def Let_def)
qed

definition demo_at :: "position \<Rightarrow> int \<Rightarrow> operand \<Rightarrow> Sequencer" where
  "demo_at p k op2 = \<lparr>position = p, seq_cp = Some k, seq_op2 = op2, seq_cache = demo_filled, seq_vm = demo_vm\<rparr>"

lemma execute_push:
  assumes "demo_filled k = \<lparr>line_pc = p, next_pc = q, code = CodePushFixnum, line_operand = x, instruction = 0, next_cp = Some k'\<rparr>"
  shows "execute e (demo_at s k op2) m =
    Some (Ok (demo_at Dispatch k' op2), (push (obj TypeFixnum (of_int x)) (m\<lparr>restartSP := SP m\<rparr>))\<lparr>PC := q\<rparr>)"
  by (simp add: execute_def demo_at_def current_line_def line_at_def assms demo_entry_push plain_def keep_vm_def landing_def
      push_constant_def next_with_def bind_em_def ret_def after_label_def Let_def)

lemma demo_turn_1:
  "turn e (sequencer_start op2 demo_cache demo_vm) demo_program = Some (Ok (demo_at Dispatch 2 op2),
     (push (obj TypeFixnum 20) (demo_program\<lparr>memory_vma := 4128, restartSP := 10\<rparr>))\<lparr>PC := obj TypeEvenPC 4097\<rparr>)"
proof -
  have "(sequencer_start op2 demo_cache demo_vm)\<lparr>seq_cp := Some 0, seq_cache := demo_filled\<rparr> = demo_at Lookup 0 op2"
    by (simp add: sequencer_start_def demo_at_def)
  then have "turn e (sequencer_start op2 demo_cache demo_vm) demo_program = execute e (demo_at Lookup 0 op2) (demo_program\<lparr>memory_vma := 4128\<rparr>)"
    using demo_lookup by (simp add: turn_def lookup_def sequencer_start_def)
  then show ?thesis by (simp add: execute_push [OF demo_lines(1)] demo_program_view)
qed

lemma turn_dispatch: "turn e (demo_at Dispatch k op2) = execute e (demo_at Dispatch k op2)"
  by (simp add: turn_def demo_at_def)

lemma demo_turn_3:
  assumes "SP m = 12" "StackCache m 11 = obj TypeFixnum 20" "StackCache m 12 = obj TypeFixnum 22"
  shows "turn e (demo_at Dispatch 4 op2) m = Some (Ok (demo_at Dispatch 5 (Slot 12)),
    m\<lparr>restartSP := 12, SP := 11, StackCache := (StackCache m)(11 := obj TypeFixnum 42), PC := obj TypeOddPC 4098\<rparr>)"
  using assms unfolding turn_dispatch
  by (simp add: execute_def demo_at_def current_line_def line_at_def demo_packed demo_entry_add via_def keep_vm_def
      landing_def operand_at_def ExecuteAdd_def fixnum_operation_def addressed_def op_read_def TOS_def BinaryTypeFixnumP_conj
      TypeFixnumP_def add_data_def set_data_def set_tos_def set_slot_def stop_def bind_em_def ret_def after_label_def Let_def)

lemma demo_turn_4: "turn e (demo_at Dispatch 5 op2) m = Some (Ok (demo_at Halted 5 op2), m\<lparr>restartSP := SP m\<rparr>)"
  unfolding turn_dispatch
  by (simp add: execute_def demo_at_def current_line_def line_at_def demo_packed demo_entry_halt plain_def keep_vm_def
      landing_def stop_def bind_em_def ret_def after_label_def Let_def)

definition demo_pushed :: "int \<Rightarrow> Machine" where
  "demo_pushed n = demo_program\<lparr>memory_vma := 4128, restartSP := 9 + n, SP := 10 + n,
     StackCache := (if n = 2 then (StackCache demo_program)(11 := obj TypeFixnum 20, 12 := obj TypeFixnum 22)
       else (StackCache demo_program)(11 := obj TypeFixnum 20)),
     PC := obj TypeEvenPC (4096 + of_int n)\<rparr>"

lemma demo_turns:
  "turns env 1 (sequencer_start op2 demo_cache demo_vm) demo_program = Some (Ok (demo_at Dispatch 2 op2), demo_pushed 1)"
  "turns env 2 (sequencer_start op2 demo_cache demo_vm) demo_program = Some (Ok (demo_at Dispatch 4 op2), demo_pushed 2)"
  "turns env 3 (sequencer_start op2 demo_cache demo_vm) demo_program = Some (Ok (demo_at Dispatch 5 (Slot 12)),
     (demo_pushed 2)\<lparr>restartSP := 12, SP := 11, StackCache := (StackCache (demo_pushed 2))(11 := obj TypeFixnum 42), PC := obj TypeOddPC 4098\<rparr>)"
proof -
  show t1: "turns env 1 (sequencer_start op2 demo_cache demo_vm) demo_program = Some (Ok (demo_at Dispatch 2 op2), demo_pushed 1)"
    by (simp add: bind_em_def ret_def demo_turn_1 demo_pushed_def push_def set_slot_def demo_program_view)
  then show t2: "turns env 2 (sequencer_start op2 demo_cache demo_vm) demo_program = Some (Ok (demo_at Dispatch 4 op2), demo_pushed 2)"
    by (simp add: numeral_2_eq_2 bind_em_def turn_dispatch execute_push [OF demo_lines(2)])
       (simp add: demo_pushed_def push_def set_slot_def fun_upd_twist)
  then show "turns env 3 (sequencer_start op2 demo_cache demo_vm) demo_program = Some (Ok (demo_at Dispatch 5 (Slot 12)),
     (demo_pushed 2)\<lparr>restartSP := 12, SP := 11, StackCache := (StackCache (demo_pushed 2))(11 := obj TypeFixnum 42), PC := obj TypeOddPC 4098\<rparr>)"
    by (simp add: numeral_3_eq_3 numeral_2_eq_2 bind_em_def) (subst demo_turn_3, simp_all add: demo_pushed_def)
qed

section \<open>Following the cache\<close>

text \<open>
  C37. The pointers between the lines of the instruction cache change nothing: from an empty cache, any
  number of turns of the sequencer that follow them has the result of as many turns that each look
  their line up, in the machine, the cache and every variable of the loop, as long as no turn starts
  at address 0 or in the last block of the address space.
\<close>

theorem cached_links_transparent:
  assumes "safe_run env n (sequencer_start op2 (empty_cache c) vm) m"
  shows "unlinked_turns env n (sequencer_start op2 (empty_cache c) vm) m =
    turns env n (sequencer_start op2 (empty_cache c) vm) m"
  using turns_unlinked [OF start_ok assms] .

text \<open>The program of four instructions leaves the sum on the stack and halts, with and without the pointers.\<close>

theorem cached_links_transparent_witness:
  "\<exists>m. unlinked_turns (\<lambda>_. demo_outside) 4 (sequencer_start (Slot 0) demo_cache demo_vm) demo_program =
      Some (Ok (demo_at Halted 5 (Slot 12)), m) \<and> SP m = 11 \<and> TOS m = obj TypeFixnum 42"
proof -
  let ?s = "sequencer_start (Slot 0) demo_cache demo_vm" and ?e = "\<lambda>_ :: nat. demo_outside"
  have safe: "safe_run ?e 4 ?s demo_program"
    unfolding safe_run_def
  proof (intro allI impI)
    fix k :: nat
    assume "k < 4"
    then consider "k = 0" | "k = 1" | "k = 2" | "k = 3" by linarith
    then show "case turns ?e k ?s demo_program of Some (Ok _, m') \<Rightarrow> safe_pc m' | _ \<Rightarrow> True"
    proof cases
      case 1
      then show ?thesis by (simp add: ret_def demo_program_view)
    next
      case 2
      show ?thesis unfolding 2 demo_turns(1) by (simp add: demo_pushed_def safe_pc_def)
    next
      case 3
      show ?thesis unfolding 3 demo_turns(2) by (simp add: demo_pushed_def safe_pc_def)
    next
      case 4
      show ?thesis unfolding 4 demo_turns(3) by (simp add: safe_pc_def)
    qed
  qed
  have four': "(4 :: nat) = Suc 3" by simp
  have "turns ?e 4 ?s demo_program = Some (Ok (demo_at Halted 5 (Slot 12)),
      (demo_pushed 2)\<lparr>restartSP := 11, SP := 11, StackCache := (StackCache (demo_pushed 2))(11 := obj TypeFixnum 42), PC := obj TypeOddPC 4098\<rparr>)"
    unfolding four' turns.simps bind_em_def demo_turns(3) by (simp add: demo_turn_4)
  then show ?thesis
    using cached_links_transparent [of ?e 4 "Slot 0" "\<lambda>_. InstructionCacheLookupCPRepresentation" demo_vm demo_program,
      folded demo_cache_def, OF safe]
    by (simp add: TOS_def)
qed

end
