(* ===== verification/Ivory_Bind_Facts.thy ===== *)
theory Ivory_Bind_Facts
  imports Ivory_Bind Ivory_Facts
begin

text \<open>
  Facts on special variable bindings: what one binding and the undoing of one do to memory, for
  cells that are not forwards, and that undoing nested bindings brings the old contents back.
\<close>

section \<open>Memory behind the stack cache\<close>

definition mem :: "Machine \<Rightarrow> Integer \<Rightarrow> LispObj" where
  "mem m a = obj (TagSpace m a) (DataSpace m a)"

text \<open>The registers that bindings keep.\<close>

definition same_frame :: "Machine \<Rightarrow> Machine \<Rightarrow> bool" where
  "same_frame m m' \<longleftrightarrow> SP m' = SP m \<and> FP m' = FP m \<and> BindingStackLimit m' = BindingStackLimit m \<and>
     DeepBoundP m' = DeepBoundP m \<and> StackCacheBase m' = StackCacheBase m \<and> VMAttributeTable m' = VMAttributeTable m"

lemma same_frame_trans: "same_frame a b \<Longrightarrow> same_frame b c \<Longrightarrow> same_frame a c"
  by (simp add: same_frame_def)

lemma same_frame_view:
  "same_frame m m' \<Longrightarrow> Created m' = Created m" "same_frame m m' \<Longrightarrow> in_stack_cache m' = in_stack_cache m"
  by (simp_all add: same_frame_def fun_eq_iff Created_def in_stack_cache_def stack_cache_index_def)

lemma word_at_mem: "\<not> in_stack_cache m a \<Longrightarrow> word_at m a = mem m a"
  by (simp add: word_at_def mem_def)

lemma mem_written [simp]: "mem (written a x m) = (mem m)(a := x)"
  by (auto simp: mem_def written_def store_word_def fun_eq_iff)

lemma mem_touch [simp]: "mem (touch a m) = mem m"
  by (simp add: mem_def touch_def fun_eq_iff)

lemma mem_registers [simp]:
  "mem (m\<lparr>memory_vma := a\<rparr>) = mem m" "mem (m\<lparr>control := c\<rparr>) = mem m" "mem (m\<lparr>BindingStackPointer := a\<rparr>) = mem m"
  "mem (m\<lparr>PreemptRegister := c\<rparr>) = mem m" "Created (m\<lparr>memory_vma := a\<rparr>) = Created m"
  "in_stack_cache (m\<lparr>memory_vma := a\<rparr>) = in_stack_cache m"
  by (simp_all add: mem_def fun_eq_iff Created_def in_stack_cache_def stack_cache_index_def)

lemma mem_push [simp]: "mem (push x m) = mem m" "Created (push x m) = Created m" "in_stack_cache (push x m) = in_stack_cache m"
  by (simp_all add: mem_def push_def set_slot_def fun_eq_iff Created_def in_stack_cache_def stack_cache_index_def)

text \<open>A word outside the stack cache is written behind it.\<close>

lemma written_outside:
  assumes "\<not> in_stack_cache m a"
  shows "written a x m = m\<lparr>DataSpace := (DataSpace m)(a := DATA x), TagSpace := (TagSpace m)(a := TAG x), memory_vma := a\<rparr>"
  using assms by (simp add: written_def store_word_def)

text \<open>Machines that differ in memory only.\<close>

definition mem_only :: "Machine \<Rightarrow> Machine \<Rightarrow> bool" where
  "mem_only m m' \<longleftrightarrow> (\<exists>d t a. m' = m\<lparr>DataSpace := d, TagSpace := t, memory_vma := a\<rparr>)"

lemma mem_onlyI: "m' = m\<lparr>DataSpace := d, TagSpace := t, memory_vma := a\<rparr> \<Longrightarrow> mem_only m m'"
  unfolding mem_only_def by blast

lemma mem_only_trans: "mem_only a b \<Longrightarrow> mem_only b c \<Longrightarrow> mem_only a c"
  unfolding mem_only_def by (elim exE) (intro exI, simp)

lemma mem_only_written: "\<not> in_stack_cache m a \<Longrightarrow> mem_only m (written a x m)"
  by (rule mem_onlyI, erule written_outside)

lemma mem_only_vma: "mem_only m (m\<lparr>memory_vma := a\<rparr>)"
  by (rule mem_onlyI [where d = "DataSpace m" and t = "TagSpace m" and a = a]) simp

lemma mem_only_view:
  assumes "mem_only m m'"
  shows "same_frame m m'" "StackCache m' = StackCache m" "BindingStackPointer m' = BindingStackPointer m"
    "control m' = control m" "SP m' = SP m" "Created m' = Created m" "in_stack_cache m' = in_stack_cache m"
    "PreemptRegister m' = PreemptRegister m"
  using assms by (auto simp: mem_only_def same_frame_def fun_eq_iff Created_def in_stack_cache_def stack_cache_index_def)

lemma touch_outside: "\<not> in_stack_cache m a \<Longrightarrow> touch a m = m\<lparr>memory_vma := a\<rparr>"
  by (simp add: touch_def)

section \<open>Cells\<close>

text \<open>The tags of words that the cycles of binding neither follow nor trap on.\<close>

definition direct :: "Tag \<Rightarrow> bool" where
  "direct t \<longleftrightarrow> memory_action CycleBindRead t AND NOT MemoryActionTransport = 0 \<and>
     memory_action CycleBindWrite t AND NOT MemoryActionTransport = 0"

lemma direct_cong: "TagType s = TagType t \<Longrightarrow> direct s = direct t"
  by (simp add: direct_def memory_action_def)

lemma direct_read:
  assumes "Created m a" "\<not> in_stack_cache m a" "direct (TAG (mem m a))" "cycle = CycleBindRead \<or> cycle = CycleBindWrite"
  shows "MemoryReadInternal cycle None a m = Some (Ok (a, mem m a), m\<lparr>memory_vma := a\<rparr>)"
  using assms by (subst MemoryReadInternal.simps)
    (auto simp: read_word readable_def word_at_mem direct_def transport_never set_dest_def Let_def touch_outside)

lemma direct_store:
  assumes "Created m a" "\<not> in_stack_cache m a" "direct (TAG (mem m a))"
  shows "StoreContentsInternal CycleBindWrite a x m =
    Some (Ok (), written a (obj (MergeCdr (TAG (mem m a)) (TAG x)) (DATA x)) (m\<lparr>memory_vma := a\<rparr>))"
proof -
  have "Created (m\<lparr>memory_vma := a\<rparr>) a" using assms(1) by (simp add: Created_def)
  then show ?thesis
    by (simp add: StoreContentsInternal_def bind_em_def direct_read [OF assms] write_word)
qed

lemma MergeCdr_back: "MergeCdr (MergeCdr t s) t = t"
  by (rule bit_word_eqI) (auto dest: bit_imp_le_length simp: MergeCdr_def tag_mask bit_simps)

lemma cdr_next_obj: "cdr_next x = obj (TagType (TAG x)) (DATA x)"
  by (cases x) (simp add: cdr_next_def TagType_def)

lemma obj_eta [simp]: "obj (TAG x) (DATA x) = x"
  by (cases x) simp

lemma cdr_next_merge: "cdr_next (obj (MergeCdr t (TAG x)) (DATA x)) = cdr_next x"
  by (simp add: cdr_next_obj)

section \<open>One binding\<close>

text \<open>A binding as a program makes it: the locative and the value are pushed, and the value popped.\<close>

definition bind_cell :: "LispObj \<times> LispObj \<Rightarrow> label em" where
  "bind_cell c = (\<lambda>m. ExecuteBindLocativeToValue ModePop 0 (push (snd c) (push (fst c) m)))"

text \<open>A cell that may be bound, and words of the binding stack.\<close>

definition cell_ok :: "Machine \<Rightarrow> Integer \<Rightarrow> bool" where
  "cell_ok m a \<longleftrightarrow> Created m a \<and> \<not> in_stack_cache m a \<and> direct (TAG (mem m a))"

definition free_word :: "Machine \<Rightarrow> Integer \<Rightarrow> bool" where
  "free_word m a \<longleftrightarrow> Created m a \<and> \<not> in_stack_cache m a"

lemma cell_ok_memory_vma [simp]: "cell_ok (m\<lparr>memory_vma := a\<rparr>) = cell_ok m"
  by (simp add: cell_ok_def fun_eq_iff Created_def in_stack_cache_def stack_cache_index_def mem_def)

lemma save_binding_ok:
  assumes "cell_ok m (DATA loc)" "free_word m (BindingStackPointer m + 1)" "free_word m (BindingStackPointer m + 2)"
  shows "\<exists>m1. save_binding loc m = Some (Ok (), m1) \<and> mem_only m m1 \<and>
    mem m1 = (mem m)(BindingStackPointer m + 1 := saved_locative m loc, BindingStackPointer m + 2 := mem m (DATA loc))"
proof -
  let ?m0 = "m\<lparr>memory_vma := DATA loc\<rparr>" and ?b = "BindingStackPointer m"
  let ?m1 = "written (?b + 1) (saved_locative m loc) ?m0"
  let ?m2 = "written (?b + 2) (mem m (DATA loc)) ?m1"
  note v = mem_only_view [OF mem_only_vma [of m "DATA loc"]]
  have e: "mem ?m0 = mem m" "saved_locative ?m0 loc = saved_locative m loc"
    by (simp_all add: fun_eq_iff mem_def saved_locative_def)
  have r: "MemoryReadInternal CycleBindRead None (DATA loc) m = Some (Ok (DATA loc, mem m (DATA loc)), ?m0)"
    using assms(1) by (intro direct_read) (simp_all add: cell_ok_def)
  have o1: "mem_only ?m0 ?m1" using assms(2) v by (intro mem_only_written) (simp add: free_word_def)
  have o2: "mem_only ?m1 ?m2" using assms(3) v by (intro mem_only_written) (simp add: free_word_def mem_only_view [OF o1])
  have w1: "WriteVirtualMemory (?b + 1) (saved_locative m loc) ?m0 = Some (Ok (), ?m1)"
    using assms(2) v by (intro write_word) (simp add: free_word_def)
  have w2: "WriteVirtualMemory (?b + 2) (mem m (DATA loc)) ?m1 = Some (Ok (), ?m2)"
    using assms(3) v by (intro write_word) (simp add: free_word_def written_view)
  have "save_binding loc m = Some (Ok (), ?m2)"
    using w1 w2 by (simp add: save_binding_def bind_em_def r e)
  moreover have "mem_only m ?m2" using mem_only_trans [OF mem_only_vma mem_only_trans [OF o1 o2]] .
  moreover have "mem ?m2 = (mem m)(?b + 1 := saved_locative m loc, ?b + 2 := mem m (DATA loc))" by (simp add: e)
  ultimately show ?thesis by blast
qed

lemma store_cell:
  assumes "cell_ok m a"
  shows "\<exists>m1. StoreContentsInternal CycleBindWrite a x m = Some (Ok (), m1) \<and> mem_only m m1 \<and>
    mem m1 = (mem m)(a := obj (MergeCdr (TAG (mem m a)) (TAG x)) (DATA x))"
proof -
  note v = mem_only_view [OF mem_only_vma [of m a]]
  have "mem (m\<lparr>memory_vma := a\<rparr>) = mem m" by (simp add: fun_eq_iff mem_def)
  moreover have "mem_only m (written a y (m\<lparr>memory_vma := a\<rparr>))" for y
    using assms v by (intro mem_only_trans [OF mem_only_vma mem_only_written]) (simp add: cell_ok_def)
  ultimately show ?thesis using assms direct_store [of m a x] by (simp add: cell_ok_def)
qed

lemma bind_cell_ok:
  assumes loc: "TAG loc = TypeLocative" and full: "\<not> bindings_full m" and cell: "cell_ok m (DATA loc)"
    and free: "free_word m (BindingStackPointer m + 1)" "free_word m (BindingStackPointer m + 2)"
    and apart: "DATA loc \<noteq> BindingStackPointer m + 1" "DATA loc \<noteq> BindingStackPointer m + 2"
  shows "\<exists>m1. bind_cell (loc, v) m = Some (Ok NextInstruction, m1) \<and> same_frame m m1 \<and>
    mem m1 = (mem m)(BindingStackPointer m + 1 := saved_locative m loc, BindingStackPointer m + 2 := mem m (DATA loc),
      DATA loc := obj (MergeCdr (TAG (mem m (DATA loc))) (TAG v)) (DATA v)) \<and>
    BindingStackPointer m1 = BindingStackPointer m + 2 \<and> control m1 = WriteControlCleanupBindings (control m) 1"
proof -
  let ?k = "(push v (push loc m))\<lparr>SP := SP m\<rparr>"
  have k: "cell_ok ?k = cell_ok m" "free_word ?k = free_word m" "mem ?k = mem m" "saved_locative ?k = saved_locative m"
      "BindingStackPointer ?k = BindingStackPointer m" "bindings_full ?k = bindings_full m" "same_frame m ?k"
      "control ?k = control m" "StackCache ?k (SP m + 2) = v"
    by (simp_all add: fun_eq_iff cell_ok_def free_word_def Created_def in_stack_cache_def stack_cache_index_def mem_def
        saved_locative_def bindings_full_def same_frame_def push_def set_slot_def)
  obtain m1 where s: "save_binding loc ?k = Some (Ok (), m1)" "mem_only ?k m1"
      "mem m1 = (mem m)(BindingStackPointer m + 1 := saved_locative m loc, BindingStackPointer m + 2 := mem m (DATA loc))"
    using save_binding_ok [of ?k loc] cell free unfolding k by blast
  note f = mem_only_view [OF s(2), unfolded k]
  have m1: "cell_ok m1 (DATA loc)" "mem m1 (DATA loc) = mem m (DATA loc)"
    using cell apart f by (simp_all add: cell_ok_def s(3) same_frame_view [OF k(7)])
  obtain m2 where t: "StoreContentsInternal CycleBindWrite (DATA loc) v m1 = Some (Ok (), m2)" "mem_only m1 m2"
      "mem m2 = (mem m1)(DATA loc := obj (MergeCdr (TAG (mem m (DATA loc))) (TAG v)) (DATA v))"
    using store_cell [OF m1(1), of v] unfolding m1(2) by blast
  note g = mem_only_view [OF t(2)]
  have "bind_cell (loc, v) m = next_with (note_binding m2)"
    using loc full k(6) t(1) s(1) k(9) f(2)
    by (simp add: bind_cell_def ExecuteBindLocativeToValue_def addressed_def TOS_def Let_def bind_em_def op_read_def)
      (simp add: push_def set_slot_def)
  moreover have "same_frame m m2" using same_frame_trans [OF k(7) same_frame_trans [OF f(1) g(1)]] .
  ultimately show ?thesis using f g k(5,8)
    by (simp add: next_with_def note_binding_def same_frame_def t(3) s(3))
qed

section \<open>Undoing one binding\<close>

text \<open>The two topmost words of the binding stack are a locative and the contents of its cell.\<close>

lemma unbind_ok:
  assumes on: "ReadControlCleanupBindings (control m) \<noteq> 0"
    and top: "cell_ok m (BindingStackPointer m)" "cell_ok m (BindingStackPointer m - 1)"
    and cell: "cell_ok m (DATA (mem m (BindingStackPointer m - 1)))"
  shows "\<exists>m1. Unbind m = Some (Ok 0, m1) \<and> same_frame m m1 \<and>
    mem m1 = (mem m)(DATA (mem m (BindingStackPointer m - 1)) :=
      obj (MergeCdr (TAG (mem m (DATA (mem m (BindingStackPointer m - 1))))) (TAG (mem m (BindingStackPointer m))))
        (DATA (mem m (BindingStackPointer m)))) \<and>
    BindingStackPointer m1 = BindingStackPointer m - 2 \<and>
    control m1 = WriteControlCleanupBindings (control m) (ldb 1 6 (ucast (TAG (mem m (BindingStackPointer m - 1)))))"
proof -
  let ?b = "BindingStackPointer m" and ?m0 = "m\<lparr>memory_vma := BindingStackPointer m\<rparr>"
  let ?m1 = "?m0\<lparr>memory_vma := ?b - 1\<rparr>"
  have e: "mem (k\<lparr>memory_vma := a\<rparr>) = mem k" for k a by (simp add: fun_eq_iff mem_def)
  have c: "cell_ok ?m0 (?b - 1)" "cell_ok ?m1 (DATA (mem m (?b - 1)))" using top cell by simp_all
  have r0: "MemoryReadInternal CycleBindRead None ?b m = Some (Ok (?b, mem m ?b), ?m0)"
    using top(1) by (intro direct_read) (simp_all add: cell_ok_def)
  have r1: "MemoryReadInternal CycleBindRead None (?b - 1) ?m0 = Some (Ok (?b - 1, mem m (?b - 1)), ?m1)"
    using c(1) by (subst direct_read) (simp_all add: cell_ok_def e)
  obtain m2 where s: "StoreContentsInternal CycleBindWrite (DATA (mem m (?b - 1))) (mem m ?b) ?m1 = Some (Ok (), m2)"
      "mem_only ?m1 m2" "mem m2 = (mem m)(DATA (mem m (?b - 1)) :=
        obj (MergeCdr (TAG (mem m (DATA (mem m (?b - 1))))) (TAG (mem m ?b))) (DATA (mem m ?b)))"
    using store_cell [OF c(2), of "mem m ?b"] unfolding e by blast
  note g = mem_only_view [OF s(2)]
  have "same_frame m m2" using g(1) by (simp add: same_frame_def)
  then show ?thesis using on s(1) g
    by (simp add: Unbind_def bind_em_def r0 r1 Let_def same_frame_def s(3) cong: if_cong)
qed

section \<open>Nested bindings\<close>

primrec bind_cells :: "(LispObj \<times> LispObj) list \<Rightarrow> label em" where
  "bind_cells [] = next_with"
| "bind_cells (c # cs) = bind_em (bind_cell c) (\<lambda>l. if l = NextInstruction then bind_cells cs else stop l)"

lemma unbind_n_more:
  "unbind_n i m = Some (Ok NextInstruction, m1) \<Longrightarrow> unbind_n (i + j) m = unbind_n j m1"
proof (induction i arbitrary: m)
  case 0
  then show ?case by (simp add: next_with_def)
next
  case (Suc i)
  then show ?case
    by (auto simp: bind_em_def stop_def split: option.splits prod.splits outcome.splits if_splits)
qed

text \<open>The words of the binding stack that \<open>n\<close> bindings take.\<close>

definition binding_word :: "Machine \<Rightarrow> nat \<Rightarrow> Integer \<Rightarrow> bool" where
  "binding_word m n a \<longleftrightarrow> (\<exists>i<2 * n. a = BindingStackPointer m + 1 + of_nat i)"

lemma binding_word_Suc:
  assumes "BindingStackPointer m1 = BindingStackPointer m + 2"
  shows "binding_word m (Suc n) a \<longleftrightarrow> a = BindingStackPointer m + 1 \<or> a = BindingStackPointer m + 2 \<or> binding_word m1 n a"
proof -
  have "(\<exists>i<2 * Suc n. P i) \<longleftrightarrow> P 0 \<or> P 1 \<or> (\<exists>i<2 * n. P (i + 2))" for P :: "nat \<Rightarrow> bool"
    by (simp add: less_Suc_eq_0_disj ex_disj_distrib conj_disj_distribR ex_simps) (metis Suc_less_eq)
  from this [of "\<lambda>i. a = BindingStackPointer m + 1 + of_nat i"] show ?thesis
    by (simp add: binding_word_def assms ac_simps)
qed

definition cells_ok :: "Machine \<Rightarrow> (LispObj \<times> LispObj) list \<Rightarrow> bool" where
  "cells_ok m cs \<longleftrightarrow> \<not> DeepBoundP m \<and> unat (BindingStackPointer m) + 2 * length cs \<le> unat (BindingStackLimit m) \<and>
     (\<forall>a. binding_word m (length cs) a \<longrightarrow> free_word m a) \<and>
     (\<forall>c\<in>set cs. TAG (fst c) = TypeLocative \<and> direct (TAG (snd c)) \<and> cell_ok m (DATA (fst c)) \<and>
        \<not> binding_word m (length cs) (DATA (fst c)))"

lemma saved_locative_view:
  assumes "TAG loc = TypeLocative"
  shows "DATA (saved_locative m loc) = DATA loc" "direct (TAG (saved_locative m loc))"
    "ldb 1 6 (ucast (TAG (saved_locative m loc))) = ReadControlCleanupBindings (control m)"
proof -
  have "push_bit 6 x AND TagTypeMask = 0" for x :: Tag
    by (rule bit_word_eqI) (auto simp: tag_mask(1) bit_simps)
  then have "TagType (TAG (saved_locative m loc)) = TypeLocative"
    by (simp add: TagType_def saved_locative_def assms bit.conj_disj_distrib2)
  moreover have "direct TypeLocative" by code_simp
  moreover have "TagType TypeLocative = TypeLocative" by (simp add: TagType_def)
  ultimately show "direct (TAG (saved_locative m loc))" using direct_cong by metis
  show "ldb 1 6 (ucast (TAG (saved_locative m loc))) = ReadControlCleanupBindings (control m)"
    by (rule bit_word_eqI)
      (auto simp: saved_locative_def assms ReadControlCleanupBindings_def bit_ldb bit_simps less_Suc_eq)
qed (simp add: saved_locative_def)

lemma cleanup_bindings_bit:
  "ReadControlCleanupBindings (WriteControlCleanupBindings c 1) = 1"
  "WriteControlCleanupBindings (WriteControlCleanupBindings c x) (ReadControlCleanupBindings c) = c"
  by (simp_all add: ReadControlCleanupBindings_def WriteControlCleanupBindings_def ldb_dpb_same dpb_dpb_same dpb_ldb)

lemma binding_words_apart:
  assumes "BindingStackPointer m1 = BindingStackPointer m + 2" "2 * Suc n < 2 ^ 32"
  shows "\<not> binding_word m1 n (BindingStackPointer m + 1)" "\<not> binding_word m1 n (BindingStackPointer m + 2)"
proof -
  have *: "of_nat (i + k) \<noteq> (0 :: Integer)" if "i < 2 * n" "k = 1 \<or> k = 2" for i k
    using that assms(2) by (auto simp: word_of_nat_eq_0_iff simp del: of_nat_add dest!: dvd_imp_le)
  show "\<not> binding_word m1 n (BindingStackPointer m + 1)" "\<not> binding_word m1 n (BindingStackPointer m + 2)"
    using * [of _ 1] * [of _ 2] by (auto simp: binding_word_def assms(1) algebra_simps)
qed

lemma cells_ok_tail:
  assumes ok: "cells_ok m ((loc, v) # cs)" and frame: "same_frame m m1"
    and mem1: "mem m1 = (mem m)(BindingStackPointer m + 1 := x, BindingStackPointer m + 2 := y,
      DATA loc := obj (MergeCdr (TAG (mem m (DATA loc))) (TAG v)) (DATA v))"
    and bsp: "BindingStackPointer m1 = BindingStackPointer m + 2"
  shows "cells_ok m1 cs"
proof -
  note view = same_frame_view [OF frame] and word = binding_word_Suc [OF bsp, of "length cs"]
  have "unat (BindingStackPointer m) + 2 < 2 ^ 32"
    using ok unsigned_less [of "BindingStackLimit m", where 'a = nat] by (simp add: cells_ok_def)
  then have "unat (BindingStackPointer m1) = unat (BindingStackPointer m) + 2"
    by (simp add: bsp unat_word_ariths)
  moreover have "cell_ok m1 a" if "cell_ok m a" "\<not> binding_word m (Suc (length cs)) a" for a
    using that ok by (auto simp: cell_ok_def cells_ok_def mem1 view word direct_cong [OF TagType_MergeCdr])
  ultimately show ?thesis using ok frame
    by (auto simp: cells_ok_def free_word_def view word same_frame_def)
qed

text \<open>
  While bound, a cell holds the last value bound to it; after as many undoings, every word outside
  the binding stack is as it was.
\<close>

lemma nested_bindings:
  "cells_ok m cs \<Longrightarrow> \<exists>m1 m2. bind_cells cs m = Some (Ok NextInstruction, m1) \<and>
    unbind_n (length cs) m1 = Some (Ok NextInstruction, m2) \<and> same_frame m m1 \<and> same_frame m m2 \<and>
    BindingStackPointer m2 = BindingStackPointer m \<and> control m2 = control m \<and>
    (\<forall>a. \<not> binding_word m (length cs) a \<longrightarrow> mem m2 a = mem m a \<and>
      cdr_next (mem m1 a) = cdr_next (case map_of (rev (map (\<lambda>c. (DATA (fst c), snd c)) cs)) a of
        Some v \<Rightarrow> v | None \<Rightarrow> mem m a))"
proof (induction cs arbitrary: m)
  case Nil
  then show ?case by (simp add: next_with_def same_frame_def)
next
  case (Cons c cs)
  obtain loc v where c: "c = (loc, v)" by fastforce
  let ?b = "BindingStackPointer m" and ?n = "length cs"
  have ok: "TAG loc = TypeLocative" "cell_ok m (DATA loc)" "\<not> binding_word m (Suc ?n) (DATA loc)" "direct (TAG v)"
      "\<not> DeepBoundP m" "unat ?b + 2 * Suc ?n \<le> unat (BindingStackLimit m)"
      "\<And>a. binding_word m (Suc ?n) a \<Longrightarrow> free_word m a"
    using Cons.prems by (auto simp: cells_ok_def c)
  have room: "2 * Suc ?n < 2 ^ 32" using ok(6) unsigned_less [of "BindingStackLimit m", where 'a = nat] by simp
  have first: "binding_word m (Suc ?n) (?b + 1)" "binding_word m (Suc ?n) (?b + 2)"
    using binding_word_Suc [of "m\<lparr>BindingStackPointer := ?b + 2\<rparr>" m] by simp_all
  have full: "\<not> bindings_full m" using ok(5,6) by (simp add: bindings_full_def word_le_nat_alt)
  have ne: "DATA loc \<noteq> ?b + 1" "DATA loc \<noteq> ?b + 2" using ok(3) first by auto
  obtain ma where a: "bind_cell (loc, v) m = Some (Ok NextInstruction, ma)" "same_frame m ma"
      "mem ma = (mem m)(?b + 1 := saved_locative m loc, ?b + 2 := mem m (DATA loc),
        DATA loc := obj (MergeCdr (TAG (mem m (DATA loc))) (TAG v)) (DATA v))"
      "BindingStackPointer ma = ?b + 2" "control ma = WriteControlCleanupBindings (control m) 1"
    using bind_cell_ok [OF ok(1) full ok(2) ok(7) [OF first(1)] ok(7) [OF first(2)] ne, of v] by blast
  have "cells_ok ma cs" using cells_ok_tail [OF Cons.prems [unfolded c] a(2-4)] .
  from Cons.IH [OF this] obtain m1 mb where b: "bind_cells cs ma = Some (Ok NextInstruction, m1)"
      "unbind_n ?n m1 = Some (Ok NextInstruction, mb)" "same_frame ma m1" "same_frame ma mb"
      "BindingStackPointer mb = ?b + 2" "control mb = control ma"
      "\<And>x. \<not> binding_word ma ?n x \<Longrightarrow> mem mb x = mem ma x"
      "\<And>x. \<not> binding_word ma ?n x \<Longrightarrow> cdr_next (mem m1 x) =
        cdr_next (case map_of (rev (map (\<lambda>c. (DATA (fst c), snd c)) cs)) x of Some v \<Rightarrow> v | None \<Rightarrow> mem ma x)"
    unfolding a(4) by blast
  note view = same_frame_view [OF same_frame_trans [OF a(2) b(4)]]
  note apart = binding_words_apart [OF a(4) room] and word = binding_word_Suc [OF a(4), of ?n]
  have "\<not> binding_word ma ?n (DATA loc)" using ok(3) by (auto simp: word)
  then have mb: "mem mb (?b + 1) = saved_locative m loc" "mem mb (?b + 2) = mem m (DATA loc)"
      "mem mb (DATA loc) = obj (MergeCdr (TAG (mem m (DATA loc))) (TAG v)) (DATA v)"
    using b(7) apart ne by (auto simp: a(3))
  have cells: "cell_ok mb (?b + 2)" "cell_ok mb (?b + 1)" "cell_ok mb (DATA loc)"
    using ok(2,4) ok(7) [OF first(1)] ok(7) [OF first(2)] saved_locative_view(2) [OF ok(1)]
    by (simp_all add: cell_ok_def free_word_def view mb direct_cong [OF TagType_MergeCdr])
  have pointer: "BindingStackPointer mb - 1 = ?b + 1" "BindingStackPointer mb - 2 = ?b" by (simp_all add: b(5))
  obtain m2 where u: "Unbind mb = Some (Ok 0, m2)" "same_frame mb m2" "mem m2 = (mem mb)(DATA loc := mem m (DATA loc))"
      "BindingStackPointer m2 = ?b" "control m2 = control m"
    using unbind_ok [of mb, unfolded pointer, unfolded b(5,6) a(5) mb] cells ok(1)
    by (auto simp: mb saved_locative_view cleanup_bindings_bit MergeCdr_back simp del: One_nat_def)
  have "unbind_n (?n + 1) m1 = next_with m2"
    using unbind_n_more [OF b(2), of 1] u(1) by (simp add: bind_em_def)
  moreover have "bind_cells (c # cs) m = Some (Ok NextInstruction, m1)" using a(1) b(1) by (simp add: c bind_em_def)
  moreover have "mem m2 x = mem m x" if "\<not> binding_word m (Suc ?n) x" for x
    using that b(7) [of x] by (auto simp: u(3) a(3) word)
  moreover have "cdr_next (mem m1 x) = cdr_next (case map_of (rev (map (\<lambda>c. (DATA (fst c), snd c)) (c # cs))) x of
      Some v \<Rightarrow> v | None \<Rightarrow> mem m x)" if "\<not> binding_word m (Suc ?n) x" for x
    using that b(8) [of x] by (auto simp: a(3) word c map_add_def cdr_next_merge split: option.splits)
  ultimately show ?case using u(4,5) same_frame_trans [OF a(2) b(3)]
      same_frame_trans [OF same_frame_trans [OF a(2) b(4)] u(2)]
    by (auto simp: next_with_def)
qed

end
