(* ===== verification/Ivory_Call_Facts.thy ===== *)
theory Ivory_Call_Facts
  imports Ivory_Calls Ivory_Bind_Facts
begin

text \<open>
  Facts on frames: the fields of the control registers that calls and traps make, the slots that
  pushes fill, and the return from a frame that has nothing to clean up.
\<close>

section \<open>Control registers\<close>

lemma control_masks:
  "(0xff :: Integer) = mask 8" "(0x100 :: Integer) = push_bit 8 (mask 1)" "(0x1fe00 :: Integer) = push_bit 9 (mask 8)"
  "(0x20000 :: Integer) = push_bit 17 (mask 1)" "(0xc0000 :: Integer) = push_bit 18 (mask 2)"
  "(0x400000 :: Integer) = push_bit 22 (mask 1)" "(0x7000000 :: Integer) = push_bit 24 (mask 3)"
  "(0x38000000 :: Integer) = push_bit 27 (mask 3)" "(0x300 :: Integer) = push_bit 8 (mask 2)"
  by (simp_all add: mask_eq_exp_minus_1)

lemma below_32_cases: "(n :: nat) < 32 \<Longrightarrow> n \<in> {0, 1, 2, 3, 4, 5, 6, 7, 8, 9, 10, 11, 12, 13, 14, 15, 16, 17, 18, 19, 20, 21, 22, 23, 24, 25, 26, 27, 28, 29, 30, 31}"
  by (simp only: insert_iff empty_iff) presburger

lemma small_int_take_bit: "0 \<le> x \<Longrightarrow> x < 256 \<Longrightarrow> \<exists>A. (of_int x :: Integer) = take_bit 8 A"
  by (rule exI [of _ "of_int x"], rule word_uint_eqI, simp only: unsigned_take_bit_eq uint_word_of_int)
    (simp add: take_bit_eq_mod)

text \<open>The sizes of a frame fit their fields.\<close>

lemma bit_call_control:
  assumes "n < 32"
  shows "bit (call_control apply operand a f c) n \<longleftrightarrow>
    bit (of_int a :: Integer) n \<or> (9 \<le> n \<and> bit (of_int f :: Integer) (n - 9)) \<or>
    (n = 17 \<and> apply) \<or> ((n = 18 \<or> n = 19) \<and> bit (of_int operand :: Integer) (n - 10)) \<or>
    (bit c n \<and> (20 \<le> n \<and> n < 22 \<or> n = 23 \<or> 27 \<le> n \<or> apply \<and> n = 17))"
  using below_32_cases [OF assms]
  by (elim insertE emptyE; simp add: call_control_def bit_or_iff bit_and_iff bit_not_iff bit_push_bit_iff; blast)

lemma call_control_fields:
  assumes "0 \<le> a" "a < 256" "0 \<le> f" "f < 256"
  shows "ReadControlArgumentSize (call_control apply operand a f c) = of_int a"
    "ReadControlCallerFrameSize (call_control apply operand a f c) = of_int f"
    "ReadControlValueDisposition (call_control apply operand a f c) = ldb 2 8 (of_int operand)"
    "ReadControlCleanupBits (call_control apply operand a f c) = 0"
proof -
  obtain A where a: "of_int a = (take_bit 8 A :: Integer)" using small_int_take_bit [OF assms(1,2)] by blast
  obtain F where f: "of_int f = (take_bit 8 F :: Integer)" using small_int_take_bit [OF assms(3,4)] by blast
  note bits = bit_ldb bit_call_control bit_take_bit_iff a f
  show "ReadControlArgumentSize (call_control apply operand a f c) = of_int a"
    by (rule bit_word_eqI) (auto simp: ReadControlArgumentSize_def bits)
  show "ReadControlCallerFrameSize (call_control apply operand a f c) = of_int f"
    by (rule bit_word_eqI) (auto simp: ReadControlCallerFrameSize_def bits)
  show "ReadControlValueDisposition (call_control apply operand a f c) = ldb 2 8 (of_int operand)"
    by (rule bit_word_eqI) (auto simp: ReadControlValueDisposition_def bits less_2_cases_iff)
  show "ReadControlCleanupBits (call_control apply operand a f c) = 0"
    by (rule bit_word_eqI) (auto simp: ReadControlCleanupBits_def bits)
qed

lemma bit_trap_control:
  assumes "n < 32"
  shows "bit (trap_control c a f) n \<longleftrightarrow> bit (of_int a :: Integer) n \<or> (9 \<le> n \<and> bit (of_int f :: Integer) (n - 9)) \<or>
    (bit c n \<and> (20 \<le> n \<and> n < 22 \<or> n = 23 \<or> 30 \<le> n))"
  using below_32_cases [OF assms]
  by (elim insertE emptyE; simp add: trap_control_def bit_or_iff bit_and_iff bit_not_iff bit_push_bit_iff; blast)

lemma trap_control_fields:
  assumes "0 \<le> a" "a < 256" "0 \<le> f" "f < 256"
  shows "ReadControlArgumentSize (trap_control c a f) = of_int a"
    "ReadControlCallerFrameSize (trap_control c a f) = of_int f"
    "ReadControlValueDisposition (trap_control c a f) = 0"
    "ReadControlCleanupBits (trap_control c a f) = 0"
    "ReadControlTrapMode (trap_control c a f) = ReadControlTrapMode c"
proof -
  obtain A where a: "of_int a = (take_bit 8 A :: Integer)" using small_int_take_bit [OF assms(1,2)] by blast
  obtain F where f: "of_int f = (take_bit 8 F :: Integer)" using small_int_take_bit [OF assms(3,4)] by blast
  note bits = bit_ldb bit_trap_control bit_take_bit_iff a f
  show "ReadControlArgumentSize (trap_control c a f) = of_int a"
    by (rule bit_word_eqI) (auto simp: ReadControlArgumentSize_def bits)
  show "ReadControlCallerFrameSize (trap_control c a f) = of_int f"
    by (rule bit_word_eqI) (auto simp: ReadControlCallerFrameSize_def bits)
  show "ReadControlValueDisposition (trap_control c a f) = 0"
    by (rule bit_word_eqI) (auto simp: ReadControlValueDisposition_def bits)
  show "ReadControlCleanupBits (trap_control c a f) = 0"
    by (rule bit_word_eqI) (auto simp: ReadControlCleanupBits_def bits)
  show "ReadControlTrapMode (trap_control c a f) = ReadControlTrapMode c"
    by (rule bit_word_eqI) (auto simp: ReadControlTrapMode_def bits)
qed

section \<open>Pushing\<close>

lemma push_view [simp]:
  "SP (push x m) = SP m + 1" "FP (push x m) = FP m" "LP (push x m) = LP m" "control (push x m) = control m"
  "continuation (push x m) = continuation m" "PC (push x m) = PC m" "StackCacheLimit (push x m) = StackCacheLimit m"
  "StackCacheBase (push x m) = StackCacheBase m" "StackCache (push x m) = (StackCache m)(SP m + 1 := x)"
  "restartSP (push x m) = restartSP m"
  by (simp_all add: push_def set_slot_def)

lemma push_all_view:
  "SP (fold push xs m) = SP m + int (length xs)" "FP (fold push xs m) = FP m" "control (fold push xs m) = control m"
  "continuation (fold push xs m) = continuation m" "StackCacheLimit (fold push xs m) = StackCacheLimit m"
  by (induction xs arbitrary: m) simp_all

lemma push_all_slots:
  "StackCache (fold push xs m) j = (if SP m < j \<and> j \<le> SP m + int (length xs) then xs ! nat (j - SP m - 1) else StackCache m j)"
proof (induction xs arbitrary: m)
  case (Cons x xs)
  then show ?case by (auto simp: nth_Cons' nat_diff_distrib intro!: arg_cong [of _ _ "nth xs"])
qed auto

section \<open>Leaving a frame\<close>

text \<open>A return from a frame with no cleanups, to a caller in the stack cache that wants no more frames popped.\<close>

lemma return_from_frame:
  assumes "ReadControlCleanupBits (control m) = 0" "ReadControlValueDisposition (control m) \<noteq> ValueDispositionReturn"
    and "0 \<le> FP m - uint (ReadControlCallerFrameSize (control m))"
  shows "ReturnSingleInternal x m = Some (Ok BranchTaken, give_single (ReadControlValueDisposition (control m)) x
    (pop_frame True (uint (ReadControlCallerFrameSize (control m))) (DATA (StackCache m (FP m + 1))) m))"
proof -
  have "FP (give_single d x k) = FP k" for d k by (simp add: give_single_def push_fixnum_def)
  then show ?thesis using assms
    by (subst ReturnSingleInternal.simps)
      (simp add: cleanup_frame_def Let_def scroll_if_below_def pop_frame_def stop_def)
qed

text \<open>The values a caller finds above its stack.\<close>

definition returned :: "Integer \<Rightarrow> LispObj \<Rightarrow> LispObj list" where
  "returned disp x = (if disp = ValueDispositionValue then [cdr_next x]
     else if disp = ValueDispositionMultiple then [cdr_next x, obj TypeFixnum 1] else [])"

lemma give_single_push: "give_single disp x m = fold push (returned disp x) m"
  by (simp add: give_single_def returned_def push_fixnum_def)

text \<open>What a callee may do to its caller's frame: nothing.\<close>

definition same_caller :: "Machine \<Rightarrow> Machine \<Rightarrow> bool" where
  "same_caller m m' \<longleftrightarrow> FP m' = FP m \<and> control m' = control m \<and> continuation m' = continuation m \<and>
     (\<forall>j \<le> FP m + 1. StackCache m' j = StackCache m j)"

text \<open>The caller's registers, from the two words that a frame starts with.\<close>

lemma return_restores:
  assumes fields: "ReadControlCleanupBits (control k) = 0" "ReadControlValueDisposition (control k) = disp"
      "disp \<noteq> ValueDispositionReturn" "ReadControlCallerFrameSize (control k) = of_int depth"
    and depth: "0 \<le> depth" "depth < 256" "0 \<le> FP k - depth"
    and frame: "StackCache k (FP k) = saved_pc" "DATA (StackCache k (FP k + 1)) = saved" and callee: "same_caller k m"
  shows "\<exists>m'. ReturnSingleInternal x m = Some (Ok BranchTaken, m') \<and> PC m' = continuation k \<and>
    continuation m' = saved_pc \<and> control m' = saved \<and> FP m' = FP k - depth \<and>
    LP m' = FP k - depth + uint (ReadControlArgumentSize saved) \<and> SP m' = FP k - 1 + int (length (returned disp x)) \<and>
    map (StackCache m') [FP k..SP m'] = returned disp x \<and> (\<forall>j < FP k. StackCache m' j = StackCache k j)"
proof -
  have m: "FP m = FP k" "control m = control k" "continuation m = continuation k"
      "\<And>j. j \<le> FP k + 1 \<Longrightarrow> StackCache m j = StackCache k j"
    using callee by (simp_all add: same_caller_def)
  have u: "uint (of_int depth :: Integer) = depth" using depth by (simp add: uint_word_of_int)
  let ?p = "pop_frame True depth saved m"
  let ?m' = "fold push (returned disp x) ?p"
  have "ReturnSingleInternal x m = Some (Ok BranchTaken, ?m')"
    using return_from_frame [of m x] fields depth(3) frame(2) m by (simp add: u give_single_push)
  moreover have p: "SP ?p = FP k - 1" "FP ?p = FP k - depth" "StackCache ?p = StackCache m" "control ?p = saved"
      "PC ?p = continuation k" "LP ?p = FP k - depth + uint (ReadControlArgumentSize saved)" "continuation ?p = saved_pc"
    using m frame(1) by (simp_all add: pop_frame_def Let_def)
  moreover have "PC (fold push xs q) = PC q" "LP (fold push xs q) = LP q" for xs q
    by (induction xs arbitrary: q) simp_all
  moreover have "map (StackCache ?m') [FP k..SP ?m'] = returned disp x"
    by (rule nth_equalityI) (auto simp: push_all_slots push_all_view p)
  moreover have "StackCache ?m' j = StackCache k j" if "j < FP k" for j
    using that m(4) by (simp add: push_all_slots p)
  ultimately show ?thesis by (simp add: push_all_view)
qed

section \<open>Making a frame\<close>

lemma extra_argument_clear: "ReadControlExtraArgument (c AND NOT ControlExtraArgument) = 0"
  by (rule bit_word_eqI) (auto simp: ReadControlExtraArgument_def bit_ldb bit_and_iff bit_not_iff)

lemma finish_call_frame:
  assumes args: "ldb 8 0 (of_int (line_operand cp)) = of_nat (Suc (length args))" "length args < 254"
    and room: "FP m \<le> SP m + 1" "SP m - FP m < 255" "SP m < StackCacheLimit m"
  shows "\<exists>k. DispatchFinishCallN cp (fold push args (begin_call None target m)) = Some (Ok BranchTaken, k) \<and>
    PC k = target \<and> continuation k = next_pc cp \<and> FP k = SP m + 1 \<and> SP k = SP m + 2 + int (length args) \<and>
    LP k = SP k + 1 \<and> control k = call_control False (line_operand cp) (int (length args) + 2) (SP m + 1 - FP m)
      ((control m OR ControlCallStarted) AND NOT ControlExtraArgument) \<and>
    (\<forall>j. StackCache k j = (if j = SP m + 1 then (continuation m)\<lparr>TAG := TAG (continuation m) OR 0xc0\<rparr>
      else if j = SP m + 2 then obj (TypeFixnum OR 0xc0) (control m)
      else if SP m + 2 < j \<and> j \<le> SP k then args ! nat (j - SP m - 3) else StackCache m j))"
proof -
  let ?b = "begin_call None target m"
  let ?m = "fold push args ?b"
  have b: "SP ?b = SP m + 2" "FP ?b = FP m" "StackCacheLimit ?b = StackCacheLimit m" "continuation ?b = target"
      "control ?b = (control m OR ControlCallStarted) AND NOT ControlExtraArgument"
      "StackCache ?b = (StackCache m)(SP m + 1 := (continuation m)\<lparr>TAG := TAG (continuation m) OR 0xc0\<rparr>,
        SP m + 2 := obj (TypeFixnum OR 0xc0) (control m))"
    by (simp_all add: begin_call_def push_control_def push_continuation_def add.commute)
  have n: "uint (ldb 8 0 (of_int (line_operand cp))) = int (length args) + 1"
    using args by (simp add: uint_word_of_int unsigned_of_nat take_bit_nat_eq_self flip: of_nat_Suc)
  have extra: "ReadControlExtraArgument (control ?b) = 0" unfolding b(5) by (rule extra_argument_clear)
  have op1: "SP ?m - (int (length args) + 1) - uint (ReadControlExtraArgument (control ?m)) = SP m + 1"
    by (simp add: push_all_view b(1) extra)
  let ?k = "?m\<lparr>control := call_control False (line_operand cp) (int (length args) + 2) (SP m + 1 - FP m) (control ?b),
    FP := SP m + 1, LP := SP ?m + 1, PC := target, continuation := next_pc cp\<rparr>"
  have "DispatchFinishCallN cp ?m = Some (Ok BranchTaken, ?k)"
    using room unfolding DispatchFinishCallN_def finish_call_def n op1 FinishCallInternal_def
    by (simp add: Let_def stop_def push_all_view b add.commute)
  moreover have "nat (j - (SP m + 2) - 1) = nat (j - SP m - 3)" for j by simp
  ultimately show ?thesis by (simp add: push_all_view push_all_slots b)
qed

section \<open>Traps\<close>

definition extra_words :: "LispObj option \<Rightarrow> LispObj list" where
  "extra_words e = (case e of None \<Rightarrow> [] | Some x \<Rightarrow> [cdr_next x])"

lemma push_extra_words: "push_extra e m = fold push (extra_words e) m"
  by (simp add: push_extra_def extra_words_def split: option.splits)

text \<open>The words of a pre-trap's frame.\<close>

definition trap_frame :: "Integer \<Rightarrow> LispObj option \<Rightarrow> LispObj option \<Rightarrow> Machine \<Rightarrow> LispObj list" where
  "trap_frame index e1 e2 m = [(continuation m)\<lparr>TAG := TAG (continuation m) OR 0xc0\<rparr>,
     obj (TypeFixnum OR 0xc0) (control m), obj TypeFixnum index, cdr_next (PC m)] @ extra_words e1 @ extra_words e2"

lemma trap_frame_length: "4 \<le> length (trap_frame index e1 e2 m)" "length (trap_frame index e1 e2 m) \<le> 6"
  by (auto simp: trap_frame_def extra_words_def split: option.splits)

text \<open>An entry of the trap vector that is outside the stack cache and holds a PC.\<close>

definition vector_entry :: "Machine \<Rightarrow> Integer \<Rightarrow> LispObj \<Rightarrow> bool" where
  "vector_entry m index entry \<longleftrightarrow> Created m (TrapVectorBase + index) \<and> \<not> in_stack_cache m (TrapVectorBase + index) \<and>
     mem m (TrapVectorBase + index) = entry \<and> pc_tag (TAG entry)"

lemma pc_action: "pc_tag t \<Longrightarrow> memory_action CycleDataRead t AND NOT MemoryActionTransport = 0"
proof -
  have "memory_action CycleDataRead TypeOddPC AND NOT MemoryActionTransport = 0"
      "memory_action CycleDataRead TypeEvenPC AND NOT MemoryActionTransport = 0" by code_simp+
  moreover assume "pc_tag t"
  then have "TagType t = TagType TypeOddPC \<or> TagType t = TagType TypeEvenPC"
    by (simp add: pc_tag_def TypeEqualP_TagType)
  ultimately show ?thesis by (auto simp: memory_action_def)
qed

lemma trap_mode_back:
  "WriteControlTrapMode (WriteControlTrapMode c 3) (ReadControlTrapMode c) = c"
  by (simp add: ReadControlTrapMode_def WriteControlTrapMode_def dpb_dpb_same dpb_ldb)

lemma fetch_entry:
  assumes "vector_entry m index entry" "ReadControlTrapMode (control m) \<noteq> 3"
  shows "\<exists>a. FetchTrapVectorEntry index m = Some (Ok (Some entry), m\<lparr>memory_vma := a\<rparr>)"
proof -
  let ?m = "set_trap_mode 3 m" and ?v = "TrapVectorBase + index"
  have v: "Created ?m = Created m" "in_stack_cache ?m = in_stack_cache m" "mem ?m = mem m"
    by (simp_all add: set_trap_mode_def fun_eq_iff Created_def in_stack_cache_def stack_cache_index_def)
  have "MemoryReadData ?v None ?m = Some (Ok (?v, entry), ?m\<lparr>memory_vma := ?v\<rparr>)"
    using assms(1) pc_action [of "TAG entry"] unfolding MemoryReadData_def vector_entry_def
    by (subst MemoryReadInternal.simps)
      (auto simp: read_word readable_def word_at_mem v transport_never set_dest_def Let_def touch_outside)
  moreover have "set_trap_mode (ReadControlTrapMode (control m)) (?m\<lparr>memory_vma := ?v\<rparr>) = m\<lparr>memory_vma := ?v\<rparr>"
    by (simp add: set_trap_mode_def trap_mode_back)
  ultimately show ?thesis using assms
    by (intro exI [of _ ?v]) (simp add: FetchTrapVectorEntry_def bind_em_def Let_def vector_entry_def)
qed

text \<open>The trap mode of a handler is the higher of the two.\<close>

definition raised_mode :: "Integer \<Rightarrow> LispObj \<Rightarrow> Integer" where
  "raised_mode c entry = (if ReadControlTrapMode c < ucast (TagCdr (TAG entry))
     then WriteControlTrapMode c (ucast (TagCdr (TAG entry))) else c)"

lemma raised_mode_fields:
  "ReadControlCleanupBits (raised_mode c entry) = ReadControlCleanupBits c"
  "ReadControlValueDisposition (raised_mode c entry) = ReadControlValueDisposition c"
  "ReadControlCallerFrameSize (raised_mode c entry) = ReadControlCallerFrameSize c"
  "ReadControlArgumentSize (raised_mode c entry) = ReadControlArgumentSize c"
  by (simp_all add: raised_mode_def ReadControlCleanupBits_def ReadControlValueDisposition_def
      ReadControlCallerFrameSize_def ReadControlArgumentSize_def WriteControlTrapMode_def ldb_dpb_other)

lemma enter_trap_ok:
  assumes "vector_entry m index entry" "ReadControlTrapMode (control m) \<noteq> 3"
  shows "\<exists>a. enter_trap index m = Some (Ok True, m\<lparr>memory_vma := a, control := raised_mode (control m) entry, PC := entry\<rparr>)"
proof -
  obtain a where "FetchTrapVectorEntry index m = Some (Ok (Some entry), m\<lparr>memory_vma := a\<rparr>)"
    using fetch_entry [OF assms] by blast
  then show ?thesis
    by (intro exI [of _ a]) (simp add: enter_trap_def bind_em_def Let_def set_trap_mode_def raised_mode_def)
qed

lemma vector_entry_cong:
  "StackCacheBase k = StackCacheBase m \<Longrightarrow> VMAttributeTable k = VMAttributeTable m \<Longrightarrow> DataSpace k = DataSpace m \<Longrightarrow>
    TagSpace k = TagSpace m \<Longrightarrow> vector_entry k = vector_entry m"
  by (simp add: fun_eq_iff vector_entry_def Created_def in_stack_cache_def stack_cache_index_def mem_def)

lemma push_all_memory:
  "StackCacheBase (fold push xs m) = StackCacheBase m" "VMAttributeTable (fold push xs m) = VMAttributeTable m"
  "DataSpace (fold push xs m) = DataSpace m" "TagSpace (fold push xs m) = TagSpace m" "PC (fold push xs m) = PC m"
  by (induction xs arbitrary: m) (simp_all add: push_def set_slot_def)

lemma pre_trap_frame:
  assumes entry: "vector_entry m index entry" and mode: "ReadControlTrapMode (control m) \<noteq> 3"
    and room: "restartSP m + 8 \<le> StackCacheLimit m" and depth: "0 \<le> depth" "depth < 256" "depth = restartSP m + 1 - FP m"
  shows "\<exists>k. TakePreTrap index e1 e2 m = Some (Ok True, k) \<and> PC k = entry \<and> continuation k = PC m \<and>
    FP k = restartSP m + 1 \<and> SP k = restartSP m + int (length (trap_frame index e1 e2 m)) \<and> LP k = SP k + 1 \<and>
    control k = raised_mode (trap_control (control m) (LP k - FP k) depth) entry \<and>
    map (StackCache k) [FP k..SP k] = trap_frame index e1 e2 m \<and> (\<forall>j < FP k. StackCache k j = StackCache m j)"
proof -
  let ?fr = "trap_frame index e1 e2 m" and ?m = "m\<lparr>SP := restartSP m\<rparr>"
  let ?p = "fold push ?fr ?m"
  let ?size = "int (length ?fr)"
  let ?k = "?p\<lparr>FP := restartSP m + 1, LP := SP ?p + 1, control := trap_control (control m) ?size depth, continuation := PC m\<rparr>"
  have "push_extra e2 (push_extra e1 (push (cdr_next (PC ?m)) (push (obj TypeFixnum index)
      (push_control (push_continuation ?m))))) = ?p"
    by (simp add: trap_frame_def push_extra_words push_control_def push_continuation_def)
  then have 1: "TakePreTrap index e1 e2 m = enter_trap index ?k"
    using room depth(3) by (simp add: TakePreTrap_def Let_def scroll_for_trap_def bind_em_def push_all_view push_all_memory)
  have "vector_entry ?k index entry"
    using entry vector_entry_cong [of ?k m] by (simp add: push_all_memory)
  moreover have "ReadControlTrapMode (control ?k) \<noteq> 3"
    using mode depth trap_frame_length [of index e1 e2 m] by (simp add: trap_control_fields)
  ultimately obtain a where 2: "enter_trap index ?k = Some (Ok True,
      ?k\<lparr>memory_vma := a, control := raised_mode (control ?k) entry, PC := entry\<rparr>)"
    using enter_trap_ok by blast
  have "map (StackCache ?p) [restartSP m + 1..SP ?p] = ?fr"
    by (rule nth_equalityI) (auto simp: push_all_slots push_all_view)
  then show ?thesis using 1 2 by (simp add: push_all_view push_all_slots)
qed

end
