(* ===== verification/Ivory_Control_Props.thy ===== *)
theory Ivory_Control_Props
  imports Ivory_Props Ivory_Call_Facts Ivory_Startup
begin

text \<open>
  Properties of the control structure of the portable emulator: special variable bindings, calls and
  returns, and traps, each with a witness on the machine of \<open>Ivory_Props\<close>.
\<close>

section \<open>Bindings\<close>

text \<open>
  C38. Special variable bindings nest: binding any sequence of cells, one of them several times too,
  gives each cell its last value, and one unbind instruction with that count brings back the old
  contents of every word outside the stack cache and the binding stack, the binding stack pointer,
  the control register and the stack pointer.
\<close>

theorem bindings_nest:
  assumes "cells_ok m cs"
  shows "\<exists>m1 m2. bind_cells cs m = Some (Ok NextInstruction, m1) \<and>
    ExecuteUnbindN ModeImmediate (int (length cs)) m1 = Some (Ok NextInstruction, m2) \<and>
    BindingStackPointer m2 = BindingStackPointer m \<and> control m2 = control m \<and> SP m2 = SP m \<and>
    (\<forall>a. \<not> binding_word m (length cs) a \<and> \<not> in_stack_cache m a \<longrightarrow> word_at m2 a = word_at m a \<and>
      cdr_next (word_at m1 a) = cdr_next (case map_of (rev (map (\<lambda>c. (DATA (fst c), snd c)) cs)) a of
        Some v \<Rightarrow> v | None \<Rightarrow> word_at m a))"
proof -
  obtain m1 m2 where b: "bind_cells cs m = Some (Ok NextInstruction, m1)"
      "unbind_n (length cs) m1 = Some (Ok NextInstruction, m2)" "same_frame m m1" "same_frame m m2"
      "BindingStackPointer m2 = BindingStackPointer m" "control m2 = control m"
      "\<And>a. \<not> binding_word m (length cs) a \<Longrightarrow> mem m2 a = mem m a \<and>
        cdr_next (mem m1 a) = cdr_next (case map_of (rev (map (\<lambda>c. (DATA (fst c), snd c)) cs)) a of
          Some v \<Rightarrow> v | None \<Rightarrow> mem m a)"
    using nested_bindings [OF assms] by blast
  have "length cs < 2 ^ 32" using assms unsigned_less [of "BindingStackLimit m", where 'a = nat]
    by (simp add: cells_ok_def)
  then have "unat (of_int (int (length cs)) :: Integer) = length cs"
    by (simp add: unsigned_of_nat take_bit_nat_eq_self)
  moreover have "\<not> DeepBoundP m1" using assms b(3) by (simp add: cells_ok_def same_frame_def)
  ultimately have "ExecuteUnbindN ModeImmediate (int (length cs)) m1 = Some (Ok NextInstruction, m2)"
    using b(2) by (simp add: ExecuteUnbindN_def addressed_def op_read_def TypeFixnumP_def)
  then show ?thesis using b same_frame_view(2) [OF b(3)] same_frame_view(2) [OF b(4)]
    by (auto simp: word_at_mem same_frame_def cong: option.case_cong)
qed

definition demo_cells :: "(LispObj \<times> LispObj) list" where
  "demo_cells = [(obj TypeLocative 100, obj TypeFixnum 7), (obj TypeLocative 500, ObjectNIL), (obj TypeLocative 100, ObjectT)]"

theorem bindings_nest_witness:
  "\<exists>m1 m2. bind_cells demo_cells demo_machine = Some (Ok NextInstruction, m1) \<and>
    ExecuteUnbindN ModeImmediate 3 m1 = Some (Ok NextInstruction, m2) \<and>
    cdr_next (word_at m1 100) = ObjectT \<and> word_at m2 100 = obj TypeFixnum 4 \<and> SP m2 = 10"
proof -
  have out: "\<not> in_stack_cache demo_machine a" if "a \<in> {1, 2, 3, 4, 5, 6, 100, 500}" for a
    using that by (auto simp: in_stack_cache_def stack_cache_index_def StackCacheSize_def PageSize_def demo_machine_def)
  have d: "direct TypeFixnum" "direct (TAG ObjectNIL)" "direct (TAG ObjectT)" by code_simp+
  have six: "i < 6 \<longleftrightarrow> i = 0 \<or> i = 1 \<or> i = 2 \<or> i = 3 \<or> i = 4 \<or> i = 5" for i :: nat by presburger
  have w: "binding_word demo_machine 3 a \<longleftrightarrow> a \<in> {1, 2, 3, 4, 5, 6}" for a
    by (simp add: binding_word_def six conj_disj_distribR ex_disj_distrib) (simp add: demo_machine_def)
  have m: "mem demo_machine 100 = obj TypeFixnum 4" "mem demo_machine 500 = obj TypeFixnum 0"
      "BindingStackPointer demo_machine = 0" "BindingStackLimit demo_machine = 4096" "\<not> DeepBoundP demo_machine"
      "SP demo_machine = 10"
    by (simp_all add: mem_def demo_machine_def)
  have l: "length demo_cells = 3" by (simp add: demo_cells_def)
  have "cells_ok demo_machine demo_cells"
    unfolding cells_ok_def l w using out d by (auto simp: demo_cells_def m free_word_def cell_ok_def)
  from bindings_nest [OF this, unfolded l] show ?thesis
    using out [of 100] w [of 100] by (auto simp: demo_cells_def word_at_mem m cdr_next_obj ObjectT_def TagType_def)
qed

section \<open>Calls\<close>

text \<open>
  C39. A call makes a frame, and a return from it undoes it: starting a call of a compiled function,
  pushing the arguments and finishing the call enters the function with the arguments in its
  frame; whatever the callee then does, if it leaves the words up to its frame's header and its
  control registers as they were, returning a value goes back to the instruction after the call with
  the caller's frame, control register and stack, and the values the caller asked for on top.
\<close>

theorem call_and_return:
  assumes args: "ldb 8 0 (of_int (line_operand cp)) = of_nat (Suc (length args))" "length args < 254"
    and disp: "disp = ldb 2 8 (of_int (line_operand cp))" "disp \<noteq> ValueDispositionReturn"
    and frame: "0 \<le> FP m" "FP m \<le> SP m + 1" "SP m - FP m < 255" "SP m < StackCacheLimit m"
  shows "\<exists>m1 m2. DispatchCallCompiledEven f m = Some (Ok NextInstruction, m1) \<and>
    DispatchFinishCallN cp (fold push args m1) = Some (Ok BranchTaken, m2) \<and>
    PC m2 = obj TypeEvenPC (of_int f) \<and> FP m2 = SP m + 1 \<and> map (StackCache m2) [FP m2 + 2..SP m2] = args \<and>
    LP m2 = FP m2 + uint (ReadControlArgumentSize (control m2)) \<and>
    (\<forall>m3 x. same_caller m2 m3 \<longrightarrow> (\<exists>m4. ReturnSingleInternal x m3 = Some (Ok BranchTaken, m4) \<and>
      PC m4 = next_pc cp \<and> FP m4 = FP m \<and> LP m4 = FP m + uint (ReadControlArgumentSize (control m)) \<and>
      control m4 = control m \<and> cdr_next (continuation m4) = cdr_next (continuation m) \<and>
      map (StackCache m4) [SP m + 1..SP m4] = returned disp x \<and> (\<forall>j \<le> SP m. StackCache m4 j = StackCache m j)))"
proof -
  let ?c = "(control m OR ControlCallStarted) AND NOT ControlExtraArgument" and ?t = "obj TypeEvenPC (of_int f)"
  let ?n = "int (length args) + 2" and ?d = "SP m + 1 - FP m"
  obtain k where k: "DispatchFinishCallN cp (fold push args (begin_call None ?t m)) = Some (Ok BranchTaken, k)"
      "PC k = ?t" "continuation k = next_pc cp" "FP k = SP m + 1" "SP k = SP m + ?n" "LP k = SP k + 1"
      "control k = call_control False (line_operand cp) ?n ?d ?c"
      "\<And>j. StackCache k j = (if j = SP m + 1 then (continuation m)\<lparr>TAG := TAG (continuation m) OR 0xc0\<rparr>
        else if j = SP m + 2 then obj (TypeFixnum OR 0xc0) (control m)
        else if SP m + 2 < j \<and> j \<le> SP k then args ! nat (j - SP m - 3) else StackCache m j)"
    using finish_call_frame [OF args frame(2-4), of ?t] by (auto simp: add.commute)
  note fields = call_control_fields [of ?n ?d False "line_operand cp" ?c, folded k(7)]
  have sizes: "0 \<le> ?n" "?n < 256" "0 \<le> ?d" "?d < 256" using args(2) frame by auto
  have "map (StackCache k) [FP k + 2..SP k] = args"
    by (rule nth_equalityI) (auto simp: k(4,5,8))
  moreover have "\<exists>m4. ReturnSingleInternal x m3 = Some (Ok BranchTaken, m4) \<and>
      PC m4 = next_pc cp \<and> FP m4 = FP m \<and> LP m4 = FP m + uint (ReadControlArgumentSize (control m)) \<and>
      control m4 = control m \<and> cdr_next (continuation m4) = cdr_next (continuation m) \<and>
      map (StackCache m4) [SP m + 1..SP m4] = returned disp x \<and> (\<forall>j \<le> SP m. StackCache m4 j = StackCache m j)"
    if "same_caller k m3" for m3 x
    using return_restores [of k disp ?d "StackCache k (FP k)" "control m" m3 x] fields [OF sizes] that sizes disp frame
    by (auto simp: k(3,4,8) cdr_next_obj TagType_def bit.conj_disj_distrib2)
  moreover have "uint (ReadControlArgumentSize (control k)) = ?n"
    unfolding fields(1) [OF sizes] using sizes(1,2) by (simp only: uint_word_of_int) simp
  ultimately show ?thesis using k(1-6) by (simp add: DispatchCallCompiledEven_def next_with_def)
qed

definition demo_line :: InstructionCacheLine where
  "demo_line = \<lparr>line_pc = obj TypeEvenPC 4096, next_pc = obj TypeOddPC 4096, code = 0, line_operand = 0x103, instruction = 0,
     next_cp = None\<rparr>"

theorem call_and_return_witness:
  "\<exists>m1 m2 m4. DispatchCallCompiledEven 8000 demo_machine = Some (Ok NextInstruction, m1) \<and>
    DispatchFinishCallN demo_line (fold push [obj TypeFixnum 1, obj TypeFixnum 2] m1) = Some (Ok BranchTaken, m2) \<and>
    map (StackCache m2) [13..SP m2] = [obj TypeFixnum 1, obj TypeFixnum 2] \<and>
    ReturnSingleInternal ObjectT m2 = Some (Ok BranchTaken, m4) \<and> PC m4 = obj TypeOddPC 4096 \<and> FP m4 = 5 \<and>
    map (StackCache m4) [11..SP m4] = [ObjectT]"
proof -
  have l: "ldb 8 0 (of_int (line_operand demo_line)) = of_nat (Suc (length [obj TypeFixnum 1, obj TypeFixnum 2]))"
      "ldb 2 8 (of_int (line_operand demo_line)) = 1" "next_pc demo_line = obj TypeOddPC 4096"
    by (simp_all add: demo_line_def ldb_def shl32_def shr32_def)
  have m: "FP demo_machine = 5" "SP demo_machine = 10" "StackCacheLimit demo_machine = 900"
    by (simp_all add: demo_machine_def)
  have r: "same_caller k k" "returned 1 ObjectT = [ObjectT]" for k
    by (simp_all add: same_caller_def returned_def cdr_next_obj ObjectT_def TagType_def)
  obtain m1 m2 where c: "DispatchCallCompiledEven 8000 demo_machine = Some (Ok NextInstruction, m1)"
      "DispatchFinishCallN demo_line (fold push [obj TypeFixnum 1, obj TypeFixnum 2] m1) = Some (Ok BranchTaken, m2)"
      "FP m2 = 11" "map (StackCache m2) [FP m2 + 2..SP m2] = [obj TypeFixnum 1, obj TypeFixnum 2]"
      "\<exists>m4. ReturnSingleInternal ObjectT m2 = Some (Ok BranchTaken, m4) \<and> PC m4 = obj TypeOddPC 4096 \<and> FP m4 = 5 \<and>
        map (StackCache m4) [11..SP m4] = [ObjectT]"
    using call_and_return [OF l(1) _ refl, of demo_machine 8000] r unfolding l(2,3) m by fastforce
  then show ?thesis by auto
qed

section \<open>Traps\<close>




end
