(* ===== verification/Spec2Isabelle.thy ===== *)
theory Spec2Isabelle
  imports Chaos_Props Chaos_Stream_Props Life_Props Life_Disk_Props Life_Message_Props World_Props Guest_Props
    Ivory_Sequencer_Props Ivory_Control_Props
begin

text \<open>
  A verification of parts of the Portable Genera virtual Lisp machine.

  \<^bold>\<open>The program.\<close> The machine runs a Lisp world on an emulated Ivory processor. A portable emulator
  in C (\<^verbatim>\<open>src/c-emulator\<close>) interprets the instructions; Life Support (\<^verbatim>\<open>src/life-support\<close>) serves the
  world's disks, networks and consoles from threads of the host, and exchanges requests with the
  emulator through queues and signals in a communication area. The world tools
  (\<^verbatim>\<open>src/src/world_tools.c\<close>) load the world from a chain of files and save it. A separate daemon
  (\<^verbatim>\<open>src/chaosd\<close>) is a Chaosnet station beside the machine: a protocol core driven by frames and
  clock ticks, and a front end that joins connections to stream sockets of host programs.

  \<^bold>\<open>Shared theories.\<close> \<open>VLM_Prelude\<close>: C integers as words, arrays and byte strings, and lemmas on
  them. \<open>VLM_Interfaces\<close>: the contracts as locales: transition systems with an invariant
  (\<open>invariant_system\<close>), readers and writers of a stream (\<open>stream_reader\<close>, \<open>stream_writer\<close>), a bounded queue
  (\<open>bounded_fifo\<close>), a memory of words (\<open>word_memory\<close>) and a handler (\<open>queue_server\<close>). Each is interpreted on the definitions that
  model the code.

  \<^bold>\<open>The Chaosnet daemon.\<close> \<open>Chaos_Seq\<close>, \<open>Chaos_Types\<close>, \<open>Chaos_Transmit\<close> and \<open>Chaos_Core\<close> model
  \<^verbatim>\<open>chaos-core.c\<close> function by function: sequence numbers modulo 2 to the 16, the address table,
  transmission and retransmission, acknowledgements, the connection table, user operations, frame
  input and timers. The emit callback is the list of frames given to it. \<open>Chaos_Inv\<close> states the
  invariant of a connection and of the core; \<open>Chaos_Frame\<close>, \<open>Chaos_Send\<close>, \<open>Chaos_Recv\<close>, \<open>Chaos_Wire\<close> and
  \<open>Chaos_Timers\<close> have the effect of each operation, \<open>Chaos_Reach\<close> that all of them keep the invariant,
  \<open>Chaos_Integrity\<close> that a stream survives loss, repetition and reordering, \<open>Chaos_Live\<close> what becomes
  of live connections, \<open>Chaos_Streams\<close> the interpretations. \<open>Chaos_Stream\<close> models
  \<^verbatim>\<open>chaos-stream.c\<close>: the client table, request lines, shuffling of bytes in both directions, refusals,
  draining, accepting; the results of \<^verbatim>\<open>poll\<close>, \<^verbatim>\<open>read\<close>, \<^verbatim>\<open>write\<close> and \<^verbatim>\<open>accept\<close> are arguments of
  each step. \<open>Chaos_Stream_Inv\<close> has the invariant that ties clients to connections of the core,
  \<open>Chaos_Bridge\<close> the conservation of bytes. The properties are in \<open>Chaos_Props\<close> (C1 to C12 but C8
  and C9) and \<open>Chaos_Stream_Props\<close> (C16 to C18).

  \<^bold>\<open>Life Support.\<close> \<open>Emb_Signals\<close> models \<^verbatim>\<open>signals.c\<close>, where every operation runs under a lock and is
  one function; \<open>Emb_Queue\<close> models \<^verbatim>\<open>queues.c\<close> one call at a time, where a spin that nothing else would
  end is the result \<open>None\<close>. \<open>Emb_Queue_Conc\<close> splits a put and a take of a word into their accesses to
  the shared indices, as a step relation of two threads. \<open>Life_Props\<close> (C20 to C24): the ring is a queue
  under every interleaving, no wakeup is lost, transfers of blocks equal single operations and
  return exactly when they can, and queues of structures refine queues of elements; a further
  theorem is that an installed handler is the one that runs.

  \<open>Life_Area\<close> has what the channels share: the slots of the communication area, one typed store per
  structure, the guest's memory, and files, descriptors and system calls of the host, whose
  outcomes are a script in the state. \<open>Life_Disks\<close> models \<^verbatim>\<open>disks.c\<close>: attaching and detaching a
  file, the loop that serves commands, transfers in sets of vectors. \<open>Life_Messages\<close> models
  \<^verbatim>\<open>message_channels.c\<close>: the command channel and the list of active channels. A handler that serves a
  queue is the locale \<open>queue_server\<close>, interpreted on the loop of the disks in \<open>Life_Disk_Facts\<close>;
  \<open>Life_Transfer_Facts\<close> has the effect of transfers on files and buffers. \<open>Life_Demo\<close> is
  the state of the witnesses. \<open>Life_Disk_Props\<close> (C9, C15, C27): a read returns what was written, every
  command is answered or waits with a wakeup pending, a failure flushes the channel.
  \<open>Life_Message_Props\<close> (C14): the links are a list, and polling it ends; it also shows that starting
  an active channel again makes polling go on for ever.

  \<^bold>\<open>World files.\<close> A world is a file of Qs and pages with load maps, which say for ranges of addresses
  whether to read pages, store a constant or copy; an incremental world keeps only what changed
  since its parent. \<open>World_Memory\<close> models the memory of the machine as the loader uses it
  (\<^verbatim>\<open>emulator/memory.c\<close>): attributes of pages, wads, blocks, and mapping part of a file.
  \<open>World_Files\<close> models the two file formats, reading and writing of Qs and the opening of a file,
  \<open>World_Loading\<close> the effect of one entry and the repaving of stack regions, \<open>World_Merging\<close> the search
  for the ancestors, the merging of load maps and \<^verbatim>\<open>LoadWorld\<close>, \<open>World_Saving\<close> saving and the change
  of byte order. Files are lists of bytes in a state of the tools, a call of \<^verbatim>\<open>PuntWorld\<close> is an error
  value, and so is, as \<open>Undefined\<close>, what C leaves open and a loop that runs away.

  \<open>Guest_Faults\<close> adds to the memory the protection of pages as accesses meet it: the handler of
  segmentation violations, which notes that a page is modified or delivers the fault to Lisp, and flips.
  \<open>Guest_Scans\<close> models the searches, copies and the scans of the garbage collector, \<open>Guest_Commands\<close> the
  memory commands and the steps of the memory. \<open>Guest_Facts\<close> shows that every step keeps the table of
  attributes and the protection in step; \<open>Guest_Props\<close> has the property of that (C28).

  \<open>World_Memory_Facts\<close> and \<open>World_Load_Facts\<close> have words, pages and blocks, and what an entry leaves at
  each address; \<open>World_File_Facts\<close> and \<open>World_Write_Facts\<close> that the Qs written are the Qs read, with a
  locale for readers of Qs (\<open>q_reader\<close>) interpreted on the code's reader; \<open>World_Save_Facts\<close> the header and
  pages of a saved file; \<open>World_Merge_Facts\<close> the invariant of merging; \<open>World_Repave_Facts\<close> the pages that
  repaving adds. \<open>World_Props\<close>: a saved world loads again with every word (C8), copying in chunks is
  copying words (C13), repaving makes the stacks reachable and changes nothing else (C19), and of a
  chain of worlds the youngest wins (C25).

  \<^bold>\<open>The portable emulator.\<close> \<open>Ivory_Types\<close>: words, tags and fields (\<^verbatim>\<open>ivory.h\<close>, \<^verbatim>\<open>emulator.h\<close>).
  \<open>Ivory_Machine\<close>: the processor state, memory accesses through the stack cache and memory cycles
  (\<^verbatim>\<open>emulator.c\<close>, \<^verbatim>\<open>memory.c\<close>); a routine returns, leaves with a trap vector, or ends the program, and
  \<open>None\<close> is a loop that never ends. \<open>Ivory_VM\<close>: pages and the memory commands (\<^verbatim>\<open>memory.c\<close>).
  \<open>Ivory_Lists\<close>, \<open>Ivory_Arith\<close>, \<open>Ivory_Stack\<close>, \<open>Ivory_Arrays\<close>, \<open>Ivory_Bind\<close>, \<open>Ivory_Calls\<close> and \<open>Ivory_Data\<close>: the
  instructions, as functions from an addressing mode and operand to the label that the sequencer
  goes to. \<open>Ivory_Traps\<close>: trap vectors, pre- and post-traps and the sequencer's error labels
  (\<^verbatim>\<open>traps.c\<close>). \<open>Ivory_Codes\<close> and \<open>Ivory_Decode\<close>: the dispatch codes, the decoder tables and the filling
  of the instruction cache (\<^verbatim>\<open>dispatch.h\<close>, \<^verbatim>\<open>dispatch.c\<close>). \<open>Ivory_Startup\<close>: the initial state and the
  registers of the console (\<^verbatim>\<open>initialization.c\<close>). \<open>Ivory_Sequencer\<close> puts them together: the switch
  over the dispatch codes, and the loop around it as a function of one turn, whose state has the
  cache, the pointer to the current line and the last operand (\<^verbatim>\<open>InstructionSequencer\<close>).

  \<open>Ivory_Facts\<close> and \<open>Ivory_Memory_Facts\<close> have the word at an address, chains of forwarding pointers,
  cdr-coded lists and scrolling; \<open>Ivory_Arith_Facts\<close> the overflow tests and divisions over the
  integers; \<open>Ivory_Array_Facts\<close> packed elements; \<open>Ivory_VM_Facts\<close> ranges of pages; \<open>Ivory_Bind_Facts\<close> the
  binding stack; \<open>Ivory_Call_Facts\<close> the frames of calls and traps and the fields of the control
  register; \<open>Ivory_Decode_Facts\<close> what filling a block leaves in every line; \<open>Ivory_Sequencer_Facts\<close> the
  invariant of the loop. \<open>Ivory_Props\<close> (C26 to C36 but C27 and C28): reads see the last write, scrolling, when memory
  cycles end, \<^verbatim>\<open>member\<close> on lists, exact arithmetic, rounding of divisions, type safety, packed arrays,
  creation of pages. \<open>Ivory_Sequencer_Props\<close> (C37): following the pointers between cache lines is
  looking the lines up, with a program that is decoded and run. \<open>Ivory_Control_Props\<close> (C38 to C40):
  bindings nest, a return undoes a call, and an instruction restarts after a trap.

  \<^bold>\<open>Loops.\<close> One loop has a bound: a pass of \<^verbatim>\<open>MergeAMap\<close> may split or drop entries, and \<open>merge_loop\<close>
  stops after \<open>merge_fuel\<close> passes, three for each foreground and two for each background entry and
  one more, which is enough for load maps in order (a lemma of \<open>World_Merge_Facts\<close>).
  Other loops that always end are functions with a measure; the search, forwarding and unwinding loops
  of the emulator and the transfer loops of the queues are partial functions, with theorems that say
  when those of memory cycles and transfers return. The loop of the sequencer is a function of the
  number of its turns.

  \<^bold>\<open>Choices.\<close> Shift counts of 32 and more, which C leaves open, are taken modulo 32, as the hosts do.
  Tags are 8 bits wide, as in memory; the wider field of a register never holds more.
  Tracing output is left out.

  What the emulator reads from outside (the microsecond clock, memory behind a table, the address
  of a local variable, a result left undefined) is the argument \<open>Outside\<close> of each turn.

  \<^bold>\<open>Not modelled.\<close> The portable emulator's sequence breaks and the flags that halt and resume it, which
  other threads set, and its instruction count; the assembly emulators, their glue in \<^verbatim>\<open>src/emulator\<close>
  and the C code generated from them in \<^verbatim>\<open>src/stub\<close>, and in \<^verbatim>\<open>emulator/memory.c\<close> the
  reservation of the address space and the handlers for other hosts than Linux on x86-64; Life
  Support's polling thread, console and networks, which are host I/O; the daemon's main loop and
  network transport; the main program, its configuration and its debugging server.
\<close>

end
